(* ===== verification/Prelude.thy ===== *)
theory Prelude
  imports Main "HOL-Library.Word"
begin

text \<open>
  Shared vocabulary of the development: the result type of code that can touch memory it
  does not own, the fact collections the component theories fill, and the generic lemmas on
  lists, folds and words that several components use.
\<close>

section \<open>Fact collections\<close>

named_theorems nwi_simps "structural facts about the network information state"
named_theorems dns_simps "facts about the DNS configuration buffer"
named_theorems cf_simps "facts about property lists and their dictionaries"

section \<open>Outcomes\<close>

text \<open>
  C code that indexes outside the object it was given, or reads memory nobody initialised,
  has no defined result. \<open>UB\<close> is that outcome; \<open>Ret x\<close> is a defined result.
\<close>

datatype 'a outcome = UB | Ret 'a

fun obind :: "'a outcome \<Rightarrow> ('a \<Rightarrow> 'b outcome) \<Rightarrow> 'b outcome" where
  "obind UB f = UB"
| "obind (Ret x) f = f x"

lemma obind_eq_Ret [simp]: "(obind m f = Ret y) \<longleftrightarrow> (\<exists>x. m = Ret x \<and> f x = Ret y)"
  by (cases m) auto

lemma obind_cong [fundef_cong]:
  "m = m' \<Longrightarrow> (\<And>x. m' = Ret x \<Longrightarrow> f x = g x) \<Longrightarrow> obind m f = obind m' g"
  by (cases m') auto

text \<open>A loop whose body may go wrong, over the elements the source walks through.\<close>

fun ofold :: "('a \<Rightarrow> 's \<Rightarrow> 's outcome) \<Rightarrow> 'a list \<Rightarrow> 's \<Rightarrow> 's outcome" where
  "ofold f [] s = Ret s"
| "ofold f (x # xs) s = obind (f x s) (ofold f xs)"

lemma ofold_append: "ofold f (xs @ ys) s = obind (ofold f xs s) (ofold f ys)"
proof (induction xs arbitrary: s)
  case (Cons x xs)
  then show ?case by (cases "f x s") auto
qed simp

section \<open>Machine arithmetic\<close>

text \<open>Fixed-width C integers, by their usual names.\<close>

type_synonym uint8 = "8 word"
type_synonym uint32 = "32 word"
type_synonym uint64 = "64 word"

section \<open>Lists\<close>

text \<open>The first occurrence of every element, in order.\<close>

definition remdups_first :: "'a list \<Rightarrow> 'a list" where
  "remdups_first xs = rev (remdups (rev xs))"

lemma set_remdups_first [simp]: "set (remdups_first xs) = set xs"
  by (simp add: remdups_first_def)

lemma distinct_remdups_first [simp]: "distinct (remdups_first xs)"
  by (simp add: remdups_first_def)

lemma remdups_first_Nil [simp]: "remdups_first [] = []"
  by (simp add: remdups_first_def)

lemma remdups_first_snoc:
  "remdups_first (xs @ [x]) = (if x \<in> set xs then remdups_first xs else remdups_first xs @ [x])"
  by (simp add: remdups_first_def)

lemma take_nth_drop:
  "i < n \<Longrightarrow> b + n \<le> length xs \<Longrightarrow> take n (drop b xs) ! i = xs ! (b + i)"
  by simp

lemma in_set_take_drop:
  "b + n \<le> length xs \<Longrightarrow>
   x \<in> set (take n (drop b xs)) \<longleftrightarrow> (\<exists>i < n. xs ! (b + i) = x)"
  by (auto simp: in_set_conv_nth)

lemma take_Suc_drop:
  "b + n < length xs \<Longrightarrow> take (Suc n) (drop b xs) = take n (drop b xs) @ [xs ! (b + n)]"
  by (simp add: take_Suc_conv_app_nth)

lemma distinct_map_nth_eq:
  "distinct (map f xs) \<Longrightarrow> i < length xs \<Longrightarrow> j < length xs \<Longrightarrow> f (xs ! i) = f (xs ! j) \<Longrightarrow> i = j"
  by (metis distinct_conv_nth length_map nth_map)

section \<open>Text\<close>

text \<open>Decimal digits, as the formats \<open>%d\<close> and \<open>%ld\<close> print a non-negative number.\<close>

fun decimal :: "nat \<Rightarrow> string" where
  "decimal n = (if n < 10 then [char_of (48 + n)] else decimal (n div 10) @ [char_of (48 + n mod 10)])"

declare decimal.simps [simp del]

text \<open>Reading the digits back, which makes printing injective.\<close>

definition digits_value :: "string \<Rightarrow> nat" where
  "digits_value = foldl (\<lambda>n c. 10 * n + (of_char c - 48)) 0"

lemma digits_value_decimal: "digits_value (decimal n) = n"
proof (induction n rule: decimal.induct)
  case (1 n)
  show ?case
  proof (cases "n < 10")
    case True
    then show ?thesis by (subst decimal.simps) (simp add: digits_value_def)
  next
    case False
    have "digits_value (xs @ [c]) = 10 * digits_value xs + (of_char c - 48)" for xs c
      by (simp add: digits_value_def)
    with 1 False show ?thesis by (subst decimal.simps) simp
  qed
qed

lemma decimal_inj [simp]: "decimal m = decimal n \<longleftrightarrow> m = n"
  by (metis digits_value_decimal)

end
