(* ===== verification/NwiState.thy ===== *)
theory NwiState
  imports Prelude
begin

unbundle bit_operations_syntax

text \<open>
  The network state information of libsystem_configuration: the records of
  network_state_information_priv.h and the state operations of
  network_state_information_priv.c.

  A \<open>nwi_state\<close> is one block of memory: \<open>max_if_count * 2\<close> interface entries (the IPv4
  entries from slot 0, the IPv6 entries from slot \<open>max_if_count\<close>) followed by
  \<open>max_if_count\<close> indices, the merged interface list. The model keeps the two arrays as
  lists; a pointer to an entry is its slot number, and \<open>af_alias_offset\<close> is the difference
  of two slot numbers, as in the code. The accessors \<open>nwi_ifstate_get_ifname\<close> and
  \<open>nwi_ifstate_get_generation\<close> of the public header are the fields they return.
\<close>

section \<open>Data\<close>

definition AF_INET :: nat where "AF_INET = 2"
definition AF_INET6 :: nat where "AF_INET6 = 30"

definition NWI_STATE_VERSION :: uint32 where "NWI_STATE_VERSION = 0x20170601"
definition NWI_IFSTATE_FLAGS_HAS_SIGNATURE :: uint64 where "NWI_IFSTATE_FLAGS_HAS_SIGNATURE = 0x0010"
definition NWI_IFSTATE_FLAGS_NOT_IN_IFLIST :: uint64 where "NWI_IFSTATE_FLAGS_NOT_IN_IFLIST = 0x0020"
definition NWI_IFSTATE_FLAGS_MASK :: uint64 where "NWI_IFSTATE_FLAGS_MASK = 0x00ff"
definition NWI_IFSTATE_FLAGS_DIFF_MASK :: uint64 where "NWI_IFSTATE_FLAGS_DIFF_MASK = 0x0f00"
definition NWI_IFSTATE_FLAGS_LAST_ITEM :: uint64 where "NWI_IFSTATE_FLAGS_LAST_ITEM = 0x1000"

lemmas nwi_flag_defs = NWI_IFSTATE_FLAGS_HAS_SIGNATURE_def NWI_IFSTATE_FLAGS_NOT_IN_IFLIST_def
  NWI_IFSTATE_FLAGS_MASK_def NWI_IFSTATE_FLAGS_DIFF_MASK_def NWI_IFSTATE_FLAGS_LAST_ITEM_def

record nwi_ifstate =
  ifs_name :: string
  ifs_flags :: uint64
  ifs_alias :: int
  ifs_rank :: uint32
  ifs_af :: nat
  ifs_addr :: "uint8 list"
  ifs_gen :: uint64
  ifs_reach :: uint32
  ifs_vpn :: "uint8 list"
  ifs_sig :: "uint8 list"

definition zero_ifstate :: nwi_ifstate where
  "zero_ifstate = \<lparr>ifs_name = [], ifs_flags = 0, ifs_alias = 0, ifs_rank = 0, ifs_af = 0,
     ifs_addr = replicate 16 0, ifs_gen = 0, ifs_reach = 0, ifs_vpn = replicate 28 0,
     ifs_sig = replicate 20 0\<rparr>"

record nwi_state =
  st_version :: uint32
  max_if_count :: nat
  ipv4_count :: nat
  ipv6_count :: nat
  if_list_count :: nat
  st_ref :: uint32
  reach_flags_v4 :: uint32
  reach_flags_v6 :: uint32
  generation_count :: uint64
  ifstate_list :: "nwi_ifstate list"
  if_list :: "nat list"

text \<open>A socket address as the code reads it: its length and family bytes, and the whole of it.\<close>

record sockaddr =
  sa_len :: nat
  sa_family :: nat
  sa_bytes :: "uint8 list"

section \<open>Accessors\<close>

definition nwi_other_af :: "nat \<Rightarrow> nat" where
  "nwi_other_af a = (if a = AF_INET then AF_INET6 else AF_INET)"

definition nwi_state_ifstate_list :: "nwi_state \<Rightarrow> nat \<Rightarrow> nat" where
  "nwi_state_ifstate_list s a = (if a = AF_INET then 0 else max_if_count s)"

definition nwi_state_get_ifstate_count :: "nwi_state \<Rightarrow> nat \<Rightarrow> nat" where
  "nwi_state_get_ifstate_count s a = (if a = AF_INET then ipv4_count s else ipv6_count s)"

definition nwi_state_get_ifstate_with_index :: "nwi_state \<Rightarrow> nat \<Rightarrow> nat \<Rightarrow> nat option" where
  "nwi_state_get_ifstate_with_index s a idx =
     (if idx \<ge> max_if_count s then None
      else if idx \<ge> nwi_state_get_ifstate_count s a then None
      else Some (if a = AF_INET6 then idx + max_if_count s else idx))"

text \<open>The name search: \<open>k\<close> entries are left from index \<open>idx\<close> on.\<close>

fun nwi_find_name :: "nwi_state \<Rightarrow> nat \<Rightarrow> string \<Rightarrow> nat \<Rightarrow> nat \<Rightarrow> nat option" where
  "nwi_find_name s a nm idx 0 = None"
| "nwi_find_name s a nm idx (Suc k) =
     (case nwi_state_get_ifstate_with_index s a idx of
        None \<Rightarrow> None
      | Some p \<Rightarrow> if nm = ifs_name (ifstate_list s ! p) then Some p
                  else nwi_find_name s a nm (Suc idx) k)"

definition nwi_state_get_ifstate_with_name :: "nwi_state option \<Rightarrow> nat \<Rightarrow> string \<Rightarrow> nat option" where
  "nwi_state_get_ifstate_with_name st a nm =
     (case st of
        None \<Rightarrow> None
      | Some s \<Rightarrow>
          let count = (if a = AF_INET then ipv4_count s else ipv6_count s)
          in if count > max_if_count s then None else nwi_find_name s a nm 0 count)"

definition nwi_ifstate_get_alias :: "nwi_state \<Rightarrow> nat \<Rightarrow> nat \<Rightarrow> int option" where
  "nwi_ifstate_get_alias s p a =
     (if ifs_af (ifstate_list s ! p) = a then Some (int p)
      else if ifs_alias (ifstate_list s ! p) = 0 then None
      else Some (int p + ifs_alias (ifstate_list s ! p)))"

definition nwi_ifstate_set_vpn_server :: "nwi_ifstate \<Rightarrow> sockaddr option \<Rightarrow> nwi_ifstate" where
  "nwi_ifstate_set_vpn_server e addr =
     (case addr of
        None \<Rightarrow> e\<lparr>ifs_vpn := replicate 28 0\<rparr>
      | Some sa \<Rightarrow>
          if sa_len sa = 0 \<or> sa_len sa > 28 then e
          else e\<lparr>ifs_vpn := take (sa_len sa) (sa_bytes sa) @ drop (sa_len sa) (ifs_vpn e)\<rparr>)"

definition nwi_state_set_reachability_flags :: "nwi_state \<Rightarrow> uint32 \<Rightarrow> uint32 \<Rightarrow> nwi_state" where
  "nwi_state_set_reachability_flags s r4 r6 = s\<lparr>reach_flags_v4 := r4, reach_flags_v6 := r6\<rparr>"

definition uint32_cmp :: "uint32 \<Rightarrow> uint32 \<Rightarrow> int" where
  "uint32_cmp a b = (if a = b then 0 else if a < b then -1 else 1)"

definition RankCompare :: "uint32 \<Rightarrow> uint32 \<Rightarrow> int" where
  "RankCompare a b = uint32_cmp a b"

definition upd_slot :: "nwi_state \<Rightarrow> nat \<Rightarrow> (nwi_ifstate \<Rightarrow> nwi_ifstate) \<Rightarrow> nwi_state" where
  "upd_slot s p f = s\<lparr>ifstate_list := (ifstate_list s)[p := f (ifstate_list s ! p)]\<rparr>"

definition nwi_ifstate_set_signature :: "nwi_ifstate \<Rightarrow> uint8 list \<Rightarrow> nwi_ifstate" where
  "nwi_ifstate_set_signature e sg =
     e\<lparr>ifs_sig := take 20 sg, ifs_flags := ifs_flags e OR NWI_IFSTATE_FLAGS_HAS_SIGNATURE\<rparr>"

section \<open>The merged interface list\<close>

definition nwi_state_add_to_if_list :: "nwi_state \<Rightarrow> nat \<Rightarrow> nwi_state" where
  "nwi_state_add_to_if_list s p =
     (let e = ifstate_list s ! p in
      if ifs_flags e AND NWI_IFSTATE_FLAGS_NOT_IN_IFLIST \<noteq> 0 then s
      else if if_list_count s \<ge> max_if_count s then s
      else if list_ex (\<lambda>j. ifs_name (ifstate_list s ! j) = ifs_name e)
                (take (if_list_count s) (if_list s)) then s
      else s\<lparr>if_list := (if_list s)[if_list_count s := p],
             if_list_count := Suc (if_list_count s)\<rparr>)"

lemma add_to_if_list_frame [nwi_simps]:
  "max_if_count (nwi_state_add_to_if_list s p) = max_if_count s"
  "ipv4_count (nwi_state_add_to_if_list s p) = ipv4_count s"
  "ipv6_count (nwi_state_add_to_if_list s p) = ipv6_count s"
  "ifstate_list (nwi_state_add_to_if_list s p) = ifstate_list s"
  "length (if_list (nwi_state_add_to_if_list s p)) = length (if_list s)"
  "generation_count (nwi_state_add_to_if_list s p) = generation_count s"
  by (simp_all add: nwi_state_add_to_if_list_def Let_def)

lemma with_index_less [nwi_simps]:
  "nwi_state_get_ifstate_with_index s AF_INET i = Some p \<Longrightarrow> i < ipv4_count s"
  "nwi_state_get_ifstate_with_index s AF_INET6 i = Some p \<Longrightarrow> i < ipv6_count s"
  by (auto simp: nwi_state_get_ifstate_with_index_def nwi_state_get_ifstate_count_def
      AF_INET_def AF_INET6_def split: if_splits)

function nwi_merge_if_list :: "nwi_state \<Rightarrow> nat \<Rightarrow> nat \<Rightarrow> nwi_state" where
  "nwi_merge_if_list s v4 v6 =
     (case (nwi_state_get_ifstate_with_index s AF_INET v4,
            nwi_state_get_ifstate_with_index s AF_INET6 v6) of
        (None, None) \<Rightarrow> s
      | (Some p, Some q) \<Rightarrow>
          if ifs_rank (ifstate_list s ! p) \<le> ifs_rank (ifstate_list s ! q)
          then nwi_merge_if_list (nwi_state_add_to_if_list s p) (Suc v4) v6
          else nwi_merge_if_list (nwi_state_add_to_if_list s q) v4 (Suc v6)
      | (Some p, None) \<Rightarrow> nwi_merge_if_list (nwi_state_add_to_if_list s p) (Suc v4) v6
      | (None, Some q) \<Rightarrow> nwi_merge_if_list (nwi_state_add_to_if_list s q) v4 (Suc v6))"
  by pat_completeness auto
termination
  by (relation "measure (\<lambda>(s, v4, v6). (ipv4_count s - v4) + (ipv6_count s - v6))")
    (auto simp: nwi_simps dest!: with_index_less [OF sym])

declare nwi_merge_if_list.simps [simp del]

definition nwi_state_set_if_list :: "nwi_state \<Rightarrow> nwi_state" where
  "nwi_state_set_if_list s = nwi_merge_if_list (s\<lparr>if_list_count := 0\<rparr>) 0 0"

definition nwi_state_finalize :: "nwi_state option \<Rightarrow> nwi_state option" where
  "nwi_state_finalize st = map_option nwi_state_set_if_list st"

text \<open>\<open>malloc_ok\<close>: whether the allocator returned a block.\<close>

definition nwi_state_make_copy :: "bool \<Rightarrow> nwi_state option \<Rightarrow> nwi_state option" where
  "nwi_state_make_copy malloc_ok src =
     (case src of None \<Rightarrow> None | Some s \<Rightarrow> if malloc_ok then Some s else None)"

text \<open>
  The size of the block: 40 bytes of header, \<open>max * 2\<close> entries of 112 bytes (16 + 8 + 4 + 4 +
  4 + 16 + 8 + 4 + 28 + 20, packed to 4) and \<open>max\<close> 4-byte indices.
\<close>

definition nwi_state_compute_size :: "nat \<Rightarrow> nat" where
  "nwi_state_compute_size n = 40 + 112 * (n * 2) + 4 * n"

definition nwi_state_size :: "nwi_state \<Rightarrow> nat" where
  "nwi_state_size s = nwi_state_compute_size (max_if_count s)"

section \<open>Allocation and growth\<close>

text \<open>Conversion of an index difference to the 32-bit signed \<open>nwi_ifindex_t\<close>.\<close>

definition to_ifindex :: "int \<Rightarrow> int" where
  "to_ifindex x = signed_take_bit 31 x"

text \<open>
  \<open>state->max_if_count - old_max_if_count\<close> is an unsigned 32-bit subtraction (one operand
  is \<open>uint32_t\<close>) widened to \<open>int64_t\<close>: it is never negative.
\<close>

definition nwi_state_fix_af_aliases :: "nwi_state \<Rightarrow> nat \<Rightarrow> nwi_state" where
  "nwi_state_fix_af_aliases s old_max =
     (let offset = uint ((word_of_nat (max_if_count s) :: uint32) - word_of_nat old_max);
          shift = (\<lambda>d e. if ifs_alias e \<noteq> 0 then e\<lparr>ifs_alias := to_ifindex (ifs_alias e + d)\<rparr> else e);
          b4 = nwi_state_ifstate_list s AF_INET;
          b6 = nwi_state_ifstate_list s AF_INET6
      in if offset < 0 then s
         else
           let s4 = fold (\<lambda>i t. upd_slot t (b4 + i) (shift offset)) [0..<ipv4_count s] s
           in fold (\<lambda>i t. upd_slot t (b6 + i) (shift (- offset))) [0..<ipv6_count s] s4)"

text \<open>\<open>memcpy\<close> of \<open>n\<close> entries from slot \<open>b\<close> of \<open>src\<close> to slot \<open>d\<close> of \<open>dst\<close>.\<close>

definition copy_slots :: "nwi_ifstate list \<Rightarrow> nat \<Rightarrow> nwi_ifstate list \<Rightarrow> nat \<Rightarrow> nat \<Rightarrow> nwi_ifstate list" where
  "copy_slots dst d src b n = take d dst @ take n (drop b src) @ drop (d + n) dst"

definition nwi_state_alloc :: "nat \<Rightarrow> nwi_state" where
  "nwi_state_alloc n =
     \<lparr>st_version = NWI_STATE_VERSION, max_if_count = n, ipv4_count = 0, ipv6_count = 0,
      if_list_count = 0, st_ref = 0, reach_flags_v4 = 0, reach_flags_v6 = 0,
      generation_count = 0, ifstate_list = replicate (2 * n) zero_ifstate,
      if_list = replicate n 0\<rparr>"

text \<open>A state of more interfaces; memory is there.\<close>

definition nwi_state_new :: "nwi_state option \<Rightarrow> nat \<Rightarrow> nwi_state option" where
  "nwi_state_new old_state n =
     (case old_state of
        None \<Rightarrow> if n = 0 then None else Some (nwi_state_alloc n)
      | Some old \<Rightarrow>
          if max_if_count old \<ge> n then Some old
          else
            let s0 = nwi_state_alloc n;
                s1 = s0\<lparr>ipv6_count := ipv6_count old\<rparr>;
                s2 = (if ipv6_count s1 > 0
                      then s1\<lparr>ifstate_list := copy_slots (ifstate_list s1) n (ifstate_list old)
                                               (max_if_count old) (ipv6_count old)\<rparr>
                      else s1);
                s3 = s2\<lparr>ipv4_count := ipv4_count old\<rparr>;
                s4 = (if ipv4_count s3 > 0
                      then s3\<lparr>ifstate_list := copy_slots (ifstate_list s3) 0 (ifstate_list old)
                                               0 (ipv4_count old)\<rparr>
                      else s3)
            in Some (nwi_state_set_if_list (nwi_state_fix_af_aliases s4 (max_if_count old))))"

section \<open>Adding entries\<close>

text \<open>The slot after the last entry of a family; the counter it belongs to is the family's.\<close>

definition nwi_state_get_last_ifstate :: "nwi_state \<Rightarrow> nat \<Rightarrow> nat" where
  "nwi_state_get_last_ifstate s a =
     (if a = AF_INET then ipv4_count s else max_if_count s + ipv6_count s)"

definition nwi_state_incr_count :: "nwi_state \<Rightarrow> nat \<Rightarrow> nwi_state" where
  "nwi_state_incr_count s a =
     (if a = AF_INET then s\<lparr>ipv4_count := Suc (ipv4_count s)\<rparr>
      else s\<lparr>ipv6_count := Suc (ipv6_count s)\<rparr>)"

definition nwi_state_add_ifstate_alias :: "nwi_state \<Rightarrow> nat \<Rightarrow> nwi_state" where
  "nwi_state_add_ifstate_alias s p =
     (case nwi_state_get_ifstate_with_name (Some s)
             (nwi_other_af (ifs_af (ifstate_list s ! p))) (ifs_name (ifstate_list s ! p)) of
        None \<Rightarrow> s
      | Some q \<Rightarrow>
          upd_slot (upd_slot s p (\<lambda>e. e\<lparr>ifs_alias := to_ifindex (int q - int p)\<rparr>))
                   q (\<lambda>e. e\<lparr>ifs_alias := to_ifindex (int p - int q)\<rparr>))"

text \<open>The fields that are written for a new and for an existing entry alike.\<close>

definition nwi_fill_ifstate ::
    "nat \<Rightarrow> uint64 \<Rightarrow> uint32 \<Rightarrow> uint8 list option \<Rightarrow> sockaddr option \<Rightarrow> uint32 \<Rightarrow>
     nwi_ifstate \<Rightarrow> nwi_ifstate" where
  "nwi_fill_ifstate a fl rk ifa vpn reach e =
     (let e1 = (case ifa of
                  None \<Rightarrow> e
                | Some bs \<Rightarrow>
                    if a = AF_INET then e\<lparr>ifs_addr := take 4 bs @ drop 4 (ifs_addr e)\<rparr>
                    else if a = AF_INET6 then e\<lparr>ifs_addr := take 16 bs\<rparr>
                    else e);
          e2 = (case vpn of
                  Some sa \<Rightarrow> if sa_family sa \<noteq> 0 then nwi_ifstate_set_vpn_server e1 (Some sa)
                             else nwi_ifstate_set_vpn_server e1 None
                | None \<Rightarrow> nwi_ifstate_set_vpn_server e1 None)
      in e2\<lparr>ifs_reach := reach, ifs_rank := rk,
            ifs_flags := (ifs_flags e2 AND NOT NWI_IFSTATE_FLAGS_MASK)
                         OR (fl AND NWI_IFSTATE_FLAGS_MASK)\<rparr>)"

text \<open>\<open>strlcpy\<close> into \<open>char ifname[IFNAMSIZ]\<close> keeps at most 15 characters.\<close>

definition nwi_new_ifstate :: "string \<Rightarrow> nat \<Rightarrow> nwi_ifstate" where
  "nwi_new_ifstate nm a =
     zero_ifstate\<lparr>ifs_name := take 15 nm, ifs_af := a mod 256,
                  ifs_flags := NWI_IFSTATE_FLAGS_LAST_ITEM\<rparr>"

text \<open>
  The branch for a name that is not in the list: the previous last entry loses the last-item
  flag, the new slot is cleared and named, the counter grows, the alias is linked.
\<close>

definition nwi_append_new :: "nwi_state \<Rightarrow> string \<Rightarrow> nat \<Rightarrow> nwi_state" where
  "nwi_append_new s nm a =
     (let p = nwi_state_get_last_ifstate s a;
          s1 = (if nwi_state_get_ifstate_count s a > 0
                then upd_slot s (p - 1)
                       (\<lambda>e. e\<lparr>ifs_flags := ifs_flags e AND NOT NWI_IFSTATE_FLAGS_LAST_ITEM\<rparr>)
                else s);
          s2 = upd_slot s1 p (\<lambda>_. nwi_new_ifstate nm a);
          s3 = nwi_state_incr_count s2 a
      in nwi_state_add_ifstate_alias s3 p)"

definition nwi_state_add_ifstate ::
    "nwi_state \<Rightarrow> string \<Rightarrow> nat \<Rightarrow> uint64 \<Rightarrow> uint32 \<Rightarrow> uint8 list option \<Rightarrow> sockaddr option \<Rightarrow>
     uint32 \<Rightarrow> nwi_state \<times> nat option" where
  "nwi_state_add_ifstate s nm a fl rk ifa vpn reach =
     (case nwi_state_get_ifstate_with_name (Some s) a nm of
        Some p \<Rightarrow>
          if ifs_rank (ifstate_list s ! p) < rk then (s, None)
          else (upd_slot s p (nwi_fill_ifstate a fl rk ifa vpn reach), Some p)
      | None \<Rightarrow>
          let p = nwi_state_get_last_ifstate s a;
              count = nwi_state_get_ifstate_count s a
          in if count = max_if_count s then (s, None)
             else (upd_slot (nwi_append_new s nm a) p (nwi_fill_ifstate a fl rk ifa vpn reach), Some p))"

definition nwi_state_clear :: "nwi_state \<Rightarrow> nat \<Rightarrow> nwi_state" where
  "nwi_state_clear s a = (if a = AF_INET then s\<lparr>ipv4_count := 0\<rparr> else s\<lparr>ipv6_count := 0\<rparr>)"

end
