(* ===== verification/NwiInv.thy ===== *)
theory NwiInv
  imports NwiState
begin

unbundle bit_operations_syntax

text \<open>
  The well-formedness of a network information state, the lookup lemmas the other proofs
  use, and the preservation of well-formedness by every operation of NwiState.
\<close>

section \<open>Views and invariants\<close>

definition valid_af :: "nat \<Rightarrow> bool" where
  "valid_af a \<longleftrightarrow> a = AF_INET \<or> a = AF_INET6"

text \<open>The entry at position \<open>i\<close> of a family, and the list of a family's entries.\<close>

abbreviation nwi_ent :: "nwi_state \<Rightarrow> nat \<Rightarrow> nat \<Rightarrow> nwi_ifstate" where
  "nwi_ent s a i \<equiv> ifstate_list s ! (nwi_state_ifstate_list s a + i)"

definition nwi_entries :: "nwi_state \<Rightarrow> nat \<Rightarrow> nwi_ifstate list" where
  "nwi_entries s a =
     take (nwi_state_get_ifstate_count s a) (drop (nwi_state_ifstate_list s a) (ifstate_list s))"

text \<open>
  Shape: both arrays have their allocated size, the counters stay within it, and the indices
  fit \<open>nwi_ifindex_t\<close>.
\<close>

definition nwi_mem :: "nwi_state \<Rightarrow> bool" where
  "nwi_mem s \<longleftrightarrow> length (ifstate_list s) = 2 * max_if_count s \<and> length (if_list s) = max_if_count s \<and>
     max_if_count s < 2 ^ 30 \<and> ipv4_count s \<le> max_if_count s \<and> ipv6_count s \<le> max_if_count s"

definition nwi_names :: "nwi_state \<Rightarrow> bool" where
  "nwi_names s \<longleftrightarrow> (\<forall>a. valid_af a \<longrightarrow> distinct (map ifs_name (nwi_entries s a)) \<and>
     (\<forall>e \<in> set (nwi_entries s a). ifs_af e = a \<and> length (ifs_name e) \<le> 15))"

text \<open>Every alias offset points to the entry of the other family with the same name.\<close>

definition nwi_alias_ok :: "nwi_state \<Rightarrow> bool" where
  "nwi_alias_ok s \<longleftrightarrow> (\<forall>a i. valid_af a \<longrightarrow> i < nwi_state_get_ifstate_count s a \<longrightarrow>
     ifs_alias (nwi_ent s a i) =
       (case nwi_state_get_ifstate_with_name (Some s) (nwi_other_af a) (ifs_name (nwi_ent s a i)) of
          None \<Rightarrow> 0 | Some q \<Rightarrow> int q - int (nwi_state_ifstate_list s a + i)))"

text \<open>Exactly the last entry of a family carries the last-item flag.\<close>

definition nwi_last_ok :: "nwi_state \<Rightarrow> bool" where
  "nwi_last_ok s \<longleftrightarrow> (\<forall>a i. valid_af a \<longrightarrow> i < nwi_state_get_ifstate_count s a \<longrightarrow>
     (ifs_flags (nwi_ent s a i) AND NWI_IFSTATE_FLAGS_LAST_ITEM \<noteq> 0 \<longleftrightarrow>
      Suc i = nwi_state_get_ifstate_count s a))"

definition nwi_inv :: "nwi_state \<Rightarrow> bool" where
  "nwi_inv s \<longleftrightarrow> nwi_mem s \<and> nwi_names s \<and> nwi_alias_ok s \<and> nwi_last_ok s"

lemma af_neq [simp]: "AF_INET \<noteq> AF_INET6" "AF_INET6 \<noteq> AF_INET"
  by (simp_all add: AF_INET_def AF_INET6_def)

lemma af_mod [simp]: "AF_INET mod 256 = AF_INET" "AF_INET6 mod 256 = AF_INET6"
  by (simp_all add: AF_INET_def AF_INET6_def)

lemma valid_af_simps [simp]: "valid_af AF_INET" "valid_af AF_INET6"
  by (simp_all add: valid_af_def)

lemma valid_af_mod: "valid_af a \<Longrightarrow> a mod 256 = a"
  by (auto simp: valid_af_def)

lemma other_af [simp]: "nwi_other_af AF_INET = AF_INET6" "nwi_other_af AF_INET6 = AF_INET"
  by (simp_all add: nwi_other_af_def)

lemma valid_other_af [simp]: "valid_af (nwi_other_af a)"
  by (simp add: nwi_other_af_def)

lemma other_other [simp]: "valid_af a \<Longrightarrow> nwi_other_af (nwi_other_af a) = a"
  by (auto simp: valid_af_def)

lemma other_af_neq [simp]: "nwi_other_af a \<noteq> a" "a \<noteq> nwi_other_af a"
  by (auto simp: nwi_other_af_def)

lemma af_cases: "valid_af a \<Longrightarrow> valid_af b \<Longrightarrow> b = a \<or> b = nwi_other_af a"
  by (auto simp: valid_af_def)

section \<open>Slots of a family\<close>

text \<open>A family's slots end where the other family's begin: no slot belongs to both.\<close>

lemma slot_bound:
  "nwi_mem s \<Longrightarrow> valid_af a \<Longrightarrow> i < max_if_count s \<Longrightarrow>
   nwi_state_ifstate_list s a + i < length (ifstate_list s)"
  by (auto simp: nwi_mem_def nwi_state_ifstate_list_def)

lemma slot_inj:
  "valid_af a \<Longrightarrow> valid_af b \<Longrightarrow> i < max_if_count s \<Longrightarrow> j < max_if_count s \<Longrightarrow>
   nwi_state_ifstate_list s a + i = nwi_state_ifstate_list s b + j \<longleftrightarrow> a = b \<and> i = j"
  by (auto simp: valid_af_def nwi_state_ifstate_list_def)

lemma count_le_max: "nwi_mem s \<Longrightarrow> nwi_state_get_ifstate_count s a \<le> max_if_count s"
  by (simp add: nwi_mem_def nwi_state_get_ifstate_count_def)

lemma last_slot:
  "nwi_state_get_last_ifstate s a = nwi_state_ifstate_list s a + nwi_state_get_ifstate_count s a"
  by (simp add: nwi_state_get_last_ifstate_def nwi_state_ifstate_list_def
      nwi_state_get_ifstate_count_def)

lemma length_entries:
  "nwi_mem s \<Longrightarrow> length (nwi_entries s a) = nwi_state_get_ifstate_count s a"
  by (auto simp: nwi_entries_def nwi_mem_def nwi_state_get_ifstate_count_def
      nwi_state_ifstate_list_def)

lemma entries_nth:
  "nwi_mem s \<Longrightarrow> i < nwi_state_get_ifstate_count s a \<Longrightarrow> nwi_entries s a ! i = nwi_ent s a i"
  using length_entries [of s a] by (simp add: nwi_entries_def)

lemma entries_conv: "nwi_mem s \<Longrightarrow>
  nwi_entries s a = map (nwi_ent s a) [0..<nwi_state_get_ifstate_count s a]"
  by (rule nth_equalityI) (simp_all add: length_entries entries_nth)

section \<open>Lookup by name\<close>

lemma with_index:
  "valid_af a \<Longrightarrow> i < nwi_state_get_ifstate_count s a \<Longrightarrow>
   nwi_state_get_ifstate_count s a \<le> max_if_count s \<Longrightarrow>
   nwi_state_get_ifstate_with_index s a i = Some (nwi_state_ifstate_list s a + i)"
  by (auto simp: nwi_state_get_ifstate_with_index_def nwi_state_ifstate_list_def valid_af_def)

lemma with_index_None:
  "nwi_state_get_ifstate_count s a \<le> i \<Longrightarrow> nwi_state_get_ifstate_with_index s a i = None"
  by (simp add: nwi_state_get_ifstate_with_index_def)

lemma find_name_Some:
  assumes "valid_af a" "nwi_state_get_ifstate_count s a \<le> max_if_count s"
  shows "idx + k = nwi_state_get_ifstate_count s a \<Longrightarrow> nwi_find_name s a nm idx k = Some p \<Longrightarrow>
    \<exists>i < nwi_state_get_ifstate_count s a.
      p = nwi_state_ifstate_list s a + i \<and> ifs_name (nwi_ent s a i) = nm"
proof (induction k arbitrary: idx)
  case (Suc k)
  then have "nwi_state_get_ifstate_with_index s a idx = Some (nwi_state_ifstate_list s a + idx)"
    using assms by (intro with_index) simp_all
  with Suc.prems Suc.IH [of "Suc idx"] show ?case by (auto split: if_splits)
qed simp

lemma find_name_None:
  assumes "valid_af a" "nwi_state_get_ifstate_count s a \<le> max_if_count s"
  shows "idx + k = nwi_state_get_ifstate_count s a \<Longrightarrow> nwi_find_name s a nm idx k = None \<Longrightarrow>
    idx \<le> i \<Longrightarrow> i < idx + k \<Longrightarrow> ifs_name (nwi_ent s a i) \<noteq> nm"
proof (induction k arbitrary: idx)
  case (Suc k)
  have "nwi_state_get_ifstate_with_index s a idx = Some (nwi_state_ifstate_list s a + idx)"
    using assms Suc.prems by (intro with_index) simp_all
  with Suc.prems have "nm \<noteq> ifs_name (nwi_ent s a idx)" "nwi_find_name s a nm (Suc idx) k = None"
    by (auto split: if_splits)
  with Suc.prems Suc.IH [of "Suc idx"] show ?case by (cases "i = idx") auto
qed simp

lemma with_name_eq:
  "nwi_state_get_ifstate_count s a \<le> max_if_count s \<Longrightarrow>
   nwi_state_get_ifstate_with_name (Some s) a nm =
   nwi_find_name s a nm 0 (nwi_state_get_ifstate_count s a)"
  by (simp add: nwi_state_get_ifstate_with_name_def nwi_state_get_ifstate_count_def Let_def)

lemma with_name_SomeD:
  assumes "nwi_mem s" "valid_af a" "nwi_state_get_ifstate_with_name (Some s) a nm = Some p"
  obtains i where "i < nwi_state_get_ifstate_count s a" "p = nwi_state_ifstate_list s a + i"
    "ifs_name (nwi_ent s a i) = nm"
proof -
  have "nwi_find_name s a nm 0 (nwi_state_get_ifstate_count s a) = Some p"
    using assms(3) count_le_max [OF assms(1), of a] by (simp add: with_name_eq)
  from find_name_Some [OF assms(2) count_le_max [OF assms(1)] _ this] that show ?thesis by auto
qed

lemma with_name_None_iff:
  assumes "nwi_mem s" "valid_af a"
  shows "nwi_state_get_ifstate_with_name (Some s) a nm = None \<longleftrightarrow>
    (\<forall>i < nwi_state_get_ifstate_count s a. ifs_name (nwi_ent s a i) \<noteq> nm)"
proof
  assume "nwi_state_get_ifstate_with_name (Some s) a nm = None"
  then show "\<forall>i < nwi_state_get_ifstate_count s a. ifs_name (nwi_ent s a i) \<noteq> nm"
    using find_name_None [OF assms(2) count_le_max [OF assms(1)], of 0] count_le_max [OF assms(1), of a]
    by (simp add: with_name_eq)
next
  assume none: "\<forall>i < nwi_state_get_ifstate_count s a. ifs_name (nwi_ent s a i) \<noteq> nm"
  show "nwi_state_get_ifstate_with_name (Some s) a nm = None"
  proof (rule ccontr)
    assume "nwi_state_get_ifstate_with_name (Some s) a nm \<noteq> None"
    then obtain p where "nwi_state_get_ifstate_with_name (Some s) a nm = Some p" by blast
    with assms none show False by (auto elim: with_name_SomeD)
  qed
qed

lemma with_name_None_set:
  "nwi_mem s \<Longrightarrow> valid_af a \<Longrightarrow>
   nwi_state_get_ifstate_with_name (Some s) a nm = None \<longleftrightarrow> nm \<notin> ifs_name ` set (nwi_entries s a)"
  by (auto simp: with_name_None_iff entries_conv)

text \<open>With distinct names the search finds the one entry of that name.\<close>

lemma with_name_SomeI:
  assumes mem: "nwi_mem s" and af: "valid_af a"
    and names: "distinct (map ifs_name (nwi_entries s a))"
    and i: "i < nwi_state_get_ifstate_count s a"
  shows "nwi_state_get_ifstate_with_name (Some s) a (ifs_name (nwi_ent s a i)) =
         Some (nwi_state_ifstate_list s a + i)"
proof -
  let ?nm = "ifs_name (nwi_ent s a i)"
  obtain p where p: "nwi_state_get_ifstate_with_name (Some s) a ?nm = Some p"
    using with_name_None_iff [OF mem af, of ?nm] i by fastforce
  then obtain j where j: "j < nwi_state_get_ifstate_count s a"
      "p = nwi_state_ifstate_list s a + j" "ifs_name (nwi_ent s a j) = ?nm"
    using with_name_SomeD [OF mem af] by metis
  have "j = i"
    using distinct_map_nth_eq [OF names, of j i] i j mem by (simp add: length_entries entries_nth)
  with j p show ?thesis by simp
qed

text \<open>The search looks at names and counters only.\<close>

lemma find_name_cong:
  assumes "max_if_count t = max_if_count s"
    and "nwi_state_get_ifstate_count t a = nwi_state_get_ifstate_count s a"
    and "valid_af a" "nwi_state_get_ifstate_count s a \<le> max_if_count s"
    and "\<And>i. i < nwi_state_get_ifstate_count s a \<Longrightarrow> ifs_name (nwi_ent t a i) = ifs_name (nwi_ent s a i)"
  shows "idx + k \<le> nwi_state_get_ifstate_count s a \<Longrightarrow> nwi_find_name t a nm idx k = nwi_find_name s a nm idx k"
proof (induction k arbitrary: idx)
  case (Suc k)
  have b: "nwi_state_ifstate_list t a = nwi_state_ifstate_list s a"
    using assms(1) by (simp add: nwi_state_ifstate_list_def)
  have "nwi_state_get_ifstate_with_index t a idx = Some (nwi_state_ifstate_list s a + idx)"
    "nwi_state_get_ifstate_with_index s a idx = Some (nwi_state_ifstate_list s a + idx)"
    using assms(1-4) Suc.prems with_index [of a idx t] with_index [of a idx s] b by simp_all
  moreover have "ifs_name (nwi_ent t a idx) = ifs_name (nwi_ent s a idx)"
    using assms(5) Suc.prems by simp
  ultimately show ?case using Suc b by simp
qed simp

lemma with_name_cong:
  assumes "max_if_count t = max_if_count s"
    and "nwi_state_get_ifstate_count t a = nwi_state_get_ifstate_count s a"
    and "valid_af a" "nwi_state_get_ifstate_count s a \<le> max_if_count s"
    and "\<And>i. i < nwi_state_get_ifstate_count s a \<Longrightarrow> ifs_name (nwi_ent t a i) = ifs_name (nwi_ent s a i)"
  shows "nwi_state_get_ifstate_with_name (Some t) a nm = nwi_state_get_ifstate_with_name (Some s) a nm"
  using find_name_cong [OF assms, of 0 "nwi_state_get_ifstate_count s a" nm] assms
  by (simp add: with_name_eq)

text \<open>Well-formedness depends on counters, names, families, aliases and the last-item bit.\<close>

lemma nwi_inv_cong:
  assumes inv: "nwi_inv s"
    and mem: "nwi_mem t" "max_if_count t = max_if_count s"
    and cnt: "\<And>a. valid_af a \<Longrightarrow> nwi_state_get_ifstate_count t a = nwi_state_get_ifstate_count s a"
    and ent: "\<And>a i. valid_af a \<Longrightarrow> i < nwi_state_get_ifstate_count s a \<Longrightarrow>
      ifs_name (nwi_ent t a i) = ifs_name (nwi_ent s a i) \<and>
      ifs_af (nwi_ent t a i) = ifs_af (nwi_ent s a i) \<and>
      ifs_alias (nwi_ent t a i) = ifs_alias (nwi_ent s a i) \<and>
      (ifs_flags (nwi_ent t a i) AND NWI_IFSTATE_FLAGS_LAST_ITEM =
       ifs_flags (nwi_ent s a i) AND NWI_IFSTATE_FLAGS_LAST_ITEM)"
  shows "nwi_inv t"
proof -
  have mems: "nwi_mem s" using inv by (simp add: nwi_inv_def)
  have b: "nwi_state_ifstate_list t = nwi_state_ifstate_list s"
    using mem(2) by (auto simp: nwi_state_ifstate_list_def)
  have wn: "nwi_state_get_ifstate_with_name (Some t) a nm = nwi_state_get_ifstate_with_name (Some s) a nm"
    if "valid_af a" for a nm
    using that mem(2) cnt ent count_le_max [OF mems] by (intro with_name_cong) simp_all
  have e: "nwi_entries t a = map (nwi_ent t a) [0..<nwi_state_get_ifstate_count s a]"
    "nwi_entries s a = map (nwi_ent s a) [0..<nwi_state_get_ifstate_count s a]" if "valid_af a" for a
    using that cnt mem(1) mems by (simp_all add: entries_conv)
  have "nwi_names t"
    unfolding nwi_names_def
  proof (intro allI impI)
    fix a assume a: "valid_af a"
    have m: "map ifs_name (nwi_entries t a) = map ifs_name (nwi_entries s a)"
      using ent [OF a] by (simp add: e [OF a])
    have "\<forall>x\<in>set (nwi_entries t a). ifs_af x = a \<and> length (ifs_name x) \<le> 15"
      using inv a ent [OF a] by (fastforce simp: nwi_inv_def nwi_names_def e)
    with m inv a show "distinct (map ifs_name (nwi_entries t a)) \<and>
        (\<forall>e\<in>set (nwi_entries t a). ifs_af e = a \<and> length (ifs_name e) \<le> 15)"
      by (simp add: nwi_inv_def nwi_names_def)
  qed
  moreover have "nwi_alias_ok t"
    using inv ent wn b cnt
    by (simp add: nwi_inv_def nwi_alias_ok_def cong: option.case_cong)
  moreover have "nwi_last_ok t"
    using inv ent b cnt by (simp add: nwi_inv_def nwi_last_ok_def)
  ultimately show ?thesis using mem by (simp add: nwi_inv_def)
qed

section \<open>Writing a slot\<close>

lemma upd_slot_frame [nwi_simps, simp]:
  "max_if_count (upd_slot s p f) = max_if_count s"
  "ipv4_count (upd_slot s p f) = ipv4_count s"
  "ipv6_count (upd_slot s p f) = ipv6_count s"
  "if_list_count (upd_slot s p f) = if_list_count s"
  "if_list (upd_slot s p f) = if_list s"
  "generation_count (upd_slot s p f) = generation_count s"
  "length (ifstate_list (upd_slot s p f)) = length (ifstate_list s)"
  "nwi_state_get_ifstate_count (upd_slot s p f) a = nwi_state_get_ifstate_count s a"
  "nwi_state_ifstate_list (upd_slot s p f) a = nwi_state_ifstate_list s a"
  "nwi_mem (upd_slot s p f) = nwi_mem s"
  by (simp_all add: upd_slot_def nwi_state_get_ifstate_count_def nwi_state_ifstate_list_def nwi_mem_def)

lemma upd_slot_nth:
  "p < length (ifstate_list s) \<Longrightarrow>
   ifstate_list (upd_slot s p f) ! q = (if p = q then f (ifstate_list s ! p) else ifstate_list s ! q)"
  by (simp add: upd_slot_def nth_list_update)

lemma upd_slot_other: "p \<noteq> q \<Longrightarrow> ifstate_list (upd_slot s p f) ! q = ifstate_list s ! q"
  by (simp add: upd_slot_def)

lemma set_vpn_frame [simp]:
  "ifs_name (nwi_ifstate_set_vpn_server e v) = ifs_name e"
  "ifs_af (nwi_ifstate_set_vpn_server e v) = ifs_af e"
  "ifs_alias (nwi_ifstate_set_vpn_server e v) = ifs_alias e"
  "ifs_flags (nwi_ifstate_set_vpn_server e v) = ifs_flags e"
  "ifs_gen (nwi_ifstate_set_vpn_server e v) = ifs_gen e"
  "ifs_addr (nwi_ifstate_set_vpn_server e v) = ifs_addr e"
  by (simp_all add: nwi_ifstate_set_vpn_server_def split: option.splits)

lemma mask_keeps_last:
  "((f AND NOT NWI_IFSTATE_FLAGS_MASK) OR (g AND NWI_IFSTATE_FLAGS_MASK)) AND NWI_IFSTATE_FLAGS_LAST_ITEM
   = f AND NWI_IFSTATE_FLAGS_LAST_ITEM"
  by (simp add: bit.conj_disj_distrib2 and.assoc nwi_flag_defs)

lemma fill_frame [simp]:
  "ifs_name (nwi_fill_ifstate a fl rk ifa v r e) = ifs_name e"
  "ifs_af (nwi_fill_ifstate a fl rk ifa v r e) = ifs_af e"
  "ifs_alias (nwi_fill_ifstate a fl rk ifa v r e) = ifs_alias e"
  "ifs_gen (nwi_fill_ifstate a fl rk ifa v r e) = ifs_gen e"
  "ifs_rank (nwi_fill_ifstate a fl rk ifa v r e) = rk"
  "ifs_reach (nwi_fill_ifstate a fl rk ifa v r e) = r"
  "ifs_flags (nwi_fill_ifstate a fl rk ifa v r e) AND NWI_IFSTATE_FLAGS_LAST_ITEM =
   ifs_flags e AND NWI_IFSTATE_FLAGS_LAST_ITEM"
  by (simp_all add: nwi_fill_ifstate_def Let_def mask_keeps_last split: option.splits)

lemma upd_slot_fill_inv:
  assumes "nwi_inv s"
  shows "nwi_inv (upd_slot s p (nwi_fill_ifstate a fl rk ifa v r))"
  using assms
proof (rule nwi_inv_cong)
  show "nwi_mem (upd_slot s p (nwi_fill_ifstate a fl rk ifa v r))"
    using assms by (simp add: nwi_inv_def)
  show "ifs_name (nwi_ent (upd_slot s p (nwi_fill_ifstate a fl rk ifa v r)) b i) = ifs_name (nwi_ent s b i) \<and>
      ifs_af (nwi_ent (upd_slot s p (nwi_fill_ifstate a fl rk ifa v r)) b i) = ifs_af (nwi_ent s b i) \<and>
      ifs_alias (nwi_ent (upd_slot s p (nwi_fill_ifstate a fl rk ifa v r)) b i) = ifs_alias (nwi_ent s b i) \<and>
      (ifs_flags (nwi_ent (upd_slot s p (nwi_fill_ifstate a fl rk ifa v r)) b i) AND NWI_IFSTATE_FLAGS_LAST_ITEM =
       ifs_flags (nwi_ent s b i) AND NWI_IFSTATE_FLAGS_LAST_ITEM)"
    if "valid_af b" "i < nwi_state_get_ifstate_count s b" for b i
  proof -
    have "nwi_state_ifstate_list s b + i < length (ifstate_list s)"
      using that assms slot_bound count_le_max by (metis nwi_inv_def order_less_le_trans)
    then show ?thesis by (cases "p = nwi_state_ifstate_list s b + i") (simp_all add: upd_slot_nth upd_slot_other)
  qed
qed simp_all

section \<open>Appending an entry\<close>

lemma to_ifindex_id: "- (2 ^ 31) \<le> x \<Longrightarrow> x < 2 ^ 31 \<Longrightarrow> to_ifindex x = x"
  by (simp add: to_ifindex_def signed_take_bit_int_eq_self)

lemma slot_less: "valid_af a \<Longrightarrow> i < max_if_count s \<Longrightarrow> nwi_state_ifstate_list s a + i < 2 * max_if_count s"
  by (auto simp: nwi_state_ifstate_list_def)

lemma to_ifindex_slots:
  assumes "nwi_mem s" "p < 2 * max_if_count s" "q < 2 * max_if_count s"
  shows "to_ifindex (int q - int p) = int q - int p"
proof (rule to_ifindex_id)
  have "max_if_count s < 2 ^ 30" using assms(1) by (simp add: nwi_mem_def)
  then show "- (2 ^ 31) \<le> int q - int p" "int q - int p < 2 ^ 31" using assms(2,3) by simp_all
qed

lemma incr_count_frame [simp]:
  "max_if_count (nwi_state_incr_count s a) = max_if_count s"
  "ifstate_list (nwi_state_incr_count s a) = ifstate_list s"
  "if_list (nwi_state_incr_count s a) = if_list s"
  "if_list_count (nwi_state_incr_count s a) = if_list_count s"
  "nwi_state_ifstate_list (nwi_state_incr_count s a) b = nwi_state_ifstate_list s b"
  by (simp_all add: nwi_state_incr_count_def nwi_state_ifstate_list_def)

lemma incr_count [simp]:
  "valid_af a \<Longrightarrow> valid_af b \<Longrightarrow> nwi_state_get_ifstate_count (nwi_state_incr_count s a) b =
     (if a = b then Suc (nwi_state_get_ifstate_count s b) else nwi_state_get_ifstate_count s b)"
  by (auto simp: valid_af_def nwi_state_incr_count_def nwi_state_get_ifstate_count_def)

text \<open>The state before the alias is linked.\<close>

definition nwi_append_raw :: "nwi_state \<Rightarrow> string \<Rightarrow> nat \<Rightarrow> nwi_state" where
  "nwi_append_raw s nm a =
     (let p = nwi_state_get_last_ifstate s a;
          s1 = (if nwi_state_get_ifstate_count s a > 0
                then upd_slot s (p - 1)
                       (\<lambda>e. e\<lparr>ifs_flags := ifs_flags e AND NOT NWI_IFSTATE_FLAGS_LAST_ITEM\<rparr>)
                else s)
      in nwi_state_incr_count (upd_slot s1 p (\<lambda>_. nwi_new_ifstate nm a)) a)"

lemma append_new_raw:
  "nwi_append_new s nm a = nwi_state_add_ifstate_alias (nwi_append_raw s nm a) (nwi_state_get_last_ifstate s a)"
  by (simp add: nwi_append_new_def nwi_append_raw_def Let_def)

lemma append_raw_frame [simp]:
  "max_if_count (nwi_append_raw s nm a) = max_if_count s"
  "nwi_state_ifstate_list (nwi_append_raw s nm a) b = nwi_state_ifstate_list s b"
  "length (ifstate_list (nwi_append_raw s nm a)) = length (ifstate_list s)"
  "valid_af a \<Longrightarrow> valid_af b \<Longrightarrow> nwi_state_get_ifstate_count (nwi_append_raw s nm a) b =
     (if a = b then Suc (nwi_state_get_ifstate_count s b) else nwi_state_get_ifstate_count s b)"
  by (simp_all add: nwi_append_raw_def Let_def)

lemma append_raw_mem:
  assumes "nwi_mem s" "valid_af a" "nwi_state_get_ifstate_count s a < max_if_count s"
  shows "nwi_mem (nwi_append_raw s nm a)"
  using assms by (auto simp: nwi_mem_def nwi_append_raw_def Let_def nwi_state_incr_count_def
      nwi_state_get_ifstate_count_def valid_af_def)

lemma append_raw_ent:
  assumes "nwi_mem s" "valid_af a" "valid_af b" "nwi_state_get_ifstate_count s a < max_if_count s"
    and "i < max_if_count s"
  shows "nwi_ent (nwi_append_raw s nm a) b i =
    (if a = b \<and> i = nwi_state_get_ifstate_count s a then nwi_new_ifstate nm a
     else if a = b \<and> Suc i = nwi_state_get_ifstate_count s a
          then (nwi_ent s b i)\<lparr>ifs_flags := ifs_flags (nwi_ent s b i) AND NOT NWI_IFSTATE_FLAGS_LAST_ITEM\<rparr>
     else nwi_ent s b i)"
proof -
  let ?c = "nwi_state_get_ifstate_count s a"
  have p: "nwi_state_get_last_ifstate s a = nwi_state_ifstate_list s a + ?c" by (rule last_slot)
  have pb: "nwi_state_ifstate_list s a + ?c < length (ifstate_list s)"
    using assms by (intro slot_bound)
  have eqp: "nwi_state_ifstate_list s a + ?c = nwi_state_ifstate_list s b + i \<longleftrightarrow> a = b \<and> i = ?c"
    using slot_inj [OF assms(2,3,4) assms(5)] by auto
  show ?thesis
  proof (cases "?c > 0")
    case True
    then obtain k where k: "?c = Suc k" by (cases ?c) auto
    have eqk: "nwi_state_ifstate_list s a + k = nwi_state_ifstate_list s b + i \<longleftrightarrow> a = b \<and> i = k"
      using slot_inj [OF assms(2,3) _ assms(5), of k] k assms(4) by auto
    have "nwi_ent (nwi_append_raw s nm a) b i =
      (if nwi_state_ifstate_list s a + ?c = nwi_state_ifstate_list s b + i then nwi_new_ifstate nm a
       else if nwi_state_ifstate_list s a + k = nwi_state_ifstate_list s b + i
            then (nwi_ent s a k)\<lparr>ifs_flags := ifs_flags (nwi_ent s a k) AND NOT NWI_IFSTATE_FLAGS_LAST_ITEM\<rparr>
       else nwi_ent s b i)"
      using pb by (simp add: nwi_append_raw_def Let_def p upd_slot_nth k)
    then show ?thesis by (simp only: eqp eqk) (simp add: k)
  next
    case False
    have "nwi_ent (nwi_append_raw s nm a) b i =
      (if nwi_state_ifstate_list s a + ?c = nwi_state_ifstate_list s b + i then nwi_new_ifstate nm a
       else nwi_ent s b i)"
      using pb False by (simp add: nwi_append_raw_def Let_def p upd_slot_nth)
    then show ?thesis using False by (simp only: eqp) simp
  qed
qed

lemma add_alias_frame [simp]:
  "max_if_count (nwi_state_add_ifstate_alias s p) = max_if_count s"
  "nwi_state_ifstate_list (nwi_state_add_ifstate_alias s p) b = nwi_state_ifstate_list s b"
  "nwi_state_get_ifstate_count (nwi_state_add_ifstate_alias s p) b = nwi_state_get_ifstate_count s b"
  "nwi_mem (nwi_state_add_ifstate_alias s p) = nwi_mem s"
  "generation_count (nwi_state_add_ifstate_alias s p) = generation_count s"
  by (simp_all add: nwi_state_add_ifstate_alias_def split: option.splits)

lemma append_new_frame [simp]:
  "max_if_count (nwi_append_new s nm a) = max_if_count s"
  "nwi_state_ifstate_list (nwi_append_new s nm a) b = nwi_state_ifstate_list s b"
  "valid_af a \<Longrightarrow> valid_af b \<Longrightarrow> nwi_state_get_ifstate_count (nwi_append_new s nm a) b =
     (if a = b then Suc (nwi_state_get_ifstate_count s b) else nwi_state_get_ifstate_count s b)"
  "nwi_mem s \<Longrightarrow> valid_af a \<Longrightarrow> nwi_state_get_ifstate_count s a < max_if_count s \<Longrightarrow>
   nwi_mem (nwi_append_new s nm a)"
  by (simp_all add: append_new_raw append_raw_mem)

lemma new_ifstate_simps [simp]:
  "ifs_name (nwi_new_ifstate nm a) = take 15 nm" "ifs_af (nwi_new_ifstate nm a) = a mod 256"
  "ifs_alias (nwi_new_ifstate nm a) = 0"
  "ifs_flags (nwi_new_ifstate nm a) = NWI_IFSTATE_FLAGS_LAST_ITEM"
  by (simp_all add: nwi_new_ifstate_def zero_ifstate_def)

lemma append_raw_other_name:
  assumes "nwi_mem s" "valid_af a" "nwi_state_get_ifstate_count s a < max_if_count s"
  shows "nwi_state_get_ifstate_with_name (Some (nwi_append_raw s nm a)) (nwi_other_af a) n =
         nwi_state_get_ifstate_with_name (Some s) (nwi_other_af a) n"
proof (rule with_name_cong)
  show "ifs_name (nwi_ent (nwi_append_raw s nm a) (nwi_other_af a) i) = ifs_name (nwi_ent s (nwi_other_af a) i)"
    if "i < nwi_state_get_ifstate_count s (nwi_other_af a)" for i
    using append_raw_ent [OF assms(1,2) valid_other_af assms(3), of i nm] that
      count_le_max [OF assms(1), of "nwi_other_af a"] by simp
qed (use assms count_le_max [OF assms(1)] in simp_all)

lemma append_new_ent:
  fixes nm :: string
  assumes mem: "nwi_mem s" and a: "valid_af a" and b: "valid_af b"
    and room: "nwi_state_get_ifstate_count s a < max_if_count s" and i: "i < max_if_count s"
  defines "p \<equiv> nwi_state_ifstate_list s a + nwi_state_get_ifstate_count s a"
  defines "wo \<equiv> nwi_state_get_ifstate_with_name (Some s) (nwi_other_af a) (take 15 nm)"
  shows "nwi_ent (nwi_append_new s nm a) b i = (nwi_ent (nwi_append_raw s nm a) b i)
    \<lparr>ifs_alias :=
      (if a = b \<and> i = nwi_state_get_ifstate_count s a
       then (case wo of None \<Rightarrow> 0 | Some q \<Rightarrow> int q - int p)
       else if wo = Some (nwi_state_ifstate_list s b + i)
            then int p - int (nwi_state_ifstate_list s b + i)
       else ifs_alias (nwi_ent (nwi_append_raw s nm a) b i))\<rparr>"
proof -
  let ?r = "nwi_append_raw s nm a" and ?c = "nwi_state_get_ifstate_count s a"
  let ?x = "nwi_state_ifstate_list s b + i"
  have pe: "ifstate_list ?r ! p = nwi_new_ifstate nm a"
    using append_raw_ent [OF mem a a room room, of nm] by (simp add: p_def)
  have px: "p = ?x \<longleftrightarrow> a = b \<and> i = ?c"
    using slot_inj [OF a b room i] by (auto simp: p_def)
  have len: "length (ifstate_list ?r) = 2 * max_if_count s" using mem by (simp add: nwi_mem_def)
  have p2: "p < 2 * max_if_count s" using slot_less [OF a room] by (simp add: p_def)
  have x2: "?x < 2 * max_if_count s" using slot_less [OF b i] by simp
  show ?thesis
  proof (cases wo)
    case None
    then have "nwi_append_new s nm a = ?r"
      using append_raw_other_name [OF mem a room, of nm "take 15 nm"] a
      by (simp add: append_new_raw nwi_state_add_ifstate_alias_def last_slot p_def [symmetric] pe
          valid_af_mod wo_def)
    then show ?thesis using None pe px by auto
  next
    case (Some q)
    obtain j where j: "j < nwi_state_get_ifstate_count s (nwi_other_af a)"
      "q = nwi_state_ifstate_list s (nwi_other_af a) + j"
      using with_name_SomeD [OF mem valid_other_af Some [unfolded wo_def]] by metis
    then have jm: "j < max_if_count s"
      using count_le_max [OF mem, of "nwi_other_af a"] by simp
    have q2: "q < 2 * max_if_count s" using slot_less [OF valid_other_af jm] j by simp
    have qp: "q \<noteq> p" using slot_inj [OF a valid_other_af [of a] room jm] j by (auto simp: p_def)
    have "nwi_append_new s nm a =
        upd_slot (upd_slot ?r p (\<lambda>e. e\<lparr>ifs_alias := int q - int p\<rparr>)) q (\<lambda>e. e\<lparr>ifs_alias := int p - int q\<rparr>)"
      using append_raw_other_name [OF mem a room, of nm "take 15 nm"] a Some
      by (simp add: append_new_raw nwi_state_add_ifstate_alias_def last_slot p_def [symmetric] pe
          valid_af_mod wo_def to_ifindex_slots [OF mem p2 q2] to_ifindex_slots [OF mem q2 p2])
    then have "nwi_ent (nwi_append_new s nm a) b i =
        (if q = ?x then (ifstate_list ?r ! q)\<lparr>ifs_alias := int p - int q\<rparr>
         else if p = ?x then (ifstate_list ?r ! p)\<lparr>ifs_alias := int q - int p\<rparr>
         else nwi_ent ?r b i)"
      using p2 q2 qp len by (simp add: upd_slot_nth)
    then show ?thesis using Some qp px by (auto simp: pe)
  qed
qed

lemma append_new_name:
  assumes "nwi_mem s" "valid_af a" "valid_af b" "nwi_state_get_ifstate_count s a < max_if_count s"
    and "i < max_if_count s"
  shows "ifs_name (nwi_ent (nwi_append_new s nm a) b i) =
           (if a = b \<and> i = nwi_state_get_ifstate_count s a then take 15 nm else ifs_name (nwi_ent s b i))"
    and "ifs_af (nwi_ent (nwi_append_new s nm a) b i) =
           (if a = b \<and> i = nwi_state_get_ifstate_count s a then a else ifs_af (nwi_ent s b i))"
  by (simp_all only: append_new_ent [OF assms] append_raw_ent [OF assms])
    (use assms(2) in \<open>auto simp: valid_af_mod\<close>)

lemma append_new_entries_names:
  assumes "nwi_mem s" "valid_af a" "valid_af b" "nwi_state_get_ifstate_count s a < max_if_count s"
  shows "map ifs_name (nwi_entries (nwi_append_new s nm a) b) =
    (if a = b then map ifs_name (nwi_entries s b) @ [take 15 nm] else map ifs_name (nwi_entries s b))"
proof -
  have less: "i < max_if_count s" if "i < nwi_state_get_ifstate_count s b" for i
    using that count_le_max [OF assms(1), of b] by simp
  have m: "nwi_mem (nwi_append_new s nm a)" using assms by simp
  show ?thesis
    using less assms(4) append_new_name(1) [OF assms(1,2,3,4)]
    by (auto simp: entries_conv [OF m] entries_conv [OF assms(1)] assms(2,3) simp del: append_new_frame(2))
qed

lemma append_new_names:
  assumes "nwi_mem s" "nwi_names s" "valid_af a" "nwi_state_get_ifstate_count s a < max_if_count s"
    and "take 15 nm \<notin> ifs_name ` set (nwi_entries s a)"
  shows "nwi_names (nwi_append_new s nm a)"
  unfolding nwi_names_def
proof (intro allI impI conjI)
  fix b assume b: "valid_af b"
  show "distinct (map ifs_name (nwi_entries (nwi_append_new s nm a) b))"
    using assms b by (auto simp: append_new_entries_names nwi_names_def)
  have m: "nwi_mem (nwi_append_new s nm a)" using assms by simp
  have "ifs_af (nwi_ent (nwi_append_new s nm a) b i) = b \<and>
      length (ifs_name (nwi_ent (nwi_append_new s nm a) b i)) \<le> 15"
    if i: "i < nwi_state_get_ifstate_count (nwi_append_new s nm a) b" for i
  proof (cases "a = b \<and> i = nwi_state_get_ifstate_count s a")
    case True
    then show ?thesis using assms by (simp add: append_new_name del: append_new_frame(2))
  next
    case False
    then have ib: "i < nwi_state_get_ifstate_count s b"
      using i assms(3) b by (auto split: if_splits)
    then have "nwi_ent s b i \<in> set (nwi_entries s b)" using assms(1) by (simp add: entries_conv)
    moreover have "i < max_if_count s" using ib count_le_max [OF assms(1), of b] by simp
    ultimately show ?thesis
      using False assms b by (auto simp: append_new_name nwi_names_def simp del: append_new_frame(2))
  qed
  then show "\<forall>e\<in>set (nwi_entries (nwi_append_new s nm a) b). ifs_af e = b \<and> length (ifs_name e) \<le> 15"
    by (auto simp: entries_conv [OF m])
qed

text \<open>The links after an append: old names resolve as before, the new name to the new slot.\<close>

lemma append_new_lookup:
  assumes "nwi_mem s" "nwi_names s" "valid_af a" "valid_af b"
    and "nwi_state_get_ifstate_count s a < max_if_count s"
    and "take 15 nm \<notin> ifs_name ` set (nwi_entries s a)"
  shows "nwi_state_get_ifstate_with_name (Some (nwi_append_new s nm a)) b n =
    (if a = b \<and> n = take 15 nm
     then Some (nwi_state_ifstate_list s a + nwi_state_get_ifstate_count s a)
     else nwi_state_get_ifstate_with_name (Some s) b n)"
proof -
  let ?t = "nwi_append_new s nm a" and ?c = "nwi_state_get_ifstate_count s a"
  have mt: "nwi_mem ?t" using assms by simp
  have nt: "distinct (map ifs_name (nwi_entries ?t b))"
    using append_new_names [OF assms(1,2,3,5,6)] assms(4) by (simp add: nwi_names_def)
  have le: "i < nwi_state_get_ifstate_count s b \<Longrightarrow> i < max_if_count s" for i
    using count_le_max [OF assms(1), of b] by simp
  have nm: "ifs_name (nwi_ent ?t b i) = (if a = b \<and> i = ?c then take 15 nm else ifs_name (nwi_ent s b i))"
    if "i < max_if_count s" for i
    using append_new_name(1) [OF assms(1,3,4,5) that] .
  show ?thesis
  proof (cases "nwi_state_get_ifstate_with_name (Some s) b n")
    case None
    then have abs: "\<forall>i<nwi_state_get_ifstate_count s b. ifs_name (nwi_ent s b i) \<noteq> n"
      using with_name_None_iff [OF assms(1,4)] by simp
    show ?thesis
    proof (cases "a = b \<and> n = take 15 nm")
      case True
      then have "?c < nwi_state_get_ifstate_count ?t b" using assms(3,4) by simp
      from with_name_SomeI [OF mt assms(4) nt this] show ?thesis
        using True nm [OF assms(5)] by simp
    next
      case False
      then have "nwi_state_get_ifstate_with_name (Some ?t) b n = None"
        using abs nm le assms(3-5) by (auto simp: with_name_None_iff [OF mt assms(4)] less_Suc_eq split: if_splits simp del: append_new_frame(2))
      then show ?thesis using None False by (simp only: if_False)
    qed
  next
    case (Some q)
    then obtain i where i: "i < nwi_state_get_ifstate_count s b" "q = nwi_state_ifstate_list s b + i"
      "ifs_name (nwi_ent s b i) = n" using with_name_SomeD [OF assms(1,4)] by metis
    have ne: "\<not> (a = b \<and> n = take 15 nm)"
      using assms(6) i by (force simp: entries_conv [OF assms(1)])
    have it: "i < nwi_state_get_ifstate_count ?t b" using i assms(3,4) by simp
    have "ifs_name (nwi_ent ?t b i) = n"
      using nm [OF le [OF i(1)]] i by (auto simp del: append_new_frame(2))
    with with_name_SomeI [OF mt assms(4) nt it] show ?thesis using i Some ne by simp
  qed
qed

lemma last_item_bits:
  "(f AND NOT NWI_IFSTATE_FLAGS_LAST_ITEM) AND NWI_IFSTATE_FLAGS_LAST_ITEM = 0"
  "NWI_IFSTATE_FLAGS_LAST_ITEM AND NWI_IFSTATE_FLAGS_LAST_ITEM \<noteq> 0"
  by (simp_all add: and.assoc nwi_flag_defs)

lemma last_item_neq: "NWI_IFSTATE_FLAGS_LAST_ITEM \<noteq> 0"
  by (simp add: nwi_flag_defs)

lemma append_new_last:
  assumes "nwi_mem s" "nwi_last_ok s" "valid_af a" "nwi_state_get_ifstate_count s a < max_if_count s"
  shows "nwi_last_ok (nwi_append_new s nm a)"
  unfolding nwi_last_ok_def
proof (intro allI impI)
  fix b i assume b: "valid_af b" and i: "i < nwi_state_get_ifstate_count (nwi_append_new s nm a) b"
  let ?c = "nwi_state_get_ifstate_count s a"
  have im: "i < max_if_count s"
    using i assms(3,4) b count_le_max [OF assms(1), of b] by (auto split: if_splits)
  have fl: "ifs_flags (nwi_ent (nwi_append_new s nm a) b i) =
     (if a = b \<and> i = ?c then NWI_IFSTATE_FLAGS_LAST_ITEM
      else if a = b \<and> Suc i = ?c then ifs_flags (nwi_ent s b i) AND NOT NWI_IFSTATE_FLAGS_LAST_ITEM
      else ifs_flags (nwi_ent s b i))"
    unfolding append_new_ent [OF assms(1,3) b assms(4) im] append_raw_ent [OF assms(1,3) b assms(4) im]
    by simp
  show "(ifs_flags (nwi_ent (nwi_append_new s nm a) b i) AND NWI_IFSTATE_FLAGS_LAST_ITEM \<noteq> 0) =
        (Suc i = nwi_state_get_ifstate_count (nwi_append_new s nm a) b)"
    unfolding fl [unfolded append_new_frame] append_new_frame
    using assms(2,3) b i
    by (cases "a = b") (auto simp: last_item_bits last_item_neq nwi_last_ok_def less_Suc_eq)
qed

lemma append_new_alias:
  assumes "nwi_mem s" "nwi_names s" "nwi_alias_ok s" "valid_af a"
    and "nwi_state_get_ifstate_count s a < max_if_count s"
    and "take 15 nm \<notin> ifs_name ` set (nwi_entries s a)"
  shows "nwi_alias_ok (nwi_append_new s nm a)"
  unfolding nwi_alias_ok_def
proof (intro allI impI)
  fix b i assume b: "valid_af b" and i: "i < nwi_state_get_ifstate_count (nwi_append_new s nm a) b"
  let ?t = "nwi_append_new s nm a" and ?c = "nwi_state_get_ifstate_count s a"
  let ?wo = "nwi_state_get_ifstate_with_name (Some s) (nwi_other_af a) (take 15 nm)"
  have im: "i < max_if_count s"
    using i assms(4,5) b count_le_max [OF assms(1), of b] by (auto split: if_splits)
  note ent = append_new_ent [OF assms(1,4) b assms(5) im, of nm, unfolded append_new_frame append_raw_frame]
    append_raw_ent [OF assms(1,4) b assms(5) im, of nm, unfolded append_raw_frame]
  note nm = append_new_name(1) [OF assms(1,4) b assms(5) im, of nm, unfolded append_new_frame]
  show "ifs_alias (nwi_ent ?t b i) =
       (case nwi_state_get_ifstate_with_name (Some ?t) (nwi_other_af b) (ifs_name (nwi_ent ?t b i)) of
          None \<Rightarrow> 0 | Some q \<Rightarrow> int q - int (nwi_state_ifstate_list ?t b + i))"
  proof (cases "a = b")
    case True
    have old: "ifs_alias (nwi_ent s b i) =
       (case nwi_state_get_ifstate_with_name (Some s) (nwi_other_af b) (ifs_name (nwi_ent s b i)) of
          None \<Rightarrow> 0 | Some q \<Rightarrow> int q - int (nwi_state_ifstate_list s b + i))" if "i \<noteq> ?c"
      using assms(3,4) i b that True by (simp add: nwi_alias_ok_def)
    have no: "?wo \<noteq> Some (nwi_state_ifstate_list s b + i)"
    proof
      assume "?wo = Some (nwi_state_ifstate_list s b + i)"
      then obtain j where "j < nwi_state_get_ifstate_count s (nwi_other_af a)"
        "nwi_state_ifstate_list s b + i = nwi_state_ifstate_list s (nwi_other_af a) + j"
        using with_name_SomeD [OF assms(1) valid_other_af] by metis
      then show False
        using slot_inj [OF b valid_other_af [of a] im, of j] True
          count_le_max [OF assms(1), of "nwi_other_af a"] by simp
    qed
    have l: "nwi_state_get_ifstate_with_name (Some ?t) (nwi_other_af b) n =
             nwi_state_get_ifstate_with_name (Some s) (nwi_other_af b) n" for n
      using append_new_lookup [OF assms(1,2,4) valid_other_af [of b] assms(5,6), of n] True by simp
    show ?thesis
      unfolding l append_new_frame nm unfolding ent using True old no by (auto split: option.split)
  next
    case False
    with assms(4) b have ob: "nwi_other_af b = a" "nwi_other_af a = b" by (auto simp: valid_af_def)
    have ib: "i < nwi_state_get_ifstate_count s b" using i assms(4) b False by simp
    have db: "distinct (map ifs_name (nwi_entries s b))" using assms(2) b by (simp add: nwi_names_def)
    have wo: "?wo = Some (nwi_state_ifstate_list s b + i) \<longleftrightarrow> ifs_name (nwi_ent s b i) = take 15 nm"
    proof
      assume "?wo = Some (nwi_state_ifstate_list s b + i)"
      then obtain j where "nwi_state_ifstate_list s b + i = nwi_state_ifstate_list s b + j"
        "ifs_name (nwi_ent s b j) = take 15 nm"
        using with_name_SomeD [OF assms(1) valid_other_af] ob by metis
      then show "ifs_name (nwi_ent s b i) = take 15 nm" by simp
    next
      assume "ifs_name (nwi_ent s b i) = take 15 nm"
      then show "?wo = Some (nwi_state_ifstate_list s b + i)"
        using with_name_SomeI [OF assms(1) b db ib] ob by simp
    qed
    have old: "ifs_alias (nwi_ent s b i) =
       (case nwi_state_get_ifstate_with_name (Some s) a (ifs_name (nwi_ent s b i)) of
          None \<Rightarrow> 0 | Some q \<Rightarrow> int q - int (nwi_state_ifstate_list s b + i))"
      using assms(3) ib b ob by (simp add: nwi_alias_ok_def)
    have l: "nwi_state_get_ifstate_with_name (Some ?t) (nwi_other_af b) n =
        (if n = take 15 nm then Some (nwi_state_ifstate_list s a + ?c)
         else nwi_state_get_ifstate_with_name (Some s) a n)" for n
      using append_new_lookup [OF assms(1,2,4) assms(4) assms(5,6)] ob by simp
    show ?thesis
      unfolding l append_new_frame nm unfolding ent using False old wo by simp
  qed
qed

theorem append_new_inv:
  assumes "nwi_inv s" "valid_af a" "nwi_state_get_ifstate_count s a < max_if_count s"
    and "take 15 nm \<notin> ifs_name ` set (nwi_entries s a)"
  shows "nwi_inv (nwi_append_new s nm a)"
  using assms append_new_names append_new_last append_new_alias by (simp add: nwi_inv_def)

end
