(* ===== verification/NwiProps.thy ===== *)
theory NwiProps
  imports NwiInv
begin

unbundle bit_operations_syntax

text \<open>
  What the state operations of NwiState promise: adding an entry, the alias links, the
  merged interface list against a merge by rank, growing a state.
\<close>

section \<open>Adding an entry\<close>

lemma alloc_simps [simp]:
  "max_if_count (nwi_state_alloc n) = n" "ipv4_count (nwi_state_alloc n) = 0"
  "ipv6_count (nwi_state_alloc n) = 0" "nwi_state_get_ifstate_count (nwi_state_alloc n) a = 0"
  "length (ifstate_list (nwi_state_alloc n)) = 2 * n" "length (if_list (nwi_state_alloc n)) = n"
  "nwi_state_ifstate_list (nwi_state_alloc n) a = (if a = AF_INET then 0 else n)"
  by (simp_all add: nwi_state_alloc_def nwi_state_get_ifstate_count_def nwi_state_ifstate_list_def)

lemma entries_empty: "nwi_state_get_ifstate_count s a = 0 \<Longrightarrow> nwi_entries s a = []"
  by (simp add: nwi_entries_def)

lemma alloc_inv: "n < 2 ^ 30 \<Longrightarrow> nwi_inv (nwi_state_alloc n)"
  by (simp add: nwi_inv_def nwi_mem_def nwi_names_def nwi_alias_ok_def nwi_last_ok_def entries_empty)

lemma add_ifstate_inv:
  assumes "nwi_inv s" "valid_af a" "length nm \<le> 15"
  shows "nwi_inv (fst (nwi_state_add_ifstate s nm a fl rk ifa vpn reach))"
proof (cases "nwi_state_get_ifstate_with_name (Some s) a nm")
  case None
  have mem: "nwi_mem s" using assms by (simp add: nwi_inv_def)
  have fresh: "take 15 nm \<notin> ifs_name ` set (nwi_entries s a)"
    using None with_name_None_set [OF mem assms(2)] assms(3) by simp
  show ?thesis
  proof (cases "nwi_state_get_ifstate_count s a = max_if_count s")
    case False
    then have "nwi_state_get_ifstate_count s a < max_if_count s"
      using count_le_max [OF mem, of a] by simp
    then show ?thesis
      using None False append_new_inv [OF assms(1,2) _ fresh]
      by (simp add: nwi_state_add_ifstate_def Let_def upd_slot_fill_inv)
  qed (use None assms(1) in \<open>simp add: nwi_state_add_ifstate_def Let_def\<close>)
next
  case (Some p)
  then show ?thesis using assms(1) by (simp add: nwi_state_add_ifstate_def upd_slot_fill_inv)
qed

text \<open>
  C1. Adding an interface keeps a state well formed: names stay unique within a family, the
  counters stay within the allocation, every alias offset leads to the entry of the other
  family with the same name, and exactly the last entry of a family carries the last-item
  flag. The interface name has to fit \<open>ifname\<close>, as every BSD name does.
\<close>

theorem nwi_state_add_ifstate_inv:
  assumes "nwi_inv s" "valid_af a" "length nm \<le> 15"
  shows "nwi_inv (fst (nwi_state_add_ifstate s nm a fl rk ifa vpn reach))"
  using assms by (rule add_ifstate_inv)

theorem nwi_state_add_ifstate_inv_witness:
  "nwi_inv (fst (nwi_state_add_ifstate (nwi_state_alloc 2) ''en0'' AF_INET 0 1 None None 2))"
  by (rule nwi_state_add_ifstate_inv) (simp_all add: alloc_inv)

text \<open>
  The alias link is the lookup: from any entry of a well-formed state, following
  \<open>nwi_ifstate_get_alias\<close> to the other family gives the entry that a search by name in that
  family finds, and no entry exactly when the search finds none.
\<close>

theorem nwi_ifstate_get_alias_lookup:
  assumes "nwi_inv s" "valid_af a" "i < nwi_state_get_ifstate_count s a"
  shows "nwi_ifstate_get_alias s (nwi_state_ifstate_list s a + i) (nwi_other_af a) =
    map_option int (nwi_state_get_ifstate_with_name (Some s) (nwi_other_af a)
      (ifs_name (ifstate_list s ! (nwi_state_ifstate_list s a + i))))"
proof -
  let ?p = "nwi_state_ifstate_list s a + i"
  let ?w = "nwi_state_get_ifstate_with_name (Some s) (nwi_other_af a) (ifs_name (nwi_ent s a i))"
  have mem: "nwi_mem s" using assms(1) by (simp add: nwi_inv_def)
  have "nwi_ent s a i \<in> set (nwi_entries s a)" using assms(3) mem by (simp add: entries_conv)
  then have af: "ifs_af (nwi_ent s a i) = a"
    using assms(1,2) by (auto simp: nwi_inv_def nwi_names_def)
  have al: "ifs_alias (nwi_ent s a i) = (case ?w of None \<Rightarrow> 0 | Some q \<Rightarrow> int q - int ?p)"
    using assms by (simp add: nwi_inv_def nwi_alias_ok_def)
  show ?thesis
  proof (cases ?w)
    case (Some q)
    then obtain j where "q = nwi_state_ifstate_list s (nwi_other_af a) + j"
      "j < nwi_state_get_ifstate_count s (nwi_other_af a)"
      using with_name_SomeD [OF mem valid_other_af] by metis
    then have "q \<noteq> ?p"
      using slot_inj [OF assms(2) valid_other_af [of a], of i s j] assms(3)
        count_le_max [OF mem, of a] count_le_max [OF mem, of "nwi_other_af a"] by auto
    then show ?thesis using Some al af by (simp add: nwi_ifstate_get_alias_def)
  qed (use al af in \<open>simp add: nwi_ifstate_get_alias_def\<close>)
qed

definition nwi_two_families :: nwi_state where
  "nwi_two_families =
     fst (nwi_state_add_ifstate
       (fst (nwi_state_add_ifstate (nwi_state_alloc 2) ''en0'' AF_INET 0 1 None None 2))
       ''en0'' AF_INET6 0 1 None None 2)"

lemma nwi_two_families_inv: "nwi_inv nwi_two_families"
  unfolding nwi_two_families_def
  by (intro add_ifstate_inv) (simp_all add: alloc_inv)

lemma nwi_two_families_count: "nwi_state_get_ifstate_count nwi_two_families AF_INET = 1"
  by code_simp

theorem nwi_ifstate_get_alias_lookup_witness:
  "nwi_ifstate_get_alias nwi_two_families (nwi_state_ifstate_list nwi_two_families AF_INET + 0)
     (nwi_other_af AF_INET) =
   map_option int (nwi_state_get_ifstate_with_name (Some nwi_two_families) (nwi_other_af AF_INET)
     (ifs_name (ifstate_list nwi_two_families ! (nwi_state_ifstate_list nwi_two_families AF_INET + 0))))"
  by (rule nwi_ifstate_get_alias_lookup)
    (simp_all add: nwi_two_families_inv nwi_two_families_count)

lemma add_ifstate_appends:
  assumes "nwi_inv s" "valid_af a" "length nm \<le> 15"
    and "nwi_state_get_ifstate_with_name (Some s) a nm = None"
    and "nwi_state_get_ifstate_count s a \<noteq> max_if_count s"
    and "nwi_state_add_ifstate s nm a fl rk ifa vpn reach = (t, r)"
  shows "map ifs_name (nwi_entries t a) = map ifs_name (nwi_entries s a) @ [nm]"
    and "map ifs_name (nwi_entries t (nwi_other_af a)) = map ifs_name (nwi_entries s (nwi_other_af a))"
    and "r = Some (nwi_state_ifstate_list s a + nwi_state_get_ifstate_count s a)"
    and "ifs_rank (ifstate_list t ! the r) = rk" "ifs_reach (ifstate_list t ! the r) = reach"
    and "ifs_flags (ifstate_list t ! the r) AND NWI_IFSTATE_FLAGS_MASK = fl AND NWI_IFSTATE_FLAGS_MASK"
proof -
  have mem: "nwi_mem s" using assms by (simp add: nwi_inv_def)
  have room: "nwi_state_get_ifstate_count s a < max_if_count s"
    using count_le_max [OF mem, of a] assms(5) by simp
  let ?p = "nwi_state_ifstate_list s a + nwi_state_get_ifstate_count s a"
  let ?n = "nwi_append_new s nm a" and ?f = "nwi_fill_ifstate a fl rk ifa vpn reach"
  have t: "t = upd_slot ?n ?p ?f" and r: "r = Some ?p"
    using assms(4-6) by (auto simp: nwi_state_add_ifstate_def Let_def last_slot)
  have mn: "nwi_mem ?n" using mem assms(2) room by simp
  have len: "?p < length (ifstate_list ?n)"
    using mn slot_less [OF assms(2) room] by (simp add: nwi_mem_def)
  have fr: "ifs_name (ifstate_list (upd_slot ?n ?p ?f) ! q) = ifs_name (ifstate_list ?n ! q)" for q
    using len by (simp add: upd_slot_nth)
  have names: "map ifs_name (nwi_entries t b) = map ifs_name (nwi_entries ?n b)" for b
    using mn by (simp add: t entries_conv fr)
  show "map ifs_name (nwi_entries t a) = map ifs_name (nwi_entries s a) @ [nm]"
    using append_new_entries_names [OF mem assms(2,2) room, of nm] assms(3) by (simp add: names)
  show "map ifs_name (nwi_entries t (nwi_other_af a)) = map ifs_name (nwi_entries s (nwi_other_af a))"
    using append_new_entries_names [OF mem assms(2) valid_other_af [of a] room, of nm] by (simp add: names)
  show "r = Some ?p" by (rule r)
  have e: "ifstate_list t ! the r = ?f (ifstate_list ?n ! ?p)" using len by (simp add: t r upd_slot_nth)
  show "ifs_rank (ifstate_list t ! the r) = rk" "ifs_reach (ifstate_list t ! the r) = reach"
    by (simp_all add: e)
  show "ifs_flags (ifstate_list t ! the r) AND NWI_IFSTATE_FLAGS_MASK = fl AND NWI_IFSTATE_FLAGS_MASK"
    by (simp add: e nwi_fill_ifstate_def Let_def bit.conj_disj_distrib2 and.assoc)
qed

text \<open>
  C36. What adding does to a well-formed state. A name the family does not have, with a slot
  free, is appended with its rank, reachability and caller flags, and the new slot is
  returned; the other family keeps its names. A family that is full, and an existing entry of
  better rank, leave the state as it was and return nothing.
\<close>

theorem nwi_state_add_ifstate_effect:
  assumes "nwi_inv s" "valid_af a" "length nm \<le> 15"
  shows "case (nwi_state_get_ifstate_with_name (Some s) a nm, nwi_state_add_ifstate s nm a fl rk ifa vpn reach) of
      (None, (t, None)) \<Rightarrow> nwi_state_get_ifstate_count s a = max_if_count s \<and> t = s
    | (None, (t, Some p)) \<Rightarrow>
        map ifs_name (nwi_entries t a) = map ifs_name (nwi_entries s a) @ [nm] \<and>
        map ifs_name (nwi_entries t (nwi_other_af a)) = map ifs_name (nwi_entries s (nwi_other_af a)) \<and>
        p = nwi_state_ifstate_list s a + nwi_state_get_ifstate_count s a \<and>
        ifs_rank (ifstate_list t ! p) = rk \<and> ifs_reach (ifstate_list t ! p) = reach \<and>
        ifs_flags (ifstate_list t ! p) AND NWI_IFSTATE_FLAGS_MASK = fl AND NWI_IFSTATE_FLAGS_MASK
    | (Some q, (t, None)) \<Rightarrow> ifs_rank (ifstate_list s ! q) < rk \<and> t = s
    | (Some q, (t, Some p)) \<Rightarrow> p = q \<and> \<not> ifs_rank (ifstate_list s ! q) < rk"
proof (cases "nwi_state_get_ifstate_with_name (Some s) a nm")
  case None
  obtain t r where tr: "nwi_state_add_ifstate s nm a fl rk ifa vpn reach = (t, r)" by fastforce
  show ?thesis
  proof (cases "nwi_state_get_ifstate_count s a = max_if_count s")
    case True
    then show ?thesis using None by (simp add: nwi_state_add_ifstate_def Let_def)
  next
    case False
    from add_ifstate_appends [OF assms None False tr] show ?thesis
      using None by (simp add: tr)
  qed
qed (simp add: nwi_state_add_ifstate_def)

theorem nwi_state_add_ifstate_effect_witness:
  "case (nwi_state_get_ifstate_with_name (Some nwi_two_families) AF_INET ''en1'',
         nwi_state_add_ifstate nwi_two_families ''en1'' AF_INET 0 7 None None 2) of
      (None, (t, None)) \<Rightarrow> nwi_state_get_ifstate_count nwi_two_families AF_INET = max_if_count nwi_two_families \<and> t = nwi_two_families
    | (None, (t, Some p)) \<Rightarrow>
        map ifs_name (nwi_entries t AF_INET) = map ifs_name (nwi_entries nwi_two_families AF_INET) @ [''en1''] \<and>
        map ifs_name (nwi_entries t (nwi_other_af AF_INET)) = map ifs_name (nwi_entries nwi_two_families (nwi_other_af AF_INET)) \<and>
        p = nwi_state_ifstate_list nwi_two_families AF_INET + nwi_state_get_ifstate_count nwi_two_families AF_INET \<and>
        ifs_rank (ifstate_list t ! p) = 7 \<and> ifs_reach (ifstate_list t ! p) = 2 \<and>
        ifs_flags (ifstate_list t ! p) AND NWI_IFSTATE_FLAGS_MASK = 0 AND NWI_IFSTATE_FLAGS_MASK
    | (Some q, (t, None)) \<Rightarrow> ifs_rank (ifstate_list nwi_two_families ! q) < 7 \<and> t = nwi_two_families
    | (Some q, (t, Some p)) \<Rightarrow> p = q \<and> \<not> ifs_rank (ifstate_list nwi_two_families ! q) < 7"
  by (rule nwi_state_add_ifstate_effect [OF nwi_two_families_inv]) simp_all

section \<open>The merged interface list\<close>

text \<open>A merge of two slot lists by rank, the first list winning ties.\<close>

fun rank_merge :: "(nat \<Rightarrow> uint32) \<Rightarrow> nat list \<Rightarrow> nat list \<Rightarrow> nat list" where
  "rank_merge rk [] qs = qs"
| "rank_merge rk ps [] = ps"
| "rank_merge rk (p # ps) (q # qs) =
     (if rk p \<le> rk q then p # rank_merge rk ps (q # qs) else q # rank_merge rk (p # ps) qs)"

definition nwi_slots :: "nwi_state \<Rightarrow> nat \<Rightarrow> nat \<Rightarrow> nat list" where
  "nwi_slots s a i = map (\<lambda>j. nwi_state_ifstate_list s a + j) [i..<nwi_state_get_ifstate_count s a]"

definition nwi_rank_order :: "nwi_state \<Rightarrow> nat list" where
  "nwi_rank_order s = rank_merge (\<lambda>p. ifs_rank (ifstate_list s ! p)) (nwi_slots s AF_INET 0) (nwi_slots s AF_INET6 0)"

definition nwi_listed :: "nwi_state \<Rightarrow> nat \<Rightarrow> bool" where
  "nwi_listed s p \<longleftrightarrow> ifs_flags (ifstate_list s ! p) AND NWI_IFSTATE_FLAGS_NOT_IN_IFLIST = 0"

lemma nwi_slots_Cons:
  "i < nwi_state_get_ifstate_count s a \<Longrightarrow>
   nwi_slots s a i = (nwi_state_ifstate_list s a + i) # nwi_slots s a (Suc i)"
  by (simp add: nwi_slots_def upt_conv_Cons)

lemma nwi_slots_Nil: "nwi_state_get_ifstate_count s a \<le> i \<Longrightarrow> nwi_slots s a i = []"
  by (simp add: nwi_slots_def)

lemma rank_merge_Nil2 [simp]: "rank_merge rk ps [] = ps"
  by (cases ps) simp_all

lemma nwi_slots_cases:
  assumes "valid_af a" "nwi_state_get_ifstate_count s a \<le> max_if_count s"
  shows "nwi_slots s a i = (case nwi_state_get_ifstate_with_index s a i of
           None \<Rightarrow> [] | Some p \<Rightarrow> p # nwi_slots s a (Suc i))"
  using assms by (cases "i < nwi_state_get_ifstate_count s a")
    (simp_all add: with_index with_index_None nwi_slots_Cons nwi_slots_Nil)

lemma slots_add_to_if_list [simp]:
  "nwi_slots (nwi_state_add_to_if_list s p) a i = nwi_slots s a i"
  "nwi_state_get_ifstate_count (nwi_state_add_to_if_list s p) a = nwi_state_get_ifstate_count s a"
  by (simp_all add: nwi_slots_def nwi_state_get_ifstate_count_def nwi_state_ifstate_list_def nwi_simps)

text \<open>The loop visits the slots in rank order.\<close>

lemma merge_if_list_fold:
  assumes "ipv4_count s \<le> max_if_count s" "ipv6_count s \<le> max_if_count s"
  shows "nwi_merge_if_list s v4 v6 =
    fold (\<lambda>p t. nwi_state_add_to_if_list t p)
      (rank_merge (\<lambda>p. ifs_rank (ifstate_list s ! p)) (nwi_slots s AF_INET v4) (nwi_slots s AF_INET6 v6)) s"
  using assms
proof (induction s v4 v6 rule: nwi_merge_if_list.induct)
  case (1 s v4 v6)
  have c: "nwi_state_get_ifstate_count s AF_INET \<le> max_if_count s"
    "nwi_state_get_ifstate_count s AF_INET6 \<le> max_if_count s"
    using "1.prems" by (simp_all add: nwi_state_get_ifstate_count_def)
  note sl = nwi_slots_cases [OF _ c(1), of v4] nwi_slots_cases [OF _ c(2), of v6]
  show ?case
    using 1 sl
    by (subst nwi_merge_if_list.simps) (auto simp: nwi_simps split: option.splits)
qed

definition nwi_list_names :: "nwi_state \<Rightarrow> string list" where
  "nwi_list_names s = map (\<lambda>p. ifs_name (ifstate_list s ! p)) (take (if_list_count s) (if_list s))"

lemma add_to_if_list_names:
  assumes "length (if_list s) = max_if_count s" "if_list_count s \<le> max_if_count s"
  shows "if_list_count (nwi_state_add_to_if_list s p) \<le> max_if_count s"
    and "nwi_list_names (nwi_state_add_to_if_list s p) =
      (if nwi_listed s p \<and> if_list_count s < max_if_count s \<and> ifs_name (ifstate_list s ! p) \<notin> set (nwi_list_names s)
       then nwi_list_names s @ [ifs_name (ifstate_list s ! p)] else nwi_list_names s)"
  using assms
  by (auto simp: nwi_state_add_to_if_list_def Let_def nwi_list_names_def nwi_listed_def list_ex_iff
      take_Suc_conv_app_nth image_iff) metis

text \<open>
  The list after visiting \<open>ps\<close>: the names of the listed entries, first occurrences only, cut
  at the capacity of the list.
\<close>

lemma fold_add_to_if_list:
  fixes s :: nwi_state
  assumes "length (if_list s) = max_if_count s" "if_list_count s = 0"
  defines "t ps \<equiv> fold (\<lambda>p t. nwi_state_add_to_if_list t p) ps s"
  shows "nwi_list_names (t ps) = take (max_if_count s)
           (remdups_first (map (\<lambda>p. ifs_name (ifstate_list s ! p)) (filter (nwi_listed s) ps))) \<and>
         if_list_count (t ps) \<le> max_if_count s \<and> ifstate_list (t ps) = ifstate_list s \<and>
         max_if_count (t ps) = max_if_count s \<and> length (if_list (t ps)) = max_if_count s"
proof (induction ps rule: rev_induct)
  case Nil
  then show ?case using assms by (simp add: nwi_list_names_def)
next
  case (snoc p ps)
  let ?u = "t ps" and ?ns = "remdups_first (map (\<lambda>p. ifs_name (ifstate_list s ! p)) (filter (nwi_listed s) ps))"
  have step: "t (ps @ [p]) = nwi_state_add_to_if_list ?u p" by (simp add: t_def)
  have li: "nwi_listed ?u p = nwi_listed s p" using snoc.IH by (simp add: nwi_listed_def)
  have cnt: "if_list_count ?u = length (nwi_list_names ?u)"
    using snoc.IH by (simp add: nwi_list_names_def)
  have sub: "if_list_count ?u < max_if_count s \<Longrightarrow> nwi_list_names ?u = ?ns"
    using snoc.IH cnt by auto
  note names = add_to_if_list_names [of ?u p]
  show ?case
  proof (cases "nwi_listed s p \<and> if_list_count ?u < max_if_count s")
    case True
    then have "length ?ns < max_if_count s" using sub cnt by simp
    then show ?thesis
      using True snoc.IH names li sub
      by (auto simp: step remdups_first_snoc nwi_simps)
  next
    case False
    have "nwi_listed s p \<Longrightarrow> max_if_count s \<le> length ?ns"
      using False snoc.IH cnt by auto
    then show ?thesis
      using False snoc.IH names li
      by (auto simp: step remdups_first_snoc nwi_simps)
  qed
qed

lemma set_if_list_fold:
  assumes "nwi_mem s"
  shows "nwi_state_set_if_list s =
    fold (\<lambda>p t. nwi_state_add_to_if_list t p) (nwi_rank_order s) (s\<lparr>if_list_count := 0\<rparr>)"
proof -
  have f: "nwi_slots (s\<lparr>if_list_count := 0\<rparr>) a i = nwi_slots s a i" for a i
    by (simp add: nwi_slots_def nwi_state_ifstate_list_def nwi_state_get_ifstate_count_def)
  show ?thesis
    using assms merge_if_list_fold [of "s\<lparr>if_list_count := 0\<rparr>" 0 0]
    by (simp add: nwi_state_set_if_list_def nwi_rank_order_def f nwi_mem_def)
qed

text \<open>
  Finalizing a state builds the merged interface list as the rank merge of the IPv4 and
  IPv6 entries promises: the interfaces in order of rank, IPv4 first on ties, without the
  entries flagged as not in the list, every name once at its best position, cut at the
  \<open>max_if_count\<close> slots the list has; the entries themselves are not touched.
\<close>

theorem nwi_state_finalize_merge:
  assumes "nwi_mem s" "nwi_state_finalize (Some s) = Some t"
  shows "nwi_list_names t = take (max_if_count s) (remdups_first
           (map (\<lambda>p. ifs_name (ifstate_list s ! p)) (filter (nwi_listed s) (nwi_rank_order s)))) \<and>
         ifstate_list t = ifstate_list s"
proof -
  have t: "t = nwi_state_set_if_list s" using assms(2) by (simp add: nwi_state_finalize_def)
  have l: "nwi_listed (s\<lparr>if_list_count := 0\<rparr>) = nwi_listed s" by (auto simp: nwi_listed_def)
  show ?thesis
    using fold_add_to_if_list [of "s\<lparr>if_list_count := 0\<rparr>" "nwi_rank_order s"] assms(1)
    by (simp add: t set_if_list_fold nwi_mem_def l)
qed

theorem nwi_state_finalize_merge_witness:
  "nwi_list_names (nwi_state_set_if_list nwi_two_families) = take (max_if_count nwi_two_families) (remdups_first
     (map (\<lambda>p. ifs_name (ifstate_list nwi_two_families ! p))
       (filter (nwi_listed nwi_two_families) (nwi_rank_order nwi_two_families)))) \<and>
   ifstate_list (nwi_state_set_if_list nwi_two_families) = ifstate_list nwi_two_families"
  using nwi_two_families_inv
  by (intro nwi_state_finalize_merge) (simp_all add: nwi_inv_def nwi_state_finalize_def)

end
