(* ===== verification/NwiGrow.thy ===== *)
theory NwiGrow
  imports NwiProps
begin

unbundle bit_operations_syntax

text \<open>
  Growing a state with \<open>nwi_state_new\<close>: the entries move with the array, the alias offsets are
  corrected by the distance the IPv6 entries moved.
\<close>

section \<open>Moving entries\<close>

lemma copy_slots_length [simp]:
  "d + n \<le> length dst \<Longrightarrow> b + n \<le> length src \<Longrightarrow> length (copy_slots dst d src b n) = length dst"
  by (simp add: copy_slots_def)

lemma copy_slots_nth:
  assumes "d + n \<le> length dst" "b + n \<le> length src" "i < length dst"
  shows "copy_slots dst d src b n ! i = (if d \<le> i \<and> i < d + n then src ! (b + (i - d)) else dst ! i)"
proof -
  have "length (take n (drop b src)) = n" "length (take d dst) = d" using assms by simp_all
  then show ?thesis using assms by (auto simp: copy_slots_def nth_append simp del: length_take)
qed

lemma copy_slots_0 [simp]: "d \<le> length dst \<Longrightarrow> copy_slots dst d src b 0 = dst"
  by (simp add: copy_slots_def)

lemma fold_upd_slot:
  fixes f :: "nwi_ifstate \<Rightarrow> nwi_ifstate"
  assumes "b + k \<le> length (ifstate_list s)"
  defines "t \<equiv> fold (\<lambda>i t. upd_slot t (b + i) f) [0..<k] s"
  shows "ifstate_list t ! q = (if b \<le> q \<and> q < b + k then f (ifstate_list s ! q) else ifstate_list s ! q) \<and>
    max_if_count t = max_if_count s \<and> ipv4_count t = ipv4_count s \<and> ipv6_count t = ipv6_count s \<and>
    if_list t = if_list s \<and> length (ifstate_list t) = length (ifstate_list s)"
  using assms(1) unfolding t_def
proof (induction k arbitrary: q)
  case (Suc k)
  let ?u = "fold (\<lambda>i t. upd_slot t (b + i) f) [0..<k] s"
  from Suc have l: "b + k < length (ifstate_list ?u)" by simp
  have u: "ifstate_list ?u ! q = (if b \<le> q \<and> q < b + k then f (ifstate_list s ! q) else ifstate_list s ! q)" for q
    using Suc by simp
  show ?case using Suc.prems Suc.IH l by (auto simp: upd_slot_nth u)
qed auto

text \<open>The search after a move: the same entry, at its new slot.\<close>

lemma with_name_move:
  assumes mem: "nwi_mem s" "nwi_mem t" and a: "valid_af a"
    and names: "distinct (map ifs_name (nwi_entries s a))"
    and cnt: "nwi_state_get_ifstate_count t a = nwi_state_get_ifstate_count s a"
    and ent: "\<And>i. i < nwi_state_get_ifstate_count s a \<Longrightarrow> ifs_name (nwi_ent t a i) = ifs_name (nwi_ent s a i)"
  shows "nwi_state_get_ifstate_with_name (Some t) a nm =
    map_option (\<lambda>q. nwi_state_ifstate_list t a + (q - nwi_state_ifstate_list s a))
      (nwi_state_get_ifstate_with_name (Some s) a nm)"
proof (cases "nwi_state_get_ifstate_with_name (Some s) a nm")
  case None
  then have "nwi_state_get_ifstate_with_name (Some t) a nm = None"
    using with_name_None_iff [OF mem(1) a] with_name_None_iff [OF mem(2) a] cnt ent by simp
  with None show ?thesis by simp
next
  case (Some q)
  then obtain i where i: "i < nwi_state_get_ifstate_count s a" "q = nwi_state_ifstate_list s a + i"
    "ifs_name (nwi_ent s a i) = nm" using with_name_SomeD [OF mem(1) a] by metis
  have "map ifs_name (nwi_entries t a) = map ifs_name (nwi_entries s a)"
    using cnt ent by (simp add: entries_conv mem)
  then have "distinct (map ifs_name (nwi_entries t a))" using names by simp
  from with_name_SomeI [OF mem(2) a this, of i] show ?thesis using i ent cnt Some by simp
qed

text \<open>
  A state whose entries are those of a well-formed state, moved, with aliases corrected, is
  well formed.
\<close>

lemma nwi_inv_move:
  assumes inv: "nwi_inv s" and mem: "nwi_mem t"
    and cnt: "\<And>a. nwi_state_get_ifstate_count t a = nwi_state_get_ifstate_count s a"
    and ent: "\<And>a i. valid_af a \<Longrightarrow> i < nwi_state_get_ifstate_count s a \<Longrightarrow>
      nwi_ent t a i = (nwi_ent s a i)\<lparr>ifs_alias :=
        (if ifs_alias (nwi_ent s a i) = 0 then 0
         else ifs_alias (nwi_ent s a i)
           + (int (nwi_state_ifstate_list t (nwi_other_af a)) - int (nwi_state_ifstate_list s (nwi_other_af a)))
           - (int (nwi_state_ifstate_list t a) - int (nwi_state_ifstate_list s a)))\<rparr>"
  shows "nwi_inv t"
proof -
  have ms: "nwi_mem s" using inv by (simp add: nwi_inv_def)
  have names: "map ifs_name (nwi_entries t a) = map ifs_name (nwi_entries s a)"
    "map ifs_af (nwi_entries t a) = map ifs_af (nwi_entries s a)" if "valid_af a" for a
    using that cnt ent by (simp_all add: entries_conv mem ms)
  have nn: "nwi_names t"
    unfolding nwi_names_def
  proof (intro allI impI)
    fix a assume a: "valid_af a"
    have "ifs_name ` set (nwi_entries t a) = ifs_name ` set (nwi_entries s a)"
      "ifs_af ` set (nwi_entries t a) = ifs_af ` set (nwi_entries s a)"
      using names [OF a] by (metis set_map)+
    then have "\<forall>e\<in>set (nwi_entries t a). ifs_af e = a \<and> length (ifs_name e) \<le> 15"
      using inv a unfolding nwi_inv_def nwi_names_def by (metis (no_types, lifting) imageE imageI)
    then show "distinct (map ifs_name (nwi_entries t a)) \<and>
        (\<forall>e\<in>set (nwi_entries t a). ifs_af e = a \<and> length (ifs_name e) \<le> 15)"
      using inv a names(1) [OF a] by (simp add: nwi_inv_def nwi_names_def)
  qed
  have al: "nwi_alias_ok t"
    unfolding nwi_alias_ok_def
  proof (intro allI impI)
    fix a i assume a: "valid_af a" and "i < nwi_state_get_ifstate_count t a"
    then have i: "i < nwi_state_get_ifstate_count s a" by (simp add: cnt)
    let ?o = "nwi_other_af a" and ?nm = "ifs_name (nwi_ent s a i)"
    have old: "ifs_alias (nwi_ent s a i) = (case nwi_state_get_ifstate_with_name (Some s) ?o ?nm of
        None \<Rightarrow> 0 | Some q \<Rightarrow> int q - int (nwi_state_ifstate_list s a + i))"
      using inv a i by (simp add: nwi_inv_def nwi_alias_ok_def)
    have mv: "nwi_state_get_ifstate_with_name (Some t) ?o ?nm =
      map_option (\<lambda>q. nwi_state_ifstate_list t ?o + (q - nwi_state_ifstate_list s ?o))
        (nwi_state_get_ifstate_with_name (Some s) ?o ?nm)"
      using inv ent cnt by (intro with_name_move [OF ms mem]) (simp_all add: nwi_inv_def nwi_names_def)
    show "ifs_alias (nwi_ent t a i) =
       (case nwi_state_get_ifstate_with_name (Some t) ?o (ifs_name (nwi_ent t a i)) of
          None \<Rightarrow> 0 | Some q \<Rightarrow> int q - int (nwi_state_ifstate_list t a + i))"
    proof (cases "nwi_state_get_ifstate_with_name (Some s) ?o ?nm")
      case None
      then show ?thesis using old mv ent [OF a i] by simp
    next
      case (Some q)
      then obtain j where j: "j < nwi_state_get_ifstate_count s ?o" "q = nwi_state_ifstate_list s ?o + j"
        using with_name_SomeD [OF ms valid_other_af] by metis
      have "nwi_state_ifstate_list s a + i \<noteq> q"
        using slot_inj [OF a valid_other_af [of a], of i s j] i j
          count_le_max [OF ms, of a] count_le_max [OF ms, of ?o] by auto
      then show ?thesis using old mv ent [OF a i] Some j by simp
    qed
  qed
  have "nwi_last_ok t"
    using inv ent cnt by (simp add: nwi_inv_def nwi_last_ok_def)
  with nn al mem show ?thesis by (simp add: nwi_inv_def)
qed

section \<open>Growing a state\<close>

lemma fix_offset:
  assumes "m \<le> n" "n < 2 ^ 30"
  shows "uint ((word_of_nat n :: uint32) - word_of_nat m) = int n - int m"
proof -
  have e: "(word_of_nat n :: uint32) - word_of_nat m = word_of_nat (n - m)"
    using assms(1) by (simp add: of_nat_diff)
  have "uint (word_of_nat (n - m) :: uint32) = int (n - m)"
    using assms by (simp add: unsigned_of_nat take_bit_nat_eq_self del: of_nat_diff)
  then show ?thesis unfolding e using assms(1) by simp
qed

text \<open>The grown array before the offsets are corrected.\<close>

definition grow_raw :: "nwi_state \<Rightarrow> nat \<Rightarrow> nwi_state" where
  "grow_raw old n = (nwi_state_alloc n)\<lparr>ipv6_count := ipv6_count old, ipv4_count := ipv4_count old,
     ifstate_list := copy_slots (copy_slots (replicate (2 * n) zero_ifstate) n (ifstate_list old)
                       (max_if_count old) (ipv6_count old)) 0 (ifstate_list old) 0 (ipv4_count old)\<rparr>"

lemma nwi_state_new_grow:
  assumes "max_if_count old < n" "ipv6_count old \<le> max_if_count old"
  shows "nwi_state_new (Some old) n =
    Some (nwi_state_set_if_list (nwi_state_fix_af_aliases (grow_raw old n) (max_if_count old)))"
  using assms by (simp add: nwi_state_new_def Let_def grow_raw_def nwi_state_alloc_def)

lemma grow_raw_ent:
  assumes "nwi_mem old" "max_if_count old < n" "valid_af a" "i < nwi_state_get_ifstate_count old a"
  shows "ifstate_list (grow_raw old n) ! ((if a = AF_INET then 0 else n) + i) = nwi_ent old a i"
  using assms by (auto simp: valid_af_def grow_raw_def copy_slots_nth nwi_mem_def
      nwi_state_get_ifstate_count_def nwi_state_ifstate_list_def)

lemma fix_af_aliases_slots:
  assumes mem: "nwi_mem s" and le: "m \<le> max_if_count s"
  defines "t \<equiv> nwi_state_fix_af_aliases s m"
  defines "sh \<equiv> (\<lambda>d e. if ifs_alias e \<noteq> 0 then e\<lparr>ifs_alias := to_ifindex (ifs_alias e + d)\<rparr> else e)"
  shows "ifstate_list t ! q =
      (if max_if_count s \<le> q \<and> q < max_if_count s + ipv6_count s
       then sh (int m - int (max_if_count s)) (ifstate_list s ! q)
       else if q < ipv4_count s then sh (int (max_if_count s) - int m) (ifstate_list s ! q)
       else ifstate_list s ! q)"
    and "max_if_count t = max_if_count s" "if_list t = if_list s"
    and "length (ifstate_list t) = length (ifstate_list s)"
    and "nwi_state_get_ifstate_count t b = nwi_state_get_ifstate_count s b"
proof -
  let ?d = "int (max_if_count s) - int m" and ?M = "max_if_count s"
  let ?s4 = "fold (\<lambda>i t. upd_slot t (0 + i) (sh ?d)) [0..<ipv4_count s] s"
  have off: "uint ((word_of_nat ?M :: uint32) - word_of_nat m) = ?d"
    using fix_offset [OF le] mem by (simp add: nwi_mem_def)
  have len: "0 + ipv4_count s \<le> length (ifstate_list s)" "?M + ipv6_count s \<le> length (ifstate_list s)"
    using mem by (simp_all add: nwi_mem_def)
  note f4 = fold_upd_slot [OF len(1), where f = "sh ?d"]
  have neg: "- ?d = int m - int ?M" by simp
  have t: "t = fold (\<lambda>i t. upd_slot t (?M + i) (sh (- ?d))) [0..<ipv6_count s] ?s4"
    using le by (simp add: t_def sh_def nwi_state_fix_af_aliases_def off Let_def nwi_state_ifstate_list_def algebra_simps cong: if_cong)
  have "?M + ipv6_count s \<le> length (ifstate_list ?s4)" using f4 len by metis
  note f6 = fold_upd_slot [OF this, where f = "sh (- ?d)", folded t, unfolded neg]
  show "max_if_count t = max_if_count s" "if_list t = if_list s"
    "length (ifstate_list t) = length (ifstate_list s)"
    "nwi_state_get_ifstate_count t b = nwi_state_get_ifstate_count s b"
    using f4 f6 by (simp_all add: nwi_state_get_ifstate_count_def)
  have c: "ipv4_count s \<le> ?M" using mem by (simp add: nwi_mem_def)
  show "ifstate_list t ! q =
      (if ?M \<le> q \<and> q < ?M + ipv6_count s then sh (int m - int ?M) (ifstate_list s ! q)
       else if q < ipv4_count s then sh ?d (ifstate_list s ! q) else ifstate_list s ! q)"
    using f4 [of q] f6 [of q] c by auto
qed

lemma nwi_mem_cong:
  "nwi_mem s \<Longrightarrow> max_if_count t = max_if_count s \<Longrightarrow> length (ifstate_list t) = length (ifstate_list s) \<Longrightarrow>
   length (if_list t) = length (if_list s) \<Longrightarrow>
   (\<And>a. nwi_state_get_ifstate_count t a = nwi_state_get_ifstate_count s a) \<Longrightarrow> nwi_mem t"
  by (simp add: nwi_mem_def nwi_state_get_ifstate_count_def) (metis af_neq(1))

lemma grow_raw_mem:
  assumes "nwi_mem old" "max_if_count old < n" "n < 2 ^ 30"
  shows "nwi_mem (grow_raw old n)"
    and "nwi_state_get_ifstate_count (grow_raw old n) a = nwi_state_get_ifstate_count old a"
    and "max_if_count (grow_raw old n) = n"
  using assms by (auto simp: grow_raw_def nwi_mem_def nwi_state_get_ifstate_count_def)

lemma grow_fix_ent:
  assumes "nwi_inv old" "max_if_count old < n" "n < 2 ^ 30"
  defines "t \<equiv> nwi_state_fix_af_aliases (grow_raw old n) (max_if_count old)"
  shows "nwi_mem t" and "max_if_count t = n"
    and "nwi_state_get_ifstate_count t b = nwi_state_get_ifstate_count old b"
    and "valid_af a \<Longrightarrow> i < nwi_state_get_ifstate_count old a \<Longrightarrow>
      nwi_ent t a i = (nwi_ent old a i)\<lparr>ifs_alias :=
        (if ifs_alias (nwi_ent old a i) = 0 then 0
         else ifs_alias (nwi_ent old a i)
           + (int (nwi_state_ifstate_list t (nwi_other_af a)) - int (nwi_state_ifstate_list old (nwi_other_af a)))
           - (int (nwi_state_ifstate_list t a) - int (nwi_state_ifstate_list old a)))\<rparr>"
proof -
  let ?g = "grow_raw old n" and ?m = "max_if_count old"
  have mo: "nwi_mem old" using assms(1) by (simp add: nwi_inv_def)
  note g = grow_raw_mem [OF mo assms(2,3)]
  have le: "?m \<le> max_if_count ?g" using g(3) assms(2) by simp
  note fx = fix_af_aliases_slots [OF g(1) le, folded t_def]
  show mt: "max_if_count t = n" using fx(2) g(3) by simp
  show "nwi_state_get_ifstate_count t b = nwi_state_get_ifstate_count old b"
    using fx(5) g(2) by simp
  show "nwi_mem t" by (rule nwi_mem_cong [OF g(1)]) (simp_all add: fx)
  assume a: "valid_af a" and i: "i < nwi_state_get_ifstate_count old a"
  have ge: "nwi_ent ?g a i = nwi_ent old a i"
    using grow_raw_ent [OF mo assms(2) a i] g(3) by (simp add: nwi_state_ifstate_list_def split: if_splits)
  let ?al = "ifs_alias (nwi_ent old a i)"
  have link: "?al = 0 \<or> (\<exists>q < 2 * ?m. ?al = int q - int (nwi_state_ifstate_list old a + i))"
  proof (cases "nwi_state_get_ifstate_with_name (Some old) (nwi_other_af a) (ifs_name (nwi_ent old a i))")
    case (Some q)
    then obtain j where "j < nwi_state_get_ifstate_count old (nwi_other_af a)"
      "q = nwi_state_ifstate_list old (nwi_other_af a) + j"
      using with_name_SomeD [OF mo valid_other_af] by metis
    then have "q < 2 * ?m"
      using slot_less [OF valid_other_af] count_le_max [OF mo] by (metis order_less_le_trans)
    then show ?thesis using Some assms(1) a i by (auto simp: nwi_inv_def nwi_alias_ok_def)
  qed (use assms(1) a i in \<open>simp add: nwi_inv_def nwi_alias_ok_def\<close>)
  have ib: "i < ?m" using i count_le_max [OF mo, of a] by simp
  have small: "to_ifindex (?al + d) = ?al + d" if "\<bar>d\<bar> \<le> int n - int ?m" for d
  proof (rule to_ifindex_id)
    have "nwi_state_ifstate_list old a + i < 2 * ?m" using slot_less [OF a ib] .
    then have "?al \<le> 2 * int ?m" "- ?al \<le> 2 * int ?m" using link by auto
    moreover have "d \<le> int n - int ?m" "- d \<le> int n - int ?m" using that by auto
    ultimately show "- (2 ^ 31) \<le> ?al + d" "?al + d < 2 ^ 31"
      using assms(2,3) by simp_all
  qed
  show "nwi_ent t a i = (nwi_ent old a i)\<lparr>ifs_alias :=
        (if ?al = 0 then 0
         else ?al
           + (int (nwi_state_ifstate_list t (nwi_other_af a)) - int (nwi_state_ifstate_list old (nwi_other_af a)))
           - (int (nwi_state_ifstate_list t a) - int (nwi_state_ifstate_list old a)))\<rparr>"
  proof (cases "a = AF_INET")
    case True
    then have "i < ipv4_count ?g" "i < n" using i g(2) ib assms(2) by (simp_all add: nwi_state_get_ifstate_count_def grow_raw_def)
    then show ?thesis
      using True fx(1) [of i] ge mt g(3) small [of "int n - int ?m"] assms(2)
      by (simp add: nwi_state_ifstate_list_def)
  next
    case False
    then have a6: "a = AF_INET6" using a by (simp add: valid_af_def)
    then have "i < ipv6_count ?g" using i by (simp add: nwi_state_get_ifstate_count_def grow_raw_def)
    then show ?thesis
      using a6 fx(1) [of "n + i"] ge mt g(3) small [of "int ?m - int n"] assms(2)
      by (simp add: nwi_state_ifstate_list_def)
  qed
qed

lemma set_if_list_frame:
  assumes "nwi_mem s"
  shows "ifstate_list (nwi_state_set_if_list s) = ifstate_list s"
    and "max_if_count (nwi_state_set_if_list s) = max_if_count s"
    and "length (if_list (nwi_state_set_if_list s)) = length (if_list s)"
    and "nwi_state_get_ifstate_count (nwi_state_set_if_list s) a = nwi_state_get_ifstate_count s a"
    and "generation_count (nwi_state_set_if_list s) = generation_count s"
proof -
  have "ifstate_list (fold (\<lambda>p t. nwi_state_add_to_if_list t p) ps u) = ifstate_list u \<and>
    max_if_count (fold (\<lambda>p t. nwi_state_add_to_if_list t p) ps u) = max_if_count u \<and>
    length (if_list (fold (\<lambda>p t. nwi_state_add_to_if_list t p) ps u)) = length (if_list u) \<and>
    nwi_state_get_ifstate_count (fold (\<lambda>p t. nwi_state_add_to_if_list t p) ps u) a = nwi_state_get_ifstate_count u a \<and>
    generation_count (fold (\<lambda>p t. nwi_state_add_to_if_list t p) ps u) = generation_count u" for ps u
    by (induction ps arbitrary: u) (simp_all add: nwi_simps)
  from this [of "nwi_rank_order s" "s\<lparr>if_list_count := 0\<rparr>"]
  show "ifstate_list (nwi_state_set_if_list s) = ifstate_list s"
    "max_if_count (nwi_state_set_if_list s) = max_if_count s"
    "length (if_list (nwi_state_set_if_list s)) = length (if_list s)"
    "nwi_state_get_ifstate_count (nwi_state_set_if_list s) a = nwi_state_get_ifstate_count s a"
    "generation_count (nwi_state_set_if_list s) = generation_count s"
    by (simp_all add: set_if_list_fold [OF assms] nwi_state_get_ifstate_count_def)
qed

lemma set_if_list_inv:
  assumes "nwi_inv s"
  shows "nwi_inv (nwi_state_set_if_list s)"
proof (rule nwi_inv_cong [OF assms])
  have m: "nwi_mem s" using assms by (simp add: nwi_inv_def)
  note fr = set_if_list_frame [OF m]
  show "nwi_mem (nwi_state_set_if_list s)" by (rule nwi_mem_cong [OF m]) (simp_all add: fr)
  show "max_if_count (nwi_state_set_if_list s) = max_if_count s" by (rule fr)
  show "nwi_state_get_ifstate_count (nwi_state_set_if_list s) a = nwi_state_get_ifstate_count s a" for a
    by (rule fr)
qed (use assms in \<open>simp add: nwi_inv_def nwi_state_ifstate_list_def set_if_list_frame\<close>)

lemma grow_state:
  assumes "nwi_inv old" "n < 2 ^ 30" "nwi_state_new (Some old) n = Some t" "max_if_count old < n"
  shows "nwi_inv t" "max_if_count t = n"
    "valid_af a \<Longrightarrow> map (\<lambda>e. e\<lparr>ifs_alias := 0\<rparr>) (nwi_entries t a) = map (\<lambda>e. e\<lparr>ifs_alias := 0\<rparr>) (nwi_entries old a)"
proof -
  let ?g = "nwi_state_fix_af_aliases (grow_raw old n) (max_if_count old)"
  have mo: "nwi_mem old" using assms(1) by (simp add: nwi_inv_def)
  then have t: "t = nwi_state_set_if_list ?g"
    using nwi_state_new_grow [OF assms(4)] assms(3) by (simp add: nwi_mem_def)
  note g = grow_fix_ent [OF assms(1,4,2)]
  have gi: "nwi_inv ?g" by (rule nwi_inv_move [OF assms(1) g(1) g(3) g(4)])
  show "nwi_inv t" unfolding t by (rule set_if_list_inv [OF gi])
  show "max_if_count t = n" by (simp add: t set_if_list_frame [OF g(1)] g(2))
  assume a: "valid_af a"
  have mt: "nwi_mem t" using \<open>nwi_inv t\<close> by (simp add: nwi_inv_def)
  have b: "nwi_state_ifstate_list t a = nwi_state_ifstate_list ?g a"
    by (simp add: t nwi_state_ifstate_list_def set_if_list_frame [OF g(1)])
  show "map (\<lambda>e. e\<lparr>ifs_alias := 0\<rparr>) (nwi_entries t a) = map (\<lambda>e. e\<lparr>ifs_alias := 0\<rparr>) (nwi_entries old a)"
    using g(4) [OF a] by (simp add: entries_conv [OF mt] entries_conv [OF mo] b)
      (simp add: t set_if_list_frame [OF g(1)] g(3))
qed

text \<open>
  Growing keeps the contents. A well-formed state asked for more slots comes back well
  formed with the requested capacity, with the same entries in the same order in both
  families (only the alias offsets differ, and being well formed they lead to the entries of
  the same names); asked for no more slots than it has, it comes back as it is.
\<close>

theorem nwi_state_new_keeps_entries:
  assumes "nwi_inv old" "n < 2 ^ 30" "nwi_state_new (Some old) n = Some t"
  shows "nwi_inv t \<and> max_if_count t = max n (max_if_count old) \<and>
    (n \<le> max_if_count old \<longrightarrow> t = old) \<and>
    (\<forall>a. valid_af a \<longrightarrow>
      map (\<lambda>e. e\<lparr>ifs_alias := 0\<rparr>) (nwi_entries t a) = map (\<lambda>e. e\<lparr>ifs_alias := 0\<rparr>) (nwi_entries old a))"
proof (cases "max_if_count old < n")
  case True
  then show ?thesis using grow_state [OF assms] by simp
next
  case False
  then have "t = old" using assms(3) by (simp add: nwi_state_new_def)
  then show ?thesis using assms(1) False by simp
qed

lemma grow_two_families:
  "nwi_state_new (Some nwi_two_families) 3 = Some (the (nwi_state_new (Some nwi_two_families) 3))"
  by (simp add: nwi_state_new_def Let_def)

theorem nwi_state_new_keeps_entries_witness:
  "nwi_inv (the (nwi_state_new (Some nwi_two_families) 3)) \<and>
   max_if_count (the (nwi_state_new (Some nwi_two_families) 3)) = max 3 (max_if_count nwi_two_families) \<and>
   map (\<lambda>e. e\<lparr>ifs_alias := 0\<rparr>) (nwi_entries (the (nwi_state_new (Some nwi_two_families) 3)) AF_INET6) =
   map (\<lambda>e. e\<lparr>ifs_alias := 0\<rparr>) (nwi_entries nwi_two_families AF_INET6)"
proof -
  have "(3::nat) < 2 ^ 30" by simp
  note nwi_state_new_keeps_entries [OF nwi_two_families_inv this grow_two_families]
  moreover have "valid_af AF_INET6" by (simp add: valid_af_def)
  ultimately show ?thesis by blast
qed

text \<open>
  Clearing one family does not reset the links of the other. From the well-formed state
  with \<open>en0\<close> in both families, clearing IPv6 leaves the IPv4 entry with an alias that still
  leads to a slot, while the search by name finds nothing: the state is no longer well formed.
\<close>

theorem nwi_state_clear_stale_alias:
  "nwi_ifstate_get_alias (nwi_state_clear nwi_two_families AF_INET6) 0 AF_INET6 = Some 2 \<and>
   nwi_state_get_ifstate_with_name (Some (nwi_state_clear nwi_two_families AF_INET6)) AF_INET6 ''en0'' = None"
  by code_simp

end
