(* ===== verification/NwiDiff.thy ===== *)
theory NwiDiff
  imports NwiGrow
begin

unbundle bit_operations_syntax

text \<open>
  The difference of two network information states and the interface generations computed
  from it (network_state_information_priv.c, \<open>nwi_state_diff\<close> and
  \<open>_nwi_state_update_interface_generations\<close>). Writing past the block is \<open>UB\<close>, and so is a
  failing assertion.
\<close>

section \<open>Operations\<close>

definition NWI_IFSTATE_DIFF_UNCHANGED :: uint8 where "NWI_IFSTATE_DIFF_UNCHANGED = 0"
definition NWI_IFSTATE_DIFF_ADDED :: uint8 where "NWI_IFSTATE_DIFF_ADDED = 1"
definition NWI_IFSTATE_DIFF_REMOVED :: uint8 where "NWI_IFSTATE_DIFF_REMOVED = 2"
definition NWI_IFSTATE_DIFF_CHANGED :: uint8 where "NWI_IFSTATE_DIFF_CHANGED = 3"
definition NWI_IFSTATE_DIFF_RANK_UP :: uint8 where "NWI_IFSTATE_DIFF_RANK_UP = 4"
definition NWI_IFSTATE_DIFF_RANK_DOWN :: uint8 where "NWI_IFSTATE_DIFF_RANK_DOWN = 5"

lemmas nwi_diff_codes = NWI_IFSTATE_DIFF_UNCHANGED_def NWI_IFSTATE_DIFF_ADDED_def
  NWI_IFSTATE_DIFF_REMOVED_def NWI_IFSTATE_DIFF_CHANGED_def NWI_IFSTATE_DIFF_RANK_UP_def
  NWI_IFSTATE_DIFF_RANK_DOWN_def

datatype nwi_ifstate_difference =
  knwi_ifstate_difference_none | knwi_ifstate_difference_changed | knwi_ifstate_difference_removed

definition nwi_ifstate_get_diff :: "nwi_ifstate \<Rightarrow> uint8" where
  "nwi_ifstate_get_diff e = ucast (drop_bit 8 (ifs_flags e AND NWI_IFSTATE_FLAGS_DIFF_MASK))"

definition nwi_ifstate_get_diff_str :: "nwi_ifstate \<Rightarrow> string" where
  "nwi_ifstate_get_diff_str e =
     (let strings = ['''', ''+'', ''-'', ''!'', ''/'', [CHR 0x5C]];
          d = unat (nwi_ifstate_get_diff e)
      in if d < length strings then strings ! d else ''?'')"

definition nwi_ifstate_get_difference :: "nwi_ifstate \<Rightarrow> nwi_ifstate_difference" where
  "nwi_ifstate_get_difference e =
     (let d = nwi_ifstate_get_diff e in
      if d = NWI_IFSTATE_DIFF_ADDED \<or> d = NWI_IFSTATE_DIFF_CHANGED then knwi_ifstate_difference_changed
      else if d = NWI_IFSTATE_DIFF_REMOVED then knwi_ifstate_difference_removed
      else knwi_ifstate_difference_none)"

definition nwi_ifstate_has_changed :: "nwi_ifstate \<Rightarrow> nwi_ifstate \<Rightarrow> bool" where
  "nwi_ifstate_has_changed e1 e2 \<longleftrightarrow>
     (if ifs_flags e1 AND NWI_IFSTATE_FLAGS_MASK \<noteq> ifs_flags e2 AND NWI_IFSTATE_FLAGS_MASK then True
      else if ifs_af e1 = AF_INET then take 4 (ifs_addr e1) \<noteq> take 4 (ifs_addr e2)
      else ifs_addr e1 \<noteq> ifs_addr e2)"

definition nwi_ifstate_set_diff :: "nwi_ifstate \<Rightarrow> uint8 \<Rightarrow> nwi_ifstate" where
  "nwi_ifstate_set_diff e d =
     (let f = ifs_flags e AND NOT NWI_IFSTATE_FLAGS_DIFF_MASK in
      e\<lparr>ifs_flags := (if d \<noteq> NWI_IFSTATE_DIFF_UNCHANGED
                     then f OR (push_bit 8 (ucast d) AND NWI_IFSTATE_FLAGS_DIFF_MASK) else f)\<rparr>)"

text \<open>The appended entry goes to the slot after the last one; there is no check for room.\<close>

definition nwi_state_diff_append :: "nwi_state \<Rightarrow> nwi_ifstate \<Rightarrow> (nwi_state \<times> nat) outcome" where
  "nwi_state_diff_append s e =
     (let p = nwi_state_get_last_ifstate s (ifs_af e) in
      if p < length (ifstate_list s)
      then Ret (nwi_state_incr_count (upd_slot s p (\<lambda>_. e)) (ifs_af e), p) else UB)"

definition nwi_change_code :: "nwi_ifstate option \<Rightarrow> nwi_ifstate \<Rightarrow> uint8" where
  "nwi_change_code existing e =
     (case existing of
        None \<Rightarrow> NWI_IFSTATE_DIFF_ADDED
      | Some x \<Rightarrow>
          if nwi_ifstate_has_changed x e then NWI_IFSTATE_DIFF_CHANGED
          else if ifs_rank x < ifs_rank e then NWI_IFSTATE_DIFF_RANK_DOWN
          else if ifs_rank x > ifs_rank e then NWI_IFSTATE_DIFF_RANK_UP
          else NWI_IFSTATE_DIFF_UNCHANGED)"

text \<open>The entry of a name, when there is one.\<close>

definition nwi_lookup :: "nwi_state option \<Rightarrow> nat \<Rightarrow> string \<Rightarrow> nwi_ifstate option" where
  "nwi_lookup st a nm =
     (case st of None \<Rightarrow> None
      | Some s \<Rightarrow> map_option (\<lambda>p. ifstate_list s ! p) (nwi_state_get_ifstate_with_name st a nm))"

definition nwi_state_diff_add_change ::
    "nwi_state option \<Rightarrow> nwi_ifstate \<Rightarrow> nwi_state \<Rightarrow> nwi_state outcome" where
  "nwi_state_diff_add_change old e diff =
     obind (nwi_state_diff_append diff e) (\<lambda>(d, p).
       Ret (upd_slot d p (\<lambda>x. nwi_ifstate_set_diff x
              (nwi_change_code (nwi_lookup old (ifs_af e) (ifs_name e)) x))))"

definition nwi_state_diff_remove :: "nwi_ifstate \<Rightarrow> nwi_state \<Rightarrow> nwi_state outcome" where
  "nwi_state_diff_remove e diff =
     (if nwi_state_get_ifstate_with_name (Some diff) (ifs_af e) (ifs_name e) \<noteq> None then Ret diff
      else obind (nwi_state_diff_append diff e) (\<lambda>(d, p).
             Ret (upd_slot d p (\<lambda>x. nwi_ifstate_set_diff x NWI_IFSTATE_DIFF_REMOVED))))"

text \<open>The loops over a state walk its IPv4 entries, then its IPv6 entries.\<close>

definition nwi_all_entries :: "nwi_state option \<Rightarrow> nwi_ifstate list" where
  "nwi_all_entries st =
     (case st of None \<Rightarrow> [] | Some s \<Rightarrow> nwi_entries s AF_INET @ nwi_entries s AF_INET6)"

definition nwi_state_diff_populate ::
    "nwi_state \<Rightarrow> nwi_state option \<Rightarrow> nwi_state option \<Rightarrow> nwi_state outcome" where
  "nwi_state_diff_populate diff old new =
     obind (ofold (nwi_state_diff_add_change old) (nwi_all_entries new) diff)
           (ofold nwi_state_diff_remove (nwi_all_entries old))"

definition nwi_state_max_af_count :: "nwi_state \<Rightarrow> nat" where
  "nwi_state_max_af_count s = (if ipv4_count s \<ge> ipv6_count s then ipv4_count s else ipv6_count s)"

definition nwi_state_diff :: "nwi_state option \<Rightarrow> nwi_state option \<Rightarrow> nwi_state option outcome" where
  "nwi_state_diff old new =
     (let total = (case old of None \<Rightarrow> 0 | Some s \<Rightarrow> nwi_state_max_af_count s)
                + (case new of None \<Rightarrow> 0 | Some s \<Rightarrow> nwi_state_max_af_count s)
      in if total = 0 then Ret None
         else case nwi_state_new None total of
                None \<Rightarrow> UB
              | Some diff \<Rightarrow> obind (nwi_state_diff_populate diff old new) (\<lambda>d. Ret (Some d)))"

text \<open>\<open>_nwi_ifstate_has_changed\<close>: a changed entry of that name in either family.\<close>

definition nwi_name_has_changed :: "nwi_state \<Rightarrow> string \<Rightarrow> bool" where
  "nwi_name_has_changed s nm \<longleftrightarrow>
     (case nwi_lookup (Some s) AF_INET nm of
        Some e \<Rightarrow> nwi_ifstate_get_diff e \<noteq> NWI_IFSTATE_DIFF_UNCHANGED | None \<Rightarrow> False) \<or>
     (case nwi_lookup (Some s) AF_INET6 nm of
        Some e \<Rightarrow> nwi_ifstate_get_diff e \<noteq> NWI_IFSTATE_DIFF_UNCHANGED | None \<Rightarrow> False)"

definition nwi_ifstate_set_generation :: "nwi_ifstate \<Rightarrow> uint64 \<Rightarrow> nwi_ifstate" where
  "nwi_ifstate_set_generation e g = e\<lparr>ifs_gen := g\<rparr>"

text \<open>
  One entry of the generation loops: \<open>skip\<close> is the IPv6 loop's test for an entry that
  already has the current generation. \<open>UB\<close> is the failing assertion on the old entry.
\<close>

definition nwi_update_generation ::
    "nwi_state option \<Rightarrow> nwi_state \<Rightarrow> uint64 \<Rightarrow> nat \<Rightarrow> bool \<Rightarrow> nat \<Rightarrow> nwi_state \<Rightarrow> nwi_state outcome" where
  "nwi_update_generation old changes gen a skip p s =
     (let e = ifstate_list s ! p in
      if skip \<and> ifs_gen e = gen then Ret s
      else if nwi_name_has_changed changes (ifs_name e)
      then Ret (upd_slot s p (\<lambda>x. nwi_ifstate_set_generation x gen))
      else case nwi_lookup old a (ifs_name e) of
             None \<Rightarrow> UB
           | Some prev \<Rightarrow> Ret (upd_slot s p (\<lambda>x. nwi_ifstate_set_generation x (ifs_gen prev))))"

definition nwi_state_update_interface_generations ::
    "nwi_state option \<Rightarrow> nwi_state option \<Rightarrow> nwi_state option \<Rightarrow> nwi_state option outcome" where
  "nwi_state_update_interface_generations old st changes =
     (case (st, changes) of
        (Some s, Some c) \<Rightarrow>
          obind (ofold (nwi_update_generation old c (generation_count s) AF_INET False)
                   (nwi_slots s AF_INET 0) s)
            (\<lambda>s4. obind (ofold (nwi_update_generation old c (generation_count s) AF_INET6 True)
                           (nwi_slots s AF_INET6 0) s4) (\<lambda>s6. Ret (Some s6)))
      | _ \<Rightarrow> Ret st)"

text \<open>
  The hash is the SHA-256 of the block with the generation count zeroed; the hash function
  of the platform, over the state, is a parameter.
\<close>

definition nwi_state_compute_sha256_hash :: "(nwi_state \<Rightarrow> uint8 list) \<Rightarrow> nwi_state option \<Rightarrow> uint8 list" where
  "nwi_state_compute_sha256_hash sha256 st =
     (case st of None \<Rightarrow> replicate 32 0 | Some s \<Rightarrow> sha256 (s\<lparr>generation_count := 0\<rparr>))"

section \<open>The contents of a difference\<close>

lemma diff_bits:
  "unat d < 16 \<Longrightarrow> nwi_ifstate_get_diff (nwi_ifstate_set_diff e d) = d"
proof -
  assume d: "unat d < 16"
  have "d \<in> word_of_nat ` {..<16}"
    by (rule image_eqI [of _ _ "unat d"]) (use d in simp_all)
  then show ?thesis
    by (auto simp: nwi_ifstate_get_diff_def nwi_ifstate_set_diff_def Let_def nwi_diff_codes
        bit.conj_disj_distrib2 lessThan_nat_numeral lessThan_Suc nwi_flag_defs and.assoc)
qed

lemma set_diff_frame [simp]:
  "ifs_name (nwi_ifstate_set_diff e d) = ifs_name e" "ifs_af (nwi_ifstate_set_diff e d) = ifs_af e"
  by (simp_all add: nwi_ifstate_set_diff_def Let_def)

text \<open>Appending an entry and marking it, as both phases of the comparison do.\<close>

lemma diff_append_entries:
  assumes mem: "nwi_mem s" and a: "valid_af (ifs_af e)"
    and room: "nwi_state_get_ifstate_count s (ifs_af e) < max_if_count s"
  obtains d p where "nwi_state_diff_append s e = Ret (d, p)"
    "nwi_mem (upd_slot d p f)" "max_if_count (upd_slot d p f) = max_if_count s"
    "\<And>b. valid_af b \<Longrightarrow> nwi_entries (upd_slot d p f) b =
       (if b = ifs_af e then nwi_entries s b @ [f e] else nwi_entries s b)"
proof -
  let ?a = "ifs_af e" and ?c = "nwi_state_get_ifstate_count s (ifs_af e)"
  let ?p = "nwi_state_ifstate_list s ?a + ?c"
  let ?d = "nwi_state_incr_count (upd_slot s ?p (\<lambda>_. e)) ?a"
  have len: "?p < length (ifstate_list s)" using slot_bound [OF mem a room] .
  have app: "nwi_state_diff_append s e = Ret (?d, ?p)"
    using len by (simp add: nwi_state_diff_append_def last_slot Let_def)
  have md: "nwi_mem (upd_slot ?d ?p f)"
    using mem a room by (auto simp: nwi_mem_def nwi_state_incr_count_def valid_af_def
        nwi_state_get_ifstate_count_def)
  have ent: "nwi_entries (upd_slot ?d ?p f) b =
      (if b = ?a then nwi_entries s b @ [f e] else nwi_entries s b)" if b: "valid_af b" for b
  proof -
    have nth: "nwi_ent (upd_slot ?d ?p f) b i = (if b = ?a \<and> i = ?c then f e else nwi_ent s b i)"
      if "i < max_if_count s" for i
      using slot_inj [OF a b room that] len by (auto simp: upd_slot_nth)
    have "nwi_entries (upd_slot ?d ?p f) b =
      map (\<lambda>i. if b = ?a \<and> i = ?c then f e else nwi_ent s b i)
        [0..<nwi_state_get_ifstate_count (upd_slot ?d ?p f) b]"
      using nth room a b count_le_max [OF md, of b]
      unfolding entries_conv [OF md] by (intro map_cong refl) auto
    then show ?thesis using a b by (auto simp: entries_conv [OF mem])
  qed
  show ?thesis by (rule that [OF app md _ ent]) simp_all
qed

lemma count_entries:
  "nwi_mem s \<Longrightarrow> nwi_state_get_ifstate_count s a = length (nwi_entries s a)"
  by (simp add: length_entries)

definition nwi_mark :: "nwi_state option \<Rightarrow> nwi_ifstate \<Rightarrow> nwi_ifstate" where
  "nwi_mark old e = nwi_ifstate_set_diff e (nwi_change_code (nwi_lookup old (ifs_af e) (ifs_name e)) e)"

lemma diff_adds:
  assumes "nwi_mem d" "\<forall>e\<in>set es. valid_af (ifs_af e)"
    and "\<And>a. valid_af a \<Longrightarrow>
      length (nwi_entries d a) + length (filter (\<lambda>e. ifs_af e = a) es) \<le> max_if_count d"
  shows "\<exists>d'. ofold (nwi_state_diff_add_change old) es d = Ret d' \<and> nwi_mem d' \<and>
    max_if_count d' = max_if_count d \<and>
    (\<forall>a. valid_af a \<longrightarrow> nwi_entries d' a = nwi_entries d a @ map (nwi_mark old) (filter (\<lambda>e. ifs_af e = a) es))"
  using assms
proof (induction es arbitrary: d)
  case (Cons e es)
  have ve: "valid_af (ifs_af e)" using Cons.prems(2) by simp
  have room: "nwi_state_get_ifstate_count d (ifs_af e) < max_if_count d"
    using Cons.prems(3) [OF ve] by (simp add: count_entries [OF Cons.prems(1)])
  let ?f = "\<lambda>x. nwi_ifstate_set_diff x (nwi_change_code (nwi_lookup old (ifs_af e) (ifs_name e)) x)"
  obtain u p where u: "nwi_state_diff_append d e = Ret (u, p)" "nwi_mem (upd_slot u p ?f)"
    "max_if_count (upd_slot u p ?f) = max_if_count d"
    "\<And>b. valid_af b \<Longrightarrow> nwi_entries (upd_slot u p ?f) b =
       (if b = ifs_af e then nwi_entries d b @ [?f e] else nwi_entries d b)"
    by (rule diff_append_entries [OF Cons.prems(1) ve room, where f = ?f]) (rule that)
  have step: "nwi_state_diff_add_change old e d = Ret (upd_slot u p ?f)"
    by (simp add: nwi_state_diff_add_change_def u)
  have "\<exists>d'. ofold (nwi_state_diff_add_change old) es (upd_slot u p ?f) = Ret d' \<and> nwi_mem d' \<and>
    max_if_count d' = max_if_count (upd_slot u p ?f) \<and>
    (\<forall>a. valid_af a \<longrightarrow> nwi_entries d' a =
       nwi_entries (upd_slot u p ?f) a @ map (nwi_mark old) (filter (\<lambda>e. ifs_af e = a) es))"
  proof (rule Cons.IH [OF u(2)])
    show "\<forall>e\<in>set es. valid_af (ifs_af e)" using Cons.prems(2) by simp
    show "length (nwi_entries (upd_slot u p ?f) a) + length (filter (\<lambda>e. ifs_af e = a) es)
        \<le> max_if_count (upd_slot u p ?f)" if "valid_af a" for a
      using Cons.prems(3) [OF that] u(3) u(4) [OF that] by (auto split: if_splits)
  qed
  then obtain d' where d': "ofold (nwi_state_diff_add_change old) es (upd_slot u p ?f) = Ret d'"
    "nwi_mem d'" "max_if_count d' = max_if_count (upd_slot u p ?f)"
    "\<And>a. valid_af a \<Longrightarrow> nwi_entries d' a =
       nwi_entries (upd_slot u p ?f) a @ map (nwi_mark old) (filter (\<lambda>e. ifs_af e = a) es)" by blast
  have "ofold (nwi_state_diff_add_change old) (e # es) d = Ret d'" by (simp add: step d'(1))
  moreover have "nwi_entries d' a = nwi_entries d a @ map (nwi_mark old) (filter (\<lambda>e. ifs_af e = a) (e # es))"
    if "valid_af a" for a
    unfolding d'(4) [OF that] u(4) [OF that] by (simp add: nwi_mark_def)
  ultimately show ?case
    by (intro exI [of _ d'] conjI allI impI) (simp_all only: d'(2) d'(3) u(3))
qed simp

lemma diff_removes:
  assumes "nwi_mem d" "\<forall>e\<in>set es. valid_af (ifs_af e)"
    and "\<And>a. valid_af a \<Longrightarrow>
      length (nwi_entries d a) + length (filter (\<lambda>e. ifs_af e = a) es) \<le> max_if_count d"
    and "\<And>a. valid_af a \<Longrightarrow> distinct (map ifs_name (filter (\<lambda>e. ifs_af e = a) es))"
  shows "\<exists>d'. ofold nwi_state_diff_remove es d = Ret d' \<and> nwi_mem d' \<and> max_if_count d' = max_if_count d \<and>
    (\<forall>a. valid_af a \<longrightarrow> nwi_entries d' a = nwi_entries d a @
       map (\<lambda>e. nwi_ifstate_set_diff e NWI_IFSTATE_DIFF_REMOVED)
         (filter (\<lambda>e. ifs_af e = a \<and> ifs_name e \<notin> ifs_name ` set (nwi_entries d a)) es))"
  using assms
proof (induction es arbitrary: d)
  case (Cons e es)
  have ve: "valid_af (ifs_af e)" using Cons.prems(2) by simp
  have dist: "distinct (map ifs_name (filter (\<lambda>e. ifs_af e = a) es))" if "valid_af a" for a
    using Cons.prems(4) [OF that] by (auto split: if_splits)
  have found: "nwi_state_get_ifstate_with_name (Some d) (ifs_af e) (ifs_name e) = None \<longleftrightarrow>
      ifs_name e \<notin> ifs_name ` set (nwi_entries d (ifs_af e))"
    by (rule with_name_None_set [OF Cons.prems(1) ve])
  show ?case
  proof (cases "ifs_name e \<in> ifs_name ` set (nwi_entries d (ifs_af e))")
    case True
    then have step: "nwi_state_diff_remove e d = Ret d" using found by (simp add: nwi_state_diff_remove_def)
    have "length (nwi_entries d a) + length (filter (\<lambda>e. ifs_af e = a) es) \<le> max_if_count d"
      if "valid_af a" for a using Cons.prems(3) [OF that] by (auto split: if_splits)
    from Cons.IH [OF Cons.prems(1) _ this dist] show ?thesis
      using Cons.prems(2) True by (auto simp: step)
  next
    case False
    have room: "nwi_state_get_ifstate_count d (ifs_af e) < max_if_count d"
      using Cons.prems(3) [OF ve] by (simp add: count_entries [OF Cons.prems(1)])
    let ?f = "\<lambda>x. nwi_ifstate_set_diff x NWI_IFSTATE_DIFF_REMOVED"
    obtain u p where u: "nwi_state_diff_append d e = Ret (u, p)" "nwi_mem (upd_slot u p ?f)"
      "max_if_count (upd_slot u p ?f) = max_if_count d"
      "\<And>b. valid_af b \<Longrightarrow> nwi_entries (upd_slot u p ?f) b =
         (if b = ifs_af e then nwi_entries d b @ [?f e] else nwi_entries d b)"
      by (rule diff_append_entries [OF Cons.prems(1) ve room, where f = ?f]) (rule that)
    have step: "nwi_state_diff_remove e d = Ret (upd_slot u p ?f)"
      using False found by (simp add: nwi_state_diff_remove_def u)
    have "\<exists>d'. ofold nwi_state_diff_remove es (upd_slot u p ?f) = Ret d' \<and> nwi_mem d' \<and>
      max_if_count d' = max_if_count (upd_slot u p ?f) \<and>
      (\<forall>a. valid_af a \<longrightarrow> nwi_entries d' a = nwi_entries (upd_slot u p ?f) a @
         map ?f (filter (\<lambda>e. ifs_af e = a \<and> ifs_name e \<notin> ifs_name ` set (nwi_entries (upd_slot u p ?f) a)) es))"
    proof (rule Cons.IH [OF u(2) _ _ dist])
      show "\<forall>e\<in>set es. valid_af (ifs_af e)" using Cons.prems(2) by simp
      show "length (nwi_entries (upd_slot u p ?f) a) + length (filter (\<lambda>e. ifs_af e = a) es)
          \<le> max_if_count (upd_slot u p ?f)" if "valid_af a" for a
        using Cons.prems(3) [OF that] u(3) u(4) [OF that] by (auto split: if_splits)
    qed
    then obtain d' where d': "ofold nwi_state_diff_remove es (upd_slot u p ?f) = Ret d'"
      "nwi_mem d'" "max_if_count d' = max_if_count (upd_slot u p ?f)"
      "\<And>a. valid_af a \<Longrightarrow> nwi_entries d' a = nwi_entries (upd_slot u p ?f) a @
         map ?f (filter (\<lambda>e. ifs_af e = a \<and> ifs_name e \<notin> ifs_name ` set (nwi_entries (upd_slot u p ?f) a)) es)"
      by blast
    have fil: "filter (\<lambda>x. ifs_af x = a \<and> ifs_name x \<notin> ifs_name ` set (nwi_entries (upd_slot u p ?f) a)) es =
        filter (\<lambda>x. ifs_af x = a \<and> ifs_name x \<notin> ifs_name ` set (nwi_entries d a)) es" if a: "valid_af a" for a
    proof (rule filter_cong [OF refl])
      fix x assume x: "x \<in> set es"
      show "(ifs_af x = a \<and> ifs_name x \<notin> ifs_name ` set (nwi_entries (upd_slot u p ?f) a)) =
            (ifs_af x = a \<and> ifs_name x \<notin> ifs_name ` set (nwi_entries d a))"
      proof (cases "ifs_af e = a \<and> ifs_af x = a")
        case True
        then have "ifs_name x \<noteq> ifs_name e" using Cons.prems(4) [OF a] x by (auto simp: rev_image_eqI)
        then show ?thesis unfolding u(4) [OF a] by simp
      next
        case False
        then show ?thesis unfolding u(4) [OF a] by auto
      qed
    qed
    have "ofold nwi_state_diff_remove (e # es) d = Ret d'" by (simp add: step d'(1))
    moreover have "nwi_entries d' a = nwi_entries d a @
        map ?f (filter (\<lambda>e. ifs_af e = a \<and> ifs_name e \<notin> ifs_name ` set (nwi_entries d a)) (e # es))"
      if "valid_af a" for a
      unfolding d'(4) [OF that] fil [OF that] unfolding u(4) [OF that] using False by auto
    ultimately show ?thesis
      by (intro exI [of _ d'] conjI allI impI) (simp_all only: d'(2) d'(3) u(3))
  qed
qed simp

end
