(* ===== verification/NwiGenerations.thy ===== *)
theory NwiGenerations
  imports NwiDiff
begin

text \<open>
  What a difference contains, and what the interface generations computed from it are: the
  writes of \<open>nwi_state_diff\<close> stay inside the block it allocates, and the assertions of
  \<open>_nwi_state_update_interface_generations\<close> hold for the difference of its two states.
\<close>

section \<open>Contents of a difference\<close>

definition nwi_family :: "nwi_state option \<Rightarrow> nat \<Rightarrow> nwi_ifstate list" where
  "nwi_family st a = (case st of None \<Rightarrow> [] | Some s \<Rightarrow> nwi_entries s a)"

definition nwi_opt_inv :: "nwi_state option \<Rightarrow> bool" where
  "nwi_opt_inv st \<longleftrightarrow> (case st of None \<Rightarrow> True | Some s \<Rightarrow> nwi_inv s)"

definition nwi_diff_total :: "nwi_state option \<Rightarrow> nwi_state option \<Rightarrow> nat" where
  "nwi_diff_total old new = (case old of None \<Rightarrow> 0 | Some s \<Rightarrow> nwi_state_max_af_count s)
     + (case new of None \<Rightarrow> 0 | Some s \<Rightarrow> nwi_state_max_af_count s)"

definition nwi_removed :: "nwi_state option \<Rightarrow> nwi_state option \<Rightarrow> nat \<Rightarrow> nwi_ifstate list" where
  "nwi_removed old new a =
     map (\<lambda>e. nwi_ifstate_set_diff e NWI_IFSTATE_DIFF_REMOVED)
       (filter (\<lambda>e. ifs_name e \<notin> ifs_name ` set (nwi_family new a)) (nwi_family old a))"

lemma nwi_lookup_find:
  assumes "nwi_mem s" "valid_af a"
  shows "nwi_lookup (Some s) a nm = None \<longleftrightarrow> nm \<notin> ifs_name ` set (nwi_entries s a)"
    and "nwi_lookup (Some s) a nm = Some e \<Longrightarrow> e \<in> set (nwi_entries s a) \<and> ifs_name e = nm"
proof -
  show "nwi_lookup (Some s) a nm = None \<longleftrightarrow> nm \<notin> ifs_name ` set (nwi_entries s a)"
    using with_name_None_set [OF assms] by (simp add: nwi_lookup_def)
  assume "nwi_lookup (Some s) a nm = Some e"
  then obtain p where p: "nwi_state_get_ifstate_with_name (Some s) a nm = Some p" "e = ifstate_list s ! p"
    by (auto simp: nwi_lookup_def)
  from with_name_SomeD [OF assms p(1)] obtain i where
    "i < nwi_state_get_ifstate_count s a" "p = nwi_state_ifstate_list s a + i" "ifs_name (nwi_ent s a i) = nm" .
  then show "e \<in> set (nwi_entries s a) \<and> ifs_name e = nm"
    using p(2) by (auto simp: entries_conv [OF assms(1)])
qed

lemma family_facts:
  assumes "nwi_opt_inv st" "valid_af a"
  shows "\<forall>e\<in>set (nwi_family st a). ifs_af e = a" "distinct (map ifs_name (nwi_family st a))"
    and "length (nwi_family st a) \<le> (case st of None \<Rightarrow> 0 | Some s \<Rightarrow> nwi_state_max_af_count s)"
  using assms by (auto simp: nwi_family_def nwi_opt_inv_def nwi_inv_def nwi_names_def valid_af_def
      length_entries nwi_state_get_ifstate_count_def nwi_state_max_af_count_def split: option.splits)

lemma all_entries_family:
  assumes "nwi_opt_inv st"
  shows "\<forall>e\<in>set (nwi_all_entries st). valid_af (ifs_af e)"
    and "valid_af a \<Longrightarrow> filter (\<lambda>e. ifs_af e = a) (nwi_all_entries st) = nwi_family st a"
proof -
  have conv: "nwi_all_entries st = nwi_family st AF_INET @ nwi_family st AF_INET6"
    by (cases st) (simp_all add: nwi_all_entries_def nwi_family_def)
  note f4 = family_facts(1) [OF assms, of AF_INET] and f6 = family_facts(1) [OF assms, of AF_INET6]
  show "\<forall>e\<in>set (nwi_all_entries st). valid_af (ifs_af e)" using f4 f6 by (auto simp: conv)
  assume "valid_af a"
  then show "filter (\<lambda>e. ifs_af e = a) (nwi_all_entries st) = nwi_family st a"
    unfolding valid_af_def conv using f4 f6
    by (auto simp: filter_empty_conv intro!: filter_True)
qed

lemma diff_contents:
  assumes old: "nwi_opt_inv old" and new: "nwi_opt_inv new"
    and tot: "0 < nwi_diff_total old new" "nwi_diff_total old new < 2 ^ 30"
  shows "\<exists>d. nwi_state_diff old new = Ret (Some d) \<and> nwi_mem d \<and>
    (\<forall>a. valid_af a \<longrightarrow> nwi_entries d a = map (nwi_mark old) (nwi_family new a) @ nwi_removed old new a)"
proof -
  let ?n = "nwi_diff_total old new"
  let ?z = "nwi_state_alloc ?n"
  have z: "nwi_mem ?z" using alloc_inv [OF tot(2)] by (simp add: nwi_inv_def)
  have ze: "nwi_entries ?z a = []" for a by (rule entries_empty) (simp add: nwi_state_get_ifstate_count_def)
  have mx: "max_if_count ?z = ?n" by simp
  note le = family_facts(3) [OF old] family_facts(3) [OF new]
  have room: "length (nwi_family new a) + length (nwi_family old a) \<le> ?n" if "valid_af a" for a
    using le [OF that] by (simp add: nwi_diff_total_def)
  have r1: "length (nwi_entries ?z a) + length (filter (\<lambda>e. ifs_af e = a) (nwi_all_entries new)) \<le> max_if_count ?z"
    if "valid_af a" for a
    using room [OF that] by (simp add: ze all_entries_family(2) [OF new that])
  from diff_adds [OF z all_entries_family(1) [OF new] r1, of old]
  obtain d1 where d1: "ofold (nwi_state_diff_add_change old) (nwi_all_entries new) ?z = Ret d1"
    "nwi_mem d1" "max_if_count d1 = ?n"
    "\<And>a. valid_af a \<Longrightarrow> nwi_entries d1 a = map (nwi_mark old) (nwi_family new a)"
    using ze mx all_entries_family(2) [OF new] by auto
  have r2: "length (nwi_entries d1 a) + length (filter (\<lambda>e. ifs_af e = a) (nwi_all_entries old)) \<le> max_if_count d1"
    if "valid_af a" for a
    using room [OF that] by (simp add: d1(3) d1(4) [OF that] all_entries_family(2) [OF old that])
  have r3: "distinct (map ifs_name (filter (\<lambda>e. ifs_af e = a) (nwi_all_entries old)))" if "valid_af a" for a
    using family_facts(2) [OF old that] by (simp add: all_entries_family(2) [OF old that])
  from diff_removes [OF d1(2) all_entries_family(1) [OF old] r2 r3]
  obtain d where d: "ofold nwi_state_diff_remove (nwi_all_entries old) d1 = Ret d" "nwi_mem d"
    "\<And>a. valid_af a \<Longrightarrow> nwi_entries d a = nwi_entries d1 a @
       map (\<lambda>e. nwi_ifstate_set_diff e NWI_IFSTATE_DIFF_REMOVED)
         (filter (\<lambda>e. ifs_af e = a \<and> ifs_name e \<notin> ifs_name ` set (nwi_entries d1 a)) (nwi_all_entries old))"
    by blast
  have "nwi_entries d a = map (nwi_mark old) (nwi_family new a) @ nwi_removed old new a" if a: "valid_af a" for a
  proof -
    have nm: "ifs_name ` set (nwi_entries d1 a) = ifs_name ` set (nwi_family new a)"
      by (simp add: d1(4) [OF a] image_image nwi_mark_def)
    have "filter (\<lambda>e. ifs_af e = a \<and> ifs_name e \<notin> ifs_name ` set (nwi_family new a)) (nwi_all_entries old) =
        filter (\<lambda>e. ifs_name e \<notin> ifs_name ` set (nwi_family new a)) (filter (\<lambda>e. ifs_af e = a) (nwi_all_entries old))"
      by (simp add: conj_commute)
    then show ?thesis
      unfolding d(3) [OF a] nm all_entries_family(2) [OF old a] by (simp add: d1(4) [OF a] nwi_removed_def)
  qed
  moreover have "nwi_state_diff old new = Ret (Some d)"
    using tot(1) d1(1) d(1)
    by (simp add: nwi_state_diff_def nwi_diff_total_def [symmetric] nwi_state_new_def
        nwi_state_diff_populate_def)
  ultimately show ?thesis using d(2) by blast
qed


text \<open>
  C4. Comparing two well-formed states never writes outside the block that was allocated for
  the result, whatever their sizes: the block has room for the larger family of each state,
  and that is enough. The result lists, per family, every entry of the new state in order,
  marked by what changed against the entry of that name in the old state, and then the
  entries of the old state whose name is gone, marked as removed.
\<close>

theorem nwi_state_diff_content:
  assumes "nwi_opt_inv old" and "nwi_opt_inv new"
    and "0 < nwi_diff_total old new" and "nwi_diff_total old new < 2 ^ 30"
  shows "\<exists>d. nwi_state_diff old new = Ret (Some d) \<and>
    nwi_entries d AF_INET = map (nwi_mark old) (nwi_family new AF_INET) @ nwi_removed old new AF_INET \<and>
    nwi_entries d AF_INET6 = map (nwi_mark old) (nwi_family new AF_INET6) @ nwi_removed old new AF_INET6"
  using diff_contents [OF assms] by auto

lemma two_families_opt: "nwi_opt_inv (Some nwi_two_families)" "nwi_opt_inv None"
  by (simp_all add: nwi_opt_inv_def nwi_two_families_inv)

lemma two_families_total:
  "nwi_diff_total (Some nwi_two_families) None = 1" "nwi_diff_total None (Some nwi_two_families) = 1"
  by code_simp+

theorem nwi_state_diff_content_witness:
  "\<exists>d. nwi_state_diff (Some nwi_two_families) None = Ret (Some d) \<and>
    nwi_entries d AF_INET = map (nwi_mark (Some nwi_two_families)) (nwi_family None AF_INET)
      @ nwi_removed (Some nwi_two_families) None AF_INET \<and>
    nwi_entries d AF_INET6 = map (nwi_mark (Some nwi_two_families)) (nwi_family None AF_INET6)
      @ nwi_removed (Some nwi_two_families) None AF_INET6"
  by (rule nwi_state_diff_content [OF two_families_opt]) (simp_all add: two_families_total)

section \<open>Interface generations\<close>

text \<open>The generation an entry is given: the current one when the interface changed, else its old one.\<close>

definition nwi_new_gen :: "nwi_state option \<Rightarrow> nwi_state \<Rightarrow> nat \<Rightarrow> nwi_state \<Rightarrow> nwi_ifstate \<Rightarrow> uint64" where
  "nwi_new_gen old c a s e =
     (if nwi_name_has_changed c (ifs_name e) then generation_count s
      else if a = AF_INET6 \<and> ifs_gen e = generation_count s then generation_count s
      else case nwi_lookup old a (ifs_name e) of None \<Rightarrow> ifs_gen e | Some prev \<Rightarrow> ifs_gen prev)"

lemma update_generation_step:
  assumes "nwi_name_has_changed c (ifs_name e) \<or> nwi_lookup old a (ifs_name e) \<noteq> None"
    and "ifstate_list s ! p = e" and "generation_count s = g" and "p < length (ifstate_list s)"
  shows "nwi_update_generation old c g a (a = AF_INET6) p s =
    Ret (upd_slot s p (\<lambda>e. e\<lparr>ifs_gen := nwi_new_gen old c a s e\<rparr>))"
proof -
  have id: "(ifstate_list s)[p := e] = ifstate_list s" using assms(2) by auto
  have "upd_slot s p (\<lambda>e. e\<lparr>ifs_gen := nwi_new_gen old c a s e\<rparr>) =
      upd_slot s p (\<lambda>x. x\<lparr>ifs_gen := nwi_new_gen old c a s e\<rparr>)"
    using assms(2) by (simp add: upd_slot_def)
  moreover have "upd_slot s p (\<lambda>x. x\<lparr>ifs_gen := ifs_gen e\<rparr>) = s"
    using assms(2) by (simp add: upd_slot_def id)
  ultimately show ?thesis
    using assms unfolding nwi_update_generation_def nwi_new_gen_def nwi_ifstate_set_generation_def Let_def
    by (cases "nwi_lookup old a (ifs_name e)") auto
qed

text \<open>One family's loop, over the entries it has left from \<open>i\<close> on.\<close>

lemma update_generation_loop:
  assumes mem: "nwi_mem s" and a: "valid_af a" and g: "generation_count s = g"
    and ok: "\<And>e. e \<in> set (nwi_entries s a) \<Longrightarrow>
      nwi_name_has_changed c (ifs_name e) \<or> nwi_lookup old a (ifs_name e) \<noteq> None"
    and k: "i + k = nwi_state_get_ifstate_count s a"
  shows "\<exists>s'. ofold (nwi_update_generation old c g a (a = AF_INET6)) (nwi_slots s a i) s = Ret s' \<and>
    nwi_mem s' \<and> generation_count s' = g \<and> max_if_count s' = max_if_count s \<and>
    (\<forall>b. nwi_state_get_ifstate_count s' b = nwi_state_get_ifstate_count s b) \<and>
    (\<forall>b j. valid_af b \<longrightarrow> j < max_if_count s \<longrightarrow> nwi_ent s' b j =
      (if b = a \<and> i \<le> j \<and> j < i + k then (nwi_ent s b j)\<lparr>ifs_gen := nwi_new_gen old c a s (nwi_ent s b j)\<rparr>
       else nwi_ent s b j))"
  using mem g ok k
proof (induction k arbitrary: i s)
  case 0
  then show ?case by (auto simp: nwi_slots_Nil)
next
  case (Suc k)
  let ?p = "nwi_state_ifstate_list s a + i"
  let ?u = "upd_slot s ?p (\<lambda>e. e\<lparr>ifs_gen := nwi_new_gen old c a s e\<rparr>)"
  have i: "i < nwi_state_get_ifstate_count s a" using Suc.prems(4) by simp
  have im: "i < max_if_count s" using i count_le_max [OF Suc.prems(1), of a] by simp
  have len: "?p < length (ifstate_list s)" using slot_bound [OF Suc.prems(1) a im] .
  have mem_i: "nwi_ent s a i \<in> set (nwi_entries s a)"
    using i by (auto simp: entries_conv [OF Suc.prems(1)])
  have step: "nwi_update_generation old c g a (a = AF_INET6) ?p s = Ret ?u"
    by (rule update_generation_step [OF Suc.prems(3) [OF mem_i] refl Suc.prems(2) len])
  have nth: "nwi_ent ?u b j = (if b = a \<and> j = i then (nwi_ent s b j)\<lparr>ifs_gen := nwi_new_gen old c a s (nwi_ent s b j)\<rparr>
      else nwi_ent s b j)" if "valid_af b" "j < max_if_count s" for b j
    using slot_inj [OF a that(1) im that(2)] len by (auto simp: upd_slot_nth)
  have gen_same: "nwi_new_gen old c a ?u e = nwi_new_gen old c a s e" for e
    by (simp add: nwi_new_gen_def)
  have "\<exists>s'. ofold (nwi_update_generation old c g a (a = AF_INET6)) (nwi_slots ?u a (Suc i)) ?u = Ret s' \<and>
    nwi_mem s' \<and> generation_count s' = g \<and> max_if_count s' = max_if_count ?u \<and>
    (\<forall>b. nwi_state_get_ifstate_count s' b = nwi_state_get_ifstate_count ?u b) \<and>
    (\<forall>b j. valid_af b \<longrightarrow> j < max_if_count ?u \<longrightarrow> nwi_ent s' b j =
      (if b = a \<and> Suc i \<le> j \<and> j < Suc i + k then (nwi_ent ?u b j)\<lparr>ifs_gen := nwi_new_gen old c a ?u (nwi_ent ?u b j)\<rparr>
       else nwi_ent ?u b j))"
  proof (rule Suc.IH)
    show "nwi_mem ?u" "generation_count ?u = g" "Suc i + k = nwi_state_get_ifstate_count ?u a"
      using Suc.prems by simp_all
    fix e assume "e \<in> set (nwi_entries ?u a)"
    then obtain j where j: "j < nwi_state_get_ifstate_count s a" "e = nwi_ent ?u a j"
      using Suc.prems(1) by (auto simp: entries_conv)
    then have "j < max_if_count s" using count_le_max [OF Suc.prems(1), of a] by simp
    then have "ifs_name e = ifs_name (nwi_ent s a j)" unfolding j(2) nth [OF a \<open>j < max_if_count s\<close>] by simp
    moreover have "nwi_ent s a j \<in> set (nwi_entries s a)" using j(1) by (auto simp: entries_conv [OF Suc.prems(1)])
    ultimately show "nwi_name_has_changed c (ifs_name e) \<or> nwi_lookup old a (ifs_name e) \<noteq> None"
      using Suc.prems(3) by metis
  qed
  then obtain s' where s': "ofold (nwi_update_generation old c g a (a = AF_INET6)) (nwi_slots ?u a (Suc i)) ?u = Ret s'"
    "nwi_mem s'" "generation_count s' = g" "max_if_count s' = max_if_count s"
    "\<And>b. nwi_state_get_ifstate_count s' b = nwi_state_get_ifstate_count s b"
    "\<And>b j. valid_af b \<Longrightarrow> j < max_if_count s \<Longrightarrow> nwi_ent s' b j =
      (if b = a \<and> Suc i \<le> j \<and> j < Suc i + k then (nwi_ent ?u b j)\<lparr>ifs_gen := nwi_new_gen old c a s (nwi_ent ?u b j)\<rparr>
       else nwi_ent ?u b j)"
    unfolding gen_same upd_slot_frame by blast
  have run: "ofold (nwi_update_generation old c g a (a = AF_INET6)) (nwi_slots s a i) s = Ret s'"
  proof -
    have "nwi_slots ?u a (Suc i) = nwi_slots s a (Suc i)" by (simp add: nwi_slots_def)
    then show ?thesis using s'(1) by (simp add: nwi_slots_Cons [OF i] step)
  qed
  have ent: "nwi_ent s' b j =
      (if b = a \<and> i \<le> j \<and> j < i + Suc k then (nwi_ent s b j)\<lparr>ifs_gen := nwi_new_gen old c a s (nwi_ent s b j)\<rparr>
       else nwi_ent s b j)" if "valid_af b" "j < max_if_count s" for b j
    unfolding s'(6) [OF that] nth [OF that] by auto
  show ?case
    by (intro exI [of _ s'] conjI allI impI run s'(2-5) ent)
qed


text \<open>An entry of the new state that the difference does not mark has an old entry.\<close>

lemma change_code_16: "unat (nwi_change_code x e) < 16"
  by (auto simp: nwi_change_code_def nwi_diff_codes split: option.splits)

lemma unchanged_has_old:
  assumes c: "nwi_mem c" "nwi_entries c a = map (nwi_mark old) (nwi_family (Some s) a) @ nwi_removed old (Some s) a"
    and a: "valid_af a" and s: "nwi_opt_inv (Some s)"
    and e: "e \<in> set (nwi_entries s a)"
  shows "nwi_name_has_changed c (ifs_name e) \<or> nwi_lookup old a (ifs_name e) \<noteq> None"
proof (rule disjCI)
  assume none: "\<not> nwi_lookup old a (ifs_name e) \<noteq> None"
  have fam: "nwi_family (Some s) a = nwi_entries s a" by (simp add: nwi_family_def)
  have "ifs_name e \<in> ifs_name ` set (nwi_entries c a)"
    using e by (simp add: c(2) fam image_Un image_image nwi_mark_def)
  then obtain x where x: "nwi_lookup (Some c) a (ifs_name e) = Some x"
    using nwi_lookup_find(1) [OF c(1) a, of "ifs_name e"] by blast
  have xs: "x \<in> set (nwi_entries c a)" "ifs_name x = ifs_name e"
    using nwi_lookup_find(2) [OF c(1) a x] by simp_all
  then obtain e' where e': "e' \<in> set (nwi_entries s a)" "x = nwi_mark old e'"
    using e unfolding c(2) fam by (auto simp: nwi_removed_def fam image_iff)
  have "ifs_name e' = ifs_name e" "ifs_af e' = a"
    using xs(2) e' family_facts(1) [OF s a] by (simp_all add: nwi_mark_def fam)
  then have "nwi_change_code (nwi_lookup old (ifs_af e') (ifs_name e')) e' = NWI_IFSTATE_DIFF_ADDED"
    using none by (simp add: nwi_change_code_def)
  then have "nwi_ifstate_get_diff x = NWI_IFSTATE_DIFF_ADDED"
    by (simp add: e'(2) nwi_mark_def diff_bits nwi_diff_codes)
  then show "nwi_name_has_changed c (ifs_name e)"
    using x a by (auto simp: nwi_name_has_changed_def valid_af_def nwi_diff_codes)
qed

text \<open>
  C7. Given the difference between the old and the new state, the assertions that an
  unchanged interface has an entry in the old state never fail, and every entry of the new
  state ends up with the right generation: the current one when the interface changed in
  either family, else the one its old entry had (an IPv6 entry that already carried the
  current generation keeps it).
\<close>

theorem nwi_state_update_generations_correct:
  assumes "nwi_opt_inv old" and "nwi_inv s"
    and "0 < nwi_diff_total old (Some s)" and "nwi_diff_total old (Some s) < 2 ^ 30"
    and diff: "nwi_state_diff old (Some s) = Ret (Some c)"
  shows "\<exists>s'. nwi_state_update_interface_generations old (Some s) (Some c) = Ret (Some s') \<and>
    nwi_entries s' AF_INET = map (\<lambda>e. e\<lparr>ifs_gen := nwi_new_gen old c AF_INET s e\<rparr>) (nwi_entries s AF_INET) \<and>
    nwi_entries s' AF_INET6 = map (\<lambda>e. e\<lparr>ifs_gen := nwi_new_gen old c AF_INET6 s e\<rparr>) (nwi_entries s AF_INET6)"
proof -
  have so: "nwi_opt_inv (Some s)" using assms(2) by (simp add: nwi_opt_inv_def)
  have mem: "nwi_mem s" using assms(2) by (simp add: nwi_inv_def)
  from diff_contents [OF assms(1) so assms(3,4)] diff
  have c: "nwi_mem c" "\<And>a. valid_af a \<Longrightarrow>
      nwi_entries c a = map (nwi_mark old) (nwi_family (Some s) a) @ nwi_removed old (Some s) a" by auto
  have ok: "nwi_name_has_changed c (ifs_name e) \<or> nwi_lookup old a (ifs_name e) \<noteq> None"
    if "valid_af a" "e \<in> set (nwi_entries s a)" for a e
    by (rule unchanged_has_old [OF c(1) c(2) [OF that(1)] that(1) so that(2)])
  let ?g = "generation_count s"
  note loop = update_generation_loop [where c = c and old = old and i = 0]
  obtain s4 where s4: "ofold (nwi_update_generation old c ?g AF_INET False) (nwi_slots s AF_INET 0) s = Ret s4"
    "nwi_mem s4" "generation_count s4 = ?g" "max_if_count s4 = max_if_count s"
    "\<And>b. nwi_state_get_ifstate_count s4 b = nwi_state_get_ifstate_count s b"
    "\<And>b j. valid_af b \<Longrightarrow> j < max_if_count s \<Longrightarrow> nwi_ent s4 b j =
      (if b = AF_INET \<and> j < nwi_state_get_ifstate_count s AF_INET
       then (nwi_ent s b j)\<lparr>ifs_gen := nwi_new_gen old c AF_INET s (nwi_ent s b j)\<rparr> else nwi_ent s b j)"
    using loop [OF mem _ refl ok, of AF_INET "nwi_state_get_ifstate_count s AF_INET"] by auto
  have ent4: "nwi_entries s4 AF_INET6 = nwi_entries s AF_INET6"
    unfolding entries_conv [OF mem] entries_conv [OF s4(2)] s4(5)
    using count_le_max [OF mem, of AF_INET6] by (intro map_cong refl) (simp add: s4(6))
  have ng: "nwi_new_gen old c a s4 e = nwi_new_gen old c a s e" for a e
    by (simp add: nwi_new_gen_def s4(3))
  obtain s6 where s6: "ofold (nwi_update_generation old c ?g AF_INET6 True) (nwi_slots s4 AF_INET6 0) s4 = Ret s6"
    "nwi_mem s6" "\<And>b. nwi_state_get_ifstate_count s6 b = nwi_state_get_ifstate_count s b"
    "\<And>b j. valid_af b \<Longrightarrow> j < max_if_count s \<Longrightarrow> nwi_ent s6 b j =
      (if b = AF_INET6 \<and> j < nwi_state_get_ifstate_count s AF_INET6
       then (nwi_ent s4 b j)\<lparr>ifs_gen := nwi_new_gen old c AF_INET6 s (nwi_ent s4 b j)\<rparr> else nwi_ent s4 b j)"
    using loop [OF s4(2) _ s4(3) ok, of AF_INET6 "nwi_state_get_ifstate_count s AF_INET6"]
    by (auto simp: ent4 ng s4(4,5))
  have "nwi_slots s4 AF_INET6 0 = nwi_slots s AF_INET6 0"
    by (simp add: nwi_slots_def s4(4,5) nwi_state_ifstate_list_def)
  with s4(1) s6(1) have run: "nwi_state_update_interface_generations old (Some s) (Some c) = Ret (Some s6)"
    by (simp add: nwi_state_update_interface_generations_def)
  have "nwi_entries s6 a = map (\<lambda>e. e\<lparr>ifs_gen := nwi_new_gen old c a s e\<rparr>) (nwi_entries s a)"
    if "valid_af a" for a
    unfolding entries_conv [OF mem] entries_conv [OF s6(2)] s6(3) map_map o_def
  proof (rule map_cong [OF refl])
    fix j assume "j \<in> set [0..<nwi_state_get_ifstate_count s a]"
    then have j: "j < nwi_state_get_ifstate_count s a" "j < max_if_count s"
      using count_le_max [OF mem, of a] by simp_all
    show "nwi_ent s6 a j = (nwi_ent s a j)\<lparr>ifs_gen := nwi_new_gen old c a s (nwi_ent s a j)\<rparr>"
      unfolding s6(4) [OF that j(2)] s4(6) [OF that j(2)] using that j(1) by (auto simp: valid_af_def)
  qed
  then show ?thesis using run by auto
qed

definition nwi_same_diff :: nwi_state where
  "nwi_same_diff = (case nwi_state_diff (Some nwi_two_families) (Some nwi_two_families) of
     Ret (Some c) \<Rightarrow> c | _ \<Rightarrow> nwi_two_families)"

lemma nwi_same_diff:
  "nwi_state_diff (Some nwi_two_families) (Some nwi_two_families) = Ret (Some nwi_same_diff)"
proof -
  have t: "nwi_diff_total (Some nwi_two_families) (Some nwi_two_families) = 2" by code_simp
  from diff_contents [OF two_families_opt(1) two_families_opt(1)]
  show ?thesis unfolding t by (auto simp: nwi_same_diff_def)
qed

theorem nwi_state_update_generations_correct_witness:
  "\<exists>s'. nwi_state_update_interface_generations (Some nwi_two_families) (Some nwi_two_families)
      (Some nwi_same_diff) = Ret (Some s') \<and>
    nwi_entries s' AF_INET = map (\<lambda>e. e\<lparr>ifs_gen := nwi_new_gen (Some nwi_two_families) nwi_same_diff AF_INET
      nwi_two_families e\<rparr>) (nwi_entries nwi_two_families AF_INET) \<and>
    nwi_entries s' AF_INET6 = map (\<lambda>e. e\<lparr>ifs_gen := nwi_new_gen (Some nwi_two_families) nwi_same_diff AF_INET6
      nwi_two_families e\<rparr>) (nwi_entries nwi_two_families AF_INET6)"
proof (rule nwi_state_update_generations_correct [OF two_families_opt(1) nwi_two_families_inv _ _ nwi_same_diff])
  have t: "nwi_diff_total (Some nwi_two_families) (Some nwi_two_families) = 2" by code_simp
  show "0 < nwi_diff_total (Some nwi_two_families) (Some nwi_two_families)"
    "nwi_diff_total (Some nwi_two_families) (Some nwi_two_families) < 2 ^ 30"
    by (simp_all add: t)
qed

end
