(* ===== verification/DnsInfo.thy ===== *)
theory DnsInfo
  imports Prelude
begin

text \<open>
  The DNS configuration buffer of libsystem_configuration (dnsinfo_internal.h and the buffer
  types of dnsinfo_private.h): a header, then attributes (type, length, data), received as
  bytes in network order and expanded in place, with arrays of pointers claimed from the
  padding that follows the attributes.

  The buffer is a list of bytes and a pointer into it an offset. \<open>dns_config_t\<close> and
  \<open>dns_resolver_t\<close> are declared in dnsinfo.h, which the repository does not have: their sizes
  and field offsets are the \<open>dns_layout\<close> argument. A header is read once, as received; the
  in-place byte swap only shows when an attribute is walked through twice, which needs an
  attribute length of zero. An array claimed from the padding is the list of its slots
  with the local counter of the slots in use.
\<close>

section \<open>Results\<close>

datatype 'a dns_run = Dns_fuel | Dns_UB | Dns_error | Dns_ok 'a

fun dbind :: "'a dns_run \<Rightarrow> ('a \<Rightarrow> 'b dns_run) \<Rightarrow> 'b dns_run" where
  "dbind Dns_fuel f = Dns_fuel"
| "dbind Dns_UB f = Dns_UB"
| "dbind Dns_error f = Dns_error"
| "dbind (Dns_ok x) f = f x"

definition dguard :: "bool \<Rightarrow> unit dns_run" where
  "dguard b = (if b then Dns_ok () else Dns_error)"

section \<open>Data\<close>

record dns_layout =
  sizeof_config_buf :: nat
  sizeof_resolver_buf :: nat
  sizeof_ptr :: nat
  off_n_resolver :: nat
  off_n_scoped_resolver :: nat
  off_n_service_specific_resolver :: nat
  off_n_nameserver :: nat
  off_port :: nat
  off_n_search :: nat
  off_n_sortaddr :: nat
  off_timeout :: nat
  off_search_order :: nat
  off_if_index :: nat
  off_service_identifier :: nat
  off_flags :: nat
  off_reach_flags :: nat

definition CONFIG_ATTRIBUTE_RESOLVER :: uint32 where "CONFIG_ATTRIBUTE_RESOLVER = 1"
definition CONFIG_ATTRIBUTE_SCOPED_RESOLVER :: uint32 where "CONFIG_ATTRIBUTE_SCOPED_RESOLVER = 2"
definition CONFIG_ATTRIBUTE_SERVICE_SPECIFIC_RESOLVER :: uint32 where
  "CONFIG_ATTRIBUTE_SERVICE_SPECIFIC_RESOLVER = 3"

definition RESOLVER_ATTRIBUTE_DOMAIN :: uint32 where "RESOLVER_ATTRIBUTE_DOMAIN = 10"
definition RESOLVER_ATTRIBUTE_ADDRESS :: uint32 where "RESOLVER_ATTRIBUTE_ADDRESS = 11"
definition RESOLVER_ATTRIBUTE_SEARCH :: uint32 where "RESOLVER_ATTRIBUTE_SEARCH = 12"
definition RESOLVER_ATTRIBUTE_SORTADDR :: uint32 where "RESOLVER_ATTRIBUTE_SORTADDR = 13"
definition RESOLVER_ATTRIBUTE_OPTIONS :: uint32 where "RESOLVER_ATTRIBUTE_OPTIONS = 14"
definition RESOLVER_ATTRIBUTE_CONFIGURATION_ID :: uint32 where "RESOLVER_ATTRIBUTE_CONFIGURATION_ID = 15"
definition RESOLVER_ATTRIBUTE_INTERFACE_NAME :: uint32 where "RESOLVER_ATTRIBUTE_INTERFACE_NAME = 16"

lemmas dns_attribute_codes = CONFIG_ATTRIBUTE_RESOLVER_def CONFIG_ATTRIBUTE_SCOPED_RESOLVER_def
  CONFIG_ATTRIBUTE_SERVICE_SPECIFIC_RESOLVER_def RESOLVER_ATTRIBUTE_DOMAIN_def
  RESOLVER_ATTRIBUTE_ADDRESS_def RESOLVER_ATTRIBUTE_SEARCH_def RESOLVER_ATTRIBUTE_SORTADDR_def
  RESOLVER_ATTRIBUTE_OPTIONS_def RESOLVER_ATTRIBUTE_CONFIGURATION_ID_def
  RESOLVER_ATTRIBUTE_INTERFACE_NAME_def

definition sizeof_dns_attribute :: nat where "sizeof_dns_attribute = 8"

definition DNS_CONFIG_BUF_MAX :: nat where "DNS_CONFIG_BUF_MAX = 1024 * 1024"

record 'a dns_list =
  dl_base :: nat
  dl_slots :: "'a option list"
  dl_used :: nat

record dns_resolver =
  rs_domain :: "nat option"
  rs_n_nameserver :: uint32
  rs_nameserver :: "nat dns_list option"
  rs_port :: "16 word"
  rs_n_search :: uint32
  rs_search :: "nat dns_list option"
  rs_n_sortaddr :: uint32
  rs_sortaddr :: "nat dns_list option"
  rs_options :: "nat option"
  rs_timeout :: uint32
  rs_search_order :: uint32
  rs_if_index :: uint32
  rs_service_identifier :: uint32
  rs_flags :: uint32
  rs_reach_flags :: uint32
  rs_cid :: "nat option"
  rs_if_name :: "nat option"

record dns_config =
  cf_n_resolver :: uint32
  cf_resolver :: "dns_resolver dns_list option"
  cf_n_scoped_resolver :: uint32
  cf_scoped_resolver :: "dns_resolver dns_list option"
  cf_n_service_specific_resolver :: uint32
  cf_service_specific_resolver :: "dns_resolver dns_list option"

section \<open>Reading and claiming\<close>

text \<open>\<open>ntohl\<close> and \<open>ntohs\<close> of the field at an offset; a read past the buffer is \<open>UB\<close>.\<close>

definition ntohl_at :: "uint8 list \<Rightarrow> nat \<Rightarrow> uint32 dns_run" where
  "ntohl_at mem p =
     (if p + 4 \<le> length mem
      then Dns_ok (word_rcat [mem ! p, mem ! (p + 1), mem ! (p + 2), mem ! (p + 3)]) else Dns_UB)"

definition ntohs_at :: "uint8 list \<Rightarrow> nat \<Rightarrow> 16 word dns_run" where
  "ntohs_at mem p =
     (if p + 2 \<le> length mem then Dns_ok (word_rcat [mem ! p, mem ! (p + 1)]) else Dns_UB)"

text \<open>The size of the claimed array is a 32-bit product, which can wrap.\<close>

definition dns_expand_add_list ::
    "nat \<Rightarrow> uint32 \<Rightarrow> uint32 \<Rightarrow> uint32 \<Rightarrow> (nat \<times> uint32 \<times> 'a dns_list option) dns_run" where
  "dns_expand_add_list padding n_padding count sz =
     (let need = count * sz in
      if need > n_padding then Dns_error
      else Dns_ok (padding + unat need, n_padding - need,
             if need = 0 then None
             else Some \<lparr>dl_base = padding, dl_slots = replicate (unat need div unat sz) None, dl_used = 0\<rparr>))"

text \<open>\<open>list[n++] = x\<close>, after the test for a missing list; the loops do not test for room.\<close>

definition dns_list_put :: "'a dns_list option \<Rightarrow> 'a \<Rightarrow> 'a dns_list option dns_run" where
  "dns_list_put l x =
     (case l of
        None \<Rightarrow> Dns_error
      | Some l \<Rightarrow>
          if dl_used l < length (dl_slots l)
          then Dns_ok (Some (l\<lparr>dl_slots := (dl_slots l)[dl_used l := Some x], dl_used := Suc (dl_used l)\<rparr>))
          else Dns_UB)"

definition dns_list_count :: "'a dns_list option \<Rightarrow> nat" where
  "dns_list_count l = (case l of None \<Rightarrow> 0 | Some l \<Rightarrow> dl_used l)"

text \<open>
  The attribute loop of both functions: while a whole attribute header is left, handle the
  attribute by its type, data offset and length, then step over it. The remaining count is an
  unsigned 32-bit subtraction; the pointer is 64 bits wide. \<open>fuel\<close> bounds the iterations.
\<close>

fun dns_walk ::
    "(uint32 \<Rightarrow> nat \<Rightarrow> uint32 \<Rightarrow> 's \<Rightarrow> 's dns_run) \<Rightarrow> nat \<Rightarrow> uint8 list \<Rightarrow> uint32 \<Rightarrow> nat \<Rightarrow> 's \<Rightarrow> 's dns_run" where
  "dns_walk h fuel mem n_attribute p st =
     (if unat n_attribute < sizeof_dns_attribute then Dns_ok st
      else case fuel of
        0 \<Rightarrow> Dns_fuel
      | Suc k \<Rightarrow>
          dbind (ntohl_at mem (p + 4)) (\<lambda>len.
          dbind (ntohl_at mem p) (\<lambda>ty.
          dbind (h ty (p + sizeof_dns_attribute) len st) (\<lambda>st'.
            dns_walk h k mem (n_attribute - len) (p + unat len) st'))))"

declare dns_walk.simps [simp del]

section \<open>Expanding a resolver\<close>

definition dns_resolver_attribute :: "uint32 \<Rightarrow> nat \<Rightarrow> uint32 \<Rightarrow> dns_resolver \<Rightarrow> dns_resolver dns_run" where
  "dns_resolver_attribute ty q len r =
     (if ty = RESOLVER_ATTRIBUTE_DOMAIN then Dns_ok (r\<lparr>rs_domain := Some q\<rparr>)
      else if ty = RESOLVER_ATTRIBUTE_ADDRESS
      then dbind (dns_list_put (rs_nameserver r) q) (\<lambda>l. Dns_ok (r\<lparr>rs_nameserver := l\<rparr>))
      else if ty = RESOLVER_ATTRIBUTE_SEARCH
      then dbind (dns_list_put (rs_search r) q) (\<lambda>l. Dns_ok (r\<lparr>rs_search := l\<rparr>))
      else if ty = RESOLVER_ATTRIBUTE_SORTADDR
      then dbind (dns_list_put (rs_sortaddr r) q) (\<lambda>l. Dns_ok (r\<lparr>rs_sortaddr := l\<rparr>))
      else if ty = RESOLVER_ATTRIBUTE_OPTIONS then Dns_ok (r\<lparr>rs_options := Some q\<rparr>)
      else if ty = RESOLVER_ATTRIBUTE_CONFIGURATION_ID then Dns_ok (r\<lparr>rs_cid := Some q\<rparr>)
      else if ty = RESOLVER_ATTRIBUTE_INTERFACE_NAME then Dns_ok (r\<lparr>rs_if_name := Some q\<rparr>)
      else Dns_ok r)"

text \<open>
  The header of a resolver: its counts claim their arrays in order, the other fields are
  converted. The result has the new padding offset and size. \<open>domain\<close>, \<open>options\<close>, \<open>cid\<close> and \<open>if_name\<close> are
  pointers that the attributes set: \<open>None\<close> is a pointer that no attribute has set, for the last two whatever
  the buffer holds there.
\<close>

definition dns_resolver_header ::
    "dns_layout \<Rightarrow> uint8 list \<Rightarrow> nat \<Rightarrow> nat \<Rightarrow> uint32 \<Rightarrow> (dns_resolver \<times> nat \<times> uint32) dns_run" where
  "dns_resolver_header lay mem p padding n_padding =
     dbind (ntohl_at mem (p + off_n_nameserver lay)) (\<lambda>n_ns.
     dbind (dns_expand_add_list padding n_padding n_ns (word_of_nat (sizeof_ptr lay))) (\<lambda>(pad1, np1, ns).
     dbind (ntohs_at mem (p + off_port lay)) (\<lambda>port.
     dbind (ntohl_at mem (p + off_n_search lay)) (\<lambda>n_se.
     dbind (dns_expand_add_list pad1 np1 n_se (word_of_nat (sizeof_ptr lay))) (\<lambda>(pad2, np2, se).
     dbind (ntohl_at mem (p + off_n_sortaddr lay)) (\<lambda>n_so.
     dbind (dns_expand_add_list pad2 np2 n_so (word_of_nat (sizeof_ptr lay))) (\<lambda>(pad3, np3, so).
     dbind (ntohl_at mem (p + off_timeout lay)) (\<lambda>timeout.
     dbind (ntohl_at mem (p + off_search_order lay)) (\<lambda>order.
     dbind (ntohl_at mem (p + off_if_index lay)) (\<lambda>ifi.
     dbind (ntohl_at mem (p + off_service_identifier lay)) (\<lambda>sid.
     dbind (ntohl_at mem (p + off_flags lay)) (\<lambda>fl.
     dbind (ntohl_at mem (p + off_reach_flags lay)) (\<lambda>reach.
       Dns_ok (\<lparr>rs_domain = None, rs_n_nameserver = n_ns, rs_nameserver = ns, rs_port = port,
                rs_n_search = n_se, rs_search = se, rs_n_sortaddr = n_so, rs_sortaddr = so,
                rs_options = None, rs_timeout = timeout, rs_search_order = order, rs_if_index = ifi,
                rs_service_identifier = sid, rs_flags = fl, rs_reach_flags = reach,
                rs_cid = None, rs_if_name = None\<rparr>, pad3, np3))))))))))))))"

text \<open>\<open>n_attribute\<close> is the last field of \<open>_dns_resolver_buf_t\<close>, the attributes follow it.\<close>

definition dns_configuration_expand_resolver ::
    "dns_layout \<Rightarrow> nat \<Rightarrow> uint8 list \<Rightarrow> nat \<Rightarrow> uint32 \<Rightarrow> nat \<Rightarrow> uint32 \<Rightarrow> (dns_resolver \<times> nat \<times> uint32) dns_run" where
  "dns_configuration_expand_resolver lay fuel mem p n_buf padding n_padding =
     dbind (dguard (sizeof_resolver_buf lay \<le> unat n_buf)) (\<lambda>_.
     dbind (dns_resolver_header lay mem p padding n_padding) (\<lambda>(r, pad, np).
     dbind (ntohl_at mem (p + sizeof_resolver_buf lay - 4)) (\<lambda>claimed.
     dbind (dguard (n_buf - word_of_nat (sizeof_resolver_buf lay) = claimed)) (\<lambda>_.
     dbind (dns_walk dns_resolver_attribute fuel mem claimed (p + sizeof_resolver_buf lay) r) (\<lambda>r'.
     dbind (dguard (word_of_nat (dns_list_count (rs_nameserver r')) = rs_n_nameserver r' \<and>
                    word_of_nat (dns_list_count (rs_search r')) = rs_n_search r' \<and>
                    word_of_nat (dns_list_count (rs_sortaddr r')) = rs_n_sortaddr r')) (\<lambda>_.
       Dns_ok (r', pad, np)))))))"

section \<open>The configuration\<close>

text \<open>
  Validating and copying a received configuration. \<open>None\<close> is the logged size, padding or
  length error; the subtraction from the maximum is an unsigned 64-bit one.
\<close>

definition dns_configuration_buffer_create :: "dns_layout \<Rightarrow> uint8 list \<Rightarrow> uint8 list dns_run" where
  "dns_configuration_buffer_create lay dataRef =
     (let dataLen = length dataRef in
      dbind (ntohl_at dataRef (sizeof_config_buf lay - 8)) (\<lambda>n_attribute.
      dbind (ntohl_at dataRef (sizeof_config_buf lay - 4)) (\<lambda>n_padding.
      dbind (dguard (sizeof_config_buf lay + unat n_attribute = dataLen)) (\<lambda>_.
      dbind (dguard (unat n_padding \<le> (DNS_CONFIG_BUF_MAX + 2 ^ 64 - dataLen) mod 2 ^ 64)) (\<lambda>_.
      dbind (dguard (dataLen + unat n_padding \<le> DNS_CONFIG_BUF_MAX)) (\<lambda>_.
        Dns_ok (dataRef @ replicate (unat n_padding) 0)))))))"

definition dns_config_attribute ::
    "dns_layout \<Rightarrow> nat \<Rightarrow> uint8 list \<Rightarrow> uint32 \<Rightarrow> nat \<Rightarrow> uint32 \<Rightarrow> dns_config \<times> nat \<times> uint32 \<Rightarrow>
     (dns_config \<times> nat \<times> uint32) dns_run" where
  "dns_config_attribute lay fuel mem ty q len = (\<lambda>(c, padding, n_padding).
     if ty = CONFIG_ATTRIBUTE_RESOLVER \<or> ty = CONFIG_ATTRIBUTE_SCOPED_RESOLVER \<or>
        ty = CONFIG_ATTRIBUTE_SERVICE_SPECIFIC_RESOLVER
     then dbind (dns_configuration_expand_resolver lay fuel mem q
                   (len - word_of_nat sizeof_dns_attribute) padding n_padding) (\<lambda>(r, pad, np).
          if ty = CONFIG_ATTRIBUTE_RESOLVER
          then dbind (dns_list_put (cf_resolver c) r) (\<lambda>l. Dns_ok (c\<lparr>cf_resolver := l\<rparr>, pad, np))
          else if ty = CONFIG_ATTRIBUTE_SCOPED_RESOLVER
          then dbind (dns_list_put (cf_scoped_resolver c) r) (\<lambda>l. Dns_ok (c\<lparr>cf_scoped_resolver := l\<rparr>, pad, np))
          else dbind (dns_list_put (cf_service_specific_resolver c) r)
                 (\<lambda>l. Dns_ok (c\<lparr>cf_service_specific_resolver := l\<rparr>, pad, np)))
     else Dns_ok (c, padding, n_padding))"

definition dns_configuration_buffer_expand :: "dns_layout \<Rightarrow> nat \<Rightarrow> uint8 list \<Rightarrow> dns_config dns_run" where
  "dns_configuration_buffer_expand lay fuel mem =
     dbind (ntohl_at mem (sizeof_config_buf lay - 8)) (\<lambda>n_attribute.
     dbind (ntohl_at mem (sizeof_config_buf lay - 4)) (\<lambda>n_padding.
     dbind (ntohl_at mem (off_n_resolver lay)) (\<lambda>n_r.
     dbind (dns_expand_add_list (sizeof_config_buf lay + unat n_attribute) n_padding n_r
              (word_of_nat (sizeof_ptr lay))) (\<lambda>(pad1, np1, lr).
     dbind (ntohl_at mem (off_n_scoped_resolver lay)) (\<lambda>n_s.
     dbind (dns_expand_add_list pad1 np1 n_s (word_of_nat (sizeof_ptr lay))) (\<lambda>(pad2, np2, ls).
     dbind (ntohl_at mem (off_n_service_specific_resolver lay)) (\<lambda>n_v.
     dbind (dns_expand_add_list pad2 np2 n_v (word_of_nat (sizeof_ptr lay))) (\<lambda>(pad3, np3, lv).
     dbind (dns_walk (dns_config_attribute lay fuel mem) fuel mem n_attribute (sizeof_config_buf lay)
              (\<lparr>cf_n_resolver = n_r, cf_resolver = lr, cf_n_scoped_resolver = n_s, cf_scoped_resolver = ls,
                cf_n_service_specific_resolver = n_v, cf_service_specific_resolver = lv\<rparr>, pad3, np3)) (\<lambda>(c, pad, np).
     dbind (dguard (word_of_nat (dns_list_count (cf_resolver c)) = cf_n_resolver c \<and>
                    word_of_nat (dns_list_count (cf_scoped_resolver c)) = cf_n_scoped_resolver c \<and>
                    word_of_nat (dns_list_count (cf_service_specific_resolver c)) =
                      cf_n_service_specific_resolver c)) (\<lambda>_.
       Dns_ok c))))))))))"

end
