(* ===== verification/DnsProps.thy ===== *)
theory DnsProps
  imports DnsInfo
begin

text \<open>
  What expanding a DNS configuration guarantees: well-formed attribute chains are walked to
  their end and fill the claimed arrays in order; the arrays are claimed inside the padding;
  and where the code trusts the sender, with the buffers that show it.
\<close>

section \<open>Attribute chains\<close>

text \<open>A chain of attributes (type, data offset, length) that fills \<open>n\<close> bytes from \<open>p\<close> on.\<close>

inductive dns_attrs :: "uint8 list \<Rightarrow> uint32 \<Rightarrow> nat \<Rightarrow> (uint32 \<times> nat \<times> uint32) list \<Rightarrow> bool" for mem where
  dns_attrs_Nil: "unat n < 8 \<Longrightarrow> dns_attrs mem n p []"
| dns_attrs_Cons: "ntohl_at mem (p + 4) = Dns_ok len \<Longrightarrow> ntohl_at mem p = Dns_ok ty \<Longrightarrow>
    8 \<le> unat len \<Longrightarrow> unat len \<le> unat n \<Longrightarrow> dns_attrs mem (n - len) (p + unat len) as \<Longrightarrow>
    dns_attrs mem n p ((ty, p + 8, len) # as)"

inductive_cases dns_attrs_NilE: "dns_attrs mem n p []"

fun dfold :: "('a \<Rightarrow> 's \<Rightarrow> 's dns_run) \<Rightarrow> 'a list \<Rightarrow> 's \<Rightarrow> 's dns_run" where
  "dfold f [] s = Dns_ok s"
| "dfold f (x # xs) s = dbind (f x s) (dfold f xs)"

lemma dbind_ok [simp]: "(dbind m f = Dns_ok y) \<longleftrightarrow> (\<exists>x. m = Dns_ok x \<and> f x = Dns_ok y)"
  by (cases m) auto

lemma dguard_simps [simp]: "b \<Longrightarrow> dguard b = Dns_ok ()" "\<not> b \<Longrightarrow> dguard b = Dns_error"
  by (simp_all add: dguard_def)

lemma dbind_cong_ok: "(\<And>x. m = Dns_ok x \<Longrightarrow> f x = g x) \<Longrightarrow> dbind m f = dbind m g"
  by (cases m) auto

text \<open>On a chain the loop runs once per attribute, so the fuel needed is the length of the chain.\<close>

lemma walk_chain:
  "dns_attrs mem n p as \<Longrightarrow> length as \<le> fuel \<Longrightarrow>
   dns_walk h fuel mem n p st = dfold (\<lambda>(ty, q, len). h ty q len) as st"
proof (induction arbitrary: fuel st rule: dns_attrs.induct)
  case (dns_attrs_Cons p len ty n as)
  from dns_attrs_Cons.prems obtain k where k: "fuel = Suc k" "length as \<le> k" by (cases fuel) auto
  show ?case
    using dns_attrs_Cons.hyps dns_attrs_Cons.IH [OF k(2)]
    by (subst dns_walk.simps, simp add: k(1) sizeof_dns_attribute_def, intro dbind_cong_ok)
      (simp add: split_def)
qed (subst dns_walk.simps, simp add: sizeof_dns_attribute_def)

lemma chain_fuel: "dns_attrs mem n p as \<Longrightarrow> 8 * length as \<le> unat n"
proof (induction rule: dns_attrs.induct)
  case (dns_attrs_Cons p len ty n as)
  have "unat (n - len) = unat n - unat len" using dns_attrs_Cons.hyps(4) by (rule unat_sub [OF word_le_nat_alt [THEN iffD2]])
  then show ?case using dns_attrs_Cons.hyps(3,4) dns_attrs_Cons.IH by simp
qed simp

section \<open>Filling the claimed arrays\<close>

text \<open>The array has room for \<open>n\<close> entries and holds \<open>xs\<close> so far.\<close>

definition dns_holds :: "'a dns_list option \<Rightarrow> 'a list \<Rightarrow> nat \<Rightarrow> bool" where
  "dns_holds l xs n \<longleftrightarrow> (case l of None \<Rightarrow> xs = [] \<and> n = 0
     | Some l \<Rightarrow> dl_used l = length xs \<and> dl_slots l = map Some xs @ replicate (n - length xs) None \<and>
         length xs \<le> n)"

lemma holds_count [simp]: "dns_holds l xs n \<Longrightarrow> dns_list_count l = length xs"
  by (auto simp: dns_holds_def dns_list_count_def split: option.splits)

lemma holds_put:
  assumes "dns_holds l xs n" "length xs < n"
  shows "\<exists>l'. dns_list_put l x = Dns_ok l' \<and> dns_holds l' (xs @ [x]) n"
proof -
  obtain m where m: "n - length xs = Suc m" "n - Suc (length xs) = m"
    using assms(2) by (metis Suc_diff_Suc)
  from assms show ?thesis
    by (cases l) (auto simp: dns_holds_def dns_list_put_def m list_update_append)
qed

lemma holds_full: "dns_holds (Some l) xs n \<Longrightarrow> length xs = n \<Longrightarrow> dns_list_put (Some l) x = Dns_UB"
  by (auto simp: dns_holds_def dns_list_put_def)

lemma add_list_claim:
  assumes "dns_expand_add_list padding np count sz = Dns_ok (pad', np', l)"
  shows "pad' = padding + unat (count * sz)" "np' = np - count * sz" "count * sz \<le> np"
    and "l = (if count * sz = 0 then None
         else Some \<lparr>dl_base = padding, dl_slots = replicate (unat (count * sz) div unat sz) None, dl_used = 0\<rparr>)"
  using assms by (auto simp: dns_expand_add_list_def Let_def split: if_splits)

lemma add_list_holds:
  assumes "dns_expand_add_list padding np count sz = Dns_ok (pad', np', l)"
    and "unat count * unat sz < 2 ^ 32" "0 < unat sz"
  shows "dns_holds l [] (unat count)"
proof -
  have "unat (count * sz) = unat count * unat sz"
    using assms(2) by (simp add: unat_mult_lem [THEN iffD1])
  then show ?thesis
    using add_list_claim(4) [OF assms(1)] assms(3) by (auto simp: dns_holds_def unat_eq_zero [symmetric])
qed

text \<open>The data offsets of the attributes of one type, in order.\<close>

definition dns_offsets :: "uint32 \<Rightarrow> (uint32 \<times> nat \<times> uint32) list \<Rightarrow> nat list" where
  "dns_offsets ty as = map (\<lambda>(_, q, _). q) (filter (\<lambda>(t, _, _). t = ty) as)"

lemma dns_offsets_simps [simp]:
  "dns_offsets ty [] = []"
  "dns_offsets ty ((t, q, len) # as) = (if t = ty then [q] else []) @ dns_offsets ty as"
  by (simp_all add: dns_offsets_def)

definition resolver_holds :: "dns_resolver \<Rightarrow> nat list \<Rightarrow> nat list \<Rightarrow> nat list \<Rightarrow> bool" where
  "resolver_holds r ns se so \<longleftrightarrow> dns_holds (rs_nameserver r) ns (unat (rs_n_nameserver r)) \<and>
     dns_holds (rs_search r) se (unat (rs_n_search r)) \<and>
     dns_holds (rs_sortaddr r) so (unat (rs_n_sortaddr r))"

definition resolver_counts :: "dns_resolver \<Rightarrow> uint32 \<times> uint32 \<times> uint32" where
  "resolver_counts r = (rs_n_nameserver r, rs_n_search r, rs_n_sortaddr r)"

lemma resolver_fold:
  assumes "resolver_holds r ns se so"
    and "length ns + length (dns_offsets RESOLVER_ATTRIBUTE_ADDRESS as) \<le> unat (rs_n_nameserver r)"
    and "length se + length (dns_offsets RESOLVER_ATTRIBUTE_SEARCH as) \<le> unat (rs_n_search r)"
    and "length so + length (dns_offsets RESOLVER_ATTRIBUTE_SORTADDR as) \<le> unat (rs_n_sortaddr r)"
  shows "\<exists>r'. dfold (\<lambda>(ty, q, len). dns_resolver_attribute ty q len) as r = Dns_ok r' \<and>
    resolver_counts r' = resolver_counts r \<and>
    resolver_holds r' (ns @ dns_offsets RESOLVER_ATTRIBUTE_ADDRESS as)
      (se @ dns_offsets RESOLVER_ATTRIBUTE_SEARCH as) (so @ dns_offsets RESOLVER_ATTRIBUTE_SORTADDR as)"
  using assms
proof (induction as arbitrary: r ns se so)
  case (Cons a as)
  obtain ty q len where a: "a = (ty, q, len)" by (cases a)
  let ?ns = "ns @ (if ty = RESOLVER_ATTRIBUTE_ADDRESS then [q] else [])"
  let ?se = "se @ (if ty = RESOLVER_ATTRIBUTE_SEARCH then [q] else [])"
  let ?so = "so @ (if ty = RESOLVER_ATTRIBUTE_SORTADDR then [q] else [])"
  have ex: "\<exists>r1. dns_resolver_attribute ty q len r = Dns_ok r1 \<and> resolver_counts r1 = resolver_counts r \<and>
      resolver_holds r1 ?ns ?se ?so"
  proof -
    consider "ty = RESOLVER_ATTRIBUTE_ADDRESS" | "ty = RESOLVER_ATTRIBUTE_SEARCH" | "ty = RESOLVER_ATTRIBUTE_SORTADDR"
      | "ty \<noteq> RESOLVER_ATTRIBUTE_ADDRESS" "ty \<noteq> RESOLVER_ATTRIBUTE_SEARCH" "ty \<noteq> RESOLVER_ATTRIBUTE_SORTADDR" by blast
    then show ?thesis
    proof cases
      case 1
      with holds_put [of "rs_nameserver r" ns "unat (rs_n_nameserver r)" q] Cons.prems show ?thesis
        by (auto simp: a dns_resolver_attribute_def dns_attribute_codes resolver_holds_def resolver_counts_def)
    next
      case 2
      with holds_put [of "rs_search r" se "unat (rs_n_search r)" q] Cons.prems show ?thesis
        by (auto simp: a dns_resolver_attribute_def dns_attribute_codes resolver_holds_def resolver_counts_def)
    next
      case 3
      with holds_put [of "rs_sortaddr r" so "unat (rs_n_sortaddr r)" q] Cons.prems show ?thesis
        by (auto simp: a dns_resolver_attribute_def dns_attribute_codes resolver_holds_def resolver_counts_def)
    next
      case 4
      with Cons.prems(1) show ?thesis
        by (auto simp: dns_resolver_attribute_def resolver_holds_def resolver_counts_def)
    qed
  qed
  then obtain r1 where r1: "dns_resolver_attribute ty q len r = Dns_ok r1" "resolver_counts r1 = resolver_counts r"
    "resolver_holds r1 ?ns ?se ?so" by blast
  have "\<exists>r'. dfold (\<lambda>(ty, q, len). dns_resolver_attribute ty q len) as r1 = Dns_ok r' \<and>
      resolver_counts r' = resolver_counts r1 \<and>
      resolver_holds r' (?ns @ dns_offsets RESOLVER_ATTRIBUTE_ADDRESS as)
        (?se @ dns_offsets RESOLVER_ATTRIBUTE_SEARCH as) (?so @ dns_offsets RESOLVER_ATTRIBUTE_SORTADDR as)"
    by (rule Cons.IH [OF r1(3)]) (use Cons.prems(2-4) r1(2) in \<open>auto simp: a resolver_counts_def split: if_splits\<close>)
  then show ?case by (simp add: a r1(1,2))
qed simp


text \<open>What a successful header read gives: three empty arrays, one after the other in the padding.\<close>

lemma header_lists:
  assumes "dns_resolver_header lay mem p padding np = Dns_ok (r, pad, np')"
  obtains pad1 np1 pad2 np2 where
    "dns_expand_add_list padding np (rs_n_nameserver r) (word_of_nat (sizeof_ptr lay)) = Dns_ok (pad1, np1, rs_nameserver r)"
    "dns_expand_add_list pad1 np1 (rs_n_search r) (word_of_nat (sizeof_ptr lay)) = Dns_ok (pad2, np2, rs_search r)"
    "dns_expand_add_list pad2 np2 (rs_n_sortaddr r) (word_of_nat (sizeof_ptr lay)) = Dns_ok (pad, np', rs_sortaddr r)"
proof -
  from assms show ?thesis
    unfolding dns_resolver_header_def
    by (elim dbind_ok [THEN iffD1, THEN exE] conjE) (auto split: prod.splits intro: that)
qed

definition resolver_sizes_ok :: "dns_layout \<Rightarrow> dns_resolver \<Rightarrow> bool" where
  "resolver_sizes_ok lay r \<longleftrightarrow> 0 < sizeof_ptr lay \<and> sizeof_ptr lay < 2 ^ 16 \<and>
     unat (rs_n_nameserver r) * sizeof_ptr lay < 2 ^ 32 \<and> unat (rs_n_search r) * sizeof_ptr lay < 2 ^ 32 \<and>
     unat (rs_n_sortaddr r) * sizeof_ptr lay < 2 ^ 32"

lemma header_holds:
  assumes "dns_resolver_header lay mem p padding np = Dns_ok (r, pad, np')" "resolver_sizes_ok lay r"
  shows "resolver_holds r [] [] []"
proof -
  have sz: "unat (word_of_nat (sizeof_ptr lay) :: uint32) = sizeof_ptr lay"
    using assms(2) by (simp add: resolver_sizes_ok_def unat_of_nat take_bit_nat_eq_self)
  from header_lists [OF assms(1)] obtain pad1 np1 pad2 np2 where
    "dns_expand_add_list padding np (rs_n_nameserver r) (word_of_nat (sizeof_ptr lay)) = Dns_ok (pad1, np1, rs_nameserver r)"
    "dns_expand_add_list pad1 np1 (rs_n_search r) (word_of_nat (sizeof_ptr lay)) = Dns_ok (pad2, np2, rs_search r)"
    "dns_expand_add_list pad2 np2 (rs_n_sortaddr r) (word_of_nat (sizeof_ptr lay)) = Dns_ok (pad, np', rs_sortaddr r)" .
  with assms(2) show ?thesis
    by (auto simp: resolver_holds_def resolver_sizes_ok_def sz intro!: add_list_holds)
qed

section \<open>Properties\<close>

text \<open>
  C5. A resolver whose attributes form a chain over the announced bytes and match the counts
  of its header is expanded. Its header was read, so that the padding had room for the three arrays, and no
  array's size in bytes wraps. Then nothing is written outside the claimed arrays, the loop over the attributes
  ends after at most one iteration per eight bytes behind the header of the resolver, and the name server, search and
  sort lists point to the data of the attributes of their type, in the order they were sent.
\<close>

theorem dns_resolver_expands:
  assumes hdr: "dns_resolver_header lay mem p padding np = Dns_ok (r, pad, np')" "resolver_sizes_ok lay r"
    and len: "sizeof_resolver_buf lay \<le> unat n_buf"
    and claimed: "ntohl_at mem (p + sizeof_resolver_buf lay - 4) = Dns_ok (n_buf - word_of_nat (sizeof_resolver_buf lay))"
    and chain: "dns_attrs mem (n_buf - word_of_nat (sizeof_resolver_buf lay)) (p + sizeof_resolver_buf lay) as"
    and counts: "length (dns_offsets RESOLVER_ATTRIBUTE_ADDRESS as) = unat (rs_n_nameserver r)"
      "length (dns_offsets RESOLVER_ATTRIBUTE_SEARCH as) = unat (rs_n_search r)"
      "length (dns_offsets RESOLVER_ATTRIBUTE_SORTADDR as) = unat (rs_n_sortaddr r)"
    and fuel: "(unat n_buf - sizeof_resolver_buf lay) div 8 \<le> fuel"
  shows "\<exists>r'. dns_configuration_expand_resolver lay fuel mem p n_buf padding np = Dns_ok (r', pad, np') \<and>
    dns_holds (rs_nameserver r') (dns_offsets RESOLVER_ATTRIBUTE_ADDRESS as) (unat (rs_n_nameserver r)) \<and>
    dns_holds (rs_search r') (dns_offsets RESOLVER_ATTRIBUTE_SEARCH as) (unat (rs_n_search r)) \<and>
    dns_holds (rs_sortaddr r') (dns_offsets RESOLVER_ATTRIBUTE_SORTADDR as) (unat (rs_n_sortaddr r))"
proof -
  let ?n = "n_buf - word_of_nat (sizeof_resolver_buf lay)"
  have size: "unat (word_of_nat (sizeof_resolver_buf lay) :: uint32) = sizeof_resolver_buf lay"
    using len by (metis le_unat_uoi)
  then have "word_of_nat (sizeof_resolver_buf lay) \<le> n_buf" using len by (simp add: word_le_nat_alt)
  then have "unat ?n = unat n_buf - sizeof_resolver_buf lay" by (simp add: unat_sub size)
  then have f: "length as \<le> fuel" using chain_fuel [OF chain] fuel by simp
  obtain r' where r': "dfold (\<lambda>(ty, q, len). dns_resolver_attribute ty q len) as r = Dns_ok r'"
    "resolver_counts r' = resolver_counts r"
    "resolver_holds r' (dns_offsets RESOLVER_ATTRIBUTE_ADDRESS as) (dns_offsets RESOLVER_ATTRIBUTE_SEARCH as)
       (dns_offsets RESOLVER_ATTRIBUTE_SORTADDR as)"
    using resolver_fold [OF header_holds [OF hdr], of as] counts by auto
  have "dns_list_count (rs_nameserver r') = unat (rs_n_nameserver r)"
    "dns_list_count (rs_search r') = unat (rs_n_search r)"
    "dns_list_count (rs_sortaddr r') = unat (rs_n_sortaddr r)"
    using r'(3) counts by (auto simp: resolver_holds_def)
  then have "dns_configuration_expand_resolver lay fuel mem p n_buf padding np = Dns_ok (r', pad, np')"
    using r'(1,2) len
    by (simp add: dns_configuration_expand_resolver_def hdr(1) claimed walk_chain [OF chain f]
        resolver_holds_def resolver_counts_def)
  then show ?thesis using r'(2,3) by (auto simp: resolver_holds_def resolver_counts_def)
qed


text \<open>A layout with the fields one after the other, for the concrete buffers below.\<close>

definition dns_sample_layout :: dns_layout where
  "dns_sample_layout = \<lparr>sizeof_config_buf = 20, sizeof_resolver_buf = 44, sizeof_ptr = 8,
     off_n_resolver = 0, off_n_scoped_resolver = 4, off_n_service_specific_resolver = 8,
     off_n_nameserver = 0, off_port = 36, off_n_search = 4, off_n_sortaddr = 8, off_timeout = 12,
     off_search_order = 16, off_if_index = 20, off_service_identifier = 24, off_flags = 28,
     off_reach_flags = 32\<rparr>"

text \<open>A resolver that announces \<open>n\<close> name servers, before its attribute bytes.\<close>

definition dns_sample_resolver :: "uint8 \<Rightarrow> uint8 list \<Rightarrow> uint8 list" where
  "dns_sample_resolver n attrs =
     [0, 0, 0, n] @ replicate 36 0 @ [0, 0, 0, word_of_nat (length attrs)] @ attrs"

definition dns_one_address :: "uint8 list" where
  "dns_one_address = dns_sample_resolver 1 [0, 0, 0, 11, 0, 0, 0, 9, 7]"

definition dns_sample_header :: dns_resolver where
  "dns_sample_header = \<lparr>rs_domain = None, rs_n_nameserver = 1,
     rs_nameserver = Some \<lparr>dl_base = 64, dl_slots = [None], dl_used = 0\<rparr>, rs_port = 0,
     rs_n_search = 0, rs_search = None, rs_n_sortaddr = 0, rs_sortaddr = None,
     rs_options = None, rs_timeout = 0, rs_search_order = 0, rs_if_index = 0,
     rs_service_identifier = 0, rs_flags = 0, rs_reach_flags = 0,
     rs_cid = None, rs_if_name = None\<rparr>"

lemma dns_one_address_header:
  "dns_resolver_header dns_sample_layout dns_one_address 0 64 8 = Dns_ok (dns_sample_header, 72, 0)"
  by code_simp

lemma dns_one_address_claimed: "ntohl_at dns_one_address 40 = Dns_ok 9" by code_simp

lemma dns_one_address_chain: "dns_attrs dns_one_address 9 44 [(11, 52, 9)]"
proof -
  have "ntohl_at dns_one_address (44 + 4) = Dns_ok 9" "ntohl_at dns_one_address 44 = Dns_ok 11"
    by code_simp+
  from dns_attrs_Cons [OF this, of 9 "[]"] show ?thesis by (simp add: dns_attrs_Nil)
qed

theorem dns_resolver_expands_witness:
  "\<exists>r'. dns_configuration_expand_resolver dns_sample_layout 1 dns_one_address 0 53 64 8 = Dns_ok (r', 72, 0) \<and>
    dns_holds (rs_nameserver r') (dns_offsets RESOLVER_ATTRIBUTE_ADDRESS [(11, 52, 9)]) (unat (rs_n_nameserver dns_sample_header)) \<and>
    dns_holds (rs_search r') (dns_offsets RESOLVER_ATTRIBUTE_SEARCH [(11, 52, 9)]) (unat (rs_n_search dns_sample_header)) \<and>
    dns_holds (rs_sortaddr r') (dns_offsets RESOLVER_ATTRIBUTE_SORTADDR [(11, 52, 9)]) (unat (rs_n_sortaddr dns_sample_header))"
  by (rule dns_resolver_expands [OF dns_one_address_header])
    (simp_all add: resolver_sizes_ok_def dns_sample_layout_def dns_sample_header_def
      dns_one_address_claimed dns_one_address_chain dns_attribute_codes)

definition dns_list_bytes :: "dns_layout \<Rightarrow> 'a dns_list option \<Rightarrow> nat" where
  "dns_list_bytes lay l = (case l of None \<Rightarrow> 0 | Some l \<Rightarrow> length (dl_slots l) * sizeof_ptr lay)"

definition dns_list_from :: "'a dns_list option \<Rightarrow> nat \<Rightarrow> bool" where
  "dns_list_from l b \<longleftrightarrow> (case l of None \<Rightarrow> True | Some l \<Rightarrow> dl_base l = b)"

lemma claim_bytes:
  assumes "dns_expand_add_list padding np count (word_of_nat (sizeof_ptr lay)) = Dns_ok (pad', np', l)"
    and "sizeof_ptr lay < 2 ^ 16"
  shows "dns_list_from l padding" "padding + dns_list_bytes lay l \<le> pad'" "pad' + unat np' = padding + unat np"
proof -
  have sz: "unat (word_of_nat (sizeof_ptr lay) :: uint32) = sizeof_ptr lay"
    using assms(2) by (simp add: unat_of_nat take_bit_nat_eq_self)
  note c = add_list_claim [OF assms(1)]
  show "dns_list_from l padding" "padding + dns_list_bytes lay l \<le> pad'"
    unfolding c(1,4) by (auto simp: dns_list_from_def dns_list_bytes_def sz)
  have "unat np' = unat np - unat (count * word_of_nat (sizeof_ptr lay))"
    unfolding c(2) using c(3) by (rule unat_sub)
  then show "pad' + unat np' = padding + unat np"
    using c(1,3) by (simp add: word_le_nat_alt)
qed

text \<open>
  The arrays of a resolver are claimed from the padding only: whatever counts the header
  announces, and even when a 32-bit size product wraps, the three claimed areas lie one after
  the other inside the padding that was left, and the padding that remains shrinks by exactly
  their sizes.
\<close>

theorem dns_claims_inside_padding:
  assumes "dns_resolver_header lay mem p padding np = Dns_ok (r, pad, np')" and "sizeof_ptr lay < 2 ^ 16"
  shows "\<exists>b c. dns_list_from (rs_nameserver r) padding \<and> padding + dns_list_bytes lay (rs_nameserver r) \<le> b \<and>
    dns_list_from (rs_search r) b \<and> b + dns_list_bytes lay (rs_search r) \<le> c \<and>
    dns_list_from (rs_sortaddr r) c \<and> c + dns_list_bytes lay (rs_sortaddr r) \<le> pad \<and>
    pad + unat np' = padding + unat np"
proof -
  from header_lists [OF assms(1)] obtain pad1 np1 pad2 np2 where l:
    "dns_expand_add_list padding np (rs_n_nameserver r) (word_of_nat (sizeof_ptr lay)) = Dns_ok (pad1, np1, rs_nameserver r)"
    "dns_expand_add_list pad1 np1 (rs_n_search r) (word_of_nat (sizeof_ptr lay)) = Dns_ok (pad2, np2, rs_search r)"
    "dns_expand_add_list pad2 np2 (rs_n_sortaddr r) (word_of_nat (sizeof_ptr lay)) = Dns_ok (pad, np', rs_sortaddr r)" .
  note b = claim_bytes [OF l(1) assms(2)] claim_bytes [OF l(2) assms(2)] claim_bytes [OF l(3) assms(2)]
  show ?thesis by (intro exI [of _ pad1] exI [of _ pad2]) (use b in simp)
qed

theorem dns_claims_inside_padding_witness:
  "\<exists>b c. dns_list_from (rs_nameserver dns_sample_header) 64 \<and> 64 + dns_list_bytes dns_sample_layout (rs_nameserver dns_sample_header) \<le> b \<and>
    dns_list_from (rs_search dns_sample_header) b \<and> b + dns_list_bytes dns_sample_layout (rs_search dns_sample_header) \<le> c \<and>
    dns_list_from (rs_sortaddr dns_sample_header) c \<and> c + dns_list_bytes dns_sample_layout (rs_sortaddr dns_sample_header) \<le> 72 \<and>
    72 + unat (0 :: uint32) = 64 + unat (8 :: uint32)"
  by (rule dns_claims_inside_padding [OF dns_one_address_header]) (simp add: dns_sample_layout_def)


text \<open>Storing into a full array, somewhere along the chain.\<close>

lemma resolver_fold_overflow:
  assumes "dns_holds (rs_nameserver r) ns (unat (rs_n_nameserver r))" "0 < unat (rs_n_nameserver r)"
    and "unat (rs_n_nameserver r) < length ns + length (dns_offsets RESOLVER_ATTRIBUTE_ADDRESS as)"
    and "\<forall>(ty, q, len) \<in> set as. ty \<noteq> RESOLVER_ATTRIBUTE_SEARCH \<and> ty \<noteq> RESOLVER_ATTRIBUTE_SORTADDR"
  shows "dfold (\<lambda>(ty, q, len). dns_resolver_attribute ty q len) as r = Dns_UB"
  using assms
proof (induction as arbitrary: r ns)
  case Nil
  then show ?case by (auto simp: dns_holds_def split: option.splits)
next
  case (Cons a as)
  obtain ty q len where a: "a = (ty, q, len)" by (cases a)
  show ?case
  proof (cases "ty = RESOLVER_ATTRIBUTE_ADDRESS")
    case addr: True
    show ?thesis
    proof (cases "length ns = unat (rs_n_nameserver r)")
      case True
      then obtain l where "rs_nameserver r = Some l"
        using Cons.prems(1,2) by (auto simp: dns_holds_def split: option.splits)
      then have "dns_list_put (rs_nameserver r) q = Dns_UB" using holds_full Cons.prems(1) True by metis
      then have "dns_resolver_attribute ty q len r = Dns_UB"
        by (simp add: addr dns_resolver_attribute_def dns_attribute_codes)
      then show ?thesis by (simp add: a)
    next
      case False
      moreover have "length ns \<le> unat (rs_n_nameserver r)"
        using Cons.prems(1) by (auto simp: dns_holds_def split: option.splits)
      ultimately obtain l' where l': "dns_list_put (rs_nameserver r) q = Dns_ok l'"
        "dns_holds l' (ns @ [q]) (unat (rs_n_nameserver r))"
        using holds_put [OF Cons.prems(1), of q] by auto
      have "dfold (\<lambda>(ty, q, len). dns_resolver_attribute ty q len) as (r\<lparr>rs_nameserver := l'\<rparr>) = Dns_UB"
        by (rule Cons.IH [of _ "ns @ [q]"]) (use Cons.prems l'(2) in \<open>auto simp: a addr\<close>)
      moreover have "dns_resolver_attribute ty q len r = Dns_ok (r\<lparr>rs_nameserver := l'\<rparr>)"
        by (simp add: addr dns_resolver_attribute_def l' dns_attribute_codes)
      ultimately show ?thesis by (simp add: a)
    qed
  next
    case False
    have "\<exists>r1. dns_resolver_attribute ty q len r = Dns_ok r1 \<and>
      rs_nameserver r1 = rs_nameserver r \<and> rs_n_nameserver r1 = rs_n_nameserver r"
      using False Cons.prems(4) by (simp add: a dns_resolver_attribute_def)
    then obtain r1 where r1: "dns_resolver_attribute ty q len r = Dns_ok r1"
      "rs_nameserver r1 = rs_nameserver r" "rs_n_nameserver r1 = rs_n_nameserver r" by blast
    have "dfold (\<lambda>(ty, q, len). dns_resolver_attribute ty q len) as r1 = Dns_UB"
      by (rule Cons.IH [of _ ns]) (use Cons.prems False r1 in \<open>auto simp: a\<close>)
    then show ?thesis by (simp add: a r1)
  qed
qed

text \<open>
  The counts are compared only after the loop: a resolver that announces at least one
  name server and then sends more address attributes than it announced makes the loop store
  a pointer past the end of the array it claimed.
\<close>

theorem dns_resolver_overflow:
  assumes hdr: "dns_resolver_header lay mem p padding np = Dns_ok (r, pad, np')" "resolver_sizes_ok lay r"
    and len: "sizeof_resolver_buf lay \<le> unat n_buf"
    and claimed: "ntohl_at mem (p + sizeof_resolver_buf lay - 4) = Dns_ok (n_buf - word_of_nat (sizeof_resolver_buf lay))"
    and chain: "dns_attrs mem (n_buf - word_of_nat (sizeof_resolver_buf lay)) (p + sizeof_resolver_buf lay) as"
    and more: "0 < unat (rs_n_nameserver r)"
      "unat (rs_n_nameserver r) < length (dns_offsets RESOLVER_ATTRIBUTE_ADDRESS as)"
    and other: "dns_offsets RESOLVER_ATTRIBUTE_SEARCH as = []" "dns_offsets RESOLVER_ATTRIBUTE_SORTADDR as = []"
    and fuel: "length as \<le> fuel"
  shows "dns_configuration_expand_resolver lay fuel mem p n_buf padding np = Dns_UB"
proof -
  have types: "\<forall>(ty, q, len) \<in> set as. ty \<noteq> RESOLVER_ATTRIBUTE_SEARCH \<and> ty \<noteq> RESOLVER_ATTRIBUTE_SORTADDR"
    using other by (auto simp: dns_offsets_def filter_empty_conv)
  have "dfold (\<lambda>(ty, q, len). dns_resolver_attribute ty q len) as r = Dns_UB"
    by (rule resolver_fold_overflow [of _ "[]"])
      (use header_holds [OF hdr] more types in \<open>simp_all add: resolver_holds_def\<close>)
  then show ?thesis
    using len by (simp add: dns_configuration_expand_resolver_def hdr(1) claimed walk_chain [OF chain fuel])
qed

definition dns_two_addresses :: "uint8 list" where
  "dns_two_addresses = dns_sample_resolver 1 [0, 0, 0, 11, 0, 0, 0, 8, 0, 0, 0, 11, 0, 0, 0, 8]"

lemma dns_two_addresses_header:
  "dns_resolver_header dns_sample_layout dns_two_addresses 0 64 8 = Dns_ok (dns_sample_header, 72, 0)"
  by code_simp

lemma dns_two_addresses_claimed: "ntohl_at dns_two_addresses 40 = Dns_ok 16" by code_simp

lemma dns_two_addresses_chain: "dns_attrs dns_two_addresses 16 44 [(11, 52, 8), (11, 60, 8)]"
proof -
  have r: "ntohl_at dns_two_addresses (52 + 4) = Dns_ok 8" "ntohl_at dns_two_addresses 52 = Dns_ok 11"
    "ntohl_at dns_two_addresses (44 + 4) = Dns_ok 8" "ntohl_at dns_two_addresses 44 = Dns_ok 11"
    by code_simp+
  have "dns_attrs dns_two_addresses 8 52 [(11, 60, 8)]"
    using dns_attrs_Cons [OF r(1,2), of 8 "[]"] by (simp add: dns_attrs_Nil)
  with dns_attrs_Cons [OF r(3,4), of 16 "[(11, 60, 8)]"] show ?thesis by simp
qed

theorem dns_resolver_overflow_witness:
  "dns_configuration_expand_resolver dns_sample_layout 2 dns_two_addresses 0 60 64 8 = Dns_UB"
  by (rule dns_resolver_overflow [OF dns_two_addresses_header, where as = "[(11, 52, 8), (11, 60, 8)]"])
    (simp_all add: resolver_sizes_ok_def dns_sample_layout_def dns_sample_header_def
      dns_two_addresses_claimed dns_two_addresses_chain dns_attribute_codes)

lemma three_guards:
  "dbind (dguard a) (\<lambda>_. dbind (dguard b) (\<lambda>_. dbind (dguard c) (\<lambda>_. Dns_ok x))) =
   (if a \<and> b \<and> c then Dns_ok x else Dns_error)"
  by (simp add: dguard_def)

text \<open>The unsigned difference, when it does not wrap.\<close>

lemma mod_sub_small:
  fixes M d :: nat
  assumes "d \<le> M" "M < B"
  shows "(M + B - d) mod B = M - d"
proof -
  have "M + B - d = (M - d) + B" using assms by simp
  moreover have "M - d < B" using assms by simp
  ultimately show ?thesis by (simp only: mod_add_self2 mod_less)
qed

lemma config_max_64: "DNS_CONFIG_BUF_MAX < 2 ^ 64"
  by (simp add: DNS_CONFIG_BUF_MAX_def)

lemma padding_check:
  "length dataRef + unat np \<le> DNS_CONFIG_BUF_MAX \<Longrightarrow>
   unat (np :: uint32) \<le> (DNS_CONFIG_BUF_MAX + 2 ^ 64 - length dataRef) mod 2 ^ 64"
  by (subst mod_sub_small [OF _ config_max_64], linarith, linarith)

lemma buffer_create_guards:
  assumes "ntohl_at dataRef (sizeof_config_buf lay - 8) = Dns_ok n"
    and "ntohl_at dataRef (sizeof_config_buf lay - 4) = Dns_ok np"
  shows "dns_configuration_buffer_create lay dataRef =
    (if sizeof_config_buf lay + unat n = length dataRef \<and>
        unat np \<le> (DNS_CONFIG_BUF_MAX + 2 ^ 64 - length dataRef) mod 2 ^ 64 \<and>
        length dataRef + unat np \<le> DNS_CONFIG_BUF_MAX
     then Dns_ok (dataRef @ replicate (unat np) 0) else Dns_error)"
  unfolding dns_configuration_buffer_create_def Let_def assms dbind.simps by (rule three_guards)

lemma buffer_create_exact:
  assumes "ntohl_at dataRef (sizeof_config_buf lay - 8) = Dns_ok n"
    and "ntohl_at dataRef (sizeof_config_buf lay - 4) = Dns_ok np"
  shows "dns_configuration_buffer_create lay dataRef =
    (if sizeof_config_buf lay + unat n = length dataRef \<and> length dataRef + unat np \<le> DNS_CONFIG_BUF_MAX
     then Dns_ok (dataRef @ replicate (unat np) 0) else Dns_error)"
  unfolding buffer_create_guards [OF assms]
  by (rule if_cong [OF _ refl refl]) (blast intro: padding_check)

lemma walk_stuck:
  assumes "8 \<le> unat n" "ntohl_at mem (p + 4) = Dns_ok 0" "ntohl_at mem p = Dns_ok ty"
    and "h ty (p + 8) 0 st = Dns_ok st"
  shows "dns_walk h fuel mem n p st = Dns_fuel"
  by (induction fuel; subst dns_walk.simps) (use assms in \<open>simp_all add: sizeof_dns_attribute_def\<close>)

text \<open>
  A configuration that \<open>_dns_configuration_buffer_create\<close> accepts can make
  \<open>_dns_configuration_buffer_expand\<close> loop forever: with an attribute of unknown type and
  length zero in front, no number of iterations ends the loop.
\<close>

theorem dns_zero_length_attribute:
  assumes "dns_configuration_buffer_create lay dataRef = Dns_ok mem"
    and "ntohl_at mem (sizeof_config_buf lay - 8) = Dns_ok n" "8 \<le> unat n"
    and "ntohl_at mem (sizeof_config_buf lay - 4) = Dns_ok np"
    and "ntohl_at mem (off_n_resolver lay) = Dns_ok 0" "ntohl_at mem (off_n_scoped_resolver lay) = Dns_ok 0"
      "ntohl_at mem (off_n_service_specific_resolver lay) = Dns_ok 0"
    and "ntohl_at mem (sizeof_config_buf lay + 4) = Dns_ok 0"
    and "ntohl_at mem (sizeof_config_buf lay) = Dns_ok ty" "3 < ty"
  shows "dns_configuration_buffer_expand lay fuel mem = Dns_fuel"
proof -
  have ty: "ty \<noteq> 1" "ty \<noteq> 2" "ty \<noteq> 3" using assms(10) by auto
  have "dns_walk (dns_config_attribute lay fuel mem) fuel mem n (sizeof_config_buf lay) st = Dns_fuel" for st
    using ty by (intro walk_stuck [OF assms(3,8,9)]) (auto simp: dns_config_attribute_def dns_attribute_codes)
  then show ?thesis
    using assms by (simp add: dns_configuration_buffer_expand_def dns_expand_add_list_def)
qed

definition dns_zero_length :: "uint8 list" where
  "dns_zero_length = replicate 12 0 @ [0, 0, 0, 8] @ replicate 4 0 @ [0, 0, 0, 99, 0, 0, 0, 0]"

lemma dns_zero_length_reads:
  "ntohl_at dns_zero_length 12 = Dns_ok 8" "ntohl_at dns_zero_length 16 = Dns_ok 0"
  "ntohl_at dns_zero_length 0 = Dns_ok 0" "ntohl_at dns_zero_length 4 = Dns_ok 0"
  "ntohl_at dns_zero_length 8 = Dns_ok 0" "ntohl_at dns_zero_length 24 = Dns_ok 0"
  "ntohl_at dns_zero_length 20 = Dns_ok 99"
  by code_simp+

lemma dns_zero_length_created:
  "dns_configuration_buffer_create dns_sample_layout dns_zero_length = Dns_ok dns_zero_length"
  by (subst buffer_create_exact [where n = 8 and np = 0])
    (simp_all add: dns_sample_layout_def dns_zero_length_reads, simp add: dns_zero_length_def DNS_CONFIG_BUF_MAX_def)

theorem dns_zero_length_attribute_witness:
  "\<forall>fuel. dns_configuration_buffer_expand dns_sample_layout fuel dns_zero_length = Dns_fuel"
  by (intro allI dns_zero_length_attribute [OF dns_zero_length_created, where n = 8 and np = 0 and ty = 99])
    (simp_all add: dns_sample_layout_def dns_zero_length_reads)

text \<open>
  A received configuration is copied exactly when its length is that of the header plus
  the announced attribute bytes and the copy with its padding fits the maximum; the copy is
  the received bytes followed by zeroed padding. The unsigned subtraction of the padding
  check wraps for an oversized message, and the length check catches that.
\<close>

theorem dns_buffer_create_exact:
  assumes "ntohl_at dataRef (sizeof_config_buf lay - 8) = Dns_ok n"
    and "ntohl_at dataRef (sizeof_config_buf lay - 4) = Dns_ok np"
  shows "dns_configuration_buffer_create lay dataRef =
    (if sizeof_config_buf lay + unat n = length dataRef \<and> length dataRef + unat np \<le> DNS_CONFIG_BUF_MAX
     then Dns_ok (dataRef @ replicate (unat np) 0) else Dns_error)"
  by (rule buffer_create_exact [OF assms])

theorem dns_buffer_create_exact_witness:
  "dns_configuration_buffer_create dns_sample_layout dns_zero_length =
    (if sizeof_config_buf dns_sample_layout + unat (8 :: uint32) = length dns_zero_length \<and>
        length dns_zero_length + unat (0 :: uint32) \<le> DNS_CONFIG_BUF_MAX
     then Dns_ok (dns_zero_length @ replicate (unat (0 :: uint32)) 0) else Dns_error)"
  by (rule dns_buffer_create_exact) (simp_all add: dns_sample_layout_def dns_zero_length_reads)

end
