(* ===== verification/CF.thy ===== *)
theory CF
  imports Prelude "HOL-Library.Finite_Map" "HOL-Library.Sublist"
begin

text \<open>
  CoreFoundation values as the program uses them: property lists, the \<open>isA_\<close> checks of
  SCValidation.h, and the store of property lists by path that SCPreferences offers.

  A \<open>CFDictionary\<close> is a finite map, so \<open>CFEqual\<close> on property lists is equality. The
  checks return the payload of the object instead of the object itself; \<open>None\<close> is NULL.
\<close>

section \<open>Property lists\<close>

datatype plist =
    CFString string
  | CFNumber int
  | CFBoolean bool
  | CFData "uint8 list"
  | CFDate int
  | CFArray "plist list"
  | CFDictionary "(string, plist) fmap"
  | CFNull

type_synonym dict = "(string, plist) fmap"

fun isA_CFString :: "plist option \<Rightarrow> string option" where
  "isA_CFString (Some (CFString s)) = Some s"
| "isA_CFString _ = None"

fun isA_CFNumber :: "plist option \<Rightarrow> int option" where
  "isA_CFNumber (Some (CFNumber n)) = Some n"
| "isA_CFNumber _ = None"

fun isA_CFBoolean :: "plist option \<Rightarrow> bool option" where
  "isA_CFBoolean (Some (CFBoolean b)) = Some b"
| "isA_CFBoolean _ = None"

fun isA_CFData :: "plist option \<Rightarrow> uint8 list option" where
  "isA_CFData (Some (CFData d)) = Some d"
| "isA_CFData _ = None"

fun isA_CFDate :: "plist option \<Rightarrow> int option" where
  "isA_CFDate (Some (CFDate d)) = Some d"
| "isA_CFDate _ = None"

fun isA_CFArray :: "plist option \<Rightarrow> plist list option" where
  "isA_CFArray (Some (CFArray a)) = Some a"
| "isA_CFArray _ = None"

fun isA_CFDictionary :: "plist option \<Rightarrow> dict option" where
  "isA_CFDictionary (Some (CFDictionary d)) = Some d"
| "isA_CFDictionary _ = None"

text \<open>Seven of the types are property lists; the null object, which code puts into dictionaries, is not.\<close>

fun isA_CFPropertyList :: "plist option \<Rightarrow> plist option" where
  "isA_CFPropertyList (Some CFNull) = None"
| "isA_CFPropertyList x = x"

lemma isA_SomeD [cf_simps]:
  "isA_CFString x = Some s \<longleftrightarrow> x = Some (CFString s)"
  "isA_CFNumber x = Some n \<longleftrightarrow> x = Some (CFNumber n)"
  "isA_CFArray x = Some l \<longleftrightarrow> x = Some (CFArray l)"
  "isA_CFDictionary x = Some d \<longleftrightarrow> x = Some (CFDictionary d)"
  "isA_CFData x = Some b \<longleftrightarrow> x = Some (CFData b)"
  by (auto elim: isA_CFString.elims isA_CFNumber.elims isA_CFArray.elims isA_CFDictionary.elims
      isA_CFData.elims)

section \<open>The preference store\<close>

text \<open>
  \<open>SCPreferencesPathGetValue\<close>, \<open>SCPreferencesPathSetValue\<close>, \<open>SCPreferencesPathRemoveValue\<close>,
  \<open>SCPreferencesPathGetLink\<close> and \<open>SCPreferencesPathSetLink\<close> are not in the repository: they
  are the fields of a record that the operations take. A path is the list of its components
  (the code writes it \<open>/a/b/c\<close>); setting and removing fail with \<open>None\<close>.
\<close>

type_synonym path = "string list"

record 'p path_ops =
  path_get :: "'p \<Rightarrow> path \<Rightarrow> plist option"
  path_set :: "'p \<Rightarrow> path \<Rightarrow> plist \<Rightarrow> 'p option"
  path_remove :: "'p \<Rightarrow> path \<Rightarrow> 'p option"

definition path_apart :: "path \<Rightarrow> path \<Rightarrow> bool" where
  "path_apart p q \<longleftrightarrow> \<not> prefix p q \<and> \<not> prefix q p"

text \<open>
  The documented laws: a value that was set is what a lookup finds, a removed value is gone,
  and paths that are no prefixes of one another do not interfere. They are the laws of preferences without links; a
  value that is a link to another path is not followed.
\<close>

locale path_store =
  fixes ops :: "'p path_ops"
  assumes get_set: "path_set ops s p v = Some s' \<Longrightarrow> path_get ops s' p = Some v"
    and get_set_apart: "path_set ops s p v = Some s' \<Longrightarrow> path_apart p q \<Longrightarrow> path_get ops s' q = path_get ops s q"
    and get_remove: "path_remove ops s p = Some s' \<Longrightarrow> path_get ops s' p = None"
    and get_remove_apart:
      "path_remove ops s p = Some s' \<Longrightarrow> path_apart p q \<Longrightarrow> path_get ops s' q = path_get ops s q"
begin

lemma set_twice:
  "path_set ops s p v = Some s' \<Longrightarrow> path_set ops s' q w = Some s'' \<Longrightarrow> path_apart p q \<Longrightarrow>
   path_get ops s'' p = Some v"
  using get_set get_set_apart by (metis path_apart_def)

end

text \<open>A store of nested dictionaries, the shape of a preferences file.\<close>

fun tree_get :: "plist option \<Rightarrow> path \<Rightarrow> plist option" where
  "tree_get t [] = t"
| "tree_get t (k # p) = (case isA_CFDictionary t of None \<Rightarrow> None | Some d \<Rightarrow> tree_get (fmlookup d k) p)"

fun tree_set :: "plist option \<Rightarrow> path \<Rightarrow> plist \<Rightarrow> plist" where
  "tree_set t [] v = v"
| "tree_set t (k # p) v =
     (let d = (case isA_CFDictionary t of None \<Rightarrow> fmempty | Some d \<Rightarrow> d)
      in CFDictionary (fmupd k (tree_set (fmlookup d k) p v) d))"

fun tree_remove :: "plist \<Rightarrow> path \<Rightarrow> plist" where
  "tree_remove t [] = t"
| "tree_remove t (k # p) =
     (case t of
        CFDictionary d \<Rightarrow>
          (if p = [] then CFDictionary (fmdrop k d)
           else case fmlookup d k of None \<Rightarrow> t | Some u \<Rightarrow> CFDictionary (fmupd k (tree_remove u p) d))
      | _ \<Rightarrow> t)"

definition tree_ops :: "plist path_ops" where
  "tree_ops = \<lparr>path_get = \<lambda>t p. tree_get (Some t) p,
     path_set = \<lambda>t p v. (case t of CFDictionary _ \<Rightarrow> (if p = [] then None else Some (tree_set (Some t) p v)) | _ \<Rightarrow> None),
     path_remove = \<lambda>t p. (if p = [] \<or> tree_get (Some t) p = None then None else Some (tree_remove t p))\<rparr>"

lemma tree_get_None [simp]: "tree_get None p = None \<longleftrightarrow> True"
  by (cases p) simp_all

lemma tree_get_set: "tree_get (Some (tree_set t p v)) p = Some v"
  by (induction t p v rule: tree_set.induct) (simp_all add: Let_def)

lemma tree_get_set_apart:
  "path_apart p q \<Longrightarrow> tree_get (Some (tree_set t p v)) q = tree_get t q"
proof (induction t p v arbitrary: q rule: tree_set.induct)
  case (2 t k p v)
  then obtain k' q' where q: "q = k' # q'" by (cases q) (auto simp: path_apart_def)
  show ?case
  proof (cases "k' = k")
    case True
    with 2 have ap: "path_apart p q'" by (simp add: q path_apart_def)
    show ?thesis
      using "2.IH" [OF _ ap] by (cases "isA_CFDictionary t") (simp_all add: q True Let_def)
  next
    case False
    then show ?thesis by (cases "isA_CFDictionary t") (simp_all add: q Let_def)
  qed
qed (simp add: path_apart_def)

lemma tree_get_remove: "p \<noteq> [] \<Longrightarrow> tree_get (Some (tree_remove t p)) p = None"
proof (induction t p rule: tree_remove.induct)
  case (2 t k p)
  show ?case
  proof (cases t)
    case (CFDictionary d)
    show ?thesis
    proof (cases "p = [] \<or> fmlookup d k = None")
      case True
      then show ?thesis by (auto simp: CFDictionary split: option.splits)
    next
      case False
      then obtain u where "fmlookup d k = Some u" by blast
      with 2 False CFDictionary show ?thesis by simp
    qed
  qed simp_all
qed simp

lemma tree_get_remove_apart:
  "path_apart p q \<Longrightarrow> tree_get (Some (tree_remove t p)) q = tree_get (Some t) q"
proof (induction t p arbitrary: q rule: tree_remove.induct)
  case (2 t k p)
  then obtain k' q' where q: "q = k' # q'" by (cases q) (auto simp: path_apart_def)
  show ?case
  proof (cases t)
    case (CFDictionary d)
    show ?thesis
    proof (cases "k' = k")
      case True
      with 2 have ap: "path_apart p q'" by (simp add: q path_apart_def)
      then have "p \<noteq> []" by (auto simp: path_apart_def)
      with ap 2 show ?thesis by (cases "fmlookup d k") (simp_all add: q True CFDictionary)
    next
      case False
      then show ?thesis by (auto simp: q CFDictionary split: option.splits)
    qed
  qed simp_all
qed (simp add: path_apart_def)

interpretation tree: path_store tree_ops
proof unfold_locales
  show "path_set tree_ops s p v = Some s' \<Longrightarrow> path_get tree_ops s' p = Some v" for s p v s'
    by (auto simp: tree_ops_def tree_get_set split: plist.splits if_splits)
  show "path_set tree_ops s p v = Some s' \<Longrightarrow> path_apart p q \<Longrightarrow> path_get tree_ops s' q = path_get tree_ops s q"
    for s p v s' q
    by (auto simp: tree_ops_def tree_get_set_apart split: plist.splits if_splits)
  show "path_remove tree_ops s p = Some s' \<Longrightarrow> path_get tree_ops s' p = None" for s p s'
    by (auto simp: tree_ops_def tree_get_remove split: if_splits)
  show "path_remove tree_ops s p = Some s' \<Longrightarrow> path_apart p q \<Longrightarrow> path_get tree_ops s' q = path_get tree_ops s q"
    for s p s' q
    by (auto simp: tree_ops_def tree_get_remove_apart split: if_splits)
qed

end
