(* ===== verification/SCHelper.thy ===== *)
theory SCHelper
  imports CF
begin

text \<open>
  The client of the preferences helper (SCHelper_client.c): finding the server, opening a
  session with retries, executing a request, closing.

  A mach port is \<open>nat option\<close>, \<open>None\<close> is \<open>MACH_PORT_NULL\<close>. The answers of the kernel and of
  the server (\<open>helperinit\<close>, \<open>helperexec\<close>, the bootstrap lookup) are arguments.
\<close>

section \<open>Answers of the platform\<close>

datatype kern_return = KERN_SUCCESS | MACH_SEND_INVALID_DEST | Kern_other nat

datatype bootstrap_return =
  BOOTSTRAP_SUCCESS | BOOTSTRAP_NOT_PRIVILEGED | BOOTSTRAP_UNKNOWN_SERVICE | Bootstrap_other nat

definition SCHELPER_MSG_AUTH :: nat where "SCHELPER_MSG_AUTH = 1"
definition SCHELPER_MSG_PREFS_OPEN :: nat where "SCHELPER_MSG_PREFS_OPEN = 100"
definition SCHELPER_MSG_PREFS_ACCESS :: nat where "SCHELPER_MSG_PREFS_ACCESS = 101"
definition SCHELPER_MSG_PREFS_CLOSE :: nat where "SCHELPER_MSG_PREFS_CLOSE = 107"
definition SCHELPER_MSG_PREFS_SYNCHRONIZE :: nat where "SCHELPER_MSG_PREFS_SYNCHRONIZE = 108"
definition SCHELPER_MSG_EXIT :: nat where "SCHELPER_MSG_EXIT = 9999"

text \<open>
  One answer to \<open>helperexec\<close>: return code, status and reply bytes; and the decoding of a
  reply (\<open>_SCUnserializeData\<close>).
\<close>

record helper_env =
  he_exec :: "nat option \<Rightarrow> nat \<Rightarrow> uint8 list option \<Rightarrow> kern_return \<times> uint32 \<times> uint8 list option"
  he_unserialize :: "uint8 list \<Rightarrow> uint8 list option"

text \<open>
  What happens in one round of the open loop: the answer of \<open>helperinit\<close>, the change another
  thread makes to the shared server port before the lock is taken, the bootstrap lookup.
\<close>

record open_round =
  or_init :: "kern_return \<times> nat option"
  or_other :: "nat option option"
  or_lookup :: "bootstrap_return \<times> nat option"

section \<open>Operations\<close>

definition SCHelperServerPort :: "bootstrap_return \<times> nat option \<Rightarrow> nat option" where
  "SCHelperServerPort = (\<lambda>(status, server).
     case status of BOOTSTRAP_SUCCESS \<Rightarrow> server | _ \<Rightarrow> None)"

text \<open>\<open>None\<close> is FALSE; on success the status and the reply data.\<close>

definition SCHelperExec ::
    "helper_env \<Rightarrow> nat option \<Rightarrow> nat \<Rightarrow> uint8 list option \<Rightarrow> (uint32 \<times> uint8 list option) option" where
  "SCHelperExec he port msgID data =
     (case he_exec he port msgID data of (kr, replyStatus, replyRef) \<Rightarrow>
        if kr \<noteq> KERN_SUCCESS then None
        else case replyRef of
               None \<Rightarrow> Some (replyStatus, None)
             | Some r \<Rightarrow> (case he_unserialize he r of None \<Rightarrow> None | Some d \<Rightarrow> Some (replyStatus, Some d)))"

definition SCHelperClose :: "helper_env \<Rightarrow> nat option \<Rightarrow> nat option" where
  "SCHelperClose he port = (case SCHelperExec he port SCHELPER_MSG_EXIT None of _ \<Rightarrow> None)"

text \<open>The refresh of the shared server port, under the lock.\<close>

definition helper_refresh :: "open_round \<Rightarrow> nat option \<Rightarrow> nat option \<Rightarrow> nat option" where
  "helper_refresh r server shared =
     (let shared1 = (case or_other r of None \<Rightarrow> shared | Some g \<Rightarrow> g) in
      if shared1 \<noteq> None
      then (if server = shared1 then SCHelperServerPort (or_lookup r) else shared1)
      else SCHelperServerPort (or_lookup r))"

text \<open>
  The loop over the rounds; \<open>None\<close> when they run out while it still wants to go on. The
  result is the session port and the shared server port.
\<close>

fun helper_open_loop ::
    "open_round list \<Rightarrow> nat option \<Rightarrow> nat option \<Rightarrow> (nat option \<times> nat option) option" where
  "helper_open_loop [] server shared = None"
| "helper_open_loop (r # rs) server shared =
     (if server \<noteq> None \<and> fst (or_init r) = KERN_SUCCESS then Some (snd (or_init r), shared)
      else if server \<noteq> None \<and> fst (or_init r) \<noteq> MACH_SEND_INVALID_DEST then Some (None, shared)
      else let shared' = helper_refresh r server shared in
           if shared' = None then Some (None, shared') else helper_open_loop rs shared' shared')"

definition SCHelperOpen ::
    "helper_env \<Rightarrow> open_round list \<Rightarrow> uint8 list option \<Rightarrow> nat option \<Rightarrow> (bool \<times> nat option \<times> nat option) option" where
  "SCHelperOpen he rounds authorizationData shared =
     map_option (\<lambda>(port, shared').
       if port = None then (False, None, shared')
       else case SCHelperExec he port SCHELPER_MSG_AUTH authorizationData of
              None \<Rightarrow> (False, None, shared')
            | Some (status, _) \<Rightarrow> if status = 0 then (True, port, shared') else (False, None, shared'))
       (helper_open_loop rounds shared shared)"

section \<open>Properties\<close>

text \<open>A round ends the loop when the server answers or cannot be found.\<close>

definition round_ends :: "open_round \<Rightarrow> bool" where
  "round_ends r \<longleftrightarrow> fst (or_init r) \<noteq> MACH_SEND_INVALID_DEST"

lemma open_loop_returns:
  "\<exists>r \<in> set rs. round_ends r \<Longrightarrow> server \<noteq> None \<Longrightarrow> helper_open_loop rs server shared \<noteq> None"
proof (induction rs server shared rule: helper_open_loop.induct)
  case (2 r rs server shared)
  then show ?case by (auto simp: round_ends_def Let_def)
qed simp

text \<open>
  Opening the helper session reports success exactly with a session port: when it
  reports failure, whether the server was not found, answered with an error or refused the
  authorization, the caller's port is \<open>MACH_PORT_NULL\<close>. The retry loop returns as soon as one
  server port it tries does not answer \<open>MACH_SEND_INVALID_DEST\<close>, however often other threads
  replace the shared port in between.
\<close>

theorem SCHelperOpen_port:
  assumes "\<exists>r \<in> set rounds. round_ends r" and "shared \<noteq> None"
  shows "\<exists>ok port shared'. SCHelperOpen he rounds auth shared = Some (ok, port, shared') \<and> (ok \<longleftrightarrow> port \<noteq> None)"
proof -
  obtain p s where "helper_open_loop rounds shared shared = Some (p, s)"
    using open_loop_returns [OF assms, of shared] by auto
  then show ?thesis
    by (auto simp: SCHelperOpen_def split: option.splits prod.splits)
qed

text \<open>A stale shared port, then a live one that accepts the authorization.\<close>

definition helper_sample :: helper_env where
  "helper_sample = \<lparr>he_exec = (\<lambda>_ _ _. (KERN_SUCCESS, 0, None)), he_unserialize = Some\<rparr>"

definition helper_rounds :: "open_round list" where
  "helper_rounds =
     [\<lparr>or_init = (MACH_SEND_INVALID_DEST, None), or_other = None, or_lookup = (BOOTSTRAP_SUCCESS, Some 9)\<rparr>,
      \<lparr>or_init = (KERN_SUCCESS, Some 4), or_other = None, or_lookup = (BOOTSTRAP_SUCCESS, Some 9)\<rparr>]"

lemma helper_sample_run: "SCHelperOpen helper_sample helper_rounds None (Some 8) = Some (True, Some 4, Some 9)"
  by (simp add: SCHelperOpen_def helper_rounds_def helper_sample_def helper_refresh_def
      SCHelperServerPort_def SCHelperExec_def Let_def)

theorem SCHelperOpen_port_witness:
  "\<exists>ok port shared'. SCHelperOpen helper_sample helper_rounds None (Some 8) = Some (ok, port, shared') \<and>
     (ok \<longleftrightarrow> port \<noteq> None)"
  by (rule SCHelperOpen_port) (simp_all add: helper_rounds_def round_ends_def)

end
