(* ===== verification/Prefs.thy ===== *)
theory Prefs
  imports SCHelper
begin

unbundle bit_operations_syntax

text \<open>
  The preferences session (SCP.c, SCPOpen.c, the structure of SCPreferencesInternal.h):
  paths and keys, opening and reading the preferences, the dynamic store session and its
  reference count, scheduling on run loops and dispatch queues, notifications, the table of
  locked sessions and the release of a session.

  The file system, the property list parser and the dynamic store server answer through the
  \<open>pref_env\<close> argument. \<open>_SC_schedule\<close>, \<open>_SC_unschedule\<close> and \<open>_SC_isScheduled\<close> are not in
  the repository; \<open>sched_ops\<close> stands for them. Status codes set with \<open>_SCErrorSet\<close> are
  returned; retain counts of objects are not modelled.
\<close>

section \<open>Data\<close>

datatype sc_status =
    kSCStatusOK | kSCStatusFailed | kSCStatusInvalidArgument | kSCStatusAccessError
  | kSCStatusNoConfigFile | kSCStatusKeyExists | kSCStatusNoKey | kSCStatusNoLink
  | kSCStatusMaxLink | kSCStatusNoStoreSession | kSCStatusLocked | kSCStatusNeedLock
  | kSCStatusNoPrefsSession | kSCStatusPrefsBusy | kSCStatusStale | kSCStatus_other uint32

datatype errno = ENOENT | EPERM | EACCES | EBUSY | ENXIO | Errno_other nat

record scp_stat =
  st_dev :: uint64
  st_ino :: uint64
  st_mtime_sec :: uint64
  st_mtime_nsec :: uint64
  st_size :: uint64

text \<open>The structure of a session; run loops, queues and call-outs are numbers, \<open>None\<close> is NULL.\<close>

record scprefs =
  sp_name :: string
  sp_prefsID :: "string option"
  sp_options :: "dict option"
  sp_path :: "string option"
  sp_newPath :: "string option"
  sp_locked :: bool
  sp_lockFD :: int
  sp_lockPath :: "string option"
  sp_signature :: "uint8 list option"
  sp_session :: bool
  sp_sessionRefcnt :: int
  sp_sessionKeyCommit :: "string option"
  sp_sessionKeyApply :: "string option"
  sp_scheduled :: bool
  sp_rls :: bool
  sp_rlsFunction :: "nat option"
  sp_rlList :: "(nat \<times> nat) list option"
  sp_dispatchQueue :: "nat option"
  sp_prefs :: "dict option"
  sp_parent :: "nat option"
  sp_accessed :: bool
  sp_changed :: bool
  sp_isRoot :: bool
  sp_nc_flags :: uint32
  sp_authorizationData :: "uint8 list option"
  sp_helper_port :: "nat option"

record pref_env =
  pe_cstring :: "string \<Rightarrow> string option"
  pe_fsrep :: "string \<Rightarrow> string option"
  pe_access :: "string \<Rightarrow> errno option"
  pe_open :: "string \<Rightarrow> errno option"
  pe_stat :: "string \<Rightarrow> scp_stat option"
  pe_read :: "string \<Rightarrow> nat \<Rightarrow> uint8 list option"
  pe_parse :: "uint8 list \<Rightarrow> plist option"
  pe_root :: bool
  pe_pid :: uint32
  pe_progname :: string
  pe_helper :: helper_env
  pe_rounds :: "open_round list"
  pe_serialize :: "plist \<Rightarrow> uint8 list option"
  pe_store_create :: bool
  pe_set_keys :: bool
  pe_create_rls :: bool
  pe_set_queue :: bool

definition PREFS_DEFAULT_DIR :: string where "PREFS_DEFAULT_DIR = ''/Library/Preferences/SystemConfiguration''"
definition PREFS_DEFAULT_CONFIG :: string where "PREFS_DEFAULT_CONFIG = ''preferences.plist''"
definition PREFS_DEFAULT_DIR_OLD :: string where "PREFS_DEFAULT_DIR_OLD = ''/var/db/SystemConfiguration''"
definition PREFS_DEFAULT_CONFIG_OLD :: string where "PREFS_DEFAULT_CONFIG_OLD = ''preferences.xml''"
definition INTERFACES_DEFAULT_CONFIG :: string where "INTERFACES_DEFAULT_CONFIG = ''NetworkInterfaces.plist''"

lemmas prefs_default_defs = PREFS_DEFAULT_DIR_def PREFS_DEFAULT_CONFIG_def
  PREFS_DEFAULT_DIR_OLD_def PREFS_DEFAULT_CONFIG_OLD_def INTERFACES_DEFAULT_CONFIG_def

section \<open>Signatures\<close>

text \<open>A 64-bit field in the byte order of the machine, least significant byte first.\<close>

definition le64 :: "uint64 \<Rightarrow> uint8 list" where
  "le64 w = map (\<lambda>i. ucast (drop_bit (8 * i) w)) [0..<8]"

definition unle64 :: "uint8 list \<Rightarrow> uint64" where
  "unle64 bs = foldr (\<lambda>i a. push_bit (8 * i) (ucast (bs ! i)) OR a) [0..<8] 0"

definition SCPSignatureFromStatbuf :: "scp_stat \<Rightarrow> uint8 list" where
  "SCPSignatureFromStatbuf st =
     le64 (st_dev st) @ le64 (st_ino st) @ le64 (st_mtime_sec st) @ le64 (st_mtime_nsec st) @ le64 (st_size st)"

text \<open>The size is read at its offset; a signature that is too short is read past its end.\<close>

definition SCPreferencesPrefsSize :: "scprefs \<Rightarrow> uint64 outcome" where
  "SCPreferencesPrefsSize p =
     (case sp_signature p of
        None \<Rightarrow> Ret 0
      | Some sig \<Rightarrow> if length sig < 40 then UB else Ret (unle64 (take 8 (drop 32 sig))))"

section \<open>Paths and keys\<close>

definition SCPreferencesGetNetworkConfigurationFlags :: "scprefs option \<Rightarrow> uint32" where
  "SCPreferencesGetNetworkConfigurationFlags p = (case p of None \<Rightarrow> 0 | Some p \<Rightarrow> sp_nc_flags p)"

definition SCPreferencesSetNetworkConfigurationFlags :: "scprefs option \<Rightarrow> uint32 \<Rightarrow> scprefs option" where
  "SCPreferencesSetNetworkConfigurationFlags p f = map_option (\<lambda>p. p\<lparr>sp_nc_flags := f\<rparr>) p"

definition SCPreferencesPath :: "pref_env \<Rightarrow> string option \<Rightarrow> bool \<Rightarrow> string option" where
  "SCPreferencesPath env prefsID useNewPrefs =
     (let path =
        (case prefsID of
           None \<Rightarrow> (if useNewPrefs then PREFS_DEFAULT_DIR else PREFS_DEFAULT_DIR_OLD) @ ''/'' @
                   (if useNewPrefs then PREFS_DEFAULT_CONFIG else PREFS_DEFAULT_CONFIG_OLD)
         | Some i \<Rightarrow>
             if prefix ''/'' i then i
             else let q = (if useNewPrefs then PREFS_DEFAULT_DIR else PREFS_DEFAULT_DIR_OLD) @ ''/'' @ i in
                  if useNewPrefs \<and> suffix ''.xml'' q then take (length q - 4) q @ ''.plist'' else q)
      in case pe_cstring env path of Some s \<Rightarrow> Some s | None \<Rightarrow> pe_fsrep env path)"

definition SCPreferencesUsingDefaultPrefs :: "pref_env \<Rightarrow> scprefs option \<Rightarrow> bool" where
  "SCPreferencesUsingDefaultPrefs env prefs =
     (case prefs of
        None \<Rightarrow> True
      | Some p \<Rightarrow>
          let curPath = (case sp_newPath p of Some n \<Rightarrow> Some n | None \<Rightarrow> sp_path p) in
          case curPath of
            None \<Rightarrow> False
          | Some c \<Rightarrow> (case SCPreferencesPath env None (sp_newPath p = None) of
                         None \<Rightarrow> False | Some d \<Rightarrow> c = d))"

datatype pref_key = kSCPreferencesKeyLock | kSCPreferencesKeyCommit | kSCPreferencesKeyApply | Key_other

definition SCPNotificationKey :: "pref_env \<Rightarrow> string \<Rightarrow> string option \<Rightarrow> pref_key \<Rightarrow> string option" where
  "SCPNotificationKey env domain_prefs prefsID keyType =
     (case (case keyType of
              kSCPreferencesKeyLock \<Rightarrow> Some ''lock''
            | kSCPreferencesKeyCommit \<Rightarrow> Some ''commit''
            | kSCPreferencesKeyApply \<Rightarrow> Some ''apply''
            | Key_other \<Rightarrow> None) of
        None \<Rightarrow> None
      | Some keyStr \<Rightarrow>
          (case SCPreferencesPath env prefsID True of
             None \<Rightarrow> None
           | Some path \<Rightarrow> Some (domain_prefs @ keyStr @ '':'' @ path)))"

section \<open>Opening\<close>

definition SCPreferencesCreatePrivate :: "pref_env \<Rightarrow> scprefs" where
  "SCPreferencesCreatePrivate env =
     \<lparr>sp_name = '''', sp_prefsID = None, sp_options = None, sp_path = None, sp_newPath = None,
      sp_locked = False, sp_lockFD = -1, sp_lockPath = None, sp_signature = None, sp_session = False,
      sp_sessionRefcnt = 0, sp_sessionKeyCommit = None, sp_sessionKeyApply = None, sp_scheduled = False,
      sp_rls = False, sp_rlsFunction = None, sp_rlList = None, sp_dispatchQueue = None, sp_prefs = None,
      sp_parent = None, sp_accessed = False, sp_changed = False, sp_isRoot = pe_root env, sp_nc_flags = 0,
      sp_authorizationData = None, sp_helper_port = None\<rparr>"

text \<open>
  One pass of \<open>__SCPreferencesCreate\<close> from the label \<open>retry\<close>: the result, or the session
  for the next pass. Freeing the session on error is the \<open>None\<close>.
\<close>

definition prefs_create_pass ::
    "pref_env \<Rightarrow> string option \<Rightarrow> scprefs \<Rightarrow> (scprefs option \<times> sc_status) + scprefs" where
  "prefs_create_pass env prefsID p =
     (case SCPreferencesPath env prefsID (sp_newPath p = None) of
        None \<Rightarrow> Inl (None, kSCStatusFailed)
      | Some path \<Rightarrow>
          let p1 = p\<lparr>sp_path := Some path\<rparr> in
          (case pe_access env path of
             None \<Rightarrow> Inl (Some p1, kSCStatusOK)
           | Some ENOENT \<Rightarrow>
               (if prefsID = None \<or> \<not> prefix ''/'' (the prefsID)
                then (if sp_newPath p1 = None then Inr (p1\<lparr>sp_newPath := Some path\<rparr>)
                      else Inl (Some (p1\<lparr>sp_path := sp_newPath p1, sp_newPath := None\<rparr>), kSCStatusNoConfigFile))
                else Inl (Some p1, kSCStatusNoConfigFile))
           | Some e \<Rightarrow>
               (if e = EPERM \<or> e = EACCES
                then (if sp_authorizationData p1 \<noteq> None then Inl (Some p1, kSCStatusOK)
                      else Inl (None, kSCStatusAccessError))
                else Inl (None, kSCStatusFailed))))"

text \<open>The first pass can ask for a second one; the second never asks again.\<close>

definition SCPreferencesCreate ::
    "pref_env \<Rightarrow> string \<Rightarrow> string option \<Rightarrow> uint8 list option \<Rightarrow> dict option \<Rightarrow> scprefs option \<times> sc_status" where
  "SCPreferencesCreate env name prefsID auth options =
     (let p0 = (SCPreferencesCreatePrivate env)\<lparr>sp_name := name, sp_prefsID := prefsID,
                  sp_authorizationData := auth, sp_options := options\<rparr>
      in case prefs_create_pass env prefsID p0 of
           Inl r \<Rightarrow> r
         | Inr p1 \<Rightarrow> (case prefs_create_pass env prefsID p1 of Inl r \<Rightarrow> r | Inr p2 \<Rightarrow> (Some p2, kSCStatusOK)))"

text \<open>Status codes of the helper are numbers; zero is \<open>kSCStatusOK\<close>.\<close>

definition helper_status :: "uint32 \<Rightarrow> sc_status" where
  "helper_status w = (if w = 0 then kSCStatusOK else kSCStatus_other w)"

definition prefs_open_info :: "pref_env \<Rightarrow> scprefs \<Rightarrow> dict" where
  "prefs_open_info env p =
     (let d0 = fmempty;
          d1 = (case sp_prefsID p of None \<Rightarrow> d0 | Some i \<Rightarrow> fmupd ''prefsID'' (CFString i) d0);
          d2 = (case sp_options p of None \<Rightarrow> d1 | Some m \<Rightarrow> fmupd ''options'' (CFDictionary m) d1)
      in fmupd ''PROC_NAME'' (CFString (pe_progname env))
           (fmupd ''PID'' (CFNumber (sint (pe_pid env))) (fmupd ''name'' (CFString (sp_name p)) d2)))"

text \<open>The \<open>fail\<close> exit closes the helper when it is open.\<close>

definition prefs_helper_fail :: "pref_env \<Rightarrow> scprefs \<Rightarrow> scprefs" where
  "prefs_helper_fail env p =
     (if sp_helper_port p \<noteq> None then p\<lparr>sp_helper_port := SCHelperClose (pe_helper env) (sp_helper_port p)\<rparr> else p)"

text \<open>
  The shared server port of the helper client is the argument and part of the result. An open
  loop that does not return (it ran out of rounds) is \<open>None\<close>.
\<close>

definition SCPreferencesCreate_helper ::
    "pref_env \<Rightarrow> nat option \<Rightarrow> scprefs \<Rightarrow> (bool \<times> sc_status \<times> scprefs \<times> nat option) option" where
  "SCPreferencesCreate_helper env shared p =
     map_option (\<lambda>(ok, port, shared').
       let p1 = p\<lparr>sp_helper_port := port\<rparr> in
       if \<not> ok then (False, kSCStatusAccessError, prefs_helper_fail env p1, shared')
       else case pe_serialize env (CFDictionary (prefs_open_info env p1)) of
              None \<Rightarrow> (False, kSCStatusAccessError, prefs_helper_fail env p1, shared')
            | Some data \<Rightarrow>
                (case SCHelperExec (pe_helper env) port SCHELPER_MSG_PREFS_OPEN (Some data) of
                   None \<Rightarrow> (False, kSCStatusAccessError, prefs_helper_fail env p1, shared')
                 | Some (status, _) \<Rightarrow>
                     if helper_status status \<noteq> kSCStatusOK then (False, helper_status status, p1, shared')
                     else (True, kSCStatusOK, p1, shared')))
       (SCHelperOpen (pe_helper env) (pe_rounds env) (sp_authorizationData p) shared)"

section \<open>Reading\<close>

text \<open>The part of \<open>__SCPreferencesAccess_helper\<close> after the helper is open.\<close>

definition prefs_access_exec :: "pref_env \<Rightarrow> scprefs \<Rightarrow> bool \<times> scprefs" where
  "prefs_access_exec env p =
     (case SCHelperExec (pe_helper env) (sp_helper_port p) SCHELPER_MSG_PREFS_ACCESS None of
        None \<Rightarrow> (False, prefs_helper_fail env p)
      | Some (status, reply) \<Rightarrow>
          if helper_status status \<noteq> kSCStatusOK then (False, p)
          else case reply of
                 None \<Rightarrow> (False, prefs_helper_fail env p)
               | Some bytes \<Rightarrow>
                   (case pe_parse env bytes of
                      None \<Rightarrow> (False, prefs_helper_fail env p)
                    | Some serverDict \<Rightarrow>
                        (case isA_CFDictionary (Some serverDict) of
                           None \<Rightarrow> (False, prefs_helper_fail env p)
                         | Some d \<Rightarrow>
                             (case (isA_CFDictionary (fmlookup d ''preferences''), isA_CFData (fmlookup d ''signature'')) of
                                (Some prefs, Some sig) \<Rightarrow>
                                  (True, p\<lparr>sp_prefs := Some prefs, sp_signature := Some sig, sp_accessed := True\<rparr>)
                              | _ \<Rightarrow> (False, prefs_helper_fail env p)))))"

definition SCPreferencesAccess_helper ::
    "pref_env \<Rightarrow> nat option \<Rightarrow> scprefs \<Rightarrow> (bool \<times> scprefs \<times> nat option) option" where
  "SCPreferencesAccess_helper env shared p =
     (if sp_helper_port p = None
      then (case SCPreferencesCreate_helper env shared p of
              None \<Rightarrow> None
            | Some (ok, _, p1, shared') \<Rightarrow>
                if \<not> ok then Some (False, p1, shared')
                else (case prefs_access_exec env p1 of (ok2, p2) \<Rightarrow> Some (ok2, p2, shared')))
      else (case prefs_access_exec env p of (ok2, p2) \<Rightarrow> Some (ok2, p2, shared)))"

definition zero_stat :: scp_stat where
  "zero_stat = \<lparr>st_dev = 0, st_ino = 0, st_mtime_sec = 0, st_mtime_nsec = 0, st_size = 0\<rparr>"

text \<open>The label \<open>done\<close> of \<open>__SCPreferencesAccess\<close>.\<close>

definition prefs_access_done :: "scprefs \<Rightarrow> scprefs" where
  "prefs_access_done p =
     (let p1 = (if sp_prefs p = None then p\<lparr>sp_prefs := Some fmempty, sp_changed := False\<rparr> else p)
      in p1\<lparr>sp_accessed := True\<rparr>)"

text \<open>Loading the file of the given status: any failure leaves the preferences as they were.\<close>

definition prefs_load :: "pref_env \<Rightarrow> string \<Rightarrow> scp_stat \<Rightarrow> scprefs \<Rightarrow> scprefs" where
  "prefs_load env path st p =
     (let p1 = p\<lparr>sp_signature := Some (SCPSignatureFromStatbuf st)\<rparr> in
      if 0 <s st_size st
      then (case pe_read env path (unat (st_size st)) of
              None \<Rightarrow> p1
            | Some bytes \<Rightarrow> (case isA_CFDictionary (pe_parse env bytes) of
                              None \<Rightarrow> p1 | Some d \<Rightarrow> p1\<lparr>sp_prefs := Some d\<rparr>))
      else p1)"

definition SCPreferencesAccess :: "pref_env \<Rightarrow> nat option \<Rightarrow> scprefs \<Rightarrow> (scprefs \<times> nat option) option" where
  "SCPreferencesAccess env shared p =
     (if sp_accessed p then Some (p, shared)
      else case sp_path p of
        None \<Rightarrow> None
      | Some path \<Rightarrow>
          (case (case pe_access env path of None \<Rightarrow> pe_open env path | Some e \<Rightarrow> Some e) of
             None \<Rightarrow>
               Some (prefs_access_done (prefs_load env path
                       (case pe_stat env path of None \<Rightarrow> zero_stat | Some st \<Rightarrow> st) p), shared)
           | Some e \<Rightarrow>
               (if (e = EPERM \<or> e = EACCES) \<and> sp_authorizationData p \<noteq> None
                then (case SCPreferencesAccess_helper env shared p of
                        None \<Rightarrow> None
                      | Some (ok, p1, shared') \<Rightarrow>
                          if ok then Some (prefs_access_done p1, shared')
                          else Some (prefs_access_done (prefs_load env path zero_stat p1), shared'))
                else Some (prefs_access_done (prefs_load env path zero_stat p), shared))))"

definition SCPreferencesIsEmpty :: "pref_env \<Rightarrow> nat option \<Rightarrow> scprefs \<Rightarrow> (bool \<times> scprefs \<times> nat option) option" where
  "SCPreferencesIsEmpty env shared p =
     map_option (\<lambda>(p1, shared'). ((case sp_prefs p1 of None \<Rightarrow> True | Some d \<Rightarrow> fmdom d = {||}), p1, shared'))
       (SCPreferencesAccess env shared p)"

definition SCPreferencesSynchronize_helper :: "pref_env \<Rightarrow> scprefs \<Rightarrow> scprefs" where
  "SCPreferencesSynchronize_helper env p =
     (if sp_helper_port p = None then p
      else case SCHelperExec (pe_helper env) (sp_helper_port p) SCHELPER_MSG_PREFS_SYNCHRONIZE None of
             None \<Rightarrow> prefs_helper_fail env p | Some _ \<Rightarrow> p)"

end
