(* ===== verification/PrefsSession.thy ===== *)
theory PrefsSession
  imports Prefs "HOL-Library.Multiset"
begin

text \<open>
  The life of a preferences session (SCPOpen.c): the dynamic store session and its reference
  count, scheduling and unscheduling, change notifications, the table of locked sessions, and
  what the release of a session does.
\<close>

section \<open>The dynamic store session\<close>

definition SCPreferencesAddSession :: "pref_env \<Rightarrow> scprefs \<Rightarrow> bool \<times> scprefs" where
  "SCPreferencesAddSession env p =
     (if sp_sessionRefcnt p = 0
      then (if pe_store_create env
            then (True, p\<lparr>sp_session := True, sp_sessionRefcnt := sp_sessionRefcnt p + 1\<rparr>)
            else (False, p\<lparr>sp_session := False\<rparr>))
      else (True, p\<lparr>sp_sessionRefcnt := sp_sessionRefcnt p + 1\<rparr>))"

definition SCPreferencesRemoveSession :: "scprefs \<Rightarrow> scprefs" where
  "SCPreferencesRemoveSession p =
     (if 0 < sp_sessionRefcnt p
      then let p1 = p\<lparr>sp_sessionRefcnt := sp_sessionRefcnt p - 1\<rparr> in
           (if sp_sessionRefcnt p1 = 0 then p1\<lparr>sp_session := False\<rparr> else p1)
      else p)"

definition SCPreferencesAddSessionKeys :: "pref_env \<Rightarrow> string \<Rightarrow> scprefs \<Rightarrow> scprefs" where
  "SCPreferencesAddSessionKeys env domain p =
     (let p1 = (if sp_sessionKeyCommit p = None
                then p\<lparr>sp_sessionKeyCommit := SCPNotificationKey env domain (sp_prefsID p) kSCPreferencesKeyCommit\<rparr>
                else p)
      in (if sp_sessionKeyApply p1 = None
          then p1\<lparr>sp_sessionKeyApply := SCPNotificationKey env domain (sp_prefsID p1) kSCPreferencesKeyApply\<rparr>
          else p1))"

section \<open>Scheduling\<close>

text \<open>The run loop list of SCPrivate: entries are (run loop, mode) pairs of this session.\<close>

record sched_ops =
  so_is_scheduled :: "nat \<times> nat \<Rightarrow> (nat \<times> nat) list \<Rightarrow> bool"
  so_schedule :: "nat \<times> nat \<Rightarrow> (nat \<times> nat) list \<Rightarrow> (nat \<times> nat) list"
  so_unschedule :: "nat \<times> nat \<Rightarrow> (nat \<times> nat) list \<Rightarrow> (nat \<times> nat) list option"

text \<open>The outside: whether the store watches the keys, the run loops that have the source.\<close>

record sched_world =
  sw_keys :: bool
  sw_sources :: "(nat \<times> nat) set"
  sw_queue :: "nat option"

text \<open>The callers pass either a run loop with a mode or a dispatch queue.\<close>

datatype sched_target = On_runloop nat nat | On_queue nat

text \<open>The block for a session that is not scheduled yet; \<open>False\<close> is the early exit.\<close>

definition prefs_start_notifications ::
    "pref_env \<Rightarrow> string \<Rightarrow> sched_target \<Rightarrow> scprefs \<Rightarrow> sched_world \<Rightarrow> bool \<times> scprefs \<times> sched_world" where
  "prefs_start_notifications env domain t p w =
     (case (if \<not> sp_session p then SCPreferencesAddSession env p else (True, p)) of (added, p1) \<Rightarrow>
        if \<not> added then (False, p1, w)
        else let p2 = SCPreferencesAddSessionKeys env domain p1 in
             if \<not> pe_set_keys env then (False, p2, w)
             else let w1 = w\<lparr>sw_keys := True\<rparr> in
                  case t of
                    On_queue q \<Rightarrow> (True, p2\<lparr>sp_scheduled := True\<rparr>, w1)
                  | On_runloop rl mode \<Rightarrow>
                      if \<not> pe_create_rls env then (False, p2\<lparr>sp_rls := False\<rparr>, w1)
                      else (True, p2\<lparr>sp_rls := True, sp_rlList := Some [], sp_scheduled := True\<rparr>, w1))"

text \<open>A run loop list that is NULL where the code uses it is \<open>UB\<close>.\<close>

definition SCPreferencesScheduleWithRunLoop ::
    "pref_env \<Rightarrow> sched_ops \<Rightarrow> string \<Rightarrow> sched_target \<Rightarrow> scprefs \<Rightarrow> sched_world \<Rightarrow>
     (bool \<times> scprefs \<times> sched_world) outcome" where
  "SCPreferencesScheduleWithRunLoop env ops domain t p w =
     (if sp_dispatchQueue p \<noteq> None \<or> (case t of On_queue _ \<Rightarrow> sp_scheduled p | _ \<Rightarrow> False)
      then Ret (False, p, w)
      else case (if \<not> sp_scheduled p then prefs_start_notifications env domain t p w else (True, p, w)) of
        (started, p1, w1) \<Rightarrow>
          if \<not> started then Ret (False, p1, w1)
          else case t of
            On_queue q \<Rightarrow>
              if \<not> pe_set_queue env
              then Ret (False, SCPreferencesRemoveSession (p1\<lparr>sp_scheduled := False\<rparr>), w1\<lparr>sw_keys := False\<rparr>)
              else Ret (True, p1\<lparr>sp_dispatchQueue := Some q\<rparr>, w1\<lparr>sw_queue := Some q\<rparr>)
          | On_runloop rl mode \<Rightarrow>
              (case sp_rlList p1 of
                 None \<Rightarrow> UB
               | Some l \<Rightarrow>
                   let w2 = (if \<not> so_is_scheduled ops (rl, mode) l
                             then w1\<lparr>sw_sources := insert (rl, mode) (sw_sources w1)\<rparr> else w1)
                   in Ret (True, p1\<lparr>sp_rlList := Some (so_schedule ops (rl, mode) l)\<rparr>, w2)))"

text \<open>The block that runs when the last schedule is gone.\<close>

definition prefs_stop_notifications :: "scprefs \<Rightarrow> sched_world \<Rightarrow> scprefs \<times> sched_world" where
  "prefs_stop_notifications p w =
     (SCPreferencesRemoveSession (p\<lparr>sp_scheduled := False\<rparr>), w\<lparr>sw_keys := False\<rparr>)"

text \<open>\<open>None\<close> as the target is a NULL run loop: leave the dispatch queue.\<close>

definition SCPreferencesUnscheduleFromRunLoop ::
    "sched_ops \<Rightarrow> (nat \<times> nat) option \<Rightarrow> scprefs \<Rightarrow> sched_world \<Rightarrow> (bool \<times> scprefs \<times> sched_world) outcome" where
  "SCPreferencesUnscheduleFromRunLoop ops target p w =
     (if target \<noteq> None \<and> \<not> sp_scheduled p then Ret (False, p, w)
      else case target of
        None \<Rightarrow>
          if sp_dispatchQueue p = None then Ret (False, p, w)
          else (case prefs_stop_notifications (p\<lparr>sp_dispatchQueue := None\<rparr>) (w\<lparr>sw_queue := None\<rparr>) of
                  (p1, w1) \<Rightarrow> Ret (True, p1, w1))
      | Some x \<Rightarrow>
          if sp_dispatchQueue p \<noteq> None then Ret (False, p, w)
          else case sp_rlList p of
            None \<Rightarrow> UB
          | Some l \<Rightarrow>
              (case so_unschedule ops x l of
                 None \<Rightarrow> Ret (False, p, w)
               | Some l' \<Rightarrow>
                   let p1 = p\<lparr>sp_rlList := Some l'\<rparr>;
                       w1 = (if l' = [] \<or> \<not> so_is_scheduled ops x l'
                             then w\<lparr>sw_sources := sw_sources w - {x}\<rparr> else w)
                   in if l' = []
                      then (case prefs_stop_notifications (p1\<lparr>sp_rlList := None, sp_rls := False\<rparr>) w1 of
                              (p2, w2) \<Rightarrow> Ret (True, p2, w2))
                      else Ret (True, p1, w1)))"

section \<open>Notifications\<close>

definition kSCPreferencesNotificationCommit :: uint32 where "kSCPreferencesNotificationCommit = 1"
definition kSCPreferencesNotificationApply :: uint32 where "kSCPreferencesNotificationApply = 2"

unbundle bit_operations_syntax

text \<open>The call-out that is made: the function and the notification bits.\<close>

definition prefsNotify :: "scprefs \<Rightarrow> string list option \<Rightarrow> (nat \<times> uint32) option" where
  "prefsNotify p changedKeys =
     (let notify = fold (\<lambda>key n. if Some key = sp_sessionKeyCommit p then n OR kSCPreferencesNotificationCommit
                                  else if Some key = sp_sessionKeyApply p then n OR kSCPreferencesNotificationApply
                                  else n)
                     (case changedKeys of None \<Rightarrow> [] | Some ks \<Rightarrow> ks) 0
      in if notify = 0 then None
         else map_option (\<lambda>f. (f, notify)) (sp_rlsFunction p))"

section \<open>Locked sessions\<close>

text \<open>Pointers and the port are printed by the caller's formatting functions.\<close>

definition SCPreferencesCopyDescription :: "string \<Rightarrow> string \<Rightarrow> (nat \<Rightarrow> string) \<Rightarrow> scprefs \<Rightarrow> string" where
  "SCPreferencesCopyDescription cf allocator hex p =
     ''<SCPreferences '' @ cf @ '' ['' @ allocator @ '']> {'' @ ''name = '' @ sp_name p
     @ '', id = '' @ (case sp_prefsID p of Some i \<Rightarrow> i | None \<Rightarrow> ''[default]'')
     @ '', path = '' @ (case (case sp_newPath p of Some n \<Rightarrow> Some n | None \<Rightarrow> sp_path p) of
                          Some s \<Rightarrow> s | None \<Rightarrow> ''(null)'')
     @ (if sp_accessed p then '', accessed'' else '''')
     @ (if sp_changed p then '', changed'' else '''')
     @ (if sp_locked p then '', locked'' else '''')
     @ (case sp_helper_port p of None \<Rightarrow> '''' | Some h \<Rightarrow> '', helper port = 0x'' @ hex h)
     @ ''}''"

text \<open>The table of locked sessions: a map from the session's address to its description.\<close>

type_synonym locked_state = "nat \<rightharpoonup> string"

definition SCPreferencesUpdateLockedState ::
    "(scprefs \<Rightarrow> string) \<Rightarrow> nat \<Rightarrow> bool \<Rightarrow> scprefs \<Rightarrow> locked_state \<Rightarrow> scprefs \<times> locked_state" where
  "SCPreferencesUpdateLockedState description addr locked p tab =
     (let p1 = p\<lparr>sp_locked := locked\<rparr> in
      (p1, if locked then tab(addr \<mapsto> description p1) else tab(addr := None)))"

text \<open>The state dump: the descriptions on lines of their own, in the order of the dictionary.\<close>

definition appendLockedPreferences :: "string \<Rightarrow> string \<Rightarrow> string" where
  "appendLockedPreferences value str = str @ (if length str > 0 then [CHR 0x0A] else '''') @ value"

definition locked_state_dump :: "string list \<Rightarrow> string option" where
  "locked_state_dump values = (if values = [] then None else Some (fold appendLockedPreferences values ''''))"

section \<open>Release\<close>

text \<open>What the release of a session does to the outside, in order.\<close>

datatype dealloc_effect =
    Unlock_state nat
  | Forget_companion nat string
  | Unlink_lock string
  | Close_fd int
  | Helper_exec nat
  | Helper_close nat

definition SCPreferencesDeallocate :: "nat \<Rightarrow> scprefs \<Rightarrow> dealloc_effect list" where
  "SCPreferencesDeallocate addr p =
     (if sp_locked p then [Unlock_state addr] else [])
     @ (case (sp_parent p, sp_prefsID p) of (Some parent, Some i) \<Rightarrow> [Forget_companion parent i] | _ \<Rightarrow> [])
     @ (if sp_lockFD p \<noteq> -1
        then (case sp_lockPath p of Some l \<Rightarrow> [Unlink_lock l] | None \<Rightarrow> []) @ [Close_fd (sp_lockFD p)] else [])
     @ (case sp_helper_port p of
          Some h \<Rightarrow> [Helper_exec SCHELPER_MSG_PREFS_CLOSE, Helper_close h] | None \<Rightarrow> [])"

end
