(* ===== verification/PrefsProps.thy ===== *)
theory PrefsProps
  imports PrefsSession
begin

unbundle bit_operations_syntax

text \<open>
  What holds of a preferences session: signatures, the choice of the preferences file, reading,
  scheduling and notifications; and two places where the code does not do what it means to.
\<close>

section \<open>Signatures\<close>

lemma le64_length [simp]: "length (le64 w) = 8"
  by (simp add: le64_def)

lemma bit_byte: "bit (push_bit (8 * i) (ucast (ucast (drop_bit (8 * i) w) :: uint8)) :: uint64) n \<longleftrightarrow>
  8 * i \<le> n \<and> n < 8 * i + 8 \<and> bit w n" for w :: uint64
  by (auto simp: bit_simps dest: bit_imp_le_length)

lemma unle64_le64: "unle64 (le64 w) = w"
proof (rule bit_word_eqI)
  fix n assume "n < LENGTH(64)"
  then have n: "n < 64" by simp
  have "unle64 (le64 w) = foldr (\<lambda>i a. push_bit (8 * i) (ucast (ucast (drop_bit (8 * i) w) :: uint8)) OR a) [0..<8] 0"
    unfolding unle64_def le64_def by (rule foldr_cong) simp_all
  also have "\<dots> = foldr (\<lambda>i a. push_bit (8 * i) (ucast (ucast (drop_bit (8 * i) w) :: uint8)) OR a)
      [0, 1, 2, 3, 4, 5, 6, 7] 0" by (simp add: upt_rec numeral_eq_Suc)
  finally have "bit (unle64 (le64 w)) n \<longleftrightarrow> (\<exists>i \<in> {0, 1, 2, 3, 4, 5, 6, 7}. 8 * i \<le> n \<and> n < 8 * i + 8 \<and> bit w n)"
    by (simp only: foldr.simps o_def id_def bit_or_iff bit_byte) auto
  also have "\<dots> \<longleftrightarrow> bit w n" using n by auto
  finally show "bit (unle64 (le64 w)) n \<longleftrightarrow> bit w n" .
qed

text \<open>
  The size read back from a signature that was made from a file's status is the size of
  that file, for every 64-bit status, and the read stays inside the signature.
\<close>

theorem SCPreferencesPrefsSize_signature:
  "SCPreferencesPrefsSize (p\<lparr>sp_signature := Some (SCPSignatureFromStatbuf st)\<rparr>) = Ret (st_size st)"
  by (simp add: SCPreferencesPrefsSize_def SCPSignatureFromStatbuf_def unle64_le64)


section \<open>The preferences file\<close>

lemma create_pass_Inr:
  "prefs_create_pass env i p = Inr q \<Longrightarrow>
   sp_newPath p = None \<and> (\<exists>n. SCPreferencesPath env i True = Some n \<and> pe_access env n = Some ENOENT \<and>
     q = p\<lparr>sp_path := Some n, sp_newPath := Some n\<rparr>) \<and> (i = None \<or> \<not> prefix ''/'' (the i))"
  by (auto simp: prefs_create_pass_def Let_def split: option.splits errno.splits if_splits)

lemma create_pass_Inl:
  "prefs_create_pass env i p = Inl (Some q, st) \<Longrightarrow>
   \<exists>path. SCPreferencesPath env i (sp_newPath p = None) = Some path \<and>
     (q = p\<lparr>sp_path := Some path\<rparr> \<and> (if pe_access env path = Some ENOENT then st = kSCStatusNoConfigFile else st = kSCStatusOK) \<and>
        (sp_newPath p \<noteq> None \<longrightarrow> pe_access env path \<noteq> Some ENOENT \<or> (\<exists>j. i = Some j \<and> prefix ''/'' j)) \<or>
      q = p\<lparr>sp_path := sp_newPath p, sp_newPath := None\<rparr> \<and> sp_newPath p \<noteq> None \<and> pe_access env path = Some ENOENT \<and>
        st = kSCStatusNoConfigFile)"
  by (cases i; cases "SCPreferencesPath env i (sp_newPath p = None)")
    (auto simp: prefs_create_pass_def Let_def split: option.splits errno.splits if_splits)

text \<open>
  Opening a session settles on one of two paths: the path in the new directory, or, only
  when no file is there and the identifier is not an absolute path, the path in the old
  directory with the new one remembered. The status is \<open>kSCStatusNoConfigFile\<close> when no file
  is at the chosen path (which is then the new one, or an absolute one), else \<open>kSCStatusOK\<close>;
  the session keeps the identifier and the authorization, and is not accessed yet.
\<close>

theorem SCPreferencesCreate_path:
  assumes "SCPreferencesCreate env name i auth opts = (Some p, st)"
  shows "(sp_newPath p = None \<and> sp_path p = SCPreferencesPath env i True \<and> sp_path p \<noteq> None \<or>
     (\<exists>n f. sp_newPath p = Some n \<and> SCPreferencesPath env i True = Some n \<and> pe_access env n = Some ENOENT \<and>
       SCPreferencesPath env i False = Some f \<and> sp_path p = Some f \<and> pe_access env f \<noteq> Some ENOENT)) \<and>
    st = (if pe_access env (the (sp_path p)) = Some ENOENT then kSCStatusNoConfigFile else kSCStatusOK) \<and>
    sp_prefsID p = i \<and> sp_authorizationData p = auth \<and> \<not> sp_accessed p \<and> sp_sessionRefcnt p = 0"
proof -
  let ?p0 = "(SCPreferencesCreatePrivate env)\<lparr>sp_name := name, sp_prefsID := i,
    sp_authorizationData := auth, sp_options := opts\<rparr>"
  have p0: "sp_newPath ?p0 = None" by (simp add: SCPreferencesCreatePrivate_def)
  show ?thesis
  proof (cases "prefs_create_pass env i ?p0")
    case (Inl r)
    then have "prefs_create_pass env i ?p0 = Inl (Some p, st)"
      using assms by (simp add: SCPreferencesCreate_def Let_def)
    from create_pass_Inl [OF this] p0 show ?thesis by (auto simp: SCPreferencesCreatePrivate_def)
  next
    case (Inr p1)
    from create_pass_Inr [OF Inr] obtain n where n: "SCPreferencesPath env i True = Some n"
      "pe_access env n = Some ENOENT" "p1 = ?p0\<lparr>sp_path := Some n, sp_newPath := Some n\<rparr>"
      "i = None \<or> \<not> prefix ''/'' (the i)" by auto
    then have p1: "sp_newPath p1 = Some n" by simp
    then obtain r where r: "prefs_create_pass env i p1 = Inl r"
      using create_pass_Inr [of env i p1] by (cases "prefs_create_pass env i p1") auto
    then have "prefs_create_pass env i p1 = Inl (Some p, st)"
      using assms Inr by (simp add: SCPreferencesCreate_def Let_def)
    from create_pass_Inl [OF this] n p1 show ?thesis
      by (auto simp: SCPreferencesCreatePrivate_def)
  qed
qed

text \<open>A file system with a file at one path and plain strings as C strings.\<close>

definition pref_sample_env :: "string \<Rightarrow> pref_env" where
  "pref_sample_env file =
     \<lparr>pe_cstring = Some, pe_fsrep = Some, pe_access = (\<lambda>q. if q = file then None else Some ENOENT),
      pe_open = (\<lambda>q. if q = file then None else Some ENOENT), pe_stat = (\<lambda>_. None), pe_read = (\<lambda>_ _. None),
      pe_parse = (\<lambda>_. None), pe_root = False, pe_pid = 1, pe_progname = ''scutil'', pe_helper = helper_sample,
      pe_rounds = helper_rounds, pe_serialize = (\<lambda>_. Some []), pe_store_create = True, pe_set_keys = True,
      pe_create_rls = True, pe_set_queue = True\<rparr>"

definition pref_old_default :: string where
  "pref_old_default = ''/var/db/SystemConfiguration/preferences.xml''"

definition pref_old_session :: scprefs where
  "pref_old_session = (SCPreferencesCreatePrivate (pref_sample_env pref_old_default))
     \<lparr>sp_name := ''scutil'', sp_path := Some pref_old_default,
      sp_newPath := Some ''/Library/Preferences/SystemConfiguration/preferences.plist''\<rparr>"

lemma pref_old_session_created:
  "SCPreferencesCreate (pref_sample_env pref_old_default) ''scutil'' None None None = (Some pref_old_session, kSCStatusOK)"
  by (simp add: SCPreferencesCreate_def prefs_create_pass_def SCPreferencesPath_def Let_def
      pref_sample_env_def prefs_default_defs pref_old_default_def pref_old_session_def SCPreferencesCreatePrivate_def)

theorem SCPreferencesCreate_path_witness:
  "(sp_newPath pref_old_session = None \<and>
      sp_path pref_old_session = SCPreferencesPath (pref_sample_env pref_old_default) None True \<and>
      sp_path pref_old_session \<noteq> None \<or>
    (\<exists>n f. sp_newPath pref_old_session = Some n \<and>
       SCPreferencesPath (pref_sample_env pref_old_default) None True = Some n \<and>
       pe_access (pref_sample_env pref_old_default) n = Some ENOENT \<and>
       SCPreferencesPath (pref_sample_env pref_old_default) None False = Some f \<and>
       sp_path pref_old_session = Some f \<and> pe_access (pref_sample_env pref_old_default) f \<noteq> Some ENOENT)) \<and>
   kSCStatusOK = (if pe_access (pref_sample_env pref_old_default) (the (sp_path pref_old_session)) = Some ENOENT
      then kSCStatusNoConfigFile else kSCStatusOK) \<and>
   sp_prefsID pref_old_session = None \<and> sp_authorizationData pref_old_session = None \<and>
   \<not> sp_accessed pref_old_session \<and> sp_sessionRefcnt pref_old_session = 0"
  by (rule SCPreferencesCreate_path [OF pref_old_session_created])

lemma default_paths_differ:
  assumes "\<And>s. pe_cstring env s = Some s"
  shows "SCPreferencesPath env None True \<noteq> SCPreferencesPath env None False"
  by (simp add: SCPreferencesPath_def assms prefs_default_defs)

text \<open>
  \<open>__SCPreferencesUsingDefaultPrefs\<close> is wrong for default preferences that were found in
  the old directory: it compares the remembered new path with the default path in the old
  directory. A session opened with the default identifier counts as using the default
  preferences only when no new path is remembered.
\<close>

theorem SCPreferencesUsingDefaultPrefs_old_directory:
  assumes "SCPreferencesCreate env name None auth opts = (Some p, st)"
    and "\<And>s. pe_cstring env s = Some s"
  shows "SCPreferencesUsingDefaultPrefs env (Some p) \<longleftrightarrow> sp_newPath p = None"
proof -
  have facts: "(sp_newPath p = None \<and> sp_path p = SCPreferencesPath env None True \<and> sp_path p \<noteq> None \<or>
     (\<exists>n. sp_newPath p = Some n \<and> SCPreferencesPath env None True = Some n))"
  proof (cases "prefs_create_pass env None ((SCPreferencesCreatePrivate env)\<lparr>sp_name := name, sp_prefsID := None,
      sp_authorizationData := auth, sp_options := opts\<rparr>)")
    case (Inl r)
    then have "r = (Some p, st)" using assms(1) by (simp add: SCPreferencesCreate_def Let_def)
    with create_pass_Inl [of env None _ p st] Inl show ?thesis
      by (fastforce simp: SCPreferencesCreatePrivate_def)
  next
    case (Inr p1)
    from create_pass_Inr [OF Inr] obtain n where n: "SCPreferencesPath env None True = Some n" "sp_newPath p1 = Some n"
      by auto
    then obtain r where r: "prefs_create_pass env None p1 = Inl r"
      using create_pass_Inr [of env None p1] by (cases "prefs_create_pass env None p1") auto
    then have "prefs_create_pass env None p1 = Inl (Some p, st)"
      using assms(1) Inr by (simp add: SCPreferencesCreate_def Let_def)
    from create_pass_Inl [OF this] n show ?thesis by auto
  qed
  then show ?thesis
    using default_paths_differ [OF assms(2)] by (auto simp: SCPreferencesUsingDefaultPrefs_def split: option.splits)
qed

theorem SCPreferencesUsingDefaultPrefs_old_directory_witness:
  "SCPreferencesUsingDefaultPrefs (pref_sample_env pref_old_default) (Some pref_old_session) \<longleftrightarrow>
   sp_newPath pref_old_session = None"
  by (rule SCPreferencesUsingDefaultPrefs_old_directory [OF pref_old_session_created]) (simp add: pref_sample_env_def)

section \<open>Reading\<close>

lemma access_done [simp]:
  "sp_accessed (prefs_access_done p)" "sp_prefs (prefs_access_done p) \<noteq> None"
  "sp_path (prefs_access_done p) = sp_path p"
  by (simp_all add: prefs_access_done_def Let_def)

text \<open>
  After \<open>__SCPreferencesAccess\<close> the session is marked accessed and has a dictionary,
  whatever the file system, the parser and the helper answered (an unreadable or malformed
  file counts as empty); a second access changes nothing.
\<close>

theorem SCPreferencesAccess_accessed:
  assumes "SCPreferencesAccess env shared p = Some (p', shared')" and "sp_accessed p \<longrightarrow> sp_prefs p \<noteq> None"
  shows "sp_accessed p' \<and> sp_prefs p' \<noteq> None \<and> SCPreferencesAccess env shared' p' = Some (p', shared')"
proof -
  have "sp_accessed p' \<and> sp_prefs p' \<noteq> None"
  proof (cases "sp_accessed p")
    case True
    then show ?thesis using assms by (simp add: SCPreferencesAccess_def)
  next
    case False
    then have "\<exists>q. p' = prefs_access_done q"
      using assms(1) by (auto simp: SCPreferencesAccess_def split: option.splits if_splits)
    then show ?thesis using access_done by metis
  qed
  then show ?thesis by (simp add: SCPreferencesAccess_def)
qed

definition pref_old_accessed :: scprefs where
  "pref_old_accessed = prefs_access_done (prefs_load (pref_sample_env pref_old_default) pref_old_default zero_stat pref_old_session)"

lemma pref_old_session_access:
  "SCPreferencesAccess (pref_sample_env pref_old_default) None pref_old_session = Some (pref_old_accessed, None)"
  by (simp add: SCPreferencesAccess_def pref_old_session_def SCPreferencesCreatePrivate_def pref_sample_env_def
      pref_old_accessed_def)

theorem SCPreferencesAccess_accessed_witness:
  "sp_accessed pref_old_accessed \<and> sp_prefs pref_old_accessed \<noteq> None \<and>
   SCPreferencesAccess (pref_sample_env pref_old_default) None pref_old_accessed = Some (pref_old_accessed, None)"
  by (rule SCPreferencesAccess_accessed [OF pref_old_session_access])
    (simp add: pref_old_session_def SCPreferencesCreatePrivate_def)

end
