(* ===== verification/PrefsSched.thy ===== *)
theory PrefsSched
  imports PrefsProps
begin

unbundle bit_operations_syntax

text \<open>
  Scheduling as a state machine: the steps a session can take, the invariant that holds in
  every reachable state, and the notifications that result.
\<close>

section \<open>The run loop list\<close>

text \<open>What SCPrivate promises of its list of schedules.\<close>

locale sched_list =
  fixes ops :: sched_ops
  assumes is_scheduled_iff: "so_is_scheduled ops x l \<longleftrightarrow> x \<in> set l"
    and schedule_adds: "mset (so_schedule ops x l) = add_mset x (mset l)"
    and unschedule_None: "so_unschedule ops x l = None \<longleftrightarrow> x \<notin> set l"
    and unschedule_Some: "so_unschedule ops x l = Some l' \<Longrightarrow> mset l = add_mset x (mset l')"
begin

lemma schedule_set [simp]: "set (so_schedule ops x l) = insert x (set l)"
  using arg_cong [OF schedule_adds, of set_mset x l] by simp

lemma schedule_not_Nil [simp]: "so_schedule ops x l \<noteq> []"
  using schedule_adds [of x l] by auto

lemma unschedule_set: "so_unschedule ops x l = Some l' \<Longrightarrow> set l = insert x (set l')"
  using arg_cong [OF unschedule_Some, of x l l' set_mset] by simp

end

text \<open>Entries in the order they were added, one removed at a time.\<close>

definition list_sched_ops :: sched_ops where
  "list_sched_ops = \<lparr>so_is_scheduled = (\<lambda>x l. x \<in> set l), so_schedule = (\<lambda>x l. l @ [x]),
     so_unschedule = (\<lambda>x l. if x \<in> set l then Some (remove1 x l) else None)\<rparr>"

interpretation list_sched: sched_list list_sched_ops
  by unfold_locales (auto simp: list_sched_ops_def split: if_splits)

section \<open>Reference counting\<close>

text \<open>A counted session exists exactly while its count is positive.\<close>

definition session_counted :: "scprefs \<Rightarrow> bool" where
  "session_counted p \<longleftrightarrow> 0 \<le> sp_sessionRefcnt p \<and> (sp_session p \<longleftrightarrow> 0 < sp_sessionRefcnt p)"

text \<open>The contract of a counted resource and the users it serves.\<close>

locale counted_session =
  fixes counted :: "'s \<Rightarrow> bool" and users :: "'s \<Rightarrow> int" and acquire :: "'s \<Rightarrow> bool \<times> 's" and release :: "'s \<Rightarrow> 's"
  assumes acquire_counted: "counted s \<Longrightarrow> counted (snd (acquire s))"
    and acquire_users: "counted s \<Longrightarrow> users (snd (acquire s)) = users s + (if fst (acquire s) then 1 else 0)"
    and release_counted: "counted s \<Longrightarrow> counted (release s)"
    and release_users: "counted s \<Longrightarrow> users (release s) = max 0 (users s - 1)"
    and users_nonneg: "counted s \<Longrightarrow> 0 \<le> users s"
begin

lemma acquire_release: "counted s \<Longrightarrow> fst (acquire s) \<Longrightarrow> users (release (snd (acquire s))) = users s"
  using acquire_users acquire_counted release_users users_nonneg by (simp add: max_def)

end

lemma add_session_frame:
  "snd (SCPreferencesAddSession env p) = p\<lparr>sp_session := sp_session (snd (SCPreferencesAddSession env p)),
     sp_sessionRefcnt := sp_sessionRefcnt (snd (SCPreferencesAddSession env p))\<rparr>"
  by (simp add: SCPreferencesAddSession_def)

lemma add_session_counted:
  "session_counted p \<Longrightarrow> session_counted (snd (SCPreferencesAddSession env p))"
  "session_counted p \<Longrightarrow> fst (SCPreferencesAddSession env p) \<Longrightarrow> sp_session (snd (SCPreferencesAddSession env p))"
  by (auto simp: SCPreferencesAddSession_def session_counted_def split: if_splits)

lemma remove_session_counted: "session_counted p \<Longrightarrow> session_counted (SCPreferencesRemoveSession p)"
  by (auto simp: SCPreferencesRemoveSession_def session_counted_def Let_def)

interpretation prefs_session: counted_session session_counted sp_sessionRefcnt "SCPreferencesAddSession env"
  SCPreferencesRemoveSession for env
proof unfold_locales
  fix s assume s: "session_counted s"
  show "session_counted (snd (SCPreferencesAddSession env s))" using s by (rule add_session_counted)
  show "session_counted (SCPreferencesRemoveSession s)" using s by (rule remove_session_counted)
  show "sp_sessionRefcnt (snd (SCPreferencesAddSession env s)) =
      sp_sessionRefcnt s + (if fst (SCPreferencesAddSession env s) then 1 else 0)"
    by (simp add: SCPreferencesAddSession_def)
  show "sp_sessionRefcnt (SCPreferencesRemoveSession s) = max 0 (sp_sessionRefcnt s - 1)"
    using s by (auto simp: SCPreferencesRemoveSession_def session_counted_def Let_def)
  show "0 \<le> sp_sessionRefcnt s" using s by (simp add: session_counted_def)
qed

section \<open>The state machine\<close>

type_synonym sched_state = "scprefs \<times> sched_world"

text \<open>A session schedules and unschedules, with any answers of the dynamic store.\<close>

inductive sched_step :: "sched_ops \<Rightarrow> sched_state \<Rightarrow> sched_state \<Rightarrow> bool" for ops where
  step_schedule: "SCPreferencesScheduleWithRunLoop env ops domain t p w = Ret (ok, p', w') \<Longrightarrow>
    sched_step ops (p, w) (p', w')"
| step_unschedule: "SCPreferencesUnscheduleFromRunLoop ops target p w = Ret (ok, p', w') \<Longrightarrow>
    sched_step ops (p, w) (p', w')"

inductive_cases sched_stepE: "sched_step ops (p, w) (p', w')"

inductive sched_reachable :: "sched_ops \<Rightarrow> sched_state \<Rightarrow> sched_state \<Rightarrow> bool" for ops where
  reach_start: "sched_reachable ops s s"
| reach_step: "sched_reachable ops s t \<Longrightarrow> sched_step ops t u \<Longrightarrow> sched_reachable ops s u"

text \<open>A session as it is created, nothing scheduled.\<close>

definition sched_fresh :: "sched_state \<Rightarrow> bool" where
  "sched_fresh = (\<lambda>(p, w). \<not> sp_scheduled p \<and> \<not> sp_session p \<and> sp_sessionRefcnt p = 0 \<and> sp_rlList p = None \<and>
     \<not> sp_rls p \<and> sp_dispatchQueue p = None \<and> sw_sources w = {} \<and> sw_queue w = None \<and> \<not> sw_keys w)"

definition sched_inv :: "sched_state \<Rightarrow> bool" where
  "sched_inv = (\<lambda>(p, w). session_counted p \<and>
     (sp_scheduled p \<longleftrightarrow> sp_dispatchQueue p \<noteq> None \<or> sp_rlList p \<noteq> None) \<and>
     (sp_rls p \<longleftrightarrow> sp_rlList p \<noteq> None) \<and> sp_rlList p \<noteq> Some [] \<and>
     (sp_dispatchQueue p = None \<or> sp_rlList p = None) \<and>
     (sp_scheduled p \<longrightarrow> sp_session p \<and> sw_keys w) \<and>
     sw_sources w = (case sp_rlList p of None \<Rightarrow> {} | Some l \<Rightarrow> set l) \<and>
     sw_queue w = sp_dispatchQueue p)"

lemma fresh_inv: "sched_fresh s \<Longrightarrow> sched_inv s"
  by (auto simp: sched_fresh_def sched_inv_def session_counted_def)

lemma add_keys_frame [simp]:
  "session_counted (SCPreferencesAddSessionKeys env d p) = session_counted p"
  "sp_session (SCPreferencesAddSessionKeys env d p) = sp_session p"
  "sp_sessionRefcnt (SCPreferencesAddSessionKeys env d p) = sp_sessionRefcnt p"
  "sp_scheduled (SCPreferencesAddSessionKeys env d p) = sp_scheduled p"
  "sp_dispatchQueue (SCPreferencesAddSessionKeys env d p) = sp_dispatchQueue p"
  "sp_rlList (SCPreferencesAddSessionKeys env d p) = sp_rlList p"
  "sp_rls (SCPreferencesAddSessionKeys env d p) = sp_rls p"
  by (simp_all add: SCPreferencesAddSessionKeys_def Let_def session_counted_def)

lemma counted_cong [simp]:
  "session_counted (p\<lparr>sp_scheduled := b\<rparr>) = session_counted p"
  "session_counted (p\<lparr>sp_rls := b\<rparr>) = session_counted p"
  "session_counted (p\<lparr>sp_rlList := l\<rparr>) = session_counted p"
  "session_counted (p\<lparr>sp_dispatchQueue := q\<rparr>) = session_counted p"
  by (simp_all add: session_counted_def)

lemma remove_session_frame [simp]:
  "sp_scheduled (SCPreferencesRemoveSession p) = sp_scheduled p"
  "sp_dispatchQueue (SCPreferencesRemoveSession p) = sp_dispatchQueue p"
  "sp_rlList (SCPreferencesRemoveSession p) = sp_rlList p"
  "sp_rls (SCPreferencesRemoveSession p) = sp_rls p"
  by (simp_all add: SCPreferencesRemoveSession_def Let_def)

lemma add_session_frames [simp]:
  "sp_scheduled (snd (SCPreferencesAddSession env p)) = sp_scheduled p"
  "sp_dispatchQueue (snd (SCPreferencesAddSession env p)) = sp_dispatchQueue p"
  "sp_rlList (snd (SCPreferencesAddSession env p)) = sp_rlList p"
  "sp_rls (snd (SCPreferencesAddSession env p)) = sp_rls p"
  by (simp_all add: SCPreferencesAddSession_def)

text \<open>Starting notifications from an unscheduled state.\<close>

lemma start_notifications:
  assumes inv: "sched_inv (p, w)" and un: "\<not> sp_scheduled p"
    and start: "prefs_start_notifications env d t p w = (ok, p', w')"
  shows "session_counted p' \<and> sp_dispatchQueue p' = None \<and> sw_sources w' = {} \<and> sw_queue w' = None \<and>
    (\<not> ok \<longrightarrow> \<not> sp_scheduled p' \<and> sp_rlList p' = None \<and> \<not> sp_rls p') \<and>
    (ok \<longrightarrow> sp_scheduled p' \<and> sp_session p' \<and> sw_keys w' \<and>
       (case t of On_queue q \<Rightarrow> sp_rlList p' = None \<and> \<not> sp_rls p' | On_runloop r m \<Rightarrow> sp_rlList p' = Some [] \<and> sp_rls p'))"
proof -
  obtain a p1 where a: "(if \<not> sp_session p then SCPreferencesAddSession env p else (True, p)) = (a, p1)" by force
  have c: "session_counted p" "sp_dispatchQueue p = None" "sp_rlList p = None" "\<not> sp_rls p"
    "sw_sources w = {}" "sw_queue w = None"
    using inv un by (auto simp: sched_inv_def)
  have p1: "session_counted p1" "a \<Longrightarrow> sp_session p1" "sp_scheduled p1 = sp_scheduled p"
    "sp_dispatchQueue p1 = None" "sp_rlList p1 = None" "\<not> sp_rls p1"
  proof -
    have eq: "p1 = (if \<not> sp_session p then snd (SCPreferencesAddSession env p) else p)"
      "a = (if \<not> sp_session p then fst (SCPreferencesAddSession env p) else True)"
      using a by (simp_all split: if_splits)
    show "session_counted p1" "a \<Longrightarrow> sp_session p1" "sp_scheduled p1 = sp_scheduled p"
      "sp_dispatchQueue p1 = None" "sp_rlList p1 = None" "\<not> sp_rls p1"
      unfolding eq using c add_session_counted [OF c(1), of env] by (auto split: if_splits)
  qed
  show ?thesis
    using start p1 c un a unfolding prefs_start_notifications_def a
    by (auto simp: Let_def split: if_splits sched_target.splits)
qed


context sched_list
begin

lemma schedule_total_inv:
  assumes inv: "sched_inv (p, w)"
  shows "\<exists>ok p' w'. SCPreferencesScheduleWithRunLoop env ops d t p w = Ret (ok, p', w') \<and> sched_inv (p', w')"
proof (cases "sp_dispatchQueue p \<noteq> None \<or> (case t of On_queue _ \<Rightarrow> sp_scheduled p | _ \<Rightarrow> False)")
  case True
  then show ?thesis using inv by (auto simp: SCPreferencesScheduleWithRunLoop_def)
next
  case ok: False
  show ?thesis
  proof (cases "sp_scheduled p")
    case True
    with ok obtain r m where t: "t = On_runloop r m" by (cases t) auto
    from True ok inv obtain l where l: "sp_rlList p = Some l" by (auto simp: sched_inv_def)
    show ?thesis
      using ok True inv by (auto simp: SCPreferencesScheduleWithRunLoop_def t l Let_def is_scheduled_iff sched_inv_def)
  next
    case un: False
    obtain a p1 w1 where a: "prefs_start_notifications env d t p w = (a, p1, w1)" by (metis prod_cases3)
    note s = start_notifications [OF inv un a]
    have run: "SCPreferencesScheduleWithRunLoop env ops d t p w =
      (if \<not> a then Ret (False, p1, w1)
       else case t of
            On_queue q \<Rightarrow>
              if \<not> pe_set_queue env
              then Ret (False, SCPreferencesRemoveSession (p1\<lparr>sp_scheduled := False\<rparr>), w1\<lparr>sw_keys := False\<rparr>)
              else Ret (True, p1\<lparr>sp_dispatchQueue := Some q\<rparr>, w1\<lparr>sw_queue := Some q\<rparr>)
          | On_runloop rl mode \<Rightarrow>
              (case sp_rlList p1 of
                 None \<Rightarrow> UB
               | Some l \<Rightarrow>
                   let w2 = (if \<not> so_is_scheduled ops (rl, mode) l
                             then w1\<lparr>sw_sources := insert (rl, mode) (sw_sources w1)\<rparr> else w1)
                   in Ret (True, p1\<lparr>sp_rlList := Some (so_schedule ops (rl, mode) l)\<rparr>, w2)))"
      using ok un by (simp add: SCPreferencesScheduleWithRunLoop_def a)
    show ?thesis
    proof (cases a)
      case False
      then show ?thesis using s by (auto simp: run sched_inv_def)
    next
      case True
      then show ?thesis
        using s remove_session_counted [of "p1\<lparr>sp_scheduled := False\<rparr>"] unfolding run
        by (cases t) (auto simp: Let_def is_scheduled_iff sched_inv_def)
    qed
  qed
qed

lemma unschedule_total_inv:
  assumes inv: "sched_inv (p, w)"
  shows "\<exists>ok p' w'. SCPreferencesUnscheduleFromRunLoop ops x p w = Ret (ok, p', w') \<and> sched_inv (p', w')"
proof (cases x)
  case None
  have "session_counted (SCPreferencesRemoveSession (p\<lparr>sp_dispatchQueue := None, sp_scheduled := False\<rparr>))"
    by (rule remove_session_counted) (use inv in \<open>simp add: sched_inv_def\<close>)
  then show ?thesis
    using inv by (auto simp: None SCPreferencesUnscheduleFromRunLoop_def prefs_stop_notifications_def sched_inv_def)
next
  case (Some y)
  show ?thesis
  proof (cases "\<not> sp_scheduled p \<or> sp_dispatchQueue p \<noteq> None")
    case True
    then show ?thesis using inv by (auto simp: Some SCPreferencesUnscheduleFromRunLoop_def)
  next
    case False
    then obtain l where l: "sp_rlList p = Some l" using inv by (auto simp: sched_inv_def)
    show ?thesis
    proof (cases "so_unschedule ops y l")
      case None
      then show ?thesis using inv False by (auto simp: Some l SCPreferencesUnscheduleFromRunLoop_def)
    next
      case l': (Some l')
      note ls = unschedule_set [OF l']
      have rc: "session_counted (SCPreferencesRemoveSession (p\<lparr>sp_rlList := None, sp_rls := False, sp_scheduled := False\<rparr>))"
        by (rule remove_session_counted) (use inv in \<open>simp add: sched_inv_def\<close>)
      have src: "sw_sources w = insert y (set l')" using inv ls by (simp add: sched_inv_def l)
      show ?thesis
      proof (cases "l' = []")
        case True
        then show ?thesis
          using inv False rc src
          by (auto simp: Some l l' SCPreferencesUnscheduleFromRunLoop_def prefs_stop_notifications_def Let_def sched_inv_def)
      next
        case nn: False
        have "sw_sources (if l' = [] \<or> \<not> so_is_scheduled ops y l' then w\<lparr>sw_sources := sw_sources w - {y}\<rparr> else w) = set l'"
          using src nn by (auto simp: is_scheduled_iff)
        then show ?thesis
          using inv False nn by (auto simp: Some l l' SCPreferencesUnscheduleFromRunLoop_def Let_def sched_inv_def)
      qed
    qed
  qed
qed

lemma step_inv: "sched_step ops s t \<Longrightarrow> sched_inv s \<Longrightarrow> sched_inv t"
proof (induction rule: sched_step.induct)
  case (step_schedule env domain t p w ok p' w')
  then show ?case using schedule_total_inv [of p w env domain t] by auto
next
  case (step_unschedule target p w ok p' w')
  then show ?case using unschedule_total_inv [of p w target] by auto
qed

lemma reachable_inv: "sched_reachable ops s t \<Longrightarrow> sched_inv s \<Longrightarrow> sched_inv t"
  by (induction rule: sched_reachable.induct) (blast intro: step_inv)+

end

section \<open>Properties\<close>

text \<open>
  C3. From a fresh session, after any sequence of schedule and unschedule requests and
  whatever the dynamic store answers: the session is scheduled exactly while it is on a
  dispatch queue or in at least one run loop mode, never on both; while it is scheduled it
  holds a store session that watches its keys; the run loop source is added to exactly the
  modes of its list; and no further request uses a run loop list that does not exist.
\<close>

theorem SCPreferences_schedule_safe:
  assumes "sched_list ops" and "sched_fresh s" and "sched_reachable ops s (p, w)"
  shows "sched_inv (p, w) \<and>
    SCPreferencesScheduleWithRunLoop env ops d t p w \<noteq> UB \<and> SCPreferencesUnscheduleFromRunLoop ops x p w \<noteq> UB"
proof -
  have inv: "sched_inv (p, w)"
    using sched_list.reachable_inv [OF assms(1,3)] fresh_inv [OF assms(2)] by blast
  then show ?thesis
    using sched_list.schedule_total_inv [OF assms(1) inv, of env d t]
      sched_list.unschedule_total_inv [OF assms(1) inv, of x] by auto
qed


definition sched_sample_world :: sched_world where
  "sched_sample_world = \<lparr>sw_keys = False, sw_sources = {}, sw_queue = None\<rparr>"

definition sched_sample_prefs :: scprefs where
  "sched_sample_prefs = SCPreferencesCreatePrivate (pref_sample_env pref_old_default)"

lemma sched_sample_fresh: "sched_fresh (sched_sample_prefs, sched_sample_world)"
  by (simp add: sched_fresh_def sched_sample_prefs_def sched_sample_world_def SCPreferencesCreatePrivate_def)

theorem SCPreferences_schedule_safe_witness:
  "sched_inv (sched_sample_prefs, sched_sample_world) \<and>
   SCPreferencesScheduleWithRunLoop (pref_sample_env pref_old_default) list_sched_ops ''Prefs:/'' (On_runloop 1 2)
     sched_sample_prefs sched_sample_world \<noteq> UB \<and>
   SCPreferencesUnscheduleFromRunLoop list_sched_ops (Some (1, 2)) sched_sample_prefs sched_sample_world \<noteq> UB"
  by (rule SCPreferences_schedule_safe [OF list_sched.sched_list_axioms sched_sample_fresh reach_start])

text \<open>
  Scheduling takes no reference on a store session that already exists, but
  unscheduling always gives one back. When another user of the session added it first (as a
  lock does), scheduling and then unscheduling destroys the session that this user still
  holds; and when that user goes first, the session stays scheduled without a store session.
\<close>

theorem SCPreferences_session_stolen:
  assumes "sched_fresh (p, w)" and "pe_store_create env" "pe_set_keys env" "pe_set_queue env"
  shows "\<exists>p2 w2 p3 w3.
    SCPreferencesScheduleWithRunLoop env ops d (On_queue q) (snd (SCPreferencesAddSession env p)) w = Ret (True, p2, w2) \<and>
    sp_sessionRefcnt p2 = 1 \<and>
    SCPreferencesUnscheduleFromRunLoop ops None p2 w2 = Ret (True, p3, w3) \<and> \<not> sp_session p3 \<and>
    sp_scheduled (SCPreferencesRemoveSession p2) \<and> \<not> sp_session (SCPreferencesRemoveSession p2)"
  using assms
  by (simp add: sched_fresh_def SCPreferencesAddSession_def SCPreferencesScheduleWithRunLoop_def
      prefs_start_notifications_def SCPreferencesUnscheduleFromRunLoop_def prefs_stop_notifications_def Let_def)
    (simp add: SCPreferencesRemoveSession_def Let_def SCPreferencesAddSessionKeys_def)

theorem SCPreferences_session_stolen_witness:
  "\<exists>p2 w2 p3 w3.
    SCPreferencesScheduleWithRunLoop (pref_sample_env pref_old_default) list_sched_ops ''Prefs:/'' (On_queue 1)
      (snd (SCPreferencesAddSession (pref_sample_env pref_old_default) sched_sample_prefs)) sched_sample_world
      = Ret (True, p2, w2) \<and>
    sp_sessionRefcnt p2 = 1 \<and>
    SCPreferencesUnscheduleFromRunLoop list_sched_ops None p2 w2 = Ret (True, p3, w3) \<and> \<not> sp_session p3 \<and>
    sp_scheduled (SCPreferencesRemoveSession p2) \<and> \<not> sp_session (SCPreferencesRemoveSession p2)"
  by (rule SCPreferences_session_stolen [OF sched_sample_fresh]) (simp_all add: pref_sample_env_def)

lemma notify_fold:
  assumes "c \<noteq> a"
  shows "fold (\<lambda>key n. if Some key = Some c then n OR kSCPreferencesNotificationCommit
      else if Some key = Some a then n OR kSCPreferencesNotificationApply else n) ks n =
    n OR (if c \<in> set ks then kSCPreferencesNotificationCommit else 0)
      OR (if a \<in> set ks then kSCPreferencesNotificationApply else 0)"
  using assms
proof (induction ks arbitrary: n)
  case (Cons k ks)
  then show ?case
    by (cases "k = c"; cases "k = a"; cases "c \<in> set ks"; cases "a \<in> set ks")
      (simp_all add: or.assoc or.left_commute or.commute)
qed simp

lemma notification_keys_differ:
  "SCPNotificationKey env d i kSCPreferencesKeyCommit = Some c \<Longrightarrow>
   SCPNotificationKey env d i kSCPreferencesKeyApply = Some a \<Longrightarrow> c \<noteq> a"
  by (auto simp: SCPNotificationKey_def split: option.splits)

text \<open>
  A session with the keys that \<open>__SCPreferencesAddSessionKeys\<close> gives it calls its
  function exactly when the commit or the apply key changed, once per notification, and the
  bits it passes say which of the two keys changed; other keys do not matter.
\<close>

theorem prefsNotify_bits:
  assumes "sp_sessionKeyCommit p = None" and "sp_sessionKeyApply p = None"
    and "sp_sessionKeyCommit (SCPreferencesAddSessionKeys env d p) = Some c"
    and "sp_sessionKeyApply (SCPreferencesAddSessionKeys env d p) = Some a"
  shows "prefsNotify (SCPreferencesAddSessionKeys env d p) (Some ks) =
    (if c \<in> set ks \<or> a \<in> set ks
     then map_option (\<lambda>f. (f, (if c \<in> set ks then 1 else 0) OR (if a \<in> set ks then 2 else 0))) (sp_rlsFunction p)
     else None)"
proof -
  have ca: "c \<noteq> a"
    using assms notification_keys_differ [of env d "sp_prefsID p" c a]
    by (auto simp: SCPreferencesAddSessionKeys_def Let_def split: if_splits)
  have fn: "sp_rlsFunction (SCPreferencesAddSessionKeys env d p) = sp_rlsFunction p"
    by (simp add: SCPreferencesAddSessionKeys_def Let_def)
  show ?thesis
    unfolding prefsNotify_def assms(3,4) fn option.case notify_fold [OF ca]
    by (cases "c \<in> set ks"; cases "a \<in> set ks")
      (simp_all add: Let_def kSCPreferencesNotificationCommit_def kSCPreferencesNotificationApply_def)
qed

definition notify_sample_commit :: string where
  "notify_sample_commit = ''Prefs:commit:/Library/Preferences/SystemConfiguration/preferences.plist''"
definition notify_sample_apply :: string where
  "notify_sample_apply = ''Prefs:apply:/Library/Preferences/SystemConfiguration/preferences.plist''"

theorem prefsNotify_bits_witness:
  "prefsNotify (SCPreferencesAddSessionKeys (pref_sample_env pref_old_default) ''Prefs:'' sched_sample_prefs)
     (Some [notify_sample_apply]) =
    (if notify_sample_commit \<in> set [notify_sample_apply] \<or> notify_sample_apply \<in> set [notify_sample_apply]
     then map_option (\<lambda>f. (f, (if notify_sample_commit \<in> set [notify_sample_apply] then 1 else 0) OR
       (if notify_sample_apply \<in> set [notify_sample_apply] then 2 else 0))) (sp_rlsFunction sched_sample_prefs)
     else None)"
  by (rule prefsNotify_bits)
    (simp_all add: sched_sample_prefs_def SCPreferencesCreatePrivate_def SCPreferencesAddSessionKeys_def Let_def
      SCPNotificationKey_def SCPreferencesPath_def pref_sample_env_def prefs_default_defs
      notify_sample_commit_def notify_sample_apply_def)

end
