(* ===== verification/NetInterface.thy ===== *)
theory NetInterface
  imports Prefs "HOL-Library.Char_ord" "HOL-Library.List_Lexorder"
begin

unbundle bit_operations_syntax

text \<open>
  Network interfaces (SCNetworkInterface.c, the structure of SCNetworkConfigurationInternal.h):
  creation, copying, equality, hashing, ordering and display names.

  The structure is split into the plain fields (\<open>if_fields\<close>) and the references to other
  interfaces: the layer below, the members of a bond and of a bridge, the physical interface
  of a VLAN. References to preferences and stores are their addresses. The strings of the
  framework's bundle and its format function are arguments.
\<close>

section \<open>Data\<close>

text \<open>The sort classes, in the order of the enumeration.\<close>

datatype if_sort =
    kSortInternalModem | kSortUSBModem | kSortModem | kSortBluetooth | kSortIrDA | kSortSerialPort
  | kSortWWAN | kSortEthernetPPP | kSortAirportPPP | kSortEthernet | kSortFireWire | kSortAirPort
  | kSortOtherWireless | kSortTethered | kSortWWANEthernet | kSortBluetoothPAN_GN
  | kSortBluetoothPAN_NAP | kSortBluetoothPAN_U | kSortThunderbolt | kSortCarPlay | kSortBond
  | kSortBridge | kSortVLAN | kSortUnknown

primrec sort_code :: "if_sort \<Rightarrow> nat" where
  "sort_code kSortInternalModem = 0" | "sort_code kSortUSBModem = 1" | "sort_code kSortModem = 2"
| "sort_code kSortBluetooth = 3" | "sort_code kSortIrDA = 4" | "sort_code kSortSerialPort = 5"
| "sort_code kSortWWAN = 6" | "sort_code kSortEthernetPPP = 7" | "sort_code kSortAirportPPP = 8"
| "sort_code kSortEthernet = 9" | "sort_code kSortFireWire = 10" | "sort_code kSortAirPort = 11"
| "sort_code kSortOtherWireless = 12" | "sort_code kSortTethered = 13" | "sort_code kSortWWANEthernet = 14"
| "sort_code kSortBluetoothPAN_GN = 15" | "sort_code kSortBluetoothPAN_NAP = 16"
| "sort_code kSortBluetoothPAN_U = 17" | "sort_code kSortThunderbolt = 18" | "sort_code kSortCarPlay = 19"
| "sort_code kSortBond = 20" | "sort_code kSortBridge = 21" | "sort_code kSortVLAN = 22" | "sort_code kSortUnknown = 23"

lemma sort_code_inj: "sort_code a = sort_code b \<longleftrightarrow> a = b"
  by (cases a; cases b) simp_all

instantiation if_sort :: linorder
begin

definition less_eq_if_sort :: "if_sort \<Rightarrow> if_sort \<Rightarrow> bool" where
  "less_eq_if_sort a b \<longleftrightarrow> sort_code a \<le> sort_code b"

definition less_if_sort :: "if_sort \<Rightarrow> if_sort \<Rightarrow> bool" where
  "less_if_sort a b \<longleftrightarrow> sort_code a < sort_code b"

instance
  by standard (auto simp: less_eq_if_sort_def less_if_sort_def sort_code_inj)

end

text \<open>What the registry says of an interface.\<close>

record if_registry =
  ni_address :: "uint8 list option"
  ni_configurationAction :: "string option"
  ni_hiddenConfiguration :: bool
  ni_hiddenInterface :: bool
  ni_location :: "plist option"
  ni_path :: "string option"
  ni_entryID :: uint64
  ni_overrides :: "dict option"
  ni_prefix :: "string option"
  ni_type :: "int option"
  ni_unit :: "int option"
  ni_family :: "int option"
  ni_subfamily :: "int option"
  ni_usb_name :: "string option"
  ni_usb_vid :: "int option"
  ni_usb_pid :: "int option"
  ni_matchingMACs :: "plist list option"

record if_fields =
  ni_interface_type :: string
  ni_active :: bool
  ni_name :: "string option"
  ni_localized_name :: "string option"
  ni_localized_key :: "string option"
  ni_localized_arg1 :: "string option"
  ni_localized_arg2 :: "string option"
  ni_prefs :: "nat option"
  ni_store :: "nat option"
  ni_serviceID :: "string option"
  ni_unsaved :: "dict option"
  ni_entity_device :: "string option"
  ni_entity_device_unique :: "string option"
  ni_entity_type :: "string option"
  ni_entity_subtype :: "string option"
  ni_supported_interface_types :: "string list option"
  ni_supported_protocol_types :: "string list option"
  ni_registry :: if_registry
  ni_builtin :: bool
  ni_sort_order :: if_sort
  ni_supportsBond :: bool
  ni_bond_mode :: "int option"
  ni_bond_options :: "dict option"
  ni_supportsBridge :: bool
  ni_bridge_options :: "dict option"
  ni_supportsVLAN :: bool
  ni_vlan_tag :: "int option"
  ni_vlan_options :: "dict option"

datatype scnif = SCNetif
  (ni: if_fields)
  (ni_interface: "scnif option")
  (ni_bond: "scnif list option")
  (ni_bridge: "scnif list option")
  (ni_vlan: "scnif option")

fun upd_ni :: "(if_fields \<Rightarrow> if_fields) \<Rightarrow> scnif \<Rightarrow> scnif" where
  "upd_ni f (SCNetif a l b r v) = SCNetif (f a) l b r v"

fun set_bond_interfaces :: "scnif list option \<Rightarrow> scnif \<Rightarrow> scnif" where
  "set_bond_interfaces m (SCNetif a l b r v) = SCNetif a l m r v"

lemma upd_ni_sel [simp]:
  "ni (upd_ni f i) = f (ni i)" "ni_interface (upd_ni f i) = ni_interface i" "ni_bond (upd_ni f i) = ni_bond i"
  "ni_bridge (upd_ni f i) = ni_bridge i" "ni_vlan (upd_ni f i) = ni_vlan i"
  by (cases i; simp)+

lemma set_bond_sel [simp]:
  "ni (set_bond_interfaces m i) = ni i" "ni_interface (set_bond_interfaces m i) = ni_interface i"
  "ni_bond (set_bond_interfaces m i) = m" "ni_bridge (set_bond_interfaces m i) = ni_bridge i"
  "ni_vlan (set_bond_interfaces m i) = ni_vlan i"
  by (cases i; simp)+

text \<open>The type names of the interface types that the code singles out.\<close>

definition kSCNetworkInterfaceTypeBond :: string where "kSCNetworkInterfaceTypeBond = ''Bond''"
definition kSCNetworkInterfaceTypeBridge :: string where "kSCNetworkInterfaceTypeBridge = ''Bridge''"
definition kSCNetworkInterfaceTypeVLAN :: string where "kSCNetworkInterfaceTypeVLAN = ''VLAN''"
definition kSCNetworkInterfaceTypeVPN :: string where "kSCNetworkInterfaceTypeVPN = ''VPN''"
definition kSCNetworkInterfaceTypeIPv4 :: string where "kSCNetworkInterfaceTypeIPv4 = ''IPv4''"
definition kSCValNetInterfaceTypeEthernet :: string where "kSCValNetInterfaceTypeEthernet = ''Ethernet''"

lemmas if_type_defs = kSCNetworkInterfaceTypeBond_def kSCNetworkInterfaceTypeBridge_def
  kSCNetworkInterfaceTypeVLAN_def kSCNetworkInterfaceTypeVPN_def kSCNetworkInterfaceTypeIPv4_def

section \<open>Creation\<close>

definition empty_registry :: if_registry where
  "empty_registry = \<lparr>ni_address = None, ni_configurationAction = None, ni_hiddenConfiguration = False,
     ni_hiddenInterface = False, ni_location = None, ni_path = None, ni_entryID = 0, ni_overrides = None,
     ni_prefix = None, ni_type = None, ni_unit = None, ni_family = None, ni_subfamily = None,
     ni_usb_name = None, ni_usb_vid = None, ni_usb_pid = None, ni_matchingMACs = None\<rparr>"

text \<open>A new instance is zeroed, but for the arguments and the sort class.\<close>

definition SCNetworkInterfaceCreatePrivate :: "scnif option \<Rightarrow> nat option \<Rightarrow> string option \<Rightarrow> scnif" where
  "SCNetworkInterfaceCreatePrivate layer prefs serviceID =
     SCNetif \<lparr>ni_interface_type = '''', ni_active = False, ni_name = None, ni_localized_name = None,
       ni_localized_key = None, ni_localized_arg1 = None, ni_localized_arg2 = None, ni_prefs = prefs,
       ni_store = None, ni_serviceID = serviceID, ni_unsaved = None, ni_entity_device = None,
       ni_entity_device_unique = None, ni_entity_type = None, ni_entity_subtype = None,
       ni_supported_interface_types = None, ni_supported_protocol_types = None,
       ni_registry = empty_registry, ni_builtin = False, ni_sort_order = kSortUnknown,
       ni_supportsBond = False, ni_bond_mode = None, ni_bond_options = None, ni_supportsBridge = False,
       ni_bridge_options = None, ni_supportsVLAN = False, ni_vlan_tag = None, ni_vlan_options = None\<rparr>
     layer None None None"

text \<open>
  The hardware address of a link-level entry of that name, from the list that \<open>getifaddrs\<close>
  gives (name, whether it is a link address, address), and the answer of the kernel about VLAN
  support are the platform's.
\<close>

record if_platform =
  ip_ifaddrs :: "(string \<times> bool \<times> uint8 list) list option"
  ip_cstring :: "string \<Rightarrow> string option"
  ip_ifindex :: "string \<Rightarrow> nat"
  ip_hwassist :: "nat \<Rightarrow> uint32 option"

definition SCCopyMacAddress :: "if_platform \<Rightarrow> string \<Rightarrow> uint8 list option" where
  "SCCopyMacAddress pf ifname =
     (case ip_cstring pf ifname of
        None \<Rightarrow> None
      | Some c \<Rightarrow>
          (case ip_ifaddrs pf of
             None \<Rightarrow> None
           | Some ifap \<Rightarrow> map_option (\<lambda>(_, _, addr). addr) (find (\<lambda>(n, link, _). n = c \<and> link) ifap)))"

definition IF_HWASSIST_VLAN_TAGGING :: uint32 where "IF_HWASSIST_VLAN_TAGGING = 0x00010000"
definition IF_HWASSIST_VLAN_MTU :: uint32 where "IF_HWASSIST_VLAN_MTU = 0x00020000"

text \<open>\<open>ip_hwassist\<close> is the hwassist word of the routing message, when the queries succeed.\<close>

definition SCNetworkInterfaceSupportsVLAN :: "if_platform \<Rightarrow> string \<Rightarrow> bool" where
  "SCNetworkInterfaceSupportsVLAN pf bsd_if =
     (case ip_cstring pf bsd_if of
        None \<Rightarrow> False
      | Some c \<Rightarrow>
          let idx = ip_ifindex pf c in
          idx \<noteq> 0 \<and> (case ip_hwassist pf idx of
                        None \<Rightarrow> False
                      | Some w \<Rightarrow> w AND (IF_HWASSIST_VLAN_TAGGING OR IF_HWASSIST_VLAN_MTU) \<noteq> 0))"

text \<open>The fields the three virtual interfaces share.\<close>

definition virtual_fields :: "if_platform \<Rightarrow> string \<Rightarrow> string \<Rightarrow> if_sort \<Rightarrow> string \<Rightarrow> if_fields \<Rightarrow> if_fields" where
  "virtual_fields pf ty key srt dev a =
     a\<lparr>ni_interface_type := ty, ni_entity_type := Some kSCValNetInterfaceTypeEthernet,
       ni_entity_device := Some dev, ni_registry := (ni_registry a)\<lparr>ni_address := SCCopyMacAddress pf dev\<rparr>,
       ni_builtin := True, ni_sort_order := srt, ni_localized_key := Some key, ni_localized_arg1 := Some dev\<rparr>"

definition SCBondInterfaceCreatePrivate :: "if_platform \<Rightarrow> string \<Rightarrow> scnif" where
  "SCBondInterfaceCreatePrivate pf bond_if =
     set_bond_interfaces (Some [])
       (upd_ni (\<lambda>a. (virtual_fields pf kSCNetworkInterfaceTypeBond ''bond'' kSortBond bond_if a)
                      \<lparr>ni_supportsVLAN := SCNetworkInterfaceSupportsVLAN pf bond_if\<rparr>)
         (SCNetworkInterfaceCreatePrivate None None None))"

definition SCBridgeInterfaceCreatePrivate :: "if_platform \<Rightarrow> string \<Rightarrow> scnif" where
  "SCBridgeInterfaceCreatePrivate pf bridge_if =
     (case upd_ni (\<lambda>a. (virtual_fields pf kSCNetworkInterfaceTypeBridge ''bridge'' kSortBridge bridge_if a)
                         \<lparr>ni_supportsVLAN := SCNetworkInterfaceSupportsVLAN pf bridge_if\<rparr>)
            (SCNetworkInterfaceCreatePrivate None None None) of
        SCNetif a l b _ v \<Rightarrow> SCNetif a l b (Some []) v)"

definition SCVLANInterfaceCreatePrivate :: "if_platform \<Rightarrow> string \<Rightarrow> scnif" where
  "SCVLANInterfaceCreatePrivate pf vlan_if =
     upd_ni (virtual_fields pf kSCNetworkInterfaceTypeVLAN ''vlan'' kSortVLAN vlan_if)
       (SCNetworkInterfaceCreatePrivate None None None)"

text \<open>
  A copy keeps everything but the activity flag, the store, the matching addresses and the device's trust, and is
  linked to the given preferences and service, its layers too. The shared IPv4 interface, the
  only one of its type, is not copied.
\<close>

fun SCNetworkInterfaceCreateCopy :: "scnif \<Rightarrow> nat option \<Rightarrow> string option \<Rightarrow> scnif" where
  "SCNetworkInterfaceCreateCopy (SCNetif a l b r v) prefs serviceID =
     (if ni_interface_type a = kSCNetworkInterfaceTypeIPv4 then SCNetif a l b r v
      else SCNetif (a\<lparr>ni_active := False, ni_store := None, ni_prefs := prefs, ni_serviceID := serviceID,
                       ni_registry := (ni_registry a)\<lparr>ni_matchingMACs := None\<rparr>\<rparr>)
             (map_option (\<lambda>x. SCNetworkInterfaceCreateCopy x prefs serviceID) l) b r v)"

section \<open>Display names\<close>

text \<open>
  \<open>ne_string key localized\<close> looks a key up in the bundle, \<open>ne_format\<close> fills a format with
  the two arguments, \<open>ne_entity prefs service\<close> is the stored interface entity of a service.
\<close>

record name_env =
  ne_bundle :: bool
  ne_string :: "string \<Rightarrow> bool \<Rightarrow> string option"
  ne_format :: "string \<Rightarrow> string option \<Rightarrow> string option \<Rightarrow> string"
  ne_entity :: "nat \<Rightarrow> string \<Rightarrow> plist option"

definition kSCPropUserDefinedName :: string where "kSCPropUserDefinedName = ''UserDefinedName''"

text \<open>The text of one layer; \<open>leaf\<close> says that no layer is under it.\<close>

definition layer_name :: "name_env \<Rightarrow> bool \<Rightarrow> bool \<Rightarrow> bool \<Rightarrow> if_fields \<Rightarrow> string" where
  "layer_name env localized old leaf a =
     (let keyed = (case ni_localized_key a of
                     None \<Rightarrow> None
                   | Some k \<Rightarrow>
                       if \<not> ne_bundle env then None
                       else map_option (\<lambda>fmt. ne_format env fmt (ni_localized_arg1 a) (ni_localized_arg2 a))
                              (ne_string env (if old then ''X-'' @ k else k) localized));
          stored = (case (ni_prefs a, ni_serviceID a) of
                      (Some p, Some s) \<Rightarrow>
                        if leaf then (case isA_CFDictionary (ne_entity env p s) of
                                        None \<Rightarrow> None
                                      | Some d \<Rightarrow> isA_CFString (fmlookup d kSCPropUserDefinedName))
                        else None
                    | _ \<Rightarrow> None)
      in case keyed of
           Some s \<Rightarrow> s
         | None \<Rightarrow>
             (case stored of
                Some s \<Rightarrow> s
              | None \<Rightarrow> ni_interface_type a @
                  (case ni_entity_device a of
                     Some dev \<Rightarrow> if leaf then '' ('' @ dev @ '')'' else ''''
                   | None \<Rightarrow> '''')))"

fun copy_display_name :: "name_env \<Rightarrow> bool \<Rightarrow> bool \<Rightarrow> scnif \<Rightarrow> string" where
  "copy_display_name env localized old (SCNetif a l b r v) =
     (case l of
        None \<Rightarrow> layer_name env localized old True a
      | Some x \<Rightarrow>
          if ni_interface_type (ni x) \<noteq> kSCNetworkInterfaceTypeIPv4 \<and>
             ni_interface_type a \<noteq> kSCNetworkInterfaceTypeVPN
          then layer_name env localized old False a @ '' --> '' @ copy_display_name env localized old x
          else layer_name env localized old True a)"

definition SCNetworkInterfaceGetNonLocalizedDisplayName :: "name_env \<Rightarrow> scnif \<Rightarrow> string" where
  "SCNetworkInterfaceGetNonLocalizedDisplayName env i =
     (case ni_name (ni i) of Some n \<Rightarrow> n | None \<Rightarrow> copy_display_name env False False i)"

definition SCNetworkInterfaceCopyXLocalizedDisplayName :: "name_env \<Rightarrow> scnif \<Rightarrow> string" where
  "SCNetworkInterfaceCopyXLocalizedDisplayName env i = copy_display_name env True True i"

definition SCNetworkInterfaceCopyXNonLocalizedDisplayName :: "name_env \<Rightarrow> scnif \<Rightarrow> string" where
  "SCNetworkInterfaceCopyXNonLocalizedDisplayName env i = copy_display_name env False True i"

definition SCNetworkInterfaceSetUserDefinedName :: "string option \<Rightarrow> scnif \<Rightarrow> scnif" where
  "SCNetworkInterfaceSetUserDefinedName nm = upd_ni (\<lambda>a. a\<lparr>ni_name := nm, ni_localized_name := nm\<rparr>)"

definition SCNetworkInterfaceGetUserDefinedName :: "scnif \<Rightarrow> string option" where
  "SCNetworkInterfaceGetUserDefinedName i = ni_name (ni i)"

section \<open>Equality and hash\<close>

text \<open>The comparison of unique identifiers, or of display names when only one is there.\<close>

definition unique_equal :: "name_env \<Rightarrow> scnif \<Rightarrow> scnif \<Rightarrow> bool" where
  "unique_equal env i j =
     (case (ni_entity_device_unique (ni i), ni_entity_device_unique (ni j)) of
        (Some u, Some u') \<Rightarrow> u = u'
      | (None, None) \<Rightarrow> True
      | _ \<Rightarrow> SCNetworkInterfaceGetNonLocalizedDisplayName env i =
             SCNetworkInterfaceGetNonLocalizedDisplayName env j)"

text \<open>\<open>_SC_CFEqual\<close> of two references and of two arrays, given the comparison of the objects.\<close>

definition opt_equal :: "('a \<Rightarrow> 'a \<Rightarrow> bool) \<Rightarrow> 'a option \<Rightarrow> 'a option \<Rightarrow> bool" where
  "opt_equal eq x y = (case (x, y) of (None, None) \<Rightarrow> True | (Some a, Some b) \<Rightarrow> eq a b | _ \<Rightarrow> False)"

lemma opt_equal_cong [fundef_cong]:
  "x = x' \<Longrightarrow> y = y' \<Longrightarrow> (\<And>a b. x' = Some a \<Longrightarrow> y' = Some b \<Longrightarrow> eq a b = eq' a b) \<Longrightarrow>
   opt_equal eq x y = opt_equal eq' x' y'"
  by (auto simp: opt_equal_def split: option.splits)

fun SCNetworkInterfaceEqual :: "name_env \<Rightarrow> scnif \<Rightarrow> scnif \<Rightarrow> bool" where
  "SCNetworkInterfaceEqual env (SCNetif a la ba ra va) (SCNetif b lb bb rb vb) \<longleftrightarrow>
     ni_interface_type a = ni_interface_type b \<and>
     ni_entity_device a = ni_entity_device b \<and>
     unique_equal env (SCNetif a la ba ra va) (SCNetif b lb bb rb vb) \<and>
     (ni_interface_type a = kSCNetworkInterfaceTypeBond \<longrightarrow>
        opt_equal (list_all2 (SCNetworkInterfaceEqual env)) ba bb \<and> ni_bond_mode a = ni_bond_mode b) \<and>
     (ni_interface_type a = kSCNetworkInterfaceTypeBridge \<longrightarrow>
        opt_equal (list_all2 (SCNetworkInterfaceEqual env)) ra rb) \<and>
     (ni_interface_type a = kSCNetworkInterfaceTypeVLAN \<longrightarrow>
        opt_equal (SCNetworkInterfaceEqual env) va vb \<and> ni_vlan_tag a = ni_vlan_tag b) \<and>
     opt_equal (SCNetworkInterfaceEqual env) la lb"

text \<open>\<open>cfhash\<close> is \<open>CFHash\<close> on strings.\<close>

definition SCNetworkInterfaceHash :: "(string \<Rightarrow> nat) \<Rightarrow> scnif \<Rightarrow> nat" where
  "SCNetworkInterfaceHash cfhash i =
     (case ni_entity_device (ni i) of
        None \<Rightarrow> 0
      | Some dev \<Rightarrow> (case ni_entity_device_unique (ni i) of
                      None \<Rightarrow> cfhash dev | Some u \<Rightarrow> cfhash (dev @ ''+'' @ u)))"

section \<open>Order\<close>

datatype cf_comparison = kCFCompareLessThan | kCFCompareEqualTo | kCFCompareGreaterThan

definition cf_compare :: "'a::linorder \<Rightarrow> 'a \<Rightarrow> cf_comparison" where
  "cf_compare x y = (if x < y then kCFCompareLessThan else if x = y then kCFCompareEqualTo else kCFCompareGreaterThan)"

fun split_at_char :: "char \<Rightarrow> string \<Rightarrow> string list" where
  "split_at_char c [] = [[]]"
| "split_at_char c (x # xs) =
     (if x = c then [] # split_at_char c xs
      else case split_at_char c xs of [] \<Rightarrow> [[x]] | w # ws \<Rightarrow> (x # w) # ws)"

definition split_path :: "string \<Rightarrow> string list" where
  "split_path path = split_at_char (CHR ''/'') (map (\<lambda>c. if c = CHR ''@'' then CHR ''/'' else c) path)"

text \<open>A hexadecimal digit, and \<open>strtoq\<close> in base 16 when it uses the whole string without error.\<close>

definition hex_digit :: "char \<Rightarrow> int option" where
  "hex_digit c =
     (let n = of_char c :: nat in
      if 48 \<le> n \<and> n \<le> 57 then Some (int n - 48)
      else if 97 \<le> n \<and> n \<le> 102 then Some (int n - 87)
      else if 65 \<le> n \<and> n \<le> 70 then Some (int n - 55)
      else None)"

fun hex_value :: "int \<Rightarrow> string \<Rightarrow> int option" where
  "hex_value acc [] = Some acc"
| "hex_value acc (c # cs) = (case hex_digit c of None \<Rightarrow> None | Some d \<Rightarrow> hex_value (16 * acc + d) cs)"

definition strtoq16 :: "string \<Rightarrow> int option" where
  "strtoq16 str =
     (let s1 = dropWhile (\<lambda>c. c \<in> {CHR '' '', CHR 0x09, CHR 0x0A, CHR 0x0B, CHR 0x0C, CHR 0x0D}) str;
          neg = (s1 \<noteq> [] \<and> hd s1 = CHR ''-'');
          s2 = (if s1 \<noteq> [] \<and> (hd s1 = CHR ''-'' \<or> hd s1 = CHR ''+'') then tl s1 else s1);
          s3 = (if length s2 > 2 \<and> s2 ! 0 = CHR ''0'' \<and> (s2 ! 1 = CHR ''x'' \<or> s2 ! 1 = CHR ''X'') \<and> hex_digit (s2 ! 2) \<noteq> None
                then drop 2 s2 else s2)
      in if s3 = [] then None
         else case hex_value 0 s3 of
                None \<Rightarrow> None
              | Some v \<Rightarrow> let w = (if neg then - v else v) in
                          if - (2 ^ 63) \<le> w \<and> w < 2 ^ 63 then Some w else None)"

text \<open>The comparison of two path elements: as numbers when both are.\<close>

definition element_compare :: "string \<Rightarrow> string \<Rightarrow> cf_comparison" where
  "element_compare e1 e2 =
     (case (strtoq16 e1, strtoq16 e2) of (Some q1, Some q2) \<Rightarrow> cf_compare q1 q2 | _ \<Rightarrow> cf_compare e1 e2)"

fun elements_compare :: "string list \<Rightarrow> string list \<Rightarrow> cf_comparison" where
  "elements_compare (e1 # es1) (e2 # es2) =
     (case element_compare e1 e2 of kCFCompareEqualTo \<Rightarrow> elements_compare es1 es2 | r \<Rightarrow> r)"
| "elements_compare _ _ = kCFCompareEqualTo"

text \<open>The tests of the two lengths are the code's: both ask for \<open>n1 < n2\<close>.\<close>

definition path_compare :: "string \<Rightarrow> string \<Rightarrow> cf_comparison" where
  "path_compare p1 p2 =
     (let l1 = split_path p1; l2 = split_path p2; n1 = length l1; n2 = length l2 in
      case elements_compare l1 l2 of
        kCFCompareEqualTo \<Rightarrow>
          if n1 < n2 then kCFCompareLessThan
          else if n1 < n2 then kCFCompareGreaterThan
          else kCFCompareEqualTo
      | r \<Rightarrow> r)"

text \<open>The locations of built-in interfaces; the same object on both sides is no difference.\<close>

definition location_compare :: "plist option \<Rightarrow> plist option \<Rightarrow> cf_comparison" where
  "location_compare l1 l2 =
     (if l1 = l2 then kCFCompareEqualTo
      else case isA_CFString l1 of
             None \<Rightarrow> kCFCompareGreaterThan
           | Some s1 \<Rightarrow> (case isA_CFString l2 of None \<Rightarrow> kCFCompareLessThan | Some s2 \<Rightarrow> cf_compare s1 s2))"

definition cf_then :: "cf_comparison \<Rightarrow> cf_comparison \<Rightarrow> cf_comparison" where
  "cf_then r s = (case r of kCFCompareEqualTo \<Rightarrow> s | _ \<Rightarrow> r)"

definition opt_compare :: "('a \<Rightarrow> 'a \<Rightarrow> cf_comparison) \<Rightarrow> 'a option \<Rightarrow> 'a option \<Rightarrow> cf_comparison" where
  "opt_compare f x y = (case (x, y) of (Some a, Some b) \<Rightarrow> f a b | _ \<Rightarrow> kCFCompareEqualTo)"

definition SCNetworkInterfaceCompare :: "scnif \<Rightarrow> scnif \<Rightarrow> cf_comparison" where
  "SCNetworkInterfaceCompare d1 d2 =
     (let a = ni d1; b = ni d2 in
      if ni_sort_order a \<noteq> ni_sort_order b
      then (if ni_sort_order a < ni_sort_order b then kCFCompareLessThan else kCFCompareGreaterThan)
      else if ni_builtin a \<noteq> ni_builtin b
      then (if ni_builtin a then kCFCompareLessThan else kCFCompareGreaterThan)
      else cf_then (if ni_builtin a then location_compare (ni_location (ni_registry a)) (ni_location (ni_registry b))
                    else kCFCompareEqualTo)
          (cf_then (opt_compare path_compare (ni_path (ni_registry a)) (ni_path (ni_registry b)))
          (cf_then (opt_compare cf_compare (ni_entity_device a) (ni_entity_device b))
             (opt_compare cf_compare (ni_entity_device_unique a) (ni_entity_device_unique b)))))"

text \<open>\<open>None\<close> is an object that is no interface; it sorts last.\<close>

definition SCNetworkInterfaceOrder :: "scnif option \<Rightarrow> int" where
  "SCNetworkInterfaceOrder i =
     (case i of
        None \<Rightarrow> 2 ^ 31 - 1
      | Some i \<Rightarrow> int (2 * sort_code (ni_sort_order (ni i)) + (if ni_builtin (ni i) then 0 else 1)))"

end
