(* ===== verification/NetInterfaceProps.thy ===== *)
theory NetInterfaceProps
  imports NetInterface
begin

text \<open>
  What holds of the comparison functions of interfaces: equality is reflexive, symmetric and
  kept by copying, but neither transitive nor compatible with the hash; the order is
  antisymmetric except for paths of different lengths.
\<close>

section \<open>Equality\<close>

lemma opt_equal_refl: "(\<And>a. x = Some a \<Longrightarrow> eq a a) \<Longrightarrow> opt_equal eq x x"
  by (auto simp: opt_equal_def split: option.splits)

lemma opt_equal_sym: "(\<And>a b. x = Some a \<Longrightarrow> y = Some b \<Longrightarrow> eq a b = eq' b a) \<Longrightarrow> opt_equal eq x y = opt_equal eq' y x"
  by (auto simp: opt_equal_def split: option.splits)

lemma unique_equal_refl [simp]: "unique_equal env i i"
  by (auto simp: unique_equal_def split: option.splits)

lemma unique_equal_sym: "unique_equal env i j = unique_equal env j i"
  by (auto simp: unique_equal_def split: option.splits)

lemma equal_refl: "SCNetworkInterfaceEqual env i i"
proof (induction i)
  case (SCNetif a l b r v)
  have "opt_equal (list_all2 (SCNetworkInterfaceEqual env)) b b"
    "opt_equal (list_all2 (SCNetworkInterfaceEqual env)) r r"
    using SCNetif by (auto intro!: opt_equal_refl list.rel_refl_strong)
  moreover have "opt_equal (SCNetworkInterfaceEqual env) l l" "opt_equal (SCNetworkInterfaceEqual env) v v"
    using SCNetif by (auto intro!: opt_equal_refl)
  ultimately show ?case by simp
qed

lemma list_all2_sym:
  "(\<And>a b. a \<in> set xs \<Longrightarrow> P a b = P b a) \<Longrightarrow> list_all2 P xs ys = list_all2 P ys xs"
proof (induction xs arbitrary: ys)
  case (Cons x xs)
  then show ?case by (cases ys) auto
qed auto

lemma equal_sym: "SCNetworkInterfaceEqual env i j = SCNetworkInterfaceEqual env j i"
proof (induction i arbitrary: j)
  case (SCNetif a l b r v)
  obtain a' l' b' r' v' where j: "j = SCNetif a' l' b' r' v'" by (cases j)
  note IH = SCNetif.IH
  have lists: "opt_equal (list_all2 (SCNetworkInterfaceEqual env)) b b' = opt_equal (list_all2 (SCNetworkInterfaceEqual env)) b' b"
    "opt_equal (list_all2 (SCNetworkInterfaceEqual env)) r r' = opt_equal (list_all2 (SCNetworkInterfaceEqual env)) r' r"
    by (rule opt_equal_sym, rule list_all2_sym, rule IH(2), simp, simp)
      (rule opt_equal_sym, rule list_all2_sym, rule IH(3), simp, simp)
  have layers: "opt_equal (SCNetworkInterfaceEqual env) l l' = opt_equal (SCNetworkInterfaceEqual env) l' l"
    "opt_equal (SCNetworkInterfaceEqual env) v v' = opt_equal (SCNetworkInterfaceEqual env) v' v"
    by (rule opt_equal_sym, rule IH(1), simp) (rule opt_equal_sym, rule IH(4), simp)
  note s = lists layers
  show ?case unfolding j SCNetworkInterfaceEqual.simps s unique_equal_sym [of env "SCNetif a l b r v"] by auto
qed

lemma list_all2_refl: "list_all2 (SCNetworkInterfaceEqual env) xs xs"
  by (intro list.rel_refl_strong equal_refl)

lemma copy_unique: "unique_equal env i (SCNetworkInterfaceCreateCopy i p s)"
  by (cases i) (auto simp: unique_equal_def split: option.splits)

text \<open>
  A copy of an interface, made for any preferences and service, is equal to the original,
  layers, bond members and VLAN parts included; and equality is symmetric, so the original is
  equal to the copy. This is what the membership tests on arrays of copies rely on.
\<close>

theorem SCNetworkInterfaceCreateCopy_equal:
  "SCNetworkInterfaceEqual env i (SCNetworkInterfaceCreateCopy i p s) \<and>
   SCNetworkInterfaceEqual env (SCNetworkInterfaceCreateCopy i p s) i"
proof -
  have "SCNetworkInterfaceEqual env i (SCNetworkInterfaceCreateCopy i p s)"
  proof (induction i)
    case (SCNetif a l b r v)
    show ?case
    proof (cases "ni_interface_type a = kSCNetworkInterfaceTypeIPv4")
      case True
      then show ?thesis using equal_refl by simp
    next
      case False
      have lay: "opt_equal (SCNetworkInterfaceEqual env) l (map_option (\<lambda>x. SCNetworkInterfaceCreateCopy x p s) l)"
        using SCNetif(1) by (auto simp: opt_equal_def split: option.splits)
      have rest: "opt_equal (list_all2 (SCNetworkInterfaceEqual env)) b b"
        "opt_equal (list_all2 (SCNetworkInterfaceEqual env)) r r" "opt_equal (SCNetworkInterfaceEqual env) v v"
        by (intro opt_equal_refl list_all2_refl equal_refl)+
      show ?thesis
        using lay rest copy_unique [of env "SCNetif a l b r v" p s] False by simp
    qed
  qed
  then show ?thesis using equal_sym by blast
qed

text \<open>An Ethernet interface with a device, a unique identifier and a name.\<close>

definition sample_if :: "string \<Rightarrow> string option \<Rightarrow> string option \<Rightarrow> scnif" where
  "sample_if dev uniq nm = upd_ni (\<lambda>a. a\<lparr>ni_interface_type := ''Ethernet'', ni_entity_device := Some dev,
     ni_entity_device_unique := uniq, ni_name := nm\<rparr>) (SCNetworkInterfaceCreatePrivate None None None)"

lemma sample_if_equal:
  "SCNetworkInterfaceEqual env (sample_if d u n) (sample_if d' u' n') \<longleftrightarrow>
   d = d' \<and> unique_equal env (sample_if d u n) (sample_if d' u' n')"
  by (simp add: sample_if_def SCNetworkInterfaceCreatePrivate_def opt_equal_def if_type_defs)

text \<open>
  Equality of interfaces is not an equivalence and does not agree with the hash: an
  interface without a unique identifier is equal to two interfaces of the same device and
  name whose identifiers differ, although those two are not equal; and the equal ones are
  hashed by different strings, so a hashed set or dictionary keyed by interfaces can miss an
  equal interface.
\<close>

theorem SCNetworkInterfaceEqual_not_transitive:
  "SCNetworkInterfaceEqual env (sample_if ''en4'' (Some ''A'') (Some ''USB'')) (sample_if ''en4'' None (Some ''USB'')) \<and>
   SCNetworkInterfaceEqual env (sample_if ''en4'' None (Some ''USB'')) (sample_if ''en4'' (Some ''B'') (Some ''USB'')) \<and>
   \<not> SCNetworkInterfaceEqual env (sample_if ''en4'' (Some ''A'') (Some ''USB'')) (sample_if ''en4'' (Some ''B'') (Some ''USB'')) \<and>
   SCNetworkInterfaceHash cfhash (sample_if ''en4'' (Some ''A'') (Some ''USB'')) = cfhash ''en4+A'' \<and>
   SCNetworkInterfaceHash cfhash (sample_if ''en4'' None (Some ''USB'')) = cfhash ''en4''"
  by (simp add: sample_if_equal)
    (simp add: sample_if_def SCNetworkInterfaceCreatePrivate_def unique_equal_def SCNetworkInterfaceHash_def
      SCNetworkInterfaceGetNonLocalizedDisplayName_def)

section \<open>Order\<close>

fun flip_comparison :: "cf_comparison \<Rightarrow> cf_comparison" where
  "flip_comparison kCFCompareLessThan = kCFCompareGreaterThan"
| "flip_comparison kCFCompareEqualTo = kCFCompareEqualTo"
| "flip_comparison kCFCompareGreaterThan = kCFCompareLessThan"

lemma cf_compare_flip: "cf_compare y x = flip_comparison (cf_compare x y)"
  by (auto simp: cf_compare_def)

lemma cf_then_flip: "flip_comparison (cf_then r s) = cf_then (flip_comparison r) (flip_comparison s)"
  by (cases r) (simp_all add: cf_then_def)

lemma opt_compare_flip:
  "(\<And>a b. x = Some a \<Longrightarrow> y = Some b \<Longrightarrow> f b a = flip_comparison (f a b)) \<Longrightarrow>
   opt_compare f y x = flip_comparison (opt_compare f x y)"
  by (auto simp: opt_compare_def split: option.splits)

lemma element_compare_flip: "element_compare e2 e1 = flip_comparison (element_compare e1 e2)"
  unfolding element_compare_def
  by (cases "strtoq16 e1"; cases "strtoq16 e2"; simp only: prod.case option.case; rule cf_compare_flip)

lemma elements_compare_flip: "elements_compare es2 es1 = flip_comparison (elements_compare es1 es2)"
proof (induction es1 es2 rule: elements_compare.induct)
  case (1 e1 es1 e2 es2)
  then show ?case
    by (cases "element_compare e1 e2") (simp_all add: element_compare_flip [of e2 e1])
qed simp_all

lemma path_compare_flip:
  "length (split_path p1) = length (split_path p2) \<Longrightarrow> path_compare p2 p1 = flip_comparison (path_compare p1 p2)"
  by (cases "elements_compare (split_path p1) (split_path p2)")
    (simp_all add: path_compare_def Let_def elements_compare_flip [of "split_path p2"])

definition plain_location :: "scnif \<Rightarrow> bool" where
  "plain_location i \<longleftrightarrow> (case ni_location (ni_registry (ni i)) of None \<Rightarrow> True | Some (CFString _) \<Rightarrow> True | _ \<Rightarrow> False)"

lemma location_compare_flip:
  "(case l1 of None \<Rightarrow> True | Some (CFString _) \<Rightarrow> True | _ \<Rightarrow> False) \<Longrightarrow>
   (case l2 of None \<Rightarrow> True | Some (CFString _) \<Rightarrow> True | _ \<Rightarrow> False) \<Longrightarrow>
   location_compare l2 l1 = flip_comparison (location_compare l1 l2)"
  by (cases l1; cases l2) (auto simp: location_compare_def cf_compare_def split: plist.splits)

text \<open>
  The order of interfaces is antisymmetric wherever the registry paths have the same
  number of elements (or one is missing) and the locations are strings: swapping the
  arguments swaps the result.
\<close>

theorem SCNetworkInterfaceCompare_antisym:
  assumes "\<And>p q. ni_path (ni_registry (ni d1)) = Some p \<Longrightarrow> ni_path (ni_registry (ni d2)) = Some q \<Longrightarrow>
      length (split_path p) = length (split_path q)"
    and "plain_location d1" and "plain_location d2"
  shows "SCNetworkInterfaceCompare d2 d1 = flip_comparison (SCNetworkInterfaceCompare d1 d2)"
proof -
  let ?r1 = "ni_registry (ni d1)" and ?r2 = "ni_registry (ni d2)"
  have loc: "location_compare (ni_location ?r2) (ni_location ?r1) = flip_comparison (location_compare (ni_location ?r1) (ni_location ?r2))"
    using assms(2,3) by (intro location_compare_flip) (auto simp: plain_location_def)
  have path: "opt_compare path_compare (ni_path ?r2) (ni_path ?r1) = flip_comparison (opt_compare path_compare (ni_path ?r1) (ni_path ?r2))"
    by (intro opt_compare_flip path_compare_flip) (rule assms(1))
  have dev: "opt_compare cf_compare (ni_entity_device (ni d2)) (ni_entity_device (ni d1)) =
      flip_comparison (opt_compare cf_compare (ni_entity_device (ni d1)) (ni_entity_device (ni d2)))"
    "opt_compare cf_compare (ni_entity_device_unique (ni d2)) (ni_entity_device_unique (ni d1)) =
      flip_comparison (opt_compare cf_compare (ni_entity_device_unique (ni d1)) (ni_entity_device_unique (ni d2)))"
    by (intro opt_compare_flip cf_compare_flip)+
  show ?thesis
    unfolding SCNetworkInterfaceCompare_def Let_def
    by (auto simp: cf_then_flip loc path dev not_less order.strict_iff_order less_eq_if_sort_def sort_code_inj)
qed

text \<open>An Ethernet interface of a device at a registry path.\<close>

definition sample_at :: "string \<Rightarrow> string \<Rightarrow> scnif" where
  "sample_at dev p = upd_ni (\<lambda>a. a\<lparr>ni_entity_device := Some dev, ni_sort_order := kSortEthernet,
     ni_registry := (ni_registry a)\<lparr>ni_path := Some p\<rparr>\<rparr>) (SCNetworkInterfaceCreatePrivate None None None)"

theorem SCNetworkInterfaceCompare_antisym_witness:
  "SCNetworkInterfaceCompare (sample_at ''en1'' ''a/2'') (sample_at ''en0'' ''a/10'') =
   flip_comparison (SCNetworkInterfaceCompare (sample_at ''en0'' ''a/10'') (sample_at ''en1'' ''a/2''))"
  by (rule SCNetworkInterfaceCompare_antisym)
    (auto simp: sample_at_def SCNetworkInterfaceCreatePrivate_def empty_registry_def plain_location_def split_path_def)

text \<open>
  The comparison of path lengths tests the same inequality twice, so a longer path never
  sorts after its own beginning: two interfaces each compare as less than the other, and
  sorting them depends on the order they come in.
\<close>

theorem SCNetworkInterfaceCompare_both_less:
  "SCNetworkInterfaceCompare (sample_at ''en1'' ''a'') (sample_at ''en0'' ''a/b'') = kCFCompareLessThan \<and>
   SCNetworkInterfaceCompare (sample_at ''en0'' ''a/b'') (sample_at ''en1'' ''a'') = kCFCompareLessThan"
  by code_simp

text \<open>
  The integer order of an interface agrees with the comparison function: a smaller value
  means the interface sorts first, and it decides by sort class before it looks at whether
  the interface is built in; objects that are no interfaces come last.
\<close>

theorem SCNetworkInterfaceOrder_agrees:
  assumes "SCNetworkInterfaceOrder (Some i) < SCNetworkInterfaceOrder (Some j)"
  shows "SCNetworkInterfaceCompare i j = kCFCompareLessThan \<and> SCNetworkInterfaceOrder (Some j) < SCNetworkInterfaceOrder None"
proof -
  have "sort_code (ni_sort_order (ni j)) \<le> 23" by (cases "ni_sort_order (ni j)") simp_all
  then show ?thesis
    using assms sort_code_inj [of "ni_sort_order (ni i)" "ni_sort_order (ni j)"]
    by (auto simp: SCNetworkInterfaceOrder_def SCNetworkInterfaceCompare_def Let_def less_if_sort_def split: if_splits)
qed

theorem SCNetworkInterfaceOrder_agrees_witness:
  "SCNetworkInterfaceCompare (sample_at ''en0'' ''a'') (SCNetworkInterfaceCreatePrivate None None None) = kCFCompareLessThan \<and>
   SCNetworkInterfaceOrder (Some (SCNetworkInterfaceCreatePrivate None None None)) < SCNetworkInterfaceOrder None"
  by (rule SCNetworkInterfaceOrder_agrees) (simp add: SCNetworkInterfaceOrder_def sample_at_def SCNetworkInterfaceCreatePrivate_def)

end
