(* ===== verification/NetServiceBase.thy ===== *)
theory NetServiceBase
  imports NetInterface
begin

text \<open>
  Network services, as far as other components use them (SCNetworkService.c): the object, its
  equality and hash, and the two searches over the enabled services. The sets of the
  preferences and their services come from \<open>SCNetworkSetCopyAll\<close> and
  \<open>SCNetworkSetCopyServices\<close>, which the repository does not have: they are arguments.
\<close>

record scnservice =
  ns_serviceID :: string
  ns_interface :: "scnif option"
  ns_prefs :: "nat option"
  ns_store :: "nat option"
  ns_name :: "string option"
  ns_externalIDs :: "dict option"

definition SCNetworkServiceCreatePrivate :: "nat option \<Rightarrow> string \<Rightarrow> scnif option \<Rightarrow> scnservice" where
  "SCNetworkServiceCreatePrivate prefs serviceID interface =
     \<lparr>ns_serviceID = serviceID, ns_interface = interface, ns_prefs = prefs, ns_store = None, ns_name = None,
      ns_externalIDs = None\<rparr>"

definition SCNetworkServiceEqual :: "scnservice \<Rightarrow> scnservice \<Rightarrow> bool" where
  "SCNetworkServiceEqual s1 s2 \<longleftrightarrow> ns_prefs s1 = ns_prefs s2 \<and> ns_serviceID s1 = ns_serviceID s2"

definition SCNetworkServiceHash :: "(string \<Rightarrow> nat) \<Rightarrow> scnservice \<Rightarrow> nat" where
  "SCNetworkServiceHash cfhash s = cfhash (ns_serviceID s)"

text \<open>One service of a set.\<close>

definition add_enabled :: "(scnservice \<Rightarrow> bool) \<Rightarrow> scnservice \<Rightarrow> scnservice list option \<Rightarrow> scnservice list option" where
  "add_enabled enabled s arr =
     (if \<not> enabled s then arr
      else case arr of None \<Rightarrow> Some [s]
           | Some xs \<Rightarrow> if \<exists>x \<in> set xs. SCNetworkServiceEqual s x then arr else Some (xs @ [s]))"

text \<open>A set whose services cannot be copied is \<open>None\<close> in the list.\<close>

definition SCNetworkServiceCopyAllEnabled ::
    "(scnservice \<Rightarrow> bool) \<Rightarrow> scnservice list option list option \<Rightarrow> scnservice list option" where
  "SCNetworkServiceCopyAllEnabled enabled sets =
     (case sets of
        None \<Rightarrow> None
      | Some ss \<Rightarrow>
          fold (\<lambda>services arr.
            (case services of
               None \<Rightarrow> arr
             | Some l \<Rightarrow> fold (add_enabled enabled) l arr))
            ss None)"

text \<open>The interface or one of the layers under it.\<close>

fun interface_on_stack :: "name_env \<Rightarrow> scnif \<Rightarrow> scnif \<Rightarrow> bool" where
  "interface_on_stack env i (SCNetif a l b r v) \<longleftrightarrow>
     SCNetworkInterfaceEqual env i (SCNetif a l b r v) \<or>
     (case l of None \<Rightarrow> False | Some x \<Rightarrow> interface_on_stack env i x)"

definition SCNetworkServiceExistsForInterface :: "name_env \<Rightarrow> scnservice list option \<Rightarrow> scnif \<Rightarrow> bool" where
  "SCNetworkServiceExistsForInterface env services i \<longleftrightarrow>
     (case services of
        None \<Rightarrow> False
      | Some ss \<Rightarrow> \<exists>s \<in> set ss. case ns_interface s of None \<Rightarrow> False | Some x \<Rightarrow> interface_on_stack env i x)"

section \<open>The enabled services\<close>

definition service_key :: "scnservice \<Rightarrow> nat option \<times> string" where
  "service_key s = (ns_prefs s, ns_serviceID s)"

lemma service_equal_key: "SCNetworkServiceEqual s t \<longleftrightarrow> service_key s = service_key t"
  by (auto simp: SCNetworkServiceEqual_def service_key_def)

definition enabled_of :: "(scnservice \<Rightarrow> bool) \<Rightarrow> scnservice list option list \<Rightarrow> scnservice set" where
  "enabled_of enabled ss = {s. enabled s \<and> (\<exists>l. Some l \<in> set ss \<and> s \<in> set l)}"

text \<open>The array collects the services of \<open>E\<close>, once per key.\<close>

definition collects :: "scnservice list option \<Rightarrow> scnservice set \<Rightarrow> bool" where
  "collects arr E \<longleftrightarrow> (case arr of None \<Rightarrow> E = {}
     | Some xs \<Rightarrow> E \<noteq> {} \<and> set xs \<subseteq> E \<and> service_key ` set xs = service_key ` E \<and> distinct (map service_key xs))"

lemma add_enabled_collects:
  "collects arr E \<Longrightarrow> collects (add_enabled enabled s arr) (E \<union> (if enabled s then {s} else {}))"
  by (cases arr) (auto simp: add_enabled_def collects_def service_equal_key split: if_splits)

lemma fold_services_collects:
  "collects arr E \<Longrightarrow> collects (fold (add_enabled enabled) l arr) (E \<union> {s \<in> set l. enabled s})"
proof (induction l arbitrary: arr E)
  case (Cons s l)
  have "E \<union> (if enabled s then {s} else {}) \<union> {s \<in> set l. enabled s} = E \<union> {x \<in> set (s # l). enabled x}"
    by auto
  with Cons.IH [OF add_enabled_collects [OF Cons.prems, of enabled s]] show ?case by simp
qed simp

lemma enabled_of_Cons:
  "enabled_of enabled (None # ss) = enabled_of enabled ss"
  "enabled_of enabled (Some l # ss) = {s \<in> set l. enabled s} \<union> enabled_of enabled ss"
  by (auto simp: enabled_of_def)

lemma fold_sets_collects:
  "collects arr E \<Longrightarrow>
   collects (fold (\<lambda>services arr. case services of None \<Rightarrow> arr | Some l \<Rightarrow> fold (add_enabled enabled) l arr) ss arr)
     (E \<union> enabled_of enabled ss)"
proof (induction ss arbitrary: arr E)
  case (Cons x ss)
  show ?case
  proof (cases x)
    case None
    with Cons show ?thesis by (simp add: enabled_of_Cons)
  next
    case (Some l)
    with Cons.IH [OF fold_services_collects [OF Cons.prems, of enabled l]] show ?thesis
      by (simp add: enabled_of_Cons Un_assoc)
  qed
qed (simp add: enabled_of_def)

text \<open>
  The enabled services are collected once each: without an enabled service there is no
  array; otherwise the array has no two services that are equal, every element is an enabled
  service of some set, and every enabled service of a set has an equal one in it.
\<close>

theorem SCNetworkServiceCopyAllEnabled_once:
  "case SCNetworkServiceCopyAllEnabled enabled (Some ss) of
     None \<Rightarrow> enabled_of enabled ss = {}
   | Some xs \<Rightarrow> enabled_of enabled ss \<noteq> {} \<and> set xs \<subseteq> enabled_of enabled ss \<and>
       service_key ` set xs = service_key ` enabled_of enabled ss \<and> distinct (map service_key xs)"
proof -
  have "collects None {}" by (simp add: collects_def)
  from fold_sets_collects [OF this, of enabled ss] show ?thesis
    by (simp add: collects_def SCNetworkServiceCopyAllEnabled_def)
qed

end
