(* ===== verification/Bond.thy ===== *)
theory Bond
  imports NetServiceBase
begin

unbundle bit_operations_syntax

text \<open>
  Bond interfaces (BondConfiguration.c): reading the configured bonds from the preferences,
  changing them, reading the active ones from the kernel, their LACP status, and bringing the
  kernel in line with the preferences.

  The preferences are a store with \<open>path_ops\<close>; an operation on a bond that is linked to them
  returns the new store. Results are \<open>(ok, status, ...)\<close>, the status being the code that
  \<open>_SCErrorSet\<close> received. Interface lookup by name and the interfaces of the registry come
  from the part of SCNetworkInterface.c that talks to IOKit: they are fields of \<open>bond_env\<close>,
  and so are the bridges and VLANs (their accessors are not in the repository). The socket and the ioctl
  calls answer through \<open>bond_kern\<close>.
\<close>

section \<open>Environment\<close>

record bond_env =
  be_platform :: if_platform
  be_names :: name_env
  be_hash :: "string \<Rightarrow> nat"
  be_default_prefs :: bool
  be_companion :: bool
  be_ni_lookup :: "string \<Rightarrow> scnif option"
  be_lookup :: "string \<Rightarrow> scnif option"
  be_bridge_members :: "scnif list option list"
  be_vlan_physical :: "scnif list"
  be_io_interfaces :: "scnif list option"
  be_enabled :: "scnservice \<Rightarrow> bool"
  be_sets :: "scnservice list option list option"
  be_bsd_name :: "scnif \<Rightarrow> string option"

definition kSCPrefVirtualNetworkInterfaces :: string where
  "kSCPrefVirtualNetworkInterfaces = ''VirtualNetworkInterfaces''"
definition kSCPropVirtualNetworkInterfacesBondInterfaces :: string where
  "kSCPropVirtualNetworkInterfacesBondInterfaces = ''Interfaces''"
definition kSCPropVirtualNetworkInterfacesBondMode :: string where
  "kSCPropVirtualNetworkInterfacesBondMode = ''Mode''"
definition kSCPropVirtualNetworkInterfacesBondOptions :: string where
  "kSCPropVirtualNetworkInterfacesBondOptions = ''Options''"
definition IF_BOND_MODE_LACP :: int where "IF_BOND_MODE_LACP = 0"
definition IF_BOND_MODE_STATIC :: int where "IF_BOND_MODE_STATIC = 1"

lemmas bond_key_defs = kSCPropVirtualNetworkInterfacesBondInterfaces_def
  kSCPropVirtualNetworkInterfacesBondMode_def kSCPropVirtualNetworkInterfacesBondOptions_def
  kSCPropUserDefinedName_def

definition bonds_path :: path where
  "bonds_path = [kSCPrefVirtualNetworkInterfaces, kSCNetworkInterfaceTypeBond]"

definition bond_path :: "string \<Rightarrow> path" where
  "bond_path bond_if = bonds_path @ [bond_if]"

definition isA_SCBondInterface :: "scnif \<Rightarrow> bool" where
  "isA_SCBondInterface i \<longleftrightarrow> ni_interface_type (ni i) = kSCNetworkInterfaceTypeBond"

text \<open>The device that the paths are built with; a missing one prints as \<open>(null)\<close>.\<close>

definition bond_device :: "scnif \<Rightarrow> string" where
  "bond_device b = (case ni_entity_device (ni b) of Some d \<Rightarrow> d | None \<Rightarrow> ''(null)'')"

section \<open>Changing a bond\<close>

text \<open>
  The block that all changes share: look the stored dictionary up, change a copy, store the
  copy when it differs. A bond that is not linked to preferences has nothing stored.
\<close>

definition bond_store_update ::
    "'p path_ops \<Rightarrow> 'p \<Rightarrow> scnif \<Rightarrow> (dict \<Rightarrow> dict) \<Rightarrow> bool \<times> sc_status \<times> 'p" where
  "bond_store_update ops s b f =
     (if ni_prefs (ni b) = None then (True, kSCStatusOK, s)
      else case isA_CFDictionary (path_get ops s (bond_path (bond_device b))) of
             None \<Rightarrow> (False, kSCStatusFailed, s)
           | Some d \<Rightarrow>
               if f d = d then (True, kSCStatusOK, s)
               else case path_set ops s (bond_path (bond_device b)) (CFDictionary (f d)) of
                      None \<Rightarrow> (False, kSCStatusFailed, s)
                    | Some s' \<Rightarrow> (True, kSCStatusOK, s'))"

definition dict_put :: "string \<Rightarrow> plist option \<Rightarrow> dict \<Rightarrow> dict" where
  "dict_put k v d = (case v of None \<Rightarrow> fmdrop k d | Some x \<Rightarrow> fmupd k x d)"

text \<open>
  The names of the members; a member without a BSD name cannot be put into the array of
  names, which is \<open>UB\<close>.
\<close>

definition member_names :: "bond_env \<Rightarrow> scnif list \<Rightarrow> string list outcome" where
  "member_names env ms =
     (if \<forall>m \<in> set ms. be_bsd_name env m \<noteq> None then Ret (map (\<lambda>m. the (be_bsd_name env m)) ms) else UB)"


text \<open>
  \<open>__SCBondInterfaceSetMemberInterfaces\<close>. The names are only collected when the bond is linked
  and its stored dictionary is there. The old array is released without a check, which is
  \<open>UB\<close> for a bond that has none.
\<close>

definition bond_set_members ::
    "bond_env \<Rightarrow> 'p path_ops \<Rightarrow> 'p \<Rightarrow> scnif \<Rightarrow> scnif list option \<Rightarrow> (bool \<times> sc_status \<times> 'p \<times> scnif) outcome" where
  "bond_set_members env ops s b members =
     (let ms = (case members of None \<Rightarrow> [] | Some l \<Rightarrow> l);
          stored = (if ni_prefs (ni b) \<noteq> None \<and> isA_CFDictionary (path_get ops s (bond_path (bond_device b))) \<noteq> None
                    then obind (member_names env ms) (\<lambda>names. Ret (bond_store_update ops s b
                           (dict_put kSCPropVirtualNetworkInterfacesBondInterfaces (Some (CFArray (map CFString names))))))
                    else Ret (bond_store_update ops s b id))
      in obind stored (\<lambda>(ok, st, s').
           if \<not> ok then Ret (False, st, s', b)
           else if ni_bond b = None then UB
           else Ret (True, st, s', set_bond_interfaces
                  (Some (map (\<lambda>m. SCNetworkInterfaceCreateCopy m (ni_prefs (ni b)) (ni_serviceID (ni b))) ms)) b)))"

definition SCBondInterfaceGetMemberInterfaces :: "scnif \<Rightarrow> scnif list option" where
  "SCBondInterfaceGetMemberInterfaces b = (if \<not> isA_SCBondInterface b then None else ni_bond b)"

definition SCBondInterfaceGetOptions :: "scnif \<Rightarrow> dict option" where
  "SCBondInterfaceGetOptions b = (if \<not> isA_SCBondInterface b then None else ni_bond_options (ni b))"

definition SCBondInterfaceGetMode :: "scnif \<Rightarrow> int option" where
  "SCBondInterfaceGetMode b = (if \<not> isA_SCBondInterface b then None else ni_bond_mode (ni b))"

text \<open>Arguments that may be of any type are property lists; NULL is allowed.\<close>

definition SCBondInterfaceSetLocalizedDisplayName ::
    "'p path_ops \<Rightarrow> 'p \<Rightarrow> scnif \<Rightarrow> plist option \<Rightarrow> bool \<times> sc_status \<times> 'p \<times> scnif" where
  "SCBondInterfaceSetLocalizedDisplayName ops s b newName =
     (if \<not> isA_SCBondInterface b \<or> (newName \<noteq> None \<and> isA_CFString newName = None)
      then (False, kSCStatusInvalidArgument, s, b)
      else case bond_store_update ops s b (dict_put kSCPropUserDefinedName newName) of
        (ok, st, s') \<Rightarrow>
          (ok, st, s', if ok then upd_ni (\<lambda>a. a\<lparr>ni_localized_name := isA_CFString newName\<rparr>) b else b))"

definition SCBondInterfaceSetOptions ::
    "'p path_ops \<Rightarrow> 'p \<Rightarrow> scnif \<Rightarrow> plist option \<Rightarrow> bool \<times> sc_status \<times> 'p \<times> scnif" where
  "SCBondInterfaceSetOptions ops s b newOptions =
     (if \<not> isA_SCBondInterface b \<or> (newOptions \<noteq> None \<and> isA_CFDictionary newOptions = None)
      then (False, kSCStatusInvalidArgument, s, b)
      else case bond_store_update ops s b (dict_put kSCPropVirtualNetworkInterfacesBondOptions newOptions) of
        (ok, st, s') \<Rightarrow>
          (ok, st, s', if ok then upd_ni (\<lambda>a. a\<lparr>ni_bond_options := isA_CFDictionary newOptions\<rparr>) b else b))"

text \<open>\<open>_SCBondInterfaceSetMode\<close>: no mode means LACP.\<close>

definition bond_set_mode_value ::
    "'p path_ops \<Rightarrow> 'p \<Rightarrow> scnif \<Rightarrow> int option \<Rightarrow> bool \<times> sc_status \<times> 'p \<times> scnif" where
  "bond_set_mode_value ops s b mode =
     (let m = (case mode of None \<Rightarrow> IF_BOND_MODE_LACP | Some m \<Rightarrow> m) in
      case bond_store_update ops s b (dict_put kSCPropVirtualNetworkInterfacesBondMode (Some (CFNumber m))) of
        (ok, st, s') \<Rightarrow> (ok, st, s', if ok then upd_ni (\<lambda>a. a\<lparr>ni_bond_mode := Some m\<rparr>) b else b))"

text \<open>\<open>CFNumberGetValue\<close> of an \<open>int\<close> fails for a number that does not fit.\<close>

definition fits_int :: "int \<Rightarrow> bool" where
  "fits_int n \<longleftrightarrow> - (2 ^ 31) \<le> n \<and> n < 2 ^ 31"

definition SCBondInterfaceSetMode ::
    "'p path_ops \<Rightarrow> 'p \<Rightarrow> scnif \<Rightarrow> plist option \<Rightarrow> bool \<times> sc_status \<times> 'p \<times> scnif" where
  "SCBondInterfaceSetMode ops s b mode =
     (case isA_CFNumber mode of
        None \<Rightarrow> (False, kSCStatusInvalidArgument, s, b)
      | Some m \<Rightarrow>
          if \<not> isA_SCBondInterface b \<or> \<not> fits_int m then (False, kSCStatusInvalidArgument, s, b)
          else if m = IF_BOND_MODE_LACP \<or> m = IF_BOND_MODE_STATIC then bond_set_mode_value ops s b (Some m)
          else (False, kSCStatusInvalidArgument, s, b))"

section \<open>Configured bonds\<close>

text \<open>\<open>add_interface\<close>: NULL until the first call makes an array, even when nothing is found.\<close>

definition add_interface :: "bond_env \<Rightarrow> bool \<Rightarrow> string \<Rightarrow> scnif list option \<Rightarrow> scnif list option" where
  "add_interface env with_ni if_name interfaces =
     (let arr = (case interfaces of None \<Rightarrow> [] | Some l \<Rightarrow> l);
          i1 = (if with_ni then be_ni_lookup env if_name else None);
          i2 = (case i1 of None \<Rightarrow> be_lookup env if_name | Some i \<Rightarrow> Some i)
      in Some (case i2 of None \<Rightarrow> arr | Some i \<Rightarrow> arr @ [i]))"

text \<open>
  One entry of the stored dictionary; the value is used as a dictionary without a check. The
  bond is linked to the preferences (\<open>link\<close>) at the end, so none of the setters stores.
\<close>

definition add_configured_interface ::
    "bond_env \<Rightarrow> 'p path_ops \<Rightarrow> 'p \<Rightarrow> nat \<Rightarrow> string \<Rightarrow> plist \<Rightarrow> scnif outcome" where
  "add_configured_interface env ops s link bond_if value =
     (case isA_CFDictionary (Some value) of
        None \<Rightarrow> UB
      | Some bond_info \<Rightarrow>
          let b0 = SCBondInterfaceCreatePrivate (be_platform env) bond_if;
              names = (case isA_CFArray (fmlookup bond_info kSCPropVirtualNetworkInterfacesBondInterfaces) of
                         None \<Rightarrow> [] | Some l \<Rightarrow> List.map_filter (\<lambda>m. isA_CFString (Some m)) l);
              members = fold (add_interface env (\<not> be_default_prefs env \<and> be_companion env)) names None
          in obind (case members of
                      None \<Rightarrow> Ret b0
                    | Some ms \<Rightarrow> obind (bond_set_members env ops s b0 (Some ms)) (\<lambda>(_, _, _, b). Ret b)) (\<lambda>b1.
             let nm = fmlookup bond_info kSCPropUserDefinedName;
                 b2 = (case isA_CFString nm of
                         None \<Rightarrow> b1 | Some _ \<Rightarrow> snd (snd (snd (SCBondInterfaceSetLocalizedDisplayName ops s b1 nm))));
                 opts = fmlookup bond_info kSCPropVirtualNetworkInterfacesBondOptions;
                 b3 = (case isA_CFDictionary opts of
                         None \<Rightarrow> b2 | Some _ \<Rightarrow> snd (snd (snd (SCBondInterfaceSetOptions ops s b2 opts))));
                 mode = isA_CFNumber (fmlookup bond_info kSCPropVirtualNetworkInterfacesBondMode);
                 b4 = snd (snd (snd (bond_set_mode_value ops s b3 mode)))
             in Ret (upd_ni (\<lambda>a. a\<lparr>ni_prefs := Some link\<rparr>) b4)))"

text \<open>The entries of a dictionary, in the order of their keys.\<close>

definition dict_entries :: "dict \<Rightarrow> (string \<times> plist) list" where
  "dict_entries d = map (\<lambda>k. (k, the (fmlookup d k))) (sorted_list_of_fset (fmdom d))"

definition SCBondInterfaceCopyAll :: "bond_env \<Rightarrow> 'p path_ops \<Rightarrow> 'p \<Rightarrow> nat \<Rightarrow> scnif list outcome" where
  "SCBondInterfaceCopyAll env ops s link =
     (case isA_CFDictionary (path_get ops s bonds_path) of
        None \<Rightarrow> Ret []
      | Some dict \<Rightarrow>
          ofold (\<lambda>(k, v) bonds. obind (add_configured_interface env ops s link k v) (\<lambda>b. Ret (bonds @ [b])))
            (dict_entries dict) [])"

section \<open>Available members\<close>

text \<open>A hashed set finds an equal object when it hashes alike.\<close>

definition cfset_contains :: "bond_env \<Rightarrow> scnif list \<Rightarrow> scnif \<Rightarrow> bool" where
  "cfset_contains env xs i \<longleftrightarrow>
     (\<exists>x \<in> set xs. SCNetworkInterfaceHash (be_hash env) x = SCNetworkInterfaceHash (be_hash env) i \<and>
        SCNetworkInterfaceEqual (be_names env) i x)"

definition array_contains :: "bond_env \<Rightarrow> scnif list \<Rightarrow> scnif \<Rightarrow> bool" where
  "array_contains env xs i \<longleftrightarrow> (\<exists>x \<in> set xs. SCNetworkInterfaceEqual (be_names env) i x)"

definition cfset_add :: "bond_env \<Rightarrow> scnif \<Rightarrow> scnif list \<Rightarrow> scnif list" where
  "cfset_add env i xs = (if cfset_contains env xs i then xs else xs @ [i])"

definition SCBondInterfaceListCollectMembers :: "bond_env \<Rightarrow> scnif list \<Rightarrow> scnif list \<Rightarrow> scnif list" where
  "SCBondInterfaceListCollectMembers env interfaces excluded =
     fold (\<lambda>b xs. case SCBondInterfaceGetMemberInterfaces b of
                    None \<Rightarrow> xs | Some ms \<Rightarrow> fold (cfset_add env) ms xs) interfaces excluded"

text \<open>A bridge is represented by what \<open>SCBridgeInterfaceGetMemberInterfaces\<close> returns for it.\<close>

definition SCBridgeInterfaceListCollectMembers :: "bond_env \<Rightarrow> scnif list option list \<Rightarrow> scnif list \<Rightarrow> scnif list" where
  "SCBridgeInterfaceListCollectMembers env interfaces excluded =
     fold (\<lambda>members xs. case members of None \<Rightarrow> xs | Some ms \<Rightarrow> fold (cfset_add env) ms xs) interfaces excluded"

definition SCBondInterfaceCopyAvailableMemberInterfaces ::
    "bond_env \<Rightarrow> 'p path_ops \<Rightarrow> 'p \<Rightarrow> nat \<Rightarrow> scnif list outcome" where
  "SCBondInterfaceCopyAvailableMemberInterfaces env ops s link =
     obind (SCBondInterfaceCopyAll env ops s link) (\<lambda>bonds.
       let excluded = fold (cfset_add env) (be_vlan_physical env)
                        (SCBridgeInterfaceListCollectMembers env (be_bridge_members env)
                          (SCBondInterfaceListCollectMembers env bonds []))
       in Ret (case be_io_interfaces env of
                 None \<Rightarrow> []
               | Some is \<Rightarrow> filter (\<lambda>i. ni_supportsBond (ni i) \<and> \<not> cfset_contains env excluded i) is))"

section \<open>Public setters and life cycle\<close>

text \<open>Whether one requested member is allowed.\<close>

definition bond_member_status ::
    "bond_env \<Rightarrow> scnif list option \<Rightarrow> scnif list \<Rightarrow> scnif \<Rightarrow> sc_status" where
  "bond_member_status env current available m =
     (if (case current of None \<Rightarrow> False | Some c \<Rightarrow> array_contains env c m) then kSCStatusOK
      else if array_contains env available m
      then (if SCNetworkServiceExistsForInterface (be_names env)
                 (SCNetworkServiceCopyAllEnabled (be_enabled env) (be_sets env)) m
            then kSCStatusKeyExists else kSCStatusOK)
      else kSCStatusInvalidArgument)"

fun bond_check_members :: "bond_env \<Rightarrow> scnif list option \<Rightarrow> scnif list \<Rightarrow> scnif list \<Rightarrow> sc_status" where
  "bond_check_members env current available [] = kSCStatusOK"
| "bond_check_members env current available (m # ms) =
     (case bond_member_status env current available m of
        kSCStatusOK \<Rightarrow> bond_check_members env current available ms
      | st \<Rightarrow> st)"

text \<open>\<open>SCBondInterfaceSetMemberInterfaces\<close>, for an array of interfaces or NULL.\<close>

definition SCBondInterfaceSetMemberInterfaces ::
    "bond_env \<Rightarrow> 'p path_ops \<Rightarrow> 'p \<Rightarrow> scnif \<Rightarrow> scnif list option \<Rightarrow> (bool \<times> sc_status \<times> 'p \<times> scnif) outcome" where
  "SCBondInterfaceSetMemberInterfaces env ops s b members =
     (if \<not> isA_SCBondInterface b then Ret (False, kSCStatusInvalidArgument, s, b)
      else obind (case ni_prefs (ni b) of
                    None \<Rightarrow> Ret kSCStatusOK
                  | Some link \<Rightarrow>
                      obind (SCBondInterfaceCopyAvailableMemberInterfaces env ops s link) (\<lambda>available.
                        Ret (bond_check_members env (SCBondInterfaceGetMemberInterfaces b) available
                               (case members of None \<Rightarrow> [] | Some l \<Rightarrow> l)))) (\<lambda>sc_status.
           if sc_status \<noteq> kSCStatusOK then Ret (False, sc_status, s, b)
           else bond_set_members env ops s b members))"

definition bond_name :: "nat \<Rightarrow> string" where
  "bond_name i = ''bond'' @ decimal i"

text \<open>
  The search for an unused name from index \<open>i\<close> on; without fuel it did not end. The new bond
  is linked to the preferences.
\<close>

fun bond_create_loop ::
    "bond_env \<Rightarrow> 'p path_ops \<Rightarrow> 'p \<Rightarrow> nat \<Rightarrow> nat \<Rightarrow> nat \<Rightarrow> (scnif option \<times> 'p) option" where
  "bond_create_loop env ops s link i 0 = None"
| "bond_create_loop env ops s link i (Suc fuel) =
     (if path_get ops s (bond_path (bond_name i)) \<noteq> None
      then bond_create_loop env ops s link (Suc i) fuel
      else case path_set ops s (bond_path (bond_name i))
                  (CFDictionary (fmupd kSCPropVirtualNetworkInterfacesBondInterfaces (CFArray []) fmempty)) of
             None \<Rightarrow> Some (None, s)
           | Some s' \<Rightarrow>
               Some (Some (upd_ni (\<lambda>a. a\<lparr>ni_prefs := Some link\<rparr>)
                             (SCBondInterfaceCreatePrivate (be_platform env) (bond_name i))), s'))"

definition SCBondInterfaceCreate ::
    "bond_env \<Rightarrow> 'p path_ops \<Rightarrow> nat \<Rightarrow> ('p \<times> nat) option \<Rightarrow> (scnif option \<times> 'p option) option" where
  "SCBondInterfaceCreate env ops fuel prefs =
     (case prefs of
        None \<Rightarrow> Some (None, None)
      | Some (s, link) \<Rightarrow> map_option (\<lambda>(b, s'). (b, Some s')) (bond_create_loop env ops s link 0 fuel))"

definition SCBondInterfaceRemove :: "bond_env \<Rightarrow> 'p path_ops \<Rightarrow> 'p \<Rightarrow> scnif \<Rightarrow> bool \<times> sc_status \<times> 'p" where
  "SCBondInterfaceRemove env ops s b =
     (if \<not> isA_SCBondInterface b \<or> ni_prefs (ni b) = None then (False, kSCStatusInvalidArgument, s)
      else case path_remove ops s (bond_path (case be_bsd_name env b of Some n \<Rightarrow> n | None \<Rightarrow> ''(null)'')) of
             None \<Rightarrow> (False, kSCStatusFailed, s)
           | Some s' \<Rightarrow> (True, kSCStatusOK, s'))"

end
