(* ===== verification/BondKernel.thy ===== *)
theory BondKernel
  imports Bond
begin

unbundle bit_operations_syntax

text \<open>
  The kernel side of bonds (BondConfiguration.c, and the interface creation of
  SCNetworkConfigurationInternal.c): the status request, the active bonds, the LACP status of
  a bond, the ioctl wrappers, and \<open>_SCBondInterfaceUpdateConfiguration\<close>.
\<close>

section \<open>Status requests\<close>

record if_bond_status =
  ibs_if_name :: string
  ibs_state :: uint8
  ibs_partner_state :: uint8
  ibs_partner_system_priority :: nat
  ibs_partner_system :: "uint8 list"

text \<open>The answers to the two ioctl calls: the number of members, the mode, and the entries.\<close>

record bond_answer =
  ba_total :: nat
  ba_mode :: int
  ba_entries :: "if_bond_status list"

record bond_status_req =
  ibsr_total :: nat
  ibsr_mode :: int
  ibsr_buffer :: "if_bond_status option list"

record media_answer =
  ma_count :: nat
  ma_status :: uint32
  ma_active :: uint32

record bond_read =
  rd_socket :: "errno option"
  rd_ifaddrs :: "(string \<times> bool) list option"
  rd_status1 :: "string \<Rightarrow> errno + bond_answer"
  rd_status2 :: "string \<Rightarrow> errno + bond_answer"
  rd_malloc :: bool
  rd_media :: "string \<Rightarrow> errno + media_answer"

text \<open>\<open>inet_dgram_socket\<close>: an error or a descriptor.\<close>

definition inet_dgram_socket :: "bond_read \<Rightarrow> errno option" where
  "inet_dgram_socket rd = rd_socket rd"

definition siocgifxmedia :: "bond_read \<Rightarrow> string \<Rightarrow> errno + (uint32 \<times> uint32)" where
  "siocgifxmedia rd ifname =
     (case rd_media rd ifname of
        Inl e \<Rightarrow> Inl e
      | Inr a \<Rightarrow> Inr (if ma_count a \<noteq> 0 then (ma_status a, ma_active a) else (0, 0)))"

text \<open>
  The first call asks how many members there are, the buffer has that many entries, the second
  call fills at most as many and reports the number again; the copy keeps the second number.
\<close>

definition if_bond_status_req_copy :: "bond_read \<Rightarrow> string \<Rightarrow> errno + bond_status_req" where
  "if_bond_status_req_copy rd ifname =
     (case rd_status1 rd ifname of
        Inl e \<Rightarrow> Inl e
      | Inr a1 \<Rightarrow>
          if \<not> rd_malloc rd then Inl (Errno_other 12)
          else if ba_total a1 = 0
          then Inr \<lparr>ibsr_total = 0, ibsr_mode = ba_mode a1, ibsr_buffer = []\<rparr>
          else (case rd_status2 rd ifname of
                  Inl e \<Rightarrow> Inl e
                | Inr a2 \<Rightarrow>
                    Inr \<lparr>ibsr_total = ba_total a2, ibsr_mode = ba_mode a2,
                         ibsr_buffer = map Some (take (ba_total a1) (ba_entries a2))
                           @ replicate (ba_total a1 - length (ba_entries a2)) None\<rparr>))"

text \<open>Reading an entry outside the buffer, or one the kernel did not fill, is \<open>UB\<close>.\<close>

definition status_entry :: "bond_status_req \<Rightarrow> nat \<Rightarrow> if_bond_status outcome" where
  "status_entry r i =
     (if i < length (ibsr_buffer r)
      then (case ibsr_buffer r ! i of None \<Rightarrow> UB | Some e \<Rightarrow> Ret e) else UB)"

section \<open>Active bonds\<close>

definition bond_active_members :: "bond_env \<Rightarrow> bond_status_req \<Rightarrow> scnif list option outcome" where
  "bond_active_members env r =
     ofold (\<lambda>i ms. obind (status_entry r i) (\<lambda>e. Ret (add_interface env False (ibs_if_name e) ms)))
       [0..<ibsr_total r] None"

text \<open>
  One link-level entry of aggregation type. \<open>None\<close> is the error exit that drops the array;
  a busy bond is passed over. \<open>tree_ops\<close> stands for the preferences these bonds do not have.
\<close>

definition bond_copy_active_one ::
    "bond_env \<Rightarrow> bond_read \<Rightarrow> string \<Rightarrow> scnif list option \<Rightarrow> scnif list option outcome" where
  "bond_copy_active_one env rd ifname acc =
     (case acc of
        None \<Rightarrow> Ret None
      | Some bonds \<Rightarrow>
          (case if_bond_status_req_copy rd ifname of
             Inl e \<Rightarrow> Ret (if e = EBUSY then Some bonds else None)
           | Inr r \<Rightarrow>
               let b0 = SCBondInterfaceCreatePrivate (be_platform env) ifname;
                   b1 = snd (snd (snd (bond_set_mode_value tree_ops (CFDictionary fmempty) b0 (Some (ibsr_mode r)))))
               in obind (bond_active_members env r) (\<lambda>members.
                    obind (case members of
                             None \<Rightarrow> Ret b1
                           | Some ms \<Rightarrow> obind (bond_set_members env tree_ops (CFDictionary fmempty) b1 (Some ms))
                                          (\<lambda>(_, _, _, b). Ret b)) (\<lambda>b2. Ret (Some (bonds @ [b2]))))))"

definition SCBondInterfaceCopyActive :: "bond_env \<Rightarrow> bond_read \<Rightarrow> scnif list option outcome" where
  "SCBondInterfaceCopyActive env rd =
     (case rd_ifaddrs rd of
        None \<Rightarrow> Ret None
      | Some ifap \<Rightarrow>
          if inet_dgram_socket rd \<noteq> None then Ret None
          else ofold (bond_copy_active_one env rd) (map fst (filter snd ifap)) (Some []))"

section \<open>Status of a bond\<close>

datatype bond_status_code =
    kSCBondStatusOK | kSCBondStatusLinkInvalid | kSCBondStatusNoPartner | kSCBondStatusNotInActiveGroup

record member_status =
  ms_aggregation :: bond_status_code
  ms_collecting :: bool
  ms_distributing :: bool

definition lacp_in_sync :: "uint8 \<Rightarrow> bool" where "lacp_in_sync s \<longleftrightarrow> s AND 0x08 \<noteq> 0"
definition lacp_collecting :: "uint8 \<Rightarrow> bool" where "lacp_collecting s \<longleftrightarrow> s AND 0x10 \<noteq> 0"
definition lacp_distributing :: "uint8 \<Rightarrow> bool" where "lacp_distributing s \<longleftrightarrow> s AND 0x20 \<noteq> 0"

definition IFM_AVALID :: uint32 where "IFM_AVALID = 1"
definition IFM_ACTIVE :: uint32 where "IFM_ACTIVE = 2"
definition IFM_FDX :: uint32 where "IFM_FDX = 0x00100000"

text \<open>The media of the bond is the argument; a failed media request leaves zeros.\<close>

definition bond_member_state :: "bond_read \<Rightarrow> uint32 \<Rightarrow> if_bond_status \<Rightarrow> member_status" where
  "bond_member_state rd bond_if_active e =
     (let ps = ibs_partner_state e in
      if lacp_in_sync (ibs_state e)
      then \<lparr>ms_aggregation = kSCBondStatusOK,
            ms_collecting = (lacp_in_sync ps \<and> lacp_collecting (ibs_state e) \<and> lacp_distributing ps),
            ms_distributing = (lacp_in_sync ps \<and> lacp_distributing (ibs_state e) \<and> lacp_collecting ps)\<rparr>
      else case (case siocgifxmedia rd (ibs_if_name e) of Inl _ \<Rightarrow> (0, 0) | Inr sa \<Rightarrow> sa) of
        (status, active) \<Rightarrow>
          \<lparr>ms_aggregation =
             (if status AND IFM_AVALID = 0 \<or> status AND IFM_ACTIVE = 0 \<or> active AND IFM_FDX = 0
              then kSCBondStatusLinkInvalid
              else if ibs_partner_system_priority e = 0 \<and> ibs_partner_system e = replicate 6 0
              then kSCBondStatusNoPartner
              else if active \<noteq> bond_if_active then kSCBondStatusLinkInvalid
              else kSCBondStatusNotInActiveGroup),
           ms_collecting = False, ms_distributing = False\<rparr>)"

record bond_status =
  bs_bond :: scnif
  bs_members :: "(scnif \<times> member_status) list"

text \<open>A dictionary keyed by interfaces: an equal key that hashes alike is replaced.\<close>

definition status_put :: "bond_env \<Rightarrow> scnif \<Rightarrow> member_status \<Rightarrow> (scnif \<times> member_status) list \<Rightarrow> (scnif \<times> member_status) list" where
  "status_put env i m xs =
     (if cfset_contains env (map fst xs) i
      then map (\<lambda>(j, n). if cfset_contains env [j] i then (j, m) else (j, n)) xs
      else xs @ [(i, m)])"

definition SCBondInterfaceCopyStatus :: "bond_env \<Rightarrow> bond_read \<Rightarrow> scnif \<Rightarrow> bond_status option outcome" where
  "SCBondInterfaceCopyStatus env rd b =
     (if \<not> isA_SCBondInterface b \<or> inet_dgram_socket rd \<noteq> None then Ret None
      else let if_name = (case be_bsd_name env b of None \<Rightarrow> '''' | Some n \<Rightarrow> n) in
      case siocgifxmedia rd if_name of
        Inl _ \<Rightarrow> Ret None
      | Inr (_, active) \<Rightarrow>
          (case if_bond_status_req_copy rd if_name of
             Inl _ \<Rightarrow> Ret None
           | Inr r \<Rightarrow>
               obind (ofold (\<lambda>i xs. obind (status_entry r i) (\<lambda>e.
                        case be_lookup env (ibs_if_name e) of
                          None \<Rightarrow> UB
                        | Some j \<Rightarrow> Ret (status_put env j (bond_member_state rd active e) xs)))
                        [0..<ibsr_total r] [])
                 (\<lambda>xs. Ret (Some \<lparr>bs_bond = b, bs_members = xs\<rparr>))))"

definition SCBondStatusEqual :: "bond_env \<Rightarrow> bond_status \<Rightarrow> bond_status \<Rightarrow> bool" where
  "SCBondStatusEqual env s1 s2 \<longleftrightarrow>
     SCNetworkInterfaceEqual (be_names env) (bs_bond s1) (bs_bond s2) \<and>
     length (bs_members s1) = length (bs_members s2) \<and>
     (\<forall>(i, m) \<in> set (bs_members s1). \<exists>(j, n) \<in> set (bs_members s2). cfset_contains env [j] i \<and> m = n)"

definition SCBondStatusGetMemberInterfaces :: "bond_status \<Rightarrow> scnif list" where
  "SCBondStatusGetMemberInterfaces s = map fst (bs_members s)"

text \<open>No interface asks for the status of the bond itself, which is an empty dictionary.\<close>

definition SCBondStatusGetInterfaceStatus :: "bond_env \<Rightarrow> bond_status \<Rightarrow> scnif option \<Rightarrow> member_status option option" where
  "SCBondStatusGetInterfaceStatus env s i =
     (case i of
        None \<Rightarrow> Some None
      | Some i \<Rightarrow> map_option (\<lambda>x. Some (snd x)) (find (\<lambda>(j, _). cfset_contains env [j] i) (bs_members s)))"

section \<open>Changing the kernel\<close>

text \<open>The ioctl calls on a kernel state; \<open>None\<close> is -1. \<open>bk_socket\<close> says whether sockets open.\<close>

record 'k bond_kern =
  bk_socket :: bool
  bk_create :: "'k \<Rightarrow> string \<Rightarrow> 'k option"
  bk_destroy :: "'k \<Rightarrow> string \<Rightarrow> 'k option"
  bk_set_mode :: "'k \<Rightarrow> string \<Rightarrow> int \<Rightarrow> 'k option"
  bk_add :: "'k \<Rightarrow> string \<Rightarrow> string \<Rightarrow> 'k option"
  bk_remove :: "'k \<Rightarrow> string \<Rightarrow> string \<Rightarrow> 'k option"

definition ioctl_result :: "'k \<Rightarrow> 'k option \<Rightarrow> bool \<times> 'k" where
  "ioctl_result k r = (case r of None \<Rightarrow> (False, k) | Some k' \<Rightarrow> (True, k'))"

definition createInterface :: "'k bond_kern \<Rightarrow> 'k \<Rightarrow> string \<Rightarrow> bool \<times> 'k" where
  "createInterface K k interface = ioctl_result k (bk_create K k interface)"

definition destroyInterface :: "'k bond_kern \<Rightarrow> 'k \<Rightarrow> string \<Rightarrow> bool \<times> 'k" where
  "destroyInterface K k interface = ioctl_result k (bk_destroy K k interface)"

definition bond_set_mode :: "'k bond_kern \<Rightarrow> 'k \<Rightarrow> string \<Rightarrow> int option \<Rightarrow> bool \<times> 'k" where
  "bond_set_mode K k bond_if mode =
     ioctl_result k (bk_set_mode K k bond_if (case mode of None \<Rightarrow> IF_BOND_MODE_LACP | Some m \<Rightarrow> m))"

definition bond_add_interface :: "'k bond_kern \<Rightarrow> 'k \<Rightarrow> string \<Rightarrow> string \<Rightarrow> bool \<times> 'k" where
  "bond_add_interface K k bond_if interface_if = ioctl_result k (bk_add K k bond_if interface_if)"

definition bond_remove_interface :: "'k bond_kern \<Rightarrow> 'k \<Rightarrow> string \<Rightarrow> string \<Rightarrow> bool \<times> 'k" where
  "bond_remove_interface K k bond_if interface_if = ioctl_result k (bk_remove K k bond_if interface_if)"

end
