(* ===== verification/BondUpdate.thy ===== *)
theory BondUpdate
  imports BondKernel
begin

text \<open>
  \<open>_SCBondInterfaceUpdateConfiguration\<close>: bringing the bonds of the kernel in line with the
  configured ones, in two passes, as the code makes them.
\<close>

section \<open>Operations\<close>

record 'k bond_run =
  br_ok :: bool
  br_sock :: bool
  br_k :: 'k

text \<open>\<open>Inl\<close> is the jump to \<open>done\<close>, \<open>Inr\<close> goes on.\<close>

fun sfold :: "('a \<Rightarrow> 's \<Rightarrow> 's + 's) \<Rightarrow> 'a list \<Rightarrow> 's \<Rightarrow> 's + 's" where
  "sfold f [] s = Inr s"
| "sfold f (x # xs) s = (case f x s of Inl t \<Rightarrow> Inl t | Inr t \<Rightarrow> sfold f xs t)"

definition sbind :: "'s + 's \<Rightarrow> ('s \<Rightarrow> 's + 's) \<Rightarrow> 's + 's" where
  "sbind m f = (case m of Inl t \<Rightarrow> Inl t | Inr t \<Rightarrow> f t)"

definition bond_open :: "'k bond_kern \<Rightarrow> 'k bond_run \<Rightarrow> 'k bond_run + 'k bond_run" where
  "bond_open K st =
     (if br_sock st then Inr st
      else if bk_socket K then Inr (st\<lparr>br_sock := True\<rparr>) else Inl (st\<lparr>br_ok := False\<rparr>))"

text \<open>A call whose failure is remembered, and one whose result is ignored.\<close>

definition bond_call :: "('k \<Rightarrow> bool \<times> 'k) \<Rightarrow> 'k bond_run \<Rightarrow> 'k bond_run" where
  "bond_call f st = (case f (br_k st) of (ok, k) \<Rightarrow> st\<lparr>br_ok := (br_ok st \<and> ok), br_k := k\<rparr>)"

definition bond_call_ignored :: "('k \<Rightarrow> bool \<times> 'k) \<Rightarrow> 'k bond_run \<Rightarrow> 'k bond_run" where
  "bond_call_ignored f st = (case f (br_k st) of (_, k) \<Rightarrow> st\<lparr>br_k := k\<rparr>)"

definition bsd_of :: "bond_env \<Rightarrow> scnif \<Rightarrow> string" where
  "bsd_of env i = (case be_bsd_name env i of Some n \<Rightarrow> n | None \<Rightarrow> '''')"

definition members_of :: "scnif \<Rightarrow> scnif list" where
  "members_of b = (case SCBondInterfaceGetMemberInterfaces b of None \<Rightarrow> [] | Some l \<Rightarrow> l)"

text \<open>First pass, one active bond: members that are no longer configured go, or the whole bond.\<close>

definition bond_drop_member ::
    "bond_env \<Rightarrow> 'k bond_kern \<Rightarrow> string \<Rightarrow> scnif list \<Rightarrow> scnif \<Rightarrow> 'k bond_run \<Rightarrow> 'k bond_run + 'k bond_run" where
  "bond_drop_member env K a_if c_members a st =
     (if c_members = [] \<or> \<not> array_contains env c_members a
      then sbind (bond_open K st) (\<lambda>st. Inr (bond_call (\<lambda>k. bond_remove_interface K k a_if (bsd_of env a)) st))
      else Inr st)"

definition bond_pass1 ::
    "bond_env \<Rightarrow> 'k bond_kern \<Rightarrow> scnif list \<Rightarrow> scnif \<Rightarrow> 'k bond_run \<Rightarrow> 'k bond_run + 'k bond_run" where
  "bond_pass1 env K config a_bond st =
     (case find (\<lambda>c. bsd_of env a_bond = bsd_of env c) config of
        Some c_bond \<Rightarrow>
          sfold (bond_drop_member env K (bsd_of env a_bond) (members_of c_bond)) (members_of a_bond) st
      | None \<Rightarrow>
          sbind (bond_open K st) (\<lambda>st. Inr (bond_call (\<lambda>k. destroyInterface K k (bsd_of env a_bond)) st)))"

text \<open>Second pass: the parts for a bond that exists and for a new one.\<close>

definition bond_remove_kept ::
    "bond_env \<Rightarrow> 'k bond_kern \<Rightarrow> string \<Rightarrow> scnif list \<Rightarrow> scnif \<Rightarrow> 'k bond_run \<Rightarrow> 'k bond_run" where
  "bond_remove_kept env K a_if c_members a st =
     (if \<not> array_contains env c_members a then st
      else bond_call (\<lambda>k. bond_remove_interface K k a_if (bsd_of env a)) st)"

definition bond_add_member ::
    "bond_env \<Rightarrow> 'k bond_kern \<Rightarrow> string \<Rightarrow> scnif list \<Rightarrow> scnif \<Rightarrow> 'k bond_run \<Rightarrow> 'k bond_run" where
  "bond_add_member env K c_if a_members c st =
     (if a_members \<noteq> [] \<and> array_contains env a_members c then st
      else if \<not> ni_supportsBond (ni c) then st
      else bond_call (\<lambda>k. bond_add_interface K k c_if (bsd_of env c)) st)"

definition bond_update_existing ::
    "bond_env \<Rightarrow> 'k bond_kern \<Rightarrow> scnif \<Rightarrow> scnif \<Rightarrow> 'k bond_run \<Rightarrow> 'k bond_run + 'k bond_run" where
  "bond_update_existing env K c_bond a_bond st =
     (let c_members = members_of c_bond; a_members = members_of a_bond;
          a_if = bsd_of env a_bond; c_if = bsd_of env c_bond;
          mode_change = (SCBondInterfaceGetMode a_bond \<noteq> SCBondInterfaceGetMode c_bond);
          if_list_change = (\<not> opt_equal (list_all2 (SCNetworkInterfaceEqual (be_names env)))
             (SCBondInterfaceGetMemberInterfaces c_bond) (SCBondInterfaceGetMemberInterfaces a_bond))
      in if \<not> mode_change \<and> \<not> if_list_change then Inr st
         else sbind (bond_open K st) (\<lambda>st.
           let st1 = (if mode_change
                      then bond_call_ignored (\<lambda>k. bond_set_mode K k a_if (SCBondInterfaceGetMode c_bond)) st else st)
           in if \<not> if_list_change then Inr st1
              else let reorder = (c_members \<noteq> [] \<and> a_members \<noteq> [] \<and>
                         \<not> SCNetworkInterfaceEqual (be_names env) (hd c_members) (hd a_members));
                       st2 = (if reorder then fold (bond_remove_kept env K a_if c_members) a_members st1 else st1);
                       present = (if reorder then [] else a_members)
                   in Inr (fold (bond_add_member env K c_if present) c_members st2)))"

definition bond_update_new ::
    "bond_env \<Rightarrow> 'k bond_kern \<Rightarrow> scnif \<Rightarrow> 'k bond_run \<Rightarrow> 'k bond_run + 'k bond_run" where
  "bond_update_new env K c_bond st =
     sbind (bond_open K st) (\<lambda>st.
       case createInterface K (br_k st) (bsd_of env c_bond) of
         (False, k) \<Rightarrow> Inr (st\<lparr>br_ok := False, br_k := k\<rparr>)
       | (True, k) \<Rightarrow>
           Inr (fold (bond_add_member env K (bsd_of env c_bond) []) (members_of c_bond)
                  (bond_call_ignored (\<lambda>k. bond_set_mode K k (bsd_of env c_bond) (SCBondInterfaceGetMode c_bond))
                     (st\<lparr>br_k := k\<rparr>))))"

definition bond_pass2 ::
    "bond_env \<Rightarrow> 'k bond_kern \<Rightarrow> scnif list \<Rightarrow> scnif \<Rightarrow> 'k bond_run \<Rightarrow> 'k bond_run + 'k bond_run" where
  "bond_pass2 env K active c_bond st =
     (case find (\<lambda>a. bsd_of env c_bond = bsd_of env a) active of
        Some a_bond \<Rightarrow> bond_update_existing env K c_bond a_bond st
      | None \<Rightarrow> bond_update_new env K c_bond st)"

definition bond_reconcile ::
    "bond_env \<Rightarrow> 'k bond_kern \<Rightarrow> scnif list \<Rightarrow> scnif list \<Rightarrow> 'k \<Rightarrow> bool \<times> 'k" where
  "bond_reconcile env K config active k =
     (case sbind (sfold (bond_pass1 env K config) active \<lparr>br_ok = True, br_sock = False, br_k = k\<rparr>)
                 (sfold (bond_pass2 env K active) config) of
        Inl st \<Rightarrow> (br_ok st, br_k st) | Inr st \<Rightarrow> (br_ok st, br_k st))"

text \<open>No preferences is an invalid argument; active bonds that cannot be read count as none.\<close>

definition SCBondInterfaceUpdateConfiguration ::
    "bond_env \<Rightarrow> 'p path_ops \<Rightarrow> bond_read \<Rightarrow> 'k bond_kern \<Rightarrow> ('p \<times> nat) option \<Rightarrow> 'k \<Rightarrow> (bool \<times> 'k) outcome" where
  "SCBondInterfaceUpdateConfiguration env ops rd K prefs k =
     (case prefs of
        None \<Rightarrow> Ret (False, k)
      | Some (s, link) \<Rightarrow>
          obind (SCBondInterfaceCopyAll env ops s link) (\<lambda>config.
          obind (SCBondInterfaceCopyActive env rd) (\<lambda>active.
            Ret (bond_reconcile env K config (case active of None \<Rightarrow> [] | Some l \<Rightarrow> l) k))))"

end
