(* ===== verification/BondProps.thy ===== *)
theory BondProps
  imports BondUpdate NetInterfaceProps
begin

unbundle bit_operations_syntax

text \<open>
  What holds of bonds and their stored configuration: storing and reading back, creation under
  a free name, the checks on members, status requests and the LACP status.
\<close>

section \<open>The stored configuration\<close>

lemma bond_path_apart: "bond_path d \<noteq> bond_path e \<Longrightarrow> path_apart (bond_path d) (bond_path e)"
  by (auto simp: bond_path_def path_apart_def prefix_def)

lemma bond_path_inj [simp]: "bond_path d = bond_path e \<longleftrightarrow> d = e"
  by (simp add: bond_path_def)

context path_store
begin

lemma bond_store_updated:
  assumes "bond_store_update ops s b f = (True, st, s')" "ni_prefs (ni b) \<noteq> None"
  shows "\<exists>d. path_get ops s (bond_path (bond_device b)) = Some (CFDictionary d) \<and>
      path_get ops s' (bond_path (bond_device b)) = Some (CFDictionary (f d))"
    and "path_apart (bond_path (bond_device b)) q \<Longrightarrow> path_get ops s' q = path_get ops s q"
  using assms get_set get_set_apart
  by (auto simp: bond_store_update_def cf_simps split: option.splits if_splits)

lemma bond_store_failed:
  "bond_store_update ops s b f = (False, st, s') \<Longrightarrow> s' = s"
  by (auto simp: bond_store_update_def split: option.splits if_splits)

end

lemma store_update_unlinked [simp]:
  "ni_prefs (ni b) = None \<Longrightarrow> bond_store_update ops s b f = (True, kSCStatusOK, s)"
  by (simp add: bond_store_update_def)

lemma create_private_frame [simp]:
  "ni_prefs (ni (SCBondInterfaceCreatePrivate pf d)) = None"
  "ni_entity_device (ni (SCBondInterfaceCreatePrivate pf d)) = Some d"
  "ni_interface_type (ni (SCBondInterfaceCreatePrivate pf d)) = kSCNetworkInterfaceTypeBond"
  "ni_bond (SCBondInterfaceCreatePrivate pf d) = Some []"
  "isA_SCBondInterface (SCBondInterfaceCreatePrivate pf d)"
  "bond_device (SCBondInterfaceCreatePrivate pf d) = d"
  by (simp_all add: SCBondInterfaceCreatePrivate_def virtual_fields_def SCNetworkInterfaceCreatePrivate_def
      isA_SCBondInterface_def bond_device_def)

lemma bond_set_members_unlinked:
  "ni_prefs (ni b) = None \<Longrightarrow> ni_bond b \<noteq> None \<Longrightarrow> bond_set_members env ops s b m =
    Ret (True, kSCStatusOK, s, set_bond_interfaces
      (Some (map (\<lambda>i. SCNetworkInterfaceCreateCopy i None (ni_serviceID (ni b))) (case m of None \<Rightarrow> [] | Some l \<Rightarrow> l))) b)"
  by (simp add: bond_set_members_def Let_def)

lemma isA_bond_cong [simp]:
  "isA_SCBondInterface (set_bond_interfaces m b) = isA_SCBondInterface b"
  "isA_SCBondInterface (upd_ni (\<lambda>a. a\<lparr>ni_localized_name := x\<rparr>) b) = isA_SCBondInterface b"
  "isA_SCBondInterface (upd_ni (\<lambda>a. a\<lparr>ni_bond_options := y\<rparr>) b) = isA_SCBondInterface b"
  "isA_SCBondInterface (upd_ni (\<lambda>a. a\<lparr>ni_bond_mode := z\<rparr>) b) = isA_SCBondInterface b"
  "isA_SCBondInterface (upd_ni (\<lambda>a. a\<lparr>ni_prefs := w\<rparr>) b) = isA_SCBondInterface b"
  by (simp_all add: isA_SCBondInterface_def)

text \<open>A stored entry of the right type is always read into a bond that mirrors it.\<close>

definition stored_mode :: "dict \<Rightarrow> int" where
  "stored_mode d = (case isA_CFNumber (fmlookup d kSCPropVirtualNetworkInterfacesBondMode) of
     None \<Rightarrow> IF_BOND_MODE_LACP | Some m \<Rightarrow> m)"

lemma bond_device_upd [simp]:
  "bond_device (set_bond_interfaces m b) = bond_device b"
  "bond_device (upd_ni (\<lambda>a. a\<lparr>ni_localized_name := x\<rparr>) b) = bond_device b"
  "bond_device (upd_ni (\<lambda>a. a\<lparr>ni_bond_options := y\<rparr>) b) = bond_device b"
  "bond_device (upd_ni (\<lambda>a. a\<lparr>ni_bond_mode := z\<rparr>) b) = bond_device b"
  "bond_device (upd_ni (\<lambda>a. a\<lparr>ni_prefs := w\<rparr>) b) = bond_device b"
  by (simp_all add: bond_device_def)

lemma set_name_unlinked:
  "isA_SCBondInterface b \<Longrightarrow> ni_prefs (ni b) = None \<Longrightarrow> isA_CFString n = Some v \<Longrightarrow>
   snd (snd (snd (SCBondInterfaceSetLocalizedDisplayName ops s b n))) =
     upd_ni (\<lambda>a. a\<lparr>ni_localized_name := Some v\<rparr>) b"
  by (simp add: SCBondInterfaceSetLocalizedDisplayName_def)

lemma set_options_unlinked:
  "isA_SCBondInterface b \<Longrightarrow> ni_prefs (ni b) = None \<Longrightarrow> isA_CFDictionary n = Some v \<Longrightarrow>
   snd (snd (snd (SCBondInterfaceSetOptions ops s b n))) =
     upd_ni (\<lambda>a. a\<lparr>ni_bond_options := Some v\<rparr>) b"
  by (simp add: SCBondInterfaceSetOptions_def)

lemma set_mode_unlinked:
  "ni_prefs (ni b) = None \<Longrightarrow> snd (snd (snd (bond_set_mode_value ops s b m))) =
     upd_ni (\<lambda>a. a\<lparr>ni_bond_mode := Some (case m of None \<Rightarrow> IF_BOND_MODE_LACP | Some m \<Rightarrow> m)\<rparr>) b"
  by (simp add: bond_set_mode_value_def Let_def)

lemma read_configured:
  "\<exists>b. add_configured_interface env ops s link dev (CFDictionary d) = Ret b \<and>
     isA_SCBondInterface b \<and> bond_device b = dev \<and> ni_prefs (ni b) = Some link \<and>
     ni_bond_mode (ni b) = Some (stored_mode d) \<and>
     ni_bond_options (ni b) = isA_CFDictionary (fmlookup d kSCPropVirtualNetworkInterfacesBondOptions) \<and>
     ni_localized_name (ni b) = isA_CFString (fmlookup d kSCPropUserDefinedName)"
proof -
  define b0 where "b0 = SCBondInterfaceCreatePrivate (be_platform env) dev"
  have b0: "isA_SCBondInterface b0" "bond_device b0 = dev" "ni_prefs (ni b0) = None"
    "ni_localized_name (ni b0) = None" "ni_bond_options (ni b0) = None" "ni_bond b0 \<noteq> None"
    by (simp_all add: b0_def) (simp_all add: SCBondInterfaceCreatePrivate_def virtual_fields_def
        SCNetworkInterfaceCreatePrivate_def)
  define names where "names = (case isA_CFArray (fmlookup d kSCPropVirtualNetworkInterfacesBondInterfaces) of
      None \<Rightarrow> [] | Some l \<Rightarrow> List.map_filter (\<lambda>m. isA_CFString (Some m)) l)"
  define members where "members = fold (add_interface env (\<not> be_default_prefs env \<and> be_companion env)) names None"
  define b1 where "b1 = (case members of None \<Rightarrow> b0 | Some ms \<Rightarrow> set_bond_interfaces
      (Some (map (\<lambda>i. SCNetworkInterfaceCreateCopy i None (ni_serviceID (ni b0))) ms)) b0)"
  have b1: "isA_SCBondInterface b1" "bond_device b1 = dev" "ni_prefs (ni b1) = None"
    "ni_localized_name (ni b1) = None" "ni_bond_options (ni b1) = None"
    using b0 by (simp_all add: b1_def split: option.split)
  have r1: "(case members of None \<Rightarrow> Ret b0
      | Some ms \<Rightarrow> obind (bond_set_members env ops s b0 (Some ms)) (\<lambda>(_, _, _, b). Ret b)) = Ret b1"
    using b0(3,6) by (simp add: b1_def bond_set_members_unlinked split: option.split)
  let ?n = "fmlookup d kSCPropUserDefinedName"
  define b2 where "b2 = (case isA_CFString ?n of None \<Rightarrow> b1
      | Some _ \<Rightarrow> snd (snd (snd (SCBondInterfaceSetLocalizedDisplayName ops s b1 ?n))))"
  have b2: "isA_SCBondInterface b2" "bond_device b2 = dev" "ni_prefs (ni b2) = None"
    "ni_localized_name (ni b2) = isA_CFString ?n" "ni_bond_options (ni b2) = None"
    using b1 by (cases "isA_CFString ?n"; simp add: b2_def set_name_unlinked)+
  let ?o = "fmlookup d kSCPropVirtualNetworkInterfacesBondOptions"
  define b3 where "b3 = (case isA_CFDictionary ?o of None \<Rightarrow> b2
      | Some _ \<Rightarrow> snd (snd (snd (SCBondInterfaceSetOptions ops s b2 ?o))))"
  have b3: "isA_SCBondInterface b3" "bond_device b3 = dev" "ni_prefs (ni b3) = None"
    "ni_localized_name (ni b3) = isA_CFString ?n" "ni_bond_options (ni b3) = isA_CFDictionary ?o"
    using b2 by (cases "isA_CFDictionary ?o"; simp add: b3_def set_options_unlinked)+
  let ?m = "isA_CFNumber (fmlookup d kSCPropVirtualNetworkInterfacesBondMode)"
  have r: "add_configured_interface env ops s link dev (CFDictionary d) =
      Ret (upd_ni (\<lambda>a. a\<lparr>ni_prefs := Some link\<rparr>) (snd (snd (snd (bond_set_mode_value ops s b3 ?m)))))"
    using r1 unfolding add_configured_interface_def Let_def b0_def[symmetric] b3_def b2_def members_def names_def
    by (simp add: cf_simps)
  show ?thesis
    unfolding r set_mode_unlinked[OF b3(3)] using b3 by (simp add: stored_mode_def)
qed

section \<open>Setting and reading back\<close>

lemma linked_update:
  assumes "path_store ops" "bond_store_update ops s b f = (True, st, s')" "ni_prefs (ni b) = Some link"
  shows "\<exists>d. path_get ops s (bond_path (bond_device b)) = Some (CFDictionary d) \<and>
      path_get ops s' (bond_path (bond_device b)) = Some (CFDictionary (f d))"
    and "e \<noteq> bond_device b \<Longrightarrow> path_get ops s' (bond_path e) = path_get ops s (bond_path e)"
  using assms path_store.bond_store_updated[OF assms(1,2)] bond_path_apart[of "bond_device b" e] by auto

lemma set_mode_linked:
  assumes "SCBondInterfaceSetMode ops s b v = (True, st, s', b')"
  shows "\<exists>m. v = Some (CFNumber m) \<and> b' = upd_ni (\<lambda>a. a\<lparr>ni_bond_mode := Some m\<rparr>) b \<and> isA_SCBondInterface b \<and>
    bond_store_update ops s b (dict_put kSCPropVirtualNetworkInterfacesBondMode v) = (True, st, s')"
  using assms
  by (auto simp: SCBondInterfaceSetMode_def bond_set_mode_value_def Let_def cf_simps
      split: option.splits if_splits prod.splits)

lemma set_options_linked:
  assumes "SCBondInterfaceSetOptions ops s b v = (True, st, s', b')"
  shows "b' = upd_ni (\<lambda>a. a\<lparr>ni_bond_options := isA_CFDictionary v\<rparr>) b \<and>
    bond_store_update ops s b (dict_put kSCPropVirtualNetworkInterfacesBondOptions v) = (True, st, s')"
  using assms by (auto simp: SCBondInterfaceSetOptions_def split: if_splits prod.splits)

lemma set_name_linked:
  assumes "SCBondInterfaceSetLocalizedDisplayName ops s b v = (True, st, s', b')"
  shows "b' = upd_ni (\<lambda>a. a\<lparr>ni_localized_name := isA_CFString v\<rparr>) b \<and>
    bond_store_update ops s b (dict_put kSCPropUserDefinedName v) = (True, st, s')"
  using assms by (auto simp: SCBondInterfaceSetLocalizedDisplayName_def split: if_splits prod.splits)

lemma dict_put_lookup [simp]:
  "fmlookup (dict_put k v d) j = (if j = k then v else fmlookup d j)"
  by (cases v) (simp_all add: dict_put_def)

text \<open>
  C6. What the public setters of a bond store is what reading the bond back finds. After
  \<open>SCBondInterfaceSetMode\<close>, \<open>SCBondInterfaceSetOptions\<close> and
  \<open>SCBondInterfaceSetLocalizedDisplayName\<close> succeeded on a bond that is linked to preferences,
  \<open>add_configured_interface\<close> on the stored entry gives a linked bond on the same device with
  exactly that mode, those options and that name (none, where NULL was set), and the entries
  of all other bonds are what they were.
\<close>

theorem SCBondInterface_settings_roundtrip:
  assumes "path_store ops" "ni_prefs (ni b) = Some link"
    "SCBondInterfaceSetMode ops s b mode = (True, st1, s1, b1)"
    "SCBondInterfaceSetOptions ops s1 b1 opts = (True, st2, s2, b2)"
    "SCBondInterfaceSetLocalizedDisplayName ops s2 b2 nm = (True, st3, s3, b3)"
  shows "\<exists>v c. path_get ops s3 (bond_path (bond_device b)) = Some v \<and>
      add_configured_interface env ops s3 link (bond_device b) v = Ret c \<and>
      bond_device c = bond_device b \<and> ni_prefs (ni c) = Some link \<and>
      SCBondInterfaceGetMode c = isA_CFNumber mode \<and> isA_CFNumber mode \<noteq> None \<and>
      SCBondInterfaceGetOptions c = isA_CFDictionary opts \<and>
      ni_localized_name (ni c) = isA_CFString nm \<and>
      (\<forall>e. e \<noteq> bond_device b \<longrightarrow> path_get ops s3 (bond_path e) = path_get ops s (bond_path e))"
proof -
  from set_mode_linked[OF assms(3)] obtain m where m: "mode = Some (CFNumber m)"
    "b1 = upd_ni (\<lambda>a. a\<lparr>ni_bond_mode := Some m\<rparr>) b"
    "bond_store_update ops s b (dict_put kSCPropVirtualNetworkInterfacesBondMode mode) = (True, st1, s1)" by blast
  from set_options_linked[OF assms(4)] have o: "b2 = upd_ni (\<lambda>a. a\<lparr>ni_bond_options := isA_CFDictionary opts\<rparr>) b1"
    "bond_store_update ops s1 b1 (dict_put kSCPropVirtualNetworkInterfacesBondOptions opts) = (True, st2, s2)" by blast+
  from set_name_linked[OF assms(5)] have n:
    "bond_store_update ops s2 b2 (dict_put kSCPropUserDefinedName nm) = (True, st3, s3)" by blast
  have dev: "bond_device b1 = bond_device b" "bond_device b2 = bond_device b" by (simp_all add: m o)
  have link: "ni_prefs (ni b1) = Some link" "ni_prefs (ni b2) = Some link" by (simp_all add: m o assms(2))
  note u1 = linked_update[OF assms(1) m(3) assms(2)]
  note u2 = linked_update[OF assms(1) o(2) link(1), unfolded dev]
  note u3 = linked_update[OF assms(1) n link(2), unfolded dev]
  from u1(1) u2(1) u3(1) obtain d0 d1 where d:
    "path_get ops s3 (bond_path (bond_device b)) = Some (CFDictionary d1)"
    "d1 = dict_put kSCPropUserDefinedName nm (dict_put kSCPropVirtualNetworkInterfacesBondOptions opts
       (dict_put kSCPropVirtualNetworkInterfacesBondMode mode d0))" by auto
  obtain c where c: "add_configured_interface env ops s3 link (bond_device b) (CFDictionary d1) = Ret c"
    "isA_SCBondInterface c" "bond_device c = bond_device b" "ni_prefs (ni c) = Some link"
    "ni_bond_mode (ni c) = Some (stored_mode d1)"
    "ni_bond_options (ni c) = isA_CFDictionary (fmlookup d1 kSCPropVirtualNetworkInterfacesBondOptions)"
    "ni_localized_name (ni c) = isA_CFString (fmlookup d1 kSCPropUserDefinedName)"
    using read_configured[of env ops s3 link "bond_device b" d1] by blast
  have "stored_mode d1 = m" "fmlookup d1 kSCPropVirtualNetworkInterfacesBondOptions = opts"
    "fmlookup d1 kSCPropUserDefinedName = nm"
    by (simp_all add: stored_mode_def d(2) bond_key_defs m)
  moreover have "\<forall>e. e \<noteq> bond_device b \<longrightarrow> path_get ops s3 (bond_path e) = path_get ops s (bond_path e)"
    using u1(2) u2(2) u3(2) by simp
  ultimately show ?thesis
    using d(1) c m(1) by (simp add: SCBondInterfaceGetMode_def SCBondInterfaceGetOptions_def)
qed

text \<open>On the tree a change to a stored bond always succeeds.\<close>

lemma tree_update_ok:
  assumes "path_get tree_ops s (bond_path (bond_device b)) = Some (CFDictionary d)"
  shows "\<exists>s'. bond_store_update tree_ops s b f = (True, kSCStatusOK, s') \<and>
    (ni_prefs (ni b) \<noteq> None \<longrightarrow> path_get tree_ops s' (bond_path (bond_device b)) = Some (CFDictionary (f d)))"
proof -
  obtain e where "s = CFDictionary e"
    using assms by (cases s) (simp_all add: tree_ops_def bond_path_def bonds_path_def)
  moreover have "bond_path (bond_device b) \<noteq> []" by (simp add: bond_path_def)
  ultimately show ?thesis
    using assms by (simp add: bond_store_update_def tree_ops_def tree_get_set)
qed

definition sample_store :: plist where
  "sample_store = tree_set (Some (CFDictionary fmempty)) (bond_path ''bond0'')
     (CFDictionary (fmupd kSCPropVirtualNetworkInterfacesBondInterfaces (CFArray []) fmempty))"

definition sample_bond :: scnif where
  "sample_bond = upd_ni (\<lambda>a. a\<lparr>ni_prefs := Some 7\<rparr>)
     (SCBondInterfaceCreatePrivate \<lparr>ip_ifaddrs = None, ip_cstring = Some, ip_ifindex = (\<lambda>_. 0), ip_hwassist = (\<lambda>_. None)\<rparr> ''bond0'')"

lemma sample_bond_simps [simp]:
  "ni_prefs (ni sample_bond) = Some 7" "bond_device sample_bond = ''bond0''" "isA_SCBondInterface sample_bond"
  by (simp_all add: sample_bond_def)

lemma sample_store_get:
  "path_get tree_ops sample_store (bond_path ''bond0'') =
     Some (CFDictionary (fmupd kSCPropVirtualNetworkInterfacesBondInterfaces (CFArray []) fmempty))"
  by (simp add: sample_store_def tree_ops_def tree_get_set)

lemma sample_settings:
  "\<exists>s1 s2 s3 b1 b2 b3.
     SCBondInterfaceSetMode tree_ops sample_store sample_bond (Some (CFNumber 1)) = (True, kSCStatusOK, s1, b1) \<and>
     SCBondInterfaceSetOptions tree_ops s1 b1 None = (True, kSCStatusOK, s2, b2) \<and>
     SCBondInterfaceSetLocalizedDisplayName tree_ops s2 b2 (Some (CFString ''Uplink'')) = (True, kSCStatusOK, s3, b3)"
proof -
  define b1 where "b1 = upd_ni (\<lambda>a. a\<lparr>ni_bond_mode := Some 1\<rparr>) sample_bond"
  define b2 where "b2 = upd_ni (\<lambda>a. a\<lparr>ni_bond_options := None\<rparr>) b1"
  have b: "ni_prefs (ni b1) \<noteq> None" "bond_device b1 = ''bond0''" "isA_SCBondInterface b1"
    "ni_prefs (ni b2) \<noteq> None" "bond_device b2 = ''bond0''" "isA_SCBondInterface b2"
    by (simp_all add: b1_def b2_def)
  obtain s1 d1 where s1: "bond_store_update tree_ops sample_store sample_bond
      (dict_put kSCPropVirtualNetworkInterfacesBondMode (Some (CFNumber 1))) = (True, kSCStatusOK, s1)"
    "path_get tree_ops s1 (bond_path ''bond0'') = Some (CFDictionary d1)"
    using tree_update_ok[of sample_store sample_bond] sample_store_get by fastforce
  obtain s2 d2 where s2: "bond_store_update tree_ops s1 b1
      (dict_put kSCPropVirtualNetworkInterfacesBondOptions None) = (True, kSCStatusOK, s2)"
    "path_get tree_ops s2 (bond_path ''bond0'') = Some (CFDictionary d2)"
    using tree_update_ok[of s1 b1] s1(2) b by fastforce
  obtain s3 where s3: "bond_store_update tree_ops s2 b2
      (dict_put kSCPropUserDefinedName (Some (CFString ''Uplink''))) = (True, kSCStatusOK, s3)"
    using tree_update_ok[of s2 b2] s2(2) b by fastforce
  have "SCBondInterfaceSetMode tree_ops sample_store sample_bond (Some (CFNumber 1)) = (True, kSCStatusOK, s1, b1)"
    using s1 by (simp add: SCBondInterfaceSetMode_def bond_set_mode_value_def b1_def fits_int_def IF_BOND_MODE_STATIC_def)
  moreover have "SCBondInterfaceSetOptions tree_ops s1 b1 None = (True, kSCStatusOK, s2, b2)"
    using s2 b by (simp add: SCBondInterfaceSetOptions_def b2_def)
  moreover have "\<exists>b3. SCBondInterfaceSetLocalizedDisplayName tree_ops s2 b2 (Some (CFString ''Uplink'')) =
      (True, kSCStatusOK, s3, b3)"
    using s3 b by (simp add: SCBondInterfaceSetLocalizedDisplayName_def)
  ultimately show ?thesis by blast
qed

lemma SCBondInterface_settings_roundtrip_witness:
  "\<forall>env. \<exists>s3 v c. path_get tree_ops s3 (bond_path ''bond0'') = Some v \<and>
     add_configured_interface env tree_ops s3 7 ''bond0'' v = Ret c \<and>
     SCBondInterfaceGetMode c = Some 1 \<and> SCBondInterfaceGetOptions c = None \<and>
     ni_localized_name (ni c) = Some ''Uplink''"
proof
  fix env
  obtain s1 s2 s3 b1 b2 b3 where
    "SCBondInterfaceSetMode tree_ops sample_store sample_bond (Some (CFNumber 1)) = (True, kSCStatusOK, s1, b1)"
    "SCBondInterfaceSetOptions tree_ops s1 b1 None = (True, kSCStatusOK, s2, b2)"
    "SCBondInterfaceSetLocalizedDisplayName tree_ops s2 b2 (Some (CFString ''Uplink'')) = (True, kSCStatusOK, s3, b3)"
    using sample_settings by blast
  note SCBondInterface_settings_roundtrip[OF tree.path_store_axioms _ this, of 7 env]
  then show "\<exists>s3 v c. path_get tree_ops s3 (bond_path ''bond0'') = Some v \<and>
     add_configured_interface env tree_ops s3 7 ''bond0'' v = Ret c \<and>
     SCBondInterfaceGetMode c = Some 1 \<and> SCBondInterfaceGetOptions c = None \<and>
     ni_localized_name (ni c) = Some ''Uplink''"
    by auto
qed

section \<open>Creating a bond\<close>

lemma bond_name_inj [simp]: "bond_name i = bond_name j \<longleftrightarrow> i = j"
  by (simp add: bond_name_def)

definition bond_used :: "'p path_ops \<Rightarrow> 'p \<Rightarrow> nat \<Rightarrow> bool" where
  "bond_used ops s i \<longleftrightarrow> path_get ops s (bond_path (bond_name i)) \<noteq> None"

definition empty_bond :: plist where
  "empty_bond = CFDictionary (fmupd kSCPropVirtualNetworkInterfacesBondInterfaces (CFArray []) fmempty)"

definition new_bond :: "bond_env \<Rightarrow> nat \<Rightarrow> nat \<Rightarrow> scnif" where
  "new_bond env link i =
     upd_ni (\<lambda>a. a\<lparr>ni_prefs := Some link\<rparr>) (SCBondInterfaceCreatePrivate (be_platform env) (bond_name i))"

lemma create_loop_used:
  "\<forall>j. i \<le> j \<and> j < n \<longrightarrow> bond_used ops s j \<Longrightarrow> i \<le> n \<Longrightarrow>
   bond_create_loop env ops s link i (n - i + fuel) = bond_create_loop env ops s link n fuel"
proof (induction "n - i" arbitrary: i)
  case (Suc m)
  then have "i < n" by simp
  then obtain k where k: "n - i + fuel = Suc k" "k = n - Suc i + fuel" by simp
  have "bond_used ops s i" using Suc.prems \<open>i < n\<close> by simp
  moreover have "bond_create_loop env ops s link (Suc i) (n - Suc i + fuel) = bond_create_loop env ops s link n fuel"
    using Suc \<open>i < n\<close> by simp
  ultimately show ?case by (simp add: k bond_used_def)
qed simp

lemma create_loop_free:
  "\<not> bond_used ops s n \<Longrightarrow> path_set ops s (bond_path (bond_name n)) empty_bond = Some s' \<Longrightarrow>
   bond_create_loop env ops s link n (Suc fuel) = Some (Some (new_bond env link n), s')"
  by (simp add: bond_used_def empty_bond_def new_bond_def)

lemma first_unused:
  assumes "finite {i. bond_used ops s i}" "card {i. bond_used ops s i} \<le> c"
  shows "\<exists>n \<le> c. \<not> bond_used ops s n \<and> (\<forall>j < n. bond_used ops s j)"
proof -
  have "\<exists>n \<le> c. \<not> bond_used ops s n"
  proof (rule ccontr)
    assume "\<not> ?thesis"
    then have "{..c} \<subseteq> {i. bond_used ops s i}" by auto
    then have "card {..c} \<le> card {i. bond_used ops s i}" by (rule card_mono[OF assms(1)])
    then show False using assms(2) by simp
  qed
  then obtain n0 where "n0 \<le> c" "\<not> bond_used ops s n0" by blast
  then show ?thesis
    using LeastI[of "\<lambda>i. \<not> bond_used ops s i" n0] Least_le[of "\<lambda>i. \<not> bond_used ops s i" n0]
      not_less_Least[of _ "\<lambda>i. \<not> bond_used ops s i"] by (metis le_trans)
qed

text \<open>
  C38. \<open>SCBondInterfaceCreate\<close> ends and takes the smallest free index. When at most \<open>c\<close> of the
  names \<open>bond0\<close>, \<open>bond1\<close>, ... are stored and the store accepts new values, \<open>c + 1\<close> rounds
  of the search are enough; the result is a linked bond without members on the first name that is not
  taken, its entry is stored as an empty bond and no other bond changes.
\<close>

theorem SCBondInterfaceCreate_first_free:
  assumes "path_store ops" "finite {i. bond_used ops s i}" "card {i. bond_used ops s i} \<le> c"
    "\<And>p v. p \<noteq> [] \<Longrightarrow> path_set ops s p v \<noteq> None" "fuel > c"
  shows "\<exists>n s' b. n \<le> c \<and> (\<forall>j < n. bond_used ops s j) \<and> \<not> bond_used ops s n \<and>
      SCBondInterfaceCreate env ops fuel (Some (s, link)) = Some (Some b, Some s') \<and>
      bond_device b = bond_name n \<and> ni_prefs (ni b) = Some link \<and> SCBondInterfaceGetMemberInterfaces b = Some [] \<and>
      path_get ops s' (bond_path (bond_name n)) = Some empty_bond \<and>
      (\<forall>e. e \<noteq> bond_name n \<longrightarrow> path_get ops s' (bond_path e) = path_get ops s (bond_path e))"
proof -
  obtain n where n: "n \<le> c" "\<not> bond_used ops s n" "\<forall>j < n. bond_used ops s j"
    using first_unused[OF assms(2,3)] by blast
  have "bond_path (bond_name n) \<noteq> []" by (simp add: bond_path_def)
  with assms(4) obtain s' where s': "path_set ops s (bond_path (bond_name n)) empty_bond = Some s'" by blast
  obtain f where f: "fuel = n + Suc f" using n(1) assms(5) by (metis add_Suc_right le_less_trans less_iff_Suc_add)
  have "bond_create_loop env ops s link 0 fuel = bond_create_loop env ops s link n (Suc f)"
    using create_loop_used[of 0 n ops s env link "Suc f"] n(3) by (simp add: f)
  with create_loop_free[OF n(2) s'] have run:
    "SCBondInterfaceCreate env ops fuel (Some (s, link)) = Some (Some (new_bond env link n), Some s')"
    by (simp add: SCBondInterfaceCreate_def)
  have frame: "path_get ops s' (bond_path e) = path_get ops s (bond_path e)" if "e \<noteq> bond_name n" for e
    using path_store.get_set_apart[OF assms(1) s'] bond_path_apart[of "bond_name n" e] that by auto
  have "bond_device (new_bond env link n) = bond_name n" "ni_prefs (ni (new_bond env link n)) = Some link"
    "SCBondInterfaceGetMemberInterfaces (new_bond env link n) = Some []"
    by (simp_all add: new_bond_def SCBondInterfaceGetMemberInterfaces_def)
  with n run frame path_store.get_set[OF assms(1) s'] show ?thesis by blast
qed

lemma sample_used: "{i. bond_used tree_ops sample_store i} = {0}"
proof -
  have "decimal 0 = ''0''" by code_simp
  then have "bond_name 0 = ''bond0''" by (simp add: bond_name_def)
  moreover have "tree_get (Some sample_store) (bond_path (bond_name i)) = None" if "bond_name i \<noteq> ''bond0''" for i
    using that by (simp add: sample_store_def bond_path_def bonds_path_def Let_def)
  ultimately have "bond_used tree_ops sample_store i \<longleftrightarrow> i = 0" for i
    using sample_store_get bond_name_inj[of i 0]
    by (cases "bond_name i = ''bond0''") (auto simp: bond_used_def tree_ops_def)
  then show ?thesis by auto
qed

lemma SCBondInterfaceCreate_first_free_witness:
  "\<forall>env. \<exists>b s'. SCBondInterfaceCreate env tree_ops 2 (Some (sample_store, 7)) = Some (Some b, Some s') \<and>
     bond_device b = bond_name 1"
proof
  fix env
  have "path_set tree_ops sample_store p v \<noteq> None" if "p \<noteq> []" for p v
    using that by (simp add: tree_ops_def sample_store_def bond_path_def bonds_path_def Let_def)
  from SCBondInterfaceCreate_first_free[OF tree.path_store_axioms _ _ this, of 1 2 env 7] sample_used
  obtain n s' b where "n \<le> 1" "\<not> bond_used tree_ops sample_store n" "bond_device b = bond_name n"
    "SCBondInterfaceCreate env tree_ops 2 (Some (sample_store, 7)) = Some (Some b, Some s')"
    by fastforce
  moreover from this have "n = 1" using sample_used by (cases n) auto
  ultimately show "\<exists>b s'. SCBondInterfaceCreate env tree_ops 2 (Some (sample_store, 7)) = Some (Some b, Some s') \<and>
     bond_device b = bond_name 1" by blast
qed

section \<open>Reading all bonds\<close>

definition is_dict :: "plist \<Rightarrow> bool" where
  "is_dict v \<longleftrightarrow> isA_CFDictionary (Some v) \<noteq> None"

lemma is_dict_iff: "is_dict v \<longleftrightarrow> (\<exists>d. v = CFDictionary d)"
  by (cases v) (simp_all add: is_dict_def)

definition mirrors :: "nat \<Rightarrow> string \<times> plist \<Rightarrow> scnif \<Rightarrow> bool" where
  "mirrors link e b \<longleftrightarrow> isA_SCBondInterface b \<and> bond_device b = fst e \<and> ni_prefs (ni b) = Some link \<and>
     (\<exists>d. snd e = CFDictionary d \<and> SCBondInterfaceGetMode b = Some (stored_mode d))"

lemma copy_all_fold:
  "(\<forall>e \<in> set es. is_dict (snd e)) \<Longrightarrow>
   \<exists>bs. ofold (\<lambda>(k, v) bonds. obind (add_configured_interface env ops s link k v) (\<lambda>b. Ret (bonds @ [b]))) es acc
     = Ret (acc @ bs) \<and> list_all2 (mirrors link) es bs"
proof (induction es arbitrary: acc)
  case (Cons e es)
  obtain k d where e: "e = (k, CFDictionary d)" using Cons.prems is_dict_iff by (cases e) auto
  obtain b where b: "add_configured_interface env ops s link k (CFDictionary d) = Ret b" "mirrors link e b"
    using read_configured[of env ops s link k d] by (auto simp: mirrors_def e SCBondInterfaceGetMode_def)
  obtain bs where "ofold (\<lambda>(k, v) bonds. obind (add_configured_interface env ops s link k v) (\<lambda>b. Ret (bonds @ [b]))) es
      (acc @ [b]) = Ret ((acc @ [b]) @ bs)" "list_all2 (mirrors link) es bs"
    using Cons by (metis list.set_intros(2))
  with b show ?case by (intro exI[of _ "b # bs"]) (simp add: e)
qed simp

lemma copy_all_fold_UB:
  "\<exists>e \<in> set es. \<not> is_dict (snd e) \<Longrightarrow>
   ofold (\<lambda>(k, v) bonds. obind (add_configured_interface env ops s link k v) (\<lambda>b. Ret (bonds @ [b]))) es acc = UB"
proof (induction es arbitrary: acc)
  case (Cons e es)
  show ?case
  proof (cases "is_dict (snd e)")
    case True
    then obtain d where "snd e = CFDictionary d" using is_dict_iff by blast
    then obtain k where e: "e = (k, CFDictionary d)" by (cases e) simp
    obtain b where "add_configured_interface env ops s link k (CFDictionary d) = Ret b"
      using read_configured[of env ops s link k d] by blast
    with Cons True show ?thesis by (auto simp: e)
  next
    case False
    then show ?thesis by (cases e) (simp add: add_configured_interface_def is_dict_def)
  qed
qed simp

text \<open>
  Reading the configured bonds. When every stored entry is a dictionary,
  \<open>SCBondInterfaceCopyAll\<close> returns one bond for each, in the order of the names, linked to the
  preferences and with the stored mode (LACP where none is stored). One entry of any other type
  makes the read undefined: \<open>add_configured_interface\<close> uses the value as a dictionary
  without looking at its type.
\<close>

theorem SCBondInterfaceCopyAll_entries:
  assumes "path_get ops s bonds_path = Some (CFDictionary d)"
  shows "if \<forall>e \<in> set (dict_entries d). is_dict (snd e)
    then \<exists>bs. SCBondInterfaceCopyAll env ops s link = Ret bs \<and> list_all2 (mirrors link) (dict_entries d) bs
    else SCBondInterfaceCopyAll env ops s link = UB"
  using assms copy_all_fold[of "dict_entries d" env ops s link "[]"]
    copy_all_fold_UB[of "dict_entries d" env ops s link "[]"]
  by (auto simp: SCBondInterfaceCopyAll_def)

lemma SCBondInterfaceCopyAll_entries_witness:
  "\<forall>env. SCBondInterfaceCopyAll env tree_ops
     (tree_set (Some (CFDictionary fmempty)) bonds_path (CFDictionary (fmupd ''bond0'' (CFString ''x'') fmempty))) 7 = UB"
proof
  fix env
  show "SCBondInterfaceCopyAll env tree_ops
     (tree_set (Some (CFDictionary fmempty)) bonds_path (CFDictionary (fmupd ''bond0'' (CFString ''x'') fmempty))) 7 = UB"
    using SCBondInterfaceCopyAll_entries[of tree_ops
        "tree_set (Some (CFDictionary fmempty)) bonds_path (CFDictionary (fmupd ''bond0'' (CFString ''x'') fmempty))"
        "fmupd ''bond0'' (CFString ''x'') fmempty" env 7]
    by (simp add: tree_ops_def tree_get_set dict_entries_def is_dict_def sorted_list_of_fset.rep_eq split: if_splits)
qed

section \<open>Changing the members\<close>

definition member_allowed :: "bond_env \<Rightarrow> scnif list option \<Rightarrow> scnif list \<Rightarrow> scnif \<Rightarrow> bool" where
  "member_allowed env current available m \<longleftrightarrow>
     (\<exists>c. current = Some c \<and> array_contains env c m) \<or>
     (array_contains env available m \<and>
      \<not> SCNetworkServiceExistsForInterface (be_names env) (SCNetworkServiceCopyAllEnabled (be_enabled env) (be_sets env)) m)"

lemma check_members_ok:
  "bond_check_members env current available ms = kSCStatusOK \<longleftrightarrow> (\<forall>m \<in> set ms. member_allowed env current available m)"
proof (induction ms)
  case (Cons m ms)
  have "bond_member_status env current available m = kSCStatusOK \<longleftrightarrow> member_allowed env current available m"
    by (auto simp: bond_member_status_def member_allowed_def split: option.splits)
  with Cons show ?case by (cases "bond_member_status env current available m") auto
qed simp

lemma set_members_result:
  "bond_set_members env ops s b members = Ret (ok, st, s', b') \<Longrightarrow>
   (\<not> ok \<longrightarrow> s' = s \<and> b' = b) \<and>
   (ok \<longrightarrow> b' = set_bond_interfaces (Some (map (\<lambda>m. SCNetworkInterfaceCreateCopy m (ni_prefs (ni b)) (ni_serviceID (ni b)))
      (case members of None \<Rightarrow> [] | Some l \<Rightarrow> l))) b)"
  by (auto simp: bond_set_members_def Let_def bond_store_update_def split: if_splits option.splits)

text \<open>
  C37. The guard of \<open>SCBondInterfaceSetMemberInterfaces\<close> on a linked bond. Success means that
  every requested interface is already a member, or is available to bonds and has no enabled
  network service of its own; then the members are exactly copies of the requested interfaces,
  in order, attached to the bond's preferences. Failure changes neither the preferences nor the bond,
  and the statuses of a refusal mean that some requested interface was not allowed.
\<close>

theorem SCBondInterfaceSetMemberInterfaces_guard:
  assumes "SCBondInterfaceSetMemberInterfaces env ops s b (Some ms) = Ret (ok, st, s', b')"
    "isA_SCBondInterface b" "ni_prefs (ni b) = Some link"
    "SCBondInterfaceCopyAvailableMemberInterfaces env ops s link = Ret available"
  shows "(ok \<longrightarrow> (\<forall>m \<in> set ms. member_allowed env (SCBondInterfaceGetMemberInterfaces b) available m) \<and>
      SCBondInterfaceGetMemberInterfaces b' =
        Some (map (\<lambda>m. SCNetworkInterfaceCreateCopy m (Some link) (ni_serviceID (ni b))) ms)) \<and>
    (\<not> ok \<longrightarrow> s' = s \<and> b' = b) \<and>
    (st \<in> {kSCStatusKeyExists, kSCStatusInvalidArgument} \<longrightarrow>
      (\<exists>m \<in> set ms. \<not> member_allowed env (SCBondInterfaceGetMemberInterfaces b) available m))"
proof -
  let ?c = "SCBondInterfaceGetMemberInterfaces b"
  let ?st = "bond_check_members env ?c available ms"
  have bonds: "SCBondInterfaceGetMemberInterfaces (set_bond_interfaces x b) = x" for x
    using assms(2) by (cases b) (simp add: SCBondInterfaceGetMemberInterfaces_def isA_SCBondInterface_def)
  have run: "(if ?st \<noteq> kSCStatusOK then Ret (False, ?st, s, b) else bond_set_members env ops s b (Some ms))
      = Ret (ok, st, s', b')"
    using assms by (simp add: SCBondInterfaceSetMemberInterfaces_def)
  show ?thesis
  proof (cases "?st = kSCStatusOK")
    case True
    with run have r: "bond_set_members env ops s b (Some ms) = Ret (ok, st, s', b')" by simp
    have "st \<notin> {kSCStatusKeyExists, kSCStatusInvalidArgument}"
      using r by (auto simp: bond_set_members_def Let_def bond_store_update_def split: if_splits option.splits)
    with True check_members_ok[of env ?c available ms] set_members_result[OF r] show ?thesis
      by (auto simp: bonds assms(3))
  next
    case False
    with run check_members_ok[of env ?c available ms] show ?thesis by auto
  qed
qed

definition sample_env :: bond_env where
  "sample_env = \<lparr>be_platform = \<lparr>ip_ifaddrs = None, ip_cstring = Some, ip_ifindex = (\<lambda>_. 0), ip_hwassist = (\<lambda>_. None)\<rparr>,
     be_names = \<lparr>ne_bundle = False, ne_string = (\<lambda>_ _. None), ne_format = (\<lambda>f _ _. f), ne_entity = (\<lambda>_ _. None)\<rparr>,
     be_hash = size, be_default_prefs = False, be_companion = False,
     be_ni_lookup = (\<lambda>_. None), be_lookup = (\<lambda>n. Some (SCNetworkInterfaceCreatePrivate None None (Some n))),
     be_bridge_members = [], be_vlan_physical = [], be_io_interfaces = None, be_enabled = (\<lambda>_. True), be_sets = None,
     be_bsd_name = (\<lambda>i. ni_entity_device (ni i))\<rparr>"

definition sample_member :: scnif where
  "sample_member = upd_ni (\<lambda>a. a\<lparr>ni_entity_device := Some ''en0'', ni_supportsBond := True\<rparr>)
     (SCNetworkInterfaceCreatePrivate None None None)"

lemma SCBondInterfaceSetMemberInterfaces_guard_witness:
  "\<exists>s' b' available. SCBondInterfaceSetMemberInterfaces sample_env tree_ops sample_store
       (set_bond_interfaces (Some [sample_member]) sample_bond) (Some [sample_member]) = Ret (True, kSCStatusOK, s', b') \<and>
     member_allowed sample_env (Some [sample_member]) available sample_member"
proof -
  let ?b = "set_bond_interfaces (Some [sample_member]) sample_bond"
  have entries: "path_get tree_ops sample_store bonds_path = Some (CFDictionary (fmupd ''bond0'' empty_bond fmempty))"
    by (simp add: tree_ops_def sample_store_def bond_path_def bonds_path_def empty_bond_def Let_def)
  obtain c where "add_configured_interface sample_env tree_ops sample_store 7 ''bond0'' empty_bond = Ret c"
    using read_configured[of sample_env tree_ops sample_store 7 "''bond0''"] by (auto simp: empty_bond_def)
  then have "SCBondInterfaceCopyAll sample_env tree_ops sample_store 7 = Ret [c]"
    by (simp add: SCBondInterfaceCopyAll_def entries dict_entries_def sorted_list_of_fset.rep_eq)
  then obtain available where av:
    "SCBondInterfaceCopyAvailableMemberInterfaces sample_env tree_ops sample_store 7 = Ret available"
    by (simp add: SCBondInterfaceCopyAvailableMemberInterfaces_def)
  have cur: "SCBondInterfaceGetMemberInterfaces ?b = Some [sample_member]"
    by (simp add: SCBondInterfaceGetMemberInterfaces_def)
  have names: "member_names sample_env [sample_member] = Ret [''en0'']"
    by (simp add: member_names_def sample_env_def sample_member_def)
  obtain s' where "bond_store_update tree_ops sample_store ?b
      (dict_put kSCPropVirtualNetworkInterfacesBondInterfaces (Some (CFArray [CFString ''en0'']))) = (True, kSCStatusOK, s')"
    using tree_update_ok[of sample_store ?b] sample_store_get by fastforce
  then obtain b' where "bond_set_members sample_env tree_ops sample_store ?b (Some [sample_member]) = Ret (True, kSCStatusOK, s', b')"
    by (simp add: bond_set_members_def names sample_store_get)
  moreover have "bond_check_members sample_env (Some [sample_member]) available [sample_member] = kSCStatusOK"
    unfolding check_members_ok by (simp add: member_allowed_def array_contains_def equal_refl)
  ultimately have run: "SCBondInterfaceSetMemberInterfaces sample_env tree_ops sample_store ?b (Some [sample_member]) =
      Ret (True, kSCStatusOK, s', b')"
    by (simp add: SCBondInterfaceSetMemberInterfaces_def av cur del: bond_check_members.simps)
  have "member_allowed sample_env (Some [sample_member]) available sample_member"
    using SCBondInterfaceSetMemberInterfaces_guard[OF run _ _ av] by (simp add: cur)
  with run show ?thesis by blast
qed

section \<open>Status requests\<close>

lemma status_entry_Ret:
  "status_entry r i = Ret e \<longleftrightarrow> i < length (ibsr_buffer r) \<and> ibsr_buffer r ! i = Some e"
  by (auto simp: status_entry_def split: option.split)

lemma ofold_UB: "i \<in> set xs \<Longrightarrow> (\<And>s. f i s = UB) \<Longrightarrow> ofold f xs s = UB"
proof (induction xs arbitrary: s)
  case (Cons x xs)
  then show ?case by (cases "f x s") auto
qed simp

lemma ofold_safe: "(\<And>i s. i \<in> set xs \<Longrightarrow> f i s \<noteq> UB) \<Longrightarrow> ofold f xs s \<noteq> UB"
proof (induction xs arbitrary: s)
  case (Cons x xs)
  then obtain t where "f x s = Ret t" by (metis list.set_intros(1) outcome.exhaust)
  with Cons show ?case by simp
qed simp

lemma active_members_overrun:
  "length (ibsr_buffer r) < ibsr_total r \<Longrightarrow> bond_active_members env r = UB"
  unfolding bond_active_members_def
  by (rule ofold_UB[of "length (ibsr_buffer r)"]) (auto simp: status_entry_def)

lemma active_members_safe:
  assumes "\<forall>i < ibsr_total r. \<exists>e. status_entry r i = Ret e"
  shows "bond_active_members env r \<noteq> UB"
  unfolding bond_active_members_def using assms by (intro ofold_safe) auto

text \<open>
  The two answers of the kernel agree: the second reports no more members than the first, and
  fills as many entries as it reports.
\<close>

definition answers_agree :: "bond_read \<Rightarrow> string \<Rightarrow> bool" where
  "answers_agree rd n = (case (rd_status1 rd n, rd_status2 rd n) of
     (Inr a1, Inr a2) \<Rightarrow> ba_total a2 \<le> ba_total a1 \<and> ba_total a2 \<le> length (ba_entries a2) | _ \<Rightarrow> True)"

definition bond_grew :: "bond_read \<Rightarrow> string \<Rightarrow> bool" where
  "bond_grew rd n = (case (rd_status1 rd n, rd_status2 rd n) of
     (Inr a1, Inr a2) \<Rightarrow> 0 < ba_total a1 \<and> ba_total a1 < ba_total a2 | _ \<Rightarrow> False)"

lemma request_safe:
  assumes "answers_agree rd n" "if_bond_status_req_copy rd n = Inr r"
  shows "\<forall>i < ibsr_total r. \<exists>e. status_entry r i = Ret e"
  using assms
  by (auto simp: answers_agree_def if_bond_status_req_copy_def status_entry_Ret nth_append split: sum.splits if_splits)

lemma request_overrun:
  assumes "bond_grew rd n" "rd_malloc rd"
  obtains r where "if_bond_status_req_copy rd n = Inr r" "length (ibsr_buffer r) < ibsr_total r"
  using assms by (auto simp: bond_grew_def if_bond_status_req_copy_def split: sum.splits)

lemma active_one_unlinked:
  "bond_set_members env ops s (snd (snd (snd (bond_set_mode_value ops s (SCBondInterfaceCreatePrivate pf d) m)))) ms \<noteq> UB"
  by (simp add: set_mode_unlinked bond_set_members_unlinked)

lemma active_one_safe:
  assumes "answers_agree rd n" shows "bond_copy_active_one env rd n acc \<noteq> UB"
proof (cases "if_bond_status_req_copy rd n")
  case (Inr r)
  obtain ms where ms: "bond_active_members env r = Ret ms"
    using active_members_safe[OF request_safe[OF assms Inr]] by (cases "bond_active_members env r") auto
  show ?thesis
    by (cases ms; cases acc) (simp_all add: bond_copy_active_one_def Inr ms set_mode_unlinked bond_set_members_unlinked)
qed (simp add: bond_copy_active_one_def split: option.split)

text \<open>
  Reading the active bonds asks the kernel twice, and trusts the second number of members
  with a buffer sized by the first. When the answers agree for every aggregate,
  \<open>SCBondInterfaceCopyActive\<close> has a defined result; when one aggregate gained a member
  between the two calls and nothing failed before it, the loop over the members reads past the buffer.
\<close>

theorem SCBondInterfaceCopyActive_race:
  assumes "rd_ifaddrs rd = Some ifap" "rd_socket rd = None" "rd_malloc rd"
  shows "((\<forall>n. (n, True) \<in> set ifap \<longrightarrow> answers_agree rd n) \<longrightarrow> SCBondInterfaceCopyActive env rd \<noteq> UB) \<and>
    (\<forall>n rest. ifap = (n, True) # rest \<and> bond_grew rd n \<longrightarrow> SCBondInterfaceCopyActive env rd = UB)"
proof (intro conjI allI impI)
  assume "\<forall>n. (n, True) \<in> set ifap \<longrightarrow> answers_agree rd n"
  then show "SCBondInterfaceCopyActive env rd \<noteq> UB"
    using assms ofold_safe[of "map fst (filter snd ifap)" "bond_copy_active_one env rd" "Some []"] active_one_safe
    by (fastforce simp: SCBondInterfaceCopyActive_def inet_dgram_socket_def)
next
  fix n rest
  assume first: "ifap = (n, True) # rest \<and> bond_grew rd n"
  obtain r where r: "if_bond_status_req_copy rd n = Inr r" "length (ibsr_buffer r) < ibsr_total r"
    using request_overrun[OF conjunct2[OF first] assms(3)] .
  then have "bond_copy_active_one env rd n (Some []) = UB"
    by (simp add: bond_copy_active_one_def active_members_overrun)
  then show "SCBondInterfaceCopyActive env rd = UB"
    using assms(1,2) first by (simp add: SCBondInterfaceCopyActive_def inet_dgram_socket_def)
qed

definition grown_read :: bond_read where
  "grown_read = \<lparr>rd_socket = None, rd_ifaddrs = Some [(''bond0'', True)],
     rd_status1 = (\<lambda>_. Inr \<lparr>ba_total = 1, ba_mode = 0, ba_entries = []\<rparr>),
     rd_status2 = (\<lambda>_. Inr \<lparr>ba_total = 2, ba_mode = 0, ba_entries =
        [\<lparr>ibs_if_name = ''en0'', ibs_state = 0x3d, ibs_partner_state = 0x3d, ibs_partner_system_priority = 1,
          ibs_partner_system = replicate 6 1\<rparr>]\<rparr>),
     rd_malloc = True, rd_media = (\<lambda>_. Inr \<lparr>ma_count = 1, ma_status = 3, ma_active = 0x00100020\<rparr>)\<rparr>"

lemma SCBondInterfaceCopyActive_race_witness:
  "SCBondInterfaceCopyActive sample_env grown_read = UB \<and>
   SCBondInterfaceCopyActive sample_env
     (grown_read\<lparr>rd_status1 := \<lambda>_. Inr \<lparr>ba_total = 2, ba_mode = 0, ba_entries = []\<rparr>,
                 rd_status2 := \<lambda>_. Inr \<lparr>ba_total = 1, ba_mode = 0, ba_entries = ba_entries
                    (projr (rd_status2 grown_read ''bond0''))\<rparr>\<rparr>) \<noteq> UB"
  using SCBondInterfaceCopyActive_race[of grown_read "[(''bond0'', True)]" sample_env]
    SCBondInterfaceCopyActive_race[of "grown_read\<lparr>rd_status1 := \<lambda>_. Inr \<lparr>ba_total = 2, ba_mode = 0, ba_entries = []\<rparr>,
        rd_status2 := \<lambda>_. Inr \<lparr>ba_total = 1, ba_mode = 0, ba_entries = ba_entries
          (projr (rd_status2 grown_read ''bond0''))\<rparr>\<rparr>" "[(''bond0'', True)]" sample_env]
  by (simp add: grown_read_def bond_grew_def answers_agree_def)

section \<open>LACP status\<close>

text \<open>
  The LACP part of \<open>SCBondInterfaceCopyStatus\<close>. A member is shown as collecting or
  distributing only with status OK and when both ends are in sync; collecting at one end is
  distributing at the other, so exchanging the two states exchanges the two flags. A member
  that is out of sync is never OK; it is in the inactive group only with an active full-duplex link of
  the same media as the bond and a known partner.
\<close>

theorem bond_member_state_lacp:
  "((ms_collecting (bond_member_state rd active e) \<or> ms_distributing (bond_member_state rd active e)) \<longrightarrow>
      ms_aggregation (bond_member_state rd active e) = kSCBondStatusOK \<and>
      lacp_in_sync (ibs_state e) \<and> lacp_in_sync (ibs_partner_state e)) \<and>
   (lacp_in_sync (ibs_state e) \<and> lacp_in_sync (ibs_partner_state e) \<longrightarrow>
      ms_collecting (bond_member_state rd active e) =
      ms_distributing (bond_member_state rd active
        (e\<lparr>ibs_state := ibs_partner_state e, ibs_partner_state := ibs_state e\<rparr>))) \<and>
   (ms_aggregation (bond_member_state rd active e) = kSCBondStatusOK \<longleftrightarrow> lacp_in_sync (ibs_state e)) \<and>
   (ms_aggregation (bond_member_state rd active e) = kSCBondStatusNotInActiveGroup \<longrightarrow>
      (\<exists>status. siocgifxmedia rd (ibs_if_name e) = Inr (status, active) \<and> status AND IFM_ACTIVE \<noteq> 0 \<and>
         active AND IFM_FDX \<noteq> 0 \<and>
         (ibs_partner_system_priority e \<noteq> 0 \<or> ibs_partner_system e \<noteq> replicate 6 0)))"
  by (auto simp: bond_member_state_def Let_def split: sum.splits prod.splits if_splits)

lemma bond_member_state_lacp_witness:
  "ms_collecting (bond_member_state grown_read 0 (hd (ba_entries (projr (rd_status2 grown_read ''bond0''))))) \<and>
   ms_aggregation (bond_member_state grown_read 0 (hd (ba_entries (projr (rd_status2 grown_read ''bond0''))))) = kSCBondStatusOK"
proof -
  let ?e = "hd (ba_entries (projr (rd_status2 grown_read ''bond0'')))"
  have "ms_collecting (bond_member_state grown_read 0 ?e)"
    by (simp add: bond_member_state_def grown_read_def lacp_in_sync_def lacp_collecting_def lacp_distributing_def)
  with bond_member_state_lacp[of grown_read 0 ?e] show ?thesis by blast
qed

end
