(* ===== verification/BondConverge.thy ===== *)
theory BondConverge
  imports BondProps
begin

text \<open>
  What \<open>_SCBondInterfaceUpdateConfiguration\<close> is for: with a kernel that does what it is asked,
  the two passes leave exactly the configured bonds. The kernel is seen through a map from the
  names of its bonds to their mode and members.
\<close>

section \<open>The kernel that the code relies on\<close>

type_synonym bond_view = "string \<Rightarrow> (int \<times> string list) option"

definition member_free :: "bond_view \<Rightarrow> string \<Rightarrow> bool" where
  "member_free V i \<longleftrightarrow> (\<forall>n m l. V n = Some (m, l) \<longrightarrow> i \<notin> set l)"

text \<open>
  The ioctl calls as documented: a bond can be created under a free name, an interface
  can join a bond when it is in none, and every call on something that is there succeeds.
\<close>

locale bond_kernel =
  fixes K :: "'k bond_kern" and view :: "'k \<Rightarrow> bond_view"
  assumes opens: "bk_socket K"
    and creates: "view k n = None \<Longrightarrow> \<exists>k'. bk_create K k n = Some k' \<and> view k' = (view k)(n \<mapsto> (0, []))"
    and destroys: "view k n \<noteq> None \<Longrightarrow> \<exists>k'. bk_destroy K k n = Some k' \<and> view k' = (view k)(n := None)"
    and sets_mode:
      "view k n = Some (m, l) \<Longrightarrow> \<exists>k'. bk_set_mode K k n m' = Some k' \<and> view k' = (view k)(n \<mapsto> (m', l))"
    and adds: "view k n = Some (m, l) \<Longrightarrow> member_free (view k) i \<Longrightarrow>
      \<exists>k'. bk_add K k n i = Some k' \<and> view k' = (view k)(n \<mapsto> (m, l @ [i]))"
    and removes: "view k n = Some (m, l) \<Longrightarrow> i \<in> set l \<Longrightarrow>
      \<exists>k'. bk_remove K k n i = Some k' \<and> view k' = (view k)(n \<mapsto> (m, removeAll i l))"

text \<open>A kernel as a list of bonds: name, mode and members.\<close>

type_synonym bond_table = "(string \<times> int \<times> string list) list"

definition table_put :: "string \<Rightarrow> int \<times> string list \<Rightarrow> bond_table \<Rightarrow> bond_table" where
  "table_put n v k = (n, v) # filter (\<lambda>e. fst e \<noteq> n) k"

definition table_drop :: "string \<Rightarrow> bond_table \<Rightarrow> bond_table" where
  "table_drop n k = filter (\<lambda>e. fst e \<noteq> n) k"

definition table_kern :: "bond_table bond_kern" where
  "table_kern = \<lparr>bk_socket = True,
     bk_create = (\<lambda>k n. if map_of k n = None then Some (table_put n (0, []) k) else None),
     bk_destroy = (\<lambda>k n. if map_of k n = None then None else Some (table_drop n k)),
     bk_set_mode = (\<lambda>k n m. case map_of k n of None \<Rightarrow> None | Some (_, l) \<Rightarrow> Some (table_put n (m, l) k)),
     bk_add = (\<lambda>k n i. case map_of k n of
        None \<Rightarrow> None
      | Some (m, l) \<Rightarrow> if \<exists>e \<in> set k. map_of k (fst e) = Some (snd e) \<and> i \<in> set (snd (snd e)) then None
                      else Some (table_put n (m, l @ [i]) k)),
     bk_remove = (\<lambda>k n i. case map_of k n of
        None \<Rightarrow> None
      | Some (m, l) \<Rightarrow> if i \<in> set l then Some (table_put n (m, removeAll i l) k) else None)\<rparr>"

lemma map_of_drop_at: "map_of (table_drop n k) x = (if x = n then None else map_of k x)"
  by (induction k) (auto simp: table_drop_def)

lemma map_of_drop [simp]: "map_of (table_drop n k) = (map_of k)(n := None)"
  by (rule ext) (simp add: map_of_drop_at)

lemma map_of_put [simp]: "map_of (table_put n v k) = (map_of k)(n \<mapsto> v)"
  using map_of_drop_at[of n k] by (intro ext) (simp add: table_put_def table_drop_def)

lemma table_free: "member_free (map_of k) i \<Longrightarrow>
   \<not> (\<exists>e \<in> set k. map_of k (fst e) = Some (snd e) \<and> i \<in> set (snd (snd e)))"
  by (auto simp: member_free_def)

lemma table_add: "map_of k n = Some (m, l) \<Longrightarrow> member_free (map_of k) i \<Longrightarrow>
   bk_add table_kern k n i = Some (table_put n (m, l @ [i]) k)"
  using table_free[of k i] by (simp add: table_kern_def)

interpretation table: bond_kernel table_kern map_of
proof unfold_locales
  show "map_of k n = Some (m, l) \<Longrightarrow> member_free (map_of k) i \<Longrightarrow>
      \<exists>k'. bk_add table_kern k n i = Some k' \<and> map_of k' = (map_of k)(n \<mapsto> (m, l @ [i]))" for k n m l i
    by (simp add: table_add)
qed (auto simp: table_kern_def)

section \<open>Names of bonds and members\<close>

definition bnames :: "bond_env \<Rightarrow> scnif \<Rightarrow> string list" where
  "bnames env b = map (bsd_of env) (members_of b)"

text \<open>Interfaces are told apart by their BSD names.\<close>

definition same_device :: "bond_env \<Rightarrow> scnif set \<Rightarrow> bool" where
  "same_device env A \<longleftrightarrow>
     (\<forall>i \<in> A. \<forall>j \<in> A. SCNetworkInterfaceEqual (be_names env) i j \<longleftrightarrow> bsd_of env i = bsd_of env j)"

lemma contains_names:
  "same_device env A \<Longrightarrow> set xs \<subseteq> A \<Longrightarrow> i \<in> A \<Longrightarrow>
   array_contains env xs i \<longleftrightarrow> bsd_of env i \<in> set (map (bsd_of env) xs)"
  by (auto simp: same_device_def array_contains_def subset_iff)

lemma equal_lists_names:
  "list_all2 (SCNetworkInterfaceEqual (be_names env)) xs ys \<Longrightarrow> same_device env A \<Longrightarrow>
   set xs \<subseteq> A \<Longrightarrow> set ys \<subseteq> A \<Longrightarrow> map (bsd_of env) xs = map (bsd_of env) ys"
  by (induction rule: list_all2_induct) (auto simp: same_device_def)

definition kept :: "string list \<Rightarrow> string list \<Rightarrow> string list" where
  "kept cs as = filter (\<lambda>x. x \<in> set cs) as"

text \<open>The members of a bond are as configured: the same ones, the first one first.\<close>

definition placed :: "string list \<Rightarrow> string list \<Rightarrow> bool" where
  "placed cs l \<longleftrightarrow> set l = set cs \<and> distinct l \<and> (cs \<noteq> [] \<longrightarrow> hd l = hd cs)"

lemma placed_self: "distinct cs \<Longrightarrow> placed cs cs"
  by (simp add: placed_def)

lemma kept_self [simp]: "kept cs cs = cs"
  by (simp add: kept_def)

lemma kept_distinct: "distinct as \<Longrightarrow> distinct (kept cs as)"
  by (simp add: kept_def)

lemma set_kept [simp]: "set (kept cs as) = set as \<inter> set cs"
  by (auto simp: kept_def)

lemma placed_kept_append:
  assumes "cs \<noteq> [] \<Longrightarrow> as \<noteq> [] \<Longrightarrow> hd cs = hd as" "distinct cs" "distinct as"
  shows "placed cs (kept cs as @ filter (\<lambda>x. x \<notin> set as) cs)"
proof -
  have "hd (kept cs as @ filter (\<lambda>x. x \<notin> set as) cs) = hd cs" if "cs \<noteq> []"
    using that assms(1) by (cases as; cases cs) (simp_all add: kept_def)
  then show ?thesis using assms(2,3) by (auto simp: placed_def kept_def)
qed

text \<open>No bond but \<open>n\<close> has the interface.\<close>

definition elsewhere_free :: "bond_view \<Rightarrow> string \<Rightarrow> string \<Rightarrow> bool" where
  "elsewhere_free V n x \<longleftrightarrow> (\<forall>n' m l. n' \<noteq> n \<and> V n' = Some (m, l) \<longrightarrow> x \<notin> set l)"

lemma elsewhere_member_free:
  "elsewhere_free V n x \<Longrightarrow> x \<notin> set l \<Longrightarrow> member_free (V(n \<mapsto> (m, l))) x"
  by (auto simp: elsewhere_free_def member_free_def)

section \<open>What is given and what is wanted\<close>

text \<open>
  The bonds given to the update: every bond has a mode and members with different names, the
  configured members can be in a bond and are in one only, no two bonds of a list share a
  name, and interfaces are told apart by their names.
\<close>

definition bonds_wf :: "bond_env \<Rightarrow> scnif list \<Rightarrow> scnif list \<Rightarrow> bool" where
  "bonds_wf env config active \<longleftrightarrow>
     same_device env (\<Union>b \<in> set config \<union> set active. set (members_of b)) \<and>
     (\<forall>b \<in> set config \<union> set active. distinct (bnames env b) \<and> SCBondInterfaceGetMode b \<noteq> None) \<and>
     (\<forall>c \<in> set config. \<forall>m \<in> set (members_of c). ni_supportsBond (ni m)) \<and>
     distinct (map (bsd_of env) config) \<and> distinct (map (bsd_of env) active) \<and>
     (\<forall>c \<in> set config. \<forall>c' \<in> set config. bsd_of env c \<noteq> bsd_of env c' \<longrightarrow>
        set (bnames env c) \<inter> set (bnames env c') = {})"

lemma bonds_wfD:
  assumes "bonds_wf env config active"
  shows "same_device env (\<Union>b \<in> set config \<union> set active. set (members_of b))"
    and "b \<in> set config \<union> set active \<Longrightarrow> distinct (bnames env b)"
    and "b \<in> set config \<union> set active \<Longrightarrow> SCBondInterfaceGetMode b \<noteq> None"
    and "c \<in> set config \<Longrightarrow> \<forall>m \<in> set (members_of c). ni_supportsBond (ni m)"
    and "distinct (map (bsd_of env) config)" "distinct (map (bsd_of env) active)"
    and "c \<in> set config \<Longrightarrow> c' \<in> set config \<Longrightarrow> bsd_of env c \<noteq> bsd_of env c' \<Longrightarrow>
      set (bnames env c) \<inter> set (bnames env c') = {}"
  using assms unfolding bonds_wf_def by blast+

definition bond_state :: "bond_env \<Rightarrow> scnif \<Rightarrow> int \<times> string list" where
  "bond_state env b = (the (SCBondInterfaceGetMode b), bnames env b)"

text \<open>The kernel has the active bonds and no others.\<close>

definition active_view :: "bond_env \<Rightarrow> scnif list \<Rightarrow> bond_view" where
  "active_view env active n = map_option (bond_state env) (find (\<lambda>a. n = bsd_of env a) active)"

text \<open>A bond after the first pass.\<close>

definition after_pass1 :: "bond_env \<Rightarrow> scnif list \<Rightarrow> scnif \<Rightarrow> (int \<times> string list) option" where
  "after_pass1 env config a =
     map_option (\<lambda>c. (the (SCBondInterfaceGetMode a), kept (bnames env c) (bnames env a)))
       (find (\<lambda>c. bsd_of env a = bsd_of env c) config)"

lemma image_apart: "f a \<notin> f ` A \<Longrightarrow> x \<in> A \<Longrightarrow> f x \<noteq> f a"
  by (metis image_eqI)

lemma fold_upd_lookup:
  "distinct (map f as) \<Longrightarrow>
   fold (\<lambda>a V. V(f a := g a)) as V n = (case find (\<lambda>a. n = f a) as of None \<Rightarrow> V n | Some a \<Rightarrow> g a)"
proof (induction as arbitrary: V)
  case (Cons a as)
  have "find (\<lambda>b. f a = f b) as = None" using Cons.prems by (force simp: find_None_iff)
  with Cons show ?case by (auto split: option.split)
qed simp

lemma find_unique:
  "distinct (map f xs) \<Longrightarrow> x \<in> set xs \<Longrightarrow> find (\<lambda>y. f x = f y) xs = Some x"
  by (induction xs) (auto dest: image_apart)

text \<open>Every bond of the view is configured, with members of its own only.\<close>

definition within_config :: "bond_env \<Rightarrow> scnif list \<Rightarrow> bond_view \<Rightarrow> bool" where
  "within_config env config V \<longleftrightarrow>
     (\<forall>n m l. V n = Some (m, l) \<longrightarrow> (\<exists>c \<in> set config. n = bsd_of env c \<and> set l \<subseteq> set (bnames env c)))"

lemma within_config_free:
  assumes "within_config env config V" "bonds_wf env config active" "c \<in> set config" "x \<in> set (bnames env c)"
  shows "elsewhere_free V (bsd_of env c) x"
  unfolding elsewhere_free_def
proof (intro allI impI notI)
  fix n m l
  assume n: "n \<noteq> bsd_of env c \<and> V n = Some (m, l)" and x: "x \<in> set l"
  then obtain c' where "c' \<in> set config" "n = bsd_of env c'" "set l \<subseteq> set (bnames env c')"
    using assms(1) n unfolding within_config_def by blast
  moreover from this have "set (bnames env c) \<inter> set (bnames env c') = {}"
    using bonds_wfD(7)[OF assms(2,3), of c'] n by auto
  ultimately show False using assms(4) x by blast
qed

section \<open>One member at a time\<close>

context bond_kernel
begin

lemma opened: "\<exists>b. bond_open K st = Inr (st\<lparr>br_sock := b\<rparr>)"
  by (cases "br_sock st") (auto simp: bond_open_def opens intro: exI[of _ True])

lemma run_create:
  assumes "view (br_k st) n = None"
  shows "\<exists>k. createInterface K (br_k st) n = (True, k) \<and> view k = (view (br_k st))(n \<mapsto> (0, []))"
  using creates[OF assms] by (auto simp: createInterface_def ioctl_result_def)

lemma run_destroy:
  assumes "view (br_k st) n \<noteq> None"
  shows "br_ok (bond_call (\<lambda>k. destroyInterface K k n) st) = br_ok st \<and>
    view (br_k (bond_call (\<lambda>k. destroyInterface K k n) st)) = (view (br_k st))(n := None)"
  using destroys[OF assms] by (auto simp: bond_call_def destroyInterface_def ioctl_result_def)

lemma run_mode:
  assumes "view (br_k st) n = Some (m, l)"
  shows "br_ok (bond_call_ignored (\<lambda>k. bond_set_mode K k n (Some m')) st) = br_ok st \<and>
    view (br_k (bond_call_ignored (\<lambda>k. bond_set_mode K k n (Some m')) st)) = (view (br_k st))(n \<mapsto> (m', l))"
  using sets_mode[OF assms, of m'] by (auto simp: bond_call_ignored_def bond_set_mode_def ioctl_result_def)

lemma run_add:
  assumes "view (br_k st) n = Some (m, l)" "member_free (view (br_k st)) i"
  shows "br_ok (bond_call (\<lambda>k. bond_add_interface K k n i) st) = br_ok st \<and>
    view (br_k (bond_call (\<lambda>k. bond_add_interface K k n i) st)) = (view (br_k st))(n \<mapsto> (m, l @ [i]))"
  using adds[OF assms] by (auto simp: bond_call_def bond_add_interface_def ioctl_result_def)

lemma run_remove:
  assumes "view (br_k st) n = Some (m, l)" "i \<in> set l"
  shows "br_ok (bond_call (\<lambda>k. bond_remove_interface K k n i) st) = br_ok st \<and>
    view (br_k (bond_call (\<lambda>k. bond_remove_interface K k n i) st)) = (view (br_k st))(n \<mapsto> (m, removeAll i l))"
  using removes[OF assms] by (auto simp: bond_call_def bond_remove_interface_def ioctl_result_def)

lemma drop_fold:
  assumes "same_device env A" "set cs \<subseteq> A"
  shows "view (br_k st) n = Some (m, l) \<Longrightarrow> set as \<subseteq> A \<Longrightarrow> bsd_of env ` set as \<subseteq> set l \<Longrightarrow>
    distinct (map (bsd_of env) as) \<Longrightarrow>
    \<exists>st'. sfold (bond_drop_member env K n cs) as st = Inr st' \<and> br_ok st' = br_ok st \<and>
      view (br_k st') = (view (br_k st))(n \<mapsto>
        (m, filter (\<lambda>x. x \<in> bsd_of env ` set as \<longrightarrow> x \<in> bsd_of env ` set cs) l))"
proof (induction as arbitrary: st l)
  case (Cons a as)
  show ?case
  proof (cases "bsd_of env a \<in> bsd_of env ` set cs")
    case True
    then have same: "bond_drop_member env K n cs a st = Inr st"
      using contains_names[OF assms, of a] Cons.prems by (auto simp: bond_drop_member_def)
    have eq: "filter (\<lambda>x. x \<in> bsd_of env ` set (a # as) \<longrightarrow> x \<in> bsd_of env ` set cs) l =
        filter (\<lambda>x. x \<in> bsd_of env ` set as \<longrightarrow> x \<in> bsd_of env ` set cs) l"
      using True by (intro filter_cong) auto
    show ?thesis using Cons.IH[of st l] Cons.prems unfolding eq by (auto simp: same)
  next
    case False
    obtain b where b: "bond_open K st = Inr (st\<lparr>br_sock := b\<rparr>)" using opened by blast
    define st1 where "st1 = bond_call (\<lambda>k. bond_remove_interface K k n (bsd_of env a)) (st\<lparr>br_sock := b\<rparr>)"
    have st1: "br_ok st1 = br_ok st" "view (br_k st1) = (view (br_k st))(n \<mapsto> (m, removeAll (bsd_of env a) l))"
      using run_remove[of "st\<lparr>br_sock := b\<rparr>" n m l "bsd_of env a"] Cons.prems by (simp_all add: st1_def)
    have step: "bond_drop_member env K n cs a st = Inr st1"
      using contains_names[OF assms, of a] Cons.prems False by (simp add: bond_drop_member_def b sbind_def st1_def)
    have eq: "filter (\<lambda>x. x \<in> bsd_of env ` set (a # as) \<longrightarrow> x \<in> bsd_of env ` set cs) l =
        filter (\<lambda>x. x \<in> bsd_of env ` set as \<longrightarrow> x \<in> bsd_of env ` set cs) (removeAll (bsd_of env a) l)"
      using False by (auto simp: removeAll_filter_not_eq intro!: filter_cong)
    have "bsd_of env a \<notin> bsd_of env ` set as" "bsd_of env ` set as \<subseteq> set l" using Cons.prems by simp_all
    then have "bsd_of env ` set as \<subseteq> set (removeAll (bsd_of env a) l)" by (simp add: subset_Diff_insert)
    moreover have "view (br_k st1) n = Some (m, removeAll (bsd_of env a) l)" by (simp add: st1)
    moreover have "set as \<subseteq> A" "distinct (map (bsd_of env) as)" using Cons.prems(2,4) by simp_all
    ultimately obtain st' where st': "sfold (bond_drop_member env K n cs) as st1 = Inr st'" "br_ok st' = br_ok st1"
      "view (br_k st') = (view (br_k st1))(n \<mapsto>
         (m, filter (\<lambda>x. x \<in> bsd_of env ` set as \<longrightarrow> x \<in> bsd_of env ` set cs) (removeAll (bsd_of env a) l)))"
      using Cons.IH[of st1 "removeAll (bsd_of env a) l"] by blast
    have "sfold (bond_drop_member env K n cs) (a # as) st = Inr st'" by (simp add: step st'(1))
    then show ?thesis unfolding eq using st'(2,3) unfolding st1 fun_upd_upd by blast
  qed
qed (simp add: fun_upd_idem)

lemma add_fold:
  assumes "same_device env A" "set as \<subseteq> A"
  shows "view (br_k st) n = Some (m, l) \<Longrightarrow> set cs \<subseteq> A \<Longrightarrow> \<forall>c \<in> set cs. ni_supportsBond (ni c) \<Longrightarrow>
    distinct (map (bsd_of env) cs) \<Longrightarrow>
    \<forall>c \<in> set cs. bsd_of env c \<notin> bsd_of env ` set as \<longrightarrow> member_free (view (br_k st)) (bsd_of env c) \<Longrightarrow>
    br_ok (fold (bond_add_member env K n as) cs st) = br_ok st \<and>
    view (br_k (fold (bond_add_member env K n as) cs st)) = (view (br_k st))(n \<mapsto>
      (m, l @ filter (\<lambda>x. x \<notin> bsd_of env ` set as) (map (bsd_of env) cs)))"
proof (induction cs arbitrary: st l)
  case (Cons c cs)
  have mem: "(as \<noteq> [] \<and> array_contains env as c) = (bsd_of env c \<in> bsd_of env ` set as)"
    using contains_names[OF assms, of c] Cons.prems by auto
  show ?case
  proof (cases "bsd_of env c \<in> bsd_of env ` set as")
    case True
    then have "bond_add_member env K n as c st = st" using mem by (simp add: bond_add_member_def)
    then show ?thesis using Cons.IH[of st l] Cons.prems True by simp
  next
    case False
    define st1 where "st1 = bond_call (\<lambda>k. bond_add_interface K k n (bsd_of env c)) st"
    have step: "bond_add_member env K n as c st = st1"
      using mem False Cons.prems by (auto simp: bond_add_member_def st1_def)
    have st1: "br_ok st1 = br_ok st" "view (br_k st1) = (view (br_k st))(n \<mapsto> (m, l @ [bsd_of env c]))"
      using run_add[of st n m l "bsd_of env c"] Cons.prems False by (simp_all add: st1_def)
    have "member_free (view (br_k st1)) (bsd_of env d)"
      if "d \<in> set cs" "bsd_of env d \<notin> bsd_of env ` set as" for d
    proof -
      have "bsd_of env d \<noteq> bsd_of env c" using Cons.prems(4) that(1) by (metis distinct.simps(2) image_eqI list.set_map list.simps(9))
      moreover have "member_free (view (br_k st)) (bsd_of env d)" using Cons.prems(5) that by simp
      ultimately show ?thesis using Cons.prems(1) by (auto simp: st1 member_free_def)
    qed
    moreover have "view (br_k st1) n = Some (m, l @ [bsd_of env c])" by (simp add: st1)
    moreover have "set cs \<subseteq> A" "\<forall>c \<in> set cs. ni_supportsBond (ni c)" "distinct (map (bsd_of env) cs)"
      using Cons.prems(2-4) by simp_all
    ultimately have "br_ok (fold (bond_add_member env K n as) cs st1) = br_ok st1 \<and>
        view (br_k (fold (bond_add_member env K n as) cs st1)) = (view (br_k st1))(n \<mapsto>
          (m, (l @ [bsd_of env c]) @ filter (\<lambda>x. x \<notin> bsd_of env ` set as) (map (bsd_of env) cs)))"
      by (intro Cons.IH) simp_all
    then show ?thesis unfolding st1 fun_upd_upd using False by (simp add: step)
  qed
qed (simp add: fun_upd_idem)

lemma remove_kept_fold:
  assumes "same_device env A" "set cs \<subseteq> A"
  shows "view (br_k st) n = Some (m, l) \<Longrightarrow> set as \<subseteq> A \<Longrightarrow> distinct (map (bsd_of env) as) \<Longrightarrow>
    \<forall>a \<in> set as. bsd_of env a \<in> bsd_of env ` set cs \<longrightarrow> bsd_of env a \<in> set l \<Longrightarrow>
    br_ok (fold (bond_remove_kept env K n cs) as st) = br_ok st \<and>
    view (br_k (fold (bond_remove_kept env K n cs) as st)) = (view (br_k st))(n \<mapsto>
      (m, filter (\<lambda>x. \<not> (x \<in> bsd_of env ` set as \<and> x \<in> bsd_of env ` set cs)) l))"
proof (induction as arbitrary: st l)
  case (Cons a as)
  show ?case
  proof (cases "bsd_of env a \<in> bsd_of env ` set cs")
    case False
    then have "\<not> array_contains env cs a" using contains_names[OF assms, of a] Cons.prems(2) by simp
    then have same: "bond_remove_kept env K n cs a st = st" by (simp add: bond_remove_kept_def)
    have eq: "filter (\<lambda>x. \<not> (x \<in> bsd_of env ` set (a # as) \<and> x \<in> bsd_of env ` set cs)) l =
        filter (\<lambda>x. \<not> (x \<in> bsd_of env ` set as \<and> x \<in> bsd_of env ` set cs)) l"
      using False by (intro filter_cong) (simp_all, blast)
    have "\<forall>b \<in> set as. bsd_of env b \<in> bsd_of env ` set cs \<longrightarrow> bsd_of env b \<in> set l" using Cons.prems(4) by simp
    then show ?thesis using Cons.IH[of st l] Cons.prems(1-3) unfolding eq by (simp add: same)
  next
    case True
    define st1 where "st1 = bond_call (\<lambda>k. bond_remove_interface K k n (bsd_of env a)) st"
    have st1: "br_ok st1 = br_ok st" "view (br_k st1) = (view (br_k st))(n \<mapsto> (m, removeAll (bsd_of env a) l))"
      using run_remove[of st n m l "bsd_of env a"] Cons.prems True by (simp_all add: st1_def)
    have step: "bond_remove_kept env K n cs a st = st1"
      using contains_names[OF assms, of a] Cons.prems True by (simp add: bond_remove_kept_def st1_def)
    have eq: "filter (\<lambda>x. \<not> (x \<in> bsd_of env ` set (a # as) \<and> x \<in> bsd_of env ` set cs)) l =
        filter (\<lambda>x. \<not> (x \<in> bsd_of env ` set as \<and> x \<in> bsd_of env ` set cs)) (removeAll (bsd_of env a) l)"
      using True by (auto simp: removeAll_filter_not_eq intro!: filter_cong)
    have "\<forall>b \<in> set as. bsd_of env b \<in> bsd_of env ` set cs \<longrightarrow> bsd_of env b \<in> set (removeAll (bsd_of env a) l)"
      using Cons.prems(3,4) by (simp add: image_iff) metis
    moreover have "view (br_k st1) n = Some (m, removeAll (bsd_of env a) l)" by (simp add: st1)
    moreover have "set as \<subseteq> A" "distinct (map (bsd_of env) as)" using Cons.prems(2,3) by simp_all
    ultimately have "br_ok (fold (bond_remove_kept env K n cs) as st1) = br_ok st1 \<and>
        view (br_k (fold (bond_remove_kept env K n cs) as st1)) = (view (br_k st1))(n \<mapsto>
          (m, filter (\<lambda>x. \<not> (x \<in> bsd_of env ` set as \<and> x \<in> bsd_of env ` set cs)) (removeAll (bsd_of env a) l)))"
      by (intro Cons.IH)
    then show ?thesis unfolding eq st1 fun_upd_upd by (simp only: step fold_simps)
  qed
qed (simp add: fun_upd_idem)

section \<open>One bond at a time\<close>

lemma update_members:
  assumes A: "same_device env A" "set (members_of c) \<subseteq> A" "set (members_of a) \<subseteq> A"
    and d: "distinct (bnames env c)" "distinct (bnames env a)"
    and sup: "\<forall>m \<in> set (members_of c). ni_supportsBond (ni m)"
    and n: "view (br_k st) n = Some (mc, kept (bnames env c) (bnames env a))"
    and free: "\<forall>x \<in> set (bnames env c). elsewhere_free (view (br_k st)) n x"
    and r: "r \<longleftrightarrow> members_of c \<noteq> [] \<and> members_of a \<noteq> [] \<and>
       \<not> SCNetworkInterfaceEqual (be_names env) (hd (members_of c)) (hd (members_of a))"
    and st2: "st2 = (if r then fold (bond_remove_kept env K n (members_of c)) (members_of a) st else st)"
  shows "\<exists>l. br_ok (fold (bond_add_member env K n (if r then [] else members_of a)) (members_of c) st2) = br_ok st \<and>
    view (br_k (fold (bond_add_member env K n (if r then [] else members_of a)) (members_of c) st2)) =
      (view (br_k st))(n \<mapsto> (mc, l)) \<and> placed (bnames env c) l"
proof (cases r)
  case True
  have all: "filter (\<lambda>x. \<not> (x \<in> bsd_of env ` set (members_of a) \<and> x \<in> bsd_of env ` set (members_of c)))
      (kept (bnames env c) (bnames env a)) = []"
    by (auto simp: kept_def bnames_def filter_empty_conv)
  have s2: "br_ok st2 = br_ok st" "view (br_k st2) = (view (br_k st))(n \<mapsto> (mc, []))"
    using remove_kept_fold[OF A(1,2) n A(3)] d(2) unfolding all by (simp_all add: st2 True bnames_def kept_def)
  have "br_ok (fold (bond_add_member env K n []) (members_of c) st2) = br_ok st2 \<and>
      view (br_k (fold (bond_add_member env K n []) (members_of c) st2)) = (view (br_k st2))(n \<mapsto>
        (mc, [] @ filter (\<lambda>x. x \<notin> bsd_of env ` set []) (map (bsd_of env) (members_of c))))"
    using d(1) sup A free by (intro add_fold[of env A]) (auto simp: s2 bnames_def intro!: elsewhere_member_free)
  then show ?thesis
    using d(1) placed_self unfolding s2 fun_upd_upd by (auto simp: True bnames_def)
next
  case False
  have hds: "hd (bnames env c) = hd (bnames env a)" if "bnames env c \<noteq> []" "bnames env a \<noteq> []"
  proof -
    have "hd (members_of c) \<in> A" "hd (members_of a) \<in> A" "members_of c \<noteq> []" "members_of a \<noteq> []"
      using that A by (auto simp: bnames_def subset_iff)
    then show ?thesis using False A(1) r by (auto simp: same_device_def bnames_def hd_map)
  qed
  have "\<forall>m \<in> set (members_of c). bsd_of env m \<notin> bsd_of env ` set (members_of a) \<longrightarrow>
      member_free (view (br_k st)) (bsd_of env m)"
  proof (intro ballI impI)
    fix m
    assume "m \<in> set (members_of c)" "bsd_of env m \<notin> bsd_of env ` set (members_of a)"
    then have "member_free ((view (br_k st))(n \<mapsto> (mc, kept (bnames env c) (bnames env a)))) (bsd_of env m)"
      using free by (intro elsewhere_member_free) (auto simp: bnames_def)
    then show "member_free (view (br_k st)) (bsd_of env m)" using n by (simp add: fun_upd_idem)
  qed
  then have "br_ok (fold (bond_add_member env K n (members_of a)) (members_of c) st) = br_ok st \<and>
      view (br_k (fold (bond_add_member env K n (members_of a)) (members_of c) st)) = (view (br_k st))(n \<mapsto>
        (mc, kept (bnames env c) (bnames env a) @
          filter (\<lambda>x. x \<notin> bsd_of env ` set (members_of a)) (map (bsd_of env) (members_of c))))"
    using d(1) sup A n by (intro add_fold[of env A]) (simp_all add: bnames_def)
  then show ?thesis
    using placed_kept_append[of "bnames env c" "bnames env a"] hds d
    by (intro exI[of _ "kept (bnames env c) (bnames env a) @ filter (\<lambda>x. x \<notin> set (bnames env a)) (bnames env c)"])
      (simp add: False st2 bnames_def)
qed

lemma update_existing:
  assumes A: "same_device env A" "set (members_of c) \<subseteq> A" "set (members_of a) \<subseteq> A"
    and d: "distinct (bnames env c)" "distinct (bnames env a)"
    and sup: "\<forall>m \<in> set (members_of c). ni_supportsBond (ni m)"
    and modes: "SCBondInterfaceGetMode c = Some mc" "SCBondInterfaceGetMode a = Some ma"
    and names: "bsd_of env a = n" "bsd_of env c = n"
    and n: "view (br_k st) n = Some (ma, kept (bnames env c) (bnames env a))"
    and free: "\<forall>x \<in> set (bnames env c). elsewhere_free (view (br_k st)) n x"
  shows "\<exists>st' l. bond_update_existing env K c a st = Inr st' \<and> br_ok st' = br_ok st \<and>
    view (br_k st') = (view (br_k st))(n \<mapsto> (mc, l)) \<and> placed (bnames env c) l"
proof -
  let ?lc = "\<not> opt_equal (list_all2 (SCNetworkInterfaceEqual (be_names env)))
      (SCBondInterfaceGetMemberInterfaces c) (SCBondInterfaceGetMemberInterfaces a)"
  have same: "bnames env c = bnames env a" if "\<not> ?lc"
  proof -
    have "list_all2 (SCNetworkInterfaceEqual (be_names env)) (members_of c) (members_of a)"
      using that by (auto simp: opt_equal_def members_of_def split: option.splits)
    from equal_lists_names[OF this A] show ?thesis by (simp add: bnames_def)
  qed
  obtain b where b: "bond_open K st = Inr (st\<lparr>br_sock := b\<rparr>)" using opened by blast
  define st1 where "st1 = (if ma \<noteq> mc then bond_call_ignored (\<lambda>k. bond_set_mode K k n (Some mc)) (st\<lparr>br_sock := b\<rparr>)
      else st\<lparr>br_sock := b\<rparr>)"
  have st1: "br_ok st1 = br_ok st" "view (br_k st1) = (view (br_k st))(n \<mapsto> (mc, kept (bnames env c) (bnames env a)))"
    using run_mode[of "st\<lparr>br_sock := b\<rparr>" n ma _ mc] n by (simp_all add: st1_def fun_upd_idem)
  show ?thesis
  proof (cases "ma = mc \<and> \<not> ?lc")
    case True
    then have "bond_update_existing env K c a st = Inr st"
      by (simp add: bond_update_existing_def modes Let_def)
    then show ?thesis
      using n True same d(2) by (intro exI[of _ st] exI[of _ "bnames env a"]) (simp add: fun_upd_idem placed_self)
  next
    case changed: False
    show ?thesis
    proof (cases ?lc)
      case False
      then have "bond_update_existing env K c a st = Inr st1"
        using changed by (simp add: bond_update_existing_def modes Let_def sbind_def b st1_def names)
      then show ?thesis
        using st1 same[OF False] d(2) by (intro exI[of _ st1] exI[of _ "bnames env a"]) (simp add: placed_self)
    next
      case True
      define r where "r \<longleftrightarrow> members_of c \<noteq> [] \<and> members_of a \<noteq> [] \<and>
         \<not> SCNetworkInterfaceEqual (be_names env) (hd (members_of c)) (hd (members_of a))"
      define st2 where "st2 = (if r then fold (bond_remove_kept env K n (members_of c)) (members_of a) st1 else st1)"
      have "view (br_k st1) n = Some (mc, kept (bnames env c) (bnames env a))" by (simp add: st1)
      moreover have "\<forall>x \<in> set (bnames env c). elsewhere_free (view (br_k st1)) n x"
        using free by (simp add: st1 elsewhere_free_def)
      moreover have "bond_update_existing env K c a st =
          Inr (fold (bond_add_member env K n (if r then [] else members_of a)) (members_of c) st2)"
        using True by (simp add: bond_update_existing_def modes Let_def sbind_def b st1_def st2_def r_def names)
      ultimately show ?thesis
        using update_members[OF A d sup _ _ r_def st2_def] st1 by fastforce
    qed
  qed
qed

lemma update_new:
  assumes A: "same_device env A" "set (members_of c) \<subseteq> A"
    and d: "distinct (bnames env c)"
    and sup: "\<forall>m \<in> set (members_of c). ni_supportsBond (ni m)"
    and mode: "SCBondInterfaceGetMode c = Some mc"
    and n: "view (br_k st) (bsd_of env c) = None"
    and free: "\<forall>x \<in> set (bnames env c). elsewhere_free (view (br_k st)) (bsd_of env c) x"
  shows "\<exists>st'. bond_update_new env K c st = Inr st' \<and> br_ok st' = br_ok st \<and>
    view (br_k st') = (view (br_k st))(bsd_of env c \<mapsto> (mc, bnames env c))"
proof -
  let ?n = "bsd_of env c"
  obtain b where b: "bond_open K st = Inr (st\<lparr>br_sock := b\<rparr>)" using opened by blast
  obtain k where k: "createInterface K (br_k st) ?n = (True, k)" "view k = (view (br_k st))(?n \<mapsto> (0, []))"
    using run_create[OF n] by blast
  define st1 where "st1 = bond_call_ignored (\<lambda>k. bond_set_mode K k ?n (Some mc)) (st\<lparr>br_sock := b, br_k := k\<rparr>)"
  have st1: "br_ok st1 = br_ok st" "view (br_k st1) = (view (br_k st))(?n \<mapsto> (mc, []))"
    using run_mode[of "st\<lparr>br_sock := b, br_k := k\<rparr>" ?n 0 "[]" mc] k(2) by (simp_all add: st1_def)
  have run: "bond_update_new env K c st = Inr (fold (bond_add_member env K ?n []) (members_of c) st1)"
    using k(1) by (simp add: bond_update_new_def b sbind_def mode st1_def)
  have "br_ok (fold (bond_add_member env K ?n []) (members_of c) st1) = br_ok st1 \<and>
      view (br_k (fold (bond_add_member env K ?n []) (members_of c) st1)) = (view (br_k st1))(?n \<mapsto>
        (mc, [] @ filter (\<lambda>x. x \<notin> bsd_of env ` set []) (map (bsd_of env) (members_of c))))"
    using d sup A free by (intro add_fold[of env A]) (auto simp: st1 bnames_def intro!: elsewhere_member_free)
  then show ?thesis unfolding run st1 fun_upd_upd by (auto simp: bnames_def)
qed

section \<open>The two passes\<close>

lemma pass1_one:
  assumes wf: "bonds_wf env config active" and a: "a \<in> set active"
    and n: "view (br_k st) (bsd_of env a) = Some (bond_state env a)"
  shows "\<exists>st'. bond_pass1 env K config a st = Inr st' \<and> br_ok st' = br_ok st \<and>
    view (br_k st') = (view (br_k st))(bsd_of env a := after_pass1 env config a)"
proof (cases "find (\<lambda>c. bsd_of env a = bsd_of env c) config")
  case None
  obtain b where b: "bond_open K st = Inr (st\<lparr>br_sock := b\<rparr>)" using opened by blast
  show ?thesis
    using run_destroy[of "st\<lparr>br_sock := b\<rparr>" "bsd_of env a"] n
    by (simp add: bond_pass1_def None sbind_def b after_pass1_def)
next
  case (Some c)
  let ?A = "\<Union>b \<in> set config \<union> set active. set (members_of b)"
  have c: "c \<in> set config" using Some by (auto simp: find_Some_iff)
  have keep: "filter (\<lambda>x. x \<in> bsd_of env ` set (members_of a) \<longrightarrow> x \<in> bsd_of env ` set (members_of c)) (bnames env a)
      = kept (bnames env c) (bnames env a)"
    by (auto simp: kept_def bnames_def intro!: filter_cong)
  have "same_device env ?A" "distinct (map (bsd_of env) (members_of a))"
    using wf a by (simp_all add: bonds_wf_def bnames_def)
  moreover have "set (members_of c) \<subseteq> ?A" "set (members_of a) \<subseteq> ?A" using c a by auto
  moreover have "bsd_of env ` set (members_of a) \<subseteq> set (bnames env a)" by (simp add: bnames_def)
  ultimately obtain st' where "sfold (bond_drop_member env K (bsd_of env a) (members_of c)) (members_of a) st = Inr st'"
    "br_ok st' = br_ok st" "view (br_k st') = (view (br_k st))(bsd_of env a \<mapsto>
        (the (SCBondInterfaceGetMode a), kept (bnames env c) (bnames env a)))"
    using drop_fold[of env ?A "members_of c", OF _ _ n[unfolded bond_state_def], of "members_of a"]
    unfolding keep by blast
  then show ?thesis by (simp add: bond_pass1_def Some after_pass1_def)
qed

lemma pass1_all:
  assumes wf: "bonds_wf env config active"
  shows "set as \<subseteq> set active \<Longrightarrow> distinct (map (bsd_of env) as) \<Longrightarrow>
    \<forall>a \<in> set as. view (br_k st) (bsd_of env a) = Some (bond_state env a) \<Longrightarrow>
    \<exists>st'. sfold (bond_pass1 env K config) as st = Inr st' \<and> br_ok st' = br_ok st \<and>
      view (br_k st') = fold (\<lambda>a V. V(bsd_of env a := after_pass1 env config a)) as (view (br_k st))"
proof (induction as arbitrary: st)
  case (Cons a as)
  obtain st1 where st1: "bond_pass1 env K config a st = Inr st1" "br_ok st1 = br_ok st"
    "view (br_k st1) = (view (br_k st))(bsd_of env a := after_pass1 env config a)"
    using pass1_one[OF wf, of a st] Cons.prems by auto
  have "\<forall>b \<in> set as. view (br_k st1) (bsd_of env b) = Some (bond_state env b)"
    using Cons.prems(2,3) by (auto simp: st1 dest: image_apart)
  then show ?case using Cons.IH[of st1] Cons.prems st1 by simp
qed simp

lemma pass2_one:
  assumes wf: "bonds_wf env config active" and c: "c \<in> set config"
    and J: "within_config env config (view (br_k st))"
    and n: "view (br_k st) (bsd_of env c) = (case find (\<lambda>a. bsd_of env c = bsd_of env a) active of
       None \<Rightarrow> None | Some a \<Rightarrow> after_pass1 env config a)"
  shows "\<exists>st' l. bond_pass2 env K active c st = Inr st' \<and> br_ok st' = br_ok st \<and>
    view (br_k st') = (view (br_k st))(bsd_of env c \<mapsto> (the (SCBondInterfaceGetMode c), l)) \<and>
    placed (bnames env c) l"
proof -
  let ?A = "\<Union>b \<in> set config \<union> set active. set (members_of b)"
  note A1 = bonds_wfD(1)[OF wf]
  have A2: "set (members_of c) \<subseteq> ?A" using c by auto
  obtain mc where mc: "SCBondInterfaceGetMode c = Some mc" using bonds_wfD(3)[OF wf, of c] c by auto
  have d: "distinct (bnames env c)" and sup: "\<forall>m \<in> set (members_of c). ni_supportsBond (ni m)"
    using bonds_wfD(2,4)[OF wf] c by simp_all
  have free: "\<forall>x \<in> set (bnames env c). elsewhere_free (view (br_k st)) (bsd_of env c) x"
    using within_config_free[OF J wf c] by blast
  show ?thesis
  proof (cases "find (\<lambda>a. bsd_of env c = bsd_of env a) active")
    case None
    then have "view (br_k st) (bsd_of env c) = None" using n by simp
    from update_new[OF A1 A2 d sup mc this free] show ?thesis
      using placed_self[OF d] by (auto simp: bond_pass2_def None mc)
  next
    case (Some a)
    then have a: "a \<in> set active" "bsd_of env c = bsd_of env a" by (auto simp: find_Some_iff)
    obtain ma where ma: "SCBondInterfaceGetMode a = Some ma" using bonds_wfD(3)[OF wf, of a] a by auto
    have "find (\<lambda>c'. bsd_of env a = bsd_of env c') config = Some c"
      using find_unique[OF bonds_wfD(5)[OF wf] c] a(2) by simp
    then have view: "view (br_k st) (bsd_of env c) = Some (ma, kept (bnames env c) (bnames env a))"
      using n by (simp add: Some after_pass1_def ma)
    have A3: "set (members_of a) \<subseteq> ?A" and da: "distinct (bnames env a)"
      using bonds_wfD(2)[OF wf] a by auto
    from update_existing[OF A1 A2 A3 d da sup mc ma a(2)[symmetric] refl view free] show ?thesis
      by (simp add: bond_pass2_def Some mc)
  qed
qed

lemma within_config_upd:
  "within_config env config V \<Longrightarrow> c \<in> set config \<Longrightarrow> placed (bnames env c) l \<Longrightarrow>
   within_config env config (V(bsd_of env c \<mapsto> (m, l)))"
  by (auto simp: within_config_def placed_def)

lemma pass2_all:
  assumes wf: "bonds_wf env config active"
  shows "set cs \<subseteq> set config \<Longrightarrow> distinct (map (bsd_of env) cs) \<Longrightarrow> within_config env config (view (br_k st)) \<Longrightarrow>
    \<forall>c \<in> set cs. view (br_k st) (bsd_of env c) = (case find (\<lambda>a. bsd_of env c = bsd_of env a) active of
       None \<Rightarrow> None | Some a \<Rightarrow> after_pass1 env config a) \<Longrightarrow>
    \<exists>st'. sfold (bond_pass2 env K active) cs st = Inr st' \<and> br_ok st' = br_ok st \<and>
      (\<forall>c \<in> set cs. \<exists>l. view (br_k st') (bsd_of env c) = Some (the (SCBondInterfaceGetMode c), l) \<and>
        placed (bnames env c) l) \<and>
      (\<forall>n. n \<notin> bsd_of env ` set cs \<longrightarrow> view (br_k st') n = view (br_k st) n)"
proof (induction cs arbitrary: st)
  case (Cons c cs)
  obtain st1 l where st1: "bond_pass2 env K active c st = Inr st1" "br_ok st1 = br_ok st"
    "view (br_k st1) = (view (br_k st))(bsd_of env c \<mapsto> (the (SCBondInterfaceGetMode c), l))" "placed (bnames env c) l"
    using pass2_one[OF wf, of c st] Cons.prems by auto
  have fresh: "bsd_of env c \<notin> bsd_of env ` set cs" using Cons.prems(2) by simp
  then have "\<forall>d \<in> set cs. view (br_k st1) (bsd_of env d) = view (br_k st) (bsd_of env d)"
    by (auto simp: st1 dest: image_apart)
  moreover have "within_config env config (view (br_k st1))"
    unfolding st1(3) using Cons.prems st1(4) by (intro within_config_upd) auto
  ultimately obtain st' where st': "sfold (bond_pass2 env K active) cs st1 = Inr st'" "br_ok st' = br_ok st1"
    "\<forall>c \<in> set cs. \<exists>l. view (br_k st') (bsd_of env c) = Some (the (SCBondInterfaceGetMode c), l) \<and> placed (bnames env c) l"
    "\<forall>n. n \<notin> bsd_of env ` set cs \<longrightarrow> view (br_k st') n = view (br_k st1) n"
    using Cons.IH[of st1] Cons.prems by auto
  have "view (br_k st') (bsd_of env c) = Some (the (SCBondInterfaceGetMode c), l)"
    using st'(4) fresh by (simp add: st1)
  then show ?case using st' st1 by (intro exI[of _ st']) auto
qed simp

lemma reconciled:
  assumes wf: "bonds_wf env config active" and k: "view k = active_view env active"
  shows "\<exists>k'. bond_reconcile env K config active k = (True, k') \<and>
    (\<forall>c \<in> set config. \<exists>l. view k' (bsd_of env c) = Some (the (SCBondInterfaceGetMode c), l) \<and> placed (bnames env c) l) \<and>
    (\<forall>n. n \<notin> bsd_of env ` set config \<longrightarrow> view k' n = None)"
proof -
  define st where "st = \<lparr>br_ok = True, br_sock = False, br_k = k\<rparr>"
  have dist: "distinct (map (bsd_of env) active)" "distinct (map (bsd_of env) config)"
    using wf by (simp_all add: bonds_wf_def)
  have "view k (bsd_of env a) = Some (bond_state env a)" if "a \<in> set active" for a
    using find_unique[OF dist(1) that] unfolding k active_view_def by simp
  then obtain st1 where st1: "sfold (bond_pass1 env K config) active st = Inr st1" "br_ok st1"
    "view (br_k st1) = fold (\<lambda>a V. V(bsd_of env a := after_pass1 env config a)) active (view k)"
    using pass1_all[OF wf order_refl dist(1), of st] by (auto simp: st_def)
  have at: "view (br_k st1) n = (case find (\<lambda>a. n = bsd_of env a) active of
      None \<Rightarrow> None | Some a \<Rightarrow> after_pass1 env config a)" for n
    unfolding st1 fold_upd_lookup[OF dist(1)] k active_view_def by (simp split: option.split)
  have J: "within_config env config (view (br_k st1))"
    by (auto simp: within_config_def at after_pass1_def find_Some_iff split: option.splits)
  have none: "view (br_k st1) n = None" if "n \<notin> bsd_of env ` set config" for n
    using that by (auto simp: at after_pass1_def find_Some_iff find_None_iff split: option.split)
  have "\<forall>c \<in> set config. view (br_k st1) (bsd_of env c) = (case find (\<lambda>a. bsd_of env c = bsd_of env a) active of
      None \<Rightarrow> None | Some a \<Rightarrow> after_pass1 env config a)"
    by (simp add: at)
  from pass2_all[OF wf order_refl dist(2) J this] none st1 show ?thesis
    by (fastforce simp: bond_reconcile_def st_def[symmetric] sbind_def)
qed

end

section \<open>The update converges\<close>

text \<open>
  C2. \<open>_SCBondInterfaceUpdateConfiguration\<close> makes the kernel what the preferences say. With a
  kernel that does what the ioctl calls are documented to do, whose bonds are the active ones
  that were read, the two passes report success and leave every configured bond with its
  configured mode and exactly its configured members, the first one first (the reordering step), and no
  other bond. This includes members that move from one bond to another: the first pass frees
  them before the second one adds them.
\<close>

theorem bond_reconcile_converges:
  assumes "bond_kernel K view" "bonds_wf env config active" "view k = active_view env active"
  shows "\<exists>k'. bond_reconcile env K config active k = (True, k') \<and>
    (\<forall>c \<in> set config. \<exists>l. view k' (bsd_of env c) = Some (the (SCBondInterfaceGetMode c), l) \<and> placed (bnames env c) l) \<and>
    (\<forall>n. n \<notin> bsd_of env ` set config \<longrightarrow> view k' n = None)"
  by (rule bond_kernel.reconciled[OF assms])

text \<open>Two bonds that exchange a member, and one that is no longer configured.\<close>

definition sample_port :: "string \<Rightarrow> scnif" where
  "sample_port n = upd_ni (\<lambda>a. a\<lparr>ni_entity_device := Some n, ni_supportsBond := True\<rparr>)
     (SCNetworkInterfaceCreatePrivate None None None)"

definition make_bond :: "string \<Rightarrow> int \<Rightarrow> string list \<Rightarrow> scnif" where
  "make_bond n m ports = set_bond_interfaces (Some (map sample_port ports))
     (upd_ni (\<lambda>a. a\<lparr>ni_bond_mode := Some m\<rparr>) (SCBondInterfaceCreatePrivate (be_platform sample_env) n))"

definition moved_config :: "scnif list" where
  "moved_config = [make_bond ''bond0'' 1 [''en1''], make_bond ''bond1'' 0 [''en2'', ''en0'']]"

definition moved_active :: "scnif list" where
  "moved_active = [make_bond ''bond0'' 0 [''en0'', ''en1''], make_bond ''bond1'' 0 [''en2''], make_bond ''bond2'' 0 []]"

lemma make_bond_simps [simp]:
  "bsd_of sample_env (make_bond n m ports) = n"
  "SCBondInterfaceGetMode (make_bond n m ports) = Some m"
  "members_of (make_bond n m ports) = map sample_port ports"
  by (simp_all add: bsd_of_def sample_env_def make_bond_def SCBondInterfaceGetMode_def members_of_def
      SCBondInterfaceGetMemberInterfaces_def)

lemma sample_port_simps [simp]:
  "bsd_of sample_env (sample_port n) = n" "ni_supportsBond (ni (sample_port n))"
  by (simp_all add: bsd_of_def sample_env_def sample_port_def)

lemma sample_port_equal [simp]:
  "SCNetworkInterfaceEqual (be_names sample_env) (sample_port m) (sample_port n) \<longleftrightarrow> m = n"
proof
  assume "SCNetworkInterfaceEqual (be_names sample_env) (sample_port m) (sample_port n)"
  then show "m = n" by (simp add: sample_port_def SCNetworkInterfaceCreatePrivate_def)
qed (simp add: equal_refl)

lemma make_bond_names [simp]: "bnames sample_env (make_bond n m ports) = ports"
  by (simp add: bnames_def comp_def)

lemma moved_wf: "bonds_wf sample_env moved_config moved_active"
  by (simp add: bonds_wf_def moved_config_def moved_active_def same_device_def)

lemma bond_reconcile_converges_witness:
  "\<exists>k'. bond_reconcile sample_env table_kern moved_config moved_active
      [(''bond0'', 0, [''en0'', ''en1'']), (''bond1'', 0, [''en2'']), (''bond2'', 0, [])] = (True, k') \<and>
     map_of k' ''bond0'' = Some (1, [''en1'']) \<and> map_of k' ''bond2'' = None"
proof -
  let ?k = "[(''bond0'', 0, [''en0'', ''en1'']), (''bond1'', 0, [''en2'']), (''bond2'', 0, [])] :: bond_table"
  have "map_of ?k = active_view sample_env moved_active"
    by (rule ext) (simp add: active_view_def moved_active_def bond_state_def)
  then obtain k' where k': "bond_reconcile sample_env table_kern moved_config moved_active ?k = (True, k')"
    "\<forall>c \<in> set moved_config. \<exists>l. map_of k' (bsd_of sample_env c) = Some (the (SCBondInterfaceGetMode c), l) \<and>
       placed (bnames sample_env c) l"
    "\<forall>n. n \<notin> bsd_of sample_env ` set moved_config \<longrightarrow> map_of k' n = None"
    using bond_reconcile_converges[OF table.bond_kernel_axioms moved_wf] by blast
  have "make_bond ''bond0'' 1 [''en1''] \<in> set moved_config" by (simp add: moved_config_def)
  with k'(2) obtain l where "map_of k' ''bond0'' = Some (1, l)" "placed [''en1''] l" by fastforce
  moreover from this(2) have "l = [''en1'']" by (cases l rule: remdups_adj.cases) (auto simp: placed_def)
  moreover have "map_of k' ''bond2'' = None" using k'(3) by (simp add: moved_config_def)
  ultimately show ?thesis using k'(1) by blast
qed

end
