(* ===== verification/NetLayer.thy ===== *)
theory NetLayer
  imports NetServiceBase
begin

text \<open>
  The table of interface types (\<open>configurations\<close> in SCNetworkInterface.c) and what reads it: the types
  and protocols an interface supports, and the layering of one interface on top of another.

  The framework's accessors \<open>SCNetworkInterfaceGetInterface\<close> and \<open>SCNetworkInterfaceGetInterfaceType\<close>
  are the fields \<open>ni_interface\<close> and \<open>ni_interface_type\<close>; the empty type name stands for NULL. The three
  functions at the end of the first part are compiled with \<open>FULL_COMP\<close> only.
\<close>

section \<open>The table\<close>

definition doNone :: uint32 where "doNone = 0"
definition do6to4 :: uint32 where "do6to4 = push_bit 0 1"
definition doL2TP :: uint32 where "doL2TP = push_bit 1 1"
definition doPPP :: uint32 where "doPPP = push_bit 2 1"
definition doPPTP :: uint32 where "doPPTP = push_bit 3 1"
definition doIPSec :: uint32 where "doIPSec = push_bit 4 1"
definition doOverIP :: uint32 where "doOverIP = do6to4 OR doL2TP OR doPPTP OR doIPSec"
definition doDNS :: uint32 where "doDNS = push_bit 1 1"
definition doIPv4 :: uint32 where "doIPv4 = push_bit 2 1"
definition doIPv6 :: uint32 where "doIPv6 = push_bit 3 1"
definition doProxies :: uint32 where "doProxies = push_bit 4 1"
definition doSMB :: uint32 where "doSMB = push_bit 5 1"

lemmas do_defs = doNone_def do6to4_def doL2TP_def doPPP_def doPPTP_def doIPSec_def doOverIP_def doDNS_def doIPv4_def
  doIPv6_def doProxies_def doSMB_def

definition kSCNetworkInterfaceType6to4 :: string where "kSCNetworkInterfaceType6to4 = ''6to4''"
definition kSCNetworkInterfaceTypeEthernet :: string where "kSCNetworkInterfaceTypeEthernet = ''Ethernet''"
definition kSCNetworkInterfaceTypeIEEE80211 :: string where "kSCNetworkInterfaceTypeIEEE80211 = ''IEEE80211''"
definition kSCNetworkInterfaceTypeIPSec :: string where "kSCNetworkInterfaceTypeIPSec = ''IPSec''"
definition kSCNetworkInterfaceTypeL2TP :: string where "kSCNetworkInterfaceTypeL2TP = ''L2TP''"
definition kSCNetworkInterfaceTypeLoopback :: string where "kSCNetworkInterfaceTypeLoopback = ''Loopback''"
definition kSCNetworkInterfaceTypePPP :: string where "kSCNetworkInterfaceTypePPP = ''PPP''"
definition kSCNetworkInterfaceTypePPTP :: string where "kSCNetworkInterfaceTypePPTP = ''PPTP''"
definition kSCEntNetAirPort :: string where "kSCEntNetAirPort = ''AirPort''"
definition kSCEntNetIPSec :: string where "kSCEntNetIPSec = ''IPSec''"
definition kSCValNetInterfaceSubTypePPPoE :: string where "kSCValNetInterfaceSubTypePPPoE = ''PPPoE''"

lemmas layer_type_defs = if_type_defs kSCNetworkInterfaceType6to4_def kSCNetworkInterfaceTypeEthernet_def
  kSCNetworkInterfaceTypeIEEE80211_def kSCNetworkInterfaceTypeIPSec_def kSCNetworkInterfaceTypeL2TP_def
  kSCNetworkInterfaceTypeLoopback_def kSCNetworkInterfaceTypePPP_def kSCNetworkInterfaceTypePPTP_def
  kSCEntNetAirPort_def kSCEntNetIPSec_def kSCValNetInterfaceSubTypePPPoE_def

record if_configuration =
  cf_interface_type :: string
  cf_entity_hardware :: "string option"
  cf_per_interface_config :: bool
  cf_supported_interfaces :: uint32
  cf_ppp_subtype :: "string option"
  cf_supported_protocols :: uint32

definition if_row ::
    "string \<Rightarrow> string option \<Rightarrow> bool \<Rightarrow> uint32 \<Rightarrow> string option \<Rightarrow> uint32 \<Rightarrow> if_configuration" where
  "if_row t hw per ifs ppp protocols =
     \<lparr>cf_interface_type = t, cf_entity_hardware = hw, cf_per_interface_config = per,
      cf_supported_interfaces = ifs, cf_ppp_subtype = ppp, cf_supported_protocols = protocols\<rparr>"

lemma if_row_sel [simp]:
  "cf_interface_type (if_row t hw per ifs ppp prs) = t" "cf_entity_hardware (if_row t hw per ifs ppp prs) = hw"
  "cf_per_interface_config (if_row t hw per ifs ppp prs) = per" "cf_supported_interfaces (if_row t hw per ifs ppp prs) = ifs"
  "cf_ppp_subtype (if_row t hw per ifs ppp prs) = ppp" "cf_supported_protocols (if_row t hw per ifs ppp prs) = prs"
  by (simp_all add: if_row_def)

definition all_protocols :: uint32 where
  "all_protocols = doDNS OR doIPv4 OR doIPv6 OR doProxies OR doSMB"

definition configurations :: "if_configuration list" where
  "configurations = [
     if_row ''6to4'' (Some ''6to4'') False doNone None doIPv6,
     if_row ''Bluetooth'' (Some ''Modem'') False doPPP (Some ''PPPSerial'') doNone,
     if_row ''Bond'' (Some ''Ethernet'') True doNone None all_protocols,
     if_row ''Bridge'' (Some ''Ethernet'') True doNone None all_protocols,
     if_row ''Ethernet'' (Some ''Ethernet'') True doPPP (Some ''PPPoE'') all_protocols,
     if_row ''FireWire'' (Some ''FireWire'') True doNone None all_protocols,
     if_row ''IEEE80211'' (Some ''AirPort'') True doPPP (Some ''PPPoE'') all_protocols,
     if_row ''IPSec'' (Some ''IPSec'') False doNone None all_protocols,
     if_row ''L2TP'' None False doPPP (Some ''L2TP'') doNone,
     if_row ''Modem'' (Some ''Modem'') False doPPP (Some ''PPPSerial'') doNone,
     if_row ''PPP'' (Some ''PPP'') False doNone None all_protocols,
     if_row ''PPTP'' None False doPPP (Some ''PPTP'') doNone,
     if_row ''Serial'' (Some ''Modem'') False doPPP (Some ''PPPSerial'') doNone,
     if_row ''VLAN'' (Some ''Ethernet'') True doNone (Some ''PPPoE'') all_protocols,
     if_row ''VPN'' (Some ''VPN'') False doNone None all_protocols,
     if_row ''WWAN'' (Some ''Modem'') False doPPP (Some ''PPPSerial'') doNone,
     if_row ''Loopback'' None True doNone None (doIPv4 OR doIPv6),
     if_row ''IPv4'' None False doOverIP None doNone]"

text \<open>The index of the code is the row itself here.\<close>

definition findConfiguration :: "string \<Rightarrow> if_configuration option" where
  "findConfiguration interface_type = find (\<lambda>c. interface_type = cf_interface_type c) configurations"

lemma findConfiguration_row: "findConfiguration t = Some c \<Longrightarrow> c \<in> set configurations \<and> cf_interface_type c = t"
  by (auto simp: findConfiguration_def find_Some_iff)

section \<open>The two static interfaces\<close>

definition static_interface :: "string \<Rightarrow> string \<Rightarrow> string option \<Rightarrow> string option \<Rightarrow> scnif" where
  "static_interface t key dev et =
     upd_ni (\<lambda>a. a\<lparr>ni_interface_type := t, ni_localized_key := Some key, ni_entity_device := dev, ni_entity_type := et,
                  ni_sort_order := kSortInternalModem\<rparr>)
       (SCNetworkInterfaceCreatePrivate None None None)"

text \<open>Static instances are zeroed, so their sort class is the first one.\<close>

definition kSCNetworkInterfaceIPv4 :: scnif where
  "kSCNetworkInterfaceIPv4 = static_interface kSCNetworkInterfaceTypeIPv4 ''ipv4'' None None"

definition kSCNetworkInterfaceLoopback :: scnif where
  "kSCNetworkInterfaceLoopback = static_interface kSCNetworkInterfaceTypeLoopback ''loopback'' (Some ''lo0'') (Some ''Loopback'')"

section \<open>Supported types\<close>

definition if_types_of :: "uint32 \<Rightarrow> string list" where
  "if_types_of m =
     (if m AND do6to4 \<noteq> 0 then [kSCNetworkInterfaceType6to4] else []) @
     (if m AND doL2TP \<noteq> 0 then [kSCNetworkInterfaceTypeL2TP] else []) @
     (if m AND doPPP \<noteq> 0 then [kSCNetworkInterfaceTypePPP] else []) @
     (if m AND doIPSec \<noteq> 0 then [kSCNetworkInterfaceTypeIPSec] else [])"

text \<open>The answer is kept in the interface, which is returned with it.\<close>

definition SCNetworkInterfaceGetSupportedInterfaceTypes :: "name_env \<Rightarrow> scnif \<Rightarrow> string list option \<times> scnif" where
  "SCNetworkInterfaceGetSupportedInterfaceTypes env i =
     (let types =
        (if ni_supported_interface_types (ni i) \<noteq> None then ni_supported_interface_types (ni i)
         else case findConfiguration (ni_interface_type (ni i)) of
                Some c \<Rightarrow> if cf_supported_interfaces c \<noteq> doNone then Some (if_types_of (cf_supported_interfaces c)) else None
              | None \<Rightarrow> (case ni_interface i of
                          Some child \<Rightarrow> if SCNetworkInterfaceEqual env child kSCNetworkInterfaceIPv4
                                        then Some [kSCNetworkInterfaceTypeVPN] else None
                        | None \<Rightarrow> None))
      in (types, upd_ni (\<lambda>a. a\<lparr>ni_supported_interface_types := types\<rparr>) i))"

definition protocol_types_of :: "uint32 \<Rightarrow> string list" where
  "protocol_types_of m =
     (if m AND doDNS \<noteq> 0 then [''DNS''] else []) @ (if m AND doIPv4 \<noteq> 0 then [''IPv4''] else []) @
     (if m AND doIPv6 \<noteq> 0 then [''IPv6''] else []) @ (if m AND doProxies \<noteq> 0 then [''Proxies''] else []) @
     (if m AND doSMB \<noteq> 0 then [''SMB''] else [])"

definition SCNetworkInterfaceGetSupportedProtocolTypes :: "scnif \<Rightarrow> string list option \<times> scnif" where
  "SCNetworkInterfaceGetSupportedProtocolTypes i =
     (let types =
        (if ni_supported_protocol_types (ni i) \<noteq> None then ni_supported_protocol_types (ni i)
         else case findConfiguration (ni_interface_type (ni i)) of
                Some c \<Rightarrow> if cf_supported_protocols c \<noteq> doNone then Some (protocol_types_of (cf_supported_protocols c)) else None
              | None \<Rightarrow> None)
      in (types, upd_ni (\<lambda>a. a\<lparr>ni_supported_protocol_types := types\<rparr>) i))"

section \<open>Layering\<close>

text \<open>The name of a VPN from its type, as in \<open>com.apple.Apple-VPN.vpnplugin\<close>.\<close>

definition vpn_display_name :: "string \<Rightarrow> string option" where
  "vpn_display_name vpnType =
     (let components = split_at_char (CHR ''.'') vpnType; n = length components in
      if n \<ge> 4 \<and> components ! (n - 1) = ''vpnplugin''
      then Some (map (\<lambda>c. if c = CHR ''-'' then CHR '' '' else c) (components ! (n - 2))) else None)"

definition set_ppp_layer :: "if_fields \<Rightarrow> string option \<Rightarrow> if_fields \<Rightarrow> if_fields" where
  "set_ppp_layer child subtype p =
     p\<lparr>ni_interface_type := kSCNetworkInterfaceTypePPP, ni_entity_type := Some ''PPP'', ni_entity_subtype := subtype,
       ni_entity_device := ni_entity_device child, ni_entity_device_unique := ni_entity_device_unique child\<rparr>"

definition set_ip_layer :: "string \<Rightarrow> string \<Rightarrow> string option \<Rightarrow> if_fields \<Rightarrow> if_fields" where
  "set_ip_layer t key dev p =
     p\<lparr>ni_interface_type := t, ni_localized_key := Some key, ni_entity_type := Some t, ni_entity_device := dev\<rparr>"

definition set_vpn_layer :: "if_fields \<Rightarrow> string \<Rightarrow> if_fields \<Rightarrow> if_fields" where
  "set_vpn_layer child et p =
     p\<lparr>ni_interface_type := kSCNetworkInterfaceTypeVPN, ni_localized_key := Some ''vpn'', ni_localized_arg1 := Some et,
       ni_entity_type := Some ''VPN'', ni_entity_subtype := Some et, ni_entity_device := ni_entity_device child,
       ni_localized_name := vpn_display_name et\<rparr>"

definition supports :: "if_configuration option \<Rightarrow> uint32 \<Rightarrow> bool" where
  "supports row m \<longleftrightarrow> (case row of None \<Rightarrow> False | Some c \<Rightarrow> cf_supported_interfaces c AND m = m)"

text \<open>
  The fields of the new layer, \<open>None\<close> when the child does not support it. The argument of the VPN name is
  retained without a test that there is one.
\<close>

definition layer_fields :: "if_fields \<Rightarrow> string \<Rightarrow> if_fields \<Rightarrow> if_fields option outcome" where
  "layer_fields child t p =
     (let row = findConfiguration (ni_interface_type child) in
      if t = kSCNetworkInterfaceTypePPP
      then (case row of
              Some c \<Rightarrow> (case cf_ppp_subtype c of
                          Some st \<Rightarrow> Ret (Some (set_ppp_layer child (Some st) p)) | None \<Rightarrow> Ret None)
            | None \<Rightarrow> Ret (Some (set_ppp_layer child (ni_entity_type child) p)))
      else if t = kSCNetworkInterfaceTypeL2TP
      then Ret (if supports row doL2TP then Some (set_ip_layer t ''l2tp'' None p) else None)
      else if t = kSCNetworkInterfaceTypePPTP
      then Ret (if supports row doPPTP then Some (set_ip_layer t ''pptp'' None p) else None)
      else if t = kSCNetworkInterfaceType6to4
      then Ret (if supports row do6to4 then Some (set_ip_layer t ''6to4'' (Some ''stf0'') p) else None)
      else if t = kSCNetworkInterfaceTypeIPSec
      then Ret (if supports row doIPSec then Some (set_ip_layer t ''ipsec'' None p) else None)
      else if t = kSCNetworkInterfaceTypeVPN
      then (if row \<noteq> None then Ret None
            else case ni_entity_type child of
                   None \<Rightarrow> UB | Some et \<Rightarrow> Ret (Some (set_vpn_layer child et p)))
      else if CHR ''.'' \<in> set t
      then Ret (Some (p\<lparr>ni_interface_type := t, ni_entity_type := Some t\<rparr>))
      else Ret None)"

text \<open>What every layer takes from its child.\<close>

definition inherit_layer :: "if_fields \<Rightarrow> if_fields \<Rightarrow> if_fields" where
  "inherit_layer child p =
     p\<lparr>ni_registry := (ni_registry p)
         \<lparr>ni_hiddenConfiguration := ni_hiddenConfiguration (ni_registry child),
          ni_hiddenInterface := ni_hiddenInterface (ni_registry child),
          ni_overrides := ni_overrides (ni_registry child)\<rparr>,
       ni_sort_order :=
         (if ni_entity_subtype p = Some kSCValNetInterfaceSubTypePPPoE
          then (if ni_interface_type child = kSCNetworkInterfaceTypeIEEE80211 then kSortAirportPPP else kSortEthernetPPP)
          else ni_sort_order child)\<rparr>"

text \<open>\<open>vendors\<close> is the set of vendor type names that the library has met.\<close>

definition SCNetworkInterfaceCreateWithInterface ::
    "name_env \<Rightarrow> string list \<Rightarrow> scnif option \<Rightarrow> string option \<Rightarrow> ((sc_status + scnif) \<times> string list) outcome" where
  "SCNetworkInterfaceCreateWithInterface env vendors child interfaceType =
     (case (child, interfaceType) of
        (Some ch, Some t) \<Rightarrow>
          if SCNetworkInterfaceEqual env ch kSCNetworkInterfaceLoopback then Ret (Inl kSCStatusInvalidArgument, vendors)
          else let parent = SCNetworkInterfaceCreatePrivate (Some ch) (ni_prefs (ni ch)) (ni_serviceID (ni ch)) in
               obind (layer_fields (ni ch) t (ni parent)) (\<lambda>r. case r of
                 None \<Rightarrow> Ret (Inl kSCStatusInvalidArgument, vendors)
               | Some p \<Rightarrow>
                   Ret (Inr (upd_ni (\<lambda>_. inherit_layer (ni ch) p) parent),
                        if CHR ''.'' \<in> set t \<and> t \<notin> set vendors then t # vendors else vendors))
      | _ \<Rightarrow> Ret (Inl kSCStatusInvalidArgument, vendors))"

end
