(* ===== verification/NetLayerProps.thy ===== *)
theory NetLayerProps
  imports NetLayer
begin

text \<open>
  What the layering of interfaces promises: which types can be put on an interface, compared
  with the types that it lists as supported, and what the new layer has.
\<close>

section \<open>Rows of the table\<close>

text \<open>The types that the code puts on an interface although it does not list them.\<close>

definition unlisted_layer :: "string \<Rightarrow> string \<Rightarrow> bool" where
  "unlisted_layer child t \<longleftrightarrow>
     child = kSCNetworkInterfaceTypeIPv4 \<and> t = kSCNetworkInterfaceTypePPTP \<or>
     child = kSCNetworkInterfaceTypeVLAN \<and> t = kSCNetworkInterfaceTypePPP"

lemma flag_values:
  "doNone = 0" "do6to4 = 1" "doL2TP = 2" "doPPP = 4" "doPPTP = 8" "doIPSec = 16" "doOverIP = 27"
  by (simp_all add: do_defs)

lemma listed_sets:
  "set (if_types_of doOverIP) = {''6to4'', ''L2TP'', ''IPSec''}" "set (if_types_of doPPP) = {''PPP''}"
  "set (if_types_of doNone) = {}"
  by (simp_all add: if_types_of_def flag_values layer_type_defs)

definition over_ip :: "if_configuration \<Rightarrow> bool" where
  "over_ip c \<longleftrightarrow> cf_supported_interfaces c = doOverIP \<and> cf_interface_type c = ''IPv4'' \<and> cf_ppp_subtype c = None"

definition over_link :: "if_configuration \<Rightarrow> bool" where
  "over_link c \<longleftrightarrow> cf_interface_type c \<noteq> ''IPv4'' \<and>
     (cf_supported_interfaces c = doPPP \<and> cf_ppp_subtype c \<noteq> None \<and> cf_interface_type c \<noteq> ''VLAN'' \<or>
      cf_supported_interfaces c = doNone \<and> (cf_ppp_subtype c \<noteq> None \<longleftrightarrow> cf_interface_type c = ''VLAN''))"

lemma rows_kinds: "list_all (\<lambda>c. over_ip c \<or> over_link c) configurations"
  by (simp add: configurations_def over_ip_def over_link_def)

text \<open>What the code tests for a type on a row, and what it should be.\<close>

definition accepts :: "if_configuration \<Rightarrow> string \<Rightarrow> bool" where
  "accepts c t \<longleftrightarrow>
     (if t = kSCNetworkInterfaceTypePPP then cf_ppp_subtype c \<noteq> None
      else if t = kSCNetworkInterfaceTypeL2TP then supports (Some c) doL2TP
      else if t = kSCNetworkInterfaceTypePPTP then supports (Some c) doPPTP
      else if t = kSCNetworkInterfaceType6to4 then supports (Some c) do6to4
      else if t = kSCNetworkInterfaceTypeIPSec then supports (Some c) doIPSec else False)"

lemma accepts_listed:
  assumes "over_ip c \<or> over_link c"
  shows "accepts c t \<longleftrightarrow> t \<in> set (if_types_of (cf_supported_interfaces c)) \<or> unlisted_layer (cf_interface_type c) t"
  using assms
proof
  assume "over_ip c"
  then show ?thesis
    by (simp add: over_ip_def accepts_def supports_def unlisted_layer_def listed_sets layer_type_defs)
      (simp add: flag_values)
next
  assume c: "over_link c"
  then consider "cf_supported_interfaces c = doPPP" | "cf_supported_interfaces c = doNone"
    by (auto simp: over_link_def)
  then show ?thesis
  proof cases
    case 1
    with c show ?thesis
      by (simp add: over_link_def accepts_def supports_def unlisted_layer_def listed_sets layer_type_defs)
        (auto simp add: flag_values)
  next
    case 2
    with c show ?thesis
      by (simp add: over_link_def accepts_def supports_def unlisted_layer_def listed_sets layer_type_defs)
        (auto simp add: flag_values)
  qed
qed

lemma layer_fields_known:
  assumes "findConfiguration (ni_interface_type child) = Some c" "CHR ''.'' \<notin> set t"
  shows "\<exists>r. layer_fields child t p = Ret r \<and>
    (r \<noteq> None \<longleftrightarrow> t \<in> set (if_types_of (cf_supported_interfaces c)) \<or> unlisted_layer (ni_interface_type child) t)"
proof -
  from findConfiguration_row[OF assms(1)] rows_kinds
  have row: "over_ip c \<or> over_link c" and type: "cf_interface_type c = ni_interface_type child"
    by (auto simp: list_all_iff)
  have "\<exists>r. layer_fields child t p = Ret r \<and> (r \<noteq> None \<longleftrightarrow> accepts c t)"
    using assms by (auto simp: layer_fields_def accepts_def Let_def split: option.splits)
  then show ?thesis using accepts_listed[OF row, of t] type by simp
qed

lemma layer_fields_type: "layer_fields child t p = Ret (Some q) \<Longrightarrow> ni_interface_type q = t \<and> ni_prefs q = ni_prefs p \<and> ni_serviceID q = ni_serviceID p"
  by (auto simp: layer_fields_def Let_def set_ppp_layer_def set_ip_layer_def set_vpn_layer_def split: if_splits option.splits)

section \<open>Supported and possible layers\<close>

text \<open>
  C12. Layers and supported types agree. On an interface of a known type that is not
  the loopback interface, \<open>SCNetworkInterfaceCreateWithInterface\<close> accepts a standard type exactly when
  \<open>SCNetworkInterfaceGetSupportedInterfaceTypes\<close> lists it, with two exceptions that it accepts unlisted: PPTP on
  IPv4 and PPP on a VLAN. The new layer has that type, lies on the given interface and belongs to the
  same preferences and service.
\<close>

theorem SCNetworkInterfaceCreateWithInterface_supported:
  assumes "findConfiguration (ni_interface_type (ni child)) = Some c" "ni_supported_interface_types (ni child) = None"
    and "\<not> SCNetworkInterfaceEqual env child kSCNetworkInterfaceLoopback" "CHR ''.'' \<notin> set t"
  shows "\<exists>r. SCNetworkInterfaceCreateWithInterface env vendors (Some child) (Some t) = Ret (r, vendors) \<and>
    (if (case fst (SCNetworkInterfaceGetSupportedInterfaceTypes env child) of None \<Rightarrow> False | Some ts \<Rightarrow> t \<in> set ts) \<or>
        unlisted_layer (ni_interface_type (ni child)) t
     then \<exists>i. r = Inr i \<and> ni_interface_type (ni i) = t \<and> ni_interface i = Some child \<and>
            ni_prefs (ni i) = ni_prefs (ni child) \<and> ni_serviceID (ni i) = ni_serviceID (ni child)
     else r = Inl kSCStatusInvalidArgument)"
proof -
  let ?parent = "SCNetworkInterfaceCreatePrivate (Some child) (ni_prefs (ni child)) (ni_serviceID (ni child))"
  obtain r where r: "layer_fields (ni child) t (ni ?parent) = Ret r"
      "r \<noteq> None \<longleftrightarrow> t \<in> set (if_types_of (cf_supported_interfaces c)) \<or> unlisted_layer (ni_interface_type (ni child)) t"
    using layer_fields_known[OF assms(1,4)] by blast
  have listed: "(case fst (SCNetworkInterfaceGetSupportedInterfaceTypes env child) of None \<Rightarrow> False | Some ts \<Rightarrow> t \<in> set ts) \<longleftrightarrow>
      t \<in> set (if_types_of (cf_supported_interfaces c))"
    using assms(1,2)
    by (auto simp: SCNetworkInterfaceGetSupportedInterfaceTypes_def Let_def if_types_of_def doNone_def)
  show ?thesis
  proof (cases r)
    case None
    with r listed assms show ?thesis by (auto simp: SCNetworkInterfaceCreateWithInterface_def Let_def)
  next
    case (Some p)
    with r listed assms layer_fields_type[of "ni child" t "ni ?parent" p] show ?thesis
      by (auto simp: SCNetworkInterfaceCreateWithInterface_def Let_def inherit_layer_def SCNetworkInterfaceCreatePrivate_def)
  qed
qed

definition plain_names :: name_env where
  "plain_names = \<lparr>ne_bundle = False, ne_string = \<lambda>_ _. None, ne_format = \<lambda>f _ _. f, ne_entity = \<lambda>_ _. None\<rparr>"

lemma SCNetworkInterfaceCreateWithInterface_supported_witness:
  "\<exists>r. SCNetworkInterfaceCreateWithInterface plain_names [] (Some kSCNetworkInterfaceIPv4) (Some ''L2TP'') = Ret (r, []) \<and>
    (\<exists>i. r = Inr i \<and> ni_interface_type (ni i) = ''L2TP'' \<and> ni_interface i = Some kSCNetworkInterfaceIPv4)"
proof -
  have "findConfiguration (ni_interface_type (ni kSCNetworkInterfaceIPv4)) = Some (if_row ''IPv4'' None False doOverIP None doNone)"
    by (simp add: kSCNetworkInterfaceIPv4_def static_interface_def findConfiguration_def configurations_def layer_type_defs)
  moreover have "ni_supported_interface_types (ni kSCNetworkInterfaceIPv4) = None"
    by (simp add: kSCNetworkInterfaceIPv4_def static_interface_def SCNetworkInterfaceCreatePrivate_def)
  moreover have "\<not> SCNetworkInterfaceEqual plain_names kSCNetworkInterfaceIPv4 kSCNetworkInterfaceLoopback"
    by (simp add: kSCNetworkInterfaceIPv4_def kSCNetworkInterfaceLoopback_def static_interface_def
        SCNetworkInterfaceCreatePrivate_def layer_type_defs)
  moreover have "''L2TP'' \<in> set (the (fst (SCNetworkInterfaceGetSupportedInterfaceTypes plain_names kSCNetworkInterfaceIPv4)))"
      "fst (SCNetworkInterfaceGetSupportedInterfaceTypes plain_names kSCNetworkInterfaceIPv4) \<noteq> None"
    by code_simp+
  ultimately show ?thesis
    using SCNetworkInterfaceCreateWithInterface_supported[of kSCNetworkInterfaceIPv4 _ plain_names "''L2TP''" "[]"]
    by (auto split: option.splits)
qed

text \<open>PPP can be put on a VLAN, which lists no layers at all.\<close>

lemma ppp_on_vlan:
  "fst (SCNetworkInterfaceGetSupportedInterfaceTypes plain_names
     (upd_ni (\<lambda>a. a\<lparr>ni_interface_type := ''VLAN''\<rparr>) (SCNetworkInterfaceCreatePrivate None None None))) = None"
  "layer_fields (ni (upd_ni (\<lambda>a. a\<lparr>ni_interface_type := ''VLAN''\<rparr>) (SCNetworkInterfaceCreatePrivate None None None))) ''PPP'' p \<noteq>
     Ret None"
  by (simp_all add: SCNetworkInterfaceGetSupportedInterfaceTypes_def layer_fields_def findConfiguration_def configurations_def
      SCNetworkInterfaceCreatePrivate_def layer_type_defs doNone_def)

end
