(* ===== verification/ConfigValues.thy ===== *)
theory ConfigValues
  imports Prefs
begin

text \<open>
  Stored configuration values (SCNetworkConfigurationInternal.c): reading and writing with the
  inactive flag, templates, the first child for old clients, passwords, and service ranks.

  The preference store is \<open>path_ops\<close>; what \<open>SCError()\<close> reports after one of its calls failed
  is the function \<open>err\<close>. Keychain calls answer through \<open>keychain_ops\<close>, the resources of the
  framework's bundle through \<open>template_env\<close>.
\<close>

section \<open>Values and the inactive flag\<close>

definition kSCResvInactive :: string where "kSCResvInactive = ''__INACTIVE__''"

definition isEffectivelyEmptyConfiguration :: "plist option \<Rightarrow> bool" where
  "isEffectivelyEmptyConfiguration config =
     (case isA_CFDictionary config of
        None \<Rightarrow> True
      | Some d \<Rightarrow> fcard (fmdom d) = 0 \<or> (fcard (fmdom d) = 1 \<and> fmlookup d kSCResvInactive \<noteq> None))"

definition SCNetworkConfigurationGetValue :: "'p path_ops \<Rightarrow> 'p \<Rightarrow> path \<Rightarrow> plist option" where
  "SCNetworkConfigurationGetValue ops s path =
     (let config = path_get ops s path in if isEffectivelyEmptyConfiguration config then None else config)"

text \<open>Writing a changed value, or removing it; a missing key is no error when removing.\<close>

definition config_store ::
    "'p path_ops \<Rightarrow> ('p \<Rightarrow> path \<Rightarrow> sc_status) \<Rightarrow> 'p \<Rightarrow> path \<Rightarrow> dict option \<Rightarrow> bool \<times> sc_status \<times> 'p" where
  "config_store ops err s path newConfig =
     (case newConfig of
        Some d \<Rightarrow> (case path_set ops s path (CFDictionary d) of
                    None \<Rightarrow> (False, err s path, s) | Some s' \<Rightarrow> (True, kSCStatusOK, s'))
      | None \<Rightarrow> (case path_remove ops s path of
                   None \<Rightarrow> (err s path = kSCStatusNoKey, err s path, s) | Some s' \<Rightarrow> (True, kSCStatusOK, s')))"

definition has_inactive :: "dict option \<Rightarrow> bool" where
  "has_inactive d = (case d of None \<Rightarrow> False | Some m \<Rightarrow> fmlookup m kSCResvInactive \<noteq> None)"

definition SCNetworkConfigurationSetValue ::
    "'p path_ops \<Rightarrow> ('p \<Rightarrow> path \<Rightarrow> sc_status) \<Rightarrow> 'p \<Rightarrow> path \<Rightarrow> plist option \<Rightarrow> bool \<Rightarrow> bool \<times> sc_status \<times> 'p" where
  "SCNetworkConfigurationSetValue ops err s path config keepInactive =
     (if config \<noteq> None \<and> isA_CFDictionary config = None then (False, kSCStatusInvalidArgument, s)
      else let curConfig = isA_CFDictionary (path_get ops s path);
               new0 = isA_CFDictionary config;
               newConfig = (if \<not> keepInactive then new0
                 else let base = (case new0 of None \<Rightarrow> fmempty | Some d \<Rightarrow> d) in
                      if has_inactive curConfig then Some (fmupd kSCResvInactive (CFBoolean True) base)
                      else Some (fmdrop kSCResvInactive base))
           in if curConfig = newConfig then (True, kSCStatusOK, s)
              else config_store ops err s path newConfig)"

definition getPrefsEnabled :: "'p path_ops \<Rightarrow> 'p \<Rightarrow> path \<Rightarrow> bool" where
  "getPrefsEnabled ops s path \<longleftrightarrow> \<not> has_inactive (isA_CFDictionary (path_get ops s path))"

definition setPrefsEnabled ::
    "'p path_ops \<Rightarrow> ('p \<Rightarrow> path \<Rightarrow> sc_status) \<Rightarrow> 'p \<Rightarrow> path \<Rightarrow> bool \<Rightarrow> bool \<times> sc_status \<times> 'p" where
  "setPrefsEnabled ops err s path enabled =
     (let cur = path_get ops s path in
      if cur \<noteq> None \<and> isA_CFDictionary cur = None then (False, kSCStatusFailed, s)
      else let newConfig = (case isA_CFDictionary cur of
                 Some d \<Rightarrow> Some (if enabled then fmdrop kSCResvInactive d
                                 else fmupd kSCResvInactive (CFBoolean True) d)
               | None \<Rightarrow> if enabled then None else Some (fmupd kSCResvInactive (CFBoolean True) fmempty))
           in if isA_CFDictionary cur = newConfig then (True, kSCStatusOK, s)
              else config_store ops err s path newConfig)"

section \<open>Templates\<close>

record template_env =
  te_bundle :: bool
  te_resource :: "string option"
  te_fallback :: "string option"
  te_load :: "string \<Rightarrow> plist option"

definition copyTemplates :: "template_env \<Rightarrow> dict option" where
  "copyTemplates te =
     (if \<not> te_bundle te then None
      else case (case te_resource te of None \<Rightarrow> te_fallback te | Some u \<Rightarrow> Some u) of
             None \<Rightarrow> None
           | Some url \<Rightarrow> isA_CFDictionary (te_load te url))"

text \<open>The key of a template; the name of a vendor type has a dot in it.\<close>

definition expanded_type :: "string \<Rightarrow> string option \<Rightarrow> string" where
  "expanded_type interfaceType child =
     (case child of
        None \<Rightarrow> interfaceType
      | Some c \<Rightarrow> interfaceType @ ''-'' @ (if CHR ''.'' \<in> set c then ''*'' else c))"

definition template_section :: "template_env \<Rightarrow> string \<Rightarrow> string \<Rightarrow> string option \<Rightarrow> dict option" where
  "template_section te sec interfaceType child =
     (case copyTemplates te of
        None \<Rightarrow> None
      | Some templates \<Rightarrow>
          (case isA_CFDictionary (fmlookup templates sec) of
             None \<Rightarrow> None
           | Some entries \<Rightarrow> isA_CFDictionary (fmlookup entries (expanded_type interfaceType child))))"

definition copyInterfaceTemplate :: "template_env \<Rightarrow> string \<Rightarrow> string option \<Rightarrow> dict option" where
  "copyInterfaceTemplate te interfaceType child =
     (case template_section te ''Interface'' interfaceType child of
        None \<Rightarrow> None | Some d \<Rightarrow> if fcard (fmdom d) > 0 then Some d else None)"

definition copyProtocolTemplate :: "template_env \<Rightarrow> string \<Rightarrow> string option \<Rightarrow> string \<Rightarrow> dict option" where
  "copyProtocolTemplate te interfaceType child protocolType =
     (case template_section te ''Protocol'' interfaceType child of
        None \<Rightarrow> None | Some d \<Rightarrow> isA_CFDictionary (fmlookup d protocolType))"

section \<open>The first child for old clients\<close>

text \<open>
  The setting is read on the first call only (\<open>hack\<close> is \<open>None\<close> before it); the result has the
  setting, the new path and the store.
\<close>

definition unique_child_moreSCF ::
    "'p path_ops \<Rightarrow> ('p \<Rightarrow> string \<Rightarrow> plist option) \<Rightarrow> bool option \<Rightarrow> 'p \<Rightarrow> path \<Rightarrow> bool \<times> path option \<times> 'p" where
  "unique_child_moreSCF ops get_value hack s prefix_path =
     (let h = (case hack of Some h \<Rightarrow> h | None \<Rightarrow> isA_CFBoolean (get_value s ''MoreSCF'') = Some True) in
      if \<not> h then (h, None, s)
      else let path = prefix_path @ [''0''] in
           if path_get ops s path \<noteq> None then (h, None, s)
           else case path_set ops s path (CFDictionary fmempty) of
                  None \<Rightarrow> (h, None, s) | Some s' \<Rightarrow> (h, Some path, s'))"

section \<open>Passwords\<close>

text \<open>Conversions of CoreFoundation: UTF-16 bytes (big endian or not) to text, text to UTF-8.\<close>

record text_ops =
  to_decode16 :: "bool \<Rightarrow> uint8 list \<Rightarrow> string option"
  to_utf8 :: "string \<Rightarrow> uint8 list option"

text \<open>
  On a little-endian host. The byte order is guessed from the first byte, which empty data does
  not have; text that could not be decoded is NULL where a string is needed. Both are \<open>UB\<close>.
\<close>

definition copy_legacy_password :: "text_ops \<Rightarrow> plist option \<Rightarrow> uint8 list option outcome" where
  "copy_legacy_password to password =
     (case password of
        Some (CFData bytes) \<Rightarrow>
          if length bytes mod 2 = 0
          then (case bytes of
                  [] \<Rightarrow> UB
                | b # _ \<Rightarrow> (case to_decode16 to (b = 0) bytes of None \<Rightarrow> UB | Some str \<Rightarrow> Ret (to_utf8 to str)))
          else Ret None
      | Some (CFString str) \<Rightarrow> Ret (if str \<noteq> [] then to_utf8 to str else None)
      | _ \<Rightarrow> Ret None)"

text \<open>The keychains: \<open>True\<close> is the system keychain, used when there are preferences.\<close>

record 'k keychain_ops =
  kc_copy :: "'k \<Rightarrow> bool \<Rightarrow> string \<Rightarrow> uint8 list option"
  kc_exists :: "'k \<Rightarrow> bool \<Rightarrow> string \<Rightarrow> bool"
  kc_remove :: "'k \<Rightarrow> bool \<Rightarrow> string \<Rightarrow> 'k option"

record password_keys =
  pk_password :: string
  pk_encryption :: string
  pk_keychain :: string

definition password_encryption :: "password_keys \<Rightarrow> dict option \<Rightarrow> plist option" where
  "password_encryption pk config = (case config of None \<Rightarrow> None | Some d \<Rightarrow> fmlookup d (pk_encryption pk))"

definition uses_keychain :: "password_keys \<Rightarrow> dict option \<Rightarrow> bool" where
  "uses_keychain pk config \<longleftrightarrow>
     (case password_encryption pk config of None \<Rightarrow> True | Some e \<Rightarrow> e = CFString (pk_keychain pk))"

definition inline_password :: "text_ops \<Rightarrow> password_keys \<Rightarrow> dict option \<Rightarrow> uint8 list option outcome" where
  "inline_password to pk config =
     (case config of
        Some d \<Rightarrow> if password_encryption pk config = None then copy_legacy_password to (fmlookup d (pk_password pk))
                   else Ret None
      | None \<Rightarrow> Ret None)"

text \<open>\<open>want\<close> says whether the caller asks for the password or only whether there is one.\<close>

definition extract_password ::
    "'k keychain_ops \<Rightarrow> text_ops \<Rightarrow> password_keys \<Rightarrow> 'k \<Rightarrow> bool \<Rightarrow> dict option \<Rightarrow> string \<Rightarrow> bool \<Rightarrow>
     (bool \<times> uint8 list option) outcome" where
  "extract_password kc to pk k sys config unique_id want =
     (let (ex, pw) = (if \<not> uses_keychain pk config then (False, None)
                      else if want then (kc_copy kc k sys unique_id \<noteq> None, kc_copy kc k sys unique_id)
                      else (kc_exists kc k sys unique_id, None))
      in if ex then Ret (True, pw)
         else obind (inline_password to pk config) (\<lambda>p.
                Ret (p \<noteq> None, if want then p else None)))"

definition remove_password ::
    "'k keychain_ops \<Rightarrow> text_ops \<Rightarrow> password_keys \<Rightarrow> 'k \<Rightarrow> bool \<Rightarrow> dict option \<Rightarrow> string \<Rightarrow>
     (bool \<times> 'k \<times> dict option) outcome" where
  "remove_password kc to pk k sys config unique_id =
     (let (ok, k') = (if \<not> uses_keychain pk config then (False, k)
                      else case kc_remove kc k sys unique_id of None \<Rightarrow> (False, k) | Some k' \<Rightarrow> (True, k'));
          newConfig = map_option (\<lambda>d. fmdrop (pk_encryption pk) (fmdrop (pk_password pk) d)) config
      in if ok then Ret (True, k', newConfig)
         else obind (inline_password to pk config) (\<lambda>p.
                Ret (p \<noteq> None, k', if p \<noteq> None then newConfig else None)))"

section \<open>Service ranks\<close>

datatype service_rank = RankDefault | RankFirst | RankLast | RankNever | RankScoped | Rank_other uint32

definition rank_to_str :: "service_rank \<Rightarrow> string option option" where
  "rank_to_str rank =
     (case rank of
        RankDefault \<Rightarrow> Some None | RankFirst \<Rightarrow> Some (Some ''First'') | RankLast \<Rightarrow> Some (Some ''Last'')
      | RankNever \<Rightarrow> Some (Some ''Never'') | RankScoped \<Rightarrow> Some (Some ''Scoped'') | Rank_other _ \<Rightarrow> None)"

definition str_to_rank :: "plist option \<Rightarrow> service_rank option" where
  "str_to_rank rankStr =
     (case rankStr of
        None \<Rightarrow> Some RankDefault
      | Some (CFString s) \<Rightarrow>
          if s = ''First'' then Some RankFirst else if s = ''Last'' then Some RankLast
          else if s = ''Never'' then Some RankNever else if s = ''Scoped'' then Some RankScoped else None
      | Some _ \<Rightarrow> None)"

end
