(* ===== verification/NetConfig.thy ===== *)
theory NetConfig
  imports NetLayer ConfigValues Bond
begin

text \<open>
  The configuration of an interface (SCNetworkInterface.c): where it is stored, reading and writing one
  type of it, and the configuration of all the layers.

  The configuration is kept for the service, or, for the types whose row says so, for every set that has the
  service. What the code does not contain answers through \<open>if_env\<close>: the sets with the services of each
  (\<open>None\<close> when they cannot be copied), and the two functions that write a path, which give
  NULL for names they cannot use. A missing argument of CoreFoundation is \<open>UB\<close>.
\<close>

section \<open>Types and paths\<close>

record 'p if_env =
  ie_ops :: "'p path_ops"
  ie_err :: "'p \<Rightarrow> path \<Rightarrow> sc_status"
  ie_sets :: "'p \<Rightarrow> (string \<times> scnservice list option) list option"
  ie_set_path :: "string \<Rightarrow> string option \<Rightarrow> string option \<Rightarrow> path option"
  ie_service_path :: "string option \<Rightarrow> string option \<Rightarrow> path option"

definition GetDefaultConfigurationType :: "scnif \<Rightarrow> sc_status + string" where
  "GetDefaultConfigurationType i =
     (if ni_serviceID (ni i) = None then Inl kSCStatusInvalidArgument
      else case findConfiguration (ni_interface_type (ni i)) of
             None \<Rightarrow> Inr (ni_interface_type (ni i))
           | Some c \<Rightarrow> (case cf_entity_hardware c of
                         Some e \<Rightarrow> Inr e | None \<Rightarrow> Inl kSCStatusInvalidArgument))"

definition is_ppp_l2tp :: "scnif \<Rightarrow> bool" where
  "is_ppp_l2tp i \<longleftrightarrow>
     ni_interface_type (ni i) = kSCNetworkInterfaceTypePPP \<and>
     (case ni_interface i of None \<Rightarrow> False | Some child \<Rightarrow> ni_interface_type (ni child) = kSCNetworkInterfaceTypeL2TP)"

definition IsValidExtendedConfigurationType :: "scnif \<Rightarrow> string \<Rightarrow> bool \<Rightarrow> bool" where
  "IsValidExtendedConfigurationType i extendedType requirePerInterface =
     (case GetDefaultConfigurationType i of
        Inl _ \<Rightarrow> False
      | Inr defaultType \<Rightarrow>
          if extendedType = defaultType then False
          else case findConfiguration (ni_interface_type (ni i)) of
                 None \<Rightarrow> False
               | Some c \<Rightarrow>
                   let isL2TP = (extendedType = kSCEntNetIPSec \<and> is_ppp_l2tp i) in
                   if requirePerInterface \<and> \<not> cf_per_interface_config c \<and> \<not> isL2TP then False
                   else if findConfiguration extendedType \<noteq> None \<and> \<not> isL2TP then False
                   else True)"

definition findPerInterfaceConfiguration :: "scnif \<Rightarrow> if_configuration option" where
  "findPerInterfaceConfiguration i =
     (case findConfiguration (ni_interface_type (ni i)) of
        None \<Rightarrow> None | Some c \<Rightarrow> if cf_per_interface_config c then Some c else None)"

definition addExtendedConfigurationType :: "string \<Rightarrow> string \<Rightarrow> string list \<Rightarrow> string list" where
  "addExtendedConfigurationType defaultType key types =
     (if key = defaultType \<or> key \<in> set types then types else types @ [key])"

definition add_config_keys :: "string \<Rightarrow> dict option \<Rightarrow> string list \<Rightarrow> string list" where
  "add_config_keys defaultType d types =
     (case d of None \<Rightarrow> types
      | Some m \<Rightarrow> fold (\<lambda>(k, _). addExtendedConfigurationType defaultType k) (dict_entries m) types)"

text \<open>The service that stands for the interface when the sets are searched.\<close>

definition own_service :: "scnif \<Rightarrow> scnservice" where
  "own_service i = SCNetworkServiceCreatePrivate (ni_prefs (ni i)) (case ni_serviceID (ni i) of None \<Rightarrow> '''' | Some s \<Rightarrow> s) (Some i)"

definition set_has_service :: "scnservice list option \<Rightarrow> scnif \<Rightarrow> bool outcome" where
  "set_has_service services i =
     (case services of None \<Rightarrow> UB | Some l \<Rightarrow> Ret (\<exists>x \<in> set l. SCNetworkServiceEqual (own_service i) x))"

text \<open>The first set that has the service decides.\<close>

fun extended_types_of_sets ::
    "'p if_env \<Rightarrow> 'p \<Rightarrow> scnif \<Rightarrow> string \<Rightarrow> (string \<times> scnservice list option) list \<Rightarrow> string list outcome" where
  "extended_types_of_sets env s i defaultType [] = Ret []"
| "extended_types_of_sets env s i defaultType ((setID, services) # sets) =
     obind (set_has_service services i) (\<lambda>found.
       if \<not> found then extended_types_of_sets env s i defaultType sets
       else case ie_set_path env setID (ni_entity_device (ni i)) None of
              None \<Rightarrow> UB
            | Some path \<Rightarrow>
                Ret (add_config_keys defaultType (ni_unsaved (ni i))
                      (add_config_keys defaultType
                        (isA_CFDictionary (SCNetworkConfigurationGetValue (ie_ops env) s path)) [])))"

definition extendedConfigurationTypes :: "'p if_env \<Rightarrow> 'p \<Rightarrow> scnif \<Rightarrow> string list option outcome" where
  "extendedConfigurationTypes env s i =
     (case GetDefaultConfigurationType i of
        Inl _ \<Rightarrow> Ret None
      | Inr defaultType \<Rightarrow>
          if ni_serviceID (ni i) = None \<or> findPerInterfaceConfiguration i = None then Ret (Some [])
          else obind (extended_types_of_sets env s i defaultType (case ie_sets env s of None \<Rightarrow> [] | Some l \<Rightarrow> l))
                 (\<lambda>types. Ret (Some types)))"

fun per_interface_paths ::
    "'p if_env \<Rightarrow> scnif \<Rightarrow> string option \<Rightarrow> (string \<times> scnservice list option) list \<Rightarrow> path list outcome" where
  "per_interface_paths env i extendedType [] = Ret []"
| "per_interface_paths env i extendedType ((setID, services) # sets) =
     obind (set_has_service services i) (\<lambda>found.
       if \<not> found then per_interface_paths env i extendedType sets
       else case ie_set_path env setID (ni_entity_device (ni i)) extendedType of
              None \<Rightarrow> UB
            | Some path \<Rightarrow> obind (per_interface_paths env i extendedType sets) (\<lambda>l. Ret (path # l)))"

text \<open>Without such a set there is no array.\<close>

definition copyPerInterfaceConfigurationPaths :: "'p if_env \<Rightarrow> 'p \<Rightarrow> scnif \<Rightarrow> string option \<Rightarrow> path list option outcome" where
  "copyPerInterfaceConfigurationPaths env s i extendedType =
     obind (per_interface_paths env i extendedType (case ie_sets env s of None \<Rightarrow> [] | Some l \<Rightarrow> l))
       (\<lambda>l. Ret (if l = [] then None else Some l))"

definition copyConfigurationPaths :: "'p if_env \<Rightarrow> 'p \<Rightarrow> scnif \<Rightarrow> string option \<Rightarrow> path list option outcome" where
  "copyConfigurationPaths env s i extendedType =
     (case findPerInterfaceConfiguration i of
        None \<Rightarrow> (case ie_service_path env (ni_serviceID (ni i)) extendedType of
                   None \<Rightarrow> UB | Some path \<Rightarrow> Ret (Some [path]))
      | Some _ \<Rightarrow> if ni_serviceID (ni i) \<noteq> None then copyPerInterfaceConfigurationPaths env s i extendedType
                  else Ret None)"

section \<open>Reading\<close>

definition unsaved_config :: "scnif \<Rightarrow> string \<Rightarrow> plist option" where
  "unsaved_config i t =
     (case ni_unsaved (ni i) of
        None \<Rightarrow> None
      | Some u \<Rightarrow> (case fmlookup u t of Some CFNull \<Rightarrow> None | r \<Rightarrow> r))"

definition drop_empty :: "plist option \<Rightarrow> plist option" where
  "drop_empty config = (if isA_CFDictionary config = Some fmempty then None else config)"

definition GetDefaultConfiguration :: "'p if_env \<Rightarrow> 'p \<Rightarrow> string option \<Rightarrow> scnif \<Rightarrow> plist option" where
  "GetDefaultConfiguration env s setID i =
     (case (GetDefaultConfigurationType i, setID) of
        (Inr defaultType, Some sid) \<Rightarrow>
          (case ie_set_path env sid (ni_entity_device (ni i)) (Some defaultType) of
             None \<Rightarrow> None
           | Some path \<Rightarrow>
               drop_empty (case SCNetworkConfigurationGetValue (ie_ops env) s path of
                             None \<Rightarrow> unsaved_config i defaultType | Some c \<Rightarrow> Some c))
      | _ \<Rightarrow> None)"

definition GetConfiguration :: "'p if_env \<Rightarrow> 'p \<Rightarrow> scnif \<Rightarrow> string \<Rightarrow> plist option outcome" where
  "GetConfiguration env s i extendedType =
     obind (copyConfigurationPaths env s i (Some extendedType)) (\<lambda>paths. Ret (drop_empty (case paths of
         Some l \<Rightarrow> SCNetworkConfigurationGetValue (ie_ops env) s (hd l)
       | None \<Rightarrow> unsaved_config i extendedType)))"

text \<open>The two public functions, compiled with \<open>FULL_COMP\<close>; the status is what they leave in \<open>SCError\<close>.\<close>

definition SCNetworkInterfaceGetConfiguration ::
    "'p if_env \<Rightarrow> 'p \<Rightarrow> scnif option \<Rightarrow> (plist option \<times> sc_status option) outcome" where
  "SCNetworkInterfaceGetConfiguration env s interface =
     (case interface of
        None \<Rightarrow> Ret (None, Some kSCStatusInvalidArgument)
      | Some i \<Rightarrow>
          (case GetDefaultConfigurationType i of
             Inl st \<Rightarrow> Ret (None, Some st)
           | Inr defaultType \<Rightarrow>
               obind (GetConfiguration env s i defaultType) (\<lambda>config.
                 obind (if config = None \<and> defaultType = kSCEntNetAirPort
                        then (case ie_service_path env (ni_serviceID (ni i)) (Some kSCEntNetAirPort) of
                                None \<Rightarrow> UB
                              | Some path \<Rightarrow> Ret (SCNetworkConfigurationGetValue (ie_ops env) s path))
                        else Ret config)
                   (\<lambda>c. Ret (c, if c = None then Some kSCStatusOK else None)))))"

definition SCNetworkInterfaceGetExtendedConfiguration ::
    "'p if_env \<Rightarrow> 'p \<Rightarrow> scnif option \<Rightarrow> string \<Rightarrow> (plist option \<times> sc_status option) outcome" where
  "SCNetworkInterfaceGetExtendedConfiguration env s interface extendedType =
     (case interface of
        None \<Rightarrow> Ret (None, Some kSCStatusInvalidArgument)
      | Some i \<Rightarrow>
          if \<not> IsValidExtendedConfigurationType i extendedType True then Ret (None, Some kSCStatusInvalidArgument)
          else obind (GetConfiguration env s i extendedType)
                 (\<lambda>c. Ret (c, if c = None then Some kSCStatusOK else None)))"

section \<open>Writing\<close>

text \<open>The result of a write: success, the status, the interface with what it holds unsaved, the store.\<close>

type_synonym 'p if_write = "bool \<times> sc_status \<times> scnif \<times> 'p"

definition forget_unsaved :: "string \<Rightarrow> scnif \<Rightarrow> scnif" where
  "forget_unsaved t = upd_ni (\<lambda>a. a\<lparr>ni_unsaved :=
     (case ni_unsaved a of None \<Rightarrow> None
      | Some u \<Rightarrow> if fmdrop t u = fmempty then None else Some (fmdrop t u))\<rparr>)"

definition hold_unsaved :: "string \<Rightarrow> plist option \<Rightarrow> scnif \<Rightarrow> scnif" where
  "hold_unsaved t config = upd_ni (\<lambda>a. a\<lparr>ni_unsaved :=
     Some (fmupd t (case config of None \<Rightarrow> CFNull | Some c \<Rightarrow> c) (case ni_unsaved a of None \<Rightarrow> fmempty | Some u \<Rightarrow> u))\<rparr>)"

definition SetDefaultConfiguration ::
    "'p if_env \<Rightarrow> string option \<Rightarrow> scnif \<Rightarrow> string option \<Rightarrow> plist option \<Rightarrow> bool \<Rightarrow> 'p \<Rightarrow> 'p if_write" where
  "SetDefaultConfiguration env setID i type0 config0 okToHold s =
     (case (case type0 of None \<Rightarrow> GetDefaultConfigurationType i | Some t \<Rightarrow> Inr t) of
        Inl st \<Rightarrow> (False, st, i, s)
      | Inr defaultType \<Rightarrow>
          let config = drop_empty config0 in
          (case setID of
             None \<Rightarrow> (False, kSCStatusOK, i, s)
           | Some sid \<Rightarrow>
               (case ie_set_path env sid (ni_entity_device (ni i)) (Some defaultType) of
                  Some path \<Rightarrow>
                    (case SCNetworkConfigurationSetValue (ie_ops env) (ie_err env) s path config False of
                       (ok, st, s') \<Rightarrow> (ok, st, if ok then forget_unsaved defaultType i else i, s'))
                | None \<Rightarrow> if okToHold then (True, kSCStatusOK, hold_unsaved defaultType config i, s)
                          else (False, kSCStatusNoKey, i, s))))"

fun set_all_paths ::
    "'p if_env \<Rightarrow> plist option \<Rightarrow> path list \<Rightarrow> 'p \<Rightarrow> bool \<times> sc_status \<times> 'p" where
  "set_all_paths env config [] s = (True, kSCStatusOK, s)"
| "set_all_paths env config (path # paths) s =
     (case SCNetworkConfigurationSetValue (ie_ops env) (ie_err env) s path config False of
        (ok, st, s') \<Rightarrow> if \<not> ok then (False, st, s') else set_all_paths env config paths s')"

definition SetConfiguration ::
    "'p if_env \<Rightarrow> scnif \<Rightarrow> string option \<Rightarrow> plist option \<Rightarrow> bool \<Rightarrow> 'p \<Rightarrow> 'p if_write outcome" where
  "SetConfiguration env i type0 config0 okToHold s =
     (case (case type0 of None \<Rightarrow> GetDefaultConfigurationType i | Some t \<Rightarrow> Inr t) of
        Inl st \<Rightarrow> Ret (False, st, i, s)
      | Inr extendedType \<Rightarrow>
          let config = drop_empty config0 in
          obind (copyConfigurationPaths env s i (Some extendedType)) (\<lambda>paths. Ret (case paths of
              Some l \<Rightarrow> (case set_all_paths env config l s of
                           (ok, st, s') \<Rightarrow> (ok, st, if ok then forget_unsaved extendedType i else i, s'))
            | None \<Rightarrow> if okToHold then (True, kSCStatusOK, hold_unsaved extendedType config i, s)
                      else (False, kSCStatusNoKey, i, s))))"

section \<open>All layers\<close>

text \<open>An absent configuration is copied as the null object.\<close>

definition or_null :: "plist option \<Rightarrow> plist" where
  "or_null config = (case config of None \<Rightarrow> CFNull | Some c \<Rightarrow> c)"

definition add_extended_config :: "'p if_env \<Rightarrow> 'p \<Rightarrow> scnif \<Rightarrow> string \<Rightarrow> dict \<Rightarrow> dict outcome" where
  "add_extended_config env s i t d =
     obind (GetConfiguration env s i t) (\<lambda>config. Ret (fmupd t (or_null config) d))"

definition layer_configuration :: "'p if_env \<Rightarrow> 'p \<Rightarrow> string option \<Rightarrow> scnif \<Rightarrow> dict outcome" where
  "layer_configuration env s setID i =
     (case GetDefaultConfigurationType i of
        Inl _ \<Rightarrow> Ret fmempty
      | Inr defaultType \<Rightarrow>
          obind (case setID of None \<Rightarrow> GetConfiguration env s i defaultType
                 | Some _ \<Rightarrow> Ret (GetDefaultConfiguration env s setID i)) (\<lambda>config.
            obind (extendedConfigurationTypes env s i) (\<lambda>types.
              ofold (add_extended_config env s i) (case types of None \<Rightarrow> [] | Some l \<Rightarrow> l)
                (fmupd defaultType (or_null config) fmempty))))"

fun CopyDeepConfiguration :: "'p if_env \<Rightarrow> 'p \<Rightarrow> string option \<Rightarrow> scnif \<Rightarrow> dict list outcome" where
  "CopyDeepConfiguration env s setID (SCNetif a l b r v) =
     obind (layer_configuration env s setID (SCNetif a l b r v)) (\<lambda>c.
       obind (case l of None \<Rightarrow> Ret [] | Some child \<Rightarrow> CopyDeepConfiguration env s setID child)
         (\<lambda>cs. Ret (c # cs)))"

text \<open>The configuration of one type in a copied dictionary.\<close>

definition copied_config :: "dict option \<Rightarrow> string \<Rightarrow> plist option" where
  "copied_config ic t =
     (case ic of None \<Rightarrow> None | Some d \<Rightarrow> (case fmlookup d t of Some CFNull \<Rightarrow> None | r \<Rightarrow> r))"

definition set_extended :: "'p if_env \<Rightarrow> dict option \<Rightarrow> string \<Rightarrow> scnif \<times> 'p \<Rightarrow> (scnif \<times> 'p) outcome" where
  "set_extended env ic t st =
     (case st of (i, s) \<Rightarrow> obind (SetConfiguration env i (Some t) (copied_config ic t) True s)
        (\<lambda>(_, _, i', s'). Ret (i', s')))"

text \<open>Failures are logged only.\<close>

definition set_layer :: "'p if_env \<Rightarrow> string option \<Rightarrow> dict option \<Rightarrow> scnif \<Rightarrow> 'p \<Rightarrow> (scnif \<times> 'p) outcome" where
  "set_layer env setID ic i s =
     (case GetDefaultConfigurationType i of
        Inl _ \<Rightarrow> Ret (i, s)
      | Inr defaultType \<Rightarrow>
          let config = copied_config ic defaultType in
          obind (case setID of
                   None \<Rightarrow> SetConfiguration env i (Some defaultType) config True s
                 | Some _ \<Rightarrow> Ret (SetDefaultConfiguration env setID i (Some defaultType) config True s))
            (\<lambda>(_, _, i1, s1).
               obind (extendedConfigurationTypes env s1 i1) (\<lambda>types.
                 ofold (set_extended env ic) (case types of None \<Rightarrow> [] | Some l \<Rightarrow> l) (i1, s1))))"

fun replace_layer :: "scnif option \<Rightarrow> scnif \<Rightarrow> scnif" where
  "replace_layer l' (SCNetif a l b r v) = SCNetif a l' b r v"

text \<open>
  One dictionary for each layer, from the given one on. The array is read at the index of the layer whatever its length;
  reading past its end is \<open>UB\<close>.
\<close>

fun SetDeepConfiguration ::
    "'p if_env \<Rightarrow> string option \<Rightarrow> dict list option \<Rightarrow> nat \<Rightarrow> scnif \<Rightarrow> 'p \<Rightarrow> (scnif \<times> 'p) outcome" where
  "SetDeepConfiguration env setID configs n (SCNetif a l b r v) s =
     obind (case configs of None \<Rightarrow> Ret None | Some cs \<Rightarrow> if n < length cs then Ret (Some (cs ! n)) else UB) (\<lambda>ic.
       obind (set_layer env setID ic (SCNetif a l b r v) s) (\<lambda>(i1, s1).
         (case l of
            None \<Rightarrow> Ret (i1, s1)
          | Some child \<Rightarrow>
              obind (SetDeepConfiguration env setID configs (Suc n) child s1)
                (\<lambda>(child', s2). Ret (replace_layer (Some child') i1, s2)))))"

text \<open>Whether one of the layers is a member of a bond or of a bridge.\<close>

fun member_on_stack :: "bond_env \<Rightarrow> scnif list \<Rightarrow> scnif \<Rightarrow> bool" where
  "member_on_stack env members (SCNetif a l b r v) \<longleftrightarrow>
     cfset_contains env members (SCNetif a l b r v) \<or>
     (case l of None \<Rightarrow> False | Some x \<Rightarrow> member_on_stack env members x)"

definition SCNetworkInterfaceIsMember ::
    "bond_env \<Rightarrow> scnif list option \<Rightarrow> scnif list option list option \<Rightarrow> scnif option \<Rightarrow> bool" where
  "SCNetworkInterfaceIsMember env bonds bridges interface =
     (let m1 = (case bonds of None \<Rightarrow> [] | Some l \<Rightarrow> SCBondInterfaceListCollectMembers env l []);
          m2 = (case bridges of None \<Rightarrow> m1 | Some l \<Rightarrow> SCBridgeInterfaceListCollectMembers env l m1)
      in m2 \<noteq> [] \<and> (case interface of None \<Rightarrow> False | Some i \<Rightarrow> member_on_stack env m2 i))"

end
