(* ===== verification/ConfigProps.thy ===== *)
theory ConfigProps
  imports ConfigValues
begin

text \<open>
  What holds of stored configuration values: the value and its inactive flag are independent,
  a removed password is gone, and ranks are read back as written.
\<close>

section \<open>Values and the inactive flag\<close>

text \<open>The value at a path without the flag; nothing stored is an empty value.\<close>

definition stored_value :: "'p path_ops \<Rightarrow> 'p \<Rightarrow> path \<Rightarrow> dict" where
  "stored_value ops s p =
     (case isA_CFDictionary (path_get ops s p) of None \<Rightarrow> fmempty | Some d \<Rightarrow> fmdrop kSCResvInactive d)"

text \<open>A removal that failed for want of a key found nothing at the path.\<close>

definition honest_errors :: "'p path_ops \<Rightarrow> ('p \<Rightarrow> path \<Rightarrow> sc_status) \<Rightarrow> bool" where
  "honest_errors ops err \<longleftrightarrow>
     (\<forall>s p. path_remove ops s p = None \<and> err s p = kSCStatusNoKey \<longrightarrow> path_get ops s p = None)"

context path_store
begin

lemma config_store_result:
  assumes "config_store ops err s p new = (True, st, s')" "honest_errors ops err"
  shows "path_get ops s' p = map_option CFDictionary new"
    and "path_apart p q \<Longrightarrow> path_get ops s' q = path_get ops s q"
  using assms get_set get_set_apart get_remove get_remove_apart
  by (auto simp: config_store_def honest_errors_def split: option.splits)

lemma set_value_result:
  assumes "SCNetworkConfigurationSetValue ops err s p (Some (CFDictionary d)) True = (True, st, s')"
    "honest_errors ops err"
  shows "path_get ops s' p = Some (CFDictionary
      (if getPrefsEnabled ops s p then fmdrop kSCResvInactive d else fmupd kSCResvInactive (CFBoolean True) d))"
    and "path_apart p q \<Longrightarrow> path_get ops s' q = path_get ops s q"
proof -
  let ?new = "if getPrefsEnabled ops s p then fmdrop kSCResvInactive d else fmupd kSCResvInactive (CFBoolean True) d"
  have run: "(if isA_CFDictionary (path_get ops s p) = Some ?new then (True, kSCStatusOK, s)
      else config_store ops err s p (Some ?new)) = (True, st, s')"
    using assms(1) by (simp add: SCNetworkConfigurationSetValue_def getPrefsEnabled_def Let_def cf_simps split: if_splits)
  show "path_get ops s' p = Some (CFDictionary ?new)"
    using run config_store_result(1)[OF _ assms(2), of s p "Some ?new" st s']
    by (cases "isA_CFDictionary (path_get ops s p) = Some ?new") (simp_all add: cf_simps)
  show "path_apart p q \<Longrightarrow> path_get ops s' q = path_get ops s q"
    using run config_store_result(2)[OF _ assms(2), of s p "Some ?new" st s']
    by (cases "isA_CFDictionary (path_get ops s p) = Some ?new") (simp_all add: cf_simps)
qed

lemma set_enabled_result:
  assumes "setPrefsEnabled ops err s p e = (True, st, s')" "honest_errors ops err"
  shows "getPrefsEnabled ops s' p = e \<and> stored_value ops s' p = stored_value ops s p"
    and "path_apart p q \<Longrightarrow> path_get ops s' q = path_get ops s q"
proof -
  let ?cur = "isA_CFDictionary (path_get ops s p)"
  define new where "new = (case ?cur of
      Some d \<Rightarrow> Some (if e then fmdrop kSCResvInactive d else fmupd kSCResvInactive (CFBoolean True) d)
    | None \<Rightarrow> if e then None else Some (fmupd kSCResvInactive (CFBoolean True) fmempty))"
  have run: "(if ?cur = new then (True, kSCStatusOK, s) else config_store ops err s p new) = (True, st, s')"
    and typed: "path_get ops s p = None \<or> ?cur \<noteq> None"
    using assms(1) by (auto simp: setPrefsEnabled_def new_def Let_def split: if_splits)
  have res: "isA_CFDictionary (path_get ops s' p) = new"
  proof (cases "?cur = new")
    case True
    then show ?thesis using run by simp
  next
    case False
    then have "config_store ops err s p new = (True, st, s')" using run by simp
    from config_store_result(1)[OF this assms(2)] show ?thesis by (cases new) simp_all
  qed
  have "\<not> has_inactive new \<longleftrightarrow> e" by (cases ?cur) (simp_all add: new_def has_inactive_def)
  moreover have "(case new of None \<Rightarrow> fmempty | Some d \<Rightarrow> fmdrop kSCResvInactive d) = stored_value ops s p"
    by (cases ?cur) (auto simp: new_def stored_value_def intro!: fmap_ext)
  ultimately show "getPrefsEnabled ops s' p = e \<and> stored_value ops s' p = stored_value ops s p"
    by (simp add: getPrefsEnabled_def stored_value_def res)
  show "path_apart p q \<Longrightarrow> path_get ops s' q = path_get ops s q"
    using run config_store_result(2)[OF _ assms(2), of s p new st s'] by (cases "?cur = new") simp_all
qed

end

lemma stored_flagged [simp]:
  "path_get ops s p = Some (CFDictionary (if b then fmdrop kSCResvInactive d else fmupd kSCResvInactive (CFBoolean True) d)) \<Longrightarrow>
   getPrefsEnabled ops s p = b \<and> stored_value ops s p = fmdrop kSCResvInactive d"
  by (auto simp: getPrefsEnabled_def stored_value_def has_inactive_def intro!: fmap_ext)

text \<open>
  A configuration and its enabled state are stored in one dictionary, and changing one
  keeps the other. When \<open>__SCNetworkConfigurationSetValue\<close> succeeds for a dictionary with the
  inactive state preserved, the stored value is that dictionary (its own flag does not count) and
  the path is enabled exactly when it was; when \<open>__setPrefsEnabled\<close> succeeds the path is enabled as
  asked and the stored value, apart from the flag, is what it was. Values at other paths are not touched.
\<close>

theorem SCNetworkConfiguration_value_enabled:
  assumes "path_store ops" "honest_errors ops err"
    and "SCNetworkConfigurationSetValue ops err s p (Some (CFDictionary d)) True = (True, st1, s1)"
    and "setPrefsEnabled ops err s1 p e = (True, st2, s2)" and "path_apart p q"
  shows "getPrefsEnabled ops s1 p = getPrefsEnabled ops s p \<and> stored_value ops s1 p = fmdrop kSCResvInactive d \<and>
    getPrefsEnabled ops s2 p = e \<and> stored_value ops s2 p = fmdrop kSCResvInactive d \<and>
    path_get ops s2 q = path_get ops s q"
  using stored_flagged[OF path_store.set_value_result(1)[OF assms(1,3,2)]]
    path_store.set_value_result(2)[OF assms(1,3,2,5)]
    path_store.set_enabled_result[OF assms(1,4,2)] assms(5) by simp

definition tree_error :: "plist \<Rightarrow> path \<Rightarrow> sc_status" where
  "tree_error t p = (if tree_get (Some t) p = None then kSCStatusNoKey else kSCStatusFailed)"

lemma tree_honest: "honest_errors tree_ops tree_error"
  by (simp add: honest_errors_def tree_error_def tree_ops_def)

lemma tree_config_store:
  "s = CFDictionary m \<Longrightarrow> \<exists>st s'. config_store tree_ops tree_error s [k] (Some d) = (True, st, s') \<and> (\<exists>m'. s' = CFDictionary m')"
  by (simp add: config_store_def tree_ops_def Let_def)

lemma SCNetworkConfiguration_value_enabled_witness:
  "\<exists>s1 s2. SCNetworkConfigurationSetValue tree_ops tree_error (CFDictionary fmempty) [''IPv4'']
       (Some (CFDictionary (fmupd ''ConfigMethod'' (CFString ''DHCP'') fmempty))) True = (True, kSCStatusOK, s1) \<and>
     setPrefsEnabled tree_ops tree_error s1 [''IPv4''] False = (True, kSCStatusOK, s2) \<and>
     \<not> getPrefsEnabled tree_ops s2 [''IPv4''] \<and>
     stored_value tree_ops s2 [''IPv4''] = fmdrop kSCResvInactive (fmupd ''ConfigMethod'' (CFString ''DHCP'') fmempty)"
proof -
  let ?d = "fmupd ''ConfigMethod'' (CFString ''DHCP'') fmempty" and ?s = "CFDictionary fmempty"
  have nd: "\<not> has_inactive None" by (simp add: has_inactive_def)
  obtain m1 where run1: "SCNetworkConfigurationSetValue tree_ops tree_error ?s [''IPv4''] (Some (CFDictionary ?d)) True
      = (True, kSCStatusOK, CFDictionary m1)" and m1: "fmlookup m1 ''IPv4'' = Some (CFDictionary (fmdrop kSCResvInactive ?d))"
    by (simp add: SCNetworkConfigurationSetValue_def config_store_def tree_ops_def nd Let_def)
  have "fmupd kSCResvInactive (CFBoolean True) (fmdrop kSCResvInactive ?d) \<noteq> fmdrop kSCResvInactive ?d"
    by (metis fmdrop_lookup fmupd_lookup option.distinct(1))
  then obtain s2 where run2: "setPrefsEnabled tree_ops tree_error (CFDictionary m1) [''IPv4''] False = (True, kSCStatusOK, s2)"
    using m1 by (simp add: setPrefsEnabled_def config_store_def tree_ops_def Let_def)
  have "path_apart [''IPv4''] [''IPv6'']" by (simp add: path_apart_def)
  from SCNetworkConfiguration_value_enabled[OF tree.path_store_axioms tree_honest run1 run2 this] run1 run2
  show ?thesis by auto
qed

section \<open>Passwords\<close>

text \<open>
  The laws of the keychain calls: an item exists when it can be copied, it can be removed when it
  exists, and a removed item is gone.
\<close>

locale keychain =
  fixes kc :: "'k keychain_ops"
  assumes exists_copy: "kc_exists kc k sys i \<longleftrightarrow> kc_copy kc k sys i \<noteq> None"
    and removes: "kc_copy kc k sys i \<noteq> None \<Longrightarrow> kc_remove kc k sys i \<noteq> None"
    and removed: "kc_remove kc k sys i = Some k' \<Longrightarrow> kc_copy kc k' sys i = None"
begin

lemma remove_gone:
  assumes "remove_password kc to pk k sys config i = Ret (ok, k', new)" "uses_keychain pk config"
  shows "kc_copy kc k' sys i = None"
proof (cases "kc_remove kc k sys i")
  case None
  then have "k' = k" using assms by (auto simp: remove_password_def Let_def)
  with removes[of k sys i] None show ?thesis by blast
next
  case (Some k2)
  then have "k' = k2" using assms by (simp add: remove_password_def Let_def)
  with removed[of k sys i] Some show ?thesis by simp
qed

end

lemma remove_config:
  assumes "remove_password kc to pk k sys (Some d) i = Ret (True, k', new)"
  shows "new = Some (fmdrop (pk_encryption pk) (fmdrop (pk_password pk) d)) \<and> uses_keychain pk (Some d)"
proof -
  have "uses_keychain pk (Some d)"
    using assms by (auto simp: remove_password_def inline_password_def uses_keychain_def Let_def split: option.splits if_splits)
  then show ?thesis
    using assms by (cases "kc_remove kc k sys i") (auto simp: remove_password_def Let_def)
qed

text \<open>
  A removed password is gone. When \<open>__remove_password\<close> reports success for a
  configuration, then with the configuration it returned and the keychain it left,
  \<open>__extract_password\<close> finds no password, neither in the keychain nor in the configuration,
  whether the caller asks for the password or only for its existence.
\<close>

theorem remove_password_gone:
  assumes "keychain kc" "remove_password kc to pk k sys (Some d) i = Ret (True, k', new)"
  shows "extract_password kc to pk k' sys new i want = Ret (False, None)"
proof -
  note r = remove_config[OF assms(2)]
  have gone: "kc_copy kc k' sys i = None"
    using keychain.remove_gone[OF assms(1,2)] r by simp
  then have "\<not> kc_exists kc k' sys i" using keychain.exists_copy[OF assms(1)] by simp
  moreover have "uses_keychain pk new" using r by (simp add: uses_keychain_def password_encryption_def)
  moreover have "inline_password to pk new = Ret None"
    using r by (simp add: inline_password_def password_encryption_def copy_legacy_password_def)
  ultimately show ?thesis using gone by (simp add: extract_password_def)
qed

text \<open>A keychain as a list of items.\<close>

definition list_keychain :: "((bool \<times> string) \<times> uint8 list) list keychain_ops" where
  "list_keychain = \<lparr>kc_copy = (\<lambda>k sys i. map_of k (sys, i)), kc_exists = (\<lambda>k sys i. map_of k (sys, i) \<noteq> None),
     kc_remove = (\<lambda>k sys i. if map_of k (sys, i) = None then None else Some (filter (\<lambda>e. fst e \<noteq> (sys, i)) k))\<rparr>"

lemma map_of_filtered: "map_of (filter (\<lambda>e. fst e \<noteq> x) k) x = None"
  by (induction k) auto

interpretation items: keychain list_keychain
  by unfold_locales (auto simp: list_keychain_def map_of_filtered split: if_splits)

definition sample_keys :: password_keys where
  "sample_keys = \<lparr>pk_password = ''AuthPassword'', pk_encryption = ''AuthPasswordEncryption'', pk_keychain = ''Keychain''\<rparr>"

definition sample_text :: text_ops where
  "sample_text = \<lparr>to_decode16 = (\<lambda>_ bs. Some (map (\<lambda>b. char_of (unat b)) bs)), to_utf8 = (\<lambda>s. Some (map of_char s))\<rparr>"

lemma remove_password_gone_witness:
  "extract_password list_keychain sample_text sample_keys []
     True (Some (fmdrop ''AuthPasswordEncryption'' (fmdrop ''AuthPassword''
       (fmupd ''AuthPassword'' (CFString ''svc'') (fmupd ''AuthPasswordEncryption'' (CFString ''Keychain'') fmempty)))))
     ''svc'' True = Ret (False, None)"
proof -
  have "remove_password list_keychain sample_text sample_keys [((True, ''svc''), [1])] True
      (Some (fmupd ''AuthPassword'' (CFString ''svc'') (fmupd ''AuthPasswordEncryption'' (CFString ''Keychain'') fmempty))) ''svc''
    = Ret (True, [], Some (fmdrop ''AuthPasswordEncryption'' (fmdrop ''AuthPassword''
       (fmupd ''AuthPassword'' (CFString ''svc'') (fmupd ''AuthPasswordEncryption'' (CFString ''Keychain'') fmempty)))))"
    by (simp add: remove_password_def uses_keychain_def password_encryption_def sample_keys_def list_keychain_def)
  from remove_password_gone[OF items.keychain_axioms this] show ?thesis .
qed

section \<open>Ranks\<close>

lemma rank_read_back:
  "rank_to_str r = Some str \<Longrightarrow> str_to_rank (map_option CFString str) = Some r"
  by (cases r) (auto simp: rank_to_str_def str_to_rank_def)

lemma rank_write_back:
  "str_to_rank str = Some r \<Longrightarrow> (\<exists>t. rank_to_str r = Some t \<and> str = map_option CFString t)"
  by (auto simp: rank_to_str_def str_to_rank_def split: option.splits plist.splits if_splits)

end
