(* ===== verification/NetConfigProps.thy ===== *)
theory NetConfigProps
  imports NetConfig ConfigProps
begin

text \<open>
  What holds of the configuration of an interface: what is written is read back, on every set that has the
  service, and the walk over the layers stays inside the array of configurations exactly when that is long enough.
\<close>

section \<open>One value\<close>

definition effective :: "plist option \<Rightarrow> plist option" where
  "effective c = (if isEffectivelyEmptyConfiguration c then None else c)"

lemma get_value_effective: "SCNetworkConfigurationGetValue ops s p = effective (path_get ops s p)"
  by (simp add: SCNetworkConfigurationGetValue_def effective_def)

lemma effective_dict: "isA_CFDictionary x = isA_CFDictionary y \<Longrightarrow> effective x = effective y"
  by (cases "isA_CFDictionary x") (auto simp: effective_def isEffectivelyEmptyConfiguration_def cf_simps dest: sym)

lemma effective_drop_empty: "effective (drop_empty c) = effective c"
  by (auto simp: effective_def drop_empty_def isEffectivelyEmptyConfiguration_def cf_simps)

lemma drop_empty_effective: "drop_empty (effective c) = effective c"
  by (auto simp: effective_def drop_empty_def isEffectivelyEmptyConfiguration_def cf_simps split: option.splits)

context path_store
begin

lemma set_plain_result:
  assumes "SCNetworkConfigurationSetValue ops err s p config False = (True, st, s')" "honest_errors ops err"
  shows "isA_CFDictionary (path_get ops s' p) = isA_CFDictionary config"
    and "path_apart p q \<Longrightarrow> path_get ops s' q = path_get ops s q"
proof -
  have run: "(if isA_CFDictionary (path_get ops s p) = isA_CFDictionary config then (True, kSCStatusOK, s)
      else config_store ops err s p (isA_CFDictionary config)) = (True, st, s')"
    using assms(1) by (simp add: SCNetworkConfigurationSetValue_def Let_def split: if_splits)
  show "isA_CFDictionary (path_get ops s' p) = isA_CFDictionary config"
  proof (cases "isA_CFDictionary (path_get ops s p) = isA_CFDictionary config")
    case True
    with run show ?thesis by simp
  next
    case False
    with run have "config_store ops err s p (isA_CFDictionary config) = (True, st, s')" by simp
    from config_store_result(1)[OF this assms(2)] show ?thesis
      by (cases "isA_CFDictionary config") simp_all
  qed
  show "path_apart p q \<Longrightarrow> path_get ops s' q = path_get ops s q"
    using run config_store_result(2)[OF _ assms(2), of s p "isA_CFDictionary config" st s']
    by (cases "isA_CFDictionary (path_get ops s p) = isA_CFDictionary config") simp_all
qed

end

section \<open>All paths\<close>

definition apart_or_same :: "path list \<Rightarrow> bool" where
  "apart_or_same l \<longleftrightarrow> (\<forall>p \<in> set l. \<forall>q \<in> set l. p = q \<or> path_apart p q)"

lemma set_all_paths_keeps:
  assumes "path_store (ie_ops env)" "honest_errors (ie_ops env) (ie_err env)"
  shows "set_all_paths env config l s = (True, st, s') \<Longrightarrow> \<forall>p \<in> set l. path_apart p q \<Longrightarrow>
    path_get (ie_ops env) s' q = path_get (ie_ops env) s q"
proof (induction l arbitrary: s)
  case (Cons p l)
  then obtain st1 s1 where
    run: "SCNetworkConfigurationSetValue (ie_ops env) (ie_err env) s p config False = (True, st1, s1)"
      "set_all_paths env config l s1 = (True, st, s')"
    by (auto split: prod.splits if_splits)
  then show ?case
    using Cons path_store.set_plain_result(2)[OF assms(1) run(1) assms(2), of q] by simp
qed simp

lemma set_all_paths_sets:
  assumes "path_store (ie_ops env)" "honest_errors (ie_ops env) (ie_err env)"
  shows "set_all_paths env config l s = (True, st, s') \<Longrightarrow> apart_or_same l \<Longrightarrow> p \<in> set l \<Longrightarrow>
    isA_CFDictionary (path_get (ie_ops env) s' p) = isA_CFDictionary config"
proof (induction l arbitrary: s)
  case (Cons q l)
  then obtain st1 s1 where
    run: "SCNetworkConfigurationSetValue (ie_ops env) (ie_err env) s q config False = (True, st1, s1)"
      "set_all_paths env config l s1 = (True, st, s')"
    by (auto split: prod.splits if_splits)
  show ?case
  proof (cases "p \<in> set l")
    case True
    with Cons.IH[OF run(2)] Cons.prems(2) show ?thesis by (simp add: apart_or_same_def)
  next
    case False
    with Cons.prems have "p = q" "\<forall>r \<in> set l. path_apart r p"
      by (auto simp: apart_or_same_def)
    with set_all_paths_keeps[OF assms run(2)] path_store.set_plain_result(1)[OF assms(1) run(1) assms(2)]
    show ?thesis by simp
  qed
qed simp

lemma paths_not_empty: "copyConfigurationPaths env s i t = Ret (Some l) \<Longrightarrow> l \<noteq> []"
  by (auto simp: copyConfigurationPaths_def copyPerInterfaceConfigurationPaths_def split: option.splits if_splits)

lemma own_service_unsaved:
  "own_service (upd_ni (\<lambda>a. a\<lparr>ni_unsaved := f a\<rparr>) i) = (own_service i)\<lparr>ns_interface := Some (upd_ni (\<lambda>a. a\<lparr>ni_unsaved := f a\<rparr>) i)\<rparr>"
  by (simp add: own_service_def SCNetworkServiceCreatePrivate_def)

lemma set_has_service_unsaved:
  "set_has_service l (upd_ni (\<lambda>a. a\<lparr>ni_unsaved := f a\<rparr>) i) = set_has_service l i"
  by (cases l) (simp_all add: set_has_service_def own_service_unsaved SCNetworkServiceEqual_def)

lemma per_interface_paths_unsaved:
  "per_interface_paths env (upd_ni (\<lambda>a. a\<lparr>ni_unsaved := f a\<rparr>) i) t l = per_interface_paths env i t l"
  by (induction l) (auto simp: set_has_service_unsaved cong: if_cong option.case_cong)

lemma paths_unsaved:
  "ie_sets env s' = ie_sets env s \<Longrightarrow>
   copyConfigurationPaths env s' (upd_ni (\<lambda>a. a\<lparr>ni_unsaved := f a\<rparr>) i) t = copyConfigurationPaths env s i t"
  by (simp add: copyConfigurationPaths_def findPerInterfaceConfiguration_def copyPerInterfaceConfigurationPaths_def
      per_interface_paths_unsaved cong: if_cong option.case_cong)

lemma unsaved_forgotten: "unsaved_config (forget_unsaved t i) t = None"
  by (auto simp: unsaved_config_def forget_unsaved_def split: option.splits)

text \<open>
  C10. A configuration that was written is read back. When \<open>__SCNetworkInterfaceSetConfiguration\<close> succeeds for a
  dictionary, or for none, the following \<open>__SCNetworkInterfaceGetConfiguration\<close> of that type gives it,
  with a dictionary that holds nothing but the inactive flag counted as none. If the configuration has paths, every one of
  them, one for each set with the service, has it, nothing is held unsaved and no
  other path has changed; if it has none, it is held in the interface and the preferences are as before.
\<close>

theorem SetConfiguration_read_back:
  assumes "path_store (ie_ops env)" "honest_errors (ie_ops env) (ie_err env)"
    and "copyConfigurationPaths env s i (Some t) = Ret paths" "apart_or_same (case paths of None \<Rightarrow> [] | Some l \<Rightarrow> l)"
    and "SetConfiguration env i (Some t) (map_option CFDictionary c) hold s = Ret (True, st, i', s')"
    and "ie_sets env s' = ie_sets env s"
  shows "(case paths of
       Some l \<Rightarrow> GetConfiguration env s' i' t = Ret (effective (map_option CFDictionary c)) \<and>
         (\<forall>p \<in> set l. SCNetworkConfigurationGetValue (ie_ops env) s' p = effective (map_option CFDictionary c)) \<and>
         unsaved_config i' t = None \<and>
         (\<forall>q. (\<forall>p \<in> set l. path_apart p q) \<longrightarrow> path_get (ie_ops env) s' q = path_get (ie_ops env) s q)
     | None \<Rightarrow> GetConfiguration env s' i' t = Ret (drop_empty (map_option CFDictionary c)) \<and> s' = s)"
proof (cases paths)
  case None
  with assms(3,5) have i': "i' = hold_unsaved t (drop_empty (map_option CFDictionary c)) i" and "s' = s"
    by (auto simp: SetConfiguration_def Let_def split: if_splits)
  then have "copyConfigurationPaths env s' i' (Some t) = Ret None"
    using assms(3,6) None by (simp add: hold_unsaved_def paths_unsaved)
  moreover have "unsaved_config i' t = drop_empty (map_option CFDictionary c)"
    by (cases c) (auto simp: i' hold_unsaved_def unsaved_config_def drop_empty_def)
  ultimately show ?thesis
    using None \<open>s' = s\<close> by (simp add: GetConfiguration_def drop_empty_def split: if_splits)
next
  case (Some l)
  let ?c = "map_option CFDictionary c"
  from Some assms(3,5) have run: "set_all_paths env (drop_empty ?c) l s = (True, st, s')" and i': "i' = forget_unsaved t i"
    by (auto simp: SetConfiguration_def Let_def split: prod.splits if_splits)
  from Some assms(4) have apart: "apart_or_same l" by simp
  have reads: "SCNetworkConfigurationGetValue (ie_ops env) s' p = effective ?c" if "p \<in> set l" for p
    using effective_dict[OF set_all_paths_sets[OF assms(1,2) run apart that]]
    by (simp add: get_value_effective effective_drop_empty)
  have "copyConfigurationPaths env s' i' (Some t) = Ret (Some l)"
    using assms(3,6) Some by (simp add: i' forget_unsaved_def paths_unsaved)
  moreover have "hd l \<in> set l" using paths_not_empty[of env s i "Some t" l] assms(3) Some by simp
  ultimately have "GetConfiguration env s' i' t = Ret (effective ?c)"
    by (simp add: GetConfiguration_def reads drop_empty_effective)
  with Some reads set_all_paths_keeps[OF assms(1,2) run] show ?thesis
    by (simp add: i' unsaved_forgotten)
qed

definition sample_if :: scnif where
  "sample_if = upd_ni (\<lambda>a. a\<lparr>ni_interface_type := ''Ethernet'', ni_entity_device := Some ''en0''\<rparr>)
     (SCNetworkInterfaceCreatePrivate None (Some 0) (Some ''S''))"

definition sample_env :: "plist if_env" where
  "sample_env = \<lparr>ie_ops = tree_ops, ie_err = tree_error,
     ie_sets = \<lambda>_. Some [(''A'', Some [own_service sample_if]), (''B'', Some [own_service sample_if])],
     ie_set_path = \<lambda>sid dev t. Some [''Sets'', sid, case dev of None \<Rightarrow> [] | Some d \<Rightarrow> d, case t of None \<Rightarrow> [] | Some e \<Rightarrow> e],
     ie_service_path = \<lambda>sid t. Some [''Services'', case sid of None \<Rightarrow> [] | Some d \<Rightarrow> d, case t of None \<Rightarrow> [] | Some e \<Rightarrow> e]\<rparr>"

lemma sample_per_interface: "findPerInterfaceConfiguration sample_if \<noteq> None"
  by (simp add: findPerInterfaceConfiguration_def sample_if_def findConfiguration_def configurations_def)

lemma sample_paths:
  "copyConfigurationPaths sample_env s sample_if (Some ''Ethernet'') =
     Ret (Some [[''Sets'', ''A'', ''en0'', ''Ethernet''], [''Sets'', ''B'', ''en0'', ''Ethernet'']])"
  using sample_per_interface
  by (auto simp: copyConfigurationPaths_def copyPerInterfaceConfigurationPaths_def sample_env_def set_has_service_def
      SCNetworkServiceEqual_def sample_if_def SCNetworkInterfaceCreatePrivate_def split: option.splits)

lemma SetConfiguration_read_back_witness:
  "\<exists>i' s'. SetConfiguration sample_env sample_if (Some ''Ethernet'') (Some (CFDictionary (fmupd ''MTU'' (CFNumber 1400) fmempty)))
       False (CFDictionary fmempty) = Ret (True, kSCStatusOK, i', s') \<and>
     GetConfiguration sample_env s' i' ''Ethernet'' = Ret (Some (CFDictionary (fmupd ''MTU'' (CFNumber 1400) fmempty)))"
proof -
  let ?d = "fmupd ''MTU'' (CFNumber 1400) fmempty"
  have ops: "ie_ops sample_env = tree_ops" "ie_err sample_env = tree_error" by (simp_all add: sample_env_def)
  have full: "drop_empty (Some (CFDictionary ?d)) = Some (CFDictionary ?d)" by (simp add: drop_empty_def)
  obtain s' where run: "set_all_paths sample_env (Some (CFDictionary ?d))
      [[''Sets'', ''A'', ''en0'', ''Ethernet''], [''Sets'', ''B'', ''en0'', ''Ethernet'']] (CFDictionary fmempty) = (True, kSCStatusOK, s')"
    by (simp add: ops SCNetworkConfigurationSetValue_def config_store_def tree_ops_def Let_def)
  have set: "SetConfiguration sample_env sample_if (Some ''Ethernet'') (map_option CFDictionary (Some ?d)) False (CFDictionary fmempty) =
      Ret (True, kSCStatusOK, forget_unsaved ''Ethernet'' sample_if, s')"
    using run by (simp add: SetConfiguration_def sample_paths full)
  have apart: "apart_or_same (case Some [[''Sets'', ''A'', ''en0'', ''Ethernet''], [''Sets'', ''B'', ''en0'', ''Ethernet'']] of
      None \<Rightarrow> [] | Some l \<Rightarrow> l)"
    by (simp add: apart_or_same_def path_apart_def)
  have sets: "ie_sets sample_env s' = ie_sets sample_env (CFDictionary fmempty)" by (simp add: sample_env_def)
  have "effective (Some (CFDictionary ?d)) = Some (CFDictionary ?d)"
    by (simp add: effective_def isEffectivelyEmptyConfiguration_def kSCResvInactive_def)
  with SetConfiguration_read_back[OF tree.path_store_axioms[folded ops(1)] tree_honest[folded ops] sample_paths apart set sets] set
  show ?thesis by auto
qed

section \<open>All layers\<close>

definition env_total :: "'p if_env \<Rightarrow> bool" where
  "env_total env \<longleftrightarrow>
     (\<forall>sid dev t. ie_set_path env sid dev t \<noteq> None) \<and> (\<forall>sid t. ie_service_path env sid t \<noteq> None) \<and>
     (\<forall>s l x. ie_sets env s = Some l \<longrightarrow> x \<in> set l \<longrightarrow> snd x \<noteq> None)"

lemma per_interface_paths_total:
  assumes "env_total env" "\<forall>x \<in> set l. snd x \<noteq> None"
  shows "per_interface_paths env i t l \<noteq> UB"
  using assms(2)
proof (induction l)
  case (Cons x l)
  obtain sid ss where x: "x = (sid, Some ss)" using Cons.prems by (cases x) auto
  obtain p where "ie_set_path env sid (ni_entity_device (ni i)) t = Some p" using assms(1) by (fastforce simp: env_total_def)
  moreover obtain r where "per_interface_paths env i t l = Ret r" using Cons by (cases "per_interface_paths env i t l") auto
  ultimately show ?case by (simp add: x set_has_service_def)
qed simp

lemma extended_types_total:
  assumes "env_total env" "\<forall>x \<in> set l. snd x \<noteq> None"
  shows "extended_types_of_sets env s i t l \<noteq> UB"
  using assms(2)
proof (induction l)
  case (Cons x l)
  obtain sid ss where x: "x = (sid, Some ss)" using Cons.prems by (cases x) auto
  obtain p where "ie_set_path env sid (ni_entity_device (ni i)) None = Some p" using assms(1) by (fastforce simp: env_total_def)
  with Cons show ?case by (simp add: x set_has_service_def)
qed simp

definition sets_of :: "'p if_env \<Rightarrow> 'p \<Rightarrow> (string \<times> scnservice list option) list" where
  "sets_of env s = (case ie_sets env s of None \<Rightarrow> [] | Some l \<Rightarrow> l)"

lemma sets_total:
  assumes "env_total env"
  shows "\<forall>x \<in> set (sets_of env s). snd x \<noteq> None"
proof (cases "ie_sets env s")
  case (Some l)
  with assms show ?thesis unfolding env_total_def sets_of_def by fastforce
qed (simp add: sets_of_def)

lemma paths_total:
  assumes "env_total env"
  shows "\<exists>r. copyConfigurationPaths env s i t = Ret r"
proof -
  obtain p where "ie_service_path env (ni_serviceID (ni i)) t = Some p" using assms by (fastforce simp: env_total_def)
  moreover obtain l where "per_interface_paths env i t (sets_of env s) = Ret l"
    using per_interface_paths_total[OF assms sets_total[OF assms]] by (cases "per_interface_paths env i t (sets_of env s)") auto
  ultimately show ?thesis
    by (cases "findPerInterfaceConfiguration i")
      (simp_all add: copyConfigurationPaths_def copyPerInterfaceConfigurationPaths_def sets_of_def)
qed

lemma set_config_total:
  assumes "env_total env"
  shows "\<exists>ok st i' s'. SetConfiguration env i (Some t) c hold s = Ret (ok, st, i', s')"
proof -
  obtain r where "copyConfigurationPaths env s i (Some t) = Ret r" using paths_total[OF assms] by blast
  then show ?thesis
    by (cases r; cases "set_all_paths env (drop_empty c) (the r) s") (auto simp: SetConfiguration_def Let_def)
qed

lemma extended_total:
  assumes "env_total env"
  shows "\<exists>r. extendedConfigurationTypes env s i = Ret r"
proof -
  have "\<exists>r. extended_types_of_sets env s i t (sets_of env s) = Ret r" for t
    using extended_types_total[OF assms sets_total[OF assms], of s i t s]
    by (cases "extended_types_of_sets env s i t (sets_of env s)") auto
  then show ?thesis by (cases "GetDefaultConfigurationType i") (auto simp: extendedConfigurationTypes_def sets_of_def)
qed

lemma set_extended_total: "env_total env \<Longrightarrow> \<exists>st'. ofold (set_extended env ic) l st = Ret st'"
proof (induction l arbitrary: st)
  case (Cons t l)
  obtain i s where st: "st = (i, s)" by (cases st)
  obtain ok u i' s' where "SetConfiguration env i (Some t) (copied_config ic t) True s = Ret (ok, u, i', s')"
    using set_config_total[OF Cons.prems] by blast
  with Cons.IH[OF Cons.prems, of "(i', s')"] show ?case by (simp add: st set_extended_def)
qed simp

lemma set_layer_total:
  assumes "env_total env"
  shows "\<exists>i' s'. set_layer env setID ic i s = Ret (i', s')"
proof (cases "GetDefaultConfigurationType i")
  case (Inr t)
  have "\<exists>ok st i1 s1. (case setID of None \<Rightarrow> SetConfiguration env i (Some t) (copied_config ic t) True s
      | Some _ \<Rightarrow> Ret (SetDefaultConfiguration env setID i (Some t) (copied_config ic t) True s)) = Ret (ok, st, i1, s1)"
    using set_config_total[OF assms] by (cases setID) (auto, metis prod.exhaust)
  then obtain ok st i1 s1 where first: "(case setID of None \<Rightarrow> SetConfiguration env i (Some t) (copied_config ic t) True s
      | Some _ \<Rightarrow> Ret (SetDefaultConfiguration env setID i (Some t) (copied_config ic t) True s)) = Ret (ok, st, i1, s1)"
    by blast
  obtain types where types: "extendedConfigurationTypes env s1 i1 = Ret types" using extended_total[OF assms] by blast
  obtain st' where "ofold (set_extended env ic) (case types of None \<Rightarrow> [] | Some l \<Rightarrow> l) (i1, s1) = Ret st'"
    using set_extended_total[OF assms] by blast
  with first types Inr show ?thesis by (cases st') (simp add: set_layer_def)
qed (simp add: set_layer_def)

fun layers :: "scnif \<Rightarrow> nat" where
  "layers (SCNetif a l b r v) = Suc (case l of None \<Rightarrow> 0 | Some x \<Rightarrow> layers x)"

lemma layers_pos: "0 < layers i"
  by (cases i) simp

lemma deep_in_bounds:
  assumes "env_total env"
  shows "(SetDeepConfiguration env setID configs n i s = UB) \<longleftrightarrow>
    (case configs of None \<Rightarrow> False | Some cs \<Rightarrow> length cs < n + layers i)"
proof (induction i arbitrary: n s rule: measure_induct_rule[where f = layers])
  case (less i)
  obtain a l b r v where i: "i = SCNetif a l b r v" by (cases i)
  show ?case
  proof (cases "case configs of None \<Rightarrow> True | Some cs \<Rightarrow> n < length cs")
    case False
    then show ?thesis by (auto simp: i split: option.splits)
  next
    case True
    then obtain ic where ic: "(case configs of None \<Rightarrow> Ret None | Some cs \<Rightarrow> if n < length cs then Ret (Some (cs ! n)) else UB) = Ret ic"
      by (auto split: option.splits)
    obtain i1 s1 where lay: "set_layer env setID ic i s = Ret (i1, s1)"
      using set_layer_total[OF assms] by blast
    show ?thesis
    proof (cases l)
      case None
      with ic lay True show ?thesis by (auto simp: i split: option.splits)
    next
      case (Some child)
      then have "layers child < layers i" by (simp add: i)
      note IH = less.IH[OF this, of "Suc n" s1]
      from Some ic lay have "SetDeepConfiguration env setID configs n i s =
          obind (SetDeepConfiguration env setID configs (Suc n) child s1) (\<lambda>(c, s2). Ret (replace_layer (Some c) i1, s2))"
        by (simp add: i)
      then have "SetDeepConfiguration env setID configs n i s = UB \<longleftrightarrow> SetDeepConfiguration env setID configs (Suc n) child s1 = UB"
        by (cases "SetDeepConfiguration env setID configs (Suc n) child s1") auto
      with IH show ?thesis by (cases configs) (simp_all add: i Some del: SetDeepConfiguration.simps)
    qed
  qed
qed

text \<open>
  C34. The walk over the layers reads one configuration for each layer and does not look at the length of the
  array. When every set and path can be read, \<open>__SCNetworkInterfaceSetDeepConfiguration\<close> reads past the array
  exactly when it has fewer entries than the interface has layers; without an array it never does.
\<close>

theorem SetDeepConfiguration_in_bounds:
  assumes "env_total env"
  shows "(SetDeepConfiguration env setID configs 0 i s = UB) \<longleftrightarrow>
    (case configs of None \<Rightarrow> False | Some cs \<Rightarrow> length cs < layers i)"
  using deep_in_bounds[OF assms, of setID configs 0 i s] by (cases configs) simp_all

lemma SetDeepConfiguration_in_bounds_witness:
  "SetDeepConfiguration sample_env None (Some []) 0 sample_if (CFDictionary fmempty) = UB"
proof -
  have "env_total sample_env" by (simp add: env_total_def sample_env_def)
  moreover have "0 < layers sample_if" by (rule layers_pos)
  ultimately show ?thesis
    using SetDeepConfiguration_in_bounds[of sample_env None "Some []" sample_if "CFDictionary fmempty"] by simp
qed

end
