(* ===== verification/NetStorage.thy ===== *)
theory NetStorage
  imports NetLayer SCHelper
begin

text \<open>
  Interfaces as dictionaries and what else SCNetworkInterface.c keeps of them: the entity in a service, the entry in
  NetworkInterfaces.plist, renaming after a change of the unit, the cache, the names of keychain items, and
  the request to refresh a configuration.

  The framework's accessors that the repository only calls answer through \<open>if_getters\<close>; the
  creation of an interface from an entity (\<open>_SCNetworkInterfaceCreateWithEntity\<close>) is a parameter here, and modelled in
  NetMatch. Using a
  missing object is \<open>UB\<close>.
\<close>

record if_getters =
  gt_bsd_name :: "scnif \<Rightarrow> string option"
  gt_display :: "scnif \<Rightarrow> string option"
  gt_prefix :: "scnif \<Rightarrow> string option"
  gt_type :: "scnif \<Rightarrow> int option"
  gt_unit :: "scnif \<Rightarrow> int option"
  gt_address :: "scnif \<Rightarrow> uint8 list option"
  gt_path :: "scnif \<Rightarrow> string option"
  gt_info :: "scnif \<Rightarrow> dict option"

section \<open>The entity of a service\<close>

definition kSCNetworkInterfaceHiddenConfigurationKey :: string where
  "kSCNetworkInterfaceHiddenConfigurationKey = ''HiddenConfiguration''"
definition kSCNetworkInterfaceHiddenInterfaceKey :: string where
  "kSCNetworkInterfaceHiddenInterfaceKey = ''HiddenInterface''"

definition put_string :: "string \<Rightarrow> string option \<Rightarrow> dict \<Rightarrow> dict" where
  "put_string k v d = (case v of None \<Rightarrow> d | Some x \<Rightarrow> fmupd k (CFString x) d)"

definition put_flag :: "string \<Rightarrow> bool \<Rightarrow> dict \<Rightarrow> dict" where
  "put_flag k b d = (if b then fmupd k (CFBoolean True) d else d)"

fun lowest_layer :: "scnif \<Rightarrow> scnif" where
  "lowest_layer (SCNetif a l b r v) = (case l of None \<Rightarrow> SCNetif a l b r v | Some x \<Rightarrow> lowest_layer x)"

definition hardware_of :: "string \<Rightarrow> string option" where
  "hardware_of t = (case findConfiguration t of Some c \<Rightarrow> cf_entity_hardware c | None \<Rightarrow> Some t)"

definition CopyInterfaceEntity :: "name_env \<Rightarrow> if_getters \<Rightarrow> scnif \<Rightarrow> dict outcome" where
  "CopyInterfaceEntity env g i =
     (let a = ni i;
          entity =
            put_flag kSCNetworkInterfaceHiddenConfigurationKey (ni_hiddenConfiguration (ni_registry a))
              (put_string ''DeviceUniqueIdentifier'' (ni_entity_device_unique a)
                (put_string ''DeviceName'' (ni_entity_device a)
                  (put_string ''SubType'' (ni_entity_subtype a)
                    (put_string ''Type'' (ni_entity_type a) fmempty))));
          low = lowest_layer i
      in if SCNetworkInterfaceEqual env low kSCNetworkInterfaceIPv4 then Ret entity
         else case gt_display g low of
                None \<Rightarrow> UB
              | Some nm \<Rightarrow>
                  Ret (fmupd kSCPropUserDefinedName (CFString nm)
                        (put_string ''Hardware'' (hardware_of (ni_interface_type (ni low))) entity)))"

definition InterfaceEntityIsPPTP :: "dict option \<Rightarrow> bool" where
  "InterfaceEntityIsPPTP entity \<longleftrightarrow>
     (case entity of None \<Rightarrow> False | Some d \<Rightarrow> fmlookup d ''SubType'' = Some (CFString ''PPTP''))"

section \<open>Renaming\<close>

definition is_digit_char :: "char \<Rightarrow> bool" where
  "is_digit_char c \<longleftrightarrow> (48::nat) \<le> of_char c \<and> (of_char c::nat) \<le> 57"

definition prefix_of_name :: "string \<Rightarrow> string" where
  "prefix_of_name s = rev (dropWhile is_digit_char (rev s))"

definition CopyPrefixFromBSDName :: "string option \<Rightarrow> string option" where
  "CopyPrefixFromBSDName bsdName = map_option prefix_of_name bsdName"

definition UpdateBSDName :: "scnif \<Rightarrow> string option \<Rightarrow> string \<Rightarrow> (bool \<times> scnif) outcome" where
  "UpdateBSDName i currentBSDName newBSDName =
     (case currentBSDName of
        None \<Rightarrow> UB
      | Some old \<Rightarrow> Ret (if old = newBSDName then (False, i)
                         else (True, upd_ni (\<lambda>a. a\<lparr>ni_entity_device := Some newBSDName\<rparr>) i)))"

definition upd_registry :: "(if_registry \<Rightarrow> if_registry) \<Rightarrow> scnif \<Rightarrow> scnif" where
  "upd_registry f = upd_ni (\<lambda>a. a\<lparr>ni_registry := f (ni_registry a)\<rparr>)"

definition UpdateIOPath :: "scnif \<Rightarrow> bool \<times> scnif" where
  "UpdateIOPath i =
     (case ni_path (ni_registry (ni i)) of
        None \<Rightarrow> (False, i)
      | Some old \<Rightarrow> (True, upd_registry (\<lambda>r. r\<lparr>ni_path := Some (''Migrated_From: '' @ old)\<rparr>) i))"

definition SetIOInterfacePrefix :: "scnif \<Rightarrow> string option \<Rightarrow> scnif" where
  "SetIOInterfacePrefix i pfx =
     (case pfx of None \<Rightarrow> i | Some p \<Rightarrow> upd_registry (\<lambda>r. r\<lparr>ni_prefix := Some p\<rparr>) i)"

text \<open>A number as \<open>%@\<close> prints it.\<close>

definition number_text :: "int \<Rightarrow> string" where
  "number_text n = (if n < 0 then CHR ''-'' # decimal (nat (- n)) else decimal (nat n))"

definition with_prefix :: "scnif \<Rightarrow> scnif" where
  "with_prefix i =
     (if ni_prefix (ni_registry (ni i)) = None
      then SetIOInterfacePrefix i (CopyPrefixFromBSDName (ni_entity_device (ni i))) else i)"

definition SetIOInterfaceUnit :: "if_getters \<Rightarrow> scnif \<Rightarrow> int option \<Rightarrow> scnif outcome" where
  "SetIOInterfaceUnit g i unit =
     (case unit of
        None \<Rightarrow> Ret i
      | Some u \<Rightarrow>
          let oldBSDName = gt_bsd_name g i; i1 = with_prefix i in
          obind (case ni_prefix (ni_registry (ni i1)) of
                   None \<Rightarrow> Ret (False, i1)
                 | Some p \<Rightarrow> UpdateBSDName i1 oldBSDName (p @ number_text u)) (\<lambda>(_, i2).
            Ret (upd_registry (\<lambda>r. r\<lparr>ni_unit := Some u\<rparr>) (snd (UpdateIOPath i2)))))"

section \<open>The stored interface\<close>

definition kSCNetworkInterfaceActive :: string where "kSCNetworkInterfaceActive = ''Active''"
definition kSCNetworkInterfaceInfo :: string where "kSCNetworkInterfaceInfo = ''SCNetworkInterfaceInfo''"
definition kSCNetworkInterfaceType :: string where "kSCNetworkInterfaceType = ''SCNetworkInterfaceType''"
definition kSCNetworkInterfaceBSDName :: string where "kSCNetworkInterfaceBSDName = ''BSD Name''"
definition kSCNetworkInterfaceIOBuiltin :: string where "kSCNetworkInterfaceIOBuiltin = ''IOBuiltin''"
definition kSCNetworkInterfaceIOInterfaceNamePrefix :: string where
  "kSCNetworkInterfaceIOInterfaceNamePrefix = ''IOInterfaceNamePrefix''"
definition kSCNetworkInterfaceIOInterfaceType :: string where "kSCNetworkInterfaceIOInterfaceType = ''IOInterfaceType''"
definition kSCNetworkInterfaceIOInterfaceUnit :: string where "kSCNetworkInterfaceIOInterfaceUnit = ''IOInterfaceUnit''"
definition kSCNetworkInterfaceIOMACAddress :: string where "kSCNetworkInterfaceIOMACAddress = ''IOMACAddress''"
definition kSCNetworkInterfaceIOPathMatch :: string where "kSCNetworkInterfaceIOPathMatch = ''IOPathMatch''"
definition kSCNetworkInterfaceMatchingMACs :: string where "kSCNetworkInterfaceMatchingMACs = ''MatchingMACs''"

lemmas stored_keys = kSCNetworkInterfaceActive_def kSCNetworkInterfaceInfo_def kSCNetworkInterfaceType_def
  kSCNetworkInterfaceBSDName_def kSCNetworkInterfaceIOBuiltin_def kSCNetworkInterfaceIOInterfaceNamePrefix_def
  kSCNetworkInterfaceIOInterfaceType_def kSCNetworkInterfaceIOInterfaceUnit_def kSCNetworkInterfaceIOMACAddress_def
  kSCNetworkInterfaceIOPathMatch_def kSCNetworkInterfaceMatchingMACs_def kSCNetworkInterfaceHiddenConfigurationKey_def
  kSCNetworkInterfaceHiddenInterfaceKey_def

definition stored_entity ::
    "scnif \<Rightarrow> string \<Rightarrow> string \<Rightarrow> int \<Rightarrow> int \<Rightarrow> uint8 list \<Rightarrow> string \<Rightarrow> dict \<Rightarrow> dict" where
  "stored_entity i bsd pfx t unit address path info =
     (let r = ni_registry (ni i);
          d0 = put_flag kSCNetworkInterfaceHiddenInterfaceKey (ni_hiddenInterface r)
                 (put_flag kSCNetworkInterfaceHiddenConfigurationKey (ni_hiddenConfiguration r)
                   (fmupd kSCNetworkInterfaceBSDName (CFString bsd)
                     (put_flag kSCNetworkInterfaceActive (ni_active (ni i)) fmempty)));
          d1 = fmupd kSCNetworkInterfaceIOInterfaceUnit (CFNumber unit)
                 (fmupd kSCNetworkInterfaceIOInterfaceType (CFNumber t)
                   (fmupd kSCNetworkInterfaceIOInterfaceNamePrefix (CFString pfx)
                     (fmupd kSCNetworkInterfaceIOBuiltin (CFBoolean (ni_builtin (ni i))) d0)));
          d2 = fmupd kSCNetworkInterfaceType (CFString (ni_interface_type (ni i)))
                 (fmupd kSCNetworkInterfaceInfo (CFDictionary info)
                   (fmupd kSCNetworkInterfaceIOPathMatch (CFString path)
                     (fmupd kSCNetworkInterfaceIOMACAddress (CFData address) d1)))
      in case ni_matchingMACs r of None \<Rightarrow> d2 | Some m \<Rightarrow> fmupd kSCNetworkInterfaceMatchingMACs (CFArray m) d2)"

definition CopyStorageEntity :: "if_getters \<Rightarrow> scnif \<Rightarrow> dict option" where
  "CopyStorageEntity g i =
     (case (gt_bsd_name g i, gt_prefix g i, gt_type g i, gt_unit g i, gt_address g i, gt_path g i, gt_info g i) of
        (Some bsd, Some pfx, Some t, Some unit, Some address, Some path, Some info) \<Rightarrow>
          Some (stored_entity i bsd pfx t unit address path info)
      | _ \<Rightarrow> None)"

definition flag_of :: "plist option \<Rightarrow> bool" where
  "flag_of x = (case isA_CFBoolean x of None \<Rightarrow> False | Some b \<Rightarrow> b)"

text \<open>What the code takes from a stored entry, when every required value is there.\<close>

record stored_if =
  sf_active :: bool
  sf_bsd :: string
  sf_hiddenConfiguration :: bool
  sf_hiddenInterface :: bool
  sf_builtin :: bool
  sf_prefix :: string
  sf_type :: int
  sf_unit :: int
  sf_address :: "uint8 list"
  sf_path :: string
  sf_info :: dict
  sf_matchingMACs :: "plist list option"
  sf_interface_type :: string

definition read_stored :: "dict \<Rightarrow> stored_if option" where
  "read_stored d =
     (case (isA_CFString (fmlookup d kSCNetworkInterfaceBSDName), isA_CFBoolean (fmlookup d kSCNetworkInterfaceIOBuiltin),
            isA_CFNumber (fmlookup d kSCNetworkInterfaceIOInterfaceType), isA_CFNumber (fmlookup d kSCNetworkInterfaceIOInterfaceUnit),
            isA_CFData (fmlookup d kSCNetworkInterfaceIOMACAddress), isA_CFString (fmlookup d kSCNetworkInterfaceIOPathMatch),
            isA_CFDictionary (fmlookup d kSCNetworkInterfaceInfo), isA_CFString (fmlookup d kSCNetworkInterfaceType)) of
        (Some bsd, Some builtin, Some t, Some u, Some address, Some path, Some info, Some ity) \<Rightarrow>
          Some \<lparr>sf_active = flag_of (fmlookup d kSCNetworkInterfaceActive), sf_bsd = bsd,
            sf_hiddenConfiguration = flag_of (fmlookup d kSCNetworkInterfaceHiddenConfigurationKey),
            sf_hiddenInterface = flag_of (fmlookup d kSCNetworkInterfaceHiddenInterfaceKey), sf_builtin = builtin,
            sf_prefix = (case isA_CFString (fmlookup d kSCNetworkInterfaceIOInterfaceNamePrefix) of
                           Some p \<Rightarrow> p | None \<Rightarrow> prefix_of_name bsd),
            sf_type = t, sf_unit = u, sf_address = address, sf_path = path, sf_info = info,
            sf_matchingMACs = isA_CFArray (fmlookup d kSCNetworkInterfaceMatchingMACs), sf_interface_type = ity\<rparr>
      | _ \<Rightarrow> None)"

definition IFT_ETHER :: int where "IFT_ETHER = 6"
definition IFT_IEEE1394 :: int where "IFT_IEEE1394 = 144"

text \<open>\<open>cr_int\<close> is the int that \<open>CFNumberGetValue\<close> passes back, an approximation when the number is no int.\<close>

record if_creation =
  cr_int :: "int \<Rightarrow> int"
  cr_create :: "dict \<Rightarrow> scnif option"

definition entity_of_stored :: "(int \<Rightarrow> int) \<Rightarrow> stored_if \<Rightarrow> dict" where
  "entity_of_stored cf_int f =
     (let t = sf_interface_type f; n = cf_int (sf_type f);
          ifType = (if n = IFT_ETHER then ''Ethernet'' else if n = IFT_IEEE1394 then ''FireWire'' else t)
      in put_string kSCPropUserDefinedName (isA_CFString (fmlookup (sf_info f) kSCPropUserDefinedName))
           (put_flag kSCNetworkInterfaceHiddenConfigurationKey (sf_hiddenConfiguration f)
             (fmupd ''DeviceName'' (CFString (sf_bsd f))
               (put_string ''Hardware'' (hardware_of t) (fmupd ''Type'' (CFString ifType) fmempty)))))"

definition fill_stored :: "stored_if \<Rightarrow> scnif \<Rightarrow> scnif" where
  "fill_stored f = upd_ni (\<lambda>a. a\<lparr>ni_active := sf_active f, ni_builtin := sf_builtin f, ni_registry :=
     (ni_registry a)\<lparr>ni_hiddenInterface := sf_hiddenInterface f, ni_prefix := Some (sf_prefix f), ni_type := Some (sf_type f),
       ni_unit := Some (sf_unit f), ni_address := Some (sf_address f), ni_path := Some (sf_path f),
       ni_usb_name := isA_CFString (fmlookup (sf_info f) ''USB Product Name''),
       ni_usb_pid := isA_CFNumber (fmlookup (sf_info f) ''idProduct''),
       ni_usb_vid := isA_CFNumber (fmlookup (sf_info f) ''idVendor''),
       ni_matchingMACs := sf_matchingMACs f\<rparr>\<rparr>)"

text \<open>The interface that was created is used without a test for NULL.\<close>

definition CreateWithStorageEntity :: "if_creation \<Rightarrow> plist option \<Rightarrow> scnif option outcome" where
  "CreateWithStorageEntity cr storage_entity =
     (case isA_CFDictionary storage_entity of
        None \<Rightarrow> Ret None
      | Some d \<Rightarrow>
          (case read_stored d of
             None \<Rightarrow> Ret None
           | Some f \<Rightarrow> (case cr_create cr (entity_of_stored (cr_int cr) f) of
                         None \<Rightarrow> UB | Some i \<Rightarrow> Ret (Some (fill_stored f i)))))"

section \<open>Lists of stored interfaces\<close>

text \<open>The session that is given, or a new one, which is asserted to be there.\<close>

definition ni_session :: "'p option \<Rightarrow> 'p option \<Rightarrow> 'p outcome" where
  "ni_session given fresh = (case given of Some p \<Rightarrow> Ret p | None \<Rightarrow> (case fresh of Some p \<Rightarrow> Ret p | None \<Rightarrow> UB))"

fun create_stored :: "if_creation \<Rightarrow> plist list \<Rightarrow> scnif list outcome" where
  "create_stored cr [] = Ret []"
| "create_stored cr (d # ds) =
     obind (CreateWithStorageEntity cr (Some d)) (\<lambda>r.
       obind (create_stored cr ds) (\<lambda>l. Ret (case r of None \<Rightarrow> l | Some i \<Rightarrow> i # l)))"

definition CopyStoredWithPreferences ::
    "if_creation \<Rightarrow> ('p \<Rightarrow> string \<Rightarrow> plist option) \<Rightarrow> 'p option \<Rightarrow> 'p option \<Rightarrow> scnif list option outcome" where
  "CopyStoredWithPreferences cr get_value given fresh =
     obind (ni_session given fresh) (\<lambda>p. case isA_CFArray (get_value p ''Interfaces'') of
         None \<Rightarrow> Ret None
       | Some if_list \<Rightarrow> obind (create_stored cr if_list) (\<lambda>l. Ret (Some l)))"

definition SaveStoredWithPreferences ::
    "('p \<Rightarrow> string \<Rightarrow> plist \<Rightarrow> bool \<times> 'p) \<Rightarrow> 'p option \<Rightarrow> 'p option \<Rightarrow> plist option \<Rightarrow> (bool \<times> 'p option) outcome" where
  "SaveStoredWithPreferences set_value given fresh interfacesToSave =
     (case isA_CFArray interfacesToSave of
        None \<Rightarrow> Ret (False, None)
      | Some l \<Rightarrow> obind (ni_session given fresh) (\<lambda>p. case set_value p ''Interfaces'' (CFArray l) of
                    (ok, p') \<Rightarrow> Ret (ok, Some p')))"

fun find_stored :: "string \<Rightarrow> plist list \<Rightarrow> plist option" where
  "find_stored bsdName [] = None"
| "find_stored bsdName (x # xs) =
     (case isA_CFDictionary (Some x) of
        None \<Rightarrow> find_stored bsdName xs
      | Some d \<Rightarrow> if isA_CFString (fmlookup d kSCNetworkInterfaceBSDName) = Some bsdName then Some x
                  else find_stored bsdName xs)"

definition CreateWithNIPreferencesUsingBSDName ::
    "if_creation \<Rightarrow> ('p \<Rightarrow> string \<Rightarrow> plist option) \<Rightarrow> 'p option \<Rightarrow> 'p option \<Rightarrow> string \<Rightarrow> scnif option outcome" where
  "CreateWithNIPreferencesUsingBSDName cr get_value given fresh bsdName =
     obind (ni_session given fresh) (\<lambda>p. case isA_CFArray (get_value p ''Interfaces'') of
         None \<Rightarrow> Ret None
       | Some if_list \<Rightarrow> (case find_stored bsdName if_list of
                           None \<Rightarrow> Ret None | Some d \<Rightarrow> CreateWithStorageEntity cr (Some d)))"

definition add_if_absent :: "string \<Rightarrow> 'a \<Rightarrow> (string, 'a) fmap \<Rightarrow> (string, 'a) fmap" where
  "add_if_absent k v m = (if fmlookup m k = None then fmupd k v m else m)"

definition CreateMappingUsingBSDName :: "if_getters \<Rightarrow> scnif list \<Rightarrow> (string, scnif) fmap option" where
  "CreateMappingUsingBSDName g interfaces =
     (let m = fold (\<lambda>i m. case gt_bsd_name g i of None \<Rightarrow> m | Some n \<Rightarrow> add_if_absent n i m) interfaces fmempty
      in if m = fmempty then None else Some m)"

section \<open>Names in the bundle\<close>

text \<open>\<open>CFStringTrim\<close> with an argument of a format, at both ends.\<close>

fun trim_front_text :: "string \<Rightarrow> string" where
  "trim_front_text (a # b # s) = (if a = CHR ''%'' \<and> b = CHR ''@'' then trim_front_text s else a # b # s)"
| "trim_front_text s = s"

fun trim_back_text :: "string \<Rightarrow> string" where
  "trim_back_text (a # b # s) = (if a = CHR ''@'' \<and> b = CHR ''%'' then trim_back_text s else a # b # s)"
| "trim_back_text s = s"

definition trim_arguments :: "string \<Rightarrow> string" where
  "trim_arguments s = rev (trim_back_text (rev (trim_front_text s)))"

definition matchesName :: "name_env \<Rightarrow> string \<Rightarrow> string \<Rightarrow> bool \<Rightarrow> bool" where
  "matchesName env name key localized =
     (case ne_string env key localized of
        None \<Rightarrow> False
      | Some str \<Rightarrow> name = str \<or> (suffix '' %@'' str \<and> prefix (trim_arguments str) name))"

definition SCNetworkInterfaceMatchesName :: "name_env \<Rightarrow> string option \<Rightarrow> string \<Rightarrow> bool" where
  "SCNetworkInterfaceMatchesName env name key =
     (ne_bundle env \<and> (case name of None \<Rightarrow> False | Some n \<Rightarrow> matchesName env n key False \<or> matchesName env n key True))"

section \<open>The cache\<close>

text \<open>The cache of a thread; \<open>None\<close> when it is closed.\<close>

type_synonym if_cache = "(string, scnif list) fmap option"

definition CacheIsOpen :: "if_cache \<Rightarrow> bool" where "CacheIsOpen c \<longleftrightarrow> c \<noteq> None"

definition CacheOpen :: "if_cache \<Rightarrow> if_cache" where "CacheOpen c = (if \<not> CacheIsOpen c then Some fmempty else c)"

definition CacheClose :: "if_cache \<Rightarrow> if_cache" where "CacheClose c = (if CacheIsOpen c then None else c)"

definition CacheAdd :: "string option \<Rightarrow> scnif list option \<Rightarrow> if_cache \<Rightarrow> if_cache" where
  "CacheAdd bsdName matching c =
     (case (c, bsdName, matching) of (Some m, Some b, Some l) \<Rightarrow> Some (add_if_absent b l m) | _ \<Rightarrow> c)"

definition CacheCopy :: "string option \<Rightarrow> if_cache \<Rightarrow> scnif list option" where
  "CacheCopy bsdName c = (case (c, bsdName) of (Some m, Some b) \<Rightarrow> fmlookup m b | _ \<Rightarrow> None)"

section \<open>Association with a service, overrides\<close>

definition SCNetworkInterfaceSetService :: "scnservice \<Rightarrow> scnif \<Rightarrow> scnif" where
  "SCNetworkInterfaceSetService service =
     upd_ni (\<lambda>a. a\<lparr>ni_prefs := ns_prefs service, ni_serviceID := Some (ns_serviceID service)\<rparr>)"

definition GetTemplateOverrides :: "scnif \<Rightarrow> string \<Rightarrow> plist option" where
  "GetTemplateOverrides i overrideType =
     (case ni_overrides (ni_registry (ni i)) of None \<Rightarrow> None | Some d \<Rightarrow> fmlookup d overrideType)"

definition GetEntityType :: "scnif \<Rightarrow> string option" where "GetEntityType i = ni_entity_type (ni i)"

definition GetEntitySubType :: "scnif \<Rightarrow> string option" where "GetEntitySubType i = ni_entity_subtype (ni i)"

text \<open>The Bluetooth network from what the interface namer published under its plugin key.\<close>

definition SCNetworkInterfaceCopyBTPANInterface ::
    "(dict \<Rightarrow> scnif option) \<Rightarrow> string \<Rightarrow> string \<Rightarrow> string \<Rightarrow> plist option \<Rightarrow> scnif option" where
  "SCNetworkInterfaceCopyBTPANInterface create pan_name name_key mac_key published =
     (case isA_CFDictionary published of
        None \<Rightarrow> None
      | Some d \<Rightarrow>
          (case isA_CFString (fmlookup d name_key) of
             None \<Rightarrow> None
           | Some if_name \<Rightarrow>
               (case create (fmupd kSCPropUserDefinedName (CFString pan_name)
                       (fmupd ''DeviceName'' (CFString if_name) (fmupd ''Type'' (CFString ''Ethernet'') fmempty))) of
                  None \<Rightarrow> None
                | Some i \<Rightarrow>
                    Some (if ni_address (ni_registry (ni i)) = None \<and> isA_CFData (fmlookup d mac_key) \<noteq> None
                          then upd_registry (\<lambda>r. r\<lparr>ni_address := isA_CFData (fmlookup d mac_key)\<rparr>) i else i))))"

section \<open>Names of keychain items\<close>

definition keychain_value :: "dict option \<Rightarrow> string \<Rightarrow> string \<Rightarrow> plist option" where
  "keychain_value config encryption_key value_key =
     (case config of
        None \<Rightarrow> None
      | Some d \<Rightarrow> if isA_CFString (fmlookup d encryption_key) = Some ''Keychain'' then fmlookup d value_key else None)"

definition getPasswordID :: "dict option \<Rightarrow> string \<Rightarrow> plist" where
  "getPasswordID config serviceID =
     (case keychain_value config ''AuthPasswordEncryption'' ''AuthPassword'' of
        None \<Rightarrow> CFString serviceID | Some v \<Rightarrow> v)"

text \<open>The value in the configuration is copied as a string, whatever its type.\<close>

definition suffixed_id :: "plist \<Rightarrow> string \<Rightarrow> plist outcome" where
  "suffixed_id unique_id sfx = (case isA_CFString (Some unique_id) of None \<Rightarrow> UB | Some s \<Rightarrow> Ret (CFString (s @ sfx)))"

definition copySharedSecretID :: "dict option \<Rightarrow> string \<Rightarrow> plist outcome" where
  "copySharedSecretID config serviceID =
     (case keychain_value config ''SharedSecretEncryption'' ''SharedSecret'' of
        Some v \<Rightarrow> Ret v | None \<Rightarrow> suffixed_id (getPasswordID config serviceID) ''.SS'')"

definition copyXAuthID :: "dict option \<Rightarrow> string \<Rightarrow> plist outcome" where
  "copyXAuthID config serviceID =
     (case keychain_value config ''XAuthPasswordEncryption'' ''XAuthPassword'' of
        Some v \<Rightarrow> Ret v | None \<Rightarrow> suffixed_id (getPasswordID config serviceID) ''.XAUTH'')"

datatype if_password_type =
    kSCNetworkInterfacePasswordTypePPP | kSCNetworkInterfacePasswordTypeIPSecSharedSecret
  | kSCNetworkInterfacePasswordTypeEAPOL | kSCNetworkInterfacePasswordTypeIPSecXAuth
  | kSCNetworkInterfacePasswordTypeVPN | other_password_type nat

definition password_type_allowed :: "scnif \<Rightarrow> if_password_type \<Rightarrow> bool" where
  "password_type_allowed i pt =
     (let t = ni_interface_type (ni i) in
      case pt of
        kSCNetworkInterfacePasswordTypePPP \<Rightarrow> t = kSCNetworkInterfaceTypePPP
      | kSCNetworkInterfacePasswordTypeIPSecSharedSecret \<Rightarrow>
          if t = kSCNetworkInterfaceTypePPP
          then (case ni_interface i of None \<Rightarrow> False | Some x \<Rightarrow> ni_interface_type (ni x) = kSCNetworkInterfaceTypeL2TP)
          else t = kSCNetworkInterfaceTypeIPSec
      | kSCNetworkInterfacePasswordTypeEAPOL \<Rightarrow> True
      | kSCNetworkInterfacePasswordTypeIPSecXAuth \<Rightarrow> t = kSCNetworkInterfaceTypeIPSec
      | kSCNetworkInterfacePasswordTypeVPN \<Rightarrow> t = kSCNetworkInterfaceTypeVPN
      | other_password_type _ \<Rightarrow> True)"

text \<open>The preferences and the service, when a password of that type can be asked for.\<close>

definition checkInterfacePassword :: "scnif option \<Rightarrow> if_password_type \<Rightarrow> sc_status + (nat \<times> string)" where
  "checkInterfacePassword interface pt =
     (case interface of
        None \<Rightarrow> Inl kSCStatusInvalidArgument
      | Some i \<Rightarrow>
          (case (ni_serviceID (ni i), ni_prefs (ni i)) of
             (Some s, Some p) \<Rightarrow> if password_type_allowed i pt then Inr (p, s) else Inl kSCStatusInvalidArgument
           | _ \<Rightarrow> Inl kSCStatusInvalidArgument))"

section \<open>Refresh\<close>

definition SCHELPER_MSG_INTERFACE_REFRESH :: nat where "SCHELPER_MSG_INTERFACE_REFRESH = 200"

text \<open>
  \<open>serialize\<close> is \<open>_SCSerializeString\<close>. An unopened session is opened first; what could not be sent closes the
  session's port.
\<close>

definition refresh_exec :: "pref_env \<Rightarrow> (string \<Rightarrow> uint8 list option) \<Rightarrow> string \<Rightarrow> scprefs \<Rightarrow> bool \<times> sc_status \<times> scprefs" where
  "refresh_exec env serialize ifName p =
     (case serialize ifName of
        None \<Rightarrow> (False, kSCStatusAccessError, prefs_helper_fail env p)
      | Some data \<Rightarrow>
          (case SCHelperExec (pe_helper env) (sp_helper_port p) SCHELPER_MSG_INTERFACE_REFRESH (Some data) of
             None \<Rightarrow> (False, kSCStatusAccessError, prefs_helper_fail env p)
           | Some (status, _) \<Rightarrow>
               if helper_status status \<noteq> kSCStatusOK then (False, helper_status status, p) else (True, kSCStatusOK, p)))"

definition ForceConfigurationRefresh_helper ::
    "pref_env \<Rightarrow> (string \<Rightarrow> uint8 list option) \<Rightarrow> nat option \<Rightarrow> string \<Rightarrow> scprefs \<Rightarrow>
     (bool \<times> sc_status \<times> scprefs \<times> nat option) option" where
  "ForceConfigurationRefresh_helper env serialize shared ifName p =
     (if sp_helper_port p = None
      then (case SCPreferencesCreate_helper env shared p of
              None \<Rightarrow> None
            | Some (ok, st, p1, shared') \<Rightarrow>
                if \<not> ok then Some (False, st, p1, shared')
                else (case refresh_exec env serialize ifName p1 of (ok2, st2, p2) \<Rightarrow> Some (ok2, st2, p2, shared')))
      else (case refresh_exec env serialize ifName p of (ok2, st2, p2) \<Rightarrow> Some (ok2, st2, p2, shared)))"

end
