(* ===== verification/NetStorageProps.thy ===== *)
theory NetStorageProps
  imports NetStorage NetLayerProps
begin

text \<open>
  Stored interfaces are read back, a new unit renames an interface and nothing else, and the cache answers with
  what it was given first. The framework's accessors are a locale: each gives the field it is named for.
\<close>

locale if_access =
  fixes g :: if_getters
  assumes acc_bsd: "gt_bsd_name g i = ni_entity_device (ni i)"
    and acc_prefix: "gt_prefix g i = ni_prefix (ni_registry (ni i))"
    and acc_type: "gt_type g i = ni_type (ni_registry (ni i))"
    and acc_unit: "gt_unit g i = ni_unit (ni_registry (ni i))"
    and acc_address: "gt_address g i = ni_address (ni_registry (ni i))"
    and acc_path: "gt_path g i = ni_path (ni_registry (ni i))"
begin

lemmas access = acc_bsd acc_prefix acc_type acc_unit acc_address acc_path

lemma stored_parts:
  assumes "CopyStorageEntity g i = Some d"
  obtains dev p t u m q info where
    "ni_entity_device (ni i) = Some dev" "ni_prefix (ni_registry (ni i)) = Some p" "ni_type (ni_registry (ni i)) = Some t"
    "ni_unit (ni_registry (ni i)) = Some u" "ni_address (ni_registry (ni i)) = Some m" "ni_path (ni_registry (ni i)) = Some q"
    "gt_info g i = Some info" "d = stored_entity i dev p t u m q info"
  using assms by (auto simp: CopyStorageEntity_def access split: option.splits)

end

text \<open>Accessors that read the fields, with the product name as the only information.\<close>

definition field_getters :: if_getters where
  "field_getters = \<lparr>gt_bsd_name = \<lambda>i. ni_entity_device (ni i), gt_display = \<lambda>i. ni_localized_name (ni i),
     gt_prefix = \<lambda>i. ni_prefix (ni_registry (ni i)), gt_type = \<lambda>i. ni_type (ni_registry (ni i)),
     gt_unit = \<lambda>i. ni_unit (ni_registry (ni i)), gt_address = \<lambda>i. ni_address (ni_registry (ni i)),
     gt_path = \<lambda>i. ni_path (ni_registry (ni i)),
     gt_info = \<lambda>i. Some (put_string ''USB Product Name'' (ni_usb_name (ni_registry (ni i))) fmempty)\<rparr>"

interpretation fields: if_access field_getters
  by unfold_locales (simp_all add: field_getters_def)

section \<open>The stored entry\<close>

lemma lookup_put_flag: "fmlookup (put_flag k b d) x = (if b \<and> k = x then Some (CFBoolean True) else fmlookup d x)"
  by (simp add: put_flag_def)

lemma lookup_put_string: "fmlookup (put_string k v d) x = (if k = x \<and> v \<noteq> None then map_option CFString v else fmlookup d x)"
  by (cases v) (simp_all add: put_string_def)

lemma lookup_stored:
  "fmlookup (stored_entity i bsd p t u m q info) k =
     (if k = kSCNetworkInterfaceMatchingMACs then map_option CFArray (ni_matchingMACs (ni_registry (ni i)))
      else if k = kSCNetworkInterfaceType then Some (CFString (ni_interface_type (ni i)))
      else if k = kSCNetworkInterfaceInfo then Some (CFDictionary info)
      else if k = kSCNetworkInterfaceIOPathMatch then Some (CFString q)
      else if k = kSCNetworkInterfaceIOMACAddress then Some (CFData m)
      else if k = kSCNetworkInterfaceIOInterfaceUnit then Some (CFNumber u)
      else if k = kSCNetworkInterfaceIOInterfaceType then Some (CFNumber t)
      else if k = kSCNetworkInterfaceIOInterfaceNamePrefix then Some (CFString p)
      else if k = kSCNetworkInterfaceIOBuiltin then Some (CFBoolean (ni_builtin (ni i)))
      else if k = kSCNetworkInterfaceHiddenInterfaceKey
      then (if ni_hiddenInterface (ni_registry (ni i)) then Some (CFBoolean True) else None)
      else if k = kSCNetworkInterfaceHiddenConfigurationKey
      then (if ni_hiddenConfiguration (ni_registry (ni i)) then Some (CFBoolean True) else None)
      else if k = kSCNetworkInterfaceBSDName then Some (CFString bsd)
      else if k = kSCNetworkInterfaceActive then (if ni_active (ni i) then Some (CFBoolean True) else None)
      else None)"
  by (cases "ni_matchingMACs (ni_registry (ni i))")
    (simp_all add: stored_entity_def Let_def lookup_put_flag stored_keys)

definition stored_of :: "scnif \<Rightarrow> string \<Rightarrow> string \<Rightarrow> int \<Rightarrow> int \<Rightarrow> uint8 list \<Rightarrow> string \<Rightarrow> dict \<Rightarrow> stored_if" where
  "stored_of i bsd p t u m q info =
     \<lparr>sf_active = ni_active (ni i), sf_bsd = bsd, sf_hiddenConfiguration = ni_hiddenConfiguration (ni_registry (ni i)),
      sf_hiddenInterface = ni_hiddenInterface (ni_registry (ni i)), sf_builtin = ni_builtin (ni i), sf_prefix = p,
      sf_type = t, sf_unit = u, sf_address = m, sf_path = q, sf_info = info,
      sf_matchingMACs = ni_matchingMACs (ni_registry (ni i)), sf_interface_type = ni_interface_type (ni i)\<rparr>"

lemma read_stored_entity: "read_stored (stored_entity i bsd p t u m q info) = Some (stored_of i bsd p t u m q info)"
  by (cases "ni_matchingMACs (ni_registry (ni i))")
    (simp_all add: read_stored_def lookup_stored stored_keys flag_of_def stored_of_def)

text \<open>
  A stored interface is read back. From the entry that \<open>__SCNetworkInterfaceCopyStorageEntity\<close> made of an
  interface, \<open>__SCNetworkInterfaceCreateWithStorageEntity\<close> asks for an interface of that device and hardware, and
  gives it the stored one's activity, built-in and hidden interface flags, prefix, type, unit, address,
  path and matching addresses; the creation is a parameter here (NetMatchProps has it, and the way back).
\<close>

theorem StorageEntity_read_back:
  assumes "if_access g" "CopyStorageEntity g i = Some d" "\<And>e. cr_create cr e = Some (made e)"
  shows "\<exists>e k. CreateWithStorageEntity cr (Some (CFDictionary d)) = Ret (Some k) \<and>
    fmlookup e ''DeviceName'' = map_option CFString (ni_entity_device (ni i)) \<and>
    fmlookup e ''Hardware'' = map_option CFString (hardware_of (ni_interface_type (ni i))) \<and>
    ni_interface k = ni_interface (made e) \<and>
    ni_entity_device (ni k) = ni_entity_device (ni (made e)) \<and> ni_interface_type (ni k) = ni_interface_type (ni (made e)) \<and>
    ni_active (ni k) = ni_active (ni i) \<and> ni_builtin (ni k) = ni_builtin (ni i) \<and>
    ni_hiddenInterface (ni_registry (ni k)) = ni_hiddenInterface (ni_registry (ni i)) \<and>
    ni_prefix (ni_registry (ni k)) = ni_prefix (ni_registry (ni i)) \<and>
    ni_type (ni_registry (ni k)) = ni_type (ni_registry (ni i)) \<and> ni_unit (ni_registry (ni k)) = ni_unit (ni_registry (ni i)) \<and>
    ni_address (ni_registry (ni k)) = ni_address (ni_registry (ni i)) \<and> ni_path (ni_registry (ni k)) = ni_path (ni_registry (ni i)) \<and>
    ni_matchingMACs (ni_registry (ni k)) = ni_matchingMACs (ni_registry (ni i))"
proof -
  from assms(2) obtain dev p t u m q info where parts:
    "ni_entity_device (ni i) = Some dev" "ni_prefix (ni_registry (ni i)) = Some p" "ni_type (ni_registry (ni i)) = Some t"
    "ni_unit (ni_registry (ni i)) = Some u" "ni_address (ni_registry (ni i)) = Some m" "ni_path (ni_registry (ni i)) = Some q"
    and d: "d = stored_entity i dev p t u m q info"
    by (rule if_access.stored_parts[OF assms(1)])
  let ?f = "stored_of i dev p t u m q info"
  let ?e = "entity_of_stored (cr_int cr) ?f"
  let ?k = "fill_stored ?f (made ?e)"
  have made: "CreateWithStorageEntity cr (Some (CFDictionary d)) = Ret (Some ?k)"
    by (simp add: CreateWithStorageEntity_def d read_stored_entity assms(3))
  have "fmlookup ?e ''DeviceName'' = Some (CFString dev)"
    "fmlookup ?e ''Hardware'' = map_option CFString (hardware_of (ni_interface_type (ni i)))"
    by (cases "hardware_of (ni_interface_type (ni i))";
        simp add: entity_of_stored_def stored_of_def Let_def lookup_put_string lookup_put_flag kSCPropUserDefinedName_def
          kSCNetworkInterfaceHiddenConfigurationKey_def)+
  with made parts show ?thesis
    by (intro exI[of _ ?e] exI[of _ ?k]) (simp add: fill_stored_def stored_of_def)
qed

definition en1 :: scnif where
  "en1 = upd_ni (\<lambda>a. a\<lparr>ni_interface_type := ''Ethernet'', ni_entity_device := Some ''en1'', ni_builtin := True,
       ni_registry := (ni_registry a)\<lparr>ni_prefix := Some ''en'', ni_type := Some 6, ni_unit := Some 1, ni_address := Some [2],
         ni_path := Some ''IOService:/en1''\<rparr>\<rparr>)
     (SCNetworkInterfaceCreatePrivate None None None)"

definition plain_creation :: if_creation where
  "plain_creation = \<lparr>cr_int = id, cr_create = \<lambda>e. Some (SCNetworkInterfaceCreatePrivate None None None)\<rparr>"

lemma en1_fields:
  "ni_entity_device (ni en1) = Some ''en1''" "ni_interface_type (ni en1) = ''Ethernet''" "ni_interface en1 = None"
  "ni_path (ni_registry (ni en1)) = Some ''IOService:/en1''" "ni_unit (ni_registry (ni en1)) = Some 1"
  "ni_prefix (ni_registry (ni en1)) = Some ''en''" "ni_type (ni_registry (ni en1)) = Some 6"
  "ni_address (ni_registry (ni en1)) = Some [2]"
  by (simp_all add: en1_def SCNetworkInterfaceCreatePrivate_def)

lemma StorageEntity_read_back_witness:
  "\<exists>d k. CopyStorageEntity field_getters en1 = Some d \<and>
     CreateWithStorageEntity plain_creation (Some (CFDictionary d)) = Ret (Some k) \<and>
     ni_path (ni_registry (ni k)) = Some ''IOService:/en1'' \<and> ni_unit (ni_registry (ni k)) = Some 1"
proof -
  obtain d where d: "CopyStorageEntity field_getters en1 = Some d"
    by (simp add: CopyStorageEntity_def field_getters_def en1_fields)
  have "cr_create plain_creation e = Some ((\<lambda>_. SCNetworkInterfaceCreatePrivate None None None) e)" for e
    by (simp add: plain_creation_def)
  from StorageEntity_read_back[OF fields.if_access_axioms d this] d show ?thesis
    by (auto simp: en1_fields)
qed

section \<open>A new unit\<close>

lemma prefix_of_name_decimal: "prefix_of_name (p @ decimal n) = prefix_of_name p"
proof -
  have "is_digit_char c" if "c \<in> set (decimal n)" for c
    using that
  proof (induction n rule: decimal.induct)
    case (1 n)
    have digit: "is_digit_char (char_of (48 + m))" if "m < 10" for m :: nat
      using that by (simp add: is_digit_char_def)
    show ?case
    proof (cases "n < 10")
      case True
      with 1 digit show ?thesis by (subst (asm) (2) decimal.simps) simp
    next
      case False
      with 1 digit[of "n mod 10"] show ?thesis by (subst (asm) (2) decimal.simps) auto
    qed
  qed
  then show ?thesis unfolding prefix_of_name_def rev_append by (subst dropWhile_append2) simp_all
qed

lemma upd_registry_sel [simp]:
  "ni (upd_registry f i) = (ni i)\<lparr>ni_registry := f (ni_registry (ni i))\<rparr>" "ni_interface (upd_registry f i) = ni_interface i"
  by (simp_all add: upd_registry_def)

definition unit_prefix :: "scnif \<Rightarrow> string \<Rightarrow> string" where
  "unit_prefix i dev = (case ni_prefix (ni_registry (ni i)) of Some x \<Rightarrow> x | None \<Rightarrow> prefix_of_name dev)"

lemma with_prefix_eq:
  "ni_entity_device (ni i) = Some dev \<Longrightarrow>
   with_prefix i = i \<and> ni_prefix (ni_registry (ni i)) = Some (unit_prefix i dev) \<or>
   with_prefix i = upd_registry (\<lambda>r. r\<lparr>ni_prefix := Some (unit_prefix i dev)\<rparr>) i"
  by (cases "ni_prefix (ni_registry (ni i))")
    (simp_all add: with_prefix_def unit_prefix_def SetIOInterfacePrefix_def CopyPrefixFromBSDName_def)

text \<open>What the change of the unit keeps of an interface.\<close>

definition unit_frame :: "scnif \<Rightarrow> scnif \<Rightarrow> bool" where
  "unit_frame i k \<longleftrightarrow> ni_interface k = ni_interface i \<and> ni_interface_type (ni k) = ni_interface_type (ni i) \<and>
     ni_address (ni_registry (ni k)) = ni_address (ni_registry (ni i))"

lemma set_unit_step:
  assumes "if_access g" "ni_entity_device (ni i) = Some dev"
  shows "\<exists>k. SetIOInterfaceUnit g i (Some u) = Ret k \<and> ni_entity_device (ni k) = Some (unit_prefix i dev @ number_text u) \<and>
    ni_prefix (ni_registry (ni k)) = Some (unit_prefix i dev) \<and> ni_unit (ni_registry (ni k)) = Some u \<and>
    ni_path (ni_registry (ni k)) = map_option (\<lambda>q. ''Migrated_From: '' @ q) (ni_path (ni_registry (ni i))) \<and> unit_frame i k"
proof -
  let ?j = "with_prefix i" and ?n = "unit_prefix i dev @ number_text u"
  have j: "ni_prefix (ni_registry (ni ?j)) = Some (unit_prefix i dev)" "ni_entity_device (ni ?j) = Some dev"
    "ni_path (ni_registry (ni ?j)) = ni_path (ni_registry (ni i))" "unit_frame i ?j"
    using with_prefix_eq[OF assms(2)] assms(2) by (auto simp: unit_frame_def)
  obtain b k where k: "UpdateBSDName ?j (Some dev) ?n = Ret (b, k)" "ni_entity_device (ni k) = Some ?n"
    "ni_registry (ni k) = ni_registry (ni ?j)" "unit_frame i k"
    using j by (cases "dev = ?n") (auto simp: UpdateBSDName_def unit_frame_def)
  have "SetIOInterfaceUnit g i (Some u) = Ret (upd_registry (\<lambda>r. r\<lparr>ni_unit := Some u\<rparr>) (snd (UpdateIOPath k)))"
    using k(1) j(1) assms by (simp add: SetIOInterfaceUnit_def if_access.acc_bsd[OF assms(1)] Let_def)
  then show ?thesis
    using k(2-4) j(1,3) by (cases "ni_path (ni_registry (ni i))") (simp_all add: UpdateIOPath_def unit_frame_def)
qed

text \<open>
  C35. A new unit renames an interface: after \<open>__SCNetworkInterfaceSetIOInterfaceUnit\<close> the device is the prefix,
  the given one or the old name without its digits, followed by the unit, the unit is the new one, and the
  path says where it came from; the layers, the type and the address are as before. A second change of the
  unit starts from the same prefix, even when the first name is all that is known of it.
\<close>

theorem SetIOInterfaceUnit_renames:
  assumes "if_access g" "ni_entity_device (ni i) = Some dev"
  shows "\<exists>k. SetIOInterfaceUnit g i (Some (int u)) = Ret k \<and> ni_entity_device (ni k) = Some (unit_prefix i dev @ decimal u) \<and>
    ni_unit (ni_registry (ni k)) = Some (int u) \<and>
    ni_path (ni_registry (ni k)) = map_option (\<lambda>q. ''Migrated_From: '' @ q) (ni_path (ni_registry (ni i))) \<and> unit_frame i k \<and>
    prefix_of_name (unit_prefix i dev @ decimal u) = prefix_of_name (unit_prefix i dev) \<and>
    (\<exists>k'. SetIOInterfaceUnit g k (Some (int v)) = Ret k' \<and> ni_entity_device (ni k') = Some (unit_prefix i dev @ decimal v))"
proof -
  obtain k where k: "SetIOInterfaceUnit g i (Some (int u)) = Ret k" "ni_entity_device (ni k) = Some (unit_prefix i dev @ decimal u)"
      "ni_prefix (ni_registry (ni k)) = Some (unit_prefix i dev)" "ni_unit (ni_registry (ni k)) = Some (int u)"
      "ni_path (ni_registry (ni k)) = map_option (\<lambda>q. ''Migrated_From: '' @ q) (ni_path (ni_registry (ni i)))" "unit_frame i k"
    using set_unit_step[OF assms, of "int u"] by (auto simp: number_text_def)
  have "unit_prefix k (unit_prefix i dev @ decimal u) = unit_prefix i dev" using k(3) by (simp add: unit_prefix_def)
  then obtain k' where "SetIOInterfaceUnit g k (Some (int v)) = Ret k'" "ni_entity_device (ni k') = Some (unit_prefix i dev @ decimal v)"
    using set_unit_step[OF assms(1) k(2), of "int v"] by (auto simp: number_text_def)
  with k show ?thesis by (auto simp: prefix_of_name_decimal)
qed

lemma SetIOInterfaceUnit_renames_witness:
  "\<exists>k. SetIOInterfaceUnit field_getters en1 (Some 4) = Ret k \<and> ni_entity_device (ni k) = Some (''en'' @ decimal 4) \<and>
     ni_path (ni_registry (ni k)) = Some ''Migrated_From: IOService:/en1''"
  using SetIOInterfaceUnit_renames[OF fields.if_access_axioms en1_fields(1), of 4 0] by (auto simp: en1_fields unit_prefix_def)

text \<open>With a prefix but no name, the old name is compared though there is none.\<close>

lemma unit_without_name:
  assumes "gt_bsd_name g i = None" "ni_prefix (ni_registry (ni i)) = Some p"
  shows "SetIOInterfaceUnit g i (Some u) = UB"
  using assms by (simp add: SetIOInterfaceUnit_def with_prefix_def UpdateBSDName_def Let_def)

section \<open>The cache\<close>

lemma cache_first:
  "CacheCopy (Some b) (CacheAdd (Some b) (Some l') (CacheAdd (Some b) (Some l) (CacheOpen None))) = Some l"
  "CacheCopy (Some b) (CacheClose (CacheAdd (Some b) (Some l) c)) = None"
  by (simp_all add: CacheCopy_def CacheAdd_def CacheOpen_def CacheClose_def CacheIsOpen_def add_if_absent_def)

section \<open>Keychain items\<close>

text \<open>A password that is no string in a configuration that names the keychain is copied as a string.\<close>

lemma password_id_not_string:
  assumes "fmlookup d ''AuthPasswordEncryption'' = Some (CFString ''Keychain'')" "fmlookup d ''AuthPassword'' = Some (CFData b)"
    and "fmlookup d ''SharedSecretEncryption'' = None"
  shows "copySharedSecretID (Some d) serviceID = UB"
  using assms by (simp add: copySharedSecretID_def keychain_value_def getPasswordID_def suffixed_id_def)

end
