(* ===== verification/NetService.thy ===== *)
theory NetService
  imports NetConfig NetStorage
begin

text \<open>
  Services (SCNetworkService.c): templates of protocols, the entity of the interface, names, the change of an
  identifier in the sets, and the creation and migration of services.

  The framework's calls on services, sets, protocols and the preferences answer through records of
  functions over a state \<open>'w\<close>, which every call that changes something returns. A service and a set are
  handles of the framework.
\<close>

section \<open>Templates\<close>

text \<open>The overrides are merged over the template, at the lowest layer of the interface.\<close>

definition protocolTemplate :: "template_env \<Rightarrow> scnif option \<Rightarrow> string \<Rightarrow> dict" where
  "protocolTemplate te interface protocolType =
     (case interface of
        None \<Rightarrow> fmempty
      | Some i \<Rightarrow>
          (case copyProtocolTemplate te (ni_interface_type (ni i)) (map_option (\<lambda>c. ni_interface_type (ni c)) (ni_interface i))
                  protocolType of
             None \<Rightarrow> fmempty
           | Some template \<Rightarrow>
               (case isA_CFDictionary (GetTemplateOverrides (lowest_layer i) protocolType) of
                  None \<Rightarrow> template | Some overrides \<Rightarrow> template ++\<^sub>f overrides)))"

section \<open>Interfaces of services\<close>

text \<open>Of every service its interface, if it has one; there is no empty array.\<close>

definition CopyAllInterfaces :: "scnservice list option \<Rightarrow> scnif list option" where
  "CopyAllInterfaces services =
     (case services of
        None \<Rightarrow> None
      | Some l \<Rightarrow> let interfaces = List.map_filter ns_interface l in if interfaces = [] then None else Some interfaces)"

definition entity_string :: "dict \<Rightarrow> string \<Rightarrow> string list" where
  "entity_string d k = (case isA_CFString (fmlookup d k) of None \<Rightarrow> [] | Some s \<Rightarrow> [s])"

definition copyInterfaceEntityTypes :: "dict \<Rightarrow> string set" where
  "copyInterfaceEntityTypes protocols =
     (case isA_CFDictionary (fmlookup protocols ''Interface'') of
        None \<Rightarrow> {}
      | Some d \<Rightarrow> set (''Interface'' # entity_string d ''Type'' @ entity_string d ''SubType'' @ entity_string d ''Hardware'' @ [''PPP'']))"

definition SetInterfaceEntity ::
    "name_env \<Rightarrow> if_getters \<Rightarrow> 'p path_ops \<Rightarrow> (string \<Rightarrow> string option \<Rightarrow> path) \<Rightarrow> scnservice \<Rightarrow> scnif \<Rightarrow> 'p \<Rightarrow> (bool \<times> 'p) outcome" where
  "SetInterfaceEntity env g ops service_path service interface s =
     obind (CopyInterfaceEntity env g interface) (\<lambda>entity.
       Ret (case path_set ops s (service_path (ns_serviceID service) (Some ''Interface'')) (CFDictionary entity) of
              None \<Rightarrow> (False, s) | Some s' \<Rightarrow> (True, s')))"

definition SCNetworkServiceExists ::
    "'p path_ops \<Rightarrow> (string \<Rightarrow> string option \<Rightarrow> path) \<Rightarrow> 'p \<Rightarrow> scnservice \<Rightarrow> bool" where
  "SCNetworkServiceExists ops service_path s service \<longleftrightarrow>
     ns_prefs service \<noteq> None \<and>
     isA_CFDictionary (path_get ops s (service_path (ns_serviceID service) (Some ''Interface''))) \<noteq> None"

definition SCNetworkServiceIsPPTP :: "scnservice option \<Rightarrow> bool" where
  "SCNetworkServiceIsPPTP service \<longleftrightarrow>
     (case service of
        None \<Rightarrow> False
      | Some s \<Rightarrow> (case ns_interface s of None \<Rightarrow> False | Some i \<Rightarrow> GetEntitySubType i = Some ''PPTP''))"

text \<open>
  A UUID from the name: the first 16 bytes of the SHA-256 of the zeroed name buffer. \<open>fill\<close> gives the buffer after
  the conversion to ASCII, \<open>uuid_text\<close> the text of a UUID.
\<close>

definition copyInterfaceUUID ::
    "(string \<Rightarrow> uint8 list) \<Rightarrow> (uint8 list \<Rightarrow> uint8 list) \<Rightarrow> (uint8 list \<Rightarrow> string) \<Rightarrow> string \<Rightarrow> string" where
  "copyInterfaceUUID fill sha256 uuid_text bsdName = uuid_text (take 16 (sha256 (fill bsdName)))"

section \<open>The name of a service\<close>

text \<open>The layer whose name is compared: down to a VPN, or to the last one above IPv4.\<close>

fun naming_layer :: "name_env \<Rightarrow> scnif \<Rightarrow> scnif" where
  "naming_layer env (SCNetif a l b r v) =
     (if ni_interface_type a = kSCNetworkInterfaceTypeVPN then SCNetif a l b r v
      else case l of
             None \<Rightarrow> SCNetif a l b r v
           | Some child \<Rightarrow> if SCNetworkInterfaceEqual env child kSCNetworkInterfaceIPv4 then SCNetif a l b r v
                           else naming_layer env child)"

text \<open>The first of the old names that the stored one starts with, and the rest.\<close>

fun match_old_name :: "string \<Rightarrow> string list \<Rightarrow> string option option" where
  "match_old_name name [] = None"
| "match_old_name name (old # olds) =
     (if name = old then Some None
      else if prefix old name then Some (Some (drop (length old) name))
      else match_old_name name olds)"

definition fresh_name :: "if_getters \<Rightarrow> scnif \<Rightarrow> string option \<Rightarrow> string option" where
  "fresh_name g i sfx =
     map_option (\<lambda>nm. nm @ (case sfx of None \<Rightarrow> [] | Some s \<Rightarrow> s)) (gt_display g i)"

text \<open>
  Compiled with \<open>FULL_COMP\<close>. \<open>stored\<close> is what the preferences have for the service, \<open>bypass\<close> whether system interfaces are
  left aside. The result is also kept in the service.
\<close>

definition SCNetworkServiceGetName ::
    "name_env \<Rightarrow> if_getters \<Rightarrow> bool \<Rightarrow> plist option \<Rightarrow> scnservice option \<Rightarrow> sc_status + (string option \<times> scnservice)" where
  "SCNetworkServiceGetName env g bypass stored service =
     (case service of
        None \<Rightarrow> Inl kSCStatusInvalidArgument
      | Some s \<Rightarrow>
          if ns_prefs s = None then Inl kSCStatusInvalidArgument
          else if ns_name s \<noteq> None then Inr (ns_name s, s)
          else
            let name = (case isA_CFDictionary stored of None \<Rightarrow> None | Some d \<Rightarrow> isA_CFString (fmlookup d kSCPropUserDefinedName));
                result =
                  (if name \<noteq> None \<and> bypass then name
                   else case ns_interface s of
                          None \<Rightarrow> name
                        | Some i0 \<Rightarrow>
                            let i = naming_layer env i0 in
                            (case name of
                               None \<Rightarrow> fresh_name g i None
                             | Some nm \<Rightarrow>
                                 (case match_old_name nm
                                         [SCNetworkInterfaceGetNonLocalizedDisplayName env i,
                                          SCNetworkInterfaceCopyXLocalizedDisplayName env i,
                                          SCNetworkInterfaceCopyXNonLocalizedDisplayName env i] of
                                    None \<Rightarrow> Some nm
                                  | Some sfx \<Rightarrow> fresh_name g i sfx)))
            in Inr (result, s\<lparr>ns_name := result\<rparr>))"

section \<open>A new identifier in a set\<close>

record 'w set_api =
  st_order :: "'w \<Rightarrow> string list option"
  st_set_order :: "'w \<Rightarrow> string list \<Rightarrow> 'w"
  st_get_link :: "'w \<Rightarrow> path \<Rightarrow> path option"
  st_set_link :: "'w \<Rightarrow> path \<Rightarrow> path \<Rightarrow> bool \<times> 'w"
  st_remove :: "'w \<Rightarrow> path \<Rightarrow> bool \<times> 'w"

text \<open>
  The calls on one set. \<open>in_set\<close> is the path of a service in the set, \<open>service_path\<close> that of the service. The results of
  the last two calls are ignored.
\<close>

definition replaceServiceID ::
    "'w set_api \<Rightarrow> (string \<Rightarrow> path) \<Rightarrow> (string \<Rightarrow> path) \<Rightarrow> string \<Rightarrow> string \<Rightarrow> 'w \<Rightarrow> 'w" where
  "replaceServiceID api in_set service_path oldID newID w =
     (let w1 = (case st_order api w of
                  Some order \<Rightarrow>
                    if oldID \<in> set order then st_set_order api w (map (\<lambda>x. if x = oldID then newID else x) order) else w
                | None \<Rightarrow> w)
      in if st_get_link api w1 (in_set oldID) = None then w1
         else let (_, w2) = st_remove api w1 (in_set oldID);
                  (_, w3) = st_set_link api w2 (in_set newID) (service_path newID)
              in w3)"

section \<open>Copying the configuration of an interface\<close>

text \<open>
  The framework's calls: a read gives the configuration and what \<open>SCError\<close> then says; the result of a
  write is logged at most.
\<close>

record 'w conf_api =
  ca_get :: "'w \<Rightarrow> scnif \<Rightarrow> plist option \<times> sc_status"
  ca_set :: "'w \<Rightarrow> scnif \<Rightarrow> plist option \<Rightarrow> 'w"
  ca_get_extended :: "'w \<Rightarrow> scnif \<Rightarrow> string \<Rightarrow> plist option \<times> sc_status"
  ca_set_extended :: "'w \<Rightarrow> scnif \<Rightarrow> string \<Rightarrow> plist option \<Rightarrow> 'w"

definition kSCEntNetEAPOL :: string where "kSCEntNetEAPOL = ''EAPOL''"
definition kVPNProtocolPayloadInfo :: string where "kVPNProtocolPayloadInfo = ''com.apple.payload''"
definition kSCValNetPPPAuthProtocolEAP :: string where "kSCValNetPPPAuthProtocolEAP = ''EAP''"
definition kSCEntNetLoginWindowEAPOL :: string where "kSCEntNetLoginWindowEAPOL = ''EAPOL.LoginWindow''"

definition copy_extended :: "'w conf_api \<Rightarrow> scnif \<Rightarrow> scnif \<Rightarrow> string \<Rightarrow> 'w \<Rightarrow> 'w" where
  "copy_extended api old new t w =
     (case ca_get_extended api w old t of
        (c, st) \<Rightarrow> if c \<noteq> None \<or> st = kSCStatusOK then ca_set_extended api w new t c else w)"

definition copy_main :: "'w conf_api \<Rightarrow> scnif \<Rightarrow> scnif \<Rightarrow> 'w \<Rightarrow> 'w" where
  "copy_main api old new w =
     (case ca_get api w old of (c, st) \<Rightarrow> if c \<noteq> None \<or> st = kSCStatusOK then ca_set api w new c else w)"

definition copied_types :: "scnif \<Rightarrow> string list" where
  "copied_types old =
     (if is_ppp_l2tp old then [kSCEntNetIPSec] else []) @
     [kSCEntNetEAPOL, kVPNProtocolPayloadInfo, kSCValNetPPPAuthProtocolEAP, kSCEntNetLoginWindowEAPOL,
      kSCNetworkInterfaceTypeIPSec]"

fun copyInterfaceConfiguration :: "'w conf_api \<Rightarrow> scnif \<Rightarrow> scnif option \<Rightarrow> 'w \<Rightarrow> 'w" where
  "copyInterfaceConfiguration api (SCNetif a l b r v) new w =
     (case new of
        None \<Rightarrow> w
      | Some n \<Rightarrow>
          let old = SCNetif a l b r v;
              w1 = fold (copy_extended api old n) (copied_types old) (copy_main api old n w)
          in case l of None \<Rightarrow> w1 | Some child \<Rightarrow> copyInterfaceConfiguration api child (ni_interface n) w1)"

section \<open>Creation and migration\<close>

record ('w, 'h, 's) service_api =
  sv_exists :: "'w \<Rightarrow> string \<Rightarrow> bool"
  sv_create :: "'w \<Rightarrow> scnif option \<Rightarrow> 'h option \<times> 'w"
  sv_set_name :: "'w \<Rightarrow> 'h \<Rightarrow> string \<Rightarrow> bool \<times> 'w"
  sv_set_enabled :: "'w \<Rightarrow> 'h \<Rightarrow> bool \<Rightarrow> bool \<times> 'w"
  sv_establish :: "'w \<Rightarrow> 'h \<Rightarrow> bool \<times> 'w"
  sv_set_id :: "'w \<Rightarrow> 'h \<Rightarrow> string \<Rightarrow> 'w"
  sv_remove :: "'w \<Rightarrow> 'h \<Rightarrow> 'w"
  sv_current_set :: "'w \<Rightarrow> 's option"
  sv_set_add :: "'w \<Rightarrow> 's \<Rightarrow> 'h \<Rightarrow> bool \<times> 'w"
  sv_copy_protocol :: "'w \<Rightarrow> 'h \<Rightarrow> string \<Rightarrow> bool \<times> sc_status"
  sv_add_protocol_type :: "'w \<Rightarrow> 'h \<Rightarrow> string \<Rightarrow> bool \<times> 'w"
  sv_protocol_config :: "'w \<Rightarrow> 'h \<Rightarrow> string \<Rightarrow> plist option \<Rightarrow> 'w"
  sv_protocol_enabled :: "'w \<Rightarrow> 'h \<Rightarrow> string \<Rightarrow> bool \<Rightarrow> 'w"

text \<open>\<open>__SCNetworkServiceCreate\<close>: the name is the given one or the interface's.\<close>

definition finish_create :: "('w, 'h, 's) service_api \<Rightarrow> 'h option \<Rightarrow> bool \<Rightarrow> 'w \<Rightarrow> bool \<times> 'w" where
  "finish_create api service ok w =
     (case sv_current_set api w of
        None \<Rightarrow> (ok, case service of None \<Rightarrow> w | Some h \<Rightarrow> sv_remove api w h)
      | Some cs \<Rightarrow>
          (case service of
             None \<Rightarrow> (ok, w)
           | Some h \<Rightarrow> (case sv_set_add api w cs h of
                         (added, w1) \<Rightarrow> if \<not> added then (False, sv_remove api w1 h) else (True, w1))))"

definition SCNetworkService_Create ::
    "('w, 'h, 's) service_api \<Rightarrow> scnif option \<Rightarrow> string option \<Rightarrow> 'w \<Rightarrow> bool \<times> 'w" where
  "SCNetworkService_Create api interface userDefinedName w =
     (case interface of
        None \<Rightarrow> (False, w)
      | Some i \<Rightarrow>
          (case (case userDefinedName of None \<Rightarrow> SCNetworkInterfaceGetUserDefinedName i | Some n \<Rightarrow> Some n) of
             None \<Rightarrow> (False, w)
           | Some name \<Rightarrow>
               (case sv_create api w (Some i) of
                  (None, w1) \<Rightarrow> finish_create api None False w1
                | (Some h, w1) \<Rightarrow>
                    (case sv_set_name api w1 h name of
                       (False, w2) \<Rightarrow> (False, sv_remove api w2 h)
                     | (True, w2) \<Rightarrow>
                         (case sv_establish api w2 h of
                            (False, w3) \<Rightarrow> (False, sv_remove api w3 h)
                          | (True, w3) \<Rightarrow> finish_create api (Some h) True w3)))))"

definition AddProtocolToService ::
    "('w, 'h, 's) service_api \<Rightarrow> 'h \<Rightarrow> string \<Rightarrow> plist option \<Rightarrow> bool \<Rightarrow> 'w \<Rightarrow> 'w" where
  "AddProtocolToService api h protocolType configuration enabled w =
     (let (has, w1) =
        (case sv_copy_protocol api w h protocolType of
           (True, _) \<Rightarrow> (True, w)
         | (False, st) \<Rightarrow>
             if st = kSCStatusNoKey
             then (case sv_add_protocol_type api w h protocolType of
                     (ok, w1) \<Rightarrow> (ok \<and> fst (sv_copy_protocol api w1 h protocolType), w1))
             else (False, w))
      in if has then sv_protocol_enabled api (sv_protocol_config api w1 h protocolType configuration) h protocolType enabled
         else w1)"

text \<open>Every occurrence of a text is replaced, as \<open>CFStringFindAndReplace\<close> does.\<close>

function replace_all :: "string \<Rightarrow> string \<Rightarrow> string \<Rightarrow> string" where
  "replace_all x y s =
     (if s = [] then []
      else if x \<noteq> [] \<and> prefix x s then y @ replace_all x y (drop (length x) s)
      else hd s # replace_all x y (tl s))"
  by pat_completeness auto

termination
  by (relation "measure (\<lambda>(_, _, s). length s)") auto

declare replace_all.simps [simp del]

definition map_entity :: "(string, string) fmap option \<Rightarrow> dict \<Rightarrow> dict" where
  "map_entity bsdNameMapping entity =
     (case (bsdNameMapping, isA_CFString (fmlookup entity ''DeviceName'')) of
        (Some m, Some deviceName) \<Rightarrow>
          (case fmlookup m deviceName of
             None \<Rightarrow> entity
           | Some target \<Rightarrow>
               let e1 = fmupd ''DeviceName'' (CFString target) entity in
               (case isA_CFString (fmlookup e1 kSCPropUserDefinedName) of
                  None \<Rightarrow> e1
                | Some nm \<Rightarrow> fmupd kSCPropUserDefinedName (CFString (replace_all deviceName target nm)) e1))
      | _ \<Rightarrow> entity)"

text \<open>The service is added to the new set of every old one; one success is enough.\<close>

fun add_to_sets :: "('w, 'h, 's) service_api \<Rightarrow> ('s \<Rightarrow> 's option) \<Rightarrow> 'h \<Rightarrow> 's list \<Rightarrow> bool \<Rightarrow> 'w \<Rightarrow> bool \<times> 'w" where
  "add_to_sets api setMapping h [] added w = (added, w)"
| "add_to_sets api setMapping h (oldSet # setList) added w =
     (case setMapping oldSet of
        None \<Rightarrow> add_to_sets api setMapping h setList added w
      | Some newSet \<Rightarrow>
          (case sv_set_add api w newSet h of
             (ok, w1) \<Rightarrow> add_to_sets api setMapping h setList (added \<or> ok) w1))"

text \<open>
  What is read of the service that migrates: whether it is enabled, and its protocols (type, configuration,
  enabled). \<open>mg_interface_of\<close> is the interface of the new service, \<open>mg_sets\<close> the entry of the service in the
  mapping of services to sets.
\<close>

record ('h, 's) migration =
  mg_enabled :: bool
  mg_protocols :: "(string \<times> plist option \<times> bool) list option"
  mg_names :: "(string, string) fmap option"
  mg_set_mapping :: "('s \<Rightarrow> 's option) option"
  mg_sets :: "'s list option"
  mg_create :: "dict \<Rightarrow> scnif option"
  mg_interface_of :: "'h \<Rightarrow> scnif option"

definition migrate_protocols ::
    "('w, 'h, 's) service_api \<Rightarrow> 'h \<Rightarrow> (string \<times> plist option \<times> bool) list option \<Rightarrow> 'w \<Rightarrow> 'w" where
  "migrate_protocols api h protocols w =
     (case protocols of
        None \<Rightarrow> w | Some l \<Rightarrow> fold (\<lambda>(t, c, e). AddProtocolToService api h t c e) l w)"

text \<open>From the call that creates the new service.\<close>

definition migrate_service ::
    "('w, 'h, 's) service_api \<Rightarrow> 'w conf_api \<Rightarrow> ('h, 's) migration \<Rightarrow> ('s \<Rightarrow> 's option) \<Rightarrow> 's list \<Rightarrow> string \<Rightarrow> scnif \<Rightarrow>
     scnif option \<Rightarrow> 'w \<Rightarrow> bool \<times> 'w" where
  "migrate_service api conf mg setMapping setList serviceID oldInterface newInterface w =
     (case sv_create api w newInterface of
        (None, w1) \<Rightarrow> (False, w1)
      | (Some h, w1) \<Rightarrow>
          (case sv_set_enabled api w1 h (mg_enabled mg) of
             (False, w2) \<Rightarrow> (False, sv_remove api w2 h)
           | (True, w2) \<Rightarrow>
               (case sv_establish api w2 h of
                  (False, w3) \<Rightarrow> (False, sv_remove api w3 h)
                | (True, w3) \<Rightarrow>
                    (case add_to_sets api setMapping h setList False (sv_set_id api w3 h serviceID) of
                       (False, w4) \<Rightarrow> (False, sv_remove api w4 h)
                     | (True, w4) \<Rightarrow>
                         (True, copyInterfaceConfiguration conf oldInterface (mg_interface_of mg h)
                                  (migrate_protocols api h (mg_protocols mg) w4))))))"

definition SCNetworkServiceMigrateNew ::
    "('w, 'h, 's) service_api \<Rightarrow> 'w conf_api \<Rightarrow> name_env \<Rightarrow> if_getters \<Rightarrow> ('h, 's) migration \<Rightarrow> scnservice option \<Rightarrow> 'w \<Rightarrow>
     (bool \<times> 'w) outcome" where
  "SCNetworkServiceMigrateNew api conf env g mg service w =
     (case service of
        None \<Rightarrow> Ret (False, w)
      | Some s \<Rightarrow>
          (case (ns_interface s, ns_prefs s) of
             (Some interface, Some _) \<Rightarrow>
               if sv_exists api w (ns_serviceID s) then Ret (False, w)
               else obind (CopyInterfaceEntity env g interface) (\<lambda>entity.
                      let newInterface = mg_create mg (map_entity (mg_names mg) entity) in
                      (case (mg_set_mapping mg, mg_sets mg) of
                         (Some setMapping, Some setList) \<Rightarrow>
                           Ret (migrate_service api conf mg setMapping setList (ns_serviceID s) interface newInterface w)
                       | _ \<Rightarrow> Ret (False, w)))
           | _ \<Rightarrow> Ret (False, w)))"

end
