(* ===== verification/NetServiceLife.thy ===== *)
theory NetServiceLife
  imports NetServiceProps
begin

text \<open>
  The creation and the migration of services leave no service behind when they fail. The locale has the laws of the
  framework's calls over the services of the preferences and the members of the sets.
\<close>

section \<open>The laws\<close>

text \<open>
  A removal takes the service away. The code does not look at the result of SCNetworkServiceRemove; where the call fails, the
  service stays behind.
\<close>

locale service_laws =
  fixes api :: "('w, 'h, 's) service_api"
    and services :: "'w \<Rightarrow> 'h set"
    and members :: "'w \<Rightarrow> 's \<Rightarrow> 'h set"
  assumes within: "members w s \<subseteq> services w"
    and created: "sv_create api w i = (Some h, w') \<Longrightarrow>
      h \<notin> services w \<and> services w' = insert h (services w) \<and> members w' = members w \<and> sv_current_set api w' = sv_current_set api w"
    and not_created: "sv_create api w i = (None, w') \<Longrightarrow>
      services w' = services w \<and> members w' = members w \<and> sv_current_set api w' = sv_current_set api w"
    and named: "sv_set_name api w h n = (ok, w') \<Longrightarrow>
      services w' = services w \<and> members w' = members w \<and> sv_current_set api w' = sv_current_set api w"
    and enabled: "sv_set_enabled api w h e = (ok, w') \<Longrightarrow>
      services w' = services w \<and> members w' = members w \<and> sv_current_set api w' = sv_current_set api w"
    and established: "sv_establish api w h = (ok, w') \<Longrightarrow>
      services w' = services w \<and> members w' = members w \<and> sv_current_set api w' = sv_current_set api w"
    and identified: "services (sv_set_id api w h n) = services w \<and> members (sv_set_id api w h n) = members w"
    and gone: "services (sv_remove api w h) = services w - {h} \<and> members (sv_remove api w h) s = members w s - {h}"
    and added: "sv_set_add api w s h = (True, w') \<Longrightarrow>
      services w' = services w \<and> members w' = (members w)(s := insert h (members w s))"
    and not_added: "sv_set_add api w s h = (False, w') \<Longrightarrow> services w' = services w \<and> members w' = members w"
    and typed: "sv_add_protocol_type api w h t = (ok, w') \<Longrightarrow> services w' = services w \<and> members w' = members w"
    and configured: "services (sv_protocol_config api w h t c) = services w \<and> members (sv_protocol_config api w h t c) = members w"
    and switched: "services (sv_protocol_enabled api w h t e) = services w \<and> members (sv_protocol_enabled api w h t e) = members w"
begin

definition same :: "'w \<Rightarrow> 'w \<Rightarrow> bool" where
  "same w w' \<longleftrightarrow> services w' = services w \<and> members w' = members w"

lemma same_refl [simp]: "same w w" by (simp add: same_def)

lemma same_trans: "same u v \<Longrightarrow> same v w \<Longrightarrow> same u w" by (simp add: same_def)

text \<open>A state that differs from \<open>w\<close> by the new service only, and its removal.\<close>

definition plus :: "'w \<Rightarrow> 'h \<Rightarrow> 'w \<Rightarrow> bool" where
  "plus w h w' \<longleftrightarrow> h \<notin> services w \<and> services w' = insert h (services w) \<and>
     (\<forall>s. members w' s = members w s \<or> members w' s = insert h (members w s))"

lemma plus_same: "plus w h u \<Longrightarrow> same u v \<Longrightarrow> plus w h v" by (simp add: plus_def same_def)

lemma plus_removed: "plus w h u \<Longrightarrow> same w (sv_remove api u h)"
  unfolding plus_def same_def using gone[of u h] within by (auto simp: fun_eq_iff) blast+

lemma plus_added: "plus w h u \<Longrightarrow> sv_set_add api u s h = (ok, v) \<Longrightarrow> plus w h v"
  by (cases ok) (use added[of u s h v] not_added[of u s h v] in \<open>auto simp: plus_def\<close>)

section \<open>Creation\<close>

lemma finish_created:
  assumes "plus w h u" "finish_create api (Some h) True u = (ok, w')" "sv_current_set api u = sv_current_set api w"
  shows "if ok then (case sv_current_set api w of
       Some cs \<Rightarrow> plus w h w' \<and> h \<in> members w' cs | None \<Rightarrow> same w w') else same w w'"
proof (cases "sv_current_set api w")
  case None
  with assms show ?thesis by (auto simp: finish_create_def plus_removed)
next
  case (Some cs)
  obtain b v where add: "sv_set_add api u cs h = (b, v)" by (cases "sv_set_add api u cs h")
  with plus_added[OF assms(1) add] plus_removed[of w h v] added[of u cs h v] Some assms show ?thesis
    by (cases b) (auto simp: finish_create_def)
qed

lemma create_result:
  assumes "SCNetworkService_Create api interface name w = (ok, w')"
  shows "if ok then (case sv_current_set api w of
       Some cs \<Rightarrow> \<exists>h. plus w h w' \<and> h \<in> members w' cs | None \<Rightarrow> same w w') else same w w'"
proof -
  obtain c w1 where c: "sv_create api w interface = (c, w1)" by (cases "sv_create api w interface")
  show ?thesis
  proof (cases "interface = None \<or> (case name of None \<Rightarrow> SCNetworkInterfaceGetUserDefinedName (the interface) | Some n \<Rightarrow> Some n) = None")
    case True
    with assms show ?thesis by (auto simp: SCNetworkService_Create_def split: option.splits)
  next
    case False
    then obtain i where i: "interface = Some i" by auto
    with False obtain n where
      n: "(case name of None \<Rightarrow> SCNetworkInterfaceGetUserDefinedName i | Some n \<Rightarrow> Some n) = Some n" by (cases name) auto
    show ?thesis
    proof (cases c)
      case None
      with assms c i n not_created[of w interface w1] show ?thesis
        by (auto simp: SCNetworkService_Create_def finish_create_def same_def split: option.splits)
    next
      case (Some h)
      have p1: "plus w h w1" "sv_current_set api w1 = sv_current_set api w"
        using created[of w interface h w1] c Some by (auto simp: plus_def)
      obtain b2 w2 where s2: "sv_set_name api w1 h n = (b2, w2)" by (cases "sv_set_name api w1 h n")
      with p1 named[OF s2] have p2: "plus w h w2" "sv_current_set api w2 = sv_current_set api w"
        by (auto simp: plus_def)
      obtain b3 w3 where s3: "sv_establish api w2 h = (b3, w3)" by (cases "sv_establish api w2 h")
      with p2 established[OF s3] have p3: "plus w h w3" "sv_current_set api w3 = sv_current_set api w"
        by (auto simp: plus_def)
      have run: "(if \<not> b2 then (False, sv_remove api w2 h) else if \<not> b3 then (False, sv_remove api w3 h)
          else finish_create api (Some h) True w3) = (ok, w')"
        using assms c i n Some s2 s3 by (simp add: SCNetworkService_Create_def split: bool.splits if_splits)
      show ?thesis
        using run finish_created[OF p3(1) _ p3(2), of ok w'] plus_removed[OF p2(1)] plus_removed[OF p3(1)]
        by (cases b2; cases b3; cases "sv_current_set api w"; cases ok) auto
    qed
  qed
qed

section \<open>Migration\<close>

lemma add_to_sets_plus:
  "plus w h u \<Longrightarrow> add_to_sets api m h l a u = (ok, v) \<Longrightarrow>
   plus w h v \<and> (ok \<longrightarrow> a \<or> (\<exists>s. h \<in> members v s))"
proof (induction l arbitrary: a u)
  case (Cons s l)
  show ?case
  proof (cases "m s")
    case None
    with Cons show ?thesis by simp
  next
    case (Some t)
    obtain b u1 where add: "sv_set_add api u t h = (b, u1)" by (cases "sv_set_add api u t h")
    have p: "plus w h u1" by (rule plus_added[OF Cons.prems(1) add])
    have rest: "add_to_sets api m h l (a \<or> b) u1 = (ok, v)" using Cons.prems(2) Some add by simp
    have "h \<in> members u1 t" if b using added[of u t h u1] add that by simp
    moreover have "members u1 x \<subseteq> members v x" for x
      using rest p
    proof (induction l arbitrary: a b u1)
      case (Cons s' l)
      show ?case
      proof (cases "m s'")
        case None
        with Cons show ?thesis by simp
      next
        case (Some t')
        obtain b' u2 where add': "sv_set_add api u1 t' h = (b', u2)" by (cases "sv_set_add api u1 t' h")
        have "add_to_sets api m h l ((a \<or> b) \<or> b') u2 = (ok, v)" using Cons.prems(1) Some add' by simp
        then have "members u2 x \<subseteq> members v x" by (rule Cons.IH) (rule plus_added[OF Cons.prems(2) add'])
        moreover have "members u1 x \<subseteq> members u2 x"
          using added[of u1 t' h u2] not_added[of u1 t' h u2] add' by (cases b') auto
        ultimately show ?thesis by blast
      qed
    qed simp
    ultimately show ?thesis using Cons.IH[OF p rest] by blast
  qed
qed simp

lemma protocol_added: "same w (AddProtocolToService api h t c e w)"
proof -
  obtain b w1 where ty: "sv_add_protocol_type api w h t = (b, w1)" by (cases "sv_add_protocol_type api w h t")
  obtain d st where co: "sv_copy_protocol api w h t = (d, st)" by (cases "sv_copy_protocol api w h t")
  show ?thesis
    using typed[OF ty] configured switched co ty
    by (cases d) (auto simp: AddProtocolToService_def same_def)
qed

lemma protocols_migrated: "same w (migrate_protocols api h l w)"
proof -
  have "same w (fold (\<lambda>(t, c, e). AddProtocolToService api h t c e) xs w)" for xs
  proof (induction xs arbitrary: w)
    case (Cons x xs)
    obtain t c e where x: "x = (t, c, e)" by (cases x)
    show ?case using same_trans[OF protocol_added Cons.IH] by (simp add: x)
  qed simp
  then show ?thesis by (cases l) (simp_all add: migrate_protocols_def)
qed

end

text \<open>The calls that copy a configuration change no service and no set.\<close>

locale migration_laws = service_laws api services members
  for api :: "('w, 'h, 's) service_api" and services :: "'w \<Rightarrow> 'h set" and members :: "'w \<Rightarrow> 's \<Rightarrow> 'h set" +
  fixes conf :: "'w conf_api"
  assumes conf_set: "same w (ca_set conf w i c)"
    and conf_extended: "same w (ca_set_extended conf w i t c)"
begin

lemma copied_layer: "same w (fold (copy_extended conf old new) ts (copy_main conf old new w))"
proof -
  have "same u (fold (copy_extended conf old new) ts u)" for u
  proof (induction ts arbitrary: u)
    case (Cons t ts)
    have "same u (copy_extended conf old new t u)"
      by (cases "ca_get_extended conf u old t") (simp add: copy_extended_def conf_extended)
    from same_trans[OF this Cons.IH] show ?case by simp
  qed simp
  moreover have "same w (copy_main conf old new w)"
    by (cases "ca_get conf w old") (simp add: copy_main_def conf_set)
  ultimately show ?thesis by (blast intro: same_trans)
qed

lemma copied_interface: "same w (copyInterfaceConfiguration conf old new w)"
proof (induction old arbitrary: new w)
  case (SCNetif a l b r v)
  show ?case
  proof (cases new)
    case (Some n)
    let ?w1 = "fold (copy_extended conf (SCNetif a l b r v) n) (copied_types (SCNetif a l b r v)) (copy_main conf (SCNetif a l b r v) n w)"
    have first: "same w ?w1" by (rule copied_layer)
    show ?thesis
    proof (cases l)
      case None
      with Some first show ?thesis by (simp add: Let_def)
    next
      case l: (Some child)
      then have "same ?w1 (copyInterfaceConfiguration conf child (ni_interface n) ?w1)" by (intro SCNetif.IH(1)) simp
      with first have "same w (copyInterfaceConfiguration conf child (ni_interface n) ?w1)" by (rule same_trans)
      with Some l show ?thesis by (simp add: Let_def)
    qed
  qed simp
qed

lemma migrated_service:
  assumes "migrate_service api conf mg m l serviceID old new w = (ok, w')"
  shows "if ok then \<exists>h. plus w h w' \<and> (\<exists>s. h \<in> members w' s) else same w w'"
proof -
  obtain c w1 where c: "sv_create api w new = (c, w1)" by (cases "sv_create api w new")
  show ?thesis
  proof (cases c)
    case None
    with assms c not_created[of w new w1] show ?thesis by (auto simp: migrate_service_def same_def)
  next
    case (Some h)
    have p1: "plus w h w1" using created[of w new h w1] c Some by (auto simp: plus_def)
    obtain b2 w2 where s2: "sv_set_enabled api w1 h (mg_enabled mg) = (b2, w2)" by (cases "sv_set_enabled api w1 h (mg_enabled mg)")
    have p2: "plus w h w2" using plus_same[OF p1] enabled[OF s2] by (simp add: same_def)
    obtain b3 w3 where s3: "sv_establish api w2 h = (b3, w3)" by (cases "sv_establish api w2 h")
    have p3: "plus w h (sv_set_id api w3 h serviceID)"
      using plus_same[OF p2] established[OF s3] identified by (simp add: same_def)
    obtain b4 w4 where s4: "add_to_sets api m h l False (sv_set_id api w3 h serviceID) = (b4, w4)"
      by (cases "add_to_sets api m h l False (sv_set_id api w3 h serviceID)")
    have p4: "plus w h w4" "b4 \<Longrightarrow> \<exists>s. h \<in> members w4 s" using add_to_sets_plus[OF p3 s4] by auto
    let ?w5 = "copyInterfaceConfiguration conf old (mg_interface_of mg h) (migrate_protocols api h (mg_protocols mg) w4)"
    have s5: "same w4 ?w5" using same_trans[OF protocols_migrated copied_interface] .
    have "plus w h w3" using plus_same[OF p2] established[OF s3] by (simp add: same_def)
    then have removed: "same w (sv_remove api w2 h)" "same w (sv_remove api w3 h)" "same w (sv_remove api w4 h)"
      using p2 p4(1) by (auto intro: plus_removed)
    have run: "(if \<not> b2 then (False, sv_remove api w2 h) else if \<not> b3 then (False, sv_remove api w3 h)
        else if \<not> b4 then (False, sv_remove api w4 h) else (True, ?w5)) = (ok, w')"
      using assms c Some s2 s3 s4 by (simp add: migrate_service_def split: bool.splits if_splits)
    show ?thesis
    proof (cases "b2 \<and> b3 \<and> b4")
      case True
      with run have "ok" "w' = ?w5" by auto
      with True plus_same[OF p4(1) s5] p4(2) s5 show ?thesis by (auto simp: same_def)
    next
      case False
      with run removed show ?thesis by (auto split: if_splits)
    qed
  qed
qed

end

section \<open>An instance\<close>

text \<open>Services are numbers; sets are named and have a list of members.\<close>

type_synonym service_table = "nat list \<times> (string \<times> nat) list"

definition fresh_handle :: "service_table \<Rightarrow> nat" where
  "fresh_handle w = Suc (sum_list (fst w @ map snd (snd w)))"

definition table_services :: "service_table \<Rightarrow> nat set" where "table_services w = set (fst w)"

definition table_members :: "service_table \<Rightarrow> string \<Rightarrow> nat set" where
  "table_members w s = {h \<in> set (fst w). (s, h) \<in> set (snd w)}"

text \<open>A set can take a service only when it is there.\<close>

definition table_api :: "(service_table, nat, string) service_api" where
  "table_api = \<lparr>sv_exists = \<lambda>_ _. False, sv_create = \<lambda>w _. (Some (fresh_handle w), (fresh_handle w # fst w, snd w)),
     sv_set_name = \<lambda>w _ _. (True, w), sv_set_enabled = \<lambda>w _ _. (True, w), sv_establish = \<lambda>w _. (True, w),
     sv_set_id = \<lambda>w _ _. w, sv_remove = \<lambda>w h. (filter (\<lambda>x. x \<noteq> h) (fst w), snd w), sv_current_set = \<lambda>w. None,
     sv_set_add = \<lambda>w s h. (if h \<in> set (fst w) then (True, (fst w, (s, h) # snd w)) else (False, w)),
     sv_copy_protocol = \<lambda>_ _ _. (True, kSCStatusOK), sv_add_protocol_type = \<lambda>w _ _. (True, w),
     sv_protocol_config = \<lambda>w _ _ _. w, sv_protocol_enabled = \<lambda>w _ _ _. w\<rparr>"

definition table_conf :: "service_table conf_api" where
  "table_conf = \<lparr>ca_get = \<lambda>_ _. (None, kSCStatusOK), ca_set = \<lambda>w _ _. w, ca_get_extended = \<lambda>_ _ _. (None, kSCStatusOK),
     ca_set_extended = \<lambda>w _ _ _. w\<rparr>"

lemma fresh_handle_new: "fresh_handle w \<notin> set (fst w)" "(s, fresh_handle w) \<notin> set (snd w)"
proof -
  have "x \<le> sum_list (fst w @ map snd (snd w))" if "x \<in> set (fst w) \<union> snd ` set (snd w)" for x
    using that by (intro member_le_sum_list) auto
  then show "fresh_handle w \<notin> set (fst w)" "(s, fresh_handle w) \<notin> set (snd w)"
    unfolding fresh_handle_def by (fastforce simp: image_iff)+
qed

lemma fresh_pair: "fresh_handle (a, b) \<notin> set a" "(s, fresh_handle (a, b)) \<notin> set b"
  using fresh_handle_new[where w = "(a, b)"] by simp_all

interpretation services: service_laws table_api table_services table_members
  by unfold_locales
    (auto simp: table_api_def table_services_def table_members_def fresh_pair fun_eq_iff split: if_splits)

interpretation migration: migration_laws table_api table_services table_members table_conf
  by unfold_locales (simp_all add: table_conf_def services.same_refl)

section \<open>All or nothing\<close>

text \<open>
  C14. A service that is created is complete or gone. When \<open>__SCNetworkServiceCreate\<close> reports failure, the services and the
  members of all sets are those of before; when it reports success and there is a current set, there is exactly one
  more service, it is a member of that set, and no other membership has changed. Without a current set it can report
  success too, but then nothing was created.
\<close>

theorem SCNetworkServiceCreate_all_or_nothing:
  assumes "service_laws api services members" "SCNetworkService_Create api interface name w = (ok, w')"
  shows "(if ok \<and> sv_current_set api w \<noteq> None
    then \<exists>h. h \<notin> services w \<and> services w' = insert h (services w) \<and> h \<in> members w' (the (sv_current_set api w)) \<and>
           (\<forall>s. members w' s - {h} = members w s)
    else services w' = services w \<and> members w' = members w)"
proof -
  note created = service_laws.create_result[OF assms]
  show ?thesis
  proof (cases "ok \<and> sv_current_set api w \<noteq> None")
    case True
    with created obtain h where "service_laws.plus services members w h w'" "h \<in> members w' (the (sv_current_set api w))" by auto
    moreover from this have "members w' s - {h} = members w s" for s
      using service_laws.within[OF assms(1), of w s] by (auto simp: service_laws.plus_def[OF assms(1)])
    ultimately show ?thesis using True by (auto simp: service_laws.plus_def[OF assms(1)])
  next
    case False
    with created show ?thesis
      by (cases "sv_current_set api w"; cases ok) (auto simp: service_laws.same_def[OF assms(1)])
  qed
qed

lemma SCNetworkServiceCreate_all_or_nothing_witness:
  "\<exists>w'. SCNetworkService_Create table_api (Some kSCNetworkInterfaceIPv4) (Some ''VPN'') ([], []) = (True, w') \<and>
     table_services w' = {}"
proof -
  obtain ok w' where run: "SCNetworkService_Create table_api (Some kSCNetworkInterfaceIPv4) (Some ''VPN'') ([], []) = (ok, w')"
    by (cases "SCNetworkService_Create table_api (Some kSCNetworkInterfaceIPv4) (Some ''VPN'') ([], [])")
  moreover have "ok" using run by (simp add: SCNetworkService_Create_def finish_create_def table_api_def)
  ultimately show ?thesis
    using SCNetworkServiceCreate_all_or_nothing[OF services.service_laws_axioms run]
    by (simp add: table_api_def table_services_def)
qed

text \<open>Without a current set the call reports success although it removed what it had created.\<close>

lemma create_without_set:
  assumes "sv_create api w (Some i) = (Some h, w1)" "sv_set_name api w1 h n = (True, w2)" "sv_establish api w2 h = (True, w3)"
    and "sv_current_set api w3 = None"
  shows "SCNetworkService_Create api (Some i) (Some n) w = (True, sv_remove api w3 h)"
  using assms by (simp add: SCNetworkService_Create_def finish_create_def)

text \<open>
  C9. A migration is complete or leaves no trace. When \<open>__SCNetworkServiceMigrateNew\<close> fails, after whatever
  step, the services and the members of the sets are those of before; when it succeeds there is exactly one more
  service and it is in at least one set.
\<close>

theorem SCNetworkServiceMigrateNew_all_or_nothing:
  assumes "migration_laws api services members conf" "SCNetworkServiceMigrateNew api conf env g mg service w = Ret (ok, w')"
  shows "if ok then (\<exists>h. h \<notin> services w \<and> services w' = insert h (services w) \<and> (\<exists>s. h \<in> members w' s))
    else services w' = services w \<and> members w' = members w"
proof -
  have laws: "service_laws api services members" using assms(1) by (simp add: migration_laws_def)
  have "ok = False \<and> w' = w \<or>
      (\<exists>m l i old new. migrate_service api conf mg m l i old new w = (ok, w'))"
    using assms(2) by (auto simp: SCNetworkServiceMigrateNew_def Let_def split: option.splits if_splits)
  then show ?thesis
  proof
    assume "\<exists>m l i old new. migrate_service api conf mg m l i old new w = (ok, w')"
    then obtain m l i old new where "migrate_service api conf mg m l i old new w = (ok, w')" by blast
    from migration_laws.migrated_service[OF assms(1) this] show ?thesis
      by (cases ok) (auto simp: service_laws.plus_def[OF laws] service_laws.same_def[OF laws])
  qed simp
qed

definition sample_migration :: "(nat, string) migration" where
  "sample_migration = \<lparr>mg_enabled = True, mg_protocols = None, mg_names = None, mg_set_mapping = Some Some,
     mg_sets = Some [''Set''], mg_create = \<lambda>_. None, mg_interface_of = \<lambda>_. None\<rparr>"

definition ipv4_service :: scnservice where
  "ipv4_service = SCNetworkServiceCreatePrivate (Some 0) ''S'' (Some kSCNetworkInterfaceIPv4)"

definition no_getters :: if_getters where
  "no_getters = \<lparr>gt_bsd_name = \<lambda>_. None, gt_display = \<lambda>_. Some ''IPv4'', gt_prefix = \<lambda>_. None, gt_type = \<lambda>_. None,
     gt_unit = \<lambda>_. None, gt_address = \<lambda>_. None, gt_path = \<lambda>_. None, gt_info = \<lambda>_. None\<rparr>"

lemma SCNetworkServiceMigrateNew_all_or_nothing_witness:
  "\<exists>w'. SCNetworkServiceMigrateNew table_api table_conf plain_names no_getters sample_migration (Some ipv4_service) ([], []) = Ret (True, w') \<and>
     (\<exists>h. table_services w' = {h})"
proof -
  have "\<exists>e. CopyInterfaceEntity plain_names no_getters kSCNetworkInterfaceIPv4 = Ret e"
    by (simp add: CopyInterfaceEntity_def no_getters_def Let_def)
  then obtain e where e: "CopyInterfaceEntity plain_names no_getters kSCNetworkInterfaceIPv4 = Ret e" by blast
  obtain w' where run:
    "SCNetworkServiceMigrateNew table_api table_conf plain_names no_getters sample_migration (Some ipv4_service) ([], []) = Ret (True, w')"
    by (cases kSCNetworkInterfaceIPv4)
      (simp add: SCNetworkServiceMigrateNew_def ipv4_service_def SCNetworkServiceCreatePrivate_def e migrate_service_def
        sample_migration_def table_api_def migrate_protocols_def)
  from SCNetworkServiceMigrateNew_all_or_nothing[OF migration.migration_laws_axioms run] run show ?thesis
    by (auto simp: table_services_def)
qed

end
