(* ===== verification/ScutilParse.thy ===== *)
theory ScutilParse
  imports CF
begin

text \<open>
  Reading commands (scutil.c): lines from a file or the line editor, arguments with quotes and
  backslashes, and the answer to a prompt.

  A C string sits in a buffer of characters that has its NUL somewhere: \<open>rd\<close> reads one
  character, and reading behind the buffer is \<open>UB\<close>. What the buffer holds behind the NUL is
  what an earlier line, or nobody, left there.
\<close>

section \<open>Characters and buffers\<close>

definition NUL :: char where "NUL = CHR 0x00"

definition isspace :: "char \<Rightarrow> bool" where
  "isspace c \<longleftrightarrow> c \<in> {CHR '' '', CHR 0x09, CHR 0x0A, CHR 0x0B, CHR 0x0C, CHR 0x0D}"

definition rd :: "string \<Rightarrow> nat \<Rightarrow> char outcome" where
  "rd buf i = (if i < length buf then Ret (buf ! i) else UB)"

fun strlen :: "string \<Rightarrow> nat" where
  "strlen [] = 0"
| "strlen (c # s) = (if c = NUL then 0 else Suc (strlen s))"

definition LINE_LENGTH :: nat where "LINE_LENGTH = 2048"

text \<open>Writing a string at the start of a buffer leaves the rest of it.\<close>

definition overwrite :: "string \<Rightarrow> string \<Rightarrow> string" where
  "overwrite buf s = s @ drop (length s) buf"

lemma length_overwrite [simp]: "length s \<le> length buf \<Longrightarrow> length (overwrite buf s) = length buf"
  by (simp add: overwrite_def)

section \<open>Lines\<close>

text \<open>
  \<open>fgets\<close>: at most \<open>n - 1\<close> characters, up to a newline, which it keeps. The result has the
  characters and the rest of the stream; \<open>None\<close> at the end of the stream.
\<close>

fun fgets_take :: "nat \<Rightarrow> string \<Rightarrow> string \<times> string" where
  "fgets_take 0 fp = ([], fp)"
| "fgets_take (Suc n) [] = ([], [])"
| "fgets_take (Suc n) (c # fp) =
     (if c = CHR 0x0A then ([c], fp) else case fgets_take n fp of (s, r) \<Rightarrow> (c # s, r))"

definition fgets :: "string \<Rightarrow> nat \<Rightarrow> string \<Rightarrow> (string \<times> string) option" where
  "fgets buf n fp = (if fp = [] then None
     else case fgets_take (n - 1) fp of (s, r) \<Rightarrow> Some (overwrite buf (s @ [NUL]), r))"

text \<open>The end of a line that did not fit is read and dropped.\<close>

fun eat_line :: "string \<Rightarrow> string" where
  "eat_line [] = []"
| "eat_line (c # fp) = (if c = CHR 0x0A then fp else eat_line fp)"

text \<open>An input: the stream, the lines that the editor will give when there is one, the history.\<close>

record input =
  in_fp :: string
  in_el :: "string list option"
  in_h :: "string list option"

definition strlcpy :: "string \<Rightarrow> string \<Rightarrow> nat \<Rightarrow> string" where
  "strlcpy buf s n = overwrite buf (take (n - 1) (take (strlen s) s) @ [NUL])"

definition getLine_read :: "string \<Rightarrow> nat \<Rightarrow> input \<Rightarrow> (string \<times> input) option" where
  "getLine_read buf len src =
     (case in_el src of
        Some [] \<Rightarrow> None
      | Some (l # ls) \<Rightarrow> Some (strlcpy buf l len, src\<lparr>in_el := Some ls\<rparr>)
      | None \<Rightarrow> (case fgets buf len (in_fp src) of
                   None \<Rightarrow> None | Some (b, r) \<Rightarrow> Some (b, src\<lparr>in_fp := r\<rparr>)))"

text \<open>
  The last character is looked at without a check that there is one: an empty string, which is
  what a line that starts with NUL is, has none.
\<close>

definition getLine :: "string \<Rightarrow> nat \<Rightarrow> input \<Rightarrow> (string \<times> input) option outcome" where
  "getLine buf len src =
     (case getLine_read buf len src of
        None \<Rightarrow> Ret None
      | Some (b, src1) \<Rightarrow>
          let n = strlen b in
          if n = 0 then UB
          else let (b2, src2) =
                 (if b ! (n - 1) = CHR 0x0A then (b[n - 1 := NUL], src1)
                  else if in_el src = None then (b, src1\<lparr>in_fp := eat_line (in_fp src1)\<rparr>) else (b, src1));
                 src3 = (case in_h src2 of
                   Some h \<Rightarrow> if b2 ! 0 \<noteq> NUL then src2\<lparr>in_h := Some (take (strlen b2) b2 # h)\<rparr> else src2
                 | None \<Rightarrow> src2)
               in Ret (Some (b2, src3)))"

section \<open>Arguments\<close>

function skip_space :: "string \<Rightarrow> nat \<Rightarrow> nat outcome" where
  "skip_space buf i =
     (if i < length buf then (if isspace (buf ! i) then skip_space buf (Suc i) else Ret i) else UB)"
  by pat_completeness auto
termination by (relation "measure (\<lambda>(buf, i). length buf - i)") auto

declare skip_space.simps [simp del]

text \<open>The character that a backslash takes with it counts as escaped when it is a quote or a space.\<close>

definition escapable :: "char \<Rightarrow> bool" where
  "escapable c \<longleftrightarrow> c = CHR 0x22 \<or> isspace c"

function scan_string :: "string \<Rightarrow> bool \<Rightarrow> nat \<Rightarrow> nat \<Rightarrow> (nat \<times> nat) outcome" where
  "scan_string buf isQuoted e escaped =
     (if e < length buf
      then let c = buf ! e in
           if c = NUL then Ret (e, escaped)
           else if isQuoted \<and> c = CHR 0x22 then Ret (e, escaped)
           else if c = CHR 0x5C
           then (if Suc e < length buf
                 then if buf ! Suc e = NUL then Ret (Suc e, escaped)
                      else scan_string buf isQuoted (e + 2)
                             (if escapable (buf ! Suc e) then Suc escaped else escaped)
                 else UB)
           else if \<not> isQuoted \<and> isspace c then Ret (e, escaped)
           else scan_string buf isQuoted (Suc e) escaped
      else UB)"
  by pat_completeness auto
termination by (relation "measure (\<lambda>(buf, q, e, k). length buf - e)") auto

declare scan_string.simps [simp del]

text \<open>
  The copy into the \<open>sz\<close> bytes that were allocated; \<open>out\<close> has the characters kept so far. A
  dropped backslash was written too and is overwritten by the next character.
\<close>

function copy_string :: "string \<Rightarrow> nat \<Rightarrow> nat \<Rightarrow> nat \<Rightarrow> string \<Rightarrow> string outcome" where
  "copy_string buf s e sz out =
     (if length out < sz
      then if s < e
           then obind (rd buf s) (\<lambda>c.
                if c = CHR 0x5C
                then obind (rd buf (Suc s)) (\<lambda>d.
                     copy_string buf (Suc s) e sz (if escapable d then out else out @ [c]))
                else copy_string buf (Suc s) e sz (out @ [c]))
           else Ret out
      else UB)"
  by pat_completeness auto
termination by (relation "measure (\<lambda>(buf, s, e, n, out). e - s)") auto

declare copy_string.simps [simp del]

definition getString :: "string \<Rightarrow> nat \<Rightarrow> (string option \<times> nat) outcome" where
  "getString buf i =
     obind (rd buf i) (\<lambda>c0.
     if c0 = NUL then Ret (None, i)
     else obind (skip_space buf i) (\<lambda>p.
          obind (rd buf p) (\<lambda>c.
          if c = NUL then Ret (None, p)
          else let isQuoted = (c = CHR 0x22); s = (if isQuoted then Suc p else p) in
               obind (scan_string buf isQuoted s 0) (\<lambda>(e, escaped).
               obind (copy_string buf s e (e - s - escaped + 1) [])  (\<lambda>string.
               Ret (Some string, if isQuoted then Suc e else e))))))"

text \<open>Every argument moves the position on.\<close>

lemma skip_space_stop: "skip_space buf i = Ret p \<Longrightarrow> i \<le> p \<and> p < length buf \<and> \<not> isspace (buf ! p)"
proof (induction buf i rule: skip_space.induct)
  case (1 buf i)
  then show ?case by (subst (asm) (2) skip_space.simps) (auto split: if_splits)
qed

lemma scan_string_stop: "scan_string buf q e k = Ret (e', k') \<Longrightarrow> e \<le> e' \<and> e' < length buf"
proof (induction buf q e k rule: scan_string.induct)
  case (1 buf q e k)
  show ?case
    using 1(3) "1.IH"
    by (subst (asm) scan_string.simps) (auto simp: Let_def split: if_splits)
qed

lemma scan_string_moves:
  assumes "scan_string buf False s k = Ret (e, k')" "buf ! s \<noteq> NUL" "\<not> isspace (buf ! s)"
  shows "s < e"
proof -
  have "s < length buf" using assms(1) by (subst (asm) scan_string.simps) (auto split: if_splits)
  with assms have "(\<exists>k2. scan_string buf False (Suc s) k2 = Ret (e, k')) \<or>
      (\<exists>k2. scan_string buf False (s + 2) k2 = Ret (e, k')) \<or> e = Suc s"
    by (subst (asm) scan_string.simps) (auto simp: Let_def split: if_splits)
  then show ?thesis by (auto dest!: scan_string_stop)
qed

lemma getString_moves: "getString buf i = Ret (Some a, j) \<Longrightarrow> i < j \<and> i < length buf"
proof -
  assume r: "getString buf i = Ret (Some a, j)"
  obtain p where p: "skip_space buf i = Ret p" and i: "i < length buf"
    using r by (auto simp: getString_def rd_def split: if_splits)
  from skip_space_stop[OF p] have ip: "i \<le> p" "p < length buf" "\<not> isspace (buf ! p)" by auto
  have np: "buf ! p \<noteq> NUL" using r p ip i by (auto simp: getString_def rd_def split: if_splits)
  show ?thesis
  proof (cases "buf ! p = CHR 0x22")
    case True
    then obtain e k where "scan_string buf True (Suc p) 0 = Ret (e, k)" "j = Suc e"
      using r p ip i np by (auto simp: getString_def rd_def Let_def split: if_splits prod.splits)
    then show ?thesis using scan_string_stop[of buf True "Suc p" 0 e k] ip i by simp
  next
    case False
    then obtain e k where "scan_string buf False p 0 = Ret (e, k)" "j = e"
      using r p ip i np by (auto simp: getString_def rd_def Let_def split: if_splits prod.splits)
    then show ?thesis using scan_string_moves[of buf p 0 e k] ip i np by simp
  qed
qed

function line_args :: "string \<Rightarrow> nat \<Rightarrow> string list outcome" where
  "line_args buf i =
     (case getString buf i of
        UB \<Rightarrow> UB
      | Ret (None, _) \<Rightarrow> Ret []
      | Ret (Some arg, j) \<Rightarrow> obind (line_args buf j) (\<lambda>argv. Ret (arg # argv)))"
  by pat_completeness auto
termination
  by (relation "measure (\<lambda>(buf, i). length buf - i)")
    (simp, metis getString_moves case_prod_conv diff_less_mono2 in_measure)

declare line_args.simps [simp del]

section \<open>The answer to a prompt\<close>

text \<open>
  The line without its newline and without the spaces around it. Trailing spaces are looked for
  in \<open>buf\<close>, with the index of a character in \<open>modbuf\<close>, which starts where the leading spaces end.
\<close>

fun trim_front :: "string \<Rightarrow> nat \<Rightarrow> nat \<Rightarrow> nat \<times> nat" where
  "trim_front buf off 0 = (off, 0)"
| "trim_front buf off (Suc n) = (if isspace (buf ! off) then trim_front buf (Suc off) n else (off, Suc n))"

fun trim_back :: "string \<Rightarrow> nat \<Rightarrow> string \<times> nat" where
  "trim_back buf 0 = (buf, 0)"
| "trim_back buf (Suc i) = (if isspace (buf ! i) then trim_back (buf[i := NUL]) i else (buf, Suc i))"

definition copyStringFromSTDIN ::
    "(string \<Rightarrow> string option) \<Rightarrow> bool \<Rightarrow> string \<Rightarrow> string option \<Rightarrow> string \<Rightarrow> string option \<times> string" where
  "copyStringFromSTDIN utf8 is_user_prompt buf0 defaultValue stdin =
     (case fgets buf0 1024 stdin of
        None \<Rightarrow> (None, stdin)
      | Some (buf, rest) \<Rightarrow>
          let len = strlen buf;
              (buf1, modlen) = (if len > 0 \<and> buf ! (len - 1) = CHR 0x0A then (buf[len - 1 := NUL], len - 1) else (buf, len))
          in if is_user_prompt \<and> defaultValue \<noteq> None \<and> modlen = 0 then (defaultValue, rest)
             else let (off, n) = trim_front buf1 0 modlen; (buf2, m) = trim_back buf1 n
                  in (utf8 (take m (drop off buf2)), rest))"

end
