(* ===== verification/ScutilDict.thy ===== *)
theory ScutilDict
  imports ScutilParse
begin

text \<open>
  The value that the commands of \<open>scutil\<close> build and send (dictionary.c): a property list, or
  nothing before \<open>d.init\<close>.

  Arguments are bytes; \<open>utf8\<close> makes text of them and fails on bytes that are no UTF-8. The
  code does not check for that: a key or an array element that is NULL is \<open>UB\<close>.
\<close>

section \<open>The C library on arguments\<close>

definition lower :: "char \<Rightarrow> char" where
  "lower c = (let n = of_char c :: nat in if 65 \<le> n \<and> n \<le> 90 then char_of (n + 32) else c)"

definition strcaseeq :: "string \<Rightarrow> string \<Rightarrow> bool" where
  "strcaseeq s t \<longleftrightarrow> map lower s = map lower t"

definition digit_of :: "nat \<Rightarrow> char \<Rightarrow> nat option" where
  "digit_of base c =
     (let n = of_char (lower c) :: nat;
          d = (if 48 \<le> n \<and> n \<le> 57 then n - 48 else if 97 \<le> n \<and> n \<le> 122 then n - 87 else base)
      in if d < base then Some d else None)"

fun skip_blanks :: "string \<Rightarrow> string" where
  "skip_blanks [] = []"
| "skip_blanks (c # s) = (if isspace c then skip_blanks s else c # s)"

fun take_sign :: "string \<Rightarrow> bool \<times> string" where
  "take_sign (c # s) = (if c = CHR ''-'' then (True, s) else if c = CHR ''+'' then (False, s) else (False, c # s))"
| "take_sign [] = (False, [])"

text \<open>The digits at the start; \<open>None\<close> when there is none.\<close>

fun take_digits :: "nat \<Rightarrow> nat option \<Rightarrow> string \<Rightarrow> nat option \<times> string" where
  "take_digits base acc (c # s) =
     (case digit_of base c of
        None \<Rightarrow> (acc, c # s)
      | Some d \<Rightarrow> take_digits base (Some ((case acc of None \<Rightarrow> 0 | Some n \<Rightarrow> n) * base + d)) s)"
| "take_digits base acc [] = (acc, [])"

text \<open>
  \<open>strtoul(str, &end, 16)\<close> on two characters, and the low byte of its result: two characters are
  too short for a prefix \<open>0x\<close>, and a sign is accepted.
\<close>

definition hex_byte :: "char \<Rightarrow> char \<Rightarrow> uint8 option" where
  "hex_byte a b =
     (case take_sign (skip_blanks [a, b]) of
        (neg, s) \<Rightarrow> (case take_digits 16 None s of
            (Some n, []) \<Rightarrow> Some (if neg then - of_nat n else of_nat n)
          | _ \<Rightarrow> None))"

text \<open>\<open>sscanf(str, "%d", &intValue)\<close>: what follows the number does not count; a number that no int holds is \<open>UB\<close>.\<close>

definition sscanf_int :: "string \<Rightarrow> int option outcome" where
  "sscanf_int str =
     (case take_sign (skip_blanks str) of
        (neg, s) \<Rightarrow> (case fst (take_digits 10 None s) of
            None \<Rightarrow> Ret None
          | Some n \<Rightarrow> let i = (if neg then - int n else int n) in
                      if - (2 ^ 31) \<le> i \<and> i < 2 ^ 31 then Ret (Some i) else UB))"

section \<open>Values\<close>

record add_flags =
  doArray :: bool
  doBoolean :: bool
  doData :: bool
  doNumeric :: bool

text \<open>The flags before the values; \<open>-\<close> ends them.\<close>

fun add_parse_flags :: "add_flags \<Rightarrow> string list \<Rightarrow> add_flags \<times> string list" where
  "add_parse_flags f [] = (f, [])"
| "add_parse_flags f (a # argv) =
     (if a = ''*'' then add_parse_flags (f\<lparr>doArray := True\<rparr>) argv
      else if a = ''-'' then (f, argv)
      else if a = ''?'' then add_parse_flags (f\<lparr>doBoolean := True\<rparr>) argv
      else if a = ''%'' then add_parse_flags (f\<lparr>doData := True\<rparr>) argv
      else if a = ''#'' then add_parse_flags (f\<lparr>doNumeric := True\<rparr>) argv
      else (f, a # argv))"

fun hex_bytes :: "string \<Rightarrow> uint8 list option" where
  "hex_bytes (a # b # s) =
     (case hex_byte a b of None \<Rightarrow> None | Some x \<Rightarrow> map_option ((#) x) (hex_bytes s))"
| "hex_bytes _ = Some []"

definition boolean_arg :: "string \<Rightarrow> bool option" where
  "boolean_arg a =
     (if strcaseeq a ''true'' \<or> strcaseeq a ''t'' \<or> strcaseeq a ''yes'' \<or> strcaseeq a ''y'' \<or> a = ''1'' then Some True
      else if strcaseeq a ''false'' \<or> strcaseeq a ''f'' \<or> strcaseeq a ''no'' \<or> strcaseeq a ''n'' \<or> a = ''0'' then Some False
      else None)"

datatype dict_error =
  Dict_uninitialized | Dict_not_dictionary | Dict_no_values | Dict_invalid_data | Dict_not_enough_bytes

text \<open>One value; \<open>Inr None\<close> is a NULL that the conversion of a string left.\<close>

definition add_value_arg ::
    "(string \<Rightarrow> string option) \<Rightarrow> add_flags \<Rightarrow> string \<Rightarrow> (dict_error + plist option) outcome" where
  "add_value_arg utf8 f a =
     (if doBoolean f
      then Ret (case boolean_arg a of None \<Rightarrow> Inl Dict_invalid_data | Some b \<Rightarrow> Inr (Some (CFBoolean b)))
      else if doData f
      then Ret (if length a mod 2 = 1 then Inl Dict_not_enough_bytes
                else case hex_bytes a of None \<Rightarrow> Inl Dict_invalid_data | Some bs \<Rightarrow> Inr (Some (CFData bs)))
      else if doNumeric f
      then obind (sscanf_int a) (\<lambda>r. Ret (case r of None \<Rightarrow> Inl Dict_invalid_data | Some n \<Rightarrow> Inr (Some (CFNumber n))))
      else Ret (Inr (map_option CFString (utf8 a))))"

fun add_array_args ::
    "(string \<Rightarrow> string option) \<Rightarrow> add_flags \<Rightarrow> string list \<Rightarrow> plist list \<Rightarrow> (dict_error + plist list) outcome" where
  "add_array_args utf8 f [] array = Ret (Inr array)"
| "add_array_args utf8 f (a # argv) array =
     obind (add_value_arg utf8 f a) (\<lambda>r.
       case r of
         Inl e \<Rightarrow> Ret (Inl e)
       | Inr None \<Rightarrow> UB
       | Inr (Some v) \<Rightarrow> add_array_args utf8 f argv (array @ [v]))"

section \<open>The commands\<close>

definition do_dictInit :: "plist option" where
  "do_dictInit = Some (CFDictionary fmempty)"

definition dict_of_value :: "plist option \<Rightarrow> dict_error + dict" where
  "dict_of_value v =
     (case v of
        None \<Rightarrow> Inl Dict_uninitialized
      | Some _ \<Rightarrow> (case isA_CFDictionary v of None \<Rightarrow> Inl Dict_not_dictionary | Some d \<Rightarrow> Inr d))"

definition do_dictSetKey ::
    "(string \<Rightarrow> string option) \<Rightarrow> plist option \<Rightarrow> string list \<Rightarrow> (dict_error + plist) outcome" where
  "do_dictSetKey utf8 v argv =
     (case dict_of_value v of
        Inl e \<Rightarrow> Ret (Inl e)
      | Inr d \<Rightarrow>
          (case argv of
             [] \<Rightarrow> UB
           | a # rest \<Rightarrow>
               (case utf8 a of
                  None \<Rightarrow> UB
                | Some key \<Rightarrow>
                    (case add_parse_flags \<lparr>doArray = False, doBoolean = False, doData = False, doNumeric = False\<rparr> rest of
                       (f, vals) \<Rightarrow>
                         if length vals > 1 \<or> doArray f
                         then obind (add_array_args utf8 f vals []) (\<lambda>r. Ret (case r of
                                Inl e \<Rightarrow> Inl e | Inr array \<Rightarrow> Inr (CFDictionary (fmupd key (CFArray array) d))))
                         else (case vals of
                            [] \<Rightarrow> Ret (Inl Dict_no_values)
                          | x # _ \<Rightarrow> obind (add_value_arg utf8 f x) (\<lambda>r. Ret (case r of
                              Inl e \<Rightarrow> Inl e
                            | Inr None \<Rightarrow> Inr (CFDictionary d)
                            | Inr (Some w) \<Rightarrow> Inr (CFDictionary (fmupd key w d))))))) ))"

definition do_dictRemoveKey ::
    "(string \<Rightarrow> string option) \<Rightarrow> plist option \<Rightarrow> string list \<Rightarrow> (dict_error + plist) outcome" where
  "do_dictRemoveKey utf8 v argv =
     (case dict_of_value v of
        Inl e \<Rightarrow> Ret (Inl e)
      | Inr d \<Rightarrow>
          (case argv of
             [] \<Rightarrow> UB
           | a # _ \<Rightarrow> (case utf8 a of None \<Rightarrow> UB | Some key \<Rightarrow> Ret (Inr (CFDictionary (fmdrop key d))))))"

section \<open>What is a property list\<close>

text \<open>No null object anywhere inside.\<close>

primrec plist_ok :: "plist \<Rightarrow> bool" where
  "plist_ok (CFString _) = True"
| "plist_ok (CFNumber _) = True"
| "plist_ok (CFBoolean _) = True"
| "plist_ok (CFData _) = True"
| "plist_ok (CFDate _) = True"
| "plist_ok (CFArray l) = list_all id (map plist_ok l)"
| "plist_ok (CFDictionary d) = fmpred (\<lambda>_ ok. ok) (fmmap plist_ok d)"
| "plist_ok CFNull = False"

lemma plist_ok_array [simp]: "plist_ok (CFArray l) \<longleftrightarrow> list_all plist_ok l"
  by (simp add: list.pred_map)

lemma plist_ok_dictionary [simp]: "plist_ok (CFDictionary d) \<longleftrightarrow> (\<forall>k v. fmlookup d k = Some v \<longrightarrow> plist_ok v)"
  by (auto simp: fmpred_iff)

declare plist_ok.simps(6,7) [simp del]

end
