(* ===== verification/ScutilDictProps.thy ===== *)
theory ScutilDictProps
  imports ScutilDict
begin

text \<open>The types of the values that \<open>d.add\<close> puts into the dictionary.\<close>

text \<open>What the flags ask for: booleans before data before numbers, and text without a flag.\<close>

definition flag_type :: "add_flags \<Rightarrow> plist \<Rightarrow> bool" where
  "flag_type f v =
     (if doBoolean f then (\<exists>b. v = CFBoolean b)
      else if doData f then (\<exists>bs. v = CFData bs)
      else if doNumeric f then (\<exists>n. v = CFNumber n \<and> - (2 ^ 31) \<le> n \<and> n < 2 ^ 31)
      else (\<exists>s. v = CFString s))"

lemma sscanf_int_range: "sscanf_int a = Ret (Some n) \<Longrightarrow> - (2 ^ 31) \<le> n \<and> n < 2 ^ 31"
  by (auto simp: sscanf_int_def Let_def split: prod.splits option.splits if_splits)

lemma add_value_arg_type: "add_value_arg utf8 f a = Ret (Inr (Some v)) \<Longrightarrow> flag_type f v"
  using sscanf_int_range[of a]
  by (auto simp: add_value_arg_def flag_type_def split: option.splits if_splits)

lemma add_array_args_type:
  "add_array_args utf8 f argv acc = Ret (Inr l) \<Longrightarrow>
   \<exists>new. l = acc @ new \<and> length new = length argv \<and> list_all (flag_type f) new"
proof (induction argv arbitrary: acc)
  case (Cons a argv)
  then obtain r where r: "add_value_arg utf8 f a = Ret r" by auto
  obtain v where v: "add_value_arg utf8 f a = Ret (Inr (Some v))"
    "add_array_args utf8 f argv (acc @ [v]) = Ret (Inr l)"
  proof (cases r)
    case (Inr o1)
    with Cons.prems r that show ?thesis by (cases o1) simp_all
  qed (use Cons.prems r in simp)
  from Cons.IH[OF v(2)] obtain new where "l = (acc @ [v]) @ new" "length new = length argv" "list_all (flag_type f) new"
    by blast
  with add_value_arg_type[OF v(1)] show ?case by (intro exI[of _ "v # new"]) simp
qed simp

definition no_flags :: add_flags where
  "no_flags = \<lparr>doArray = False, doBoolean = False, doData = False, doNumeric = False\<rparr>"

text \<open>
  \<open>d.add\<close> stores what its flags say. When it succeeds on a dictionary, every other key keeps its
  value, and the given key has an array of one element for each value argument, all of the type
  asked for, when an array was asked for or there are several values, and otherwise a single value of
  that type; only text that is no UTF-8 leaves the dictionary as it was.
\<close>

theorem do_dictSetKey_typed:
  assumes "do_dictSetKey utf8 (Some (CFDictionary d)) (a # argv) = Ret (Inr v)"
    and "add_parse_flags no_flags argv = (f, vals)"
  shows "\<exists>key d'. utf8 a = Some key \<and> v = CFDictionary d' \<and> (\<forall>k. k \<noteq> key \<longrightarrow> fmlookup d' k = fmlookup d k) \<and>
    (if doArray f \<or> length vals > 1
     then (\<exists>l. fmlookup d' key = Some (CFArray l) \<and> length l = length vals \<and> list_all (flag_type f) l)
     else (\<exists>w. fmlookup d' key = Some w \<and> flag_type f w) \<or> (d' = d \<and> utf8 (hd vals) = None))"
proof -
  obtain key where key: "utf8 a = Some key"
    using assms(1) by (cases "utf8 a") (auto simp: do_dictSetKey_def dict_of_value_def)
  note unf = do_dictSetKey_def dict_of_value_def key assms(2)[unfolded no_flags_def]
  show ?thesis
  proof (cases "doArray f \<or> length vals > 1")
    case True
    with assms(1) obtain r where r: "add_array_args utf8 f vals [] = Ret r" by (auto simp: unf)
    obtain l where l: "add_array_args utf8 f vals [] = Ret (Inr l)" "v = CFDictionary (fmupd key (CFArray l) d)"
      using assms(1) True r that by (cases r) (auto simp: unf)
    from add_array_args_type[OF l(1)] True l(2) key show ?thesis by auto
  next
    case False
    then obtain x xs where vals: "vals = x # xs" using assms(1) by (cases vals) (auto simp: unf)
    with False assms(1) obtain q where q: "add_value_arg utf8 f x = Ret q" by (auto simp: unf)
    obtain r where r: "add_value_arg utf8 f x = Ret (Inr r)"
      "v = CFDictionary (case r of None \<Rightarrow> d | Some w \<Rightarrow> fmupd key w d)"
    proof (cases q)
      case (Inr o1)
      with assms(1) False q vals that show ?thesis by (cases o1) (simp_all add: unf)
    qed (use assms(1) False q vals in \<open>simp add: unf\<close>)
    show ?thesis
    proof (cases r)
      case None
      then have "utf8 x = None" using r(1) by (auto simp: add_value_arg_def split: if_splits option.splits)
      with None r(2) key False vals show ?thesis by auto
    next
      case (Some w)
      with add_value_arg_type[of utf8 f x w] r key False show ?thesis by auto
    qed
  qed
qed

lemma do_dictSetKey_typed_witness:
  "\<exists>l. fmlookup (fmupd ''k'' (CFArray [CFNumber 4, CFNumber (-7)]) fmempty) ''k'' = Some (CFArray l) \<and> length l = 2 \<and>
     list_all (flag_type (no_flags\<lparr>doNumeric := True\<rparr>)) l"
proof -
  have run: "do_dictSetKey Some (Some (CFDictionary fmempty)) [''k'', ''#'', ''4'', ''-7x''] =
      Ret (Inr (CFDictionary (fmupd ''k'' (CFArray [CFNumber 4, CFNumber (-7)]) fmempty)))"
    by code_simp
  have flags: "add_parse_flags no_flags [''#'', ''4'', ''-7x''] = (no_flags\<lparr>doNumeric := True\<rparr>, [''4'', ''-7x''])"
    by (simp add: no_flags_def)
  from do_dictSetKey_typed[OF run flags] show ?thesis by (simp add: no_flags_def)
qed

text \<open>A sign is accepted in hexadecimal data: two characters stand for a byte that they do not name.\<close>

lemma hex_byte_sign: "do_dictSetKey Some (Some (CFDictionary fmempty)) [''k'', ''%'', ''-1''] =
    Ret (Inr (CFDictionary (fmupd ''k'' (CFData [255]) fmempty)))"
  by code_simp

end
