(* ===== verification/ScutilStore.thy ===== *)
theory ScutilStore
  imports ScutilDict Prefs "HOL-Library.List_Lexorder" "HOL-Library.Char_ord"
begin

text \<open>
  The commands of \<open>scutil\<close> on the dynamic store: session.c, cache.c and notifications.c.

  The dynamic store is not in the repository: it is a world \<open>'w\<close> that the operations of
  \<open>ds_ops\<close> read and change, all given whether the session is there (\<open>True\<close>) or NULL, and each
  with the status that \<open>SCError()\<close> has afterwards. The tool's global variables are the record
  \<open>scutil\<close>; what it prints is a list of notes.
\<close>

section \<open>The store and the state of the tool\<close>

datatype read_result = Read_error | Read_bytes "uint8 list"

record 'w ds_ops =
  ds_utf8 :: "string \<Rightarrow> string option"
  ds_create :: "'w \<Rightarrow> bool \<Rightarrow> (bool \<times> sc_status) \<times> 'w"
  ds_release :: "'w \<Rightarrow> 'w"
  ds_cache_active :: "bool \<Rightarrow> 'w \<Rightarrow> bool"
  ds_cache_open :: "bool \<Rightarrow> 'w \<Rightarrow> 'w"
  ds_cache_commit :: "bool \<Rightarrow> 'w \<Rightarrow> 'w"
  ds_cache_close :: "bool \<Rightarrow> 'w \<Rightarrow> 'w"
  ds_cached_set :: "'w \<Rightarrow> string list option"
  ds_cached_removals :: "'w \<Rightarrow> string list option"
  ds_cached_notifys :: "'w \<Rightarrow> string list option"
  ds_key_list :: "bool \<Rightarrow> 'w \<Rightarrow> string \<Rightarrow> string list option \<times> sc_status"
  ds_copy :: "bool \<Rightarrow> 'w \<Rightarrow> string \<Rightarrow> plist option \<times> sc_status"
  ds_copy_multiple :: "bool \<Rightarrow> 'w \<Rightarrow> string \<Rightarrow> dict option \<times> sc_status"
  ds_add :: "bool \<Rightarrow> 'w \<Rightarrow> string \<Rightarrow> plist option \<Rightarrow> (bool \<times> sc_status) \<times> 'w"
  ds_add_temporary :: "bool \<Rightarrow> 'w \<Rightarrow> string \<Rightarrow> plist option \<Rightarrow> (bool \<times> sc_status) \<times> 'w"
  ds_set :: "bool \<Rightarrow> 'w \<Rightarrow> string \<Rightarrow> plist option \<Rightarrow> (bool \<times> sc_status) \<times> 'w"
  ds_remove :: "bool \<Rightarrow> 'w \<Rightarrow> string \<Rightarrow> (bool \<times> sc_status) \<times> 'w"
  ds_notify :: "bool \<Rightarrow> 'w \<Rightarrow> string \<Rightarrow> (bool \<times> sc_status) \<times> 'w"
  ds_set_keys :: "bool \<Rightarrow> 'w \<Rightarrow> string list option \<Rightarrow> string list option \<Rightarrow> (bool \<times> sc_status) \<times> 'w"
  ds_notified :: "bool \<Rightarrow> 'w \<Rightarrow> (string list option \<times> sc_status) \<times> 'w"
  ds_notify_wait :: "bool \<Rightarrow> 'w \<Rightarrow> (bool \<times> sc_status) \<times> 'w"
  ds_notify_cancel :: "bool \<Rightarrow> 'w \<Rightarrow> (bool \<times> sc_status) \<times> 'w"
  ds_set_queue :: "bool \<Rightarrow> 'w \<Rightarrow> bool \<Rightarrow> (bool \<times> sc_status) \<times> 'w"
  ds_source :: "bool \<Rightarrow> 'w \<Rightarrow> (bool \<times> sc_status) \<times> 'w"
  ds_notify_fd :: "bool \<Rightarrow> 'w \<Rightarrow> int \<Rightarrow> (read_result list option \<times> sc_status) \<times> 'w"

datatype out_note =
    Msg string
  | Status sc_status
  | Show_value plist
  | Show_key nat string
  | Show_changed nat string
  | Show_number int
  | Dict_note dict_error

text \<open>A pointer to an array of the tool: NULL, alive, or released and still there.\<close>

datatype 'a mem = Null | Live 'a | Freed

record 'w scutil =
  sc_value :: "plist option"
  sc_store :: bool
  sc_watchedKeys :: "string list mem"
  sc_watchedPatterns :: "string list mem"
  sc_notifyRl :: bool
  sc_notifyRls :: bool
  sc_doDispatch :: bool
  sc_watchers :: nat
  sc_nesting :: nat
  sc_termRequested :: bool
  sc_enablePrivateAPI :: bool
  sc_out :: "out_note list"
  sc_world :: 'w

definition print_note :: "out_note \<Rightarrow> 'w scutil \<Rightarrow> 'w scutil" where
  "print_note x s = s\<lparr>sc_out := sc_out s @ [x]\<rparr>"

text \<open>What a command does with the answer of a call: the new world, and the status printed on failure.\<close>

definition store_call :: "(bool \<times> sc_status) \<times> 'w \<Rightarrow> 'w scutil \<Rightarrow> 'w scutil" where
  "store_call r s =
     (case r of ((ok, st), w) \<Rightarrow>
        (let s1 = s\<lparr>sc_world := w\<rparr> in if ok then s1 else print_note (Status st) s1))"

definition with_key :: "'w ds_ops \<Rightarrow> string list \<Rightarrow> (string \<Rightarrow> 'a outcome) \<Rightarrow> 'a outcome" where
  "with_key ops argv f =
     (case argv of [] \<Rightarrow> UB | a # _ \<Rightarrow> (case ds_utf8 ops a of None \<Rightarrow> UB | Some key \<Rightarrow> f key))"

section \<open>Sessions\<close>

definition release_mem :: "'a mem \<Rightarrow> 'a mem outcome" where
  "release_mem m = (case m of Live _ \<Rightarrow> Ret Freed | _ \<Rightarrow> UB)"

definition do_open :: "'w ds_ops \<Rightarrow> string list \<Rightarrow> 'w scutil \<Rightarrow> 'w scutil outcome" where
  "do_open ops argv s =
     obind (if sc_store s
            then obind (release_mem (sc_watchedKeys s)) (\<lambda>k. obind (release_mem (sc_watchedPatterns s)) (\<lambda>p.
                 Ret (s\<lparr>sc_world := ds_release ops (sc_world s), sc_watchedKeys := k, sc_watchedPatterns := p\<rparr>)))
            else Ret s) (\<lambda>s1.
     case ds_create ops (sc_world s1) (argv \<noteq> []) of ((ok, st), w) \<Rightarrow>
       let s2 = s1\<lparr>sc_store := ok, sc_world := w\<rparr>
       in if \<not> ok then Ret (print_note (Status st) s2)
          else Ret (s2\<lparr>sc_watchedKeys := Live [], sc_watchedPatterns := Live [],
                       sc_world := ds_cache_close ops True w\<rparr>))"

definition do_close :: "'w ds_ops \<Rightarrow> string list \<Rightarrow> 'w scutil \<Rightarrow> 'w scutil outcome" where
  "do_close ops argv s =
     (let s1 = (if sc_notifyRls s
                then (if sc_doDispatch s then s\<lparr>sc_world := snd (ds_set_queue ops (sc_store s) (sc_world s) False)\<rparr>
                      else s)\<lparr>sc_notifyRls := False\<rparr>
                else s);
          s2 = s1\<lparr>sc_notifyRl := False\<rparr>
      in obind (if sc_store s2
                then obind (release_mem (sc_watchedKeys s2)) (\<lambda>_. obind (release_mem (sc_watchedPatterns s2)) (\<lambda>_.
                     Ret (s2\<lparr>sc_world := ds_release ops (sc_world s2), sc_store := False,
                             sc_watchedKeys := Null, sc_watchedPatterns := Null\<rparr>)))
                else Ret s2) (\<lambda>s3.
         Ret (s3\<lparr>sc_world := ds_cache_close ops (sc_store s3) (sc_world s3)\<rparr>)))"

section \<open>Values in the store\<close>

datatype block_arg = Block_begin | Block_end | Block_invalid

definition block_of_arg :: "string \<Rightarrow> block_arg" where
  "block_of_arg a =
     (if strcaseeq a ''begin'' \<or> strcaseeq a ''start'' \<or> strcaseeq a ''on'' \<or> strcaseeq a ''1'' then Block_begin
      else if strcaseeq a ''end'' \<or> strcaseeq a ''stop'' \<or> strcaseeq a ''off'' \<or> strcaseeq a ''0'' then Block_end
      else Block_invalid)"

definition cached_count :: "string list option \<Rightarrow> nat" where
  "cached_count c = (case c of None \<Rightarrow> 0 | Some l \<Rightarrow> length l)"

definition block_begin :: "'w ds_ops \<Rightarrow> 'w scutil \<Rightarrow> 'w scutil outcome" where
  "block_begin ops s =
     (if ds_cache_active ops (sc_store s) (sc_world s) then Ret (print_note (Status kSCStatusLocked) s)
      else let s1 = print_note (Msg ''Begin block of SCDynamicStore operations'') s
           in Ret (s1\<lparr>sc_world := ds_cache_open ops (sc_store s1) (sc_world s1)\<rparr>))"

definition block_end :: "'w ds_ops \<Rightarrow> 'w scutil \<Rightarrow> 'w scutil outcome" where
  "block_end ops s =
     (if \<not> ds_cache_active ops (sc_store s) (sc_world s) then Ret (print_note (Status kSCStatusNeedLock) s)
      else if \<not> sc_store s then UB
      else let w = sc_world s;
               n = cached_count (ds_cached_set ops w) + cached_count (ds_cached_removals ops w) +
                   cached_count (ds_cached_notifys ops w);
               s1 = print_note (Msg (''End block of SCDynamicStore operations'' @ (if n > 0 then '', posting changes'' else ''''))) s;
               w1 = (if n > 0 then ds_cache_commit ops True w else w)
           in Ret (s1\<lparr>sc_world := ds_cache_close ops True w1\<rparr>))"

definition do_block :: "'w ds_ops \<Rightarrow> string list \<Rightarrow> 'w scutil \<Rightarrow> 'w scutil outcome" where
  "do_block ops argv s =
     (case argv of
        a # _ \<Rightarrow> (case block_of_arg a of
                    Block_begin \<Rightarrow> block_begin ops s | Block_end \<Rightarrow> block_end ops s
                  | Block_invalid \<Rightarrow> Ret (print_note (Msg ''invalid value'') s))
      | [] \<Rightarrow> if ds_cache_active ops (sc_store s) (sc_world s) then block_end ops s else block_begin ops s)"

definition print_keys :: "(nat \<Rightarrow> string \<Rightarrow> out_note) \<Rightarrow> string list \<Rightarrow> 'w scutil \<Rightarrow> 'w scutil" where
  "print_keys f keys s = s\<lparr>sc_out := sc_out s @ map (\<lambda>(i, k). f i k) (enumerate 0 keys)\<rparr>"

definition pending_changes :: "'w ds_ops \<Rightarrow> 'w \<Rightarrow> bool" where
  "pending_changes ops w \<longleftrightarrow> cached_count (ds_cached_set ops w) > 0 \<or> cached_count (ds_cached_removals ops w) > 0"

definition print_sorted :: "string list \<Rightarrow> 'w scutil \<Rightarrow> 'w scutil" where
  "print_sorted keys s = (if keys = [] then print_note (Msg ''no keys.'') s else print_keys Show_key (sort keys) s)"

definition do_list :: "'w ds_ops \<Rightarrow> string list \<Rightarrow> 'w scutil \<Rightarrow> 'w scutil outcome" where
  "do_list ops argv s =
     with_key ops [case argv of [] \<Rightarrow> ''.*'' | a # _ \<Rightarrow> a] (\<lambda>pattern.
     let w = sc_world s; active = ds_cache_active ops (sc_store s) w in
     case ds_key_list ops (sc_store s) w pattern of
       (None, st) \<Rightarrow>
         if st \<noteq> kSCStatusOK then Ret (print_note (Status st) s)
         else if \<not> active then Ret (print_note (Msg ''no keys.'') s)
         else if \<not> sc_store s then UB
         else (case ds_cached_set ops w of
                 Some (k # ks) \<Rightarrow> Ret (print_sorted (k # ks) s)
               | _ \<Rightarrow> Ret (print_note (Msg ''no keys.'') s))
     | (Some keys, _) \<Rightarrow>
         if active \<and> \<not> sc_store s then UB
         else Ret (print_sorted keys (if active \<and> pending_changes ops w
                then print_note (Msg ''transactions in progress'') s else s)))"

definition do_add :: "'w ds_ops \<Rightarrow> string list \<Rightarrow> 'w scutil \<Rightarrow> 'w scutil outcome" where
  "do_add ops argv s =
     with_key ops argv (\<lambda>key.
     if length argv < 2
     then (if \<not> ds_cache_active ops (sc_store s) (sc_world s)
           then Ret (store_call (ds_add ops (sc_store s) (sc_world s) key (sc_value s)) s)
           else Ret (print_note (Msg ''Cannot add with block'') s))
     else (if \<not> ds_cache_active ops (sc_store s) (sc_world s)
           then Ret (store_call (ds_add_temporary ops (sc_store s) (sc_world s) key (sc_value s)) s)
           else Ret (print_note (Msg ''Cannot add temporary with block'') s)))"

definition do_get :: "'w ds_ops \<Rightarrow> string list \<Rightarrow> 'w scutil \<Rightarrow> 'w scutil outcome" where
  "do_get ops argv s =
     with_key ops argv (\<lambda>key.
     case ds_copy ops (sc_store s) (sc_world s) key of
       (None, st) \<Rightarrow> Ret (print_note (Status st) s)
     | (Some v, _) \<Rightarrow> Ret (s\<lparr>sc_value := Some v\<rparr>))"

definition do_set :: "'w ds_ops \<Rightarrow> string list \<Rightarrow> 'w scutil \<Rightarrow> 'w scutil outcome" where
  "do_set ops argv s =
     with_key ops argv (\<lambda>key. Ret (store_call (ds_set ops (sc_store s) (sc_world s) key (sc_value s)) s))"

text \<open>With a pattern inside a block the keys are fetched one by one.\<close>

fun copy_each :: "(string \<Rightarrow> plist option) \<Rightarrow> string list \<Rightarrow> dict \<Rightarrow> dict" where
  "copy_each get [] newDict = newDict"
| "copy_each get (k # keys) newDict =
     copy_each get keys (case get k of None \<Rightarrow> newDict | Some v \<Rightarrow> fmupd k v newDict)"

definition show_pattern :: "'w ds_ops \<Rightarrow> string \<Rightarrow> 'w scutil \<Rightarrow> ((dict option \<times> sc_status) \<times> 'w scutil) outcome" where
  "show_pattern ops key s =
     (let w = sc_world s in
      if \<not> ds_cache_active ops (sc_store s) w then Ret (ds_copy_multiple ops (sc_store s) w key, s)
      else if \<not> sc_store s then UB
      else let newDict = (case fst (ds_key_list ops True w key) of
                 None \<Rightarrow> fmempty
               | Some keys \<Rightarrow> copy_each (\<lambda>k. fst (ds_copy ops True w k)) keys fmempty);
               s1 = (if pending_changes ops w then print_note (Msg ''SCDynamicStore locked'') s else s)
           in Ret ((Some newDict, kSCStatusOK), s1))"

definition do_show :: "'w ds_ops \<Rightarrow> string list \<Rightarrow> 'w scutil \<Rightarrow> 'w scutil outcome" where
  "do_show ops argv s =
     with_key ops argv (\<lambda>key.
     obind (if length argv = 1 then Ret (ds_copy ops (sc_store s) (sc_world s) key, s)
            else obind (show_pattern ops key s) (\<lambda>((d, st), s1). Ret ((map_option CFDictionary d, st), s1)))
       (\<lambda>((v, st), s1). Ret (print_note (case v of None \<Rightarrow> Status st | Some x \<Rightarrow> Show_value x) s1)))"

definition do_remove :: "'w ds_ops \<Rightarrow> string list \<Rightarrow> 'w scutil \<Rightarrow> 'w scutil outcome" where
  "do_remove ops argv s =
     with_key ops argv (\<lambda>key. Ret (store_call (ds_remove ops (sc_store s) (sc_world s) key) s))"

definition do_notify :: "'w ds_ops \<Rightarrow> string list \<Rightarrow> 'w scutil \<Rightarrow> 'w scutil outcome" where
  "do_notify ops argv s =
     with_key ops argv (\<lambda>key. Ret (store_call (ds_notify ops (sc_store s) (sc_world s) key) s))"

end
