(* ===== verification/ScutilNotify.thy ===== *)
theory ScutilNotify
  imports ScutilStore
begin

text \<open>
  Notifications of \<open>scutil\<close> (notifications.c): the lists of watched keys and patterns, the
  thread that waits for changes, and the wait through a file descriptor.

  A watching thread is created by \<open>n.watch\<close> and runs later: \<open>sc_watchers\<close> counts the threads
  that were created and have not run yet, and \<open>watcher_start\<close> is what one of them does
  before it enters its run loop.
\<close>

section \<open>Watched keys\<close>

definition watched :: "bool \<Rightarrow> 'w scutil \<Rightarrow> string list mem" where
  "watched isRegex s = (if isRegex then sc_watchedPatterns s else sc_watchedKeys s)"

definition set_watched :: "bool \<Rightarrow> string list \<Rightarrow> 'w scutil \<Rightarrow> 'w scutil" where
  "set_watched isRegex l s =
     (if isRegex then s\<lparr>sc_watchedPatterns := Live l\<rparr> else s\<lparr>sc_watchedKeys := Live l\<rparr>)"

definition live :: "'a mem \<Rightarrow> ('a \<Rightarrow> 'b outcome) \<Rightarrow> 'b outcome" where
  "live m f = (case m of Live x \<Rightarrow> f x | _ \<Rightarrow> UB)"

definition do_notify_list :: "string list \<Rightarrow> 'w scutil \<Rightarrow> 'w scutil outcome" where
  "do_notify_list argv s =
     (if \<not> sc_store s then Ret (print_note (Status kSCStatusNoStoreSession) s)
      else let isRegex = (length argv = 1);
               none = print_note (Msg (if isRegex then ''no notifier patterns.'' else ''no notifier keys.'')) s
           in case watched isRegex s of
                Null \<Rightarrow> Ret none
              | Freed \<Rightarrow> UB
              | Live l \<Rightarrow> Ret (if l = [] then none else print_keys Show_key (sort l) s))"

text \<open>A pointer that is passed on: NULL is allowed, a released array is not.\<close>

definition passed :: "'a mem \<Rightarrow> 'a option outcome" where
  "passed m = (case m of Null \<Rightarrow> Ret None | Live x \<Rightarrow> Ret (Some x) | Freed \<Rightarrow> UB)"

text \<open>Both lists go to the session, also the one that did not change.\<close>

definition set_notification_keys :: "'w ds_ops \<Rightarrow> 'w scutil \<Rightarrow> 'w scutil outcome" where
  "set_notification_keys ops s =
     obind (passed (sc_watchedKeys s)) (\<lambda>k. obind (passed (sc_watchedPatterns s)) (\<lambda>p.
       Ret (store_call (ds_set_keys ops (sc_store s) (sc_world s) k p) s)))"

definition do_notify_add :: "'w ds_ops \<Rightarrow> string list \<Rightarrow> 'w scutil \<Rightarrow> 'w scutil outcome" where
  "do_notify_add ops argv s =
     (if \<not> sc_store s then Ret (print_note (Status kSCStatusNoStoreSession) s)
      else with_key ops argv (\<lambda>key.
        let isRegex = (length argv = 2) in
        live (watched isRegex s) (\<lambda>keys.
        if key \<in> set keys then Ret (print_note (Status kSCStatusKeyExists) s)
        else set_notification_keys ops (set_watched isRegex (keys @ [key]) s))))"

definition do_notify_remove :: "'w ds_ops \<Rightarrow> string list \<Rightarrow> 'w scutil \<Rightarrow> 'w scutil outcome" where
  "do_notify_remove ops argv s =
     (if \<not> sc_store s then Ret (print_note (Status kSCStatusNoStoreSession) s)
      else with_key ops argv (\<lambda>key.
        let isRegex = (length argv = 2) in
        live (watched isRegex s) (\<lambda>keys.
        if key \<notin> set keys then Ret (print_note (Status kSCStatusNoKey) s)
        else set_notification_keys ops (set_watched isRegex (remove1 key keys) s))))"

definition do_notify_changes :: "'w ds_ops \<Rightarrow> 'w scutil \<Rightarrow> 'w scutil" where
  "do_notify_changes ops s =
     (case ds_notified ops (sc_store s) (sc_world s) of
        ((None, st), w) \<Rightarrow> print_note (Status st) (s\<lparr>sc_world := w\<rparr>)
      | ((Some list, _), w) \<Rightarrow>
          (if list = [] then print_note (Msg ''no changedKey's.'') (s\<lparr>sc_world := w\<rparr>)
           else print_keys Show_changed list (s\<lparr>sc_world := w\<rparr>)))"

definition storeCallback :: "string list \<Rightarrow> 'w scutil \<Rightarrow> 'w scutil" where
  "storeCallback changedKeys s =
     (let s1 = print_note (Msg ''notification callback'') s
      in if changedKeys = [] then print_note (Msg ''no changed key's.'') s1
         else print_keys Show_changed changedKeys s1)"

section \<open>Watching\<close>

definition do_notify_watch :: "'w scutil \<Rightarrow> 'w scutil" where
  "do_notify_watch s =
     (if sc_notifyRl s then print_note (Msg ''already active'') s
      else s\<lparr>sc_watchers := Suc (sc_watchers s)\<rparr>)"

definition watcher_start :: "'w ds_ops \<Rightarrow> 'w scutil \<Rightarrow> 'w scutil" where
  "watcher_start ops s =
     (case (if sc_doDispatch s then ds_set_queue ops (sc_store s) (sc_world s) True
            else ds_source ops (sc_store s) (sc_world s)) of
        ((ok, st), w) \<Rightarrow>
          let s1 = s\<lparr>sc_watchers := sc_watchers s - 1, sc_world := w\<rparr>
          in if \<not> ok then print_note (Status st) (s1\<lparr>sc_notifyRl := False, sc_notifyRls := sc_doDispatch s \<and> sc_notifyRls s\<rparr>)
             else s1\<lparr>sc_notifyRl := True, sc_notifyRls := True\<rparr>)"

text \<open>When its run loop was stopped, the thread clears the pointer to it.\<close>

definition watcher_end :: "'w scutil \<Rightarrow> 'w scutil" where
  "watcher_end s = s\<lparr>sc_notifyRl := False\<rparr>"

definition do_notify_wait :: "'w ds_ops \<Rightarrow> 'w scutil \<Rightarrow> 'w scutil" where
  "do_notify_wait ops s = store_call (ds_notify_wait ops (sc_store s) (sc_world s)) s"

definition do_notify_cancel :: "'w ds_ops \<Rightarrow> 'w scutil \<Rightarrow> 'w scutil" where
  "do_notify_cancel ops s =
     (case (if sc_notifyRls s
            then (if sc_doDispatch s then ds_set_queue ops (sc_store s) (sc_world s) False
                  else ((True, kSCStatusOK), sc_world s))
            else ds_notify_cancel ops (sc_store s) (sc_world s)) of
        ((ok, st), w) \<Rightarrow>
          if \<not> ok then print_note (Status st) (s\<lparr>sc_world := w\<rparr>)
          else s\<lparr>sc_world := w, sc_notifyRls := False\<rparr>)"

section \<open>Waiting on a file descriptor\<close>

text \<open>
  The four bytes of an identifier, in pieces: the reads are what the descriptor gives, each no
  longer than what was asked for. The result has the bytes so far and the notes.
\<close>

fun notify_read :: "read_result list \<Rightarrow> uint8 list \<Rightarrow> out_note list \<Rightarrow> uint8 list \<times> out_note list" where
  "notify_read reads got notes =
     (if length got \<ge> 4 then (got, notes)
      else case reads of
          [] \<Rightarrow> (got, notes @ [Msg ''read(): detected end of file.''])
        | Read_error # _ \<Rightarrow> (got, notes @ [Msg ''read() failed''])
        | Read_bytes bs # rest \<Rightarrow>
            if bs = [] then (got, notes @ [Msg ''read(): detected end of file.''])
            else notify_read rest (got @ take (4 - length got) bs) (notes @ [Msg ''Received bytes.'']))"

declare notify_read.simps [simp del]

text \<open>The bytes that did not arrive are zero; the host is little-endian.\<close>

definition gotID :: "uint8 list \<Rightarrow> 32 word" where
  "gotID got = word_of_int (\<Sum>i < 4. uint ((got @ replicate 4 0) ! i) * 256 ^ i)"

definition do_notify_file :: "'w ds_ops \<Rightarrow> string list \<Rightarrow> 'w scutil \<Rightarrow> 'w scutil outcome" where
  "do_notify_file ops argv s =
     obind (case argv of [a] \<Rightarrow> sscanf_int a | _ \<Rightarrow> Ret (Some 0)) (\<lambda>id.
     case id of
       None \<Rightarrow> Ret (print_note (Msg ''invalid identifier.'') s)
     | Some reqID \<Rightarrow>
         (case ds_notify_fd ops (sc_store s) (sc_world s) reqID of
            ((None, st), w) \<Rightarrow> Ret (print_note (Status st) (s\<lparr>sc_world := w\<rparr>))
          | ((Some reads, _), w) \<Rightarrow>
              (case notify_read reads [] [] of (got, notes) \<Rightarrow>
                let s1 = s\<lparr>sc_world := w, sc_out := sc_out s @ notes\<rparr>;
                    s2 = (if got \<noteq> [] then print_note (Show_number (sint (gotID got))) s1 else s1);
                    s3 = do_notify_changes ops s2
                in Ret (s3\<lparr>sc_world := snd (ds_notify_cancel ops (sc_store s3) (sc_world s3))\<rparr>))))"

end
