(* ===== verification/ScutilCmd.thy ===== *)
theory ScutilCmd
  imports ScutilNotify
begin

text \<open>
  The commands of \<open>scutil\<close> (commands.c, and the command loop of scutil.c): the three tables,
  the search in them, the loop over the lines of an input, files of commands.

  A handler is a constructor named after its function. The handlers of the network configuration and of
  the preferences answer through \<open>tc_other\<close>. The usage texts are left out; the
  list of commands shows the names.
\<close>

section \<open>The tables\<close>

datatype net_handler =
    Do_net_quit | Do_net_open | Do_net_commit | Do_net_apply | Do_net_close | Do_net_create
  | Do_net_disable | Do_net_enable | Do_net_remove | Do_net_select | Do_net_set | Do_net_show
  | Do_net_migrate | Do_net_clean | Do_net_update | Do_net_upgrade | Do_net_snapshot

datatype prefs_handler =
    Do_prefs_quit | Do_prefs_open | Do_prefs_lock | Do_prefs_commit | Do_prefs_apply
  | Do_prefs_unlock | Do_prefs_close | Do_prefs_synchronize | Do_prefs_list | Do_prefs_get
  | Do_prefs_set | Do_prefs_remove

datatype handler =
    Do_help | Do_readFile | Do_quit | Do_dictInit | Do_dictShow | Do_dictSetKey | Do_dictRemoveKey
  | Do_open | Do_close | Do_block | Do_list | Do_add | Do_get | Do_set | Do_show | Do_remove
  | Do_notify | Do_notify_list | Do_notify_add | Do_notify_remove | Do_notify_changes
  | Do_notify_watch | Do_notify_wait | Do_notify_file | Do_notify_cancel | Do_snapshot
  | Net net_handler | Prefs prefs_handler

record cmdInfo =
  ci_cmd :: string
  ci_minArgs :: nat
  ci_maxArgs :: nat
  ci_func :: handler
  ci_group :: nat
  ci_ctype :: int

definition command :: "string \<Rightarrow> nat \<Rightarrow> nat \<Rightarrow> handler \<Rightarrow> nat \<Rightarrow> int \<Rightarrow> cmdInfo" where
  "command cmd lo hi func grp ctype =
     \<lparr>ci_cmd = cmd, ci_minArgs = lo, ci_maxArgs = hi, ci_func = func, ci_group = grp, ci_ctype = ctype\<rparr>"

definition commands_store :: "cmdInfo list" where
  "commands_store =
    [ command ''help'' 0 0 Do_help 0 0,
      command ''f.read'' 1 1 Do_readFile 0 0,
      command ''quit'' 0 0 Do_quit 0 0,
      command ''q'' 0 0 Do_quit 0 (-1),
      command ''exit'' 0 0 Do_quit 0 (-1),
      command ''d.init'' 0 0 Do_dictInit 1 0,
      command ''d.show'' 0 0 Do_dictShow 1 0,
      command ''d.add'' 2 101 Do_dictSetKey 1 0,
      command ''d.remove'' 1 1 Do_dictRemoveKey 1 0,
      command ''open'' 0 1 Do_open 2 1,
      command ''close'' 0 0 Do_close 2 1,
      command ''block'' 0 1 Do_block 3 1,
      command ''list'' 0 2 Do_list 4 0,
      command ''add'' 1 2 Do_add 4 0,
      command ''get'' 1 1 Do_get 4 0,
      command ''set'' 1 1 Do_set 4 0,
      command ''show'' 1 2 Do_show 4 0,
      command ''remove'' 1 1 Do_remove 4 0,
      command ''notify'' 1 1 Do_notify 4 0,
      command ''n.list'' 0 1 Do_notify_list 5 0,
      command ''n.add'' 1 2 Do_notify_add 5 0,
      command ''n.remove'' 1 2 Do_notify_remove 5 0,
      command ''n.changes'' 0 0 Do_notify_changes 5 0,
      command ''n.watch'' 0 0 Do_notify_watch 5 0,
      command ''n.wait'' 0 0 Do_notify_wait 5 2,
      command ''n.file'' 0 1 Do_notify_file 5 2,
      command ''n.cancel'' 0 1 Do_notify_cancel 5 0,
      command ''snapshot'' 0 1 Do_snapshot 99 2]"

definition commands_net :: "cmdInfo list" where
  "commands_net =
    [ command ''help'' 0 0 Do_help 0 0,
      command ''f.read'' 1 1 Do_readFile 0 0,
      command ''quit'' 0 1 (Net Do_net_quit) 0 0,
      command ''q'' 0 1 (Net Do_net_quit) 0 (-1),
      command ''exit'' 0 1 (Net Do_net_quit) 0 (-1),
      command ''open'' 0 1 (Net Do_net_open) 2 1,
      command ''commit'' 0 0 (Net Do_net_commit) 2 0,
      command ''apply'' 0 0 (Net Do_net_apply) 2 0,
      command ''close'' 0 1 (Net Do_net_close) 2 1,
      command ''create'' 1 3 (Net Do_net_create) 3 0,
      command ''disable'' 1 2 (Net Do_net_disable) 4 0,
      command ''enable'' 1 2 (Net Do_net_enable) 5 0,
      command ''remove'' 1 2 (Net Do_net_remove) 6 0,
      command ''select'' 2 3 (Net Do_net_select) 7 0,
      command ''set'' 2 101 (Net Do_net_set) 8 0,
      command ''show'' 1 2 (Net Do_net_show) 9 0,
      command ''migrate'' 2 5 (Net Do_net_migrate) 10 0,
      command ''clean'' 0 0 (Net Do_net_clean) 11 0,
      command ''update'' 0 0 (Net Do_net_update) 11 0,
      command ''upgrade'' 0 1 (Net Do_net_upgrade) 11 0,
      command ''snapshot'' 0 0 (Net Do_net_snapshot) 99 2]"

definition commands_prefs :: "cmdInfo list" where
  "commands_prefs =
    [ command ''help'' 0 0 Do_help 0 0,
      command ''f.read'' 1 1 Do_readFile 0 0,
      command ''quit'' 0 1 (Prefs Do_prefs_quit) 0 0,
      command ''q'' 0 1 (Prefs Do_prefs_quit) 0 (-1),
      command ''exit'' 0 1 (Prefs Do_prefs_quit) 0 (-1),
      command ''d.init'' 0 0 Do_dictInit 1 0,
      command ''d.show'' 0 0 Do_dictShow 1 0,
      command ''d.add'' 2 101 Do_dictSetKey 1 0,
      command ''d.remove'' 1 1 Do_dictRemoveKey 1 0,
      command ''open'' 0 1 (Prefs Do_prefs_open) 2 1,
      command ''lock'' 0 1 (Prefs Do_prefs_lock) 3 1,
      command ''commit'' 0 0 (Prefs Do_prefs_commit) 2 0,
      command ''apply'' 0 0 (Prefs Do_prefs_apply) 2 0,
      command ''unlock'' 0 0 (Prefs Do_prefs_unlock) 3 1,
      command ''close'' 0 1 (Prefs Do_prefs_close) 2 1,
      command ''synchronize'' 0 1 (Prefs Do_prefs_synchronize) 2 0,
      command ''list'' 0 1 (Prefs Do_prefs_list) 4 0,
      command ''get'' 1 1 (Prefs Do_prefs_get) 4 0,
      command ''set'' 1 2 (Prefs Do_prefs_set) 4 0,
      command ''remove'' 1 1 (Prefs Do_prefs_remove) 4 0]"

section \<open>Snapshots\<close>

text \<open>
  With one argument the store is written to a new file: \<open>create\<close> is whether the file could be made, \<open>xml\<close> the encoding;
  the result has what was written.
\<close>

definition do_snapshot ::
    "'w ds_ops \<Rightarrow> (string \<Rightarrow> bool) \<Rightarrow> (dict \<Rightarrow> string option) \<Rightarrow> nat \<Rightarrow> (bool \<Rightarrow> bool \<times> sc_status) \<Rightarrow> string list \<Rightarrow>
     'w scutil \<Rightarrow> (string \<times> string) option \<times> 'w scutil" where
  "do_snapshot ops create xml euid snapshot argv s =
     (case argv of
        [file] \<Rightarrow>
          if \<not> create file then (None, print_note (Msg ''open() failed'') s)
          else (case ds_copy_multiple ops (sc_store s) (sc_world s) ''.*'' of
                  (Some d, _) \<Rightarrow>
                    (case xml d of
                       Some t \<Rightarrow> (Some (file, t), s)
                     | None \<Rightarrow> (Some (file, ''''), s))
                | (None, st) \<Rightarrow>
                    (Some (file, ''''),
                     print_note (if st = kSCStatusOK then Msg ''No SCDynamicStore content'' else Status st) s))
      | _ \<Rightarrow>
          if euid \<noteq> 0 then (None, print_note (Msg ''Need to be root to capture snapshot'') s)
          else (case snapshot (sc_store s) of
                  (True, _) \<Rightarrow> (None, s)
                | (False, st) \<Rightarrow> (None, print_note (Status st) s)))"

section \<open>Running a command\<close>

text \<open>
  What is outside: the store, other handlers, files to read, what the stack holds where the buffer of
  a line will be, and for a snapshot the creation of the file, the encoding, the user and the call of the framework.
\<close>

record 'w tool_cfg =
  tc_ops :: "'w ds_ops"
  tc_table :: "cmdInfo list"
  tc_other :: "handler \<Rightarrow> string list \<Rightarrow> 'w scutil \<Rightarrow> 'w scutil outcome"
  tc_fopen :: "string \<Rightarrow> string option"
  tc_stack :: "'w scutil \<Rightarrow> string"
  tc_create :: "string \<Rightarrow> bool"
  tc_xml :: "dict \<Rightarrow> string option"
  tc_euid :: nat
  tc_capture :: "bool \<Rightarrow> bool \<times> sc_status"

fun find_command :: "bool \<Rightarrow> cmdInfo list \<Rightarrow> string \<Rightarrow> cmdInfo option" where
  "find_command private [] cmd = None"
| "find_command private (c # cs) cmd =
     (if ci_ctype c > 1 \<and> \<not> private then find_command private cs cmd
      else if strcaseeq cmd (ci_cmd c) then Some c
      else find_command private cs cmd)"

definition do_help :: "cmdInfo list \<Rightarrow> 'w scutil \<Rightarrow> 'w scutil" where
  "do_help table s =
     s\<lparr>sc_out := sc_out s @ map (\<lambda>c. Msg (ci_cmd c))
         (filter (\<lambda>c. 0 \<le> ci_ctype c \<and> (ci_ctype c > 0 \<longrightarrow> sc_enablePrivateAPI s)) table)\<rparr>"

definition do_dictShow :: "'w scutil \<Rightarrow> 'w scutil" where
  "do_dictShow s =
     print_note (case sc_value s of None \<Rightarrow> Dict_note Dict_uninitialized | Some v \<Rightarrow> Show_value v) s"

definition store_value :: "(dict_error + plist) outcome \<Rightarrow> 'w scutil \<Rightarrow> 'w scutil outcome" where
  "store_value r s =
     obind r (\<lambda>x. Ret (case x of Inl e \<Rightarrow> print_note (Dict_note e) s | Inr v \<Rightarrow> s\<lparr>sc_value := Some v\<rparr>))"

text \<open>The handlers that do not read further commands.\<close>

definition run_handler ::
    "'w tool_cfg \<Rightarrow> handler \<Rightarrow> string list \<Rightarrow> 'w scutil \<Rightarrow> 'w scutil outcome" where
  "run_handler cfg h argv s =
     (let ops = tc_ops cfg in
      case h of
        Do_help \<Rightarrow> Ret (do_help (tc_table cfg) s)
      | Do_quit \<Rightarrow> Ret (s\<lparr>sc_termRequested := True\<rparr>)
      | Do_dictInit \<Rightarrow> Ret (s\<lparr>sc_value := do_dictInit\<rparr>)
      | Do_dictShow \<Rightarrow> Ret (do_dictShow s)
      | Do_dictSetKey \<Rightarrow> store_value (do_dictSetKey (ds_utf8 ops) (sc_value s) argv) s
      | Do_dictRemoveKey \<Rightarrow> store_value (do_dictRemoveKey (ds_utf8 ops) (sc_value s) argv) s
      | Do_open \<Rightarrow> do_open ops argv s
      | Do_close \<Rightarrow> do_close ops argv s
      | Do_block \<Rightarrow> do_block ops argv s
      | Do_list \<Rightarrow> do_list ops argv s
      | Do_add \<Rightarrow> do_add ops argv s
      | Do_get \<Rightarrow> do_get ops argv s
      | Do_set \<Rightarrow> do_set ops argv s
      | Do_show \<Rightarrow> do_show ops argv s
      | Do_remove \<Rightarrow> do_remove ops argv s
      | Do_notify \<Rightarrow> do_notify ops argv s
      | Do_notify_list \<Rightarrow> do_notify_list argv s
      | Do_notify_add \<Rightarrow> do_notify_add ops argv s
      | Do_notify_remove \<Rightarrow> do_notify_remove ops argv s
      | Do_notify_changes \<Rightarrow> Ret (do_notify_changes ops s)
      | Do_notify_watch \<Rightarrow> Ret (do_notify_watch s)
      | Do_notify_wait \<Rightarrow> Ret (do_notify_wait ops s)
      | Do_notify_file \<Rightarrow> do_notify_file ops argv s
      | Do_notify_cancel \<Rightarrow> Ret (do_notify_cancel ops s)
      | Do_snapshot \<Rightarrow> Ret (snd (do_snapshot ops (tc_create cfg) (tc_xml cfg) (tc_euid cfg) (tc_capture cfg) argv s))
      | _ \<Rightarrow> tc_other cfg h argv s)"

text \<open>
  Reading a file of commands: \<open>loop\<close> is the command loop. The nesting level that is counted up here is
  never counted down. \<open>None\<close> is that the loop does not come back.
\<close>

definition do_readFile ::
    "'w tool_cfg \<Rightarrow> (input \<Rightarrow> 'w scutil \<Rightarrow> 'w scutil outcome option) \<Rightarrow> string list \<Rightarrow> 'w scutil \<Rightarrow>
     'w scutil outcome option" where
  "do_readFile cfg loop argv s =
     (case argv of
        [] \<Rightarrow> Some UB
      | a # _ \<Rightarrow> (case tc_fopen cfg a of
                    None \<Rightarrow> Some (Ret (print_note (Msg ''f.read: could not open file'') s))
                  | Some str \<Rightarrow>
                      loop \<lparr>in_fp = str, in_el = None, in_h = None\<rparr>
                        ((print_note (Msg ''f.read: reading file'') s)\<lparr>sc_nesting := Suc (sc_nesting s)\<rparr>)))"

definition do_command ::
    "'w tool_cfg \<Rightarrow> (input \<Rightarrow> 'w scutil \<Rightarrow> 'w scutil outcome option) \<Rightarrow> string list \<Rightarrow> 'w scutil \<Rightarrow>
     'w scutil outcome option" where
  "do_command cfg loop argv s =
     (case argv of
        [] \<Rightarrow> Some UB
      | cmd # args \<Rightarrow>
          (case find_command (sc_enablePrivateAPI s) (tc_table cfg) cmd of
             None \<Rightarrow> Some (Ret (print_note (Msg (cmd @ '': unknown'')) s))
           | Some c \<Rightarrow>
               if length args < ci_minArgs c then Some (Ret (print_note (Msg (cmd @ '': too few arguments'')) s))
               else if length args > ci_maxArgs c then Some (Ret (print_note (Msg (cmd @ '': too many arguments'')) s))
               else if ci_func c = Do_readFile then do_readFile cfg loop args s
               else Some (run_handler cfg (ci_func c) args s)))"

section \<open>The command loop\<close>

text \<open>One line: its arguments, the rest of the input, and the echo of a nested line.\<close>

definition read_command ::
    "'w tool_cfg \<Rightarrow> input \<Rightarrow> 'w scutil \<Rightarrow> (string list \<times> input \<times> 'w scutil) option outcome" where
  "read_command cfg src s =
     obind (getLine (tc_stack cfg s) LINE_LENGTH src) (\<lambda>r.
     case r of
       None \<Rightarrow> Ret None
     | Some (line, src1) \<Rightarrow>
         let s1 = (if sc_nesting s > 0
                   then print_note (Msg (decimal (sc_nesting s) @ ''> '' @ take (strlen line) line)) s else s)
         in obind (line_args line 0) (\<lambda>argv. Ret (Some (argv, src1, s1))))"

text \<open>An empty line never ends the loop; a comment is not run.\<close>

fun process_lines ::
    "nat \<Rightarrow> 'w tool_cfg \<Rightarrow> input \<Rightarrow> 'w scutil \<Rightarrow> 'w scutil outcome option" where
  "process_lines 0 cfg src s = None"
| "process_lines (Suc fuel) cfg src s =
     (case read_command cfg src s of
        UB \<Rightarrow> Some UB
      | Ret None \<Rightarrow> Some (Ret s)
      | Ret (Some (argv, src1, s1)) \<Rightarrow>
          if argv = [] then process_lines fuel cfg src1 s1
          else (case (if take 1 (hd argv) = ''#'' then Some (Ret s1)
                      else do_command cfg (\<lambda>src' s'. process_lines fuel cfg src' s') argv s1) of
                  None \<Rightarrow> None
                | Some UB \<Rightarrow> Some UB
                | Some (Ret s2) \<Rightarrow>
                    if sc_termRequested s2 then Some (Ret s2) else process_lines fuel cfg src1 s2))"

end
