(* ===== verification/ScutilParseProps.thy ===== *)
theory ScutilParseProps
  imports ScutilParse
begin

text \<open>
  What holds of the arguments of a line: the memory they are copied to is large enough, quoted
  arguments come back as they were, and where a quote is missing the reader runs into what lies
  behind the line.
\<close>

section \<open>Bounds\<close>

text \<open>The positions whose character the copy drops.\<close>

definition dropped :: "string \<Rightarrow> nat \<Rightarrow> bool" where
  "dropped buf i \<longleftrightarrow> buf ! i = CHR 0x5C \<and> escapable (buf ! Suc i)"

definition drops :: "string \<Rightarrow> nat \<Rightarrow> nat \<Rightarrow> nat" where
  "drops buf s e = length (filter (dropped buf) [s..<e])"

lemma drops_step: "s < e \<Longrightarrow> drops buf s e = (if dropped buf s then 1 else 0) + drops buf (Suc s) e"
  by (simp add: drops_def upt_conv_Cons)

lemma drops_self [simp]: "drops buf e e = 0"
  by (simp add: drops_def)

lemma drops_le: "drops buf s e \<le> e - s"
  using length_filter_le[of "dropped buf" "[s..<e]"] by (simp add: drops_def)

lemma scan_string_drops: "scan_string buf q e k = Ret (e', k') \<Longrightarrow> k' \<le> k + drops buf e e'"
proof (induction buf q e k rule: scan_string.induct)
  case (1 buf q e k)
  let ?c = "buf ! e" and ?d = "buf ! Suc e"
  have len: "e < length buf" using 1(3) by (subst (asm) scan_string.simps) (auto split: if_splits)
  show ?case
  proof (cases "?c = NUL \<or> q \<and> ?c = CHR 0x22 \<or> (?c \<noteq> CHR 0x5C \<and> \<not> q \<and> isspace ?c)")
    case True
    then show ?thesis using 1(3) len by (subst (asm) scan_string.simps) (auto simp: Let_def NUL_def split: if_splits)
  next
    case False
    show ?thesis
    proof (cases "?c = CHR 0x5C")
      case esc: True
      with False have len2: "Suc e < length buf"
        using 1(3) len by (subst (asm) scan_string.simps) (auto simp: Let_def split: if_splits)
      show ?thesis
      proof (cases "?d = NUL")
        case True
        then show ?thesis using 1(3) len len2 esc False by (subst (asm) scan_string.simps) (auto simp: Let_def split: if_splits)
      next
        case nd: False
        let ?k = "if escapable ?d then Suc k else k"
        have r: "scan_string buf q (e + 2) ?k = Ret (e', k')"
          using 1(3) len len2 esc False nd by (subst (asm) scan_string.simps) (auto simp: Let_def split: if_splits)
        have "k' \<le> ?k + drops buf (e + 2) e'"
          using "1.IH"(1)[OF len refl _ _ esc len2 nd] r False by auto
        moreover have "e + 2 \<le> e'" using scan_string_stop[OF r] by simp
        ultimately show ?thesis
          using esc by (simp add: drops_step[of e e'] drops_step[of "Suc e" e'] dropped_def split: if_splits)
      qed
    next
      case nesc: False
      with False have r: "scan_string buf q (Suc e) k = Ret (e', k')"
        using 1(3) len nesc by (subst (asm) scan_string.simps) (auto simp: Let_def split: if_splits)
      have "k' \<le> k + drops buf (Suc e) e'"
        using "1.IH"(2)[OF len refl _ _ nesc] r False nesc by auto
      moreover have "Suc e \<le> e'" using scan_string_stop[OF r] by simp
      ultimately show ?thesis by (simp add: drops_step[of e e'])
    qed
  qed
qed

lemma copy_string_fits:
  "e < length buf \<Longrightarrow> s \<le> e \<Longrightarrow> length out + (e - s - drops buf s e) < sz \<Longrightarrow>
   \<exists>str. copy_string buf s e sz out = Ret str"
proof (induction buf s e sz out rule: copy_string.induct)
  case (1 buf s e sz out)
  show ?case
  proof (cases "s < e")
    case False
    then show ?thesis using 1 by (subst copy_string.simps) simp
  next
    case True
    then have step: "drops buf s e = (if dropped buf s then 1 else 0) + drops buf (Suc s) e" by (rule drops_step)
    have le: "drops buf (Suc s) e \<le> e - Suc s" by (rule drops_le)
    have rd1: "rd buf s = Ret (buf ! s)" and rd2: "rd buf (Suc s) = Ret (buf ! Suc s)"
      using True 1(3) by (simp_all add: rd_def)
    have out: "length out < sz" using 1(5) by simp
    show ?thesis
    proof (cases "buf ! s = CHR 0x5C")
      case esc: True
      have "length (if escapable (buf ! Suc s) then out else out @ [buf ! s]) + (e - Suc s - drops buf (Suc s) e) < sz"
        using 1(5) True step le esc by (auto simp: dropped_def)
      from "1.IH"(1)[OF out True rd1 esc rd2 1(3) _ this] True
      show ?thesis using out rd1 rd2 esc by (subst copy_string.simps) (cases "escapable (buf ! Suc s)", simp_all)
    next
      case nesc: False
      have "length (out @ [buf ! s]) + (e - Suc s - drops buf (Suc s) e) < sz"
        using 1(5) True step le nesc by (simp add: dropped_def)
      from "1.IH"(2)[OF out True rd1 nesc 1(3) _ this] True
      show ?thesis using out rd1 nesc by (subst copy_string.simps) simp
    qed
  qed
qed

text \<open>A string that ends inside the buffer is scanned to an end inside the buffer.\<close>

lemma skip_space_ends: "i \<le> z \<Longrightarrow> z < length buf \<Longrightarrow> buf ! z = NUL \<Longrightarrow> \<exists>p. skip_space buf i = Ret p \<and> p \<le> z"
proof (induction buf i rule: skip_space.induct)
  case (1 buf i)
  show ?case
  proof (cases "isspace (buf ! i)")
    case True
    then have "i \<noteq> z" using 1 by (auto simp: isspace_def NUL_def)
    with 1 True show ?thesis by (subst skip_space.simps) auto
  next
    case False
    then show ?thesis using 1 by (subst skip_space.simps) auto
  qed
qed

lemma scan_string_ends:
  "e \<le> z \<Longrightarrow> z < length buf \<Longrightarrow> buf ! z = NUL \<Longrightarrow> \<exists>e' k'. scan_string buf q e k = Ret (e', k')"
proof (induction buf q e k rule: scan_string.induct)
  case (1 buf q e k)
  have len: "e < length buf" using 1 by simp
  show ?case
  proof (cases "buf ! e = NUL \<or> q \<and> buf ! e = CHR 0x22")
    case True
    then show ?thesis using len by (subst scan_string.simps) (auto simp: Let_def)
  next
    case False
    then have ez: "e < z" using 1 by (metis le_neq_implies_less)
    show ?thesis
    proof (cases "buf ! e = CHR 0x5C")
      case esc: True
      show ?thesis
      proof (cases "buf ! Suc e = NUL")
        case True
        then show ?thesis using False len ez esc 1(4) by (subst scan_string.simps) (auto simp: Let_def)
      next
        case nd: False
        then have "e + 2 \<le> z" using ez 1(5) by (metis Suc_leI add_2_eq_Suc' le_neq_implies_less)
        from "1.IH"(1)[OF len refl _ _ esc _ nd this 1(4,5)] False ez 1(4)
        show ?thesis using False len nd esc by (subst scan_string.simps) (auto simp: Let_def)
      qed
    next
      case nesc: False
      show ?thesis
      proof (cases "\<not> q \<and> isspace (buf ! e)")
        case True
        then show ?thesis using False len nesc by (subst scan_string.simps) (auto simp: Let_def)
      next
        case nsp: False
        from "1.IH"(2)[OF len refl _ _ nesc nsp _ 1(4,5)] False ez
        show ?thesis using False len nesc nsp by (subst scan_string.simps) (auto simp: Let_def)
      qed
    qed
  qed
qed

text \<open>
  Taking an argument off a line is memory safe. When the buffer holds a NUL at or after the
  current position, \<open>getString\<close> reads only characters of the buffer and writes only inside the
  memory it allocated (the length of the argument less the escaped characters it counted, plus one):
  it returns a defined result, whatever backslashes and quotes the line has.
\<close>

theorem getString_in_bounds:
  assumes "i \<le> z" "z < length buf" "buf ! z = NUL"
  shows "getString buf i \<noteq> UB"
proof -
  obtain p where p: "skip_space buf i = Ret p" "p \<le> z" using skip_space_ends[OF assms] by blast
  let ?q = "buf ! p = CHR 0x22" and ?s = "if buf ! p = CHR 0x22 then Suc p else p"
  have sz: "?s \<le> z" if "buf ! p \<noteq> NUL"
    using that p(2) assms(3) by (cases "p = z") (auto simp: NUL_def)
  then have "\<exists>e k str. scan_string buf ?q ?s 0 = Ret (e, k) \<and> copy_string buf ?s e (e - ?s - k + 1) [] = Ret str"
    if np: "buf ! p \<noteq> NUL"
  proof -
    obtain e k where scan: "scan_string buf ?q ?s 0 = Ret (e, k)"
      using scan_string_ends[OF sz[OF np] assms(2,3), of ?q 0] by auto
    have "k \<le> drops buf ?s e" using scan_string_drops[OF scan] by simp
    then have "length [] + (e - ?s - drops buf ?s e) < e - ?s - k + 1" by simp
    from copy_string_fits[OF _ _ this] scan_string_stop[OF scan] scan show ?thesis by blast
  qed
  then show ?thesis
    using p assms by (cases "buf ! i = NUL"; cases "buf ! p = NUL"; cases "buf ! p = CHR 0x22")
      (auto simp: getString_def rd_def Let_def)
qed

lemma getString_in_bounds_witness: "getString [CHR ''a'', CHR 0x5C, CHR '' '', CHR ''b'', CHR 0x00] 0 \<noteq> UB"
  by (rule getString_in_bounds[of 0 4]) (simp_all add: NUL_def)

section \<open>Quoted arguments\<close>

text \<open>How an argument is written so that every character of it counts: in quotes, with its own quotes escaped.\<close>

definition quote_char :: "char \<Rightarrow> string" where
  "quote_char c = (if c = CHR 0x22 then [CHR 0x5C, c] else [c])"

definition quote_text :: "string \<Rightarrow> string" where
  "quote_text a = concat (map quote_char a)"

definition quote_arg :: "string \<Rightarrow> string" where
  "quote_arg a = CHR 0x22 # quote_text a @ [CHR 0x22]"

definition quote_line :: "string list \<Rightarrow> string" where
  "quote_line argv = concat (map (\<lambda>a. quote_arg a @ '' '') argv)"

text \<open>A backslash has no quoted form: before a quote it would take the quote with it.\<close>

definition quotable :: "string \<Rightarrow> bool" where
  "quotable a \<longleftrightarrow> NUL \<notin> set a \<and> CHR 0x5C \<notin> set a"

abbreviation quotes :: "string \<Rightarrow> nat" where
  "quotes a \<equiv> length (filter ((=) (CHR 0x22)) a)"

lemma length_quote_text: "length (quote_text a) = length a + quotes a"
  by (induction a) (simp_all add: quote_text_def quote_char_def)

lemma quotable_Cons: "quotable (c # a) \<longleftrightarrow> c \<noteq> NUL \<and> c \<noteq> CHR 0x5C \<and> quotable a"
  by (auto simp: quotable_def)

lemma scan_quoted:
  "quotable a \<Longrightarrow> scan_string (pre @ quote_text a @ CHR 0x22 # rest) True (length pre) k =
     Ret (length pre + length (quote_text a), k + quotes a)"
proof (induction a arbitrary: pre k)
  case Nil
  then show ?case by (subst scan_string.simps) (simp add: quote_text_def NUL_def)
next
  case (Cons c a)
  show ?case
  proof (cases "c = CHR 0x22")
    case True
    have "scan_string ((pre @ [CHR 0x5C, c]) @ quote_text a @ CHR 0x22 # rest) True (length (pre @ [CHR 0x5C, c])) (Suc k) =
        Ret (length (pre @ [CHR 0x5C, c]) + length (quote_text a), Suc k + quotes a)"
      by (rule Cons.IH) (use Cons.prems in \<open>simp add: quotable_Cons\<close>)
    then show ?thesis
      using True by (subst scan_string.simps)
        (simp add: quote_text_def quote_char_def NUL_def escapable_def nth_append)
  next
    case False
    have "scan_string ((pre @ [c]) @ quote_text a @ CHR 0x22 # rest) True (length (pre @ [c])) k =
        Ret (length (pre @ [c]) + length (quote_text a), k + quotes a)"
      by (rule Cons.IH) (use Cons.prems in \<open>simp add: quotable_Cons\<close>)
    then show ?thesis
      using False Cons.prems by (subst scan_string.simps)
        (simp add: quote_text_def quote_char_def quotable_Cons nth_append)
  qed
qed

lemma copy_quoted:
  "quotable a \<Longrightarrow> length out + length a < sz \<Longrightarrow> e = length pre + length (quote_text a) \<Longrightarrow>
   copy_string (pre @ quote_text a @ CHR 0x22 # rest) (length pre) e sz out = Ret (out @ a)"
proof (induction a arbitrary: pre out)
  case Nil
  then show ?case by (subst copy_string.simps) (simp add: quote_text_def)
next
  case (Cons c a)
  show ?case
  proof (cases "c = CHR 0x22")
    case True
    have "copy_string ((pre @ [CHR 0x5C, c]) @ quote_text a @ CHR 0x22 # rest) (length (pre @ [CHR 0x5C, c])) e sz (out @ [c]) =
        Ret ((out @ [c]) @ a)"
      by (rule Cons.IH) (use Cons.prems True in \<open>simp_all add: quotable_Cons quote_text_def quote_char_def\<close>)
    then have "copy_string (pre @ quote_text (c # a) @ CHR 0x22 # rest) (Suc (length pre)) e sz out = Ret (out @ c # a)"
      using True Cons.prems by (subst copy_string.simps)
        (simp add: quote_text_def quote_char_def nth_append rd_def)
    then show ?thesis
      using True Cons.prems by (subst copy_string.simps)
        (simp add: quote_text_def quote_char_def nth_append rd_def escapable_def)
  next
    case False
    have "copy_string ((pre @ [c]) @ quote_text a @ CHR 0x22 # rest) (length (pre @ [c])) e sz (out @ [c]) =
        Ret ((out @ [c]) @ a)"
      by (rule Cons.IH) (use Cons.prems False in \<open>simp_all add: quotable_Cons quote_text_def quote_char_def\<close>)
    then show ?thesis
      using False Cons.prems by (subst copy_string.simps)
        (simp add: quote_text_def quote_char_def nth_append rd_def quotable_Cons)
  qed
qed

lemma skip_one_space:
  "\<not> isspace c \<Longrightarrow> skip_space (pre @ CHR '' '' # c # rest) (length pre) = Ret (Suc (length pre))"
  by (subst skip_space.simps, subst skip_space.simps) (simp add: isspace_def nth_append)

lemma skip_no_space: "\<not> isspace c \<Longrightarrow> skip_space (pre @ c # rest) (length pre) = Ret (length pre)"
  by (subst skip_space.simps) simp

lemma getString_quoted:
  assumes "quotable a" "skip_space (pre @ quote_arg a @ rest) i = Ret (length pre)"
    "i < length (pre @ quote_arg a @ rest)" "(pre @ quote_arg a @ rest) ! i \<noteq> NUL"
  shows "getString (pre @ quote_arg a @ rest) i = Ret (Some a, length pre + length (quote_arg a))"
proof -
  let ?buf = "pre @ quote_arg a @ rest" and ?pre = "pre @ [CHR 0x22]"
  have buf: "?buf = ?pre @ quote_text a @ CHR 0x22 # rest" by (simp add: quote_arg_def)
  have scan: "scan_string ?buf True (Suc (length pre)) 0 = Ret (length ?pre + length (quote_text a), quotes a)"
    using scan_quoted[OF assms(1), of ?pre rest 0] by (simp add: buf)
  have copy: "copy_string ?buf (Suc (length pre)) (length ?pre + length (quote_text a))
      (length ?pre + length (quote_text a) - Suc (length pre) - quotes a + 1) [] = Ret a"
    using copy_quoted[OF assms(1), of "[]" _ _ ?pre rest] by (simp add: buf length_quote_text)
  have "?buf ! length pre = CHR 0x22" by (simp add: quote_arg_def)
  with scan copy assms(2-4) show ?thesis
    by (simp add: getString_def rd_def NUL_def Let_def quote_arg_def)
qed

lemma line_args_quoted:
  "\<forall>a \<in> set argv. quotable a \<Longrightarrow>
   line_args (pre @ '' '' @ quote_line argv @ NUL # stale) (length pre) = Ret argv"
proof (induction argv arbitrary: pre)
  case Nil
  have "skip_space (pre @ '' '' @ NUL # stale) (length pre) = Ret (Suc (length pre))"
    by (simp add: skip_one_space isspace_def NUL_def)
  then show ?case
    by (subst line_args.simps) (simp add: quote_line_def getString_def rd_def NUL_def nth_append)
next
  case (Cons a argv)
  let ?buf = "pre @ '' '' @ quote_line (a # argv) @ NUL # stale" and ?pre = "pre @ '' ''"
  let ?rest = "'' '' @ quote_line argv @ NUL # stale"
  have buf: "?buf = ?pre @ quote_arg a @ ?rest" by (simp add: quote_line_def)
  have get: "getString (?pre @ quote_arg a @ ?rest) (length pre) = Ret (Some a, length ?pre + length (quote_arg a))"
  proof (rule getString_quoted)
    show "quotable a" using Cons.prems by simp
    show "skip_space (?pre @ quote_arg a @ ?rest) (length pre) = Ret (length ?pre)"
      by (simp add: quote_arg_def skip_one_space isspace_def)
    show "(?pre @ quote_arg a @ ?rest) ! length pre \<noteq> NUL" by (simp add: nth_append NUL_def)
  qed simp
  have "line_args ((?pre @ quote_arg a) @ '' '' @ quote_line argv @ NUL # stale) (length (?pre @ quote_arg a)) = Ret argv"
    by (rule Cons.IH) (use Cons.prems in simp)
  then show ?case using get unfolding buf by (subst line_args.simps) simp
qed

lemma quoted_args:
  assumes "\<forall>a \<in> set argv. quotable a"
  shows "line_args (quote_line argv @ NUL # stale) 0 = Ret argv"
proof (cases argv)
  case Nil
  then show ?thesis by (subst line_args.simps) (simp add: quote_line_def getString_def rd_def)
next
  case (Cons a rest)
  let ?r = "'' '' @ quote_line rest @ NUL # stale"
  have buf: "quote_line argv @ NUL # stale = [] @ quote_arg a @ ?r" by (simp add: Cons quote_line_def)
  have "getString ([] @ quote_arg a @ ?r) 0 = Ret (Some a, length ([]::string) + length (quote_arg a))"
    by (rule getString_quoted) (use assms in \<open>simp_all add: Cons quote_arg_def skip_no_space[of _ "[]", simplified] isspace_def NUL_def\<close>)
  moreover have "line_args (quote_arg a @ ?r) (length (quote_arg a)) = Ret rest"
    by (rule line_args_quoted) (use assms in \<open>simp add: Cons\<close>)
  ultimately have "line_args ([] @ quote_arg a @ ?r) 0 = Ret (a # rest)" by (subst line_args.simps) simp
  then show ?thesis unfolding buf by (simp only: Cons)
qed

text \<open>
  C39. Quoted arguments come back as they were. For any list of arguments without NUL and
  backslash, also empty ones and ones with spaces and quotes in them, the line that has them in
  quotes, with the quotes inside them escaped, is read as exactly that list, whatever the buffer
  holds behind the line.
\<close>

theorem line_args_roundtrip:
  assumes "\<forall>a \<in> set argv. quotable a"
  shows "line_args (quote_line argv @ NUL # stale) 0 = Ret argv"
  by (rule quoted_args[OF assms])

lemma line_args_roundtrip_witness:
  "line_args (quote_line [''d.add'', ''a b'', [CHR 0x22, CHR ''h'', CHR 0x22], ''''] @ NUL # ''x'') 0 =
   Ret [''d.add'', ''a b'', [CHR 0x22, CHR ''h'', CHR 0x22], '''']"
  by (rule line_args_roundtrip) (simp add: quotable_def NUL_def)

section \<open>A missing quote\<close>

lemma scan_unterminated:
  "quotable w \<Longrightarrow> CHR 0x22 \<notin> set w \<Longrightarrow>
   scan_string (pre @ w @ NUL # stale) True (length pre) k = Ret (length pre + length w, k)"
proof (induction w arbitrary: pre)
  case Nil
  then show ?case by (subst scan_string.simps) simp
next
  case (Cons c w)
  have "scan_string ((pre @ [c]) @ w @ NUL # stale) True (length (pre @ [c])) k = Ret (length (pre @ [c]) + length w, k)"
    by (rule Cons.IH) (use Cons.prems in \<open>simp_all add: quotable_Cons\<close>)
  then show ?case using Cons.prems by (subst scan_string.simps) (auto simp: quotable_Cons Let_def)
qed

lemma copy_plain:
  "quotable w \<Longrightarrow> length out + length w < sz \<Longrightarrow>
   copy_string (pre @ w @ rest) (length pre) (length pre + length w) sz out = Ret (out @ w)"
proof (induction w arbitrary: pre out)
  case Nil
  then show ?case by (subst copy_string.simps) simp
next
  case (Cons c w)
  have "copy_string ((pre @ [c]) @ w @ rest) (length (pre @ [c])) (length (pre @ [c]) + length w) sz (out @ [c]) =
      Ret ((out @ [c]) @ w)"
    by (rule Cons.IH) (use Cons.prems in \<open>simp_all add: quotable_Cons\<close>)
  then show ?case using Cons.prems by (subst copy_string.simps) (simp add: quotable_Cons rd_def nth_append)
qed

text \<open>
  A missing quote takes the reader off the line. When the last argument starts with a quote that
  is never closed, \<open>getString\<close> returns it and steps over the NUL, so that the arguments
  of the command go on with what lies in the buffer behind the line: left-overs of
  an earlier, longer line, or memory that nobody wrote.
\<close>

theorem getString_unterminated_quote:
  assumes "quotable w" "CHR 0x22 \<notin> set w"
  shows "getString (pre @ CHR 0x22 # w @ NUL # stale) (length pre) = Ret (Some w, length pre + length w + 2) \<and>
    line_args (CHR 0x22 # w @ NUL # stale) 0 =
      obind (line_args (CHR 0x22 # w @ NUL # stale) (length w + 2)) (\<lambda>argv. Ret (w # argv))"
proof -
  have get: "getString (pre @ CHR 0x22 # w @ NUL # stale) (length pre) = Ret (Some w, length pre + length w + 2)" for pre
  proof -
    let ?pre = "pre @ [CHR 0x22]"
    have "scan_string (?pre @ w @ NUL # stale) True (length ?pre) 0 = Ret (length ?pre + length w, 0)"
      by (rule scan_unterminated[OF assms])
    moreover have "copy_string (?pre @ w @ NUL # stale) (length ?pre) (length ?pre + length w) (length w + 1) [] = Ret w"
      using copy_plain[OF assms(1), of "[]" "length w + 1" ?pre "NUL # stale"] by simp
    moreover have "skip_space (pre @ CHR 0x22 # w @ NUL # stale) (length pre) = Ret (length pre)"
      by (rule skip_no_space) (simp add: isspace_def)
    ultimately show ?thesis by (simp add: getString_def rd_def NUL_def Let_def)
  qed
  show ?thesis
    using get[of pre] get[of "[]"] by (subst line_args.simps) simp
qed

lemma getString_unterminated_quote_witness:
  "getString ([] @ CHR 0x22 # ''ab'' @ NUL # ''secret'' @ [NUL]) (length ([]::string)) = Ret (Some ''ab'', 4) \<and>
   line_args (CHR 0x22 # ''ab'' @ NUL # ''secret'' @ [NUL]) 0 = Ret [''ab'', ''secret'']"
proof -
  have "line_args (CHR 0x22 # ''ab'' @ NUL # ''secret'' @ [NUL]) (length ''ab'' + 2) = Ret [''secret'']"
    by code_simp
  with getString_unterminated_quote[of "''ab''" "[]" "''secret'' @ [NUL]"] show ?thesis
    by (simp add: quotable_def NUL_def)
qed

text \<open>
  The answer to a prompt is trimmed at its end by the wrong index: with two spaces before two
  characters the whole answer is lost, and a trailing space after one leading space stays.
\<close>

lemma answer_lost:
  "copyStringFromSTDIN Some False (replicate 12 CHR ''x'') None (''  ab'' @ [CHR 0x0A]) = (Some [], [])"
  "copyStringFromSTDIN Some False (replicate 12 CHR ''x'') None ('' ab '' @ [CHR 0x0A]) = (Some ''ab '', [])"
  by code_simp+

end
