(* ===== verification/ScutilProps.thy ===== *)
theory ScutilProps
  imports ScutilCmd ScutilParseProps
begin

text \<open>
  What holds of the commands of \<open>scutil\<close>: the tables keep every handler inside its arguments, the
  tool's pointers stay valid and its value a property list, and a command is done at once or is the reading of a file.
\<close>

section \<open>The invariant of the tool\<close>

text \<open>With a session both lists of watched keys are alive, and the value is a property list.\<close>

definition scutil_inv :: "'w scutil \<Rightarrow> bool" where
  "scutil_inv s \<longleftrightarrow>
     (sc_store s \<longrightarrow> (\<exists>k. sc_watchedKeys s = Live k) \<and> (\<exists>p. sc_watchedPatterns s = Live p)) \<and>
     (\<forall>v. sc_value s = Some v \<longrightarrow> plist_ok v)"

definition fine :: "'w scutil \<Rightarrow> 'w scutil outcome \<Rightarrow> bool" where
  "fine s r \<longleftrightarrow> (\<exists>s'. r = Ret s' \<and> scutil_inv s' \<and> sc_nesting s' = sc_nesting s)"

lemma fine_Ret [simp]: "fine s (Ret s') \<longleftrightarrow> scutil_inv s' \<and> sc_nesting s' = sc_nesting s"
  by (simp add: fine_def)

lemma print_note_inv [simp]:
  "scutil_inv (print_note x s) \<longleftrightarrow> scutil_inv s" "sc_nesting (print_note x s) = sc_nesting s"
  "sc_store (print_note x s) = sc_store s" "sc_value (print_note x s) = sc_value s"
  "sc_watchedKeys (print_note x s) = sc_watchedKeys s" "sc_watchedPatterns (print_note x s) = sc_watchedPatterns s"
  by (simp_all add: print_note_def scutil_inv_def)

lemma print_keys_inv [simp]:
  "scutil_inv (print_keys f l s) \<longleftrightarrow> scutil_inv s" "sc_nesting (print_keys f l s) = sc_nesting s"
  by (simp_all add: print_keys_def scutil_inv_def)

lemma print_sorted_inv [simp]:
  "scutil_inv (print_sorted l s) \<longleftrightarrow> scutil_inv s" "sc_nesting (print_sorted l s) = sc_nesting s"
  by (simp_all add: print_sorted_def)

lemma inv_update [simp]:
  "scutil_inv (sc_world_update f s) \<longleftrightarrow> scutil_inv s" "scutil_inv (sc_out_update g s) \<longleftrightarrow> scutil_inv s"
  "scutil_inv (sc_notifyRl_update h s) \<longleftrightarrow> scutil_inv s" "scutil_inv (sc_notifyRls_update h s) \<longleftrightarrow> scutil_inv s"
  "scutil_inv (sc_watchers_update n s) \<longleftrightarrow> scutil_inv s" "scutil_inv (sc_nesting_update n s) \<longleftrightarrow> scutil_inv s"
  "scutil_inv (sc_termRequested_update h s) \<longleftrightarrow> scutil_inv s"
  by (simp_all add: scutil_inv_def)

lemma store_call_inv [simp]:
  "scutil_inv (store_call r s) \<longleftrightarrow> scutil_inv s" "sc_nesting (store_call r s) = sc_nesting s"
  by (auto simp: store_call_def Let_def split: prod.splits)

section \<open>What the store promises\<close>

text \<open>
  ASCII texts are UTF-8, there is no block of operations without a session, and the store holds property
  lists. Bytes that are not UTF-8 make no string: \<open>arg_ok\<close> says of an argument that it makes one, and that the number
  at its front, if there is one, fits an int.
\<close>

definition arg_ok :: "'w ds_ops \<Rightarrow> string \<Rightarrow> bool" where
  "arg_ok ops a \<longleftrightarrow> ds_utf8 ops a \<noteq> None \<and> sscanf_int a \<noteq> UB"

definition ascii :: "string \<Rightarrow> bool" where
  "ascii a \<longleftrightarrow> (\<forall>c \<in> set a. of_char c < (128 :: nat))"

locale ds_laws =
  fixes ops :: "'w ds_ops"
  assumes ascii_utf8: "ascii a \<Longrightarrow> ds_utf8 ops a \<noteq> None"
    and cache_session: "\<not> ds_cache_active ops False w"
    and copy_ok: "ds_copy ops b w k = (Some v, st) \<Longrightarrow> plist_ok v"
begin

text \<open>The first argument is there and makes a string.\<close>

definition decodable :: "string list \<Rightarrow> bool" where
  "decodable argv \<longleftrightarrow> argv \<noteq> [] \<and> ds_utf8 ops (hd argv) \<noteq> None"

lemma with_key_fine: "decodable argv \<Longrightarrow> (\<And>key. fine s (f key)) \<Longrightarrow> fine s (with_key ops argv f)"
  by (cases argv) (auto simp: decodable_def with_key_def split: option.splits)

lemma active_session: "ds_cache_active ops (sc_store s) w \<Longrightarrow> sc_store s"
  using cache_session[of w] by (cases "sc_store s") auto

lemma do_open_fine: "scutil_inv s \<Longrightarrow> fine s (do_open ops argv s)"
  by (cases "sc_store s")
    (auto simp: do_open_def release_mem_def scutil_inv_def print_note_def Let_def split: prod.splits)

lemma do_close_fine: "scutil_inv s \<Longrightarrow> fine s (do_close ops argv s)"
  by (cases "sc_store s") (auto simp: do_close_def release_mem_def scutil_inv_def Let_def)

lemma block_fine: "scutil_inv s \<Longrightarrow> fine s (block_begin ops s)" "scutil_inv s \<Longrightarrow> fine s (block_end ops s)"
  using active_session cache_session by (auto simp: block_begin_def block_end_def Let_def)

lemma do_block_fine: "scutil_inv s \<Longrightarrow> fine s (do_block ops argv s)"
  using block_fine by (auto simp: do_block_def split: list.splits block_arg.splits)

lemma list_pattern_decodable: "argv = [] \<or> decodable argv \<Longrightarrow> decodable [case argv of [] \<Rightarrow> ''.*'' | a # _ \<Rightarrow> a]"
  using ascii_utf8 [of "''.*''"] by (cases argv) (auto simp: decodable_def ascii_def)

lemma do_list_fine:
  assumes "scutil_inv s" "argv = [] \<or> decodable argv"
  shows "fine s (do_list ops argv s)"
  unfolding do_list_def Let_def
  by (rule with_key_fine [OF list_pattern_decodable [OF assms(2)]])
    (use assms(1) active_session cache_session in \<open>auto split: prod.splits option.splits list.splits\<close>)

lemma do_add_fine: "scutil_inv s \<Longrightarrow> decodable argv \<Longrightarrow> fine s (do_add ops argv s)"
  by (auto simp: do_add_def intro!: with_key_fine)

lemma do_get_fine: "scutil_inv s \<Longrightarrow> decodable argv \<Longrightarrow> fine s (do_get ops argv s)"
  using copy_ok by (auto simp: do_get_def scutil_inv_def intro!: with_key_fine split: prod.splits option.splits)

lemma value_calls_fine:
  assumes "scutil_inv s" "decodable argv"
  shows "fine s (do_set ops argv s)" "fine s (do_remove ops argv s)" "fine s (do_notify ops argv s)"
  using assms by (auto simp: do_set_def do_remove_def do_notify_def intro!: with_key_fine)

lemma show_pattern_fine:
  "scutil_inv s \<Longrightarrow> \<exists>r s'. show_pattern ops key s = Ret (r, s') \<and> scutil_inv s' \<and> sc_nesting s' = sc_nesting s"
  using active_session cache_session by (auto simp: show_pattern_def Let_def)

lemma do_show_fine: "scutil_inv s \<Longrightarrow> decodable argv \<Longrightarrow> fine s (do_show ops argv s)"
proof (unfold do_show_def, rule with_key_fine)
  fix key
  assume inv: "scutil_inv s"
  from show_pattern_fine[OF inv] obtain d st s' where "show_pattern ops key s = Ret ((d, st), s')"
    "scutil_inv s'" "sc_nesting s' = sc_nesting s" by force
  with inv show "fine s (obind (if length argv = 1 then Ret (ds_copy ops (sc_store s) (sc_world s) key, s)
      else obind (show_pattern ops key s) (\<lambda>((d, st), s1). Ret ((map_option CFDictionary d, st), s1)))
       (\<lambda>((v, st), s1). Ret (print_note (case v of None \<Rightarrow> Status st | Some x \<Rightarrow> Show_value x) s1)))"
    by (auto split: prod.splits)
qed

lemma watched_live: "scutil_inv s \<Longrightarrow> sc_store s \<Longrightarrow> \<exists>l. watched r s = Live l"
  by (auto simp: scutil_inv_def watched_def)

lemma set_notification_keys_fine:
  assumes "scutil_inv s" "sc_store s"
  shows "fine s (set_notification_keys ops (set_watched r l s))"
proof -
  let ?s = "set_watched r l s"
  have inv: "scutil_inv ?s" "sc_nesting ?s = sc_nesting s" and st: "sc_store ?s"
    using assms by (auto simp: set_watched_def scutil_inv_def)
  then obtain k p where "sc_watchedKeys ?s = Live k" "sc_watchedPatterns ?s = Live p"
    by (auto simp: scutil_inv_def)
  with inv show ?thesis by (simp add: set_notification_keys_def passed_def)
qed

lemma watch_list_fine:
  assumes inv: "scutil_inv s"
  shows "fine s (do_notify_list argv s)"
    and "decodable argv \<Longrightarrow> fine s (do_notify_add ops argv s)"
    and "decodable argv \<Longrightarrow> fine s (do_notify_remove ops argv s)"
proof -
  show "fine s (do_notify_list argv s)"
    using inv watched_live[OF inv, of "length argv = 1"] by (auto simp: do_notify_list_def Let_def)
  show "fine s (do_notify_add ops argv s)" if "decodable argv"
    using that inv watched_live[OF inv, of "length argv = 2"]
    by (auto simp: do_notify_add_def live_def Let_def intro!: with_key_fine set_notification_keys_fine)
  show "fine s (do_notify_remove ops argv s)" if "decodable argv"
    using that inv watched_live[OF inv, of "length argv = 2"]
    by (auto simp: do_notify_remove_def live_def Let_def intro!: with_key_fine set_notification_keys_fine)
qed

lemma notify_calls_inv [simp]:
  "scutil_inv (do_notify_changes ops s) \<longleftrightarrow> scutil_inv s" "sc_nesting (do_notify_changes ops s) = sc_nesting s"
  "scutil_inv (do_notify_wait ops s) \<longleftrightarrow> scutil_inv s" "sc_nesting (do_notify_wait ops s) = sc_nesting s"
  "scutil_inv (do_notify_cancel ops s) \<longleftrightarrow> scutil_inv s" "sc_nesting (do_notify_cancel ops s) = sc_nesting s"
  "scutil_inv (do_notify_watch s) \<longleftrightarrow> scutil_inv s" "sc_nesting (do_notify_watch s) = sc_nesting s"
  by (auto simp: do_notify_changes_def do_notify_wait_def do_notify_cancel_def do_notify_watch_def Let_def
      split: prod.splits option.splits)

lemma do_notify_file_fine:
  "scutil_inv s \<Longrightarrow> \<forall>a \<in> set argv. sscanf_int a \<noteq> UB \<Longrightarrow> fine s (do_notify_file ops argv s)"
proof -
  assume inv: "scutil_inv s" and num: "\<forall>a \<in> set argv. sscanf_int a \<noteq> UB"
  obtain id where id: "(case argv of [a] \<Rightarrow> sscanf_int a | _ \<Rightarrow> Ret (Some 0)) = Ret id"
    using num by (cases argv; cases "tl argv"; cases "sscanf_int (hd argv)") auto
  show ?thesis
    using inv by (auto simp: do_notify_file_def id Let_def split: option.splits prod.splits)
qed

section \<open>The value\<close>

lemma add_value_arg_ok:
  assumes "arg_ok ops a"
  shows "\<exists>r. add_value_arg (ds_utf8 ops) f a = Ret r \<and> r \<noteq> Inr None \<and> (\<forall>v. r = Inr (Some v) \<longrightarrow> plist_ok v)"
  using assms
  by (cases "sscanf_int a") (auto simp: arg_ok_def add_value_arg_def split: option.splits)

lemma add_array_args_ok:
  "\<forall>a \<in> set argv. arg_ok ops a \<Longrightarrow> list_all plist_ok acc \<Longrightarrow>
   \<exists>r. add_array_args (ds_utf8 ops) f argv acc = Ret r \<and> (\<forall>l. r = Inr l \<longrightarrow> list_all plist_ok l)"
proof (induction argv arbitrary: acc)
  case (Cons a argv)
  from Cons.prems(1) have "arg_ok ops a" by simp
  from add_value_arg_ok[OF this] obtain r where r: "add_value_arg (ds_utf8 ops) f a = Ret r" "r \<noteq> Inr None"
    "\<forall>v. r = Inr (Some v) \<longrightarrow> plist_ok v" by blast
  show ?case
  proof (cases r)
    case (Inr v)
    with r obtain w where "v = Some w" "plist_ok w" by (cases v) auto
    with Cons.IH[of "acc @ [w]"] Cons.prems r(1) Inr show ?thesis by simp
  qed (simp add: r(1))
qed simp

lemma flags_subset: "set (snd (add_parse_flags f argv)) \<subseteq> set argv"
  by (induction f argv rule: add_parse_flags.induct) auto

lemma store_value_fine:
  assumes "scutil_inv s" "\<exists>r. v = Ret r \<and> (\<forall>x. r = Inr x \<longrightarrow> plist_ok x)"
  shows "fine s (store_value v s)"
  using assms by (auto simp: store_value_def scutil_inv_def print_note_def split: sum.splits)

lemma dict_of_value_ok: "scutil_inv s \<Longrightarrow> dict_of_value (sc_value s) = Inr d \<Longrightarrow> plist_ok (CFDictionary d)"
  by (auto simp: dict_of_value_def scutil_inv_def cf_simps split: option.splits)

lemma dictSetKey_fine:
  assumes "scutil_inv s" "argv \<noteq> []" "\<forall>a \<in> set argv. arg_ok ops a"
  shows "fine s (store_value (do_dictSetKey (ds_utf8 ops) (sc_value s) argv) s)"
proof (rule store_value_fine[OF assms(1)], cases "dict_of_value (sc_value s)")
  case (Inr d)
  from assms(2) obtain a rest where argv: "argv = a # rest" by (cases argv) auto
  from assms(3) argv obtain key where key: "ds_utf8 ops a = Some key" by (auto simp: arg_ok_def)
  let ?f0 = "\<lparr>doArray = False, doBoolean = False, doData = False, doNumeric = False\<rparr>"
  obtain f vals where flags: "add_parse_flags ?f0 rest = (f, vals)" by (cases "add_parse_flags ?f0 rest")
  have vals: "\<forall>x \<in> set vals. arg_ok ops x"
    using flags_subset[of ?f0 rest] assms(3) by (auto simp: flags argv)
  have ok: "plist_ok (CFDictionary d)" using dict_of_value_ok[OF assms(1) Inr] .
  show "\<exists>r. do_dictSetKey (ds_utf8 ops) (sc_value s) argv = Ret r \<and> (\<forall>x. r = Inr x \<longrightarrow> plist_ok x)"
  proof (cases "length vals > 1 \<or> doArray f")
    case True
    from add_array_args_ok[OF vals, of "[]" f] obtain r where
      "add_array_args (ds_utf8 ops) f vals [] = Ret r" "\<forall>l. r = Inr l \<longrightarrow> list_all plist_ok l" by auto
    with True ok show ?thesis
      by (cases r) (auto simp: do_dictSetKey_def Inr argv key flags)
  next
    case False
    show ?thesis
    proof (cases vals)
      case Nil
      with False show ?thesis by (simp add: do_dictSetKey_def Inr argv key flags)
    next
      case (Cons x xs)
      then have "arg_ok ops x" using vals by simp
      from add_value_arg_ok[OF this, of f] obtain r where "add_value_arg (ds_utf8 ops) f x = Ret r"
        "r \<noteq> Inr None" "\<forall>v. r = Inr (Some v) \<longrightarrow> plist_ok v" by blast
      with False ok Cons show ?thesis
        by (cases r) (auto simp: do_dictSetKey_def Inr argv key flags split: option.splits)
    qed
  qed
qed (simp add: do_dictSetKey_def)

lemma dictRemoveKey_fine:
  assumes "scutil_inv s" "argv \<noteq> []" "\<forall>a \<in> set argv. arg_ok ops a"
  shows "fine s (store_value (do_dictRemoveKey (ds_utf8 ops) (sc_value s) argv) s)"
proof (rule store_value_fine[OF assms(1)], cases "dict_of_value (sc_value s)")
  case (Inr d)
  from assms(2) obtain a rest where argv: "argv = a # rest" by (cases argv) auto
  from assms(3) argv obtain key where "ds_utf8 ops a = Some key" by (auto simp: arg_ok_def)
  with dict_of_value_ok[OF assms(1) Inr]
  show "\<exists>r. do_dictRemoveKey (ds_utf8 ops) (sc_value s) argv = Ret r \<and> (\<forall>x. r = Inr x \<longrightarrow> plist_ok x)"
    by (auto simp: do_dictRemoveKey_def Inr argv)
qed (simp add: do_dictRemoveKey_def)

section \<open>Handlers and tables\<close>

lemma do_snapshot_fine:
  "scutil_inv s \<Longrightarrow> fine s (Ret (snd (do_snapshot ops create xml euid capture argv s)))"
  by (auto simp: do_snapshot_def split: list.splits option.splits prod.splits bool.splits)

text \<open>The first argument is there whenever the handler uses it.\<close>

lemma run_handler_fine:
  assumes "scutil_inv s" "tc_ops cfg = ops" "\<forall>a \<in> set argv. arg_ok ops a"
    and "argv = [] \<longrightarrow> h \<notin> {Do_dictSetKey, Do_dictRemoveKey, Do_add, Do_get, Do_set, Do_show, Do_remove, Do_notify,
      Do_notify_add, Do_notify_remove}"
    and "h \<noteq> Do_readFile" "\<And>x. h \<noteq> Net x" "\<And>x. h \<noteq> Prefs x"
  shows "fine s (run_handler cfg h argv s)"
proof -
  have first: "argv = [] \<or> decodable argv"
    using assms(3) by (cases argv) (auto simp: decodable_def arg_ok_def)
  have num: "\<forall>a \<in> set argv. sscanf_int a \<noteq> UB" using assms(3) by (simp add: arg_ok_def)
  show ?thesis
  proof (cases h)
    case Do_dictInit
    with assms show ?thesis by (simp add: run_handler_def do_dictInit_def scutil_inv_def)
  next
    case Do_help
    with assms show ?thesis by (simp add: run_handler_def do_help_def)
  next
    case Do_dictShow
    with assms show ?thesis by (simp add: run_handler_def do_dictShow_def)
  next
    case Do_list
    with assms first show ?thesis by (simp add: run_handler_def do_list_fine)
  next
    case Do_snapshot
    with assms do_snapshot_fine show ?thesis by (simp add: run_handler_def)
  next
    case Do_notify_file
    with assms num show ?thesis by (simp add: run_handler_def do_notify_file_fine)
  qed (use assms first in \<open>auto simp: run_handler_def do_open_fine do_close_fine do_block_fine do_add_fine
    do_get_fine value_calls_fine do_show_fine watch_list_fine dictSetKey_fine dictRemoveKey_fine\<close>)
qed

end

text \<open>
  An argument that is not UTF-8 makes no key. The handlers go on with the NULL that they get for it.
\<close>

lemma undecodable_key:
  assumes "ds_utf8 ops a = None"
  shows "do_get ops [a] s = UB" "do_add ops [a] s = UB" "do_set ops [a] s = UB" "do_remove ops [a] s = UB"
    "do_notify ops [a] s = UB" "do_show ops [a] s = UB" "do_list ops [a] s = UB"
  using assms
  by (simp_all add: do_get_def do_add_def do_set_def do_remove_def do_notify_def do_show_def do_list_def
      with_key_def)

lemma find_command_in: "find_command p table cmd = Some c \<Longrightarrow> c \<in> set table"
  by (induction table) (auto split: if_splits)

lemma store_table_args:
  "c \<in> set commands_store \<Longrightarrow>
   (ci_func c \<in> {Do_dictSetKey, Do_dictRemoveKey, Do_add, Do_get, Do_set, Do_show, Do_remove, Do_notify,
      Do_notify_add, Do_notify_remove, Do_readFile} \<longrightarrow> 0 < ci_minArgs c) \<and>
   (\<forall>x. ci_func c \<noteq> Net x) \<and> (\<forall>x. ci_func c \<noteq> Prefs x)"
  by (auto simp: commands_store_def command_def)

lemma find_command_matches: "find_command p table cmd = Some c \<Longrightarrow> strcaseeq cmd (ci_cmd c)"
  by (induction table) (auto split: if_splits)

lemma store_table_read: "c \<in> set commands_store \<Longrightarrow> ci_func c = Do_readFile \<Longrightarrow>
   ci_cmd c = ''f.read'' \<and> ci_minArgs c = 1 \<and> ci_maxArgs c = 1"
  by (auto simp: commands_store_def command_def)

text \<open>The tool when a file of commands is opened: one level deeper.\<close>

definition file_opened :: "'w scutil \<Rightarrow> 'w scutil" where
  "file_opened s = (print_note (Msg ''f.read: reading file'') s)\<lparr>sc_nesting := Suc (sc_nesting s)\<rparr>"

lemma file_opened_inv [simp]: "scutil_inv (file_opened s) \<longleftrightarrow> scutil_inv s"
  by (simp add: file_opened_def)

text \<open>A command is done without the loop, or is the reading of a file.\<close>

lemma do_command_cases:
  assumes "ds_laws (tc_ops cfg)" "tc_table cfg = commands_store"
    and "scutil_inv s" "\<forall>a \<in> set args. arg_ok (tc_ops cfg) a"
  shows "(\<exists>r. (\<forall>loop. do_command cfg loop (cmd # args) s = Some r) \<and> fine s r) \<or>
    (strcaseeq cmd ''f.read'' \<and> (\<exists>x str. args = [x] \<and> tc_fopen cfg x = Some str))"
proof (cases "find_command (sc_enablePrivateAPI s) commands_store cmd")
  case None
  then show ?thesis using assms by (simp add: do_command_def)
next
  case found: (Some c)
  note in_table = store_table_args[OF find_command_in[OF found]]
  show ?thesis
  proof (cases "ci_minArgs c \<le> length args \<and> length args \<le> ci_maxArgs c")
    case False
    let ?note = "if length args < ci_minArgs c then '': too few arguments'' else '': too many arguments''"
    have "\<forall>loop. do_command cfg loop (cmd # args) s = Some (Ret (print_note (Msg (cmd @ ?note)) s))"
      using False assms(2) found by (auto simp: do_command_def)
    with assms(3) show ?thesis by simp
  next
    case True
    show ?thesis
    proof (cases "ci_func c = Do_readFile")
      case reading: True
      with store_table_read[OF find_command_in[OF found]] True obtain x where args: "args = [x]"
        by (cases args; cases "tl args") auto
      have name: "strcaseeq cmd ''f.read''"
        using find_command_matches[OF found] store_table_read[OF find_command_in[OF found] reading] by simp
      show ?thesis
      proof (cases "tc_fopen cfg x")
        case None
        then have "\<forall>loop. do_command cfg loop (cmd # args) s = Some (Ret (print_note (Msg ''f.read: could not open file'') s))"
          using found True reading assms(2) by (simp add: do_command_def do_readFile_def args)
        with assms(3) show ?thesis by simp
      qed (use name args in blast)
    next
      case other: False
      have "fine s (run_handler cfg (ci_func c) args s)"
      proof (rule ds_laws.run_handler_fine[OF assms(1,3) refl assms(4)])
        show "args = [] \<longrightarrow> ci_func c \<notin> {Do_dictSetKey, Do_dictRemoveKey, Do_add, Do_get, Do_set, Do_show,
            Do_remove, Do_notify, Do_notify_add, Do_notify_remove}"
          using in_table True by fastforce
      qed (use other in_table in simp_all)
      then show ?thesis
        using found True other assms(2) by (simp add: do_command_def)
    qed
  qed
qed

lemma find_readFile:
  "strcaseeq cmd ''f.read'' \<Longrightarrow> find_command p commands_store cmd = Some (command ''f.read'' 1 1 Do_readFile 0 0)"
  by (simp add: commands_store_def command_def strcaseeq_def lower_def)

lemma do_command_reads:
  assumes "tc_table cfg = commands_store" "strcaseeq cmd ''f.read''" "tc_fopen cfg x = Some str"
  shows "do_command cfg loop [cmd, x] s = loop \<lparr>in_fp = str, in_el = None, in_h = None\<rparr> (file_opened s)"
  using assms(1,3) find_readFile[OF assms(2)]
  by (simp add: do_command_def do_readFile_def file_opened_def command_def)

end
