(* ===== verification/ScutilScript.thy ===== *)
theory ScutilScript
  imports ScutilProps
begin

text \<open>
  Whole runs of \<open>scutil\<close>: a script of quoted commands is run in order and to its end, and what
  goes wrong between commands.
\<close>

section \<open>A store in memory\<close>

text \<open>A dynamic store without blocks and notifications: the values by key, for ASCII texts only.\<close>

type_synonym mem_store = "(string \<times> plist) list"

definition mem_set :: "bool \<Rightarrow> mem_store \<Rightarrow> string \<Rightarrow> plist option \<Rightarrow> (bool \<times> sc_status) \<times> mem_store" where
  "mem_set b w k v =
     (case v of None \<Rightarrow> ((False, kSCStatusInvalidArgument), w)
      | Some x \<Rightarrow> ((True, kSCStatusOK), (k, x) # filter (\<lambda>(k', _). k' \<noteq> k) w))"

definition mem_copy :: "mem_store \<Rightarrow> string \<Rightarrow> plist option \<times> sc_status" where
  "mem_copy w k =
     (case map_of w k of
        None \<Rightarrow> (None, kSCStatusNoKey)
      | Some v \<Rightarrow> if plist_ok v then (Some v, kSCStatusOK) else (None, kSCStatusFailed))"

definition mem_ops :: "mem_store ds_ops" where
  "mem_ops = \<lparr>ds_utf8 = \<lambda>a. if ascii a then Some a else None, ds_create = \<lambda>w _. ((True, kSCStatusOK), w), ds_release = id,
     ds_cache_active = \<lambda>_ _. False, ds_cache_open = \<lambda>_. id, ds_cache_commit = \<lambda>_. id, ds_cache_close = \<lambda>_. id,
     ds_cached_set = \<lambda>_. None, ds_cached_removals = \<lambda>_. None, ds_cached_notifys = \<lambda>_. None,
     ds_key_list = \<lambda>_ w _. (Some (map fst w), kSCStatusOK), ds_copy = \<lambda>_. mem_copy,
     ds_copy_multiple = \<lambda>_ w _. (Some (fmap_of_list w), kSCStatusOK),
     ds_add = \<lambda>b w k v. (if map_of w k = None then mem_set b w k v else ((False, kSCStatusKeyExists), w)),
     ds_add_temporary = mem_set, ds_set = mem_set,
     ds_remove = \<lambda>_ w k. ((map_of w k \<noteq> None, kSCStatusNoKey), filter (\<lambda>(k', _). k' \<noteq> k) w),
     ds_notify = \<lambda>_ w _. ((True, kSCStatusOK), w), ds_set_keys = \<lambda>_ w _ _. ((True, kSCStatusOK), w),
     ds_notified = \<lambda>_ w. ((Some [], kSCStatusOK), w), ds_notify_wait = \<lambda>_ w. ((True, kSCStatusOK), w),
     ds_notify_cancel = \<lambda>_ w. ((True, kSCStatusOK), w), ds_set_queue = \<lambda>_ w _. ((True, kSCStatusOK), w),
     ds_source = \<lambda>_ w. ((True, kSCStatusOK), w), ds_notify_fd = \<lambda>_ w _. ((None, kSCStatusFailed), w)\<rparr>"

interpretation mem: ds_laws mem_ops
  by unfold_locales (auto simp: mem_ops_def mem_copy_def split: option.splits if_splits)

definition mem_cfg :: "mem_store tool_cfg" where
  "mem_cfg = \<lparr>tc_ops = mem_ops, tc_table = commands_store, tc_other = \<lambda>_ _ s. Ret s, tc_fopen = \<lambda>_. None,
     tc_stack = \<lambda>_. replicate 2048 NUL, tc_create = \<lambda>_. True, tc_xml = \<lambda>_. Some ''<dict/>'', tc_euid = 501,
     tc_capture = \<lambda>_. (True, kSCStatusOK)\<rparr>"

definition tool_start :: "'w \<Rightarrow> 'w scutil" where
  "tool_start w = \<lparr>sc_value = do_dictInit, sc_store = True, sc_watchedKeys = Live [], sc_watchedPatterns = Live [],
     sc_notifyRl = False, sc_notifyRls = False, sc_doDispatch = False, sc_watchers = 0, sc_nesting = 0,
     sc_termRequested = False, sc_enablePrivateAPI = False, sc_out = [], sc_world = w\<rparr>"

lemma tool_start_inv: "scutil_inv (tool_start w)"
  by (simp add: tool_start_def scutil_inv_def do_dictInit_def)

section \<open>Lines of a script\<close>

definition newline :: char where "newline = CHR 0x0A"

definition script_line :: "string list \<Rightarrow> string" where
  "script_line argv = quote_line argv @ [newline]"

text \<open>The line fits the buffer, and its arguments make strings.\<close>

definition line_fits :: "'w ds_ops \<Rightarrow> string list \<Rightarrow> bool" where
  "line_fits ops argv \<longleftrightarrow>
     (\<forall>a \<in> set argv. quotable a \<and> newline \<notin> set a) \<and> (\<forall>a \<in> set (tl argv). arg_ok ops a) \<and>
     length (script_line argv) < LINE_LENGTH"

lemma set_quote_line: "set (quote_line argv) \<subseteq> {CHR 0x22, CHR 0x5C, CHR '' ''} \<union> (\<Union>a \<in> set argv. set a)"
  by (auto simp: quote_line_def quote_arg_def quote_text_def quote_char_def split: if_splits)

lemma line_chars:
  assumes "line_fits ops argv"
  shows "newline \<notin> set (quote_line argv)" "NUL \<notin> set (quote_line argv)"
  using assms set_quote_line[of argv] by (auto simp: line_fits_def quotable_def newline_def NUL_def)

lemma fgets_take_line:
  "newline \<notin> set l \<Longrightarrow> length l < n \<Longrightarrow> fgets_take n (l @ newline # tl_in) = (l @ [newline], tl_in)"
proof (induction l arbitrary: n)
  case Nil
  then show ?case by (cases n) (simp_all add: newline_def)
next
  case (Cons c l)
  then show ?case by (cases n) (auto simp: newline_def)
qed

lemma strlen_append: "NUL \<notin> set l \<Longrightarrow> strlen (l @ NUL # r) = length l"
  by (induction l) auto

lemma getLine_script:
  assumes "newline \<notin> set l" "NUL \<notin> set l" "Suc (length l) < n" "length buf = n"
  shows "\<exists>stale. getLine buf n \<lparr>in_fp = l @ newline # tl_in, in_el = None, in_h = None\<rparr> =
    Ret (Some (l @ NUL # stale, \<lparr>in_fp = tl_in, in_el = None, in_h = None\<rparr>))"
proof -
  have f: "fgets buf n (l @ newline # tl_in) = Some ((l @ [newline]) @ NUL # drop (length l + 2) buf, tl_in)"
    using assms by (simp add: fgets_def fgets_take_line overwrite_def)
  have len: "strlen ((l @ [newline]) @ NUL # drop (length l + 2) buf) = length l + 1"
    using assms(2) by (subst strlen_append) (auto simp: newline_def NUL_def)
  show ?thesis
    using f len
    by (intro exI[of _ "NUL # drop (length l + 2) buf"])
      (simp add: getLine_def getLine_read_def Let_def newline_def nth_append list_update_append)
qed

text \<open>A line that was read from a file of commands is shown again.\<close>

definition echoed :: "string list \<Rightarrow> 'w scutil \<Rightarrow> 'w scutil" where
  "echoed argv s =
     (if sc_nesting s > 0 then print_note (Msg (decimal (sc_nesting s) @ ''> '' @ quote_line argv)) s else s)"

lemma echoed_inv [simp]: "scutil_inv (echoed argv s) \<longleftrightarrow> scutil_inv s"
  by (simp add: echoed_def)

definition script_input :: "string list list \<Rightarrow> input" where
  "script_input script = \<lparr>in_fp = concat (map script_line script), in_el = None, in_h = None\<rparr>"

lemma read_command_script:
  assumes "line_fits ops argv" "length (tc_stack cfg s) = LINE_LENGTH"
  shows "read_command cfg (script_input (argv # script)) s = Ret (Some (argv, script_input script, echoed argv s))"
proof -
  let ?l = "quote_line argv" and ?in = "concat (map script_line script)"
  have "Suc (length ?l) < LINE_LENGTH" using assms(1) by (simp add: line_fits_def script_line_def)
  from getLine_script[OF line_chars[OF assms(1)] this assms(2), of ?in] obtain stale where
    "getLine (tc_stack cfg s) LINE_LENGTH (script_input (argv # script)) =
     Ret (Some (?l @ NUL # stale, script_input script))"
    by (auto simp: script_line_def script_input_def)
  moreover have "line_args (?l @ NUL # stale) 0 = Ret argv"
    using assms(1) by (intro quoted_args) (simp add: line_fits_def)
  ultimately show ?thesis
    using line_chars(2)[OF assms(1)] by (simp add: read_command_def Let_def strlen_append echoed_def)
qed

lemma read_command_end: "read_command cfg (script_input []) s = Ret None"
  by (simp add: script_input_def read_command_def getLine_def getLine_read_def fgets_def)

section \<open>Files of commands\<close>

text \<open>
  \<open>files\<close> are the scripts in the files. A script is nested no deeper than \<open>d\<close> when the files that it reads
  are nested no deeper than \<open>d - 1\<close>.
\<close>

type_synonym script_files = "string \<Rightarrow> string list list option"

definition reads_file :: "script_files \<Rightarrow> string list \<Rightarrow> string list list option" where
  "reads_file files argv =
     (case argv of [cmd, x] \<Rightarrow> if strcaseeq cmd ''f.read'' then files x else None | _ \<Rightarrow> None)"

fun nested :: "nat \<Rightarrow> script_files \<Rightarrow> string list list \<Rightarrow> bool" where
  "nested 0 files script \<longleftrightarrow> (\<forall>argv \<in> set script. reads_file files argv = None)"
| "nested (Suc d) files script \<longleftrightarrow>
     (\<forall>argv \<in> set script. case reads_file files argv of None \<Rightarrow> True | Some body \<Rightarrow> nested d files body)"

text \<open>The store keeps its laws, the table is the store's, and the files hold quoted lines that fit.\<close>

definition files_written :: "'w tool_cfg \<Rightarrow> script_files \<Rightarrow> bool" where
  "files_written cfg files \<longleftrightarrow> (\<forall>x. tc_fopen cfg x = map_option (\<lambda>script. in_fp (script_input script)) (files x))"

definition script_fits :: "'w tool_cfg \<Rightarrow> script_files \<Rightarrow> bool" where
  "script_fits cfg files \<longleftrightarrow>
     ds_laws (tc_ops cfg) \<and> tc_table cfg = commands_store \<and> (\<forall>s. length (tc_stack cfg s) = LINE_LENGTH) \<and>
     files_written cfg files \<and> (\<forall>x script. files x = Some script \<longrightarrow> (\<forall>argv \<in> set script. line_fits (tc_ops cfg) argv))"

lemma file_fits:
  "script_fits cfg files \<Longrightarrow> reads_file files argv = Some body \<Longrightarrow> \<forall>argv \<in> set body. line_fits (tc_ops cfg) argv"
  by (auto simp: script_fits_def reads_file_def split: list.splits if_splits)

lemma script_command:
  assumes "script_fits cfg files" "\<forall>a \<in> set (tl argv). arg_ok (tc_ops cfg) a" "scutil_inv s" "argv \<noteq> []"
  shows "case reads_file files argv of
      None \<Rightarrow> \<exists>s2. (\<forall>loop. do_command cfg loop argv s = Some (Ret s2)) \<and> scutil_inv s2
    | Some body \<Rightarrow> \<forall>loop. do_command cfg loop argv s = loop (script_input body) (file_opened s)"
proof -
  obtain cmd args where argv: "argv = cmd # args" using assms(4) by (cases argv) auto
  have laws: "ds_laws (tc_ops cfg)" "tc_table cfg = commands_store" and files: "files_written cfg files"
    using assms(1) by (simp_all add: script_fits_def)
  show ?thesis
  proof (cases "reads_file files argv")
    case (Some body)
    then obtain x where x: "args = [x]" "strcaseeq cmd ''f.read''" "files x = Some body"
      by (auto simp: reads_file_def argv split: list.splits if_splits)
    then have "tc_fopen cfg x = Some (in_fp (script_input body))" using files by (simp add: files_written_def)
    from do_command_reads[OF laws(2) x(2) this] show ?thesis
      by (simp add: Some[unfolded argv x(1)] argv x(1) script_input_def)
  next
    case None
    have "\<not> (strcaseeq cmd ''f.read'' \<and> (\<exists>x str. args = [x] \<and> tc_fopen cfg x = Some str))"
      using None files by (auto simp: reads_file_def argv files_written_def)
    with do_command_cases[OF laws assms(3), of args cmd] assms(2) show ?thesis
      by (auto simp: None[unfolded argv] argv fine_def)
  qed
qed

text \<open>With quoted lines in every file the loop never goes wrong, whatever the files read.\<close>

lemma process_lines_safe:
  assumes "script_fits cfg files"
  shows "\<forall>argv \<in> set script. line_fits (tc_ops cfg) argv \<Longrightarrow> scutil_inv s \<Longrightarrow>
    process_lines fuel cfg (script_input script) s = Some r \<Longrightarrow> \<exists>s'. r = Ret s' \<and> scutil_inv s'"
proof (induction fuel arbitrary: script s r)
  case (Suc fuel)
  show ?case
  proof (cases script)
    case Nil
    with Suc.prems show ?thesis by (auto simp: read_command_end)
  next
    case (Cons argv script')
    have fits: "line_fits (tc_ops cfg) argv" and rest: "\<forall>argv \<in> set script'. line_fits (tc_ops cfg) argv"
      using Suc.prems(1) by (simp_all add: Cons)
    have rd: "read_command cfg (script_input script) s = Ret (Some (argv, script_input script', echoed argv s))"
      unfolding Cons using assms by (intro read_command_script[OF fits]) (simp add: script_fits_def)
    let ?s1 = "echoed argv s" and ?loop = "process_lines fuel cfg"
    have inv: "scutil_inv ?s1" using Suc.prems(2) by simp
    note run = Suc.prems(3)[simplified rd process_lines.simps outcome.case option.case prod.case]
    show ?thesis
    proof (cases "argv = []")
      case True
      with run Suc.IH[OF rest inv] show ?thesis by simp
    next
      case False
      let ?one = "if take 1 (hd argv) = ''#'' then Some (Ret ?s1) else do_command cfg ?loop argv ?s1"
      have one: "\<exists>s2. q = Ret s2 \<and> scutil_inv s2" if "?one = Some q" for q
      proof (cases "reads_file files argv")
        case None
        with script_command[OF assms _ inv False] fits inv that show ?thesis
          by (auto simp: line_fits_def split: if_splits)
      next
        case (Some body)
        with script_command[OF assms _ inv False] fits that inv
          Suc.IH[OF file_fits[OF assms Some], of "file_opened ?s1" q] show ?thesis
          by (auto simp: line_fits_def split: if_splits)
      qed
      then show ?thesis
        using run False Suc.IH[OF rest] by (auto split: option.splits outcome.splits if_splits)
    qed
  qed
qed simp

text \<open>
  C11. A command of the dynamic store does not go wrong. In a state where the session's lists are alive and
  the value is a property list, and for arguments that are UTF-8 and whose numbers fit an int, \<open>do_command\<close> with
  the store's table never uses an argument that is not there, a released list or a NULL session, and leaves such a
  state. It returns, unless it is an \<open>f.read\<close> of a file that has not been run to its end after \<open>fuel\<close> rounds. The
  files of commands hold quoted commands on lines that fit the buffer, and may read further files; the store is any that
  keeps its laws.
\<close>

theorem do_command_safe:
  assumes "script_fits cfg files" "\<forall>a \<in> set args. arg_ok (tc_ops cfg) a" "scutil_inv s"
  shows "case do_command cfg (process_lines fuel cfg) (cmd # args) s of
      None \<Rightarrow> strcaseeq cmd ''f.read'' \<and> (\<exists>x. args = [x] \<and> files x \<noteq> None)
    | Some r \<Rightarrow> \<exists>s'. r = Ret s' \<and> scutil_inv s'"
proof (cases "reads_file files (cmd # args)")
  case None
  with script_command[OF assms(1) _ assms(3), of "cmd # args"] assms(2) show ?thesis by fastforce
next
  case (Some body)
  then have "do_command cfg (process_lines fuel cfg) (cmd # args) s = process_lines fuel cfg (script_input body) (file_opened s)"
    using script_command[OF assms(1) _ assms(3), of "cmd # args"] assms(2) by simp
  with Some process_lines_safe[OF assms(1) file_fits[OF assms(1) Some], of "file_opened s" fuel] assms(3) show ?thesis
    by (auto simp: reads_file_def split: option.splits list.splits if_splits)
qed

definition sample_files :: script_files where
  "sample_files x =
     (if x = ''init'' then Some [[''d.add'', ''Name'', ''a b''], [''f.read'', ''store'']]
      else if x = ''store'' then Some [[''# the name''], [''set'', ''Setup:/X''], []] else None)"

definition sample_cfg :: "mem_store tool_cfg" where
  "sample_cfg = mem_cfg\<lparr>tc_fopen := \<lambda>x. map_option (\<lambda>script. in_fp (script_input script)) (sample_files x)\<rparr>"

lemma sample_fits: "script_fits sample_cfg sample_files"
proof -
  have "\<forall>argv \<in> set [[''d.add'', ''Name'', ''a b''], [''f.read'', ''store''], [''# the name''], [''set'', ''Setup:/X''], []].
    line_fits mem_ops argv"
    by code_simp
  then show ?thesis
    using mem.ds_laws_axioms
    by (auto simp: script_fits_def sample_cfg_def mem_cfg_def files_written_def sample_files_def LINE_LENGTH_def split: if_splits)
qed

lemma do_command_safe_witness:
  "case do_command sample_cfg (process_lines 9 sample_cfg) (''f.read'' # [''init'']) (tool_start []) of
      None \<Rightarrow> strcaseeq ''f.read'' ''f.read'' \<and> (\<exists>x. [''init''] = [x] \<and> sample_files x \<noteq> None)
    | Some r \<Rightarrow> \<exists>s'. r = Ret s' \<and> scutil_inv s'"
proof (rule do_command_safe[OF sample_fits _ tool_start_inv])
  have "arg_ok mem_ops ''init''" by code_simp
  then show "\<forall>a \<in> set [''init'']. arg_ok (tc_ops sample_cfg) a" by (simp add: sample_cfg_def mem_cfg_def)
qed

section \<open>Running a script\<close>

text \<open>
  The lines one after the other, up to the first command that asks to quit. A line without arguments and a comment do
  nothing; a file of commands is run where it is read, one level deeper.
\<close>

fun run_script :: "nat \<Rightarrow> 'w tool_cfg \<Rightarrow> script_files \<Rightarrow> string list list \<Rightarrow> 'w scutil \<Rightarrow> 'w scutil option" where
  "run_script d cfg files [] s = Some s"
| "run_script d cfg files (argv # script) s =
     (if argv = [] then run_script d cfg files script (echoed argv s)
      else (case (if take 1 (hd argv) = ''#'' then Some (echoed argv s)
                  else (case reads_file files argv of
                          None \<Rightarrow> (case do_command cfg (\<lambda>_ _. None) argv (echoed argv s) of
                                     Some (Ret s2) \<Rightarrow> Some s2 | _ \<Rightarrow> None)
                        | Some body \<Rightarrow>
                            (case d of 0 \<Rightarrow> None
                             | Suc d' \<Rightarrow> run_script d' cfg files body (file_opened (echoed argv s))))) of
              None \<Rightarrow> None
            | Some s2 \<Rightarrow> if sc_termRequested s2 then Some s2 else run_script d cfg files script s2))"

lemma process_script:
  assumes "script_fits cfg files" "\<And>x body. files x = Some body \<Longrightarrow> length body \<le> L"
  shows "\<forall>argv \<in> set script. line_fits (tc_ops cfg) argv \<Longrightarrow> scutil_inv s \<Longrightarrow> nested d files script \<Longrightarrow>
    length script + d * Suc L < fuel \<Longrightarrow>
    \<exists>s'. process_lines fuel cfg (script_input script) s = Some (Ret s') \<and> run_script d cfg files script s = Some s' \<and>
      scutil_inv s'"
proof (induction fuel arbitrary: d script s)
  case (Suc fuel)
  show ?case
  proof (cases script)
    case Nil
    with Suc.prems show ?thesis by (simp add: read_command_end)
  next
    case (Cons argv script')
    have fits: "line_fits (tc_ops cfg) argv" and rest: "\<forall>argv \<in> set script'. line_fits (tc_ops cfg) argv"
      using Suc.prems(1) by (simp_all add: Cons)
    have rd: "read_command cfg (script_input script) s = Ret (Some (argv, script_input script', echoed argv s))"
      unfolding Cons using assms(1) by (intro read_command_script[OF fits]) (simp add: script_fits_def)
    let ?s1 = "echoed argv s"
    have inv: "scutil_inv ?s1" using Suc.prems(2) by simp
    have nest: "nested d files script'" using Suc.prems(3) by (cases d) (auto simp: Cons)
    have less: "length script' + d * Suc L < fuel" using Suc.prems(4) by (simp add: Cons)
    note IH = Suc.IH[OF rest _ nest less]
    show ?thesis
    proof (cases "argv = [] \<or> take 1 (hd argv) = ''#''")
      case True
      then show ?thesis
        using IH[OF inv] inv by (auto simp: rd) (auto simp: Cons)
    next
      case False
      have args: "\<forall>a \<in> set (tl argv). arg_ok (tc_ops cfg) a" "argv \<noteq> []" using fits False by (auto simp: line_fits_def)
      note cmd = script_command[OF assms(1) args(1) inv args(2)]
      show ?thesis
      proof (cases "reads_file files argv")
        case None
        with cmd obtain s2 where s2: "\<And>loop. do_command cfg loop argv ?s1 = Some (Ret s2)" "scutil_inv s2" by auto
        with None False IH[OF s2(2)] show ?thesis by (auto simp: rd) (auto simp: Cons)
      next
        case (Some body)
        with Suc.prems(3) obtain d' where d: "d = Suc d'" "nested d' files body"
          by (cases d) (auto simp: Cons split: option.splits)
        from Some obtain x where "files x = Some body" by (auto simp: reads_file_def split: list.splits if_splits)
        from assms(2)[OF this] have "length body + d' * Suc L < fuel" using less by (simp add: d)
        from Suc.IH[OF file_fits[OF assms(1) Some] _ d(2) this, of "file_opened ?s1"] inv obtain s2 where
          s2: "process_lines fuel cfg (script_input body) (file_opened ?s1) = Some (Ret s2)"
            "run_script d' cfg files body (file_opened ?s1) = Some s2" "scutil_inv s2" by auto
        with cmd Some False IH[OF s2(3)] d(1) show ?thesis by (auto simp: rd) (auto simp: Cons)
      qed
    qed
  qed
qed simp

text \<open>
  C8. The command loop runs a script to its end. The script and the files of commands that it reads hold commands with
  quoted arguments, UTF-8 and with numbers that fit an int, each on a line that fits the buffer; empty lines, comments
  and \<open>f.read\<close> are among them. When the files are nested no deeper than \<open>d\<close> and have at most \<open>L\<close> lines, and more
  rounds are allowed than the script has lines and \<open>L + 1\<close> for each level, the loop comes back. It has
  run exactly these commands in their order, those of a file where it is read and echoed with its level, up to the
  first that asks to quit, and left the tool in a valid state. The store is any that keeps its laws.
\<close>

theorem scutil_script_completes:
  assumes "script_fits cfg files" "\<forall>x body. files x = Some body \<longrightarrow> length body \<le> L" "nested d files script"
    and "\<forall>argv \<in> set script. line_fits (tc_ops cfg) argv" "scutil_inv s" "length script + d * Suc L < fuel"
  shows "\<exists>s'. process_lines fuel cfg (script_input script) s = Some (Ret s') \<and>
    run_script d cfg files script s = Some s' \<and> scutil_inv s'"
  by (rule process_script[OF assms(1) _ assms(4,5,3,6)]) (use assms(2) in blast)

definition sample_script :: "string list list" where
  "sample_script = [[''f.read'', ''init''], [''get'', ''Setup:/X''], [''quit''], [''remove'', ''Setup:/X'']]"

lemma scutil_script_completes_witness:
  "\<exists>s'. process_lines 13 sample_cfg (script_input sample_script) (tool_start []) = Some (Ret s') \<and>
    run_script 2 sample_cfg sample_files sample_script (tool_start []) = Some s' \<and> scutil_inv s'"
proof -
  have "\<forall>argv \<in> set sample_script. line_fits mem_ops argv" by code_simp
  then have fits: "\<forall>argv \<in> set sample_script. line_fits (tc_ops sample_cfg) argv" by (simp add: sample_cfg_def mem_cfg_def)
  have nest: "nested 2 sample_files sample_script"
    by (simp add: numeral_2_eq_2 sample_script_def sample_files_def reads_file_def strcaseeq_def lower_def)
  show ?thesis
    by (rule scutil_script_completes[OF sample_fits, of 3])
      (use fits nest tool_start_inv in \<open>simp_all add: sample_files_def sample_script_def\<close>)
qed

text \<open>The script stored the value, and stopped before removing it.\<close>

lemma sample_script_stores:
  "(case run_script 2 sample_cfg sample_files sample_script (tool_start []) of
      Some s \<Rightarrow> map_of (sc_world s) ''Setup:/X'' \<noteq> None | None \<Rightarrow> False)"
  by code_simp

section \<open>Between commands\<close>

text \<open>The nesting level goes up with every file that is read and never comes down.\<close>

lemma nesting_stays_up:
  assumes "tc_fopen cfg a = Some []"
  shows "do_readFile cfg (process_lines (Suc fuel) cfg) (a # argv) s =
    Some (Ret ((print_note (Msg ''f.read: reading file'') s)\<lparr>sc_nesting := Suc (sc_nesting s)\<rparr>))"
  using assms by (simp add: do_readFile_def read_command_def getLine_def getLine_read_def fgets_def)

text \<open>A key that the session refused stays in the tool's list.\<close>

lemma notify_add_refused:
  assumes "sc_store s" "sc_watchedKeys s = Live k" "sc_watchedPatterns s = Live p" "ds_utf8 ops a = Some key" "key \<notin> set k"
    and "ds_set_keys ops True (sc_world s) (Some (k @ [key])) (Some p) = ((False, st), w)"
  shows "\<exists>s'. do_notify_add ops [a] s = Ret s' \<and> sc_watchedKeys s' = Live (k @ [key]) \<and> sc_world s' = w"
  using assms
  by (simp add: do_notify_add_def with_key_def live_def watched_def set_watched_def set_notification_keys_def passed_def
      store_call_def print_note_def)

text \<open>
  \<open>n.watch\<close> is protected against a second watcher only after the first one runs. While the thread that
  the first command created has not started, a second command creates another one; once it has started, the
  second command answers that watching is active and creates none.
\<close>

theorem do_notify_watch_race:
  assumes "\<not> sc_notifyRl s" "\<not> sc_doDispatch s" "ds_source ops (sc_store s) (sc_world s) = ((True, st), w)"
  shows "sc_watchers (do_notify_watch (do_notify_watch s)) = sc_watchers s + 2 \<and>
    sc_watchers (do_notify_watch (watcher_start ops (do_notify_watch s))) = sc_watchers s \<and>
    last (sc_out (do_notify_watch (watcher_start ops (do_notify_watch s)))) = Msg ''already active''"
  using assms by (simp add: do_notify_watch_def watcher_start_def print_note_def)

lemma do_notify_watch_race_witness:
  "sc_watchers (do_notify_watch (do_notify_watch (tool_start ([]::mem_store)))) = 0 + 2 \<and>
   sc_watchers (do_notify_watch (watcher_start mem_ops (do_notify_watch (tool_start [])))) = 0 \<and>
   last (sc_out (do_notify_watch (watcher_start mem_ops (do_notify_watch (tool_start []))))) = Msg ''already active''"
  using do_notify_watch_race[of "tool_start []" mem_ops kSCStatusOK "[]"]
  by (simp add: tool_start_def mem_ops_def)

end
