(* ===== verification/PluginPrefs.thy ===== *)
theory PluginPrefs
  imports CF
begin

text \<open>
  The control preferences of two plugins: InterfaceNamerControlPrefs.c and IPMonitorControlPrefs.c.

  Both files have the same functions over one preference file each. A \<open>control_file\<close> has what they
  differ in: names, and the options they open their sessions with. The session \<open>'s\<close> and the file
  system \<open>'f\<close> belong to SCPreferences and are parameters. On iOS (\<open>cf_ios\<close>) a managed file is
  looked at first.
\<close>

section \<open>Files and sessions\<close>

record ('s, 'f) pref_session_ops =
  pf_create :: "'f \<Rightarrow> string \<Rightarrow> string \<Rightarrow> bool \<Rightarrow> 's option"
  pf_get :: "'s \<Rightarrow> string \<Rightarrow> plist option"
  pf_set :: "'s \<Rightarrow> string \<Rightarrow> plist \<Rightarrow> 's"
  pf_remove :: "'s \<Rightarrow> string \<Rightarrow> 's"
  pf_commit :: "'s \<Rightarrow> 'f \<Rightarrow> bool \<times> 's \<times> 'f"
  pf_sync :: "'s \<Rightarrow> 'f \<Rightarrow> 's"
  pf_set_callback :: "'s \<Rightarrow> bool \<Rightarrow> bool \<times> 's"
  pf_schedule :: "'s \<Rightarrow> nat \<Rightarrow> bool \<times> 's"

record control_file =
  cf_name :: string
  cf_prefsID :: string
  cf_key :: string
  cf_options :: bool
  cf_managed_options :: bool
  cf_ios :: bool

definition InterfaceNamerControlFile :: "bool \<Rightarrow> control_file" where
  "InterfaceNamerControlFile ios =
     \<lparr>cf_name = ''InterfaceNamerControlPrefs'', cf_prefsID = ''com.apple.InterfaceNamer.control.plist'',
      cf_key = ''AllowNewInterfaces'', cf_options = True, cf_managed_options = True, cf_ios = ios\<rparr>"

definition IPMonitorControlFile :: "bool \<Rightarrow> control_file" where
  "IPMonitorControlFile ios =
     \<lparr>cf_name = ''IPMonitorControlPrefs'', cf_prefsID = ''com.apple.IPMonitor.control.plist'',
      cf_key = ''Verbose'', cf_options = False, cf_managed_options = False, cf_ios = ios\<rparr>"

text \<open>The static variables of a file; call-outs and run loops are numbers.\<close>

record 's control_state =
  cs_prefs :: "'s option"
  cs_managed :: "'s option"
  cs_callback :: "nat option"
  cs_observing :: "nat option"

definition ManagedPrefsID :: "control_file \<Rightarrow> string" where
  "ManagedPrefsID cf = ''/Library/Managed Preferences/mobile/'' @ cf_prefsID cf"

section \<open>Opening\<close>

definition enable_prefs_observer :: "control_file \<Rightarrow> nat \<Rightarrow> 's control_state \<Rightarrow> 's control_state" where
  "enable_prefs_observer cf runloop cs = (if cf_ios cf then cs\<lparr>cs_observing := Some runloop\<rparr> else cs)"

text \<open>With a run loop and a call-out: a session that could not be scheduled gets no call-out, and is observed all the same.\<close>

definition ControlPrefsInit ::
    "('s, 'f) pref_session_ops \<Rightarrow> control_file \<Rightarrow> 'f \<Rightarrow> nat option \<Rightarrow> nat option \<Rightarrow> 's control_state \<Rightarrow>
     's option \<times> 's control_state" where
  "ControlPrefsInit ops cf fs runloop callback cs =
     (let prefs = pf_create ops fs (cf_name cf) (cf_prefsID cf) (cf_options cf);
          cs1 = cs\<lparr>cs_prefs := prefs\<rparr>
      in case (runloop, callback) of
           (Some rl, Some cb) \<Rightarrow>
             let cs2 = cs1\<lparr>cs_callback := Some cb\<rparr>
             in (case prefs of
                   None \<Rightarrow> (None, cs2)
                 | Some s \<Rightarrow>
                     (case pf_set_callback ops s True of
                        (False, s1) \<Rightarrow> (Some s1, cs2\<lparr>cs_prefs := Some s1\<rparr>)
                      | (True, s1) \<Rightarrow>
                          let s2 = (case pf_schedule ops s1 rl of
                                (True, s2) \<Rightarrow> s2 | (False, s2) \<Rightarrow> snd (pf_set_callback ops s2 False))
                          in (Some s2, enable_prefs_observer cf rl (cs2\<lparr>cs_prefs := Some s2\<rparr>))))
         | _ \<Rightarrow> (prefs, cs1))"

definition ControlPrefsGet ::
    "('s, 'f) pref_session_ops \<Rightarrow> control_file \<Rightarrow> 'f \<Rightarrow> 's control_state \<Rightarrow> 's option \<times> 's control_state" where
  "ControlPrefsGet ops cf fs cs =
     (case cs_prefs cs of
        Some s \<Rightarrow> (Some s, cs)
      | None \<Rightarrow> let (_, cs1) = ControlPrefsInit ops cf fs None None cs in (cs_prefs cs1, cs1))"

definition ControlManagedPrefsGet ::
    "('s, 'f) pref_session_ops \<Rightarrow> control_file \<Rightarrow> 'f \<Rightarrow> 's control_state \<Rightarrow> 's option \<times> 's control_state" where
  "ControlManagedPrefsGet ops cf fs cs =
     (case cs_managed cs of
        Some s \<Rightarrow> (Some s, cs)
      | None \<Rightarrow> let p = pf_create ops fs (cf_name cf) (ManagedPrefsID cf) (cf_managed_options cf)
                in (p, cs\<lparr>cs_managed := p\<rparr>))"

text \<open>The call-out, as long as there is one, gets the session; the result is its number.\<close>

definition prefs_changed :: "'s control_state \<Rightarrow> (nat \<times> 's option) option" where
  "prefs_changed cs = map_option (\<lambda>cb. (cb, cs_prefs cs)) (cs_callback cs)"

section \<open>Values\<close>

definition prefs_get_boolean ::
    "('s, 'f) pref_session_ops \<Rightarrow> control_file \<Rightarrow> 'f \<Rightarrow> string \<Rightarrow> 's control_state \<Rightarrow> bool option \<times> 's control_state" where
  "prefs_get_boolean ops cf fs key cs =
     (let (managed, cs1) = (if cf_ios cf then ControlManagedPrefsGet ops cf fs cs else (None, cs));
          b = (case managed of None \<Rightarrow> None | Some s \<Rightarrow> isA_CFBoolean (pf_get ops s key))
      in if b \<noteq> None then (b, cs1)
         else let (prefs, cs2) = ControlPrefsGet ops cf fs cs1
              in (case prefs of None \<Rightarrow> None | Some s \<Rightarrow> isA_CFBoolean (pf_get ops s key), cs2))"

definition prefs_set_boolean ::
    "('s, 'f) pref_session_ops \<Rightarrow> control_file \<Rightarrow> 'f \<Rightarrow> string \<Rightarrow> bool option \<Rightarrow> 's control_state \<Rightarrow> 's control_state" where
  "prefs_set_boolean ops cf fs key b cs =
     (let (prefs, cs1) = ControlPrefsGet ops cf fs cs in
      case prefs of
        None \<Rightarrow> cs1
      | Some s \<Rightarrow> cs1\<lparr>cs_prefs := Some (case b of None \<Rightarrow> pf_remove ops s key | Some v \<Rightarrow> pf_set ops s key (CFBoolean v))\<rparr>)"

definition ControlPrefsSave ::
    "('s, 'f) pref_session_ops \<Rightarrow> 'f \<Rightarrow> 's control_state \<Rightarrow> bool \<times> 's control_state \<times> 'f" where
  "ControlPrefsSave ops fs cs =
     (case cs_prefs cs of
        None \<Rightarrow> (False, cs, fs)
      | Some s \<Rightarrow> (case pf_commit ops s fs of
                    (saved, s1, fs1) \<Rightarrow> (saved, cs\<lparr>cs_prefs := Some (pf_sync ops s1 fs1)\<rparr>, fs1)))"

definition ControlPrefsRefresh ::
    "('s, 'f) pref_session_ops \<Rightarrow> control_file \<Rightarrow> 'f \<Rightarrow> 's control_state \<Rightarrow> 's control_state" where
  "ControlPrefsRefresh ops cf fs cs =
     (let cs1 = cs\<lparr>cs_prefs := map_option (\<lambda>s. pf_sync ops s fs) (cs_prefs cs)\<rparr>
      in if cf_ios cf then cs1\<lparr>cs_managed := map_option (\<lambda>s. pf_sync ops s fs) (cs_managed cs1)\<rparr> else cs1)"

definition control_get :: "('s, 'f) pref_session_ops \<Rightarrow> control_file \<Rightarrow> 'f \<Rightarrow> 's control_state \<Rightarrow> bool \<times> 's control_state" where
  "control_get ops cf fs cs =
     (let (b, cs1) = prefs_get_boolean ops cf fs (cf_key cf) cs in (b = Some True, ControlPrefsRefresh ops cf fs cs1))"

definition control_set ::
    "('s, 'f) pref_session_ops \<Rightarrow> control_file \<Rightarrow> 'f \<Rightarrow> bool \<Rightarrow> 's control_state \<Rightarrow> bool \<times> 's control_state \<times> 'f" where
  "control_set ops cf fs on cs =
     ControlPrefsSave ops fs (prefs_set_boolean ops cf fs (cf_key cf) (if on then Some True else None) cs)"

section \<open>The two files\<close>

definition InterfaceNamerControlPrefsInit where
  "InterfaceNamerControlPrefsInit ops ios = ControlPrefsInit ops (InterfaceNamerControlFile ios)"

definition InterfaceNamerControlPrefsAllowNewInterfaces where
  "InterfaceNamerControlPrefsAllowNewInterfaces ops ios = control_get ops (InterfaceNamerControlFile ios)"

definition InterfaceNamerControlPrefsSetAllowNewInterfaces where
  "InterfaceNamerControlPrefsSetAllowNewInterfaces ops ios = control_set ops (InterfaceNamerControlFile ios)"

definition IPMonitorControlPrefsInit where
  "IPMonitorControlPrefsInit ops ios = ControlPrefsInit ops (IPMonitorControlFile ios)"

definition IPMonitorControlPrefsIsVerbose where
  "IPMonitorControlPrefsIsVerbose ops ios = control_get ops (IPMonitorControlFile ios)"

definition IPMonitorControlPrefsSetVerbose where
  "IPMonitorControlPrefsSetVerbose ops ios = control_set ops (IPMonitorControlFile ios)"

section \<open>What was set is what is read\<close>

text \<open>
  The laws of a session: what was set is found, what was removed is gone, a commit that
  succeeded keeps the values, and synchronizing with the file just written changes none.
\<close>

locale pref_session =
  fixes ops :: "('s, 'f) pref_session_ops"
  assumes get_set: "pf_get ops (pf_set ops s k v) k = Some v"
    and get_remove: "pf_get ops (pf_remove ops s k) k = None"
    and commit_sync: "pf_commit ops s fs = (True, s', fs') \<Longrightarrow>
      pf_get ops s' k = pf_get ops s k \<and> pf_get ops (pf_sync ops s' fs') k = pf_get ops s k"
begin

lemma set_get:
  assumes "control_set ops cf fs on cs = (True, cs', fs')"
  shows "\<exists>s. cs_prefs cs' = Some s \<and> isA_CFBoolean (pf_get ops s (cf_key cf)) = (if on then Some True else None)"
proof -
  let ?b = "if on then Some True else None"
  obtain p cs1 where p: "ControlPrefsGet ops cf fs cs = (p, cs1)" by fastforce
  have same: "cs_prefs cs1 = p"
    using p by (auto simp: ControlPrefsGet_def Let_def split: option.splits prod.splits)
  obtain s where s: "p = Some s"
    using assms p same by (cases p) (simp_all add: control_set_def ControlPrefsSave_def prefs_set_boolean_def)
  let ?s = "case ?b of None \<Rightarrow> pf_remove ops s (cf_key cf) | Some v \<Rightarrow> pf_set ops s (cf_key cf) (CFBoolean v)"
  obtain s1 where "pf_commit ops ?s fs = (True, s1, fs')" "cs_prefs cs' = Some (pf_sync ops s1 fs')"
    using assms p s by (auto simp: control_set_def ControlPrefsSave_def prefs_set_boolean_def split: prod.splits)
  with commit_sync[of ?s fs s1 fs' "cf_key cf"] show ?thesis by (simp add: get_set get_remove)
qed

end

text \<open>
  What is set is what is read. When \<open>InterfaceNamerControlPrefsSetAllowNewInterfaces\<close>, or
  \<open>IPMonitorControlPrefsSetVerbose\<close>, reports success, the next call of the getter answers the value
  that was set, also for the default, which is stored by removing the key; on iOS this holds as
  long as the managed file has no value of its own.
\<close>

theorem control_prefs_roundtrip:
  assumes "pref_session ops" "control_set ops cf fs on cs = (True, cs', fs')"
    and "\<forall>s. cf_ios cf \<and> fst (ControlManagedPrefsGet ops cf fs' cs') = Some s \<longrightarrow> isA_CFBoolean (pf_get ops s (cf_key cf)) = None"
  shows "fst (control_get ops cf fs' cs') = on"
proof -
  obtain s where s: "cs_prefs cs' = Some s" "isA_CFBoolean (pf_get ops s (cf_key cf)) = (if on then Some True else None)"
    using pref_session.set_get[OF assms(1,2)] by blast
  obtain m cs1 where m: "(if cf_ios cf then ControlManagedPrefsGet ops cf fs' cs' else (None, cs')) = (m, cs1)" by fastforce
  have cs1: "cs_prefs cs1 = Some s"
    using m s(1) by (auto simp: ControlManagedPrefsGet_def Let_def split: if_splits option.splits)
  have "(case m of None \<Rightarrow> None | Some x \<Rightarrow> isA_CFBoolean (pf_get ops x (cf_key cf))) = None"
    using assms(3) m by (auto split: option.splits if_splits)
  with m cs1 s(2) show ?thesis
    by (auto simp: control_get_def prefs_get_boolean_def ControlPrefsGet_def Let_def)
qed

text \<open>A session that is a copy of a file of values.\<close>

definition dict_session :: "(dict, dict) pref_session_ops" where
  "dict_session = \<lparr>pf_create = \<lambda>f _ _ _. Some f, pf_get = fmlookup, pf_set = \<lambda>s k v. fmupd k v s,
     pf_remove = \<lambda>s k. fmdrop k s, pf_commit = \<lambda>s _. (True, s, s), pf_sync = \<lambda>_ f. f,
     pf_set_callback = \<lambda>s _. (True, s), pf_schedule = \<lambda>s _. (True, s)\<rparr>"

interpretation dict_session: pref_session dict_session
  by unfold_locales (auto simp: dict_session_def)

lemma control_prefs_roundtrip_witness:
  "fst (control_get dict_session (IPMonitorControlFile False) (fmupd ''Verbose'' (CFBoolean True) fmempty)
     \<lparr>cs_prefs = Some (fmupd ''Verbose'' (CFBoolean True) fmempty), cs_managed = None, cs_callback = None, cs_observing = None\<rparr>) = True"
proof -
  let ?cs = "\<lparr>cs_prefs = None, cs_managed = None, cs_callback = None, cs_observing = None\<rparr>"
  have "control_set dict_session (IPMonitorControlFile False) fmempty True ?cs =
      (True, \<lparr>cs_prefs = Some (fmupd ''Verbose'' (CFBoolean True) fmempty), cs_managed = None, cs_callback = None,
        cs_observing = None\<rparr>, fmupd ''Verbose'' (CFBoolean True) fmempty)"
    by (simp add: control_set_def ControlPrefsSave_def prefs_set_boolean_def ControlPrefsGet_def ControlPrefsInit_def
        dict_session_def IPMonitorControlFile_def Let_def)
  from control_prefs_roundtrip[OF dict_session.pref_session_axioms this] show ?thesis
    by (simp add: IPMonitorControlFile_def)
qed

end
