(* ===== verification/ScutilPrefs.thy ===== *)
theory ScutilPrefs
  imports ScutilCmd PluginPrefs NetServiceBase
begin

text \<open>
  The preference commands of \<open>scutil\<close> (prefs.c): the session, the commands of \<open>--prefs\<close>, the
  names that \<open>--get\<close> and \<open>--set\<close> handle, and the switches \<open>--allow-new-interfaces\<close>, \<open>--log\<close> and
  \<open>--disable-until-needed\<close>.

  The global variables of the file are the world of the tool's state (\<open>prefs_world\<close>). The calls of
  SCPreferences take the session or NULL and answer with the status that \<open>SCError()\<close> has afterwards.
\<close>

section \<open>The session\<close>

datatype authorization = Auth_entitlement | Auth_created nat

datatype create_call =
    Create_plain
  | Create_with_authorization "authorization option"
  | Create_with_options "authorization option" dict

record 'p sp_ops =
  sp_utf8 :: "string \<Rightarrow> string option"
  sp_euid :: nat
  sp_getenv :: "string \<Rightarrow> string option"
  sp_authorize :: "nat option"
  sp_create :: "create_call \<Rightarrow> string \<Rightarrow> string option \<Rightarrow> 'p option \<times> sc_status"
  sp_commit :: "'p option \<Rightarrow> (bool \<times> sc_status) \<times> 'p option"
  sp_apply :: "'p option \<Rightarrow> (bool \<times> sc_status) \<times> 'p option"
  sp_lock :: "bool \<Rightarrow> 'p option \<Rightarrow> (bool \<times> sc_status) \<times> 'p option"
  sp_unlock :: "'p option \<Rightarrow> (bool \<times> sc_status) \<times> 'p option"
  sp_sync :: "'p option \<Rightarrow> 'p option"
  sp_path_get :: "'p option \<Rightarrow> string \<Rightarrow> plist option \<times> sc_status"
  sp_path_set :: "'p option \<Rightarrow> string \<Rightarrow> plist \<Rightarrow> (bool \<times> sc_status) \<times> 'p option"
  sp_path_remove :: "'p option \<Rightarrow> string \<Rightarrow> (bool \<times> sc_status) \<times> 'p option"
  sp_get_link :: "'p option \<Rightarrow> string \<Rightarrow> string option"
  sp_set_link :: "'p option \<Rightarrow> string \<Rightarrow> string \<Rightarrow> (bool \<times> sc_status) \<times> 'p option"

record 'p prefs_world =
  pw_prefs :: "'p option"
  pw_ni_prefs :: "'p option"
  pw_changed :: bool
  pw_path :: "string option"
  pw_authorization :: "authorization option"
  pw_terminal :: bool

type_synonym 'p prefs_tool = "'p prefs_world scutil"

definition upd_world :: "('w \<Rightarrow> 'w) \<Rightarrow> 'w scutil \<Rightarrow> 'w scutil" where
  "upd_world f s = s\<lparr>sc_world := f (sc_world s)\<rparr>"

text \<open>A program that ends has an exit code; otherwise it goes on.\<close>

datatype 's prog = Exit nat 's | Go 's

definition prefs_AuthorizationCreate :: "'p sp_ops \<Rightarrow> authorization option" where
  "prefs_AuthorizationCreate ops =
     (if sp_getenv ops ''SCPREFERENCES_USE_ENTITLEMENTS'' \<noteq> None then Some Auth_entitlement
      else map_option Auth_created (sp_authorize ops))"

definition prefs_open_options :: "'p sp_ops \<Rightarrow> dict option" where
  "prefs_open_options ops =
     (let o1 = (if sp_getenv ops ''SCPREFERENCES_REMOVE_WHEN_EMPTY'' \<noteq> None
                then Some (fmupd ''remove-when-empty'' (CFBoolean True) fmempty) else None)
      in case sp_getenv ops ''SCPREFERENCES_PROTECTION_CLASS'' of
           None \<Rightarrow> o1
         | Some env \<Rightarrow> Some (fmupd ''protection-class'' (CFString env) (case o1 of None \<Rightarrow> fmempty | Some d \<Rightarrow> d)))"

text \<open>The authorization is kept also when the session could not be created.\<close>

definition prefs_open :: "'p sp_ops \<Rightarrow> string \<Rightarrow> string option \<Rightarrow> 'p prefs_world \<Rightarrow> (bool \<times> sc_status) \<times> 'p prefs_world" where
  "prefs_open ops name path w =
     (let useHelper = (sp_euid ops \<noteq> 0);
          auth = (if useHelper then prefs_AuthorizationCreate ops else None);
          options = prefs_open_options ops;
          prefsID = (case path of None \<Rightarrow> None | Some p \<Rightarrow> sp_utf8 ops p);
          call = (case options of
                    None \<Rightarrow> if useHelper then Create_with_authorization auth else Create_plain
                  | Some d \<Rightarrow> Create_with_options auth d);
          w1 = w\<lparr>pw_authorization := auth, pw_path := (case path of None \<Rightarrow> pw_path w | Some p \<Rightarrow> Some p)\<rparr>
      in case sp_create ops call name prefsID of
           (None, st) \<Rightarrow> ((False, st), w1\<lparr>pw_prefs := None, pw_path := None\<rparr>)
         | (Some p, st) \<Rightarrow> ((True, st), w1\<lparr>pw_prefs := Some p, pw_changed := False\<rparr>))"

text \<open>Saving ends the program when it fails.\<close>

definition save_session ::
    "'p sp_ops \<Rightarrow> 'p option \<Rightarrow> (sc_status, 'p option) sum \<times> out_note list" where
  "save_session ops p =
     (case sp_commit ops p of
        ((False, st), _) \<Rightarrow> (Inl st, [if st = kSCStatusAccessError then Msg ''Permission denied.'' else Status st])
      | ((True, _), p1) \<Rightarrow> (case sp_apply ops p1 of
            ((False, st), _) \<Rightarrow> (Inl st, [Status st])
          | ((True, _), p2) \<Rightarrow> (Inr p2, [])))"

definition prefs_save :: "'p sp_ops \<Rightarrow> 'p prefs_tool \<Rightarrow> 'p prefs_tool prog" where
  "prefs_save ops s =
     (case save_session ops (pw_prefs (sc_world s)) of
        (Inl _, notes) \<Rightarrow> Exit 1 (s\<lparr>sc_out := sc_out s @ notes\<rparr>)
      | (Inr p, _) \<Rightarrow>
          let s1 = upd_world (\<lambda>w. w\<lparr>pw_prefs := p, pw_changed := False\<rparr>) s
          in (case pw_ni_prefs (sc_world s1) of
                None \<Rightarrow> Go s1
              | Some nip \<Rightarrow> (case save_session ops (Some nip) of
                    (Inl _, notes) \<Rightarrow> Exit 1 (s1\<lparr>sc_out := sc_out s1 @ notes\<rparr>)
                  | (Inr nip', _) \<Rightarrow> Go (upd_world (\<lambda>w. w\<lparr>pw_ni_prefs := nip'\<rparr>) s1))))"

definition prefs_close :: "'p prefs_world \<Rightarrow> 'p prefs_world" where
  "prefs_close w =
     w\<lparr>pw_path := None, pw_changed := (if pw_prefs w \<noteq> None then False else pw_changed w),
       pw_prefs := None, pw_ni_prefs := None, pw_authorization := None\<rparr>"

text \<open>Changes are kept for the user at a terminal, unless the argument says otherwise.\<close>

definition prefs_commitRequired :: "string list \<Rightarrow> string option \<Rightarrow> 'p prefs_tool \<Rightarrow> bool \<times> 'p prefs_tool" where
  "prefs_commitRequired argv cmd s =
     (if pw_changed (sc_world s)
      then if pw_terminal (sc_world s) \<and> (argv = [] \<or> hd argv \<noteq> ''!'')
           then (True, print_note (Msg (''preference changes have not been committed'' @
                   (case cmd of None \<Rightarrow> '''' | Some c \<Rightarrow> '' or '' @ c @ '' ! to abandon changes''))) s)
           else (False, print_note (Msg ''preference changes abandoned'') s)
      else (False, s))"

section \<open>The commands\<close>

definition session_call :: "(bool \<times> sc_status) \<times> 'p option \<Rightarrow> ('p prefs_world \<Rightarrow> 'p prefs_world) \<Rightarrow> 'p prefs_tool \<Rightarrow> 'p prefs_tool" where
  "session_call r f s =
     (case r of ((ok, st), p) \<Rightarrow>
        let s1 = upd_world (\<lambda>w. w\<lparr>pw_prefs := p\<rparr>) s
        in if ok then upd_world f s1 else print_note (Status st) s1)"

definition do_prefs_close :: "string list \<Rightarrow> 'p prefs_tool \<Rightarrow> 'p prefs_tool" where
  "do_prefs_close argv s =
     (let (required, s1) = prefs_commitRequired argv (Some ''close'') s
      in if required then s1 else upd_world prefs_close s1)"

definition do_prefs_open :: "'p sp_ops \<Rightarrow> string list \<Rightarrow> 'p prefs_tool \<Rightarrow> sc_status \<times> 'p prefs_tool" where
  "do_prefs_open ops argv s =
     (let (required, s1) = (if pw_prefs (sc_world s) \<noteq> None then prefs_commitRequired argv (Some ''close'') s else (False, s))
      in if required then (kSCStatusOK, s1)
         else let s2 = (if pw_prefs (sc_world s) \<noteq> None then do_prefs_close [] s1 else s1)
              in case prefs_open ops ''scutil --prefs'' (if argv = [] then None else Some (hd argv)) (sc_world s2) of
                   ((ok, st), w) \<Rightarrow>
                     (st, (if ok then id else print_note (Status st)) (s2\<lparr>sc_world := w\<rparr>)))"

definition do_prefs_lock :: "'p sp_ops \<Rightarrow> string list \<Rightarrow> 'p prefs_tool \<Rightarrow> 'p prefs_tool" where
  "do_prefs_lock ops argv s = session_call (sp_lock ops (argv \<noteq> []) (pw_prefs (sc_world s))) id s"

definition do_prefs_unlock :: "'p sp_ops \<Rightarrow> 'p prefs_tool \<Rightarrow> 'p prefs_tool" where
  "do_prefs_unlock ops s = session_call (sp_unlock ops (pw_prefs (sc_world s))) id s"

definition do_prefs_commit :: "'p sp_ops \<Rightarrow> 'p prefs_tool \<Rightarrow> 'p prefs_tool" where
  "do_prefs_commit ops s = session_call (sp_commit ops (pw_prefs (sc_world s))) (\<lambda>w. w\<lparr>pw_changed := False\<rparr>) s"

definition do_prefs_apply :: "'p sp_ops \<Rightarrow> 'p prefs_tool \<Rightarrow> 'p prefs_tool" where
  "do_prefs_apply ops s = session_call (sp_apply ops (pw_prefs (sc_world s))) id s"

definition do_prefs_quit :: "string list \<Rightarrow> 'p prefs_tool \<Rightarrow> 'p prefs_tool" where
  "do_prefs_quit argv s =
     (let (required, s1) = prefs_commitRequired argv (Some ''quit'') s
      in if required then s1 else (upd_world prefs_close s1)\<lparr>sc_termRequested := True\<rparr>)"

definition do_prefs_synchronize :: "'p sp_ops \<Rightarrow> 'p prefs_tool \<Rightarrow> 'p prefs_tool" where
  "do_prefs_synchronize ops s =
     upd_world (\<lambda>w. w\<lparr>pw_prefs := sp_sync ops (pw_prefs w),
       pw_ni_prefs := (if pw_ni_prefs w \<noteq> None then sp_sync ops (pw_ni_prefs w) else None)\<rparr>) s"

definition is_dict :: "plist \<Rightarrow> bool" where
  "is_dict v \<longleftrightarrow> isA_CFDictionary (Some v) \<noteq> None"

text \<open>The children of a path are the values that are dictionaries themselves.\<close>

definition path_children :: "dict \<Rightarrow> dict" where
  "path_children d = fmfilter (\<lambda>k. case fmlookup d k of None \<Rightarrow> False | Some v \<Rightarrow> is_dict v) d"

definition path_values :: "dict \<Rightarrow> dict" where
  "path_values d = fmfilter (\<lambda>k. case fmlookup d k of None \<Rightarrow> False | Some v \<Rightarrow> \<not> is_dict v) d"

definition path_arg :: "'p sp_ops \<Rightarrow> string list \<Rightarrow> (string \<Rightarrow> 'a outcome) \<Rightarrow> 'a outcome" where
  "path_arg ops argv f =
     (case argv of [] \<Rightarrow> UB | a # _ \<Rightarrow> (case sp_utf8 ops a of None \<Rightarrow> UB | Some path \<Rightarrow> f path))"

definition do_prefs_list :: "'p sp_ops \<Rightarrow> string list \<Rightarrow> 'p prefs_tool \<Rightarrow> 'p prefs_tool outcome" where
  "do_prefs_list ops argv s =
     path_arg ops [if argv = [] then ''/'' else hd argv] (\<lambda>pfx.
     case sp_path_get ops (pw_prefs (sc_world s)) pfx of
       (None, st) \<Rightarrow> Ret (print_note (Status st) s)
     | (Some entity, _) \<Rightarrow>
         let d = (case isA_CFDictionary (Some entity) of None \<Rightarrow> fmempty | Some d \<Rightarrow> d);
             paths = map (\<lambda>k. (if pfx = ''/'' then '''' else pfx) @ ''/'' @ k) (sorted_list_of_fset (fmdom (path_children d)))
         in Ret (if paths = [] then print_note (Msg ''no paths.'') s else print_keys Show_key paths s))"

definition do_prefs_get :: "'p sp_ops \<Rightarrow> string list \<Rightarrow> 'p prefs_tool \<Rightarrow> 'p prefs_tool outcome" where
  "do_prefs_get ops argv s =
     path_arg ops argv (\<lambda>path.
     let s1 = (case sp_get_link ops (pw_prefs (sc_world s)) path of
                 None \<Rightarrow> s | Some link \<Rightarrow> print_note (Msg (''--> '' @ link)) s)
     in case sp_path_get ops (pw_prefs (sc_world s1)) path of
          (None, st) \<Rightarrow> Ret (print_note (Status st) s1)
        | (Some dict, _) \<Rightarrow>
            let d = (case isA_CFDictionary (Some dict) of None \<Rightarrow> fmempty | Some d \<Rightarrow> d)
            in Ret (s1\<lparr>sc_value := Some (CFDictionary (path_values d))\<rparr>))"

text \<open>
  The dictionary that is written: the tool's value with the children of the path; \<open>Inl\<close> when the value has a
  key that is a child.
\<close>

definition prefs_new_dict :: "'p sp_ops \<Rightarrow> 'p option \<Rightarrow> string \<Rightarrow> dict \<Rightarrow> (out_note + dict) outcome" where
  "prefs_new_dict ops p path v =
     (case sp_path_get ops p path of
        (Some (CFDictionary d), _) \<Rightarrow>
          Ret (if fmdom (path_children d) |\<inter>| fmdom v \<noteq> {||}
               then Inl (Msg ''key is already a path component and cannot be replaced'')
               else Inr (path_children d ++\<^sub>f v))
      | (Some _, _) \<Rightarrow> UB
      | (None, st) \<Rightarrow>
          Ret (if st = kSCStatusInvalidArgument then Inl (Msg ''a path component is not a dictionary'')
               else if st \<noteq> kSCStatusNoKey then Inl (Status st)
               else Inr v))"

definition do_prefs_set :: "'p sp_ops \<Rightarrow> string list \<Rightarrow> 'p prefs_tool \<Rightarrow> 'p prefs_tool outcome" where
  "do_prefs_set ops argv s =
     path_arg ops argv (\<lambda>path.
     case isA_CFDictionary (sc_value s) of
       None \<Rightarrow> UB
     | Some v \<Rightarrow>
         obind (prefs_new_dict ops (pw_prefs (sc_world s)) path v) (\<lambda>r.
         case r of
           Inl x \<Rightarrow> Ret (print_note x s)
         | Inr newDict \<Rightarrow>
             (case tl argv of
                l # _ \<Rightarrow> (case sp_utf8 ops l of
                    None \<Rightarrow> UB
                  | Some link \<Rightarrow> Ret (session_call (sp_set_link ops (pw_prefs (sc_world s)) path link) (\<lambda>w. w\<lparr>pw_changed := True\<rparr>) s))
              | [] \<Rightarrow> Ret (session_call (sp_path_set ops (pw_prefs (sc_world s)) path (CFDictionary newDict))
                         (\<lambda>w. w\<lparr>pw_changed := True\<rparr>) s))))"

definition do_prefs_remove :: "'p sp_ops \<Rightarrow> string list \<Rightarrow> 'p prefs_tool \<Rightarrow> 'p prefs_tool outcome" where
  "do_prefs_remove ops argv s =
     path_arg ops argv (\<lambda>path.
     Ret (session_call (sp_path_remove ops (pw_prefs (sc_world s)) path) (\<lambda>w. w\<lparr>pw_changed := True\<rparr>) s))"

text \<open>The handlers of the preference table.\<close>

definition run_prefs_handler :: "'p sp_ops \<Rightarrow> prefs_handler \<Rightarrow> string list \<Rightarrow> 'p prefs_tool \<Rightarrow> 'p prefs_tool outcome" where
  "run_prefs_handler ops h argv s =
     (case h of
        Do_prefs_quit \<Rightarrow> Ret (do_prefs_quit argv s)
      | Do_prefs_open \<Rightarrow> Ret (snd (do_prefs_open ops argv s))
      | Do_prefs_lock \<Rightarrow> Ret (do_prefs_lock ops argv s)
      | Do_prefs_commit \<Rightarrow> Ret (do_prefs_commit ops s)
      | Do_prefs_apply \<Rightarrow> Ret (do_prefs_apply ops s)
      | Do_prefs_unlock \<Rightarrow> Ret (do_prefs_unlock ops s)
      | Do_prefs_close \<Rightarrow> Ret (do_prefs_close argv s)
      | Do_prefs_synchronize \<Rightarrow> Ret (do_prefs_synchronize ops s)
      | Do_prefs_list \<Rightarrow> do_prefs_list ops argv s
      | Do_prefs_get \<Rightarrow> do_prefs_get ops argv s
      | Do_prefs_set \<Rightarrow> do_prefs_set ops argv s
      | Do_prefs_remove \<Rightarrow> do_prefs_remove ops argv s)"

end
