(* ===== verification/ScutilNames.thy ===== *)
theory ScutilNames
  imports ScutilPrefs
begin

text \<open>
  The requests of \<open>scutil\<close> that end with an exit code (rest of prefs.c): the computer and host
  names, values of preference files, and three switches.
\<close>

section \<open>Names\<close>

text \<open>
  The names of the system and their setters, the standard input, and whether questions can be asked
  on a terminal. \<open>nm_buf\<close> is what the buffer of a line holds before it is read.
\<close>

record 'p name_ops =
  nm_computer :: "string option \<times> sc_status"
  nm_localhost :: "string option \<times> sc_status"
  nm_host :: "'p option \<Rightarrow> string option \<times> sc_status"
  nm_set_computer :: "'p option \<Rightarrow> string option \<Rightarrow> (bool \<times> sc_status) \<times> 'p option"
  nm_set_localhost :: "'p option \<Rightarrow> string option \<Rightarrow> (bool \<times> sc_status) \<times> 'p option"
  nm_set_host :: "'p option \<Rightarrow> string option \<Rightarrow> (bool \<times> sc_status) \<times> 'p option"
  nm_stdin :: string
  nm_tty :: bool
  nm_buf :: string

definition show_name :: "string \<Rightarrow> string option \<times> sc_status \<Rightarrow> 'p prefs_tool \<Rightarrow> 'p prefs_tool prog" where
  "show_name what r s =
     (case r of
        (None, st) \<Rightarrow> Exit 1 (print_note (if st = kSCStatusNoKey then Msg (what @ '': not set'') else Status st) s)
      | (Some hostname, _) \<Rightarrow> Exit 0 (print_note (Msg hostname) s))"

definition get_ComputerName :: "'p name_ops \<Rightarrow> 'p prefs_tool \<Rightarrow> 'p prefs_tool prog" where
  "get_ComputerName nm s = show_name ''ComputerName'' (nm_computer nm) s"

definition get_LocalHostName :: "'p name_ops \<Rightarrow> 'p prefs_tool \<Rightarrow> 'p prefs_tool prog" where
  "get_LocalHostName nm s = show_name ''LocalHostName'' (nm_localhost nm) s"

definition map_prog :: "('s \<Rightarrow> 't) \<Rightarrow> 's prog \<Rightarrow> 't prog" where
  "map_prog f r = (case r of Exit n s \<Rightarrow> Exit n (f s) | Go s \<Rightarrow> Go (f s))"

text \<open>A request on an open session; the session is closed at the end.\<close>

definition with_session ::
    "'p sp_ops \<Rightarrow> string \<Rightarrow> ('p prefs_tool \<Rightarrow> 'p prefs_tool prog) \<Rightarrow> 'p prefs_tool \<Rightarrow> 'p prefs_tool prog" where
  "with_session ops name f s =
     (case prefs_open ops name None (sc_world s) of
        ((False, st), w) \<Rightarrow> Exit 1 (print_note (Status st) (s\<lparr>sc_world := w\<rparr>))
      | ((True, _), w) \<Rightarrow> f (s\<lparr>sc_world := w\<rparr>))"

definition get_HostName :: "'p sp_ops \<Rightarrow> 'p name_ops \<Rightarrow> 'p prefs_tool \<Rightarrow> 'p prefs_tool prog" where
  "get_HostName ops nm =
     with_session ops ''scutil --get HostName'' (\<lambda>s.
       map_prog (upd_world prefs_close) (show_name ''HostName'' (nm_host nm (pw_prefs (sc_world s))) s))"

text \<open>
  The new name: from the terminal with the old name as the default when there is no argument, and none for
  an empty argument. At the end of the input there is no name either.
\<close>

definition new_name :: "'p sp_ops \<Rightarrow> 'p name_ops \<Rightarrow> string list \<Rightarrow> string option \<Rightarrow> string option" where
  "new_name ops nm argv old =
     (case argv of
        [] \<Rightarrow> fst (copyStringFromSTDIN (sp_utf8 ops) (nm_tty nm) (nm_buf nm) old (nm_stdin nm))
      | a # _ \<Rightarrow> if a \<noteq> '''' then sp_utf8 ops a else None)"

definition set_name ::
    "'p sp_ops \<Rightarrow> ('p option \<Rightarrow> string option \<Rightarrow> (bool \<times> sc_status) \<times> 'p option) \<Rightarrow> string option \<Rightarrow>
     'p prefs_tool \<Rightarrow> 'p prefs_tool prog" where
  "set_name ops setter hostname s =
     (case setter (pw_prefs (sc_world s)) hostname of
        ((False, st), p) \<Rightarrow> Exit 1 (upd_world prefs_close (print_note (Status st) s))
      | ((True, _), p) \<Rightarrow>
          (case prefs_save ops (upd_world (\<lambda>w. w\<lparr>pw_prefs := p\<rparr>) s) of
             Exit n s1 \<Rightarrow> Exit n s1
           | Go s1 \<Rightarrow> Exit 0 (upd_world prefs_close s1)))"

definition set_ComputerName :: "'p sp_ops \<Rightarrow> 'p name_ops \<Rightarrow> string list \<Rightarrow> 'p prefs_tool \<Rightarrow> 'p prefs_tool prog" where
  "set_ComputerName ops nm argv =
     with_session ops ''scutil --set ComputerName''
       (set_name ops (nm_set_computer nm) (new_name ops nm argv (fst (nm_computer nm))))"

definition set_HostName :: "'p sp_ops \<Rightarrow> 'p name_ops \<Rightarrow> string list \<Rightarrow> 'p prefs_tool \<Rightarrow> 'p prefs_tool prog" where
  "set_HostName ops nm argv =
     with_session ops ''scutil --set HostName'' (\<lambda>s.
       set_name ops (nm_set_host nm) (new_name ops nm argv (fst (nm_host nm (pw_prefs (sc_world s))))) s)"

definition set_LocalHostName :: "'p sp_ops \<Rightarrow> 'p name_ops \<Rightarrow> string list \<Rightarrow> 'p prefs_tool \<Rightarrow> 'p prefs_tool prog" where
  "set_LocalHostName ops nm argv =
     with_session ops ''scutil --set LocalHostName''
       (set_name ops (nm_set_localhost nm) (new_name ops nm argv (fst (nm_localhost nm))))"

section \<open>The table of names\<close>

definition pref_keys :: "string list" where
  "pref_keys = [''ComputerName'', ''HostName'', ''LocalHostName'']"

fun index_of :: "string \<Rightarrow> string list \<Rightarrow> nat option" where
  "index_of x [] = None"
| "index_of x (y # ys) = (if x = y then Some 0 else map_option Suc (index_of x ys))"

definition findPref :: "string \<Rightarrow> nat option" where
  "findPref pref = index_of pref pref_keys"

definition pref_get :: "'p sp_ops \<Rightarrow> 'p name_ops \<Rightarrow> nat \<Rightarrow> 'p prefs_tool \<Rightarrow> 'p prefs_tool prog" where
  "pref_get ops nm i s =
     (if i = 0 then get_ComputerName nm s else if i = 1 then get_HostName ops nm s else get_LocalHostName nm s)"

definition pref_set :: "'p sp_ops \<Rightarrow> 'p name_ops \<Rightarrow> nat \<Rightarrow> string list \<Rightarrow> 'p prefs_tool \<Rightarrow> 'p prefs_tool prog" where
  "pref_set ops nm i argv s =
     (if i = 0 then set_ComputerName ops nm argv s else if i = 1 then set_HostName ops nm argv s
      else set_LocalHostName ops nm argv s)"

text \<open>With arguments: the file, the path in it and the key.\<close>

definition do_getPref :: "'p sp_ops \<Rightarrow> 'p name_ops \<Rightarrow> string \<Rightarrow> string list \<Rightarrow> 'p prefs_tool \<Rightarrow> 'p prefs_tool prog outcome" where
  "do_getPref ops nm pref argv s =
     (case argv of
        [] \<Rightarrow> Ret (case findPref pref of Some i \<Rightarrow> pref_get ops nm i s | None \<Rightarrow> Go s)
      | _ # rest \<Rightarrow>
          (case do_prefs_open ops argv s of
             (st, s1) \<Rightarrow>
               if st \<noteq> kSCStatusOK then Ret (Exit 1 (upd_world prefs_close (print_note (Status st) s1)))
               else obind (do_prefs_get ops rest s1) (\<lambda>s2.
                    case sc_value s2 of
                      None \<Rightarrow> Ret (Exit 1 (upd_world prefs_close s2))
                    | Some v \<Rightarrow>
                        (case isA_CFDictionary (Some v) of
                           None \<Rightarrow> UB
                         | Some d \<Rightarrow>
                             path_arg ops (tl rest) (\<lambda>key.
                             Ret (case fmlookup d key of
                                    Some x \<Rightarrow> Exit 0 (upd_world prefs_close (print_note (Show_value x) s2))
                                  | None \<Rightarrow> Exit 1 (upd_world prefs_close s2)))))))"

definition do_setPref :: "'p sp_ops \<Rightarrow> 'p name_ops \<Rightarrow> string \<Rightarrow> string list \<Rightarrow> 'p prefs_tool \<Rightarrow> 'p prefs_tool prog" where
  "do_setPref ops nm pref argv s = (case findPref pref of Some i \<Rightarrow> pref_set ops nm i argv s | None \<Rightarrow> Go s)"

section \<open>Switches\<close>

definition switch_off :: "string \<Rightarrow> bool" where
  "switch_off a \<longleftrightarrow> strcaseeq a ''disable'' \<or> strcaseeq a ''no'' \<or> strcaseeq a ''off'' \<or> strcaseeq a ''0''"

definition switch_on :: "string \<Rightarrow> bool" where
  "switch_on a \<longleftrightarrow> strcaseeq a ''enable'' \<or> strcaseeq a ''yes'' \<or> strcaseeq a ''on'' \<or> strcaseeq a ''1''"

definition on_off_str :: "bool \<Rightarrow> string" where
  "on_off_str on = (if on then ''on'' else ''off'')"

text \<open>The switches change the control preferences of the plugins; the result has the exit code and what was printed.\<close>

definition do_ifnamer ::
    "('s, 'f) pref_session_ops \<Rightarrow> bool \<Rightarrow> string \<Rightarrow> string list \<Rightarrow> 's control_state \<times> 'f \<Rightarrow>
     (nat \<times> out_note list) \<times> 's control_state \<times> 'f" where
  "do_ifnamer pf ios pref argv w =
     (if length argv > 1 then ((1, [Msg ''usage'']), w)
      else if pref \<noteq> ''allow-new-interfaces'' then ((0, []), w)
      else case argv of
        [] \<Rightarrow> (case InterfaceNamerControlPrefsAllowNewInterfaces pf ios (snd w) (fst w) of
                 (b, cs) \<Rightarrow> ((0, [Msg (''AllowNewInterfaces is '' @ on_off_str b)]), cs, snd w))
      | a # _ \<Rightarrow>
          let allow = (if switch_off a then Some False else if switch_on a then Some True
                       else if strcaseeq a ''default'' then Some False else None)
          in case allow of
               None \<Rightarrow> ((1, [Msg ''usage'']), w)
             | Some b \<Rightarrow> (case InterfaceNamerControlPrefsSetAllowNewInterfaces pf ios (snd w) b (fst w) of
                   (ok, w1) \<Rightarrow> (if ok then (0, []) else (2, [Msg ''failed to set preferences'']), w1)))"

definition do_log ::
    "('s, 'f) pref_session_ops \<Rightarrow> bool \<Rightarrow> string \<Rightarrow> string list \<Rightarrow> 's control_state \<times> 'f \<Rightarrow>
     (nat \<times> out_note list) \<times> 's control_state \<times> 'f" where
  "do_log pf ios log argv w =
     (if log \<noteq> ''IPMonitor'' then ((0, []), w)
      else case argv of
        [] \<Rightarrow> (case IPMonitorControlPrefsIsVerbose pf ios (snd w) (fst w) of
                 (b, cs) \<Rightarrow> ((0, [Msg (''IPMonitor log is '' @ on_off_str b)]), cs, snd w))
      | a # _ \<Rightarrow>
          (case (if switch_off a then Some False else if switch_on a then Some True else None) of
             None \<Rightarrow> ((1, [Msg ''invalid value, must be on or off'']), w)
           | Some b \<Rightarrow> (case IPMonitorControlPrefsSetVerbose pf ios (snd w) b (fst w) of
                 (ok, w1) \<Rightarrow> (if ok then (0, []) else (2, [Msg ''failed to set preferences'']), w1))))"

section \<open>Disabling an interface until it is needed\<close>

text \<open>
  The first enabled service of the current set whose interface has the name. The current set and its
  services, the enabled flag and the name of an interface come from the framework.
\<close>

fun find_configured :: "(scnservice \<Rightarrow> bool) \<Rightarrow> (scnif \<Rightarrow> string option) \<Rightarrow> string \<Rightarrow> scnservice list \<Rightarrow> scnif option" where
  "find_configured enabled bsd_name if_name [] = None"
| "find_configured enabled bsd_name if_name (s # services) =
     (if enabled s
      then case ns_interface s of
             Some i \<Rightarrow> if bsd_name i = Some if_name then Some i else find_configured enabled bsd_name if_name services
           | None \<Rightarrow> find_configured enabled bsd_name if_name services
      else find_configured enabled bsd_name if_name services)"

definition copy_configured_interface ::
    "('p option \<Rightarrow> scnservice list option) \<Rightarrow> (scnservice \<Rightarrow> bool) \<Rightarrow> (scnif \<Rightarrow> string option) \<Rightarrow> 'p option \<Rightarrow> string \<Rightarrow> scnif option" where
  "copy_configured_interface current_services enabled bsd_name prefs if_name =
     (if prefs = None then None
      else case current_services prefs of
             None \<Rightarrow> None
           | Some services \<Rightarrow> find_configured enabled bsd_name if_name services)"

record 'p until_needed_ops =
  un_services :: "'p option \<Rightarrow> scnservice list option"
  un_enabled :: "scnservice \<Rightarrow> bool"
  un_bsd_name :: "scnif \<Rightarrow> string option"
  un_set :: "'p option \<Rightarrow> scnif \<Rightarrow> bool option \<Rightarrow> bool \<times> 'p option"
  un_get :: "'p option \<Rightarrow> scnif \<Rightarrow> bool"

datatype until_needed_arg = Un_show | Un_set bool | Un_default | Un_invalid

definition until_needed_of_args :: "string list \<Rightarrow> until_needed_arg" where
  "until_needed_of_args args =
     (case args of
        [] \<Rightarrow> Un_show
      | a # _ \<Rightarrow> if strcaseeq a ''on'' then Un_set True else if strcaseeq a ''off'' then Un_set False
                 else if a = '''' \<or> strcaseeq a ''default'' then Un_default else Un_invalid)"

definition do_disable_until_needed ::
    "'p sp_ops \<Rightarrow> 'p until_needed_ops \<Rightarrow> string list \<Rightarrow> 'p prefs_tool \<Rightarrow> 'p prefs_tool prog" where
  "do_disable_until_needed ops un argv s =
     (case argv of
        if_name # args \<Rightarrow>
          let arg = until_needed_of_args args in
          if length args > 1 \<or> arg = Un_invalid then Exit 1 (print_note (Msg ''usage'') s)
          else with_session ops ''scutil --disable-until-needed'' (\<lambda>s1.
            let p = pw_prefs (sc_world s1) in
            case copy_configured_interface (un_services un) (un_enabled un) (un_bsd_name un) p if_name of
              None \<Rightarrow> Exit 1 (print_note (Msg (if_name @ '' is not configured'')) s1)
            | Some net_if \<Rightarrow>
                if arg = Un_show
                then Exit 0 (upd_world prefs_close (print_note (Msg (on_off_str (un_get un p net_if))) s1))
                else (case un_set un p net_if (case arg of Un_set on \<Rightarrow> Some on | _ \<Rightarrow> None) of
                        (False, _) \<Rightarrow> Exit 1 (print_note (Msg ''failed to turn disable-until-needed'') s1)
                      | (True, p1) \<Rightarrow>
                          (case prefs_save ops (upd_world (\<lambda>w. w\<lparr>pw_prefs := p1\<rparr>) s1) of
                             Exit n s2 \<Rightarrow> Exit n s2
                           | Go s2 \<Rightarrow> Exit 0 (upd_world prefs_close s2)))) s
      | [] \<Rightarrow> Exit 1 (print_note (Msg ''usage'') s))"

end
