(* ===== verification/ScutilPrefsProps.thy ===== *)
theory ScutilPrefsProps
  imports ScutilNames
begin

text \<open>
  What holds of the preference commands: changes are not lost by accident, reading a path and
  writing it back changes nothing, and writing never touches the paths below.
\<close>

section \<open>Changes that were not committed\<close>

text \<open>
  A user at a terminal does not lose changes by accident. With changes that were not committed, \<open>close\<close>,
  \<open>quit\<close> and \<open>open\<close> without the argument \<open>!\<close> change nothing but what is printed: the session
  and its changes stay and the tool goes on, whatever the other arguments are.
\<close>

theorem prefs_uncommitted_kept:
  assumes "pw_changed (sc_world s)" "pw_terminal (sc_world s)" "argv = [] \<or> hd argv \<noteq> ''!''"
  shows "sc_world (do_prefs_close argv s) = sc_world s \<and>
    sc_world (do_prefs_quit argv s) = sc_world s \<and> sc_termRequested (do_prefs_quit argv s) = sc_termRequested s \<and>
    (pw_prefs (sc_world s) = None \<or> sc_world (snd (do_prefs_open ops argv s)) = sc_world s)"
  using assms by (auto simp: do_prefs_close_def do_prefs_quit_def do_prefs_open_def prefs_commitRequired_def print_note_def)

definition changed_world :: "dict prefs_world" where
  "changed_world = \<lparr>pw_prefs = Some fmempty, pw_ni_prefs = None, pw_changed = True, pw_path = None,
     pw_authorization = None, pw_terminal = True\<rparr>"

definition prefs_tool_start :: "'p prefs_world \<Rightarrow> 'p prefs_tool" where
  "prefs_tool_start w = \<lparr>sc_value = Some (CFDictionary fmempty), sc_store = False, sc_watchedKeys = Null,
     sc_watchedPatterns = Null, sc_notifyRl = False, sc_notifyRls = False, sc_doDispatch = False, sc_watchers = 0,
     sc_nesting = 0, sc_termRequested = False, sc_enablePrivateAPI = False, sc_out = [], sc_world = w\<rparr>"

lemma prefs_uncommitted_kept_witness:
  "sc_world (do_prefs_close [] (prefs_tool_start changed_world)) = changed_world \<and>
   sc_world (do_prefs_quit [] (prefs_tool_start changed_world)) = changed_world \<and>
   \<not> sc_termRequested (do_prefs_quit [] (prefs_tool_start changed_world))"
  using prefs_uncommitted_kept[of "prefs_tool_start changed_world" "[]"]
  by (simp add: prefs_tool_start_def changed_world_def)

text \<open>
  With \<open>!\<close> the command \<open>open\<close> says twice what becomes of the changes, and the session that it replaces
  is not closed: the second check is made without the argument.
\<close>

lemma open_abandons_twice:
  assumes "pw_changed (sc_world s)" "pw_terminal (sc_world s)"
  shows "do_prefs_close [] (snd (prefs_commitRequired [''!''] (Some ''close'') s)) =
    print_note (Msg ''preference changes have not been committed or close ! to abandon changes'')
      (print_note (Msg ''preference changes abandoned'') s)"
  using assms by (simp add: do_prefs_close_def prefs_commitRequired_def print_note_def)

section \<open>Values and children of a path\<close>

lemma lookup_children [simp]:
  "fmlookup (path_children d) k = (case fmlookup d k of Some v \<Rightarrow> if is_dict v then Some v else None | None \<Rightarrow> None)"
  by (auto simp: path_children_def split: option.splits)

lemma lookup_values [simp]:
  "fmlookup (path_values d) k = (case fmlookup d k of Some v \<Rightarrow> if is_dict v then None else Some v | None \<Rightarrow> None)"
  by (auto simp: path_values_def split: option.splits)

lemma children_values: "path_children d ++\<^sub>f path_values d = d"
  by (rule fmap_ext) (auto simp: fmlookup_dom_iff split: option.splits)

lemma children_disjoint: "fmdom (path_children d) |\<inter>| fmdom (path_values d) = {||}"
proof (rule ccontr)
  assume "fmdom (path_children d) |\<inter>| fmdom (path_values d) \<noteq> {||}"
  then obtain k where "k |\<in>| fmdom (path_children d)" "k |\<in>| fmdom (path_values d)" by blast
  then obtain v w where "fmlookup (path_children d) k = Some v" "fmlookup (path_values d) k = Some w"
    by (auto simp: fmlookup_dom_iff)
  then show False by (auto split: option.splits if_splits)
qed

lemma prefs_new_dict_keeps:
  assumes "prefs_new_dict ops p path v = Ret (Inr new)" "fst (sp_path_get ops p path) = Some (CFDictionary d)"
  shows "fmlookup new k = (case fmlookup (path_children d) k of Some x \<Rightarrow> Some x | None \<Rightarrow> fmlookup v k)"
proof -
  obtain st where get: "sp_path_get ops p path = (Some (CFDictionary d), st)"
    using assms(2) by (cases "sp_path_get ops p path") simp
  then have disj: "fmdom (path_children d) |\<inter>| fmdom v = {||}" and new: "new = path_children d ++\<^sub>f v"
    using assms(1) by (auto simp: prefs_new_dict_def split: if_splits)
  show ?thesis
  proof (cases "fmlookup (path_children d) k")
    case None
    then show ?thesis by (simp only: new fmlookup_add) (auto simp: fmlookup_dom_iff split: option.splits)
  next
    case (Some x)
    then have "k |\<in>| fmdom (path_children d)" by (rule fmdomI)
    with disj have "k |\<notin>| fmdom v" by blast
    with Some show ?thesis by (simp only: new fmlookup_add) simp
  qed
qed

text \<open>The law of the preference store that the commands rely on: what was written at a path is what is read there.\<close>

locale prefs_store =
  fixes ops :: "'p sp_ops"
  assumes path_get_set: "sp_path_set ops p path v = ((True, st), p') \<Longrightarrow> fst (sp_path_get ops p' path) = Some v"
begin

lemma set_reads_back:
  assumes "do_prefs_set ops [a] s = Ret s'" "sp_utf8 ops a = Some path"
    and "sp_path_set ops (pw_prefs (sc_world s)) path (CFDictionary new) = ((True, st), p')"
    and "sc_value s = Some (CFDictionary v)" "prefs_new_dict ops (pw_prefs (sc_world s)) path v = Ret (Inr new)"
  shows "fst (sp_path_get ops (pw_prefs (sc_world s')) path) = Some (CFDictionary new) \<and> pw_changed (sc_world s')"
  using assms path_get_set[OF assms(3)]
  by (auto simp: do_prefs_set_def path_arg_def session_call_def upd_world_def)

end

text \<open>
  Writing a path keeps the paths below it. When \<open>set\<close> in \<open>--prefs\<close> writes the tool's value \<open>v\<close> at
  a path whose dictionary is \<open>d\<close>, the path reads afterwards as a dictionary with every child of \<open>d\<close> as
  it was and otherwise exactly the values of \<open>v\<close>, and the change is marked as not committed; a value with a key that
  is a child is refused and changes no preferences.
\<close>

theorem do_prefs_set_keeps_children:
  assumes "prefs_store ops" "sp_utf8 ops a = Some path" "sc_value s = Some (CFDictionary v)"
    and "fst (sp_path_get ops (pw_prefs (sc_world s)) path) = Some (CFDictionary d)"
    and "\<And>x. \<exists>st p'. sp_path_set ops (pw_prefs (sc_world s)) path x = ((True, st), p')"
  shows "\<exists>s'. do_prefs_set ops [a] s = Ret s' \<and>
    (if fmdom (path_children d) |\<inter>| fmdom v \<noteq> {||} then sc_world s' = sc_world s
     else pw_changed (sc_world s') \<and>
       (\<exists>new. fst (sp_path_get ops (pw_prefs (sc_world s')) path) = Some (CFDictionary new) \<and>
         (\<forall>k. fmlookup new k = (case fmlookup (path_children d) k of Some x \<Rightarrow> Some x | None \<Rightarrow> fmlookup v k))))"
proof -
  obtain st where get: "sp_path_get ops (pw_prefs (sc_world s)) path = (Some (CFDictionary d), st)"
    using assms(4) by (cases "sp_path_get ops (pw_prefs (sc_world s)) path") simp
  show ?thesis
  proof (cases "fmdom (path_children d) |\<inter>| fmdom v = {||}")
    case False
    then show ?thesis using assms(2,3) get
      by (simp add: do_prefs_set_def path_arg_def prefs_new_dict_def print_note_def)
  next
    case True
    let ?new = "path_children d ++\<^sub>f v"
    have new: "prefs_new_dict ops (pw_prefs (sc_world s)) path v = Ret (Inr ?new)"
      using True get by (simp add: prefs_new_dict_def)
    obtain st1 p1 where set: "sp_path_set ops (pw_prefs (sc_world s)) path (CFDictionary ?new) = ((True, st1), p1)"
      using assms(5) by blast
    obtain s' where run: "do_prefs_set ops [a] s = Ret s'"
      using assms(2,3) new by (simp add: do_prefs_set_def path_arg_def)
    have "pw_changed (sc_world s') \<and>
       (\<exists>new. fst (sp_path_get ops (pw_prefs (sc_world s')) path) = Some (CFDictionary new) \<and>
         (\<forall>k. fmlookup new k = (case fmlookup (path_children d) k of Some x \<Rightarrow> Some x | None \<Rightarrow> fmlookup v k)))"
      using prefs_store.set_reads_back[OF assms(1) run assms(2) set assms(3) new]
        prefs_new_dict_keeps[OF new assms(4)] by (intro conjI exI[of _ ?new]) blast+
    with True run show ?thesis by simp
  qed
qed

text \<open>A store of dictionaries by path.\<close>

definition flat_ops :: "(string \<Rightarrow> plist option) sp_ops" where
  "flat_ops = \<lparr>sp_utf8 = Some, sp_euid = 0, sp_getenv = \<lambda>_. None, sp_authorize = None,
     sp_create = \<lambda>_ _ _. (Some (\<lambda>_. None), kSCStatusOK),
     sp_commit = \<lambda>p. ((True, kSCStatusOK), p), sp_apply = \<lambda>p. ((True, kSCStatusOK), p),
     sp_lock = \<lambda>_ p. ((True, kSCStatusOK), p), sp_unlock = \<lambda>p. ((True, kSCStatusOK), p), sp_sync = id,
     sp_path_get = \<lambda>p path. (case p of None \<Rightarrow> (None, kSCStatusNoPrefsSession) | Some m \<Rightarrow> (m path, kSCStatusNoKey)),
     sp_path_set = \<lambda>p path v. (case p of None \<Rightarrow> ((False, kSCStatusNoPrefsSession), None)
       | Some m \<Rightarrow> ((True, kSCStatusOK), Some (m(path \<mapsto> v)))),
     sp_path_remove = \<lambda>p path. (case p of None \<Rightarrow> ((False, kSCStatusNoPrefsSession), None)
       | Some m \<Rightarrow> ((True, kSCStatusOK), Some (m(path := None)))),
     sp_get_link = \<lambda>_ _. None, sp_set_link = \<lambda>p _ _. ((False, kSCStatusFailed), p)\<rparr>"

interpretation flat: prefs_store flat_ops
  by unfold_locales (auto simp: flat_ops_def split: option.splits)

definition flat_start :: "dict \<Rightarrow> dict \<Rightarrow> (string \<Rightarrow> plist option) prefs_tool" where
  "flat_start d v = (prefs_tool_start \<lparr>pw_prefs = Some [''/a'' \<mapsto> CFDictionary d], pw_ni_prefs = None, pw_changed = False,
     pw_path = None, pw_authorization = None, pw_terminal = False\<rparr>)\<lparr>sc_value := Some (CFDictionary v)\<rparr>"

lemma do_prefs_set_keeps_children_witness:
  "\<exists>s'. do_prefs_set flat_ops [''/a''] (flat_start (fmupd ''b'' (CFDictionary fmempty) fmempty) (fmupd ''x'' (CFNumber 1) fmempty)) = Ret s' \<and>
     pw_changed (sc_world s')"
proof -
  let ?d = "fmupd ''b'' (CFDictionary fmempty) fmempty" and ?v = "fmupd ''x'' (CFNumber 1) (fmempty :: dict)"
  have "fmdom (path_children ?d) |\<inter>| fmdom ?v = {||}"
    by (simp add: path_children_def)
  with do_prefs_set_keeps_children[OF flat.prefs_store_axioms, of "''/a''" "''/a''" "flat_start ?d ?v" ?v ?d]
  show ?thesis by (auto simp: flat_ops_def flat_start_def prefs_tool_start_def)
qed

text \<open>
  Reading a path and writing it back changes nothing. \<open>get\<close> leaves the values of the path without its
  children as the tool's value; \<open>set\<close> of that value at the same path writes exactly the dictionary
  that was there.
\<close>

theorem do_prefs_get_set:
  assumes "sp_utf8 ops a = Some path"
    and "fst (sp_path_get ops (pw_prefs (sc_world s)) path) = Some (CFDictionary d)"
  shows "\<exists>s1. do_prefs_get ops [a] s = Ret s1 \<and> sc_world s1 = sc_world s \<and>
    do_prefs_set ops [a] s1 = Ret (session_call (sp_path_set ops (pw_prefs (sc_world s)) path (CFDictionary d))
      (\<lambda>w. w\<lparr>pw_changed := True\<rparr>) s1)"
proof -
  obtain st where get: "sp_path_get ops (pw_prefs (sc_world s)) path = (Some (CFDictionary d), st)"
    using assms(2) by (cases "sp_path_get ops (pw_prefs (sc_world s)) path") simp
  let ?s0 = "case sp_get_link ops (pw_prefs (sc_world s)) path of None \<Rightarrow> s | Some link \<Rightarrow> print_note (Msg (''--> '' @ link)) s"
  have w: "sc_world ?s0 = sc_world s" by (auto simp: print_note_def split: option.splits)
  let ?s1 = "?s0\<lparr>sc_value := Some (CFDictionary (path_values d))\<rparr>"
  have run: "do_prefs_get ops [a] s = Ret ?s1"
    using assms(1) get by (simp add: do_prefs_get_def path_arg_def w Let_def)
  have "prefs_new_dict ops (pw_prefs (sc_world s)) path (path_values d) = Ret (Inr d)"
    using get by (simp add: prefs_new_dict_def children_disjoint children_values)
  then have "do_prefs_set ops [a] ?s1 = Ret (session_call (sp_path_set ops (pw_prefs (sc_world s)) path (CFDictionary d))
      (\<lambda>w. w\<lparr>pw_changed := True\<rparr>) ?s1)"
    using assms(1) w by (simp add: do_prefs_set_def path_arg_def)
  with run w show ?thesis by (intro exI[of _ ?s1]) simp
qed

lemma do_prefs_get_set_witness:
  "\<exists>s1. do_prefs_get flat_ops [''/a''] (flat_start (fmupd ''b'' (CFDictionary fmempty) fmempty) fmempty) = Ret s1 \<and>
     do_prefs_set flat_ops [''/a''] s1 = Ret (session_call (sp_path_set flat_ops
       (pw_prefs (sc_world (flat_start (fmupd ''b'' (CFDictionary fmempty) fmempty) fmempty))) ''/a''
       (CFDictionary (fmupd ''b'' (CFDictionary fmempty) fmempty))) (\<lambda>w. w\<lparr>pw_changed := True\<rparr>) s1)"
  using do_prefs_get_set[of flat_ops "''/a''" "''/a''" "flat_start (fmupd ''b'' (CFDictionary fmempty) fmempty) fmempty"
      "fmupd ''b'' (CFDictionary fmempty) fmempty"]
  by (auto simp: flat_ops_def flat_start_def prefs_tool_start_def)

text \<open>At the end of the input the new name is none, which removes the name that was stored.\<close>

lemma name_at_end_of_input: "nm_stdin nm = [] \<Longrightarrow> new_name ops nm [] old = None"
  by (simp add: new_name_def copyStringFromSTDIN_def fgets_def)

end
