(* ===== verification/NetOptions.thy ===== *)
theory NetOptions
  imports ScutilNames
begin

text \<open>
  The options of the network commands of \<open>scutil\<close> (first part of net.c, net.h): tables of options,
  each with the type of its value, and the loop that applies the arguments of a command to a
  configuration.

  The pointer to the function that handles an option is a constructor of the table's own datatype,
  with the argument \<open>info\<close> in it; \<open>run\<close> says what the functions do. An argument that is not
  there is the NULL behind the arguments, and using it is \<open>UB\<close>; so is the NULL that the
  conversion of bytes leaves that are no text.
\<close>

section \<open>Tables\<close>

datatype option_type =
    isOther | isHelp | isChooseOne | isChooseMultiple | isBool | isBoolean | isNumber | isString | isStringArray

record selection =
  se_selection :: string
  se_key :: "string option"
  se_flags :: uint32

definition selectionNotAvailable :: uint32 where "selectionNotAvailable = push_bit 0 1"

definition choice :: "string \<Rightarrow> string \<Rightarrow> uint32 \<Rightarrow> selection" where
  "choice s k f = \<lparr>se_selection = s, se_key = Some k, se_flags = f\<rparr>"

text \<open>\<open>op_choices\<close> and \<open>op_help\<close> are the two readings of \<open>info\<close>, as choices and as lines of text.\<close>

record 'h option_row =
  op_option :: string
  op_description :: "string option"
  op_type :: option_type
  op_key :: "string option"
  op_handler :: "'h option"
  op_choices :: "selection list"
  op_help :: "string list"

definition row :: "string \<Rightarrow> string option \<Rightarrow> option_type \<Rightarrow> string option \<Rightarrow> 'h option \<Rightarrow> 'h option_row" where
  "row name description type key handler =
     \<lparr>op_option = name, op_description = description, op_type = type, op_key = key, op_handler = handler,
      op_choices = [], op_help = []\<rparr>"

definition row_choices ::
    "string \<Rightarrow> string option \<Rightarrow> option_type \<Rightarrow> string option \<Rightarrow> 'h option \<Rightarrow> selection list \<Rightarrow> 'h option_row" where
  "row_choices name description type key handler choices = (row name description type key handler)\<lparr>op_choices := choices\<rparr>"

definition row_help :: "string list \<Rightarrow> 'h option_row" where
  "row_help help = (row ''?'' None isHelp None None)\<lparr>op_help := help\<rparr>"

text \<open>
  What the commands use of CoreFoundation and of the private part of the framework: text from
  bytes and its bytes, comparison without case, blanks removed at both ends, and addresses: the
  address of a family that a text gives, and the text of an address in a buffer of a size.
\<close>

record opt_env =
  oe_utf8 :: "string \<Rightarrow> string option"
  oe_bytes :: "string \<Rightarrow> string"
  oe_same :: "string \<Rightarrow> string \<Rightarrow> bool"
  oe_trim :: "string \<Rightarrow> string"
  oe_string_to_sockaddr :: "string \<Rightarrow> int \<Rightarrow> uint8 list option"
  oe_sockaddr_to_string :: "uint8 list \<Rightarrow> nat \<Rightarrow> string"

record 'x opt_state =
  os_config :: dict
  os_out :: "string list"
  os_extra :: 'x

definition say :: "string \<Rightarrow> 'x opt_state \<Rightarrow> 'x opt_state" where
  "say m s = s\<lparr>os_out := os_out s @ [m]\<rparr>"

definition put :: "string \<Rightarrow> plist \<Rightarrow> 'x opt_state \<Rightarrow> 'x opt_state" where
  "put k v s = s\<lparr>os_config := fmupd k v (os_config s)\<rparr>"

definition unset :: "string \<Rightarrow> 'x opt_state \<Rightarrow> 'x opt_state" where
  "unset k s = s\<lparr>os_config := fmdrop k (os_config s)\<rparr>"

section \<open>Looking up\<close>

definition copy_number :: "string \<Rightarrow> int option outcome" where
  "copy_number arg = sscanf_int arg"

fun find_option :: "string \<Rightarrow> 'h option_row list \<Rightarrow> 'h option_row option" where
  "find_option name [] = None"
| "find_option name (r # options) = (if strcaseeq name (op_option r) then Some r else find_option name options)"

fun find_selection :: "opt_env \<Rightarrow> string \<Rightarrow> selection list \<Rightarrow> selection option" where
  "find_selection env c [] = None"
| "find_selection env c (x # choices) = (if oe_same env c (se_selection x) then Some x else find_selection env c choices)"

definition described :: "string \<Rightarrow> 'h option_row \<Rightarrow> string" where
  "described d r = (case op_description r of None \<Rightarrow> d | Some x \<Rightarrow> x)"

text \<open>Text from an argument, separated at the commas.\<close>

definition text_arg :: "opt_env \<Rightarrow> string \<Rightarrow> string outcome" where
  "text_arg env a = (case oe_utf8 env a of None \<Rightarrow> UB | Some s \<Rightarrow> Ret s)"

definition list_arg :: "opt_env \<Rightarrow> string \<Rightarrow> string list outcome" where
  "list_arg env a = obind (text_arg env a) (\<lambda>s. Ret (split_at_char (CHR '','') s))"

text \<open>\<open>*(options[optionIndex].key)\<close>\<close>

definition at_key :: "string option \<Rightarrow> (string \<Rightarrow> 'a outcome) \<Rightarrow> 'a outcome" where
  "at_key k f = (case k of None \<Rightarrow> UB | Some key \<Rightarrow> f key)"

section \<open>One option\<close>

text \<open>\<open>True\<close> when the processing goes on.\<close>

type_synonym 'x opt_result = "(bool \<times> 'x opt_state) outcome"

definition choose_one :: "opt_env \<Rightarrow> 'h option_row \<Rightarrow> string \<Rightarrow> 'x opt_state \<Rightarrow> 'x opt_result" where
  "choose_one env r a s =
     obind (text_arg env a) (\<lambda>c.
       case find_selection env c (op_choices r) of
         None \<Rightarrow> Ret (False, say (''invalid '' @ described ''selection'' r) s)
       | Some x \<Rightarrow>
           if se_flags x AND selectionNotAvailable \<noteq> 0
           then Ret (False, say (''cannot select '' @ described ''selection'' r) s)
           else at_key (op_key r) (\<lambda>key.
                  case se_key x of
                    Some v \<Rightarrow> Ret (True, put key (CFString v) s)
                  | None \<Rightarrow> Ret (True, unset key s)))"

text \<open>The choices of a list; a choice that is not there or not available empties what was chosen and ends the loop.\<close>

fun chosen_of ::
    "opt_env \<Rightarrow> 'h option_row \<Rightarrow> string list \<Rightarrow> string list \<Rightarrow> 'x opt_state \<Rightarrow> (string list \<times> 'x opt_state) outcome" where
  "chosen_of env r [] chosen s = Ret (chosen, s)"
| "chosen_of env r (c # cs) chosen s =
     (case find_selection env c (op_choices r) of
        None \<Rightarrow> Ret ([], say (''invalid '' @ described ''selection'' r) s)
      | Some x \<Rightarrow>
          if se_flags x AND selectionNotAvailable \<noteq> 0
          then Ret ([], say (''cannot select '' @ described ''selection'' r) s)
          else (case se_key x of None \<Rightarrow> UB | Some v \<Rightarrow> chosen_of env r cs (chosen @ [v]) s))"

definition choose_multiple :: "opt_env \<Rightarrow> 'h option_row \<Rightarrow> string \<Rightarrow> 'x opt_state \<Rightarrow> 'x opt_result" where
  "choose_multiple env r a s =
     (if a \<noteq> []
      then obind (list_arg env a) (\<lambda>cs.
           obind (chosen_of env r cs [] s) (\<lambda>(chosen, s1).
           at_key (op_key r) (\<lambda>key.
             Ret (True, if chosen \<noteq> [] then put key (CFArray (map CFString chosen)) s1 else unset key s1))))
      else at_key (op_key r) (\<lambda>key. Ret (True, unset key s)))"

definition set_switch :: "(bool \<Rightarrow> plist) \<Rightarrow> 'h option_row \<Rightarrow> string \<Rightarrow> 'x opt_state \<Rightarrow> 'x opt_result" where
  "set_switch value_of r a s =
     (if switch_off a then at_key (op_key r) (\<lambda>key. Ret (True, put key (value_of False) s))
      else if switch_on a then at_key (op_key r) (\<lambda>key. Ret (True, put key (value_of True) s))
      else if a = [] then at_key (op_key r) (\<lambda>key. Ret (True, unset key s))
      else Ret (False, say ''invalid value'' s))"

definition CFNumberRef :: "bool \<Rightarrow> plist" where
  "CFNumberRef b = CFNumber (if b then 1 else 0)"

definition set_number :: "'h option_row \<Rightarrow> string \<Rightarrow> 'x opt_state \<Rightarrow> 'x opt_result" where
  "set_number r a s =
     (if a \<noteq> []
      then obind (copy_number a) (\<lambda>n.
             case n of
               Some num \<Rightarrow> at_key (op_key r) (\<lambda>key. Ret (True, put key (CFNumber num) s))
             | None \<Rightarrow> Ret (False, say ''invalid value'' s))
      else at_key (op_key r) (\<lambda>key. Ret (True, unset key s)))"

definition set_string :: "opt_env \<Rightarrow> 'h option_row \<Rightarrow> string \<Rightarrow> 'x opt_state \<Rightarrow> 'x opt_result" where
  "set_string env r a s =
     at_key (op_key r) (\<lambda>key.
       if a \<noteq> [] then obind (text_arg env a) (\<lambda>t. Ret (True, put key (CFString t) s))
       else Ret (True, unset key s))"

definition set_string_array :: "opt_env \<Rightarrow> 'h option_row \<Rightarrow> string \<Rightarrow> 'x opt_state \<Rightarrow> 'x opt_result" where
  "set_string_array env r a s =
     at_key (op_key r) (\<lambda>key.
       if a \<noteq> [] then obind (list_arg env a) (\<lambda>l. Ret (True, put key (CFArray (map CFString l)) s))
       else Ret (True, unset key s))"

text \<open>The types that take an argument, and the message when there is none.\<close>

definition missing_arg :: "'h option_row \<Rightarrow> string" where
  "missing_arg r =
     (case op_type r of
        isChooseOne \<Rightarrow> described ''selection'' r @ '' not specified''
      | isChooseMultiple \<Rightarrow> described ''selection'' r @ ''(s) not specified''
      | isBool \<Rightarrow> described ''enable/disable'' r @ '' not specified''
      | isBoolean \<Rightarrow> described ''enable/disable'' r @ '' not specified''
      | isStringArray \<Rightarrow> described ''value'' r @ ''(s) not specified''
      | _ \<Rightarrow> described ''value'' r @ '' not specified'')"

definition set_typed :: "opt_env \<Rightarrow> 'h option_row \<Rightarrow> string \<Rightarrow> 'x opt_state \<Rightarrow> 'x opt_result" where
  "set_typed env r a s =
     (case op_type r of
        isChooseOne \<Rightarrow> choose_one env r a s
      | isChooseMultiple \<Rightarrow> choose_multiple env r a s
      | isBool \<Rightarrow> set_switch CFBoolean r a s
      | isBoolean \<Rightarrow> set_switch CFNumberRef r a s
      | isNumber \<Rightarrow> set_number r a s
      | isString \<Rightarrow> set_string env r a s
      | isStringArray \<Rightarrow> set_string_array env r a s
      | _ \<Rightarrow> Ret (True, s))"

text \<open>The switch over the types, with the arguments that are left.\<close>

definition process_type ::
    "opt_env \<Rightarrow> 'h option_row \<Rightarrow> string list \<Rightarrow> 'x opt_state \<Rightarrow> (bool \<times> string list \<times> 'x opt_state) outcome" where
  "process_type env r argv s =
     (if op_type r = isOther then Ret (True, argv, s)
      else if op_type r = isHelp then Ret (False, argv, s\<lparr>os_out := os_out s @ op_help r\<rparr>)
      else case argv of
        [] \<Rightarrow> Ret (False, [], say (missing_arg r) s)
      | a # rest \<Rightarrow> obind (set_typed env r a s) (\<lambda>(ok, s1). Ret (ok, rest, s1)))"

text \<open>What a handler does: the number of arguments it used, negative when it failed, and the new state.\<close>

type_synonym ('h, 'x) handler_run =
  "'h \<Rightarrow> string option \<Rightarrow> string option \<Rightarrow> string list \<Rightarrow> 'x opt_state \<Rightarrow> (int \<times> 'x opt_state) outcome"

definition process_handler ::
    "('h, 'x) handler_run \<Rightarrow> 'h option_row \<Rightarrow> string list \<Rightarrow> 'x opt_state \<Rightarrow> (bool \<times> string list \<times> 'x opt_state) outcome" where
  "process_handler run r argv s =
     (case op_handler r of
        None \<Rightarrow> Ret (True, argv, s)
      | Some h \<Rightarrow>
          obind (run h (op_key r) (op_description r) argv s) (\<lambda>(nArgs, s1).
            Ret (if nArgs < 0 then (False, argv, s1) else (True, drop (nat nArgs) argv, s1))))"

definition process_option ::
    "opt_env \<Rightarrow> ('h, 'x) handler_run \<Rightarrow> 'h option_row \<Rightarrow> string list \<Rightarrow> 'x opt_state \<Rightarrow>
     (bool \<times> string list \<times> 'x opt_state) outcome" where
  "process_option env run r argv s =
     obind (process_type env r argv s) (\<lambda>(ok, rest, s1).
       if ok then process_handler run r rest s1 else Ret (False, rest, s1))"

lemma process_option_rest:
  "process_option env run r argv s = Ret (ok, rest, s') \<Longrightarrow> length rest \<le> length argv"
  by (auto simp: process_option_def process_type_def process_handler_def
      split: if_splits list.splits option.splits prod.splits)

section \<open>The loop\<close>

function process_options ::
    "opt_env \<Rightarrow> ('h, 'x) handler_run \<Rightarrow> 'h option_row list \<Rightarrow> string list \<Rightarrow> 'x opt_state \<Rightarrow> 'x opt_result" where
  "process_options env run options [] s = Ret (True, s)"
| "process_options env run options (a # argv) s =
     (case find_option a options of
        None \<Rightarrow> Ret (False, say ''set what?'' s)
      | Some r \<Rightarrow>
          (case process_option env run r argv s of
             UB \<Rightarrow> UB
           | Ret (ok, rest, s1) \<Rightarrow> if ok then process_options env run options rest s1 else Ret (False, s1)))"
  by pat_completeness auto

termination
  by (relation "measure (\<lambda>(_, _, _, argv, _). length argv)") (auto dest: process_option_rest)

end
