(* ===== verification/ProtoOptions.thy ===== *)
theory ProtoOptions
  imports NetOptions
begin

text \<open>
  The configuration of a network protocol from the command line of \<open>scutil\<close> (net_protocol.c): the
  options of DNS, IPv4, IPv6 and SMB, with what their handlers do and what is checked at the end.

  The keys and values of a configuration are the texts of the framework's constants. For a constant
  that is private to the framework the text is the name without its prefix.
\<close>

section \<open>Arguments\<close>

definition AF_INET :: int where "AF_INET = 2"
definition AF_INET6 :: int where "AF_INET6 = 30"

definition copyIPv4Address :: "opt_env \<Rightarrow> string \<Rightarrow> string option" where
  "copyIPv4Address env arg =
     (case oe_string_to_sockaddr env arg AF_INET of
        None \<Rightarrow> None
      | Some sin \<Rightarrow> oe_utf8 env (oe_sockaddr_to_string env sin 128))"

definition copyIPv6Address :: "opt_env \<Rightarrow> string \<Rightarrow> string option" where
  "copyIPv6Address env arg =
     (case oe_string_to_sockaddr env arg AF_INET6 of
        None \<Rightarrow> None
      | Some sin6 \<Rightarrow> oe_utf8 env (oe_sockaddr_to_string env sin6 128))"

definition trim_dots :: "string \<Rightarrow> string" where
  "trim_dots s = rev (dropWhile ((=) (CHR ''.'')) (rev (dropWhile ((=) (CHR ''.'')) s)))"

definition cleanupDomainName :: "opt_env \<Rightarrow> string \<Rightarrow> string option" where
  "cleanupDomainName env domain =
     (let newDomain = trim_dots (oe_trim env domain) in if newDomain = [] then None else Some newDomain)"

definition cleanupName :: "opt_env \<Rightarrow> string \<Rightarrow> string option" where
  "cleanupName env name = (let newName = oe_trim env name in if newName = [] then None else Some newName)"

text \<open>\<open>_SC_cfstring_to_cstring\<close> with a buffer on the stack: the bytes and their final zero have to fit.\<close>

definition cstring_in :: "opt_env \<Rightarrow> nat \<Rightarrow> string \<Rightarrow> string option" where
  "cstring_in env room t = (if length (oe_bytes env t) < room then Some (oe_bytes env t) else None)"

text \<open>
  \<open>strtol(str, &end, 10)\<close>: the number, clamped to what a long holds, and what follows it, which is
  all of the text when there are no digits.
\<close>

definition clamp_long :: "int \<Rightarrow> int" where
  "clamp_long n = max (- (2 ^ 63)) (min (2 ^ 63 - 1) n)"

definition strtol :: "string \<Rightarrow> int \<times> string" where
  "strtol str =
     (case take_sign (skip_blanks str) of
        (neg, s) \<Rightarrow> (case take_digits 10 None s of
            (None, _) \<Rightarrow> (0, str)
          | (Some n, rest) \<Rightarrow> (clamp_long (if neg then - int n else int n), rest)))"

section \<open>Handlers that set one entry\<close>

type_synonym 'x arg_handler = "string option \<Rightarrow> string list \<Rightarrow> 'x opt_state \<Rightarrow> (int \<times> 'x opt_state) outcome"

text \<open>One argument, empty to remove the entry; otherwise \<open>value_of\<close> gives the value or there is a message.\<close>

definition set_entry :: "string \<Rightarrow> string \<Rightarrow> (string \<Rightarrow> plist option outcome) \<Rightarrow> 'x arg_handler" where
  "set_entry missing bad value_of key argv s =
     (case argv of
        [] \<Rightarrow> Ret (- 1, say missing s)
      | a # _ \<Rightarrow>
          if a \<noteq> []
          then obind (value_of a) (\<lambda>v.
                 case v of
                   Some x \<Rightarrow> at_key key (\<lambda>k. Ret (1, put k x s))
                 | None \<Rightarrow> Ret (- 1, say bad s))
          else at_key key (\<lambda>k. Ret (1, unset k s)))"

text \<open>The elements of an argument, each of which has to be good; an empty list removes the entry.\<close>

fun all_good :: "(string \<Rightarrow> string option) \<Rightarrow> string list \<Rightarrow> string list option" where
  "all_good f [] = Some []"
| "all_good f (x # xs) = (case f x of None \<Rightarrow> None | Some y \<Rightarrow> map_option ((#) y) (all_good f xs))"

definition set_entries ::
    "opt_env \<Rightarrow> string \<Rightarrow> string \<Rightarrow> (string \<Rightarrow> string option) \<Rightarrow> 'x arg_handler" where
  "set_entries env missing bad element key argv s =
     (case argv of
        [] \<Rightarrow> Ret (- 1, say missing s)
      | a # _ \<Rightarrow>
          obind (if a \<noteq> [] then obind (list_arg env a) (\<lambda>array. Ret (all_good element array)) else Ret (Some [])) (\<lambda>r.
            case r of
              None \<Rightarrow> Ret (- 1, say bad s)
            | Some l \<Rightarrow> at_key key (\<lambda>k.
                Ret (1, if l \<noteq> [] then put k (CFArray (map CFString l)) s else unset k s))))"

section \<open>DNS\<close>

definition doDNSDomain :: "opt_env \<Rightarrow> 'x arg_handler" where
  "doDNSDomain env =
     set_entry ''DNS domain name not specified'' ''invalid DNS domain name''
       (\<lambda>a. obind (text_arg env a) (\<lambda>str. Ret (map_option CFString (cleanupDomainName env str))))"

definition doDNSDomainArray :: "opt_env \<Rightarrow> 'x arg_handler" where
  "doDNSDomainArray env =
     set_entries env ''DNS search domain name(s) not specified'' ''invalid DNS search domain name''
       (cleanupDomainName env)"

definition dns_server :: "opt_env \<Rightarrow> string \<Rightarrow> string option" where
  "dns_server env t =
     (case cstring_in env 32 t of
        None \<Rightarrow> None
      | Some str \<Rightarrow> (case copyIPv4Address env str of Some server \<Rightarrow> Some server | None \<Rightarrow> copyIPv6Address env str))"

definition doDNSServerAddresses :: "opt_env \<Rightarrow> 'x arg_handler" where
  "doDNSServerAddresses env =
     set_entries env ''DNS name server address(es) not specified'' ''invalid DNS name server address'' (dns_server env)"

datatype dns_handler = DoDNSDomain | DoDNSDomainArray | DoDNSServerAddresses

fun run_dns :: "opt_env \<Rightarrow> (dns_handler, 'x) handler_run" where
  "run_dns env DoDNSDomain key _ argv s = doDNSDomain env key argv s"
| "run_dns env DoDNSDomainArray key _ argv s = doDNSDomainArray env key argv s"
| "run_dns env DoDNSServerAddresses key _ argv s = doDNSServerAddresses env key argv s"

definition dnsOptions :: "dns_handler option_row list" where
  "dnsOptions =
    [ row ''DomainName'' (Some ''domain'') isOther (Some ''DomainName'') (Some DoDNSDomain),
      row ''domain'' (Some ''domain'') isOther (Some ''DomainName'') (Some DoDNSDomain),
      row ''SearchDomains'' (Some ''search'') isOther (Some ''SearchDomains'') (Some DoDNSDomainArray),
      row ''search'' (Some ''search'') isOther (Some ''SearchDomains'') (Some DoDNSDomainArray),
      row ''ServerAddresses'' (Some ''address'') isOther (Some ''ServerAddresses'') (Some DoDNSServerAddresses),
      row ''nameserver'' (Some ''address'') isOther (Some ''ServerAddresses'') (Some DoDNSServerAddresses),
      row ''nameservers'' (Some ''address'') isOther (Some ''ServerAddresses'') (Some DoDNSServerAddresses),
      row ''SupplementalMatchDomains'' (Some ''domain'') isOther (Some ''SupplementalMatchDomains'') (Some DoDNSDomainArray),
      row_help
       [ [], ''DNS configuration commands'', [],
         '' set protocol search domain-name[,domain-name-2]'',
         '' set protocol nameserver x1.x1.x1.x1[,x2.x2.x2.x2]'' ] ]"

definition set_protocol_dns :: "opt_env \<Rightarrow> string list \<Rightarrow> 'x opt_state \<Rightarrow> 'x opt_result" where
  "set_protocol_dns env argv s = process_options env (run_dns env) dnsOptions argv s"

section \<open>IPv4\<close>

definition allowIPv4Address :: uint32 where "allowIPv4Address = push_bit 1 1"
definition allowIPv4Netmask :: uint32 where "allowIPv4Netmask = push_bit 2 1"
definition allowIPv4Router :: uint32 where "allowIPv4Router = push_bit 3 1"
definition allowIPv4DHCPClientID :: uint32 where "allowIPv4DHCPClientID = push_bit 4 1"

definition ipv4ConfigMethods :: "selection list" where
  "ipv4ConfigMethods =
    [ choice ''BOOTP'' ''BOOTP'' 0,
      choice ''DHCP'' ''DHCP'' allowIPv4DHCPClientID,
      choice ''INFORM'' ''INFORM'' allowIPv4Address,
      choice ''LinkLocal'' ''LinkLocal'' 0,
      choice ''Manual'' ''Manual'' (allowIPv4Address OR allowIPv4Netmask OR allowIPv4Router),
      choice ''PPP'' ''PPP'' (allowIPv4Address OR selectionNotAvailable) ]"

text \<open>
  The method of a configuration among the choices. \<open>CFStringCompare\<close> needs text: no method,
  or one that is no text, is \<open>UB\<close>.
\<close>

definition method_in :: "opt_env \<Rightarrow> string \<Rightarrow> selection list \<Rightarrow> dict \<Rightarrow> selection option outcome" where
  "method_in env key choices c =
     (case fmlookup c key of
        Some (CFString method) \<Rightarrow> Ret (find_selection env method choices)
      | _ \<Rightarrow> UB)"

definition unset_unless :: "uint32 \<Rightarrow> uint32 \<Rightarrow> string \<Rightarrow> 'x opt_state \<Rightarrow> 'x opt_state" where
  "unset_unless flags allow key s = (if flags AND allow = 0 then unset key s else s)"

definition doIPv4ConfigMethod :: "opt_env \<Rightarrow> 'x arg_handler" where
  "doIPv4ConfigMethod env key argv s =
     at_key key (\<lambda>k. obind (method_in env k ipv4ConfigMethods (os_config s)) (\<lambda>m.
       case m of
         None \<Rightarrow> Ret (- 1, say ''unknown configuration method'' s)
       | Some x \<Rightarrow>
           Ret (0, unset_unless (se_flags x) allowIPv4DHCPClientID ''DHCPClientID''
                     (unset_unless (se_flags x) allowIPv4Router ''Router''
                       (unset_unless (se_flags x) allowIPv4Netmask ''SubnetMasks''
                         (unset_unless (se_flags x) allowIPv4Address ''Addresses'' s))))))"

text \<open>The first argument is read without a look at their number.\<close>

definition set_address :: "(string \<Rightarrow> string option) \<Rightarrow> bool \<Rightarrow> 'x arg_handler" where
  "set_address address_of useArray key argv s =
     (case argv of
        [] \<Rightarrow> UB
      | a # _ \<Rightarrow>
          if a \<noteq> []
          then (case address_of a of
                  Some address \<Rightarrow> at_key key (\<lambda>k.
                    Ret (1, put k (if useArray then CFArray [CFString address] else CFString address) s))
                | None \<Rightarrow> Ret (- 1, s))
          else at_key key (\<lambda>k. Ret (1, unset k s)))"

definition doIPv4Addresses :: "opt_env \<Rightarrow> bool \<Rightarrow> 'x arg_handler" where
  "doIPv4Addresses env = set_address (copyIPv4Address env)"

datatype ipv4_handler = DoIPv4ConfigMethod | DoIPv4Addresses bool

fun run_ipv4 :: "opt_env \<Rightarrow> (ipv4_handler, 'x) handler_run" where
  "run_ipv4 env DoIPv4ConfigMethod key _ argv s = doIPv4ConfigMethod env key argv s"
| "run_ipv4 env (DoIPv4Addresses useArray) key _ argv s = doIPv4Addresses env useArray key argv s"

definition ipv4Options :: "ipv4_handler option_row list" where
  "ipv4Options =
    [ row_choices ''ConfigMethod'' (Some ''configuration method'') isChooseOne (Some ''ConfigMethod'')
        (Some DoIPv4ConfigMethod) ipv4ConfigMethods,
      row_choices ''config'' (Some ''configuration method'') isChooseOne (Some ''ConfigMethod'')
        (Some DoIPv4ConfigMethod) ipv4ConfigMethods,
      row ''Addresses'' (Some ''address'') isOther (Some ''Addresses'') (Some (DoIPv4Addresses True)),
      row ''address'' (Some ''address'') isOther (Some ''Addresses'') (Some (DoIPv4Addresses True)),
      row ''SubnetMasks'' (Some ''netmask'') isOther (Some ''SubnetMasks'') (Some (DoIPv4Addresses True)),
      row ''netmask'' (Some ''netmask'') isOther (Some ''SubnetMasks'') (Some (DoIPv4Addresses True)),
      row ''Router'' (Some ''address'') isOther (Some ''Router'') (Some (DoIPv4Addresses False)),
      row ''DHCPClientID'' (Some ''client ID'') isString (Some ''DHCPClientID'') None,
      row_help
       [ [], ''IPv4 configuration commands'', [],
         '' set protocol config {BOOTP|DHCP|INFORM|MANUAL}'',
         [], '' w/config=BOOTP'', ''   None'',
         [], '' w/config=DHCP'', ''   set protocol dhcpclientid identifier'',
         [], '' w/config=INFORM'', ''   set protocol address x.x.x.x'',
         [], '' w/config=MANUAL'', ''   set protocol address x.x.x.x'', ''   set protocol netmask x.x.x.x'',
         ''   set protocol router  x.x.x.x'' ] ]"

text \<open>The checks at the end: the entries that a method does not allow, each with the name it has in the message.\<close>

fun first_forbidden :: "uint32 \<Rightarrow> (uint32 \<times> string \<times> string) list \<Rightarrow> dict \<Rightarrow> string option" where
  "first_forbidden flags [] c = None"
| "first_forbidden flags ((allow, key, what) # rules) c =
     (if flags AND allow = 0 \<and> fmlookup c key \<noteq> None then Some what else first_forbidden flags rules c)"

definition check_method ::
    "opt_env \<Rightarrow> selection list \<Rightarrow> (uint32 \<times> string \<times> string) list \<Rightarrow> 'x opt_state \<Rightarrow> 'x opt_result" where
  "check_method env choices rules s =
     obind (method_in env ''ConfigMethod'' choices (os_config s)) (\<lambda>m.
       case m of
         None \<Rightarrow> Ret (False, say ''unknown configuration method'' s)
       | Some x \<Rightarrow>
           (case first_forbidden (se_flags x) rules (os_config s) of
              Some what \<Rightarrow> Ret (False, say (what @ '' not allowed with '' @ se_selection x @ '' configuration'') s)
            | None \<Rightarrow> Ret (True, s)))"

definition ipv4_rules :: "(uint32 \<times> string \<times> string) list" where
  "ipv4_rules =
    [ (allowIPv4Address, ''Addresses'', ''IP address''),
      (allowIPv4Netmask, ''SubnetMasks'', ''Subnet mask''),
      (allowIPv4Router, ''Router'', ''Default route''),
      (allowIPv4DHCPClientID, ''DHCPClientID'', ''DHCP client ID'') ]"

definition set_protocol_ipv4 :: "opt_env \<Rightarrow> string list \<Rightarrow> 'x opt_state \<Rightarrow> 'x opt_result" where
  "set_protocol_ipv4 env argv s =
     obind (process_options env (run_ipv4 env) ipv4Options argv s) (\<lambda>(ok, s1).
       if ok then check_method env ipv4ConfigMethods ipv4_rules s1 else Ret (False, s1))"

section \<open>IPv6\<close>

definition allowIPv6Address :: uint32 where "allowIPv6Address = push_bit 1 1"
definition allowIPv6PrefixLength :: uint32 where "allowIPv6PrefixLength = push_bit 2 1"
definition allowIPv6Router :: uint32 where "allowIPv6Router = push_bit 3 1"

definition ipv6ConfigMethods :: "selection list" where
  "ipv6ConfigMethods =
    [ choice ''Automatic'' ''Automatic'' 0,
      choice ''Manual'' ''Manual'' (allowIPv6Address OR allowIPv6PrefixLength OR allowIPv6Router),
      choice ''RouterAdvertisement'' ''RouterAdvertisement'' allowIPv6Address,
      choice ''6to4'' ''6to4'' 0 ]"

definition doIPv6ConfigMethod :: "opt_env \<Rightarrow> 'x arg_handler" where
  "doIPv6ConfigMethod env key argv s =
     at_key key (\<lambda>k. obind (method_in env k ipv6ConfigMethods (os_config s)) (\<lambda>m.
       case m of
         None \<Rightarrow> Ret (- 1, say ''unknown configuration method'' s)
       | Some x \<Rightarrow>
           Ret (0, unset_unless (se_flags x) allowIPv6Router ''Router''
                     (unset_unless (se_flags x) allowIPv6PrefixLength ''PrefixLength''
                       (unset_unless (se_flags x) allowIPv6Address ''Addresses'' s)))))"

definition doIPv6Addresses :: "opt_env \<Rightarrow> bool \<Rightarrow> 'x arg_handler" where
  "doIPv6Addresses env = set_address (copyIPv6Address env)"

text \<open>The number goes from long to int, so only its low 32 bits count; \<open>errno\<close> is cleared after the call.\<close>

definition prefix_length :: "string \<Rightarrow> int option" where
  "prefix_length arg =
     (case strtol arg of
        (val, rest) \<Rightarrow>
          let prefixLength = signed_take_bit 31 val in
          if rest = [] \<and> prefixLength > 0 \<and> prefixLength \<le> 128 then Some prefixLength else None)"

definition doIPv6PrefixLength :: "'x arg_handler" where
  "doIPv6PrefixLength key argv s =
     (case argv of
        [] \<Rightarrow> UB
      | a # _ \<Rightarrow>
          if a \<noteq> []
          then (case prefix_length a of
                  Some n \<Rightarrow> at_key key (\<lambda>k. Ret (1, put k (CFArray [CFNumber n]) s))
                | None \<Rightarrow>
                    Ret (- 1, say (''Invalid prefix length '' @ [CHR 0x27] @ a @ [CHR 0x27] @ '' (valid range 1..128)'') s))
          else at_key key (\<lambda>k. Ret (1, unset k s)))"

datatype ipv6_handler = DoIPv6ConfigMethod | DoIPv6Addresses bool | DoIPv6PrefixLength

fun run_ipv6 :: "opt_env \<Rightarrow> (ipv6_handler, 'x) handler_run" where
  "run_ipv6 env DoIPv6ConfigMethod key _ argv s = doIPv6ConfigMethod env key argv s"
| "run_ipv6 env (DoIPv6Addresses useArray) key _ argv s = doIPv6Addresses env useArray key argv s"
| "run_ipv6 env DoIPv6PrefixLength key _ argv s = doIPv6PrefixLength key argv s"

definition ipv6Options :: "ipv6_handler option_row list" where
  "ipv6Options =
    [ row_choices ''ConfigMethod'' (Some ''configuration method'') isChooseOne (Some ''ConfigMethod'')
        (Some DoIPv6ConfigMethod) ipv6ConfigMethods,
      row_choices ''config'' (Some ''configuration method'') isChooseOne (Some ''ConfigMethod'')
        (Some DoIPv6ConfigMethod) ipv6ConfigMethods,
      row ''Addresses'' (Some ''address'') isOther (Some ''Addresses'') (Some (DoIPv6Addresses True)),
      row ''address'' (Some ''address'') isOther (Some ''Addresses'') (Some (DoIPv6Addresses True)),
      row ''EnableCGA'' None isBoolean (Some ''EnableCGA'') None,
      row ''PrefixLength'' (Some ''prefix length'') isOther (Some ''PrefixLength'') (Some DoIPv6PrefixLength),
      row ''Router'' (Some ''address'') isOther (Some ''Router'') (Some (DoIPv6Addresses False)),
      row_help
       [ [], ''IPv6 configuration commands'', [],
         '' set protocol config {Automatic|MANUAL}'',
         [], '' w/config=Automatic'', ''   None'',
         [], '' w/config=MANUAL'', ''   set protocol address x:x:x:x:x:x'', ''   set protocol router  x:x:x:x:x:x'',
         ''   set protocol prefixlength n'' ] ]"

definition ipv6_rules :: "(uint32 \<times> string \<times> string) list" where
  "ipv6_rules =
    [ (allowIPv6Address, ''Addresses'', ''IP address''),
      (allowIPv6PrefixLength, ''PrefixLength'', ''Prefix length''),
      (allowIPv6Router, ''Router'', ''Router'') ]"

definition set_protocol_ipv6 :: "opt_env \<Rightarrow> string list \<Rightarrow> 'x opt_state \<Rightarrow> 'x opt_result" where
  "set_protocol_ipv6 env argv s =
     obind (process_options env (run_ipv6 env) ipv6Options argv s) (\<lambda>(ok, s1).
       if ok then check_method env ipv6ConfigMethods ipv6_rules s1 else Ret (False, s1))"

section \<open>SMB\<close>

definition doSMBName :: "opt_env \<Rightarrow> 'x arg_handler" where
  "doSMBName env =
     set_entry ''NetBIOS name not specified'' ''invalid NetBIOS name''
       (\<lambda>a. obind (text_arg env a) (\<lambda>str. Ret (map_option CFString (cleanupName env str))))"

definition doSMBWorkgroup :: "opt_env \<Rightarrow> 'x arg_handler" where
  "doSMBWorkgroup env =
     set_entry ''Workgroup not specified'' ''invalid Workgroup''
       (\<lambda>a. obind (text_arg env a) (\<lambda>str. Ret (map_option CFString (cleanupName env str))))"

definition wins_server :: "opt_env \<Rightarrow> string \<Rightarrow> string option" where
  "wins_server env t = (case cstring_in env 32 t of None \<Rightarrow> None | Some str \<Rightarrow> copyIPv4Address env str)"

definition doSMBWINSAddresses :: "opt_env \<Rightarrow> 'x arg_handler" where
  "doSMBWINSAddresses env =
     set_entries env ''WINS address(es) not specified'' ''invalid WINS address'' (wins_server env)"

definition smbNodeTypes :: "selection list" where
  "smbNodeTypes =
    [ choice ''Broadcast'' ''Broadcast'' 0,
      choice ''Peer'' ''Peer'' 0,
      choice ''Mixed'' ''Mixed'' 0,
      choice ''Hybrid'' ''Hybrid'' 0 ]"

datatype smb_handler = DoSMBName | DoSMBWorkgroup | DoSMBWINSAddresses

fun run_smb :: "opt_env \<Rightarrow> (smb_handler, 'x) handler_run" where
  "run_smb env DoSMBName key _ argv s = doSMBName env key argv s"
| "run_smb env DoSMBWorkgroup key _ argv s = doSMBWorkgroup env key argv s"
| "run_smb env DoSMBWINSAddresses key _ argv s = doSMBWINSAddresses env key argv s"

definition smbOptions :: "smb_handler option_row list" where
  "smbOptions =
    [ row ''NetBIOSName'' (Some ''name'') isOther (Some ''NetBIOSName'') (Some DoSMBName),
      row ''name'' (Some ''name'') isOther (Some ''NetBIOSName'') (Some DoSMBName),
      row_choices ''NetBIOSNodeType'' (Some ''type'') isChooseOne (Some ''NetBIOSNodeType'') None smbNodeTypes,
      row_choices ''type'' (Some ''type'') isChooseOne (Some ''NetBIOSNodeType'') None smbNodeTypes,
      row ''Workgroup'' (Some ''workgroup'') isOther (Some ''Workgroup'') (Some DoSMBWorkgroup),
      row ''WINSAddresses'' (Some ''wins'') isOther (Some ''WINSAddresses'') (Some DoSMBWINSAddresses),
      row ''wins'' (Some ''wins'') isOther (Some ''WINSAddresses'') (Some DoSMBWINSAddresses),
      row_help
       [ [], ''SMB configuration commands'', [],
         '' set protocol name NetBIOS-name'',
         '' set protocol type (Broadcast|Peer|Mixed|Hybrid)'',
         '' set protocol workgroup SMB-workgroup'',
         '' set protocol wins x1.x1.x1.x1[,x2.x2.x2.x2]'' ] ]"

definition set_protocol_smb :: "opt_env \<Rightarrow> string list \<Rightarrow> 'x opt_state \<Rightarrow> 'x opt_result" where
  "set_protocol_smb env argv s = process_options env (run_smb env) smbOptions argv s"

end
