(* ===== verification/ProxyOptions.thy ===== *)
theory ProxyOptions
  imports ProtoOptions
begin

text \<open>
  The options of the Proxies protocol (net_protocol.c). A proxy is selected first and the options that follow
  are about it; the selection is a static variable, so it outlives the command.
\<close>

section \<open>Proxies\<close>

record proxyKeys =
  pk_proxy :: string
  pk_keyEnable :: "string option"
  pk_keyProxy :: "string option"
  pk_keyPort :: "string option"
  pk_keyURL :: "string option"
  pk_multiple_proxies :: bool

definition host_proxy :: "string \<Rightarrow> bool \<Rightarrow> proxyKeys" where
  "host_proxy name multiple =
     \<lparr>pk_proxy = name, pk_keyEnable = Some (name @ ''Enable''), pk_keyProxy = Some (name @ ''Proxy''),
      pk_keyPort = Some (name @ ''Port''), pk_keyURL = None, pk_multiple_proxies = multiple\<rparr>"

definition proxyKeys_FTP :: proxyKeys where "proxyKeys_FTP = host_proxy ''FTP'' False"
definition proxyKeys_Gopher :: proxyKeys where "proxyKeys_Gopher = host_proxy ''Gopher'' False"
definition proxyKeys_HTTP :: proxyKeys where "proxyKeys_HTTP = host_proxy ''HTTP'' False"
definition proxyKeys_HTTPS :: proxyKeys where "proxyKeys_HTTPS = host_proxy ''HTTPS'' False"
definition proxyKeys_RTSP :: proxyKeys where "proxyKeys_RTSP = host_proxy ''RTSP'' False"
definition proxyKeys_SOCKS :: proxyKeys where "proxyKeys_SOCKS = host_proxy ''SOCKS'' False"
definition proxyKeys_TransportConverter :: proxyKeys where
  "proxyKeys_TransportConverter = host_proxy ''TransportConverter'' True"

definition proxyKeys_PAC :: proxyKeys where
  "proxyKeys_PAC =
     \<lparr>pk_proxy = ''.pac'', pk_keyEnable = Some ''ProxyAutoConfigEnable'', pk_keyProxy = None, pk_keyPort = None,
      pk_keyURL = Some ''ProxyAutoConfigURLString'', pk_multiple_proxies = False\<rparr>"

definition proxyKeys_WPAD :: proxyKeys where
  "proxyKeys_WPAD =
     \<lparr>pk_proxy = ''WPAD'', pk_keyEnable = Some ''ProxyAutoDiscoveryEnable'', pk_keyProxy = None, pk_keyPort = None,
      pk_keyURL = None, pk_multiple_proxies = False\<rparr>"

text \<open>The extra state of a command is \<open>currentProxy\<close>.\<close>

type_synonym proxy_state = "proxyKeys option opt_state"

datatype proxy_handler =
    DoProxySelect proxyKeys | DoProxyEnable bool | DoProxyHost | DoProxyPort | DoProxyURL | DoProxyFTPPassive

definition proxyOptions :: "proxy_handler option_row list" where
  "proxyOptions =
    [ row ''ExceptionsList'' (Some ''exceptions'') isStringArray (Some ''ExceptionsList'') None,
      row ''ExcludeSimpleHostnames'' None isBoolean (Some ''ExcludeSimpleHostnames'') None,
      row ''FTP'' None isOther None (Some (DoProxySelect proxyKeys_FTP)),
      row ''Gopher'' None isOther None (Some (DoProxySelect proxyKeys_Gopher)),
      row ''HTTP'' None isOther None (Some (DoProxySelect proxyKeys_HTTP)),
      row ''HTTPS'' None isOther None (Some (DoProxySelect proxyKeys_HTTPS)),
      row ''RTSP'' None isOther None (Some (DoProxySelect proxyKeys_RTSP)),
      row ''SOCKS'' None isOther None (Some (DoProxySelect proxyKeys_SOCKS)),
      row ''TransportConverter'' None isOther None (Some (DoProxySelect proxyKeys_TransportConverter)),
      row ''ProxyAutoConfig'' None isOther None (Some (DoProxySelect proxyKeys_PAC)),
      row ''.pac'' None isOther None (Some (DoProxySelect proxyKeys_PAC)),
      row ''ProxyAutoDiscovery'' None isOther None (Some (DoProxySelect proxyKeys_WPAD)),
      row ''WPAD'' None isOther None (Some (DoProxySelect proxyKeys_WPAD)),
      row ''disable'' None isOther None (Some (DoProxyEnable False)),
      row ''enable'' None isOther None (Some (DoProxyEnable True)),
      row ''proxy'' None isOther None (Some DoProxyHost),
      row ''host'' None isOther None (Some DoProxyHost),
      row ''proxies'' None isOther None (Some DoProxyHost),
      row ''hosts'' None isOther None (Some DoProxyHost),
      row ''port'' None isOther None (Some DoProxyPort),
      row ''url'' None isOther None (Some DoProxyURL),
      row ''FTPPassive'' None isBoolean (Some ''FTPPassive'') (Some DoProxyFTPPassive),
      row ''passive'' None isBoolean (Some ''FTPPassive'') (Some DoProxyFTPPassive),
      row_help
       [ [], ''Proxy configuration commands'', [],
         '' set protocol ExceptionsList exception[,exception-2]'',
         '' set protocol ExcludeSimpleHostnames {enable|disable}'', [],
         '' set protocol ftp {enable|disable}'', '' set protocol ftp host proxy-host'',
         '' set protocol ftp port proxy-port'', '' set protocol ftp passive {enable|disable}'', [],
         '' set protocol http {enable|disable}'', '' set protocol http host proxy-host'',
         '' set protocol http port proxy-port'', [],
         '' set protocol https {enable|disable}'', '' set protocol https host proxy-host'',
         '' set protocol https port proxy-port'', [],
         '' set protocol rtsp {enable|disable}'', '' set protocol rtsp host proxy-host'',
         '' set protocol rtsp port proxy-port'', [],
         '' set protocol socks {enable|disable}'', '' set protocol socks host proxy-host'',
         '' set protocol socks port proxy-port'', [],
         '' set protocol transportconverter {enable|disable}'',
         '' set protocol transportconverter host[s] proxy-host[,proxy-host-2]'',
         '' set protocol transportconverter port proxy-port'', [],
         '' set protocol .pac {enable|disable}'', '' set protocol .pac url .pac-url'', [],
         '' set protocol wpad {enable|disable}'' ] ]"

section \<open>Handlers\<close>

fun is_proxy_select :: "proxy_handler option \<Rightarrow> bool" where
  "is_proxy_select (Some (DoProxySelect _)) = True"
| "is_proxy_select _ = False"

definition doProxySelect :: "proxyKeys \<Rightarrow> string list \<Rightarrow> proxy_state \<Rightarrow> int \<times> proxy_state" where
  "doProxySelect info argv s =
     (case argv of
        [] \<Rightarrow> (- 1, say ''proxy option[s] not specified'' s)
      | a # _ \<Rightarrow>
          let s1 = s\<lparr>os_extra := Some info\<rparr> in
          case find_option a proxyOptions of
            None \<Rightarrow> (- 1, say (pk_proxy info @ '' proxy option[s] not specified'') s1)
          | Some nextOption \<Rightarrow>
              if is_proxy_select (op_handler nextOption)
              then (- 1, say (pk_proxy info @ '' proxy option[s] not specified'') s1)
              else (0, s1))"

definition unset_key :: "string option \<Rightarrow> 'x opt_state \<Rightarrow> 'x opt_state" where
  "unset_key key s = (case key of None \<Rightarrow> s | Some k \<Rightarrow> unset k s)"

definition doProxyEnable :: "bool \<Rightarrow> proxy_state \<Rightarrow> int \<times> proxy_state" where
  "doProxyEnable enabled s =
     (case os_extra s of
        None \<Rightarrow> (- 1, say ''proxy not specified'' s)
      | Some p \<Rightarrow>
          (case pk_keyEnable p of
             None \<Rightarrow> (- 1, say (pk_proxy p @ '' proxy cannot be '' @ (if enabled then ''enabled'' else ''disabled'')) s)
           | Some keyEnable \<Rightarrow>
               if enabled then (0, put keyEnable (CFNumberRef True) s)
               else (0, unset_key (pk_keyURL p) (unset_key (pk_keyPort p) (unset_key (pk_keyProxy p) (unset keyEnable s))))))"

text \<open>\<open>CFNumberGetValue\<close> fails for a number that no int holds.\<close>

definition proxy_enabled :: "dict \<Rightarrow> string option \<Rightarrow> bool" where
  "proxy_enabled configuration enableKey =
     (case enableKey of
        None \<Rightarrow> True
      | Some k \<Rightarrow>
          (case isA_CFNumber (fmlookup configuration k) of
             None \<Rightarrow> False
           | Some val \<Rightarrow> - (2 ^ 31) \<le> val \<and> val < 2 ^ 31 \<and> val \<noteq> 0))"

text \<open>The common start of the three handlers below: a proxy, its key, enabled, and an argument.\<close>

definition proxy_value ::
    "string \<Rightarrow> (proxyKeys \<Rightarrow> string option) \<Rightarrow> (proxyKeys \<Rightarrow> string \<Rightarrow> string \<Rightarrow> proxy_state \<Rightarrow> (int \<times> proxy_state) outcome) \<Rightarrow>
     string list \<Rightarrow> proxy_state \<Rightarrow> (int \<times> proxy_state) outcome" where
  "proxy_value what key_of set_value argv s =
     (case os_extra s of
        None \<Rightarrow> Ret (- 1, say ''proxy not specified'' s)
      | Some p \<Rightarrow>
          (case key_of p of
             None \<Rightarrow> Ret (- 1, say (pk_proxy p @ '' proxy '' @ what @ '' cannot be specified'') s)
           | Some key \<Rightarrow>
               if \<not> proxy_enabled (os_config s) (pk_keyEnable p)
               then Ret (- 1, say (pk_proxy p @ '' proxy not enabled'') s)
               else case argv of
                 [] \<Rightarrow> Ret (- 1, say (pk_proxy p @ '' proxy '' @ what @ '' not specified'') s)
               | a # _ \<Rightarrow> if a \<noteq> [] then set_value p key a s else Ret (1, unset key s)))"

definition doProxyHost :: "opt_env \<Rightarrow> string list \<Rightarrow> proxy_state \<Rightarrow> (int \<times> proxy_state) outcome" where
  "doProxyHost env =
     proxy_value ''host'' pk_keyProxy (\<lambda>p key a s.
       if \<not> pk_multiple_proxies p
       then obind (text_arg env a) (\<lambda>host. Ret (1, put key (CFString host) s))
       else obind (list_arg env a) (\<lambda>hosts. Ret (1, put key (CFArray (map CFString hosts)) s)))"

definition doProxyPort :: "string list \<Rightarrow> proxy_state \<Rightarrow> (int \<times> proxy_state) outcome" where
  "doProxyPort =
     proxy_value ''port'' pk_keyPort (\<lambda>p key a s.
       obind (copy_number a) (\<lambda>num.
         case num of
           Some port \<Rightarrow>
             if port < 0 \<or> port > 65535
             then Ret (- 1, say (''invalid '' @ pk_proxy p @ '' proxy port number'') s)
             else Ret (1, put key (CFNumber port) s)
         | None \<Rightarrow> Ret (- 1, say (''invalid '' @ pk_proxy p @ '' proxy port number'') s)))"

definition doProxyURL :: "opt_env \<Rightarrow> string list \<Rightarrow> proxy_state \<Rightarrow> (int \<times> proxy_state) outcome" where
  "doProxyURL env =
     proxy_value ''URL'' pk_keyURL (\<lambda>p key a s.
       obind (text_arg env a) (\<lambda>url. Ret (1, put key (CFString url) s)))"

definition doProxyFTPPassive :: "proxy_state \<Rightarrow> int \<times> proxy_state" where
  "doProxyFTPPassive s =
     (case os_extra s of
        None \<Rightarrow> (- 1, say ''proxy not specified'' s)
      | Some p \<Rightarrow>
          if p \<noteq> proxyKeys_FTP then (- 1, say ''passive can only be enable for FTP proxy'' s) else (0, s))"

fun run_proxy :: "opt_env \<Rightarrow> (proxy_handler, proxyKeys option) handler_run" where
  "run_proxy env (DoProxySelect info) _ _ argv s = Ret (doProxySelect info argv s)"
| "run_proxy env (DoProxyEnable enabled) _ _ argv s = Ret (doProxyEnable enabled s)"
| "run_proxy env DoProxyHost _ _ argv s = doProxyHost env argv s"
| "run_proxy env DoProxyPort _ _ argv s = doProxyPort argv s"
| "run_proxy env DoProxyURL _ _ argv s = doProxyURL env argv s"
| "run_proxy env DoProxyFTPPassive _ _ argv s = Ret (doProxyFTPPassive s)"

definition set_protocol_proxies :: "opt_env \<Rightarrow> string list \<Rightarrow> proxy_state \<Rightarrow> (bool \<times> proxy_state) outcome" where
  "set_protocol_proxies env argv s = process_options env (run_proxy env) proxyOptions argv s"

section \<open>Any protocol\<close>

text \<open>The configuration that a command leaves, by the type of the protocol.\<close>

definition set_protocol_of_type :: "opt_env \<Rightarrow> string \<Rightarrow> string list \<Rightarrow> proxy_state \<Rightarrow> (bool \<times> proxy_state) outcome" where
  "set_protocol_of_type env protocolType argv s =
     (if protocolType = ''DNS'' then set_protocol_dns env argv s
      else if protocolType = ''IPv4'' then set_protocol_ipv4 env argv s
      else if protocolType = ''IPv6'' then set_protocol_ipv6 env argv s
      else if protocolType = ''Proxies'' then set_protocol_proxies env argv s
      else if protocolType = ''SMB'' then set_protocol_smb env argv s
      else Ret (False, say ''this protocols configuration cannot be changed'' s))"

end
