(* ===== verification/ProtoProps.thy ===== *)
theory ProtoProps
  imports ProxyOptions ScutilDictProps
begin

text \<open>
  What the option commands do to a configuration. The locale \<open>option_table\<close> is about any table of
  options: what every typed entry and every handler keeps is kept by a command. With it, each of the
  five protocols keeps its types and leaves foreign entries alone.
\<close>

section \<open>Any table\<close>

definition available_text :: "selection list \<Rightarrow> string \<Rightarrow> bool" where
  "available_text choices t \<longleftrightarrow> (\<exists>x \<in> set choices. se_flags x AND selectionNotAvailable = 0 \<and> se_key x = Some t)"

definition is_text :: "plist \<Rightarrow> bool" where "is_text v \<longleftrightarrow> (\<exists>t. v = CFString t)"

definition are_texts :: "plist \<Rightarrow> bool" where "are_texts v \<longleftrightarrow> (\<exists>l. l \<noteq> [] \<and> v = CFArray (map CFString l))"

definition is_switch :: "plist \<Rightarrow> bool" where "is_switch v \<longleftrightarrow> v = CFNumber 0 \<or> v = CFNumber 1"

definition is_number_in :: "int \<Rightarrow> int \<Rightarrow> plist \<Rightarrow> bool" where
  "is_number_in lo hi v \<longleftrightarrow> (\<exists>n. v = CFNumber n \<and> lo \<le> n \<and> n \<le> hi)"

definition typed_value :: "'h option_row \<Rightarrow> plist \<Rightarrow> bool" where
  "typed_value r v \<longleftrightarrow>
     (case op_type r of
        isChooseOne \<Rightarrow> (\<exists>t. v = CFString t \<and> available_text (op_choices r) t)
      | isChooseMultiple \<Rightarrow> (\<exists>l. l \<noteq> [] \<and> v = CFArray (map CFString l) \<and> (\<forall>t \<in> set l. available_text (op_choices r) t))
      | isBool \<Rightarrow> (\<exists>b. v = CFBoolean b)
      | isBoolean \<Rightarrow> is_switch v
      | isNumber \<Rightarrow> is_number_in (- (2 ^ 31)) (2 ^ 31 - 1) v
      | isString \<Rightarrow> is_text v
      | isStringArray \<Rightarrow> are_texts v
      | _ \<Rightarrow> False)"

lemma find_selection_in: "find_selection env c choices = Some x \<Longrightarrow> x \<in> set choices \<and> oe_same env c (se_selection x)"
  by (induction choices) (auto split: if_splits)

lemma find_option_in: "find_option a options = Some r \<Longrightarrow> r \<in> set options \<and> strcaseeq a (op_option r)"
  by (induction options) (auto split: if_splits)

lemma split_at_char_ne [simp]: "split_at_char c xs \<noteq> []"
  by (induction xs) (auto split: list.splits)

text \<open>What setting a typed entry can do: say something, remove the entry, or put a value of the type.\<close>

definition entry_effect :: "'h option_row \<Rightarrow> 'x opt_state \<Rightarrow> 'x opt_state \<Rightarrow> bool" where
  "entry_effect r s s' \<longleftrightarrow>
     (\<exists>out. s' = s\<lparr>os_out := out\<rparr>) \<or>
     (\<exists>k out. op_key r = Some k \<and> s' = (unset k s)\<lparr>os_out := out\<rparr>) \<or>
     (\<exists>k v. op_key r = Some k \<and> typed_value r v \<and> s' = put k v s)"

lemma effect_say: "entry_effect r s (say m s)"
  unfolding entry_effect_def say_def by blast

lemma effect_unset: "op_key r = Some k \<Longrightarrow> entry_effect r s (unset k s)"
proof -
  assume "op_key r = Some k"
  moreover have "unset k s = (unset k s)\<lparr>os_out := os_out (unset k s)\<rparr>" by simp
  ultimately show ?thesis unfolding entry_effect_def by blast
qed

lemma effect_put: "op_key r = Some k \<Longrightarrow> typed_value r v \<Longrightarrow> entry_effect r s (put k v s)"
  unfolding entry_effect_def by blast

lemma effect_same: "entry_effect r s s"
proof -
  have "s = s\<lparr>os_out := os_out s\<rparr>" by simp
  then show ?thesis unfolding entry_effect_def by blast
qed

lemma at_key_Ret: "at_key k f = Ret x \<longleftrightarrow> (\<exists>key. k = Some key \<and> f key = Ret x)"
  by (auto simp: at_key_def split: option.splits)

lemma obind_option_Ret:
  "obind m (\<lambda>r. case r of None \<Rightarrow> a | Some x \<Rightarrow> f x) = Ret z \<longleftrightarrow>
     m = Ret None \<and> a = Ret z \<or> (\<exists>x. m = Ret (Some x) \<and> f x = Ret z)"
  by (cases m) (auto split: option.splits)

lemma text_arg_Ret: "text_arg env a = Ret t \<longleftrightarrow> oe_utf8 env a = Some t"
  by (auto simp: text_arg_def split: option.splits)

lemma list_arg_Ret: "list_arg env a = Ret l \<longleftrightarrow> (\<exists>t. oe_utf8 env a = Some t \<and> l = split_at_char (CHR '','') t)"
  by (auto simp: list_arg_def text_arg_Ret)

lemma chosen_of_Cons:
  assumes "chosen_of env r (c # cs) chosen s = Ret (chosen', s')"
  obtains "chosen' = []"
    | x v where "find_selection env c (op_choices r) = Some x" "se_flags x AND selectionNotAvailable = 0"
        "se_key x = Some v" "chosen_of env r cs (chosen @ [v]) s = Ret (chosen', s')"
proof (cases "find_selection env c (op_choices r)")
  case None
  with assms that(1) show ?thesis by simp
next
  case (Some x)
  show ?thesis
  proof (cases "se_flags x AND selectionNotAvailable = 0")
    case True
    with assms Some show ?thesis by (cases "se_key x") (auto intro: that(2))
  next
    case False
    with assms Some that(1) show ?thesis by simp
  qed
qed

lemma chosen_of_available:
  "chosen_of env r cs chosen s = Ret (chosen', s') \<Longrightarrow> \<forall>t \<in> set chosen. available_text (op_choices r) t \<Longrightarrow>
   t \<in> set chosen' \<Longrightarrow> available_text (op_choices r) t"
proof (induction cs arbitrary: chosen)
  case (Cons c cs)
  from Cons.prems(1) show ?case
  proof (cases rule: chosen_of_Cons)
    case 1
    with Cons.prems(3) show ?thesis by simp
  next
    case (2 x v)
    have "available_text (op_choices r) v"
      using find_selection_in [OF 2(1)] 2(2,3) unfolding available_text_def by blast
    with Cons.prems(2) have "\<forall>t \<in> set (chosen @ [v]). available_text (op_choices r) t" by simp
    from Cons.IH [OF 2(4) this Cons.prems(3)] show ?thesis .
  qed
qed simp

lemma chosen_of_state: "chosen_of env r cs chosen s = Ret (chosen', s') \<Longrightarrow> \<exists>out. s' = s\<lparr>os_out := out\<rparr>"
proof (induction env r cs chosen s rule: chosen_of.induct)
  case (1 env r chosen s)
  then have "s' = s\<lparr>os_out := os_out s\<rparr>" by simp
  then show ?case by blast
next
  case (2 env r c cs chosen s)
  then show ?case by (auto simp: say_def split: option.splits if_splits)
qed

lemma are_textsI [intro]: "l \<noteq> [] \<Longrightarrow> are_texts (CFArray (map CFString l))"
  unfolding are_texts_def by blast

lemma choose_one_effect:
  assumes t: "op_type r = isChooseOne" and r: "choose_one env r a s = Ret (ok, s')"
  shows "entry_effect r s s'"
proof -
  obtain c where c: "text_arg env a = Ret c" using r unfolding choose_one_def obind_eq_Ret by blast
  show ?thesis
  proof (cases "find_selection env c (op_choices r)")
    case None
    with r c show ?thesis by (auto simp: choose_one_def intro: effect_say)
  next
    case (Some x)
    show ?thesis
    proof (cases "se_flags x AND selectionNotAvailable = 0")
      case False
      with r c Some show ?thesis by (auto simp: choose_one_def intro: effect_say)
    next
      case True
      then obtain key where k: "op_key r = Some key"
        using r c Some by (auto simp: choose_one_def at_key_Ret)
      show ?thesis
      proof (cases "se_key x")
        case None
        with r c Some True k show ?thesis by (auto simp: choose_one_def at_key_Ret intro: effect_unset)
      next
        case (Some v)
        have "typed_value r (CFString v)"
          using t True Some find_selection_in [OF \<open>find_selection env c (op_choices r) = Some x\<close>]
          by (auto simp: typed_value_def available_text_def)
        moreover have "s' = put key (CFString v) s"
          using r c \<open>find_selection env c (op_choices r) = Some x\<close> True k Some by (auto simp: choose_one_def at_key_Ret)
        ultimately show ?thesis using k by (auto intro: effect_put)
      qed
    qed
  qed
qed

lemma choose_multiple_effect:
  assumes t: "op_type r = isChooseMultiple" and r: "choose_multiple env r a s = Ret (ok, s')"
  shows "entry_effect r s s'"
proof (cases "a = []")
  case True
  with r show ?thesis by (auto simp: choose_multiple_def at_key_Ret intro: effect_unset)
next
  case False
  then obtain cs chosen s1 key where
    c: "chosen_of env r cs [] s = Ret (chosen, s1)" and k: "op_key r = Some key"
    and s': "s' = (if chosen \<noteq> [] then put key (CFArray (map CFString chosen)) s1 else unset key s1)"
    using r by (auto simp: choose_multiple_def at_key_Ret)
  obtain out where out: "s1 = s\<lparr>os_out := out\<rparr>" using chosen_of_state [OF c] by blast
  show ?thesis
  proof (cases "chosen = []")
    case True
    with s' out have "s' = (unset key s)\<lparr>os_out := out\<rparr>" by (simp add: unset_def)
    with k show ?thesis unfolding entry_effect_def by blast
  next
    case False
    have same: "chosen_of env r cs ch s = Ret (chosen, s1) \<Longrightarrow> chosen \<noteq> [] \<Longrightarrow> s1 = s" for cs ch
      by (induction env r cs ch s rule: chosen_of.induct) (auto split: option.splits if_splits)
    have "typed_value r (CFArray (map CFString chosen))"
      using chosen_of_available [OF c] False t by (auto simp: typed_value_def)
    with s' False k same [OF c] show ?thesis by (auto intro: effect_put)
  qed
qed

lemma set_typed_effect: "set_typed env r a s = Ret (ok, s') \<Longrightarrow> entry_effect r s s'"
proof (cases "op_type r")
  case isChooseOne
  assume "set_typed env r a s = Ret (ok, s')"
  with isChooseOne show ?thesis by (auto simp: set_typed_def intro: choose_one_effect)
next
  case isChooseMultiple
  assume "set_typed env r a s = Ret (ok, s')"
  with isChooseMultiple show ?thesis by (auto simp: set_typed_def intro: choose_multiple_effect)
next
  case isNumber
  assume "set_typed env r a s = Ret (ok, s')"
  with isNumber show ?thesis
    by (auto simp: set_typed_def set_number_def at_key_Ret copy_number_def typed_value_def is_number_in_def
        dest!: sscanf_int_range intro!: effect_say effect_unset effect_put split: if_splits option.splits)
next
  case isStringArray
  assume "set_typed env r a s = Ret (ok, s')"
  with isStringArray show ?thesis
    by (auto simp: set_typed_def set_string_array_def at_key_Ret list_arg_Ret typed_value_def
        intro!: effect_unset effect_put are_textsI split: if_splits)
qed (auto simp: set_typed_def set_switch_def set_string_def at_key_Ret CFNumberRef_def typed_value_def is_switch_def
    is_text_def intro!: effect_say effect_unset effect_put effect_same split: if_splits)

text \<open>
  A table and what its commands keep. The handler gets the key of its row; a table whose handlers
  and typed rows keep something has commands that keep it, whatever the arguments.
\<close>

locale option_table =
  fixes env :: opt_env
    and run :: "('h, 'x) handler_run"
    and options :: "'h option_row list"
    and keep :: "'x opt_state \<Rightarrow> bool"
  assumes out_keeps: "keep s \<Longrightarrow> keep (s\<lparr>os_out := out\<rparr>)"
    and put_keeps: "r \<in> set options \<Longrightarrow> op_key r = Some k \<Longrightarrow> typed_value r v \<Longrightarrow> keep s \<Longrightarrow> keep (put k v s)"
    and unset_keeps: "r \<in> set options \<Longrightarrow> op_key r = Some k \<Longrightarrow> keep s \<Longrightarrow> keep (unset k s)"
    and handler_keeps:
      "r \<in> set options \<Longrightarrow> op_handler r = Some h \<Longrightarrow> keep s \<Longrightarrow>
       run h (op_key r) (op_description r) argv s = Ret (n, s') \<Longrightarrow> keep s'"
begin

lemma effect_keeps: "r \<in> set options \<Longrightarrow> keep s \<Longrightarrow> entry_effect r s s' \<Longrightarrow> keep s'"
  unfolding entry_effect_def using out_keeps put_keeps unset_keeps by blast

lemma option_keeps:
  "r \<in> set options \<Longrightarrow> keep s \<Longrightarrow> process_option env run r argv s = Ret (ok, rest, s') \<Longrightarrow> keep s'"
  by (auto simp: process_option_def process_type_def process_handler_def say_def
      intro: out_keeps effect_keeps [OF _ _ set_typed_effect] handler_keeps
      split: if_splits list.splits option.splits)

lemma command_keeps: "keep s \<Longrightarrow> process_options env run options argv s = Ret (ok, s') \<Longrightarrow> keep s'"
proof (induction "length argv" arbitrary: argv s rule: less_induct)
  case less
  show ?case
  proof (cases argv)
    case Nil
    with less.prems show ?thesis by simp
  next
    case (Cons a rest)
    show ?thesis
    proof (cases "find_option a options")
      case None
      with less.prems Cons show ?thesis by (auto simp: say_def intro: out_keeps)
    next
      case (Some r)
      with less.prems(2) Cons obtain b left s1 where
        o: "process_option env run r rest s = Ret (b, left, s1)" and
        n: "(if b then process_options env run options left s1 else Ret (False, s1)) = Ret (ok, s')"
        by (auto split: outcome.splits prod.splits)
      have k: "keep s1" using option_keeps [OF _ less.prems(1) o] find_option_in [OF Some] by blast
      have "length left < length argv" using process_option_rest [OF o] Cons by simp
      with less.hyps [OF this k] n k show ?thesis by (cases b) auto
    qed
  qed
qed

end

end
