(* ===== verification/ProtoTypes.thy ===== *)
theory ProtoTypes
  imports ProtoProps
begin

text \<open>
  The types of a protocol's configuration: for each key the values that the commands store. What a command
  leaves is of these types or was there before, and keys of other kinds are as they were.
\<close>

section \<open>The types\<close>

definition available_in :: "selection list \<Rightarrow> plist \<Rightarrow> bool" where
  "available_in choices v \<longleftrightarrow> (\<exists>t. v = CFString t \<and> available_text choices t)"

definition one_text :: "plist \<Rightarrow> bool" where "one_text v \<longleftrightarrow> (\<exists>t. v = CFArray [CFString t])"

definition one_prefix :: "plist \<Rightarrow> bool" where
  "one_prefix v \<longleftrightarrow> (\<exists>n. v = CFArray [CFNumber n] \<and> 1 \<le> n \<and> n \<le> 128)"

definition proxy_schema :: "proxyKeys \<Rightarrow> (string \<times> (plist \<Rightarrow> bool)) list" where
  "proxy_schema p =
     (case pk_keyEnable p of None \<Rightarrow> [] | Some k \<Rightarrow> [(k, is_switch)]) @
     (case pk_keyProxy p of None \<Rightarrow> [] | Some k \<Rightarrow> [(k, if pk_multiple_proxies p then are_texts else is_text)]) @
     (case pk_keyPort p of None \<Rightarrow> [] | Some k \<Rightarrow> [(k, is_number_in 0 65535)]) @
     (case pk_keyURL p of None \<Rightarrow> [] | Some k \<Rightarrow> [(k, is_text)])"

definition all_proxies :: "proxyKeys list" where
  "all_proxies =
     [proxyKeys_FTP, proxyKeys_Gopher, proxyKeys_HTTP, proxyKeys_HTTPS, proxyKeys_RTSP, proxyKeys_SOCKS,
      proxyKeys_TransportConverter, proxyKeys_PAC, proxyKeys_WPAD]"

definition protocol_types :: "string \<Rightarrow> (string \<times> (plist \<Rightarrow> bool)) list" where
  "protocol_types protocolType =
     (if protocolType = ''DNS'' then
        [(''DomainName'', is_text), (''SearchDomains'', are_texts), (''ServerAddresses'', are_texts),
         (''SupplementalMatchDomains'', are_texts)]
      else if protocolType = ''IPv4'' then
        [(''ConfigMethod'', available_in ipv4ConfigMethods), (''Addresses'', one_text), (''SubnetMasks'', one_text),
         (''Router'', is_text), (''DHCPClientID'', is_text)]
      else if protocolType = ''IPv6'' then
        [(''ConfigMethod'', available_in ipv6ConfigMethods), (''Addresses'', one_text), (''EnableCGA'', is_switch),
         (''PrefixLength'', one_prefix), (''Router'', is_text)]
      else if protocolType = ''Proxies'' then
        [(''ExceptionsList'', are_texts), (''ExcludeSimpleHostnames'', is_switch), (''FTPPassive'', is_switch)]
        @ concat (map proxy_schema all_proxies)
      else if protocolType = ''SMB'' then
        [(''NetBIOSName'', is_text), (''NetBIOSNodeType'', available_in smbNodeTypes), (''Workgroup'', is_text),
         (''WINSAddresses'', are_texts)]
      else [])"

definition well_typed :: "string \<Rightarrow> string \<Rightarrow> plist \<Rightarrow> bool" where
  "well_typed protocolType k v \<longleftrightarrow> (\<exists>(key, good) \<in> set (protocol_types protocolType). k = key \<and> good v)"

definition protocol_keys :: "string \<Rightarrow> string list" where
  "protocol_keys protocolType = map fst (protocol_types protocolType)"

definition changes_typed :: "string \<Rightarrow> dict \<Rightarrow> dict \<Rightarrow> bool" where
  "changes_typed protocolType c c' \<longleftrightarrow>
     (\<forall>k v. fmlookup c' k = Some v \<longrightarrow> well_typed protocolType k v \<or> fmlookup c k = Some v) \<and>
     (\<forall>k. k \<notin> set (protocol_keys protocolType) \<longrightarrow> fmlookup c' k = fmlookup c k)"

lemma changes_typed_refl: "changes_typed pt c c"
  by (simp add: changes_typed_def)

definition typed_state :: "string \<Rightarrow> dict \<Rightarrow> 'x opt_state \<Rightarrow> bool" where
  "typed_state pt c s \<longleftrightarrow> changes_typed pt c (os_config s)"

lemma typed_out: "typed_state pt c s \<Longrightarrow> typed_state pt c (s\<lparr>os_out := out\<rparr>)"
  by (simp add: typed_state_def)

lemma typed_extra: "typed_state pt c s \<Longrightarrow> typed_state pt c (s\<lparr>os_extra := x\<rparr>)"
  by (simp add: typed_state_def)

lemma typed_say: "typed_state pt c s \<Longrightarrow> typed_state pt c (say m s)"
  by (simp add: say_def typed_out)

lemma well_typed_key: "well_typed pt k v \<Longrightarrow> k \<in> set (protocol_keys pt)"
  by (force simp: well_typed_def protocol_keys_def)

lemma typed_put: "well_typed pt k v \<Longrightarrow> typed_state pt c s \<Longrightarrow> typed_state pt c (put k v s)"
  using well_typed_key [of pt k v] by (auto simp: typed_state_def changes_typed_def put_def)

lemma typed_unset: "k \<in> set (protocol_keys pt) \<Longrightarrow> typed_state pt c s \<Longrightarrow> typed_state pt c (unset k s)"
  by (auto simp: typed_state_def changes_typed_def unset_def)

lemma well_typedI: "(k, good) \<in> set (protocol_types pt) \<Longrightarrow> good v \<Longrightarrow> well_typed pt k v"
  unfolding well_typed_def by blast

lemma protocol_keyI: "(k, good) \<in> set (protocol_types pt) \<Longrightarrow> k \<in> set (protocol_keys pt)"
  by (force simp: protocol_keys_def)

section \<open>Handlers\<close>

lemma set_entry_typed:
  assumes "set_entry missing bad value_of key argv s = Ret (n, s')" "typed_state pt c s"
    and "key = Some k" "(k, good) \<in> set (protocol_types pt)" "\<And>a v. value_of a = Ret (Some v) \<Longrightarrow> good v"
  shows "typed_state pt c s'"
  using assms(1-3) assms(5) protocol_keyI [OF assms(4)] well_typedI [OF assms(4)]
  by (auto simp: set_entry_def at_key_Ret intro: typed_say typed_unset split: list.splits if_splits option.splits)
    (blast intro: typed_put)

lemma set_entries_typed:
  assumes "set_entries env missing bad element key argv s = Ret (n, s')" "typed_state pt c s"
    and "key = Some k" "(k, are_texts) \<in> set (protocol_types pt)"
  shows "typed_state pt c s'"
proof (cases argv)
  case Nil
  with assms show ?thesis by (auto simp: set_entries_def intro: typed_say)
next
  case (Cons a rest)
  then obtain r where
    r: "(case r of None \<Rightarrow> Ret (- 1, say bad s) | Some l \<Rightarrow> at_key key (\<lambda>k.
          Ret (1, if l \<noteq> [] then put k (CFArray (map CFString l)) s else unset k s))) = Ret (n, s')"
    using assms(1) unfolding set_entries_def by (auto simp del: obind.simps)
  show ?thesis
  proof (cases r)
    case None
    with r assms(2) show ?thesis by (auto intro: typed_say)
  next
    case (Some l)
    with r assms(2,3) protocol_keyI [OF assms(4)] well_typedI [OF assms(4)] show ?thesis
      by (auto simp: at_key_Ret intro: typed_put typed_unset are_textsI split: if_splits)
  qed
qed

lemma set_address_typed:
  assumes "set_address f useArray key argv s = Ret (n, s')" "typed_state pt c s"
    and "key = Some k" "(k, if useArray then one_text else is_text) \<in> set (protocol_types pt)"
  shows "typed_state pt c s'"
  using assms(1-3) protocol_keyI [OF assms(4)] well_typedI [OF assms(4)]
  by (auto simp: set_address_def at_key_Ret one_text_def is_text_def intro: typed_put typed_unset
      split: list.splits if_splits option.splits)

lemma typed_unset_unless:
  "k \<in> set (protocol_keys pt) \<Longrightarrow> typed_state pt c s \<Longrightarrow> typed_state pt c (unset_unless flags allow k s)"
  by (simp add: unset_unless_def typed_unset)

section \<open>The five tables\<close>

text \<open>A table fits the types of a protocol when the type of each row's values is in them.\<close>

definition row_fits :: "string \<Rightarrow> 'h option_row \<Rightarrow> bool" where
  "row_fits pt r \<longleftrightarrow>
     (\<forall>k. op_key r = Some k \<longrightarrow> k \<in> set (protocol_keys pt) \<and> (\<forall>v. typed_value r v \<longrightarrow> well_typed pt k v))"

lemmas table_simps = row_def row_choices_def row_help_def row_fits_def typed_value_def

lemma keys_of_protocol:
  "set (protocol_keys ''DNS'') = {''DomainName'', ''SearchDomains'', ''ServerAddresses'', ''SupplementalMatchDomains''}"
  "set (protocol_keys ''IPv4'') = {''ConfigMethod'', ''Addresses'', ''SubnetMasks'', ''Router'', ''DHCPClientID''}"
  "set (protocol_keys ''IPv6'') = {''ConfigMethod'', ''Addresses'', ''EnableCGA'', ''PrefixLength'', ''Router''}"
  "set (protocol_keys ''SMB'') = {''NetBIOSName'', ''NetBIOSNodeType'', ''Workgroup'', ''WINSAddresses''}"
  by (auto simp: protocol_keys_def protocol_types_def)

lemma dns_fits: "r \<in> set dnsOptions \<Longrightarrow> row_fits ''DNS'' r"
  by (auto simp: dnsOptions_def table_simps keys_of_protocol)

lemma ipv4_fits: "r \<in> set ipv4Options \<Longrightarrow> row_fits ''IPv4'' r"
  by (auto simp: ipv4Options_def table_simps keys_of_protocol well_typed_def protocol_types_def available_in_def)

lemma ipv6_fits: "r \<in> set ipv6Options \<Longrightarrow> row_fits ''IPv6'' r"
  by (auto simp: ipv6Options_def table_simps keys_of_protocol well_typed_def protocol_types_def available_in_def)

lemma smb_fits: "r \<in> set smbOptions \<Longrightarrow> row_fits ''SMB'' r"
  by (auto simp: smbOptions_def table_simps keys_of_protocol well_typed_def protocol_types_def available_in_def)

lemma fits_put: "row_fits pt r \<Longrightarrow> op_key r = Some k \<Longrightarrow> typed_value r v \<Longrightarrow> typed_state pt c s \<Longrightarrow> typed_state pt c (put k v s)"
  unfolding row_fits_def by (blast intro: typed_put)

lemma fits_unset: "row_fits pt r \<Longrightarrow> op_key r = Some k \<Longrightarrow> typed_state pt c s \<Longrightarrow> typed_state pt c (unset k s)"
  unfolding row_fits_def by (blast intro: typed_unset)

text \<open>The handlers of a table with the keys that they get.\<close>

lemma dns_handlers:
  "r \<in> set dnsOptions \<Longrightarrow> op_handler r = Some h \<Longrightarrow>
   h = DoDNSDomain \<and> op_key r = Some ''DomainName'' \<or>
   h = DoDNSDomainArray \<and> op_key r \<in> {Some ''SearchDomains'', Some ''SupplementalMatchDomains''} \<or>
   h = DoDNSServerAddresses \<and> op_key r = Some ''ServerAddresses''"
  by (auto simp: dnsOptions_def row_def row_help_def)

lemma ipv4_handlers:
  "r \<in> set ipv4Options \<Longrightarrow> op_handler r = Some h \<Longrightarrow>
   h = DoIPv4ConfigMethod \<and> op_key r = Some ''ConfigMethod'' \<or>
   h = DoIPv4Addresses True \<and> op_key r \<in> {Some ''Addresses'', Some ''SubnetMasks''} \<or>
   h = DoIPv4Addresses False \<and> op_key r = Some ''Router''"
  by (auto simp: ipv4Options_def row_def row_choices_def row_help_def)

lemma ipv6_handlers:
  "r \<in> set ipv6Options \<Longrightarrow> op_handler r = Some h \<Longrightarrow>
   h = DoIPv6ConfigMethod \<and> op_key r = Some ''ConfigMethod'' \<or>
   h = DoIPv6Addresses True \<and> op_key r = Some ''Addresses'' \<or>
   h = DoIPv6Addresses False \<and> op_key r = Some ''Router'' \<or>
   h = DoIPv6PrefixLength \<and> op_key r = Some ''PrefixLength''"
  by (auto simp: ipv6Options_def row_def row_choices_def row_help_def)

lemma smb_handlers:
  "r \<in> set smbOptions \<Longrightarrow> op_handler r = Some h \<Longrightarrow>
   h = DoSMBName \<and> op_key r = Some ''NetBIOSName'' \<or>
   h = DoSMBWorkgroup \<and> op_key r = Some ''Workgroup'' \<or>
   h = DoSMBWINSAddresses \<and> op_key r = Some ''WINSAddresses''"
  by (auto simp: smbOptions_def row_def row_choices_def row_help_def)

lemma types_of_protocol:
  "(''DomainName'', is_text) \<in> set (protocol_types ''DNS'')"
  "(''SearchDomains'', are_texts) \<in> set (protocol_types ''DNS'')"
  "(''SupplementalMatchDomains'', are_texts) \<in> set (protocol_types ''DNS'')"
  "(''ServerAddresses'', are_texts) \<in> set (protocol_types ''DNS'')"
  "(''Addresses'', one_text) \<in> set (protocol_types ''IPv4'')"
  "(''SubnetMasks'', one_text) \<in> set (protocol_types ''IPv4'')"
  "(''Router'', is_text) \<in> set (protocol_types ''IPv4'')"
  "(''Addresses'', one_text) \<in> set (protocol_types ''IPv6'')"
  "(''Router'', is_text) \<in> set (protocol_types ''IPv6'')"
  "(''PrefixLength'', one_prefix) \<in> set (protocol_types ''IPv6'')"
  "(''NetBIOSName'', is_text) \<in> set (protocol_types ''SMB'')"
  "(''Workgroup'', is_text) \<in> set (protocol_types ''SMB'')"
  "(''WINSAddresses'', are_texts) \<in> set (protocol_types ''SMB'')"
  by (simp_all add: protocol_types_def)

lemma cleaned_text:
  "obind (text_arg env a) (\<lambda>str. Ret (map_option CFString (f env str))) = Ret (Some v) \<Longrightarrow> is_text v"
  by (auto simp: is_text_def)

lemma run_dns_typed:
  assumes "r \<in> set dnsOptions" "op_handler r = Some h" "typed_state ''DNS'' c s"
    and "run_dns env h (op_key r) (op_description r) argv s = Ret (n, s')"
  shows "typed_state ''DNS'' c s'"
  using dns_handlers [OF assms(1,2)] assms(3,4)
  by (auto simp: doDNSDomain_def doDNSDomainArray_def doDNSServerAddresses_def
      elim!: set_entry_typed [OF _ _ refl types_of_protocol(1) cleaned_text]
        set_entries_typed [OF _ _ refl types_of_protocol(2)] set_entries_typed [OF _ _ refl types_of_protocol(3)]
        set_entries_typed [OF _ _ refl types_of_protocol(4)])

lemma set_addresses_typed:
  assumes "set_address f True (Some k) argv s = Ret (n, s')" "typed_state pt c s" "(k, one_text) \<in> set (protocol_types pt)"
  shows "typed_state pt c s'"
  by (rule set_address_typed [OF assms(1,2) refl]) (simp add: assms(3))

lemma set_router_typed:
  assumes "set_address f False (Some k) argv s = Ret (n, s')" "typed_state pt c s" "(k, is_text) \<in> set (protocol_types pt)"
  shows "typed_state pt c s'"
  by (rule set_address_typed [OF assms(1,2) refl]) (simp add: assms(3))

lemma run_ipv4_typed:
  assumes "r \<in> set ipv4Options" "op_handler r = Some h" "typed_state ''IPv4'' c s"
    and "run_ipv4 env h (op_key r) (op_description r) argv s = Ret (n, s')"
  shows "typed_state ''IPv4'' c s'"
  using ipv4_handlers [OF assms(1,2)] assms(3,4)
  by (auto simp: doIPv4ConfigMethod_def doIPv4Addresses_def at_key_Ret
      intro!: typed_unset_unless typed_say simp: keys_of_protocol split: option.splits
      elim!: set_addresses_typed [OF _ _ types_of_protocol(5)] set_addresses_typed [OF _ _ types_of_protocol(6)]
        set_router_typed [OF _ _ types_of_protocol(7)])

lemma prefix_length_typed:
  assumes "doIPv6PrefixLength (Some ''PrefixLength'') argv s = Ret (n, s')" "typed_state ''IPv6'' c s"
  shows "typed_state ''IPv6'' c s'"
proof -
  have p: "well_typed ''IPv6'' ''PrefixLength'' (CFArray [CFNumber m])" if "prefix_length a = Some m" for a m
    using that by (intro well_typedI [OF types_of_protocol(10)])
      (auto simp: prefix_length_def Let_def one_prefix_def split: prod.splits if_splits)
  show ?thesis
    using assms by (auto simp: doIPv6PrefixLength_def at_key_Ret keys_of_protocol
        intro: typed_say typed_unset typed_put p split: list.splits if_splits option.splits)
qed

lemma run_ipv6_typed:
  assumes "r \<in> set ipv6Options" "op_handler r = Some h" "typed_state ''IPv6'' c s"
    and "run_ipv6 env h (op_key r) (op_description r) argv s = Ret (n, s')"
  shows "typed_state ''IPv6'' c s'"
  using ipv6_handlers [OF assms(1,2)] assms(3,4)
  by (auto simp: doIPv6ConfigMethod_def doIPv6Addresses_def at_key_Ret
      intro!: typed_unset_unless typed_say simp: keys_of_protocol split: option.splits
      elim!: set_addresses_typed [OF _ _ types_of_protocol(8)] set_router_typed [OF _ _ types_of_protocol(9)]
        prefix_length_typed)

lemma run_smb_typed:
  assumes "r \<in> set smbOptions" "op_handler r = Some h" "typed_state ''SMB'' c s"
    and "run_smb env h (op_key r) (op_description r) argv s = Ret (n, s')"
  shows "typed_state ''SMB'' c s'"
  using smb_handlers [OF assms(1,2)] assms(3,4)
  by (auto simp: doSMBName_def doSMBWorkgroup_def doSMBWINSAddresses_def
      elim!: set_entry_typed [OF _ _ refl types_of_protocol(11) cleaned_text]
        set_entry_typed [OF _ _ refl types_of_protocol(12) cleaned_text]
        set_entries_typed [OF _ _ refl types_of_protocol(13)])

interpretation dns: option_table env "run_dns env" dnsOptions "typed_state ''DNS'' c" for env c
  by unfold_locales (use dns_fits in \<open>blast intro: typed_out fits_put fits_unset run_dns_typed\<close>)+

interpretation ipv4: option_table env "run_ipv4 env" ipv4Options "typed_state ''IPv4'' c" for env c
  by unfold_locales (use ipv4_fits in \<open>blast intro: typed_out fits_put fits_unset run_ipv4_typed\<close>)+

interpretation ipv6: option_table env "run_ipv6 env" ipv6Options "typed_state ''IPv6'' c" for env c
  by unfold_locales (use ipv6_fits in \<open>blast intro: typed_out fits_put fits_unset run_ipv6_typed\<close>)+

interpretation smb: option_table env "run_smb env" smbOptions "typed_state ''SMB'' c" for env c
  by unfold_locales (use smb_fits in \<open>blast intro: typed_out fits_put fits_unset run_smb_typed\<close>)+

end
