(* ===== verification/ProxyProps.thy ===== *)
theory ProxyProps
  imports ProtoTypes
begin

text \<open>
  Proxies: the types of their entries, what enabling, setting and disabling one does, and the properties
  of the protocol commands.
\<close>

section \<open>Types\<close>

definition known_proxy :: "proxyKeys option \<Rightarrow> bool" where
  "known_proxy p \<longleftrightarrow> p = None \<or> the p \<in> set all_proxies"

definition proxies_typed :: "dict \<Rightarrow> proxy_state \<Rightarrow> bool" where
  "proxies_typed c s \<longleftrightarrow> typed_state ''Proxies'' c s \<and> known_proxy (os_extra s)"

lemma proxies_fits: "r \<in> set proxyOptions \<Longrightarrow> row_fits ''Proxies'' r"
  by (auto simp: proxyOptions_def table_simps protocol_keys_def well_typed_def protocol_types_def)

lemma proxy_keys:
  assumes "p \<in> set all_proxies"
  shows "pk_keyEnable p = Some k \<Longrightarrow> (k, is_switch) \<in> set (protocol_types ''Proxies'')"
    and "pk_keyProxy p = Some k \<Longrightarrow> (k, if pk_multiple_proxies p then are_texts else is_text) \<in> set (protocol_types ''Proxies'')"
    and "pk_keyPort p = Some k \<Longrightarrow> (k, is_number_in 0 65535) \<in> set (protocol_types ''Proxies'')"
    and "pk_keyURL p = Some k \<Longrightarrow> (k, is_text) \<in> set (protocol_types ''Proxies'')"
proof -
  have "set (proxy_schema p) \<subseteq> set (protocol_types ''Proxies'')"
    using assms by (auto simp: protocol_types_def)
  then show "pk_keyEnable p = Some k \<Longrightarrow> (k, is_switch) \<in> set (protocol_types ''Proxies'')"
    and "pk_keyProxy p = Some k \<Longrightarrow> (k, if pk_multiple_proxies p then are_texts else is_text) \<in> set (protocol_types ''Proxies'')"
    and "pk_keyPort p = Some k \<Longrightarrow> (k, is_number_in 0 65535) \<in> set (protocol_types ''Proxies'')"
    and "pk_keyURL p = Some k \<Longrightarrow> (k, is_text) \<in> set (protocol_types ''Proxies'')"
    by (auto simp: proxy_schema_def)
qed

lemma extra_say [simp]: "os_extra (say m s) = os_extra s"
  and extra_put [simp]: "os_extra (put k v s) = os_extra s"
  and extra_unset [simp]: "os_extra (unset k s) = os_extra s"
  and extra_unset_key [simp]: "os_extra (unset_key key s) = os_extra s"
  by (simp_all add: say_def put_def unset_def unset_key_def split: option.splits)

lemma proxies_say: "proxies_typed c s \<Longrightarrow> proxies_typed c (say m s)"
  by (simp add: proxies_typed_def typed_say)

lemma proxies_put:
  "proxies_typed c s \<Longrightarrow> (k, good) \<in> set (protocol_types ''Proxies'') \<Longrightarrow> good v \<Longrightarrow> proxies_typed c (put k v s)"
  by (simp add: proxies_typed_def typed_put well_typedI)

lemma proxies_unset:
  "proxies_typed c s \<Longrightarrow> (k, good) \<in> set (protocol_types ''Proxies'') \<Longrightarrow> proxies_typed c (unset k s)"
  by (simp add: proxies_typed_def typed_unset protocol_keyI)

lemma proxies_unset_key:
  "proxies_typed c s \<Longrightarrow> (\<And>k. key = Some k \<Longrightarrow> \<exists>good. (k, good) \<in> set (protocol_types ''Proxies'')) \<Longrightarrow>
   proxies_typed c (unset_key key s)"
  by (auto simp: unset_key_def intro: proxies_unset split: option.splits)

lemma proxy_value_typed:
  assumes run: "proxy_value what key_of set_value argv s = Ret (n, s')" and t: "proxies_typed c s"
    and key: "\<And>p k. p \<in> set all_proxies \<Longrightarrow> key_of p = Some k \<Longrightarrow> (k, good p) \<in> set (protocol_types ''Proxies'')"
    and val: "\<And>p k a n s'. p \<in> set all_proxies \<Longrightarrow> key_of p = Some k \<Longrightarrow> set_value p k a s = Ret (n, s') \<Longrightarrow> proxies_typed c s'"
  shows "proxies_typed c s'"
proof (cases "os_extra s")
  case None
  with run t show ?thesis by (auto simp: proxy_value_def intro: proxies_say)
next
  case (Some p)
  with t have p: "p \<in> set all_proxies" by (simp add: proxies_typed_def known_proxy_def)
  show ?thesis
  proof (cases "key_of p")
    case None
    with run Some t show ?thesis by (auto simp: proxy_value_def intro: proxies_say)
  next
    case (Some k)
    with run \<open>os_extra s = Some p\<close> t show ?thesis
      by (auto simp: proxy_value_def intro: proxies_say proxies_unset [OF _ key [OF p]] val [OF p]
          split: if_splits list.splits)
  qed
qed

lemma proxy_host_typed: "doProxyHost env argv s = Ret (n, s') \<Longrightarrow> proxies_typed c s \<Longrightarrow> proxies_typed c s'"
  unfolding doProxyHost_def
proof (erule proxy_value_typed [where good = "\<lambda>p. if pk_multiple_proxies p then are_texts else is_text"])
  show "(k, if pk_multiple_proxies p then are_texts else is_text) \<in> set (protocol_types ''Proxies'')"
    if "p \<in> set all_proxies" "pk_keyProxy p = Some k" for p k
    using proxy_keys(2) [OF that] .
  show "proxies_typed c s'"
    if t: "proxies_typed c s" and p: "p \<in> set all_proxies" "pk_keyProxy p = Some k"
      and r: "(if \<not> pk_multiple_proxies p then obind (text_arg env a) (\<lambda>host. Ret (1, put k (CFString host) s))
        else obind (list_arg env a) (\<lambda>hosts. Ret (1, put k (CFArray (map CFString hosts)) s))) = Ret (n, s')" for p k a n s'
    using r proxy_keys(2) [OF p] t
    by (auto simp: list_arg_Ret is_text_def are_textsI intro: proxies_put [where good = is_text]
        proxies_put [where good = are_texts] split: if_splits)
qed

lemma proxy_port_typed: "doProxyPort argv s = Ret (n, s') \<Longrightarrow> proxies_typed c s \<Longrightarrow> proxies_typed c s'"
  unfolding doProxyPort_def
  by (erule proxy_value_typed [where good = "\<lambda>p. is_number_in 0 65535"])
    (auto simp: is_number_in_def obind_option_Ret simp del: obind_eq_Ret
      intro: proxy_keys proxies_say proxies_put [OF _ proxy_keys(3)] split: if_splits)

lemma proxy_url_typed: "doProxyURL env argv s = Ret (n, s') \<Longrightarrow> proxies_typed c s \<Longrightarrow> proxies_typed c s'"
  unfolding doProxyURL_def
  by (erule proxy_value_typed [where good = "\<lambda>p. is_text"])
    (auto simp: is_text_def intro: proxy_keys proxies_put [OF _ proxy_keys(4)])

lemma proxy_enable_typed: "doProxyEnable enabled s = (n, s') \<Longrightarrow> proxies_typed c s \<Longrightarrow> proxies_typed c s'"
proof -
  assume run: "doProxyEnable enabled s = (n, s')" and t: "proxies_typed c s"
  show ?thesis
  proof (cases "os_extra s")
    case None
    with run t show ?thesis by (auto simp: doProxyEnable_def intro: proxies_say)
  next
    case (Some p)
    with t have p: "p \<in> set all_proxies" by (simp add: proxies_typed_def known_proxy_def)
    from run Some t show ?thesis
      by (auto simp: doProxyEnable_def CFNumberRef_def is_switch_def
          intro!: proxies_say proxies_put [OF _ proxy_keys(1) [OF p]] proxies_unset_key
          intro: proxies_unset [OF _ proxy_keys(1) [OF p]] proxy_keys [OF p] split: option.splits if_splits)
  qed
qed

lemma proxy_select_typed:
  "doProxySelect info argv s = (n, s') \<Longrightarrow> info \<in> set all_proxies \<Longrightarrow> proxies_typed c s \<Longrightarrow> proxies_typed c s'"
  by (auto simp: doProxySelect_def Let_def proxies_typed_def known_proxy_def
      intro: typed_say typed_extra split: list.splits option.splits if_splits)

lemma proxy_select_rows: "r \<in> set proxyOptions \<Longrightarrow> op_handler r = Some (DoProxySelect p) \<Longrightarrow> p \<in> set all_proxies"
  by (auto simp: proxyOptions_def all_proxies_def row_def row_help_def)

lemma run_proxy_typed:
  assumes "r \<in> set proxyOptions" "op_handler r = Some h" "proxies_typed c s"
    and "run_proxy env h (op_key r) (op_description r) argv s = Ret (n, s')"
  shows "proxies_typed c s'"
proof (cases h)
  case (DoProxySelect p)
  with assms proxy_select_rows show ?thesis by (auto intro: proxy_select_typed)
next
  case DoProxyFTPPassive
  with assms(3,4) show ?thesis
    by (auto simp: doProxyFTPPassive_def intro: proxies_say split: option.splits if_splits)
qed (use assms(3,4) in \<open>auto intro: proxy_enable_typed proxy_host_typed proxy_port_typed proxy_url_typed\<close>)

interpretation proxies: option_table env "run_proxy env" proxyOptions "proxies_typed c" for env c
proof
  show "proxies_typed c (s\<lparr>os_out := out\<rparr>)" if "proxies_typed c s" for s out
    using that by (simp add: proxies_typed_def typed_out)
  show "proxies_typed c (put k v s)"
    if "r \<in> set proxyOptions" "op_key r = Some k" "typed_value r v" "proxies_typed c s" for r k v and s :: proxy_state
    using that proxies_fits by (auto simp: proxies_typed_def intro: fits_put)
  show "proxies_typed c (unset k s)"
    if "r \<in> set proxyOptions" "op_key r = Some k" "proxies_typed c s" for r k and s :: proxy_state
    using that proxies_fits by (auto simp: proxies_typed_def intro: fits_unset)
qed (rule run_proxy_typed)

section \<open>Any protocol\<close>

lemma method_checked_state: "check_method env choices rules s = Ret (ok, s') \<Longrightarrow> os_config s' = os_config s"
  by (auto simp: check_method_def say_def obind_option_Ret simp del: obind_eq_Ret split: option.splits)

lemma checked_typed: "check_method env choices rules s1 = Ret (ok, s') \<Longrightarrow> typed_state pt c s1 \<Longrightarrow> typed_state pt c s'"
  by (simp add: typed_state_def method_checked_state)

lemma set_protocol_of_type_typed:
  assumes "known_proxy (os_extra s)"
    and "set_protocol_of_type env protocolType argv s = Ret (ok, s')"
  shows "changes_typed protocolType (os_config s) (os_config s')"
proof -
  let ?c = "os_config s"
  have t: "typed_state pt ?c s" for pt by (simp add: typed_state_def changes_typed_refl)
  have p: "typed_state ''Proxies'' ?c s'" if "set_protocol_proxies env argv s = Ret (ok, s')"
    using proxies.command_keeps [of ?c s env argv ok s'] that t assms(1)
    by (simp add: proxies_typed_def set_protocol_proxies_def)
  have "typed_state protocolType ?c s'"
    using assms(2) unfolding set_protocol_of_type_def
    by (auto simp: set_protocol_dns_def set_protocol_smb_def set_protocol_ipv4_def set_protocol_ipv6_def
        intro: p dns.command_keeps [OF t] smb.command_keeps [OF t] typed_say [OF t]
          ipv4.command_keeps [OF t] ipv6.command_keeps [OF t]
          checked_typed [OF _ ipv4.command_keeps [OF t]] checked_typed [OF _ ipv6.command_keeps [OF t]]
        split: if_splits)
  then show ?thesis by (simp add: typed_state_def)
qed

text \<open>
  C31. A protocol command leaves a well typed configuration: whatever the arguments, each entry of the
  result either has the type of its key (a port is between 0 and 65535, a prefix length between 1 and 128, a method is one of those
  that can be chosen, an address list is not empty) or is an entry that was there before; and
  keys that do not belong to the protocol are as they were.
\<close>

theorem set_protocol_changes_typed:
  assumes "known_proxy (os_extra s)"
    and "set_protocol_of_type env protocolType argv s = Ret (ok, s')"
  shows "changes_typed protocolType (os_config s) (os_config s')"
  by (rule set_protocol_of_type_typed [OF assms])

definition ascii_env :: opt_env where
  "ascii_env =
     \<lparr>oe_utf8 = Some, oe_bytes = id, oe_same = strcaseeq, oe_trim = id,
      oe_string_to_sockaddr = (\<lambda>a family. if a = [] then None else Some (map (\<lambda>c. of_nat (of_char c)) a)),
      oe_sockaddr_to_string = (\<lambda>a room. map (\<lambda>b. char_of (unat b)) a)\<rparr>"

definition empty_state :: proxy_state where
  "empty_state = \<lparr>os_config = fmempty, os_out = [], os_extra = None\<rparr>"

lemma set_protocol_changes_typed_witness:
  "changes_typed ''SMB'' (os_config empty_state)
     (fmupd ''Workgroup'' (CFString ''home'') (os_config empty_state))"
proof -
  have "set_protocol_of_type ascii_env ''SMB'' [''workgroup'', ''home''] empty_state =
    Ret (True, empty_state\<lparr>os_config := fmupd ''Workgroup'' (CFString ''home'') (os_config empty_state)\<rparr>)"
    by code_simp
  from set_protocol_changes_typed [OF _ this] show ?thesis by (simp add: known_proxy_def empty_state_def)
qed

end
