(* ===== verification/ProtoCommands.thy ===== *)
theory ProtoCommands
  imports ProxyProps
begin

text \<open>
  What the protocol commands compute: a proxy that is set and disabled again, addresses that go with
  the method of a configuration, and the inputs that the handlers do not survive.
\<close>

section \<open>Numbers\<close>

definition is_digit :: "char \<Rightarrow> bool" where
  "is_digit c \<longleftrightarrow> 48 \<le> (of_char c :: nat) \<and> (of_char c :: nat) \<le> 57"

lemma decimal_digits: "c \<in> set (decimal n) \<Longrightarrow> is_digit c"
proof (induction n rule: decimal.induct)
  case (1 n)
  have d: "is_digit (char_of (48 + k))" if "k < 10" for k :: nat
    using that by (simp add: is_digit_def)
  show ?case
  proof (cases "n < 10")
    case True
    with 1(2) d show ?thesis by (simp add: decimal.simps)
  next
    case False
    with 1(2) have "c \<in> set (decimal (n div 10)) \<or> c = char_of (48 + n mod 10)"
      by (subst (asm) decimal.simps) auto
    with 1(1) [OF False] d [of "n mod 10"] show ?thesis by auto
  qed
qed

lemma decimal_ne [simp]: "decimal n \<noteq> []"
  by (subst decimal.simps) simp

lemma digit_of_digit: "is_digit c \<Longrightarrow> digit_of 10 c = Some (of_char c - 48)"
  unfolding is_digit_def digit_of_def lower_def Let_def by (elim conjE) simp

lemma take_digits_all:
  "\<forall>c \<in> set s. is_digit c \<Longrightarrow>
   take_digits 10 (Some n) s = (Some (foldl (\<lambda>n c. 10 * n + (of_char c - 48)) n s), [])"
  by (induction s arbitrary: n) (simp_all add: digit_of_digit mult.commute)

lemma take_digits_decimal: "take_digits 10 None (decimal n) = (Some n, [])"
proof -
  obtain c s where cs: "decimal n = c # s" by (cases "decimal n") simp_all
  have d: "\<forall>x \<in> set (c # s). is_digit x" using decimal_digits [of _ n] cs by auto
  have "take_digits 10 None (c # s) = (Some (digits_value (c # s)), [])"
    using d by (simp add: digit_of_digit take_digits_all digits_value_def)
  with cs show ?thesis by (metis digits_value_decimal)
qed

lemma first_digit: "\<exists>c s. decimal n = c # s \<and> is_digit c"
  using decimal_digits [of _ n] by (cases "decimal n") auto

lemma digit_starts: "is_digit c \<Longrightarrow> skip_blanks (c # s) = c # s \<and> take_sign (c # s) = (False, c # s)"
proof -
  assume d: "is_digit c"
  have "\<not> isspace c" using d by (auto simp: is_digit_def isspace_def)
  moreover have "c \<noteq> CHR ''-''" "c \<noteq> CHR ''+''" using d by (auto simp: is_digit_def)
  ultimately show ?thesis by simp
qed

lemma copy_number_decimal: "n < 2 ^ 31 \<Longrightarrow> copy_number (decimal n) = Ret (Some (int n))"
proof -
  assume n: "n < 2 ^ 31"
  obtain c s where cs: "decimal n = c # s" "is_digit c" using first_digit by blast
  have "sscanf_int (c # s) = Ret (Some (int n))"
    using digit_starts [OF cs(2), of s] take_digits_decimal [of n] n cs(1)
    by (simp add: sscanf_int_def Let_def)
  with cs(1) show ?thesis by (simp add: copy_number_def)
qed


section \<open>A proxy\<close>

definition host_proxies :: "proxyKeys list" where
  "host_proxies = [proxyKeys_FTP, proxyKeys_Gopher, proxyKeys_HTTP, proxyKeys_HTTPS, proxyKeys_RTSP, proxyKeys_SOCKS]"

definition selects_itself :: "proxyKeys \<Rightarrow> bool" where
  "selects_itself p \<longleftrightarrow>
     (case find_option (pk_proxy p) proxyOptions of
        None \<Rightarrow> False
      | Some r \<Rightarrow> op_type r = isOther \<and> op_handler r = Some (DoProxySelect p))"

lemma host_proxies_select: "list_all selects_itself host_proxies"
  by code_simp

lemma find_host_proxy:
  "p \<in> set host_proxies \<Longrightarrow>
   \<exists>r. find_option (pk_proxy p) proxyOptions = Some r \<and> op_type r = isOther \<and> op_handler r = Some (DoProxySelect p)"
  using host_proxies_select by (auto simp: list_all_iff selects_itself_def split: option.splits)

lemma find_modifiers:
  "find_option ''enable'' proxyOptions = Some (row ''enable'' None isOther None (Some (DoProxyEnable True)))"
  "find_option ''disable'' proxyOptions = Some (row ''disable'' None isOther None (Some (DoProxyEnable False)))"
  "find_option ''host'' proxyOptions = Some (row ''host'' None isOther None (Some DoProxyHost))"
  "find_option ''port'' proxyOptions = Some (row ''port'' None isOther None (Some DoProxyPort))"
  by code_simp+

lemma host_proxy_keys:
  "p \<in> set host_proxies \<Longrightarrow>
   pk_keyEnable p = Some (pk_proxy p @ ''Enable'') \<and> pk_keyProxy p = Some (pk_proxy p @ ''Proxy'') \<and>
   pk_keyPort p = Some (pk_proxy p @ ''Port'') \<and> pk_keyURL p = None \<and> \<not> pk_multiple_proxies p"
  by (auto simp: host_proxies_def proxyKeys_FTP_def proxyKeys_Gopher_def proxyKeys_HTTP_def proxyKeys_HTTPS_def
      proxyKeys_RTSP_def proxyKeys_SOCKS_def host_proxy_def)

definition with_proxy :: "proxyKeys \<Rightarrow> string \<Rightarrow> nat \<Rightarrow> dict \<Rightarrow> dict" where
  "with_proxy p host port c =
     fmupd (pk_proxy p @ ''Port'') (CFNumber (int port))
       (fmupd (pk_proxy p @ ''Proxy'') (CFString host) (fmupd (pk_proxy p @ ''Enable'') (CFNumber 1) c))"

definition without_proxy :: "proxyKeys \<Rightarrow> dict \<Rightarrow> dict" where
  "without_proxy p c =
     fmdrop (pk_proxy p @ ''Port'') (fmdrop (pk_proxy p @ ''Proxy'') (fmdrop (pk_proxy p @ ''Enable'') c))"

lemma select_then:
  assumes p: "p \<in> set host_proxies" and nx: "find_option a proxyOptions = Some r" "\<not> is_proxy_select (op_handler r)"
  shows "set_protocol_proxies env (pk_proxy p # a # argv) s =
     process_options env (run_proxy env) proxyOptions (a # argv) (s\<lparr>os_extra := Some p\<rparr>)"
proof -
  obtain r0 where "find_option (pk_proxy p) proxyOptions = Some r0" "op_type r0 = isOther"
    "op_handler r0 = Some (DoProxySelect p)" using find_host_proxy [OF p] by blast
  with nx show ?thesis
    by (simp add: set_protocol_proxies_def process_option_def process_type_def process_handler_def doProxySelect_def Let_def
        del: process_options.simps(2) add: process_options.simps(2) [where a = "pk_proxy p"])
qed

lemma proxy_set:
  assumes p: "p \<in> set host_proxies" and h: "h \<noteq> []" "oe_utf8 env h = Some host" and n: "port \<le> 65535"
  shows "set_protocol_proxies env [pk_proxy p, ''enable'', ''host'', h, ''port'', decimal port] s =
     Ret (True, s\<lparr>os_config := with_proxy p host port (os_config s), os_extra := Some p\<rparr>)"
  using host_proxy_keys [OF p] h n copy_number_decimal [of port]
  by (simp add: select_then [OF p find_modifiers(1)] find_modifiers row_def process_option_def process_type_def
      process_handler_def doProxyEnable_def doProxyHost_def doProxyPort_def proxy_value_def proxy_enabled_def text_arg_def
      with_proxy_def put_def CFNumberRef_def del: find_option.simps)

lemma proxy_disable:
  assumes p: "p \<in> set host_proxies"
  shows "set_protocol_proxies env [pk_proxy p, ''disable''] s =
     Ret (True, s\<lparr>os_config := without_proxy p (os_config s), os_extra := Some p\<rparr>)"
  using host_proxy_keys [OF p]
  by (simp add: select_then [OF p find_modifiers(2)] find_modifiers row_def process_option_def process_type_def
      process_handler_def doProxyEnable_def unset_key_def without_proxy_def unset_def del: find_option.simps)

text \<open>
  C32. Setting and disabling a proxy: \<open>set protocol <proxy> enable host h port n\<close>, for each of the six
  proxies that have one host and every port up to 65535, puts exactly the three entries of the proxy, and
  \<open>set protocol <proxy> disable\<close> after it removes exactly these, so everything else is as it was before.
\<close>

theorem proxy_set_then_disable:
  assumes "p \<in> set host_proxies" "h \<noteq> []" "oe_utf8 env h = Some host" "port \<le> 65535"
  shows "\<exists>s1 s2.
    set_protocol_proxies env [pk_proxy p, ''enable'', ''host'', h, ''port'', decimal port] s = Ret (True, s1) \<and>
    os_config s1 = with_proxy p host port (os_config s) \<and>
    set_protocol_proxies env [pk_proxy p, ''disable''] s1 = Ret (True, s2) \<and>
    os_config s2 = without_proxy p (os_config s)"
proof -
  have "without_proxy p (with_proxy p host port c) = without_proxy p c" for c
    by (rule fmap_ext) (simp add: without_proxy_def with_proxy_def)
  with proxy_set [OF assms] proxy_disable [OF assms(1)] show ?thesis by simp
qed

lemma proxy_set_then_disable_witness:
  "\<exists>s1 s2.
    set_protocol_proxies ascii_env [''HTTP'', ''enable'', ''host'', ''cache'', ''port'', decimal 8080] empty_state = Ret (True, s1) \<and>
    os_config s1 = with_proxy proxyKeys_HTTP ''cache'' 8080 fmempty \<and>
    set_protocol_proxies ascii_env [''HTTP'', ''disable''] s1 = Ret (True, s2) \<and>
    os_config s2 = without_proxy proxyKeys_HTTP fmempty"
  using proxy_set_then_disable [of proxyKeys_HTTP "''cache''" ascii_env "''cache''" 8080 empty_state]
  by (simp add: host_proxies_def ascii_env_def empty_state_def proxyKeys_HTTP_def host_proxy_def)

section \<open>Methods\<close>

lemma first_forbidden_None:
  "first_forbidden flags rules c = None \<Longrightarrow> (allow, key, what) \<in> set rules \<Longrightarrow> flags AND allow = 0 \<Longrightarrow> fmlookup c key = None"
  by (induction flags rules c rule: first_forbidden.induct) (auto split: if_splits)

lemma check_method_True:
  assumes "check_method env choices rules s = Ret (True, s')"
  obtains m x where "s' = s" "fmlookup (os_config s) ''ConfigMethod'' = Some (CFString m)"
    "find_selection env m choices = Some x" "first_forbidden (se_flags x) rules (os_config s) = None"
proof -
  obtain x where x: "method_in env ''ConfigMethod'' choices (os_config s) = Ret (Some x)"
    and f: "first_forbidden (se_flags x) rules (os_config s) = None" "s' = s"
    using assms by (auto simp: check_method_def obind_option_Ret simp del: obind_eq_Ret split: option.splits)
  from x obtain m where "fmlookup (os_config s) ''ConfigMethod'' = Some (CFString m)" "find_selection env m choices = Some x"
    by (auto simp: method_in_def split: option.splits plist.splits)
  with f that show ?thesis by blast
qed

text \<open>
  C33. An IPv4 configuration that \<open>set protocol\<close> accepts is consistent: it has a method from the table, and
  no address, subnet mask, router or DHCP client identifier that this method does not allow,
  whatever was in the configuration before.
\<close>

theorem set_protocol_ipv4_consistent:
  assumes "set_protocol_ipv4 env argv s = Ret (True, s')"
  shows "\<exists>m x. fmlookup (os_config s') ''ConfigMethod'' = Some (CFString m) \<and>
    find_selection env m ipv4ConfigMethods = Some x \<and>
    (se_flags x AND allowIPv4Address = 0 \<longrightarrow> fmlookup (os_config s') ''Addresses'' = None) \<and>
    (se_flags x AND allowIPv4Netmask = 0 \<longrightarrow> fmlookup (os_config s') ''SubnetMasks'' = None) \<and>
    (se_flags x AND allowIPv4Router = 0 \<longrightarrow> fmlookup (os_config s') ''Router'' = None) \<and>
    (se_flags x AND allowIPv4DHCPClientID = 0 \<longrightarrow> fmlookup (os_config s') ''DHCPClientID'' = None)"
proof -
  obtain s1 where "check_method env ipv4ConfigMethods ipv4_rules s1 = Ret (True, s')"
    using assms by (auto simp: set_protocol_ipv4_def split: if_splits)
  then show ?thesis
  proof (rule check_method_True)
    fix m x
    assume e: "s' = s1" and m: "fmlookup (os_config s1) ''ConfigMethod'' = Some (CFString m)"
      "find_selection env m ipv4ConfigMethods = Some x" and f: "first_forbidden (se_flags x) ipv4_rules (os_config s1) = None"
    show ?thesis
      using e m first_forbidden_None [OF f] by (intro exI [of _ m] exI [of _ x]) (auto simp: ipv4_rules_def)
  qed
qed

lemma set_protocol_ipv4_consistent_witness:
  "find_selection ascii_env ''DHCP'' ipv4ConfigMethods = Some (choice ''DHCP'' ''DHCP'' allowIPv4DHCPClientID) \<and>
   (\<exists>m x. fmlookup (fmupd ''ConfigMethod'' (CFString ''DHCP'') fmempty) ''ConfigMethod'' = Some (CFString m) \<and>
      find_selection ascii_env m ipv4ConfigMethods = Some x)"
proof -
  have run: "set_protocol_ipv4 ascii_env [''config'', ''dhcp''] (empty_state\<lparr>os_config := fmupd ''Router'' (CFString ''r'') fmempty\<rparr>) =
    Ret (True, empty_state\<lparr>os_config := fmupd ''ConfigMethod'' (CFString ''DHCP'') fmempty\<rparr>)"
    by code_simp
  have "find_selection ascii_env ''DHCP'' ipv4ConfigMethods = Some (choice ''DHCP'' ''DHCP'' allowIPv4DHCPClientID)"
    by code_simp
  with set_protocol_ipv4_consistent [OF run] show ?thesis by auto
qed

lemma set_protocol_ipv6_consistent:
  assumes "set_protocol_ipv6 env argv s = Ret (True, s')"
  shows "\<exists>m x. fmlookup (os_config s') ''ConfigMethod'' = Some (CFString m) \<and>
    find_selection env m ipv6ConfigMethods = Some x \<and>
    (\<forall>(allow, key, what) \<in> set ipv6_rules. se_flags x AND allow = 0 \<longrightarrow> fmlookup (os_config s') key = None)"
proof -
  obtain s1 where "check_method env ipv6ConfigMethods ipv6_rules s1 = Ret (True, s')"
    using assms by (auto simp: set_protocol_ipv6_def split: if_splits)
  then show ?thesis by (rule check_method_True) (fastforce dest: first_forbidden_None)
qed

section \<open>Inputs that are not handled\<close>

text \<open>
  An option that takes an address reads its argument without looking whether there is one, and the check
  at the end compares the method although there may be none.
\<close>

lemma ipv4_address_missing: "set_protocol_ipv4 env [''address''] s = UB"
proof -
  have "find_option ''address'' ipv4Options = Some (row ''address'' (Some ''address'') isOther (Some ''Addresses'') (Some (DoIPv4Addresses True)))"
    by code_simp
  then show ?thesis
    by (simp add: set_protocol_ipv4_def process_option_def process_type_def process_handler_def row_def doIPv4Addresses_def
        set_address_def del: find_option.simps)
qed

lemma ipv4_without_method:
  assumes "fmlookup (os_config s) ''ConfigMethod'' = None" "a \<noteq> []"
  shows "set_protocol_ipv4 env [''DHCPClientID'', a] s = UB"
proof -
  have "find_option ''DHCPClientID'' ipv4Options = Some (row ''DHCPClientID'' (Some ''client ID'') isString (Some ''DHCPClientID'') None)"
    by code_simp
  with assms show ?thesis
    by (cases "oe_utf8 env a")
      (simp_all add: set_protocol_ipv4_def process_option_def process_type_def process_handler_def row_def set_typed_def set_string_def
        at_key_def text_arg_def put_def check_method_def method_in_def del: find_option.simps)
qed

text \<open>The prefix length is cut to 32 bits before its range is checked.\<close>

lemma prefix_length_wraps: "prefix_length ''4294967360'' = Some 64"
  by (simp add: prefix_length_def strtol_def digit_of_def lower_def isspace_def clamp_long_def Let_def)

end
