(* ===== verification/IoRegistry.thy ===== *)
theory IoRegistry
  imports NetStorage ScutilDict
begin

text \<open>
  What SCNetworkInterface.c reads from the device registry: strings, BSD names, slots and ports, the flags and names
  of a device (the section \<open>Interface details\<close> of the file).

  The registry is IOKit's and answers through \<open>io_registry\<close>, over entries of any type. The parent of an entry leads
  to the root, which is \<open>io_depth\<close> steps away: the walks up take that many steps (NetMatchProps has a walk to the root
  that they agree with). Case is folded for ASCII.
\<close>

section \<open>The registry\<close>

datatype io_path = Path_is string | Path_bad_argument | Path_failed

text \<open>
  \<open>io_search\<close> is the search of a property from the entry through its parents, \<open>io_below\<close> the entries below an entry,
  \<open>io_services\<close> the entries that a matching dictionary finds, \<open>io_text\<close> the text of bytes that end with a zero.
\<close>

record 'e io_registry =
  io_property :: "'e \<Rightarrow> string \<Rightarrow> plist option"
  io_properties :: "'e \<Rightarrow> dict option"
  io_search :: "'e \<Rightarrow> string \<Rightarrow> plist option"
  io_parent :: "'e \<Rightarrow> 'e option"
  io_depth :: "'e \<Rightarrow> nat"
  io_below :: "'e \<Rightarrow> 'e list option"
  io_conforms :: "'e \<Rightarrow> string \<Rightarrow> bool"
  io_services :: "dict \<Rightarrow> 'e list option"
  io_entry_id :: "'e \<Rightarrow> uint64 option"
  io_entry_path :: "'e \<Rightarrow> io_path"
  io_name :: "'e \<Rightarrow> string option"
  io_location :: "'e \<Rightarrow> string option"
  io_text :: "uint8 list \<Rightarrow> string option"

section \<open>Strings\<close>

definition IOCopyCFStringValue :: "'e io_registry \<Rightarrow> plist option \<Rightarrow> string option" where
  "IOCopyCFStringValue reg ioVal =
     (case ioVal of Some (CFString s) \<Rightarrow> Some s | Some (CFData d) \<Rightarrow> io_text reg d | _ \<Rightarrow> None)"

definition IODictionaryCopyBSDName :: "'e io_registry \<Rightarrow> dict \<Rightarrow> string option" where
  "IODictionaryCopyBSDName reg io_dict =
     (case fmlookup io_dict ''BSD Name'' of
        Some v \<Rightarrow> IOCopyCFStringValue reg (Some v)
      | None \<Rightarrow>
          (case (isA_CFString (fmlookup io_dict ''IOInterfaceNamePrefix''), isA_CFNumber (fmlookup io_dict ''IOInterfaceUnit'')) of
             (Some if_prefix, Some if_unit) \<Rightarrow> Some (if_prefix @ number_text if_unit)
           | _ \<Rightarrow> None))"

definition IODictionaryCopyCFStringValue :: "'e io_registry \<Rightarrow> dict \<Rightarrow> string \<Rightarrow> string option" where
  "IODictionaryCopyCFStringValue reg io_dict io_key = IOCopyCFStringValue reg (fmlookup io_dict io_key)"

definition has_prefix_ci :: "string \<Rightarrow> string \<Rightarrow> bool" where
  "has_prefix_ci p s \<longleftrightarrow> length p \<le> length s \<and> strcaseeq p (take (length p) s)"

definition IOStringValueHasPrefix :: "'e io_registry \<Rightarrow> plist option \<Rightarrow> string \<Rightarrow> bool" where
  "IOStringValueHasPrefix reg ioVal p \<longleftrightarrow>
     (case IOCopyCFStringValue reg ioVal of None \<Rightarrow> False | Some s \<Rightarrow> has_prefix_ci p s)"

section \<open>Slots\<close>

definition slot_prefixes :: "string list" where
  "slot_prefixes = [''thunderbolt slot '', ''pci slot '', ''slot-'']"

definition drop_slot_prefix :: "string \<Rightarrow> string \<Rightarrow> string" where
  "drop_slot_prefix p slot = (if length slot > length p \<and> has_prefix_ci p slot then drop (length p) slot else slot)"

definition trim_spaces :: "string \<Rightarrow> string" where
  "trim_spaces s = rev (dropWhile isspace (rev (dropWhile isspace s)))"

text \<open>
  The slot of the entry itself, and the property it comes from when that is text; a property of another type leaves
  an empty slot.
\<close>

definition own_slot :: "'e io_registry \<Rightarrow> 'e \<Rightarrow> (string \<times> plist option) option" where
  "own_slot reg e =
     (case io_property reg e ''AAPL,slot-name'' of
        None \<Rightarrow> None
      | Some v \<Rightarrow>
          let (slot, name) =
            (case v of
               CFString s \<Rightarrow> (s, Some v)
             | CFData d \<Rightarrow> (case io_text reg d of None \<Rightarrow> '''' | Some s \<Rightarrow> s, Some v)
             | _ \<Rightarrow> ('''', None))
          in Some (trim_spaces (fold drop_slot_prefix slot_prefixes slot), name))"

text \<open>A slot further up takes the place of the own one. The recursion has a step for every parent.\<close>

fun pci_slot_up :: "'e io_registry \<Rightarrow> nat \<Rightarrow> 'e \<Rightarrow> (string \<times> plist option) option" where
  "pci_slot_up reg 0 e = own_slot reg e"
| "pci_slot_up reg (Suc n) e =
     (case io_parent reg e of
        None \<Rightarrow> own_slot reg e
      | Some p \<Rightarrow> (case pci_slot_up reg n p of Some s \<Rightarrow> Some s | None \<Rightarrow> own_slot reg e))"

definition pci_slot :: "'e io_registry \<Rightarrow> 'e \<Rightarrow> (string \<times> plist option) option" where
  "pci_slot reg e = pci_slot_up reg (io_depth reg e) e"

text \<open>The BSD names of the network interfaces of the type below a device; an interface without a type counts.\<close>

definition cf_int_value :: "int \<Rightarrow> int option" where
  "cf_int_value n = (if - (2 ^ 31) \<le> n \<and> n < 2 ^ 31 then Some n else None)"

definition port_of :: "'e io_registry \<Rightarrow> int \<Rightarrow> 'e \<Rightarrow> string list" where
  "port_of reg ift child =
     (if \<not> io_conforms reg child ''IONetworkInterface'' then []
      else case io_properties reg child of
             None \<Rightarrow> []
           | Some d \<Rightarrow>
               let child_ift = (case isA_CFNumber (fmlookup d ''IOInterfaceType'') of
                                  None \<Rightarrow> ift
                                | Some n \<Rightarrow> (case cf_int_value n of None \<Rightarrow> ift | Some i \<Rightarrow> i))
               in if ift = child_ift then (case IODictionaryCopyBSDName reg d of None \<Rightarrow> [] | Some b \<Rightarrow> [b]) else [])"

fun port_names :: "'e io_registry \<Rightarrow> int \<Rightarrow> 'e list \<Rightarrow> string list option" where
  "port_names reg ift [] = Some []"
| "port_names reg ift (slot # slots) =
     (case io_below reg slot of
        None \<Rightarrow> None
      | Some children \<Rightarrow> map_option ((@) (concat (map (port_of reg ift) children))) (port_names reg ift slots))"

definition slot_matching :: "plist \<Rightarrow> dict" where
  "slot_matching slot_name =
     fmupd ''IOPropertyMatch'' (CFDictionary (fmupd ''AAPL,slot-name'' slot_name fmempty))
       (fmupd ''IOProviderClass'' (CFString ''IOPCIDevice'') fmempty)"

text \<open>The number of the port among the sorted names, when there are several.\<close>

definition pci_port :: "'e io_registry \<Rightarrow> plist \<Rightarrow> int \<Rightarrow> string \<Rightarrow> string option" where
  "pci_port reg slot_name ift bsdName =
     (case io_services reg (slot_matching slot_name) of
        None \<Rightarrow> None
      | Some slots \<Rightarrow>
          (case port_names reg ift slots of
             None \<Rightarrow> None
           | Some names \<Rightarrow>
               let sorted = sort names
               in if length names > 1 \<and> bsdName \<in> set sorted
                  then Some (decimal (Suc (length (takeWhile (\<lambda>n. n \<noteq> bsdName) sorted)))) else None))"

text \<open>The slot and the port; no slot without a BSD name.\<close>

definition pci_slot_info :: "'e io_registry \<Rightarrow> 'e \<Rightarrow> int \<Rightarrow> (string \<times> string option) option" where
  "pci_slot_info reg e ift =
     (case (case io_properties reg e of None \<Rightarrow> None | Some d \<Rightarrow> IODictionaryCopyBSDName reg d) of
        None \<Rightarrow> None
      | Some bsd_name \<Rightarrow>
          (case pci_slot reg e of
             None \<Rightarrow> None
           | Some (slot, name) \<Rightarrow> Some (slot, case name of None \<Rightarrow> None | Some v \<Rightarrow> pci_port reg v ift bsd_name)))"

section \<open>Devices\<close>

definition isBuiltin :: "'e io_registry \<Rightarrow> 'e \<Rightarrow> bool" where
  "isBuiltin reg e \<longleftrightarrow> pci_slot reg e = None"

definition service_matching :: "string \<Rightarrow> dict" where
  "service_matching c = fmupd ''IOProviderClass'' (CFString c) fmempty"

definition kIOUSBAppleVendorID :: int where "kIOUSBAppleVendorID = 0x05AC"

text \<open>Whether the first controller is Apple's, and whether the search for one succeeded.\<close>

definition isBluetoothBuiltin :: "'e io_registry \<Rightarrow> bool \<times> bool" where
  "isBluetoothBuiltin reg =
     (case io_services reg (service_matching ''IOBluetoothHCIController'') of
        None \<Rightarrow> (False, False)
      | Some [] \<Rightarrow> (False, True)
      | Some (c # _) \<Rightarrow> (io_property reg c ''idVendor'' = Some (CFNumber kIOUSBAppleVendorID), True))"

definition isThunderbolt :: "'e io_registry \<Rightarrow> 'e \<Rightarrow> bool" where
  "isThunderbolt reg e \<longleftrightarrow> io_search reg e ''PCI-Thunderbolt'' \<noteq> None"

definition isHidden :: "plist option \<Rightarrow> bool" where
  "isHidden hidden =
     (case hidden of
        None \<Rightarrow> False
      | Some (CFBoolean b) \<Rightarrow> b
      | Some (CFNumber n) \<Rightarrow> n \<noteq> 0
      | Some _ \<Rightarrow> True)"

definition or_else :: "'x option \<Rightarrow> 'x option \<Rightarrow> 'x option" where
  "or_else x y = (case x of None \<Rightarrow> y | Some _ \<Rightarrow> x)"

text \<open>The USB description, where there is none yet. The fields are typed here: a value of another type is not taken.\<close>

definition processUSBInterface :: "'e io_registry \<Rightarrow> 'e \<Rightarrow> if_fields \<Rightarrow> if_fields" where
  "processUSBInterface reg e a =
     (let r = ni_registry a
      in a\<lparr>ni_registry := r
             \<lparr>ni_usb_name := or_else (ni_usb_name r) (isA_CFString (io_search reg e ''USB Product Name'')),
              ni_usb_vid := or_else (ni_usb_vid r) (isA_CFNumber (io_search reg e ''idVendor'')),
              ni_usb_pid := or_else (ni_usb_pid r) (isA_CFNumber (io_search reg e ''idProduct''))\<rparr>\<rparr>)"

text \<open>The name of the product; the result tells whether there was one.\<close>

definition update_interface_name :: "'e io_registry \<Rightarrow> name_env \<Rightarrow> 'e \<Rightarrow> bool \<Rightarrow> if_fields \<Rightarrow> bool \<times> if_fields" where
  "update_interface_name reg env e useUSBInfo a =
     (let val = or_else (io_search reg e ''Product Name'')
                  (if useUSBInfo then map_option CFString (ni_usb_name (ni_registry a)) else None)
      in case IOCopyCFStringValue reg val of
           None \<Rightarrow> (False, a)
         | Some productName \<Rightarrow>
             if productName = '''' then (False, a)
             else (True, a\<lparr>ni_name := Some productName,
                           ni_localized_name := (if ne_bundle env then ne_string env productName True else None)\<rparr>))"

definition merge_override :: "'e io_registry \<Rightarrow> 'e \<Rightarrow> string \<Rightarrow> if_fields \<Rightarrow> if_fields" where
  "merge_override reg e override a =
     (case io_search reg e (''Device'' @ override @ ''Overrides'') of
        Some (CFDictionary d) \<Rightarrow>
          a\<lparr>ni_registry := (ni_registry a)
              \<lparr>ni_overrides := Some (fmupd override (CFDictionary d)
                 (case ni_overrides (ni_registry a) of None \<Rightarrow> fmempty | Some o1 \<Rightarrow> o1))\<rparr>\<rparr>
      | _ \<Rightarrow> a)"

end
