(* ===== verification/NetDiscover.thy ===== *)
theory NetDiscover
  imports IoRegistry
begin

text \<open>
  The interfaces that the device registry has (the section \<open>Interface enumeration\<close> of SCNetworkInterface.c, and the list
  of all interfaces).

  An interface under construction is its fields; the empty type stands for NULL. \<open>None\<close> is the answer FALSE, for an entry
  that is no interface. The path of an entry takes a step for every parent, as slots do.
\<close>

record discover_env =
  de_names :: name_env
  de_internal :: bool
  de_script :: "string \<Rightarrow> bool outcome"

section \<open>Network interfaces\<close>

definition typed_as :: "string \<Rightarrow> if_sort \<Rightarrow> if_fields \<Rightarrow> if_fields" where
  "typed_as t s a = a\<lparr>ni_interface_type := t, ni_entity_type := Some kSCValNetInterfaceTypeEthernet, ni_sort_order := s\<rparr>"

text \<open>The kind of an Ethernet device: by its controller, its role, the telephone it belongs to, or its bus.\<close>

definition kind_by_controller :: "'e io_registry \<Rightarrow> 'e \<Rightarrow> (string \<times> if_sort) option" where
  "kind_by_controller reg controller =
     (if io_conforms reg controller ''IO80211Controller'' \<or> io_conforms reg controller ''AirPortPCI'' \<or>
         io_conforms reg controller ''AirPortDriver''
      then Some (kSCNetworkInterfaceTypeIEEE80211, kSortAirPort)
      else if io_conforms reg controller ''AppleThunderboltIPPort'' then Some (kSCNetworkInterfaceTypeEthernet, kSortThunderbolt)
      else if io_conforms reg controller ''IOBluetoothBNEPDriver'' then Some (kSCNetworkInterfaceTypeEthernet, kSortBluetoothPAN_GN)
      else if io_conforms reg controller ''AppleUSBEthernetHost'' then Some (kSCNetworkInterfaceTypeEthernet, kSortTethered)
      else if io_conforms reg controller ''AppleUSBCDCECMData'' then Some (kSCNetworkInterfaceTypeEthernet, kSortWWANEthernet)
      else None)"

definition kind_by_role :: "plist option \<Rightarrow> (string \<times> if_sort) option" where
  "kind_by_role val =
     (if val = Some (CFString ''Bluetooth PAN'') then Some (kSCNetworkInterfaceTypeEthernet, kSortBluetoothPAN_GN)
      else if val = Some (CFString ''Bluetooth PAN-NAP'') then Some (kSCNetworkInterfaceTypeEthernet, kSortBluetoothPAN_NAP)
      else if val = Some (CFString ''Bluetooth P2P'') then Some (kSCNetworkInterfaceTypeEthernet, kSortBluetoothPAN_U)
      else if val = Some (CFString ''CarPlay'') then Some (kSCNetworkInterfaceTypeEthernet, kSortCarPlay)
      else None)"

definition ether_kind :: "'e io_registry \<Rightarrow> 'e \<Rightarrow> 'e \<Rightarrow> dict \<Rightarrow> (string \<times> if_sort) option" where
  "ether_kind reg e controller bus_dict =
     (case kind_by_controller reg controller of
        Some k \<Rightarrow> Some k
      | None \<Rightarrow>
          (case kind_by_role (io_search reg e ''InterfaceRole'') of
             Some k \<Rightarrow> Some k
           | None \<Rightarrow>
               if io_search reg e ''SupportsIPhoneOS'' = Some (CFBoolean True)
               then Some (kSCNetworkInterfaceTypeEthernet, kSortTethered)
               else if IODictionaryCopyCFStringValue reg bus_dict ''name'' = Some ''radio''
               then Some (kSCNetworkInterfaceTypeEthernet, kSortOtherWireless)
               else None))"

definition ether_typed :: "(string \<times> if_sort) option \<Rightarrow> if_fields \<Rightarrow> if_fields" where
  "ether_typed kind a =
     (case kind of
        Some (t, s) \<Rightarrow> (typed_as t s a)\<lparr>ni_supportsBridge := t \<noteq> kSCNetworkInterfaceTypeIEEE80211 \<or> ni_supportsBridge a\<rparr>
      | None \<Rightarrow> (typed_as kSCNetworkInterfaceTypeEthernet kSortEthernet a)\<lparr>ni_supportsBond := True, ni_supportsBridge := True\<rparr>)"

definition ether_builtin :: "'e io_registry \<Rightarrow> 'e \<Rightarrow> dict \<Rightarrow> string \<Rightarrow> bool" where
  "ether_builtin reg e interface_dict t =
     (t = kSCNetworkInterfaceTypeIEEE80211 \<or>
      (case or_else (isA_CFBoolean (fmlookup interface_dict ''IOBuiltin'')) (isA_CFBoolean (fmlookup interface_dict ''IOPrimaryInterface'')) of
         Some b \<Rightarrow> b | None \<Rightarrow> isBuiltin reg e))"

definition nonempty :: "string option \<Rightarrow> string option" where
  "nonempty t = (if t = Some '''' then None else t)"

definition vlan_features :: "plist option \<Rightarrow> bool" where
  "vlan_features v =
     (case v of
        Some (CFNumber n) \<Rightarrow> (case cf_int_value n of None \<Rightarrow> False | Some i \<Rightarrow> i AND 6 \<noteq> 0)
      | _ \<Rightarrow> False)"

definition keyed :: "string \<Rightarrow> string option \<Rightarrow> string option \<Rightarrow> if_fields \<Rightarrow> if_fields" where
  "keyed key a1 a2 a = a\<lparr>ni_localized_key := Some key, ni_localized_arg1 := a1, ni_localized_arg2 := a2\<rparr>"

text \<open>The provider, past the nodes of the Skywalk layer. The walk has a step for every parent.\<close>

fun provider_up :: "'e io_registry \<Rightarrow> nat \<Rightarrow> 'e \<Rightarrow> plist option" where
  "provider_up reg n node =
     (case io_search reg node ''IOProviderClass'' of
        None \<Rightarrow> None
      | Some p \<Rightarrow>
          if p \<noteq> CFString ''IOSkywalkEthernetInterface'' then Some p
          else (case n of 0 \<Rightarrow> None | Suc m \<Rightarrow> (case io_parent reg node of None \<Rightarrow> None | Some q \<Rightarrow> provider_up reg m q)))"

declare provider_up.simps [simp del]

definition usb_provider :: "'e io_registry \<Rightarrow> bool \<Rightarrow> plist \<Rightarrow> 'e \<Rightarrow> bool" where
  "usb_provider reg internal provider node =
     (provider = CFString ''IOUSBDevice'' \<or> provider = CFString ''IOUSBInterface'' \<or> provider = CFString ''IOUSBHostInterface'' \<or>
      internal \<and> io_conforms reg node ''IOUserEthernetController'')"

text \<open>The walk from the interface to its controller and its bus, until a provider is USB's.\<close>

fun on_usb :: "'e io_registry \<Rightarrow> bool \<Rightarrow> plist option \<Rightarrow> 'e \<Rightarrow> 'e list \<Rightarrow> bool" where
  "on_usb reg internal None node nodes = False"
| "on_usb reg internal (Some p) node [] = usb_provider reg internal p node"
| "on_usb reg internal (Some p) node (m # nodes) =
     (usb_provider reg internal p node \<or> on_usb reg internal (io_search reg m ''IOProviderClass'') m nodes)"

text \<open>The name after the slot of the device, if the product has no name.\<close>

definition slot_named :: "'e io_registry \<Rightarrow> name_env \<Rightarrow> 'e \<Rightarrow> int \<Rightarrow> string \<Rightarrow> if_fields \<Rightarrow> if_fields" where
  "slot_named reg env e ift kind a =
     (case update_interface_name reg env e False a of
        (True, a1) \<Rightarrow> a1
      | (False, a1) \<Rightarrow>
          (case pci_slot_info reg e ift of
             None \<Rightarrow> a1
           | Some (slot, port) \<Rightarrow>
               keyed ((if isThunderbolt reg e then ''thunderbolt-'' else ''pci-'') @ (if port = None then '''' else ''multi'') @ kind)
                 (Some slot) port a1))"

definition generic_named :: "'e io_registry \<Rightarrow> dict \<Rightarrow> string \<Rightarrow> if_fields \<Rightarrow> if_fields" where
  "generic_named reg interface_dict key a = keyed key (IODictionaryCopyBSDName reg interface_dict) (ni_localized_arg2 a) a"

definition provider_named ::
    "'e io_registry \<Rightarrow> discover_env \<Rightarrow> 'e \<Rightarrow> dict \<Rightarrow> 'e list \<Rightarrow> int \<Rightarrow> if_fields \<Rightarrow> if_fields" where
  "provider_named reg env e interface_dict uppers ift a =
     (let provider = provider_up reg (io_depth reg e) e; names = de_names env;
          a1 = (if provider = None then a
                else if provider = Some (CFString ''IOPCIDevice'') then slot_named reg names e ift ''ether'' a
                else let a2 = (if on_usb reg (de_internal env) provider e uppers
                               then (case update_interface_name reg names e True (processUSBInterface reg e a) of
                                       (True, a3) \<Rightarrow> a3
                                     | (False, a3) \<Rightarrow> generic_named reg interface_dict ''usb-ether'' a3)
                               else a)
                     in if ni_localized_key a2 = None then snd (update_interface_name reg names e False a2) else a2)
      in if ni_localized_key a1 = None then generic_named reg interface_dict ''generic-ether'' a1 else a1)"

definition ether_named ::
    "'e io_registry \<Rightarrow> discover_env \<Rightarrow> 'e \<Rightarrow> dict \<Rightarrow> 'e list \<Rightarrow> int \<Rightarrow> if_fields \<Rightarrow> if_fields" where
  "ether_named reg env e interface_dict uppers ift a =
     (let location = nonempty (IODictionaryCopyCFStringValue reg interface_dict ''IOLocation'')
      in if ni_interface_type a = kSCNetworkInterfaceTypeIEEE80211 then a\<lparr>ni_localized_key := Some ''airport''\<rparr>
         else if ni_sort_order a = kSortThunderbolt
         then (if location = None then a\<lparr>ni_localized_key := Some ''thunderbolt''\<rparr>
               else keyed ''multithunderbolt'' location (ni_localized_arg2 a) a)
         else if ni_sort_order a = kSortBluetoothPAN_GN then a\<lparr>ni_localized_key := Some ''bluetooth-pan-gn''\<rparr>
         else if ni_sort_order a = kSortBluetoothPAN_NAP then a\<lparr>ni_localized_key := Some ''bluetooth-pan-nap''\<rparr>
         else if ni_sort_order a = kSortBluetoothPAN_U then a\<lparr>ni_localized_key := Some ''bluetooth-pan-u''\<rparr>
         else if ni_sort_order a = kSortOtherWireless then keyed ''wireless'' (Some '''') (ni_localized_arg2 a) a
         else if ni_builtin a
         then (if location = None then a\<lparr>ni_localized_key := Some ''ether''\<rparr>
               else keyed ''multiether'' location (ni_localized_arg2 a) a)
         else provider_named reg env e interface_dict uppers ift a)"

definition ether_interface ::
    "'e io_registry \<Rightarrow> discover_env \<Rightarrow> 'e \<Rightarrow> dict \<Rightarrow> 'e \<Rightarrow> dict \<Rightarrow> 'e \<Rightarrow> dict \<Rightarrow> int \<Rightarrow> if_fields \<Rightarrow> if_fields" where
  "ether_interface reg env e interface_dict controller controller_dict bus bus_dict ift a =
     (let a1 = ether_typed (ether_kind reg e controller bus_dict) a;
          a2 = a1\<lparr>ni_builtin := ether_builtin reg e interface_dict (ni_interface_type a1),
                  ni_registry := (ni_registry a1)
                    \<lparr>ni_location := map_option CFString (nonempty (IODictionaryCopyCFStringValue reg interface_dict ''IOLocation''))\<rparr>,
                  ni_supportsVLAN := (vlan_features (fmlookup controller_dict ''IOFeatures'') \<or> ni_supportsVLAN a1)\<rparr>
      in ether_named reg env e interface_dict [controller, bus] ift a2)"

definition firewire_interface :: "'e io_registry \<Rightarrow> discover_env \<Rightarrow> 'e \<Rightarrow> int \<Rightarrow> if_fields \<Rightarrow> if_fields" where
  "firewire_interface reg env e ift a =
     (let a1 = a\<lparr>ni_interface_type := ''FireWire'', ni_entity_type := Some ''FireWire'', ni_builtin := isBuiltin reg e,
                 ni_sort_order := kSortFireWire\<rparr>
      in if ni_builtin a1 then a1\<lparr>ni_localized_key := Some ''firewire''\<rparr>
         else slot_named reg (de_names env) e ift ''firewire'' a1)"

text \<open>The device, its address, prefix and unit.\<close>

definition device_details :: "'e io_registry \<Rightarrow> dict \<Rightarrow> dict \<Rightarrow> if_fields \<Rightarrow> if_fields" where
  "device_details reg interface_dict controller_dict a =
     a\<lparr>ni_entity_device := IODictionaryCopyBSDName reg interface_dict,
       ni_registry := (ni_registry a)
         \<lparr>ni_address := or_else (isA_CFData (fmlookup controller_dict ''IOMACAddress'')) (ni_address (ni_registry a)),
          ni_prefix := or_else (isA_CFString (fmlookup interface_dict ''IOInterfaceNamePrefix'')) (ni_prefix (ni_registry a)),
          ni_unit := or_else (Option.bind (isA_CFNumber (fmlookup interface_dict ''IOInterfaceUnit'')) cf_int_value)
                       (ni_unit (ni_registry a))\<rparr>\<rparr>"

type_synonym 'e process_interface =
  "'e \<Rightarrow> dict \<Rightarrow> 'e \<Rightarrow> dict \<Rightarrow> 'e \<Rightarrow> dict \<Rightarrow> if_fields \<Rightarrow> if_fields option outcome"

definition processNetworkInterface :: "'e io_registry \<Rightarrow> discover_env \<Rightarrow> 'e process_interface" where
  "processNetworkInterface reg env e interface_dict controller controller_dict bus bus_dict a =
     (case Option.bind (isA_CFNumber (fmlookup interface_dict ''IOInterfaceType'')) cf_int_value of
        None \<Rightarrow> Ret None
      | Some ift \<Rightarrow>
          let a0 = a\<lparr>ni_registry := (ni_registry a)\<lparr>ni_type := Some ift\<rparr>\<rparr>;
              finish = (\<lambda>a1. Ret (Some (merge_override reg e kSCNetworkInterfaceTypePPP
                          (device_details reg interface_dict controller_dict a1))))
          in if ift = IFT_ETHER
             then finish (ether_interface reg env e interface_dict controller controller_dict bus bus_dict ift a0)
             else if ift = IFT_IEEE1394 then finish (firewire_interface reg env e ift a0)
             else Ret None)"

section \<open>Modem scripts\<close>

text \<open>What \<open>stat\<close> says of a path. \<open>sv_dirs\<close> are the library directories, \<open>sv_cstring\<close> the bytes of a name when they fit.\<close>

datatype file_kind = Regular_file | Directory | Other_file | No_entry | Stat_failed

record script_env =
  sv_dirs :: "string list"
  sv_cstring :: "string \<Rightarrow> string option"
  sv_stat :: "string \<Rightarrow> file_kind"

definition MAXPATHLEN :: nat where "MAXPATHLEN = 1024"

definition strlcat :: "string \<Rightarrow> string \<Rightarrow> string" where
  "strlcat path s = (if length path < MAXPATHLEN then take (MAXPATHLEN - 1) (path @ s) else path)"

definition contains_text :: "string \<Rightarrow> string \<Rightarrow> bool" where
  "contains_text needle s \<longleftrightarrow> sublist needle s"

text \<open>
  The test for a bundle, after the first \<open>stat\<close>. The length of the extension is a macro without parentheses,
  \<open>sizeof(".ccl") - 1\<close>, so the text is looked at from six bytes before its end, and for a path of five bytes
  from the byte before it. The result of the first \<open>stat\<close> is used without one when the extension is there; a
  path that does not exist has none.
\<close>

definition script_bundle :: "script_env \<Rightarrow> string \<Rightarrow> file_kind \<Rightarrow> bool outcome" where
  "script_bundle sv path found =
     (let n = length path
      in if n = 5 then UB
         else if n \<le> 4 \<or> \<not> contains_text ''.ccl'' (drop (n - 6) path)
         then Ret (sv_stat sv (strlcat path ''.ccl'') = Directory)
         else if found = No_entry then UB else Ret (found = Directory))"

fun script_in :: "script_env \<Rightarrow> string \<Rightarrow> string list \<Rightarrow> bool outcome" where
  "script_in sv ccl [] = Ret False"
| "script_in sv ccl (dir # dirs) =
     (let path = strlcat (if ccl \<noteq> [] \<and> hd ccl = CHR ''/'' then [] else strlcat dir ''/Modem Scripts/'') ccl
      in case sv_stat sv path of
           Stat_failed \<Rightarrow> script_in sv ccl dirs
         | Regular_file \<Rightarrow> Ret True
         | found \<Rightarrow> obind (script_bundle sv path found) (\<lambda>ok. if ok then Ret True else script_in sv ccl dirs))"

text \<open>A name that does not fit leaves the buffer as it is.\<close>

definition is_valid_connection_script :: "script_env \<Rightarrow> string \<Rightarrow> bool outcome" where
  "is_valid_connection_script sv script =
     (case sv_cstring sv script of None \<Rightarrow> UB | Some ccl \<Rightarrow> script_in sv ccl (sv_dirs sv))"

definition set_connection_script :: "string option \<Rightarrow> if_fields \<Rightarrow> if_fields outcome" where
  "set_connection_script script a =
     (let overrides = (case ni_overrides (ni_registry a) of None \<Rightarrow> fmempty | Some o1 \<Rightarrow> o1)
      in obind (case fmlookup overrides ''Modem'' of
                  None \<Rightarrow> Ret fmempty | Some (CFDictionary d) \<Rightarrow> Ret d | Some _ \<Rightarrow> UB) (\<lambda>d.
           let newDict = (case script of None \<Rightarrow> fmdrop ''ConnectionScript'' d | Some s \<Rightarrow> fmupd ''ConnectionScript'' (CFString s) d);
               o1 = (if newDict = fmempty then fmdrop ''Modem'' overrides else fmupd ''Modem'' (CFDictionary newDict) overrides)
           in Ret (a\<lparr>ni_registry := (ni_registry a)\<lparr>ni_overrides := (if o1 = fmempty then None else Some o1)\<rparr>\<rparr>)))"

section \<open>Serial interfaces\<close>

definition true_value :: "plist option \<Rightarrow> bool" where
  "true_value v \<longleftrightarrow> v = Some (CFBoolean True)"

text \<open>The kind of a port by its base name; \<open>None\<close> when there is no controller for it.\<close>

definition serial_kind :: "'e io_registry \<Rightarrow> string \<Rightarrow> bool \<Rightarrow> if_fields \<Rightarrow> if_fields option" where
  "serial_kind reg base isWWAN a =
     (if has_prefix_ci ''bluetooth'' base
      then (case isBluetoothBuiltin reg of
              (builtin, haveController) \<Rightarrow>
                if haveController
                then Some (a\<lparr>ni_interface_type := ''Bluetooth'', ni_sort_order := kSortBluetooth, ni_builtin := builtin\<rparr>) else None)
      else if has_prefix_ci ''irda-ircomm'' base then Some (a\<lparr>ni_interface_type := ''IrDA'', ni_sort_order := kSortIrDA\<rparr>)
      else if isWWAN then Some (a\<lparr>ni_interface_type := ''WWAN'', ni_sort_order := kSortWWAN\<rparr>)
      else Some (a\<lparr>ni_interface_type := ''Modem'', ni_sort_order := kSortModem\<rparr>))"

text \<open>What the type of the serial stream adds; the result tells whether it is a modem.\<close>

definition serial_stream :: "plist option \<Rightarrow> string \<Rightarrow> if_fields \<Rightarrow> (bool \<times> if_fields) option" where
  "serial_stream ift base a =
     (if ift = Some (CFString ''IOModemSerialStream'')
      then Some (True, if base = ''modem'' then a\<lparr>ni_builtin := True, ni_sort_order := kSortInternalModem\<rparr>
                       else if base = ''usbmodem'' then a\<lparr>ni_sort_order := kSortUSBModem\<rparr> else a)
      else if ift = Some (CFString ''IORS232SerialStream'') then Some (False, a\<lparr>ni_sort_order := kSortSerialPort\<rparr>)
      else None)"

text \<open>The script and the unique identifier from the overrides for modems, which have to be a dictionary.\<close>

definition modem_override :: "string \<Rightarrow> if_fields \<Rightarrow> (string option \<times> if_fields) outcome" where
  "modem_override base a =
     (case ni_overrides (ni_registry a) of
        None \<Rightarrow> Ret (None, a)
      | Some o1 \<Rightarrow>
          (case fmlookup o1 ''Modem'' of
             None \<Rightarrow> Ret (None, a)
           | Some (CFDictionary d) \<Rightarrow>
               Ret (isA_CFString (fmlookup d ''ConnectionScript''),
                    case isA_CFString (fmlookup d ''UniqueIdentifier'') of
                      None \<Rightarrow> a
                    | Some u \<Rightarrow> a\<lparr>ni_entity_device := Some base, ni_entity_device_unique := Some u\<rparr>)
           | Some _ \<Rightarrow> UB))"

definition modem_script :: "'e io_registry \<Rightarrow> 'e \<Rightarrow> string option \<times> if_fields \<Rightarrow> (string option \<times> if_fields) outcome" where
  "modem_script reg e x =
     (case x of
        (Some ccl, a) \<Rightarrow> Ret (Some ccl, a)
      | (None, a) \<Rightarrow>
          (case IOCopyCFStringValue reg (io_search reg e ''ModemCCL'') of
             None \<Rightarrow> Ret (None, a)
           | Some ccl \<Rightarrow> obind (set_connection_script (Some ccl) a) (\<lambda>a1. Ret (Some ccl, a1))))"

text \<open>The name in the bundle, or the base name when there is no translation.\<close>

definition port_title :: "name_env \<Rightarrow> string \<Rightarrow> string \<Rightarrow> bool \<Rightarrow> string" where
  "port_title env port base localized =
     (case (if ne_bundle env then ne_string env port localized else None) of
        None \<Rightarrow> base | Some t \<Rightarrow> if t = port then base else t)"

definition serial_named ::
    "'e io_registry \<Rightarrow> discover_env \<Rightarrow> 'e \<Rightarrow> string \<Rightarrow> bool \<Rightarrow> string option \<times> if_fields \<Rightarrow> if_fields outcome" where
  "serial_named reg env e base isModem x =
     (case x of (modemCCL, a) \<Rightarrow>
        if ni_interface_type a = ''IrDA'' then Ret (a\<lparr>ni_localized_key := Some ''irda''\<rparr>)
        else if ni_interface_type a = ''Bluetooth'' then Ret (a\<lparr>ni_localized_key := Some ''bluetooth''\<rparr>)
        else
          let port = map lower base @ (if isModem then '''' else ''-port'');
              names = de_names env;
              a1 = a\<lparr>ni_name := Some (port_title names port base False), ni_localized_name := Some (port_title names port base True)\<rparr>
          in if isModem \<and> base = ''modem'' then Ret a1
             else (case update_interface_name reg names e True (processUSBInterface reg e a1) of
                     (False, a2) \<Rightarrow> Ret a2
                   | (True, a2) \<Rightarrow>
                       (case (modemCCL, ni_name a2) of
                          (None, Some name) \<Rightarrow>
                            obind (de_script env name) (\<lambda>ok. if ok then set_connection_script (Some name) a2 else Ret a2)
                        | _ \<Rightarrow> Ret a2)))"

definition processSerialInterface :: "'e io_registry \<Rightarrow> discover_env \<Rightarrow> 'e process_interface" where
  "processSerialInterface reg env e interface_dict controller controller_dict bus bus_dict a =
     (if true_value (io_search reg e ''Initializing'') then Ret None
      else case IODictionaryCopyCFStringValue reg interface_dict ''IOTTYDevice'' of
             None \<Rightarrow> Ret None
           | Some device \<Rightarrow>
               let a0 = a\<lparr>ni_entity_device := Some device\<rparr>;
                   base = (case IODictionaryCopyCFStringValue reg interface_dict ''IOTTYBaseName'' of None \<Rightarrow> device | Some b \<Rightarrow> b)
               in if strcaseeq base ''irda'' then Ret None
                  else (case serial_kind reg base (true_value (io_search reg e ''WWAN'')) a0 of
                          None \<Rightarrow> Ret None
                        | Some a1 \<Rightarrow>
                            (case serial_stream (fmlookup interface_dict ''IOSerialBSDClientType'') base
                                    (a1\<lparr>ni_entity_type := Some ''Modem''\<rparr>) of
                               None \<Rightarrow> Ret None
                             | Some (isModem, a2) \<Rightarrow>
                                 obind (modem_override base (merge_override reg e ''Modem'' (merge_override reg e ''PPP'' a2))) (\<lambda>x.
                                 obind (modem_script reg e x) (\<lambda>y.
                                 obind (serial_named reg env e base isModem y) (\<lambda>a3. Ret (Some a3)))))))"

section \<open>An interface from an entry\<close>

text \<open>The path, made from that of the parent when the entry is not in the plane.\<close>

fun copy_path_up :: "'e io_registry \<Rightarrow> nat \<Rightarrow> 'e \<Rightarrow> string option" where
  "copy_path_up reg n e =
     (case io_entry_path reg e of
        Path_is p \<Rightarrow> Some p
      | Path_failed \<Rightarrow> None
      | Path_bad_argument \<Rightarrow>
          (case n of
             0 \<Rightarrow> None
           | Suc m \<Rightarrow>
               (case io_parent reg e of
                  None \<Rightarrow> None
                | Some q \<Rightarrow>
                    (case copy_path_up reg m q of
                       None \<Rightarrow> None
                     | Some str_parent \<Rightarrow>
                         (case io_name reg e of
                            None \<Rightarrow> None
                          | Some name \<Rightarrow>
                              Some (str_parent @ ''/'' @ name @ (case io_location reg e of None \<Rightarrow> '''' | Some l \<Rightarrow> ''@'' @ l)))))))"

declare copy_path_up.simps [simp del]

definition IORegistryEntryCopyPath :: "'e io_registry \<Rightarrow> 'e \<Rightarrow> string option" where
  "IORegistryEntryCopyPath reg e = copy_path_up reg (io_depth reg e) e"

definition copyIORegistryProperties :: "'e io_registry \<Rightarrow> 'e \<Rightarrow> string list \<Rightarrow> dict" where
  "copyIORegistryProperties reg e keys =
     fold (\<lambda>k d. case io_property reg e k of None \<Rightarrow> d | Some v \<Rightarrow> if fmlookup d k = None then fmupd k v d else d) keys fmempty"

definition interface_dict_keys :: "string list" where
  "interface_dict_keys = [''IOInterfaceType'', ''IOBuiltin'', ''BSD Name'', ''IOPrimaryInterface'', ''IOInterfaceNamePrefix'',
     ''IOInterfaceUnit'', ''IOTTYDevice'', ''IOTTYBaseName'', ''IOSerialBSDClientType'', ''IOLocation'']"

definition controller_dict_keys :: "string list" where "controller_dict_keys = [''IOFeatures'', ''IOMACAddress'']"

definition bus_dict_keys :: "string list" where "bus_dict_keys = [''name'']"

text \<open>The preferences that the registry has for an interface.\<close>

definition registry_preferences :: "'e io_registry \<Rightarrow> 'e \<Rightarrow> if_fields \<Rightarrow> if_fields" where
  "registry_preferences reg e a =
     (let r = ni_registry a
      in a\<lparr>ni_registry := r
             \<lparr>ni_configurationAction := or_else (isA_CFString (io_search reg e ''ConfigurationAction'')) (ni_configurationAction r),
              ni_hiddenConfiguration := (case io_search reg e kSCNetworkInterfaceHiddenConfigurationKey of
                                           None \<Rightarrow> ni_hiddenConfiguration r | v \<Rightarrow> isHidden v)\<rparr>\<rparr>)"

definition createInterface_io ::
    "'e io_registry \<Rightarrow> 'e process_interface \<Rightarrow> string \<Rightarrow> bool \<Rightarrow> 'e \<Rightarrow> scnif option outcome" where
  "createInterface_io reg func hidden_key keep_hidden e =
     (let hidden = isHidden (io_search reg e hidden_key)
      in if hidden \<and> \<not> keep_hidden then Ret None
         else case io_parent reg e of
                None \<Rightarrow> Ret None
              | Some controller \<Rightarrow>
                  (case io_parent reg controller of
                     None \<Rightarrow> Ret None
                   | Some bus \<Rightarrow>
                       (case io_entry_id reg e of
                          None \<Rightarrow> Ret None
                        | Some entryID \<Rightarrow>
                            let i = SCNetworkInterfaceCreatePrivate None None None;
                                a = (ni i)\<lparr>ni_registry := (ni_registry (ni i))
                                      \<lparr>ni_hiddenInterface := hidden, ni_path := IORegistryEntryCopyPath reg e, ni_entryID := entryID,
                                       ni_overrides := isA_CFDictionary (io_search reg e ''NetworkConfigurationOverrides'')\<rparr>\<rparr>
                            in obind (func e (copyIORegistryProperties reg e interface_dict_keys)
                                        controller (copyIORegistryProperties reg controller controller_dict_keys)
                                        bus (copyIORegistryProperties reg bus bus_dict_keys) a) (\<lambda>r.
                                 Ret (map_option (\<lambda>a1. upd_ni (\<lambda>_. registry_preferences reg e a1) i) r)))))"

fun create_each ::
    "'e io_registry \<Rightarrow> 'e process_interface \<Rightarrow> (scnif \<Rightarrow> bool) \<Rightarrow> string \<Rightarrow> bool \<Rightarrow> bool \<Rightarrow> 'e list \<Rightarrow> scnif list outcome" where
  "create_each reg func preconfigured hidden_key keep_hidden keep_pre [] = Ret []"
| "create_each reg func preconfigured hidden_key keep_hidden keep_pre (e # es) =
     obind (createInterface_io reg func hidden_key keep_hidden e) (\<lambda>r.
     obind (create_each reg func preconfigured hidden_key keep_hidden keep_pre es) (\<lambda>l.
       Ret (case r of None \<Rightarrow> l | Some i \<Rightarrow> if keep_pre \<or> \<not> preconfigured i then i # l else l)))"

definition findMatchingInterfaces ::
    "'e io_registry \<Rightarrow> dict \<Rightarrow> 'e process_interface \<Rightarrow> (scnif \<Rightarrow> bool) \<Rightarrow> string \<Rightarrow> bool \<Rightarrow> bool \<Rightarrow> scnif list option outcome" where
  "findMatchingInterfaces reg matching func preconfigured hidden_key keep_hidden keep_pre =
     (case io_services reg matching of
        None \<Rightarrow> Ret None
      | Some es \<Rightarrow> obind (create_each reg func preconfigured hidden_key keep_hidden keep_pre es) (\<lambda>l. Ret (Some l)))"

end
