(* ===== verification/NetMatch.thy ===== *)
theory NetMatch
  imports NetDiscover Bond
begin

text \<open>
  The interfaces of the system as a list, and the interface that belongs to an entity of a service (SCNetworkInterface.c,
  \<open>_SCNetworkInterfaceCopyAllWithPreferences\<close>, \<open>_SCNetworkInterfaceCreateWithEntity\<close> and what they use).

  Bonds are read from the preferences by the model of SCBondInterfaceCopyAll; bridges and VLANs, whose accessors are not
  in the repository, are arguments, and so is \<open>IOBSDNameMatching\<close>. The objects in the cache are the ones that are
  handed out, so linking an interface to a service changes the cache.
\<close>

section \<open>Environment\<close>

record ('e, 'p) match_env =
  me_registry :: "'e io_registry"
  me_discover :: discover_env
  me_preconfigured :: "scnif \<Rightarrow> bool"
  me_bsd_matching :: "string \<Rightarrow> dict option"
  me_cstring :: "string \<Rightarrow> string option"
  me_bond :: bond_env
  me_ops :: "'p path_ops"
  me_prefs :: "nat \<Rightarrow> 'p"
  me_new_prefs :: "nat option"
  me_bypass :: "nat option \<Rightarrow> bool"
  me_bridges :: "nat \<Rightarrow> scnif list option"
  me_vlans :: "nat \<Rightarrow> scnif list option"

abbreviation me_names :: "('e, 'p) match_env \<Rightarrow> name_env" where
  "me_names me \<equiv> de_names (me_discover me)"

section \<open>All interfaces\<close>

definition kSCNetworkInterfaceHiddenPortKey :: string where "kSCNetworkInterfaceHiddenPortKey = ''HiddenPort''"

definition CopyAll_IONetworkInterface :: "('e, 'p) match_env \<Rightarrow> bool \<Rightarrow> scnif list option outcome" where
  "CopyAll_IONetworkInterface me keep_pre_configured =
     findMatchingInterfaces (me_registry me) (service_matching ''IONetworkInterface'')
       (processNetworkInterface (me_registry me) (me_discover me)) (me_preconfigured me)
       kSCNetworkInterfaceHiddenInterfaceKey False keep_pre_configured"

definition tty_matching :: "string \<Rightarrow> string \<Rightarrow> dict" where
  "tty_matching k v = fmupd k (CFString v) (service_matching ''IOSerialBSDClient'')"

definition serial_matches :: "('e, 'p) match_env \<Rightarrow> dict \<Rightarrow> bool \<Rightarrow> bool \<Rightarrow> scnif list option outcome" where
  "serial_matches me matching keep_hidden keep_pre =
     findMatchingInterfaces (me_registry me) matching (processSerialInterface (me_registry me) (me_discover me))
       (me_preconfigured me) kSCNetworkInterfaceHiddenPortKey keep_hidden keep_pre"

definition CopyAll_Modem :: "('e, 'p) match_env \<Rightarrow> scnif list option outcome" where
  "CopyAll_Modem me = serial_matches me (tty_matching ''IOSerialBSDClientType'' ''IOModemSerialStream'') False False"

definition CopyAll_RS232 :: "('e, 'p) match_env \<Rightarrow> scnif list option outcome" where
  "CopyAll_RS232 me = serial_matches me (tty_matching ''IOSerialBSDClientType'' ''IORS232SerialStream'') False False"

definition addBTPANInterface :: "(scnif \<Rightarrow> bool) \<Rightarrow> scnif option \<Rightarrow> scnif list \<Rightarrow> scnif list" where
  "addBTPANInterface is_btpan btpan all =
     (if \<exists>i \<in> set all. is_btpan i then all else case btpan of None \<Rightarrow> all | Some i \<Rightarrow> all @ [i])"

definition add_interfaces :: "(scnif \<Rightarrow> string option) \<Rightarrow> scnif list option \<Rightarrow> scnif list \<Rightarrow> scnif list" where
  "add_interfaces bsd_name new_interfaces all =
     (case new_interfaces of None \<Rightarrow> all | Some l \<Rightarrow> all @ filter (\<lambda>i. bsd_name i \<noteq> None) l)"

text \<open>
  The wait for the interface namer. Each entry is what the store has when it is looked at, and whether the wait for
  the next change succeeds; \<open>Still_waiting\<close> is the end of what has happened so far.
\<close>

datatype quiet_wait = Quiet | Wait_failed | Still_waiting

definition namer_quiet :: "plist option \<Rightarrow> bool" where
  "namer_quiet v =
     (case isA_CFDictionary v of
        None \<Rightarrow> False | Some d \<Rightarrow> fmlookup d ''*QUIET*'' \<noteq> None \<or> fmlookup d ''*TIMEOUT*'' \<noteq> None)"

fun wait_for_IOKit_to_quiesce :: "(plist option \<times> bool) list \<Rightarrow> quiet_wait" where
  "wait_for_IOKit_to_quiesce [] = Still_waiting"
| "wait_for_IOKit_to_quiesce ((v, ok) # rest) =
     (if namer_quiet v then Quiet else if \<not> ok then Wait_failed else wait_for_IOKit_to_quiesce rest)"

text \<open>\<open>sorted\<close> is \<open>CFArraySortValues\<close> with the comparison.\<close>

type_synonym if_sorter = "(scnif \<Rightarrow> scnif \<Rightarrow> cf_comparison) \<Rightarrow> scnif list \<Rightarrow> scnif list"

definition sort_interfaces :: "if_sorter \<Rightarrow> scnif list \<Rightarrow> scnif list" where
  "sort_interfaces sorter all = (if length all < 2 then all else sorter SCNetworkInterfaceCompare all)"

definition bonds_of :: "('e, 'p) match_env \<Rightarrow> nat \<Rightarrow> scnif list outcome" where
  "bonds_of me p = SCBondInterfaceCopyAll (me_bond me) (me_ops me) (me_prefs me p) p"

text \<open>The preferences that are given, or new ones.\<close>

definition given_or_new :: "('e, 'p) match_env \<Rightarrow> nat option \<Rightarrow> nat option" where
  "given_or_new me prefs = or_else prefs (me_new_prefs me)"

definition add_virtual ::
    "('e, 'p) match_env \<Rightarrow> (scnif \<Rightarrow> bool) \<Rightarrow> scnif option \<Rightarrow> nat option \<Rightarrow> scnif list \<Rightarrow> scnif list outcome" where
  "add_virtual me is_btpan btpan prefs all =
     (case given_or_new me prefs of
        None \<Rightarrow> Ret all
      | Some p \<Rightarrow>
          obind (bonds_of me p) (\<lambda>bonds.
            let add = add_interfaces (be_bsd_name (me_bond me))
            in Ret (addBTPANInterface is_btpan btpan (add (me_vlans me p) (add (me_bridges me p) (add (Some bonds) all))))))"

definition SCNetworkInterfaceCopyAllWithPreferences ::
    "('e, 'p) match_env \<Rightarrow> if_sorter \<Rightarrow> (scnif \<Rightarrow> bool) \<Rightarrow> scnif option \<Rightarrow> nat option \<Rightarrow> scnif list outcome" where
  "SCNetworkInterfaceCopyAllWithPreferences me sorter is_btpan btpan prefs =
     (let add = add_interfaces (be_bsd_name (me_bond me)) in
      obind (CopyAll_IONetworkInterface me False) (\<lambda>network.
      obind (CopyAll_Modem me) (\<lambda>modems.
      obind (CopyAll_RS232 me) (\<lambda>serial.
      obind (add_virtual me is_btpan btpan prefs (add serial (add modems (add network [])))) (\<lambda>all.
        Ret (sort_interfaces sorter all))))))"

definition SCNetworkInterfaceCopyAll ::
    "('e, 'p) match_env \<Rightarrow> if_sorter \<Rightarrow> (scnif \<Rightarrow> bool) \<Rightarrow> scnif option \<Rightarrow> scnif list outcome" where
  "SCNetworkInterfaceCopyAll me sorter is_btpan btpan = SCNetworkInterfaceCopyAllWithPreferences me sorter is_btpan btpan None"

section \<open>Virtual interfaces by name\<close>

definition findInterface :: "(scnif \<Rightarrow> string option) \<Rightarrow> scnif list \<Rightarrow> string \<Rightarrow> scnif option" where
  "findInterface bsd_name interfaces match_if = find (\<lambda>i. bsd_name i = Some match_if) interfaces"

definition findBondInterface :: "('e, 'p) match_env \<Rightarrow> nat option \<Rightarrow> string \<Rightarrow> scnif option outcome" where
  "findBondInterface me prefs ifDevice =
     (case prefs of
        None \<Rightarrow> Ret None
      | Some p \<Rightarrow> obind (bonds_of me p) (\<lambda>bonds. Ret (findInterface (be_bsd_name (me_bond me)) bonds ifDevice)))"

definition findBridgeInterface :: "('e, 'p) match_env \<Rightarrow> nat option \<Rightarrow> string \<Rightarrow> scnif option" where
  "findBridgeInterface me prefs ifDevice =
     (case Option.bind prefs (me_bridges me) of
        None \<Rightarrow> None | Some l \<Rightarrow> findInterface (be_bsd_name (me_bond me)) l ifDevice)"

definition findVLANInterface :: "('e, 'p) match_env \<Rightarrow> nat option \<Rightarrow> string \<Rightarrow> scnif option" where
  "findVLANInterface me prefs ifDevice =
     (case Option.bind prefs (me_vlans me) of
        None \<Rightarrow> None | Some l \<Rightarrow> findInterface (be_bsd_name (me_bond me)) l ifDevice)"

section \<open>What an entity asks for\<close>

definition kSCValNetInterfaceTypeFireWire :: string where "kSCValNetInterfaceTypeFireWire = ''FireWire''"
definition kSCValNetInterfaceSubTypePPPSerial :: string where "kSCValNetInterfaceSubTypePPPSerial = ''PPPSerial''"

lemmas match_text_defs = layer_type_defs kSCValNetInterfaceTypeEthernet_def kSCValNetInterfaceTypeFireWire_def
  kSCValNetInterfaceSubTypePPPSerial_def

text \<open>
  The search: for no service, for a new interface without the system (\<open>__kSCNetworkInterfaceSearchExternal\<close>), for any of
  the system (\<open>__kSCNetworkInterfaceSearchSystem\<close>), or for a service.
\<close>

datatype if_search = Search_any | Search_external | Search_system | Search_service scnservice

definition search_service :: "if_search \<Rightarrow> scnservice option" where
  "search_service s = (case s of Search_service sv \<Rightarrow> Some sv | _ \<Rightarrow> None)"

definition search_prefs :: "if_search \<Rightarrow> nat option" where
  "search_prefs s = Option.bind (search_service s) ns_prefs"

definition uses_system :: "('e, 'p) match_env \<Rightarrow> if_search \<Rightarrow> bool" where
  "uses_system me s = (case s of Search_external \<Rightarrow> False | Search_service sv \<Rightarrow> \<not> me_bypass me (ns_prefs sv) | _ \<Rightarrow> True)"

text \<open>
  The entity as it is read. The device and the unique identifier are tested where the code does; a subtype, a device or
  an identifier that is no text and still is used as one is \<open>UB\<close>.
\<close>

record wanted =
  wt_type :: string
  wt_subtype :: "plist option"
  wt_device :: "plist option"
  wt_unique :: "plist option"
  wt_entity :: dict

definition wanted_of :: "dict \<Rightarrow> wanted option" where
  "wanted_of entity =
     (case isA_CFString (case fmlookup entity ''Type'' of None \<Rightarrow> Some (CFString kSCValNetInterfaceTypeEthernet) | t \<Rightarrow> t) of
        None \<Rightarrow> None
      | Some t \<Rightarrow>
          if (t = kSCNetworkInterfaceTypePPP \<or> t = kSCNetworkInterfaceTypeVPN) \<and> isA_CFString (fmlookup entity ''SubType'') = None
          then None
          else Some \<lparr>wt_type = t, wt_subtype = fmlookup entity ''SubType'', wt_device = fmlookup entity ''DeviceName'',
                     wt_unique = fmlookup entity ''DeviceUniqueIdentifier'', wt_entity = entity\<rparr>)"

definition text_or_none :: "plist option \<Rightarrow> string option outcome" where
  "text_or_none v = (case v of None \<Rightarrow> Ret None | Some (CFString s) \<Rightarrow> Ret (Some s) | Some _ \<Rightarrow> UB)"

definition same_unique :: "wanted \<Rightarrow> scnif \<Rightarrow> bool" where
  "same_unique w i \<longleftrightarrow> wt_unique w = map_option CFString (ni_entity_device_unique (ni i))"

section \<open>The search\<close>

text \<open>\<open>Refused\<close> is the return of NULL, \<open>Made\<close> the interface that needs no search, \<open>Found\<close> what the search has.\<close>

datatype search_end = Refused | Made "scnif option" | Found "scnif list option"

text \<open>What changes: the cache, and the set of the vendor types.\<close>

type_synonym match_state = "if_cache \<times> string list"

definition loopback_copy :: scnif where
  "loopback_copy = SCNetworkInterfaceCreateCopy kSCNetworkInterfaceLoopback None None"

definition ethernet_search ::
    "('e, 'p) match_env \<Rightarrow> bool \<Rightarrow> bool \<Rightarrow> wanted \<Rightarrow> if_cache \<Rightarrow> (search_end \<times> if_cache) outcome" where
  "ethernet_search me keep_hidden use_system w cache =
     (case isA_CFString (wt_device w) of
        None \<Rightarrow> Ret (Refused, cache)
      | Some dev \<Rightarrow>
          if dev = ''lo0'' then Ret (Made (Some loopback_copy), cache)
          else if \<not> use_system then Ret (Found None, cache)
          else case CacheCopy (Some dev) cache of
                 Some l \<Rightarrow> Ret (Found (Some l), cache)
               | None \<Rightarrow>
                   (case Option.bind (me_cstring me dev) (me_bsd_matching me) of
                      None \<Rightarrow> Ret (Made None, cache)
                    | Some matching \<Rightarrow>
                        obind (findMatchingInterfaces (me_registry me) matching
                                 (processNetworkInterface (me_registry me) (me_discover me)) (me_preconfigured me)
                                 kSCNetworkInterfaceHiddenInterfaceKey keep_hidden True) (\<lambda>l.
                          Ret (Found l, CacheAdd (Some dev) l cache))))"

text \<open>By the base name; without any identifier, by the name of the device instead.\<close>

definition serial_search :: "('e, 'p) match_env \<Rightarrow> bool \<Rightarrow> bool \<Rightarrow> wanted \<Rightarrow> search_end outcome" where
  "serial_search me keep_hidden use_system w =
     (case isA_CFString (wt_device w) of
        None \<Rightarrow> Ret Refused
      | Some dev \<Rightarrow>
          if \<not> use_system then Ret (Found None)
          else obind (serial_matches me (tty_matching ''IOTTYBaseName'' dev) keep_hidden True) (\<lambda>l.
                 if wt_unique w = None \<and> (\<forall>i \<in> set (case l of None \<Rightarrow> [] | Some l1 \<Rightarrow> l1). ni_entity_device_unique (ni i) = None)
                 then obind (serial_matches me (tty_matching ''IOTTYDevice'' dev) keep_hidden True) (\<lambda>l1. Ret (Found l1))
                 else Ret (Found l)))"

text \<open>A layer over IPv4.\<close>

definition over_ipv4 :: "('e, 'p) match_env \<Rightarrow> string list \<Rightarrow> string \<Rightarrow> (scnif option \<times> string list) outcome" where
  "over_ipv4 me vendors t =
     obind (SCNetworkInterfaceCreateWithInterface (me_names me) vendors (Some kSCNetworkInterfaceIPv4) (Some t)) (\<lambda>(r, v).
       Ret (case r of Inl _ \<Rightarrow> None | Inr i \<Rightarrow> Some i, v))"

definition made_over_ipv4 :: "('e, 'p) match_env \<Rightarrow> match_state \<Rightarrow> string \<Rightarrow> (search_end \<times> match_state) outcome" where
  "made_over_ipv4 me st t = obind (over_ipv4 me (snd st) t) (\<lambda>(i, v). Ret (Made i, (fst st, v)))"

definition first_search ::
    "('e, 'p) match_env \<Rightarrow> bool \<Rightarrow> bool \<Rightarrow> wanted \<Rightarrow> match_state \<Rightarrow> (search_end \<times> match_state) outcome" where
  "first_search me keep_hidden use_system w st =
     (let t = wt_type w; sub = (case isA_CFString (wt_subtype w) of None \<Rightarrow> '''' | Some s \<Rightarrow> s) in
      if t = kSCValNetInterfaceTypeEthernet \<or> t = kSCValNetInterfaceTypeFireWire \<or>
         t = kSCNetworkInterfaceTypePPP \<and> sub = kSCValNetInterfaceSubTypePPPoE
      then obind (ethernet_search me keep_hidden use_system w (fst st)) (\<lambda>(r, cache). Ret (r, (cache, snd st)))
      else if t = kSCNetworkInterfaceTypePPP
      then (if sub = kSCValNetInterfaceSubTypePPPSerial
            then obind (serial_search me keep_hidden use_system w) (\<lambda>r. Ret (r, st))
            else made_over_ipv4 me st sub)
      else if t = kSCNetworkInterfaceType6to4
      then (if isA_CFString (wt_device w) = None then Ret (Refused, st) else made_over_ipv4 me st t)
      else if t = kSCNetworkInterfaceTypeIPSec then made_over_ipv4 me st t
      else if t = kSCNetworkInterfaceTypeLoopback then Ret (Made (Some loopback_copy), st)
      else if t = kSCNetworkInterfaceTypeVPN then (if CHR ''.'' \<in> set sub then made_over_ipv4 me st sub else Ret (Made None, st))
      else if CHR ''.'' \<in> set t \<and> wt_device w = None then made_over_ipv4 me st t
      else Ret (Made None, st))"

section \<open>The choice among what was found\<close>

text \<open>The only interface with the property; a second one ends the search.\<close>

fun only_match :: "(scnif \<Rightarrow> bool) \<Rightarrow> nat \<Rightarrow> nat option \<Rightarrow> scnif list \<Rightarrow> nat option" where
  "only_match P k found [] = found"
| "only_match P k found (i # is) =
     (if P i then (if found \<noteq> None then None else only_match P (Suc k) (Some k) is) else only_match P (Suc k) found is)"

definition same_display_name :: "name_env \<Rightarrow> plist \<Rightarrow> scnif \<Rightarrow> bool" where
  "same_display_name env ifName i \<longleftrightarrow>
     ni_entity_device_unique (ni i) = None \<or> ifName = CFString (SCNetworkInterfaceGetNonLocalizedDisplayName env i)"

definition chosen_among :: "name_env \<Rightarrow> wanted \<Rightarrow> scnif list \<Rightarrow> nat" where
  "chosen_among env w l =
     (case (if wt_unique w \<noteq> None then only_match (same_unique w) 0 None l
            else case fmlookup (wt_entity w) kSCPropUserDefinedName of
                   None \<Rightarrow> None | Some ifName \<Rightarrow> only_match (same_display_name env ifName) 0 None l) of
        None \<Rightarrow> 0 | Some k \<Rightarrow> k)"

definition wants_key :: "wanted \<Rightarrow> string \<Rightarrow> bool" where "wants_key w k \<longleftrightarrow> fmlookup (wt_entity w) k = None"

text \<open>A bond, a bridge or a VLAN, when the entity does not exclude it.\<close>

definition virtual_match :: "('e, 'p) match_env \<Rightarrow> nat option \<Rightarrow> wanted \<Rightarrow> string \<Rightarrow> scnif option outcome" where
  "virtual_match me prefs w dev =
     obind (if wants_key w ''_NO_BOND_INTERFACES_'' then findBondInterface me prefs dev else Ret None) (\<lambda>bond.
       Ret (or_else bond
             (or_else (if wants_key w ''_NO_BRIDGE_INTERFACES_'' then findBridgeInterface me prefs dev else None)
                (if wants_key w ''_NO_VLAN_INTERFACES_'' then findVLANInterface me prefs dev else None))))"

text \<open>The interface, and its place when it is one of those found.\<close>

definition choose_interface ::
    "('e, 'p) match_env \<Rightarrow> nat option \<Rightarrow> wanted \<Rightarrow> scnif list \<Rightarrow> (scnif option \<times> nat option) outcome" where
  "choose_interface me prefs w l =
     (if length l = 1 \<and> same_unique w (l ! 0) then Ret (Some (l ! 0), Some 0)
      else if length l \<le> 1
      then (if wt_type w \<noteq> kSCValNetInterfaceTypeEthernet \<or>
               fmlookup (wt_entity w) kSCPropUserDefinedName = Some (CFString ''Bluetooth PAN'')
            then Ret (None, None)
            else case (given_or_new me prefs, isA_CFString (wt_device w)) of
                   (Some p, Some dev) \<Rightarrow> obind (virtual_match me (Some p) w dev) (\<lambda>v. Ret (v, None))
                 | _ \<Rightarrow> Ret (None, None))
      else let k = chosen_among (me_names me) w l in Ret (Some (l ! k), Some k))"

section \<open>An interface that is not there\<close>

definition ethernet_by_name :: "name_env \<Rightarrow> string option \<Rightarrow> if_fields \<Rightarrow> if_fields" where
  "ethernet_by_name env name a =
     (let m = SCNetworkInterfaceMatchesName env name; a1 = a\<lparr>ni_interface_type := kSCNetworkInterfaceTypeEthernet\<rparr>;
          known = (\<lambda>key srt. a1\<lparr>ni_localized_key := Some key, ni_sort_order := srt\<rparr>)
      in if m ''ether'' \<or> m ''multiether'' then a1\<lparr>ni_sort_order := kSortEthernet, ni_builtin := True\<rparr>
         else if m ''iPhone'' then known ''iPhone'' kSortTethered
         else if m ''iPad'' then known ''iPad'' kSortTethered
         else if m ''thunderbolt'' \<or> m ''multithunderbolt''
         then (known ''thunderbolt'' kSortThunderbolt)\<lparr>ni_builtin := True\<rparr>
         else if m ''bluetooth-pan-gn'' then known ''bluetooth-pan-gn'' kSortBluetoothPAN_GN
         else if m ''bluetooth-pan-nap'' then known ''bluetooth-pan-nap'' kSortBluetoothPAN_NAP
         else if m ''bluetooth-pan-u'' then known ''bluetooth-pan-u'' kSortBluetoothPAN_U
         else a1\<lparr>ni_sort_order := kSortEthernet\<rparr>)"

definition typed_sort :: "string \<Rightarrow> if_sort \<Rightarrow> if_fields \<Rightarrow> if_fields" where
  "typed_sort t s a = a\<lparr>ni_interface_type := t, ni_sort_order := s\<rparr>"

definition airport_hardware :: "wanted \<Rightarrow> bool" where
  "airport_hardware w \<longleftrightarrow> fmlookup (wt_entity w) ''Hardware'' = Some (CFString kSCEntNetAirPort)"

definition ethernet_absent :: "name_env \<Rightarrow> wanted \<Rightarrow> string option \<Rightarrow> if_fields \<Rightarrow> if_fields" where
  "ethernet_absent env w name a =
     (if airport_hardware w
      then (typed_sort kSCNetworkInterfaceTypeIEEE80211 kSortAirPort a)\<lparr>ni_localized_key := Some ''airport'', ni_builtin := True\<rparr>
      else ethernet_by_name env name a)"

definition firewire_absent :: "name_env \<Rightarrow> string option \<Rightarrow> if_fields \<Rightarrow> if_fields" where
  "firewire_absent env name a =
     (let a1 = typed_sort ''FireWire'' kSortFireWire a
      in if SCNetworkInterfaceMatchesName env name ''firewire'' then a1\<lparr>ni_builtin := True\<rparr> else a1)"

definition pppoe_absent :: "wanted \<Rightarrow> if_fields \<Rightarrow> if_fields" where
  "pppoe_absent w = (if airport_hardware w then typed_sort kSCNetworkInterfaceTypeIEEE80211 kSortAirPort
                     else typed_sort kSCNetworkInterfaceTypeEthernet kSortEthernet)"

definition serial_absent :: "string \<Rightarrow> if_fields \<Rightarrow> if_fields" where
  "serial_absent dev =
     (if prefix ''Bluetooth'' dev then typed_sort ''Bluetooth'' kSortBluetooth
      else if prefix ''irda'' dev then typed_sort ''IrDA'' kSortIrDA
      else if prefix ''wwan'' dev then typed_sort ''WWAN'' kSortWWAN
      else typed_sort ''Modem'' kSortModem)"

text \<open>The new interface with the texts of the entity; its name only when the system is not consulted.\<close>

definition blank_wanted :: "bool \<Rightarrow> wanted \<Rightarrow> scnif outcome" where
  "blank_wanted use_system w =
     obind (text_or_none (wt_subtype w)) (\<lambda>sub.
     obind (text_or_none (wt_device w)) (\<lambda>dev.
     obind (text_or_none (wt_unique w)) (\<lambda>unique.
       let name = isA_CFString (fmlookup (wt_entity w) kSCPropUserDefinedName);
           i = upd_ni (\<lambda>a. a\<lparr>ni_entity_type := Some (wt_type w), ni_entity_subtype := sub, ni_entity_device := dev,
                             ni_entity_device_unique := unique\<rparr>) (SCNetworkInterfaceCreatePrivate None None None)
       in Ret (if \<not> use_system \<and> name \<noteq> None then SCNetworkInterfaceSetUserDefinedName name i else i))))"

text \<open>Bridges come first here. Without the system, one that the preferences have is taken.\<close>

definition absent_virtual :: "('e, 'p) match_env \<Rightarrow> bool \<Rightarrow> nat option \<Rightarrow> wanted \<Rightarrow> scnif option outcome" where
  "absent_virtual me use_system prefs w =
     (case isA_CFString (wt_device w) of
        Some dev \<Rightarrow>
          if use_system then Ret None
          else (case findBridgeInterface me prefs dev of
                  Some i \<Rightarrow> Ret (Some i)
                | None \<Rightarrow> obind (findBondInterface me prefs dev) (\<lambda>bond. Ret (or_else bond (findVLANInterface me prefs dev))))
      | None \<Rightarrow> Ret None)"

definition add_vendor :: "string \<Rightarrow> string list \<Rightarrow> string list" where
  "add_vendor t vendors = (if t \<in> set vendors then vendors else t # vendors)"

definition absent_kind ::
    "('e, 'p) match_env \<Rightarrow> bool \<Rightarrow> nat option \<Rightarrow> wanted \<Rightarrow> string list \<Rightarrow> scnif \<Rightarrow> (scnif option \<times> string list) outcome" where
  "absent_kind me use_system prefs w vendors i =
     (let t = wt_type w; sub = isA_CFString (wt_subtype w); env = me_names me;
          name = isA_CFString (fmlookup (wt_entity w) kSCPropUserDefinedName) in
      if t = kSCValNetInterfaceTypeEthernet
      then obind (absent_virtual me use_system prefs w) (\<lambda>v.
             Ret (Some (case v of Some j \<Rightarrow> j | None \<Rightarrow> upd_ni (ethernet_absent env w name) i), vendors))
      else if t = kSCValNetInterfaceTypeFireWire then Ret (Some (upd_ni (firewire_absent env name) i), vendors)
      else if t = kSCNetworkInterfaceTypePPP \<and> sub = Some kSCValNetInterfaceSubTypePPPoE
      then Ret (Some (upd_ni (pppoe_absent w) i), vendors)
      else if t = kSCNetworkInterfaceTypePPP \<and> sub = Some kSCValNetInterfaceSubTypePPPSerial
      then Ret (Some (upd_ni (serial_absent (case isA_CFString (wt_device w) of None \<Rightarrow> '''' | Some d \<Rightarrow> d)) i), vendors)
      else if (t = kSCNetworkInterfaceTypePPP \<or> t = kSCNetworkInterfaceTypeVPN) \<and> sub \<noteq> None
      then over_ipv4 me vendors (the sub)
      else if t = kSCNetworkInterfaceTypeIPSec then over_ipv4 me vendors t
      else if t = kSCNetworkInterfaceType6to4
      then (if isA_CFString (wt_device w) = None then Ret (None, vendors) else over_ipv4 me vendors t)
      else if t = kSCNetworkInterfaceTypeLoopback then Ret (Some loopback_copy, vendors)
      else if CHR ''.'' \<in> set t then Ret (Some (upd_ni (\<lambda>a. a\<lparr>ni_interface_type := t\<rparr>) i), add_vendor t vendors)
      else Ret (None, vendors))"

definition absent_interface ::
    "('e, 'p) match_env \<Rightarrow> bool \<Rightarrow> nat option \<Rightarrow> wanted \<Rightarrow> string list \<Rightarrow> (scnif option \<times> string list) outcome" where
  "absent_interface me use_system prefs w vendors =
     obind (blank_wanted use_system w) (\<lambda>i.
     obind (absent_kind me use_system prefs w vendors i) (\<lambda>(r, v).
       let hidden = isHidden (fmlookup (wt_entity w) kSCNetworkInterfaceHiddenConfigurationKey)
       in Ret (map_option (upd_registry (\<lambda>g. g\<lparr>ni_hiddenConfiguration := hidden\<rparr>)) r, v)))"

section \<open>The service\<close>

text \<open>The members of bonds and bridges and the physical interface of a VLAN are linked too.\<close>

fun link_service :: "scnservice \<Rightarrow> scnif \<Rightarrow> scnif" where
  "link_service service (SCNetif a l b r v) =
     (let set_service = SCNetworkInterfaceSetService service; t = ni_interface_type a
      in set_service
           (SCNetif a l
             (if t = kSCNetworkInterfaceTypeBond then map_option (map set_service) b else b)
             (if t = kSCNetworkInterfaceTypeBridge then map_option (map set_service) r else r)
             (if t = kSCNetworkInterfaceTypeVLAN then map_option set_service v else v)))"

definition linked :: "scnservice option \<Rightarrow> scnif \<Rightarrow> scnif" where
  "linked service i = (case service of None \<Rightarrow> i | Some s \<Rightarrow> link_service s i)"

text \<open>The object in the cache is the one that is linked.\<close>

definition relink_cached :: "wanted \<Rightarrow> nat option \<Rightarrow> scnif \<Rightarrow> if_cache \<Rightarrow> if_cache" where
  "relink_cached w place i cache =
     (case (cache, isA_CFString (wt_device w), place) of
        (Some m, Some dev, Some k) \<Rightarrow>
          if wt_type w = kSCNetworkInterfaceTypePPP \<and> wt_subtype w = Some (CFString kSCValNetInterfaceSubTypePPPSerial) then cache
          else (case fmlookup m dev of None \<Rightarrow> cache | Some l \<Rightarrow> Some (fmupd dev (l[k := i]) m))
      | _ \<Rightarrow> cache)"

text \<open>The layer that PPP and VPN have over it; what the search made is given up when it has none.\<close>

definition layered :: "('e, 'p) match_env \<Rightarrow> wanted \<Rightarrow> string list \<Rightarrow> scnif \<Rightarrow> (scnif option \<times> string list) outcome" where
  "layered me w vendors i =
     (if wt_type w = kSCNetworkInterfaceTypePPP \<or> wt_type w = kSCNetworkInterfaceTypeVPN
      then obind (SCNetworkInterfaceCreateWithInterface (me_names me) vendors (Some i) (Some (wt_type w))) (\<lambda>(r, v).
             Ret (case r of Inl _ \<Rightarrow> None | Inr p \<Rightarrow> Some p, v))
      else Ret (Some i, vendors))"

definition finish_interface ::
    "('e, 'p) match_env \<Rightarrow> if_search \<Rightarrow> wanted \<Rightarrow> scnif option \<times> nat option \<Rightarrow> match_state \<Rightarrow>
     (scnif option \<times> match_state) outcome" where
  "finish_interface me search w found st =
     (let use_system = uses_system me search in
      obind (case found of
               (Some i, place) \<Rightarrow>
                 if use_system then Ret (Some i, place, snd st)
                 else obind (absent_interface me use_system (search_prefs search) w (snd st)) (\<lambda>(r, v). Ret (r, None, v))
             | (None, _) \<Rightarrow>
                 obind (absent_interface me use_system (search_prefs search) w (snd st)) (\<lambda>(r, v). Ret (r, None, v)))
        (\<lambda>(r, place, vendors).
           case r of
             None \<Rightarrow> Ret (None, (fst st, vendors))
           | Some i \<Rightarrow>
               let j = linked (search_service search) i; cache = relink_cached w place j (fst st)
               in obind (layered me w vendors j) (\<lambda>(p, v). Ret (p, (cache, v)))))"

definition SCNetworkInterfaceCreateWithEntity ::
    "('e, 'p) match_env \<Rightarrow> dict \<Rightarrow> if_search \<Rightarrow> match_state \<Rightarrow> (scnif option \<times> match_state) outcome" where
  "SCNetworkInterfaceCreateWithEntity me entity search st =
     (case wanted_of entity of
        None \<Rightarrow> Ret (None, st)
      | Some w \<Rightarrow>
          obind (first_search me (search = Search_system) (uses_system me search) w st) (\<lambda>(r, st1).
            case r of
              Refused \<Rightarrow> Ret (None, st1)
            | Made i \<Rightarrow> finish_interface me search w (i, None) st1
            | Found None \<Rightarrow> finish_interface me search w (None, None) st1
            | Found (Some l) \<Rightarrow>
                obind (choose_interface me (search_prefs search) w l) (\<lambda>c. finish_interface me search w c st1)))"

section \<open>By BSD name\<close>

text \<open>
  The entity of the service whose connection uses the interface. \<open>store\<close> is what the store has for the two patterns;
  the entries are used as dictionaries without a check, and the key has at least four parts.
\<close>

definition setup_interface_key :: "string \<Rightarrow> string" where
  "setup_interface_key serviceID = ''Setup:/Network/Service/'' @ serviceID @ ''/Interface''"

fun ppp_entity_among :: "dict \<Rightarrow> string \<Rightarrow> (string \<times> plist) list \<Rightarrow> dict option outcome" where
  "ppp_entity_among store bsdName [] = Ret None"
| "ppp_entity_among store bsdName ((pppKey, pppVal) # rest) =
     (if \<not> suffix ''PPP'' pppKey then ppp_entity_among store bsdName rest
      else case pppVal of
             CFDictionary d \<Rightarrow>
               if fmlookup d ''InterfaceName'' \<noteq> Some (CFString bsdName) then ppp_entity_among store bsdName rest
               else (let components = split_at_char (CHR ''/'') pppKey in
                     if length components \<le> 3 then UB
                     else case fmlookup store (setup_interface_key (components ! 3)) of
                            None \<Rightarrow> ppp_entity_among store bsdName rest
                          | Some (CFDictionary e) \<Rightarrow> Ret (Some e)
                          | Some _ \<Rightarrow> UB)
           | _ \<Rightarrow> UB)"

definition copy_ppp_entity :: "dict option \<Rightarrow> string \<Rightarrow> dict option outcome" where
  "copy_ppp_entity store bsdName =
     (case store of None \<Rightarrow> Ret None | Some d \<Rightarrow> ppp_entity_among d bsdName (dict_entries d))"

text \<open>
  \<open>point_to_point\<close> is the flag that the kernel has for a name, \<open>include\<close> the kinds of virtual interfaces that the
  caller wants: bonds, bridges, VLANs.
\<close>

definition bsd_entity :: "string \<Rightarrow> bool \<times> bool \<times> bool \<Rightarrow> dict option \<Rightarrow> dict" where
  "bsd_entity bsdName include entity =
     (case include of (bonds, bridges, vlans) \<Rightarrow>
        put_flag ''_NO_VLAN_INTERFACES_'' (\<not> vlans)
          (put_flag ''_NO_BRIDGE_INTERFACES_'' (\<not> bridges)
            (put_flag ''_NO_BOND_INTERFACES_'' (\<not> bonds)
              (case entity of None \<Rightarrow> fmupd ''DeviceName'' (CFString bsdName) fmempty | Some e \<Rightarrow> e))))"

definition SCNetworkInterfaceCreateWithBSDName ::
    "('e, 'p) match_env \<Rightarrow> (string \<Rightarrow> bool) \<Rightarrow> dict option \<Rightarrow> string \<Rightarrow> bool \<times> bool \<times> bool \<Rightarrow> match_state \<Rightarrow>
     (scnif option \<times> match_state) outcome" where
  "SCNetworkInterfaceCreateWithBSDName me point_to_point store bsdName include st =
     obind (case me_cstring me bsdName of
              None \<Rightarrow> Ret None
            | Some c \<Rightarrow> if point_to_point c then copy_ppp_entity store bsdName else Ret None) (\<lambda>entity.
       SCNetworkInterfaceCreateWithEntity me (bsd_entity bsdName include entity) Search_system st)"

end
