(* ===== verification/NetMatchProps.thy ===== *)
theory NetMatchProps
  imports NetMatch NetStorageProps BondProps
begin

text \<open>
  Facts on the discovery of interfaces and on the interface of an entity: walks through the registry, the types of
  what discovery gives, independence of the system, the link to a service, and entities read back.
\<close>

section \<open>Walks through the registry\<close>

text \<open>Each walk takes as many steps as the depth says, so where the depth is right it is the recursion of the code.\<close>

definition registry_tree :: "'e io_registry \<Rightarrow> bool" where
  "registry_tree reg \<longleftrightarrow> (\<forall>e p. io_parent reg e = Some p \<longrightarrow> io_depth reg e = Suc (io_depth reg p))"

lemma depth_of_parent: "registry_tree reg \<Longrightarrow> io_parent reg e = Some p \<Longrightarrow> io_depth reg e = Suc (io_depth reg p)"
  by (simp add: registry_tree_def)

lemma pci_slot_up_root: "io_parent reg e = None \<Longrightarrow> pci_slot_up reg n e = own_slot reg e"
  by (cases n) simp_all

lemma copy_path_up_root:
  "io_parent reg e = None \<Longrightarrow> copy_path_up reg n e = (case io_entry_path reg e of Path_is p \<Rightarrow> Some p | _ \<Rightarrow> None)"
  by (simp add: copy_path_up.simps split: io_path.splits nat.splits)

lemma pci_slot_walk:
  assumes "registry_tree reg"
  shows "pci_slot reg e =
    (case Option.bind (io_parent reg e) (pci_slot reg) of Some s \<Rightarrow> Some s | None \<Rightarrow> own_slot reg e)"
proof (cases "io_parent reg e")
  case None
  then show ?thesis by (simp add: pci_slot_def pci_slot_up_root)
next
  case (Some p)
  then show ?thesis by (simp add: pci_slot_def depth_of_parent [OF assms Some])
qed

lemma provider_walk:
  assumes "registry_tree reg"
  shows "provider_up reg (io_depth reg e) e =
    (case io_search reg e ''IOProviderClass'' of
       None \<Rightarrow> None
     | Some p \<Rightarrow> if p \<noteq> CFString ''IOSkywalkEthernetInterface'' then Some p
                 else Option.bind (io_parent reg e) (\<lambda>q. provider_up reg (io_depth reg q) q))"
  by (subst provider_up.simps, cases "io_parent reg e")
     (auto split: option.splits nat.splits simp: depth_of_parent [OF assms])

lemma path_walk:
  assumes "registry_tree reg"
  shows "IORegistryEntryCopyPath reg e =
    (case io_entry_path reg e of
       Path_is p \<Rightarrow> Some p
     | Path_failed \<Rightarrow> None
     | Path_bad_argument \<Rightarrow>
         Option.bind (Option.bind (io_parent reg e) (IORegistryEntryCopyPath reg)) (\<lambda>str_parent.
           map_option (\<lambda>name. str_parent @ ''/'' @ name @ (case io_location reg e of None \<Rightarrow> '''' | Some l \<Rightarrow> ''@'' @ l))
             (io_name reg e)))"
  unfolding IORegistryEntryCopyPath_def
  by (subst copy_path_up.simps, cases "io_parent reg e")
     (auto split: io_path.splits option.splits nat.splits simp: depth_of_parent [OF assms])

section \<open>Types\<close>

definition network_types :: "(string \<times> string) set" where
  "network_types = {(kSCNetworkInterfaceTypeEthernet, ''Ethernet''), (kSCNetworkInterfaceTypeIEEE80211, ''Ethernet''),
                    (''FireWire'', ''FireWire'')}"

definition serial_types :: "(string \<times> string) set" where
  "serial_types = {(''Bluetooth'', ''Modem''), (''IrDA'', ''Modem''), (''WWAN'', ''Modem''), (''Modem'', ''Modem'')}"

text \<open>The fields that the discovery leaves as they are once it knows the type.\<close>

definition same_type :: "if_fields \<Rightarrow> if_fields \<Rightarrow> bool" where
  "same_type a b \<longleftrightarrow> ni_interface_type b = ni_interface_type a \<and> ni_entity_type b = ni_entity_type a \<and>
     ni_prefs b = ni_prefs a \<and> ni_serviceID b = ni_serviceID a \<and> ni_hiddenInterface (ni_registry b) = ni_hiddenInterface (ni_registry a)"

lemma same_type_refl [simp]: "same_type a a"
  by (simp add: same_type_def)

lemma same_type_trans: "same_type a b \<Longrightarrow> same_type b c \<Longrightarrow> same_type a c"
  by (simp add: same_type_def)

lemma same_type_usb: "same_type a (processUSBInterface reg e a)"
  by (simp add: same_type_def processUSBInterface_def Let_def)

lemma same_type_update_name: "same_type a (snd (update_interface_name reg env e u a))"
  by (simp add: same_type_def update_interface_name_def Let_def split: option.splits)

lemma same_type_merge: "same_type a (merge_override reg e t a)"
  by (simp add: same_type_def merge_override_def split: option.splits plist.splits)

lemma same_type_keyed: "same_type a (keyed k x y a)"
  by (simp add: same_type_def keyed_def)

lemma same_type_details: "same_type a (device_details reg d c a)"
  by (simp add: same_type_def device_details_def)

lemma same_type_preferences: "same_type a (registry_preferences reg e a)"
  by (simp add: same_type_def registry_preferences_def Let_def)

lemma same_type_script: "set_connection_script s a = Ret b \<Longrightarrow> same_type a b"
  by (auto simp: set_connection_script_def same_type_def Let_def)

lemmas same_type_steps = same_type_usb same_type_update_name same_type_merge same_type_keyed same_type_details
  same_type_preferences

lemma same_type_slot_named: "same_type a (slot_named reg env e ift k a)"
proof -
  have n: "same_type a (snd (update_interface_name reg env e False a))" by (rule same_type_update_name)
  obtain ok b where u: "update_interface_name reg env e False a = (ok, b)" by (metis surj_pair)
  have b: "same_type a b" using n u by simp
  show ?thesis
    by (cases ok; simp add: slot_named_def u b split: option.splits prod.splits)
       (auto intro: same_type_trans [OF b same_type_keyed] simp: b)
qed

lemma same_type_generic_named: "same_type a (generic_named reg d k a)"
  by (simp add: generic_named_def same_type_keyed)

lemma same_type_usb_named:
  "same_type a (case update_interface_name reg env e True (processUSBInterface reg e a) of
                  (True, b) \<Rightarrow> b | (False, b) \<Rightarrow> generic_named reg d k b)"
proof -
  obtain ok b where u: "update_interface_name reg env e True (processUSBInterface reg e a) = (ok, b)" by (metis surj_pair)
  have "same_type a b"
    using same_type_trans [OF same_type_usb same_type_update_name] u by (metis snd_conv)
  then show ?thesis using same_type_trans [OF _ same_type_generic_named] by (cases ok) (auto simp: u)
qed

lemma same_type_provider_named: "same_type a (provider_named reg env e d ups ift a)"
proof -
  let ?p = "provider_up reg (io_depth reg e) e"
  define a2 where "a2 = (if on_usb reg (de_internal env) ?p e ups
      then (case update_interface_name reg (de_names env) e True (processUSBInterface reg e a) of
              (True, b) \<Rightarrow> b | (False, b) \<Rightarrow> generic_named reg d ''usb-ether'' b) else a)"
  have a2: "same_type a a2" unfolding a2_def by (simp add: same_type_usb_named)
  define a1 where "a1 = (if ?p = None then a
      else if ?p = Some (CFString ''IOPCIDevice'') then slot_named reg (de_names env) e ift ''ether'' a
      else if ni_localized_key a2 = None then snd (update_interface_name reg (de_names env) e False a2) else a2)"
  have a1: "same_type a a1"
    unfolding a1_def by (simp add: a2 same_type_slot_named same_type_trans [OF a2 same_type_update_name])
  have "provider_named reg env e d ups ift a =
      (if ni_localized_key a1 = None then generic_named reg d ''generic-ether'' a1 else a1)"
    unfolding provider_named_def Let_def a1_def a2_def by simp
  then show ?thesis by (simp add: a1 same_type_trans [OF a1 same_type_generic_named])
qed

lemma same_type_ether_named: "same_type a (ether_named reg env e d ups ift a)"
proof -
  have k: "same_type a (a\<lparr>ni_localized_key := x\<rparr>)" for x by (simp add: same_type_def)
  show ?thesis
    unfolding ether_named_def Let_def by (simp add: k same_type_keyed same_type_provider_named)
qed

lemma ether_kind_types:
  "ether_kind reg e c bd = Some (t, s) \<Longrightarrow> t = kSCNetworkInterfaceTypeEthernet \<or> t = kSCNetworkInterfaceTypeIEEE80211"
  by (auto simp: ether_kind_def kind_by_controller_def kind_by_role_def split: option.splits if_splits)

lemma ether_typed_types:
  assumes "ether_kind reg e c bd = kind"
  shows "(ni_interface_type (ether_typed kind a), the (ni_entity_type (ether_typed kind a))) \<in> network_types \<and>
    ni_entity_type (ether_typed kind a) \<noteq> None"
proof (cases kind)
  case None
  then show ?thesis
    by (simp add: ether_typed_def typed_as_def network_types_def kSCValNetInterfaceTypeEthernet_def)
next
  case (Some ts)
  obtain t s where "ts = (t, s)" by (cases ts)
  then show ?thesis
    using Some assms ether_kind_types [of reg e c bd t s]
    by (auto simp: ether_typed_def typed_as_def network_types_def kSCValNetInterfaceTypeEthernet_def)
qed

text \<open>What is known of an interface under construction when its type is from the table.\<close>

definition typed_in :: "(string \<times> string) set \<Rightarrow> if_fields \<Rightarrow> if_fields \<Rightarrow> bool" where
  "typed_in ts a b \<longleftrightarrow> (\<exists>t e. (t, e) \<in> ts \<and> ni_interface_type b = t \<and> ni_entity_type b = Some e) \<and>
     ni_prefs b = ni_prefs a \<and> ni_serviceID b = ni_serviceID a \<and> ni_hiddenInterface (ni_registry b) = ni_hiddenInterface (ni_registry a)"

lemma typed_in_step: "typed_in ts a b \<Longrightarrow> same_type b c \<Longrightarrow> typed_in ts a c"
  by (auto simp: typed_in_def same_type_def)

lemma ether_interface_typed: "typed_in network_types a (ether_interface reg env e d c cd b bd ift a)"
proof -
  let ?a1 = "ether_typed (ether_kind reg e c bd) a"
  have t: "typed_in network_types a ?a1"
    using ether_typed_types [OF refl, of reg e c bd a]
    by (auto simp: typed_in_def ether_typed_def typed_as_def split: option.splits)
  show ?thesis
    unfolding ether_interface_def Let_def
    by (rule typed_in_step [OF _ same_type_ether_named], rule typed_in_step [OF t]) (simp add: same_type_def)
qed

lemma firewire_interface_typed: "typed_in network_types a (firewire_interface reg env e ift a)"
proof -
  define a1 where "a1 = a\<lparr>ni_interface_type := ''FireWire'', ni_entity_type := Some ''FireWire'', ni_builtin := isBuiltin reg e,
                 ni_sort_order := kSortFireWire\<rparr>"
  have a1: "typed_in network_types a a1"
    by (simp add: a1_def typed_in_def network_types_def)
  have "typed_in network_types a (a1\<lparr>ni_localized_key := Some ''firewire''\<rparr>)"
    by (rule typed_in_step [OF a1]) (simp add: same_type_def)
  then show ?thesis
    unfolding firewire_interface_def Let_def a1_def [symmetric]
    by (simp add: typed_in_step [OF a1 same_type_slot_named])
qed

lemma typed_in_unit: "typed_in ts (a\<lparr>ni_registry := (ni_registry a)\<lparr>ni_type := x\<rparr>\<rparr>) b \<longleftrightarrow> typed_in ts a b"
  by (simp add: typed_in_def)

lemma processNetworkInterface_typed:
  assumes "processNetworkInterface reg env e d c cd b bd a = Ret (Some a1)"
  shows "typed_in network_types a a1"
proof -
  obtain ift where i: "Option.bind (isA_CFNumber (fmlookup d ''IOInterfaceType'')) cf_int_value = Some ift"
    using assms by (auto simp: processNetworkInterface_def split: option.splits)
  let ?a0 = "a\<lparr>ni_registry := (ni_registry a)\<lparr>ni_type := Some ift\<rparr>\<rparr>"
  obtain x where x: "a1 = merge_override reg e kSCNetworkInterfaceTypePPP (device_details reg d cd x)"
    and "x = ether_interface reg env e d c cd b bd ift ?a0 \<or> x = firewire_interface reg env e ift ?a0"
    using assms by (simp add: processNetworkInterface_def i Let_def split: if_splits) blast+
  then have "typed_in network_types a x"
    using ether_interface_typed [of ?a0 reg env e d c cd b bd ift] firewire_interface_typed [of ?a0 reg env e ift]
    by (auto simp: typed_in_unit)
  then show ?thesis
    unfolding x by (rule typed_in_step [OF typed_in_step [OF _ same_type_details] same_type_merge])
qed

lemma serial_kind_types:
  assumes "serial_kind reg base w a = Some b"
  shows "typed_in serial_types a (b\<lparr>ni_entity_type := Some ''Modem''\<rparr>)"
  using assms by (auto simp: serial_kind_def typed_in_def serial_types_def split: if_splits prod.splits)

lemma serial_stream_same: "serial_stream ift base a = Some (m, b) \<Longrightarrow> same_type a b"
  by (auto simp: serial_stream_def same_type_def split: if_splits)

lemma modem_override_same: "modem_override base a = Ret (s, b) \<Longrightarrow> same_type a b"
  by (auto simp: modem_override_def same_type_def split: option.splits plist.splits)

lemma modem_script_same: "modem_script reg e (s, a) = Ret (t, b) \<Longrightarrow> same_type a b"
  by (auto simp: modem_script_def split: option.splits dest: same_type_script)

lemma serial_named_same:
  assumes "serial_named reg env e base m (s, a) = Ret b"
  shows "same_type a b"
proof -
  define a1 where "a1 = a\<lparr>ni_name := Some (port_title (de_names env) (map lower base @ (if m then '''' else ''-port'')) base False),
    ni_localized_name := Some (port_title (de_names env) (map lower base @ (if m then '''' else ''-port'')) base True)\<rparr>"
  have a1: "same_type a a1" by (simp add: a1_def same_type_def)
  obtain ok a2 where u: "update_interface_name reg (de_names env) e True (processUSBInterface reg e a1) = (ok, a2)"
    by (metis surj_pair)
  have "same_type a1 a2"
    using same_type_trans [OF same_type_usb same_type_update_name] u by (metis snd_conv)
  then have a2: "same_type a a2" by (rule same_type_trans [OF a1])
  have k: "same_type a (a\<lparr>ni_localized_key := x\<rparr>)" for x by (simp add: same_type_def)
  show ?thesis
    using assms a1 a2 k
    by (simp only: serial_named_def Let_def prod.case a1_def [symmetric] u)
       (auto split: if_splits bool.splits option.splits intro: same_type_trans [OF a2 same_type_script])
qed

lemma processSerialInterface_typed:
  assumes "processSerialInterface reg env e d c cd b bd a = Ret (Some a1)"
  shows "typed_in serial_types a a1"
proof -
  obtain device base x1 m x2 s x3 s4 x4 where
    k: "serial_kind reg base (true_value (io_search reg e ''WWAN'')) (a\<lparr>ni_entity_device := Some device\<rparr>) = Some x1"
    and t: "serial_stream (fmlookup d ''IOSerialBSDClientType'') base (x1\<lparr>ni_entity_type := Some ''Modem''\<rparr>) = Some (m, x2)"
    and o: "modem_override base (merge_override reg e ''Modem'' (merge_override reg e ''PPP'' x2)) = Ret (s, x3)"
    and y: "modem_script reg e (s, x3) = Ret (s4, x4)" and n: "serial_named reg env e base m (s4, x4) = Ret a1"
    using assms by (auto simp: processSerialInterface_def Let_def split: if_splits option.splits)
  have "typed_in serial_types a (x1\<lparr>ni_entity_type := Some ''Modem''\<rparr>)"
    using serial_kind_types [OF k] by (simp add: typed_in_def)
  from typed_in_step [OF this serial_stream_same [OF t]]
  have "typed_in serial_types a (merge_override reg e ''Modem'' (merge_override reg e ''PPP'' x2))"
    by (rule typed_in_step [OF _ same_type_trans [OF same_type_merge same_type_merge]])
  then show ?thesis
    using modem_override_same [OF o] modem_script_same [OF y] serial_named_same [OF n]
    by (blast intro: typed_in_step)
qed

section \<open>What discovery finds\<close>

lemma createInterface_io_from:
  assumes "createInterface_io reg func key keep e = Ret (Some i)"
    and func: "\<And>a a1 d c cd b bd. func e d c cd b bd a = Ret (Some a1) \<Longrightarrow> typed_in ts a a1"
  shows "ni_interface i = None \<and> ni_prefs (ni i) = None \<and> ni_serviceID (ni i) = None \<and>
    (\<exists>t et. (t, et) \<in> ts \<and> ni_interface_type (ni i) = t \<and> ni_entity_type (ni i) = Some et) \<and>
    (ni_hiddenInterface (ni_registry (ni i)) \<longleftrightarrow> isHidden (io_search reg e key)) \<and> (isHidden (io_search reg e key) \<longrightarrow> keep)"
proof -
  obtain d c cd b bd a a1 where
    f: "func e d c cd b bd a = Ret (Some a1)" and i: "i = upd_ni (\<lambda>_. registry_preferences reg e a1)
      (SCNetworkInterfaceCreatePrivate None None None)"
    and a: "ni_prefs a = None" "ni_serviceID a = None" "ni_hiddenInterface (ni_registry a) \<longleftrightarrow> isHidden (io_search reg e key)"
    and h: "isHidden (io_search reg e key) \<longrightarrow> keep"
    using assms(1) by (auto simp: createInterface_io_def Let_def SCNetworkInterfaceCreatePrivate_def split: if_splits option.splits)
  have "typed_in ts a (registry_preferences reg e a1)"
    by (rule typed_in_step [OF func [OF f] same_type_preferences])
  then show ?thesis
    using a h by (auto simp: typed_in_def i SCNetworkInterfaceCreatePrivate_def)
qed

lemma create_each_from:
  assumes "create_each reg func pre key keep keep_pre es = Ret l" and "i \<in> set l"
  shows "(\<exists>e \<in> set es. createInterface_io reg func key keep e = Ret (Some i)) \<and> (keep_pre \<or> \<not> pre i)"
  using assms
proof (induction es arbitrary: l)
  case (Cons e es)
  then obtain r l1 where r: "createInterface_io reg func key keep e = Ret r"
    and l1: "create_each reg func pre key keep keep_pre es = Ret l1"
    and l: "l = (case r of None \<Rightarrow> l1 | Some i \<Rightarrow> if keep_pre \<or> \<not> pre i then i # l1 else l1)"
    by auto
  show ?case
  proof (cases "i \<in> set l1")
    case True
    then show ?thesis using Cons.IH [OF l1] by auto
  next
    case False
    then have "r = Some i" "keep_pre \<or> \<not> pre i" using Cons.prems(2) l by (auto split: option.splits if_splits)
    then show ?thesis using r by auto
  qed
qed simp

text \<open>
  C40. Each interface that a search of the registry returns, of network or of serial devices, is a bare one, without a layer
  below it. Its type and the type of its entity are a pair that goes together (\<open>network_types\<close>, \<open>serial_types\<close>), it is
  linked to no preferences and no service, it is hidden only if hidden ones are kept and preconfigured only if those are
  kept, and the table of layers knows its type unless it is IrDA.
\<close>

theorem findMatchingInterfaces_typed:
  assumes "findMatchingInterfaces reg matching func pre key keep_hidden keep_pre = Ret (Some l)" and "i \<in> set l"
    and "func = processNetworkInterface reg env \<and> ts = network_types \<or> func = processSerialInterface reg env \<and> ts = serial_types"
  shows "((ni_interface_type (ni i), the (ni_entity_type (ni i))) \<in> ts \<and> ni_entity_type (ni i) \<noteq> None \<and> ni_interface i = None) \<and>
    (ni_prefs (ni i) = None \<and> ni_serviceID (ni i) = None) \<and>
    ((\<not> ni_hiddenInterface (ni_registry (ni i)) \<or> keep_hidden) \<and> (\<not> pre i \<or> keep_pre)) \<and>
    (ni_interface_type (ni i) = ''IrDA'' \<or> findConfiguration (ni_interface_type (ni i)) \<noteq> None)"
proof -
  have func: "typed_in ts a a1" if "func e d c cd b bd a = Ret (Some a1)" for e d c cd b bd a a1
    using assms(3) that by (auto dest: processNetworkInterface_typed processSerialInterface_typed)
  obtain es where "create_each reg func pre key keep_hidden keep_pre es = Ret l"
    using assms(1) by (auto simp: findMatchingInterfaces_def split: option.splits)
  from create_each_from [OF this assms(2)] obtain e
    where e: "createInterface_io reg func key keep_hidden e = Ret (Some i)" and "keep_pre \<or> \<not> pre i" by blast
  have from_entry: "ni_interface i = None \<and> ni_prefs (ni i) = None \<and> ni_serviceID (ni i) = None \<and>
    (\<exists>t et. (t, et) \<in> ts \<and> ni_interface_type (ni i) = t \<and> ni_entity_type (ni i) = Some et) \<and>
    (ni_hiddenInterface (ni_registry (ni i)) \<longleftrightarrow> isHidden (io_search reg e key)) \<and> (isHidden (io_search reg e key) \<longrightarrow> keep_hidden)"
    using e by (rule createInterface_io_from) (rule func)
  have row: "t = ''IrDA'' \<or> findConfiguration t \<noteq> None" if "(t, et) \<in> ts" for t et
    using assms(3) that
    by (auto simp: network_types_def serial_types_def findConfiguration_def configurations_def layer_type_defs)
  from from_entry obtain t et where t: "(t, et) \<in> ts" "ni_interface_type (ni i) = t" "ni_entity_type (ni i) = Some et" by blast
  show ?thesis
    using from_entry \<open>keep_pre \<or> \<not> pre i\<close> t row [OF t(1)] by auto
qed

section \<open>The link to a service\<close>















section \<open>Without the system\<close>

lemma fields_without_system:
  "me_bond (me\<lparr>me_registry := reg, me_preconfigured := pre, me_bsd_matching := bm, me_cstring := cs\<rparr>) = me_bond me" "me_ops (me\<lparr>me_registry := reg, me_preconfigured := pre, me_bsd_matching := bm, me_cstring := cs\<rparr>) = me_ops me" "me_prefs (me\<lparr>me_registry := reg, me_preconfigured := pre, me_bsd_matching := bm, me_cstring := cs\<rparr>) = me_prefs me" "me_bridges (me\<lparr>me_registry := reg, me_preconfigured := pre, me_bsd_matching := bm, me_cstring := cs\<rparr>) = me_bridges me"
  "me_vlans (me\<lparr>me_registry := reg, me_preconfigured := pre, me_bsd_matching := bm, me_cstring := cs\<rparr>) = me_vlans me" "me_names (me\<lparr>me_registry := reg, me_preconfigured := pre, me_bsd_matching := bm, me_cstring := cs\<rparr>) = me_names me"
  by simp_all

lemma lookups_without_system:
  "bonds_of (me\<lparr>me_registry := reg, me_preconfigured := pre, me_bsd_matching := bm, me_cstring := cs\<rparr>) = bonds_of me" "findBridgeInterface (me\<lparr>me_registry := reg, me_preconfigured := pre, me_bsd_matching := bm, me_cstring := cs\<rparr>) = findBridgeInterface me" "findVLANInterface (me\<lparr>me_registry := reg, me_preconfigured := pre, me_bsd_matching := bm, me_cstring := cs\<rparr>) = findVLANInterface me"
  unfolding bonds_of_def findBridgeInterface_def findVLANInterface_def fields_without_system by (rule refl)+

lemma parts_without_system:
  "over_ipv4 (me\<lparr>me_registry := reg, me_preconfigured := pre, me_bsd_matching := bm, me_cstring := cs\<rparr>) v t = over_ipv4 me v t"
  "absent_virtual (me\<lparr>me_registry := reg, me_preconfigured := pre, me_bsd_matching := bm, me_cstring := cs\<rparr>) u prefs w =
   absent_virtual me u prefs w"
  unfolding over_ipv4_def absent_virtual_def findBondInterface_def lookups_without_system fields_without_system by (rule refl)+

lemma absent_without_system:
  "absent_interface (me\<lparr>me_registry := reg, me_preconfigured := pre, me_bsd_matching := bm, me_cstring := cs\<rparr>) u prefs w v =
   absent_interface me u prefs w v"
  unfolding absent_interface_def absent_kind_def parts_without_system fields_without_system ..

lemma layered_without_system: "layered (me\<lparr>me_registry := reg, me_preconfigured := pre, me_bsd_matching := bm, me_cstring := cs\<rparr>) = layered me"
  unfolding layered_def fields_without_system ..

lemma searches_without_system:
  "ethernet_search (me\<lparr>me_registry := reg, me_preconfigured := pre, me_bsd_matching := bm, me_cstring := cs\<rparr>) keep False w c = ethernet_search me keep False w c"
  "serial_search (me\<lparr>me_registry := reg, me_preconfigured := pre, me_bsd_matching := bm, me_cstring := cs\<rparr>) keep False w = serial_search me keep False w"
  by (simp_all add: ethernet_search_def serial_search_def split: option.split)

lemma first_search_without_system: "first_search (me\<lparr>me_registry := reg, me_preconfigured := pre, me_bsd_matching := bm, me_cstring := cs\<rparr>) keep False w st = first_search me keep False w st"
  unfolding first_search_def made_over_ipv4_def parts_without_system searches_without_system ..

lemma first_search_external:
  assumes "first_search me keep False w st = Ret (r, st1)"
  shows "fst st1 = fst st \<and> (r = Refused \<or> r = Found None \<or> (\<exists>i. r = Made i))"
  using assms
  by (auto simp: first_search_def ethernet_search_def serial_search_def made_over_ipv4_def Let_def split: if_splits option.splits)

lemma finish_external:
  assumes "\<not> uses_system me search"
  shows "finish_interface me search w (i, None) st =
    obind (absent_interface me False (search_prefs search) w (snd st)) (\<lambda>(r, v).
      case r of None \<Rightarrow> Ret (None, (fst st, v))
      | Some i \<Rightarrow> obind (layered me w v (linked (search_service search) i)) (\<lambda>(p, v1). Ret (p, (fst st, v1))))"
proof -
  have c: "relink_cached w None j c = c" for j c by (simp add: relink_cached_def split: option.splits)
  have "obind (obind (absent_interface me False (search_prefs search) w (snd st)) (\<lambda>(r, v). Ret (r, None, v))) k =
        obind (absent_interface me False (search_prefs search) w (snd st)) (\<lambda>(r, v). k (r, None, v))"
    for k :: "scnif option \<times> nat option \<times> string list \<Rightarrow> (scnif option \<times> match_state) outcome"
    by (cases "absent_interface me False (search_prefs search) w (snd st)") auto
  then show ?thesis
    using assms by (cases i) (simp_all only: finish_interface_def Let_def c prod.case option.case if_False)
qed

text \<open>
  When the system is not consulted, for a new interface outside of it or for a service of preferences that bypass
  it, the interface depends on the entity and the preferences alone: any other registry, and any other answer about
  device names, gives the same result, and the cache stays as it is.
\<close>

theorem CreateWithEntity_ignores_system:
  assumes "\<not> uses_system me search"
  shows "SCNetworkInterfaceCreateWithEntity
      (me\<lparr>me_registry := reg, me_preconfigured := pre, me_bsd_matching := bm, me_cstring := cs\<rparr>) entity search st =
    SCNetworkInterfaceCreateWithEntity me entity search st \<and>
    (SCNetworkInterfaceCreateWithEntity me entity search st = UB \<or>
     (\<exists>r v. SCNetworkInterfaceCreateWithEntity me entity search st = Ret (r, (fst st, v))))"
proof (cases "wanted_of entity")
  case None
  then show ?thesis by (cases st) (simp add: SCNetworkInterfaceCreateWithEntity_def)
next
  case (Some w)
  let ?me = "me\<lparr>me_registry := reg, me_preconfigured := pre, me_bsd_matching := bm, me_cstring := cs\<rparr>"
  let ?k = "search = Search_system"
  have u: "\<not> uses_system ?me search" using assms by (simp add: uses_system_def split: if_search.splits)
  have f: "finish_interface ?me search w (i, None) st1 = finish_interface me search w (i, None) st1" for i st1
    unfolding finish_external [OF u] finish_external [OF assms] absent_without_system layered_without_system ..
  have g: "finish_interface me search w (i, None) st1 = UB \<or>
      (\<exists>r v. finish_interface me search w (i, None) st1 = Ret (r, (fst st1, v)))" for i st1
    unfolding finish_external [OF assms]
    by (cases "absent_interface me False (search_prefs search) w (snd st1)"; clarsimp split: option.splits)
       (metis (no_types, lifting) obind.elims prod.case surj_pair)
  show ?thesis
  proof (cases "first_search me ?k False w st")
    case UB
    then show ?thesis using Some assms u by (simp add: SCNetworkInterfaceCreateWithEntity_def first_search_without_system)
  next
    case (Ret x)
    obtain r st1 where x: "x = (r, st1)" by (cases x)
    have c: "fst st1 = fst st" and "r = Refused \<or> r = Found None \<or> (\<exists>i. r = Made i)"
      using first_search_external [OF Ret [unfolded x]] by simp_all
    then consider (refused) "r = Refused" | (found) "r = Found None" | (made) i where "r = Made i"
      by blast
    then show ?thesis
    proof cases
      case refused
      then show ?thesis
        using Some assms u Ret x c by (cases st1) (simp add: SCNetworkInterfaceCreateWithEntity_def first_search_without_system)
    next
      case found
      then show ?thesis
        using Some assms u Ret x c f g [of None st1]
        by (simp add: SCNetworkInterfaceCreateWithEntity_def first_search_without_system)
    next
      case (made i)
      then show ?thesis
        using Some assms u Ret x c f g [of i st1]
        by (simp add: SCNetworkInterfaceCreateWithEntity_def first_search_without_system)
    qed
  qed
qed

section \<open>Entities read back\<close>

fun types_of :: "scnif \<Rightarrow> string list" where
  "types_of (SCNetif a l b r v) = ni_interface_type a # (case l of None \<Rightarrow> [] | Some x \<Rightarrow> types_of x)"

text \<open>What an entity says of an interface, the name apart.\<close>

definition entity_of :: "scnif \<Rightarrow> string option \<times> string option \<times> string option \<times> string option \<times> bool" where
  "entity_of i = (ni_entity_type (ni i), ni_entity_subtype (ni i), ni_entity_device (ni i), ni_entity_device_unique (ni i),
     ni_hiddenConfiguration (ni_registry (ni i)))"

text \<open>A device of a type that discovery has for networks, or PPP over such an Ethernet device.\<close>

definition network_device :: "scnif \<Rightarrow> bool" where
  "network_device i \<longleftrightarrow> ni_interface i = None \<and> ni_entity_device (ni i) \<noteq> None \<and>
     (\<exists>et. ni_entity_type (ni i) = Some et \<and> (ni_interface_type (ni i), et) \<in> network_types)"

definition pppoe_device :: "scnif \<Rightarrow> bool" where
  "pppoe_device i \<longleftrightarrow> ni_interface_type (ni i) = kSCNetworkInterfaceTypePPP \<and> ni_entity_type (ni i) = Some ''PPP'' \<and>
     ni_entity_subtype (ni i) = Some kSCValNetInterfaceSubTypePPPoE \<and> ni_entity_device (ni i) \<noteq> None \<and>
     (\<exists>low. ni_interface i = Some low \<and> ni_interface low = None \<and>
        ni_interface_type (ni low) \<in> {kSCNetworkInterfaceTypeEthernet, kSCNetworkInterfaceTypeIEEE80211})"

lemma lowest_layer_cases:
  "ni_interface i = None \<Longrightarrow> lowest_layer i = i" "ni_interface i = Some x \<Longrightarrow> lowest_layer i = lowest_layer x"
  by (cases i; simp)+

lemma types_of_cases: "types_of i = ni_interface_type (ni i) # (case ni_interface i of None \<Rightarrow> [] | Some x \<Rightarrow> types_of x)"
  by (cases i) simp

lemma equal_needs_type: "ni_interface_type (ni i) \<noteq> ni_interface_type (ni j) \<Longrightarrow> \<not> SCNetworkInterfaceEqual env i j"
  by (cases i; cases j) simp

lemma static_types:
  "ni_interface_type (ni kSCNetworkInterfaceIPv4) = ''IPv4''" "ni_interface_type (ni kSCNetworkInterfaceLoopback) = ''Loopback''"
  by (simp_all add: kSCNetworkInterfaceIPv4_def kSCNetworkInterfaceLoopback_def static_interface_def layer_type_defs)

text \<open>The entries of the entity.\<close>

lemma entity_entries:
  assumes "CopyInterfaceEntity env g i = Ret entity" and low: "lowest_layer i = low" and t: "ni_interface_type (ni low) \<noteq> ''IPv4''"
  obtains nm where "gt_display g low = Some nm"
    and "fmlookup entity ''Type'' = map_option CFString (ni_entity_type (ni i))"
    and "fmlookup entity ''SubType'' = map_option CFString (ni_entity_subtype (ni i))"
    and "fmlookup entity ''DeviceName'' = map_option CFString (ni_entity_device (ni i))"
    and "fmlookup entity ''DeviceUniqueIdentifier'' = map_option CFString (ni_entity_device_unique (ni i))"
    and "isHidden (fmlookup entity kSCNetworkInterfaceHiddenConfigurationKey) = ni_hiddenConfiguration (ni_registry (ni i))"
    and "fmlookup entity kSCPropUserDefinedName = Some (CFString nm)"
    and "fmlookup entity ''Hardware'' = map_option CFString (hardware_of (ni_interface_type (ni low)))"
proof -
  have "\<not> SCNetworkInterfaceEqual env low kSCNetworkInterfaceIPv4"
    using t by (intro equal_needs_type) (simp add: static_types)
  then obtain nm where nm: "gt_display g low = Some nm" and e: "entity = fmupd kSCPropUserDefinedName (CFString nm)
      (put_string ''Hardware'' (hardware_of (ni_interface_type (ni low)))
        (put_flag kSCNetworkInterfaceHiddenConfigurationKey (ni_hiddenConfiguration (ni_registry (ni i)))
          (put_string ''DeviceUniqueIdentifier'' (ni_entity_device_unique (ni i))
            (put_string ''DeviceName'' (ni_entity_device (ni i))
              (put_string ''SubType'' (ni_entity_subtype (ni i))
                (put_string ''Type'' (ni_entity_type (ni i)) fmempty))))))"
    using assms(1) by (auto simp: CopyInterfaceEntity_def Let_def low split: option.splits)
  show thesis
    by (rule that [OF nm]; simp add: e lookup_put_string lookup_put_flag kSCPropUserDefinedName_def
        kSCNetworkInterfaceHiddenConfigurationKey_def isHidden_def)
qed

text \<open>The search without the system, for the types of networks.\<close>

lemma network_search:
  assumes "wt_type w = ''Ethernet'' \<or> wt_type w = ''FireWire'' \<or> wt_type w = ''PPP'' \<and> wt_subtype w = Some (CFString ''PPPoE'')"
    and "wt_device w = Some (CFString dev)"
  shows "\<exists>r. first_search me False False w st = Ret (r, st) \<and> (r = Found None \<or> (\<exists>i. r = Made (Some i)))"
  using assms by (cases st) (auto simp: first_search_def ethernet_search_def match_text_defs Let_def)

lemma external_network:
  assumes "wanted_of entity = Some w" and "wt_device w = Some (CFString dev)"
    and "wt_type w = ''Ethernet'' \<or> wt_type w = ''FireWire'' \<or> wt_type w = ''PPP'' \<and> wt_subtype w = Some (CFString ''PPPoE'')"
    and "blank_wanted False w = Ret b" and "absent_kind me False None w (snd st) b = Ret (Some k, v)"
    and "layered me w v (upd_registry (\<lambda>g. g\<lparr>ni_hiddenConfiguration := isHidden (fmlookup (wt_entity w) kSCNetworkInterfaceHiddenConfigurationKey)\<rparr>) k)
           = Ret (Some p, v1)"
  shows "SCNetworkInterfaceCreateWithEntity me entity Search_external st = Ret (Some p, (fst st, v1))"
proof -
  have u: "\<not> uses_system me Search_external" by (simp add: uses_system_def)
  obtain r where r: "first_search me False False w st = Ret (r, st)" "r = Found None \<or> (\<exists>i. r = Made (Some i))"
    using network_search [OF assms(3,2)] by blast
  have "finish_interface me Search_external w (i, None) st = Ret (Some p, (fst st, v1))" for i
    unfolding finish_external [OF u]
    using assms(4-6) by (simp add: absent_interface_def search_prefs_def search_service_def linked_def)
  then show ?thesis
    using r assms(1) u by (auto simp: SCNetworkInterfaceCreateWithEntity_def)
qed

text \<open>What the entity of an interface asks for.\<close>

lemma wanted_entity:
  assumes e: "CopyInterfaceEntity env g i = Ret entity" and low: "lowest_layer i = low" and t: "ni_interface_type (ni low) \<noteq> ''IPv4''"
    and et: "ni_entity_type (ni i) = Some et" and "et = ''PPP'' \<Longrightarrow> ni_entity_subtype (ni i) \<noteq> None" and "et \<noteq> ''VPN''"
  obtains w nm where "wanted_of entity = Some w" and "gt_display g low = Some nm" and "wt_type w = et"
    and "wt_subtype w = map_option CFString (ni_entity_subtype (ni i))" and "wt_device w = map_option CFString (ni_entity_device (ni i))"
    and "wt_unique w = map_option CFString (ni_entity_device_unique (ni i))"
    and "fmlookup (wt_entity w) kSCPropUserDefinedName = Some (CFString nm)"
    and "isHidden (fmlookup (wt_entity w) kSCNetworkInterfaceHiddenConfigurationKey) = ni_hiddenConfiguration (ni_registry (ni i))"
    and "airport_hardware w \<longleftrightarrow> hardware_of (ni_interface_type (ni low)) = Some kSCEntNetAirPort"
proof -
  from entity_entries [OF e low t] obtain nm where n: "gt_display g low = Some nm"
    "fmlookup entity ''Type'' = map_option CFString (ni_entity_type (ni i))"
    "fmlookup entity ''SubType'' = map_option CFString (ni_entity_subtype (ni i))"
    "fmlookup entity ''DeviceName'' = map_option CFString (ni_entity_device (ni i))"
    "fmlookup entity ''DeviceUniqueIdentifier'' = map_option CFString (ni_entity_device_unique (ni i))"
    "isHidden (fmlookup entity kSCNetworkInterfaceHiddenConfigurationKey) = ni_hiddenConfiguration (ni_registry (ni i))"
    "fmlookup entity kSCPropUserDefinedName = Some (CFString nm)"
    "fmlookup entity ''Hardware'' = map_option CFString (hardware_of (ni_interface_type (ni low)))" .
  let ?w = "\<lparr>wt_type = et, wt_subtype = fmlookup entity ''SubType'', wt_device = fmlookup entity ''DeviceName'',
     wt_unique = fmlookup entity ''DeviceUniqueIdentifier'', wt_entity = entity\<rparr>"
  have "wanted_of entity = Some ?w"
    using n(2,3) et assms(5,6) by (auto simp: wanted_of_def match_text_defs)
  then show thesis
    by (rule that [of ?w, OF _ n(1)]) (simp_all add: n airport_hardware_def)
qed

lemma hardware_names:
  "hardware_of ''Ethernet'' = Some ''Ethernet''" "hardware_of ''IEEE80211'' = Some ''AirPort''" "hardware_of ''FireWire'' = Some ''FireWire''"
  by (simp_all add: hardware_of_def findConfiguration_def configurations_def)

text \<open>The blank interface, field by field.\<close>

lemma blank_wanted_texts:
  assumes "wt_subtype w = map_option CFString sub" "wt_device w = map_option CFString dev" "wt_unique w = map_option CFString un"
    and "fmlookup (wt_entity w) kSCPropUserDefinedName = map_option CFString nm"
  shows "\<exists>b. blank_wanted False w = Ret b \<and> ni_interface b = None \<and> ni_entity_type (ni b) = Some (wt_type w) \<and>
    ni_entity_subtype (ni b) = sub \<and> ni_entity_device (ni b) = dev \<and> ni_entity_device_unique (ni b) = un \<and> ni_name (ni b) = nm"
  using assms
  by (cases sub; cases dev; cases un; cases nm)
    (simp_all add: blank_wanted_def text_or_none_def SCNetworkInterfaceSetUserDefinedName_def SCNetworkInterfaceCreatePrivate_def Let_def)

text \<open>The fields that the type does not change.\<close>

definition same_entity :: "if_fields \<Rightarrow> if_fields \<Rightarrow> bool" where
  "same_entity a b \<longleftrightarrow> ni_entity_type b = ni_entity_type a \<and> ni_entity_subtype b = ni_entity_subtype a \<and>
     ni_entity_device b = ni_entity_device a \<and> ni_entity_device_unique b = ni_entity_device_unique a \<and> ni_name b = ni_name a"

lemma ethernet_by_name_entity:
  "same_entity a (ethernet_by_name env n a) \<and> ni_interface_type (ethernet_by_name env n a) = ''Ethernet''"
  by (simp add: ethernet_by_name_def same_entity_def Let_def match_text_defs)

lemma absent_entity:
  "same_entity a (ethernet_absent env w n a)"
  "ni_interface_type (ethernet_absent env w n a) = (if airport_hardware w then ''IEEE80211'' else ''Ethernet'')"
  "same_entity a (firewire_absent env n a) \<and> ni_interface_type (firewire_absent env n a) = ''FireWire''"
  "same_entity a (pppoe_absent w a)"
  "ni_interface_type (pppoe_absent w a) = (if airport_hardware w then ''IEEE80211'' else ''Ethernet'')"
  using ethernet_by_name_entity [of a env n]
  by (simp_all add: ethernet_absent_def firewire_absent_def pppoe_absent_def typed_sort_def same_entity_def Let_def match_text_defs)

text \<open>An entity of a network device, made from an interface or from a stored entry.\<close>

lemma network_entity_read_back:
  assumes et: "(ty, et) \<in> network_types"
    and e: "fmlookup entity ''Type'' = Some (CFString et)" "fmlookup entity ''SubType'' = map_option CFString sub"
      "fmlookup entity ''DeviceName'' = Some (CFString d)" "fmlookup entity ''DeviceUniqueIdentifier'' = map_option CFString un"
      "fmlookup entity kSCPropUserDefinedName = map_option CFString nm"
      "fmlookup entity ''Hardware'' = map_option CFString (hardware_of ty)"
  shows "\<exists>j. SCNetworkInterfaceCreateWithEntity me entity Search_external st = Ret (Some j, st) \<and> types_of j = [ty] \<and>
    entity_of j = (Some et, sub, Some d, un, isHidden (fmlookup entity kSCNetworkInterfaceHiddenConfigurationKey)) \<and> ni_name (ni j) = nm"
proof -
  define w where "w = \<lparr>wt_type = et, wt_subtype = fmlookup entity ''SubType'', wt_device = fmlookup entity ''DeviceName'',
     wt_unique = fmlookup entity ''DeviceUniqueIdentifier'', wt_entity = entity\<rparr>"
  have three: "ty = ''Ethernet'' \<and> et = ''Ethernet'' \<or> ty = ''IEEE80211'' \<and> et = ''Ethernet'' \<or> ty = ''FireWire'' \<and> et = ''FireWire''"
    using et by (simp add: network_types_def layer_type_defs)
  then have types: "et \<noteq> ''PPP''" "et \<noteq> ''VPN''" by auto
  have "airport_hardware w \<longleftrightarrow> hardware_of ty = Some ''AirPort''"
    using e(6) by (cases "hardware_of ty") (simp_all add: airport_hardware_def w_def kSCEntNetAirPort_def)
  with three have cases:
    "et = ''Ethernet'' \<and> ty = (if airport_hardware w then ''IEEE80211'' else ''Ethernet'') \<or> et = ''FireWire'' \<and> ty = ''FireWire''"
    by (elim disjE conjE; simp add: hardware_names)
  have w: "wanted_of entity = Some w" "wt_type w = et" "wt_subtype w = map_option CFString sub"
    "wt_device w = map_option CFString (Some d)" "wt_unique w = map_option CFString un"
    "fmlookup (wt_entity w) kSCPropUserDefinedName = map_option CFString nm" "wt_entity w = entity"
    using e types by (simp_all add: wanted_of_def w_def match_text_defs)
  obtain b where b: "blank_wanted False w = Ret b" "ni_interface b = None" "ni_entity_type (ni b) = Some et"
    "ni_entity_subtype (ni b) = sub" "ni_entity_device (ni b) = Some d" "ni_entity_device_unique (ni b) = un" "ni_name (ni b) = nm"
    using blank_wanted_texts [OF w(3-6)] w(2) by auto
  have name: "isA_CFString (fmlookup (wt_entity w) kSCPropUserDefinedName) = nm" using w(6) by (cases nm) simp_all
  obtain f where k: "absent_kind me False None w (snd st) b = Ret (Some (upd_ni f b), snd st)"
    and f: "same_entity (ni b) (f (ni b))" "ni_interface_type (f (ni b)) = ty"
    using cases
  proof
    assume c: "et = ''Ethernet'' \<and> ty = (if airport_hardware w then ''IEEE80211'' else ''Ethernet'')"
    have "absent_virtual me False None w = Ret None"
      by (simp add: absent_virtual_def findBridgeInterface_def findBondInterface_def findVLANInterface_def or_else_def split: option.splits)
    then have "absent_kind me False None w (snd st) b = Ret (Some (upd_ni (ethernet_absent (me_names me) w nm) b), snd st)"
      using c w(2) name by (simp add: absent_kind_def Let_def match_text_defs)
    then show thesis
      by (rule that) (use absent_entity c in simp_all)
  next
    assume c: "et = ''FireWire'' \<and> ty = ''FireWire''"
    then have "absent_kind me False None w (snd st) b = Ret (Some (upd_ni (firewire_absent (me_names me) nm) b), snd st)"
      using w(2) name by (simp add: absent_kind_def Let_def match_text_defs)
    then show thesis
      by (rule that) (use absent_entity(3) c in simp_all)
  qed
  let ?h = "isHidden (fmlookup (wt_entity w) kSCNetworkInterfaceHiddenConfigurationKey)"
  let ?j = "upd_registry (\<lambda>g. g\<lparr>ni_hiddenConfiguration := ?h\<rparr>) (upd_ni f b)"
  have "layered me w (snd st) ?j = Ret (Some ?j, snd st)"
    using types w(2) by (simp add: layered_def layer_type_defs)
  from external_network [OF w(1) _ _ b(1) k this] have
    "SCNetworkInterfaceCreateWithEntity me entity Search_external st = Ret (Some ?j, st)"
    using w(2,4) cases by auto
  then show ?thesis
    using b(2-7) f w(7) by (intro exI [of _ ?j]) (auto simp: entity_of_def types_of_cases same_entity_def)
qed

lemma network_device_read_back:
  assumes dev: "network_device i" and e: "CopyInterfaceEntity env g i = Ret entity"
  shows "\<exists>j. SCNetworkInterfaceCreateWithEntity me entity Search_external st = Ret (Some j, st) \<and>
    entity_of j = entity_of i \<and> types_of j = types_of i \<and> ni_name (ni j) = gt_display g i"
proof -
  from dev obtain et d where et: "ni_entity_type (ni i) = Some et" "(ni_interface_type (ni i), et) \<in> network_types"
    and d: "ni_entity_device (ni i) = Some d" and bare: "ni_interface i = None"
    by (auto simp: network_device_def)
  have "lowest_layer i = i" "ni_interface_type (ni i) \<noteq> ''IPv4''"
    using bare et(2) by (auto simp: lowest_layer_cases network_types_def layer_type_defs)
  from entity_entries [OF e this] obtain nm where n: "gt_display g i = Some nm"
    "fmlookup entity ''Type'' = map_option CFString (ni_entity_type (ni i))"
    "fmlookup entity ''SubType'' = map_option CFString (ni_entity_subtype (ni i))"
    "fmlookup entity ''DeviceName'' = map_option CFString (ni_entity_device (ni i))"
    "fmlookup entity ''DeviceUniqueIdentifier'' = map_option CFString (ni_entity_device_unique (ni i))"
    "isHidden (fmlookup entity kSCNetworkInterfaceHiddenConfigurationKey) = ni_hiddenConfiguration (ni_registry (ni i))"
    "fmlookup entity kSCPropUserDefinedName = Some (CFString nm)"
    "fmlookup entity ''Hardware'' = map_option CFString (hardware_of (ni_interface_type (ni i)))" .
  have "fmlookup entity ''Type'' = Some (CFString et)" "fmlookup entity ''DeviceName'' = Some (CFString d)"
    "fmlookup entity kSCPropUserDefinedName = map_option CFString (Some nm)"
    using n et d by simp_all
  from network_entity_read_back [OF et(2) this(1) n(3) this(2) n(5) this(3) n(8), of me st] show ?thesis
    using n(1,6) et d bare by (auto simp: entity_of_def types_of_cases [of i])
qed

text \<open>PPP over a device of a type that has Ethernet's rows.\<close>

lemma pppoe_layer:
  assumes "ni_interface_type (ni c) = ''Ethernet'' \<or> ni_interface_type (ni c) = ''IEEE80211''"
  shows "\<exists>p. SCNetworkInterfaceCreateWithInterface env v (Some c) (Some ''PPP'') = Ret (Inr p, v) \<and> ni_interface p = Some c \<and>
    ni_interface_type (ni p) = ''PPP'' \<and> ni_entity_type (ni p) = Some ''PPP'' \<and> ni_entity_subtype (ni p) = Some ''PPPoE'' \<and>
    ni_entity_device (ni p) = ni_entity_device (ni c) \<and> ni_entity_device_unique (ni p) = ni_entity_device_unique (ni c) \<and>
    ni_hiddenConfiguration (ni_registry (ni p)) = ni_hiddenConfiguration (ni_registry (ni c))"
proof -
  let ?parent = "SCNetworkInterfaceCreatePrivate (Some c) (ni_prefs (ni c)) (ni_serviceID (ni c))"
  let ?q = "set_ppp_layer (ni c) (Some ''PPPoE'') (ni ?parent)"
  have "\<not> SCNetworkInterfaceEqual env c kSCNetworkInterfaceLoopback"
    using assms by (intro equal_needs_type) (auto simp: static_types)
  moreover have "layer_fields (ni c) ''PPP'' (ni ?parent) = Ret (Some ?q)"
    using assms by (auto simp: layer_fields_def findConfiguration_def configurations_def layer_type_defs)
  ultimately have "SCNetworkInterfaceCreateWithInterface env v (Some c) (Some ''PPP'') =
      Ret (Inr (upd_ni (\<lambda>_. inherit_layer (ni c) ?q) ?parent), v)"
    by (simp add: SCNetworkInterfaceCreateWithInterface_def Let_def)
  then show ?thesis
    by (intro exI [of _ "upd_ni (\<lambda>_. inherit_layer (ni c) ?q) ?parent"])
      (simp add: inherit_layer_def set_ppp_layer_def SCNetworkInterfaceCreatePrivate_def layer_type_defs)
qed

lemma pppoe_device_read_back:
  assumes dev: "pppoe_device i" and e: "CopyInterfaceEntity env g i = Ret entity"
  shows "\<exists>j. SCNetworkInterfaceCreateWithEntity me entity Search_external st = Ret (Some j, st) \<and>
    entity_of j = entity_of i \<and> types_of j = types_of i \<and> ni_name (ni (lowest_layer j)) = gt_display g (lowest_layer i)"
proof -
  from dev obtain low d where i: "ni_interface_type (ni i) = ''PPP''" "ni_entity_type (ni i) = Some ''PPP''"
      "ni_entity_subtype (ni i) = Some ''PPPoE''" "ni_entity_device (ni i) = Some d" "ni_interface i = Some low"
    and low: "ni_interface low = None" "ni_interface_type (ni low) = ''Ethernet'' \<or> ni_interface_type (ni low) = ''IEEE80211''"
    by (auto simp: pppoe_device_def match_text_defs)
  have lowest: "lowest_layer i = low" using i(5) low(1) by (simp add: lowest_layer_cases)
  have "ni_interface_type (ni low) \<noteq> ''IPv4''" "ni_entity_subtype (ni i) \<noteq> None" "''PPP'' \<noteq> ''VPN''"
    using low(2) i(3) by auto
  from wanted_entity [OF e lowest this(1) i(2) this(2,3)] obtain w nm where w: "wanted_of entity = Some w"
    "gt_display g low = Some nm" "wt_type w = ''PPP''"
    "wt_subtype w = map_option CFString (ni_entity_subtype (ni i))" "wt_device w = map_option CFString (ni_entity_device (ni i))"
    "wt_unique w = map_option CFString (ni_entity_device_unique (ni i))"
    "fmlookup (wt_entity w) kSCPropUserDefinedName = Some (CFString nm)"
    "isHidden (fmlookup (wt_entity w) kSCNetworkInterfaceHiddenConfigurationKey) = ni_hiddenConfiguration (ni_registry (ni i))"
    "airport_hardware w \<longleftrightarrow> hardware_of (ni_interface_type (ni low)) = Some kSCEntNetAirPort" .
  have type: "ni_interface_type (ni low) = (if airport_hardware w then ''IEEE80211'' else ''Ethernet'')"
    using low(2) w(9) by (auto simp: hardware_names kSCEntNetAirPort_def)
  obtain b where b: "blank_wanted False w = Ret b" "ni_interface b = None" "ni_entity_type (ni b) = Some ''PPP''"
    "ni_entity_subtype (ni b) = ni_entity_subtype (ni i)" "ni_entity_device (ni b) = ni_entity_device (ni i)"
    "ni_entity_device_unique (ni b) = ni_entity_device_unique (ni i)" "ni_name (ni b) = Some nm"
    using blank_wanted_texts [OF w(4-6), of "Some nm"] w(3,7) by auto
  have k: "absent_kind me False None w (snd st) b = Ret (Some (upd_ni (pppoe_absent w) b), snd st)"
    using w(3,4) i(3) by (simp add: absent_kind_def Let_def match_text_defs)
  let ?h = "isHidden (fmlookup (wt_entity w) kSCNetworkInterfaceHiddenConfigurationKey)"
  let ?c = "upd_registry (\<lambda>g. g\<lparr>ni_hiddenConfiguration := ?h\<rparr>) (upd_ni (pppoe_absent w) b)"
  have "ni_interface_type (ni ?c) = ''Ethernet'' \<or> ni_interface_type (ni ?c) = ''IEEE80211''"
    by (simp add: absent_entity(5))
  from pppoe_layer [OF this, of "me_names me" "snd st"] obtain p where
    p: "SCNetworkInterfaceCreateWithInterface (me_names me) (snd st) (Some ?c) (Some ''PPP'') = Ret (Inr p, snd st)"
      "ni_interface p = Some ?c" "ni_interface_type (ni p) = ''PPP''" "ni_entity_type (ni p) = Some ''PPP''"
      "ni_entity_subtype (ni p) = Some ''PPPoE''" "ni_entity_device (ni p) = ni_entity_device (ni ?c)"
      "ni_entity_device_unique (ni p) = ni_entity_device_unique (ni ?c)"
      "ni_hiddenConfiguration (ni_registry (ni p)) = ni_hiddenConfiguration (ni_registry (ni ?c))" by blast
  have "layered me w (snd st) ?c = Ret (Some p, snd st)"
    using p(1) w(3) by (simp add: layered_def layer_type_defs)
  from external_network [OF w(1) _ _ b(1) k this] have
    "SCNetworkInterfaceCreateWithEntity me entity Search_external st = Ret (Some p, st)"
    using w(3-5) i(3,4) by auto
  moreover have "same_entity (ni b) (pppoe_absent w (ni b))" by (rule absent_entity(4))
  moreover have "lowest_layer p = ?c" using p(2) b(2) by (simp add: lowest_layer_cases)
  ultimately show ?thesis
    using p b(2-7) w(2,8) i low(1) type lowest
    by (intro exI [of _ p]) (simp add: entity_of_def types_of_cases same_entity_def absent_entity(5))
qed

text \<open>
  The entity that a service stores of a network device, or of PPP over Ethernet, is enough to make the interface
  again without the system: from what \<open>__SCNetworkInterfaceCopyInterfaceEntity\<close> gives, the search that ignores
  the system makes an interface with the same types on all layers and the same entity (type, subtype, device,
  unique identifier, hidden flag), whose lowest layer has the display name that was stored, and nothing else changes.
\<close>

theorem InterfaceEntity_read_back:
  assumes "network_device i \<or> pppoe_device i" and "CopyInterfaceEntity env g i = Ret entity"
  shows "\<exists>j. SCNetworkInterfaceCreateWithEntity me entity Search_external st = Ret (Some j, st) \<and>
    entity_of j = entity_of i \<and> types_of j = types_of i \<and> ni_name (ni (lowest_layer j)) = gt_display g (lowest_layer i)"
  using assms(1)
proof
  assume dev: "network_device i"
  from network_device_read_back [OF dev assms(2), of me st] obtain j where j:
    "SCNetworkInterfaceCreateWithEntity me entity Search_external st = Ret (Some j, st)"
    "entity_of j = entity_of i" "types_of j = types_of i" "ni_name (ni j) = gt_display g i" by blast
  have i: "ni_interface i = None" using dev by (simp add: network_device_def)
  have "types_of x \<noteq> []" for x by (subst types_of_cases) simp
  then have "ni_interface j = None"
    using j(3) i types_of_cases [of i] types_of_cases [of j] by (auto split: option.splits)
  then show ?thesis using j i by (auto simp: lowest_layer_cases)
qed (rule pppoe_device_read_back [OF _ assms(2)])

text \<open>The creation of a stored interface, with the search that ignores the system; an undefined search is no interface to use.\<close>

definition external_creation :: "('e, 'p) match_env \<Rightarrow> (int \<Rightarrow> int) \<Rightarrow> match_state \<Rightarrow> if_creation" where
  "external_creation me cf_int st =
     \<lparr>cr_int = cf_int,
      cr_create = \<lambda>e. case SCNetworkInterfaceCreateWithEntity me e Search_external st of UB \<Rightarrow> None | Ret (r, _) \<Rightarrow> r\<rparr>"

lemma stored_entity_info:
  "stored_entity i bsd p t u m q info' = fmupd kSCNetworkInterfaceInfo (CFDictionary info') (stored_entity i bsd p t u m q info)"
proof (rule fmap_ext)
  show "fmlookup (stored_entity i bsd p t u m q info') k =
      fmlookup (fmupd kSCNetworkInterfaceInfo (CFDictionary info') (stored_entity i bsd p t u m q info)) k" for k
    by (simp add: lookup_stored stored_keys)
qed

lemma stored_entity_same:
  assumes "ni_hiddenInterface (ni_registry (ni k)) = ni_hiddenInterface (ni_registry (ni i))"
    and "ni_hiddenConfiguration (ni_registry (ni k)) = ni_hiddenConfiguration (ni_registry (ni i))"
    and "ni_active (ni k) = ni_active (ni i)" "ni_builtin (ni k) = ni_builtin (ni i)"
    and "ni_interface_type (ni k) = ni_interface_type (ni i)"
    and "ni_matchingMACs (ni_registry (ni k)) = ni_matchingMACs (ni_registry (ni i))"
  shows "stored_entity k bsd p t u m q info = stored_entity i bsd p t u m q info"
  unfolding stored_entity_def Let_def assms ..

text \<open>
  C13. A network device survives NetworkInterfaces.plist. From the entry that \<open>__SCNetworkInterfaceCopyStorageEntity\<close> makes
  of a network device with the type number of its kind, \<open>__SCNetworkInterfaceCreateWithStorageEntity\<close> makes, with the
  search that ignores the system, an interface of the same types, device and hidden flags, whatever the registry has; and
  storing that interface again gives the same entry, but for the information that the framework collects on it, which is there; numbers that fit an int are
  read as they are.
\<close>

theorem StorageEntity_roundtrip:
  assumes "if_access g" and "CopyStorageEntity g i = Some d" and "network_device i"
    and "ni_type (ni_registry (ni i)) = Some (if ni_entity_type (ni i) = Some ''FireWire'' then IFT_IEEE1394 else IFT_ETHER)"
    and "\<And>n. fits_int n \<Longrightarrow> cf_int n = n" and "\<And>k. gt_info g k \<noteq> None"
  shows "\<exists>k info. CreateWithStorageEntity (external_creation me cf_int st) (Some (CFDictionary d)) = Ret (Some k) \<and>
    types_of k = types_of i \<and> ni_entity_type (ni k) = ni_entity_type (ni i) \<and> ni_entity_device (ni k) = ni_entity_device (ni i) \<and>
    ni_hiddenConfiguration (ni_registry (ni k)) = ni_hiddenConfiguration (ni_registry (ni i)) \<and>
    ni_hiddenInterface (ni_registry (ni k)) = ni_hiddenInterface (ni_registry (ni i)) \<and>
    CopyStorageEntity g k = Some (fmupd kSCNetworkInterfaceInfo (CFDictionary info) d)"
proof -
  from if_access.stored_parts [OF assms(1,2)] obtain dev p t u m q info0 where parts:
    "ni_entity_device (ni i) = Some dev" "ni_prefix (ni_registry (ni i)) = Some p" "ni_type (ni_registry (ni i)) = Some t"
    "ni_unit (ni_registry (ni i)) = Some u" "ni_address (ni_registry (ni i)) = Some m" "ni_path (ni_registry (ni i)) = Some q"
    and d: "d = stored_entity i dev p t u m q info0" by metis
  let ?f = "stored_of i dev p t u m q info0" and ?ty = "ni_interface_type (ni i)"
  let ?e = "entity_of_stored cf_int ?f"
  from assms(3) obtain et where et: "ni_entity_type (ni i) = Some et" "(?ty, et) \<in> network_types" and bare: "ni_interface i = None"
    by (auto simp: network_device_def)
  have n: "cf_int t = t" "t = (if et = ''FireWire'' then IFT_IEEE1394 else IFT_ETHER)" "et = ''FireWire'' \<or> et = ''Ethernet''"
    using assms(4,5) et parts(3) by (auto simp: network_types_def fits_int_def IFT_IEEE1394_def IFT_ETHER_def)
  have e: "fmlookup ?e ''Type'' = Some (CFString et)" "fmlookup ?e ''SubType'' = map_option CFString None"
    "fmlookup ?e ''DeviceName'' = Some (CFString dev)" "fmlookup ?e ''DeviceUniqueIdentifier'' = map_option CFString None"
    "fmlookup ?e kSCPropUserDefinedName = map_option CFString (isA_CFString (fmlookup info0 kSCPropUserDefinedName))"
    "fmlookup ?e ''Hardware'' = map_option CFString (hardware_of ?ty)"
    "isHidden (fmlookup ?e kSCNetworkInterfaceHiddenConfigurationKey) = ni_hiddenConfiguration (ni_registry (ni i))"
    using n by (cases "hardware_of ?ty"; cases "isA_CFString (fmlookup info0 kSCPropUserDefinedName)";
        auto simp: entity_of_stored_def stored_of_def Let_def lookup_put_string lookup_put_flag kSCPropUserDefinedName_def
          kSCNetworkInterfaceHiddenConfigurationKey_def isHidden_def IFT_IEEE1394_def IFT_ETHER_def)+
  from network_entity_read_back [OF et(2) e(1-6), of me st] obtain j where j:
    "SCNetworkInterfaceCreateWithEntity me ?e Search_external st = Ret (Some j, st)" "types_of j = [?ty]"
    "entity_of j = (Some et, None, Some dev, None, ni_hiddenConfiguration (ni_registry (ni i)))"
    using e(7) by auto
  let ?k = "fill_stored ?f j"
  have made: "CreateWithStorageEntity (external_creation me cf_int st) (Some (CFDictionary d)) = Ret (Some ?k)"
    by (simp add: CreateWithStorageEntity_def d read_stored_entity external_creation_def j(1))
  have k: "ni_interface ?k = ni_interface j" "ni_interface_type (ni ?k) = ?ty" "ni_interface j = None" "ni_entity_type (ni ?k) = Some et"
    "ni_entity_device (ni ?k) = Some dev" "ni_hiddenConfiguration (ni_registry (ni ?k)) = ni_hiddenConfiguration (ni_registry (ni i))"
    "ni_hiddenInterface (ni_registry (ni ?k)) = ni_hiddenInterface (ni_registry (ni i))" "ni_active (ni ?k) = ni_active (ni i)"
    "ni_builtin (ni ?k) = ni_builtin (ni i)" "ni_matchingMACs (ni_registry (ni ?k)) = ni_matchingMACs (ni_registry (ni i))"
    using j(2,3) types_of_cases [of j] types_of_cases [of "the (ni_interface j)"]
    by (auto simp: fill_stored_def stored_of_def entity_of_def split: option.splits)
  obtain info where "gt_info g ?k = Some info" using assms(6) by blast
  then have "CopyStorageEntity g ?k = Some (stored_entity ?k dev p t u m q info)"
    using k(5) by (simp add: CopyStorageEntity_def if_access.access [OF assms(1)] fill_stored_def stored_of_def)
  also have "stored_entity ?k dev p t u m q info = stored_entity i dev p t u m q info"
    using k by (intro stored_entity_same) simp_all
  also have "\<dots> = fmupd kSCNetworkInterfaceInfo (CFDictionary info) d"
    unfolding d by (rule stored_entity_info)
  finally show ?thesis
    using made k et parts(1) bare by (intro exI [of _ ?k] exI [of _ info]) (simp add: types_of_cases [of ?k] types_of_cases [of i])
qed

section \<open>An instance\<close>

text \<open>A registry with one network device, \<open>en0\<close>, below a controller and a bus, and an environment without virtual interfaces.\<close>

definition sample_property :: "nat \<Rightarrow> string \<Rightarrow> plist option" where
  "sample_property e k =
     (if e \<noteq> 2 then None
      else map_of [(''IOInterfaceType'', CFNumber 6), (''BSD Name'', CFString ''en0''), (''IOBuiltin'', CFBoolean True)] k)"

definition sample_registry :: "nat io_registry" where
  "sample_registry = \<lparr>io_property = sample_property, io_properties = \<lambda>_. None, io_search = sample_property,
     io_parent = \<lambda>e. (case e of 0 \<Rightarrow> None | Suc p \<Rightarrow> Some p), io_depth = id, io_below = \<lambda>_. Some [],
     io_conforms = \<lambda>_ _. False, io_services = \<lambda>_. Some [2], io_entry_id = \<lambda>e. Some (word_of_nat e),
     io_entry_path = \<lambda>_. Path_is ''IOService:/en0'', io_name = \<lambda>_. None, io_location = \<lambda>_. None, io_text = \<lambda>_. None\<rparr>"

definition sample_discover :: discover_env where
  "sample_discover = \<lparr>de_names = plain_names, de_internal = False, de_script = \<lambda>_. Ret False\<rparr>"

definition sample_match :: "(nat, plist) match_env" where
  "sample_match = \<lparr>me_registry = sample_registry, me_discover = sample_discover, me_preconfigured = \<lambda>_. False,
     me_bsd_matching = \<lambda>_. Some fmempty, me_cstring = Some, me_bond = sample_env, me_ops = tree_ops,
     me_prefs = \<lambda>_. CFDictionary fmempty, me_new_prefs = None, me_bypass = \<lambda>_. False, me_bridges = \<lambda>_. None, me_vlans = \<lambda>_. None\<rparr>"

lemma sample_tree: "registry_tree sample_registry"
  by (simp add: registry_tree_def sample_registry_def split: nat.splits)

lemma sample_search: "\<exists>i. findMatchingInterfaces sample_registry fmempty (processNetworkInterface sample_registry sample_discover)
    (\<lambda>_. False) kSCNetworkInterfaceHiddenInterfaceKey False False = Ret (Some [i])"
  by (simp add: findMatchingInterfaces_def sample_registry_def createInterface_io_def Let_def processNetworkInterface_def
      copyIORegistryProperties_def interface_dict_keys_def sample_property_def cf_int_value_def IFT_ETHER_def isHidden_def
      kSCNetworkInterfaceHiddenInterfaceKey_def numeral_2_eq_2 [symmetric] split: nat.splits)

lemma findMatchingInterfaces_typed_witness:
  "\<exists>i. findMatchingInterfaces sample_registry fmempty (processNetworkInterface sample_registry sample_discover)
      (\<lambda>_. False) kSCNetworkInterfaceHiddenInterfaceKey False False = Ret (Some [i]) \<and>
    ni_prefs (ni i) = None \<and> \<not> ni_hiddenInterface (ni_registry (ni i))"
proof -
  obtain i where i: "findMatchingInterfaces sample_registry fmempty (processNetworkInterface sample_registry sample_discover)
      (\<lambda>_. False) kSCNetworkInterfaceHiddenInterfaceKey False False = Ret (Some [i])"
    using sample_search by blast
  from findMatchingInterfaces_typed [OF i, of i sample_discover network_types] i show ?thesis by auto
qed






lemma CreateWithEntity_ignores_system_witness:
  "SCNetworkInterfaceCreateWithEntity
      (sample_match\<lparr>me_registry := sample_registry\<lparr>io_services := \<lambda>_. None\<rparr>, me_preconfigured := \<lambda>_. True,
        me_bsd_matching := \<lambda>_. None, me_cstring := \<lambda>_. None\<rparr>)
      (fmupd ''DeviceName'' (CFString ''en7'') fmempty) Search_external (None, []) =
    SCNetworkInterfaceCreateWithEntity sample_match (fmupd ''DeviceName'' (CFString ''en7'') fmempty) Search_external (None, [])"
proof -
  have "\<not> uses_system sample_match Search_external" by (simp add: uses_system_def)
  from CreateWithEntity_ignores_system [OF this] show ?thesis by blast
qed

definition sample_en0 :: scnif where
  "sample_en0 = upd_ni (\<lambda>a. a\<lparr>ni_interface_type := ''IEEE80211'', ni_entity_type := Some ''Ethernet'', ni_entity_device := Some ''en0'',
       ni_localized_name := Some ''Wi-Fi'',
       ni_registry := (ni_registry a)\<lparr>ni_prefix := Some ''en'', ni_type := Some 6, ni_unit := Some 0, ni_address := Some [2],
         ni_path := Some ''IOService:/en0'', ni_hiddenConfiguration := True\<rparr>\<rparr>)
     (SCNetworkInterfaceCreatePrivate None None None)"

lemma sample_en0_device: "network_device sample_en0"
  by (simp add: network_device_def sample_en0_def SCNetworkInterfaceCreatePrivate_def network_types_def layer_type_defs)

lemma InterfaceEntity_read_back_witness:
  "\<exists>entity j. CopyInterfaceEntity plain_names field_getters sample_en0 = Ret entity \<and>
    SCNetworkInterfaceCreateWithEntity sample_match entity Search_external (None, []) = Ret (Some j, (None, [])) \<and>
    types_of j = [''IEEE80211''] \<and> ni_name (ni (lowest_layer j)) = Some ''Wi-Fi''"
proof -
  have low: "lowest_layer sample_en0 = sample_en0" "types_of sample_en0 = [''IEEE80211'']" "ni_localized_name (ni sample_en0) = Some ''Wi-Fi''"
    by (simp_all add: sample_en0_def SCNetworkInterfaceCreatePrivate_def)
  have "\<not> SCNetworkInterfaceEqual plain_names sample_en0 kSCNetworkInterfaceIPv4"
    by (rule equal_needs_type) (simp add: static_types, simp add: sample_en0_def SCNetworkInterfaceCreatePrivate_def)
  then obtain entity where e: "CopyInterfaceEntity plain_names field_getters sample_en0 = Ret entity"
    by (simp add: CopyInterfaceEntity_def low Let_def field_getters_def)
  from InterfaceEntity_read_back [OF _ e, of sample_match "(None, [])"] sample_en0_device e low show ?thesis
    by (auto simp: field_getters_def)
qed

lemma StorageEntity_roundtrip_witness:
  "\<exists>d k info. CopyStorageEntity field_getters sample_en0 = Some d \<and>
    CreateWithStorageEntity (external_creation sample_match id (None, [])) (Some (CFDictionary d)) = Ret (Some k) \<and>
    types_of k = [''IEEE80211''] \<and> CopyStorageEntity field_getters k = Some (fmupd kSCNetworkInterfaceInfo (CFDictionary info) d)"
proof -
  have f: "types_of sample_en0 = [''IEEE80211'']"
    "ni_type (ni_registry (ni sample_en0)) = Some (if ni_entity_type (ni sample_en0) = Some ''FireWire'' then IFT_IEEE1394 else IFT_ETHER)"
    by (simp_all add: sample_en0_def SCNetworkInterfaceCreatePrivate_def IFT_ETHER_def)
  obtain d where d: "CopyStorageEntity field_getters sample_en0 = Some d"
    by (simp add: CopyStorageEntity_def field_getters_def sample_en0_def SCNetworkInterfaceCreatePrivate_def)
  have "gt_info field_getters k \<noteq> None" for k by (simp add: field_getters_def)
  from StorageEntity_roundtrip [OF fields.if_access_axioms d sample_en0_device f(2) _ this, of id sample_match "(None, [])"] d f(1)
  show ?thesis by auto
qed

section \<open>Inputs that are not handled\<close>

text \<open>The path of a script with five bytes is read from before its first byte, and a missing script with the extension uses
  what no call has set.\<close>

lemma short_script_path: "length path = 5 \<Longrightarrow> script_bundle sv path found = UB"
  by (simp add: script_bundle_def Let_def)

lemma missing_script:
  "4 < length path \<Longrightarrow> contains_text ''.ccl'' (drop (length path - 6) path) \<Longrightarrow> script_bundle sv path No_entry = UB"
  by (simp add: script_bundle_def Let_def)

text \<open>Ports are numbered in the order of their names as texts.\<close>

lemma ports_as_texts: "sort [''en2'', ''en10''] = [''en10'', ''en2'']"
  by code_simp

text \<open>The table of layers does not know the type of infrared ports, which discovery gives.\<close>

lemma irda_without_row: "findConfiguration ''IrDA'' = None"
  by (simp add: findConfiguration_def configurations_def)

text \<open>A search that succeeds counts as a controller, even when it finds none.\<close>

lemma bluetooth_without_controller:
  "io_services reg (service_matching ''IOBluetoothHCIController'') = Some [] \<Longrightarrow> isBluetoothBuiltin reg = (False, True)"
  by (simp add: isBluetoothBuiltin_def)

text \<open>Linking an interface that came from the cache links the one in the cache: the next service gets the same object.\<close>

lemma cached_object_linked:
  assumes "fmlookup m dev = Some l" "k < length l" "wt_device w = Some (CFString dev)" "wt_type w = ''Ethernet''"
  shows "CacheCopy (Some dev) (relink_cached w (Some k) (linked (Some sv) (l ! k)) (Some m)) = Some (l[k := link_service sv (l ! k)])"
  using assms by (simp add: relink_cached_def CacheCopy_def linked_def match_text_defs)

end
