(* ===== verification/IfOptions.thy ===== *)
theory IfOptions
  imports ProxyOptions NetStorage ConfigValues
begin

text \<open>
  The configuration of an interface from the command line of \<open>scutil\<close> (net_interface.c): the tables of
  options for each type of interface, their handlers, the checks of MTU and media, and the command that
  writes the result.

  Many handlers act on the selected interface at once, through the session; the others change the
  copy of the configuration that the command writes at the end. The extra state of a command is the
  session (with the objects that were made from it) and the flag for changes. A message that prints an
  object is shortened by the object.
\<close>

section \<open>The framework\<close>

record 'p if_session =
  xs_session :: "'p option"
  xs_changed :: bool

datatype if_rank = Rank_default | Rank_first | Rank_last | Rank_never | Rank_scoped

text \<open>
  What the handlers call, with the interface. A change answers with its success, the status of the
  call and the session after it.
\<close>

type_synonym 'p call_result = "(bool \<times> sc_status) \<times> 'p option"

record ('p, 'i) if_api =
  ia_ios :: bool
  ia_error :: "sc_status \<Rightarrow> string"
  ia_utf16 :: "string \<Rightarrow> uint8 list"
  ia_type :: "'p option \<Rightarrow> 'i \<Rightarrow> string"
  ia_layers :: "'p option \<Rightarrow> 'i \<Rightarrow> 'i list"
  ia_bsd_name :: "'p option \<Rightarrow> 'i \<Rightarrow> string option"
  ia_config :: "'p option \<Rightarrow> 'i \<Rightarrow> dict option"
  ia_set_config :: "'i \<Rightarrow> dict \<Rightarrow> 'p option \<Rightarrow> 'p call_result"
  ia_extended :: "'p option \<Rightarrow> 'i \<Rightarrow> string \<Rightarrow> dict option"
  ia_set_extended :: "'i \<Rightarrow> string \<Rightarrow> dict \<Rightarrow> 'p option \<Rightarrow> 'p call_result"
  ia_qos :: "'p option \<Rightarrow> 'i \<Rightarrow> dict option"
  ia_set_qos :: "'i \<Rightarrow> dict \<Rightarrow> 'p option \<Rightarrow> 'p call_result"
  ia_set_capability :: "'i \<Rightarrow> string option \<Rightarrow> plist option \<Rightarrow> 'p option \<Rightarrow> 'p call_result"
  ia_set_password :: "'i \<Rightarrow> if_password_type \<Rightarrow> string \<Rightarrow> 'p option \<Rightarrow> 'p call_result"
  ia_remove_password :: "'i \<Rightarrow> if_password_type \<Rightarrow> 'p option \<Rightarrow> 'p call_result"
  ia_active :: "'p option \<Rightarrow> string \<Rightarrow> 'i option"
  ia_set_rank :: "'i \<Rightarrow> if_rank \<Rightarrow> 'p option \<Rightarrow> 'p call_result"
  ia_mtu :: "'p option \<Rightarrow> 'i \<Rightarrow> (int \<times> int) option"
  ia_media :: "'p option \<Rightarrow> 'i \<Rightarrow> plist list option option"
  ia_media_subtypes :: "plist list \<Rightarrow> plist list option"
  ia_media_options :: "plist list \<Rightarrow> plist \<Rightarrow> plist list option"

type_synonym 'p if_state = "'p if_session opt_state"

definition session :: "'p if_state \<Rightarrow> 'p option" where
  "session s = xs_session (os_extra s)"

definition set_session :: "'p option \<Rightarrow> 'p if_state \<Rightarrow> 'p if_state" where
  "set_session p s = s\<lparr>os_extra := (os_extra s)\<lparr>xs_session := p\<rparr>\<rparr>"

definition mark_changed :: "'p if_state \<Rightarrow> 'p if_state" where
  "mark_changed s = s\<lparr>os_extra := (os_extra s)\<lparr>xs_changed := True\<rparr>\<rparr>"

text \<open>The interface under another one.\<close>

definition child_interface :: "('p, 'i) if_api \<Rightarrow> 'p option \<Rightarrow> 'i \<Rightarrow> 'i option" where
  "child_interface api p i = (case ia_layers api p i of [] \<Rightarrow> None | c # _ \<Rightarrow> Some c)"

section \<open>Media and MTU\<close>

definition int_range :: "int \<Rightarrow> bool" where "int_range n \<longleftrightarrow> - (2 ^ 31) \<le> n \<and> n < 2 ^ 31"

definition validate_mtu :: "('p, 'i) if_api \<Rightarrow> 'i \<Rightarrow> 'p if_state \<Rightarrow> bool \<times> 'p if_state" where
  "validate_mtu api i s =
     (case isA_CFNumber (fmlookup (os_config s) ''MTU'') of
        None \<Rightarrow> (True, s)
      | Some mtu_val \<Rightarrow>
          (case ia_mtu api (session s) i of
             None \<Rightarrow> (False, say ''cannot set MTU'' s)
           | Some (mtu_min, mtu_max) \<Rightarrow>
               if \<not> int_range mtu_val \<or> mtu_val < mtu_min \<or> mtu_val > mtu_max
               then (False, say ''mtu out of range'' s) else (True, s)))"

definition validate_media :: "('p, 'i) if_api \<Rightarrow> 'i \<Rightarrow> 'p if_state \<Rightarrow> bool \<times> 'p if_state" where
  "validate_media api i s =
     (let options = fmlookup (os_config s) ''MediaOptions'' in
      case fmlookup (os_config s) ''MediaSubType'' of
        None \<Rightarrow> if options \<noteq> None then (False, say ''media type and options must both be specified'' s) else (True, s)
      | Some subtype \<Rightarrow>
          let config_options = (case options of None \<Rightarrow> CFArray [] | Some x \<Rightarrow> x) in
          (case ia_media api (session s) i of
             None \<Rightarrow> (False, say ''media type / options not available'' s)
           | Some None \<Rightarrow> (False, s)
           | Some (Some available) \<Rightarrow>
               if (case ia_media_subtypes api available of None \<Rightarrow> True | Some subtypes \<Rightarrow> subtype \<notin> set subtypes)
               then (False, say ''media type not valid'' s)
               else if (case ia_media_options api available subtype of None \<Rightarrow> True | Some l \<Rightarrow> config_options \<notin> set l)
               then (False, say ''media options not valid'' s)
               else (True, if options = None then put ''MediaOptions'' config_options s else s)))"

definition validateMediaOptions :: "('p, 'i) if_api \<Rightarrow> 'i \<Rightarrow> 'p if_state \<Rightarrow> bool \<times> 'p if_state" where
  "validateMediaOptions api i s =
     (case validate_mtu api i s of (ok, s1) \<Rightarrow> if ok then validate_media api i s1 else (False, s1))"

section \<open>Handlers of the interface\<close>

definition doRank :: "('p, 'i) if_api \<Rightarrow> 'i \<Rightarrow> string option \<Rightarrow> string list \<Rightarrow> 'p if_state \<Rightarrow> int \<times> 'p if_state" where
  "doRank api i description argv s =
     (case argv of
        [] \<Rightarrow> (- 1, say ((case description of None \<Rightarrow> ''rank'' | Some d \<Rightarrow> d) @ '' not specified'') s)
      | a # _ \<Rightarrow>
          (case (if a = [] then Some Rank_default
                 else if strcaseeq a ''First'' then Some Rank_first
                 else if strcaseeq a ''Last'' then Some Rank_last
                 else if strcaseeq a ''Never'' then Some Rank_never
                 else if strcaseeq a ''Scoped'' then Some Rank_scoped else None) of
             None \<Rightarrow> (- 1, say ''invalid rank'' s)
           | Some rank \<Rightarrow>
               (case ia_bsd_name api (session s) i of
                  None \<Rightarrow> (0, say ''no BSD interface'' s)
                | Some interfaceName \<Rightarrow>
                    (case ia_active api (session s) interfaceName of
                       None \<Rightarrow> (- 1, say ''No active interface'' s)
                     | Some active \<Rightarrow>
                         (case ia_set_rank api active rank (session s) of
                            ((ok, _), p) \<Rightarrow>
                              if ok then (1, set_session p s)
                              else (- 1, say ''could not update per-interface rank'' (set_session p s)))))))"

text \<open>The copy is thrown away and made again from what is stored.\<close>

definition updateInterfaceConfiguration :: "('p, 'i) if_api \<Rightarrow> 'i \<Rightarrow> 'p if_state \<Rightarrow> 'p if_state" where
  "updateInterfaceConfiguration api i s =
     s\<lparr>os_config := (case ia_config api (session s) i of None \<Rightarrow> fmempty | Some d \<Rightarrow> d)\<rparr>"

text \<open>The copy of a stored dictionary that is changed, and the test whether it differs.\<close>

definition working_copy :: "dict option \<Rightarrow> dict" where
  "working_copy configuration = (case configuration of None \<Rightarrow> fmempty | Some d \<Rightarrow> fmdrop kSCResvInactive d)"

definition differs :: "dict option \<Rightarrow> dict \<Rightarrow> bool" where
  "differs configuration newConfiguration =
     (case configuration of None \<Rightarrow> newConfiguration \<noteq> fmempty | Some d \<Rightarrow> d \<noteq> newConfiguration)"

definition qosOptions :: "unit option_row list" where
  "qosOptions =
    [ row ''enabled'' None isBool (Some ''QoSMarkingEnabled'') None,
      row ''apple-av'' None isBool (Some ''QoSMarkingAppleAudioVideoCalls'') None,
      row ''bundle-ids'' None isStringArray (Some ''QoSMarkingWhitelistedAppIdentifiers'') None,
      row_help
       [ [], ''QoS marking policy commands'',
         [], '' set interface qos [enabled {yes|no}]'',
         '' set interface qos [apple-av {yes|no}]'', '' set interface qos [bundle-ids bundle-id[,bundle-id]]'' ] ]"

text \<open>
  The options of a dictionary of its own, which is written when it differs. The handler uses up all the
  arguments whether they were good or not.
\<close>

definition on_own_dictionary ::
    "('p, 'i) if_api \<Rightarrow> (string list \<Rightarrow> 'p if_state \<Rightarrow> (bool \<times> 'p if_state) outcome) \<Rightarrow> dict option \<Rightarrow>
     (dict \<Rightarrow> 'p option \<Rightarrow> 'p call_result) \<Rightarrow> string \<Rightarrow> string list \<Rightarrow> 'p if_state \<Rightarrow> (int \<times> 'p if_state) outcome" where
  "on_own_dictionary api process configuration write no_key argv s =
     obind (process argv (s\<lparr>os_config := working_copy configuration\<rparr>)) (\<lambda>(ok, s1).
       let new = os_config s1; s2 = s1\<lparr>os_config := os_config s\<rparr> in
       Ret (int (length argv),
            if \<not> ok \<or> \<not> differs configuration new then s2
            else case write new (session s2) of
              ((True, _), p) \<Rightarrow> mark_changed (set_session p s2)
            | ((False, st), p) \<Rightarrow>
                say (if st = kSCStatusNoKey then no_key else ia_error api st) (set_session p s2)))"

definition doQoSMarking :: "opt_env \<Rightarrow> ('p, 'i) if_api \<Rightarrow> 'i \<Rightarrow> string list \<Rightarrow> 'p if_state \<Rightarrow> (int \<times> 'p if_state) outcome" where
  "doQoSMarking env api i argv s =
     (if argv = [] then Ret (- 1, say ''set what?'' s)
      else if ia_bsd_name api (session s) i = None then Ret (- 1, say ''no BSD interface'' s)
      else on_own_dictionary api (process_options env (\<lambda>_ _ _ _ _. UB) qosOptions) (ia_qos api (session s) i)
             (ia_set_qos api i) ''could not update per-interface QoS marking policy'' argv s)"

definition doCapability ::
    "('p, 'i) if_api \<Rightarrow> 'i \<Rightarrow> string option \<Rightarrow> string option \<Rightarrow> string list \<Rightarrow> 'p if_state \<Rightarrow> int \<times> 'p if_state" where
  "doCapability api i key description argv s =
     (case argv of
        [] \<Rightarrow> (- 1, say ((case description of None \<Rightarrow> ''enable/disable'' | Some d \<Rightarrow> d) @ '' not specified'') s)
      | a # _ \<Rightarrow>
          (case (if a = [] then Some None else if switch_off a then Some (Some (CFNumberRef False))
                 else if switch_on a then Some (Some (CFNumberRef True)) else None) of
             None \<Rightarrow> (- 1, say ''invalid value'' s)
           | Some v \<Rightarrow>
               (case ia_set_capability api i key v (session s) of
                  ((ok, st), p) \<Rightarrow>
                    if ok then (1, updateInterfaceConfiguration api i (set_session p s))
                    else (- 1, say ((case key of None \<Rightarrow> [] | Some k \<Rightarrow> k) @ '' not updated: '' @ ia_error api st) (set_session p s)))))"

section \<open>Secrets\<close>

text \<open>
  A password goes into the configuration, or to the keychain when the entry \<open>encKey\<close> says so; any other
  entry is refused. In a configuration the password is text on iOS and its UTF-16 bytes elsewhere.
\<close>

definition set_secret ::
    "opt_env \<Rightarrow> ('p, 'i) if_api \<Rightarrow> 'i \<Rightarrow> string \<Rightarrow> string \<Rightarrow> string \<Rightarrow> string \<Rightarrow> if_password_type \<Rightarrow> 'p if_session arg_handler" where
  "set_secret env api i missing encKey refused refused_remove passwordType key argv s =
     (case argv of
        [] \<Rightarrow> Ret (- 1, say missing s)
      | a # _ \<Rightarrow>
          (case fmlookup (os_config s) encKey of
             None \<Rightarrow>
               if a \<noteq> []
               then obind (text_arg env a) (\<lambda>str. at_key key (\<lambda>k.
                      Ret (1, put k (if ia_ios api then CFString str else CFData (ia_utf16 api str)) s)))
               else at_key key (\<lambda>k. Ret (1, unset k s))
           | Some encryptionType \<Rightarrow>
               if encryptionType = CFString ''Keychain''
               then obind (if a \<noteq> []
                           then obind (text_arg env a) (\<lambda>str. Ret (ia_set_password api i passwordType (oe_bytes env str) (session s)))
                           else Ret (ia_remove_password api i passwordType (session s))) (\<lambda>((ok, _), p).
                      Ret (if ok then (1, updateInterfaceConfiguration api i (set_session p s)) else (- 1, set_session p s)))
               else Ret (- 1, say ((if a \<noteq> [] then refused else refused_remove) @ '' type not supported'') s)))"

text \<open>The entry that says where the password is; the password is dropped when it changes.\<close>

definition set_secret_type ::
    "string \<Rightarrow> string \<Rightarrow> string \<Rightarrow> (string \<Rightarrow> string option) \<Rightarrow> 'x arg_handler" where
  "set_secret_type missing bad secretKey type_of key argv s =
     (case argv of
        [] \<Rightarrow> Ret (- 1, say missing s)
      | a # _ \<Rightarrow>
          if a \<noteq> []
          then (case type_of a of
                  None \<Rightarrow> Ret (- 1, say bad s)
                | Some t \<Rightarrow> at_key key (\<lambda>k. Ret (1, unset secretKey (put k (CFString t) s))))
          else at_key key (\<lambda>k. Ret (1, unset secretKey (unset k s))))"

definition keychain_only :: "string \<Rightarrow> string option" where
  "keychain_only a = (if strcaseeq a ''keychain'' then Some ''Keychain'' else None)"

definition keychain_or_prompt :: "string \<Rightarrow> string option" where
  "keychain_or_prompt a =
     (if strcaseeq a ''keychain'' then Some ''Keychain'' else if strcaseeq a ''prompt'' then Some ''Prompt'' else None)"

definition doIPSecSharedSecret :: "opt_env \<Rightarrow> ('p, 'i) if_api \<Rightarrow> 'i \<Rightarrow> 'p if_session arg_handler" where
  "doIPSecSharedSecret env api i =
     set_secret env api i ''IPSec shared secret not specified'' ''SharedSecretEncryption'' ''IPSec shared secret''
       ''IPSec shared secret''        kSCNetworkInterfacePasswordTypeIPSecSharedSecret"

definition doIPSecSharedSecretType :: "'x arg_handler" where
  "doIPSecSharedSecretType =
     set_secret_type ''IPSec shared secret type mode not specified'' ''invalid shared secret type'' ''SharedSecret'' keychain_only"

definition doIPSecXAuthPassword :: "opt_env \<Rightarrow> ('p, 'i) if_api \<Rightarrow> 'i \<Rightarrow> 'p if_session arg_handler" where
  "doIPSecXAuthPassword env api i =
     set_secret env api i ''IPSec XAuth password not specified'' ''XAuthPasswordEncryption'' ''IPSec XAuthPassword''
       ''IPSec XAuthPassword''        kSCNetworkInterfacePasswordTypeIPSecXAuth"

definition doIPSecXAuthPasswordType :: "'x arg_handler" where
  "doIPSecXAuthPasswordType =
     set_secret_type ''IPSec XAuth password type mode not specified'' ''invalid XAuth password type'' ''XAuthPassword'' keychain_only"

definition doPPPAuthPW :: "opt_env \<Rightarrow> ('p, 'i) if_api \<Rightarrow> 'i \<Rightarrow> 'p if_session arg_handler" where
  "doPPPAuthPW env api i =
     set_secret env api i ''PPP password not specified'' ''AuthPasswordEncryption'' ''PPP password''
       ''PPP password'' kSCNetworkInterfacePasswordTypePPP"

definition doPPPAuthPWType :: "'x arg_handler" where
  "doPPPAuthPWType =
     set_secret_type ''PPP password type mode not specified'' ''invalid password type'' ''AuthPassword'' keychain_only"

definition doVPNAuthPW :: "opt_env \<Rightarrow> ('p, 'i) if_api \<Rightarrow> 'i \<Rightarrow> 'p if_session arg_handler" where
  "doVPNAuthPW env api i =
     set_secret env api i ''VPN password not specified'' ''AuthPasswordEncryption''
       ''VPN password'' ''PPP password'' kSCNetworkInterfacePasswordTypeVPN"

definition doVPNAuthPWType :: "'x arg_handler" where
  "doVPNAuthPWType =
     set_secret_type ''VPN password type mode not specified'' ''invalid password type'' ''AuthPassword'' keychain_or_prompt"

section \<open>Options inside an option\<close>

datatype domain_handler = DoOnDemandDomains

definition doOnDemandDomains :: "opt_env \<Rightarrow> 'x arg_handler" where
  "doOnDemandDomains env =
     set_entries env ''OnDemand domain name(s) not specified'' ''invalid OnDemand domain name'' (cleanupDomainName env)"

fun run_domains :: "opt_env \<Rightarrow> (domain_handler, 'x) handler_run" where
  "run_domains env DoOnDemandDomains key _ argv s = doOnDemandDomains env key argv s"

definition ipsecOnDemandOptions :: "domain_handler option_row list" where
  "ipsecOnDemandOptions =
    [ row ''OnDemandMatchDomainsAlways'' (Some ''domain'') isOther (Some ''OnDemandMatchDomainsAlways'') (Some DoOnDemandDomains),
      row ''always'' (Some ''domain'') isOther (Some ''OnDemandMatchDomainsAlways'') (Some DoOnDemandDomains),
      row ''OnDemandMatchDomainsOnRetry'' (Some ''domain'') isOther (Some ''OnDemandMatchDomainsOnRetry'') (Some DoOnDemandDomains),
      row ''retry'' (Some ''domain'') isOther (Some ''OnDemandMatchDomainsOnRetry'') (Some DoOnDemandDomains),
      row ''OnDemandMatchDomainsNever'' (Some ''domain'') isOther (Some ''OnDemandMatchDomainsNever'') (Some DoOnDemandDomains),
      row ''never'' (Some ''domain'') isOther (Some ''OnDemandMatchDomainsNever'') (Some DoOnDemandDomains),
      row_help
       [ [], ''OnDemandMatch configuration commands'',
         [], '' set interface OnDemandMatch [always domain-name[,domain-name]]'',
         '' set interface OnDemandMatch [retry  domain-name[,domain-name]]'', '' set interface OnDemandMatch [never  domain-name[,domain-name]]'' ] ]"

definition doIPSecOnDemandMatch :: "opt_env \<Rightarrow> string list \<Rightarrow> 'x opt_state \<Rightarrow> (int \<times> 'x opt_state) outcome" where
  "doIPSecOnDemandMatch env argv s =
     (if argv = [] then Ret (- 1, say ''set what?'' s)
      else obind (process_options env (run_domains env) ipsecOnDemandOptions argv s) (\<lambda>(ok, s1). Ret (int (length argv), s1)))"

datatype secret_handler = DoIPSecSharedSecret | DoIPSecSharedSecretType

fun run_secret :: "opt_env \<Rightarrow> ('p, 'i) if_api \<Rightarrow> 'i \<Rightarrow> (secret_handler, 'p if_session) handler_run" where
  "run_secret env api i DoIPSecSharedSecret key _ argv s = doIPSecSharedSecret env api i key argv s"
| "run_secret env api i DoIPSecSharedSecretType key _ argv s = doIPSecSharedSecretType key argv s"

definition l2tp_ipsecOptions :: "secret_handler option_row list" where
  "l2tp_ipsecOptions =
    [ row ''SharedSecret'' None isOther (Some ''SharedSecret'') (Some DoIPSecSharedSecret),
      row ''SharedSecretEncryption'' None isOther (Some ''SharedSecretEncryption'') (Some DoIPSecSharedSecretType),
      row_help
       [ [], ''IPSec configuration commands'',
         [], '' set interface ipsec [SharedSecret secret]'',
         '' set interface ipsec [SharedSecretEncryption {Keychain}]'' ] ]"

definition doPPPIPSec :: "opt_env \<Rightarrow> ('p, 'i) if_api \<Rightarrow> 'i \<Rightarrow> string list \<Rightarrow> 'p if_state \<Rightarrow> (int \<times> 'p if_state) outcome" where
  "doPPPIPSec env api i argv s =
     (if argv = [] then Ret (- 1, say ''set what?'' s)
      else if (case child_interface api (session s) i of
                 None \<Rightarrow> True | Some c \<Rightarrow> ia_type api (session s) c \<noteq> kSCNetworkInterfaceTypeL2TP)
      then Ret (- 1, say ''this interfaces configuration cannot be changed'' s)
      else on_own_dictionary api (process_options env (run_secret env api i) l2tp_ipsecOptions)
             (ia_extended api (session s) i kSCEntNetIPSec) (ia_set_extended api i kSCEntNetIPSec)
             ''could not update per-service interface configuration'' argv s)"

section \<open>The tables\<close>

datatype if_handler =
    DoRank | DoQoSMarking | DoCapability | Secret secret_handler | DoIPSecXAuthPassword | DoIPSecXAuthPasswordType
  | DoIPSecOnDemandMatch | DoPPPAuthPW | DoPPPAuthPWType | DoPPPIPSec | DoVPNAuthPW | DoVPNAuthPWType

fun run_if :: "opt_env \<Rightarrow> ('p, 'i) if_api \<Rightarrow> 'i \<Rightarrow> (if_handler, 'p if_session) handler_run" where
  "run_if env api i DoRank _ description argv s = Ret (doRank api i description argv s)"
| "run_if env api i DoQoSMarking _ _ argv s = doQoSMarking env api i argv s"
| "run_if env api i DoCapability key description argv s = Ret (doCapability api i key description argv s)"
| "run_if env api i (Secret h) key description argv s = run_secret env api i h key description argv s"
| "run_if env api i DoIPSecXAuthPassword key _ argv s = doIPSecXAuthPassword env api i key argv s"
| "run_if env api i DoIPSecXAuthPasswordType key _ argv s = doIPSecXAuthPasswordType key argv s"
| "run_if env api i DoIPSecOnDemandMatch _ _ argv s = doIPSecOnDemandMatch env argv s"
| "run_if env api i DoPPPAuthPW key _ argv s = doPPPAuthPW env api i key argv s"
| "run_if env api i DoPPPAuthPWType key _ argv s = doPPPAuthPWType key argv s"
| "run_if env api i DoPPPIPSec _ _ argv s = doPPPIPSec env api i argv s"
| "run_if env api i DoVPNAuthPW key _ argv s = doVPNAuthPW env api i key argv s"
| "run_if env api i DoVPNAuthPWType key _ argv s = doVPNAuthPWType key argv s"

definition bondOptions :: "if_handler option_row list" where
  "bondOptions =
    [ row ''mtu'' None isNumber (Some ''MTU'') None,
      row_help
       [ [], ''Bond configuration commands'',
         [], '' set interface [mtu n] [media type] [mediaopts opts]'' ] ]"

definition bridgeOptions :: "if_handler option_row list" where
  "bridgeOptions =
    [ row ''mtu'' None isNumber (Some ''MTU'') None,
      row_help
       [ [], ''Bridge configuration commands'',
         [], '' set interface [mtu n] [media type] [mediaopts opts]'' ] ]"

definition airportOptions :: "if_handler option_row list" where
  "airportOptions =
    [ row ''mtu'' None isNumber (Some ''MTU'') None,
      row ''media'' None isString (Some ''MediaSubType'') None,
      row ''mediaopt'' None isStringArray (Some ''MediaOptions'') None,
      row ''rank'' None isOther None (Some DoRank),
      row ''qos'' None isOther None (Some DoQoSMarking),
      row_help
       [ [], ''AirPort configuration commands'',
         [], '' set interface [mtu n] [media type] [mediaopts opts]'',
         '' set interface [rank [{First|Last|Never|Scoped}]]'', '' set interface [qos <qos-options>]]'' ] ]"

definition ethernetOptions :: "if_handler option_row list" where
  "ethernetOptions =
    [ row ''mtu'' None isNumber (Some ''MTU'') None,
      row ''media'' None isString (Some ''MediaSubType'') None,
      row ''mediaopt'' None isStringArray (Some ''MediaOptions'') None,
      row ''av'' None isOther (Some ''AV'') (Some DoCapability),
      row ''lro'' None isOther (Some ''LRO'') (Some DoCapability),
      row ''rxcsum'' None isOther (Some ''RXCSUM'') (Some DoCapability),
      row ''tso'' None isOther (Some ''TSO'') (Some DoCapability),
      row ''txcsum'' None isOther (Some ''TXCSUM'') (Some DoCapability),
      row ''rank'' None isOther None (Some DoRank),
      row ''qos'' None isOther None (Some DoQoSMarking),
      row_help
       [ [], ''Ethernet configuration commands'',
         [], '' set interface [mtu n] [media type] [mediaopts opts]'',
         '' set interface [rank [{First|Last|Never|Scoped}]]'', '' set interface [qos [<qos-options>]]'' ] ]"

definition ipsecAuthenticationMethodSelections :: "selection list" where
  "ipsecAuthenticationMethodSelections = [choice ''SharedSecret'' ''SharedSecret'' 0, choice ''Certificate'' ''Certificate'' 0, choice ''Hybrid'' ''Hybrid'' 0]"

definition ipsecLocalIdentifierTypeSelections :: "selection list" where
  "ipsecLocalIdentifierTypeSelections = [choice ''KeyID'' ''KeyID'' 0]"

definition ipsecOptions :: "if_handler option_row list" where
  "ipsecOptions =
    [ row_choices ''AuthenticationMethod'' None isChooseOne (Some ''AuthenticationMethod'') None ipsecAuthenticationMethodSelections,
      row ''LocalIdentifier'' None isString (Some ''LocalIdentifier'') None,
      row ''group'' None isString (Some ''LocalIdentifier'') None,
      row_choices ''LocalIdentifierType'' None isChooseOne (Some ''LocalIdentifierType'') None ipsecLocalIdentifierTypeSelections,
      row ''RemoteAddress'' None isString (Some ''RemoteAddress'') None,
      row ''SharedSecret'' None isOther (Some ''SharedSecret'') (Some (Secret DoIPSecSharedSecret)),
      row ''SharedSecretEncryption'' None isOther (Some ''SharedSecretEncryption'') (Some (Secret DoIPSecSharedSecretType)),
      row ''XAuthEnabled'' None isBoolean (Some ''XAuthEnabled'') None,
      row ''XAuthName'' None isString (Some ''XAuthName'') None,
      row ''XAuthPassword'' None isOther (Some ''XAuthPassword'') (Some DoIPSecXAuthPassword),
      row ''XAuthPasswordEncryption'' None isOther (Some ''XAuthPasswordEncryption'') (Some DoIPSecXAuthPasswordType),
      row ''OnDemandEnabled'' None isBoolean (Some ''OnDemandEnabled'') None,
      row ''OnDemandMatch'' None isOther None (Some DoIPSecOnDemandMatch),
      row_help
       [ [], ''IPSec configuration commands'',
         [], '' set interface [AuthenticationMethod {SharedSecret|Certificate|Hybrid}]'',
         '' set interface [LocalIdentifier group]'', '' set interface [LocalIdentifierType {KeyID}]'',
         '' set interface [RemoteAddress name-or-address]'', '' set interface [SharedSecret secret]'',
         '' set interface [SharedSecretEncryption {Keychain}]'', '' set interface [XAuthEnabled {enable|disable}]'',
         '' set interface [XAuthPassword password]'', '' set interface [XAuthPasswordEncryption {Keychain}]'',
         '' set interface [OnDemandEnabled {enable|disable}]'', '' set interface [OnDemandMatch <match-options>]'' ] ]"

definition firewireOptions :: "if_handler option_row list" where
  "firewireOptions =
    [ row ''mtu'' None isNumber (Some ''MTU'') None,
      row ''media'' None isString (Some ''MediaSubType'') None,
      row ''mediaopt'' None isStringArray (Some ''MediaOptions'') None,
      row_help
       [ [], ''FireWire configuration commands'',
         [], '' set interface [mtu n] [media type] [mediaopts opts]'' ] ]"

definition modemDialSelections :: "selection list" where
  "modemDialSelections = [choice ''ignore'' ''IgnoreDialTone'' 0, choice ''manual'' ''Manual'' 0, choice ''wait'' ''WaitForDialTone'' 0]"

definition modemOptions :: "if_handler option_row list" where
  "modemOptions =
    [ row ''ConnectionPersonality'' (Some ''NULL'') isString (Some ''ConnectionPersonality'') None,
      row ''DeviceModel'' (Some ''model'') isString (Some ''DeviceModel'') None,
      row ''DeviceVendor'' (Some ''vendor'') isString (Some ''DeviceVendor'') None,
      row ''ConnectionScript'' (Some ''script'') isString (Some ''ConnectionScript'') None,
      row_choices ''DialMode'' (Some ''mode'') isChooseOne (Some ''DialMode'') None modemDialSelections,
      row ''CallWaiting'' None isBoolean (Some ''HoldEnabled'') None,
      row ''CallWaitingAlert'' None isBoolean (Some ''HoldCallWaitingAudibleAlert'') None,
      row ''CallWaitingDisconnectOnAnswer'' None isBoolean (Some ''HoldDisconnectOnAnswer'') None,
      row ''DataCompression'' None isBoolean (Some ''DataCompression'') None,
      row ''ErrorCorrection'' None isBoolean (Some ''ErrorCorrection'') None,
      row ''HoldReminder'' None isBoolean (Some ''HoldReminder'') None,
      row ''HoldReminderTime'' (Some ''time'') isNumber (Some ''HoldReminderTime'') None,
      row ''PulseDial'' None isBoolean (Some ''PulseDial'') None,
      row ''Speaker'' None isBoolean (Some ''Speaker'') None,
      row_help
       [ [], ''Modem configuration commands'',
         [], '' set interface [DeviceVendor vendor]'',
         '' set interface [DeviceModel model]'', '' set interface [ConnectionPersonality personality]'',
         [], '' set interface [ConnectionScript connection-script]'',
         [], '' set interface [CallWaiting {enable|disable}]'',
         '' set interface [CallWaitingAlert {enable|disable}]'', '' set interface [CallWaitingDisconnectOnAnswer {enable|disable}]'',
         '' set interface [DialMode {ignore|wait}]'', '' set interface [DataCompression {enable|disable}]'',
         '' set interface [ErrorCorrection {enable|disable}]'', '' set interface [HoldReminder {enable|disable}]'',
         '' set interface [HoldReminderTime n]'', '' set interface [PulseDial {enable|disable}]'',
         '' set interface [Speaker {enable|disable}]'' ] ]"

definition authPromptSelections :: "selection list" where
  "authPromptSelections = [choice ''before'' ''Before'' 0, choice ''after'' ''After'' 0]"

definition authProtocolSelections :: "selection list" where
  "authProtocolSelections = [choice ''CHAP'' ''CHAP'' 0, choice ''EAP'' ''EAP'' 0, choice ''MSCHAP1'' ''MSCHAP1'' 0, choice ''MSCHAP2'' ''MSCHAP2'' 0, choice ''PAP'' ''PAP'' 0]"

definition pppOptions :: "if_handler option_row list" where
  "pppOptions =
    [ row ''ACSP'' None isBoolean (Some ''ACSPEnabled'') None,
      row ''ConnectTime'' (Some ''?time'') isNumber (Some ''ConnectTime'') None,
      row ''DialOnDemand'' None isBoolean (Some ''DialOnDemand'') None,
      row ''DisconnectOnFastUserSwitch'' None isBoolean (Some ''DisconnectOnFastUserSwitch'') None,
      row ''DisconnectOnIdle'' None isBoolean (Some ''DisconnectOnIdle'') None,
      row ''DisconnectOnIdleTimer'' (Some ''timeout'') isNumber (Some ''DisconnectOnIdleTimer'') None,
      row ''DisconnectOnLogout'' None isBoolean (Some ''DisconnectOnLogout'') None,
      row ''DisconnectOnSleep'' None isBoolean (Some ''DisconnectOnSleep'') None,
      row ''DisconnectTime'' (Some ''?time'') isNumber (Some ''DisconnectTime'') None,
      row ''IdleReminder'' None isBoolean (Some ''IdleReminder'') None,
      row ''IdleReminderTimer'' (Some ''time'') isNumber (Some ''IdleReminderTimer'') None,
      row ''Logfile'' (Some ''path'') isString (Some ''Logfile'') None,
      row ''Plugins'' (Some ''plugin'') isStringArray (Some ''Plugins'') None,
      row ''RetryConnectTime'' (Some ''time'') isNumber (Some ''RetryConnectTime'') None,
      row ''SessionTimer'' (Some ''time'') isNumber (Some ''SessionTimer'') None,
      row ''UseSessionTimer'' None isBoolean (Some ''UseSessionTimer'') None,
      row ''VerboseLogging'' None isBoolean (Some ''VerboseLogging'') None,
      row ''AuthEAPPlugins'' (Some ''plugin'') isStringArray (Some ''AuthEAPPlugins'') None,
      row ''AuthName'' (Some ''account'') isString (Some ''AuthName'') None,
      row ''Account'' (Some ''account'') isString (Some ''AuthName'') None,
      row ''AuthPassword'' (Some ''password'') isOther (Some ''AuthPassword'') (Some DoPPPAuthPW),
      row ''Password'' (Some ''password'') isOther (Some ''AuthPassword'') (Some DoPPPAuthPW),
      row ''AuthPasswordEncryption'' (Some ''type'') isOther (Some ''AuthPasswordEncryption'') (Some DoPPPAuthPWType),
      row_choices ''AuthPrompt'' (Some ''before/after'') isChooseOne (Some ''AuthPrompt'') None authPromptSelections,
      row_choices ''AuthProtocol'' (Some ''protocol'') isChooseMultiple (Some ''AuthProtocol'') None authProtocolSelections,
      row ''CommRemoteAddress'' (Some ''phone#'') isString (Some ''CommRemoteAddress'') None,
      row ''Number'' (Some ''phone#'') isString (Some ''CommRemoteAddress'') None,
      row ''CommAlternateRemoteAddress'' (Some ''phone#'') isString (Some ''CommAlternateRemoteAddress'') None,
      row ''CommConnectDelay'' (Some ''time'') isNumber (Some ''CommConnectDelay'') None,
      row ''CommDisplayTerminalWindow'' None isBoolean (Some ''CommDisplayTerminalWindow'') None,
      row ''CommRedialCount'' (Some ''retry count'') isNumber (Some ''CommRedialCount'') None,
      row ''CommRedialEnabled'' None isBoolean (Some ''CommRedialEnabled'') None,
      row ''CommRedialInterval'' (Some ''retry delay'') isNumber (Some ''CommRedialInterval'') None,
      row ''CommTerminalScript'' (Some ''script'') isString (Some ''CommTerminalScript'') None,
      row ''CommUseTerminalScript'' None isBoolean (Some ''CommUseTerminalScript'') None,
      row ''CCPEnabled'' None isBoolean (Some ''CCPEnabled'') None,
      row ''CCPMPPE40Enabled'' None isBoolean (Some ''CCPMPPE40Enabled'') None,
      row ''CCPMPPE128Enabled'' None isBoolean (Some ''CCPMPPE128Enabled'') None,
      row ''IPCPCompressionVJ'' None isBoolean (Some ''IPCPCompressionVJ'') None,
      row ''IPCPUsePeerDNS'' None isBoolean (Some ''IPCPUsePeerDNS'') None,
      row ''LCPEchoEnabled'' None isBoolean (Some ''LCPEchoEnabled'') None,
      row ''LCPEchoFailure'' None isNumber (Some ''LCPEchoFailure'') None,
      row ''LCPEchoInterval'' None isNumber (Some ''LCPEchoInterval'') None,
      row ''LCPCompressionACField'' None isBoolean (Some ''LCPCompressionACField'') None,
      row ''LCPCompressionPField'' None isBoolean (Some ''LCPCompressionPField'') None,
      row ''LCPMRU'' None isNumber (Some ''LCPMRU'') None,
      row ''LCPMTU'' None isNumber (Some ''LCPMTU'') None,
      row ''LCPReceiveACCM'' None isNumber (Some ''LCPReceiveACCM'') None,
      row ''LCPTransmitACCM'' None isNumber (Some ''LCPTransmitACCM'') None,
      row ''IPSec'' None isOther None (Some DoPPPIPSec),
      row_help
       [ [], ''PPP configuration commands'',
         [], '' set interface [Account account]'',
         '' set interface [Password password]'', '' set interface [Number telephone-number]'',
         '' set interface [AlternateNumber telephone-number]'', '' set interface [IdleReminder {enable|disable}]'',
         '' set interface [IdleReminderTimer time-in-seconds]'', '' set interface [DisconnectOnIdle {enable|disable}]'',
         '' set interface [DisconnectOnIdleTimer time-in-seconds]'', '' set interface [DisconnectOnLogout {enable|disable}]'',
         '' set interface [IPSec <ipsec-options>]'' ] ]"

definition vpnAuthenticationMethodSelections :: "selection list" where
  "vpnAuthenticationMethodSelections = [choice ''Password'' ''Password'' 0, choice ''Certificate'' ''Certificate'' 0]"

definition vpnOptions :: "if_handler option_row list" where
  "vpnOptions =
    [ row ''AuthName'' (Some ''account'') isString (Some ''AuthName'') None,
      row ''Account'' (Some ''account'') isString (Some ''AuthName'') None,
      row ''AuthPassword'' (Some ''password'') isOther (Some ''AuthPassword'') (Some DoVPNAuthPW),
      row ''Password'' (Some ''password'') isOther (Some ''AuthPassword'') (Some DoVPNAuthPW),
      row ''AuthPasswordEncryption'' (Some ''type'') isOther (Some ''AuthPasswordEncryption'') (Some DoVPNAuthPWType),
      row_choices ''AuthenticationMethod'' None isChooseOne (Some ''AuthenticationMethod'') None vpnAuthenticationMethodSelections,
      row ''ConnectTime'' (Some ''?time'') isNumber (Some ''ConnectTime'') None,
      row ''DisconnectOnFastUserSwitch'' None isBoolean (Some ''DisconnectOnFastUserSwitch'') None,
      row ''DisconnectOnIdle'' None isBoolean (Some ''DisconnectOnIdle'') None,
      row ''DisconnectOnIdleTimer'' (Some ''timeout'') isNumber (Some ''DisconnectOnIdleTimer'') None,
      row ''DisconnectOnLogout'' None isBoolean (Some ''DisconnectOnLogout'') None,
      row ''DisconnectOnSleep'' None isBoolean (Some ''DisconnectOnSleep'') None,
      row ''Logfile'' (Some ''path'') isString (Some ''Logfile'') None,
      row ''MTU'' None isNumber (Some ''MTU'') None,
      row ''RemoteAddress'' (Some ''server'') isString (Some ''RemoteAddress'') None,
      row ''Server'' (Some ''server'') isString (Some ''RemoteAddress'') None,
      row ''VerboseLogging'' None isBoolean (Some ''VerboseLogging'') None,
      row_help
       [ [], ''VPN configuration commands'',
         [], '' set interface [Server server]'',
         '' set interface [Account account]'', '' set interface [Password password]'' ] ]"

section \<open>The command\<close>

type_synonym ('p, 'i) if_command =
  "opt_env \<Rightarrow> ('p, 'i) if_api \<Rightarrow> 'i \<Rightarrow> string list \<Rightarrow> 'p if_state \<Rightarrow> (bool \<times> 'p if_state) outcome"

definition set_interface_plain :: "if_handler option_row list \<Rightarrow> ('p, 'i) if_command" where
  "set_interface_plain options env api i argv s = process_options env (run_if env api i) options argv s"

text \<open>Interfaces with media: a device has to be there, and the result is checked.\<close>

definition set_interface_media :: "if_handler option_row list \<Rightarrow> ('p, 'i) if_command" where
  "set_interface_media options env api i argv s =
     (if ia_bsd_name api (session s) i = None then Ret (False, say ''no BSD interface'' s)
      else obind (process_options env (run_if env api i) options argv s) (\<lambda>(ok, s1).
             Ret (if ok then validateMediaOptions api i s1 else (False, s1))))"

definition set_interface_bond :: "('p, 'i) if_command" where
  "set_interface_bond = set_interface_media bondOptions"

definition set_interface_bridge :: "('p, 'i) if_command" where
  "set_interface_bridge = set_interface_media bridgeOptions"

definition set_interface_airport :: "('p, 'i) if_command" where
  "set_interface_airport = set_interface_media airportOptions"

definition set_interface_ethernet :: "('p, 'i) if_command" where
  "set_interface_ethernet = set_interface_media ethernetOptions"

definition set_interface_firewire :: "('p, 'i) if_command" where
  "set_interface_firewire = set_interface_media firewireOptions"

definition set_interface_ipsec :: "('p, 'i) if_command" where
  "set_interface_ipsec = set_interface_plain ipsecOptions"

definition set_interface_modem :: "('p, 'i) if_command" where
  "set_interface_modem = set_interface_plain modemOptions"

definition set_interface_ppp :: "('p, 'i) if_command" where
  "set_interface_ppp = set_interface_plain pppOptions"

definition set_interface_vpn :: "('p, 'i) if_command" where
  "set_interface_vpn = set_interface_plain vpnOptions"

definition set_interface_vlan :: "('p, 'i) if_command" where
  "set_interface_vlan env api i argv s = Ret (False, say ''vlan interface management not yet supported'' s)"

definition set_interface_of_type :: "string \<Rightarrow> ('p, 'i) if_command" where
  "set_interface_of_type interfaceType =
     (if interfaceType = kSCNetworkInterfaceTypeEthernet then set_interface_ethernet
      else if interfaceType = ''FireWire'' then set_interface_firewire
      else if interfaceType = kSCNetworkInterfaceTypeIPSec then set_interface_ipsec
      else if interfaceType = ''Modem'' then set_interface_modem
      else if interfaceType = kSCNetworkInterfaceTypeIEEE80211 then set_interface_airport
      else if interfaceType = kSCNetworkInterfaceTypePPP then set_interface_ppp
      else if interfaceType = kSCNetworkInterfaceTypeBond then set_interface_bond
      else if interfaceType = kSCNetworkInterfaceTypeBridge then set_interface_bridge
      else if interfaceType = kSCNetworkInterfaceTypeVLAN then set_interface_vlan
      else if interfaceType = kSCNetworkInterfaceTypeVPN then set_interface_vpn
      else (\<lambda>env api i argv s. Ret (False, say ''this interfaces configuration cannot be changed'' s)))"

text \<open>The command on the selected interface: what it printed, and the session after it.\<close>

definition set_interface ::
    "opt_env \<Rightarrow> ('p, 'i) if_api \<Rightarrow> 'i option \<Rightarrow> string list \<Rightarrow> 'p if_session \<Rightarrow> (string list \<times> 'p if_session) outcome" where
  "set_interface env api net_interface argv x =
     (case net_interface of
        None \<Rightarrow> Ret ([''interface not selected''], x)
      | Some i \<Rightarrow>
          if argv = [] then Ret ([''set what?''], x)
          else let configuration = ia_config api (xs_session x) i in
            obind (set_interface_of_type (ia_type api (xs_session x) i) env api i argv
                     \<lparr>os_config = working_copy configuration, os_out = [], os_extra = x\<rparr>) (\<lambda>(ok, s).
              Ret (if \<not> ok \<or> \<not> differs configuration (os_config s) then (os_out s, os_extra s)
                   else case ia_set_config api i (os_config s) (session s) of
                     ((True, _), p) \<Rightarrow> (os_out s, os_extra (mark_changed (set_session p s)))
                   | ((False, st), p) \<Rightarrow>
                       (os_out s @ [if st = kSCStatusNoKey then ''could not update per-service interface configuration'' else ia_error api st],
                        os_extra (set_session p s)))))"

end
