(* ===== verification/NetTool.thy ===== *)
theory NetTool
  imports IfOptions
begin

text \<open>
  The network commands of \<open>scutil\<close>: the state of net.c with what is selected and the lists that were shown last,
  and the search of an argument among them (net_interface.c, net_service.c, net_protocol.c, net_set.c).

  The calls of the framework are the fields of a record. Sets, services, protocols and interfaces are values of
  type variables; two of them that \<open>CFEqual\<close> identifies are one value. Calls that answer an array fail with a
  status; calls that change something answer as in the preference commands. The state of objects is part of
  the session that they were made from.
\<close>

section \<open>The framework\<close>

record ('p, 'i, 'h, 'q, 's) net_api =
  na_prefs :: "'p sp_ops"
  na_env :: opt_env
  na_if :: "('p, 'i) if_api"
  na_real_interfaces :: "'p option \<Rightarrow> sc_status + 'i list"
  na_loopback :: 'i
  na_ipv4 :: 'i
  na_display :: "'p option \<Rightarrow> 'i \<Rightarrow> string option"
  na_bond_members :: "'p option \<Rightarrow> 'i \<Rightarrow> 'i list option"
  na_bridge_members :: "'p option \<Rightarrow> 'i \<Rightarrow> 'i list option"
  na_vlan_physical :: "'p option \<Rightarrow> 'i \<Rightarrow> 'i option"
  na_hidden :: "string \<Rightarrow> 'i option"
  na_layer :: "'i \<Rightarrow> string \<Rightarrow> 'p option \<Rightarrow> (sc_status + 'i) \<times> 'p option"
  na_supported :: "'p option \<Rightarrow> 'i \<Rightarrow> string list option"
  na_services :: "'p option \<Rightarrow> 's \<Rightarrow> sc_status + 'h list"
  na_all_services :: "'p option \<Rightarrow> sc_status + 'h list"
  na_sort_services :: "'p option \<Rightarrow> 's \<Rightarrow> 'h list \<Rightarrow> 'h list"
  na_service_id :: "'p option \<Rightarrow> 'h \<Rightarrow> string"
  na_service_name :: "'p option \<Rightarrow> 'h \<Rightarrow> string option"
  na_service_interface :: "'p option \<Rightarrow> 'h \<Rightarrow> 'i option"
  na_create_service :: "'i \<Rightarrow> 'p option \<Rightarrow> (sc_status + 'h) \<times> 'p option"
  na_name_service :: "'h \<Rightarrow> string option \<Rightarrow> 'p option \<Rightarrow> 'p call_result"
  na_establish_service :: "'h \<Rightarrow> 'p option \<Rightarrow> 'p call_result"
  na_add_service :: "'s \<Rightarrow> 'h \<Rightarrow> 'p option \<Rightarrow> 'p call_result"
  na_enable_service :: "'h \<Rightarrow> bool \<Rightarrow> 'p option \<Rightarrow> 'p call_result"
  na_remove_service :: "'h \<Rightarrow> 'p option \<Rightarrow> 'p call_result"
  na_id_service :: "'h \<Rightarrow> string \<Rightarrow> 'p option \<Rightarrow> 'p call_result"
  na_active_service :: "string \<Rightarrow> 'h option"
  na_rank_service :: "'h \<Rightarrow> if_rank \<Rightarrow> 'p option \<Rightarrow> 'p call_result"
  na_order :: "'p option \<Rightarrow> 's \<Rightarrow> string list option"
  na_set_order :: "'s \<Rightarrow> string list \<Rightarrow> 'p option \<Rightarrow> 'p call_result"
  na_protocols :: "'p option \<Rightarrow> 'h \<Rightarrow> sc_status + 'q list"
  na_sort_protocols :: "'p option \<Rightarrow> 'q list \<Rightarrow> 'q list"
  na_protocol_type :: "'p option \<Rightarrow> 'q \<Rightarrow> string"
  na_protocol :: "'p option \<Rightarrow> 'h \<Rightarrow> string \<Rightarrow> sc_status + 'q"
  na_add_protocol :: "'h option \<Rightarrow> string \<Rightarrow> 'p option \<Rightarrow> 'p call_result"
  na_remove_protocol :: "'h option \<Rightarrow> string \<Rightarrow> 'p option \<Rightarrow> 'p call_result"
  na_enable_protocol :: "'q \<Rightarrow> bool \<Rightarrow> 'p option \<Rightarrow> 'p call_result"
  na_protocol_config :: "'p option \<Rightarrow> 'q \<Rightarrow> dict option"
  na_config_protocol :: "'q \<Rightarrow> dict \<Rightarrow> 'p option \<Rightarrow> 'p call_result"
  na_sets :: "'p option \<Rightarrow> sc_status + 's list"
  na_sort_sets :: "'p option \<Rightarrow> 's list \<Rightarrow> 's list"
  na_set_id :: "'p option \<Rightarrow> 's \<Rightarrow> string"
  na_set_name :: "'p option \<Rightarrow> 's \<Rightarrow> string option"
  na_current_set :: "'p option \<Rightarrow> 's option"
  na_create_set :: "'p option \<Rightarrow> (sc_status + 's) \<times> 'p option"
  na_default_set :: "'p option \<Rightarrow> (sc_status + 's) \<times> 'p option"
  na_establish_set :: "'s \<Rightarrow> 'p option \<Rightarrow> bool \<times> 'p option"
  na_name_set :: "'s \<Rightarrow> string option \<Rightarrow> 'p option \<Rightarrow> 'p call_result"
  na_id_set :: "'s \<Rightarrow> string \<Rightarrow> 'p option \<Rightarrow> 'p call_result"
  na_remove_set :: "'s \<Rightarrow> 'p option \<Rightarrow> 'p call_result"
  na_make_current :: "'s \<Rightarrow> 'p option \<Rightarrow> 'p call_result"

section \<open>The state\<close>

record ('p, 'i, 'h, 'q, 's) net_tool =
  nt_tool :: "'p prefs_tool"
  nt_new_interfaces :: "'i list option"
  nt_interfaces :: "'i list option"
  nt_services :: "'h list option"
  nt_protocols :: "'q list option"
  nt_sets :: "'s list option"
  nt_interface :: "'i option"
  nt_service :: "'h option"
  nt_protocol :: "'q option"
  nt_set :: "'s option"
  nt_proxy :: "proxyKeys option"

definition sess :: "('p, 'i, 'h, 'q, 's) net_tool \<Rightarrow> 'p option" where
  "sess s = pw_prefs (sc_world (nt_tool s))"

definition net_note :: "out_note \<Rightarrow> ('p, 'i, 'h, 'q, 's) net_tool \<Rightarrow> ('p, 'i, 'h, 'q, 's) net_tool" where
  "net_note x s = s\<lparr>nt_tool := print_note x (nt_tool s)\<rparr>"

definition net_notes :: "out_note list \<Rightarrow> ('p, 'i, 'h, 'q, 's) net_tool \<Rightarrow> ('p, 'i, 'h, 'q, 's) net_tool" where
  "net_notes xs s = fold net_note xs s"

definition net_world :: "('p prefs_world \<Rightarrow> 'p prefs_world) \<Rightarrow> ('p, 'i, 'h, 'q, 's) net_tool \<Rightarrow> ('p, 'i, 'h, 'q, 's) net_tool" where
  "net_world f s = s\<lparr>nt_tool := upd_world f (nt_tool s)\<rparr>"

definition set_sess :: "'p option \<Rightarrow> ('p, 'i, 'h, 'q, 's) net_tool \<Rightarrow> ('p, 'i, 'h, 'q, 's) net_tool" where
  "set_sess p = net_world (\<lambda>w. w\<lparr>pw_prefs := p\<rparr>)"

definition prefs_changed :: "('p, 'i, 'h, 'q, 's) net_tool \<Rightarrow> ('p, 'i, 'h, 'q, 's) net_tool" where
  "prefs_changed = net_world (\<lambda>w. w\<lparr>pw_changed := True\<rparr>)"

text \<open>A call that changes the session: on success \<open>f\<close>, otherwise the status is printed.\<close>

definition net_call ::
    "'p call_result \<Rightarrow> (('p, 'i, 'h, 'q, 's) net_tool \<Rightarrow> ('p, 'i, 'h, 'q, 's) net_tool) \<Rightarrow>
     ('p, 'i, 'h, 'q, 's) net_tool \<Rightarrow> ('p, 'i, 'h, 'q, 's) net_tool" where
  "net_call r f s =
     (case r of ((ok, st), p) \<Rightarrow> let s1 = set_sess p s in if ok then f s1 else net_note (Status st) s1)"

definition net_close :: "('p, 'i, 'h, 'q, 's) net_tool \<Rightarrow> ('p, 'i, 'h, 'q, 's) net_tool" where
  "net_close s =
     s\<lparr>nt_interface := None, nt_service := None, nt_protocol := None, nt_set := None, nt_interfaces := None,
       nt_services := None, nt_protocols := None, nt_sets := None, nt_new_interfaces := None\<rparr>"

section \<open>Searching\<close>

datatype 'a found = Nothing | One 'a | Many

text \<open>The loops of the search: the second element that matches ends them.\<close>

fun unique_from :: "('a \<Rightarrow> bool) \<Rightarrow> 'a list \<Rightarrow> 'a option \<Rightarrow> 'a found" where
  "unique_from P [] selected = (case selected of None \<Rightarrow> Nothing | Some x \<Rightarrow> One x)"
| "unique_from P (x # xs) selected =
     (if P x then (case selected of None \<Rightarrow> unique_from P xs (Some x) | Some _ \<Rightarrow> Many) else unique_from P xs selected)"

fun search_stages :: "('a \<Rightarrow> bool) list \<Rightarrow> 'a list \<Rightarrow> 'a found" where
  "search_stages [] xs = Nothing"
| "search_stages (P # Ps) xs = (case unique_from P xs None of Nothing \<Rightarrow> search_stages Ps xs | r \<Rightarrow> r)"

definition strtol_erange :: "string \<Rightarrow> bool" where
  "strtol_erange str =
     (case take_sign (skip_blanks str) of
        (neg, s) \<Rightarrow> (case fst (take_digits 10 None s) of
            None \<Rightarrow> False
          | Some n \<Rightarrow> let v = (if neg then - int n else int n) in clamp_long v \<noteq> v))"

definition by_index :: "string \<Rightarrow> 'a list \<Rightarrow> 'a option" where
  "by_index match xs =
     (case strtol match of
        (val, rest) \<Rightarrow>
          if match \<noteq> [] \<and> rest = [] \<and> \<not> strtol_erange match \<and> val > 0 \<and> val \<le> int (length xs)
          then Some (xs ! nat (val - 1)) else None)"

text \<open>
  An element by its identifier, by the stages, and by its index when that is allowed. The NULL name that bytes
  without text give is compared as soon as there is an element.
\<close>

definition pick ::
    "opt_env \<Rightarrow> string \<Rightarrow> (string \<Rightarrow> 'a \<Rightarrow> bool) \<Rightarrow> (string \<Rightarrow> 'a \<Rightarrow> bool) list \<Rightarrow> string \<Rightarrow> bool \<Rightarrow> 'a list \<Rightarrow> string \<Rightarrow>
     ('a option \<times> out_note list) outcome" where
  "pick env what exact stages many allowIndex xs match =
     (case (if xs = [] then Some [] else oe_utf8 env match) of
        None \<Rightarrow> UB
      | Some name \<Rightarrow> Ret
          (case List.find (exact name) xs of
             Some x \<Rightarrow> (Some x, [])
           | None \<Rightarrow>
               (case search_stages (map (\<lambda>st. st name) stages) xs of
                  One x \<Rightarrow> (Some x, [])
                | Many \<Rightarrow> (None, [Msg many])
                | Nothing \<Rightarrow>
                    (case (if allowIndex then by_index match xs else None) of
                       Some x \<Rightarrow> (Some x, [])
                     | None \<Rightarrow> (None, [Msg (''no match, which '' @ what @ ''?'')])))))"

definition opt_same :: "(string \<Rightarrow> string \<Rightarrow> bool) \<Rightarrow> string option \<Rightarrow> string \<Rightarrow> bool" where
  "opt_same same x name = (case x of None \<Rightarrow> False | Some n \<Rightarrow> same name n)"

text \<open>A list that is there, or a new one, from which an index does not select.\<close>

type_synonym ('p, 'i, 'h, 'q, 's) net_state = "('p, 'i, 'h, 'q, 's) net_tool"

definition picked ::
    "('a option \<times> out_note list) outcome \<Rightarrow> ('p, 'i, 'h, 'q, 's) net_state \<Rightarrow> ('a option \<times> ('p, 'i, 'h, 'q, 's) net_state) outcome" where
  "picked r s = obind r (\<lambda>(x, notes). Ret (x, net_notes notes s))"

text \<open>The topmost device of an interface or one of its layers, and its name.\<close>

definition device_layer :: "('p, 'i) if_api \<Rightarrow> 'p option \<Rightarrow> 'i \<Rightarrow> 'i option" where
  "device_layer api p i = List.find (\<lambda>x. ia_bsd_name api p x \<noteq> None) (i # ia_layers api p i)"

definition device_name :: "('p, 'i) if_api \<Rightarrow> 'p option \<Rightarrow> 'i \<Rightarrow> string option" where
  "device_name api p i = Option.bind (device_layer api p i) (ia_bsd_name api p)"

subsection \<open>Services\<close>

text \<open>The three ways to know a service, after its identifier.\<close>

definition service_stages :: "('p, 'i, 'h, 'q, 's) net_api \<Rightarrow> 'p option \<Rightarrow> (string \<Rightarrow> 'h \<Rightarrow> bool) list" where
  "service_stages api p =
     [ \<lambda>name h. na_service_name api p h = Some name,
       \<lambda>name h. opt_same (oe_same (na_env api)) (na_service_name api p h) name,
       \<lambda>name h. opt_same (oe_same (na_env api)) (case na_service_interface api p h of
           None \<Rightarrow> None | Some i \<Rightarrow> device_name (na_if api) p i) name ]"

definition find_service ::
    "('p, 'i, 'h, 'q, 's) net_api \<Rightarrow> string \<Rightarrow> ('p, 'i, 'h, 'q, 's) net_state \<Rightarrow> ('h option \<times> ('p, 'i, 'h, 'q, 's) net_state) outcome" where
  "find_service api match s =
     (let p = sess s;
          go = (\<lambda>allowIndex services s1.
            picked (pick (na_env api) ''service'' (\<lambda>name h. name = na_service_id api p h) (service_stages api p)
              ''multiple services match'' allowIndex services match) s1)
      in case nt_services s of
           Some services \<Rightarrow> go True services s
         | None \<Rightarrow>
             (case nt_set s of
                None \<Rightarrow> Ret (None, net_note (Msg ''set not selected'') s)
              | Some st \<Rightarrow>
                  (case na_services api p st of
                     Inl e \<Rightarrow> Ret (None, net_note (Status e) s)
                   | Inr services \<Rightarrow> go False services (s\<lparr>nt_services := Some services\<rparr>))))"

subsection \<open>Protocols\<close>

definition sorted_protocols :: "('p, 'i, 'h, 'q, 's) net_api \<Rightarrow> 'p option \<Rightarrow> 'q list \<Rightarrow> 'q list" where
  "sorted_protocols api p l = (if length l > 1 then na_sort_protocols api p l else l)"

definition find_protocol ::
    "('p, 'i, 'h, 'q, 's) net_api \<Rightarrow> string \<Rightarrow> ('p, 'i, 'h, 'q, 's) net_state \<Rightarrow> ('q option \<times> ('p, 'i, 'h, 'q, 's) net_state) outcome" where
  "find_protocol api match s =
     (let env = na_env api; p = sess s;
          go = (\<lambda>allowIndex protocols s1.
            picked (pick env ''protocol'' (\<lambda>name q. oe_same env name (na_protocol_type api p q)) [] [] allowIndex protocols match) s1)
      in case nt_protocols s of
           Some protocols \<Rightarrow> go True protocols s
         | None \<Rightarrow>
             (case nt_service s of
                None \<Rightarrow> Ret (None, net_note (Msg ''network service not selected'') s)
              | Some h \<Rightarrow>
                  (case na_protocols api p h of
                     Inl e \<Rightarrow> Ret (None, net_note (Status e) s)
                   | Inr l \<Rightarrow>
                       let protocols = sorted_protocols api p l
                       in go False protocols (s\<lparr>nt_protocols := Some protocols\<rparr>))))"

subsection \<open>Sets\<close>

definition copy_sets ::
    "('p, 'i, 'h, 'q, 's) net_api \<Rightarrow> ('p, 'i, 'h, 'q, 's) net_state \<Rightarrow> 's list option \<times> ('p, 'i, 'h, 'q, 's) net_state" where
  "copy_sets api s =
     (case na_sets api (sess s) of
        Inl e \<Rightarrow> (None, net_note (Status e) s)
      | Inr l \<Rightarrow> (Some (na_sort_sets api (sess s) l), s))"

definition find_set ::
    "('p, 'i, 'h, 'q, 's) net_api \<Rightarrow> string \<Rightarrow> ('p, 'i, 'h, 'q, 's) net_state \<Rightarrow> ('s option \<times> ('p, 'i, 'h, 'q, 's) net_state) outcome" where
  "find_set api match s =
     (let env = na_env api; p = sess s;
          go = (\<lambda>allowIndex sets s1.
            picked (pick env ''set'' (\<lambda>name st. name = na_set_id api p st)
              [ \<lambda>name st. na_set_name api p st = Some name,
                \<lambda>name st. opt_same (oe_same env) (na_set_name api p st) name ]
              ''multiple sets match'' allowIndex sets match) s1)
      in case nt_sets s of
           Some sets \<Rightarrow> go True sets s
         | None \<Rightarrow>
             if p = None then Ret (None, net_note (Msg ''network configuration not open'') s)
             else (case copy_sets api s of
                (None, s1) \<Rightarrow> Ret (None, s1)
              | (Some sets, s1) \<Rightarrow> go False sets (s1\<lparr>nt_sets := Some sets\<rparr>)))"

subsection \<open>Interfaces\<close>

definition copy_interfaces ::
    "('p, 'i, 'h, 'q, 's) net_api \<Rightarrow> ('p, 'i, 'h, 'q, 's) net_state \<Rightarrow> 'i list option \<times> ('p, 'i, 'h, 'q, 's) net_state" where
  "copy_interfaces api s =
     (case na_real_interfaces api (sess s) of
        Inl e \<Rightarrow> (None, net_note (Status e) s)
      | Inr real_interfaces \<Rightarrow>
          (Some (real_interfaces @ [na_loopback api, na_ipv4 api] @
                 (case nt_new_interfaces s of None \<Rightarrow> [] | Some l \<Rightarrow> l)), s))"

text \<open>An index \<open>n\<close> or \<open>n.m\<close>, where \<open>m\<close> layers below may not be there; a second part that is no number is ignored.\<close>

definition by_layer_index :: "('i \<Rightarrow> 'i list) \<Rightarrow> string \<Rightarrow> 'i list \<Rightarrow> 'i option" where
  "by_layer_index layers match xs =
     (case strtol match of
        (val, rest) \<Rightarrow>
          if match \<noteq> [] \<and> (rest = [] \<or> hd rest = CHR ''.'') \<and> \<not> strtol_erange match \<and> val > 0 \<and> val \<le> int (length xs)
          then let i = xs ! nat (val - 1) in
               if rest = [] then Some i
               else (case strtol (tl rest) of
                  (m, rest2) \<Rightarrow>
                    if tl rest \<noteq> [] \<and> rest2 = [] \<and> \<not> strtol_erange (tl rest)
                    then (let chain = i # layers i; k = nat m in if k < length chain then Some (chain ! k) else None)
                    else Some i)
          else None)"

text \<open>A device name selects the layer that has it, which is the interface itself or one below it.\<close>

definition pick_interface ::
    "('p, 'i, 'h, 'q, 's) net_api \<Rightarrow> 'p option \<Rightarrow> bool \<Rightarrow> 'i list \<Rightarrow> string \<Rightarrow> ('i option \<times> out_note list) outcome" where
  "pick_interface api p allowIndex xs match =
     (let ifs = na_if api; many = (None, [Msg ''multiple interfaces match'']) in
      case oe_utf8 (na_env api) match of
        None \<Rightarrow> UB
      | Some name \<Rightarrow> Ret
          (case unique_from (\<lambda>i. na_display api p i = Some name) xs None of
             One x \<Rightarrow> (Some x, [])
           | Many \<Rightarrow> many
           | Nothing \<Rightarrow>
          (case unique_from (\<lambda>i. device_name ifs p i = Some name) xs None of
             One x \<Rightarrow> (device_layer ifs p x, [])
           | Many \<Rightarrow> many
           | Nothing \<Rightarrow>
          (case na_hidden api name of
             Some x \<Rightarrow> (Some x, [])
           | None \<Rightarrow>
          (case unique_from (\<lambda>i. name = ia_type ifs p i) xs None of
             One x \<Rightarrow> (Some x, [])
           | Many \<Rightarrow> many
           | Nothing \<Rightarrow>
          (case (if allowIndex then by_layer_index (ia_layers ifs p) match xs else None) of
             Some x \<Rightarrow> (Some x, [])
           | None \<Rightarrow> (None, [Msg ''no match'']))))))) "

definition note_if_none :: "'a option \<Rightarrow> string \<Rightarrow> 'a option \<times> out_note list" where
  "note_if_none x m = (x, if x = None then [Msg m] else [])"

text \<open>
  \<open>$child\<close>, \<open>$service\<close>, \<open>$bond\<close>, \<open>$bridge\<close>, \<open>$vlan\<close> or an interface of the list. The number is that of the
  arguments that were used.
\<close>

definition member_of ::
    "('p, 'i, 'h, 'q, 's) net_api \<Rightarrow> string \<Rightarrow> string \<Rightarrow> ('p option \<Rightarrow> 'i \<Rightarrow> 'i list option) \<Rightarrow> string list \<Rightarrow>
     ('p, 'i, 'h, 'q, 's) net_state \<Rightarrow> ('i option \<times> nat \<times> ('p, 'i, 'h, 'q, 's) net_state) outcome" where
  "member_of api if_type label members argv s =
     (case nt_interface s of
        None \<Rightarrow> Ret (None, 1, net_note (Msg ''interface not selected'') s)
      | Some i \<Rightarrow>
          if ia_type (na_if api) (sess s) i \<noteq> if_type then Ret (None, 1, net_note (Msg (''interface not '' @ label)) s)
          else (case argv of
             [] \<Rightarrow> Ret (None, 1, net_note (Msg ''no member interface specified'') s)
           | a # _ \<Rightarrow>
               (case members (sess s) i of
                  None \<Rightarrow> Ret (None, 2, net_note (Msg ''no member interfaces'') s)
                | Some l \<Rightarrow> obind (picked (pick_interface api (sess s) False l a) s) (\<lambda>(x, s1). Ret (x, 2, s1)))))"

definition listed_interface ::
    "('p, 'i, 'h, 'q, 's) net_api \<Rightarrow> string \<Rightarrow> ('p, 'i, 'h, 'q, 's) net_state \<Rightarrow>
     ('i option \<times> nat \<times> ('p, 'i, 'h, 'q, 's) net_state) outcome" where
  "listed_interface api match s =
     (case nt_interfaces s of
        Some l \<Rightarrow> obind (picked (pick_interface api (sess s) True l match) s) (\<lambda>(x, s1). Ret (x, 1, s1))
      | None \<Rightarrow>
          (case copy_interfaces api s of
             (None, s1) \<Rightarrow> Ret (None, 1, s1)
           | (Some l, s1) \<Rightarrow>
               obind (picked (pick_interface api (sess s1) False l match) (s1\<lparr>nt_interfaces := Some l\<rparr>))
                 (\<lambda>(x, s2). Ret (x, 1, s2))))"

definition find_interface ::
    "('p, 'i, 'h, 'q, 's) net_api \<Rightarrow> string list \<Rightarrow> ('p, 'i, 'h, 'q, 's) net_state \<Rightarrow>
     ('i option \<times> nat \<times> ('p, 'i, 'h, 'q, 's) net_state) outcome" where
  "find_interface api argv s =
     (let given = (\<lambda>(x, notes). Ret (x, 1, net_notes notes s)) in
      case argv of
        [] \<Rightarrow> Ret (None, 0, net_note (Msg ''no interface specified'') s)
      | a # rest \<Rightarrow>
          if strcaseeq a ''$child'' then given (case nt_interface s of
            None \<Rightarrow> (None, [Msg ''interface not selected''])
          | Some i \<Rightarrow> note_if_none (child_interface (na_if api) (sess s) i) ''no child interface'')
          else if strcaseeq a ''$service'' then given (case nt_service s of
            None \<Rightarrow> (None, [Msg ''service not selected''])
          | Some h \<Rightarrow> note_if_none (na_service_interface api (sess s) h) ''no interface for service'')
          else if strcaseeq a ''$bond'' then member_of api kSCNetworkInterfaceTypeBond ''Bond'' (na_bond_members api) rest s
          else if strcaseeq a ''$bridge'' then member_of api kSCNetworkInterfaceTypeBridge ''Bridge'' (na_bridge_members api) rest s
          else if strcaseeq a ''$vlan'' then given (case nt_interface s of
            None \<Rightarrow> (None, [Msg ''interface not selected''])
          | Some i \<Rightarrow>
              if ia_type (na_if api) (sess s) i \<noteq> kSCNetworkInterfaceTypeVLAN then (None, [Msg ''interface not VLAN''])
              else note_if_none (na_vlan_physical api (sess s) i) ''no physical interface'')
          else listed_interface api a s)"

end
