(* ===== verification/NetCommands.thy ===== *)
theory NetCommands
  imports NetTool
begin

text \<open>
  The network commands of \<open>scutil\<close> on sets, services, protocols and interfaces (net_set.c, net_service.c,
  net_protocol.c, net_interface.c). What \<open>show\<close> prints is left out, with the numbers in front of
  the elements; the list that it loads, and that these numbers refer to, is not. A message that goes on
  with the text of a status is followed by that status.
\<close>

section \<open>What is selected\<close>

definition no_service :: "('p, 'i, 'h, 'q, 's) net_state \<Rightarrow> ('p, 'i, 'h, 'q, 's) net_state" where
  "no_service s = (if nt_service s = None then s else net_note (Msg ''& no service selected'') (s\<lparr>nt_service := None\<rparr>))"

definition no_protocol :: "('p, 'i, 'h, 'q, 's) net_state \<Rightarrow> ('p, 'i, 'h, 'q, 's) net_state" where
  "no_protocol s = (if nt_protocol s = None then s else net_note (Msg ''& no protocol selected'') (s\<lparr>nt_protocol := None\<rparr>))"

definition no_interface :: "('p, 'i, 'h, 'q, 's) net_state \<Rightarrow> ('p, 'i, 'h, 'q, 's) net_state" where
  "no_interface s = (if nt_interface s = None then s else net_note (Msg ''& no interface selected'') (s\<lparr>nt_interface := None\<rparr>))"

definition quoted :: "string \<Rightarrow> string" where
  "quoted s = [CHR 0x22] @ s @ [CHR 0x22]"

text \<open>What is said of a set or service; \<open>full\<close> adds the identifier to the name.\<close>

definition said_of :: "string \<Rightarrow> bool \<Rightarrow> string option \<Rightarrow> string \<Rightarrow> string \<Rightarrow> string" where
  "said_of what full name ident rest =
     (case name of
        Some n \<Rightarrow> what @ '' '' @ quoted n @ (if full then '' ('' @ ident @ '')'' else []) @ rest
      | None \<Rightarrow> what @ '' ID '' @ quoted ident @ rest)"

definition set_note ::
    "('p, 'i, 'h, 'q, 's) net_api \<Rightarrow> 's \<Rightarrow> bool \<Rightarrow> string \<Rightarrow> string \<Rightarrow> ('p, 'i, 'h, 'q, 's) net_state \<Rightarrow> ('p, 'i, 'h, 'q, 's) net_state" where
  "set_note api st full what rest s =
     net_note (Msg (said_of what full (na_set_name api (sess s) st) (na_set_id api (sess s) st) rest)) s"

definition service_note ::
    "('p, 'i, 'h, 'q, 's) net_api \<Rightarrow> 'h \<Rightarrow> bool \<Rightarrow> string \<Rightarrow> ('p, 'i, 'h, 'q, 's) net_state \<Rightarrow> ('p, 'i, 'h, 'q, 's) net_state" where
  "service_note api h full rest s =
     net_note (Msg (said_of ''service'' full (na_service_name api (sess s) h) (na_service_id api (sess s) h) rest)) s"

definition interface_text :: "('p, 'i, 'h, 'q, 's) net_api \<Rightarrow> 'p option \<Rightarrow> 'i \<Rightarrow> string" where
  "interface_text api p i =
     (case na_display api p i of
        Some n \<Rightarrow> n
      | None \<Rightarrow> (case ia_bsd_name (na_if api) p i of Some n \<Rightarrow> n | None \<Rightarrow> ia_type (na_if api) p i))"

text \<open>An argument for a name: none when it is empty.\<close>

definition name_arg :: "opt_env \<Rightarrow> string \<Rightarrow> string option" where
  "name_arg env a = (if a \<noteq> [] then oe_utf8 env a else None)"

type_synonym ('p, 'i, 'h, 'q, 's) net_command =
  "('p, 'i, 'h, 'q, 's) net_api \<Rightarrow> string list \<Rightarrow> ('p, 'i, 'h, 'q, 's) net_state \<Rightarrow> ('p, 'i, 'h, 'q, 's) net_state outcome"

section \<open>Sets\<close>

definition create_set :: "('p, 'i, 'h, 'q, 's) net_command" where
  "create_set api argv s =
     (if sess s = None then Ret (net_note (Msg ''network configuration not open'') s)
      else case na_create_set api (sess s) of
        (Inl e, p) \<Rightarrow> Ret (net_note (Status e) (set_sess p s))
      | (Inr st, p) \<Rightarrow>
          let s1 = set_sess p s;
              finish = (\<lambda>s2. (no_interface (no_protocol (no_service
                (set_note api st True ''set'' '' created and selected'' ((prefs_changed s2)\<lparr>nt_set := Some st\<rparr>)))))\<lparr>nt_sets := None\<rparr>)
          in case argv of
               a # _ \<Rightarrow>
                 if a \<noteq> []
                 then obind (text_arg (na_env api) a) (\<lambda>setName. Ret
                   (case na_name_set api st (Some setName) p of
                      ((True, _), p1) \<Rightarrow> finish (set_sess p1 s1)
                    | ((False, e), p1) \<Rightarrow>
                        set_sess (snd (na_remove_set api st p1))
                          (net_notes [Msg ''set not created: '', Status e] (set_sess p1 s1))))
                 else Ret (finish s1)
             | [] \<Rightarrow> Ret (finish s1))"

text \<open>
  A command on the named element, or on the selected one; \<open>one\<close> says that there has to be exactly one argument
  for the first. Without a selection there may be a message.
\<close>

definition named_or_selected ::
    "bool \<Rightarrow> (string \<Rightarrow> ('p, 'i, 'h, 'q, 's) net_state \<Rightarrow> ('a option \<times> ('p, 'i, 'h, 'q, 's) net_state) outcome) \<Rightarrow> 'a option \<Rightarrow>
     string option \<Rightarrow> string list \<Rightarrow> ('p, 'i, 'h, 'q, 's) net_state \<Rightarrow> ('a option \<times> ('p, 'i, 'h, 'q, 's) net_state) outcome" where
  "named_or_selected one lookup selected missing argv s =
     (case argv of
        a # rest \<Rightarrow> if one \<and> rest \<noteq> [] then Ret (selected, (case (selected, missing) of
                      (None, Some m) \<Rightarrow> net_note (Msg m) s | _ \<Rightarrow> s)) else lookup a s
      | [] \<Rightarrow> Ret (selected, (case (selected, missing) of (None, Some m) \<Rightarrow> net_note (Msg m) s | _ \<Rightarrow> s)))"

text \<open>The set that was removed stays selected; comparing it with no selection is \<open>UB\<close>.\<close>

definition remove_set :: "('p, 'i, 'h, 'q, 's) net_command" where
  "remove_set api argv s =
     obind (named_or_selected True (find_set api) (nt_set s) None argv s) (\<lambda>(r, s1).
       case r of
         None \<Rightarrow> Ret s1
       | Some st \<Rightarrow>
           (case na_remove_set api st (sess s1) of
              ((False, e), p) \<Rightarrow> Ret (net_note (Status e) (set_sess p s1))
            | ((True, _), p) \<Rightarrow>
                let s2 = set_note api st False ''set'' '' removed'' (prefs_changed (set_sess p s1)) in
                (case nt_set s2 of
                   None \<Rightarrow> UB
                 | Some cur \<Rightarrow>
                     Ret ((if st = cur then no_interface (no_protocol (no_service s2)) else s2)\<lparr>nt_sets := None\<rparr>))))"

definition select_set :: "('p, 'i, 'h, 'q, 's) net_command" where
  "select_set api argv s =
     (case argv of
        [] \<Rightarrow> UB
      | a # _ \<Rightarrow>
          obind (find_set api a s) (\<lambda>(r, s1).
            Ret (case r of
                   None \<Rightarrow> s1
                 | Some st \<Rightarrow> no_interface (no_protocol (no_service (set_note api st False ''set'' '' selected'' (s1\<lparr>nt_set := Some st\<rparr>)))))))"

text \<open>After a new name or identifier the sets are copied again and the set is searched among them.\<close>

definition refresh_set ::
    "('p, 'i, 'h, 'q, 's) net_api \<Rightarrow> string \<Rightarrow> ('p, 'i, 'h, 'q, 's) net_state \<Rightarrow> ('p, 'i, 'h, 'q, 's) net_state outcome" where
  "refresh_set api ident s =
     (if nt_sets s = None then Ret s
      else obind (find_set api ident (s\<lparr>nt_set := None, nt_sets := None\<rparr>)) (\<lambda>(r, s1). Ret (s1\<lparr>nt_set := r\<rparr>)))"

definition set_set_step ::
    "('p, 'i, 'h, 'q, 's) net_api \<Rightarrow> 's \<Rightarrow> string \<Rightarrow> string list \<Rightarrow> ('p, 'i, 'h, 'q, 's) net_state \<Rightarrow>
     (bool \<times> string list \<times> ('p, 'i, 'h, 'q, 's) net_state) outcome" where
  "set_set_step api st cmd argv s =
     (if cmd = ''name'' then
        (case argv of
           [] \<Rightarrow> Ret (False, [], net_note (Msg ''name not specified'') s)
         | a # rest \<Rightarrow>
             (case na_name_set api st (name_arg (na_env api) a) (sess s) of
                ((False, e), p) \<Rightarrow> Ret (False, rest, net_note (Status e) (set_sess p s))
              | ((True, _), p) \<Rightarrow>
                  let s1 = prefs_changed (set_sess p s)
                  in obind (refresh_set api (oe_bytes (na_env api) (na_set_id api p st)) s1) (\<lambda>s2. Ret (True, rest, s2))))
      else if cmd = ''current'' then
        (case na_make_current api st (sess s) of
           ((False, e), p) \<Rightarrow> Ret (False, argv, net_note (Status e) (set_sess p s))
         | ((True, _), p) \<Rightarrow> Ret (True, argv, prefs_changed (set_sess p s)))
      else if cmd = ''id'' then
        (case argv of
           [] \<Rightarrow> Ret (False, [], net_note (Msg ''set id not specified'') s)
         | a # rest \<Rightarrow>
             if a = [] then Ret (False, argv, net_note (Msg ''set id not specified'') s)
             else obind (text_arg (na_env api) a) (\<lambda>setID.
               case na_id_set api st setID (sess s) of
                 ((False, e), p) \<Rightarrow> Ret (False, rest, net_note (Status e) (set_sess p s))
               | ((True, _), p) \<Rightarrow>
                   obind (refresh_set api a (prefs_changed (set_sess p s))) (\<lambda>s2. Ret (True, rest, s2))))
      else Ret (True, argv, net_note (Msg ''set what?'') s))"

lemma set_set_step_rest: "set_set_step api st c argv s = Ret (go, rest, s') \<Longrightarrow> length rest \<le> length argv"
  by (auto simp: set_set_step_def Let_def split: if_splits list.splits prod.splits bool.splits)
    (metis le_SucI order_refl surj_pair)

function set_set_loop ::
    "('p, 'i, 'h, 'q, 's) net_api \<Rightarrow> string list \<Rightarrow> ('p, 'i, 'h, 'q, 's) net_state \<Rightarrow> ('p, 'i, 'h, 'q, 's) net_state outcome" where
  "set_set_loop api [] s = Ret s"
| "set_set_loop api (c # argv) s =
     (case nt_set s of
        None \<Rightarrow> Ret s
      | Some st \<Rightarrow>
          (case set_set_step api st c argv s of
             UB \<Rightarrow> UB
           | Ret (go, rest, s1) \<Rightarrow> if go then set_set_loop api rest s1 else Ret s1))"
  by pat_completeness auto

termination
  by (relation "measure (\<lambda>(_, argv, _). length argv)") (auto dest: set_set_step_rest)

definition set_set :: "('p, 'i, 'h, 'q, 's) net_command" where
  "set_set api argv s =
     (if nt_set s = None then Ret (net_note (Msg ''set not selected'') s)
      else if argv = [] then Ret (net_note (Msg ''set what?'') s)
      else set_set_loop api argv s)"

definition show_set :: "('p, 'i, 'h, 'q, 's) net_command" where
  "show_set api argv s =
     obind (named_or_selected True (find_set api) (nt_set s) (Some ''set not selected'') argv s) (\<lambda>(r, s1). Ret s1)"

definition show_sets :: "('p, 'i, 'h, 'q, 's) net_command" where
  "show_sets api argv s =
     Ret (if sess s = None then net_note (Msg ''network configuration not open'') s
          else if nt_sets s \<noteq> None then s
          else case copy_sets api s of (r, s1) \<Rightarrow> s1\<lparr>nt_sets := r\<rparr>)"

section \<open>Services\<close>

definition create_service :: "('p, 'i, 'h, 'q, 's) net_command" where
  "create_service api argv s =
     (if sess s = None then Ret (net_note (Msg ''network configuration not open'') s)
      else case nt_set s of
        None \<Rightarrow> Ret (net_note (Msg ''set not selected'') s)
      | Some st \<Rightarrow>
          obind (if argv = [] then Ret (nt_interface s, 0,
                   if nt_interface s = None then net_note (Msg ''no network interface selected'') s else s)
                 else find_interface api argv s) (\<lambda>(r, nArgs, s1).
          case r of
            None \<Rightarrow> Ret s1
          | Some i \<Rightarrow>
              if na_supported api (sess s1) i = None
              then Ret (net_note (Msg ''no network protocols are supported over this interface'') s1)
              else (case na_create_service api i (sess s1) of
                (Inl e, p) \<Rightarrow> Ret (net_note (Status e) (set_sess p s1))
              | (Inr h, p) \<Rightarrow>
                  let rest = drop nArgs argv;
                      failed = (\<lambda>m e p'. set_sess (snd (na_remove_service api h p')) (net_notes (m @ [Status e]) (set_sess p' s1)));
                      name = (case rest of a # _ \<Rightarrow> if a \<noteq> [] then Some a else None | [] \<Rightarrow> None)
                  in obind (case name of
                         Some a \<Rightarrow> obind (text_arg (na_env api) a) (\<lambda>serviceName. Ret (na_name_service api h (Some serviceName) p))
                       | None \<Rightarrow> Ret ((True, kSCStatusOK), p)) (\<lambda>res. Ret (case res of
                       ((False, e), p1) \<Rightarrow> failed [] e p1
                     | ((True, _), p1) \<Rightarrow>
                         (case na_establish_service api h p1 of
                            ((False, e), p2) \<Rightarrow> failed [] e p2
                          | ((True, _), p2) \<Rightarrow>
                              (case na_add_service api st h p2 of
                                 ((False, e), p3) \<Rightarrow> failed [Msg ''service not created: ''] e p3
                               | ((True, _), p3) \<Rightarrow>
                                   let s2 = service_note api h True '' created and selected''
                                              ((prefs_changed (set_sess p3 s1))\<lparr>nt_service := Some h\<rparr>);
                                       s3 = (set_note api st False ''& added to set'' [] s2)\<lparr>nt_interface := na_service_interface api p3 h\<rparr>;
                                       s4 = net_note (Msg (''& interface '' @ quoted (interface_text api p3 i) @ '' selected'')) s3
                                   in (no_protocol (s4\<lparr>nt_protocols := None\<rparr>))\<lparr>nt_services := None\<rparr>)))))))"

definition enable_service :: "bool \<Rightarrow> ('p, 'i, 'h, 'q, 's) net_command" where
  "enable_service enabled api argv s =
     obind (named_or_selected True (find_service api) (nt_service s) (Some ''service not selected'') argv s) (\<lambda>(r, s1).
       Ret (case r of None \<Rightarrow> s1 | Some h \<Rightarrow> net_call (na_enable_service api h enabled (sess s1)) prefs_changed s1))"

definition remove_service :: "('p, 'i, 'h, 'q, 's) net_command" where
  "remove_service api argv s =
     obind (named_or_selected True (find_service api) (nt_service s) None argv s) (\<lambda>(r, s1).
       Ret (case r of
              None \<Rightarrow> s1
            | Some h \<Rightarrow> net_call (na_remove_service api h (sess s1)) (\<lambda>s2.
                let s3 = service_note api h False '' removed'' (prefs_changed s2);
                    s4 = (if nt_service s3 = Some h
                          then no_interface (no_protocol ((no_service s3)\<lparr>nt_protocols := None\<rparr>)) else s3)
                in s4\<lparr>nt_services := None\<rparr>) s1))"

definition select_service :: "('p, 'i, 'h, 'q, 's) net_command" where
  "select_service api argv s =
     (case argv of
        [] \<Rightarrow> UB
      | a # _ \<Rightarrow>
          obind (find_service api a s) (\<lambda>(r, s1).
            Ret (case r of
                   None \<Rightarrow> s1
                 | Some h \<Rightarrow>
                     let s2 = service_note api h False '' selected'' (s1\<lparr>nt_service := Some h\<rparr>);
                         s3 = (case na_service_interface api (sess s2) h of
                           Some i \<Rightarrow> net_note (Msg (''& interface '' @ quoted (interface_text api (sess s2) i) @ '' selected'')) (s2\<lparr>nt_interface := Some i\<rparr>)
                         | None \<Rightarrow> no_interface s2)
                     in no_protocol (s3\<lparr>nt_protocols := None\<rparr>))))"

text \<open>The order of the services with one of them moved to an index that counts from 1.\<close>

definition move_to :: "string \<Rightarrow> nat \<Rightarrow> string list \<Rightarrow> string list" where
  "move_to serviceID newIndex order =
     (let newOrder = remove1 serviceID order
      in if newIndex \<le> length newOrder then take (newIndex - 1) newOrder @ serviceID # drop (newIndex - 1) newOrder
         else newOrder @ [serviceID])"

definition set_service_order ::
    "('p, 'i, 'h, 'q, 's) net_api \<Rightarrow> 'h \<Rightarrow> string list \<Rightarrow> ('p, 'i, 'h, 'q, 's) net_state \<Rightarrow>
     (bool \<times> string list \<times> ('p, 'i, 'h, 'q, 's) net_state) outcome" where
  "set_service_order api h argv s =
     (case nt_set s of
        None \<Rightarrow> UB
      | Some st \<Rightarrow>
          (case na_services api (sess s) st of
             Inl _ \<Rightarrow> UB
           | Inr services \<Rightarrow> Ret
               (case argv of
                  [] \<Rightarrow> (False, [], net_note (Msg ''order not specified'') s)
                | str # rest \<Rightarrow>
                    (case strtol str of
                       (newIndex, left) \<Rightarrow>
                         if str \<noteq> [] \<and> left = [] \<and> \<not> strtol_erange str
                         then if newIndex > 0 \<and> newIndex \<le> int (length services)
                           then (case na_set_order api st (move_to (na_service_id api (sess s) h) (nat newIndex)
                                         (case na_order api (sess s) st of None \<Rightarrow> [] | Some order \<Rightarrow> order)) (sess s) of
                                   ((True, _), p) \<Rightarrow> (True, rest, prefs_changed (set_sess p s))
                                 | ((False, e), p) \<Rightarrow> (False, rest, net_note (Status e) (set_sess p s)))
                           else (False, rest, net_note (Msg ''set order to what?'') s)
                         else (False, rest, net_note (Msg ''set what?'') s)))))"

text \<open>
  The rank of the service, or, with one more argument, of the active service with its identifier. The argument
  that follows is not looked at. There may be no active service; then it is released and \<open>UB\<close>.
\<close>

definition rank_arg :: "bool \<Rightarrow> string \<Rightarrow> if_rank option" where
  "rank_arg active a =
     (if a = [] then Some Rank_default
      else if strcaseeq a ''Never'' then Some Rank_never
      else if active \<and> strcaseeq a ''First'' then Some Rank_first
      else if active \<and> strcaseeq a ''Last'' then Some Rank_last
      else if active \<and> strcaseeq a ''Scoped'' then Some Rank_scoped else None)"

definition set_service_rank ::
    "('p, 'i, 'h, 'q, 's) net_api \<Rightarrow> 'h \<Rightarrow> string list \<Rightarrow> ('p, 'i, 'h, 'q, 's) net_state \<Rightarrow>
     (bool \<times> string list \<times> ('p, 'i, 'h, 'q, 's) net_state) outcome" where
  "set_service_rank api h argv s =
     (case argv of
        [] \<Rightarrow> Ret (False, [], net_note (Msg ''rank not specified'') s)
      | a # rest \<Rightarrow>
          (case rank_arg (rest \<noteq> []) a of
             None \<Rightarrow> Ret (False, rest, net_note (Msg ''rank not valid'') s)
           | Some rank \<Rightarrow>
               if rest = []
               then Ret (case na_rank_service api h rank (sess s) of
                      ((True, _), p) \<Rightarrow> (True, [], prefs_changed (set_sess p s))
                    | ((False, e), p) \<Rightarrow> (False, [], net_note (Status e) (set_sess p s)))
               else (case na_active_service api (na_service_id api (sess s) h) of
                  None \<Rightarrow> UB
                | Some active \<Rightarrow> Ret (case na_rank_service api active rank (sess s) of
                      ((True, _), p) \<Rightarrow> (True, tl rest, set_sess p s)
                    | ((False, e), p) \<Rightarrow> (False, tl rest, net_note (Status e) (set_sess p s))))))"

definition set_service_step ::
    "('p, 'i, 'h, 'q, 's) net_api \<Rightarrow> 'h \<Rightarrow> string \<Rightarrow> string list \<Rightarrow> ('p, 'i, 'h, 'q, 's) net_state \<Rightarrow>
     (bool \<times> string list \<times> ('p, 'i, 'h, 'q, 's) net_state) outcome" where
  "set_service_step api h cmd argv s =
     (if cmd = ''name'' then
        Ret (case argv of
           [] \<Rightarrow> (False, [], net_note (Msg ''name not specified'') s)
         | a # rest \<Rightarrow>
             (case na_name_service api h (name_arg (na_env api) a) (sess s) of
                ((True, _), p) \<Rightarrow> (True, rest, prefs_changed (set_sess p s))
              | ((False, e), p) \<Rightarrow> (False, rest, net_note (Status e) (set_sess p s))))
      else if cmd = ''order'' then set_service_order api h argv s
      else if cmd = ''rank'' then set_service_rank api h argv s
      else if cmd = ''id'' then
        (case argv of
           [] \<Rightarrow> Ret (False, [], net_note (Msg ''set id not specified'') s)
         | a # rest \<Rightarrow>
             if a = [] then Ret (False, argv, net_note (Msg ''set id not specified'') s)
             else obind (text_arg (na_env api) a) (\<lambda>serviceID. Ret
               (case na_id_service api h serviceID (sess s) of
                  ((True, _), p) \<Rightarrow> (True, rest, prefs_changed (set_sess p s))
                | ((False, e), p) \<Rightarrow> (False, rest, net_note (Status e) (set_sess p s)))))
      else Ret (True, argv, net_note (Msg ''set what?'') s))"

lemma set_service_step_rest: "set_service_step api h c argv s = Ret (go, rest, s') \<Longrightarrow> length rest \<le> length argv"
  by (auto simp: set_service_step_def set_service_order_def set_service_rank_def Let_def
      split: if_splits list.splits prod.splits bool.splits option.splits sum.splits)
    (metis le_SucI order_refl surj_pair)

function set_service_loop ::
    "('p, 'i, 'h, 'q, 's) net_api \<Rightarrow> 'h \<Rightarrow> string list \<Rightarrow> ('p, 'i, 'h, 'q, 's) net_state \<Rightarrow> ('p, 'i, 'h, 'q, 's) net_state outcome" where
  "set_service_loop api h [] s = Ret s"
| "set_service_loop api h (c # argv) s =
     (case set_service_step api h c argv s of
        UB \<Rightarrow> UB
      | Ret (go, rest, s1) \<Rightarrow> if go then set_service_loop api h rest s1 else Ret s1)"
  by pat_completeness auto

termination
  by (relation "measure (\<lambda>(_, _, argv, _). length argv)") (auto dest: set_service_step_rest)

definition set_service :: "('p, 'i, 'h, 'q, 's) net_command" where
  "set_service api argv s =
     (case nt_service s of
        None \<Rightarrow> Ret (net_note (Msg ''service not selected'') s)
      | Some h \<Rightarrow> if argv = [] then Ret (net_note (Msg ''set what?'') s) else set_service_loop api h argv s)"

definition show_service :: "('p, 'i, 'h, 'q, 's) net_command" where
  "show_service api argv s =
     obind (named_or_selected True (find_service api) (nt_service s) (Some ''service not selected'') argv s) (\<lambda>(r, s1). Ret s1)"

definition show_services :: "('p, 'i, 'h, 'q, 's) net_command" where
  "show_services api argv s =
     Ret (if sess s = None then net_note (Msg ''network configuration not open'') s
          else if length argv = 1
          then (case na_all_services api (sess s) of
                  Inl e \<Rightarrow> net_note (Status e) (s\<lparr>nt_services := None\<rparr>)
                | Inr l \<Rightarrow> s\<lparr>nt_services := Some l\<rparr>)
          else case nt_set s of
            None \<Rightarrow> net_note (Msg ''set not selected'') s
          | Some st \<Rightarrow>
              (case na_services api (sess s) st of
                 Inl e \<Rightarrow> net_note (Status e) (s\<lparr>nt_services := None\<rparr>)
               | Inr l \<Rightarrow> s\<lparr>nt_services := Some (if length l > 1 then na_sort_services api (sess s) st l else l)\<rparr>))"

end
