(* ===== verification/NetProtocols.thy ===== *)
theory NetProtocols
  imports NetCommands
begin

text \<open>
  The network commands of \<open>scutil\<close> on protocols and interfaces (net_protocol.c, net_interface.c).
\<close>

section \<open>Protocols\<close>

text \<open>The type is spelled as the interface of the service has it.\<close>

definition supported_spelling :: "('p, 'i, 'h, 'q, 's) net_api \<Rightarrow> 'p option \<Rightarrow> 'h \<Rightarrow> string \<Rightarrow> string" where
  "supported_spelling api p h protocolType =
     (case na_service_interface api p h of
        None \<Rightarrow> protocolType
      | Some i \<Rightarrow>
          (case List.find (oe_same (na_env api) protocolType)
                  (case na_supported api p i of None \<Rightarrow> [] | Some supported \<Rightarrow> supported) of
             None \<Rightarrow> protocolType
           | Some supportedType \<Rightarrow> supportedType))"

definition create_protocol :: "('p, 'i, 'h, 'q, 's) net_command" where
  "create_protocol api argv s =
     (case argv of
        [] \<Rightarrow> Ret (net_note (Msg ''what protocol type?'') s)
      | a # _ \<Rightarrow>
          if a = [] then Ret (net_note (Msg ''what protocol type?'') s)
          else (case nt_service s of
             None \<Rightarrow> Ret (net_note (Msg ''network service not selected'') s)
           | Some h \<Rightarrow> obind (text_arg (na_env api) a) (\<lambda>name.
               let protocolType = supported_spelling api (sess s) h name
               in Ret (net_call (na_add_protocol api (Some h) protocolType (sess s)) (\<lambda>s1.
                    let s2 = (prefs_changed s1)\<lparr>nt_protocols := None\<rparr>
                    in case na_protocol api (sess s2) h protocolType of
                         Inl e \<Rightarrow> net_note (Status e) (s2\<lparr>nt_protocol := None\<rparr>)
                       | Inr q \<Rightarrow>
                           net_note (Msg (''protocol '' @ quoted protocolType @ '' selected'')) (s2\<lparr>nt_protocol := Some q\<rparr>)) s))))"

definition protocol_argument ::
    "('p, 'i, 'h, 'q, 's) net_api \<Rightarrow> string list \<Rightarrow> ('p, 'i, 'h, 'q, 's) net_state \<Rightarrow> ('q option \<times> ('p, 'i, 'h, 'q, 's) net_state) outcome" where
  "protocol_argument api argv s =
     named_or_selected False (find_protocol api) (nt_protocol s) (Some ''protocol not selected'') argv s"

definition enable_protocol :: "bool \<Rightarrow> ('p, 'i, 'h, 'q, 's) net_command" where
  "enable_protocol enabled api argv s =
     obind (protocol_argument api argv s) (\<lambda>(r, s1).
       Ret (case r of None \<Rightarrow> s1 | Some q \<Rightarrow> net_call (na_enable_protocol api q enabled (sess s1)) prefs_changed s1))"

text \<open>The protocol is removed from the selected service, which may be another one than its own, or none.\<close>

definition remove_protocol :: "('p, 'i, 'h, 'q, 's) net_command" where
  "remove_protocol api argv s =
     obind (protocol_argument api argv s) (\<lambda>(r, s1).
       Ret (case r of
              None \<Rightarrow> s1
            | Some q \<Rightarrow>
                let protocolType = na_protocol_type api (sess s1) q
                in net_call (na_remove_protocol api (nt_service s1) protocolType (sess s1)) (\<lambda>s2.
                     let s3 = net_note (Msg (''protocol '' @ quoted protocolType @ '' removed'')) (prefs_changed s2);
                         s4 = (if nt_protocol s3 = Some q then no_protocol s3 else s3)
                     in s4\<lparr>nt_protocols := None\<rparr>) s1))"

definition select_protocol :: "('p, 'i, 'h, 'q, 's) net_command" where
  "select_protocol api argv s =
     (case argv of
        [] \<Rightarrow> UB
      | a # _ \<Rightarrow>
          obind (find_protocol api a s) (\<lambda>(r, s1).
            Ret (case r of
                   None \<Rightarrow> s1
                 | Some q \<Rightarrow>
                     net_note (Msg (''protocol '' @ quoted (na_protocol_type api (sess s1) q) @ '' selected''))
                       (s1\<lparr>nt_protocol := Some q\<rparr>))))"

definition set_protocol :: "('p, 'i, 'h, 'q, 's) net_command" where
  "set_protocol api argv s =
     (case nt_protocol s of
        None \<Rightarrow> Ret (net_note (Msg ''protocol not selected'') s)
      | Some q \<Rightarrow>
          if argv = [] then Ret (net_note (Msg ''set what?'') s)
          else let configuration = na_protocol_config api (sess s) q in
            obind (set_protocol_of_type (na_env api) (na_protocol_type api (sess s) q) argv
                     \<lparr>os_config = working_copy configuration, os_out = [], os_extra = nt_proxy s\<rparr>) (\<lambda>(ok, x).
              let s1 = net_notes (map Msg (os_out x)) (s\<lparr>nt_proxy := os_extra x\<rparr>)
              in Ret (if \<not> ok \<or> \<not> differs configuration (os_config x) then s1
                      else net_call (na_config_protocol api q (os_config x) (sess s1)) prefs_changed s1)))"

definition show_protocol :: "('p, 'i, 'h, 'q, 's) net_command" where
  "show_protocol api argv s = obind (protocol_argument api argv s) (\<lambda>(r, s1). Ret s1)"

definition show_protocols :: "('p, 'i, 'h, 'q, 's) net_command" where
  "show_protocols api argv s =
     Ret (if sess s = None then net_note (Msg ''network configuration not open'') s
          else case nt_service s of
            None \<Rightarrow> net_note (Msg ''service not selected'') s
          | Some h \<Rightarrow>
              (case na_protocols api (sess s) h of
                 Inl e \<Rightarrow> net_note (Status e) (s\<lparr>nt_protocols := None\<rparr>)
               | Inr l \<Rightarrow> s\<lparr>nt_protocols := Some (sorted_protocols api (sess s) l)\<rparr>))"

section \<open>Interfaces\<close>

text \<open>The selected interface when there is no argument.\<close>

definition interface_argument ::
    "('p, 'i, 'h, 'q, 's) net_api \<Rightarrow> string \<Rightarrow> string list \<Rightarrow> ('p, 'i, 'h, 'q, 's) net_state \<Rightarrow>
     ('i option \<times> ('p, 'i, 'h, 'q, 's) net_state) outcome" where
  "interface_argument api missing argv s =
     (if argv = [] then Ret (nt_interface s, if nt_interface s = None then net_note (Msg missing) s else s)
      else obind (find_interface api argv s) (\<lambda>(r, _, s1). Ret (r, s1)))"

definition create_interface :: "('p, 'i, 'h, 'q, 's) net_command" where
  "create_interface api argv s =
     (case argv of
        [] \<Rightarrow> Ret (net_note (Msg ''what interface type?'') s)
      | a # rest \<Rightarrow>
          obind (text_arg (na_env api) a) (\<lambda>interfaceType.
          if interfaceType = kSCNetworkInterfaceTypeBond then Ret (net_note (Msg ''bond creation not yet supported'') s)
          else if interfaceType = kSCNetworkInterfaceTypeBridge then Ret (net_note (Msg ''bridge creation not yet supported'') s)
          else if interfaceType = kSCNetworkInterfaceTypeVLAN then Ret (net_note (Msg ''vlan creation not yet supported'') s)
          else obind (interface_argument api ''no network interface selected'' rest s) (\<lambda>(r, s1).
            Ret (case r of
                   None \<Rightarrow> s1
                 | Some i \<Rightarrow>
                     (case na_layer api i interfaceType (sess s1) of
                        (Inl e, p) \<Rightarrow> net_note (Status e) (set_sess p s1)
                      | (Inr new_interface, p) \<Rightarrow>
                          net_note (Msg (''interface '' @ quoted (interface_text api p new_interface) @ '' created and selected''))
                            ((set_sess p s1)\<lparr>nt_new_interfaces :=
                                Some ((case nt_new_interfaces s1 of None \<Rightarrow> [] | Some l \<Rightarrow> l) @ [new_interface]),
                              nt_interface := Some new_interface\<rparr>))))))"

definition select_interface :: "('p, 'i, 'h, 'q, 's) net_command" where
  "select_interface api argv s =
     obind (find_interface api argv s) (\<lambda>(r, _, s1).
       Ret (case r of
              None \<Rightarrow> s1
            | Some i \<Rightarrow>
                net_note (Msg (''interface '' @ quoted (interface_text api (sess s1) i) @ '' selected''))
                  (s1\<lparr>nt_interface := Some i\<rparr>)))"

text \<open>\<open>set_interface\<close> on the session of the tool.\<close>

definition set_selected_interface :: "('p, 'i, 'h, 'q, 's) net_command" where
  "set_selected_interface api argv s =
     obind (set_interface (na_env api) (na_if api) (nt_interface s) argv
              \<lparr>xs_session = sess s, xs_changed = pw_changed (sc_world (nt_tool s))\<rparr>) (\<lambda>(out, x).
       Ret (net_notes (map Msg out)
              (net_world (\<lambda>w. w\<lparr>pw_prefs := xs_session x, pw_changed := xs_changed x\<rparr>) s)))"

definition show_interface :: "('p, 'i, 'h, 'q, 's) net_command" where
  "show_interface api argv s = obind (interface_argument api ''interface not selected'' argv s) (\<lambda>(r, s1). Ret s1)"

definition show_interfaces :: "('p, 'i, 'h, 'q, 's) net_command" where
  "show_interfaces api argv s = Ret (case copy_interfaces api (s\<lparr>nt_interfaces := None\<rparr>) of (r, s1) \<Rightarrow> s1\<lparr>nt_interfaces := r\<rparr>)"

end
