(* ===== verification/NetMain.thy ===== *)
theory NetMain
  imports NetProtocols
begin

text \<open>
  The network commands of \<open>scutil\<close> as they are called (net.c): the table of objects and operations, opening,
  saving and closing the configuration, cleaning, upgrading and migrating it. Left out are the snapshot and
  \<open>scutil --configuration\<close>, which write files.
  Line breaks inside a message are left out.
\<close>

section \<open>Objects and operations\<close>

record 'c net_key =
  nk_key :: string
  nk_create :: "'c option"
  nk_disable :: "'c option"
  nk_enable :: "'c option"
  nk_select :: "'c option"
  nk_set :: "'c option"
  nk_show :: "'c option"
  nk_remove :: "'c option"

definition net_key ::
    "string \<Rightarrow> 'c option \<Rightarrow> 'c option \<Rightarrow> 'c option \<Rightarrow> 'c option \<Rightarrow> 'c option \<Rightarrow> 'c option \<Rightarrow> 'c option \<Rightarrow> 'c net_key" where
  "net_key key create disable enable sel st show remove =
     \<lparr>nk_key = key, nk_create = create, nk_disable = disable, nk_enable = enable, nk_select = sel, nk_set = st,
      nk_show = show, nk_remove = remove\<rparr>"

definition net_keys :: "('p, 'i, 'h, 'q, 's) net_command net_key list" where
  "net_keys =
    [ net_key ''interfaces'' None None None None None (Some show_interfaces) None,
      net_key ''interface'' (Some create_interface) None None
        (Some select_interface) (Some set_selected_interface) (Some show_interface) None,
      net_key ''services'' None None None None None (Some show_services) None,
      net_key ''service'' (Some create_service) (Some (enable_service False)) (Some (enable_service True))
        (Some select_service) (Some set_service) (Some show_service) (Some remove_service),
      net_key ''protocols'' None None None None None (Some show_protocols) None,
      net_key ''protocol'' (Some create_protocol) (Some (enable_protocol False)) (Some (enable_protocol True))
        (Some select_protocol) (Some set_protocol) (Some show_protocol) (Some remove_protocol),
      net_key ''sets'' None None None None None (Some show_sets) None,
      net_key ''set'' (Some create_set) None None
        (Some select_set) (Some set_set) (Some show_set) (Some remove_set)]"

definition findNetKey :: "string \<Rightarrow> 'c net_key list \<Rightarrow> 'c net_key option" where
  "findNetKey key keys = List.find (\<lambda>r. nk_key r = key) keys"

text \<open>The four operations that look whether there is a function, and the two that do not.\<close>

definition checked_operation ::
    "string \<Rightarrow> (('p, 'i, 'h, 'q, 's) net_command net_key \<Rightarrow> ('p, 'i, 'h, 'q, 's) net_command option) \<Rightarrow> ('p, 'i, 'h, 'q, 's) net_command" where
  "checked_operation what func api argv s =
     (case argv of
        [] \<Rightarrow> UB
      | key # args \<Rightarrow>
          (case Option.bind (findNetKey key net_keys) func of
             None \<Rightarrow> Ret (net_note (Msg (what @ '' what?'')) s)
           | Some f \<Rightarrow> f api args s))"

definition unchecked_operation ::
    "string \<Rightarrow> (('p, 'i, 'h, 'q, 's) net_command net_key \<Rightarrow> ('p, 'i, 'h, 'q, 's) net_command option) \<Rightarrow> ('p, 'i, 'h, 'q, 's) net_command" where
  "unchecked_operation what func api argv s =
     (case argv of
        [] \<Rightarrow> UB
      | key # args \<Rightarrow>
          (case findNetKey key net_keys of
             None \<Rightarrow> Ret (net_note (Msg (what @ '' what?'')) s)
           | Some r \<Rightarrow> (case func r of None \<Rightarrow> UB | Some f \<Rightarrow> f api args s)))"

definition do_net_create :: "('p, 'i, 'h, 'q, 's) net_command" where "do_net_create = checked_operation ''create'' nk_create"
definition do_net_disable :: "('p, 'i, 'h, 'q, 's) net_command" where "do_net_disable = checked_operation ''disable'' nk_disable"
definition do_net_enable :: "('p, 'i, 'h, 'q, 's) net_command" where "do_net_enable = checked_operation ''enable'' nk_enable"
definition do_net_remove :: "('p, 'i, 'h, 'q, 's) net_command" where "do_net_remove = checked_operation ''remove'' nk_remove"
definition do_net_select :: "('p, 'i, 'h, 'q, 's) net_command" where "do_net_select = checked_operation ''select'' nk_select"
definition do_net_set :: "('p, 'i, 'h, 'q, 's) net_command" where "do_net_set = unchecked_operation ''set'' nk_set"
definition do_net_show :: "('p, 'i, 'h, 'q, 's) net_command" where "do_net_show = unchecked_operation ''show'' nk_show"

section \<open>The configuration\<close>

definition net_commitRequired :: "string list \<Rightarrow> string \<Rightarrow> ('p, 'i, 'h, 'q, 's) net_state \<Rightarrow> bool \<times> ('p, 'i, 'h, 'q, 's) net_state" where
  "net_commitRequired argv cmd s =
     (case prefs_commitRequired argv (Some cmd) (nt_tool s) of (required, t) \<Rightarrow> (required, s\<lparr>nt_tool := t\<rparr>))"

definition close_all :: "('p, 'i, 'h, 'q, 's) net_state \<Rightarrow> ('p, 'i, 'h, 'q, 's) net_state" where
  "close_all s = net_world prefs_close (net_close s)"

definition do_net_open :: "('p, 'i, 'h, 'q, 's) net_command" where
  "do_net_open api argv s =
     (case (if sess s = None then (False, s) else net_commitRequired argv ''close'' s) of
        (True, s1) \<Rightarrow> Ret s1
      | (False, s1) \<Rightarrow>
          let s2 = (if sess s = None then s1 else close_all s1)
          in Ret (case prefs_open (na_prefs api) ''scutil --net'' (if argv = [] then None else Some (hd argv)) (sc_world (nt_tool s2)) of
               ((False, e), w) \<Rightarrow> net_notes [Msg ''Could not open prefs: '', Status e] (net_world (\<lambda>_. w) s2)
             | ((True, _), w) \<Rightarrow>
                 let s3 = net_world (\<lambda>_. w) s2; net_set = na_current_set api (sess s3); s4 = s3\<lparr>nt_set := net_set\<rparr>
                 in case net_set of None \<Rightarrow> s4 | Some st \<Rightarrow> set_note api st False ''set'' '' selected'' s4))"

definition do_net_commit :: "('p, 'i, 'h, 'q, 's) net_command" where
  "do_net_commit api argv s = Ret (net_call (sp_commit (na_prefs api) (sess s)) (net_world (\<lambda>w. w\<lparr>pw_changed := False\<rparr>)) s)"

definition do_net_apply :: "('p, 'i, 'h, 'q, 's) net_command" where
  "do_net_apply api argv s = Ret (net_call (sp_apply (na_prefs api) (sess s)) id s)"

definition do_net_close :: "('p, 'i, 'h, 'q, 's) net_command" where
  "do_net_close api argv s = Ret (case net_commitRequired argv ''close'' s of (True, s1) \<Rightarrow> s1 | (False, s1) \<Rightarrow> close_all s1)"

definition do_net_quit :: "('p, 'i, 'h, 'q, 's) net_command" where
  "do_net_quit api argv s =
     Ret (case net_commitRequired argv ''quit'' s of
            (True, s1) \<Rightarrow> s1
          | (False, s1) \<Rightarrow> let s2 = close_all s1 in s2\<lparr>nt_tool := (nt_tool s2)\<lparr>sc_termRequested := True\<rparr>\<rparr>)"

section \<open>Maintenance\<close>

text \<open>
  Calls that the repository declares only: the companion of a session, cleaning, upgrading (each pointer
  may be NULL), migrating and comparing configurations.
\<close>

record 'p maint_api =
  ma_companion :: "'p \<Rightarrow> string \<Rightarrow> 'p option"
  ma_clean :: "'p option \<Rightarrow> 'p option \<Rightarrow> bool \<times> 'p option \<times> 'p option"
  ma_upgrade :: "'p option option \<Rightarrow> 'p option option \<Rightarrow> bool \<Rightarrow> bool \<times> 'p option option \<times> 'p option option"
  ma_migrate :: "string \<Rightarrow> string option \<Rightarrow> string \<Rightarrow> string list option"
  ma_identical :: "string \<Rightarrow> string \<Rightarrow> bool"

type_synonym ('p, 'i, 'h, 'q, 's) maint_command = "'p maint_api \<Rightarrow> ('p, 'i, 'h, 'q, 's) net_command"

definition with_companion :: "'p maint_api \<Rightarrow> ('p, 'i, 'h, 'q, 's) net_state \<Rightarrow> ('p, 'i, 'h, 'q, 's) net_state" where
  "with_companion ma =
     net_world (\<lambda>w. case (pw_prefs w, pw_ni_prefs w) of
       (Some p, None) \<Rightarrow> w\<lparr>pw_ni_prefs := ma_companion ma p ''NetworkInterfaces.plist''\<rparr>
     | _ \<Rightarrow> w)"

definition live_path :: "('p, 'i, 'h, 'q, 's) net_state \<Rightarrow> bool" where
  "live_path s = (case pw_path (sc_world (nt_tool s)) of None \<Rightarrow> True | Some path \<Rightarrow> path = ''preferences.plist'')"

definition reboot_note :: "string \<Rightarrow> ('p, 'i, 'h, 'q, 's) net_state \<Rightarrow> ('p, 'i, 'h, 'q, 's) net_state" where
  "reboot_note m s =
     (if live_path s then net_note (Msg (''NOTE: because you '' @ m @ '' REQUIRED.'')) s else s)"

definition do_net_clean :: "('p, 'i, 'h, 'q, 's) maint_command" where
  "do_net_clean ma api argv s =
     Ret (if sess s = None then net_note (Msg ''network configuration not open'') s
          else let s1 = with_companion ma s; w = sc_world (nt_tool s1) in
            case ma_clean ma (pw_prefs w) (pw_ni_prefs w) of
              (updated, p, nip) \<Rightarrow>
                let s2 = net_world (\<lambda>w. w\<lparr>pw_prefs := p, pw_ni_prefs := nip\<rparr>) s1
                in if updated
                   then prefs_changed (reboot_note
                          (''have modified the system's '' @ quoted ''live'' @ '' network configuration, a <reboot> is also'')
                          (net_note (Msg (''network configuration updated, use '' @ quoted ''commit'' @ '' to save'')) s2))
                   else net_note (Msg ''network configuration not updated'') s2)"

definition do_net_update :: "('p, 'i, 'h, 'q, 's) net_command" where
  "do_net_update api argv s =
     (if sess s = None then Ret (net_note (Msg ''network configuration not open'') s)
      else let go = (\<lambda>st setCreated s1.
             (case na_establish_set api st (sess s1) of
                (setUpdated, p) \<Rightarrow>
                  let s2 = set_sess p s1
                  in if setUpdated
                     then set_note api st True ''set'' ('' '' @ (if setCreated then ''created, selected, and '' else []) @ ''updated'')
                            (prefs_changed s2)
                     else s2))
      in Ret (case nt_set s of
                Some st \<Rightarrow> go st False s
              | None \<Rightarrow>
                  (case na_current_set api (sess s) of
                     Some st \<Rightarrow> go st False s
                   | None \<Rightarrow>
                       (case na_default_set api (sess s) of
                          (Inl e, p) \<Rightarrow> net_notes [Msg (''could not initialize '' @ quoted ''Automatic'' @ '' set: ''), Status e] (set_sess p s)
                        | (Inr st, p) \<Rightarrow> go st True ((set_sess p s)\<lparr>nt_set := Some st, nt_sets := None\<rparr>)))))"

text \<open>What follows the last slash.\<close>

definition last_component :: "string \<Rightarrow> string" where
  "last_component path = rev (takeWhile (\<lambda>c. c \<noteq> CHR ''/'') (rev path))"

definition upgraded_notes :: "bool \<Rightarrow> bool \<Rightarrow> ('p, 'i, 'h, 'q, 's) net_state \<Rightarrow> ('p, 'i, 'h, 'q, 's) net_state" where
  "upgraded_notes upgraded do_commit s =
     (if upgraded then
        let s1 = reboot_note
              (if do_commit then ''have modified the system's '' @ quoted ''live'' @ '' network configuration, a <reboot> is also''
               else ''are modifying the system's '' @ quoted ''live'' @ '' network configuration, a <reboot> will also be'')
              (net_note (Msg (if do_commit then ''network configuration upgraded/saved''
                              else ''network configuration upgraded, use '' @ quoted ''commit'' @ '' to save'')) s)
        in if do_commit then s1 else prefs_changed s1
      else net_note (Msg ''network configuration upgrade not needed'') s)"

definition do_net_upgrade :: "('p, 'i, 'h, 'q, 's) maint_command" where
  "do_net_upgrade ma api argv s =
     Ret (if sess s = None then net_note (Msg ''network configuration not open'') s
          else if (case pw_path (sc_world (nt_tool s)) of
                     None \<Rightarrow> False | Some path \<Rightarrow> last_component path \<noteq> ''preferences.plist'')
          then net_note (Msg (''not updating a '' @ quoted ''preferences.plist'' @ '' file'')) s
          else let put = (\<lambda>p nip. net_world (\<lambda>w. w\<lparr>pw_prefs := (case p of None \<Rightarrow> pw_prefs w | Some x \<Rightarrow> x),
                                               pw_ni_prefs := (case nip of None \<Rightarrow> pw_ni_prefs w | Some x \<Rightarrow> x)\<rparr>));
                   w = sc_world (nt_tool s)
          in case argv of
               [] \<Rightarrow> (case ma_upgrade ma (Some (pw_prefs w)) (Some (pw_ni_prefs w)) False of
                        (upgraded, p, nip) \<Rightarrow> upgraded_notes upgraded False (put p nip s))
             | a # _ \<Rightarrow>
                 if a = ''preferences.plist''
                 then (case ma_upgrade ma (Some (pw_prefs w)) None False of
                         (upgraded, p, nip) \<Rightarrow> upgraded_notes upgraded False (put p None s))
                 else if a = ''NetworkInterfaces.plist''
                 then let s1 = with_companion ma s in
                   (case ma_upgrade ma None (Some (pw_ni_prefs (sc_world (nt_tool s1)))) True of
                      (upgraded, p, nip) \<Rightarrow> upgraded_notes upgraded True (put None nip s1))
                 else net_note (Msg (''invalid .plist ('' @ quoted ''preferences.plist'' @ '', '' @ quoted ''NetworkInterfaces.plist'')) s)"

text \<open>The two paths have to be there; the third one is used when there are three.\<close>

definition do_net_migrate :: "('p, 'i, 'h, 'q, 's) maint_command" where
  "do_net_migrate ma api argv s =
     (let dir = text_arg (na_env api) in
      case argv of
        [] \<Rightarrow> UB
      | key # args \<Rightarrow>
          if key = ''perform'' then
            (case args of
               source # target # others \<Rightarrow>
                 obind (dir source) (\<lambda>sourceURL. obind (dir target) (\<lambda>targetURL.
                 obind (case others of [current] \<Rightarrow> obind (dir current) (\<lambda>c. Ret (Some c)) | _ \<Rightarrow> Ret None) (\<lambda>currentURL.
                   Ret (net_note (Msg (if ma_migrate ma sourceURL currentURL targetURL \<noteq> None then ''Migration complete''
                                       else ''Migration failed'')) s))))
             | _ \<Rightarrow> UB)
          else if key = ''validate'' then
            (case args of
               configuration # expected # _ \<Rightarrow>
                 obind (dir configuration) (\<lambda>url. obind (dir expected) (\<lambda>expectedURL.
                   Ret (net_note (Msg (''Configuration at location '' @ configuration @ '' is '' @
                          (if ma_identical ma url expectedURL then ''valid'' else ''NOT valid''))) s)))
             | _ \<Rightarrow> UB)
          else Ret (net_note (Msg ''migrate what?'') s))"

section \<open>All commands\<close>

definition run_net :: "'p maint_api \<Rightarrow> ('p, 'i, 'h, 'q, 's) net_api \<Rightarrow> net_handler \<Rightarrow> string list \<Rightarrow>
    ('p, 'i, 'h, 'q, 's) net_state \<Rightarrow> ('p, 'i, 'h, 'q, 's) net_state outcome option" where
  "run_net ma api h argv s =
     (case h of
        Do_net_quit \<Rightarrow> Some (do_net_quit api argv s)
      | Do_net_open \<Rightarrow> Some (do_net_open api argv s)
      | Do_net_commit \<Rightarrow> Some (do_net_commit api argv s)
      | Do_net_apply \<Rightarrow> Some (do_net_apply api argv s)
      | Do_net_close \<Rightarrow> Some (do_net_close api argv s)
      | Do_net_create \<Rightarrow> Some (do_net_create api argv s)
      | Do_net_disable \<Rightarrow> Some (do_net_disable api argv s)
      | Do_net_enable \<Rightarrow> Some (do_net_enable api argv s)
      | Do_net_remove \<Rightarrow> Some (do_net_remove api argv s)
      | Do_net_select \<Rightarrow> Some (do_net_select api argv s)
      | Do_net_set \<Rightarrow> Some (do_net_set api argv s)
      | Do_net_show \<Rightarrow> Some (do_net_show api argv s)
      | Do_net_migrate \<Rightarrow> Some (do_net_migrate ma api argv s)
      | Do_net_clean \<Rightarrow> Some (do_net_clean ma api argv s)
      | Do_net_update \<Rightarrow> Some (do_net_update api argv s)
      | Do_net_upgrade \<Rightarrow> Some (do_net_upgrade ma api argv s)
      | Do_net_snapshot \<Rightarrow> None)"

end
