(* ===== verification/NetFrame.thy ===== *)
theory NetFrame
  imports NetMain
begin

text \<open>
  What the steps of the network commands leave alone: messages, changes of the session and selections each
  touch one part of the state.
\<close>

lemma note_frame [simp]:
  "nt_new_interfaces (net_note x s) = nt_new_interfaces s" "nt_interfaces (net_note x s) = nt_interfaces s"
  "nt_services (net_note x s) = nt_services s" "nt_protocols (net_note x s) = nt_protocols s"
  "nt_sets (net_note x s) = nt_sets s" "nt_interface (net_note x s) = nt_interface s"
  "nt_service (net_note x s) = nt_service s" "nt_protocol (net_note x s) = nt_protocol s"
  "nt_set (net_note x s) = nt_set s" "nt_proxy (net_note x s) = nt_proxy s" "sess (net_note x s) = sess s"
  by (simp_all add: net_note_def sess_def print_note_def)

lemma notes_frame_induct: "(\<And>x t. f (net_note x t) = f t) \<Longrightarrow> f (net_notes xs s) = f s"
  unfolding net_notes_def by (induction xs arbitrary: s) simp_all

lemma notes_frame [simp]:
  "nt_new_interfaces (net_notes xs s) = nt_new_interfaces s" "nt_interfaces (net_notes xs s) = nt_interfaces s"
  "nt_services (net_notes xs s) = nt_services s" "nt_protocols (net_notes xs s) = nt_protocols s"
  "nt_sets (net_notes xs s) = nt_sets s" "nt_interface (net_notes xs s) = nt_interface s"
  "nt_service (net_notes xs s) = nt_service s" "nt_protocol (net_notes xs s) = nt_protocol s"
  "nt_set (net_notes xs s) = nt_set s" "nt_proxy (net_notes xs s) = nt_proxy s" "sess (net_notes xs s) = sess s"
  by (rule notes_frame_induct, simp)+

lemma world_frame [simp]:
  "nt_new_interfaces (net_world f s) = nt_new_interfaces s" "nt_interfaces (net_world f s) = nt_interfaces s"
  "nt_services (net_world f s) = nt_services s" "nt_protocols (net_world f s) = nt_protocols s"
  "nt_sets (net_world f s) = nt_sets s" "nt_interface (net_world f s) = nt_interface s"
  "nt_service (net_world f s) = nt_service s" "nt_protocol (net_world f s) = nt_protocol s"
  "nt_set (net_world f s) = nt_set s" "nt_proxy (net_world f s) = nt_proxy s"
  "sess (net_world f s) = pw_prefs (f (sc_world (nt_tool s)))"
  by (simp_all add: net_world_def sess_def upd_world_def)

lemma sess_frame [simp]:
  "nt_new_interfaces (set_sess p s) = nt_new_interfaces s" "nt_interfaces (set_sess p s) = nt_interfaces s"
  "nt_services (set_sess p s) = nt_services s" "nt_protocols (set_sess p s) = nt_protocols s"
  "nt_sets (set_sess p s) = nt_sets s" "nt_interface (set_sess p s) = nt_interface s"
  "nt_service (set_sess p s) = nt_service s" "nt_protocol (set_sess p s) = nt_protocol s"
  "nt_set (set_sess p s) = nt_set s" "nt_proxy (set_sess p s) = nt_proxy s" "sess (set_sess p s) = p"
  by (simp_all add: set_sess_def)

lemma changed_frame [simp]:
  "nt_new_interfaces (prefs_changed s) = nt_new_interfaces s" "nt_interfaces (prefs_changed s) = nt_interfaces s"
  "nt_services (prefs_changed s) = nt_services s" "nt_protocols (prefs_changed s) = nt_protocols s"
  "nt_sets (prefs_changed s) = nt_sets s" "nt_interface (prefs_changed s) = nt_interface s"
  "nt_service (prefs_changed s) = nt_service s" "nt_protocol (prefs_changed s) = nt_protocol s"
  "nt_set (prefs_changed s) = nt_set s" "nt_proxy (prefs_changed s) = nt_proxy s" "sess (prefs_changed s) = sess s"
  by (simp_all add: prefs_changed_def sess_def [symmetric])

lemma sess_update [simp]:
  "sess (s\<lparr>nt_new_interfaces := x_new_interfaces\<rparr>) = sess s"
  "sess (s\<lparr>nt_interfaces := x_interfaces\<rparr>) = sess s"
  "sess (s\<lparr>nt_services := x_services\<rparr>) = sess s"
  "sess (s\<lparr>nt_protocols := x_protocols\<rparr>) = sess s" "sess (s\<lparr>nt_sets := x_sets\<rparr>) = sess s"
  "sess (s\<lparr>nt_interface := x_interface\<rparr>) = sess s"
  "sess (s\<lparr>nt_service := x_service\<rparr>) = sess s"
  "sess (s\<lparr>nt_protocol := x_protocol\<rparr>) = sess s" "sess (s\<lparr>nt_set := x_set\<rparr>) = sess s"
  "sess (s\<lparr>nt_proxy := x_proxy\<rparr>) = sess s"
  by (simp_all add: sess_def)

lemma no_service_frame [simp]:
  "nt_new_interfaces (no_service s) = nt_new_interfaces s" "nt_interfaces (no_service s) = nt_interfaces s"
  "nt_services (no_service s) = nt_services s" "nt_protocols (no_service s) = nt_protocols s"
  "nt_sets (no_service s) = nt_sets s" "nt_interface (no_service s) = nt_interface s"
  "nt_protocol (no_service s) = nt_protocol s" "nt_set (no_service s) = nt_set s"
  "nt_proxy (no_service s) = nt_proxy s" "nt_service (no_service s) = None" "sess (no_service s) = sess s"
  by (simp_all add: no_service_def)

lemma no_protocol_frame [simp]:
  "nt_new_interfaces (no_protocol s) = nt_new_interfaces s" "nt_interfaces (no_protocol s) = nt_interfaces s"
  "nt_services (no_protocol s) = nt_services s" "nt_protocols (no_protocol s) = nt_protocols s"
  "nt_sets (no_protocol s) = nt_sets s" "nt_interface (no_protocol s) = nt_interface s"
  "nt_service (no_protocol s) = nt_service s" "nt_set (no_protocol s) = nt_set s"
  "nt_proxy (no_protocol s) = nt_proxy s" "nt_protocol (no_protocol s) = None" "sess (no_protocol s) = sess s"
  by (simp_all add: no_protocol_def)

lemma no_interface_frame [simp]:
  "nt_new_interfaces (no_interface s) = nt_new_interfaces s" "nt_interfaces (no_interface s) = nt_interfaces s"
  "nt_services (no_interface s) = nt_services s" "nt_protocols (no_interface s) = nt_protocols s"
  "nt_sets (no_interface s) = nt_sets s" "nt_service (no_interface s) = nt_service s"
  "nt_protocol (no_interface s) = nt_protocol s" "nt_set (no_interface s) = nt_set s"
  "nt_proxy (no_interface s) = nt_proxy s" "nt_interface (no_interface s) = None" "sess (no_interface s) = sess s"
  by (simp_all add: no_interface_def)

lemma set_note_frame [simp]:
  "nt_new_interfaces (set_note api st full what rest s) = nt_new_interfaces s"
  "nt_interfaces (set_note api st full what rest s) = nt_interfaces s"
  "nt_services (set_note api st full what rest s) = nt_services s"
  "nt_protocols (set_note api st full what rest s) = nt_protocols s"
  "nt_sets (set_note api st full what rest s) = nt_sets s"
  "nt_interface (set_note api st full what rest s) = nt_interface s"
  "nt_service (set_note api st full what rest s) = nt_service s"
  "nt_protocol (set_note api st full what rest s) = nt_protocol s"
  "nt_set (set_note api st full what rest s) = nt_set s" "nt_proxy (set_note api st full what rest s) = nt_proxy s"
  "sess (set_note api st full what rest s) = sess s"
  by (simp_all add: set_note_def)

lemma service_note_frame [simp]:
  "nt_new_interfaces (service_note api h full rest s) = nt_new_interfaces s"
  "nt_interfaces (service_note api h full rest s) = nt_interfaces s"
  "nt_services (service_note api h full rest s) = nt_services s"
  "nt_protocols (service_note api h full rest s) = nt_protocols s"
  "nt_sets (service_note api h full rest s) = nt_sets s"
  "nt_interface (service_note api h full rest s) = nt_interface s"
  "nt_service (service_note api h full rest s) = nt_service s"
  "nt_protocol (service_note api h full rest s) = nt_protocol s" "nt_set (service_note api h full rest s) = nt_set s"
  "nt_proxy (service_note api h full rest s) = nt_proxy s" "sess (service_note api h full rest s) = sess s"
  by (simp_all add: service_note_def)

end
