(* ===== verification/IfProps.thy ===== *)
theory IfProps
  imports IfOptions ProtoCommands
begin

text \<open>
  What the interface commands guarantee and where they go wrong: the checks of MTU and media, secrets and
  where they are kept, configurations that are replaced by another one.
\<close>

section \<open>MTU and media\<close>

definition mtu_valid :: "('p, 'i) if_api \<Rightarrow> 'p option \<Rightarrow> 'i \<Rightarrow> dict \<Rightarrow> bool" where
  "mtu_valid api p i c \<longleftrightarrow>
     (case isA_CFNumber (fmlookup c ''MTU'') of
        None \<Rightarrow> True
      | Some n \<Rightarrow> (case ia_mtu api p i of None \<Rightarrow> False | Some (lo, hi) \<Rightarrow> lo \<le> n \<and> n \<le> hi))"

definition media_valid :: "('p, 'i) if_api \<Rightarrow> 'p option \<Rightarrow> 'i \<Rightarrow> dict \<Rightarrow> bool" where
  "media_valid api p i c \<longleftrightarrow>
     (case (fmlookup c ''MediaSubType'', fmlookup c ''MediaOptions'') of
        (None, None) \<Rightarrow> True
      | (Some subtype, Some options) \<Rightarrow>
          (\<exists>available subtypes l. ia_media api p i = Some (Some available) \<and>
             ia_media_subtypes api available = Some subtypes \<and> subtype \<in> set subtypes \<and>
             ia_media_options api available subtype = Some l \<and> options \<in> set l)
      | _ \<Rightarrow> False)"

lemma validate_mtu_valid: "validate_mtu api i s = (True, s') \<Longrightarrow> s' = s \<and> mtu_valid api (session s) i (os_config s)"
  by (auto simp: validate_mtu_def mtu_valid_def split: option.splits prod.splits if_splits)

lemma validate_media_valid:
  "validate_media api i s = (True, s') \<Longrightarrow>
   os_extra s' = os_extra s \<and> fmlookup (os_config s') ''MTU'' = fmlookup (os_config s) ''MTU'' \<and>
   media_valid api (session s) i (os_config s')"
  by (auto simp: validate_media_def media_valid_def put_def Let_def split: option.splits if_splits)

lemma validateMediaOptions_valid:
  assumes "validateMediaOptions api i s = (True, s')"
  shows "session s' = session s \<and> mtu_valid api (session s') i (os_config s') \<and> media_valid api (session s') i (os_config s')"
proof -
  obtain s1 where m: "validate_mtu api i s = (True, s1)" and v: "validate_media api i s1 = (True, s')"
    using assms by (auto simp: validateMediaOptions_def split: prod.splits if_splits)
  from validate_mtu_valid [OF m] validate_media_valid [OF v] show ?thesis
    by (simp add: session_def mtu_valid_def)
qed

text \<open>
  C20. What \<open>set interface\<close> accepts for an interface with media is valid: the MTU lies in the range of the
  device, a media type and media options are only there together, and both are among those that the
  device offers, whatever the arguments were and whatever the configuration had before.
\<close>

theorem set_interface_media_valid:
  assumes "set_interface_media options env api i argv s = Ret (True, s')"
  shows "mtu_valid api (session s') i (os_config s') \<and> media_valid api (session s') i (os_config s')"
proof -
  obtain s1 where "validateMediaOptions api i s1 = (True, s')"
    using assms by (auto simp: set_interface_media_def split: if_splits prod.splits)
  from validateMediaOptions_valid [OF this] show ?thesis by blast
qed

text \<open>An interface of the tests: one configuration, a keychain that accepts, MTU from 72 to 9000.\<close>

definition sample_api :: "(dict \<times> dict, nat) if_api" where
  "sample_api =
     \<lparr>ia_ios = True, ia_error = (\<lambda>_. ''failed''), ia_utf16 = (\<lambda>t. []),
      ia_type = (\<lambda>_ i. if i = 0 then kSCNetworkInterfaceTypePPP else kSCNetworkInterfaceTypeL2TP),
      ia_layers = (\<lambda>_ i. if i = 0 then [1] else []), ia_bsd_name = (\<lambda>_ i. Some ''en0''),
      ia_config = (\<lambda>p i. map_option fst p),
      ia_set_config = (\<lambda>i c p. ((True, kSCStatusOK), map_option (\<lambda>d. (c, snd d)) p)),
      ia_extended = (\<lambda>p i t. map_option snd p),
      ia_set_extended = (\<lambda>i t c p. ((True, kSCStatusOK), map_option (\<lambda>d. (fst d, c)) p)),
      ia_qos = (\<lambda>p i. None), ia_set_qos = (\<lambda>i c p. ((True, kSCStatusOK), p)),
      ia_set_capability = (\<lambda>i k v p. ((True, kSCStatusOK), p)),
      ia_set_password = (\<lambda>i t w p. ((True, kSCStatusOK), p)), ia_remove_password = (\<lambda>i t p. ((True, kSCStatusOK), p)),
      ia_active = (\<lambda>p n. None), ia_set_rank = (\<lambda>i r p. ((True, kSCStatusOK), p)),
      ia_mtu = (\<lambda>p i. Some (72, 9000)), ia_media = (\<lambda>p i. None), ia_media_subtypes = (\<lambda>l. None),
      ia_media_options = (\<lambda>l t. None)\<rparr>"

definition sample_state :: "dict \<Rightarrow> dict \<Rightarrow> (dict \<times> dict) if_state" where
  "sample_state c d = \<lparr>os_config = c, os_out = [], os_extra = \<lparr>xs_session = Some (c, d), xs_changed = False\<rparr>\<rparr>"

lemma mtu_rows: "find_option ''mtu'' ethernetOptions = Some (row ''mtu'' None isNumber (Some ''MTU'') None)"
  by code_simp

lemma ethernet_mtu_run:
  "set_interface_media ethernetOptions ascii_env sample_api 0 [''mtu'', ''1400''] (sample_state fmempty d) =
   Ret (True, (sample_state fmempty d)\<lparr>os_config := fmupd ''MTU'' (CFNumber 1400) fmempty\<rparr>)"
proof -
  have n: "sscanf_int ''1400'' = Ret (Some 1400)"
    by (simp add: sscanf_int_def isspace_def digit_of_def lower_def Let_def)
  show ?thesis
    by (simp add: set_interface_media_def mtu_rows process_option_def process_type_def process_handler_def row_def set_typed_def
        set_number_def copy_number_def n at_key_def put_def validateMediaOptions_def validate_mtu_def validate_media_def
        int_range_def session_def sample_api_def sample_state_def del: find_option.simps)
qed

lemma set_interface_media_valid_witness:
  "mtu_valid sample_api (Some (fmempty, fmempty)) 0 (fmupd ''MTU'' (CFNumber 1400) fmempty)"
  using set_interface_media_valid [OF ethernet_mtu_run [of fmempty]] by (simp add: session_def sample_state_def)

section \<open>Secrets\<close>

text \<open>
  Choosing where a secret is kept drops the secret: after \<open>SharedSecretEncryption\<close>, for any argument that is
  accepted, the configuration has no \<open>SharedSecret\<close>, its encryption entry is \<open>Keychain\<close> or gone, and nothing else
  has changed; a refused argument changes nothing.
\<close>

lemma doIPSecSharedSecretType_drops_secret:
  assumes "doIPSecSharedSecretType (Some ''SharedSecretEncryption'') argv s = Ret (n, s')"
  shows "(n = 1 \<longrightarrow> fmlookup (os_config s') ''SharedSecret'' = None \<and>
            fmlookup (os_config s') ''SharedSecretEncryption'' \<in> {None, Some (CFString ''Keychain'')}) \<and>
         (n \<noteq> 1 \<longrightarrow> n = - 1 \<and> os_config s' = os_config s) \<and>
         (\<forall>k. k \<notin> {''SharedSecret'', ''SharedSecretEncryption''} \<longrightarrow> fmlookup (os_config s') k = fmlookup (os_config s) k)"
  using assms
  by (auto simp: doIPSecSharedSecretType_def set_secret_type_def keychain_only_def at_key_Ret say_def put_def unset_def
      split: list.splits if_splits option.splits)

section \<open>Configurations that get lost\<close>

text \<open>
  A capability is stored at once, and then the working copy is read again: what the same command has set
  before it is lost, and the command reports success.
\<close>

lemma capability_drops_pending:
  assumes "fst (fst (ia_set_capability api i key v (session s))) = True" "switch_on a" "\<not> switch_off a" "a \<noteq> []"
    and "v = Some (CFNumberRef True)"
  shows "os_config (snd (doCapability api i key description (a # argv) s)) =
    (case ia_config api (snd (ia_set_capability api i key v (session s))) i of None \<Rightarrow> fmempty | Some d \<Rightarrow> d)"
  using assms
  by (cases "ia_set_capability api i key v (session s)")
    (auto simp: doCapability_def updateInterfaceConfiguration_def session_def set_session_def split: prod.splits)

text \<open>
  With a secret in the keychain, the handler of the IPSec options inside PPP reads the working copy
  again from the interface itself: the PPP configuration is then written as the IPSec configuration.
\<close>

lemma ipsec_secret_rows:
  "find_option ''SharedSecret'' l2tp_ipsecOptions =
     Some (row ''SharedSecret'' None isOther (Some ''SharedSecret'') (Some DoIPSecSharedSecret))"
  by code_simp

lemma l2tp_secret_overwrites_ipsec:
  assumes c: "c = fmupd ''AuthName'' (CFString ''me'') fmempty"
    and d: "d = fmupd ''SharedSecretEncryption'' (CFString ''Keychain'') fmempty"
  shows "doPPPIPSec ascii_env sample_api 0 [''SharedSecret'', ''pw''] (sample_state c d) =
    Ret (2, (sample_state c d)\<lparr>os_extra := \<lparr>xs_session = Some (c, c), xs_changed = True\<rparr>\<rparr>)"
proof -
  have "c \<noteq> d"
  proof
    assume "c = d"
    then have "fmlookup c ''AuthName'' = fmlookup d ''AuthName''" by simp
    then show False by (simp add: c d)
  qed
  then show ?thesis
    by (simp add: doPPPIPSec_def child_interface_def sample_api_def sample_state_def session_def on_own_dictionary_def
        working_copy_def differs_def ipsec_secret_rows process_option_def process_type_def process_handler_def row_def
        doIPSecSharedSecret_def set_secret_def d kSCResvInactive_def text_arg_def ascii_env_def at_key_def
        updateInterfaceConfiguration_def set_session_def mark_changed_def Let_def kSCNetworkInterfaceTypeL2TP_def
        kSCNetworkInterfaceTypePPP_def del: find_option.simps)
qed

section \<open>Errors that are not reported\<close>

text \<open>The options of QoS, OnDemandMatch and IPSec are used up whether they are good or not, so the command goes on.\<close>

lemma qos_error_ignored:
  assumes "ia_bsd_name api (session s) i = Some n" "a \<noteq> []" "find_option a qosOptions = None"
  shows "\<exists>s'. doQoSMarking env api i (a # argv) s = Ret (int (length (a # argv)), s') \<and> os_config s' = os_config s"
  using assms by (auto simp: doQoSMarking_def on_own_dictionary_def Let_def split: prod.splits)

text \<open>A list of choices with a wrong one is an error message, but the entry is removed and the command succeeds.\<close>

lemma wrong_choice_removes:
  assumes "a \<noteq> []" "oe_utf8 env a = Some t" "split_at_char (CHR '','') t = c # cs"
    and "find_selection env c (op_choices r) = None" "op_key r = Some k" "op_type r = isChooseMultiple"
  shows "process_type env r (a # argv) s = Ret (True, argv, unset k (say (''invalid '' @ described ''selection'' r) s))"
  using assms by (simp add: process_type_def set_typed_def choose_multiple_def list_arg_def text_arg_def at_key_def)

section \<open>Options that the help texts name\<close>

lemma help_without_option:
  "find_option ''AlternateNumber'' pppOptions = None"
  "find_option ''mediaopts'' ethernetOptions = None"
  "find_option ''media'' bondOptions = None"
  by code_simp+

end
