(* ===== verification/NetToolProps.thy ===== *)
theory NetToolProps
  imports NetFrame IfProps
begin

text \<open>
  What the network commands promise: searching never picks one of several that match, a number selects from the list
  that was loaded last, a service is moved to its place, and the cases that go wrong.
\<close>

section \<open>A configuration in memory\<close>

text \<open>Three services in one set, on interfaces that carry a session of two dictionaries.\<close>

definition sample_prefs :: "(dict \<times> dict) sp_ops" where
  "sample_prefs = \<lparr>sp_utf8 = Some, sp_euid = 0, sp_getenv = \<lambda>_. None, sp_authorize = None,
     sp_create = \<lambda>_ _ _. (Some (fmempty, fmempty), kSCStatusOK),
     sp_commit = \<lambda>p. ((True, kSCStatusOK), p), sp_apply = \<lambda>p. ((True, kSCStatusOK), p),
     sp_lock = \<lambda>_ p. ((True, kSCStatusOK), p), sp_unlock = \<lambda>p. ((True, kSCStatusOK), p), sp_sync = id,
     sp_path_get = \<lambda>_ _. (None, kSCStatusNoKey), sp_path_set = \<lambda>p _ _. ((True, kSCStatusOK), p),
     sp_path_remove = \<lambda>p _. ((True, kSCStatusOK), p), sp_get_link = \<lambda>_ _. None,
     sp_set_link = \<lambda>p _ _. ((True, kSCStatusOK), p)\<rparr>"

definition accepted :: "'p option \<Rightarrow> 'p call_result" where
  "accepted p = ((True, kSCStatusOK), p)"

definition sample_name :: "nat \<Rightarrow> string" where
  "sample_name h = [''Ethernet'', ''Modem'', ''Office''] ! h"

definition sample_net :: "(dict \<times> dict, nat, nat, nat, nat) net_api" where
  "sample_net =
     \<lparr>na_prefs = sample_prefs, na_env = ascii_env, na_if = sample_api,
      na_real_interfaces = \<lambda>_. Inr [0, 1], na_loopback = 8, na_ipv4 = 9, na_display = \<lambda>_ _. None,
      na_bond_members = \<lambda>_ _. None, na_bridge_members = \<lambda>_ _. None, na_vlan_physical = \<lambda>_ _. None,
      na_hidden = \<lambda>_. None, na_layer = \<lambda>i t p. (Inr (Suc i), p), na_supported = \<lambda>_ _. Some [''IPv4'', ''Proxies''],
      na_services = \<lambda>_ _. Inr [0, 1, 2], na_all_services = \<lambda>_. Inr [0, 1, 2], na_sort_services = \<lambda>_ _. id,
      na_service_id = \<lambda>_ h. ''ID-'' @ sample_name h, na_service_name = \<lambda>_ h. Some (sample_name h),
      na_service_interface = \<lambda>_ h. Some h, na_create_service = \<lambda>i p. (Inr 2, p),
      na_name_service = \<lambda>_ _. accepted, na_establish_service = \<lambda>_. accepted, na_add_service = \<lambda>_ _. accepted,
      na_enable_service = \<lambda>_ _. accepted, na_remove_service = \<lambda>_. accepted, na_id_service = \<lambda>_ _. accepted,
      na_active_service = \<lambda>_. None, na_rank_service = \<lambda>_ _. accepted,
      na_order = \<lambda>_ _. Some [''ID-Ethernet'', ''ID-Modem'', ''ID-Office''], na_set_order = \<lambda>_ _. accepted,
      na_protocols = \<lambda>_ _. Inr [0], na_sort_protocols = \<lambda>_. id, na_protocol_type = \<lambda>_ _. ''IPv4'',
      na_protocol = \<lambda>_ _ _. Inr 0, na_add_protocol = \<lambda>_ _. accepted, na_remove_protocol = \<lambda>_ _. accepted,
      na_enable_protocol = \<lambda>_ _. accepted, na_protocol_config = \<lambda>p _. map_option fst p,
      na_config_protocol = \<lambda>_ c p. accepted (map_option (\<lambda>d. (c, snd d)) p),
      na_sets = \<lambda>_. Inr [0], na_sort_sets = \<lambda>_. id, na_set_id = \<lambda>_ _. ''ID-set'', na_set_name = \<lambda>_ _. Some ''Automatic'',
      na_current_set = \<lambda>_. Some 0, na_create_set = \<lambda>p. (Inr 0, p), na_default_set = \<lambda>p. (Inr 0, p),
      na_establish_set = \<lambda>_ p. (True, p), na_name_set = \<lambda>_ _. accepted, na_id_set = \<lambda>_ _. accepted,
      na_remove_set = \<lambda>_. accepted, na_make_current = \<lambda>_. accepted\<rparr>"

definition net_start :: "('p, 'i, 'h, 'q, 's) net_state" where
  "net_start =
     \<lparr>nt_tool = \<lparr>sc_value = Some (CFDictionary fmempty), sc_store = False, sc_watchedKeys = Null, sc_watchedPatterns = Null,
        sc_notifyRl = False, sc_notifyRls = False, sc_doDispatch = False, sc_watchers = 0, sc_nesting = 0,
        sc_termRequested = False, sc_enablePrivateAPI = False, sc_out = [],
        sc_world = \<lparr>pw_prefs = None, pw_ni_prefs = None, pw_changed = False, pw_path = None, pw_authorization = None,
          pw_terminal = True\<rparr>\<rparr>,
      nt_new_interfaces = None, nt_interfaces = None, nt_services = None, nt_protocols = None, nt_sets = None,
      nt_interface = None, nt_service = None, nt_protocol = None, nt_set = None, nt_proxy = None\<rparr>"

definition sample_open :: "(dict \<times> dict, nat, nat, nat, nat) net_state" where
  "sample_open = set_sess (Some (fmempty, fmempty)) (net_start\<lparr>nt_set := Some 0\<rparr>)"

section \<open>Searching\<close>

lemma unique_from_spec:
  "unique_from P xs sel =
     (case (case sel of None \<Rightarrow> [] | Some x \<Rightarrow> [x]) @ filter P xs of [] \<Rightarrow> Nothing | [x] \<Rightarrow> One x | _ \<Rightarrow> Many)"
proof (induction xs arbitrary: sel)
  case Nil
  show ?case by (cases sel) auto
next
  case (Cons x xs)
  show ?case by (cases sel) (auto simp: Cons.IH split: list.splits)
qed

lemma unique_from_One: "unique_from P xs None = One x \<longleftrightarrow> filter P xs = [x]"
  by (auto simp: unique_from_spec split: list.splits)

lemma unique_from_Nothing: "unique_from P xs None = Nothing \<longleftrightarrow> (\<forall>x \<in> set xs. \<not> P x)"
  unfolding filter_empty_conv [symmetric] by (auto simp: unique_from_spec split: list.splits)

lemma search_stages_One: "search_stages Ps xs = One x \<Longrightarrow> \<exists>P \<in> set Ps. filter P xs = [x]"
proof (induction Ps)
  case (Cons P Ps)
  then show ?case by (cases "unique_from P xs None") (auto simp: unique_from_One)
qed simp

lemma search_stages_Nothing: "search_stages Ps xs = Nothing \<longleftrightarrow> (\<forall>P \<in> set Ps. \<forall>x \<in> set xs. \<not> P x)"
proof (induction Ps)
  case (Cons P Ps)
  then show ?case by (cases "unique_from P xs None") (auto simp: unique_from_Nothing [symmetric])
qed simp

lemma by_index_Some:
  "by_index m xs = Some x \<Longrightarrow> \<exists>k. strtol m = (int k + 1, []) \<and> k < length xs \<and> x = xs ! k"
proof -
  assume h: "by_index m xs = Some x"
  obtain v r where v: "strtol m = (v, r)" by fastforce
  from h v have c: "r = []" "v > 0" "v \<le> int (length xs)" "x = xs ! nat (v - 1)"
    by (auto simp: by_index_def split: if_splits)
  then show ?thesis using v by (intro exI [of _ "nat (v - 1)"]) auto
qed

text \<open>How an element was picked.\<close>

definition picked_by ::
    "opt_env \<Rightarrow> (string \<Rightarrow> 'a \<Rightarrow> bool) \<Rightarrow> (string \<Rightarrow> 'a \<Rightarrow> bool) list \<Rightarrow> 'a list \<Rightarrow> string \<Rightarrow> 'a \<Rightarrow> bool" where
  "picked_by env exact stages xs match x \<longleftrightarrow>
     x \<in> set xs \<and>
     (\<exists>name. oe_utf8 env match = Some name \<and>
        (exact name x \<or> (\<exists>st \<in> set stages. filter (st name) xs = [x]) \<or>
         (\<exists>k. strtol match = (int k + 1, []) \<and> k < length xs \<and> x = xs ! k)))"

lemma pick_picked:
  assumes "pick env what exact stages many allowIndex xs match = Ret (Some x, notes)"
  shows "picked_by env exact stages xs match x \<and> notes = []"
proof (cases xs)
  case Nil
  then have "\<And>Ps. search_stages Ps xs = Nothing" by (simp add: search_stages_Nothing)
  with assms Nil show ?thesis
    by (auto simp: pick_def by_index_def split: option.splits found.splits prod.splits if_splits)
next
  case (Cons y ys)
  then obtain name where name: "oe_utf8 env match = Some name"
    using assms by (auto simp: pick_def split: option.splits)
  have one: "search_stages (map (\<lambda>st. st name) stages) xs = One x \<Longrightarrow> (\<exists>st \<in> set stages. filter (st name) xs = [x]) \<and> x \<in> set xs"
  proof -
    assume "search_stages (map (\<lambda>st. st name) stages) xs = One x"
    from search_stages_One [OF this] obtain st where "st \<in> set stages" and f: "filter (st name) xs = [x]" by auto
    moreover have "x \<in> set xs" using arg_cong [OF f, of set] by auto
    ultimately show ?thesis by blast
  qed
  have exact: "List.find (exact name) xs = Some x \<Longrightarrow> exact name x \<and> x \<in> set xs"
    by (auto simp: find_Some_iff)
  have index: "by_index match xs = Some x \<Longrightarrow> x \<in> set xs"
    using by_index_Some [of match xs x] by auto
  from assms name Cons have
    "(List.find (exact name) xs = Some x \<or> search_stages (map (\<lambda>st. st name) stages) xs = One x \<or> by_index match xs = Some x) \<and>
     notes = []"
    by (auto simp: pick_def split: option.splits found.splits if_splits)
  with one exact index by_index_Some [of match xs x] name show ?thesis
    unfolding picked_by_def by blast
qed

section \<open>Numbers in the list that was loaded last\<close>

lemma strtol_decimal: "n < 2 ^ 63 \<Longrightarrow> strtol (decimal n) = (int n, []) \<and> \<not> strtol_erange (decimal n)"
proof -
  assume n: "n < 2 ^ 63"
  obtain c s where cs: "decimal n = c # s" "is_digit c" using first_digit by blast
  have l: "clamp_long (int n) = int n" using n by (auto simp: clamp_long_def)
  show ?thesis
    using digit_starts [OF cs(2), of s] take_digits_decimal [of n] cs(1) l
    by (simp add: strtol_def strtol_erange_def Let_def)
qed

lemma by_index_decimal:
  "k < length xs \<Longrightarrow> length xs < 2 ^ 63 \<Longrightarrow> by_index (decimal (Suc k)) xs = Some (xs ! k)"
  using strtol_decimal [of "Suc k"] by (simp add: by_index_def)

lemma pick_index:
  assumes "k < length xs" "length xs < 2 ^ 63" "oe_utf8 env (decimal (Suc k)) = Some name"
    and "\<forall>x \<in> set xs. \<not> exact name x \<and> (\<forall>st \<in> set stages. \<not> st name x)"
  shows "pick env what exact stages many True xs (decimal (Suc k)) = Ret (Some (xs ! k), [])"
proof -
  have "List.find (exact name) xs = None" using assms(4) by (auto simp: find_None_iff)
  moreover have "search_stages (map (\<lambda>st. st name) stages) xs = Nothing"
    using assms(4) by (auto simp: search_stages_Nothing)
  ultimately show ?thesis
    using assms(1) by (auto simp: pick_def by_index_decimal [OF assms(1,2)] assms(3))
qed


definition services_searched :: "('p, 'i, 'h, 'q, 's) net_api \<Rightarrow> ('p, 'i, 'h, 'q, 's) net_state \<Rightarrow> 'h list" where
  "services_searched api s =
     (case nt_services s of
        Some l \<Rightarrow> l
      | None \<Rightarrow> (case nt_set s of None \<Rightarrow> [] | Some st \<Rightarrow> (case na_services api (sess s) st of Inl _ \<Rightarrow> [] | Inr l \<Rightarrow> l)))"

lemma find_service_picked:
  assumes "find_service api match s = Ret (Some h, s')"
  shows "picked_by (na_env api) (\<lambda>name h. name = na_service_id api (sess s) h) (service_stages api (sess s))
    (services_searched api s) match h"
  using assms
  by (auto simp: find_service_def services_searched_def picked_def Let_def
      dest!: pick_picked split: option.splits sum.splits)

lemma find_service_frame: "find_service api match s = Ret (r, s') \<Longrightarrow> nt_service s' = nt_service s \<and> sess s' = sess s"
  by (auto simp: find_service_def picked_def Let_def split: option.splits sum.splits)

text \<open>
  C19. A service is never picked from several that match. The service that \<open>select service\<close> selects is one of
  those that were searched, and it has the identifier that was given, or it is the only one with
  that name, the only one with that name in any case, or the only one on that device, or the argument is
  its number.
\<close>

theorem select_service_unambiguous:
  assumes "select_service api [match] s = Ret s'" "nt_service s' = Some h" "nt_service s \<noteq> Some h"
  shows "picked_by (na_env api) (\<lambda>name h. name = na_service_id api (sess s) h) (service_stages api (sess s))
    (services_searched api s) match h"
proof -
  obtain r s1 where f: "find_service api match s = Ret (r, s1)"
    using assms(1) by (auto simp: select_service_def)
  have "r = Some h"
    using assms f find_service_frame [OF f]
    by (auto simp: select_service_def Let_def split: option.splits)
  with f show ?thesis by (simp add: find_service_picked)
qed

lemma find_service_index:
  assumes "nt_services s = Some l" "k < length l" "length l < 2 ^ 63" "oe_utf8 (na_env api) (decimal (Suc k)) = Some name"
    and "\<forall>h \<in> set l. name \<noteq> na_service_id api (sess s) h \<and> (\<forall>st \<in> set (service_stages api (sess s)). \<not> st name h)"
  shows "find_service api (decimal (Suc k)) s = Ret (Some (l ! k), s)"
proof -
  have "pick (na_env api) ''service'' (\<lambda>name h. name = na_service_id api (sess s) h) (service_stages api (sess s)) what True l
      (decimal (Suc k)) = Ret (Some (l ! k), [])" for what
    by (rule pick_index [OF assms(2-4)]) (use assms(5) in fastforce)
  with assms(1) show ?thesis by (simp add: find_service_def picked_def net_notes_def Let_def)
qed

lemma sample_find:
  "find_service sample_net ''office'' sample_open = Ret (Some 2, sample_open\<lparr>nt_services := Some [0, 1, 2]\<rparr>)"
  by code_simp

lemma select_service_unambiguous_witness:
  "picked_by ascii_env (\<lambda>name h. name = ''ID-'' @ sample_name h) (service_stages sample_net (sess sample_open)) [0, 1, 2] ''office'' 2"
proof -
  have "na_service_interface sample_net p 2 = Some 2" for p by (simp add: sample_net_def)
  then obtain s' where "select_service sample_net [''office''] sample_open = Ret s'" "nt_service s' = Some 2"
    by (simp add: select_service_def sample_find Let_def)
  from select_service_unambiguous [OF this] show ?thesis
    by (simp add: sample_net_def sample_open_def net_start_def services_searched_def)
qed

text \<open>A number selects from the services that were listed last, unless it is an identifier, a name or a device of one.\<close>

theorem select_service_number:
  assumes "nt_services s1 = Some l" "k < length l" "length l < 2 ^ 63"
    and "oe_utf8 (na_env api) (decimal (Suc k)) = Some name"
    and "\<forall>h \<in> set l. name \<noteq> na_service_id api (sess s1) h \<and> (\<forall>st \<in> set (service_stages api (sess s1)). \<not> st name h)"
  shows "\<exists>s2. select_service api [decimal (Suc k)] s1 = Ret s2 \<and> nt_service s2 = Some (l ! k) \<and>
    nt_interface s2 = na_service_interface api (sess s1) (l ! k) \<and> nt_protocol s2 = None \<and> nt_services s2 = Some l"
  using find_service_index [OF assms] assms(1)
  by (auto simp: select_service_def Let_def split: option.splits)

section \<open>The order of services\<close>

lemma remove1_move_to: "distinct order \<Longrightarrow> remove1 sid (move_to sid n order) = remove1 sid order"
  by (auto simp: move_to_def Let_def remove1_append dest: in_set_takeD)

lemma distinct_move_to: "distinct order \<Longrightarrow> distinct (move_to sid n order)"
proof -
  assume d: "distinct order"
  define r where "r = remove1 sid order"
  have "distinct r" "sid \<notin> set r" using d by (simp_all add: r_def)
  moreover have "distinct (take m r @ drop m r)" for m using \<open>distinct r\<close> by simp
  ultimately show ?thesis
    unfolding move_to_def Let_def r_def [symmetric]
    by (auto dest: in_set_takeD in_set_dropD simp del: append_take_drop_id)
qed

lemma set_move_to: "set (move_to sid n order) = insert sid (set (remove1 sid order))"
proof -
  have "set (take m xs) \<union> set (drop m xs) = set xs" for m and xs :: "string list"
    by (metis append_take_drop_id set_append)
  then show ?thesis by (auto simp: move_to_def Let_def)
qed

lemma nth_move_to: "1 \<le> n \<Longrightarrow> move_to sid n order ! min (n - 1) (length (remove1 sid order)) = sid"
  by (auto simp: move_to_def Let_def nth_append min_def)

text \<open>
  C21. \<open>set service order n\<close> moves the selected service to the n-th place, or to the end of a shorter
  order: the order that is written has it there and only there, the other services keep their order, and none
  is lost or added.
\<close>

theorem set_service_order_moves:
  assumes "nt_set s = Some st" "na_services api (sess s) st = Inr services" "1 \<le> n" "n \<le> length services" "n < 2 ^ 63"
    and "distinct (case na_order api (sess s) st of None \<Rightarrow> [] | Some order \<Rightarrow> order)"
    and "na_set_order api st new (sess s) = ((True, e), p)"
    and "new = move_to (na_service_id api (sess s) h) n (case na_order api (sess s) st of None \<Rightarrow> [] | Some order \<Rightarrow> order)"
  shows "set_service_order api h (decimal n # argv) s = Ret (True, argv, prefs_changed (set_sess p s)) \<and>
    distinct new \<and>
    remove1 (na_service_id api (sess s) h) new =
      remove1 (na_service_id api (sess s) h) (case na_order api (sess s) st of None \<Rightarrow> [] | Some order \<Rightarrow> order) \<and>
    new ! min (n - 1) (length new - 1) = na_service_id api (sess s) h"
proof -
  let ?order = "case na_order api (sess s) st of None \<Rightarrow> [] | Some order \<Rightarrow> order"
  have "length new = Suc (length (remove1 (na_service_id api (sess s) h) ?order))"
    by (auto simp: assms(8) move_to_def Let_def)
  moreover have "set_service_order api h (decimal n # argv) s = Ret (True, argv, prefs_changed (set_sess p s))"
    using assms(1-5,7) strtol_decimal [OF assms(5)] by (simp add: set_service_order_def assms(8))
  ultimately show ?thesis
    using assms(6) nth_move_to [OF assms(3)] by (simp add: assms(8) distinct_move_to remove1_move_to)
qed

lemma set_service_order_moves_witness:
  "\<exists>s'. set_service_order sample_net 2 [''1''] sample_open = Ret (True, [], s') \<and>
    move_to ''ID-Office'' 1 [''ID-Ethernet'', ''ID-Modem'', ''ID-Office''] = [''ID-Office'', ''ID-Ethernet'', ''ID-Modem'']"
proof -
  have one: "decimal 1 = ''1''" by code_simp
  have facts: "nt_set sample_open = Some 0" "na_services sample_net p 0 = Inr [0, 1, 2]"
    "na_order sample_net p 0 = Some [''ID-Ethernet'', ''ID-Modem'', ''ID-Office'']"
    "na_set_order sample_net 0 l p = ((True, kSCStatusOK), p)" for p l
    by (simp_all add: sample_net_def sample_open_def net_start_def accepted_def)
  from set_service_order_moves [OF facts(1,2) _ _ _ _ facts(4) refl, of 1 2 "[]"] facts(3) show ?thesis
    unfolding one by (simp add: move_to_def)
qed

end
