(* ===== verification/NetToolInv.thy ===== *)
theory NetToolInv
  imports NetToolProps
begin

text \<open>
  An invariant of all network commands: without an open configuration no set, service or protocol is selected,
  and no list of them is kept. It rests on calls of the framework that do not close a session.
\<close>

section \<open>Calls that keep the session open\<close>

definition stays :: "('p option \<Rightarrow> 'r \<times> 'p option) \<Rightarrow> bool" where
  "stays call \<longleftrightarrow> (\<forall>p. snd (call (Some p)) \<noteq> None)"

lemma staysD: "stays call \<Longrightarrow> call (Some p) = (r, p') \<Longrightarrow> p' \<noteq> None"
  unfolding stays_def by (metis snd_conv)

definition if_stays_open :: "('p, 'i) if_api \<Rightarrow> bool" where
  "if_stays_open api \<longleftrightarrow>
     (\<forall>i c t k v w r pt.
        stays (ia_set_config api i c) \<and> stays (ia_set_extended api i t c) \<and> stays (ia_set_qos api i c) \<and>
        stays (ia_set_capability api i k v) \<and> stays (ia_set_password api i pt w) \<and>
        stays (ia_remove_password api i pt) \<and> stays (ia_set_rank api i r))"

definition net_stays_open :: "('p, 'i, 'h, 'q, 's) net_api \<Rightarrow> bool" where
  "net_stays_open api \<longleftrightarrow>
     if_stays_open (na_if api) \<and> stays (sp_commit (na_prefs api)) \<and> stays (sp_apply (na_prefs api)) \<and>
     stays (na_create_set api) \<and> stays (na_default_set api) \<and>
     (\<forall>i t. stays (na_layer api i t) \<and> stays (na_create_service api i)) \<and>
     (\<forall>h n b t r. stays (na_name_service api h n) \<and> stays (na_establish_service api h) \<and>
        stays (na_enable_service api h b) \<and> stays (na_remove_service api h) \<and> stays (na_id_service api h t) \<and>
        stays (na_rank_service api h r)) \<and>
     (\<forall>h q b t c. stays (na_add_protocol api h t) \<and> stays (na_remove_protocol api h t) \<and>
        stays (na_enable_protocol api q b) \<and> stays (na_config_protocol api q c)) \<and>
     (\<forall>st h n t l. stays (na_add_service api st h) \<and> stays (na_set_order api st l) \<and> stays (na_establish_set api st) \<and>
        stays (na_name_set api st n) \<and> stays (na_id_set api st t) \<and> stays (na_remove_set api st) \<and>
        stays (na_make_current api st))"

definition maint_stays_open :: "'p maint_api \<Rightarrow> bool" where
  "maint_stays_open ma \<longleftrightarrow>
     (\<forall>p nip. fst (snd (ma_clean ma (Some p) nip)) \<noteq> None) \<and>
     (\<forall>p nip b. case fst (snd (ma_upgrade ma (Some (Some p)) nip b)) of None \<Rightarrow> True | Some p' \<Rightarrow> p' \<noteq> None)"

lemma net_stays:
  assumes "net_stays_open api"
  shows "stays (sp_commit (na_prefs api))" "stays (sp_apply (na_prefs api))" "stays (na_create_set api)"
    "stays (na_default_set api)" "stays (na_layer api i t)" "stays (na_create_service api i)"
    "stays (na_name_service api h n)" "stays (na_establish_service api h)" "stays (na_enable_service api h b)"
    "stays (na_remove_service api h)" "stays (na_id_service api h t)" "stays (na_rank_service api h r)"
    "stays (na_add_protocol api ho t)" "stays (na_remove_protocol api ho t)" "stays (na_enable_protocol api q b)"
    "stays (na_config_protocol api q c)" "stays (na_add_service api st h)" "stays (na_set_order api st l)"
    "stays (na_establish_set api st)" "stays (na_name_set api st n)" "stays (na_id_set api st t)"
    "stays (na_remove_set api st)" "stays (na_make_current api st)"
  using assms by (simp_all add: net_stays_open_def)

lemmas net_staysD = net_stays [THEN staysD]

section \<open>The invariant\<close>

definition tidy :: "('p, 'i, 'h, 'q, 's) net_state \<Rightarrow> bool" where
  "tidy s \<longleftrightarrow>
     sess s \<noteq> None \<or>
     nt_set s = None \<and> nt_service s = None \<and> nt_protocol s = None \<and> nt_sets s = None \<and> nt_services s = None \<and>
     nt_protocols s = None"

lemma tidy_open: "sess s = Some p \<Longrightarrow> tidy s"
  by (simp add: tidy_def)

lemma tidy_note [simp]: "tidy (net_note x s) \<longleftrightarrow> tidy s" "tidy (net_notes xs s) \<longleftrightarrow> tidy s"
  by (simp_all add: tidy_def)

lemma tidy_changed [simp]: "tidy (prefs_changed s) \<longleftrightarrow> tidy s"
  by (simp add: tidy_def)

lemma tidy_sess: "tidy s \<Longrightarrow> (sess s \<noteq> None \<Longrightarrow> p \<noteq> None) \<Longrightarrow> tidy (set_sess p s)"
  by (auto simp: tidy_def)

lemma tidy_call:
  assumes "stays call" "tidy s" "\<And>t. sess t \<noteq> None \<Longrightarrow> sess (f t) \<noteq> None" "sess s \<noteq> None"
  shows "tidy (net_call (call (sess s)) f s)"
  using assms staysD [OF assms(1)] by (auto simp: net_call_def tidy_def Let_def split: prod.splits)

text \<open>Searching loads lists of an open configuration only, and finds nothing in a closed one.\<close>

definition finds_tidily :: "'a option \<Rightarrow> ('p, 'i, 'h, 'q, 's) net_state \<Rightarrow> ('p, 'i, 'h, 'q, 's) net_state \<Rightarrow> bool" where
  "finds_tidily r s s' \<longleftrightarrow> tidy s' \<and> sess s' = sess s \<and> (r \<noteq> None \<longrightarrow> sess s \<noteq> None)"

lemma find_set_tidy: "find_set api m s = Ret (r, s') \<Longrightarrow> tidy s \<Longrightarrow> finds_tidily r s s'"
  by (auto simp: find_set_def copy_sets_def picked_def finds_tidily_def tidy_def Let_def
      split: option.splits sum.splits if_splits prod.splits)

lemma find_service_tidy: "find_service api m s = Ret (r, s') \<Longrightarrow> tidy s \<Longrightarrow> finds_tidily r s s'"
  by (auto simp: find_service_def picked_def finds_tidily_def tidy_def Let_def
      split: option.splits sum.splits if_splits prod.splits)

lemma find_protocol_tidy: "find_protocol api m s = Ret (r, s') \<Longrightarrow> tidy s \<Longrightarrow> finds_tidily r s s'"
  by (auto simp: find_protocol_def picked_def finds_tidily_def tidy_def Let_def
      split: option.splits sum.splits if_splits prod.splits)

lemma named_or_selected_tidy:
  assumes "named_or_selected one lookup selected missing argv s = Ret (r, s')" "tidy s"
    and "\<And>m r s'. lookup m s = Ret (r, s') \<Longrightarrow> finds_tidily r s s'"
    and "selected \<noteq> None \<Longrightarrow> sess s \<noteq> None"
  shows "finds_tidily r s s'"
  using assms
  by (auto simp: named_or_selected_def finds_tidily_def split: list.splits if_splits option.splits prod.splits)

lemma selected_open:
  assumes "tidy s"
  shows "nt_set s \<noteq> None \<Longrightarrow> sess s \<noteq> None" "nt_service s \<noteq> None \<Longrightarrow> sess s \<noteq> None"
    "nt_protocol s \<noteq> None \<Longrightarrow> sess s \<noteq> None"
  using assms by (auto simp: tidy_def)


lemma obind_RetE: "obind m f = Ret y \<Longrightarrow> (\<And>x. m = Ret x \<Longrightarrow> f x = Ret y \<Longrightarrow> P) \<Longrightarrow> P"
  by auto

lemmas asm_splits = if_split_asm sum.split_asm prod.split_asm list.split_asm bool.split_asm option.split_asm

lemma stays_Some: "stays call \<Longrightarrow> call (Some p) = (r, p') \<Longrightarrow> \<exists>q. p' = Some q"
  by (auto dest: staysD)

lemma stays_snd: "stays call \<Longrightarrow> snd (call (Some p)) \<noteq> None"
  by (simp add: stays_def)

lemma stays_snd_Some: "stays call \<Longrightarrow> \<exists>q. snd (call (Some p)) = Some q"
  by (simp add: stays_def)

lemmas kept_snd_Some = net_stays [THEN stays_snd_Some]
lemmas kept_snd = net_stays [THEN stays_snd]
lemmas kept = net_stays [THEN stays_Some, rotated]

lemma named_set_tidy:
  "named_or_selected one (find_set api) (nt_set s) missing argv s = Ret (r, s') \<Longrightarrow> tidy s \<Longrightarrow> finds_tidily r s s'"
  by (erule named_or_selected_tidy) (auto dest: find_set_tidy selected_open)

lemma named_service_tidy:
  "named_or_selected one (find_service api) (nt_service s) missing argv s = Ret (r, s') \<Longrightarrow> tidy s \<Longrightarrow> finds_tidily r s s'"
  by (erule named_or_selected_tidy) (auto dest: find_service_tidy selected_open)

lemma named_protocol_tidy: "protocol_argument api argv s = Ret (r, s') \<Longrightarrow> tidy s \<Longrightarrow> finds_tidily r s s'"
  unfolding protocol_argument_def by (erule named_or_selected_tidy) (auto dest: find_protocol_tidy selected_open)

section \<open>Sets\<close>

lemma create_set_tidy: "create_set api argv s = Ret s' \<Longrightarrow> net_stays_open api \<Longrightarrow> tidy s \<Longrightarrow> tidy s'"
  by (auto simp: create_set_def tidy_def Let_def kept_snd simp del: obind_eq_Ret elim!: obind_RetE dest!: kept split: asm_splits)

lemma remove_set_tidy: "remove_set api argv s = Ret s' \<Longrightarrow> net_stays_open api \<Longrightarrow> tidy s \<Longrightarrow> tidy s'"
  by (auto simp: remove_set_def tidy_def finds_tidily_def Let_def simp del: obind_eq_Ret
      elim!: obind_RetE dest!: kept named_set_tidy split: asm_splits)

lemma select_set_tidy: "select_set api argv s = Ret s' \<Longrightarrow> tidy s \<Longrightarrow> tidy s'"
  by (auto simp: select_set_def finds_tidily_def tidy_def dest!: find_set_tidy split: list.splits option.splits)

lemma refresh_set_open: "refresh_set api i s = Ret s' \<Longrightarrow> sess s \<noteq> None \<longrightarrow> sess s' \<noteq> None"
  by (auto simp: refresh_set_def finds_tidily_def tidy_def simp del: obind_eq_Ret
      elim!: obind_RetE dest!: find_set_tidy split: asm_splits)

lemma set_set_step_open:
  "set_set_step api st c argv s = Ret (go, rest, s') \<Longrightarrow> net_stays_open api \<Longrightarrow> sess s = Some p \<Longrightarrow> \<exists>q. sess s' = Some q"
  by (auto simp: set_set_step_def Let_def simp del: obind_eq_Ret elim!: obind_RetE dest!: kept refresh_set_open split: asm_splits)

lemma set_set_loop_open:
  "set_set_loop api argv s = Ret s' \<Longrightarrow> net_stays_open api \<Longrightarrow> sess s = Some p \<Longrightarrow> \<exists>q. sess s' = Some q"
proof (induction api argv s arbitrary: p rule: set_set_loop.induct)
  case (2 api c argv s)
  show ?case
  proof (cases "nt_set s")
    case None
    with 2 show ?thesis by simp
  next
    case (Some st)
    with 2(2) obtain go rest s1 where st: "set_set_step api st c argv s = Ret (go, rest, s1)"
      by (auto split: outcome.splits)
    from set_set_step_open [OF this 2(3,4)] obtain q where "sess s1 = Some q" by blast
    with Some st 2 show ?thesis by (cases go) auto
  qed
qed simp

lemma set_set_tidy: "set_set api argv s = Ret s' \<Longrightarrow> net_stays_open api \<Longrightarrow> tidy s \<Longrightarrow> tidy s'"
  by (auto simp: set_set_def tidy_def dest: set_set_loop_open split: asm_splits)

lemma show_set_tidy: "show_set api argv s = Ret s' \<Longrightarrow> tidy s \<Longrightarrow> tidy s'"
  by (auto simp: show_set_def finds_tidily_def dest!: named_set_tidy)

lemma show_sets_tidy: "show_sets api argv s = Ret s' \<Longrightarrow> tidy s \<Longrightarrow> tidy s'"
  by (auto simp: show_sets_def copy_sets_def tidy_def split: asm_splits)

section \<open>Services\<close>

definition same_selection :: "('p, 'i, 'h, 'q, 's) net_state \<Rightarrow> ('p, 'i, 'h, 'q, 's) net_state \<Rightarrow> bool" where
  "same_selection s s' \<longleftrightarrow>
     sess s' = sess s \<and> nt_set s' = nt_set s \<and> nt_service s' = nt_service s \<and> nt_protocol s' = nt_protocol s \<and>
     nt_sets s' = nt_sets s \<and> nt_services s' = nt_services s \<and> nt_protocols s' = nt_protocols s"

lemma picked_same: "picked x s = Ret (r, s') \<Longrightarrow> same_selection s s'"
  by (auto simp: picked_def same_selection_def)

lemma member_same: "member_of api t l m argv s = Ret (r, n, s') \<Longrightarrow> same_selection s s'"
  unfolding member_of_def
  by (auto dest: picked_same simp: same_selection_def simp del: obind_eq_Ret elim!: obind_RetE split: asm_splits)

lemma listed_same: "listed_interface api m s = Ret (r, n, s') \<Longrightarrow> same_selection s s'"
  unfolding listed_interface_def copy_interfaces_def
  by (auto dest!: picked_same simp: same_selection_def simp del: obind_eq_Ret elim!: obind_RetE split: asm_splits)

lemma find_interface_same: "find_interface api argv s = Ret (r, n, s') \<Longrightarrow> same_selection s s'"
  unfolding find_interface_def Let_def
  by (auto dest: member_same listed_same simp: same_selection_def split: list.split_asm if_split_asm option.split_asm prod.split_asm)

lemma find_interface_frame:
  "find_interface api argv s = Ret (r, n, s') \<Longrightarrow>
   sess s' = sess s \<and> nt_set s' = nt_set s \<and> nt_service s' = nt_service s \<and> nt_protocol s' = nt_protocol s \<and>
   nt_sets s' = nt_sets s \<and> nt_services s' = nt_services s \<and> nt_protocols s' = nt_protocols s"
  by (drule find_interface_same) (simp add: same_selection_def)

lemma find_interface_tidy: "find_interface api argv s = Ret (r, n, s') \<Longrightarrow> sess s' = sess s \<and> (tidy s \<longrightarrow> tidy s')"
  by (drule find_interface_frame) (simp add: tidy_def)

lemma create_service_open:
  "create_service api argv s = Ret s' \<Longrightarrow> net_stays_open api \<Longrightarrow> sess s = Some p \<Longrightarrow> sess s' \<noteq> None"
  by (auto simp: create_service_def Let_def simp del: obind_eq_Ret
      elim!: obind_RetE dest!: kept find_interface_frame intro!: kept_snd_Some split: asm_splits)

lemma create_service_tidy:
  assumes "create_service api argv s = Ret s'" "net_stays_open api" "tidy s"
  shows "tidy s'"
proof (cases "sess s")
  case None
  with assms(1,3) show ?thesis by (auto simp: create_service_def)
next
  case (Some p)
  from create_service_open [OF assms(1,2) this] show ?thesis by (simp add: tidy_def)
qed

lemma enable_service_tidy: "enable_service b api argv s = Ret s' \<Longrightarrow> net_stays_open api \<Longrightarrow> tidy s \<Longrightarrow> tidy s'"
  by (auto simp: enable_service_def tidy_def finds_tidily_def net_call_def Let_def simp del: obind_eq_Ret
      elim!: obind_RetE dest!: kept named_service_tidy split: asm_splits)

lemma remove_service_tidy: "remove_service api argv s = Ret s' \<Longrightarrow> net_stays_open api \<Longrightarrow> tidy s \<Longrightarrow> tidy s'"
  by (auto simp: remove_service_def tidy_def finds_tidily_def net_call_def Let_def simp del: obind_eq_Ret
      elim!: obind_RetE dest!: kept named_service_tidy split: asm_splits)

lemma select_service_tidy:
  assumes "select_service api argv s = Ret s'" "tidy s"
  shows "tidy s'"
proof -
  obtain a r s1 where f: "find_service api a s = Ret (r, s1)" "argv \<noteq> []" "a = hd argv"
    using assms(1) by (auto simp: select_service_def split: list.splits)
  from find_service_tidy [OF f(1) assms(2)] have t: "finds_tidily r s s1" .
  show ?thesis
  proof (cases r)
    case None
    with assms(1) f t show ?thesis by (cases argv) (auto simp: select_service_def finds_tidily_def)
  next
    case (Some h)
    have "sess s' = sess s1"
      using assms(1) f Some by (cases argv) (auto simp: select_service_def Let_def split: option.splits)
    with t Some show ?thesis by (auto simp: finds_tidily_def tidy_def)
  qed
qed

lemma set_service_step_open:
  "set_service_step api h c argv s = Ret (go, rest, s') \<Longrightarrow> net_stays_open api \<Longrightarrow> sess s = Some p \<Longrightarrow> \<exists>q. sess s' = Some q"
  by (auto simp: set_service_step_def set_service_order_def set_service_rank_def Let_def simp del: obind_eq_Ret
      elim!: obind_RetE dest!: kept split: asm_splits)

lemma set_service_loop_open:
  "set_service_loop api h argv s = Ret s' \<Longrightarrow> net_stays_open api \<Longrightarrow> sess s = Some p \<Longrightarrow> \<exists>q. sess s' = Some q"
proof (induction api h argv s arbitrary: p rule: set_service_loop.induct)
  case (2 api h c argv s)
  from 2(2) obtain go rest s1 where st: "set_service_step api h c argv s = Ret (go, rest, s1)"
    by (auto split: outcome.splits)
  from set_service_step_open [OF this 2(3,4)] obtain q where "sess s1 = Some q" by blast
  with st 2 show ?case by (cases go) auto
qed simp

lemma set_service_tidy: "set_service api argv s = Ret s' \<Longrightarrow> net_stays_open api \<Longrightarrow> tidy s \<Longrightarrow> tidy s'"
  by (auto simp: set_service_def tidy_def dest: set_service_loop_open split: asm_splits)

lemma show_service_tidy: "show_service api argv s = Ret s' \<Longrightarrow> tidy s \<Longrightarrow> tidy s'"
  by (auto simp: show_service_def finds_tidily_def dest!: named_service_tidy)

lemma show_services_tidy: "show_services api argv s = Ret s' \<Longrightarrow> tidy s \<Longrightarrow> tidy s'"
  by (auto simp: show_services_def tidy_def split: asm_splits)

section \<open>Protocols and interfaces\<close>

lemma create_protocol_tidy: "create_protocol api argv s = Ret s' \<Longrightarrow> net_stays_open api \<Longrightarrow> tidy s \<Longrightarrow> tidy s'"
  by (auto simp: create_protocol_def tidy_def net_call_def Let_def simp del: obind_eq_Ret
      elim!: obind_RetE dest!: kept split: asm_splits)

lemma enable_protocol_tidy: "enable_protocol b api argv s = Ret s' \<Longrightarrow> net_stays_open api \<Longrightarrow> tidy s \<Longrightarrow> tidy s'"
  by (auto simp: enable_protocol_def tidy_def finds_tidily_def net_call_def Let_def simp del: obind_eq_Ret
      elim!: obind_RetE dest!: kept named_protocol_tidy split: asm_splits)

lemma remove_protocol_tidy: "remove_protocol api argv s = Ret s' \<Longrightarrow> net_stays_open api \<Longrightarrow> tidy s \<Longrightarrow> tidy s'"
  by (auto simp: remove_protocol_def tidy_def finds_tidily_def net_call_def Let_def simp del: obind_eq_Ret
      elim!: obind_RetE dest!: kept named_protocol_tidy split: asm_splits)

lemma select_protocol_tidy: "select_protocol api argv s = Ret s' \<Longrightarrow> tidy s \<Longrightarrow> tidy s'"
  by (auto simp: select_protocol_def finds_tidily_def tidy_def Let_def dest!: find_protocol_tidy split: list.splits option.splits)

lemma set_protocol_tidy: "set_protocol api argv s = Ret s' \<Longrightarrow> net_stays_open api \<Longrightarrow> tidy s \<Longrightarrow> tidy s'"
  by (auto simp: set_protocol_def tidy_def net_call_def Let_def simp del: obind_eq_Ret
      elim!: obind_RetE dest!: kept split: asm_splits)

lemma show_protocol_tidy: "show_protocol api argv s = Ret s' \<Longrightarrow> tidy s \<Longrightarrow> tidy s'"
  by (auto simp: show_protocol_def finds_tidily_def dest!: named_protocol_tidy)

lemma show_protocols_tidy: "show_protocols api argv s = Ret s' \<Longrightarrow> tidy s \<Longrightarrow> tidy s'"
  by (auto simp: show_protocols_def tidy_def split: asm_splits)

lemma interface_argument_frame:
  "interface_argument api m argv s = Ret (r, s') \<Longrightarrow>
   sess s' = sess s \<and> nt_set s' = nt_set s \<and> nt_service s' = nt_service s \<and> nt_protocol s' = nt_protocol s \<and>
   nt_sets s' = nt_sets s \<and> nt_services s' = nt_services s \<and> nt_protocols s' = nt_protocols s"
  by (auto simp: interface_argument_def dest!: find_interface_frame split: asm_splits)

lemma create_interface_tidy: "create_interface api argv s = Ret s' \<Longrightarrow> net_stays_open api \<Longrightarrow> tidy s \<Longrightarrow> tidy s'"
  by (auto simp: create_interface_def tidy_def Let_def simp del: obind_eq_Ret
      elim!: obind_RetE dest!: kept interface_argument_frame split: asm_splits)

lemma select_interface_tidy: "select_interface api argv s = Ret s' \<Longrightarrow> tidy s \<Longrightarrow> tidy s'"
  by (auto simp: select_interface_def tidy_def dest!: find_interface_frame split: asm_splits)

lemma show_interface_tidy: "show_interface api argv s = Ret s' \<Longrightarrow> tidy s \<Longrightarrow> tidy s'"
  by (auto simp: show_interface_def tidy_def dest!: interface_argument_frame)

lemma show_interfaces_tidy: "show_interfaces api argv s = Ret s' \<Longrightarrow> tidy s \<Longrightarrow> tidy s'"
  by (auto simp: show_interfaces_def copy_interfaces_def tidy_def split: asm_splits)

section \<open>The configuration of an interface\<close>

definition if_open :: "'p if_state \<Rightarrow> bool" where
  "if_open s \<longleftrightarrow> session s \<noteq> None"

lemma if_open_simps [simp]:
  "if_open (say m s) = if_open s" "if_open (put k v s) = if_open s" "if_open (unset k s) = if_open s"
  "if_open (s\<lparr>os_config := c\<rparr>) = if_open s" "if_open (s\<lparr>os_out := out\<rparr>) = if_open s"
  "if_open (mark_changed s) = if_open s" "if_open (set_session p s) = (p \<noteq> None)"
  "if_open (updateInterfaceConfiguration api i s) = if_open s"
  by (simp_all add: if_open_def session_def say_def put_def unset_def mark_changed_def set_session_def
      updateInterfaceConfiguration_def)

lemma if_stays:
  assumes "if_stays_open api"
  shows "stays (ia_set_config api i c)" "stays (ia_set_extended api i t c)" "stays (ia_set_qos api i c)"
    "stays (ia_set_capability api i ko v)" "stays (ia_set_password api i pt w)" "stays (ia_remove_password api i pt)"
    "stays (ia_set_rank api i r)"
  using assms by (simp_all add: if_stays_open_def)

lemmas if_kept = if_stays [THEN stays_Some, rotated]

lemma set_secret_open:
  assumes "set_secret env api i m enc r r2 pt key argv s = Ret (n, s')" "if_stays_open api" "if_open s"
  shows "if_open s'"
proof -
  obtain p where "session s = Some p" using assms(3) by (auto simp: if_open_def)
  with assms show ?thesis
    by (auto simp: set_secret_def at_key_Ret simp del: obind_eq_Ret elim!: obind_RetE dest!: if_kept
        split: asm_splits)
qed

lemma set_secret_type_open:
  "set_secret_type m b k f key argv s = Ret (n, s') \<Longrightarrow> if_open s \<Longrightarrow> if_open s'"
  by (auto simp: set_secret_type_def at_key_Ret simp del: obind_eq_Ret elim!: obind_RetE split: asm_splits)

lemmas secret_defs = doIPSecSharedSecret_def doIPSecSharedSecretType_def doIPSecXAuthPassword_def
  doIPSecXAuthPasswordType_def doPPPAuthPW_def doPPPAuthPWType_def doVPNAuthPW_def doVPNAuthPWType_def

lemma run_secret_open:
  "run_secret env api i h key d argv s = Ret (n, s') \<Longrightarrow> if_stays_open api \<Longrightarrow> if_open s \<Longrightarrow> if_open s'"
  by (cases h) (auto simp: secret_defs dest: set_secret_open set_secret_type_open)

lemma set_entries_open: "set_entries env m b f key argv s = Ret (n, s') \<Longrightarrow> if_open s \<Longrightarrow> if_open s'"
  by (auto simp: set_entries_def at_key_Ret simp del: obind_eq_Ret elim!: obind_RetE split: asm_splits)

lemma run_domains_open: "run_domains env h key d argv s = Ret (n, s') \<Longrightarrow> if_open s \<Longrightarrow> if_open s'"
  by (cases h) (auto simp: doOnDemandDomains_def dest: set_entries_open)

lemma nested_open:
  assumes "process_options env run options argv s = Ret (ok, s')" "if_open s"
    and "\<And>h key d argv s n s'. run h key d argv s = Ret (n, s') \<Longrightarrow> if_open s \<Longrightarrow> if_open s'"
  shows "if_open s'"
proof (rule option_table.command_keeps [where keep = if_open, OF _ assms(2,1)])
  show "option_table run options if_open"
    by (rule option_table.intro) (auto intro: assms(3))
qed

lemma on_own_open:
  assumes "on_own_dictionary api process c write m argv s = Ret (n, s')" "if_open s" "\<And>d. stays (write d)"
    and "\<And>argv s ok s'. process argv s = Ret (ok, s') \<Longrightarrow> if_open s \<Longrightarrow> if_open s'"
  shows "if_open s'"
proof -
  obtain ok s1 where p: "process argv (s\<lparr>os_config := working_copy c\<rparr>) = Ret (ok, s1)"
    using assms(1) by (auto simp: on_own_dictionary_def)
  from assms(4) [OF this] assms(2) have o: "if_open (s1\<lparr>os_config := d\<rparr>)" for d by simp
  then obtain q where "session (s1\<lparr>os_config := os_config s\<rparr>) = Some q" by (auto simp: if_open_def)
  with assms(1) p o show ?thesis
    by (auto simp: on_own_dictionary_def Let_def dest: stays_Some [OF assms(3)] split: asm_splits)
qed

lemma run_if_open:
  assumes "run_if env api i h key d argv s = Ret (n, s')" "if_stays_open api" "if_open s"
  shows "if_open s'"
proof (cases h)
  case DoRank
  obtain p where "session s = Some p" using assms(3) by (auto simp: if_open_def)
  with DoRank assms show ?thesis by (auto simp: doRank_def dest!: if_kept split: asm_splits)
next
  case DoQoSMarking
  with assms show ?thesis
    by (auto simp: doQoSMarking_def intro: on_own_open if_stays nested_open split: asm_splits)
next
  case DoCapability
  obtain p where "session s = Some p" using assms(3) by (auto simp: if_open_def)
  with DoCapability assms show ?thesis by (auto simp: doCapability_def dest!: if_kept split: asm_splits)
next
  case (Secret s)
  with assms show ?thesis by (auto intro: run_secret_open)
next
  case DoIPSecOnDemandMatch
  have "process_options env (run_domains env) ipsecOnDemandOptions argv s = Ret (ok, t) \<Longrightarrow> if_open s \<Longrightarrow> if_open t" for ok t
    by (erule nested_open) (auto intro: run_domains_open)
  with DoIPSecOnDemandMatch assms show ?thesis by (auto simp: doIPSecOnDemandMatch_def split: asm_splits)
next
  case DoPPPIPSec
  have n: "process_options env (run_secret env api i) l2tp_ipsecOptions argv s = Ret (ok, t) \<Longrightarrow> if_open s \<Longrightarrow> if_open t"
    for argv s ok t using assms(2) by (elim nested_open) (auto intro: run_secret_open)
  from DoPPPIPSec assms show ?thesis
    by (auto simp: doPPPIPSec_def intro: on_own_open if_stays n split: asm_splits)
qed (use assms in \<open>auto simp: secret_defs dest: set_secret_open set_secret_type_open\<close>)

lemma validate_open: "validateMediaOptions api i s = (ok, s') \<Longrightarrow> if_open s' = if_open s"
  by (auto simp: validateMediaOptions_def validate_mtu_def validate_media_def Let_def split: asm_splits)

lemma interface_options_open:
  "process_options env (run_if env api i) options argv s = Ret (ok, s') \<Longrightarrow> if_stays_open api \<Longrightarrow> if_open s \<Longrightarrow> if_open s'"
  by (erule nested_open) (auto intro: run_if_open)

lemma set_interface_of_type_open:
  assumes "set_interface_of_type t env api i argv s = Ret (ok, s')" "if_stays_open api" "if_open s"
  shows "if_open s'"
proof -
  have m: "set_interface_media options env api i argv s = Ret (ok, s') \<Longrightarrow> if_open s'" for options
    using assms(2,3)
    by (auto simp: set_interface_media_def dest: interface_options_open validate_open split: asm_splits)
  have p: "set_interface_plain options env api i argv s = Ret (ok, s') \<Longrightarrow> if_open s'" for options
    using assms(2,3) by (auto simp: set_interface_plain_def dest: interface_options_open)
  from assms(1,3) m p show ?thesis
    by (auto simp: set_interface_of_type_def set_interface_bond_def set_interface_bridge_def set_interface_airport_def
        set_interface_ethernet_def set_interface_firewire_def set_interface_ipsec_def set_interface_modem_def
        set_interface_ppp_def set_interface_vpn_def set_interface_vlan_def split: asm_splits)
qed

lemma set_interface_open:
  assumes "set_interface env api sel argv x = Ret (out, x')" "if_stays_open api" "xs_session x \<noteq> None"
  shows "xs_session x' \<noteq> None"
proof (cases "sel = None \<or> argv = []")
  case True
  with assms show ?thesis by (auto simp: set_interface_def split: option.splits)
next
  case False
  then obtain i where i: "sel = Some i" "argv \<noteq> []" by auto
  let ?c = "ia_config api (xs_session x) i"
  obtain ok t where t: "set_interface_of_type (ia_type api (xs_session x) i) env api i argv
      \<lparr>os_config = working_copy ?c, os_out = [], os_extra = x\<rparr> = Ret (ok, t)"
    using assms(1) i by (auto simp: set_interface_def Let_def)
  have o: "if_open t"
    by (rule set_interface_of_type_open [OF t assms(2)]) (use assms(3) in \<open>simp add: if_open_def session_def\<close>)
  then obtain q where "session t = Some q" by (auto simp: if_open_def)
  with assms(1,2) i t o show ?thesis
    by (auto simp: set_interface_def Let_def if_open_def session_def set_session_def mark_changed_def dest!: if_kept split: asm_splits)
qed
end
