(* ===== verification/NetToolRun.thy ===== *)
theory NetToolRun
  imports NetToolInv
begin

text \<open>
  The commands of net.c keep the invariant, so it holds in every state that a run of network commands reaches.
\<close>

lemma set_selected_interface_tidy:
  assumes "set_selected_interface api argv s = Ret s'" "net_stays_open api" "tidy s"
  shows "tidy s'"
proof -
  have i: "if_stays_open (na_if api)" using assms(2) by (simp add: net_stays_open_def)
  show ?thesis
    using assms(1,3) set_interface_open [OF _ i]
    by (auto simp: set_selected_interface_def tidy_def)
qed

section \<open>The table\<close>

definition keeps_tidy :: "('p, 'i, 'h, 'q, 's) net_api \<Rightarrow> ('p, 'i, 'h, 'q, 's) net_command option \<Rightarrow> bool" where
  "keeps_tidy api cmd \<longleftrightarrow> (\<forall>f argv s s'. cmd = Some f \<longrightarrow> f api argv s = Ret s' \<longrightarrow> tidy s \<longrightarrow> tidy s')"

lemma keeps_tidy_simps [simp]:
  "keeps_tidy api None"
  "keeps_tidy api (Some f) \<longleftrightarrow> (\<forall>argv s s'. f api argv s = Ret s' \<longrightarrow> tidy s \<longrightarrow> tidy s')"
  by (simp_all add: keeps_tidy_def)

lemmas command_tidy = create_set_tidy remove_set_tidy select_set_tidy set_set_tidy show_set_tidy show_sets_tidy
  create_service_tidy enable_service_tidy remove_service_tidy select_service_tidy set_service_tidy show_service_tidy
  show_services_tidy create_protocol_tidy enable_protocol_tidy remove_protocol_tidy select_protocol_tidy
  set_protocol_tidy show_protocol_tidy show_protocols_tidy create_interface_tidy select_interface_tidy
  set_selected_interface_tidy show_interface_tidy show_interfaces_tidy

lemma net_keys_tidy:
  assumes "net_stays_open api" "r \<in> set net_keys"
  shows "keeps_tidy api (nk_create r)" "keeps_tidy api (nk_disable r)" "keeps_tidy api (nk_enable r)"
    "keeps_tidy api (nk_select r)" "keeps_tidy api (nk_set r)" "keeps_tidy api (nk_show r)" "keeps_tidy api (nk_remove r)"
  using assms by (auto simp: net_keys_def net_key_def dest: command_tidy)

lemma checked_tidy:
  assumes "checked_operation what func api argv s = Ret s'" "tidy s" "\<And>r. r \<in> set net_keys \<Longrightarrow> keeps_tidy api (func r)"
  shows "tidy s'"
proof (cases argv)
  case Nil
  with assms(1) show ?thesis by (simp add: checked_operation_def)
next
  case (Cons key args)
  show ?thesis
  proof (cases "Option.bind (findNetKey key net_keys) func")
    case None
    with assms(1,2) Cons show ?thesis by (auto simp: checked_operation_def)
  next
    case (Some f)
    then obtain r where "findNetKey key net_keys = Some r" "func r = Some f" by (auto simp: bind_eq_Some_conv)
    moreover from this have "r \<in> set net_keys" by (auto simp: findNetKey_def find_Some_iff)
    ultimately show ?thesis
      using assms(1,2) Cons Some assms(3) [of r] by (auto simp: checked_operation_def)
  qed
qed

lemma unchecked_is_checked:
  "unchecked_operation what func api argv s = Ret s' \<Longrightarrow> checked_operation what func api argv s = Ret s'"
  by (auto simp: unchecked_operation_def checked_operation_def split: list.splits option.splits)

lemma close_all_tidy: "tidy (close_all s)"
  by (simp add: close_all_def net_close_def tidy_def)

lemma commitRequired_frame: "net_commitRequired argv cmd s = (b, s') \<Longrightarrow> tidy s \<Longrightarrow> tidy s'"
  by (auto simp: net_commitRequired_def prefs_commitRequired_def tidy_def sess_def print_note_def split: if_splits)

lemma do_net_open_tidy:
  assumes "do_net_open api argv s = Ret s'" "tidy s"
  shows "tidy s'"
proof -
  obtain b s1 where r: "(if sess s = None then (False, s) else net_commitRequired argv ''close'' s) = (b, s1)"
    by fastforce
  then have s1: "tidy s1" using assms(2) commitRequired_frame [of argv "''close''" s] by (auto split: if_splits)
  show ?thesis
  proof (cases b)
    case True
    with assms(1) r s1 show ?thesis by (auto simp: do_net_open_def)
  next
    case False
    let ?s2 = "if sess s = None then s1 else close_all s1"
    have n: "nt_set ?s2 = None \<and> nt_service ?s2 = None \<and> nt_protocol ?s2 = None \<and> nt_sets ?s2 = None \<and>
        nt_services ?s2 = None \<and> nt_protocols ?s2 = None"
      using r assms(2) by (auto simp: close_all_def net_close_def tidy_def split: if_splits)
    obtain ok e w where o: "prefs_open (na_prefs api) ''scutil --net'' (if argv = [] then None else Some (hd argv))
        (sc_world (nt_tool ?s2)) = ((ok, e), w)" by (metis surj_pair)
    have w: "ok \<longleftrightarrow> pw_prefs w \<noteq> None"
      using o by (auto simp: prefs_open_def Let_def split: option.splits prod.splits)
    from assms(1) False r o have "s' = (if ok
        then let s3 = net_world (\<lambda>_. w) ?s2; net_set = na_current_set api (sess s3); s4 = s3\<lparr>nt_set := net_set\<rparr>
             in case net_set of None \<Rightarrow> s4 | Some st \<Rightarrow> set_note api st False ''set'' '' selected'' s4
        else net_notes [Msg ''Could not open prefs: '', Status e] (net_world (\<lambda>_. w) ?s2))"
      by (cases ok) (auto simp: do_net_open_def)
    with n w show ?thesis by (auto simp: tidy_def Let_def split: option.splits)
  qed
qed

lemma tidy_set_sess: "tidy s \<Longrightarrow> (sess s \<noteq> None \<Longrightarrow> p \<noteq> None) \<Longrightarrow> tidy (set_sess p s)"
  by (auto simp: tidy_def)

lemma do_net_commit_tidy: "do_net_commit api argv s = Ret s' \<Longrightarrow> net_stays_open api \<Longrightarrow> tidy s \<Longrightarrow> tidy s'"
  by (auto simp: do_net_commit_def net_call_def tidy_def Let_def sess_def [symmetric] dest!: kept split: asm_splits)

lemma do_net_apply_tidy: "do_net_apply api argv s = Ret s' \<Longrightarrow> net_stays_open api \<Longrightarrow> tidy s \<Longrightarrow> tidy s'"
  by (auto simp: do_net_apply_def net_call_def tidy_def Let_def dest!: kept split: asm_splits)

lemma do_net_close_tidy: "do_net_close api argv s = Ret s' \<Longrightarrow> tidy s \<Longrightarrow> tidy s'"
  by (auto simp: do_net_close_def close_all_tidy dest: commitRequired_frame split: asm_splits)

lemma tidy_tool: "tidy (s\<lparr>nt_tool := (nt_tool s)\<lparr>sc_termRequested := b\<rparr>\<rparr>) = tidy s"
  by (simp add: tidy_def sess_def)

lemma do_net_quit_tidy: "do_net_quit api argv s = Ret s' \<Longrightarrow> tidy s \<Longrightarrow> tidy s'"
  by (auto simp: do_net_quit_def close_all_tidy tidy_tool Let_def dest: commitRequired_frame split: asm_splits)

lemma do_net_update_tidy: "do_net_update api argv s = Ret s' \<Longrightarrow> net_stays_open api \<Longrightarrow> tidy s \<Longrightarrow> tidy s'"
  by (auto simp: do_net_update_def tidy_def Let_def dest!: kept split: asm_splits)

lemma do_net_migrate_tidy: "do_net_migrate ma api argv s = Ret s' \<Longrightarrow> tidy s \<Longrightarrow> tidy s'"
  by (auto simp: do_net_migrate_def Let_def simp del: obind_eq_Ret elim!: obind_RetE split: asm_splits)

lemma companion_sess [simp]: "sess (with_companion ma s) = sess s"
  by (auto simp: with_companion_def net_world_def upd_world_def sess_def split: option.splits)

lemma reboot_sess [simp]: "sess (reboot_note m s) = sess s"
  by (simp add: reboot_note_def)

lemma clean_kept: "ma_clean ma (Some p) nip = (b, p', nip') \<Longrightarrow> maint_stays_open ma \<Longrightarrow> \<exists>q. p' = Some q"
  unfolding maint_stays_open_def by (metis fst_conv snd_conv not_Some_eq)

lemma upgrade_kept:
  assumes "ma_upgrade ma (Some (Some p)) nip c = (b, p', nip')" "maint_stays_open ma"
  shows "\<exists>q. (case p' of None \<Rightarrow> Some p | Some x \<Rightarrow> x) = Some q"
proof -
  have "case fst (snd (ma_upgrade ma (Some (Some p)) nip c)) of None \<Rightarrow> True | Some x \<Rightarrow> x \<noteq> None"
    using assms(2) by (simp add: maint_stays_open_def)
  with assms(1) show ?thesis by (simp split: option.splits)
qed

lemma do_net_clean_tidy:
  assumes "do_net_clean ma api argv s = Ret s'" "maint_stays_open ma" "tidy s"
  shows "tidy s'"
proof (cases "sess s")
  case None
  with assms(1,3) show ?thesis by (auto simp: do_net_clean_def)
next
  case (Some p)
  then have w: "pw_prefs (sc_world (nt_tool (with_companion ma s))) = Some p"
    by (metis companion_sess sess_def)
  show ?thesis
    using assms(1,2) Some
    by (auto simp: do_net_clean_def Let_def w tidy_def dest!: clean_kept split: asm_splits)
qed

lemma upgraded_notes_sess [simp]: "sess (upgraded_notes u c s) = sess s"
  by (simp add: upgraded_notes_def Let_def)

lemma do_net_upgrade_tidy:
  assumes "do_net_upgrade ma api argv s = Ret s'" "maint_stays_open ma" "tidy s"
  shows "tidy s'"
proof (cases "sess s")
  case None
  with assms(1,3) show ?thesis by (auto simp: do_net_upgrade_def)
next
  case (Some p)
  then have w: "pw_prefs (sc_world (nt_tool s)) = Some p" "pw_prefs (sc_world (nt_tool (with_companion ma s))) = Some p"
    by (metis companion_sess sess_def)+
  have "sess s' \<noteq> None"
    using assms(1,2) Some
    by (auto simp: do_net_upgrade_def Let_def w dest!: upgrade_kept split: asm_splits)
  then show ?thesis by (simp add: tidy_def)
qed

section \<open>Every run\<close>

inductive net_reachable ::
    "'p maint_api \<Rightarrow> ('p, 'i, 'h, 'q, 's) net_api \<Rightarrow> ('p, 'i, 'h, 'q, 's) net_state \<Rightarrow> bool"
  for ma api where
  start: "net_reachable ma api net_start"
| run: "net_reachable ma api s \<Longrightarrow> run_net ma api h argv s = Some (Ret s') \<Longrightarrow> net_reachable ma api s'"

lemma run_net_tidy:
  assumes "run_net ma api h argv s = Some (Ret s')" "net_stays_open api" "maint_stays_open ma" "tidy s"
  shows "tidy s'"
  using assms
  by (cases h)
    (auto simp: run_net_def do_net_create_def do_net_disable_def do_net_enable_def do_net_remove_def do_net_select_def
      do_net_set_def do_net_show_def
      intro: checked_tidy net_keys_tidy
      dest: unchecked_is_checked do_net_open_tidy do_net_commit_tidy do_net_apply_tidy do_net_close_tidy do_net_quit_tidy
        do_net_update_tidy do_net_migrate_tidy do_net_clean_tidy do_net_upgrade_tidy)

lemma net_reachable_tidy:
  assumes "net_reachable ma api s" "net_stays_open api" "maint_stays_open ma"
  shows "tidy s"
  using assms(1)
proof induction
  case start
  show ?case by (simp add: net_start_def tidy_def)
next
  case (run s h argv s')
  then show ?case using run_net_tidy assms(2,3) by blast
qed

text \<open>
  C16. In every state that the network commands reach, a set, a service or a protocol is selected, or kept in
  a list, only while a configuration is open. It rests on calls of the framework that do not close the session,
  and holds whatever was opened, closed, selected, removed or refused before.
\<close>

theorem net_selection_needs_configuration:
  assumes "net_reachable ma api s" "net_stays_open api" "maint_stays_open ma" "sess s = None"
  shows "nt_set s = None \<and> nt_service s = None \<and> nt_protocol s = None \<and> nt_sets s = None \<and> nt_services s = None \<and>
    nt_protocols s = None"
  using net_reachable_tidy [OF assms(1-3)] assms(4) by (simp add: tidy_def)

definition sample_maint :: "'p maint_api" where
  "sample_maint = \<lparr>ma_companion = \<lambda>p _. Some p, ma_clean = \<lambda>p nip. (False, p, nip), ma_upgrade = \<lambda>p nip _. (False, p, nip),
     ma_migrate = \<lambda>_ _ _. None, ma_identical = (=)\<rparr>"

lemma sample_stays: "net_stays_open sample_net" "maint_stays_open sample_maint"
  by (simp_all add: net_stays_open_def if_stays_open_def maint_stays_open_def stays_def sample_net_def sample_api_def
      sample_prefs_def sample_maint_def accepted_def)

lemma sample_run:
  "\<exists>s1 s2. run_net sample_maint sample_net Do_net_open [] net_start = Some (Ret s1) \<and> nt_set s1 = Some 0 \<and>
     run_net sample_maint sample_net Do_net_close [''!''] s1 = Some (Ret s2) \<and> sess s2 = None"
  by (simp add: run_net_def do_net_open_def do_net_close_def net_start_def sess_def net_world_def upd_world_def
      prefs_open_def sample_prefs_def sample_net_def close_all_def net_close_def prefs_close_def set_note_def net_note_def
      print_note_def net_commitRequired_def prefs_commitRequired_def prefs_open_options_def Let_def)

lemma net_selection_needs_configuration_witness:
  "\<exists>s1 s2. run_net sample_maint sample_net Do_net_open [] net_start = Some (Ret s1) \<and> nt_set s1 = Some 0 \<and>
     run_net sample_maint sample_net Do_net_close [''!''] s1 = Some (Ret s2) \<and> nt_set s2 = None"
proof -
  obtain s1 s2 where r: "run_net sample_maint sample_net Do_net_open [] net_start = Some (Ret s1)" "nt_set s1 = Some 0"
    "run_net sample_maint sample_net Do_net_close [''!''] s1 = Some (Ret s2)" "sess s2 = None" using sample_run by blast
  have "net_reachable sample_maint sample_net s2" using r(1,3) by (blast intro: net_reachable.intros)
  from net_selection_needs_configuration [OF this sample_stays r(4)] r show ?thesis by blast
qed

end
