(* ===== verification/NetToolGaps.thy ===== *)
theory NetToolGaps
  imports NetToolProps
begin

text \<open>
  Where the network commands do less or more than they should: functions that are not there, lists of the set
  that was selected before, changes that are forgotten.
\<close>

section \<open>Functions and arguments that are not there\<close>

text \<open>\<open>set\<close> does not look whether an object has a function for it.\<close>

lemma do_net_set_null:
  "key \<in> {''interfaces'', ''services'', ''protocols'', ''sets''} \<Longrightarrow> do_net_set api (key # args) s = UB"
  by (auto simp: do_net_set_def unchecked_operation_def findNetKey_def net_keys_def net_key_def)

text \<open>\<open>show\<close> does not either, but every object has one.\<close>

lemma do_net_show_defined: "r \<in> set net_keys \<Longrightarrow> nk_show r \<noteq> None"
  by (auto simp: net_keys_def net_key_def)

text \<open>The set is used before it is looked whether there is one, and the message for it is never printed.\<close>

lemma set_service_order_no_set: "nt_set s = None \<Longrightarrow> set_service_order api h argv s = UB"
  by (simp add: set_service_order_def)

text \<open>Removing a set by its name while none is selected compares it with NULL.\<close>

lemma remove_set_without_selection:
  assumes "find_set api a s = Ret (Some st, s1)" "nt_set s1 = None" "na_remove_set api st (sess s1) = ((True, e), p)"
  shows "remove_set api [a] s = UB"
  using assms by (simp add: remove_set_def named_or_selected_def Let_def)

lemma migrate_one_argument: "do_net_migrate ma api [''perform'', a] s = UB" "do_net_migrate ma api [''validate'', a] s = UB"
  by (simp_all add: do_net_migrate_def Let_def)

text \<open>Any second argument of \<open>rank\<close> is its \<open>temp\<close>; without an active service nothing is there to release.\<close>

lemma set_service_rank_swallows:
  assumes "na_active_service api (na_service_id api (sess s) h) = None"
  shows "set_service_rank api h [''Never'', ''name'', ''Office''] s = UB"
proof -
  have "rank_arg True ''Never'' = Some Rank_never" by code_simp
  with assms show ?thesis by (simp add: set_service_rank_def)
qed

section \<open>Lists of another set\<close>

text \<open>The removed set stays selected.\<close>

lemma removed_set_selected:
  assumes "nt_set s = Some st" "na_remove_set api st (sess s) = ((True, e), p)"
  shows "\<exists>s'. remove_set api [] s = Ret s' \<and> nt_set s' = Some st"
  using assms by (simp add: remove_set_def named_or_selected_def Let_def)

text \<open>Selecting another set deselects the service, but keeps the lists that services and protocols are picked from.\<close>

lemma select_set_keeps_lists:
  "select_set api argv s = Ret s' \<Longrightarrow> nt_services s' = nt_services s \<and> nt_protocols s' = nt_protocols s"
  by (auto simp: select_set_def find_set_def copy_sets_def picked_def Let_def
      split: list.splits option.splits sum.splits if_splits)

lemma stale_service_selected:
  assumes "select_set api [a] s = Ret s1" "nt_services s = Some l" "List.find (\<lambda>h. name = na_service_id api (sess s1) h) l = Some h"
    and "oe_utf8 (na_env api) b = Some name" "l \<noteq> []"
  shows "\<exists>s2. select_service api [b] s1 = Ret s2 \<and> nt_service s2 = Some h"
proof -
  from select_set_keeps_lists [OF assms(1)] assms(2) have l: "nt_services s1 = Some l" by simp
  have "pick (na_env api) what (\<lambda>name h. name = na_service_id api (sess s1) h) stages many True l b = Ret (Some h, [])"
    for what stages many using assms(3-5) by (simp add: pick_def)
  then have "find_service api b s1 = Ret (Some h, s1)"
    using l by (simp add: find_service_def picked_def net_notes_def Let_def)
  then show ?thesis by (cases "na_service_interface api (sess s1) h") (simp_all add: select_service_def Let_def)
qed

text \<open>A protocol from such a list is removed from no service at all.\<close>

lemma protocol_without_service:
  assumes "nt_service s = None" "nt_protocol s = Some q"
    and "na_remove_protocol api None (na_protocol_type api (sess s) q) (sess s) = ((False, e), p)"
  shows "remove_protocol api [] s = Ret (net_note (Status e) (set_sess p s))"
  using assms by (simp add: remove_protocol_def protocol_argument_def named_or_selected_def net_call_def Let_def)

section \<open>Changes that are forgotten\<close>

text \<open>
  \<open>clean\<close> and \<open>upgrade\<close> change the interfaces of the companion session and say to commit; \<open>commit\<close> saves the
  other session only, and \<open>close\<close> then drops the companion without a word.
\<close>

lemma commit_forgets_companion:
  assumes "sp_commit (na_prefs api) (sess s) = ((True, e), p)" "do_net_commit api [] s = Ret s1" "do_net_close api [] s1 = Ret s2"
  shows "pw_ni_prefs (sc_world (nt_tool s1)) = pw_ni_prefs (sc_world (nt_tool s)) \<and> \<not> pw_changed (sc_world (nt_tool s1)) \<and>
    pw_ni_prefs (sc_world (nt_tool s2)) = None \<and> sc_out (nt_tool s2) = sc_out (nt_tool s1)"
  using assms
  by (auto simp: do_net_commit_def net_call_def Let_def set_sess_def net_world_def upd_world_def do_net_close_def
      net_commitRequired_def prefs_commitRequired_def close_all_def net_close_def prefs_close_def)

text \<open>A capability is stored in the session, and the session does not count as changed.\<close>

lemma capability_not_flagged:
  assumes "ia_set_capability api i key v (session s) = ((True, e), p)" "switch_on a" "\<not> switch_off a" "a \<noteq> []"
    and "v = Some (CFNumberRef True)"
  shows "session (snd (doCapability api i key d (a # argv) s)) = p \<and>
    xs_changed (os_extra (snd (doCapability api i key d (a # argv) s))) = xs_changed (os_extra s)"
  using assms by (simp add: doCapability_def updateInterfaceConfiguration_def session_def set_session_def)

text \<open>The argument that abandons changes is also the path that is opened.\<close>

lemma open_abandon_path:
  assumes "sess s = None" "sp_utf8 (na_prefs api) ''!'' = Some ''!''" "sp_euid (na_prefs api) = 0"
    and "prefs_open_options (na_prefs api) = None" "sp_create (na_prefs api) Create_plain ''scutil --net'' (Some ''!'') = (Some p, e)"
  shows "\<exists>s'. do_net_open api [''!''] s = Ret s' \<and> pw_path (sc_world (nt_tool s')) = Some ''!''"
  using assms
  by (auto simp: do_net_open_def prefs_open_def Let_def net_world_def upd_world_def set_note_def net_note_def print_note_def
      split: option.splits)

end
