(* ===== verification/NetShow.thy ===== *)
theory NetShow
  imports NetMain
begin

text \<open>
  How \<open>show\<close> describes protocols and interfaces in a line (net_protocol.c, net_interface.c). \<open>fmt\<close> is how
  the format \<open>%@\<close> shows an object that is no text.
\<close>

section \<open>Protocols\<close>

definition object_text :: "(plist \<Rightarrow> string) \<Rightarrow> plist \<Rightarrow> string" where
  "object_text fmt v = (case v of CFString t \<Rightarrow> t | _ \<Rightarrow> fmt v)"

text \<open>The texts of an array with commas between them; an element that is no text is \<open>UB\<close>.\<close>

fun combined :: "plist list \<Rightarrow> string outcome" where
  "combined [] = Ret []"
| "combined [CFString t] = Ret t"
| "combined (CFString t # v # vs) = obind (combined (v # vs)) (\<lambda>r. Ret (t @ '','' @ r))"
| "combined _ = UB"

definition append_list :: "string \<Rightarrow> string \<Rightarrow> plist option \<Rightarrow> string \<Rightarrow> string outcome" where
  "append_list sep label v description =
     (case isA_CFArray v of
        None \<Rightarrow> Ret description
      | Some l \<Rightarrow> obind (combined l) (\<lambda>str. Ret (description @ (if description \<noteq> [] then sep else []) @ label @ str)))"

definition first_object :: "(plist \<Rightarrow> string) \<Rightarrow> plist list \<Rightarrow> string outcome" where
  "first_object fmt l = (case l of [] \<Rightarrow> UB | v # _ \<Rightarrow> Ret (object_text fmt v))"

definition dns_description :: "dict \<Rightarrow> string outcome" where
  "dns_description c =
     obind (append_list '', '' ''search='' (fmlookup c ''SearchDomains'')
              (case isA_CFString (fmlookup c ''DomainName'') of None \<Rightarrow> [] | Some domain \<Rightarrow> ''domain='' @ domain))
       (append_list '', '' ''servers='' (fmlookup c ''ServerAddresses''))"

definition ipv4_description :: "(plist \<Rightarrow> string) \<Rightarrow> dict \<Rightarrow> string outcome" where
  "ipv4_description fmt c =
     (case isA_CFString (fmlookup c ''ConfigMethod'') of
        None \<Rightarrow> Ret []
      | Some m \<Rightarrow>
          (case (m, isA_CFArray (fmlookup c ''Addresses'')) of
             (_, None) \<Rightarrow> Ret m
           | (_, Some addresses) \<Rightarrow>
               if m = ''INFORM'' then obind (first_object fmt addresses) (\<lambda>a. Ret (m @ '', address='' @ a))
               else if m = ''Manual'' then
                 obind (first_object fmt addresses) (\<lambda>a.
                 obind (case isA_CFArray (fmlookup c ''SubnetMasks'') of
                          None \<Rightarrow> Ret []
                        | Some masks \<Rightarrow> obind (first_object fmt masks) (\<lambda>x. Ret ('', mask='' @ x))) (\<lambda>mask.
                   Ret (m @ '', address='' @ a @ mask @
                        (case isA_CFString (fmlookup c ''Router'') of None \<Rightarrow> [] | Some r \<Rightarrow> '', router='' @ r))))
               else Ret m))"

definition ipv6_description :: "dict \<Rightarrow> string" where
  "ipv6_description c = (case isA_CFString (fmlookup c ''ConfigMethod'') of None \<Rightarrow> [] | Some m \<Rightarrow> m)"

definition described_proxies :: "proxyKeys list" where
  "described_proxies =
     [proxyKeys_FTP, proxyKeys_Gopher, proxyKeys_HTTP, proxyKeys_HTTPS, proxyKeys_RTSP, proxyKeys_SOCKS, proxyKeys_PAC,
      proxyKeys_WPAD]"

definition proxy_described :: "dict \<Rightarrow> proxyKeys \<Rightarrow> bool" where
  "proxy_described c p \<longleftrightarrow>
     proxy_enabled c (pk_keyEnable p) \<and>
     (case pk_keyProxy p of None \<Rightarrow> True | Some k \<Rightarrow> fmlookup c k \<noteq> None) \<and>
     (case pk_keyURL p of None \<Rightarrow> True | Some k \<Rightarrow> fmlookup c k \<noteq> None)"

definition proxies_description :: "dict \<Rightarrow> string" where
  "proxies_description c =
     foldl (\<lambda>description p. description @ (if description \<noteq> [] then '', '' else []) @ pk_proxy p) []
       (filter (proxy_described c) described_proxies)"

text \<open>There is nothing between the name and the workgroup.\<close>

definition smb_description :: "dict \<Rightarrow> string outcome" where
  "smb_description c =
     append_list '', '' ''WINS servers='' (fmlookup c ''WINSAddresses'')
       ((case isA_CFString (fmlookup c ''NetBIOSName'') of None \<Rightarrow> [] | Some n \<Rightarrow> ''NetBIOS name='' @ n) @
        (case isA_CFString (fmlookup c ''Workgroup'') of None \<Rightarrow> [] | Some w \<Rightarrow> ''Workgroup='' @ w))"

definition protocol_description ::
    "(plist \<Rightarrow> string) \<Rightarrow> bool \<Rightarrow> string \<Rightarrow> dict option \<Rightarrow> bool \<Rightarrow> string option outcome" where
  "protocol_description fmt enabled protocolType configuration skipEmpty =
     obind (case (enabled, configuration) of
              (True, Some c) \<Rightarrow>
                if protocolType = ''DNS'' then dns_description c
                else if protocolType = ''IPv4'' then ipv4_description fmt c
                else if protocolType = ''IPv6'' then Ret (ipv6_description c)
                else if protocolType = ''Proxies'' then Ret (proxies_description c)
                else if protocolType = ''SMB'' then smb_description c
                else Ret []
            | _ \<Rightarrow> Ret []) (\<lambda>description.
       Ret (if skipEmpty \<and> description = [] then None else Some description))"

section \<open>Interfaces\<close>

text \<open>
  An interface with its layers, the topmost first. Each layer is described with the layers below it, up to the one
  for IPv4, and the loop goes on with the next layer.
\<close>

function if_description :: "('i \<Rightarrow> string) \<Rightarrow> ('i \<Rightarrow> bool) \<Rightarrow> 'i list \<Rightarrow> string"
  and below_description :: "('i \<Rightarrow> string) \<Rightarrow> ('i \<Rightarrow> bool) \<Rightarrow> 'i list \<Rightarrow> string" where
  "if_description name stop [] = []"
| "if_description name stop (i # below) = name i @ below_description name stop below"
| "below_description name stop [] = []"
| "below_description name stop (c # below) =
     (if stop c then [] else '' / '' @ if_description name stop (c # below) @ below_description name stop below)"
  by pat_completeness auto

termination
  by (relation "measure (case_sum (\<lambda>(_, _, l). 2 * length l) (\<lambda>(_, _, l). 2 * length l + 1))") auto

definition layer_name :: "('p, 'i) if_api \<Rightarrow> 'p option \<Rightarrow> 'i \<Rightarrow> string" where
  "layer_name api p i = ia_type api p i @ (case ia_bsd_name api p i of None \<Rightarrow> [] | Some n \<Rightarrow> '' ('' @ n @ '')'')"

definition interface_description :: "('p, 'i, 'h, 'q, 's) net_api \<Rightarrow> 'p option \<Rightarrow> 'i \<Rightarrow> string" where
  "interface_description api p i =
     if_description (layer_name (na_if api) p) (\<lambda>c. c = na_ipv4 api) (i # ia_layers (na_if api) p i)"

end
