(* ===== verification/NetShowProps.thy ===== *)
theory NetShowProps
  imports NetShow ProxyProps
begin

text \<open>
  What \<open>set protocol\<close> has made can be shown, and how the descriptions go wrong.
\<close>

section \<open>Descriptions of what was set\<close>

lemma combined_texts: "are_texts v \<Longrightarrow> v = CFArray l \<Longrightarrow> \<exists>t. combined l = Ret t"
proof -
  assume "are_texts v" "v = CFArray l"
  then obtain ts where "l = map CFString ts" by (auto simp: are_texts_def)
  moreover have "\<exists>t. combined (map CFString ts) = Ret t"
    by (induction ts rule: induct_list012) auto
  ultimately show ?thesis by simp
qed

lemma append_list_Ret:
  assumes "\<And>x. v = Some x \<Longrightarrow> are_texts x"
  shows "\<exists>d'. append_list sep label v d = Ret d'"
proof (cases "isA_CFArray v")
  case (Some l)
  then have "v = Some (CFArray l)" by (cases v rule: isA_CFArray.cases) auto
  with assms combined_texts have "\<exists>t. combined l = Ret t" by blast
  with Some show ?thesis by (auto simp: append_list_def)
qed (simp add: append_list_def)

lemma first_object_Ret:
  assumes "\<And>x. v = Some x \<Longrightarrow> one_text x" "isA_CFArray v = Some l"
  shows "\<exists>d. first_object fmt l = Ret d"
  using assms by (cases v rule: isA_CFArray.cases) (auto simp: one_text_def first_object_def)

text \<open>A configuration all of whose entries are as the commands store them.\<close>

definition shown_types :: "string \<Rightarrow> dict \<Rightarrow> bool" where
  "shown_types pt c \<longleftrightarrow> (\<forall>k v. fmlookup c k = Some v \<longrightarrow> well_typed pt k v)"

lemma shown_entries:
  "shown_types ''DNS'' c \<Longrightarrow> fmlookup c ''SearchDomains'' = Some v \<Longrightarrow> are_texts v"
  "shown_types ''DNS'' c \<Longrightarrow> fmlookup c ''ServerAddresses'' = Some v \<Longrightarrow> are_texts v"
  "shown_types ''IPv4'' c \<Longrightarrow> fmlookup c ''Addresses'' = Some v \<Longrightarrow> one_text v"
  "shown_types ''IPv4'' c \<Longrightarrow> fmlookup c ''SubnetMasks'' = Some v \<Longrightarrow> one_text v"
  "shown_types ''SMB'' c \<Longrightarrow> fmlookup c ''WINSAddresses'' = Some v \<Longrightarrow> are_texts v"
  by (force simp: shown_types_def well_typed_def protocol_types_def)+

lemma dns_described: "shown_types ''DNS'' c \<Longrightarrow> \<exists>d. dns_description c = Ret d"
  unfolding dns_description_def
  using append_list_Ret [of "fmlookup c ''SearchDomains''"] append_list_Ret [of "fmlookup c ''ServerAddresses''"]
    shown_entries(1,2) by (metis obind.simps(2))

lemma smb_described: "shown_types ''SMB'' c \<Longrightarrow> \<exists>d. smb_description c = Ret d"
  unfolding smb_description_def by (rule append_list_Ret) (rule shown_entries(5))

lemma ipv4_described:
  assumes "shown_types ''IPv4'' c"
  shows "\<exists>d. ipv4_description fmt c = Ret d"
proof -
  have a: "isA_CFArray (fmlookup c ''Addresses'') = Some l \<Longrightarrow> \<exists>d. first_object fmt l = Ret d" for l
    by (rule first_object_Ret [of "fmlookup c ''Addresses''"]) (use shown_entries(3) [OF assms] in blast)
  have m: "isA_CFArray (fmlookup c ''SubnetMasks'') = Some l \<Longrightarrow> \<exists>d. first_object fmt l = Ret d" for l
    by (rule first_object_Ret [of "fmlookup c ''SubnetMasks''"]) (use shown_entries(4) [OF assms] in blast)
  show ?thesis
    using a m by (fastforce simp: ipv4_description_def split: option.splits)
qed

lemma shown_described:
  assumes "shown_types pt c"
  shows "\<exists>d. protocol_description fmt enabled pt (Some c) skipEmpty = Ret d"
proof (cases enabled)
  case True
  consider "pt = ''DNS''" | "pt = ''IPv4''" | "pt = ''SMB''" | "pt \<noteq> ''DNS''" "pt \<noteq> ''IPv4''" "pt \<noteq> ''SMB''" by blast
  then show ?thesis
  proof cases
    case 1
    with assms obtain d where "dns_description c = Ret d" using dns_described by blast
    with 1 True show ?thesis by (simp add: protocol_description_def)
  next
    case 2
    with assms obtain d where "ipv4_description fmt c = Ret d" using ipv4_described by blast
    with 2 True show ?thesis by (simp add: protocol_description_def)
  next
    case 3
    with assms obtain d where "smb_description c = Ret d" using smb_described by blast
    with 3 True show ?thesis by (simp add: protocol_description_def)
  qed (simp add: protocol_description_def True)
qed (simp add: protocol_description_def)

text \<open>
  C22. What \<open>set protocol\<close> has made from nothing can be described: whatever the arguments, accepted or
  refused, the lists in the configuration have elements and these are texts, so \<open>show protocol\<close> finds the first
  address and mask of IPv4 and joins the domains and servers of DNS and SMB.
\<close>

theorem set_protocol_describable:
  assumes "known_proxy (os_extra s)" "os_config s = fmempty"
    and "set_protocol_of_type env protocolType argv s = Ret (ok, s')"
  shows "\<exists>d. protocol_description fmt enabled protocolType (Some (os_config s')) skipEmpty = Ret d"
proof (rule shown_described)
  show "shown_types protocolType (os_config s')"
    using set_protocol_of_type_typed [OF assms(1,3)] assms(2) by (auto simp: shown_types_def changes_typed_def)
qed

lemma set_protocol_describable_witness:
  "\<exists>d. protocol_description (\<lambda>_. ''object'') True ''SMB'' (Some (fmupd ''Workgroup'' (CFString ''home'') fmempty)) False = Ret d"
proof -
  have "set_protocol_of_type ascii_env ''SMB'' [''workgroup'', ''home''] empty_state =
    Ret (True, empty_state\<lparr>os_config := fmupd ''Workgroup'' (CFString ''home'') (os_config empty_state)\<rparr>)"
    by code_simp
  from set_protocol_describable [OF _ _ this] show ?thesis by (simp add: known_proxy_def empty_state_def)
qed

section \<open>Descriptions that go wrong\<close>

text \<open>An empty list of addresses from elsewhere is read at its first element.\<close>

lemma empty_addresses_crash:
  assumes "fmlookup c ''ConfigMethod'' = Some (CFString ''Manual'')" "fmlookup c ''Addresses'' = Some (CFArray [])"
  shows "protocol_description fmt True ''IPv4'' (Some c) skipEmpty = UB"
  using assms by (simp add: protocol_description_def ipv4_description_def first_object_def)

text \<open>Name and workgroup run together, so different configurations have the same description.\<close>

lemma smb_description_unseparated:
  assumes "fmlookup c ''NetBIOSName'' = Some (CFString n)" "fmlookup c ''Workgroup'' = Some (CFString w)"
    and "fmlookup c ''WINSAddresses'' = None"
  shows "protocol_description fmt True ''SMB'' (Some c) skipEmpty = Ret (Some (''NetBIOS name='' @ n @ ''Workgroup='' @ w))"
  using assms by (simp add: protocol_description_def smb_description_def append_list_def)

text \<open>The layers in the order in which an interface is described: each once more for each layer above it.\<close>

fun repeated_layers :: "'i list \<Rightarrow> 'i list" where
  "repeated_layers [] = []"
| "repeated_layers (c # cs) = c # repeated_layers cs @ repeated_layers cs"

lemma below_repeated:
  "\<forall>c \<in> set cs. \<not> stop c \<Longrightarrow> below_description name stop cs = concat (map (\<lambda>c. '' / '' @ name c) (repeated_layers cs))"
  by (induction cs) simp_all

lemma length_repeated: "Suc (length (repeated_layers cs)) = 2 ^ length cs"
  by (induction cs) simp_all

text \<open>With two layers below it, the last layer of an interface is printed twice.\<close>

lemma interface_description_repeats:
  assumes "ia_layers (na_if api) p i = [a, b]" "a \<noteq> na_ipv4 api" "b \<noteq> na_ipv4 api"
  shows "interface_description api p i =
    layer_name (na_if api) p i @ '' / '' @ layer_name (na_if api) p a @ '' / '' @ layer_name (na_if api) p b @
    '' / '' @ layer_name (na_if api) p b"
  using assms by (simp add: interface_description_def)

end
