(* ===== verification/Nc.thy ===== *)
theory Nc
  imports ScutilNames
begin

text \<open>
  The commands of \<open>scutil --nc\<close> on connections, VPN above all (nc.c).

  The globals of the file are \<open>nc_state\<close>; what the framework and the extensions keep (connections, enabled VPN types,
  the dynamic store) is the world \<open>'w\<close> of that state. Services and connections are type variables, as are the
  interfaces of services. A command ends with an exit code, a \<open>prog\<close>, or it watches: it stays in the run loop, which
  nothing in the program stops, so the code behind \<open>CFRunLoopRun\<close> is not reached. The dates of callbacks, and the fixed help
  texts, are left out.
\<close>

section \<open>The framework\<close>

datatype nc_status = Nc_invalid | Nc_disconnected | Nc_connecting | Nc_connected | Nc_disconnecting | Nc_other int

record demand_info =
  di_service :: "string option"
  di_remote :: "string option"

text \<open>
  Getters of an interface answer NULL for NULL. \<open>ca_events\<close> are the statuses that the run loop has delivered so far,
  \<open>ca_changes\<close> the lists of changed keys. \<open>ca_stream\<close> tells whether there is a stream to read from, and one to write to.
\<close>

record ('p, 'i, 'h, 's, 'c, 'w) nc_api =
  ca_ops :: "'p sp_ops"
  ca_names :: "'p name_ops"
  ca_services :: "'s option \<Rightarrow> 'w \<Rightarrow> 'h list option"
  ca_service_id :: "'h \<Rightarrow> string"
  ca_service_name :: "'h \<Rightarrow> string option"
  ca_service_enabled :: "'h \<Rightarrow> bool"
  ca_service_interface :: "'h \<Rightarrow> 'i option"
  ca_service_is_vpn :: "'h \<Rightarrow> bool"
  ca_below :: "'i option \<Rightarrow> 'i option"
  ca_type :: "'i option \<Rightarrow> string option"
  ca_display :: "'i option \<Rightarrow> string option"
  ca_connect :: "'h \<Rightarrow> 'w \<Rightarrow> sc_status + 'c"
  ca_connection_service :: "'c \<Rightarrow> 'h"
  ca_start :: "'c \<Rightarrow> dict \<Rightarrow> bool \<Rightarrow> 'w \<Rightarrow> (bool \<times> sc_status) \<times> 'w"
  ca_stop :: "'c \<Rightarrow> bool \<Rightarrow> 'w \<Rightarrow> (bool \<times> sc_status) \<times> 'w"
  ca_suspend :: "'c \<Rightarrow> 'w \<Rightarrow> bool \<times> 'w"
  ca_resume :: "'c \<Rightarrow> 'w \<Rightarrow> bool \<times> 'w"
  ca_status :: "'c \<Rightarrow> 'w \<Rightarrow> nc_status"
  ca_error :: "'w \<Rightarrow> sc_status"
  ca_extended :: "'c \<Rightarrow> 'w \<Rightarrow> dict option"
  ca_statistics :: "'c \<Rightarrow> 'w \<Rightarrow> dict option"
  ca_schedule :: "'c \<Rightarrow> bool \<Rightarrow> 'w \<Rightarrow> bool \<times> sc_status"
  ca_events :: "nc_status list"
  ca_changes :: "string list list"
  ca_store :: "'w \<Rightarrow> bool \<times> sc_status"
  ca_value :: "string \<Rightarrow> 'w \<Rightarrow> plist option"
  ca_demand :: "string \<Rightarrow> bool \<Rightarrow> 'w \<Rightarrow> bool \<times> demand_info \<times> sc_status"
  ca_refresh :: "'w \<Rightarrow> (bool \<times> sc_status) \<times> 'w"
  ca_vpn_enabled :: "string \<Rightarrow> 'w \<Rightarrow> bool"
  ca_vpn_authorize :: "authorization \<Rightarrow> 'w \<Rightarrow> bool \<times> sc_status"
  ca_vpn_enable :: "string \<Rightarrow> 'w \<Rightarrow> (bool \<times> sc_status) \<times> 'w"
  ca_bookmark :: "string \<Rightarrow> plist option"
  ca_url :: "string \<Rightarrow> bool"
  ca_ascii :: "string \<Rightarrow> string option"
  ca_set_value :: "'p option \<Rightarrow> string \<Rightarrow> plist \<Rightarrow> 'p option"
  ca_get_value :: "'p option \<Rightarrow> string \<Rightarrow> plist option"
  ca_resolve :: "plist \<Rightarrow> string option"
  ca_current_set :: "'p option \<Rightarrow> 's option"
  ca_enable_service :: "'h \<Rightarrow> 'p option \<Rightarrow> (bool \<times> sc_status) \<times> 'p option"
  ca_stream :: "string \<Rightarrow> int \<Rightarrow> bool \<times> bool"
  ca_intvalue :: "string \<Rightarrow> int"

record ('p, 'c, 'w) nc_state =
  nc_tool :: "'p prefs_tool"
  nc_username :: "string option"
  nc_password :: "string option"
  nc_sharedsecret :: "string option"
  nc_ondemandwatch :: bool
  nc_nodename :: "string option"
  nc_connection :: "'c option"
  nc_callbacks :: nat
  nc_world :: 'w

text \<open>\<open>Watching\<close> has the state after the events so far.\<close>

datatype 'a nc_end = Ended "'a prog" | Watching 'a

definition nc_note :: "out_note \<Rightarrow> ('p, 'c, 'w) nc_state \<Rightarrow> ('p, 'c, 'w) nc_state" where
  "nc_note x s = s\<lparr>nc_tool := print_note x (nc_tool s)\<rparr>"

definition nc_notes :: "out_note list \<Rightarrow> ('p, 'c, 'w) nc_state \<Rightarrow> ('p, 'c, 'w) nc_state" where
  "nc_notes xs s = fold nc_note xs s"

definition nc_prefs :: "('p, 'c, 'w) nc_state \<Rightarrow> 'p option" where
  "nc_prefs s = pw_prefs (sc_world (nc_tool s))"

definition nc_close_prefs :: "('p, 'c, 'w) nc_state \<Rightarrow> ('p, 'c, 'w) nc_state" where
  "nc_close_prefs s = s\<lparr>nc_tool := upd_world prefs_close (nc_tool s)\<rparr>"

section \<open>Services\<close>

text \<open>The type of NULL is compared with \<open>CFEqual\<close>, which does not take it.\<close>

definition nc_get_service_type_and_subtype ::
    "('p, 'i, 'h, 's, 'c, 'w) nc_api \<Rightarrow> 'h \<Rightarrow> (string \<times> string option) outcome" where
  "nc_get_service_type_and_subtype api h =
     (let i = ca_service_interface api h; child = ca_below api i
      in case ca_type api i of
           None \<Rightarrow> UB
         | Some iftype \<Rightarrow>
             Ret (iftype, if iftype = ''PPP'' \<or> iftype = ''VPN''
                          then (if child \<noteq> None then ca_type api child else None) else None))"

text \<open>The loop over the names: the second match ends it with nothing.\<close>

fun select_by_name :: "('h \<Rightarrow> string option) \<Rightarrow> string \<Rightarrow> 'h list \<Rightarrow> 'h option \<Rightarrow> bool \<times> 'h option" where
  "select_by_name name identifier [] selected = (False, selected)"
| "select_by_name name identifier (h # hs) selected =
     (if name h = Some identifier
      then (case selected of None \<Rightarrow> select_by_name name identifier hs (Some h) | Some _ \<Rightarrow> (True, None))
      else select_by_name name identifier hs selected)"

definition nc_copy_service ::
    "('p, 'i, 'h, 's, 'c, 'w) nc_api \<Rightarrow> 's option \<Rightarrow> string \<Rightarrow> ('p, 'c, 'w) nc_state \<Rightarrow> 'h option \<times> ('p, 'c, 'w) nc_state" where
  "nc_copy_service api st identifier s =
     (case ca_services api st (nc_world s) of
        None \<Rightarrow> (None, s)
      | Some services \<Rightarrow>
          (case List.find (\<lambda>h. identifier = ca_service_id api h) services of
             Some h \<Rightarrow> (Some h, s)
           | None \<Rightarrow>
               (case select_by_name (ca_service_name api) identifier services None of
                  (True, _) \<Rightarrow> (None, nc_note (Msg ''Multiple services match'') s)
                | (False, selected) \<Rightarrow> (selected, s))))"

definition nc_copy_service_from_arguments ::
    "('p, 'i, 'h, 's, 'c, 'w) nc_api \<Rightarrow> string list \<Rightarrow> 's option \<Rightarrow> ('p, 'c, 'w) nc_state \<Rightarrow> 'h option \<times> ('p, 'c, 'w) nc_state" where
  "nc_copy_service_from_arguments api argv st s =
     (case (case argv of
              [] \<Rightarrow> fst (copyStringFromSTDIN (sp_utf8 (ca_ops api)) (nm_tty (ca_names api)) (nm_buf (ca_names api)) None
                         (nm_stdin (ca_names api)))
            | a # _ \<Rightarrow> sp_utf8 (ca_ops api) a) of
        None \<Rightarrow> (None, nc_note (Msg ''No service ID specified'') s)
      | Some serviceID \<Rightarrow> nc_copy_service api st serviceID s)"

section \<open>Connections\<close>

fun nc_status_string :: "nc_status \<Rightarrow> string" where
  "nc_status_string Nc_invalid = ''Invalid''"
| "nc_status_string Nc_disconnected = ''Disconnected''"
| "nc_status_string Nc_connecting = ''Connecting''"
| "nc_status_string Nc_connected = ''Connected''"
| "nc_status_string Nc_disconnecting = ''Disconnecting''"
| "nc_status_string (Nc_other _) = ''Unknown''"

text \<open>\<open>counted\<close> tells whether there is a counter of the callbacks.\<close>

definition nc_callback ::
    "('p, 'i, 'h, 's, 'c, 'w) nc_api \<Rightarrow> bool \<Rightarrow> 'c \<Rightarrow> nc_status \<Rightarrow> ('p, 'c, 'w) nc_state \<Rightarrow> ('p, 'c, 'w) nc_state" where
  "nc_callback api counted c status s =
     (let s1 = (if counted
                then nc_note (Msg (if nc_callbacks s = 0 then ''Current status = ''
                                   else ''Callback ('' @ decimal (nc_callbacks s) @ '') status = ''))
                       (s\<lparr>nc_callbacks := Suc (nc_callbacks s)\<rparr>)
                else s);
          s2 = nc_notes (Msg (nc_status_string status) #
                         (if status = Nc_invalid then [Status (ca_error api (nc_world s))] else [])) s1
      in case ca_extended api c (nc_world s) of
           None \<Rightarrow> s2
         | Some d \<Rightarrow> nc_notes [Msg ''Extended Status'', Show_value (CFDictionary d)] s2)"

text \<open>Every command leaves the program when there is no connection.\<close>

definition nc_create_connection ::
    "('p, 'i, 'h, 's, 'c, 'w) nc_api \<Rightarrow> string list \<Rightarrow> ('p, 'c, 'w) nc_state \<Rightarrow> ('p, 'c, 'w) nc_state prog + 'c \<times> ('p, 'c, 'w) nc_state" where
  "nc_create_connection api argv s =
     (case nc_copy_service_from_arguments api argv None s of
        (None, s1) \<Rightarrow> Inl (Exit 1 (nc_note (Msg ''No service'') s1))
      | (Some h, s1) \<Rightarrow>
          (case ca_connect api h (nc_world s1) of
             Inl e \<Rightarrow> Inl (Exit 1 (nc_notes [Msg ''Could not create connection: '', Status e] (s1\<lparr>nc_connection := None\<rparr>)))
           | Inr c \<Rightarrow> Inr (c, s1\<lparr>nc_connection := Some c\<rparr>)))"

definition nc_release_connection :: "('p, 'c, 'w) nc_state \<Rightarrow> ('p, 'c, 'w) nc_state" where
  "nc_release_connection s = s\<lparr>nc_connection := None\<rparr>"

text \<open>A command on a connection, and its end.\<close>

definition ended :: "'a prog outcome \<Rightarrow> 'a nc_end outcome" where
  "ended r = obind r (\<lambda>p. Ret (Ended p))"

definition with_connection ::
    "('p, 'i, 'h, 's, 'c, 'w) nc_api \<Rightarrow> string list \<Rightarrow> ('c \<Rightarrow> ('p, 'c, 'w) nc_state \<Rightarrow> ('p, 'c, 'w) nc_state prog outcome) \<Rightarrow>
     ('p, 'c, 'w) nc_state \<Rightarrow> ('p, 'c, 'w) nc_state prog outcome" where
  "with_connection api argv f s =
     (case nc_create_connection api argv s of Inl r \<Rightarrow> Ret r | Inr (c, s1) \<Rightarrow> f c s1)"

definition nc_done :: "('p, 'c, 'w) nc_state \<Rightarrow> ('p, 'c, 'w) nc_state prog outcome" where
  "nc_done s = Ret (Exit 0 (nc_release_connection s))"

definition set_if :: "string \<Rightarrow> string option \<Rightarrow> dict \<Rightarrow> dict" where
  "set_if k v d = (case v of None \<Rightarrow> d | Some t \<Rightarrow> fmupd k (CFString t) d)"

text \<open>The options of the user for a connection of the type.\<close>

definition user_options :: "string \<Rightarrow> string option \<Rightarrow> ('p, 'c, 'w) nc_state \<Rightarrow> dict" where
  "user_options iftype ifsubtype s =
     (let isL2TP = (iftype = ''PPP'' \<and> ifsubtype = Some ''L2TP'');
          o1 = (if iftype = ''PPP''
                then fmupd ''PPP'' (CFDictionary (set_if ''AuthPassword'' (nc_password s)
                       (set_if ''AuthName'' (nc_username s) fmempty))) fmempty
                else fmempty);
          o2 = (if iftype = ''IPSec'' \<or> isL2TP
                then fmupd ''IPSec'' (CFDictionary (set_if ''SharedSecret'' (nc_sharedsecret s)
                       (if isL2TP then fmempty
                        else set_if ''XAuthPassword'' (nc_password s) (set_if ''XAuthName'' (nc_username s) fmempty)))) o1
                else o1)
      in if iftype = ''VPN''
         then fmupd ''VPN'' (CFDictionary (set_if ''AuthPassword'' (nc_password s)
                (set_if ''AuthName'' (nc_username s) fmempty))) o2
         else o2)"

definition nc_start :: "('p, 'i, 'h, 's, 'c, 'w) nc_api \<Rightarrow> string list \<Rightarrow> ('p, 'c, 'w) nc_state \<Rightarrow> ('p, 'c, 'w) nc_state prog outcome" where
  "nc_start api argv =
     with_connection api argv (\<lambda>c s.
       obind (nc_get_service_type_and_subtype api (ca_connection_service api c)) (\<lambda>(iftype, ifsubtype).
         case ca_start api c (user_options iftype ifsubtype s) True (nc_world s) of
           ((False, e), w) \<Rightarrow> Ret (Exit 1 (nc_notes [Msg ''Could not start connection: '', Status e] (s\<lparr>nc_world := w\<rparr>)))
         | ((True, _), w) \<Rightarrow> nc_done (s\<lparr>nc_world := w\<rparr>)))"

definition nc_stop :: "('p, 'i, 'h, 's, 'c, 'w) nc_api \<Rightarrow> string list \<Rightarrow> ('p, 'c, 'w) nc_state \<Rightarrow> ('p, 'c, 'w) nc_state prog outcome" where
  "nc_stop api argv =
     with_connection api argv (\<lambda>c s.
       case ca_stop api c True (nc_world s) of
         ((False, e), w) \<Rightarrow> Ret (Exit 1 (nc_notes [Msg ''Could not stop connection: '', Status e] (s\<lparr>nc_world := w\<rparr>)))
       | ((True, _), w) \<Rightarrow> nc_done (s\<lparr>nc_world := w\<rparr>))"

definition nc_suspend :: "('p, 'i, 'h, 's, 'c, 'w) nc_api \<Rightarrow> string list \<Rightarrow> ('p, 'c, 'w) nc_state \<Rightarrow> ('p, 'c, 'w) nc_state prog outcome" where
  "nc_suspend api argv = with_connection api argv (\<lambda>c s. nc_done (s\<lparr>nc_world := snd (ca_suspend api c (nc_world s))\<rparr>))"

definition nc_resume :: "('p, 'i, 'h, 's, 'c, 'w) nc_api \<Rightarrow> string list \<Rightarrow> ('p, 'c, 'w) nc_state \<Rightarrow> ('p, 'c, 'w) nc_state prog outcome" where
  "nc_resume api argv = with_connection api argv (\<lambda>c s. nc_done (s\<lparr>nc_world := snd (ca_resume api c (nc_world s))\<rparr>))"

definition nc_status_cmd :: "('p, 'i, 'h, 's, 'c, 'w) nc_api \<Rightarrow> string list \<Rightarrow> ('p, 'c, 'w) nc_state \<Rightarrow> ('p, 'c, 'w) nc_state prog outcome" where
  "nc_status_cmd api argv =
     with_connection api argv (\<lambda>c s. nc_done (nc_callback api False c (ca_status api c (nc_world s)) s))"

definition nc_watch :: "('p, 'i, 'h, 's, 'c, 'w) nc_api \<Rightarrow> string list \<Rightarrow> ('p, 'c, 'w) nc_state \<Rightarrow> ('p, 'c, 'w) nc_state nc_end" where
  "nc_watch api argv s =
     (case nc_create_connection api argv s of
        Inl r \<Rightarrow> Ended r
      | Inr (c, s0) \<Rightarrow>
          let s1 = nc_callback api True c (ca_status api c (nc_world s0)) (s0\<lparr>nc_callbacks := 0\<rparr>)
          in case ca_schedule api c (sc_doDispatch (nc_tool s1)) (nc_world s1) of
               (False, e) \<Rightarrow> Ended (Exit 1 (nc_notes [Msg ''Unable to schedule watch process: '', Status e] s1))
             | (True, _) \<Rightarrow> Watching (fold (nc_callback api True c) (ca_events api) s1))"

definition nc_statistics :: "('p, 'i, 'h, 's, 'c, 'w) nc_api \<Rightarrow> string list \<Rightarrow> ('p, 'c, 'w) nc_state \<Rightarrow> ('p, 'c, 'w) nc_state prog outcome" where
  "nc_statistics api argv =
     with_connection api argv (\<lambda>c s.
       nc_done (nc_note (case ca_statistics api c (nc_world s) of
                           None \<Rightarrow> Msg ''No statistics available'' | Some d \<Rightarrow> Show_value (CFDictionary d)) s))"

section \<open>On demand\<close>

definition show_or_null :: "string option \<Rightarrow> string" where
  "show_or_null t = (case t of None \<Rightarrow> ''(null)'' | Some x \<Rightarrow> x)"

definition checkOnDemandHost ::
    "('p, 'i, 'h, 's, 'c, 'w) nc_api \<Rightarrow> string \<Rightarrow> bool \<Rightarrow> ('p, 'c, 'w) nc_state \<Rightarrow> ('p, 'c, 'w) nc_state" where
  "checkOnDemandHost api nodeName again s =
     nc_notes (Msg (''OnDemand host/domain check ('' @ (if again then '''' else ''no '') @ ''retry)'') #
       (case ca_demand api nodeName again (nc_world s) of
          (True, info, _) \<Rightarrow> [Msg (''  serviceID      = '' @ show_or_null (di_service info)),
                              Msg (''  remote address = '' @ show_or_null (di_remote info))]
        | (False, _, e) \<Rightarrow>
            if e \<noteq> kSCStatusOK
            then [Msg ((if again then '''' else ''no '') @ ''retry''),
                  Msg ''  Unable to copy OnDemand information for connection: '', Status e]
            else [Msg ''  no match''])) s"

definition demand_value ::
    "('p, 'i, 'h, 's, 'c, 'w) nc_api \<Rightarrow> string \<Rightarrow> ('p, 'c, 'w) nc_state \<Rightarrow> ('p, 'c, 'w) nc_state" where
  "demand_value api key s =
     nc_notes (case ca_value api key (nc_world s) of
                 Some v \<Rightarrow> [Msg ''OnDemand'', Show_value v]
               | None \<Rightarrow> [Msg ''OnDemand not configured'']) s"

definition demand_of_host ::
    "('p, 'i, 'h, 's, 'c, 'w) nc_api \<Rightarrow> string \<Rightarrow> ('p, 'c, 'w) nc_state \<Rightarrow> ('p, 'c, 'w) nc_state" where
  "demand_of_host api key s =
     (case nc_nodename s of
        Some n \<Rightarrow> checkOnDemandHost api n True (checkOnDemandHost api n False s)
      | None \<Rightarrow> demand_value api key s)"

definition nc_ondemand_callback ::
    "('p, 'i, 'h, 's, 'c, 'w) nc_api \<Rightarrow> string list \<Rightarrow> ('p, 'c, 'w) nc_state \<Rightarrow> ('p, 'c, 'w) nc_state" where
  "nc_ondemand_callback api changedKeys s =
     (case changedKeys of [] \<Rightarrow> s | key # _ \<Rightarrow> demand_of_host api key s)"

text \<open>The report, and with \<open>-W\<close> the reports that follow.\<close>

definition report_demand :: "('p, 'i, 'h, 's, 'c, 'w) nc_api \<Rightarrow> ('p, 'c, 'w) nc_state \<Rightarrow> ('p, 'c, 'w) nc_state nc_end" where
  "report_demand api s =
     (let s1 = demand_of_host api ''State:/Network/Global/OnDemand'' s
      in if nc_ondemandwatch s1 then Watching (fold (nc_ondemand_callback api) (ca_changes api) s1)
         else Ended (Exit 0 (s1\<lparr>nc_nodename := None\<rparr>)))"

definition nc_ondemand :: "('p, 'i, 'h, 's, 'c, 'w) nc_api \<Rightarrow> string list \<Rightarrow> ('p, 'c, 'w) nc_state \<Rightarrow> ('p, 'c, 'w) nc_state nc_end" where
  "nc_ondemand api argv s =
     (case ca_store api (nc_world s) of
        (False, e) \<Rightarrow> Ended (Exit 1 (nc_notes [Msg ''Unable to create dynamic store: '', Status e] (s\<lparr>nc_nodename := None\<rparr>)))
      | (True, _) \<Rightarrow>
          (case argv of
             [a] \<Rightarrow>
               if a = ''--refresh''
               then Ended (case ca_refresh api (nc_world s) of
                       ((True, _), w) \<Rightarrow> Exit 0 (s\<lparr>nc_world := w, nc_nodename := None\<rparr>)
                     | ((False, e), w) \<Rightarrow>
                         Exit 1 (nc_notes [Msg ''Unable to refresh OnDemand state: '', Status e]
                                   (s\<lparr>nc_world := w, nc_nodename := None\<rparr>)))
               else report_demand api (s\<lparr>nc_nodename := sp_utf8 (ca_ops api) a\<rparr>)
           | [] \<Rightarrow> report_demand api s
           | _ \<Rightarrow> Ended (Exit 1 (nc_note (Msg ''Usage: scutil --nc ondemand [-W] [hostname]'') (s\<lparr>nc_nodename := None\<rparr>)))))"

section \<open>The list of services\<close>

definition pad_to :: "nat \<Rightarrow> string \<Rightarrow> string" where
  "pad_to n t = (if length t \<le> n then t @ replicate (n - length t) CHR 0x20 else take n t)"

text \<open>The width counts without the prefix and the suffix; the length of NULL is not defined.\<close>

definition copy_padded_string :: "string option \<Rightarrow> nat \<Rightarrow> string option \<Rightarrow> string option \<Rightarrow> string outcome" where
  "copy_padded_string original width front back =
     (case original of
        None \<Rightarrow> UB
      | Some t \<Rightarrow> Ret (pad_to (max (length t) width)
                    ((case front of None \<Rightarrow> '''' | Some p \<Rightarrow> p) @ t @ (case back of None \<Rightarrow> '''' | Some x \<Rightarrow> x))))"

definition copy_VPN_status :: "('p, 'i, 'h, 's, 'c, 'w) nc_api \<Rightarrow> 'h \<Rightarrow> 'w \<Rightarrow> string option" where
  "copy_VPN_status api h w =
     (if ca_service_enabled api h
      then (case ca_connect api h w of Inl _ \<Rightarrow> None | Inr c \<Rightarrow> Some (nc_status_string (ca_status api c w)))
      else Some (nc_status_string Nc_invalid))"

definition nc_print_VPN_service ::
    "('p, 'i, 'h, 's, 'c, 'w) nc_api \<Rightarrow> 'h \<Rightarrow> ('p, 'c, 'w) nc_state \<Rightarrow> ('p, 'c, 'w) nc_state outcome" where
  "nc_print_VPN_service api h s =
     obind (nc_get_service_type_and_subtype api h) (\<lambda>(iftype, sub_type).
     obind (copy_padded_string (ca_service_name api h) 32 (Some [CHR 0x22]) (Some [CHR 0x22])) (\<lambda>service_name_padded.
     obind (copy_padded_string (ca_display api (ca_service_interface api h)) 18 None None) (\<lambda>display_name_padded.
     obind (copy_padded_string (copy_VPN_status api h (nc_world s)) 16 (Some ''('') (Some '')'')) (\<lambda>service_status_padded.
       Ret (nc_note (Msg ((if ca_service_enabled api h then ''*'' else '' '') @ '' '' @ service_status_padded @ '' '' @
              ca_service_id api h @ '' '' @ display_name_padded @ '' '' @ service_name_padded @ '' ['' @ iftype @
              (case sub_type of None \<Rightarrow> '''' | Some t \<Rightarrow> '':'' @ t) @ '']'')) s)))))"

definition nc_list :: "('p, 'i, 'h, 's, 'c, 'w) nc_api \<Rightarrow> ('p, 'c, 'w) nc_state \<Rightarrow> ('p, 'c, 'w) nc_state prog outcome" where
  "nc_list api s =
     (let s1 = nc_note (Msg ''Available network connection services in the current set (*=enabled):'') s
      in case ca_services api None (nc_world s) of
           None \<Rightarrow> Ret (Exit 0 s1)
         | Some services \<Rightarrow> obind (ofold (nc_print_VPN_service api) services s1) (\<lambda>s2. Ret (Exit 0 s2)))"

section \<open>VPN types\<close>

definition nc_enable_vpntype ::
    "('p, 'i, 'h, 's, 'c, 'w) nc_api \<Rightarrow> string option \<Rightarrow> ('p, 'c, 'w) nc_state \<Rightarrow> bool \<times> ('p, 'c, 'w) nc_state" where
  "nc_enable_vpntype api vpnType s =
     (case vpnType of
        None \<Rightarrow> (False, nc_note (Msg ''No VPN type provided'') s)
      | Some t \<Rightarrow>
          if ca_vpn_enabled api t (nc_world s) then (True, nc_note (Msg ''VPN is already enabled'') s)
          else (case prefs_AuthorizationCreate (ca_ops api) of
                  None \<Rightarrow> (False, nc_note (Msg ''VPNConfigurationSetAuthorization failed'') s)
                | Some a \<Rightarrow>
                    (case ca_vpn_authorize api a (nc_world s) of
                       (False, e) \<Rightarrow> (False, nc_notes [Msg ''VPNConfigurationSetAuthorization failed'', Status e] s)
                     | (True, _) \<Rightarrow>
                         (case ca_vpn_enable api t (nc_world s) of
                            ((False, e), w) \<Rightarrow> (False, nc_notes [Msg ''VPN could not be enabled: '', Status e] (s\<lparr>nc_world := w\<rparr>))
                          | ((True, _), w) \<Rightarrow> (True, nc_note (Msg ''VPN enabled'') (s\<lparr>nc_world := w\<rparr>))))))"

text \<open>A service is replaced by the type of its connection; anything else is a type already.\<close>

definition nc_copy_vendor_type ::
    "('p, 'i, 'h, 's, 'c, 'w) nc_api \<Rightarrow> string option \<Rightarrow> ('p, 'c, 'w) nc_state \<Rightarrow> (string option \<times> ('p, 'c, 'w) nc_state) outcome" where
  "nc_copy_vendor_type api inp s =
     (case inp of
        None \<Rightarrow> Ret (None, s)
      | Some t \<Rightarrow>
          (case nc_copy_service api None t s of
             (None, s1) \<Rightarrow> Ret (Some t, s1)
           | (Some h, s1) \<Rightarrow>
               let i = ca_service_interface api h
               in case ca_type api i of
                    None \<Rightarrow> UB
                  | Some iftype \<Rightarrow> Ret (if iftype \<noteq> ''VPN'' then None else ca_type api (ca_below api i), s1)))"

definition vpn_prefs :: "string option \<Rightarrow> string" where
  "vpn_prefs subtype = ''VPN-'' @ show_or_null subtype @ ''.plist''"

definition nc_set_application_url ::
    "('p, 'i, 'h, 's, 'c, 'w) nc_api \<Rightarrow> string option \<Rightarrow> string option \<Rightarrow> ('p, 'c, 'w) nc_state \<Rightarrow> ('p, 'c, 'w) nc_state prog" where
  "nc_set_application_url api subtype directory s =
     (case (subtype, directory) of
        (Some t, Some d) \<Rightarrow>
          if \<not> ca_url api d then Exit 0 (nc_close_prefs (nc_note (Msg ''CFURLCreateWithFileSystemPath failed'') s))
          else (case ca_bookmark api d of
                  None \<Rightarrow> Exit 0 (nc_close_prefs (nc_note (Msg ''CFURLCreateBookmarkData failed'') s))
                | Some b \<Rightarrow>
                    (case ca_ascii api (vpn_prefs subtype) of
                       None \<Rightarrow> Exit 0 (nc_close_prefs (nc_note (Msg ''CFStringGetCString failed'') s))
                     | Some path \<Rightarrow>
                         let t1 = snd (do_prefs_open (ca_ops api) [path] (nc_tool s));
                             t2 = upd_world (\<lambda>w. w\<lparr>pw_prefs := ca_set_value api (pw_prefs w) ''ApplicationURL'' b\<rparr>) t1
                         in (case prefs_save (ca_ops api) t2 of
                               Exit n t3 \<Rightarrow> Exit n (s\<lparr>nc_tool := t3\<rparr>)
                             | Go t3 \<Rightarrow> Exit 0 (nc_close_prefs (s\<lparr>nc_tool := t3\<rparr>)))))
      | _ \<Rightarrow> Exit 0 (nc_close_prefs s))"

definition nc_enablevpn :: "('p, 'i, 'h, 's, 'c, 'w) nc_api \<Rightarrow> string list \<Rightarrow> ('p, 'c, 'w) nc_state \<Rightarrow> ('p, 'c, 'w) nc_state prog outcome" where
  "nc_enablevpn api argv s =
     (case argv of
        [] \<Rightarrow> Ret (Exit 0 (nc_note (Msg ''No service type or ID'') s))
      | a # rest \<Rightarrow>
          obind (nc_copy_vendor_type api (sp_utf8 (ca_ops api) a) s) (\<lambda>(vendorType, s1).
            case nc_enable_vpntype api vendorType s1 of
              (False, s2) \<Rightarrow> Ret (Exit 1 s2)
            | (True, s2) \<Rightarrow>
                Ret (case rest of [] \<Rightarrow> Exit 0 s2
                     | b # _ \<Rightarrow> nc_set_application_url api vendorType (sp_utf8 (ca_ops api) b) s2)))"

section \<open>Showing and selecting a service\<close>

definition service_entity_key :: "string \<Rightarrow> string \<Rightarrow> string" where
  "service_entity_key serviceID entity = ''Setup:/Network/Service/'' @ serviceID @ ''/'' @ entity"

definition show_entities ::
    "('p, 'i, 'h, 's, 'c, 'w) nc_api \<Rightarrow> string \<Rightarrow> string \<Rightarrow> string option \<Rightarrow> ('p, 'c, 'w) nc_state \<Rightarrow> ('p, 'c, 'w) nc_state prog" where
  "show_entities api serviceID iftype ifsubtype s =
     (case ca_store api (nc_world s) of
        (False, e) \<Rightarrow> Exit 1 (nc_close_prefs (nc_notes [Msg ''Unable to create dynamic store: '', Status e] s))
      | (True, _) \<Rightarrow>
          let s1 = (case ca_value api (service_entity_key serviceID iftype) (nc_world s) of
                      None \<Rightarrow> nc_note (Msg (''No '' @ iftype @ '' configuration available'')) s
                    | Some v \<Rightarrow> nc_notes [Msg iftype, Show_value v] s);
              s2 = (case ifsubtype of
                      None \<Rightarrow> s1
                    | Some t \<Rightarrow>
                        (case ca_value api (service_entity_key serviceID t) (nc_world s) of
                           None \<Rightarrow> s1 | Some v \<Rightarrow> nc_notes [Msg t, Show_value v] s1))
          in Exit 0 (nc_close_prefs s2))"

definition show_service ::
    "('p, 'i, 'h, 's, 'c, 'w) nc_api \<Rightarrow> string \<Rightarrow> string \<Rightarrow> string option \<Rightarrow> ('p, 'c, 'w) nc_state \<Rightarrow> ('p, 'c, 'w) nc_state prog" where
  "show_service api serviceID iftype ifsubtype s =
     (case ca_ascii api (vpn_prefs ifsubtype) of
        None \<Rightarrow> Exit 1 (nc_close_prefs (nc_note (Msg ''CFStringGetCString failed'') s))
      | Some path \<Rightarrow>
          let s1 = s\<lparr>nc_tool := snd (do_prefs_open (ca_ops api) [path] (nc_tool s))\<rparr>;
              s2 = (case ca_get_value api (nc_prefs s1) ''ApplicationURL'' of
                      None \<Rightarrow> s1
                    | Some b \<Rightarrow> (case ca_resolve api b of
                                    None \<Rightarrow> s1
                                  | Some d \<Rightarrow> nc_note (Msg (''ApplicationURL: '' @ d)) s1))
          in show_entities api serviceID iftype ifsubtype s2)"

definition nc_show :: "('p, 'i, 'h, 's, 'c, 'w) nc_api \<Rightarrow> string list \<Rightarrow> ('p, 'c, 'w) nc_state \<Rightarrow> ('p, 'c, 'w) nc_state prog outcome" where
  "nc_show api argv s =
     (case nc_copy_service_from_arguments api argv None s of
        (None, s1) \<Rightarrow> Ret (Exit 1 (nc_note (Msg ''No service'') s1))
      | (Some h, s1) \<Rightarrow>
          if \<not> ca_service_is_vpn api h
          then Ret (Exit 1 (nc_close_prefs (nc_note (Msg (''Not a connection oriented service: '' @ show_or_null None)) s1)))
          else obind (nc_get_service_type_and_subtype api h) (\<lambda>(iftype, ifsubtype).
               obind (nc_print_VPN_service api h s1) (\<lambda>s2.
                 Ret (show_service api (ca_service_id api h) iftype ifsubtype s2))))"

definition nc_select :: "('p, 'i, 'h, 's, 'c, 'w) nc_api \<Rightarrow> string list \<Rightarrow> ('p, 'c, 'w) nc_state \<Rightarrow> ('p, 'c, 'w) nc_state prog" where
  "nc_select api argv s =
     (let s1 = s\<lparr>nc_tool := snd (do_prefs_open (ca_ops api) [] (nc_tool s))\<rparr>
      in case ca_current_set api (nc_prefs s1) of
           None \<Rightarrow> Exit 1 (nc_close_prefs (nc_note (Msg ''No current location'') s1))
         | Some st \<Rightarrow>
             (case nc_copy_service_from_arguments api argv (Some st) s1 of
                (None, s2) \<Rightarrow> Exit 1 (nc_close_prefs (nc_note (Msg ''No service'') s2))
              | (Some h, s2) \<Rightarrow>
                  (case ca_enable_service api h (nc_prefs s2) of
                     ((False, e), p) \<Rightarrow> Exit 1 (nc_close_prefs (nc_notes [Msg ''Unable to enable service: '', Status e]
                                               (s2\<lparr>nc_tool := upd_world (\<lambda>w. w\<lparr>pw_prefs := p\<rparr>) (nc_tool s2)\<rparr>)))
                   | ((True, _), p) \<Rightarrow>
                       (case prefs_save (ca_ops api) (upd_world (\<lambda>w. w\<lparr>pw_prefs := p\<rparr>) (nc_tool s2)) of
                          Exit n t \<Rightarrow> Exit n (s2\<lparr>nc_tool := t\<rparr>)
                        | Go t \<Rightarrow> Exit 0 (nc_close_prefs (s2\<lparr>nc_tool := t\<rparr>))))))"

section \<open>Other commands\<close>

text \<open>The arguments after the host: a flag or a port, whichever comes.\<close>

definition trigger_argument ::
    "('p, 'i, 'h, 's, 'c, 'w) nc_api \<Rightarrow> string \<Rightarrow> bool \<times> int \<Rightarrow> bool \<times> int" where
  "trigger_argument api a r =
     (case r of (background, port) \<Rightarrow>
        if a = ''background'' then (True, port)
        else (case sp_utf8 (ca_ops api) a of
                None \<Rightarrow> (background, port)
              | Some t \<Rightarrow> (background, if ca_intvalue api t \<noteq> 0 then ca_intvalue api t else port)))"

definition int_text :: "int \<Rightarrow> string" where
  "int_text n = (if n < 0 then ''-'' @ decimal (nat (- n)) else decimal (nat n))"

text \<open>With \<open>background\<close> a property is set on both streams before they are looked at; there is none to set on NULL.\<close>

definition nc_trigger :: "('p, 'i, 'h, 's, 'c, 'w) nc_api \<Rightarrow> string list \<Rightarrow> ('p, 'c, 'w) nc_state \<Rightarrow> ('p, 'c, 'w) nc_state prog outcome" where
  "nc_trigger api argv s =
     (case fold (trigger_argument api) (take 2 (tl argv)) (False, 80) of
        (background, port) \<Rightarrow>
          (case (case argv of [] \<Rightarrow> None | a # _ \<Rightarrow> sp_utf8 (ca_ops api) a) of
             None \<Rightarrow> Ret (Exit 0 (nc_note (Msg ''Invalid or missing host name'') s))
           | Some hostName \<Rightarrow>
               let both = (ca_stream api hostName port = (True, True))
               in if background \<and> \<not> both then UB
                  else Ret (Exit 0 (if both
                              then nc_note (Msg (''Opened stream to '' @ hostName @ '', port '' @ int_text port @
                                     (if background then '', background traffic class'' else ''''))) s
                              else s))))"

definition nc_help :: "('p, 'c, 'w) nc_state \<Rightarrow> ('p, 'c, 'w) nc_state prog" where
  "nc_help s = Exit 0 (nc_note (Msg ''Valid commands for scutil --nc (VPN connections)'') s)"

section \<open>The table\<close>

datatype nc_func =
    Func_enablevpn | Func_help | Func_list | Func_ondemand | Func_resume | Func_select | Func_show | Func_start
  | Func_statistics | Func_status | Func_stop | Func_suspend | Func_trigger | Func_watch

definition nc_cmds :: "(string \<times> nc_func) list" where
  "nc_cmds =
     [(''enablevpn'', Func_enablevpn), (''help'', Func_help), (''list'', Func_list), (''ondemand'', Func_ondemand),
      (''resume'', Func_resume), (''select'', Func_select), (''show'', Func_show), (''start'', Func_start),
      (''statistics'', Func_statistics), (''status'', Func_status), (''stop'', Func_stop), (''suspend'', Func_suspend),
      (''trigger'', Func_trigger)]"

definition find_nc_cmd :: "string \<Rightarrow> nat option" where
  "find_nc_cmd cmd = index_of cmd (map fst nc_cmds)"

fun run_nc ::
    "('p, 'i, 'h, 's, 'c, 'w) nc_api \<Rightarrow> nc_func \<Rightarrow> string list \<Rightarrow> ('p, 'c, 'w) nc_state \<Rightarrow> ('p, 'c, 'w) nc_state nc_end outcome" where
  "run_nc api Func_enablevpn argv s = ended (nc_enablevpn api argv s)"
| "run_nc api Func_help argv s = Ret (Ended (nc_help s))"
| "run_nc api Func_list argv s = ended (nc_list api s)"
| "run_nc api Func_ondemand argv s = Ret (nc_ondemand api argv s)"
| "run_nc api Func_resume argv s = ended (nc_resume api argv s)"
| "run_nc api Func_select argv s = Ret (Ended (nc_select api argv s))"
| "run_nc api Func_show argv s = ended (nc_show api argv s)"
| "run_nc api Func_start argv s = ended (nc_start api argv s)"
| "run_nc api Func_statistics argv s = ended (nc_statistics api argv s)"
| "run_nc api Func_status argv s = ended (nc_status_cmd api argv s)"
| "run_nc api Func_stop argv s = ended (nc_stop api argv s)"
| "run_nc api Func_suspend argv s = ended (nc_suspend api argv s)"
| "run_nc api Func_trigger argv s = ended (nc_trigger api argv s)"
| "run_nc api Func_watch argv s = Ret (nc_watch api argv s)"

definition do_nc_cmd ::
    "('p, 'i, 'h, 's, 'c, 'w) nc_api \<Rightarrow> string \<Rightarrow> string list \<Rightarrow> bool \<Rightarrow> ('p, 'c, 'w) nc_state \<Rightarrow> ('p, 'c, 'w) nc_state nc_end outcome" where
  "do_nc_cmd api cmd argv watch s =
     (case find_nc_cmd cmd of
        None \<Rightarrow> Ret (Ended (Go s))
      | Some n \<Rightarrow>
          let func = snd (nc_cmds ! n)
          in if watch \<and> func = Func_status then run_nc api Func_watch argv s
             else if watch \<and> func = Func_ondemand then run_nc api func argv (s\<lparr>nc_ondemandwatch := True\<rparr>)
             else run_nc api func argv s)"

end
