(* ===== verification/NcProps.thy ===== *)
theory NcProps
  imports Nc ScutilPrefsProps
begin

text \<open>
  What the commands on connections promise: they act on one service or on none, they end with an exit code, and they leave
  no preferences open. The last section holds the inputs that they do not handle.
\<close>

section \<open>One service\<close>

lemma select_by_name_spec:
  "select_by_name name x hs sel =
     (case (case sel of None \<Rightarrow> [] | Some y \<Rightarrow> [y]) @ filter (\<lambda>h. name h = Some x) hs of
        [] \<Rightarrow> (False, None) | [y] \<Rightarrow> (False, Some y) | _ \<Rightarrow> (True, None))"
  by (induction hs arbitrary: sel) (auto split: option.splits list.splits)

text \<open>The service that an argument names: by its identifier, or by a name that only it has.\<close>

definition named_service :: "('p, 'i, 'h, 's, 'c, 'w) nc_api \<Rightarrow> 'h list \<Rightarrow> string \<Rightarrow> 'h \<Rightarrow> bool" where
  "named_service api hs x h \<longleftrightarrow>
     h \<in> set hs \<and>
     (ca_service_id api h = x \<or>
      (\<forall>g \<in> set hs. ca_service_id api g \<noteq> x) \<and> filter (\<lambda>g. ca_service_name api g = Some x) hs = [h])"

lemma unique_name: "filter P hs = [h] \<Longrightarrow> h \<in> set hs"
proof -
  assume "filter P hs = [h]"
  then have "h \<in> set (filter P hs)" by simp
  then show ?thesis by simp
qed

lemma nc_copy_service_named:
  assumes "nc_copy_service api st x s = (Some h, s')"
  shows "\<exists>hs. ca_services api st (nc_world s) = Some hs \<and> named_service api hs x h \<and> s' = s"
proof -
  from assms obtain hs where hs: "ca_services api st (nc_world s) = Some hs"
    by (auto simp: nc_copy_service_def split: option.splits)
  have "named_service api hs x h \<and> s' = s"
  proof (cases "List.find (\<lambda>h. x = ca_service_id api h) hs")
    case None
    then have no_id: "\<forall>g \<in> set hs. ca_service_id api g \<noteq> x" by (auto simp: find_None_iff)
    have name: "filter (\<lambda>g. ca_service_name api g = Some x) hs = [h]" "s' = s"
      using assms hs None by (simp_all add: nc_copy_service_def select_by_name_spec split: list.splits)
    from name(1) have "h \<in> set hs" by (rule unique_name)
    with no_id name show ?thesis by (simp add: named_service_def)
  next
    case (Some g)
    then have "g \<in> set hs" "x = ca_service_id api g" by (auto simp: find_Some_iff)
    moreover have "h = g" "s' = s" using assms hs Some by (simp_all add: nc_copy_service_def)
    ultimately show ?thesis by (simp add: named_service_def)
  qed
  with hs show ?thesis by blast
qed

text \<open>What services and arguments leave alone.\<close>

lemma nc_note_frame [simp]:
  "nc_world (nc_note x s) = nc_world s" "nc_connection (nc_note x s) = nc_connection s"
  "nc_prefs (nc_note x s) = nc_prefs s" "nc_nodename (nc_note x s) = nc_nodename s"
  "nc_ondemandwatch (nc_note x s) = nc_ondemandwatch s" "sc_world (nc_tool (nc_note x s)) = sc_world (nc_tool s)"
  "nc_username (nc_note x s) = nc_username s" "nc_password (nc_note x s) = nc_password s"
  "nc_sharedsecret (nc_note x s) = nc_sharedsecret s"
  by (simp_all add: nc_note_def nc_prefs_def print_note_def)

lemma nc_notes_Cons: "nc_notes (x # xs) s = nc_notes xs (nc_note x s)" "nc_notes [] s = s"
  by (simp_all add: nc_notes_def)

lemma nc_notes_frame [simp]:
  "nc_world (nc_notes xs s) = nc_world s" "nc_connection (nc_notes xs s) = nc_connection s"
  "nc_prefs (nc_notes xs s) = nc_prefs s" "nc_nodename (nc_notes xs s) = nc_nodename s"
  "nc_ondemandwatch (nc_notes xs s) = nc_ondemandwatch s" "sc_world (nc_tool (nc_notes xs s)) = sc_world (nc_tool s)"
  by (induction xs arbitrary: s) (simp_all add: nc_notes_Cons)

lemma nc_copy_service_state: "nc_copy_service api st x s = (r, s') \<Longrightarrow> s' = s \<or> s' = nc_note (Msg ''Multiple services match'') s"
  by (auto simp: nc_copy_service_def split: option.splits prod.splits bool.splits)

lemma nc_service_arguments_frame:
  assumes "nc_copy_service_from_arguments api argv st s = (r, s')"
  shows "nc_world s' = nc_world s" "nc_connection s' = nc_connection s" "nc_prefs s' = nc_prefs s"
    "sc_world (nc_tool s') = sc_world (nc_tool s)"
  using assms by (auto simp: nc_copy_service_from_arguments_def split: option.splits dest!: nc_copy_service_state)

lemma nc_connection_failed:
  assumes "nc_create_connection api argv s = Inl p"
  shows "\<exists>s'. p = Exit 1 s' \<and> nc_world s' = nc_world s"
proof (cases "nc_copy_service_from_arguments api argv None s")
  case (Pair r s1)
  with assms nc_service_arguments_frame(1) [OF Pair] show ?thesis
    by (auto simp: nc_create_connection_def split: option.splits sum.splits)
qed

lemma nc_connection_made:
  assumes "sp_utf8 (ca_ops api) a = Some x" "nc_create_connection api (a # argv) s = Inr q"
  shows "\<exists>hs h c. ca_services api None (nc_world s) = Some hs \<and> named_service api hs x h \<and>
    ca_connect api h (nc_world s) = Inr c \<and> q = (c, s\<lparr>nc_connection := Some c\<rparr>)"
proof (cases "nc_copy_service api None x s")
  case (Pair r s1)
  with assms obtain h where h: "r = Some h" by (cases r) (auto simp: nc_create_connection_def nc_copy_service_from_arguments_def)
  obtain hs where hs: "ca_services api None (nc_world s) = Some hs" "named_service api hs x h" "s1 = s"
    using nc_copy_service_named [OF Pair [unfolded h]] by blast
  obtain c where "ca_connect api h (nc_world s) = Inr c" "q = (c, s\<lparr>nc_connection := Some c\<rparr>)"
    using assms Pair h hs(3)
    by (cases "ca_connect api h (nc_world s)") (simp_all add: nc_create_connection_def nc_copy_service_from_arguments_def)
  with hs show ?thesis by blast
qed

text \<open>What a command does to the world, by its name.\<close>

definition nc_effect ::
    "('p, 'i, 'h, 's, 'c, 'w) nc_api \<Rightarrow> string \<Rightarrow> 'c \<Rightarrow> ('p, 'c, 'w) nc_state \<Rightarrow> (bool \<times> 'w) outcome" where
  "nc_effect api cmd c s =
     (if cmd = ''start''
      then obind (nc_get_service_type_and_subtype api (ca_connection_service api c)) (\<lambda>(iftype, ifsubtype).
             Ret (case ca_start api c (user_options iftype ifsubtype s) True (nc_world s) of ((ok, _), w) \<Rightarrow> (ok, w)))
      else if cmd = ''stop'' then Ret (case ca_stop api c True (nc_world s) of ((ok, _), w) \<Rightarrow> (ok, w))
      else if cmd = ''suspend'' then Ret (True, snd (ca_suspend api c (nc_world s)))
      else Ret (True, snd (ca_resume api c (nc_world s))))"

lemma nc_table:
  "find_nc_cmd ''start'' = Some 7" "find_nc_cmd ''stop'' = Some 10" "find_nc_cmd ''suspend'' = Some 11"
  "find_nc_cmd ''resume'' = Some 4" "snd (nc_cmds ! 7) = Func_start" "snd (nc_cmds ! 10) = Func_stop"
  "snd (nc_cmds ! 11) = Func_suspend" "snd (nc_cmds ! 4) = Func_resume"
  by (code_simp | simp add: nc_cmds_def)+

lemma change_command:
  assumes "cmd \<in> {''start'', ''stop'', ''suspend'', ''resume''}"
  shows "do_nc_cmd api cmd argv watch s =
    ended (if cmd = ''start'' then nc_start api argv s else if cmd = ''stop'' then nc_stop api argv s
     else if cmd = ''suspend'' then nc_suspend api argv s else nc_resume api argv s)"
proof -
  consider "cmd = ''start''" | "cmd = ''stop''" | "cmd = ''suspend''" | "cmd = ''resume''" using assms by auto
  then show ?thesis by cases (simp_all add: do_nc_cmd_def nc_table)
qed

lemma user_options_frame: "user_options t u (s\<lparr>nc_connection := d\<rparr>) = user_options t u s"
  by (simp add: user_options_def Let_def)

lemma nc_effect_frame: "nc_effect api cmd c (s\<lparr>nc_connection := d\<rparr>) = nc_effect api cmd c s"
  by (simp add: nc_effect_def user_options_frame)

lemma nc_start_connected:
  assumes "nc_create_connection api argv s = Inr (c, s1)" "nc_start api argv s = Ret r"
  shows "\<exists>n s' ok. r = Exit n s' \<and> nc_effect api ''start'' c s1 = Ret (ok, nc_world s') \<and>
    (if ok then n = 0 \<and> nc_connection s' = None else n = 1)"
proof (cases "nc_get_service_type_and_subtype api (ca_connection_service api c)")
  case UB
  with assms show ?thesis by (simp add: nc_start_def with_connection_def)
next
  case (Ret q)
  obtain iftype ifsubtype where q: "q = (iftype, ifsubtype)" by (cases q)
  obtain ok e w where "ca_start api c (user_options iftype ifsubtype s1) True (nc_world s1) = ((ok, e), w)"
    by (metis surj_pair)
  with Ret q assms show ?thesis
    by (cases ok) (auto simp: nc_start_def with_connection_def nc_effect_def nc_done_def nc_release_connection_def)
qed

lemma nc_stop_connected:
  assumes "nc_create_connection api argv s = Inr (c, s1)" "nc_stop api argv s = Ret r"
  shows "\<exists>n s' ok. r = Exit n s' \<and> nc_effect api ''stop'' c s1 = Ret (ok, nc_world s') \<and>
    (if ok then n = 0 \<and> nc_connection s' = None else n = 1)"
proof -
  obtain ok e w where "ca_stop api c True (nc_world s1) = ((ok, e), w)" by (metis surj_pair)
  with assms show ?thesis
    by (cases ok) (auto simp: nc_stop_def with_connection_def nc_effect_def nc_done_def nc_release_connection_def)
qed

lemma effect_of_command:
  assumes "cmd \<in> {''start'', ''stop'', ''suspend'', ''resume''}"
    and "nc_create_connection api argv s = Inr (c, s1)" "do_nc_cmd api cmd argv watch s = Ret r"
  shows "\<exists>n s' ok. r = Ended (Exit n s') \<and> nc_effect api cmd c s1 = Ret (ok, nc_world s') \<and>
    (if ok then n = 0 \<and> nc_connection s' = None else n = 1)"
proof -
  obtain p where p: "r = Ended p" and run: "(if cmd = ''start'' then nc_start api argv s else if cmd = ''stop'' then nc_stop api argv s
     else if cmd = ''suspend'' then nc_suspend api argv s else nc_resume api argv s) = Ret p"
    using assms(3) unfolding change_command [OF assms(1)] ended_def by auto
  consider "cmd = ''start''" | "cmd = ''stop''" | "cmd = ''suspend''" | "cmd = ''resume''" using assms(1) by auto
  then show ?thesis
  proof cases
    case 1
    with nc_start_connected [OF assms(2)] run p show ?thesis by simp
  next
    case 2
    with nc_stop_connected [OF assms(2)] run p show ?thesis by simp
  next
    case 3
    with run p assms(2) show ?thesis
      by (auto simp: nc_suspend_def with_connection_def nc_effect_def nc_done_def nc_release_connection_def)
  next
    case 4
    with run p assms(2) show ?thesis
      by (auto simp: nc_resume_def with_connection_def nc_effect_def nc_done_def nc_release_connection_def)
  qed
qed

text \<open>
  C18. \<open>start\<close>, \<open>stop\<close>, \<open>suspend\<close> and \<open>resume\<close> act on one service or on none. When the command does not read memory
  that is not there it leaves the program; with the exit code 0, or after a refused start or stop, exactly one
  call was made, on the connection of the service that the argument names by its identifier or by a name that no other
  service has; otherwise the code is 1 and nothing was called. On success the connection is released.
\<close>

theorem nc_changes_one_connection:
  assumes "cmd \<in> {''start'', ''stop'', ''suspend'', ''resume''}" "sp_utf8 (ca_ops api) a = Some x"
    and "do_nc_cmd api cmd (a # argv) watch s = Ret r"
  shows "\<exists>n s'. r = Ended (Exit n s') \<and>
    (n = 1 \<and> nc_world s' = nc_world s \<or>
     (\<exists>hs h c ok. ca_services api None (nc_world s) = Some hs \<and> named_service api hs x h \<and>
        ca_connect api h (nc_world s) = Inr c \<and> nc_effect api cmd c s = Ret (ok, nc_world s') \<and>
        (if ok then n = 0 \<and> nc_connection s' = None else n = 1)))"
proof -
  note run = assms(3) [unfolded change_command [OF assms(1)]]
  show ?thesis
  proof (cases "nc_create_connection api (a # argv) s")
    case (Inl p)
    then obtain s' where "p = Exit 1 s'" "nc_world s' = nc_world s" using nc_connection_failed by blast
    with Inl run show ?thesis
      by (auto simp: ended_def nc_start_def nc_stop_def nc_suspend_def nc_resume_def with_connection_def split: if_splits)
  next
    case (Inr q)
    with nc_connection_made [OF assms(2)] obtain hs h c where h: "ca_services api None (nc_world s) = Some hs"
      "named_service api hs x h" "ca_connect api h (nc_world s) = Inr c" "q = (c, s\<lparr>nc_connection := Some c\<rparr>)" by blast
    have "\<exists>n s' ok. r = Ended (Exit n s') \<and> nc_effect api cmd c (s\<lparr>nc_connection := Some c\<rparr>) = Ret (ok, nc_world s') \<and>
        (if ok then n = 0 \<and> nc_connection s' = None else n = 1)"
      using effect_of_command [OF assms(1) _ assms(3)] Inr h(4) by simp
    with h(1-3) show ?thesis unfolding nc_effect_frame by blast
  qed
qed

section \<open>The end of a command\<close>

text \<open>A list and an argument that name services which can be shown: with an interface, a type, and names; enabled ones connect.\<close>

definition presentable :: "('p, 'i, 'h, 's, 'c, 'w) nc_api \<Rightarrow> 'w \<Rightarrow> 'h \<Rightarrow> bool" where
  "presentable api w h \<longleftrightarrow>
     ca_type api (ca_service_interface api h) \<noteq> None \<and> ca_service_name api h \<noteq> None \<and>
     ca_display api (ca_service_interface api h) \<noteq> None \<and>
     (ca_service_enabled api h \<longrightarrow> (\<exists>c. ca_connect api h w = Inr c))"

definition ends :: "'s prog outcome \<Rightarrow> bool" where
  "ends r \<longleftrightarrow> (\<exists>n s'. r = Ret (Exit n s') \<and> n \<le> 1)"

lemma endsI [simp]: "ends (Ret (Exit 0 s))" "ends (Ret (Exit 1 s))" "ends (Ret (Exit (Suc 0) s))"
  by (simp_all add: ends_def)

lemma nc_done_ends [simp]: "ends (nc_done s)"
  by (simp add: nc_done_def)

lemma type_of_presentable:
  "presentable api w h \<Longrightarrow> \<exists>t u. nc_get_service_type_and_subtype api h = Ret (t, u)"
  by (auto simp: presentable_def nc_get_service_type_and_subtype_def Let_def)

lemma print_presentable: "presentable api (nc_world s) h \<Longrightarrow> \<exists>x. nc_print_VPN_service api h s = Ret (nc_note x s)"
  using type_of_presentable [of api "nc_world s" h]
  by (auto simp: presentable_def nc_print_VPN_service_def copy_padded_string_def copy_VPN_status_def)

lemma list_presentable:
  "\<forall>h \<in> set hs. presentable api (nc_world s) h \<Longrightarrow> \<exists>s'. ofold (nc_print_VPN_service api) hs s = Ret s'"
proof (induction hs arbitrary: s)
  case (Cons h hs)
  then obtain x where "nc_print_VPN_service api h s = Ret (nc_note x s)" using print_presentable by fastforce
  with Cons.IH [of "nc_note x s"] Cons.prems show ?case by simp
qed simp

lemma copy_service_member:
  "nc_copy_service api st x s = (Some h, s') \<Longrightarrow> \<exists>hs. ca_services api st (nc_world s) = Some hs \<and> h \<in> set hs"
  by (auto simp: named_service_def dest!: nc_copy_service_named)

lemma arguments_member:
  assumes "nc_copy_service_from_arguments api argv st s = (Some h, s')"
  shows "\<exists>hs. ca_services api st (nc_world s) = Some hs \<and> h \<in> set hs"
  using assms by (auto simp: nc_copy_service_from_arguments_def split: option.splits dest: copy_service_member)

text \<open>
  The services are presentable, a connection belongs to the service that it was made for, and no session has failed to
  say what it ends with.
\<close>

definition nc_sound :: "('p, 'i, 'h, 's, 'c, 'w) nc_api \<Rightarrow> ('p, 'c, 'w) nc_state \<Rightarrow> bool" where
  "nc_sound api s \<longleftrightarrow>
     (\<forall>hs. ca_services api None (nc_world s) = Some hs \<longrightarrow> (\<forall>h \<in> set hs. presentable api (nc_world s) h)) \<and>
     (\<forall>h c. ca_connect api h (nc_world s) = Inr c \<longrightarrow> ca_connection_service api c = h)"

lemma prefs_save_exit: "prefs_save ops t = Exit n t' \<Longrightarrow> n = 1"
  by (auto simp: prefs_save_def Let_def split: prod.splits sum.splits option.splits)

lemma with_connection_ends:
  assumes "\<And>c s1. nc_create_connection api argv s = Inr (c, s1) \<Longrightarrow> ends (f c s1)"
  shows "ends (with_connection api argv f s)"
  using assms by (fastforce simp: with_connection_def nc_create_connection_def split: sum.splits option.splits prod.splits)

lemma created_connection:
  assumes "nc_create_connection api argv s = Inr (c, s1)"
  obtains h hs where "ca_services api None (nc_world s) = Some hs" "h \<in> set hs" "ca_connect api h (nc_world s) = Inr c"
    "nc_world s1 = nc_world s"
proof -
  from assms obtain h s0 where h: "nc_copy_service_from_arguments api argv None s = (Some h, s0)"
    "ca_connect api h (nc_world s0) = Inr c" "s1 = s0\<lparr>nc_connection := Some c\<rparr>"
    by (auto simp: nc_create_connection_def split: option.splits sum.splits prod.splits)
  with nc_service_arguments_frame(1) [OF h(1)] arguments_member [OF h(1)] that show ?thesis by auto
qed

lemma nc_start_ends: "nc_sound api s \<Longrightarrow> ends (nc_start api argv s)"
  unfolding nc_start_def
proof (rule with_connection_ends)
  fix c s1
  assume sound: "nc_sound api s" and new: "nc_create_connection api argv s = Inr (c, s1)"
  from new obtain h hs where h: "ca_services api None (nc_world s) = Some hs" "h \<in> set hs"
    "ca_connect api h (nc_world s) = Inr c" by (rule created_connection)
  with sound obtain t u where "nc_get_service_type_and_subtype api (ca_connection_service api c) = Ret (t, u)"
    by (metis nc_sound_def type_of_presentable)
  then show "ends (obind (nc_get_service_type_and_subtype api (ca_connection_service api c)) (\<lambda>(iftype, ifsubtype).
         case ca_start api c (user_options iftype ifsubtype s1) True (nc_world s1) of
           ((False, e), w) \<Rightarrow> Ret (Exit 1 (nc_notes [Msg ''Could not start connection: '', Status e] (s1\<lparr>nc_world := w\<rparr>)))
         | ((True, _), w) \<Rightarrow> nc_done (s1\<lparr>nc_world := w\<rparr>)))"
    by (simp split: prod.splits bool.splits)
qed

lemma nc_simple_ends:
  "ends (nc_stop api argv s)" "ends (nc_suspend api argv s)" "ends (nc_resume api argv s)"
  "ends (nc_status_cmd api argv s)" "ends (nc_statistics api argv s)"
  by (auto simp: nc_stop_def nc_suspend_def nc_resume_def nc_status_cmd_def nc_statistics_def Let_def
      intro!: with_connection_ends split: prod.splits bool.splits)

lemma nc_list_ends: "nc_sound api s \<Longrightarrow> ends (nc_list api s)"
  using list_presentable [of _ api "nc_note (Msg ''Available network connection services in the current set (*=enabled):'') s"]
  by (fastforce simp: nc_list_def nc_sound_def Let_def ends_def split: option.splits)

lemma vendor_type_defined: "nc_sound api s \<Longrightarrow> \<exists>r. nc_copy_vendor_type api x s = Ret r"
proof (cases x)
  case (Some t)
  assume sound: "nc_sound api s"
  obtain g s1 where g: "nc_copy_service api None t s = (g, s1)" by (cases "nc_copy_service api None t s")
  show ?thesis
  proof (cases g)
    case (Some h)
    with g sound have "presentable api (nc_world s) h" by (fastforce simp: nc_sound_def dest: copy_service_member)
    with g Some \<open>x = Some t\<close> show ?thesis by (auto simp: nc_copy_vendor_type_def presentable_def Let_def)
  qed (use g Some in \<open>simp add: nc_copy_vendor_type_def\<close>)
qed (simp add: nc_copy_vendor_type_def)

lemma application_url_ends: "ends (Ret (nc_set_application_url api t d s))"
  by (auto simp: nc_set_application_url_def Let_def split: option.splits prog.splits dest: prefs_save_exit)

lemma nc_enablevpn_ends:
  assumes "nc_sound api s"
  shows "ends (nc_enablevpn api argv s)"
proof (cases argv)
  case (Cons a rest)
  obtain v s1 where "nc_copy_vendor_type api (sp_utf8 (ca_ops api) a) s = Ret (v, s1)"
    using vendor_type_defined [OF assms] by fastforce
  with Cons show ?thesis
    by (auto simp: nc_enablevpn_def application_url_ends split: prod.splits bool.splits list.splits)
qed (simp add: nc_enablevpn_def)

lemma show_entities_ends: "ends (Ret (show_entities api i t u s))"
  by (auto simp: show_entities_def Let_def split: prod.splits bool.splits)

lemma show_service_ends: "ends (Ret (show_service api i t u s))"
  by (simp add: show_service_def Let_def show_entities_ends split: option.splits)

lemma nc_show_ends:
  assumes "nc_sound api s"
  shows "ends (nc_show api argv s)"
proof (cases "nc_copy_service_from_arguments api argv None s")
  case (Pair r s1)
  show ?thesis
  proof (cases r)
    case (Some h)
    then obtain hs where "ca_services api None (nc_world s) = Some hs" "h \<in> set hs"
      using arguments_member [of api argv None s h s1] Pair by blast
    with assms nc_service_arguments_frame(1) [OF Pair] have h: "presentable api (nc_world s1) h"
      by (simp add: nc_sound_def)
    obtain t u where type: "nc_get_service_type_and_subtype api h = Ret (t, u)" using type_of_presentable [OF h] by blast
    obtain x where told: "nc_print_VPN_service api h s1 = Ret (nc_note x s1)" using print_presentable [OF h] by blast
    have "nc_show api argv s =
      (if \<not> ca_service_is_vpn api h then Ret (Exit 1 (nc_close_prefs (nc_note (Msg (''Not a connection oriented service: '' @ show_or_null None)) s1)))
       else Ret (show_service api (ca_service_id api h) t u (nc_note x s1)))"
      by (simp add: nc_show_def Pair Some type told)
    then show ?thesis by (simp add: show_service_ends)
  qed (use Pair in \<open>simp add: nc_show_def\<close>)
qed

lemma nc_select_ends: "ends (Ret (nc_select api argv s))"
  by (auto simp: nc_select_def Let_def split: option.splits prod.splits bool.splits prog.splits dest: prefs_save_exit)

lemma with_ended: "ends r \<Longrightarrow> \<exists>n s'. ended r = Ret (Ended (Exit n s')) \<and> n \<le> 1"
  by (auto simp: ends_def ended_def)

text \<open>What a command does that may watch.\<close>

definition exits :: "'s nc_end outcome \<Rightarrow> bool" where
  "exits r \<longleftrightarrow> (\<exists>n s'. r = Ret (Ended (Exit n s')) \<and> n \<le> 1)"

lemma exits_ended [simp]: "ends r \<Longrightarrow> exits (ended r)"
  by (auto simp: ends_def ended_def exits_def)

lemma exitsI [simp]: "exits (Ret (Ended (Exit 0 s)))" "exits (Ret (Ended (Exit 1 s)))" "exits (Ret (Ended (Exit (Suc 0) s)))"
  by (simp_all add: exits_def)

lemma demand_of_host_watch: "nc_ondemandwatch (demand_of_host api key s) = nc_ondemandwatch s"
  by (simp add: demand_of_host_def checkOnDemandHost_def demand_value_def split: option.splits)

lemma nc_ondemand_exits: "\<not> nc_ondemandwatch s \<Longrightarrow> exits (Ret (nc_ondemand api argv s))"
  by (auto simp: nc_ondemand_def report_demand_def Let_def demand_of_host_watch split: list.splits prod.splits bool.splits)

lemma nc_ondemand_watches: "exits (Ret (nc_ondemand api argv s)) \<or> (\<exists>s'. nc_ondemand api argv s = Watching s')"
  by (auto simp: nc_ondemand_def report_demand_def Let_def split: list.splits prod.splits bool.splits)

text \<open>The connection that a watch is about.\<close>

lemma nc_callback_connection:
  "nc_connection (nc_callback api n c st s) = nc_connection s" "nc_world (nc_callback api n c st s) = nc_world s"
  by (auto simp: nc_callback_def Let_def split: option.splits)

lemma fold_callback_connection: "nc_connection (fold (nc_callback api n c) sts s) = nc_connection s"
  by (induction sts arbitrary: s) (simp_all add: nc_callback_connection)

lemma nc_watch_cases:
  "(\<exists>s'. nc_watch api argv s = Ended (Exit 1 s')) \<and>
     (\<forall>c s0. nc_create_connection api argv s = Inr (c, s0) \<longrightarrow> (\<exists>d. \<not> fst (ca_schedule api c d (nc_world s0)))) \<or>
   (\<exists>c s0 s'. nc_create_connection api argv s = Inr (c, s0) \<and> nc_watch api argv s = Watching s' \<and> nc_connection s' = Some c)"
proof (cases "nc_create_connection api argv s")
  case (Inl r)
  then show ?thesis using nc_connection_failed by (fastforce simp: nc_watch_def)
next
  case (Inr q)
  then obtain c s0 where q: "nc_create_connection api argv s = Inr (c, s0)" "nc_connection s0 = Some c"
    by (auto simp: nc_create_connection_def split: prod.splits option.splits sum.splits)
  let ?s1 = "nc_callback api True c (ca_status api c (nc_world s0)) (s0\<lparr>nc_callbacks := 0\<rparr>)"
  obtain ok st where d: "ca_schedule api c (sc_doDispatch (nc_tool ?s1)) (nc_world s0) = (ok, st)"
    by (cases "ca_schedule api c (sc_doDispatch (nc_tool ?s1)) (nc_world s0)")
  show ?thesis
  proof (cases ok)
    case True
    with q d show ?thesis by (simp add: nc_watch_def Let_def fold_callback_connection nc_callback_connection)
  next
    case False
    with d have "\<not> fst (ca_schedule api c (sc_doDispatch (nc_tool ?s1)) (nc_world s0))" by simp
    then have "\<exists>d. \<not> fst (ca_schedule api c d (nc_world s0))" by blast
    with q d False show ?thesis by (simp add: nc_watch_def Let_def nc_callback_connection)
  qed
qed

lemma nc_trigger_ends:
  "(\<forall>h p. ca_stream api h p = (True, True)) \<or> ''background'' \<notin> set (tl argv) \<Longrightarrow> ends (nc_trigger api argv s)"
proof -
  have "fst (fold (trigger_argument api) as (False, n)) = False" if "''background'' \<notin> set as" for as n
    using that by (induction as arbitrary: n) (auto simp: trigger_argument_def split: option.splits)
  then have "fst (fold (trigger_argument api) (take 2 (tl argv)) (False, 80)) = False" if "''background'' \<notin> set (tl argv)"
    using that by (metis in_set_takeD)
  then show "(\<forall>h p. ca_stream api h p = (True, True)) \<or> ''background'' \<notin> set (tl argv) \<Longrightarrow> ends (nc_trigger api argv s)"
    by (auto simp: nc_trigger_def Let_def split: prod.splits option.splits list.splits)
qed

lemma run_nc_exits:
  assumes "nc_sound api s" and "f \<noteq> Func_watch" "f \<noteq> Func_ondemand"
    and "f = Func_trigger \<Longrightarrow> (\<forall>h p. ca_stream api h p = (True, True)) \<or> ''background'' \<notin> set (tl argv)"
  shows "exits (run_nc api f argv s)"
proof -
  have "exits (Ret (Ended (nc_select api argv s)))" using nc_select_ends [of api argv s] by (auto simp: ends_def exits_def)
  then show ?thesis
    using assms
    by (cases f) (simp_all add: nc_enablevpn_ends nc_list_ends nc_simple_ends nc_show_ends nc_start_ends nc_trigger_ends nc_help_def)
qed

lemma nc_rows:
  "\<forall>p \<in> set nc_cmds. snd p \<noteq> Func_watch \<and> (snd p = Func_status \<longleftrightarrow> fst p = ''status'') \<and>
     (snd p = Func_ondemand \<longleftrightarrow> fst p = ''ondemand'') \<and> (snd p = Func_trigger \<longleftrightarrow> fst p = ''trigger'')"
  by code_simp

lemma index_of_nth: "index_of x xs = Some n \<Longrightarrow> n < length xs \<and> xs ! n = x"
  by (induction xs arbitrary: n) (auto split: if_splits option.splits)

lemma nc_table_watch:
  assumes "find_nc_cmd cmd = Some n"
  shows "snd (nc_cmds ! n) \<noteq> Func_watch \<and> (snd (nc_cmds ! n) = Func_status \<longleftrightarrow> cmd = ''status'') \<and>
    (snd (nc_cmds ! n) = Func_ondemand \<longleftrightarrow> cmd = ''ondemand'') \<and> (snd (nc_cmds ! n) = Func_trigger \<longleftrightarrow> cmd = ''trigger'')"
proof -
  have n: "n < length nc_cmds" "map fst nc_cmds ! n = cmd"
    using index_of_nth [OF assms [unfolded find_nc_cmd_def]] by simp_all
  then have cmd: "fst (nc_cmds ! n) = cmd" by simp
  show ?thesis using nc_rows [THEN bspec, OF nth_mem [OF n(1)]] unfolding cmd .
qed

text \<open>
  C25. A command on connections never comes back to its caller. Every command of the table exits with 0 or 1, but for the two
  that watch: under \<open>-W\<close>, \<open>status\<close> stays in the run loop with the connection that the arguments made, and exits with 1 only
  if there is no connection or it cannot be scheduled; \<open>ondemand\<close> exits or stays in the run loop. None of them reads memory that is not there. It rests on services that have
  an interface with a type and names and that, enabled, can be connected; and for \<open>trigger\<close> with \<open>background\<close> on streams that
  were made. A command that is not in the table does nothing.
\<close>

theorem do_nc_cmd_exits:
  assumes "nc_sound api s" and "\<not> nc_ondemandwatch s"
    and "cmd = ''trigger'' \<Longrightarrow> (\<forall>h p. ca_stream api h p = (True, True)) \<or> ''background'' \<notin> set (tl argv)"
  shows "if find_nc_cmd cmd = None then do_nc_cmd api cmd argv watch s = Ret (Ended (Go s))
    else if watch \<and> cmd = ''status''
    then (\<exists>s'. do_nc_cmd api cmd argv watch s = Ret (Ended (Exit 1 s'))) \<and>
        (\<forall>c s0. nc_create_connection api argv s = Inr (c, s0) \<longrightarrow> (\<exists>d. \<not> fst (ca_schedule api c d (nc_world s0)))) \<or>
      (\<exists>c s0 s'. nc_create_connection api argv s = Inr (c, s0) \<and> do_nc_cmd api cmd argv watch s = Ret (Watching s') \<and>
         nc_connection s' = Some c)
    else (\<exists>n s'. do_nc_cmd api cmd argv watch s = Ret (Ended (Exit n s')) \<and> n \<le> 1) \<or>
      watch \<and> cmd = ''ondemand'' \<and> (\<exists>s'. do_nc_cmd api cmd argv watch s = Ret (Watching s'))"
proof (cases "find_nc_cmd cmd")
  case None
  then show ?thesis by (simp add: do_nc_cmd_def)
next
  case (Some n)
  let ?f = "snd (nc_cmds ! n)"
  note f = nc_table_watch [OF Some]
  have run: "do_nc_cmd api cmd argv watch s =
      (if watch \<and> cmd = ''status'' then Ret (nc_watch api argv s)
       else if watch \<and> cmd = ''ondemand'' then Ret (nc_ondemand api argv (s\<lparr>nc_ondemandwatch := True\<rparr>))
       else run_nc api ?f argv s)"
    using Some f by (auto simp: do_nc_cmd_def Let_def)
  consider (status) "watch" "cmd = ''status''" | (demand) "watch" "cmd = ''ondemand''" "cmd \<noteq> ''status''"
    | (other) "\<not> (watch \<and> cmd = ''status'')" "\<not> (watch \<and> cmd = ''ondemand'')" by auto
  then show ?thesis
  proof cases
    case status
    then have "do_nc_cmd api cmd argv watch s = Ret (nc_watch api argv s)" using run by simp
    with status(1,2) Some nc_watch_cases [of api argv s] show ?thesis by (simp only: option.distinct if_False simp_thms if_True) auto
  next
    case demand
    then have "do_nc_cmd api cmd argv watch s = Ret (nc_ondemand api argv (s\<lparr>nc_ondemandwatch := True\<rparr>))" using run by simp
    with demand Some nc_ondemand_watches [of api argv "s\<lparr>nc_ondemandwatch := True\<rparr>"] show ?thesis
      by (simp only: exits_def option.distinct if_False simp_thms) auto
  next
    case other
    have "exits (run_nc api ?f argv s)"
    proof (cases "cmd = ''ondemand''")
      case True
      then have "?f = Func_ondemand" using f by simp
      then show ?thesis using nc_ondemand_exits [OF assms(2)] by simp
    next
      case False
      have "?f \<noteq> Func_watch" "?f \<noteq> Func_ondemand" "?f = Func_trigger \<Longrightarrow> cmd = ''trigger''" using False f by simp_all
      with run_nc_exits [OF assms(1)] assms(3) show ?thesis by blast
    qed
    moreover have "do_nc_cmd api cmd argv watch s = run_nc api ?f argv s" using run other by simp
    ultimately show ?thesis using other Some by (simp only: exits_def option.distinct if_False simp_thms)
  qed
qed

section \<open>An instance\<close>

text \<open>Three VPN services, two of them with the same name; the world is the list of connections that run.\<close>

definition sample_names :: "'p name_ops" where
  "sample_names = \<lparr>nm_computer = (None, kSCStatusNoKey), nm_localhost = (None, kSCStatusNoKey),
     nm_host = \<lambda>_. (None, kSCStatusNoKey), nm_set_computer = \<lambda>p _. ((False, kSCStatusFailed), p),
     nm_set_localhost = \<lambda>p _. ((False, kSCStatusFailed), p), nm_set_host = \<lambda>p _. ((False, kSCStatusFailed), p),
     nm_stdin = '''', nm_tty = False, nm_buf = ''''\<rparr>"

definition sample_nc :: "(string \<Rightarrow> plist option, string, nat, unit, nat, nat list) nc_api" where
  "sample_nc = \<lparr>ca_ops = flat_ops, ca_names = sample_names, ca_services = \<lambda>_ _. Some [0, 1, 2],
     ca_service_id = \<lambda>h. ''ID'' @ decimal h, ca_service_name = \<lambda>h. Some (if h = 0 then ''Office'' else ''Home''),
     ca_service_enabled = \<lambda>_. True, ca_service_interface = \<lambda>_. Some ''PPP'', ca_service_is_vpn = \<lambda>_. True,
     ca_below = \<lambda>i. if i = Some ''PPP'' then Some ''L2TP'' else None, ca_type = id, ca_display = id,
     ca_connect = \<lambda>h _. Inr h, ca_connection_service = id,
     ca_start = \<lambda>c _ _ w. ((True, kSCStatusOK), c # w), ca_stop = \<lambda>c _ w. ((True, kSCStatusOK), removeAll c w),
     ca_suspend = \<lambda>_ w. (True, w), ca_resume = \<lambda>_ w. (True, w),
     ca_status = \<lambda>c w. if c \<in> set w then Nc_connected else Nc_disconnected, ca_error = \<lambda>_. kSCStatusOK,
     ca_extended = \<lambda>_ _. None, ca_statistics = \<lambda>_ _. None, ca_schedule = \<lambda>_ _ _. (True, kSCStatusOK),
     ca_events = [Nc_connecting, Nc_connected], ca_changes = [], ca_store = \<lambda>_. (True, kSCStatusOK),
     ca_value = \<lambda>_ _. None, ca_demand = \<lambda>_ _ _. (False, \<lparr>di_service = None, di_remote = None\<rparr>, kSCStatusOK),
     ca_refresh = \<lambda>w. ((True, kSCStatusOK), w), ca_vpn_enabled = \<lambda>_ _. True, ca_vpn_authorize = \<lambda>_ _. (True, kSCStatusOK),
     ca_vpn_enable = \<lambda>_ w. ((True, kSCStatusOK), w), ca_bookmark = \<lambda>d. Some (CFString d), ca_url = \<lambda>_. True, ca_ascii = Some,
     ca_set_value = \<lambda>p k v. map_option (\<lambda>f. f(k := Some v)) p, ca_get_value = \<lambda>p k. case p of None \<Rightarrow> None | Some f \<Rightarrow> f k,
     ca_resolve = \<lambda>_. None, ca_current_set = \<lambda>_. Some (), ca_enable_service = \<lambda>_ p. ((True, kSCStatusOK), p),
     ca_stream = \<lambda>_ _. (True, True), ca_intvalue = \<lambda>_. 0\<rparr>"

definition sample_nc_state :: "(string \<Rightarrow> plist option, nat, nat list) nc_state" where
  "sample_nc_state = \<lparr>nc_tool = flat_start fmempty fmempty, nc_username = Some ''me'', nc_password = Some ''pw'',
     nc_sharedsecret = None, nc_ondemandwatch = False, nc_nodename = None, nc_connection = None, nc_callbacks = 0,
     nc_world = []\<rparr>"

lemma nc_changes_one_connection_witness:
  "\<exists>s'. do_nc_cmd sample_nc ''start'' [''Office''] False sample_nc_state = Ret (Ended (Exit 0 s')) \<and> nc_world s' = [0]"
proof -
  have "do_nc_cmd sample_nc ''start'' [''Office''] False sample_nc_state =
    Ret (Ended (Exit 0 (sample_nc_state\<lparr>nc_world := [0]\<rparr>)))"
    by (simp add: change_command ended_def nc_start_def with_connection_def nc_create_connection_def nc_done_def
        nc_copy_service_from_arguments_def nc_copy_service_def nc_release_connection_def
        nc_get_service_type_and_subtype_def sample_nc_def sample_nc_state_def flat_ops_def decimal.simps)
  from this nc_changes_one_connection [OF _ _ this, of "''Office''"] show ?thesis
    by (auto simp: sample_nc_def flat_ops_def)
qed

lemma do_nc_cmd_exits_witness:
  "(\<exists>n s'. do_nc_cmd sample_nc ''list'' [] True sample_nc_state = Ret (Ended (Exit n s')) \<and> n \<le> 1) \<and>
   (\<exists>s'. do_nc_cmd sample_nc ''status'' [''Office''] True sample_nc_state = Ret (Watching s') \<and> nc_connection s' = Some 0)"
proof -
  have sound: "nc_sound sample_nc sample_nc_state"
    by (simp add: nc_sound_def presentable_def sample_nc_def)
  have list: "find_nc_cmd ''list'' \<noteq> None" "find_nc_cmd ''status'' \<noteq> None" by (simp_all add: find_nc_cmd_def nc_cmds_def)
  have streams: "\<forall>h p. ca_stream sample_nc h p = (True, True)" by (simp add: sample_nc_def)
  have new: "nc_create_connection sample_nc [''Office''] sample_nc_state = Inr (0, sample_nc_state\<lparr>nc_connection := Some 0\<rparr>)"
    by (simp add: nc_create_connection_def nc_copy_service_from_arguments_def nc_copy_service_def sample_nc_def
        sample_nc_state_def flat_ops_def decimal.simps)
  have calm: "\<not> nc_ondemandwatch sample_nc_state" "fst (ca_schedule sample_nc c d w)" for c d w
    by (simp_all add: sample_nc_state_def sample_nc_def)
  from do_nc_cmd_exits [OF sound calm(1), of "''list''" "[]" True] do_nc_cmd_exits [OF sound calm(1), of "''status''" "[''Office'']" True]
    list new streams calm(2)
  show ?thesis by auto
qed

section \<open>Inputs that are not handled\<close>

text \<open>\<open>trigger\<close> with \<open>background\<close> uses a stream that was not made.\<close>

lemma trigger_without_streams:
  assumes "sp_utf8 (ca_ops api) host = Some h" "ca_stream api h 80 \<noteq> (True, True)"
  shows "nc_trigger api [host, ''background''] s = UB"
  using assms by (simp add: nc_trigger_def trigger_argument_def)

text \<open>Without an argument \<open>enablevpn\<close> reports an error and success.\<close>

lemma enablevpn_without_argument: "nc_enablevpn api [] s = Ret (Exit 0 (nc_note (Msg ''No service type or ID'') s))"
  by (simp add: nc_enablevpn_def)

text \<open>The same when the application cannot be stored.\<close>

lemma application_url_failure:
  "ca_bookmark api d = None \<Longrightarrow> \<exists>s'. nc_set_application_url api (Some t) (Some d) s = Exit 0 s'"
  by (cases "ca_url api d") (auto simp: nc_set_application_url_def)

text \<open>The help names \<open>disablevpn\<close>, which is no command.\<close>

lemma disablevpn_unknown: "find_nc_cmd ''disablevpn'' = None"
  by code_simp

text \<open>A name of 31 characters or more loses its closing quote, or more.\<close>

lemma padded_name_unclosed:
  assumes "31 \<le> length t"
  shows "\<exists>x. copy_padded_string (Some t) 32 (Some [CHR 0x22]) (Some [CHR 0x22]) = Ret x \<and>
    x = CHR 0x22 # take (max (length t) 32 - 1) t"
  using assms by (auto simp: copy_padded_string_def pad_to_def max_def take_Cons')

text \<open>An enabled service that cannot be connected ends the list.\<close>

lemma obind_UB: "(\<And>x. f x = UB) \<Longrightarrow> obind m f = UB"
  by (cases m) simp_all

lemma unconnected_service_crashes:
  assumes "ca_service_enabled api h" "ca_connect api h (nc_world s) = Inl e"
  shows "nc_print_VPN_service api h s = UB"
proof -
  have "copy_padded_string (copy_VPN_status api h (nc_world s)) 16 (Some ''('') (Some '')'') = UB"
    using assms by (simp add: copy_VPN_status_def copy_padded_string_def)
  then show ?thesis by (auto simp: nc_print_VPN_service_def intro!: obind_UB)
qed

text \<open>The preferences of a service without a subtype are those of the name that prints for NULL.\<close>

lemma show_without_subtype: "vpn_prefs None = ''VPN-(null).plist''"
  by (simp add: vpn_prefs_def show_or_null_def)

text \<open>The message for a service of another kind does not say which.\<close>

lemma show_other_service:
  assumes "nc_copy_service_from_arguments api argv None s = (Some h, s1)" "\<not> ca_service_is_vpn api h"
  shows "nc_show api argv s = Ret (Exit 1 (nc_close_prefs (nc_note (Msg ''Not a connection oriented service: (null)'') s1)))"
  using assms by (simp add: nc_show_def show_or_null_def)

text \<open>A refused suspension is reported as success.\<close>

lemma suspend_refused:
  assumes "nc_create_connection api argv s = Inr (c, s1)" "ca_suspend api c (nc_world s1) = (False, w)"
  shows "nc_suspend api argv s = Ret (Exit 0 (s1\<lparr>nc_world := w, nc_connection := None\<rparr>))"
  using assms by (simp add: nc_suspend_def with_connection_def nc_done_def nc_release_connection_def)

end
