(* ===== verification/ScutilTests.thy ===== *)
theory ScutilTests
  imports ScutilNames ScutilNotify NwiState
begin

text \<open>
  The requests of \<open>scutil\<close> that check, wait and show (tests.c): reachability with its options, the network information,
  the DNS and proxy configurations, the renewal of a lease, waiting for a key, and advisories.

  What the framework answers comes through the records below. A run loop delivers its events and then ends, where the
  source would go on waiting; the dates of events are left out. Functions that leave the program answer with a
  \<open>prog\<close>, or with the notes of an exit with code 1.
\<close>

section \<open>Reachability: options\<close>

datatype net_address = Inet uint32 | Inet6 "uint8 list" uint32

datatype reach_key =
    R_node | R_local | R_remote | R_interface | R_server_bypass | R_demand_bypass | R_resolver_bypass | R_ptr

datatype reach_value = RV_flag bool | RV_text string | RV_address net_address

type_synonym reach_options = "(reach_key, reach_value) fmap"

record reach_env =
  re_utf8 :: "string \<Rightarrow> string option"
  re_ascii :: "string \<Rightarrow> string option"
  re_aton :: "string \<Rightarrow> uint32 option"
  re_pton6 :: "string \<Rightarrow> uint8 list option"
  re_index :: "string \<Rightarrow> uint32"

text \<open>The loop over the options; an interface among them replaces the one of the address.\<close>

fun reach_loop :: "string list \<Rightarrow> string option \<Rightarrow> reach_options \<Rightarrow> string + reach_options \<times> string option" where
  "reach_loop [] interface options = Inr (options, interface)"
| "reach_loop (a # args) interface options =
     (if strcaseeq a ''interface''
      then (case args of [] \<Rightarrow> Inl ''No interface'' | i # rest \<Rightarrow> reach_loop rest (Some i) options)
      else if strcaseeq a ''server'' then reach_loop args interface (fmupd R_server_bypass (RV_flag False) options)
      else if strcaseeq a ''no-server'' then reach_loop args interface (fmupd R_server_bypass (RV_flag True) options)
      else if strcaseeq a ''no-connection-on-demand''
      then reach_loop args interface (fmupd R_demand_bypass (RV_flag True) options)
      else if strcaseeq a ''no-resolve'' then reach_loop args interface (fmupd R_resolver_bypass (RV_flag True) options)
      else if strcaseeq a ''ptr'' then reach_loop args interface (fmupd R_ptr (RV_flag True) options)
      else if a = '''' then reach_loop args interface options
      else Inl (''Unrecognized option: '' @ a))"

definition setupReachabilityOptions ::
    "reach_env \<Rightarrow> string list \<Rightarrow> string option \<Rightarrow> (string + reach_options option) outcome" where
  "setupReachabilityOptions env argv interface =
     (case reach_loop argv interface fmempty of
        Inl e \<Rightarrow> Ret (Inl e)
      | Inr (options, None) \<Rightarrow> Ret (Inr (if options = fmempty then None else Some options))
      | Inr (options, Some i) \<Rightarrow>
          if re_index env i = 0 then Ret (Inl (''No interface: '' @ i))
          else (case re_ascii env i of
                  None \<Rightarrow> UB
                | Some t \<Rightarrow> Ret (Inr (Some (fmupd R_interface (RV_text t) options)))))"

section \<open>Reachability: the target\<close>

datatype reach_request =
    By_name string
  | By_address net_address
  | By_pair net_address net_address
  | By_options reach_options

text \<open>The part before a percent sign and the one behind it.\<close>

definition split_scope :: "string \<Rightarrow> string \<times> string option" where
  "split_scope a =
     (let name = takeWhile (\<lambda>c. c \<noteq> CHR ''%'') a
      in (name, if length name = length a then None else Some (drop (Suc (length name)) a)))"

definition option_info :: "string \<Rightarrow> nat \<Rightarrow> reach_options \<Rightarrow> string" where
  "option_info what n options =
     (if R_interface |\<in>| fmdom options
      then (if fcard (fmdom options) = n then what @ '' w/scope'' else what @ '' w/scope and options'')
      else what @ '' w/options'')"

text \<open>A request for the name of an address: the address moves to the option, which is an error without one.\<close>

definition ptr_request :: "reach_options \<Rightarrow> string \<Rightarrow> string + reach_request \<times> string" where
  "ptr_request options info =
     (if R_ptr |\<in>| fmdom options
      then (case fmlookup options R_remote of
              None \<Rightarrow> Inl ''No address''
            | Some v \<Rightarrow>
                let o1 = fmdrop R_remote (fmupd R_ptr v options)
                in Inr (By_options o1, if fcard (fmdom o1) = 1 then ''by PTR'' else option_info ''by PTR'' 2 o1))
      else Inr (By_options options, info))"

definition named_request :: "reach_env \<Rightarrow> string list \<Rightarrow> (string + reach_request \<times> string) outcome" where
  "named_request env argv =
     (if length argv = 1 then Ret (Inr (By_name (hd argv), ''by name''))
      else obind (setupReachabilityOptions env (tl argv) None) (\<lambda>r.
        case r of
          Inl e \<Rightarrow> Ret (Inl e)
        | Inr None \<Rightarrow> Ret (Inr (By_name (hd argv), ''by name''))
        | Inr (Some options) \<Rightarrow>
            (case re_utf8 env (hd argv) of
               None \<Rightarrow> UB
             | Some t \<Rightarrow> Ret (ptr_request (fmupd R_node (RV_text t) options) ''by name w/options''))))"

definition address_request ::
    "reach_env \<Rightarrow> string list \<Rightarrow> net_address \<Rightarrow> string option \<Rightarrow> string \<Rightarrow> (reach_options \<Rightarrow> string) \<Rightarrow>
     (string + reach_request \<times> string) outcome" where
  "address_request env argv addr interface plain info =
     obind (if length argv > 2 then setupReachabilityOptions env (drop 2 argv) interface else Ret (Inr None)) (\<lambda>r.
       case r of
         Inl e \<Rightarrow> Ret (Inl e)
       | Inr None \<Rightarrow> Ret (Inr (By_address addr, plain))
       | Inr (Some options) \<Rightarrow>
           let o1 = fmupd R_remote (RV_address addr) options in Ret (ptr_request o1 (info o1)))"

definition pair_request ::
    "reach_env \<Rightarrow> string list \<Rightarrow> net_address \<Rightarrow> net_address \<Rightarrow> string option \<Rightarrow> string \<Rightarrow> (reach_options \<Rightarrow> string) \<Rightarrow>
     (string + reach_request \<times> string) outcome" where
  "pair_request env argv addr remote interface plain info =
     obind (setupReachabilityOptions env (drop 2 argv) interface) (\<lambda>r.
       case r of
         Inl e \<Rightarrow> Ret (Inl e)
       | Inr None \<Rightarrow> Ret (Inr (By_pair addr remote, plain))
       | Inr (Some options) \<Rightarrow>
           let o1 = fmupd R_remote (RV_address remote) (fmupd R_local (RV_address addr) options)
           in Ret (ptr_request o1 (info o1)))"

definition scope_mismatch :: "string option \<Rightarrow> string option \<Rightarrow> string option" where
  "scope_mismatch interface remote_interface =
     (case (interface, remote_interface) of
        (Some i, Some r) \<Rightarrow> if i \<noteq> r then Some (''Interface mismatch '' @ i @ '' != '' @ r) else None
      | _ \<Rightarrow> None)"

text \<open>The request to the framework, with its description; the first argument is there.\<close>

definition reach_request_of :: "reach_env \<Rightarrow> string list \<Rightarrow> (string + reach_request \<times> string) outcome" where
  "reach_request_of env argv =
     (case split_scope (hd argv) of (ip_address, interface) \<Rightarrow>
      let remote = (if length argv > 1 \<and> argv ! 1 \<noteq> '''' then Some (split_scope (argv ! 1)) else None)
      in case re_aton env ip_address of
           Some a \<Rightarrow>
             (case (case remote of None \<Rightarrow> None | Some (r, ri) \<Rightarrow> map_option (\<lambda>ra. (ra, ri)) (re_aton env r)) of
                None \<Rightarrow> address_request env argv (Inet a) interface ''by address'' (option_info ''by address'' 2)
              | Some (ra, ri) \<Rightarrow>
                  (case scope_mismatch interface ri of
                     Some e \<Rightarrow> Ret (Inl e)
                   | None \<Rightarrow> pair_request env argv (Inet a) (Inet ra) (if ri \<noteq> None then ri else interface)
                               ''by address pair'' (option_info ''by address pair'' 3)))
         | None \<Rightarrow>
             (case re_pton6 env ip_address of
                Some a \<Rightarrow>
                  let addr = Inet6 a (case interface of None \<Rightarrow> 0 | Some i \<Rightarrow> re_index env i)
                  in (case (case remote of None \<Rightarrow> None | Some (r, ri) \<Rightarrow> map_option (\<lambda>ra. (ra, ri)) (re_pton6 env r)) of
                        None \<Rightarrow> address_request env argv addr None ''by (v6) address'' (\<lambda>_. ''by (v6) address w/options'')
                      | Some (ra, ri) \<Rightarrow>
                          (case scope_mismatch interface ri of
                             Some e \<Rightarrow> Ret (Inl e)
                           | None \<Rightarrow> pair_request env argv addr (Inet6 ra (case ri of None \<Rightarrow> 0 | Some i \<Rightarrow> re_index env i)) None
                                       ''by (v6) address pair'' (\<lambda>_. ''by (v6) address pair w/options'')))
              | None \<Rightarrow> named_request env argv))"

section \<open>Reachability: the commands\<close>

record 't reach_api =
  ra_env :: reach_env
  ra_create :: "reach_request \<Rightarrow> sc_status + 't"
  ra_flags :: "'t \<Rightarrow> sc_status + uint32"
  ra_flags_text :: "uint32 \<Rightarrow> string"
  ra_before :: bool
  ra_set_callback :: "'t \<Rightarrow> bool \<times> sc_status"
  ra_schedule :: "'t \<Rightarrow> bool \<Rightarrow> bool \<times> sc_status"
  ra_callouts :: "uint32 list"

definition setupReachability :: "'t reach_api \<Rightarrow> string list \<Rightarrow> (string + (sc_status + 't) \<times> string) outcome" where
  "setupReachability api argv =
     (if argv = [] then UB
      else obind (reach_request_of (ra_env api) argv) (\<lambda>r.
             Ret (case r of Inl e \<Rightarrow> Inl e | Inr (req, info) \<Rightarrow> Inr (ra_create api req, info))))"

definition printReachability :: "'t reach_api \<Rightarrow> 't \<Rightarrow> out_note list" where
  "printReachability api target =
     (case ra_flags api target of
        Inl e \<Rightarrow> [Msg ''    could not determine reachability, '', Status e]
      | Inr flags \<Rightarrow> [Msg (ra_flags_text api flags)])"

text \<open>The exit code and what was printed.\<close>

definition with_target ::
    "'t reach_api \<Rightarrow> string list \<Rightarrow> ('t \<Rightarrow> string \<Rightarrow> (nat \<times> out_note list) outcome) \<Rightarrow> (nat \<times> out_note list) outcome" where
  "with_target api argv f =
     obind (setupReachability api argv) (\<lambda>r.
       case r of
         Inl e \<Rightarrow> Ret (1, [Msg e])
       | Inr (Inl st, _) \<Rightarrow> Ret (1, [Msg ''  Could not determine status: '', Status st])
       | Inr (Inr target, info) \<Rightarrow> f target info)"

definition do_checkReachability :: "'t reach_api \<Rightarrow> string list \<Rightarrow> (nat \<times> out_note list) outcome" where
  "do_checkReachability api argv = with_target api argv (\<lambda>target _. Ret (0, printReachability api target))"

fun callout :: "'t reach_api \<Rightarrow> 't \<Rightarrow> string \<Rightarrow> nat \<Rightarrow> uint32 list \<Rightarrow> out_note list" where
  "callout api target info n [] = []"
| "callout api target info n (flags # events) =
     Msg (decimal n @ '': callback w/flags info='' @ info) # printReachability api target @ callout api target info (Suc n) events"

text \<open>The target is made twice; the first is looked at before the second is scheduled.\<close>

definition do_watchReachability :: "'t reach_api \<Rightarrow> bool \<Rightarrow> string list \<Rightarrow> (nat \<times> out_note list) outcome" where
  "do_watchReachability api dispatch argv =
     with_target api argv (\<lambda>target _.
     with_target api argv (\<lambda>target_async0 info.
       let target_async = (if ra_before api then target else target_async0);
           notes = Msg '' 0: direct'' # printReachability api target @ [Msg '' 1: start'']
       in case ra_set_callback api target_async of
            (False, e) \<Rightarrow> Ret (1, notes @ [Msg ''SCNetworkReachabilitySetCallback() failed: '', Status e])
          | (True, _) \<Rightarrow>
              (case ra_schedule api target_async dispatch of
                 (False, e) \<Rightarrow> Ret (1, notes @ [Msg ''scheduling failed: '', Status e])
               | (True, _) \<Rightarrow>
                   Ret (0, notes @ Msg '' 2: on'' # printReachability api target_async @
                           callout api target_async info 3 (ra_callouts api)))))"

section \<open>Network information and DNS\<close>

datatype nwi_report = Nwi_message string | Nwi_entry nwi_ifstate | Nwi_state nwi_state

text \<open>\<open>get\<close> is the search of an entry by name in both families, which the framework has.\<close>

definition do_printNWI :: "(nwi_state \<Rightarrow> string \<Rightarrow> nat option) \<Rightarrow> string list \<Rightarrow> nwi_state option \<Rightarrow> nwi_report list outcome" where
  "do_printNWI get argv state =
     (case state of
        None \<Rightarrow> Ret [Nwi_message ''No network information'']
      | Some s \<Rightarrow>
          (case argv of
             [] \<Rightarrow> Ret [Nwi_state s]
           | name # _ \<Rightarrow>
               (case get s name of
                  None \<Rightarrow> Ret [Nwi_message (''No network information (for '' @ name @ '')'')]
                | Some p \<Rightarrow>
                    let e = ifstate_list s ! p; alias_af = nwi_other_af (ifs_af e)
                    in (case nwi_ifstate_get_alias s p alias_af of
                          None \<Rightarrow> Ret [Nwi_entry e]
                        | Some q \<Rightarrow>
                            if 0 \<le> q \<and> nat q < length (ifstate_list s)
                            then Ret [Nwi_entry e, Nwi_entry (ifstate_list s ! nat q)] else UB))))"

definition do_showNWI :: "(nwi_state \<Rightarrow> string \<Rightarrow> nat option) \<Rightarrow> string list \<Rightarrow> nwi_state option \<Rightarrow> (nat \<times> nwi_report list) outcome" where
  "do_showNWI get argv state =
     obind (do_printNWI get argv state) (\<lambda>out. Ret (if state = None then 1 else 0, out))"

fun print_each :: "('s \<Rightarrow> 'r list outcome) \<Rightarrow> 's list \<Rightarrow> 'r list outcome" where
  "print_each f [] = Ret []"
| "print_each f (x # xs) = obind (f x) (\<lambda>a. obind (print_each f xs) (\<lambda>b. Ret (a @ b)))"

definition do_watchNWI ::
    "(nwi_state \<Rightarrow> string \<Rightarrow> nat option) \<Rightarrow> string list \<Rightarrow> nwi_state option \<Rightarrow> bool \<Rightarrow> nwi_state option list \<Rightarrow>
     (nat \<times> nwi_report list) outcome" where
  "do_watchNWI get argv state registered events =
     obind (do_printNWI get argv state) (\<lambda>out.
       if \<not> registered then Ret (1, out @ [Nwi_message ''notify_register_dispatch() failed for nwi changes''])
       else obind (print_each (do_printNWI get argv) events) (\<lambda>out'. Ret (0, out @ out')))"

datatype 'd dns_report = Dns_message string | Dns_log 'd

definition do_printDNSConfiguration :: "'d option \<Rightarrow> 'd dns_report list" where
  "do_printDNSConfiguration dns_config =
     (case dns_config of None \<Rightarrow> [Dns_message ''No DNS configuration available''] | Some d \<Rightarrow> [Dns_log d])"

definition do_showDNSConfiguration :: "'d option \<Rightarrow> nat \<times> 'd dns_report list" where
  "do_showDNSConfiguration dns_config = (if dns_config = None then 1 else 0, do_printDNSConfiguration dns_config)"

definition do_watchDNSConfiguration :: "'d option \<Rightarrow> bool \<Rightarrow> 'd option list \<Rightarrow> nat \<times> 'd dns_report list" where
  "do_watchDNSConfiguration dns_config registered events =
     (let out = do_printDNSConfiguration dns_config
      in if \<not> registered then (1, out @ [Dns_message ''notify_register_dispatch() failed for nwi changes''])
         else (0, out @ concat (map do_printDNSConfiguration events)))"

section \<open>Proxies\<close>

definition showProxy :: "bool \<Rightarrow> dict \<Rightarrow> out_note list" where
  "showProxy debug proxy =
     [Show_value (CFDictionary (if debug then proxy
        else fmdrop ''__SUPPLEMENTAL__'' (fmdrop ''__SERVICES__'' (fmdrop ''__SCOPED__'' proxy))))]"

text \<open>The arguments: the last server, and the last interface that exists.\<close>

fun proxy_arguments ::
    "(string \<Rightarrow> string option) \<Rightarrow> (string \<Rightarrow> uint32) \<Rightarrow> string list \<Rightarrow> string option \<Rightarrow> string option \<Rightarrow>
     string + string option \<times> string option" where
  "proxy_arguments utf8 index [] interface server = Inr (interface, server)"
| "proxy_arguments utf8 index (a # args) interface server =
     (if strcaseeq a ''interface''
      then (case args of
              [] \<Rightarrow> Inl ''No interface''
            | i # rest \<Rightarrow> if index i = 0 then Inl (''No interface: '' @ i) else proxy_arguments utf8 index rest (utf8 i) server)
      else proxy_arguments utf8 index args interface (utf8 a))"

record proxy_api =
  xa_utf8 :: "string \<Rightarrow> string option"
  xa_index :: "string \<Rightarrow> uint32"
  xa_bypass :: bool
  xa_copy :: "bool \<Rightarrow> dict option"
  xa_matching :: "dict \<Rightarrow> string option \<Rightarrow> string option \<Rightarrow> dict list option"

fun number_proxies :: "bool \<Rightarrow> nat \<Rightarrow> dict list \<Rightarrow> out_note list" where
  "number_proxies debug n [] = []"
| "number_proxies debug n (p # ps) = Msg (''proxy #'' @ decimal n) # showProxy debug p @ number_proxies debug (Suc n) ps"

definition do_showProxyConfiguration :: "proxy_api \<Rightarrow> bool \<Rightarrow> string list \<Rightarrow> nat \<times> out_note list" where
  "do_showProxyConfiguration api debug argv =
     (case xa_copy api (xa_bypass api) of
        None \<Rightarrow> (0, [Msg ''No proxy configuration available''])
      | Some proxies \<Rightarrow>
          (case proxy_arguments (xa_utf8 api) (xa_index api) argv None None of
             Inl e \<Rightarrow> (1, [Msg e])
           | Inr (interface, server) \<Rightarrow>
               if server = None \<and> interface = None then (0, showProxy debug proxies)
               else (case xa_matching api proxies server interface of
                       None \<Rightarrow> (0, [Msg ''No matching proxy configurations''])
                     | Some l \<Rightarrow>
                         (0, Msg (case server of
                                    None \<Rightarrow> ''interface = '' @ (case interface of None \<Rightarrow> '''' | Some i \<Rightarrow> i)
                                  | Some x \<Rightarrow> ''server = '' @ x @ (case interface of None \<Rightarrow> '''' | Some i \<Rightarrow> '', interface = '' @ i)) #
                             number_proxies debug 1 l))))"

section \<open>Renewing a lease\<close>

record ('p, 'i) renew_api =
  rn_ops :: "'p sp_ops"
  rn_ascii :: "string \<Rightarrow> string option"
  rn_with_store :: bool
  rn_interfaces :: "'i list option"
  rn_services :: "'p option \<Rightarrow> 'i option list option"
  rn_name :: "'i \<Rightarrow> string option"
  rn_refresh :: "'i \<Rightarrow> bool \<times> sc_status"

text \<open>The first interface with the name is refreshed; the name is asserted to be ASCII.\<close>

definition refresh_first :: "('p, 'i) renew_api \<Rightarrow> string \<Rightarrow> 'i list \<Rightarrow> (bool \<times> sc_status) option outcome" where
  "refresh_first api if_name l =
     (case rn_ascii api if_name of
        None \<Rightarrow> UB
      | Some t \<Rightarrow> Ret (map_option (rn_refresh api) (List.find (\<lambda>i. rn_name api i = Some t) l)))"

definition renew_with_prefs :: "('p, 'i) renew_api \<Rightarrow> string \<Rightarrow> 'p prefs_tool \<Rightarrow> 'p prefs_tool prog outcome" where
  "renew_with_prefs api if_name s =
     (let s1 = snd (do_prefs_open (rn_ops api) [] s)
      in case rn_services api (pw_prefs (sc_world s1)) of
           None \<Rightarrow> Ret (Exit 1 (print_note (Msg ''No interface'') s1))
         | Some services \<Rightarrow>
             obind (refresh_first api if_name (List.map_filter id services)) (\<lambda>r.
               Ret (case r of
                      None \<Rightarrow> Exit 1 (print_note (Msg ''No interface'') s1)
                    | Some (False, st) \<Rightarrow> Exit 1 (print_note (Status st) s1)
                    | Some (True, _) \<Rightarrow> Exit 0 (upd_world prefs_close s1))))"

definition do_renew :: "('p, 'i) renew_api \<Rightarrow> string \<Rightarrow> 'p prefs_tool \<Rightarrow> 'p prefs_tool prog outcome" where
  "do_renew api if_name s =
     (if if_name = '''' then Ret (Exit 1 (print_note (Msg ''No interface name'') s))
      else if \<not> rn_with_store api then renew_with_prefs api if_name s
      else (case rn_interfaces api of
              None \<Rightarrow> renew_with_prefs api if_name s
            | Some l \<Rightarrow>
                obind (refresh_first api if_name l) (\<lambda>r.
                  case r of
                    Some (True, _) \<Rightarrow> Ret (Exit 0 s)
                  | Some (False, st) \<Rightarrow>
                      if st \<noteq> kSCStatusAccessError then Ret (Exit 1 (print_note (Status st) s))
                      else renew_with_prefs api if_name s
                  | None \<Rightarrow> renew_with_prefs api if_name s)))"

section \<open>Waiting for a key\<close>

datatype wait_event = Key_changed | Alarm

text \<open>
  The callback leaves with 0, the alarm, which is only set for a positive time, with 1. \<open>Go\<close> is that the run loop
  goes on without an event. A key that is no UTF-8 would be put into the array as NULL.
\<close>

fun wait_loop :: "bool \<Rightarrow> wait_event list \<Rightarrow> 'w scutil \<Rightarrow> 'w scutil prog" where
  "wait_loop timed [] s = Go s"
| "wait_loop timed (Key_changed # events) s = Exit 0 s"
| "wait_loop timed (Alarm # events) s = (if timed then Exit 1 s else wait_loop timed events s)"

definition do_wait :: "'w ds_ops \<Rightarrow> bool \<Rightarrow> wait_event list \<Rightarrow> string \<Rightarrow> int \<Rightarrow> 'w scutil \<Rightarrow> 'w scutil prog outcome" where
  "do_wait ops timer_ok events waitKey timeout s =
     (case ds_create ops (sc_world s) False of
        ((False, st), w) \<Rightarrow> Ret (Exit 1 (print_note (Status st) (s\<lparr>sc_store := False, sc_world := w\<rparr>)))
      | ((True, _), w) \<Rightarrow>
          let s1 = s\<lparr>sc_store := True, sc_world := w\<rparr>
          in case ds_utf8 ops waitKey of
               None \<Rightarrow> UB
             | Some key \<Rightarrow>
                 (case ds_set_keys ops True w (Some [key]) None of
                    ((False, st), w1) \<Rightarrow> Ret (Exit 1 (print_note (Status st) (s1\<lparr>sc_world := w1\<rparr>)))
                  | ((True, _), w1) \<Rightarrow>
                      (case ds_source ops True w1 of
                         ((False, st), w2) \<Rightarrow> Ret (Exit 1 (print_note (Status st) (s1\<lparr>sc_world := w2, sc_notifyRls := False\<rparr>)))
                       | ((True, _), w2) \<Rightarrow>
                           let v = fst (ds_copy ops True w2 key);
                               s2 = s1\<lparr>sc_world := w2, sc_notifyRls := True, sc_value := v\<rparr>
                           in if v \<noteq> None then Ret (Exit 0 s2)
                              else if timeout > 0 \<and> \<not> timer_ok then Ret (Exit 1 (print_note (Msg ''setitimer() failed'') s2))
                              else Ret (wait_loop (timeout > 0) events s2))))"

section \<open>Advisories\<close>

datatype advisory = Advisory_uplink | Advisory_link_layer

record ('i, 'w) advisory_api =
  av_ops :: "'w ds_ops"
  av_interface :: "string \<Rightarrow> 'i option"
  av_set :: "'i \<Rightarrow> advisory \<Rightarrow> 'w \<Rightarrow> 'w"
  av_is_set :: "'i \<Rightarrow> 'w \<Rightarrow> bool"
  av_key :: "'i \<Rightarrow> string"
  av_events :: nat

definition advisoryCheck :: "('i, 'w) advisory_api \<Rightarrow> 'i \<Rightarrow> 'w scutil \<Rightarrow> 'w scutil" where
  "advisoryCheck api i s = print_note (Msg (if av_is_set api i (sc_world s) then ''set'' else ''not set'')) s"

definition advisoryWatch :: "('i, 'w) advisory_api \<Rightarrow> 'i \<Rightarrow> 'w scutil \<Rightarrow> 'w scutil prog" where
  "advisoryWatch api i s =
     (case ds_create (av_ops api) (sc_world s) False of
        ((False, st), w) \<Rightarrow> Exit 1 (print_note (Status st) (s\<lparr>sc_store := False, sc_world := w\<rparr>))
      | ((True, _), w) \<Rightarrow>
          (case ds_set_keys (av_ops api) True w (Some [av_key api i]) None of
             ((False, st), w1) \<Rightarrow> Exit 1 (print_note (Status st) (s\<lparr>sc_store := True, sc_world := w1\<rparr>))
           | ((True, _), w1) \<Rightarrow>
               (case ds_source (av_ops api) True w1 of
                  ((False, st), w2) \<Rightarrow> Exit 1 (print_note (Status st) (s\<lparr>sc_store := True, sc_world := w2, sc_notifyRls := False\<rparr>))
                | ((True, _), w2) \<Rightarrow> Go (s\<lparr>sc_store := True, sc_world := w2, sc_notifyRls := True\<rparr>))))"

definition advisory_of_args :: "string list \<Rightarrow> string + advisory" where
  "advisory_of_args argv =
     (case argv of
        [] \<Rightarrow> Inr Advisory_uplink
      | a # args \<Rightarrow>
          if \<not> strcaseeq a ''set'' then Inl ''usage: scutil --advisory''
          else (case args of
                  [] \<Rightarrow> Inr Advisory_uplink
                | b # _ \<Rightarrow> if strcaseeq b ''uplink'' then Inr Advisory_uplink
                           else if strcaseeq b ''linklayer'' then Inr Advisory_link_layer
                           else Inl (''Bad advisory '' @ b)))"

text \<open>A name that is not UTF-8 becomes NULL, which is released.\<close>

definition do_advisory ::
    "('i, 'w) advisory_api \<Rightarrow> string \<Rightarrow> bool \<Rightarrow> string list \<Rightarrow> 'w scutil \<Rightarrow> 'w scutil prog outcome" where
  "do_advisory api ifname watch argv s =
     (case ds_utf8 (av_ops api) ifname of
        None \<Rightarrow> UB
      | Some ifname_cf \<Rightarrow> Ret (
          case av_interface api ifname_cf of
            None \<Rightarrow> Exit 1 (print_note (Msg ''Failed to instantiate SCNetworkInterfaceRef'') s)
          | Some i \<Rightarrow>
              if argv \<noteq> []
              then (case advisory_of_args argv of
                      Inl e \<Rightarrow> Exit 1 (print_note (Msg e) s)
                    | Inr a \<Rightarrow> Exit 0 (s\<lparr>sc_world := av_set api i a (sc_world s)\<rparr>))
              else if \<not> watch then Exit 0 (advisoryCheck api i s)
              else (case advisoryWatch api i (advisoryCheck api i s) of
                      Exit n s1 \<Rightarrow> Exit n s1
                    | Go s1 \<Rightarrow> Exit 0 (((advisoryCheck api i) ^^ av_events api) s1))))"

end
