(* ===== verification/TestsProps.thy ===== *)
theory TestsProps
  imports ScutilTests NwiProps ScutilScript
begin

text \<open>
  What the requests of tests.c guarantee: waiting ends, what is shown of an interface is all that the network
  information has of it, and a reachability request is for the address that was given. The last section has what is
  dropped without a message.
\<close>

section \<open>Waiting for a key\<close>

lemma wait_loop_ends:
  "Alarm \<in> set events \<Longrightarrow>
   wait_loop True events s = Exit (if Key_changed \<in> set (takeWhile (\<lambda>e. e \<noteq> Alarm) events) then 0 else 1) s"
proof (induction events)
  case (Cons e events)
  then show ?case by (cases e) auto
qed simp

text \<open>The calls that prepare the wait succeed.\<close>

definition wait_ready :: "'w ds_ops \<Rightarrow> bool" where
  "wait_ready ops \<longleftrightarrow>
     (\<forall>w b. fst (fst (ds_create ops w b))) \<and> (\<forall>w k p. fst (fst (ds_set_keys ops True w k p))) \<and>
     (\<forall>w. fst (fst (ds_source ops True w)))"

text \<open>The world when the key is looked at.\<close>

definition wait_world :: "'w ds_ops \<Rightarrow> string \<Rightarrow> 'w \<Rightarrow> 'w" where
  "wait_world ops key w =
     snd (ds_source ops True (snd (ds_set_keys ops True (snd (ds_create ops w False)) (Some [key]) None)))"

text \<open>
  C29. Waiting for a key with a time limit ends: once the calls that prepare it succeed, the program leaves as soon as
  the alarm comes, if not before, with 0 exactly when the key was there already or changed before the
  alarm, and with 1 otherwise.
\<close>

theorem do_wait_ends:
  assumes "wait_ready ops" "ds_utf8 ops waitKey = Some key" "timeout > 0" "Alarm \<in> set events"
  shows "\<exists>n s'. do_wait ops True events waitKey timeout s = Ret (Exit n s') \<and> n \<le> 1 \<and>
    (n = 0 \<longleftrightarrow> fst (ds_copy ops True (wait_world ops key (sc_world s)) key) \<noteq> None \<or>
                Key_changed \<in> set (takeWhile (\<lambda>e. e \<noteq> Alarm) events))"
proof -
  obtain st1 w1 where create: "ds_create ops (sc_world s) False = ((True, st1), w1)"
    using assms(1) by (metis wait_ready_def prod.collapse)
  obtain st2 w2 where keys: "ds_set_keys ops True w1 (Some [key]) None = ((True, st2), w2)"
    using assms(1) by (metis wait_ready_def prod.collapse)
  obtain st3 w3 where source: "ds_source ops True w2 = ((True, st3), w3)"
    using assms(1) by (metis wait_ready_def prod.collapse)
  have world: "wait_world ops key (sc_world s) = w3" by (simp add: wait_world_def create keys source)
  show ?thesis
    using assms(2-4) by (cases "ds_copy ops True w3 key")
      (auto simp: do_wait_def world create keys source wait_loop_ends Let_def)
qed

lemma do_wait_ends_witness:
  "\<exists>n s'. do_wait mem_ops True [Key_changed, Alarm] ''State:/x'' 15 (tool_start []) = Ret (Exit n s') \<and> n = 0"
proof -
  have ready: "wait_ready mem_ops" by (simp add: wait_ready_def mem_ops_def)
  have utf8: "ds_utf8 mem_ops ''State:/x'' = Some ''State:/x''" by (simp add: mem_ops_def ascii_def)
  have "(0::int) < 15" "Alarm \<in> set [Key_changed, Alarm]" by simp_all
  from do_wait_ends [OF ready utf8 this, of "tool_start []"] show ?thesis by auto
qed

section \<open>Network information\<close>

text \<open>
  C27. \<open>scutil --nwi\<close> with the name of an interface shows all that a well-formed state has of it: the entry that the search
  found, and after it the entry of that name in the other family, if there is one. Following the alias
  link never leaves the list of entries.
\<close>

theorem do_printNWI_families:
  assumes "nwi_inv s" "valid_af a" "nwi_state_get_ifstate_with_name (Some s) a name = Some p" "get s name = Some p"
  shows "do_printNWI get [name] (Some s) =
    Ret (Nwi_entry (ifstate_list s ! p) #
      (case nwi_state_get_ifstate_with_name (Some s) (nwi_other_af a) name of
         None \<Rightarrow> [] | Some q \<Rightarrow> [Nwi_entry (ifstate_list s ! q)]))"
proof -
  have mem: "nwi_mem s" using assms(1) by (simp add: nwi_inv_def)
  obtain i where i: "i < nwi_state_get_ifstate_count s a" "p = nwi_state_ifstate_list s a + i" "ifs_name (nwi_ent s a i) = name"
    by (rule with_name_SomeD [OF mem assms(2,3)])
  have "nwi_ent s a i \<in> set (nwi_entries s a)" using i(1) mem by (simp add: entries_conv)
  then have af: "ifs_af (ifstate_list s ! p) = a"
    using assms(1,2) i(2) by (auto simp: nwi_inv_def nwi_names_def)
  have link: "nwi_ifstate_get_alias s p (nwi_other_af a) =
      map_option int (nwi_state_get_ifstate_with_name (Some s) (nwi_other_af a) name)"
    using nwi_ifstate_get_alias_lookup [OF assms(1,2) i(1)] i by simp
  have "q < length (ifstate_list s)" if q: "nwi_state_get_ifstate_with_name (Some s) (nwi_other_af a) name = Some q" for q
  proof -
    obtain j where j: "j < nwi_state_get_ifstate_count s (nwi_other_af a)" "q = nwi_state_ifstate_list s (nwi_other_af a) + j"
      by (rule with_name_SomeD [OF mem valid_other_af q])
    have "j < max_if_count s" using j(1) count_le_max [OF mem, of "nwi_other_af a"] by simp
    then have "q < 2 * max_if_count s" using slot_less [OF valid_other_af] j(2) by simp
    then show ?thesis using mem by (simp add: nwi_mem_def)
  qed
  then show ?thesis
    by (cases "nwi_state_get_ifstate_with_name (Some s) (nwi_other_af a) name")
      (simp_all add: do_printNWI_def assms(4) af link)
qed

lemma do_printNWI_families_witness:
  "\<exists>e q. do_printNWI (\<lambda>s. nwi_state_get_ifstate_with_name (Some s) AF_INET) [''en0''] (Some nwi_two_families) =
     Ret [e, Nwi_entry (ifstate_list nwi_two_families ! q)]"
proof -
  have found: "nwi_state_get_ifstate_with_name (Some nwi_two_families) AF_INET ''en0'' = Some 0"
    "nwi_state_get_ifstate_with_name (Some nwi_two_families) (nwi_other_af AF_INET) ''en0'' = Some 2"
    by code_simp+
  from do_printNWI_families [where get = "\<lambda>s. nwi_state_get_ifstate_with_name (Some s) AF_INET", OF nwi_two_families_inv _ found(1) found(1)]
    found(2) show ?thesis by (auto simp: valid_af_def)
qed

section \<open>Reachability\<close>

text \<open>Addresses that a request is about, and those of them that are the remote end or the one whose name is asked for.\<close>

definition remote_end :: "reach_request \<Rightarrow> net_address set" where
  "remote_end r =
     (case r of
        By_name _ \<Rightarrow> {}
      | By_address a \<Rightarrow> {a}
      | By_pair _ b \<Rightarrow> {b}
      | By_options o1 \<Rightarrow> {a. fmlookup o1 R_remote = Some (RV_address a) \<or> fmlookup o1 R_ptr = Some (RV_address a)})"

definition local_end :: "reach_request \<Rightarrow> net_address set" where
  "local_end r =
     (case r of By_pair a _ \<Rightarrow> {a} | By_options o1 \<Rightarrow> {a. fmlookup o1 R_local = Some (RV_address a)} | _ \<Rightarrow> {})"

text \<open>What the options from the command line can hold: flags and a name, never an address.\<close>

definition plain_options :: "reach_options \<Rightarrow> bool" where
  "plain_options d \<longleftrightarrow> (\<forall>k a. fmlookup d k \<noteq> Some (RV_address a))"

lemma plain_upd [simp]:
  "plain_options d \<Longrightarrow> plain_options (fmupd k (RV_flag b) d)" "plain_options d \<Longrightarrow> plain_options (fmupd k (RV_text t) d)"
  by (auto simp: plain_options_def)

lemma reach_loop_plain: "reach_loop argv i d = Inr (o1, j) \<Longrightarrow> plain_options d \<Longrightarrow> plain_options o1"
  by (induction argv i d rule: reach_loop.induct) (auto split: if_splits list.splits)

lemma options_plain:
  assumes "setupReachabilityOptions env argv i = Ret (Inr (Some o1))"
  shows "plain_options o1"
proof (cases "reach_loop argv i fmempty")
  case (Inr q)
  obtain o0 j where q: "q = (o0, j)" by (cases q)
  have "plain_options o0" using reach_loop_plain [of argv i fmempty o0 j] Inr q by (simp add: plain_options_def)
  then show ?thesis
    using assms Inr q by (cases j) (auto simp: setupReachabilityOptions_def plain_options_def split: if_splits option.splits)
qed (use assms in \<open>simp add: setupReachabilityOptions_def\<close>)

lemma ptr_request_remote:
  assumes "plain_options d" "ptr_request (fmupd R_remote (RV_address b) d) info = Inr (req, t)"
  shows "remote_end req = {b} \<and> local_end req = {}"
  using assms by (auto simp: ptr_request_def remote_end_def local_end_def plain_options_def Let_def split: if_splits)

lemma ptr_request_pair:
  assumes "plain_options d" "ptr_request (fmupd R_remote (RV_address b) (fmupd R_local (RV_address a) d)) info = Inr (req, t)"
  shows "remote_end req = {b} \<and> local_end req = {a}"
  using assms by (auto simp: ptr_request_def remote_end_def local_end_def plain_options_def Let_def split: if_splits)

text \<open>The two ends that the arguments name: a pair only when both are addresses of one family.\<close>

definition ends_of :: "reach_env \<Rightarrow> string list \<Rightarrow> net_address option \<times> net_address option" where
  "ends_of env argv =
     (case split_scope (hd argv) of (l, ls) \<Rightarrow>
      let remote = (if length argv > 1 \<and> argv ! 1 \<noteq> '''' then Some (split_scope (argv ! 1)) else None);
          scope = (\<lambda>i. case i of None \<Rightarrow> 0 | Some x \<Rightarrow> re_index env x)
      in case re_aton env l of
           Some a \<Rightarrow> (case Option.bind remote (\<lambda>(x, _). re_aton env x) of
                          None \<Rightarrow> (None, Some (Inet a)) | Some b \<Rightarrow> (Some (Inet a), Some (Inet b)))
         | None \<Rightarrow>
             (case re_pton6 env l of
                None \<Rightarrow> (None, None)
              | Some a \<Rightarrow>
                  (case Option.bind remote (\<lambda>(x, i). map_option (\<lambda>b. Inet6 b (scope i)) (re_pton6 env x)) of
                     None \<Rightarrow> (None, Some (Inet6 a (scope ls))) | Some b \<Rightarrow> (Some (Inet6 a (scope ls)), Some b))))"

lemma obind_sum_Ret:
  "obind m (\<lambda>r. case r of Inl e \<Rightarrow> Ret (Inl e) | Inr x \<Rightarrow> f x) = Ret (Inr y) \<Longrightarrow> \<exists>x. m = Ret (Inr x) \<and> f x = Ret (Inr y)"
  by (cases m) (auto split: sum.splits)

lemma address_request_ends:
  assumes "address_request env argv a i plain info = Ret (Inr (req, t))"
  shows "remote_end req = {a} \<and> local_end req = {}"
proof -
  obtain r where r: "(if length argv > 2 then setupReachabilityOptions env (drop 2 argv) i else Ret (Inr None)) = Ret (Inr r)"
    using assms unfolding address_request_def by (blast dest: obind_sum_Ret)
  show ?thesis
  proof (cases r)
    case None
    with r assms show ?thesis by (auto simp: address_request_def remote_end_def local_end_def)
  next
    case (Some o1)
    with r have "plain_options o1" by (auto split: if_splits dest: options_plain)
    moreover have "ptr_request (fmupd R_remote (RV_address a) o1) (info (fmupd R_remote (RV_address a) o1)) = Inr (req, t)"
      using assms r Some by (simp add: address_request_def Let_def)
    ultimately show ?thesis by (rule ptr_request_remote)
  qed
qed

lemma pair_request_ends:
  assumes "pair_request env argv a b i plain info = Ret (Inr (req, t))"
  shows "remote_end req = {b} \<and> local_end req = {a}"
proof -
  obtain r where r: "setupReachabilityOptions env (drop 2 argv) i = Ret (Inr r)"
    using assms unfolding pair_request_def by (blast dest: obind_sum_Ret)
  show ?thesis
  proof (cases r)
    case None
    with r assms show ?thesis by (auto simp: pair_request_def remote_end_def local_end_def)
  next
    case (Some o1)
    with r have plain: "plain_options o1" by (auto dest: options_plain)
    have "ptr_request (fmupd R_remote (RV_address b) (fmupd R_local (RV_address a) o1))
        (info (fmupd R_remote (RV_address b) (fmupd R_local (RV_address a) o1))) = Inr (req, t)"
      using assms r Some by (simp add: pair_request_def Let_def)
    with plain show ?thesis by (rule ptr_request_pair)
  qed
qed

lemma named_request_ends:
  assumes "named_request env argv = Ret (Inr (req, t))"
  shows "remote_end req = {} \<and> local_end req = {}"
proof (cases "length argv = 1")
  case True
  with assms show ?thesis by (auto simp: named_request_def remote_end_def local_end_def)
next
  case False
  then obtain r where r: "setupReachabilityOptions env (tl argv) None = Ret (Inr r)"
    using assms unfolding named_request_def by (auto dest!: obind_sum_Ret simp del: obind_eq_Ret)
  show ?thesis
  proof (cases r)
    case None
    with r assms False show ?thesis by (auto simp: named_request_def remote_end_def local_end_def)
  next
    case (Some o1)
    with r have plain: "plain_options o1" by (auto dest: options_plain)
    from Some r assms False obtain u where "ptr_request (fmupd R_node (RV_text u) o1) ''by name w/options'' = Inr (req, t)"
      by (auto simp: named_request_def split: option.splits)
    with plain show ?thesis
      by (auto simp: ptr_request_def remote_end_def local_end_def plain_options_def Let_def split: if_splits option.splits)
  qed
qed

text \<open>
  C24. The request to check reachability has the ends that the arguments name, whichever of its forms it takes: when the
  arguments of reach_request_of are accepted, the remote address and the local address of the request (whether it is a
  plain address, a pair, or a dictionary of options, and also when the option for a name by address moves the remote
  address) are those of a direct reading of the first two arguments, ends_of: a pair only when both are addresses of one
  family, otherwise the first alone, and none for a name. No option can bring in or remove an address.
\<close>

theorem reach_request_ends:
  assumes "reach_request_of env argv = Ret (Inr (req, info))"
  shows "remote_end req = set_option (snd (ends_of env argv)) \<and> local_end req = set_option (fst (ends_of env argv))"
proof -
  obtain l ls where h: "split_scope (hd argv) = (l, ls)" by (cases "split_scope (hd argv)")
  define remote where "remote = (if length argv > 1 \<and> argv ! 1 \<noteq> '''' then Some (split_scope (argv ! 1)) else None)"
  show ?thesis
  proof (cases "re_aton env l")
    case (Some a)
    show ?thesis
      using assms Some
      by (auto simp: reach_request_of_def ends_of_def h remote_def [symmetric] simp del: obind_eq_Ret
          split: option.splits prod.splits dest: address_request_ends pair_request_ends)
  next
    case None
    then show ?thesis
      using assms
      by (auto simp: reach_request_of_def ends_of_def h remote_def [symmetric] Let_def simp del: obind_eq_Ret
          split: option.splits prod.splits dest: address_request_ends pair_request_ends named_request_ends)
  qed
qed

text \<open>A framework that knows three addresses and the interface en0.\<close>

definition sample_reach :: reach_env where
  "sample_reach = \<lparr>re_utf8 = Some, re_ascii = Some,
     re_aton = (\<lambda>t. if t = ''1.2.3.4'' then Some 1 else if t = ''1.2.3.5'' then Some 2 else None),
     re_pton6 = (\<lambda>t. if t = ''fe80::1'' then Some [254, 128, 1] else None),
     re_index = (\<lambda>i. if i = ''en0'' then 4 else 0)\<rparr>"

lemma reach_request_ends_witness:
  "\<exists>req. reach_request_of sample_reach [''1.2.3.4'', ''1.2.3.5'', ''ptr''] = Ret (Inr (req, ''by PTR w/options'')) \<and>
     remote_end req = {Inet 2} \<and> local_end req = {Inet 1}"
proof -
  obtain req where r: "reach_request_of sample_reach [''1.2.3.4'', ''1.2.3.5'', ''ptr''] = Ret (Inr (req, ''by PTR w/options''))"
    by (simp add: reach_request_of_def split_scope_def sample_reach_def pair_request_def setupReachabilityOptions_def
        scope_mismatch_def strcaseeq_def ptr_request_def option_info_def Let_def fcard_finsert_if fcard_fminus_fsingleton)
  have e: "ends_of sample_reach [''1.2.3.4'', ''1.2.3.5'', ''ptr''] = (Some (Inet 1), Some (Inet 2))"
    by (simp add: ends_of_def split_scope_def sample_reach_def)
  from reach_request_ends [OF r] e r show ?thesis by auto
qed

section \<open>What is dropped\<close>

text \<open>The interface after a lone IPv4 address is not part of the request, though it is checked for a pair.\<close>

lemma lone_scope_dropped:
  "reach_request_of sample_reach [''1.2.3.4%en7''] = Ret (Inr (By_address (Inet 1), ''by address''))"
  by (simp add: reach_request_of_def split_scope_def sample_reach_def address_request_def)

text \<open>The argument after one address is never an option: anything that is not an address is skipped there.\<close>

lemma option_after_address_skipped:
  assumes "re_aton env a = Some n" "re_aton env (fst (split_scope x)) = None" "CHR ''%'' \<notin> set a"
  shows "reach_request_of env [a, x] = Ret (Inr (By_address (Inet n), ''by address''))"
proof -
  have "takeWhile (\<lambda>c. c \<noteq> CHR ''%'') a = a" using assms(3) by (auto simp: takeWhile_eq_all_conv)
  then have "split_scope a = (a, None)" by (simp add: split_scope_def Let_def del: takeWhile_eq_all_conv)
  then show ?thesis
    using assms(1,2) by (cases "split_scope x") (simp add: reach_request_of_def address_request_def)
qed

lemma no_resolve_skipped:
  "reach_request_of sample_reach [''1.2.3.4'', ''no-resolve''] = Ret (Inr (By_address (Inet 1), ''by address''))"
  by (rule option_after_address_skipped) (simp_all add: sample_reach_def split_scope_def)

end
