(* ===== verification/StoreHelpers.thy ===== *)
theory StoreHelpers
  imports ScutilScript
begin

text \<open>
  Small wrappers around the dynamic store (SCLocation.c, SCDConsoleUser.c), the deprecated reachability calls
  (SCNetwork.c), and the DOS encodings (SCDPrivate.c).

  The store is the one of the tool (\<open>ds_ops\<close>); \<open>b\<close> tells whether there is a session. A pointer to a result that may
  be NULL is an option with the value it points to. An answer is the status, or the object.
\<close>

section \<open>Location and console user\<close>

definition location_key :: string where
  "location_key = ''Setup:''"

definition SCDynamicStoreCopyLocation :: "'w ds_ops \<Rightarrow> bool \<Rightarrow> 'w \<Rightarrow> sc_status + string" where
  "SCDynamicStoreCopyLocation ops b w =
     (case isA_CFDictionary (fst (ds_copy ops b w location_key)) of
        None \<Rightarrow> Inl kSCStatusNoKey
      | Some dict \<Rightarrow>
          (case isA_CFString (fmlookup dict ''CurrentSet'') of
             None \<Rightarrow> Inl kSCStatusNoKey
           | Some location \<Rightarrow> Inr location))"

definition SCDynamicStoreKeyCreateConsoleUser :: string where
  "SCDynamicStoreKeyCreateConsoleUser = ''State:'' @ ''/'' @ ''Users'' @ ''/'' @ ''ConsoleUser''"

text \<open>A number that fits 32 bits with sign; otherwise what the pointer has is kept.\<close>

definition get_id :: "dict \<Rightarrow> string \<Rightarrow> uint32 option \<Rightarrow> uint32 option" where
  "get_id dict key p =
     (case p of
        None \<Rightarrow> None
      | Some old \<Rightarrow>
          (case isA_CFNumber (fmlookup dict key) of
             None \<Rightarrow> Some old
           | Some n \<Rightarrow> if - (2 ^ 31) \<le> n \<and> n < 2 ^ 31 then Some (word_of_int n) else Some old))"

definition SCDynamicStoreCopyConsoleUser ::
    "'w ds_ops \<Rightarrow> bool \<Rightarrow> 'w \<Rightarrow> uint32 option \<Rightarrow> uint32 option \<Rightarrow> (sc_status + string) \<times> uint32 option \<times> uint32 option" where
  "SCDynamicStoreCopyConsoleUser ops b w uid gid =
     (case isA_CFDictionary (fst (ds_copy ops b w SCDynamicStoreKeyCreateConsoleUser)) of
        None \<Rightarrow> (Inl kSCStatusNoKey, uid, gid)
      | Some dict \<Rightarrow>
          (case isA_CFString (fmlookup dict ''Name'') of
             None \<Rightarrow> (Inl kSCStatusNoKey, uid, gid)
           | Some consoleUser \<Rightarrow> (Inr consoleUser, get_id dict ''UID'' uid, get_id dict ''GID'' gid)))"

definition SCDynamicStoreCopyConsoleInformation :: "'w ds_ops \<Rightarrow> bool \<Rightarrow> 'w \<Rightarrow> sc_status + plist list" where
  "SCDynamicStoreCopyConsoleInformation ops b w =
     (case isA_CFDictionary (fst (ds_copy ops b w SCDynamicStoreKeyCreateConsoleUser)) of
        None \<Rightarrow> Inl kSCStatusNoKey
      | Some dict \<Rightarrow>
          (case isA_CFArray (fmlookup dict ''SessionInfo'') of
             None \<Rightarrow> Inl kSCStatusNoKey
           | Some info \<Rightarrow> Inr info))"

text \<open>
  The entries of a user; a name that is no text (\<open>roman\<close> is the encoding) would be put as NULL. The numbers are stored
  with sign.
\<close>

definition user_entries :: "(string \<Rightarrow> string option) \<Rightarrow> string \<Rightarrow> uint32 \<Rightarrow> uint32 \<Rightarrow> dict outcome" where
  "user_entries roman user uid gid =
     (case roman user of
        None \<Rightarrow> UB
      | Some consoleUser \<Rightarrow>
          Ret (fmupd ''GID'' (CFNumber (sint gid)) (fmupd ''UID'' (CFNumber (sint uid)) (fmupd ''Name'' (CFString consoleUser) fmempty))))"

definition SCDynamicStoreSetConsoleInformation ::
    "'w ds_ops \<Rightarrow> (string \<Rightarrow> string option) \<Rightarrow> bool \<Rightarrow> string option \<Rightarrow> uint32 \<Rightarrow> uint32 \<Rightarrow> plist list option \<Rightarrow> 'w \<Rightarrow>
     ((bool \<times> sc_status) \<times> 'w) outcome" where
  "SCDynamicStoreSetConsoleInformation ops roman b user uid gid sessions w =
     (if user = None \<and> sessions = None then Ret (ds_remove ops b w SCDynamicStoreKeyCreateConsoleUser)
      else obind (case user of None \<Rightarrow> Ret fmempty | Some u \<Rightarrow> user_entries roman u uid gid) (\<lambda>d.
             Ret (ds_set ops b w SCDynamicStoreKeyCreateConsoleUser
                    (Some (CFDictionary (case sessions of None \<Rightarrow> d | Some l \<Rightarrow> fmupd ''SessionInfo'' (CFArray l) d))))))"

definition SCDynamicStoreSetConsoleUser ::
    "'w ds_ops \<Rightarrow> (string \<Rightarrow> string option) \<Rightarrow> bool \<Rightarrow> string option \<Rightarrow> uint32 \<Rightarrow> uint32 \<Rightarrow> 'w \<Rightarrow> ((bool \<times> sc_status) \<times> 'w) outcome" where
  "SCDynamicStoreSetConsoleUser ops roman b user uid gid w =
     (case user of
        None \<Rightarrow> Ret (ds_remove ops b w SCDynamicStoreKeyCreateConsoleUser)
      | Some u \<Rightarrow>
          obind (user_entries roman u uid gid) (\<lambda>d.
            Ret (ds_set ops b w SCDynamicStoreKeyCreateConsoleUser (Some (CFDictionary d)))))"

text \<open>A store that keeps what it accepts.\<close>

locale keeping_store =
  fixes ops :: "'w ds_ops"
  assumes set_copy: "ds_set ops b w k (Some v) = ((True, st), w') \<Longrightarrow> plist_ok v \<Longrightarrow> fst (ds_copy ops b w' k) = Some v"
    and remove_copy: "ds_remove ops b w k = ((True, st), w') \<Longrightarrow> fst (ds_copy ops b w' k) = None"
begin

lemma user_read_back:
  assumes "plist_ok (CFDictionary d)" "ds_set ops b w SCDynamicStoreKeyCreateConsoleUser (Some (CFDictionary d)) = ((True, st), w')"
    and "fmlookup d ''Name'' = Some (CFString u)" "fmlookup d ''UID'' = Some (CFNumber (sint uid))"
    and "fmlookup d ''GID'' = Some (CFNumber (sint gid))"
  shows "SCDynamicStoreCopyConsoleUser ops b w' (Some x) (Some y) = (Inr u, Some (uid :: uint32), Some (gid :: uint32))"
proof -
  have range: "- (2 ^ 31) \<le> sint (a :: uint32) \<and> sint a < 2 ^ 31" for a
    using sint_ge [of a] sint_lt [of a] by simp
  have "get_id d k (Some z) = Some a" if "fmlookup d k = Some (CFNumber (sint a))" for k z and a :: uint32
    using that range [of a] by (simp add: get_id_def)
  with set_copy [OF assms(2,1)] assms(3-5) show ?thesis
    by (simp add: SCDynamicStoreCopyConsoleUser_def)
qed

end

interpretation mem_keeps: keeping_store mem_ops
proof (unfold_locales)
  show "fst (ds_copy mem_ops b w' k) = Some v"
    if "ds_set mem_ops b w k (Some v) = ((True, st), w')" "plist_ok v" for b w k v st w'
    using that by (auto simp: mem_ops_def mem_set_def mem_copy_def)
  show "fst (ds_copy mem_ops b w' k) = None" if "ds_remove mem_ops b w k = ((True, st), w')" for b w k st w'
  proof -
    have "map_of w' k = None" using that by (auto simp: mem_ops_def map_of_eq_None_iff)
    then show ?thesis by (simp add: mem_ops_def mem_copy_def)
  qed
qed

section \<open>Reachability\<close>

text \<open>
  The address is copied to a structure of 128 bytes, whose first byte is then its length. The framework creates the
  object, and answers its flags.
\<close>

definition sockaddr_storage :: "uint8 list \<Rightarrow> uint32 \<Rightarrow> uint8 list outcome" where
  "sockaddr_storage address addrlen =
     (if unat addrlen \<le> length address
      then Ret ((take (unat addrlen) address @ replicate (128 - unat addrlen) 0)[0 := ucast addrlen])
      else UB)"

definition SCNetworkCheckReachabilityByAddress ::
    "(uint8 list \<Rightarrow> sc_status + (sc_status + uint32)) \<Rightarrow> uint8 list option \<Rightarrow> uint32 \<Rightarrow> (sc_status + uint32) outcome" where
  "SCNetworkCheckReachabilityByAddress create address addrlen =
     (case address of
        None \<Rightarrow> Ret (Inl kSCStatusInvalidArgument)
      | Some a \<Rightarrow>
          if addrlen = 0 \<or> addrlen > 128 then Ret (Inl kSCStatusInvalidArgument)
          else obind (sockaddr_storage a addrlen) (\<lambda>ss. Ret (case create ss of Inl e \<Rightarrow> Inl e | Inr flags \<Rightarrow> flags)))"

definition SCNetworkCheckReachabilityByName ::
    "(string \<Rightarrow> sc_status + (sc_status + uint32)) \<Rightarrow> string option \<Rightarrow> sc_status + uint32" where
  "SCNetworkCheckReachabilityByName create nodename =
     (case nodename of
        None \<Rightarrow> Inl kSCStatusInvalidArgument
      | Some n \<Rightarrow> (case create n of Inl e \<Rightarrow> Inl e | Inr flags \<Rightarrow> flags))"

section \<open>DOS encodings\<close>

datatype mac_encoding =
    MacRoman | MacJapanese | MacChineseTrad | MacKorean | MacArabic | MacHebrew | MacGreek | MacCyrillic | MacThai
  | MacChineseSimp | MacCentralEurRoman | MacTurkish | MacCroatian | MacIcelandic | MacRomanian | MacFarsi | MacUkrainian
  | MacOther uint32

datatype dos_encoding =
    DOSLatin1 | DOSLatinUS | DOSJapanese | DOSChineseTrad | DOSKorean | DOSArabic | DOSHebrew | DOSGreek | DOSCyrillic
  | DOSThai | DOSChineseSimplif | DOSLatin2 | DOSTurkish | DOSIcelandic

fun dos_of_mac :: "mac_encoding \<Rightarrow> uint32 \<Rightarrow> dos_encoding" where
  "dos_of_mac MacRoman macRegion = (if macRegion \<noteq> 0 then DOSLatin1 else DOSLatinUS)"
| "dos_of_mac MacJapanese _ = DOSJapanese"
| "dos_of_mac MacChineseTrad _ = DOSChineseTrad"
| "dos_of_mac MacKorean _ = DOSKorean"
| "dos_of_mac MacArabic _ = DOSArabic"
| "dos_of_mac MacHebrew _ = DOSHebrew"
| "dos_of_mac MacGreek _ = DOSGreek"
| "dos_of_mac MacCyrillic _ = DOSCyrillic"
| "dos_of_mac MacThai _ = DOSThai"
| "dos_of_mac MacChineseSimp _ = DOSChineseSimplif"
| "dos_of_mac MacCentralEurRoman _ = DOSLatin2"
| "dos_of_mac MacTurkish _ = DOSTurkish"
| "dos_of_mac MacCroatian _ = DOSLatin2"
| "dos_of_mac MacIcelandic _ = DOSIcelandic"
| "dos_of_mac MacRomanian _ = DOSLatin2"
| "dos_of_mac MacFarsi _ = DOSArabic"
| "dos_of_mac MacUkrainian _ = DOSCyrillic"
| "dos_of_mac (MacOther _) _ = DOSLatin1"

definition SC_dos_encoding_and_codepage ::
    "(dos_encoding \<Rightarrow> uint32) \<Rightarrow> mac_encoding \<Rightarrow> uint32 \<Rightarrow> dos_encoding \<times> uint32" where
  "SC_dos_encoding_and_codepage codepage macEncoding macRegion =
     (let dosEncoding = dos_of_mac macEncoding macRegion in (dosEncoding, codepage dosEncoding))"

section \<open>Properties\<close>

text \<open>
  C28. The console user that was set is read back, with any user and group identifier of 32 bits: the numbers above
  two to the 31, which are stored as negative ones, come back as they were. The sessions that were set
  with the user are read back as well.
\<close>

theorem console_user_roundtrip:
  assumes "keeping_store ops" "roman u = Some t" "case sessions of None \<Rightarrow> True | Some l \<Rightarrow> plist_ok (CFArray l)"
    and "SCDynamicStoreSetConsoleInformation ops roman b (Some u) uid gid sessions w = Ret ((True, st), w')"
  shows "SCDynamicStoreCopyConsoleUser ops b w' (Some x) (Some y) = (Inr t, Some uid, Some gid) \<and>
    SCDynamicStoreCopyConsoleInformation ops b w' = (case sessions of None \<Rightarrow> Inl kSCStatusNoKey | Some l \<Rightarrow> Inr l)"
proof -
  define d where "d = fmupd ''GID'' (CFNumber (sint gid)) (fmupd ''UID'' (CFNumber (sint uid)) (fmupd ''Name'' (CFString t) fmempty))"
  define e where "e = (case sessions of None \<Rightarrow> d | Some l \<Rightarrow> fmupd ''SessionInfo'' (CFArray l) d)"
  have set: "ds_set ops b w SCDynamicStoreKeyCreateConsoleUser (Some (CFDictionary e)) = ((True, st), w')"
    using assms(2,4) unfolding e_def d_def by (simp add: SCDynamicStoreSetConsoleInformation_def user_entries_def)
  have ok: "plist_ok (CFDictionary e)"
    using assms(3) by (auto simp: e_def d_def split: option.splits if_splits)
  have look: "fmlookup e ''Name'' = Some (CFString t)" "fmlookup e ''UID'' = Some (CFNumber (sint uid))"
    "fmlookup e ''GID'' = Some (CFNumber (sint gid))" "fmlookup e ''SessionInfo'' = map_option CFArray sessions"
    by (auto simp: e_def d_def split: option.splits)
  have "fst (ds_copy ops b w' SCDynamicStoreKeyCreateConsoleUser) = Some (CFDictionary e)"
    by (rule keeping_store.set_copy [OF assms(1) set ok])
  then have "SCDynamicStoreCopyConsoleInformation ops b w' = (case sessions of None \<Rightarrow> Inl kSCStatusNoKey | Some l \<Rightarrow> Inr l)"
    using look(4) by (auto simp: SCDynamicStoreCopyConsoleInformation_def split: option.splits)
  with keeping_store.user_read_back [OF assms(1) ok set look(1-3)] show ?thesis by simp
qed

lemma console_user_roundtrip_witness:
  "\<exists>w'. SCDynamicStoreSetConsoleInformation mem_ops Some True (Some ''root'') (- 2) 20 (Some [CFBoolean True]) [] = Ret ((True, kSCStatusOK), w') \<and>
     SCDynamicStoreCopyConsoleUser mem_ops True w' (Some 0) (Some 0) = (Inr ''root'', Some (- 2), Some 20)"
proof -
  obtain w' where w': "SCDynamicStoreSetConsoleInformation mem_ops Some True (Some ''root'') (- 2) 20 (Some [CFBoolean True]) [] = Ret ((True, kSCStatusOK), w')"
    by (simp add: SCDynamicStoreSetConsoleInformation_def user_entries_def mem_ops_def mem_set_def)
  have "plist_ok (CFArray [CFBoolean True])" by simp
  with console_user_roundtrip [OF mem_keeps.keeping_store_axioms _ _ w', of "''root''" 0 0] w' show ?thesis by simp
qed

text \<open>Setting the user alone drops the sessions that were there.\<close>

lemma set_user_drops_sessions:
  assumes "keeping_store ops" "roman u = Some t" "SCDynamicStoreSetConsoleUser ops roman b (Some u) uid gid w = Ret ((True, st), w')"
  shows "SCDynamicStoreCopyConsoleInformation ops b w' = Inl kSCStatusNoKey"
proof -
  let ?d = "fmupd ''GID'' (CFNumber (sint gid)) (fmupd ''UID'' (CFNumber (sint uid)) (fmupd ''Name'' (CFString t) fmempty))"
  have "ds_set ops b w SCDynamicStoreKeyCreateConsoleUser (Some (CFDictionary ?d)) = ((True, st), w')"
    using assms(2,3) by (simp add: SCDynamicStoreSetConsoleUser_def user_entries_def)
  moreover have "plist_ok (CFDictionary ?d)" by (auto split: if_splits)
  ultimately have "fst (ds_copy ops b w' SCDynamicStoreKeyCreateConsoleUser) = Some (CFDictionary ?d)"
    by (rule keeping_store.set_copy [OF assms(1)])
  then show ?thesis by (simp add: SCDynamicStoreCopyConsoleInformation_def)
qed

text \<open>The structure that the framework gets has 128 bytes and says how long the address is.\<close>

lemma reachability_structure:
  assumes "sockaddr_storage a n = Ret ss" "n \<noteq> 0" "n \<le> 128"
  shows "length ss = 128 \<and> unat (ss ! 0) = unat n \<and> (\<forall>i. 0 < i \<and> i < unat n \<longrightarrow> ss ! i = a ! i)"
proof -
  have n: "unat n \<le> 128" "0 < unat n" using assms(2,3) by (auto simp: word_le_nat_alt unat_gt_0)
  then have "unat (ucast n :: uint8) = unat n" by (simp add: unsigned_ucast_eq take_bit_nat_eq_self)
  with n assms(1) show ?thesis
    by (auto simp: sockaddr_storage_def nth_append split: if_splits)
qed

end
