(* ===== verification/ScSelect.thy ===== *)
theory ScSelect
  imports ScutilPrefs
begin

text \<open>
  The program \<open>scselect\<close>, which makes another set of the preferences the current one (scselect.c).

  The options come from \<open>getopt_long\<close>, the preferences from the framework; \<open>se_entries\<close> is the order in which
  \<open>CFDictionaryGetKeysAndValues\<close> lists a dictionary. A value of another type where the code uses a string or a dictionary
  is \<open>UB\<close>. The status of the authorization is 0 when there is one.
\<close>

record 'p select_api =
  se_roman :: "string \<Rightarrow> string option"
  se_authorize :: int
  se_create :: "'p option"
  se_get :: "'p \<Rightarrow> string \<Rightarrow> plist option"
  se_set :: "'p \<Rightarrow> string \<Rightarrow> plist \<Rightarrow> 'p"
  se_commit :: "'p \<Rightarrow> (bool \<times> sc_status) \<times> 'p"
  se_apply :: "'p \<Rightarrow> (bool \<times> sc_status) \<times> 'p"
  se_entries :: "dict \<Rightarrow> (string \<times> plist) list"

record 'p select_state =
  sl_prefs :: "'p option"
  sl_out :: "out_note list"

datatype select_option = Sel_debug | Sel_verbose | Sel_no_apply | Sel_usage

definition sel_exit :: "nat \<Rightarrow> out_note list \<Rightarrow> 'p select_state \<Rightarrow> 'p select_state prog outcome" where
  "sel_exit n notes s = Ret (Exit n (s\<lparr>sl_out := sl_out s @ notes\<rparr>))"

definition sets_prefix :: string where
  "sets_prefix = ''/Sets/''"

text \<open>The set that the argument names; a path may be given, but none below a set.\<close>

definition new_set_of_args :: "'p select_api \<Rightarrow> string list \<Rightarrow> (string + string) outcome" where
  "new_set_of_args api argv =
     (case argv of
        [a] \<Rightarrow>
          (case se_roman api a of
             None \<Rightarrow> UB
           | Some newSet \<Rightarrow>
               Ret (if prefix sets_prefix newSet
                    then let rest = drop (length sets_prefix) newSet
                         in if CHR ''/'' \<in> set rest then Inl rest else Inr rest
                    else Inr newSet))
      | _ \<Rightarrow> Ret (Inr ''''))"

text \<open>The current set, and what is known of it: -2 for none, -1 for one without the prefix.\<close>

definition current_set :: "plist option \<Rightarrow> (string \<times> int) outcome" where
  "current_set v =
     (case v of
        None \<Rightarrow> Ret ('''', - 2)
      | Some (CFString t) \<Rightarrow> Ret (if prefix sets_prefix t then (drop (length sets_prefix) t, 0) else (t, - 1))
      | Some _ \<Rightarrow> UB)"

definition as_dictionary :: "plist \<Rightarrow> dict outcome" where
  "as_dictionary v = (case v of CFDictionary d \<Rightarrow> Ret d | _ \<Rightarrow> UB)"

definition user_defined_name :: "plist \<Rightarrow> plist option outcome" where
  "user_defined_name v = obind (as_dictionary v) (\<lambda>d. Ret (fmlookup d ''UserDefinedName''))"

text \<open>The first loop: the name of the set is a key. The count is that of the keys seen before.\<close>

fun match_key :: "string \<Rightarrow> string \<Rightarrow> (string \<times> plist) list \<Rightarrow> int \<Rightarrow> (int + plist option) outcome" where
  "match_key newSet current [] matched = Ret (Inl matched)"
| "match_key newSet current ((key, v) # sets) matched =
     (let matched = (if matched \<ge> 0 \<and> key = current then matched + 1 else matched)
      in if newSet = key then obind (user_defined_name v) (\<lambda>udn. Ret (Inr udn))
         else match_key newSet current sets matched)"

text \<open>The second loop: the name of the set is the name that a user gave to it.\<close>

fun match_name :: "string \<Rightarrow> (string \<times> plist) list \<Rightarrow> string option outcome" where
  "match_name newSet [] = Ret None"
| "match_name newSet ((key, v) # sets) =
     obind (user_defined_name v) (\<lambda>udn. if udn = Some (CFString newSet) then Ret (Some key) else match_name newSet sets)"

fun list_sets :: "string \<Rightarrow> int \<Rightarrow> (string \<times> plist) list \<Rightarrow> out_note list outcome" where
  "list_sets current matched [] = Ret []"
| "list_sets current matched ((key, v) # sets) =
     obind (user_defined_name v) (\<lambda>udn.
     obind (list_sets current matched sets) (\<lambda>notes.
       Ret (Msg ('' '' @ (if matched > 0 \<and> key = current then ''*'' else '' '') @ '' '' @ key) #
            Show_value (case udn of None \<Rightarrow> CFString '''' | Some u \<Rightarrow> u) # notes)))"

definition current_note :: "string \<Rightarrow> int \<Rightarrow> out_note list" where
  "current_note current matched =
     (if matched = - 2 then [Msg ''Current set not defined.'']
      else if matched = - 1 then [Msg (''Current set '' @ current @ '' may not be valid'')]
      else if matched = 0 then [Msg (''Current set '' @ current @ '' not valid'')]
      else [])"

text \<open>What follows the label \<open>found\<close>.\<close>

definition select_set_of ::
    "'p select_api \<Rightarrow> bool \<Rightarrow> string \<Rightarrow> plist option \<Rightarrow> 'p \<Rightarrow> 'p select_state \<Rightarrow> 'p select_state prog outcome" where
  "select_set_of api apply newSet udn p s =
     (case se_commit api (se_set api p ''CurrentSet'' (CFString (sets_prefix @ newSet))) of
        ((False, st), p1) \<Rightarrow>
          if st = kSCStatusAccessError
          then sel_exit 77 [Msg ''Only local console users and administrators can change locations''] (s\<lparr>sl_prefs := Some p1\<rparr>)
          else sel_exit 1 [Msg ''SCPreferencesCommitChanges() failed: '', Status st] (s\<lparr>sl_prefs := Some p1\<rparr>)
      | ((True, _), p1) \<Rightarrow>
          (let done = (\<lambda>q. sel_exit 0 [Msg (''CurrentSet updated to '' @ newSet),
                 Show_value (case udn of None \<Rightarrow> CFString '''' | Some u \<Rightarrow> u)] (s\<lparr>sl_prefs := Some q\<rparr>))
           in if apply
              then (case se_apply api p1 of
                      ((False, st), p2) \<Rightarrow> sel_exit 1 [Msg ''SCPreferencesApplyChanges() failed'', Status st] (s\<lparr>sl_prefs := Some p2\<rparr>)
                    | ((True, _), p2) \<Rightarrow> done p2)
              else done p1))"

definition select_in ::
    "'p select_api \<Rightarrow> bool \<Rightarrow> bool \<Rightarrow> string \<Rightarrow> dict \<Rightarrow> string \<Rightarrow> int \<Rightarrow> 'p \<Rightarrow> 'p select_state \<Rightarrow> 'p select_state prog outcome" where
  "select_in api apply given newSet sets current matched p s =
     obind (match_key newSet current (se_entries api sets) matched) (\<lambda>r.
       case r of
         Inr udn \<Rightarrow> select_set_of api apply newSet udn p s
       | Inl matched1 \<Rightarrow>
           obind (match_name newSet (se_entries api sets)) (\<lambda>k.
             case k of
               Some key \<Rightarrow> select_set_of api apply key (Some (CFString newSet)) p s
             | None \<Rightarrow>
                 if given then sel_exit 1 [Msg (''Set '' @ newSet @ '' not available.'')] s
                 else obind (list_sets current matched1 (se_entries api sets)) (\<lambda>notes.
                        sel_exit 0 (Msg ''Defined sets include:'' # notes @ current_note current matched1) s)))"

definition scselect_main ::
    "'p select_api \<Rightarrow> select_option list \<Rightarrow> string list \<Rightarrow> 'p select_state prog outcome" where
  "scselect_main api opts argv =
     (let s = \<lparr>sl_prefs = None, sl_out = []\<rparr>
      in if Sel_usage \<in> set opts then sel_exit 64 [Msg ''usage''] s
         else obind (new_set_of_args api argv) (\<lambda>r.
           case r of
             Inl rest \<Rightarrow> sel_exit 1 [Msg (''Set '' @ rest @ '' not available'')] s
           | Inr newSet \<Rightarrow>
               if se_authorize api \<noteq> 0 then sel_exit 1 [Msg ''AuthorizationCreate() failed''] s
               else (case se_create api of
                       None \<Rightarrow> sel_exit 1 [Msg ''SCPreferencesCreate() failed''] s
                     | Some p \<Rightarrow>
                         let s1 = s\<lparr>sl_prefs := Some p\<rparr>
                         in (case se_get api p ''Sets'' of
                               None \<Rightarrow> sel_exit 1 [Msg ''No network sets defined.''] s1
                             | Some v \<Rightarrow>
                                 obind (current_set (se_get api p ''CurrentSet'')) (\<lambda>(current, matched).
                                 obind (as_dictionary v) (\<lambda>sets.
                                   select_in api (Sel_no_apply \<notin> set opts) (length argv = 1) newSet sets current matched p s1))))))"

section \<open>Which set is selected\<close>

text \<open>The set that a name stands for: one with that key, or else the first that a user gave the name.\<close>

definition stands_for :: "(string \<times> plist) list \<Rightarrow> string \<Rightarrow> string \<Rightarrow> bool" where
  "stands_for sets name key \<longleftrightarrow>
     (if name \<in> fst ` set sets then key = name
      else \<exists>v. (key, v) \<in> set sets \<and> user_defined_name v = Ret (Some (CFString name)))"

lemma match_key_Inr: "match_key x c sets m = Ret (Inr udn) \<Longrightarrow> x \<in> fst ` set sets"
  by (induction sets arbitrary: m) (auto simp: Let_def split: if_splits)

lemma match_key_Inl:
  assumes "match_key x c sets m = Ret (Inl m')"
  shows "x \<notin> fst ` set sets"
  using assms
proof (induction x c sets m rule: match_key.induct)
  case (2 x c key v sets m)
  then show ?case by (auto simp: Let_def split: if_splits)
qed simp

lemma match_name_Some:
  "match_name x sets = Ret (Some k) \<Longrightarrow> \<exists>v. (k, v) \<in> set sets \<and> user_defined_name v = Ret (Some (CFString x))"
proof (induction sets)
  case (Cons kv sets)
  obtain key v where kv: "kv = (key, v)" by (cases kv)
  with Cons.prems obtain u where u: "user_defined_name v = Ret u"
    "(if u = Some (CFString x) then Ret (Some key) else match_name x sets) = Ret (Some k)" by auto
  show ?case
  proof (cases "u = Some (CFString x)")
    case True
    with u kv show ?thesis by (intro exI [of _ v]) simp
  next
    case False
    with u Cons.IH obtain w where "(k, w) \<in> set sets" "user_defined_name w = Ret (Some (CFString x))" by auto
    then show ?thesis by (intro exI [of _ w]) simp
  qed
qed simp

text \<open>What the program can end with: the options, the named set.\<close>

definition given_name :: "'p select_api \<Rightarrow> string list \<Rightarrow> string \<Rightarrow> bool" where
  "given_name api argv name \<longleftrightarrow> new_set_of_args api argv = Ret (Inr name)"

lemma select_set_of_cases:
  assumes "select_set_of api apply k udn p s = Ret (Exit n s')"
  defines "q \<equiv> se_commit api (se_set api p ''CurrentSet'' (CFString (sets_prefix @ k)))"
  shows "if n = 0 then fst (fst q) \<and> (apply \<longrightarrow> fst (fst (se_apply api (snd q)))) \<and>
           sl_prefs s' = Some (if apply then snd (se_apply api (snd q)) else snd q)
         else \<not> fst (fst q) \<or> apply \<and> \<not> fst (fst (se_apply api (snd q)))"
  using assms
  by (auto simp: select_set_of_def sel_exit_def Let_def split: prod.splits bool.splits if_splits)

lemma select_in_cases:
  assumes "select_in api apply True name sets current matched p s = Ret (Exit n s')"
  shows "n = 1 \<and> sl_prefs s' = sl_prefs s \<or>
    (\<exists>k udn. stands_for (se_entries api sets) name k \<and> select_set_of api apply k udn p s = Ret (Exit n s'))"
proof (cases "match_key name current (se_entries api sets) matched")
  case UB
  with assms show ?thesis by (simp add: select_in_def)
next
  case (Ret x)
  show ?thesis
  proof (cases x)
    case (Inr udn)
    with Ret assms match_key_Inr [of name current "se_entries api sets" matched udn] show ?thesis
      by (auto simp: select_in_def stands_for_def)
  next
    case (Inl m)
    with Ret have no_key: "name \<notin> fst ` set (se_entries api sets)" by (simp add: match_key_Inl)
    from Ret Inl assms obtain k where k: "match_name name (se_entries api sets) = Ret k" by (auto simp: select_in_def)
    show ?thesis
    proof (cases k)
      case None
      with Ret Inl k assms show ?thesis by (auto simp: select_in_def sel_exit_def)
    next
      case (Some key)
      with k no_key have "stands_for (se_entries api sets) name key" by (simp add: stands_for_def match_name_Some)
      with Ret Inl k Some assms show ?thesis by (auto simp: select_in_def)
    qed
  qed
qed

text \<open>
  C26. \<open>scselect\<close> with a name changes the current set to a set that exists or leaves the preferences alone: when it
  exits with 0 the named set is a key of the sets, or the name a user gave to one when no key is like it, exactly
  that set was written to \<open>CurrentSet\<close> and committed, and applied unless the option \<open>-n\<close> forbids it. With any other exit
  code nothing was written, or the commit or the application failed.
\<close>

theorem scselect_selects_existing:
  assumes "scselect_main api opts [a] = Ret (Exit n s')" "se_create api = Some p" "se_get api p ''Sets'' = Some (CFDictionary sets)"
  defines "apply \<equiv> Sel_no_apply \<notin> set opts"
  defines "written \<equiv> \<lambda>k. se_commit api (se_set api p ''CurrentSet'' (CFString (''/Sets/'' @ k)))"
  shows "(\<exists>name k. given_name api [a] name \<and> stands_for (se_entries api sets) name k \<and>
           (if n = 0 then fst (fst (written k)) \<and> (apply \<longrightarrow> fst (fst (se_apply api (snd (written k))))) \<and>
              sl_prefs s' = Some (if apply then snd (se_apply api (snd (written k))) else snd (written k))
            else \<not> fst (fst (written k)) \<or> apply \<and> \<not> fst (fst (se_apply api (snd (written k)))))) \<or>
         n \<noteq> 0 \<and> sl_prefs s' \<in> {None, Some p}"
proof (cases "n \<noteq> 0 \<and> sl_prefs s' \<in> {None, Some p}")
  case False
  have set_opts: "Sel_usage \<notin> set opts"
    using False assms(1) by (auto simp: scselect_main_def sel_exit_def Let_def split: if_splits)
  with assms(1) obtain r where r: "new_set_of_args api [a] = Ret r" by (auto simp: scselect_main_def Let_def)
  obtain name where name: "r = Inr name"
    using False assms(1) r set_opts by (cases r) (auto simp: scselect_main_def sel_exit_def Let_def)
  have "se_authorize api = 0"
    using False assms(1) r set_opts name by (auto simp: scselect_main_def sel_exit_def Let_def split: if_splits)
  then obtain current matched where run:
    "select_in api apply True name sets current matched p \<lparr>sl_prefs = Some p, sl_out = []\<rparr> = Ret (Exit n s')"
    using assms(1-3) r set_opts name by (auto simp: scselect_main_def as_dictionary_def apply_def Let_def)
  from select_in_cases [OF run] False obtain k udn where k: "stands_for (se_entries api sets) name k"
    "select_set_of api apply k udn p \<lparr>sl_prefs = Some p, sl_out = []\<rparr> = Ret (Exit n s')"
    by auto
  from r name k(1) select_set_of_cases [OF k(2)] show ?thesis
    unfolding written_def sets_prefix_def given_name_def by blast
qed blast

text \<open>A store of two sets, whose commit is applied when it is asked for.\<close>

definition two_sets :: dict where
  "two_sets = fmap_of_list [(''A'', CFDictionary (fmap_of_list [(''UserDefinedName'', CFString ''Home'')])),
     (''B'', CFDictionary (fmap_of_list [(''UserDefinedName'', CFString ''Work'')]))]"

definition sample_select :: "dict select_api" where
  "sample_select = \<lparr>se_roman = Some, se_authorize = 0, se_create = Some (fmap_of_list [(''Sets'', CFDictionary two_sets)]),
     se_get = fmlookup, se_set = \<lambda>p k v. fmupd k v p, se_commit = \<lambda>p. ((True, kSCStatusOK), p),
     se_apply = \<lambda>p. ((True, kSCStatusOK), p),
     se_entries = \<lambda>_. [(''A'', CFDictionary (fmap_of_list [(''UserDefinedName'', CFString ''Home'')])),
       (''B'', CFDictionary (fmap_of_list [(''UserDefinedName'', CFString ''Work'')]))]\<rparr>"

lemma scselect_selects_existing_witness:
  "\<exists>s' q. scselect_main sample_select [] [''Work''] = Ret (Exit 0 s') \<and> sl_prefs s' = Some q \<and>
     fmlookup q ''CurrentSet'' = Some (CFString ''/Sets/B'')"
proof -
  obtain s' where s': "scselect_main sample_select [] [''Work''] = Ret (Exit 0 s')"
    by (simp add: scselect_main_def new_set_of_args_def sets_prefix_def sample_select_def current_set_def as_dictionary_def
        select_in_def user_defined_name_def select_set_of_def sel_exit_def)
  have sets: "se_create sample_select = Some (fmap_of_list [(''Sets'', CFDictionary two_sets)])"
    "se_get sample_select (fmap_of_list [(''Sets'', CFDictionary two_sets)]) ''Sets'' = Some (CFDictionary two_sets)"
    by (simp_all add: sample_select_def)
  have name: "given_name sample_select [''Work''] name \<longleftrightarrow> name = ''Work''" for name
    by (auto simp: given_name_def new_set_of_args_def sets_prefix_def sample_select_def)
  have key: "stands_for (se_entries sample_select two_sets) ''Work'' k \<Longrightarrow> k = ''B''" for k
    by (auto simp: stands_for_def sample_select_def user_defined_name_def as_dictionary_def split: if_splits)
  from scselect_selects_existing [OF s' sets] obtain k where "stands_for (se_entries sample_select two_sets) ''Work'' k"
    "sl_prefs s' = Some (fmupd ''CurrentSet'' (CFString (''/Sets/'' @ k)) (fmap_of_list [(''Sets'', CFDictionary two_sets)]))"
    unfolding name by (auto simp: sample_select_def)
  with s' key show ?thesis by auto
qed

section \<open>Sets with an empty name\<close>

text \<open>
  Without an argument the sets should be listed. But the empty name is searched first: a set that a user
  gave the empty name becomes the current one.
\<close>

lemma empty_name_selected:
  assumes "'''' \<notin> fst ` set (se_entries api sets)" "match_name '''' (se_entries api sets) = Ret (Some k)"
    and "match_key '''' current (se_entries api sets) matched = Ret (Inl m)"
  shows "select_in api apply False '''' sets current matched p s = select_set_of api apply k (Some (CFString '''')) p s"
  using assms by (simp add: select_in_def)

text \<open>A current set that is no string is used as one.\<close>

lemma current_set_number: "current_set (Some (CFNumber n)) = UB"
  by (simp add: current_set_def)

end
