(* ===== verification/DnsFile.thy ===== *)
theory DnsFile
  imports CF
begin

unbundle bit_operations_syntax

text \<open>
  The daemon \<open>configd_dnsinfo\<close>, which writes the DNS configuration to \<open>/var/run/resolv.conf\<close> (configd/main.c).

  A resolver is what the expanded configuration says of it, with addresses of its own type and the text that
  \<open>_SC_sockaddr_to_string\<close> makes of them. The directory has the file and the new file beside it; whether the files can be
  opened and renamed is told by the environment, for each attempt. The output of a build with \<open>DEBUG\<close> is left out.
\<close>

section \<open>Data\<close>

record sortaddr =
  sa_address :: uint32
  sa_mask :: uint32

record 'a scoped_resolver =
  sr_domain :: "string option"
  sr_search :: "string list"
  sr_nameservers :: "'a list"
  sr_sortaddrs :: "sortaddr list"

record 'a conf_env =
  ce_utf8 :: "string \<Rightarrow> string option"
  ce_text :: "'a \<Rightarrow> string"
  ce_opens :: "nat \<Rightarrow> bool"
  ce_renames :: "nat \<Rightarrow> bool"

record conf_dir =
  cd_conf :: "string list option"
  cd_new :: "string list option"
  cd_writes :: nat

section \<open>The file\<close>

definition empty_dns :: "conf_dir \<Rightarrow> conf_dir" where
  "empty_dns fs = fs\<lparr>cd_conf := None\<rparr>"

definition conf_notice :: "string list" where
  "conf_notice =
     [''#'', ''# macOS Notice'', ''#'',
      ''# This file is not consulted for DNS hostname resolution, address'',
      ''# resolution, or the DNS query routing mechanism used by most'',
      ''# processes on this system.'', ''#'',
      ''# To view the DNS configuration used by this system, use:'',
      ''#   scutil --dns'', ''#'', ''# SEE ALSO'', ''#   dns-sd(1), scutil(8)'', ''#'',
      ''# This file is automatically generated.'', ''#'']"

definition spaced :: "string \<Rightarrow> string list \<Rightarrow> string" where
  "spaced keyword xs = keyword @ concat (map (\<lambda>x. '' '' @ x) xs)"

definition conf_lines :: "string list option \<Rightarrow> string option \<Rightarrow> string list option \<Rightarrow> string list option \<Rightarrow> string list" where
  "conf_lines val_search_domains val_domain_name val_servers val_sortlist =
     conf_notice @
     (case val_search_domains of
        Some ds \<Rightarrow> [spaced ''search'' ds]
      | None \<Rightarrow> (case val_domain_name of Some d \<Rightarrow> [''domain '' @ d] | None \<Rightarrow> [])) @
     (case val_servers of None \<Rightarrow> [] | Some ns \<Rightarrow> map (\<lambda>n. ''nameserver '' @ n) ns) @
     (case val_sortlist of None \<Rightarrow> [] | Some l \<Rightarrow> [spaced ''sortlist'' l])"

definition set_dns ::
    "'a conf_env \<Rightarrow> string list option \<Rightarrow> string option \<Rightarrow> string list option \<Rightarrow> string list option \<Rightarrow> conf_dir \<Rightarrow> conf_dir" where
  "set_dns env search domain servers sortlist fs =
     (let i = cd_writes fs; fs1 = fs\<lparr>cd_writes := Suc i\<rparr>; lines = conf_lines search domain servers sortlist
      in if \<not> ce_opens env i then fs1
         else if ce_renames env i then fs1\<lparr>cd_conf := Some lines, cd_new := None\<rparr>
         else fs1\<lparr>cd_new := Some lines\<rparr>)"

text \<open>A text that is not UTF-8 becomes NULL, which an array does not take.\<close>

fun array_to_CFArray :: "(string \<Rightarrow> string option) \<Rightarrow> string list \<Rightarrow> string list outcome" where
  "array_to_CFArray utf8 [] = Ret []"
| "array_to_CFArray utf8 (x # xs) =
     (case utf8 x of None \<Rightarrow> UB | Some t \<Rightarrow> obind (array_to_CFArray utf8 xs) (\<lambda>ts. Ret (t # ts)))"

text \<open>\<open>inet_ntop\<close> for IPv4.\<close>

definition dotted :: "uint32 \<Rightarrow> string" where
  "dotted a =
     decimal (unat (drop_bit 24 a)) @ ''.'' @ decimal (unat (drop_bit 16 a AND 0xff)) @ ''.'' @
     decimal (unat (drop_bit 8 a AND 0xff)) @ ''.'' @ decimal (unat (a AND 0xff))"

text \<open>The mask that goes with an address; a class E address has none, and the variable keeps its stale contents.\<close>

definition natural_mask :: "uint32 \<Rightarrow> uint32 outcome" where
  "natural_mask a =
     (if a AND 0x80000000 = 0 then Ret 0xff000000
      else if a AND 0xc0000000 = 0x80000000 then Ret 0xffff0000
      else if a AND 0xe0000000 = 0xc0000000 then Ret 0xffffff00
      else if a AND 0xf0000000 = 0xe0000000 then Ret 0xf0000000
      else UB)"

definition sortaddr_text :: "sortaddr \<Rightarrow> string outcome" where
  "sortaddr_text sa =
     obind (natural_mask (sa_address sa)) (\<lambda>m.
       Ret (if sa_mask sa \<noteq> m then dotted (sa_address sa) @ ''/'' @ dotted (sa_mask sa) else dotted (sa_address sa)))"

fun sortaddr_texts :: "sortaddr list \<Rightarrow> string list outcome" where
  "sortaddr_texts [] = Ret []"
| "sortaddr_texts (sa # sas) = obind (sortaddr_text sa) (\<lambda>t. obind (sortaddr_texts sas) (\<lambda>ts. Ret (t # ts)))"

definition array_or_null :: "(string \<Rightarrow> string option) \<Rightarrow> string list \<Rightarrow> string list option outcome" where
  "array_or_null utf8 xs = (if xs = [] then Ret None else obind (array_to_CFArray utf8 xs) (\<lambda>ts. Ret (Some ts)))"

text \<open>One turn of the loop. The domain of the resolver before stays when there is none.\<close>

definition write_resolver ::
    "'a conf_env \<Rightarrow> 'a scoped_resolver \<Rightarrow> string option \<times> conf_dir \<Rightarrow> (string option \<times> conf_dir) outcome" where
  "write_resolver env r st =
     (case st of (domain0, fs) \<Rightarrow>
        obind (array_or_null (ce_utf8 env) (sr_search r)) (\<lambda>search.
          let domain = (case sr_domain r of None \<Rightarrow> domain0 | Some d \<Rightarrow> ce_utf8 env d) in
        obind (array_or_null (ce_utf8 env) (map (ce_text env) (sr_nameservers r))) (\<lambda>servers.
        obind (sortaddr_texts (sr_sortaddrs r)) (\<lambda>texts.
        obind (array_or_null (ce_utf8 env) texts) (\<lambda>sortlist.
          Ret (domain, set_dns env search domain servers sortlist (empty_dns fs)))))))"

definition write_dns :: "'a conf_env \<Rightarrow> 'a scoped_resolver list option \<Rightarrow> conf_dir \<Rightarrow> conf_dir outcome" where
  "write_dns env config fs =
     (case config of
        None \<Rightarrow> Ret fs
      | Some scoped \<Rightarrow> obind (ofold (write_resolver env) scoped (None, fs)) (\<lambda>st. Ret (snd st)))"

text \<open>The program: the configuration at the start, and after each notification. \<open>registered\<close> tells whether there will be any.\<close>

definition dnsinfo_main ::
    "'a conf_env \<Rightarrow> 'a scoped_resolver list option \<Rightarrow> bool \<Rightarrow> 'a scoped_resolver list option list \<Rightarrow> conf_dir \<Rightarrow> (nat \<times> conf_dir) outcome" where
  "dnsinfo_main env first registered events fs =
     obind (write_dns env first fs) (\<lambda>fs1.
       if \<not> registered then Ret (1, fs1) else obind (ofold (write_dns env) events fs1) (\<lambda>fs2. Ret (0, fs2)))"

section \<open>Reading the file\<close>

text \<open>What a resolver reads from the file: a keyword and words after it, one line each.\<close>

fun words_of :: "string \<Rightarrow> string list" where
  "words_of [] = [[]]"
| "words_of (c # cs) = (if c = CHR 0x20 then [] # words_of cs else (case words_of cs of w # ws \<Rightarrow> (c # w) # ws | [] \<Rightarrow> [[c]]))"

definition read_servers :: "string list \<Rightarrow> string list" where
  "read_servers lines =
     concat (map (\<lambda>l. case words_of l of [k, x] \<Rightarrow> if k = ''nameserver'' then [x] else [] | _ \<Rightarrow> []) lines)"

definition read_words :: "string \<Rightarrow> string list \<Rightarrow> string list option" where
  "read_words keyword lines =
     (case filter (\<lambda>l. hd (words_of l) = keyword) lines of [] \<Rightarrow> None | l # _ \<Rightarrow> Some (tl (words_of l)))"

definition is_word :: "string \<Rightarrow> bool" where
  "is_word w \<longleftrightarrow> CHR 0x20 \<notin> set w"

lemma words_of_ne: "words_of s \<noteq> []"
  by (induction s) (auto split: list.splits)

lemma words_of_word: "is_word w \<Longrightarrow> words_of w = [w]"
  by (induction w) (auto simp: is_word_def)

lemma words_of_append: "is_word w \<Longrightarrow> words_of (w @ CHR 0x20 # s) = w # words_of s"
  by (induction w) (auto simp: is_word_def)

lemma words_of_spaced: "is_word k \<Longrightarrow> \<forall>x \<in> set xs. is_word x \<Longrightarrow> words_of (spaced k xs) = k # xs"
proof (induction xs arbitrary: k)
  case Nil
  then show ?case by (simp add: spaced_def words_of_word)
next
  case (Cons x xs)
  have "spaced k (x # xs) = k @ CHR 0x20 # spaced x xs" by (simp add: spaced_def)
  with Cons show ?case by (simp add: words_of_append)
qed

lemma words_of_pair: "is_word k \<Longrightarrow> is_word x \<Longrightarrow> words_of (k @ CHR 0x20 # x) = [k, x]"
  by (simp add: words_of_append words_of_word)

lemma conf_notice_words: "list_all (\<lambda>l. hd (words_of l) = ''#'') conf_notice"
  by code_simp

lemma conf_keywords: "is_word ''search''" "is_word ''domain''" "is_word ''nameserver''" "is_word ''sortlist''"
  by (simp_all add: is_word_def)

lemma read_servers_append: "read_servers (xs @ ys) = read_servers xs @ read_servers ys"
  by (simp add: read_servers_def)

lemma read_servers_other: "hd (words_of l) \<noteq> ''nameserver'' \<Longrightarrow> read_servers [l] = []"
  by (auto simp: read_servers_def split: list.splits)

lemma read_servers_none: "list_all (\<lambda>l. hd (words_of l) \<noteq> ''nameserver'') ls \<Longrightarrow> read_servers ls = []"
proof (induction ls)
  case (Cons l ls)
  with read_servers_append [of "[l]" ls] read_servers_other [of l] show ?case by simp
qed (simp add: read_servers_def)

lemma read_servers_lines: "\<forall>n \<in> set ns. is_word n \<Longrightarrow> read_servers (map (\<lambda>n. ''nameserver '' @ n) ns) = ns"
proof (induction ns)
  case (Cons n ns)
  have "words_of (''nameserver '' @ n) = [''nameserver'', n]"
    using words_of_pair [OF conf_keywords(3), of n] Cons.prems by simp
  with Cons show ?case by (simp add: read_servers_def)
qed (simp add: read_servers_def)

lemma read_words_skip: "list_all (\<lambda>l. hd (words_of l) \<noteq> k) xs \<Longrightarrow> read_words k (xs @ ys) = read_words k ys"
  by (simp add: read_words_def list_all_iff)

lemma read_words_none: "list_all (\<lambda>l. hd (words_of l) \<noteq> k) xs \<Longrightarrow> read_words k xs = None"
  using read_words_skip [of k xs "[]"] by (simp add: read_words_def)

lemma read_words_line: "words_of l = k # ws \<Longrightarrow> read_words k (l # ls) = Some ws"
  by (simp add: read_words_def)

section \<open>What a reader of the file finds\<close>

text \<open>The texts of a resolver are words: there are no spaces in them.\<close>

definition wordy :: "'a conf_env \<Rightarrow> 'a scoped_resolver \<Rightarrow> bool" where
  "wordy env r \<longleftrightarrow>
     (\<forall>x \<in> set (sr_search r). is_word x) \<and> (\<forall>a \<in> set (sr_nameservers r). is_word (ce_text env a)) \<and>
     (\<forall>d. sr_domain r = Some d \<longrightarrow> is_word d)"

lemma array_to_CFArray_plain: "\<forall>x \<in> set xs. utf8 x = Some x \<Longrightarrow> array_to_CFArray utf8 xs = Ret xs"
  by (induction xs) auto

definition or_null :: "'b list \<Rightarrow> 'b list option" where
  "or_null xs = (if xs = [] then None else Some xs)"

lemma notice_no: "k \<noteq> ''#'' \<Longrightarrow> list_all (\<lambda>l. hd (words_of l) \<noteq> k) conf_notice"
  using conf_notice_words by (auto simp: list_all_iff)

lemma server_lines_no:
  assumes "k \<noteq> ''nameserver''"
  shows "list_all (\<lambda>l. hd (words_of l) \<noteq> k) (map (\<lambda>n. ''nameserver '' @ n) ns)"
proof -
  have "hd (words_of (''nameserver '' @ n)) = ''nameserver''" for n
    using words_of_append [OF conf_keywords(3), of n] by simp
  with assms show ?thesis by (simp add: list_all_iff)
qed

lemma spaced_line: "is_word k \<Longrightarrow> hd (words_of (spaced k xs)) = k"
proof (cases xs)
  case (Cons x ys)
  assume "is_word k"
  with Cons words_of_append [of k "x @ concat (map (\<lambda>x. '' '' @ x) ys)"] show ?thesis by (simp add: spaced_def)
qed (simp add: spaced_def words_of_word)

lemma domain_line: "hd (words_of (''domain '' @ d)) = ''domain''"
  using words_of_append [OF conf_keywords(2), of d] by simp

lemma conf_lines_read:
  assumes "\<forall>x \<in> set ds. is_word x" "\<forall>n \<in> set ns. is_word n"
  shows "read_servers (conf_lines (or_null ds) dn (or_null ns) sl) = ns \<and>
    read_words ''search'' (conf_lines (or_null ds) dn (or_null ns) sl) = or_null ds \<and>
    (\<forall>d. dn = Some d \<longrightarrow> is_word d \<longrightarrow> ds = [] \<longrightarrow>
       read_words ''domain'' (conf_lines (or_null ds) dn (or_null ns) sl) = Some [d])"
proof -
  let ?first = "case or_null ds of Some ds \<Rightarrow> [spaced ''search'' ds]
      | None \<Rightarrow> (case dn of Some d \<Rightarrow> [''domain '' @ d] | None \<Rightarrow> [])"
  let ?servers = "map (\<lambda>n. ''nameserver '' @ n) ns"
  let ?sort = "case sl of None \<Rightarrow> [] | Some l \<Rightarrow> [spaced ''sortlist'' l]"
  have lines: "conf_lines (or_null ds) dn (or_null ns) sl = conf_notice @ ?first @ ?servers @ ?sort"
    by (simp add: conf_lines_def or_null_def split: option.splits)
  have sort: "list_all (\<lambda>l. hd (words_of l) \<noteq> k) ?sort" if "k \<noteq> ''sortlist''" for k
    using that by (auto simp: spaced_line conf_keywords split: option.splits)
  have first: "list_all (\<lambda>l. hd (words_of l) \<noteq> k) ?first" if "k \<noteq> ''search''" "k \<noteq> ''domain''" for k
    using that by (auto simp: or_null_def spaced_line conf_keywords domain_line split: option.splits)
  have servers: "read_servers (conf_notice @ ?first @ ?servers @ ?sort) = ns"
    using read_servers_none [OF notice_no] read_servers_none [OF first] read_servers_none [OF sort]
      read_servers_lines [OF assms(2)] by (simp add: read_servers_append)
  have rest: "list_all (\<lambda>l. hd (words_of l) \<noteq> k) (?servers @ ?sort)" if "k \<noteq> ''nameserver''" "k \<noteq> ''sortlist''" for k
    using server_lines_no [OF that(1)] sort [OF that(2)] by simp
  have words: "read_words k (conf_notice @ ?first @ ?servers @ ?sort) = read_words k ?first"
    if "k \<noteq> ''#''" "k \<noteq> ''nameserver''" "k \<noteq> ''sortlist''" for k
    using read_words_skip [OF notice_no [OF that(1)]] rest [OF that(2,3)]
    by (simp add: read_words_def list_all_iff)
  have search: "read_words ''search'' ?first = or_null ds"
    using assms(1) domain_line words_of_spaced [OF conf_keywords(1), of ds]
    by (auto simp: or_null_def read_words_def split: option.splits)
  have domain: "read_words ''domain'' ?first = Some [d]" if "dn = Some d" "is_word d" "ds = []" for d
    using words_of_pair [OF conf_keywords(2) that(2)] that by (simp add: or_null_def read_words_def)
  have "read_words ''search'' (conf_notice @ ?first @ ?servers @ ?sort) = or_null ds"
    by (subst words) (simp_all add: search)
  moreover have "read_words ''domain'' (conf_notice @ ?first @ ?servers @ ?sort) = Some [d]"
    if "dn = Some d" "is_word d" "ds = []" for d
    by (subst words) (simp_all add: domain [OF that])
  ultimately show ?thesis unfolding lines using servers by blast
qed

text \<open>Both files can be opened and renamed at the attempt that counts, and the texts of the resolver are UTF-8.\<close>

definition publishes :: "'a conf_env \<Rightarrow> nat \<Rightarrow> 'a scoped_resolver \<Rightarrow> bool" where
  "publishes env i r \<longleftrightarrow> ce_opens env i \<and> ce_renames env i \<and>
     (\<forall>x \<in> set (sr_search r) \<union> ce_text env ` set (sr_nameservers r). ce_utf8 env x = Some x) \<and>
     (\<forall>d. sr_domain r = Some d \<longrightarrow> ce_utf8 env d = Some d)"

lemma write_resolver_Ret:
  assumes "write_resolver env r (d0, fs) = Ret (d1, fs1)"
    "\<forall>x \<in> set (sr_search r) \<union> ce_text env ` set (sr_nameservers r). ce_utf8 env x = Some x"
  shows "\<exists>sl. fs1 = set_dns env (or_null (sr_search r)) d1 (or_null (map (ce_text env) (sr_nameservers r))) sl (empty_dns fs) \<and>
    d1 = (case sr_domain r of None \<Rightarrow> d0 | Some d \<Rightarrow> ce_utf8 env d)"
proof -
  have plain: "array_or_null (ce_utf8 env) xs = Ret (or_null xs)"
    if "\<forall>x \<in> set xs. ce_utf8 env x = Some x" for xs
    using that by (simp add: array_or_null_def or_null_def array_to_CFArray_plain)
  from assms(2) have "array_or_null (ce_utf8 env) (sr_search r) = Ret (or_null (sr_search r))"
    "array_or_null (ce_utf8 env) (map (ce_text env) (sr_nameservers r)) = Ret (or_null (map (ce_text env) (sr_nameservers r)))"
    by (auto intro!: plain)
  with assms(1) show ?thesis by (auto simp: write_resolver_def Let_def)
qed

lemma write_resolver_writes: "write_resolver env r (d0, fs) = Ret (d1, fs1) \<Longrightarrow> cd_writes fs1 = Suc (cd_writes fs)"
  by (auto simp: write_resolver_def set_dns_def empty_dns_def Let_def split: if_splits)

lemma write_all_writes:
  "ofold (write_resolver env) rs (d0, fs) = Ret (d1, fs1) \<Longrightarrow> cd_writes fs1 = cd_writes fs + length rs"
proof (induction rs arbitrary: d0 fs)
  case (Cons r rs)
  then obtain d fs0 where "write_resolver env r (d0, fs) = Ret (d, fs0)" "ofold (write_resolver env) rs (d, fs0) = Ret (d1, fs1)"
    by auto
  with Cons.IH write_resolver_writes show ?case by fastforce
qed simp

text \<open>
  C23. The file is what the last scoped resolver says: after the configuration was written, a reader of
  \<open>resolv.conf\<close> finds its name servers in their order, its search list, and without a search list its domain, whatever
  the file and the resolvers before were; no new file is left beside it.
\<close>

theorem write_dns_read_back:
  assumes "write_dns env (Some (rs @ [r])) fs = Ret fs'" "publishes env (cd_writes fs + length rs) r" "wordy env r"
  shows "\<exists>lines. cd_conf fs' = Some lines \<and> cd_new fs' = None \<and>
    read_servers lines = map (ce_text env) (sr_nameservers r) \<and>
    read_words ''search'' lines = (if sr_search r = [] then None else Some (sr_search r)) \<and>
    (\<forall>d. sr_domain r = Some d \<longrightarrow> sr_search r = [] \<longrightarrow> read_words ''domain'' lines = Some [d])"
proof -
  from assms(1) obtain d0 fs0 d1 where before: "ofold (write_resolver env) rs (None, fs) = Ret (d0, fs0)"
    and last: "write_resolver env r (d0, fs0) = Ret (d1, fs')"
    by (auto simp: write_dns_def ofold_append)
  from write_resolver_Ret [OF last] assms(2) obtain sl where
    fs': "fs' = set_dns env (or_null (sr_search r)) d1 (or_null (map (ce_text env) (sr_nameservers r))) sl (empty_dns fs0)"
    and d1: "d1 = (case sr_domain r of None \<Rightarrow> d0 | Some d \<Rightarrow> ce_utf8 env d)"
    by (auto simp: publishes_def)
  let ?lines = "conf_lines (or_null (sr_search r)) d1 (or_null (map (ce_text env) (sr_nameservers r))) sl"
  have files: "cd_conf fs' = Some ?lines" "cd_new fs' = None"
    using assms(2) write_all_writes [OF before] fs' by (simp_all add: set_dns_def empty_dns_def publishes_def Let_def)
  have words: "\<forall>x \<in> set (sr_search r). is_word x" "\<forall>n \<in> set (map (ce_text env) (sr_nameservers r)). is_word n"
    using assms(3) by (auto simp: wordy_def)
  have domain: "d1 = Some d \<and> is_word d" if "sr_domain r = Some d" for d
    using d1 assms(2,3) that by (simp add: publishes_def wordy_def)
  from conf_lines_read [OF words, of d1 sl] domain have "read_servers ?lines = map (ce_text env) (sr_nameservers r)"
    "read_words ''search'' ?lines = (if sr_search r = [] then None else Some (sr_search r))"
    "\<forall>d. sr_domain r = Some d \<longrightarrow> sr_search r = [] \<longrightarrow> read_words ''domain'' ?lines = Some [d]"
    by (simp_all add: or_null_def)
  with files show ?thesis by blast
qed

definition sample_conf :: "string conf_env" where
  "sample_conf = \<lparr>ce_utf8 = Some, ce_text = id, ce_opens = \<lambda>_. True, ce_renames = \<lambda>_. True\<rparr>"

definition sample_resolver :: "string scoped_resolver" where
  "sample_resolver = \<lparr>sr_domain = Some ''home.arpa'', sr_search = [], sr_nameservers = [''192.0.2.1''],
     sr_sortaddrs = [\<lparr>sa_address = 0x0a000000, sa_mask = 0xffff0000\<rparr>]\<rparr>"

lemma write_dns_read_back_witness:
  "\<exists>fs' lines. write_dns sample_conf (Some [sample_resolver]) \<lparr>cd_conf = None, cd_new = None, cd_writes = 0\<rparr> = Ret fs' \<and>
     cd_conf fs' = Some lines \<and> read_servers lines = [''192.0.2.1''] \<and> read_words ''domain'' lines = Some [''home.arpa'']"
proof -
  let ?fs = "\<lparr>cd_conf = None, cd_new = None, cd_writes = 0\<rparr>"
  obtain fs' where fs': "write_dns sample_conf (Some ([] @ [sample_resolver])) ?fs = Ret fs'"
    by (simp add: write_dns_def write_resolver_def sample_conf_def sample_resolver_def array_or_null_def
        sortaddr_text_def natural_mask_def Let_def)
  have "publishes sample_conf (cd_writes ?fs + length ([] :: string scoped_resolver list)) sample_resolver" "wordy sample_conf sample_resolver"
    by (simp_all add: publishes_def wordy_def sample_conf_def sample_resolver_def is_word_def)
  from write_dns_read_back [OF fs' this] obtain lines where "cd_conf fs' = Some lines" "read_servers lines = [''192.0.2.1'']"
    "read_words ''domain'' lines = Some [''home.arpa'']"
    by (auto simp: sample_conf_def sample_resolver_def)
  with fs' show ?thesis by auto
qed

section \<open>Configurations that are not handled\<close>

text \<open>The domain of one resolver is written for the next when that has none.\<close>

lemma domain_stays:
  assumes "sr_domain r = None" "sr_search r = []" "sr_nameservers r = []" "sr_sortaddrs r = []"
  shows "write_resolver env r (Some d, fs) = Ret (Some d, set_dns env None (Some d) None None (empty_dns fs))"
  using assms by (simp add: write_resolver_def array_or_null_def)

text \<open>Without a scoped resolver, or without a configuration, the file of the configuration before stays.\<close>

lemma stale_file: "write_dns env (Some []) fs = Ret fs" "write_dns env None fs = Ret fs"
  by (simp_all add: write_dns_def)

text \<open>The file is removed before it is known whether the new one can be opened.\<close>

lemma file_lost: "\<not> ce_opens env (cd_writes fs) \<Longrightarrow> cd_conf (set_dns env a b c d (empty_dns fs)) = None"
  by (simp add: set_dns_def empty_dns_def)

text \<open>A class E address is compared with a mask that was never set.\<close>

lemma class_e_mask: "sortaddr_text \<lparr>sa_address = 0xf0000001, sa_mask = m\<rparr> = UB"
  by (simp add: sortaddr_text_def natural_mask_def)

end
