(* ===== verification/ScutilMain.thy ===== *)
theory ScutilMain
  imports Nc ProtoOptions
begin

text \<open>
  The command line of \<open>scutil\<close> (\<open>main\<close> of scutil.c): the options, the one request that they make, and the function that
  answers it. The splitting of the command line into options is that of \<open>getopt_long\<close>; its results are the list of
  options with their arguments (empty when there is none) and the index of the first word that is left.
\<close>

section \<open>Options\<close>

datatype cli_opt = Opt char string | Long string string

text \<open>The variables of \<open>main\<close> in two groups: how a request is answered, and the requests with their number.\<close>

record cli_flags =
  cl_debug :: bool
  cl_dispatch :: bool
  cl_verbose :: bool
  cl_private :: bool
  cl_timeout :: int
  cl_watch :: bool
  cl_user :: "string option"
  cl_password :: "string option"
  cl_secret :: "string option"

record cli_requests =
  cl_reach :: bool
  cl_wait :: "string option"
  cl_configuration :: bool
  cl_dns :: bool
  cl_error :: "string option"
  cl_get :: "string option"
  cl_nc :: "string option"
  cl_net :: bool
  cl_nwi :: bool
  cl_prefs :: bool
  cl_proxy :: bool
  cl_renew :: "string option"
  cl_set :: "string option"
  cl_snap :: bool
  cl_log :: "string option"
  cl_namer :: bool
  cl_until_needed :: bool
  cl_advisory :: "string option"
  xStore :: nat

type_synonym cli = "cli_flags \<times> cli_requests"

definition cli_start :: cli where
  "cli_start =
     (\<lparr>cl_debug = False, cl_dispatch = False, cl_verbose = False, cl_private = False, cl_timeout = 15,
       cl_watch = False, cl_user = None, cl_password = None, cl_secret = None\<rparr>,
      \<lparr>cl_reach = False, cl_wait = None, cl_configuration = False, cl_dns = False, cl_error = None, cl_get = None,
       cl_nc = None, cl_net = False, cl_nwi = False, cl_prefs = False, cl_proxy = False, cl_renew = None, cl_set = None,
       cl_snap = False, cl_log = None, cl_namer = False, cl_until_needed = False, cl_advisory = None, xStore = 0\<rparr>)"

text \<open>The conversion of a number: what a long holds, cut to the width of an int.\<close>

definition atoi :: "string \<Rightarrow> int" where
  "atoi s = sint (word_of_int (fst (strtol s)) :: 32 word)"

definition ask :: "(cli_requests \<Rightarrow> cli_requests) \<Rightarrow> cli \<Rightarrow> cli" where
  "ask f c = (fst c, (f (snd c))\<lparr>xStore := Suc (xStore (snd c))\<rparr>)"

text \<open>One option; \<open>None\<close> when it asks for the usage message, which ends the program.\<close>

definition short_option :: "char \<Rightarrow> string \<Rightarrow> cli \<Rightarrow> cli option" where
  "short_option opt optarg c =
     (if opt = CHR ''d'' then Some (apfst (\<lambda>f. f\<lparr>cl_debug := True\<rparr>) c)
      else if opt = CHR ''D'' then Some (apfst (\<lambda>f. f\<lparr>cl_dispatch := True\<rparr>) c)
      else if opt = CHR ''v'' then Some (apfst (\<lambda>f. f\<lparr>cl_verbose := True\<rparr>) c)
      else if opt = CHR ''p'' then Some (apfst (\<lambda>f. f\<lparr>cl_private := True\<rparr>) c)
      else if opt = CHR ''r'' then Some (ask (\<lambda>r. r\<lparr>cl_reach := True\<rparr>) c)
      else if opt = CHR ''t'' then Some (apfst (\<lambda>f. f\<lparr>cl_timeout := atoi optarg\<rparr>) c)
      else if opt = CHR ''w'' then Some (ask (\<lambda>r. r\<lparr>cl_wait := Some optarg\<rparr>) c)
      else if opt = CHR ''W'' then Some (apfst (\<lambda>f. f\<lparr>cl_watch := True\<rparr>) c)
      else None)"

text \<open>The long names; \<open>getopt_long\<close> gives \<open>--help\<close> as the short option \<open>?\<close>.\<close>

definition long_option :: "(string \<Rightarrow> string option) \<Rightarrow> string \<Rightarrow> string \<Rightarrow> cli \<Rightarrow> cli" where
  "long_option utf8 name optarg c =
     (if name = ''configuration'' then ask (\<lambda>r. r\<lparr>cl_configuration := True\<rparr>) c
      else if name = ''dns'' then ask (\<lambda>r. r\<lparr>cl_dns := True\<rparr>) c
      else if name = ''error'' then ask (\<lambda>r. r\<lparr>cl_error := Some optarg\<rparr>) c
      else if name = ''get'' then ask (\<lambda>r. r\<lparr>cl_get := Some optarg\<rparr>) c
      else if name = ''nc'' then ask (\<lambda>r. r\<lparr>cl_nc := Some optarg\<rparr>) c
      else if name = ''net'' then ask (\<lambda>r. r\<lparr>cl_net := True\<rparr>) c
      else if name = ''nwi'' then ask (\<lambda>r. r\<lparr>cl_nwi := True\<rparr>) c
      else if name = ''prefs'' then ask (\<lambda>r. r\<lparr>cl_prefs := True\<rparr>) c
      else if name = ''proxy'' then ask (\<lambda>r. r\<lparr>cl_proxy := True\<rparr>) c
      else if name = ''renew'' then ask (\<lambda>r. r\<lparr>cl_renew := Some optarg\<rparr>) c
      else if name = ''set'' then ask (\<lambda>r. r\<lparr>cl_set := Some optarg\<rparr>) c
      else if name = ''snapshot'' then ask (\<lambda>r. r\<lparr>cl_snap := True\<rparr>) c
      else if name = ''log'' then ask (\<lambda>r. r\<lparr>cl_log := Some optarg\<rparr>) c
      else if name = ''allow-new-interfaces'' then ask (\<lambda>r. r\<lparr>cl_namer := True\<rparr>) c
      else if name = ''disable-until-needed'' then ask (\<lambda>r. r\<lparr>cl_until_needed := True\<rparr>) c
      else if name = ''user'' then apfst (\<lambda>f. f\<lparr>cl_user := utf8 optarg\<rparr>) c
      else if name = ''password'' then apfst (\<lambda>f. f\<lparr>cl_password := utf8 optarg\<rparr>) c
      else if name = ''secret'' then apfst (\<lambda>f. f\<lparr>cl_secret := utf8 optarg\<rparr>) c
      else if name = ''advisory'' then ask (\<lambda>r. r\<lparr>cl_advisory := Some optarg\<rparr>) c
      else c)"

fun parse_options :: "(string \<Rightarrow> string option) \<Rightarrow> cli_opt list \<Rightarrow> cli \<Rightarrow> cli option" where
  "parse_options utf8 [] c = Some c"
| "parse_options utf8 (Opt opt optarg # opts) c =
     (case short_option opt optarg c of None \<Rightarrow> None | Some c1 \<Rightarrow> parse_options utf8 opts c1)"
| "parse_options utf8 (Long name optarg # opts) c = parse_options utf8 opts (long_option utf8 name optarg c)"

section \<open>The request\<close>

datatype request =
    Usage
  | Rq_configuration "string list"
  | Rq_reach bool "string list"
  | Rq_wait string int
  | Rq_dns bool "string list"
  | Rq_nwi bool "string list"
  | Rq_snapshot "string list"
  | Rq_advisory string bool "string list"
  | Rq_error int
  | Rq_get string "string list"
  | Rq_proxy "string list"
  | Rq_set string "string list"
  | Rq_log string "string list"
  | Rq_namer string "string list"
  | Rq_until_needed "string list"
  | Rq_nc string "string list" bool
  | Rq_renew string
  | Rq_net "string list"
  | Rq_prefs "string list"
  | Rq_store

text \<open>
  The order of the questions in \<open>main\<close>. \<open>before\<close> is the word in front of the ones that are left, which the long form of
  \<open>--get\<close> takes as the name of a file; \<open>experimental\<close> is whether the environment has the variable for \<open>--net\<close>.
\<close>

definition take_request :: "bool \<Rightarrow> string \<Rightarrow> string list \<Rightarrow> cli_flags \<Rightarrow> cli_requests \<Rightarrow> request" where
  "take_request experimental before argv f c =
     (if xStore c > 1 then Usage
      else if cl_configuration c then Rq_configuration argv
      else if cl_reach c then (if argv = [] then Usage else Rq_reach (cl_watch f) argv)
      else if cl_wait c \<noteq> None then Rq_wait (the (cl_wait c)) (cl_timeout f)
      else if cl_dns c then Rq_dns (cl_watch f) argv
      else if cl_nwi c then Rq_nwi (cl_watch f) argv
      else if cl_snap c then (if \<not> cl_private f then Usage else Rq_snapshot argv)
      else if cl_advisory c \<noteq> None then Rq_advisory (the (cl_advisory c)) (cl_watch f) argv
      else if cl_error c \<noteq> None then Rq_error (atoi (the (cl_error c)))
      else if cl_get c \<noteq> None
      then (if argv = [] then (if findPref (the (cl_get c)) = None then Usage else Rq_get (the (cl_get c)) argv)
            else if length argv = 2 then Rq_get (the (cl_get c)) (before # argv)
            else Usage)
      else if cl_proxy c then Rq_proxy argv
      else if cl_set c \<noteq> None
      then (if findPref (the (cl_set c)) = None then Usage else Rq_set (the (cl_set c)) argv)
      else if cl_log c \<noteq> None
      then (if \<not> strcaseeq (the (cl_log c)) ''IPMonitor'' then Usage else Rq_log (the (cl_log c)) argv)
      else if cl_namer c then Rq_namer ''allow-new-interfaces'' argv
      else if cl_until_needed c then Rq_until_needed argv
      else if cl_nc c \<noteq> None
      then (if find_nc_cmd (the (cl_nc c)) = None then Usage else Rq_nc (the (cl_nc c)) argv (cl_watch f))
      else if cl_net c \<and> \<not> experimental then Usage
      else if cl_renew c \<noteq> None then Rq_renew (the (cl_renew c))
      else if cl_net c then Rq_net argv
      else if cl_prefs c then Rq_prefs argv
      else Rq_store)"

text \<open>The whole of it: \<open>words\<close> is the command line with the name of the program, \<open>optind\<close> what \<open>getopt_long\<close> left.\<close>

definition scutil_request ::
    "(string \<Rightarrow> string option) \<Rightarrow> bool \<Rightarrow> string list \<Rightarrow> cli_opt list \<Rightarrow> nat \<Rightarrow> request" where
  "scutil_request utf8 experimental words opts optind =
     (case parse_options utf8 opts cli_start of
        None \<Rightarrow> Usage
      | Some c \<Rightarrow> take_request experimental (words ! (optind - 1)) (drop optind words) (fst c) (snd c))"

section \<open>A table of the requests\<close>

text \<open>
  What \<open>main\<close> should do, read option by option: which options ask for the usage message, which make a request, and what
  each of these asks for, given the flags that stand anywhere on the command line.
\<close>

definition asks_usage :: "cli_opt \<Rightarrow> bool" where
  "asks_usage opt = (case opt of Opt c _ \<Rightarrow> c \<notin> set ''dDvprtwW'' | Long _ _ \<Rightarrow> False)"

definition request_names :: "string list" where
  "request_names =
     [''configuration'', ''dns'', ''error'', ''get'', ''nc'', ''net'', ''nwi'', ''prefs'', ''proxy'', ''renew'', ''set'',
      ''snapshot'', ''log'', ''allow-new-interfaces'', ''disable-until-needed'', ''advisory'']"

definition makes_request :: "cli_opt \<Rightarrow> bool" where
  "makes_request opt = (case opt of Opt c _ \<Rightarrow> c \<in> set ''rw'' | Long name _ \<Rightarrow> name \<in> set request_names)"

definition flag_given :: "char \<Rightarrow> cli_opt list \<Rightarrow> bool" where
  "flag_given c opts = list_ex (\<lambda>opt. case opt of Opt d _ \<Rightarrow> d = c | Long _ _ \<Rightarrow> False) opts"

text \<open>The argument of the last \<open>-t\<close>, or 15.\<close>

definition time_limit :: "cli_opt list \<Rightarrow> int" where
  "time_limit opts = foldl (\<lambda>t opt. case opt of Opt c a \<Rightarrow> if c = CHR ''t'' then atoi a else t | Long _ _ \<Rightarrow> t) 15 opts"

definition request_of_name :: "bool \<Rightarrow> string \<Rightarrow> string list \<Rightarrow> bool \<Rightarrow> bool \<Rightarrow> string \<Rightarrow> string \<Rightarrow> request" where
  "request_of_name experimental before argv watch private name a =
     (if name = ''configuration'' then Rq_configuration argv
      else if name = ''dns'' then Rq_dns watch argv
      else if name = ''error'' then Rq_error (atoi a)
      else if name = ''get''
      then (if argv = [] \<and> findPref a \<noteq> None then Rq_get a [] else if length argv = 2 then Rq_get a (before # argv) else Usage)
      else if name = ''nc'' then (if find_nc_cmd a = None then Usage else Rq_nc a argv watch)
      else if name = ''net'' then (if experimental then Rq_net argv else Usage)
      else if name = ''nwi'' then Rq_nwi watch argv
      else if name = ''prefs'' then Rq_prefs argv
      else if name = ''proxy'' then Rq_proxy argv
      else if name = ''renew'' then Rq_renew a
      else if name = ''set'' then (if findPref a = None then Usage else Rq_set a argv)
      else if name = ''snapshot'' then (if private then Rq_snapshot argv else Usage)
      else if name = ''log'' then (if strcaseeq a ''IPMonitor'' then Rq_log a argv else Usage)
      else if name = ''allow-new-interfaces'' then Rq_namer ''allow-new-interfaces'' argv
      else if name = ''disable-until-needed'' then Rq_until_needed argv
      else Rq_advisory a watch argv)"

definition request_of :: "bool \<Rightarrow> string \<Rightarrow> string list \<Rightarrow> bool \<Rightarrow> bool \<Rightarrow> int \<Rightarrow> cli_opt \<Rightarrow> request" where
  "request_of experimental before argv watch private timeout opt =
     (case opt of
        Opt c a \<Rightarrow> if c = CHR ''r'' then (if argv = [] then Usage else Rq_reach watch argv) else Rq_wait a timeout
      | Long name a \<Rightarrow> request_of_name experimental before argv watch private name a)"

section \<open>The options that make no request\<close>

definition option_step :: "(string \<Rightarrow> string option) \<Rightarrow> cli_opt \<Rightarrow> cli \<Rightarrow> cli" where
  "option_step utf8 opt c =
     (case opt of Opt d a \<Rightarrow> (case short_option d a c of None \<Rightarrow> c | Some c1 \<Rightarrow> c1) | Long name a \<Rightarrow> long_option utf8 name a c)"

lemma short_option_usage: "short_option d a c = None \<longleftrightarrow> d \<notin> set ''dDvprtwW''"
  by (simp add: short_option_def)

lemma asks_usage_simps [simp]:
  "asks_usage (Opt d a) \<longleftrightarrow> short_option d a c = None" "\<not> asks_usage (Long name a)"
  by (simp_all only: asks_usage_def short_option_usage cli_opt.case not_False_eq_True)

lemma parse_options_usage: "list_ex asks_usage opts \<Longrightarrow> parse_options utf8 opts c = None"
proof (induction opts arbitrary: c)
  case (Cons opt opts)
  then show ?case by (cases opt) (auto simp: asks_usage_simps(1) [where c = c] split: option.splits)
qed simp

lemma parse_options_fold:
  "\<not> list_ex asks_usage opts \<Longrightarrow> parse_options utf8 opts c = Some (fold (option_step utf8) opts c)"
proof (induction opts arbitrary: c)
  case (Cons opt opts)
  then show ?case by (cases opt) (auto simp: option_step_def asks_usage_simps(1) [where c = c])
qed simp

text \<open>Flags change no request, and what is asked for does not depend on the flags.\<close>

lemma long_option_other:
  "name \<notin> set request_names \<Longrightarrow>
   snd (long_option utf8 name a c) = snd c \<and> cl_watch (fst (long_option utf8 name a c)) = cl_watch (fst c) \<and>
   cl_private (fst (long_option utf8 name a c)) = cl_private (fst c) \<and>
   cl_timeout (fst (long_option utf8 name a c)) = cl_timeout (fst c)"
  by (simp add: long_option_def request_names_def)

lemma long_option_request:
  "name \<in> set request_names \<Longrightarrow>
   \<exists>g. long_option utf8 name a = ask g"
  unfolding request_names_def list.set insert_iff empty_iff
  by (elim disjE; simp add: long_option_def fun_eq_iff; blast)

lemma ask_simps [simp]: "fst (ask g c) = fst c" "xStore (snd (ask g c)) = Suc (xStore (snd c))"
  "snd (ask g (f, snd c)) = snd (ask g c)"
  by (simp_all add: ask_def)

lemma long_option_flags [simp]:
  "cl_watch (fst (long_option utf8 name a c)) = cl_watch (fst c)"
  "cl_private (fst (long_option utf8 name a c)) = cl_private (fst c)"
  "cl_timeout (fst (long_option utf8 name a c)) = cl_timeout (fst c)"
  by (cases "name \<in> set request_names"; use long_option_request [of name utf8 a] in \<open>auto simp: long_option_other\<close>)+

lemma step_flags:
  "cl_watch (fst (option_step utf8 opt c)) = (cl_watch (fst c) \<or> flag_given CHR ''W'' [opt])"
  "cl_private (fst (option_step utf8 opt c)) = (cl_private (fst c) \<or> flag_given CHR ''p'' [opt])"
  "cl_timeout (fst (option_step utf8 opt c)) =
     (case opt of Opt d a \<Rightarrow> if d = CHR ''t'' then atoi a else cl_timeout (fst c) | Long _ _ \<Rightarrow> cl_timeout (fst c))"
  by (cases opt; simp add: option_step_def flag_given_def short_option_def)+

lemma step_requests:
  "\<not> makes_request opt \<Longrightarrow> snd (option_step utf8 opt c) = snd c"
  "makes_request opt \<Longrightarrow> xStore (snd (option_step utf8 opt c)) = Suc (xStore (snd c))"
  "makes_request opt \<Longrightarrow> snd (option_step utf8 opt (f, snd c)) = snd (option_step utf8 opt c)"
proof -
  show "\<not> makes_request opt \<Longrightarrow> snd (option_step utf8 opt c) = snd c"
    by (cases opt) (auto simp: option_step_def makes_request_def short_option_def long_option_other)
  show "xStore (snd (option_step utf8 opt c)) = Suc (xStore (snd c))" if r: "makes_request opt"
  proof (cases opt)
    case (Long name a)
    then obtain g where "long_option utf8 name a = ask g"
      using long_option_request [of name utf8 a] r by (auto simp: makes_request_def)
    then show ?thesis using Long by (simp add: option_step_def)
  qed (use r in \<open>auto simp: option_step_def makes_request_def short_option_def\<close>)
  show "snd (option_step utf8 opt (f, snd c)) = snd (option_step utf8 opt c)" if r: "makes_request opt"
  proof (cases opt)
    case (Long name a)
    then obtain g where "long_option utf8 name a = ask g"
      using long_option_request [of name utf8 a] r by (auto simp: makes_request_def)
    then show ?thesis using Long by (simp add: option_step_def)
  qed (use r in \<open>auto simp: option_step_def makes_request_def short_option_def\<close>)
qed

lemma fold_flags:
  "cl_watch (fst (fold (option_step utf8) opts c)) = (cl_watch (fst c) \<or> flag_given CHR ''W'' opts)"
  "cl_private (fst (fold (option_step utf8) opts c)) = (cl_private (fst c) \<or> flag_given CHR ''p'' opts)"
  by (induction opts arbitrary: c) (auto simp: step_flags flag_given_def)

lemma fold_timeout:
  "cl_timeout (fst (fold (option_step utf8) opts c)) =
   foldl (\<lambda>t opt. case opt of Opt c a \<Rightarrow> if c = CHR ''t'' then atoi a else t | Long _ _ \<Rightarrow> t) (cl_timeout (fst c)) opts"
  by (induction opts arbitrary: c) (simp_all add: step_flags)

lemma fold_count: "xStore (snd (fold (option_step utf8) opts c)) = xStore (snd c) + length (filter makes_request opts)"
  by (induction opts arbitrary: c) (auto simp: step_requests)

lemma fold_same_requests: "snd (fold (option_step utf8) opts (f, snd c)) = snd (fold (option_step utf8) opts c)"
proof (induction opts arbitrary: f c)
  case (Cons opt opts)
  obtain f' where f': "option_step utf8 opt (f, snd c) = (f', snd (option_step utf8 opt c))"
    by (cases "makes_request opt") (metis prod.collapse step_requests(3), metis prod.collapse snd_conv step_requests(1))
  show ?case using Cons.IH [of f' "option_step utf8 opt c"] f' by simp
qed simp

lemma fold_requests: "snd (fold (option_step utf8) opts c) = snd (fold (option_step utf8) (filter makes_request opts) c)"
proof (induction opts arbitrary: c)
  case (Cons opt opts)
  show ?case
  proof (cases "makes_request opt")
    case False
    have "option_step utf8 opt c = (fst (option_step utf8 opt c), snd c)"
      by (simp add: prod_eq_iff step_requests(1) [OF False])
    then show ?thesis
      using Cons [of "option_step utf8 opt c"] False
        fold_same_requests [of utf8 "filter makes_request opts" "fst (option_step utf8 opt c)" c] by simp
  qed (simp add: Cons)
qed simp

section \<open>One request at a time\<close>

lemma request_of_option:
  assumes "makes_request opt"
  shows "take_request ex before argv f (snd (option_step utf8 opt cli_start)) =
    request_of ex before argv (cl_watch f) (cl_private f) (cl_timeout f) opt"
proof (cases opt)
  case (Opt d a)
  with assms show ?thesis
    by (auto simp: makes_request_def option_step_def short_option_def ask_def take_request_def request_of_def cli_start_def)
next
  case (Long name a)
  with assms have "name \<in> set request_names" by (simp add: makes_request_def)
  then have "take_request ex before argv f (snd (long_option utf8 name a cli_start)) =
      request_of_name ex before argv (cl_watch f) (cl_private f) name a"
    unfolding request_names_def list.set insert_iff empty_iff
    by (elim disjE; simp add: long_option_def ask_def take_request_def request_of_name_def cli_start_def)
  with Long show ?thesis by (simp add: option_step_def request_of_def)
qed

text \<open>
  C17. The request that \<open>scutil\<close> answers is the one that a table of its options gives, wherever the options stand: an
  option that is not known (or the one for help) asks for the usage message, and so do two requests on one command
  line; one request is the one of request_of, with the flag to watch, the private interface and the last time limit
  from anywhere on the line; with no request the dynamic store is opened. The order of the questions in main, which asks
  for each request after another, has no influence.
\<close>

theorem scutil_request_table:
  "scutil_request utf8 experimental words opts optind =
   (if list_ex asks_usage opts then Usage
    else case filter makes_request opts of
           [] \<Rightarrow> Rq_store
         | [opt] \<Rightarrow> request_of experimental (words ! (optind - 1)) (drop optind words) (flag_given CHR ''W'' opts)
                      (flag_given CHR ''p'' opts) (time_limit opts) opt
         | _ \<Rightarrow> Usage)"
proof (cases "list_ex asks_usage opts")
  case False
  define c where "c = fold (option_step utf8) opts cli_start"
  have flags: "cl_watch (fst c) = flag_given CHR ''W'' opts" "cl_private (fst c) = flag_given CHR ''p'' opts"
      "cl_timeout (fst c) = time_limit opts"
    by (simp_all add: c_def fold_flags fold_timeout time_limit_def cli_start_def)
  have count: "xStore (snd c) = length (filter makes_request opts)" by (simp add: c_def fold_count cli_start_def)
  have requests: "snd c = snd (fold (option_step utf8) (filter makes_request opts) cli_start)"
    unfolding c_def by (rule fold_requests)
  have start: "scutil_request utf8 experimental words opts optind =
      take_request experimental (words ! (optind - 1)) (drop optind words) (fst c) (snd c)"
    using False by (simp add: scutil_request_def parse_options_fold c_def)
  consider "filter makes_request opts = []" | opt where "filter makes_request opts = [opt]"
    | o1 o2 os where "filter makes_request opts = o1 # o2 # os"
    by (metis list.exhaust)
  then show ?thesis
  proof cases
    case 1
    with False show ?thesis unfolding start requests by (simp add: take_request_def cli_start_def)
  next
    case (2 opt)
    then have "makes_request opt" by (metis filter_eq_ConsD)
    with 2 False show ?thesis unfolding start requests by (simp add: request_of_option flags)
  next
    case 3
    with False count show ?thesis unfolding start by (simp add: take_request_def)
  qed
qed (simp add: scutil_request_def parse_options_usage)

section \<open>Requests that miss their aim\<close>

text \<open>
  The long form of \<open>--get\<close> reads its file from the word in front of the path. With the argument joined to the option that word
  is the option itself, and with a flag between them it is the flag.
\<close>

lemma get_joined_argument:
  "scutil_request Some False [''scutil'', ''--get=/p'', ''/path'', ''key''] [Long ''get'' ''/p''] 2 =
   Rq_get ''/p'' [''--get=/p'', ''/path'', ''key'']"
  by (simp add: scutil_request_def long_option_def ask_def take_request_def cli_start_def)

lemma get_flag_between:
  "scutil_request Some False [''scutil'', ''--get'', ''/p'', ''-v'', ''/path'', ''key''] [Long ''get'' ''/p'', Opt CHR ''v'' ''''] 4 =
   Rq_get ''/p'' [''-v'', ''/path'', ''key'']"
  by (simp add: scutil_request_def long_option_def short_option_def ask_def take_request_def cli_start_def)

text \<open>\<open>main\<close> accepts the name of the log in any case, the function that answers only in one: it leaves without a word.\<close>

lemma log_other_case:
  "scutil_request Some False [''scutil'', ''--log'', ''ipmonitor'', ''on''] [Long ''log'' ''ipmonitor''] 3 =
     Rq_log ''ipmonitor'' [''on'']"
  "do_log pf ios ''ipmonitor'' [''on''] w = ((0, []), w)"
proof -
  have "strcaseeq ''ipmonitor'' ''IPMonitor''" by code_simp
  then show "scutil_request Some False [''scutil'', ''--log'', ''ipmonitor'', ''on''] [Long ''log'' ''ipmonitor''] 3 =
      Rq_log ''ipmonitor'' [''on'']"
    by (simp add: scutil_request_def long_option_def ask_def take_request_def cli_start_def)
qed (simp add: do_log_def)

end
