(* ===== verification/Spec2Isabelle.thy ===== *)
theory Spec2Isabelle
  imports NwiProps NwiGrow NwiGenerations DnsProps PrefsProps PrefsSched NetInterfaceProps NetServiceBase BondConverge
    NetLayerProps NetConfigProps NetStorageProps NetServiceLife ConfigProps ScutilDictProps ScutilScript ScutilPrefsProps PluginPrefs ProtoCommands
    NetMatchProps NetToolRun NetToolGaps NetShowProps NcProps TestsProps StoreHelpers ScSelect DnsFile ScutilMain
begin

text \<open>
  Verification of the core of configd_extra.

  The repository completes Apple's SystemConfiguration framework: a library of extra framework
  code (\<open>SystemConfiguration/\<close>), the network information state and the DNS configuration
  buffer that the configuration daemon shares with its clients
  (\<open>libsystem_configuration/\<close>), and the tools \<open>scutil\<close>, \<open>scselect\<close> and
  \<open>configd_dnsinfo\<close>. The development models the library part and the three tools. Everything is a shallow
  embedding: a C structure is a record, a pointer that may be NULL an option, an integer whose
  overflow matters a word, and code that can read or write memory it does not own returns
  an \<open>outcome\<close> (Prelude) or a \<open>dns_run\<close> (DnsInfo) whose value \<open>UB\<close> stands for that.

  Parts, theories and sources.

  Network information state (\<open>network_state_information_priv.c\<close> and \<open>.h\<close>). NwiState has the
  block with its two families, alias links and index list, and its operations; NwiDiff the
  difference of two states and the update of the generations. NwiInv defines well-formedness
  (\<open>nwi_inv\<close>) and proves that operations keep it; NwiProps holds what adding and finalizing do,
  NwiGrow growth and the stale alias after clearing, NwiGenerations the difference and the
  generations.

  DNS configuration (\<open>dnsinfo_internal.h\<close>). DnsInfo has the expansion of a received buffer;
  its loop over the attributes takes fuel, and DnsProps shows that one unit for each eight announced
  bytes is enough for a well-formed chain, and that no fuel is enough for one with a zero length. The
  layout of the C structures is a parameter (\<open>dns_layout\<close>).

  Preferences (\<open>SCP.c\<close>, \<open>SCPOpen.c\<close>, \<open>SCHelper_client.c\<close>, \<open>SCValidation.h\<close>). CF has
  property lists, type checks and the interface of the preference store (\<open>path_ops\<close>, with its
  laws in the locale \<open>path_store\<close>; nested dictionaries satisfy them). SCHelper has the
  helper client with its retry loop over a list of rounds, one for each attempt. Prefs has the
  session, its creation and its access to the file or the helper; PrefsSession the store session, the
  scheduling and the notifications. PrefsProps and PrefsSched hold their properties; scheduling is
  a step relation (\<open>sched_step\<close>) with its invariant over all reachable states.

  Interfaces and services (\<open>SCNetworkInterface.c\<close>, \<open>SCNetworkService.c\<close>). NetInterface has
  the interface object, copies, names, equality, hash and order, NetInterfaceProps what holds of
  them and where they are inconsistent. NetLayer has the table of interface types and the layering, NetLayerProps which
  types can be put on which; NetConfig the configuration of one layer, kept for the service or for every set that has
  the service, and of all layers, NetConfigProps that it is read back and when the walk stays inside its array; NetStorage the stored
  entry of an interface, renaming, the cache and keychain names, NetStorageProps that an entry is read back and what a new
  unit does. IoRegistry reads the device registry (\<open>io_registry\<close>, a parameter), NetDiscover makes an interface of an
  entry, for network and for serial devices, NetMatch lists the interfaces of the system and finds or makes the interface
  of an entity or of a BSD name. NetMatchProps shows the types that discovery gives, that the interface of a service is
  linked to it with all its parts, that without the system only the entity and the preferences count, and that an entity
  or a stored entry of a network device makes the interface again. NetServiceBase has services and the enabled ones, NetService their names, identifiers,
  creation and migration; NetServiceProps shows what a new identifier does to a set (locale \<open>set_links\<close>), NetServiceLife that
  creation and migration are complete or leave nothing (locales \<open>service_laws\<close>, \<open>migration_laws\<close>).

  Bonds (\<open>BondConfiguration.c\<close>, with the one function of \<open>BridgeConfiguration.c\<close>). Bond has
  the configured bonds and their setters over the preference store, BondKernel the status requests and
  the ioctl calls, BondUpdate the two-pass update of the kernel. BondProps shows the round trip
  of the settings, creation under the first free name (with one round for each name that
  is taken), the guards and the hazards; BondConverge shows that the update reaches the
  configured state on every kernel that satisfies the locale \<open>bond_kernel\<close>.

  Stored configuration (\<open>SCNetworkConfigurationInternal.c\<close>). ConfigValues has the values with
  their enabled state, the templates, the keychain items and the configured
  interfaces; ConfigProps shows that a value and its enabled state do not disturb each
  other and that a removed password is gone.

  Command line tool (\<open>scutil.c\<close>, \<open>commands.c\<close>, \<open>dictionary.c\<close>, \<open>cache.c\<close>,
  \<open>session.c\<close>, \<open>notifications.c\<close>, \<open>prefs.c\<close>). ScutilParse splits a line into arguments, over a
  buffer with what lies behind the line; ScutilDict has the value dictionary, ScutilStore and
  ScutilNotify the commands of the dynamic store, ScutilCmd the snapshots of it, the command table and the command loop,
  which takes fuel, one unit for each line and for the end of the input, of a file that is read as of the script. ScutilProps
  shows, from the laws of a store (locale \<open>ds_laws\<close>, which promise a string for ASCII only), that no handler uses an
  argument that is not there or a string that could not be made; ScutilScript that commands keep the tool in a valid state
  whatever files of quoted lines they read, and that a script of such lines runs to its end when its files are nested to
  a known depth: fuel for the lines of the script and, for each level, of the longest file. ScutilPrefs and ScutilNames have the preference commands, ScutilPrefsProps what
  they keep of a path (locale \<open>prefs_store\<close>).

  Network options (first part of \<open>net.c\<close>, \<open>net_protocol.c\<close>). NetOptions has the tables of options and the loop that
  applies the arguments of a command to a configuration, ProtoOptions and ProxyOptions the options of the five
  protocols with their handlers. ProtoProps shows what any table keeps (locale \<open>option_table\<close>), ProtoTypes and ProxyProps
  that the protocols keep the types of their entries, ProtoCommands what setting a proxy or an IPv4 method does and
  which inputs are not handled.

  Network commands (\<open>net.c\<close>, \<open>net_interface.c\<close>, \<open>net_service.c\<close>, \<open>net_protocol.c\<close>, \<open>net_set.c\<close>).
  IfOptions has the options of each type of interface and \<open>set interface\<close>, IfProps that accepted MTU and media are
  valid. NetTool has the state of these commands, with the objects that are selected and the lists that were shown
  last, and the search of an argument among them; NetCommands and NetProtocols the commands on sets, services,
  protocols and interfaces, NetMain the table that calls them, opening, saving, closing, cleaning, upgrading and
  migrating. NetFrame holds what each step leaves alone. NetToolProps shows that a search never picks one of several
  matches, that a number selects from the list that was loaded last and where a service is moved to; NetToolInv and NetToolRun that
  in every state a run of commands reaches, something is selected or listed only while a configuration is
  open; NetToolGaps where the commands do less or more than they should. NetShow has the descriptions of protocols
  and interfaces, NetShowProps that what \<open>set protocol\<close> made can be described.

  The program and its other requests (\<open>main\<close> in \<open>scutil.c\<close>, \<open>nc.c\<close>, \<open>tests.c\<close>). ScutilMain has the options, counted as
  \<open>main\<close> counts them, and the request that they make, with a table of the requests that it agrees with; the
  command line is split by \<open>getopt_long\<close>, a parameter. Nc has the commands on connections over what the framework keeps
  of them (\<open>nc_api\<close>), NcProps that a command changes the one connection its argument names and nothing else, and that every
  command leaves with an exit code when the services can be presented, but for the two that watch, which stay in the run loop. ScutilTests has reachability with its options, the network
  information, DNS, proxies, leases, waiting and advisories; a run loop is the list of its events. TestsProps shows that
  waiting ends, that all families of an interface are shown, on the state of NwiInv, and that a reachability
  request is for the addresses that were given.

  Around the store and other programs. StoreHelpers (\<open>SCLocation.c\<close>, \<open>SCDConsoleUser.c\<close>, \<open>SCNetwork.c\<close>,
  \<open>SCDPrivate.c\<close>) has the console user, which is read back from a store that keeps what it accepts (locale
  \<open>keeping_store\<close>, with the memory store of ScutilScript as its instance). ScSelect (\<open>scselect.c\<close>) has the program
  that selects a set and shows that it only selects one that exists. DnsFile (\<open>configd/main.c\<close>) has the daemon that writes
  \<open>resolv.conf\<close> and a reader of that file, which finds the resolver that was written last.

  Plugin preferences (\<open>Plugins/common\<close>). PluginPrefs has the two preference files over a session (locale
  \<open>pref_session\<close>), with managed values before own values.

  Parameters. Code that is not in the repository answers through arguments: the preference
  store, the property list parser and the file system (\<open>pref_env\<close>), Mach and MIG
  calls (\<open>helper_env\<close>, \<open>open_round\<close>), the dynamic store and run loops (\<open>sched_ops\<close>),
  interface lookup, the kernel's answers and its state (\<open>bond_env\<close>, \<open>bond_read\<close>,
  \<open>bond_kern\<close>). What is assumed of them is a locale with an interpretation on a concrete instance.

  Not modelled. Of \<open>SCNetworkInterface.c\<close> the descriptions, the locks and the variants for iOS; memory that cannot be
  allocated, throughout. Left out because they only
  write or only look up: logging and the dump headers, what \<open>show\<close> prints apart from the descriptions, the snapshot of the
  network configuration and \<open>scutil --configuration\<close>, the backup of preferences, the line editor and the texts of the help, and
  the symbol loader \<open>dy_framework.c\<close>.
\<close>

end
